(* ===== verification/Gateway_Prelude.thy ===== *)
theory Gateway_Prelude
  imports Main "HOL-Library.AList" "HOL-Library.Multiset"
begin

text \<open>
  Shared vocabulary of the development: results that carry a thrown error, JavaScript objects used
  as dictionaries, safe integers, and the two pieces of \<^verbatim>\<open>JSON.stringify\<close> that the
  authority code uses to build keys. The generic lemmas on association lists and on sums over them
  are what the accounting proofs of the component theories rest on.
\<close>

named_theorems authority_defs \<open>definitions of the authority transactions\<close>
named_theorems kernel_defs \<open>definitions of the kernel quota decisions\<close>
named_theorems paid_defs \<open>definitions of the paid ledger decisions\<close>

section \<open>Results\<close>

text \<open>
  A function of the source that may throw returns \<open>'e + 'a\<close>: \<open>Inl\<close> is the thrown error. \<open>rbind\<close>
  runs the rest of a body only when the first part did not throw, \<open>ensure\<close> is a guard that throws.
\<close>

fun rbind :: "'e + 'a \<Rightarrow> ('a \<Rightarrow> 'e + 'b) \<Rightarrow> 'e + 'b" where
  "rbind (Inl e) f = Inl e"
| "rbind (Inr x) f = f x"

definition ensure :: "bool \<Rightarrow> 'e \<Rightarrow> 'e + unit" where
  "ensure b e = (if b then Inr () else Inl e)"

definition require :: "'a option \<Rightarrow> 'e \<Rightarrow> 'e + 'a" where
  "require x e = (case x of None \<Rightarrow> Inl e | Some v \<Rightarrow> Inr v)"

lemma rbind_cong [fundef_cong]:
  "r = r' \<Longrightarrow> (\<And>x. r' = Inr x \<Longrightarrow> f x = g x) \<Longrightarrow> rbind r f = rbind r' g"
  by (cases r') simp_all

lemma rbind_Inr_iff: "rbind r f = Inr y \<longleftrightarrow> (\<exists>x. r = Inr x \<and> f x = Inr y)"
  by (cases r) simp_all

lemma rbind_Inl_iff: "rbind r f = Inl e \<longleftrightarrow> r = Inl e \<or> (\<exists>x. r = Inr x \<and> f x = Inl e)"
  by (cases r) simp_all

lemma ensure_Inr_iff [simp]: "ensure b e = Inr u \<longleftrightarrow> b"
  by (simp add: ensure_def)

lemma ensure_Inl_iff [simp]: "ensure b e = Inl e' \<longleftrightarrow> \<not> b \<and> e' = e"
  by (auto simp: ensure_def)

lemma require_Inr_iff [simp]: "require x e = Inr v \<longleftrightarrow> x = Some v"
  by (simp add: require_def split: option.splits)

lemma require_Inl_iff [simp]: "require x e = Inl e' \<longleftrightarrow> x = None \<and> e' = e"
  by (auto simp: require_def split: option.splits)

lemmas result_iffs = rbind_Inr_iff rbind_Inl_iff

section \<open>Numbers\<close>

text \<open>
  \<^verbatim>\<open>Number.MAX_SAFE_INTEGER\<close> and \<^verbatim>\<open>Number.isSafeInteger\<close> on the integers the
  contracts carry.
\<close>

definition max_safe_integer :: int where
  "max_safe_integer = 9007199254740991"

definition is_safe_integer :: "int \<Rightarrow> bool" where
  "is_safe_integer n \<longleftrightarrow> - max_safe_integer \<le> n \<and> n \<le> max_safe_integer"

section \<open>Objects used as dictionaries\<close>

text \<open>
  A \<^verbatim>\<open>Record<string, T>\<close> is the list of its own properties in insertion order. Reading is
  guarded by \<^verbatim>\<open>Object.hasOwn\<close> in the source, so it is \<open>map_of\<close>. Assignment
  \<^verbatim>\<open>o[k] = v\<close> replaces in place or appends, except that the key
  \<^verbatim>\<open>"__proto__"\<close> sets the prototype and creates no own property. \<open>put\<close> is mutation
  through a reference to an existing property value, which never goes through that setter.
\<close>

type_synonym 'a dict = "(string \<times> 'a) list"

definition proto_key :: string where
  "proto_key = ''__proto__''"

definition put :: "string \<Rightarrow> 'a \<Rightarrow> 'a dict \<Rightarrow> 'a dict" where
  "put k v d = AList.update k v d"

definition assign :: "string \<Rightarrow> 'a \<Rightarrow> 'a dict \<Rightarrow> 'a dict" where
  "assign k v d = (if k = proto_key then d else put k v d)"

definition vals :: "'a dict \<Rightarrow> 'a list" where
  "vals d = map snd d"

definition wf_dict :: "'a dict \<Rightarrow> bool" where
  "wf_dict d \<longleftrightarrow> distinct (map fst d)"

lemma map_of_put [simp]: "map_of (put k v d) = (map_of d)(k \<mapsto> v)"
  by (simp add: put_def update_conv')

lemma wf_dict_put [simp, intro]: "wf_dict d \<Longrightarrow> wf_dict (put k v d)"
  by (simp add: wf_dict_def put_def distinct_update)

lemma wf_dict_Nil [simp]: "wf_dict []"
  by (simp add: wf_dict_def)

lemma vals_Nil [simp]: "vals [] = []"
  by (simp add: vals_def)

lemma put_absent: "map_of d k = None \<Longrightarrow> put k v d = d @ [(k, v)]"
  by (induction d) (auto simp: put_def split: if_splits)

lemma vals_put_absent: "map_of d k = None \<Longrightarrow> vals (put k v d) = vals d @ [v]"
  by (simp add: vals_def put_absent)

lemma mset_vals_put_present:
  assumes "map_of d k = Some u"
  shows "add_mset u (mset (vals (put k v d))) = add_mset v (mset (vals d))"
  using assms by (induction d) (auto simp: put_def vals_def split: if_splits)

lemma map_of_vals: "map_of d k = Some v \<Longrightarrow> v \<in> set (vals d)"
  by (force simp: vals_def dest: map_of_SomeD)

lemma vals_map_of: "wf_dict d \<Longrightarrow> v \<in> set (vals d) \<Longrightarrow> \<exists>k. map_of d k = Some v"
  by (auto simp: vals_def wf_dict_def intro: map_of_is_SomeI)

lemma in_vals_iff: "wf_dict d \<Longrightarrow> v \<in> set (vals d) \<longleftrightarrow> (\<exists>k. map_of d k = Some v)"
  using map_of_vals vals_map_of by metis

subsection \<open>Totals over the values of a dictionary\<close>

definition dtotal :: "('a \<Rightarrow> int) \<Rightarrow> 'a dict \<Rightarrow> int" where
  "dtotal f d = sum_list (map f (vals d))"

definition tally :: "('a \<Rightarrow> bool) \<Rightarrow> 'a dict \<Rightarrow> int" where
  "tally P d = dtotal (\<lambda>x. of_bool (P x)) d"

lemma dtotal_Nil [simp]: "dtotal f [] = 0"
  by (simp add: dtotal_def)

lemma dtotal_put_absent: "map_of d k = None \<Longrightarrow> dtotal f (put k v d) = dtotal f d + f v"
  by (simp add: dtotal_def vals_put_absent)

lemma dtotal_put_present:
  assumes "map_of d k = Some u"
  shows "dtotal f (put k v d) = dtotal f d - f u + f v"
  using assms by (induction d) (auto simp: put_def vals_def dtotal_def split: if_splits)

lemma dtotal_cong: "(\<And>v. v \<in> set (vals d) \<Longrightarrow> f v = g v) \<Longrightarrow> dtotal f d = dtotal g d"
  by (auto simp: dtotal_def intro!: arg_cong [where f = sum_list])

lemma dtotal_nonneg: "(\<And>v. v \<in> set (vals d) \<Longrightarrow> 0 \<le> f v) \<Longrightarrow> 0 \<le> dtotal f d"
  by (auto simp: dtotal_def intro!: sum_list_nonneg)

lemma dtotal_mono:
  "(\<And>v. v \<in> set (vals d) \<Longrightarrow> f v \<le> g v) \<Longrightarrow> dtotal f d \<le> dtotal g d"
  unfolding dtotal_def by (rule sum_list_mono) auto

lemma tally_nonneg [simp]: "0 \<le> tally P d"
  by (simp add: tally_def dtotal_nonneg)

lemma tally_put_absent: "map_of d k = None \<Longrightarrow> tally P (put k v d) = tally P d + of_bool (P v)"
  by (simp add: tally_def dtotal_put_absent)

lemma tally_put_present:
  "map_of d k = Some u \<Longrightarrow> tally P (put k v d) = tally P d - of_bool (P u) + of_bool (P v)"
  by (simp add: tally_def dtotal_put_present)

lemma tally_filter: "tally P d = int (length (filter P (vals d)))"
  by (induction d) (auto simp: tally_def dtotal_def vals_def)

lemma tally_mono: "(\<And>v. v \<in> set (vals d) \<Longrightarrow> P v \<Longrightarrow> Q v) \<Longrightarrow> tally P d \<le> tally Q d"
  unfolding tally_def by (rule dtotal_mono) auto

lemmas dtotal_puts = dtotal_put_absent dtotal_put_present tally_put_absent tally_put_present

end
