(* ===== verification/Json_Text.thy ===== *)
theory Json_Text
  imports Gateway_Prelude
begin

text \<open>
  The text that \<^verbatim>\<open>JSON.stringify\<close> produces for a string, for an integer and for the
  array \<^verbatim>\<open>[text, number]\<close>. The authority uses the last one as the key of a quota
  window, so what matters is that different pairs give different texts.
\<close>

section \<open>Decimal numbers\<close>

definition digit_char :: "nat \<Rightarrow> char" where
  "digit_char n = char_of (48 + n)"

fun show_nat :: "nat \<Rightarrow> string" where
  "show_nat n = (if n < 10 then [digit_char n] else show_nat (n div 10) @ [digit_char (n mod 10)])"

declare show_nat.simps [simp del]

definition show_int :: "int \<Rightarrow> string" where
  "show_int i = (if i < 0 then CHR ''-'' # show_nat (nat (- i)) else show_nat (nat i))"

definition read_digits :: "string \<Rightarrow> nat" where
  "read_digits s = foldl (\<lambda>a c. 10 * a + (of_char c - 48)) 0 s"

lemma of_char_digit [simp]: "n < 10 \<Longrightarrow> (of_char (digit_char n) :: nat) = 48 + n"
  by (simp add: digit_char_def)

lemma read_digits_snoc [simp]: "read_digits (s @ [c]) = 10 * read_digits s + (of_char c - 48)"
  by (simp add: read_digits_def)

lemma read_show_nat: "read_digits (show_nat n) = n"
proof (induction n rule: show_nat.induct)
  case (1 n)
  show ?case
  proof (cases "n < 10")
    case True
    then show ?thesis by (subst show_nat.simps) (simp add: read_digits_def)
  next
    case False
    with "1" show ?thesis by (subst show_nat.simps) simp
  qed
qed

lemma show_nat_inj: "show_nat m = show_nat n \<longleftrightarrow> m = n"
  by (metis read_show_nat)

lemma show_nat_chars: "c \<in> set (show_nat n) \<Longrightarrow> 48 \<le> (of_char c :: nat) \<and> (of_char c :: nat) < 58"
proof (induction n rule: show_nat.induct)
  case (1 n)
  show ?case
  proof (cases "n < 10")
    case True
    with "1.prems" show ?thesis by (simp add: show_nat.simps [of n])
  next
    case False
    with "1" show ?thesis by (auto simp: show_nat.simps [of n])
  qed
qed

lemma show_nat_nonempty [simp]: "show_nat n \<noteq> []"
  by (subst show_nat.simps) simp

lemma minus_notin_show_nat: "CHR ''-'' \<notin> set (show_nat n)"
proof
  assume "CHR ''-'' \<in> set (show_nat n)"
  from show_nat_chars [OF this] show False by simp
qed

lemma show_nat_not_minus: "show_nat m \<noteq> CHR ''-'' # s"
  using minus_notin_show_nat [of m] by (metis list.set_intros(1))

lemma show_int_inj: "show_int i = show_int j \<longleftrightarrow> i = j"
  using show_nat_not_minus by (auto simp: show_int_def show_nat_inj dest: sym)

section \<open>Quoted strings\<close>

text \<open>
  Two-character escapes for the quotation mark, the backslash, backspace, tab, newline, form feed
  and carriage return; \<open>u00XX\<close> for the other control characters; every other character stands for
  itself.
\<close>

definition hex_digit :: "nat \<Rightarrow> char" where
  "hex_digit n = ''0123456789abcdef'' ! n"

definition short_escapes :: "(nat \<times> nat) list" where
  "short_escapes = [(34, 34), (92, 92), (8, 98), (9, 116), (10, 110), (12, 102), (13, 114)]"

definition json_escape :: "char \<Rightarrow> string" where
  "json_escape c =
     (let n = of_char c :: nat in
      case map_of short_escapes n of
        Some e \<Rightarrow> [CHR 0x5C, char_of e]
      | None \<Rightarrow> if n < 32 then [CHR 0x5C, CHR ''u'', CHR ''0'', CHR ''0'', hex_digit (n div 16), hex_digit (n mod 16)]
                else [c])"

definition json_string :: "string \<Rightarrow> string" where
  "json_string s = CHR 0x22 # concat (map json_escape s) @ [CHR 0x22]"

text \<open>The same function on integers, which evaluates faster.\<close>

lemma json_escape_code [code]:
  "json_escape c =
     (let n = of_char c :: int in
      if n = 34 then [CHR 0x5C, CHR 0x22] else if n = 92 then [CHR 0x5C, CHR 0x5C]
      else if n = 8 then [CHR 0x5C, CHR ''b''] else if n = 9 then [CHR 0x5C, CHR ''t'']
      else if n = 10 then [CHR 0x5C, CHR ''n''] else if n = 12 then [CHR 0x5C, CHR ''f'']
      else if n = 13 then [CHR 0x5C, CHR ''r'']
      else if n < 32 then [CHR 0x5C, CHR ''u'', CHR ''0'', CHR ''0'', hex_digit (of_char c div 16), hex_digit (of_char c mod 16)]
      else [c])"
proof -
  have "(of_char c :: int) = int (of_char c)" by (simp only: of_nat_of_char)
  then show ?thesis
    unfolding json_escape_def Let_def
    by (simp only:) (simp add: short_escapes_def char_of_def bit_0 split: option.split)
qed

lemma hex_digit_inj: "m < 16 \<Longrightarrow> n < 16 \<Longrightarrow> hex_digit m = hex_digit n \<longleftrightarrow> m = n"
  unfolding hex_digit_def by (subst nth_eq_iff_index_eq) (simp_all)

lemma of_char_eq_nat: "(of_char c :: nat) = of_char d \<longleftrightarrow> c = d"
  by simp

lemma short_escape_cases:
  "map_of short_escapes n = Some e \<Longrightarrow>
     (n, e) \<in> {(34, 34), (92, 92), (8, 98), (9, 116), (10, 110), (12, 102), (13, 114)}"
  by (auto simp: short_escapes_def split: if_splits)

lemma short_escape_None:
  "map_of short_escapes n = None \<longleftrightarrow> n \<notin> {34, 92, 8, 9, 10, 12, 13}"
  by (auto simp: short_escapes_def split: if_splits)

lemma json_escape_not_quote: "json_escape c @ x \<noteq> CHR 0x22 # y"
  by (auto simp: json_escape_def Let_def short_escape_None split: option.splits if_splits)

lemma short_escape_inj:
  "map_of short_escapes m = Some e \<Longrightarrow> map_of short_escapes n = Some e \<Longrightarrow> m = n"
  by (drule short_escape_cases, drule short_escape_cases) auto

lemma short_escape_char_inj:
  assumes "map_of short_escapes m = Some e" and "map_of short_escapes n = Some f"
    and "(char_of e :: char) = char_of f"
  shows "m = n"
proof -
  from assms(1,2) have "e < 256" "f < 256"
    by (auto dest!: short_escape_cases)
  with assms(3) have "e = f"
    by (metis of_char_of mod_less)
  with assms(1,2) show ?thesis by (blast intro: short_escape_inj)
qed

lemma json_escape_short:
  "map_of short_escapes (of_char c) = Some e \<Longrightarrow> json_escape c = [CHR 0x5C, char_of e]"
  by (simp add: json_escape_def)

lemma json_escape_hex:
  "map_of short_escapes (of_char c) = None \<Longrightarrow> (of_char c :: nat) < 32 \<Longrightarrow>
     json_escape c = [CHR 0x5C, CHR ''u'', CHR ''0'', CHR ''0'',
       hex_digit (of_char c div 16), hex_digit (of_char c mod 16)]"
  by (simp add: json_escape_def Let_def)

lemma json_escape_plain:
  "map_of short_escapes (of_char c) = None \<Longrightarrow> \<not> (of_char c :: nat) < 32 \<Longrightarrow>
     json_escape c = [c] \<and> c \<noteq> CHR 0x5C"
  by (rule conjI) (simp add: json_escape_def Let_def, auto simp: short_escape_None)

lemma short_escape_not_u: "map_of short_escapes n = Some e \<Longrightarrow> char_of e \<noteq> CHR ''u''"
  by (drule short_escape_cases) (auto simp: char_of_def)

lemma json_escape_cases:
  obtains (Short) e where "map_of short_escapes (of_char c) = Some e" "json_escape c = [CHR 0x5C, char_of e]"
  | (Hex) "(of_char c :: nat) < 32" "json_escape c = [CHR 0x5C, CHR ''u'', CHR ''0'', CHR ''0'',
       hex_digit (of_char c div 16), hex_digit (of_char c mod 16)]"
  | (Plain) "json_escape c = [c]" "c \<noteq> CHR 0x5C"
  by (cases "map_of short_escapes (of_char c)"; cases "(of_char c :: nat) < 32")
    (auto dest: json_escape_short json_escape_hex json_escape_plain)

lemma hex_pair_inj:
  assumes "(of_char c :: nat) < 32" "(of_char d :: nat) < 32"
    and "hex_digit (of_char c div 16) = hex_digit (of_char d div 16)"
    and "hex_digit (of_char c mod 16) = hex_digit (of_char d mod 16)"
  shows "c = d"
proof -
  from assms have "(of_char c :: nat) div 16 = of_char d div 16" "(of_char c :: nat) mod 16 = of_char d mod 16"
    by (auto simp: hex_digit_inj)
  then have "(of_char c :: nat) = of_char d" by (metis div_mult_mod_eq)
  then show ?thesis by simp
qed

lemma json_escape_prefix_free:
  assumes eq: "json_escape c @ x = json_escape d @ y"
  shows "c = d \<and> x = y"
proof (cases c rule: json_escape_cases)
  case c: (Short e)
  show ?thesis
  proof (cases d rule: json_escape_cases)
    case d: (Short f)
    with c eq have "(of_char c :: nat) = of_char d" "x = y"
      using short_escape_char_inj [OF c(1) d(1)] by auto
    then show ?thesis by simp
  qed (use c eq short_escape_not_u [OF c(1)] in auto)
next
  case c: Hex
  show ?thesis
  proof (cases d rule: json_escape_cases)
    case d: (Short f)
    then show ?thesis using c eq short_escape_not_u [OF d(1)] by auto
  next
    case d: Hex
    then show ?thesis using c eq hex_pair_inj by auto
  qed (use c eq in auto)
next
  case c: Plain
  show ?thesis by (cases d rule: json_escape_cases) (use c eq in auto)
qed

lemma json_body_inj:
  "concat (map json_escape s) @ CHR 0x22 # r = concat (map json_escape t) @ CHR 0x22 # r' \<Longrightarrow>
     s = t \<and> r = r'"
proof (induction s arbitrary: t)
  case Nil
  then show ?case
    by (cases t) (auto dest: json_escape_not_quote [THEN notE, OF sym])
next
  case (Cons c s)
  show ?case
  proof (cases t)
    case Nil
    with Cons.prems show ?thesis by (auto dest: json_escape_not_quote [THEN notE])
  next
    case t: (Cons d t')
    with Cons.prems have "json_escape c @ (concat (map json_escape s) @ CHR 0x22 # r) =
        json_escape d @ (concat (map json_escape t') @ CHR 0x22 # r')"
      by simp
    with Cons.IH t show ?thesis by (auto dest: json_escape_prefix_free)
  qed
qed

section \<open>The array used as a window key\<close>

definition json_text_number :: "string \<Rightarrow> int \<Rightarrow> string" where
  "json_text_number s i = CHR ''['' # json_string s @ CHR '','' # show_int i @ [CHR '']'']"

lemma json_text_number_inj:
  "json_text_number s i = json_text_number t j \<longleftrightarrow> s = t \<and> i = j"
proof
  assume "json_text_number s i = json_text_number t j"
  then have "concat (map json_escape s) @ CHR 0x22 # (CHR '','' # show_int i @ [CHR '']'']) =
      concat (map json_escape t) @ CHR 0x22 # (CHR '','' # show_int j @ [CHR '']''])"
    by (simp add: json_text_number_def json_string_def)
  from json_body_inj [OF this] show "s = t \<and> i = j" by (simp add: show_int_inj)
qed simp

lemma json_text_number_not_proto [simp]: "json_text_number s i \<noteq> proto_key"
  by (simp add: json_text_number_def proto_key_def)

end
