(* ===== verification/Authority_Contracts.thy ===== *)
theory Authority_Contracts
  imports Json_Text
begin

text \<open>
  The data of the portable authority (\<^verbatim>\<open>src/src/authority/contracts.ts\<close>): the
  accounts of the subscription pool, the principals' policies and quota windows, the admissions
  with their dispatch attempts, and the published credentials. Every number of these contracts is a
  safe integer and is an \<open>int\<close>; a nullable field is an \<open>option\<close>.
\<close>

datatype authority_error = AuthorityError string int | TypeError | SyntaxError

abbreviation conflict :: "string \<Rightarrow> authority_error" where
  "conflict code \<equiv> AuthorityError code 409"

record authority_scope =
  sc_namespace :: string
  sc_epoch :: int

datatype gateway_route = Responses | ChatCompletions

datatype dispatch_provider = Codex | Surplus | Openlux

datatype delivery_outcome = Delivered | Interrupted | Unobserved

datatype semantic_terminal = Completed | Incomplete | Failed | Cancelled

datatype proof_kind = QuotaExhausted | CredentialInvalid | Transient

record account_proof =
  pr_kind :: proof_kind
  pr_model :: string
  pr_fingerprint :: string
  pr_observedAtMs :: int
  pr_validUntilMs :: int

record account_binding =
  ab_accountId :: string
  ab_fingerprint :: string
  ab_credentialGeneration :: int
  ab_routingGeneration :: int
  ab_resetGeneration :: int
  ab_overageVersion :: int
  ab_overageEnabled :: bool
  ab_enabled :: bool
  ab_models :: "string list"
  ab_proof :: "account_proof option"

record active_account =
  ac_accountId :: string
  ac_fingerprint :: string
  ac_generation :: int

record principal_policy =
  pp_principalId :: string
  pp_version :: int
  pp_deleted :: bool
  pp_windowResetAtMs :: int
  pp_requestLimit :: int
  pp_kernelLimit :: int
  pp_concurrencyLimit :: int
  pp_paidLimitMicrocredits :: int

record principal_window =
  pw_reserved :: int
  pw_dispatched :: int
  pw_kernelReserved :: int
  pw_kernelCompleted :: int
  pw_active :: int
  pw_paidReservedMicrocredits :: int
  pw_paidSettledMicrocredits :: int

record admission_handle =
  hd_scope :: authority_scope
  hd_requestId :: string
  hd_fence :: int

record attempt_input =
  ai_attemptId :: string
  ai_provider :: dispatch_provider
  ai_maximumExposureMicrocredits :: int
  ai_account :: "account_binding option"

datatype fallback_reason = QuotaExhaustedFallback | CapacityExhausted

record terminal_evidence =
  te_outcome :: semantic_terminal
  te_providerRequestId :: "string option"
  te_spendMicrocredits :: "int option"
  te_fallback :: "fallback_reason option"

record access_authorization =
  az_ownerId :: string
  az_ownerEpoch :: int
  az_accountId :: string
  az_workspaceId :: string
  az_generation :: int
  az_nativeRefreshedAtNs :: string
  az_fingerprint :: string
  az_accessToken :: string
  az_idToken :: string
  az_issuedAtMs :: int
  az_expiresAtMs :: int

datatype attempt_state = Reserved | DispatchIntent | Dispatched | NotDispatched

record attempt_record =
  at_input :: attempt_input
  at_state :: attempt_state
  at_terminal :: "terminal_evidence option"
  at_billingSettled :: bool
  at_settledSpendMicrocredits :: "int option"

record admission_record =
  ad_handle :: admission_handle
  ad_principalId :: string
  ad_policyVersion :: int
  ad_windowKey :: string
  ad_digest :: string
  ad_route :: gateway_route
  ad_model :: string
  ad_account :: "account_binding option"
  ad_activeGeneration :: "int option"
  ad_attempts :: "attempt_record dict"
  ad_dispatched :: bool
  ad_semantic :: "semantic_terminal option"
  ad_kernelSettled :: bool
  ad_delivery :: "delivery_outcome option"
  ad_settled :: bool

record authority_state =
  as_scope :: authority_scope
  as_sequence :: int
  as_accounts :: "account_binding list"
  as_active :: "active_account option"
  as_policies :: "principal_policy dict"
  as_windows :: "principal_window dict"
  as_admissions :: "admission_record dict"
  as_publications :: "access_authorization dict"

record admit_input =
  in_scope :: authority_scope
  in_requestId :: string
  in_principalId :: string
  in_policyVersion :: int
  in_digest :: string
  in_route :: gateway_route
  in_model :: string
  in_nowMs :: int

type_synonym 'r authority_result = "authority_error + ('r \<times> authority_state)"

definition sameScope :: "authority_scope \<Rightarrow> authority_scope \<Rightarrow> bool" where
  "sameScope l r \<longleftrightarrow> sc_namespace l = sc_namespace r \<and> sc_epoch l = sc_epoch r"

definition assertAmount :: "int \<Rightarrow> authority_error + unit" where
  "assertAmount v = ensure (is_safe_integer v \<and> 0 \<le> v) (AuthorityError ''invalid_amount'' 400)"

text \<open>
  \<^verbatim>\<open>sameEvidence\<close> compares \<^verbatim>\<open>JSON.stringify\<close> texts. Two values of one
  contract type whose fields are in the contract's order have the same text exactly when they are
  equal, so on the records of this model it is equality.
\<close>

definition sameEvidence :: "'a \<Rightarrow> 'a \<Rightarrow> bool" where
  "sameEvidence l r \<longleftrightarrow> l = r"

definition lookup :: "'a dict \<Rightarrow> string \<Rightarrow> 'a option" where
  "lookup d k = map_of d k"

declare sameEvidence_def [simp] lookup_def [simp]

lemma sameScope_eq: "sameScope l r \<longleftrightarrow> l = r"
  by (cases l; cases r) (auto simp: sameScope_def)

lemma assertAmount_ok [simp]: "assertAmount v = Inr u \<longleftrightarrow> is_safe_integer v \<and> 0 \<le> v"
  by (simp add: assertAmount_def)

end
