(* ===== verification/Js_Text.thy ===== *)
theory Js_Text
  imports Json_Text
begin

text \<open>
  String operations of the language that the gateway uses: \<^verbatim>\<open>String.prototype.trim\<close>,
  the digit test \<^verbatim>\<open>/^\d+$/\<close>, and \<^verbatim>\<open>BigInt(text)\<close>. Characters are the
  code units 0 to 255.
\<close>

definition js_whitespace :: "char \<Rightarrow> bool" where
  "js_whitespace c \<longleftrightarrow> (of_char c :: nat) \<in> {9, 10, 11, 12, 13, 32, 160}"

definition js_trim :: "string \<Rightarrow> string" where
  "js_trim s = rev (dropWhile js_whitespace (rev (dropWhile js_whitespace s)))"

definition is_digit :: "char \<Rightarrow> bool" where
  "is_digit c \<longleftrightarrow> 48 \<le> (of_char c :: nat) \<and> (of_char c :: nat) < 58"

definition digits_only :: "string \<Rightarrow> bool" where
  "digits_only s \<longleftrightarrow> s \<noteq> [] \<and> list_all is_digit s"

definition digit_value :: "char \<Rightarrow> nat option" where
  "digit_value c =
     (let n = of_char c :: nat in
      if 48 \<le> n \<and> n < 58 then Some (n - 48)
      else if 97 \<le> n \<and> n < 103 then Some (n - 87)
      else if 65 \<le> n \<and> n < 71 then Some (n - 55) else None)"

fun radix_value :: "nat \<Rightarrow> nat \<Rightarrow> string \<Rightarrow> nat option" where
  "radix_value b acc [] = Some acc"
| "radix_value b acc (c # cs) =
     (case digit_value c of
        None \<Rightarrow> None
      | Some d \<Rightarrow> if d < b then radix_value b (b * acc + d) cs else None)"

definition radix_literal :: "nat \<Rightarrow> string \<Rightarrow> int option" where
  "radix_literal b s = (if s = [] then None else map_option int (radix_value b 0 s))"

definition radix_prefixes :: "(char \<times> nat) list" where
  "radix_prefixes = [(CHR ''x'', 16), (CHR ''X'', 16), (CHR ''o'', 8), (CHR ''O'', 8), (CHR ''b'', 2), (CHR ''B'', 2)]"

text \<open>\<open>None\<close> is the \<^verbatim>\<open>SyntaxError\<close> of \<^verbatim>\<open>BigInt\<close>.\<close>

definition bigint :: "string \<Rightarrow> int option" where
  "bigint s =
     (let t = js_trim s in
      case t of
        [] \<Rightarrow> Some 0
      | c # cs \<Rightarrow>
          if c = CHR ''-'' then map_option uminus (radix_literal 10 cs)
          else if c = CHR ''+'' then radix_literal 10 cs
          else case cs of
                 p # ds \<Rightarrow>
                   (if c = CHR ''0'' \<and> map_of radix_prefixes p \<noteq> None
                    then radix_literal (the (map_of radix_prefixes p)) ds
                    else radix_literal 10 t)
               | [] \<Rightarrow> radix_literal 10 t)"

lemma digit_not_whitespace: "is_digit c \<Longrightarrow> \<not> js_whitespace c"
  by (auto simp: is_digit_def js_whitespace_def)

lemma dropWhile_digits: "list_all is_digit s \<Longrightarrow> dropWhile js_whitespace s = s"
  by (cases s) (auto dest: digit_not_whitespace)

lemma trim_digits: "list_all is_digit s \<Longrightarrow> js_trim s = s"
  by (simp add: js_trim_def dropWhile_digits list_all_rev)

lemma radix_value_digits:
  "list_all is_digit s \<Longrightarrow> radix_value 10 acc s = Some (foldl (\<lambda>a c. 10 * a + (of_char c - 48)) acc s)"
  by (induction s arbitrary: acc) (auto simp: is_digit_def digit_value_def Let_def)

lemma bigint_digits: "digits_only s \<Longrightarrow> bigint s = Some (int (read_digits s))"
proof -
  assume s: "digits_only s"
  then obtain c cs where c: "s = c # cs" and d: "list_all is_digit s" by (cases s) (auto simp: digits_only_def)
  have lit: "radix_literal 10 s = Some (int (read_digits s))"
    using s radix_value_digits [OF d, of 0] by (simp add: radix_literal_def digits_only_def read_digits_def)
  have "c \<noteq> CHR ''-''" "c \<noteq> CHR ''+''" using d c by (auto simp: is_digit_def)
  moreover have "map_of radix_prefixes p = None" if "p \<in> set cs" for p
    using that d c by (auto simp: radix_prefixes_def is_digit_def list_all_iff)
  ultimately show ?thesis
    using c lit trim_digits [OF d] by (auto simp: bigint_def Let_def split: list.splits)
qed

lemma js_trim_edges:
  assumes "s \<noteq> []" and "\<not> js_whitespace (hd s)" and "\<not> js_whitespace (last s)"
  shows "js_trim s = s"
proof -
  have keep: "dropWhile js_whitespace t = t" if "t \<noteq> []" "\<not> js_whitespace (hd t)" for t
    using that by (cases t) auto
  from assms show ?thesis by (simp add: js_trim_def keep hd_rev)
qed

end
