(* ===== verification/Js_Value.thy ===== *)
theory Js_Value
  imports Complex_Main Js_Text
begin

text \<open>
  JavaScript values as the gateway's validators see them: a value read from storage or from a
  remote caller has type \<^verbatim>\<open>unknown\<close> until a guard has looked at it. A number is a
  rational, an infinity or not-a-number; an object is the list of its own enumerable properties.
\<close>

datatype jsnum = Fin rat | PosInf | NegInf | NaN

datatype js = JUndef | JNull | JBool bool | JNum jsnum | JStr string | JArr "js list" | JObj "(string \<times> js) list"

abbreviation jint :: "int \<Rightarrow> js" where
  "jint i \<equiv> JNum (Fin (of_int i))"

definition as_integer :: "rat \<Rightarrow> int option" where
  "as_integer q = (let p = quotient_of q in if snd p = 1 then Some (fst p) else None)"

lemma as_integer_of_int [simp]: "as_integer (of_int i) = Some i"
  by (simp add: as_integer_def)

lemma as_integer_Some: "as_integer q = Some i \<longleftrightarrow> q = of_int i"
proof
  assume "as_integer q = Some i"
  then have "quotient_of q = (i, 1)" by (cases "quotient_of q") (auto simp: as_integer_def Let_def split: if_splits)
  then show "q = of_int i" using quotient_of_div by fastforce
qed simp

text \<open>\<^verbatim>\<open>Number.isSafeInteger\<close> on any value.\<close>

fun js_int :: "js \<Rightarrow> int option" where
  "js_int (JNum (Fin q)) = (case as_integer q of Some i \<Rightarrow> if is_safe_integer i then Some i else None | None \<Rightarrow> None)"
| "js_int _ = None"

fun js_text :: "js \<Rightarrow> string option" where
  "js_text (JStr s) = Some s"
| "js_text _ = None"

fun js_bool :: "js \<Rightarrow> bool option" where
  "js_bool (JBool b) = Some b"
| "js_bool _ = None"

fun js_items :: "js \<Rightarrow> js list option" where
  "js_items (JArr vs) = Some vs"
| "js_items _ = None"

fun js_entries :: "js \<Rightarrow> (string \<times> js) list option" where
  "js_entries (JObj es) = Some es"
| "js_entries _ = None"

lemma js_int_jint [simp]: "js_int (jint i) = (if is_safe_integer i then Some i else None)"
  by simp

lemma js_int_Some: "js_int v = Some i \<longleftrightarrow> v = jint i \<and> is_safe_integer i"
  by (cases v rule: js_int.cases) (auto simp: as_integer_Some split: option.splits if_splits)

lemma js_text_Some: "js_text v = Some s \<longleftrightarrow> v = JStr s"
  by (cases v) auto

lemma js_bool_Some: "js_bool v = Some b \<longleftrightarrow> v = JBool b"
  by (cases v) auto

section \<open>Guards\<close>

type_synonym guard = "js \<Rightarrow> bool"

definition g_text :: guard where
  "g_text v \<longleftrightarrow> js_text v \<noteq> None"

definition g_number :: guard where
  "g_number v = (case js_int v of None \<Rightarrow> False | Some i \<Rightarrow> 0 \<le> i)"

definition g_boolean :: guard where
  "g_boolean v \<longleftrightarrow> js_bool v \<noteq> None"

definition g_oneOf :: "js list \<Rightarrow> guard" where
  "g_oneOf vs v \<longleftrightarrow> v \<in> set vs"

definition g_nullable :: "guard \<Rightarrow> guard" where
  "g_nullable g v \<longleftrightarrow> v = JNull \<or> g v"

definition g_array :: "guard \<Rightarrow> guard" where
  "g_array g v = (case js_items v of None \<Rightarrow> False | Some vs \<Rightarrow> list_all g vs)"

definition g_dictionary :: "guard \<Rightarrow> guard" where
  "g_dictionary g v = (case js_entries v of None \<Rightarrow> False | Some es \<Rightarrow> list_all (\<lambda>e. g (snd e)) es)"

definition g_fields :: "(string \<times> guard) list \<Rightarrow> guard" where
  "g_fields shape v =
     (case js_entries v of
        None \<Rightarrow> False
      | Some es \<Rightarrow> length es = length shape \<and>
          list_all (\<lambda>(k, g). case map_of es k of None \<Rightarrow> False | Some x \<Rightarrow> g x) shape)"

definition g_tuple :: "guard list \<Rightarrow> guard" where
  "g_tuple gs v =
     (case js_items v of None \<Rightarrow> False | Some vs \<Rightarrow> length vs = length gs \<and> list_all2 (\<lambda>g x. g x) gs vs)"

lemma guard_simps [simp]:
  "g_text (JStr s)" "g_boolean (JBool b)" "g_number (jint i) = (is_safe_integer i \<and> 0 \<le> i)"
  "g_nullable g JNull" "g_array g (JArr vs) = list_all g vs"
  "g_dictionary g (JObj es) = list_all (\<lambda>e. g (snd e)) es"
  by (simp_all add: g_text_def g_boolean_def g_number_def g_nullable_def g_array_def g_dictionary_def)

lemma g_fields_obj [simp]:
  "g_fields shape (JObj es) \<longleftrightarrow> length es = length shape \<and>
     list_all (\<lambda>(k, g). case map_of es k of None \<Rightarrow> False | Some x \<Rightarrow> g x) shape"
  by (simp add: g_fields_def)

lemma g_fields_obtain:
  assumes "g_fields shape v" and "(k, g) \<in> set shape"
  obtains es x where "v = JObj es" "map_of es k = Some x" "g x"
proof (cases v)
  case (JObj es)
  with assms that show thesis by (auto simp: list_all_iff split: option.splits)
qed (use assms in \<open>simp_all add: g_fields_def\<close>)

lemma g_oneOf_null: "g_oneOf (JNull # vs) = g_nullable (g_oneOf vs)"
  by (auto simp: g_oneOf_def g_nullable_def fun_eq_iff)

section \<open>Codecs\<close>

text \<open>
  How a record of the model is laid out as a value, and how the value is read back. The interface
  \<open>codec\<close> says that a guard accepts only what can be read and that reading undoes writing;
  nullable fields, arrays and dictionaries of a codec are codecs.
\<close>

definition field :: "string \<Rightarrow> js \<Rightarrow> js option" where
  "field k v = Option.bind (js_entries v) (\<lambda>es. map_of es k)"

definition opt_js :: "('a \<Rightarrow> js) \<Rightarrow> 'a option \<Rightarrow> js" where
  "opt_js enc x = (case x of None \<Rightarrow> JNull | Some y \<Rightarrow> enc y)"

definition opt_of_js :: "(js \<Rightarrow> 'a option) \<Rightarrow> js \<Rightarrow> 'a option option" where
  "opt_of_js dec v = (if v = JNull then Some None else map_option Some (dec v))"

definition list_js :: "('a \<Rightarrow> js) \<Rightarrow> 'a list \<Rightarrow> js" where
  "list_js enc xs = JArr (map enc xs)"

definition list_of_js :: "(js \<Rightarrow> 'a option) \<Rightarrow> js \<Rightarrow> 'a list option" where
  "list_of_js dec v = Option.bind (js_items v) (\<lambda>vs. those (map dec vs))"

definition dict_js :: "('a \<Rightarrow> js) \<Rightarrow> 'a dict \<Rightarrow> js" where
  "dict_js enc d = JObj (map (\<lambda>(k, x). (k, enc x)) d)"

definition dict_of_js :: "(js \<Rightarrow> 'a option) \<Rightarrow> js \<Rightarrow> 'a dict option" where
  "dict_of_js dec v = Option.bind (js_entries v) (\<lambda>es. those (map (\<lambda>(k, x). map_option (Pair k) (dec x)) es))"

lemma field_obj [simp]: "field k (JObj es) = map_of es k"
  by (simp add: field_def)

lemma g_fields_field: "g_fields shape v \<Longrightarrow> list_all (\<lambda>(k, g). \<exists>x. field k v = Some x \<and> g x) shape"
  by (auto simp: g_fields_def field_def list_all_iff split: option.splits)

lemma those_Some_ex: "(\<And>x. x \<in> set xs \<Longrightarrow> f x \<noteq> None) \<Longrightarrow> \<exists>ys. those (map f xs) = Some ys"
proof (induction xs)
  case (Cons a xs)
  have "f a \<noteq> None" using Cons.prems [of a] by simp
  moreover have "\<exists>ys. those (map f xs) = Some ys" by (rule Cons.IH) (use Cons.prems in simp)
  ultimately show ?case by auto
qed simp

lemma those_map_id: "(\<And>x. x \<in> set xs \<Longrightarrow> f x = Some (h x)) \<Longrightarrow> those (map f xs) = Some (map h xs)"
  by (induction xs) auto

locale codec =
  fixes enc :: "'a \<Rightarrow> js" and dec :: "js \<Rightarrow> 'a option" and accepts :: guard
  assumes roundtrip: "accepts (enc x) \<Longrightarrow> dec (enc x) = Some x"
    and readable: "accepts v \<Longrightarrow> \<exists>x. dec v = Some x"
    and enc_not_null: "enc x \<noteq> JNull"
begin

lemma opt_roundtrip: "g_nullable accepts (opt_js enc x) \<Longrightarrow> opt_of_js dec (opt_js enc x) = Some x"
  using roundtrip enc_not_null by (auto simp: g_nullable_def opt_js_def opt_of_js_def split: option.splits)

lemma opt_readable: "g_nullable accepts v \<Longrightarrow> \<exists>x. opt_of_js dec v = Some x"
  using readable by (auto simp: g_nullable_def opt_of_js_def)

lemma list_roundtrip: "g_array accepts (list_js enc xs) \<Longrightarrow> list_of_js dec (list_js enc xs) = Some xs"
  using roundtrip those_map_id [of xs "\<lambda>x. dec (enc x)" "\<lambda>x. x"]
  by (auto simp: g_array_def list_js_def list_of_js_def list_all_iff o_def)

lemma list_readable: "g_array accepts v \<Longrightarrow> \<exists>xs. list_of_js dec v = Some xs"
  using readable by (auto simp: g_array_def list_of_js_def list_all_iff intro!: those_Some_ex split: option.splits)

lemma dict_roundtrip: "g_dictionary accepts (dict_js enc d) \<Longrightarrow> dict_of_js dec (dict_js enc d) = Some d"
  using roundtrip those_map_id [of d "\<lambda>e. map_option (Pair (fst e)) (dec (enc (snd e)))" "\<lambda>e. e"]
  by (auto simp: g_dictionary_def dict_js_def dict_of_js_def list_all_iff o_def split_beta)

lemma dict_readable: "g_dictionary accepts v \<Longrightarrow> \<exists>d. dict_of_js dec v = Some d"
  using readable
  by (fastforce simp: g_dictionary_def dict_of_js_def list_all_iff split_beta intro!: those_Some_ex split: option.splits)

end

named_theorems codec_roundtrip \<open>reading undoes writing\<close>
named_theorems codec_readable \<open>what a guard accepts can be read\<close>

interpretation text_codec: codec JStr js_text g_text
  by unfold_locales (auto simp: g_text_def)

interpretation number_codec: codec jint js_int g_number
  by unfold_locales (auto simp: g_number_def split: option.splits if_splits)

interpretation boolean_codec: codec JBool js_bool g_boolean
  by unfold_locales (auto simp: g_boolean_def)

lemmas [codec_roundtrip] = text_codec.opt_roundtrip number_codec.opt_roundtrip text_codec.list_roundtrip

lemmas [codec_readable] = text_codec.readable number_codec.readable boolean_codec.readable text_codec.opt_readable
  number_codec.opt_readable text_codec.list_readable

section \<open>JSON text of a value\<close>

text \<open>
  \<^verbatim>\<open>JSON.stringify\<close> on values built from null, booleans, safe integers, strings, arrays and
  objects, which are all that a guarded state contains; \<^verbatim>\<open>TextEncoder\<close> writes a code unit below 128 in one byte and one of 128 to 255 in
  two.
\<close>

definition join :: "string list \<Rightarrow> string" where
  "join xs = (case xs of [] \<Rightarrow> [] | x # ys \<Rightarrow> x @ concat (map (\<lambda>y. CHR '','' # y) ys))"

fun json_print :: "js \<Rightarrow> string" where
  "json_print JUndef = ''null''"
| "json_print JNull = ''null''"
| "json_print (JBool b) = (if b then ''true'' else ''false'')"
| "json_print (JNum n) = (case n of Fin q \<Rightarrow> (case as_integer q of Some i \<Rightarrow> show_int i | None \<Rightarrow> ''null'') | _ \<Rightarrow> ''null'')"
| "json_print (JStr s) = json_string s"
| "json_print (JArr vs) = CHR ''['' # join (map json_print vs) @ '']''"
| "json_print (JObj es) = CHR 0x7B # join (map (\<lambda>(k, v). json_string k @ CHR '':'' # json_print v) es) @ [CHR 0x7D]"

definition utf8_length :: "string \<Rightarrow> int" where
  "utf8_length s = foldl (\<lambda>n c. n + (if digit7 c then 2 else 1)) 0 s"

end
