(* ===== verification/Authority_Json.thy ===== *)
theory Authority_Json
  imports Authority_Contracts Js_Value
begin

text \<open>
  The authority state as a JavaScript value, and the guards of
  \<^verbatim>\<open>src/src/authority/durable-store.ts\<close> that decide whether a value is one. A function
  \<open>x_js\<close> lays a record out in the contract's field order, \<open>x_of_js\<close> reads it back, and
  \<open>xGuard\<close> is the source's guard. Every guard with its reader and writer is an instance of the
  interface \<open>codec\<close>.
\<close>

section \<open>Layouts, readers and guards\<close>

fun proof_kind_js :: "proof_kind \<Rightarrow> js" where
  "proof_kind_js QuotaExhausted = JStr ''quota_exhausted''"
| "proof_kind_js CredentialInvalid = JStr ''credential_invalid''"
| "proof_kind_js Transient = JStr ''transient''"

definition proof_kind_values :: "js list" where
  "proof_kind_values = map proof_kind_js [QuotaExhausted, CredentialInvalid, Transient]"

definition proof_kind_of_js :: "js \<Rightarrow> proof_kind option" where
  "proof_kind_of_js v =
     (if v = JStr ''quota_exhausted'' then Some QuotaExhausted
      else if v = JStr ''credential_invalid'' then Some CredentialInvalid
      else if v = JStr ''transient'' then Some Transient else None)"

fun outcome_js :: "semantic_terminal \<Rightarrow> js" where
  "outcome_js Completed = JStr ''completed''"
| "outcome_js Incomplete = JStr ''incomplete''"
| "outcome_js Failed = JStr ''failed''"
| "outcome_js Cancelled = JStr ''cancelled''"

definition outcome_values :: "js list" where
  "outcome_values = map outcome_js [Completed, Incomplete, Failed, Cancelled]"

definition outcome_of_js :: "js \<Rightarrow> semantic_terminal option" where
  "outcome_of_js v =
     (if v = JStr ''completed'' then Some Completed
      else if v = JStr ''incomplete'' then Some Incomplete
      else if v = JStr ''failed'' then Some Failed
      else if v = JStr ''cancelled'' then Some Cancelled else None)"

fun fallback_js :: "fallback_reason \<Rightarrow> js" where
  "fallback_js QuotaExhaustedFallback = JStr ''quota_exhausted''"
| "fallback_js CapacityExhausted = JStr ''capacity_exhausted''"

definition fallback_values :: "js list" where
  "fallback_values = map fallback_js [QuotaExhaustedFallback, CapacityExhausted]"

definition fallback_of_js :: "js \<Rightarrow> fallback_reason option" where
  "fallback_of_js v =
     (if v = JStr ''quota_exhausted'' then Some QuotaExhaustedFallback
      else if v = JStr ''capacity_exhausted'' then Some CapacityExhausted else None)"

fun provider_js :: "dispatch_provider \<Rightarrow> js" where
  "provider_js Codex = JStr ''codex''"
| "provider_js Surplus = JStr ''surplus''"
| "provider_js Openlux = JStr ''openlux''"

definition provider_values :: "js list" where
  "provider_values = map provider_js [Codex, Surplus, Openlux]"

definition provider_of_js :: "js \<Rightarrow> dispatch_provider option" where
  "provider_of_js v =
     (if v = JStr ''codex'' then Some Codex
      else if v = JStr ''surplus'' then Some Surplus
      else if v = JStr ''openlux'' then Some Openlux else None)"

fun attempt_state_js :: "attempt_state \<Rightarrow> js" where
  "attempt_state_js Reserved = JStr ''reserved''"
| "attempt_state_js DispatchIntent = JStr ''dispatch_intent''"
| "attempt_state_js Dispatched = JStr ''dispatched''"
| "attempt_state_js NotDispatched = JStr ''not_dispatched''"

definition attempt_state_values :: "js list" where
  "attempt_state_values = map attempt_state_js [Reserved, DispatchIntent, Dispatched, NotDispatched]"

definition attempt_state_of_js :: "js \<Rightarrow> attempt_state option" where
  "attempt_state_of_js v =
     (if v = JStr ''reserved'' then Some Reserved
      else if v = JStr ''dispatch_intent'' then Some DispatchIntent
      else if v = JStr ''dispatched'' then Some Dispatched
      else if v = JStr ''not_dispatched'' then Some NotDispatched else None)"

fun route_js :: "gateway_route \<Rightarrow> js" where
  "route_js Responses = JStr ''/v1/responses''"
| "route_js ChatCompletions = JStr ''/v1/chat/completions''"

definition route_values :: "js list" where
  "route_values = map route_js [Responses, ChatCompletions]"

definition route_of_js :: "js \<Rightarrow> gateway_route option" where
  "route_of_js v =
     (if v = JStr ''/v1/responses'' then Some Responses
      else if v = JStr ''/v1/chat/completions'' then Some ChatCompletions else None)"

fun delivery_js :: "delivery_outcome \<Rightarrow> js" where
  "delivery_js Delivered = JStr ''delivered''"
| "delivery_js Interrupted = JStr ''interrupted''"
| "delivery_js Unobserved = JStr ''unobserved''"

definition delivery_values :: "js list" where
  "delivery_values = map delivery_js [Delivered, Interrupted, Unobserved]"

definition delivery_of_js :: "js \<Rightarrow> delivery_outcome option" where
  "delivery_of_js v =
     (if v = JStr ''delivered'' then Some Delivered
      else if v = JStr ''interrupted'' then Some Interrupted
      else if v = JStr ''unobserved'' then Some Unobserved else None)"

definition scope_js :: "authority_scope \<Rightarrow> js" where
  "scope_js x = JObj [
     (''namespace'', JStr (sc_namespace x)),
     (''epoch'', jint (sc_epoch x))]"

definition scope_of_js :: "js \<Rightarrow> authority_scope option" where
  "scope_of_js x =
     Option.bind (Option.bind (field ''namespace'' x) js_text) (\<lambda>a.
     Option.bind (Option.bind (field ''epoch'' x) js_int) (\<lambda>b.
     Some \<lparr>sc_namespace = a, sc_epoch = b\<rparr>))"

definition scopeGuard :: guard where
  "scopeGuard = g_fields [
     (''namespace'', g_text),
     (''epoch'', g_number)]"

definition proof_js :: "account_proof \<Rightarrow> js" where
  "proof_js x = JObj [
     (''kind'', proof_kind_js (pr_kind x)),
     (''model'', JStr (pr_model x)),
     (''fingerprint'', JStr (pr_fingerprint x)),
     (''observedAtMs'', jint (pr_observedAtMs x)),
     (''validUntilMs'', jint (pr_validUntilMs x))]"

definition proof_of_js :: "js \<Rightarrow> account_proof option" where
  "proof_of_js x =
     Option.bind (Option.bind (field ''kind'' x) proof_kind_of_js) (\<lambda>a.
     Option.bind (Option.bind (field ''model'' x) js_text) (\<lambda>b.
     Option.bind (Option.bind (field ''fingerprint'' x) js_text) (\<lambda>c.
     Option.bind (Option.bind (field ''observedAtMs'' x) js_int) (\<lambda>d.
     Option.bind (Option.bind (field ''validUntilMs'' x) js_int) (\<lambda>e.
     Some \<lparr>pr_kind = a, pr_model = b, pr_fingerprint = c, pr_observedAtMs = d, pr_validUntilMs = e\<rparr>)))))"

definition proofGuard :: guard where
  "proofGuard = g_fields [
     (''kind'', g_oneOf proof_kind_values),
     (''model'', g_text),
     (''fingerprint'', g_text),
     (''observedAtMs'', g_number),
     (''validUntilMs'', g_number)]"

definition account_js :: "account_binding \<Rightarrow> js" where
  "account_js x = JObj [
     (''accountId'', JStr (ab_accountId x)),
     (''fingerprint'', JStr (ab_fingerprint x)),
     (''credentialGeneration'', jint (ab_credentialGeneration x)),
     (''routingGeneration'', jint (ab_routingGeneration x)),
     (''resetGeneration'', jint (ab_resetGeneration x)),
     (''overageVersion'', jint (ab_overageVersion x)),
     (''overageEnabled'', JBool (ab_overageEnabled x)),
     (''enabled'', JBool (ab_enabled x)),
     (''models'', list_js JStr (ab_models x)),
     (''proof'', opt_js proof_js (ab_proof x))]"

definition account_of_js :: "js \<Rightarrow> account_binding option" where
  "account_of_js x =
     Option.bind (Option.bind (field ''accountId'' x) js_text) (\<lambda>a.
     Option.bind (Option.bind (field ''fingerprint'' x) js_text) (\<lambda>b.
     Option.bind (Option.bind (field ''credentialGeneration'' x) js_int) (\<lambda>c.
     Option.bind (Option.bind (field ''routingGeneration'' x) js_int) (\<lambda>d.
     Option.bind (Option.bind (field ''resetGeneration'' x) js_int) (\<lambda>e.
     Option.bind (Option.bind (field ''overageVersion'' x) js_int) (\<lambda>f.
     Option.bind (Option.bind (field ''overageEnabled'' x) js_bool) (\<lambda>g.
     Option.bind (Option.bind (field ''enabled'' x) js_bool) (\<lambda>h.
     Option.bind (Option.bind (field ''models'' x) (list_of_js js_text)) (\<lambda>i.
     Option.bind (Option.bind (field ''proof'' x) (opt_of_js proof_of_js)) (\<lambda>j.
     Some \<lparr>ab_accountId = a, ab_fingerprint = b, ab_credentialGeneration = c, ab_routingGeneration = d, ab_resetGeneration = e, ab_overageVersion = f, ab_overageEnabled = g, ab_enabled = h, ab_models = i, ab_proof = j\<rparr>))))))))))"

definition accountGuard :: guard where
  "accountGuard = g_fields [
     (''accountId'', g_text),
     (''fingerprint'', g_text),
     (''credentialGeneration'', g_number),
     (''routingGeneration'', g_number),
     (''resetGeneration'', g_number),
     (''overageVersion'', g_number),
     (''overageEnabled'', g_boolean),
     (''enabled'', g_boolean),
     (''models'', g_array g_text),
     (''proof'', g_nullable proofGuard)]"

definition handle_js :: "admission_handle \<Rightarrow> js" where
  "handle_js x = JObj [
     (''scope'', scope_js (hd_scope x)),
     (''requestId'', JStr (hd_requestId x)),
     (''fence'', jint (hd_fence x))]"

definition handle_of_js :: "js \<Rightarrow> admission_handle option" where
  "handle_of_js x =
     Option.bind (Option.bind (field ''scope'' x) scope_of_js) (\<lambda>a.
     Option.bind (Option.bind (field ''requestId'' x) js_text) (\<lambda>b.
     Option.bind (Option.bind (field ''fence'' x) js_int) (\<lambda>c.
     Some \<lparr>hd_scope = a, hd_requestId = b, hd_fence = c\<rparr>)))"

definition handleGuard :: guard where
  "handleGuard = g_fields [
     (''scope'', scopeGuard),
     (''requestId'', g_text),
     (''fence'', g_number)]"

definition terminal_js :: "terminal_evidence \<Rightarrow> js" where
  "terminal_js x = JObj [
     (''outcome'', outcome_js (te_outcome x)),
     (''providerRequestId'', opt_js JStr (te_providerRequestId x)),
     (''spendMicrocredits'', opt_js jint (te_spendMicrocredits x)),
     (''fallback'', opt_js fallback_js (te_fallback x))]"

definition terminal_of_js :: "js \<Rightarrow> terminal_evidence option" where
  "terminal_of_js x =
     Option.bind (Option.bind (field ''outcome'' x) outcome_of_js) (\<lambda>a.
     Option.bind (Option.bind (field ''providerRequestId'' x) (opt_of_js js_text)) (\<lambda>b.
     Option.bind (Option.bind (field ''spendMicrocredits'' x) (opt_of_js js_int)) (\<lambda>c.
     Option.bind (Option.bind (field ''fallback'' x) (opt_of_js fallback_of_js)) (\<lambda>d.
     Some \<lparr>te_outcome = a, te_providerRequestId = b, te_spendMicrocredits = c, te_fallback = d\<rparr>))))"

definition terminalGuard :: guard where
  "terminalGuard = g_fields [
     (''outcome'', g_oneOf outcome_values),
     (''providerRequestId'', g_nullable g_text),
     (''spendMicrocredits'', g_nullable g_number),
     (''fallback'', g_oneOf (JNull # fallback_values))]"

definition input_js :: "attempt_input \<Rightarrow> js" where
  "input_js x = JObj [
     (''attemptId'', JStr (ai_attemptId x)),
     (''provider'', provider_js (ai_provider x)),
     (''maximumExposureMicrocredits'', jint (ai_maximumExposureMicrocredits x)),
     (''account'', opt_js account_js (ai_account x))]"

definition input_of_js :: "js \<Rightarrow> attempt_input option" where
  "input_of_js x =
     Option.bind (Option.bind (field ''attemptId'' x) js_text) (\<lambda>a.
     Option.bind (Option.bind (field ''provider'' x) provider_of_js) (\<lambda>b.
     Option.bind (Option.bind (field ''maximumExposureMicrocredits'' x) js_int) (\<lambda>c.
     Option.bind (Option.bind (field ''account'' x) (opt_of_js account_of_js)) (\<lambda>d.
     Some \<lparr>ai_attemptId = a, ai_provider = b, ai_maximumExposureMicrocredits = c, ai_account = d\<rparr>))))"

definition inputGuard :: guard where
  "inputGuard = g_fields [
     (''attemptId'', g_text),
     (''provider'', g_oneOf provider_values),
     (''maximumExposureMicrocredits'', g_number),
     (''account'', g_nullable accountGuard)]"

definition attempt_js :: "attempt_record \<Rightarrow> js" where
  "attempt_js x = JObj [
     (''input'', input_js (at_input x)),
     (''state'', attempt_state_js (at_state x)),
     (''terminal'', opt_js terminal_js (at_terminal x)),
     (''billingSettled'', JBool (at_billingSettled x)),
     (''settledSpendMicrocredits'', opt_js jint (at_settledSpendMicrocredits x))]"

definition attempt_of_js :: "js \<Rightarrow> attempt_record option" where
  "attempt_of_js x =
     Option.bind (Option.bind (field ''input'' x) input_of_js) (\<lambda>a.
     Option.bind (Option.bind (field ''state'' x) attempt_state_of_js) (\<lambda>b.
     Option.bind (Option.bind (field ''terminal'' x) (opt_of_js terminal_of_js)) (\<lambda>c.
     Option.bind (Option.bind (field ''billingSettled'' x) js_bool) (\<lambda>d.
     Option.bind (Option.bind (field ''settledSpendMicrocredits'' x) (opt_of_js js_int)) (\<lambda>e.
     Some \<lparr>at_input = a, at_state = b, at_terminal = c, at_billingSettled = d, at_settledSpendMicrocredits = e\<rparr>)))))"

definition attemptGuard :: guard where
  "attemptGuard = g_fields [
     (''input'', inputGuard),
     (''state'', g_oneOf attempt_state_values),
     (''terminal'', g_nullable terminalGuard),
     (''billingSettled'', g_boolean),
     (''settledSpendMicrocredits'', g_nullable g_number)]"

definition admission_js :: "admission_record \<Rightarrow> js" where
  "admission_js x = JObj [
     (''handle'', handle_js (ad_handle x)),
     (''principalId'', JStr (ad_principalId x)),
     (''policyVersion'', jint (ad_policyVersion x)),
     (''windowKey'', JStr (ad_windowKey x)),
     (''digest'', JStr (ad_digest x)),
     (''route'', route_js (ad_route x)),
     (''model'', JStr (ad_model x)),
     (''account'', opt_js account_js (ad_account x)),
     (''activeGeneration'', opt_js jint (ad_activeGeneration x)),
     (''attempts'', dict_js attempt_js (ad_attempts x)),
     (''dispatched'', JBool (ad_dispatched x)),
     (''semantic'', opt_js outcome_js (ad_semantic x)),
     (''kernelSettled'', JBool (ad_kernelSettled x)),
     (''delivery'', opt_js delivery_js (ad_delivery x)),
     (''settled'', JBool (ad_settled x))]"

definition admission_of_js :: "js \<Rightarrow> admission_record option" where
  "admission_of_js x =
     Option.bind (Option.bind (field ''handle'' x) handle_of_js) (\<lambda>a.
     Option.bind (Option.bind (field ''principalId'' x) js_text) (\<lambda>b.
     Option.bind (Option.bind (field ''policyVersion'' x) js_int) (\<lambda>c.
     Option.bind (Option.bind (field ''windowKey'' x) js_text) (\<lambda>d.
     Option.bind (Option.bind (field ''digest'' x) js_text) (\<lambda>e.
     Option.bind (Option.bind (field ''route'' x) route_of_js) (\<lambda>f.
     Option.bind (Option.bind (field ''model'' x) js_text) (\<lambda>g.
     Option.bind (Option.bind (field ''account'' x) (opt_of_js account_of_js)) (\<lambda>h.
     Option.bind (Option.bind (field ''activeGeneration'' x) (opt_of_js js_int)) (\<lambda>i.
     Option.bind (Option.bind (field ''attempts'' x) (dict_of_js attempt_of_js)) (\<lambda>j.
     Option.bind (Option.bind (field ''dispatched'' x) js_bool) (\<lambda>k.
     Option.bind (Option.bind (field ''semantic'' x) (opt_of_js outcome_of_js)) (\<lambda>l.
     Option.bind (Option.bind (field ''kernelSettled'' x) js_bool) (\<lambda>m.
     Option.bind (Option.bind (field ''delivery'' x) (opt_of_js delivery_of_js)) (\<lambda>n.
     Option.bind (Option.bind (field ''settled'' x) js_bool) (\<lambda>z.
     Some \<lparr>ad_handle = a, ad_principalId = b, ad_policyVersion = c, ad_windowKey = d, ad_digest = e, ad_route = f, ad_model = g, ad_account = h, ad_activeGeneration = i, ad_attempts = j, ad_dispatched = k, ad_semantic = l, ad_kernelSettled = m, ad_delivery = n, ad_settled = z\<rparr>)))))))))))))))"

definition admissionGuard :: guard where
  "admissionGuard = g_fields [
     (''handle'', handleGuard),
     (''principalId'', g_text),
     (''policyVersion'', g_number),
     (''windowKey'', g_text),
     (''digest'', g_text),
     (''route'', g_oneOf route_values),
     (''model'', g_text),
     (''account'', g_nullable accountGuard),
     (''activeGeneration'', g_nullable g_number),
     (''attempts'', g_dictionary attemptGuard),
     (''dispatched'', g_boolean),
     (''semantic'', g_oneOf (JNull # outcome_values)),
     (''kernelSettled'', g_boolean),
     (''delivery'', g_oneOf (JNull # delivery_values)),
     (''settled'', g_boolean)]"

definition active_js :: "active_account \<Rightarrow> js" where
  "active_js x = JObj [
     (''accountId'', JStr (ac_accountId x)),
     (''fingerprint'', JStr (ac_fingerprint x)),
     (''generation'', jint (ac_generation x))]"

definition active_of_js :: "js \<Rightarrow> active_account option" where
  "active_of_js x =
     Option.bind (Option.bind (field ''accountId'' x) js_text) (\<lambda>a.
     Option.bind (Option.bind (field ''fingerprint'' x) js_text) (\<lambda>b.
     Option.bind (Option.bind (field ''generation'' x) js_int) (\<lambda>c.
     Some \<lparr>ac_accountId = a, ac_fingerprint = b, ac_generation = c\<rparr>)))"

definition activeGuard :: guard where
  "activeGuard = g_fields [
     (''accountId'', g_text),
     (''fingerprint'', g_text),
     (''generation'', g_number)]"

definition policy_js :: "principal_policy \<Rightarrow> js" where
  "policy_js x = JObj [
     (''principalId'', JStr (pp_principalId x)),
     (''version'', jint (pp_version x)),
     (''deleted'', JBool (pp_deleted x)),
     (''windowResetAtMs'', jint (pp_windowResetAtMs x)),
     (''requestLimit'', jint (pp_requestLimit x)),
     (''kernelLimit'', jint (pp_kernelLimit x)),
     (''concurrencyLimit'', jint (pp_concurrencyLimit x)),
     (''paidLimitMicrocredits'', jint (pp_paidLimitMicrocredits x))]"

definition policy_of_js :: "js \<Rightarrow> principal_policy option" where
  "policy_of_js x =
     Option.bind (Option.bind (field ''principalId'' x) js_text) (\<lambda>a.
     Option.bind (Option.bind (field ''version'' x) js_int) (\<lambda>b.
     Option.bind (Option.bind (field ''deleted'' x) js_bool) (\<lambda>c.
     Option.bind (Option.bind (field ''windowResetAtMs'' x) js_int) (\<lambda>d.
     Option.bind (Option.bind (field ''requestLimit'' x) js_int) (\<lambda>e.
     Option.bind (Option.bind (field ''kernelLimit'' x) js_int) (\<lambda>f.
     Option.bind (Option.bind (field ''concurrencyLimit'' x) js_int) (\<lambda>g.
     Option.bind (Option.bind (field ''paidLimitMicrocredits'' x) js_int) (\<lambda>h.
     Some \<lparr>pp_principalId = a, pp_version = b, pp_deleted = c, pp_windowResetAtMs = d, pp_requestLimit = e, pp_kernelLimit = f, pp_concurrencyLimit = g, pp_paidLimitMicrocredits = h\<rparr>))))))))"

definition policyGuard :: guard where
  "policyGuard = g_fields [
     (''principalId'', g_text),
     (''version'', g_number),
     (''deleted'', g_boolean),
     (''windowResetAtMs'', g_number),
     (''requestLimit'', g_number),
     (''kernelLimit'', g_number),
     (''concurrencyLimit'', g_number),
     (''paidLimitMicrocredits'', g_number)]"

definition window_js :: "principal_window \<Rightarrow> js" where
  "window_js x = JObj [
     (''reserved'', jint (pw_reserved x)),
     (''dispatched'', jint (pw_dispatched x)),
     (''kernelReserved'', jint (pw_kernelReserved x)),
     (''kernelCompleted'', jint (pw_kernelCompleted x)),
     (''active'', jint (pw_active x)),
     (''paidReservedMicrocredits'', jint (pw_paidReservedMicrocredits x)),
     (''paidSettledMicrocredits'', jint (pw_paidSettledMicrocredits x))]"

definition window_of_js :: "js \<Rightarrow> principal_window option" where
  "window_of_js x =
     Option.bind (Option.bind (field ''reserved'' x) js_int) (\<lambda>a.
     Option.bind (Option.bind (field ''dispatched'' x) js_int) (\<lambda>b.
     Option.bind (Option.bind (field ''kernelReserved'' x) js_int) (\<lambda>c.
     Option.bind (Option.bind (field ''kernelCompleted'' x) js_int) (\<lambda>d.
     Option.bind (Option.bind (field ''active'' x) js_int) (\<lambda>e.
     Option.bind (Option.bind (field ''paidReservedMicrocredits'' x) js_int) (\<lambda>f.
     Option.bind (Option.bind (field ''paidSettledMicrocredits'' x) js_int) (\<lambda>g.
     Some \<lparr>pw_reserved = a, pw_dispatched = b, pw_kernelReserved = c, pw_kernelCompleted = d, pw_active = e, pw_paidReservedMicrocredits = f, pw_paidSettledMicrocredits = g\<rparr>)))))))"

definition windowGuard :: guard where
  "windowGuard = g_fields [
     (''reserved'', g_number),
     (''dispatched'', g_number),
     (''kernelReserved'', g_number),
     (''kernelCompleted'', g_number),
     (''active'', g_number),
     (''paidReservedMicrocredits'', g_number),
     (''paidSettledMicrocredits'', g_number)]"

definition publication_js :: "access_authorization \<Rightarrow> js" where
  "publication_js x = JObj [
     (''ownerId'', JStr (az_ownerId x)),
     (''ownerEpoch'', jint (az_ownerEpoch x)),
     (''accountId'', JStr (az_accountId x)),
     (''workspaceId'', JStr (az_workspaceId x)),
     (''generation'', jint (az_generation x)),
     (''nativeRefreshedAtNs'', JStr (az_nativeRefreshedAtNs x)),
     (''fingerprint'', JStr (az_fingerprint x)),
     (''accessToken'', JStr (az_accessToken x)),
     (''idToken'', JStr (az_idToken x)),
     (''issuedAtMs'', jint (az_issuedAtMs x)),
     (''expiresAtMs'', jint (az_expiresAtMs x))]"

definition publication_of_js :: "js \<Rightarrow> access_authorization option" where
  "publication_of_js x =
     Option.bind (Option.bind (field ''ownerId'' x) js_text) (\<lambda>a.
     Option.bind (Option.bind (field ''ownerEpoch'' x) js_int) (\<lambda>b.
     Option.bind (Option.bind (field ''accountId'' x) js_text) (\<lambda>c.
     Option.bind (Option.bind (field ''workspaceId'' x) js_text) (\<lambda>d.
     Option.bind (Option.bind (field ''generation'' x) js_int) (\<lambda>e.
     Option.bind (Option.bind (field ''nativeRefreshedAtNs'' x) js_text) (\<lambda>f.
     Option.bind (Option.bind (field ''fingerprint'' x) js_text) (\<lambda>g.
     Option.bind (Option.bind (field ''accessToken'' x) js_text) (\<lambda>h.
     Option.bind (Option.bind (field ''idToken'' x) js_text) (\<lambda>i.
     Option.bind (Option.bind (field ''issuedAtMs'' x) js_int) (\<lambda>j.
     Option.bind (Option.bind (field ''expiresAtMs'' x) js_int) (\<lambda>k.
     Some \<lparr>az_ownerId = a, az_ownerEpoch = b, az_accountId = c, az_workspaceId = d, az_generation = e, az_nativeRefreshedAtNs = f, az_fingerprint = g, az_accessToken = h, az_idToken = i, az_issuedAtMs = j, az_expiresAtMs = k\<rparr>)))))))))))"

definition publicationGuard :: guard where
  "publicationGuard = g_fields [
     (''ownerId'', g_text),
     (''ownerEpoch'', g_number),
     (''accountId'', g_text),
     (''workspaceId'', g_text),
     (''generation'', g_number),
     (''nativeRefreshedAtNs'', g_text),
     (''fingerprint'', g_text),
     (''accessToken'', g_text),
     (''idToken'', g_text),
     (''issuedAtMs'', g_number),
     (''expiresAtMs'', g_number)]"

definition state_js :: "authority_state \<Rightarrow> js" where
  "state_js x = JObj [
     (''scope'', scope_js (as_scope x)),
     (''sequence'', jint (as_sequence x)),
     (''accounts'', list_js account_js (as_accounts x)),
     (''active'', opt_js active_js (as_active x)),
     (''policies'', dict_js policy_js (as_policies x)),
     (''windows'', dict_js window_js (as_windows x)),
     (''admissions'', dict_js admission_js (as_admissions x)),
     (''publications'', dict_js publication_js (as_publications x))]"

definition state_of_js :: "js \<Rightarrow> authority_state option" where
  "state_of_js x =
     Option.bind (Option.bind (field ''scope'' x) scope_of_js) (\<lambda>a.
     Option.bind (Option.bind (field ''sequence'' x) js_int) (\<lambda>b.
     Option.bind (Option.bind (field ''accounts'' x) (list_of_js account_of_js)) (\<lambda>c.
     Option.bind (Option.bind (field ''active'' x) (opt_of_js active_of_js)) (\<lambda>d.
     Option.bind (Option.bind (field ''policies'' x) (dict_of_js policy_of_js)) (\<lambda>e.
     Option.bind (Option.bind (field ''windows'' x) (dict_of_js window_of_js)) (\<lambda>f.
     Option.bind (Option.bind (field ''admissions'' x) (dict_of_js admission_of_js)) (\<lambda>g.
     Option.bind (Option.bind (field ''publications'' x) (dict_of_js publication_of_js)) (\<lambda>h.
     Some \<lparr>as_scope = a, as_sequence = b, as_accounts = c, as_active = d, as_policies = e, as_windows = f, as_admissions = g, as_publications = h\<rparr>))))))))"

definition stateGuard :: guard where
  "stateGuard = g_fields [
     (''scope'', scopeGuard),
     (''sequence'', g_number),
     (''accounts'', g_array accountGuard),
     (''active'', g_nullable activeGuard),
     (''policies'', g_dictionary policyGuard),
     (''windows'', g_dictionary windowGuard),
     (''admissions'', g_dictionary admissionGuard),
     (''publications'', g_dictionary publicationGuard)]"

section \<open>Every guard is a codec\<close>

interpretation proof_kind_codec: codec proof_kind_js proof_kind_of_js "g_oneOf proof_kind_values"
proof
  fix x :: proof_kind
  show "proof_kind_of_js (proof_kind_js x) = Some x" "proof_kind_js x \<noteq> JNull" by (cases x; simp add: proof_kind_of_js_def)+
qed (auto simp: g_oneOf_def proof_kind_values_def proof_kind_of_js_def)

interpretation outcome_codec: codec outcome_js outcome_of_js "g_oneOf outcome_values"
proof
  fix x :: semantic_terminal
  show "outcome_of_js (outcome_js x) = Some x" "outcome_js x \<noteq> JNull" by (cases x; simp add: outcome_of_js_def)+
qed (auto simp: g_oneOf_def outcome_values_def outcome_of_js_def)

interpretation fallback_codec: codec fallback_js fallback_of_js "g_oneOf fallback_values"
proof
  fix x :: fallback_reason
  show "fallback_of_js (fallback_js x) = Some x" "fallback_js x \<noteq> JNull" by (cases x; simp add: fallback_of_js_def)+
qed (auto simp: g_oneOf_def fallback_values_def fallback_of_js_def)

interpretation provider_codec: codec provider_js provider_of_js "g_oneOf provider_values"
proof
  fix x :: dispatch_provider
  show "provider_of_js (provider_js x) = Some x" "provider_js x \<noteq> JNull" by (cases x; simp add: provider_of_js_def)+
qed (auto simp: g_oneOf_def provider_values_def provider_of_js_def)

interpretation attempt_state_codec: codec attempt_state_js attempt_state_of_js "g_oneOf attempt_state_values"
proof
  fix x :: attempt_state
  show "attempt_state_of_js (attempt_state_js x) = Some x" "attempt_state_js x \<noteq> JNull" by (cases x; simp add: attempt_state_of_js_def)+
qed (auto simp: g_oneOf_def attempt_state_values_def attempt_state_of_js_def)

interpretation route_codec: codec route_js route_of_js "g_oneOf route_values"
proof
  fix x :: gateway_route
  show "route_of_js (route_js x) = Some x" "route_js x \<noteq> JNull" by (cases x; simp add: route_of_js_def)+
qed (auto simp: g_oneOf_def route_values_def route_of_js_def)

interpretation delivery_codec: codec delivery_js delivery_of_js "g_oneOf delivery_values"
proof
  fix x :: delivery_outcome
  show "delivery_of_js (delivery_js x) = Some x" "delivery_js x \<noteq> JNull" by (cases x; simp add: delivery_of_js_def)+
qed (auto simp: g_oneOf_def delivery_values_def delivery_of_js_def)

lemmas [codec_roundtrip] = proof_kind_codec.roundtrip proof_kind_codec.opt_roundtrip outcome_codec.roundtrip outcome_codec.opt_roundtrip fallback_codec.roundtrip fallback_codec.opt_roundtrip provider_codec.roundtrip provider_codec.opt_roundtrip attempt_state_codec.roundtrip attempt_state_codec.opt_roundtrip route_codec.roundtrip route_codec.opt_roundtrip delivery_codec.roundtrip delivery_codec.opt_roundtrip

lemmas [codec_readable] = proof_kind_codec.readable proof_kind_codec.opt_readable outcome_codec.readable outcome_codec.opt_readable fallback_codec.readable fallback_codec.opt_readable provider_codec.readable provider_codec.opt_readable attempt_state_codec.readable attempt_state_codec.opt_readable route_codec.readable route_codec.opt_readable delivery_codec.readable delivery_codec.opt_readable

interpretation scope_codec: codec scope_js scope_of_js scopeGuard
proof
  fix x :: authority_scope
  assume "scopeGuard (scope_js x)"
  then show "scope_of_js (scope_js x) = Some x"
    by (simp add: scope_js_def scope_of_js_def scopeGuard_def g_oneOf_null codec_roundtrip)
next
  fix v
  assume "scopeGuard v"
  then show "\<exists>x. scope_of_js v = Some x"
    by (auto simp: scope_of_js_def scopeGuard_def g_oneOf_null dest!: g_fields_field codec_readable)
qed (simp add: scope_js_def)

lemmas [codec_roundtrip] = scope_codec.roundtrip

lemmas [codec_readable] = scope_codec.readable

interpretation proof_codec: codec proof_js proof_of_js proofGuard
proof
  fix x :: account_proof
  assume "proofGuard (proof_js x)"
  then show "proof_of_js (proof_js x) = Some x"
    by (simp add: proof_js_def proof_of_js_def proofGuard_def g_oneOf_null codec_roundtrip)
next
  fix v
  assume "proofGuard v"
  then show "\<exists>x. proof_of_js v = Some x"
    by (auto simp: proof_of_js_def proofGuard_def g_oneOf_null dest!: g_fields_field codec_readable)
qed (simp add: proof_js_def)

lemmas [codec_roundtrip] = proof_codec.opt_roundtrip

lemmas [codec_readable] = proof_codec.opt_readable

interpretation account_codec: codec account_js account_of_js accountGuard
proof
  fix x :: account_binding
  assume "accountGuard (account_js x)"
  then show "account_of_js (account_js x) = Some x"
    by (simp add: account_js_def account_of_js_def accountGuard_def g_oneOf_null codec_roundtrip)
next
  fix v
  assume "accountGuard v"
  then show "\<exists>x. account_of_js v = Some x"
    by (auto simp: account_of_js_def accountGuard_def g_oneOf_null dest!: g_fields_field codec_readable)
qed (simp add: account_js_def)

lemmas [codec_roundtrip] = account_codec.list_roundtrip account_codec.opt_roundtrip

lemmas [codec_readable] = account_codec.list_readable account_codec.opt_readable

interpretation handle_codec: codec handle_js handle_of_js handleGuard
proof
  fix x :: admission_handle
  assume "handleGuard (handle_js x)"
  then show "handle_of_js (handle_js x) = Some x"
    by (simp add: handle_js_def handle_of_js_def handleGuard_def g_oneOf_null codec_roundtrip)
next
  fix v
  assume "handleGuard v"
  then show "\<exists>x. handle_of_js v = Some x"
    by (auto simp: handle_of_js_def handleGuard_def g_oneOf_null dest!: g_fields_field codec_readable)
qed (simp add: handle_js_def)

lemmas [codec_roundtrip] = handle_codec.roundtrip

lemmas [codec_readable] = handle_codec.readable

interpretation terminal_codec: codec terminal_js terminal_of_js terminalGuard
proof
  fix x :: terminal_evidence
  assume "terminalGuard (terminal_js x)"
  then show "terminal_of_js (terminal_js x) = Some x"
    by (simp add: terminal_js_def terminal_of_js_def terminalGuard_def g_oneOf_null codec_roundtrip)
next
  fix v
  assume "terminalGuard v"
  then show "\<exists>x. terminal_of_js v = Some x"
    by (auto simp: terminal_of_js_def terminalGuard_def g_oneOf_null dest!: g_fields_field codec_readable)
qed (simp add: terminal_js_def)

lemmas [codec_roundtrip] = terminal_codec.opt_roundtrip

lemmas [codec_readable] = terminal_codec.opt_readable

interpretation input_codec: codec input_js input_of_js inputGuard
proof
  fix x :: attempt_input
  assume "inputGuard (input_js x)"
  then show "input_of_js (input_js x) = Some x"
    by (simp add: input_js_def input_of_js_def inputGuard_def g_oneOf_null codec_roundtrip)
next
  fix v
  assume "inputGuard v"
  then show "\<exists>x. input_of_js v = Some x"
    by (auto simp: input_of_js_def inputGuard_def g_oneOf_null dest!: g_fields_field codec_readable)
qed (simp add: input_js_def)

lemmas [codec_roundtrip] = input_codec.roundtrip

lemmas [codec_readable] = input_codec.readable

interpretation attempt_codec: codec attempt_js attempt_of_js attemptGuard
proof
  fix x :: attempt_record
  assume "attemptGuard (attempt_js x)"
  then show "attempt_of_js (attempt_js x) = Some x"
    by (simp add: attempt_js_def attempt_of_js_def attemptGuard_def g_oneOf_null codec_roundtrip)
next
  fix v
  assume "attemptGuard v"
  then show "\<exists>x. attempt_of_js v = Some x"
    by (auto simp: attempt_of_js_def attemptGuard_def g_oneOf_null dest!: g_fields_field codec_readable)
qed (simp add: attempt_js_def)

lemmas [codec_roundtrip] = attempt_codec.dict_roundtrip

lemmas [codec_readable] = attempt_codec.dict_readable

interpretation admission_codec: codec admission_js admission_of_js admissionGuard
proof
  fix x :: admission_record
  assume "admissionGuard (admission_js x)"
  then show "admission_of_js (admission_js x) = Some x"
    by (simp add: admission_js_def admission_of_js_def admissionGuard_def g_oneOf_null codec_roundtrip)
next
  fix v
  assume "admissionGuard v"
  then show "\<exists>x. admission_of_js v = Some x"
    by (auto simp: admission_of_js_def admissionGuard_def g_oneOf_null dest!: g_fields_field codec_readable)
qed (simp add: admission_js_def)

lemmas [codec_roundtrip] = admission_codec.dict_roundtrip

lemmas [codec_readable] = admission_codec.dict_readable

interpretation active_codec: codec active_js active_of_js activeGuard
proof
  fix x :: active_account
  assume "activeGuard (active_js x)"
  then show "active_of_js (active_js x) = Some x"
    by (simp add: active_js_def active_of_js_def activeGuard_def g_oneOf_null codec_roundtrip)
next
  fix v
  assume "activeGuard v"
  then show "\<exists>x. active_of_js v = Some x"
    by (auto simp: active_of_js_def activeGuard_def g_oneOf_null dest!: g_fields_field codec_readable)
qed (simp add: active_js_def)

lemmas [codec_roundtrip] = active_codec.opt_roundtrip

lemmas [codec_readable] = active_codec.opt_readable

interpretation policy_codec: codec policy_js policy_of_js policyGuard
proof
  fix x :: principal_policy
  assume "policyGuard (policy_js x)"
  then show "policy_of_js (policy_js x) = Some x"
    by (simp add: policy_js_def policy_of_js_def policyGuard_def g_oneOf_null codec_roundtrip)
next
  fix v
  assume "policyGuard v"
  then show "\<exists>x. policy_of_js v = Some x"
    by (auto simp: policy_of_js_def policyGuard_def g_oneOf_null dest!: g_fields_field codec_readable)
qed (simp add: policy_js_def)

lemmas [codec_roundtrip] = policy_codec.dict_roundtrip

lemmas [codec_readable] = policy_codec.dict_readable

interpretation window_codec: codec window_js window_of_js windowGuard
proof
  fix x :: principal_window
  assume "windowGuard (window_js x)"
  then show "window_of_js (window_js x) = Some x"
    by (simp add: window_js_def window_of_js_def windowGuard_def g_oneOf_null codec_roundtrip)
next
  fix v
  assume "windowGuard v"
  then show "\<exists>x. window_of_js v = Some x"
    by (auto simp: window_of_js_def windowGuard_def g_oneOf_null dest!: g_fields_field codec_readable)
qed (simp add: window_js_def)

lemmas [codec_roundtrip] = window_codec.dict_roundtrip

lemmas [codec_readable] = window_codec.dict_readable

interpretation publication_codec: codec publication_js publication_of_js publicationGuard
proof
  fix x :: access_authorization
  assume "publicationGuard (publication_js x)"
  then show "publication_of_js (publication_js x) = Some x"
    by (simp add: publication_js_def publication_of_js_def publicationGuard_def g_oneOf_null codec_roundtrip)
next
  fix v
  assume "publicationGuard v"
  then show "\<exists>x. publication_of_js v = Some x"
    by (auto simp: publication_of_js_def publicationGuard_def g_oneOf_null dest!: g_fields_field codec_readable)
qed (simp add: publication_js_def)

lemmas [codec_roundtrip] = publication_codec.dict_roundtrip

lemmas [codec_readable] = publication_codec.dict_readable

interpretation state_codec: codec state_js state_of_js stateGuard
proof
  fix x :: authority_state
  assume "stateGuard (state_js x)"
  then show "state_of_js (state_js x) = Some x"
    by (simp add: state_js_def state_of_js_def stateGuard_def g_oneOf_null codec_roundtrip)
next
  fix v
  assume "stateGuard v"
  then show "\<exists>x. state_of_js v = Some x"
    by (auto simp: state_of_js_def stateGuard_def g_oneOf_null dest!: g_fields_field codec_readable)
qed (simp add: state_js_def)

end
