(* ===== verification/Cas_Store.thy ===== *)
theory Cas_Store
  imports Gateway_Prelude
begin

text \<open>
  The contract of an authority store and what its clients get from it. A store is read as a
  revision and a state; a compare-and-swap that succeeds replaces exactly the revision it names.
  The client is the retry loop of \<^verbatim>\<open>PortableAuthority._transact\<close> and
  \<^verbatim>\<open>CredentialPublisher.publish\<close>: between any two of its accesses other clients may act
  on the store, which is the sequence \<open>env\<close> of their effects.
\<close>

type_synonym ('e, 'a, 'm) reader = "'m \<Rightarrow> 'e + (int \<times> 'a)"
type_synonym ('e, 'a, 'm) swapper = "int \<Rightarrow> 'a \<Rightarrow> 'm \<Rightarrow> 'e + (bool \<times> 'm)"

text \<open>
  One run of the loop with \<open>n\<close> attempts left: \<open>env i\<close> acts before the \<open>i\<close>-th access. The result is
  \<open>None\<close> when the attempts are used up.
\<close>

fun transact_loop ::
  "('e, 'a, 'm) reader \<Rightarrow> ('e, 'a, 'm) swapper \<Rightarrow> ('a \<Rightarrow> 'e + ('r \<times> 'a)) \<Rightarrow> nat \<Rightarrow> (nat \<Rightarrow> 'm \<Rightarrow> 'm) \<Rightarrow> nat \<Rightarrow> 'm \<Rightarrow>
   ('e + 'r) option \<times> 'm" where
  "transact_loop read cas action 0 env i st = (None, st)"
| "transact_loop read cas action (Suc n) env i st =
     (let st1 = env i st in
      case read st1 of
        Inl e \<Rightarrow> (Some (Inl e), st1)
      | Inr (revision, a) \<Rightarrow>
          (case action a of
             Inl e \<Rightarrow> (Some (Inl e), st1)
           | Inr (result, a') \<Rightarrow>
               let st2 = env (Suc i) st1 in
               (case cas revision a' st2 of
                  Inl e \<Rightarrow> (Some (Inl e), st2)
                | Inr (committed, st3) \<Rightarrow>
                    if committed then (Some (Inr result), st3)
                    else transact_loop read cas action n env (Suc (Suc i)) st3)))"

locale cas_store =
  fixes read :: "('e, 'a, 'm) reader" and cas :: "('e, 'a, 'm) swapper" and ok :: "'m \<Rightarrow> bool"
  assumes cas_commits: "ok m \<Longrightarrow> cas r a m = Inr (True, m') \<Longrightarrow>
      (\<exists>b. read m = Inr (r, b)) \<and> read m' = Inr (r + 1, a) \<and> ok m'"
    and cas_refuses: "ok m \<Longrightarrow> cas r a m = Inr (False, m') \<Longrightarrow> m' = m \<and> (\<forall>b. read m \<noteq> Inr (r, b))"
begin

definition swaps :: "'m \<Rightarrow> 'm \<Rightarrow> bool" where
  "swaps m m' \<longleftrightarrow> (\<exists>r a. cas r a m = Inr (True, m'))"

lemma swaps_ok: "swaps\<^sup>*\<^sup>* m m' \<Longrightarrow> ok m \<Longrightarrow> ok m'"
  by (induction rule: rtranclp_induct) (auto simp: swaps_def dest: cas_commits)

text \<open>Revisions only grow, so an unchanged revision means an unchanged store.\<close>

lemma swaps_revision:
  assumes "swaps\<^sup>*\<^sup>* m m'" and "ok m" and "read m = Inr (r, a)"
  shows "\<exists>r' a'. read m' = Inr (r', a') \<and> r \<le> r' \<and> (r' = r \<longrightarrow> m' = m)"
  using assms
proof (induction rule: rtranclp_induct)
  case (step m1 m2)
  then obtain r1 a1 where m1: "read m1 = Inr (r1, a1)" "r \<le> r1" by blast
  have "ok m1" using swaps_ok step.hyps(1) step.prems(1) by blast
  moreover from step.hyps(2) obtain r2 b where "cas r2 b m1 = Inr (True, m2)" by (auto simp: swaps_def)
  ultimately have "(\<exists>c. read m1 = Inr (r2, c)) \<and> read m2 = Inr (r2 + 1, b)" using cas_commits by blast
  with m1 show ?case by auto
qed auto

text \<open>
  The other clients move the store by swaps of a kind \<open>R\<close>; with \<open>R\<close> the swaps themselves nothing
  is assumed about what they write.
\<close>

definition others :: "('m \<Rightarrow> 'm \<Rightarrow> bool) \<Rightarrow> (nat \<Rightarrow> 'm \<Rightarrow> 'm) \<Rightarrow> bool" where
  "others R env \<longleftrightarrow> R \<le> swaps \<and> (\<forall>i m. ok m \<longrightarrow> R\<^sup>*\<^sup>* m (env i m))"

lemma loop_step:
  assumes "others R env" and "ok m"
  shows "R\<^sup>*\<^sup>* m (env i m)" and "swaps\<^sup>*\<^sup>* m (env i m)" and "ok (env i m)"
proof -
  show R: "R\<^sup>*\<^sup>* m (env i m)" using assms by (simp add: others_def)
  from assms(1) have "R\<^sup>*\<^sup>* \<le> swaps\<^sup>*\<^sup>*" by (simp add: others_def rtranclp_mono)
  with R show "swaps\<^sup>*\<^sup>* m (env i m)" by blast
  then show "ok (env i m)" using assms(2) by (rule swaps_ok)
qed

text \<open>
  A loop that answers with a result took effect at one instant: the other clients brought the store
  to some \<open>m1\<close>, the action was applied to the state of \<open>m1\<close>, and the very next store holds what it
  returned.
\<close>

lemma loop_commits:
  assumes "others R env" and "ok m" and "transact_loop read cas action n env i m = (Some (Inr x), m')"
  shows "\<exists>m1 r a a'. R\<^sup>*\<^sup>* m m1 \<and> read m1 = Inr (r, a) \<and> action a = Inr (x, a') \<and>
    cas r a' m1 = Inr (True, m') \<and> read m' = Inr (r + 1, a')"
  using assms(2,3)
proof (induction n arbitrary: i m)
  case (Suc n)
  let ?m1 = "env i m" and ?m2 = "env (Suc i) (env i m)"
  note m1 = loop_step [OF assms(1) Suc.prems(1), of i]
  note m2 = loop_step [OF assms(1) m1(3), of "Suc i"]
  from Suc.prems(2) obtain r a y a' c m3 where
    r: "read ?m1 = Inr (r, a)" "action a = Inr (y, a')" "cas r a' ?m2 = Inr (c, m3)"
    by (auto simp: Let_def split: sum.splits prod.splits)
  show ?case
  proof (cases c)
    case True
    with Suc.prems(2) r have y: "y = x" "m' = m3" by auto
    from r(3) True have "cas r a' ?m2 = Inr (True, m3)" by simp
    from cas_commits [OF m2(3) this] obtain b where b: "read ?m2 = Inr (r, b)" "read m3 = Inr (r + 1, a')" by blast
    with swaps_revision [OF m2(2) m1(3) r(1)] have "?m2 = ?m1" by auto
    with r(3) True y have "cas r a' ?m1 = Inr (True, m')" by simp
    with m1(1) r(1,2) y b(2) show ?thesis by blast
  next
    case False
    with r(3) cas_refuses [OF m2(3), of r a' m3] have "m3 = ?m2" by simp
    moreover from Suc.prems(2) r False have "transact_loop read cas action n env (Suc (Suc i)) m3 = (Some (Inr x), m')"
      by simp
    ultimately obtain m4 r4 b b' where "R\<^sup>*\<^sup>* ?m2 m4" "read m4 = Inr (r4, b)" "action b = Inr (x, b')"
      "cas r4 b' m4 = Inr (True, m')" "read m' = Inr (r4 + 1, b')"
      using Suc.IH [OF m2(3)] by blast
    moreover have "R\<^sup>*\<^sup>* m m4" using m1(1) m2(1) calculation(1) by (meson rtranclp_trans)
    ultimately show ?thesis by blast
  qed
qed simp

text \<open>A loop that throws, or gives up, changed nothing: the store moved only by the other clients.\<close>

lemma loop_aborts:
  assumes "others R env" and "ok m" and "transact_loop read cas action n env i m = (o', m')"
    and "\<forall>x. o' \<noteq> Some (Inr x)"
  shows "R\<^sup>*\<^sup>* m m'"
  using assms(2,3)
proof (induction n arbitrary: i m)
  case (Suc n)
  let ?m1 = "env i m" and ?m2 = "env (Suc i) (env i m)"
  note m1 = loop_step [OF assms(1) Suc.prems(1), of i]
  note m2 = loop_step [OF assms(1) m1(3), of "Suc i"]
  have m: "R\<^sup>*\<^sup>* m ?m2" using m1(1) m2(1) by (meson rtranclp_trans)
  consider (Early) "m' = ?m1 \<or> m' = ?m2"
    | (Again) r a m3 where "cas r a ?m2 = Inr (False, m3)" "transact_loop read cas action n env (Suc (Suc i)) m3 = (o', m')"
    using Suc.prems(2) assms(4) by (auto simp: Let_def split: sum.splits prod.splits if_splits)
  then show ?case
  proof cases
    case Early
    with m m1(1) show ?thesis by auto
  next
    case Again
    with cas_refuses [OF m2(3)] have "m3 = ?m2" by blast
    with Again Suc.IH [OF m2(3)] have "R\<^sup>*\<^sup>* ?m2 m'" by blast
    with m show ?thesis by (meson rtranclp_trans)
  qed
qed simp

text \<open>
  Giving up is the other clients' progress: each of the \<open>n\<close> refusals means that somebody else
  committed in between.
\<close>

lemma loop_gives_up:
  assumes "others R env" and "ok m" and "read m = Inr (r, a)" and "transact_loop read cas action n env i m = (None, m')"
  shows "\<exists>r' a'. read m' = Inr (r', a') \<and> r + int n \<le> r'"
  using assms(2-)
proof (induction n arbitrary: i m r a)
  case (Suc n)
  let ?m1 = "env i m" and ?m2 = "env (Suc i) (env i m)"
  note m1 = loop_step [OF assms(1) Suc.prems(1), of i]
  note m2 = loop_step [OF assms(1) m1(3), of "Suc i"]
  from Suc.prems(3) obtain r1 a1 y b m3 where
    r1: "read ?m1 = Inr (r1, a1)" "cas r1 b ?m2 = Inr (False, m3)"
    and again: "transact_loop read cas action n env (Suc (Suc i)) m3 = (None, m')"
    by (auto simp: Let_def split: sum.splits prod.splits if_splits)
  have "r \<le> r1" using swaps_revision [OF m1(2) Suc.prems(1,2)] r1(1) by auto
  moreover obtain r2 a2 where r2: "read ?m2 = Inr (r2, a2)" "r1 \<le> r2"
    using swaps_revision [OF m2(2) m1(3) r1(1)] by blast
  moreover from cas_refuses [OF m2(3) r1(2)] have m3: "m3 = ?m2" and "r2 \<noteq> r1" using r2(1) by auto
  ultimately have "r + 1 \<le> r2" by linarith
  moreover obtain r' a' where "read m' = Inr (r', a') \<and> r2 + int n \<le> r'"
    using Suc.IH [OF m2(3) r2(1)] again m3 by blast
  ultimately show ?case by fastforce
qed simp

end

end
