(* ===== verification/Durable_Store.thy ===== *)
theory Durable_Store
  imports Authority_Json Cas_Store
begin

text \<open>
  \<^verbatim>\<open>DurableAuthorityStore\<close> (\<^verbatim>\<open>src/src/authority/durable-store.ts\<close>): one row of
  one SQL table. The code looks at a stored text only through \<^verbatim>\<open>JSON.parse\<close> and through
  its length in bytes, so a text is modelled by those two observations; what SQL returns in the other
  columns is any value. The table's primary key is fixed to 1, so it has at most one row.
\<close>

record stored_text =
  tx_value :: "js option"
  tx_bytes :: int

datatype cell = TextCell stored_text | OtherCell

record atom_row =
  row_schema_version :: js
  row_revision :: js
  row_state_json :: cell

record durable_store =
  ds_scope :: authority_scope
  ds_maximumStateBytes :: int
  ds_row :: "atom_row option"

definition SCHEMA_VERSION :: js where
  "SCHEMA_VERSION = jint 1"

definition bounded :: "int \<Rightarrow> stored_text \<Rightarrow> authority_error + unit" where
  "bounded maximum t = ensure (tx_bytes t \<le> maximum) (AuthorityError ''authority_state_too_large'' 503)"

definition json_of :: "js \<Rightarrow> stored_text" where
  "json_of v = \<lparr>tx_value = Some v, tx_bytes = utf8_length (json_print v)\<rparr>"

definition encode :: "authority_scope \<Rightarrow> int \<Rightarrow> authority_state \<Rightarrow> authority_error + stored_text" where
  "encode sc maximum state =
     rbind (ensure (stateGuard (state_js state)) (AuthorityError ''invalid_authority_state'' 503)) (\<lambda>_.
     rbind (ensure (sameScope (as_scope state) sc) (AuthorityError ''namespace_or_epoch_mismatch'' 403)) (\<lambda>_.
     let encoded = json_of (state_js state)
     in rbind (bounded maximum encoded) (\<lambda>_. Inr encoded)))"

definition readRow :: "authority_scope \<Rightarrow> int \<Rightarrow> atom_row option \<Rightarrow> authority_error + (int \<times> authority_state)" where
  "readRow sc maximum row =
     (case row of
        None \<Rightarrow> Inl (AuthorityError ''authority_schema_mismatch'' 503)
      | Some r \<Rightarrow>
          rbind (ensure (row_schema_version r = SCHEMA_VERSION) (AuthorityError ''authority_schema_mismatch'' 503)) (\<lambda>_.
          case (js_int (row_revision r), row_state_json r) of
            (Some revision, TextCell t) \<Rightarrow>
              if revision < 0 then Inl (AuthorityError ''invalid_authority_record'' 503)
              else
                rbind (bounded maximum t) (\<lambda>_.
                rbind (require (tx_value t) (AuthorityError ''invalid_authority_state'' 503)) (\<lambda>v.
                rbind (ensure (stateGuard v) (AuthorityError ''invalid_authority_state'' 503)) (\<lambda>_.
                rbind (require (state_of_js v) TypeError) (\<lambda>state.
                rbind (ensure (sameScope (as_scope state) sc)
                         (AuthorityError ''namespace_or_epoch_mismatch'' 403)) (\<lambda>_.
                Inr (revision, state))))))
          | _ \<Rightarrow> Inl (AuthorityError ''invalid_authority_record'' 503)))"

definition readStore :: "durable_store \<Rightarrow> authority_error + (int \<times> authority_state)" where
  "readStore st = readRow (ds_scope st) (ds_maximumStateBytes st) (ds_row st)"

definition openStore :: "atom_row option \<Rightarrow> authority_state \<Rightarrow> int \<Rightarrow> authority_error + durable_store" where
  "openStore row initial maximum =
     rbind (ensure (is_safe_integer maximum \<and> 1 \<le> maximum)
              (AuthorityError ''invalid_authority_storage_bound'' 400)) (\<lambda>_.
     rbind (encode (as_scope initial) maximum initial) (\<lambda>encoded.
     let row1 = (case row of
           None \<Rightarrow> \<lparr>row_schema_version = SCHEMA_VERSION, row_revision = jint 0, row_state_json = TextCell encoded\<rparr>
         | Some r \<Rightarrow> r);
         st = \<lparr>ds_scope = as_scope initial, ds_maximumStateBytes = maximum, ds_row = Some row1\<rparr>
     in rbind (readStore st) (\<lambda>_. Inr st)))"

definition compareAndSwap :: "int \<Rightarrow> authority_state \<Rightarrow> durable_store \<Rightarrow> authority_error + (bool \<times> durable_store)" where
  "compareAndSwap revision state st =
     rbind (ensure (is_safe_integer revision \<and> 0 \<le> revision \<and> revision < max_safe_integer)
              (AuthorityError ''invalid_authority_revision'' 400)) (\<lambda>_.
     rbind (encode (ds_scope st) (ds_maximumStateBytes st) state) (\<lambda>encoded.
     rbind (readStore st) (\<lambda>(current, _).
     if current \<noteq> revision then Inr (False, st)
     else Inr (True, st\<lparr>ds_row := map_option (\<lambda>r. r\<lparr>row_revision := jint (revision + 1),
                                   row_state_json := TextCell encoded\<rparr>) (ds_row st)\<rparr>))))"

section \<open>The store keeps its contract\<close>

lemma encode_ok:
  assumes "encode sc maximum s = Inr t"
  shows "t = json_of (state_js s)" and "stateGuard (state_js s)" and "as_scope s = sc" and "bounded maximum t = Inr ()"
  using assms by (auto simp: encode_def result_iffs Let_def sameScope_eq)

lemma readRow_written:
  assumes "encode sc maximum s = Inr t" and "0 \<le> r" and "is_safe_integer r" and "row_schema_version row = SCHEMA_VERSION"
  shows "readRow sc maximum (Some (row\<lparr>row_revision := jint r, row_state_json := TextCell t\<rparr>)) = Inr (r, s)"
proof -
  note e = encode_ok [OF assms(1)]
  have "tx_value t = Some (state_js s)" by (simp add: e(1) json_of_def)
  moreover have "state_of_js (state_js s) = Some s" using e(2) by (rule state_codec.roundtrip)
  ultimately show ?thesis
    using e(2-4) assms(2-4) by (simp add: readRow_def ensure_def require_def sameScope_eq)
qed

lemma compareAndSwap_commits:
  assumes "compareAndSwap r s st = Inr (True, st')"
  shows "\<exists>a. readStore st = Inr (r, a)" and "readStore st' = Inr (r + 1, s)"
    and "ds_scope st' = ds_scope st" and "ds_maximumStateBytes st' = ds_maximumStateBytes st"
proof -
  from assms obtain t a where r: "0 \<le> r" "r < max_safe_integer"
    and t: "encode (ds_scope st) (ds_maximumStateBytes st) s = Inr t" and a: "readStore st = Inr (r, a)"
    and st': "st' = st\<lparr>ds_row := map_option (\<lambda>x. x\<lparr>row_revision := jint (r + 1), row_state_json := TextCell t\<rparr>) (ds_row st)\<rparr>"
    by (auto simp: compareAndSwap_def result_iffs split: if_splits)
  from a obtain row where row: "ds_row st = Some row" "row_schema_version row = SCHEMA_VERSION"
    by (auto simp: readStore_def readRow_def result_iffs split: option.splits)
  have "is_safe_integer (r + 1)" using r by (simp add: is_safe_integer_def max_safe_integer_def)
  from readRow_written [OF t _ this row(2)] r(1) show "readStore st' = Inr (r + 1, s)"
    by (simp add: readStore_def st' row(1))
  show "\<exists>a. readStore st = Inr (r, a)" using a by blast
qed (use assms in \<open>auto simp: compareAndSwap_def result_iffs split: if_splits\<close>)

interpretation durable: cas_store readStore compareAndSwap "\<lambda>_. True"
proof
  fix m r a m'
  assume "compareAndSwap r a m = Inr (True, m')"
  from compareAndSwap_commits [OF this]
  show "(\<exists>b. readStore m = Inr (r, b)) \<and> readStore m' = Inr (r + 1, a) \<and> True" by simp
next
  fix m r a m'
  assume "compareAndSwap r a m = Inr (False, m')"
  then show "m' = m \<and> (\<forall>b. readStore m \<noteq> Inr (r, b))"
    by (auto simp: compareAndSwap_def result_iffs split: if_splits)
qed

lemma openStore_new:
  assumes "openStore None initial maximum = Inr st"
  shows "readStore st = Inr (0, initial)"
proof -
  from assms obtain t where t: "encode (as_scope initial) maximum initial = Inr t"
    and st: "st = \<lparr>ds_scope = as_scope initial, ds_maximumStateBytes = maximum, ds_row =
        Some \<lparr>row_schema_version = SCHEMA_VERSION, row_revision = jint 0, row_state_json = TextCell t\<rparr>\<rparr>"
    by (auto simp: openStore_def result_iffs Let_def)
  from readRow_written [OF t, of 0 "\<lparr>row_schema_version = SCHEMA_VERSION, row_revision = jint 0, row_state_json = TextCell t\<rparr>"]
  show ?thesis by (simp add: readStore_def st is_safe_integer_def max_safe_integer_def)
qed

end
