(* ===== verification/Admission_State.thy ===== *)
theory Admission_State
  imports Authority_Contracts
begin

text \<open>
  The transactions of \<^verbatim>\<open>PortableAuthority\<close>
  (\<^verbatim>\<open>src/src/authority/admission-state.ts\<close>). Each operation is the callback that the
  source passes to \<^verbatim>\<open>_transact\<close>, from the state it clones to a result and the state
  it offers to the compare-and-swap; a thrown error leaves the store as it was. The retry loop
  around them is in \<^verbatim>\<open>Authority_Store\<close>.
\<close>

section \<open>State, accounts and selection\<close>

definition emptyWindow :: principal_window where
  "emptyWindow = \<lparr>pw_reserved = 0, pw_dispatched = 0, pw_kernelReserved = 0, pw_kernelCompleted = 0,
     pw_active = 0, pw_paidReservedMicrocredits = 0, pw_paidSettledMicrocredits = 0\<rparr>"

definition createAuthorityState ::
  "authority_scope \<Rightarrow> account_binding list \<Rightarrow> principal_policy list \<Rightarrow> authority_state" where
  "createAuthorityState sc accounts policies =
     \<lparr>as_scope = sc, as_sequence = 0, as_accounts = accounts, as_active = None,
      as_policies = foldl (\<lambda>d p. put (pp_principalId p) p d) [] policies,
      as_windows = [], as_admissions = [], as_publications = []\<rparr>"

definition applicableProof :: "account_binding \<Rightarrow> string \<Rightarrow> int \<Rightarrow> account_proof option" where
  "applicableProof account model now =
     (case ab_proof account of
        None \<Rightarrow> None
      | Some p \<Rightarrow>
          if pr_fingerprint p = ab_fingerprint account \<and> pr_model p = model \<and>
             pr_observedAtMs p \<le> now \<and> now < pr_validUntilMs p
          then Some p else None)"

definition cohort :: "authority_state \<Rightarrow> string \<Rightarrow> account_binding list" where
  "cohort state model = filter (\<lambda>a. ab_enabled a \<and> model \<in> set (ab_models a)) (as_accounts state)"

definition unavailable :: "account_binding \<Rightarrow> string \<Rightarrow> int \<Rightarrow> bool" where
  "unavailable account model now =
     (case applicableProof account model now of
        None \<Rightarrow> False
      | Some p \<Rightarrow> pr_kind p = QuotaExhausted \<or> pr_kind p = CredentialInvalid)"

definition poolExhausted :: "authority_state \<Rightarrow> string \<Rightarrow> int \<Rightarrow> bool" where
  "poolExhausted state model now \<longleftrightarrow>
     cohort state model \<noteq> [] \<and> (\<forall>a \<in> set (cohort state model). unavailable a model now)"

definition activate :: "authority_state \<Rightarrow> account_binding \<Rightarrow> int \<Rightarrow> authority_state" where
  "activate state account generation =
     state\<lparr>as_active := Some \<lparr>ac_accountId = ab_accountId account,
        ac_fingerprint = ab_fingerprint account, ac_generation = generation\<rparr>\<rparr>"

definition currentAccount :: "authority_state \<Rightarrow> account_binding option" where
  "currentAccount state =
     find (\<lambda>a. ab_enabled a \<and> Some (ab_accountId a) = map_option ac_accountId (as_active state))
       (as_accounts state)"

definition selectNext ::
  "authority_state \<Rightarrow> string \<Rightarrow> int \<Rightarrow> account_binding option authority_result" where
  "selectNext state model now =
     (case find (\<lambda>a. applicableProof a model now = None) (cohort state model) of
        Some a \<Rightarrow>
          Inr (Some a, activate state a ((case as_active state of None \<Rightarrow> 0 | Some c \<Rightarrow> ac_generation c) + 1))
      | None \<Rightarrow>
          if \<not> poolExhausted state model now then Inl (AuthorityError ''routing_unavailable'' 503)
          else Inr (None, state))"

definition selectAccount ::
  "authority_state \<Rightarrow> string \<Rightarrow> int \<Rightarrow> account_binding option authority_result" where
  "selectAccount state model now =
     (case currentAccount state of
        None \<Rightarrow> selectNext state model now
      | Some current \<Rightarrow>
          if model \<notin> set (ab_models current) then Inl (AuthorityError ''active_model_unavailable'' 503)
          else if map_option pr_kind (applicableProof current model now) = Some Transient
          then Inl (AuthorityError ''routing_unavailable'' 503)
          else if \<not> unavailable current model now
          then Inr (Some current,
                 activate state current (case as_active state of None \<Rightarrow> 1 | Some c \<Rightarrow> ac_generation c))
          else selectNext state model now)"

section \<open>Shared steps of the transactions\<close>

definition livePolicy :: "authority_state \<Rightarrow> string \<Rightarrow> int \<Rightarrow> authority_error + principal_policy" where
  "livePolicy state pid version =
     (case lookup (as_policies state) pid of
        None \<Rightarrow> Inl (AuthorityError ''principal_policy_changed'' 403)
      | Some p \<Rightarrow>
          if pp_deleted p \<or> pp_version p \<noteq> version
          then Inl (AuthorityError ''principal_policy_changed'' 403) else Inr p)"

definition windowKeyFor :: "string \<Rightarrow> principal_policy \<Rightarrow> string" where
  "windowKeyFor pid p = json_text_number pid (pp_windowResetAtMs p)"

definition windowCurrent :: "admission_record \<Rightarrow> principal_policy \<Rightarrow> int \<Rightarrow> authority_error + unit" where
  "windowCurrent request p now =
     ensure (now < pp_windowResetAtMs p \<and> ad_windowKey request = windowKeyFor (ad_principalId request) p)
       (AuthorityError ''quota_window_changed'' 409)"

definition requestOf :: "authority_state \<Rightarrow> admission_handle \<Rightarrow> authority_error + admission_record" where
  "requestOf state handle =
     (case lookup (as_admissions state) (hd_requestId handle) of
        None \<Rightarrow> Inl (conflict ''admission_fence_mismatch'')
      | Some r \<Rightarrow>
          if hd_fence (ad_handle r) \<noteq> hd_fence handle then Inl (conflict ''admission_fence_mismatch'')
          else Inr r)"

definition putRequest :: "admission_handle \<Rightarrow> admission_record \<Rightarrow> authority_state \<Rightarrow> authority_state" where
  "putRequest handle r state = state\<lparr>as_admissions := put (hd_requestId handle) r (as_admissions state)\<rparr>"

definition updateWindow ::
  "string \<Rightarrow> (principal_window \<Rightarrow> principal_window) \<Rightarrow> authority_state \<Rightarrow> authority_error + authority_state" where
  "updateWindow key f state =
     (case map_of (as_windows state) key of
        None \<Rightarrow> Inl TypeError
      | Some w \<Rightarrow> Inr (state\<lparr>as_windows := put key (f w) (as_windows state)\<rparr>))"

definition putAttempt :: "string \<Rightarrow> attempt_record \<Rightarrow> admission_record \<Rightarrow> admission_record" where
  "putAttempt k a r = r\<lparr>ad_attempts := put k a (ad_attempts r)\<rparr>"

definition findAccount :: "authority_state \<Rightarrow> account_binding option \<Rightarrow> account_binding option" where
  "findAccount state binding =
     find (\<lambda>a. Some (ab_accountId a) = map_option ab_accountId binding) (as_accounts state)"

fun replaceFirst :: "('a \<Rightarrow> bool) \<Rightarrow> 'a \<Rightarrow> 'a list \<Rightarrow> 'a list" where
  "replaceFirst P v [] = []"
| "replaceFirst P v (x # xs) = (if P x then v # xs else x # replaceFirst P v xs)"

fun assertAmounts :: "int list \<Rightarrow> authority_error + unit" where
  "assertAmounts [] = Inr ()"
| "assertAmounts (v # vs) = rbind (assertAmount v) (\<lambda>_. assertAmounts vs)"

section \<open>Admission\<close>

definition newAdmission ::
  "admit_input \<Rightarrow> admission_handle \<Rightarrow> string \<Rightarrow> account_binding option \<Rightarrow> int option \<Rightarrow> admission_record" where
  "newAdmission input handle windowKey account generation =
     \<lparr>ad_handle = handle, ad_principalId = in_principalId input, ad_policyVersion = in_policyVersion input,
      ad_windowKey = windowKey, ad_digest = in_digest input, ad_route = in_route input,
      ad_model = in_model input, ad_account = account, ad_activeGeneration = generation,
      ad_attempts = [], ad_dispatched = False, ad_semantic = None, ad_kernelSettled = False,
      ad_delivery = None, ad_settled = False\<rparr>"

definition sameIdentity :: "admission_record \<Rightarrow> admit_input \<Rightarrow> bool" where
  "sameIdentity previous input \<longleftrightarrow>
     ad_digest previous = in_digest input \<and> ad_principalId previous = in_principalId input \<and>
     ad_model previous = in_model input \<and> ad_route previous = in_route input \<and>
     ad_policyVersion previous = in_policyVersion input"

definition quotaFree :: "principal_policy \<Rightarrow> principal_window \<Rightarrow> int \<Rightarrow> bool" where
  "quotaFree policy w act \<longleftrightarrow>
     \<not> (pw_reserved w + pw_dispatched w \<ge> pp_requestLimit policy \<or>
        pw_kernelReserved w + pw_kernelCompleted w \<ge> pp_kernelLimit policy \<or>
        act \<ge> pp_concurrencyLimit policy)"

definition admitNew :: "admit_input \<Rightarrow> authority_state \<Rightarrow> admission_handle authority_result" where
  "admitNew input state =
     rbind (livePolicy state (in_principalId input) (in_policyVersion input)) (\<lambda>policy.
     rbind (ensure (in_nowMs input < pp_windowResetAtMs policy)
              (AuthorityError ''quota_window_requires_refresh'' 503)) (\<lambda>_.
     rbind (assertAmounts [pp_requestLimit policy, pp_kernelLimit policy,
              pp_concurrencyLimit policy, pp_paidLimitMicrocredits policy]) (\<lambda>_.
     let windowKey = windowKeyFor (in_principalId input) policy;
         window = (case map_of (as_windows state) windowKey of None \<Rightarrow> emptyWindow | Some w \<Rightarrow> w);
         active = int (length (filter (\<lambda>r. ad_principalId r = in_principalId input \<and> \<not> ad_settled r)
                         (vals (as_admissions state))))
     in
     rbind (ensure (quotaFree policy window active) (AuthorityError ''principal_quota_exceeded'' 429)) (\<lambda>_.
     rbind (selectAccount state (in_model input) (in_nowMs input)) (\<lambda>(account, state1).
     let fence = as_sequence state1 + 1;
         handle = \<lparr>hd_scope = in_scope input, hd_requestId = in_requestId input, hd_fence = fence\<rparr>;
         record = newAdmission input handle windowKey account (map_option ac_generation (as_active state1))
     in Inr (handle, state1\<lparr>as_sequence := fence,
          as_windows := assign windowKey
            (window\<lparr>pw_reserved := pw_reserved window + 1, pw_kernelReserved := pw_kernelReserved window + 1,
               pw_active := pw_active window + 1\<rparr>) (as_windows state1),
          as_admissions := assign (in_requestId input) record (as_admissions state1)\<rparr>))))))"

definition admit :: "admit_input \<Rightarrow> authority_state \<Rightarrow> admission_handle authority_result" where
  "admit input state =
     (case lookup (as_admissions state) (in_requestId input) of
        Some previous \<Rightarrow>
          if sameIdentity previous input then Inr (ad_handle previous, state)
          else Inl (conflict ''request_identity_conflict'')
      | None \<Rightarrow> admitNew input state)"

section \<open>Attempts\<close>

definition reserveSubscription ::
  "authority_state \<Rightarrow> admission_record \<Rightarrow> attempt_input \<Rightarrow> int \<Rightarrow> authority_error + authority_state" where
  "reserveSubscription state request input now =
     rbind (ensure (ai_account input \<noteq> None \<and> sameEvidence (ai_account input) (ad_account request) \<and>
              ai_maximumExposureMicrocredits input = 0) (conflict ''account_fence_mismatch'')) (\<lambda>_.
     case (findAccount state (ai_account input), as_active state) of
       (Some current, Some act) \<Rightarrow>
         if \<not> sameEvidence (Some current) (ai_account input) \<or>
            Some (ac_generation act) \<noteq> ad_activeGeneration request \<or>
            ac_accountId act \<noteq> ab_accountId current
         then Inl (conflict ''account_fence_mismatch'')
         else if applicableProof current (ad_model request) now \<noteq> None
         then Inl (AuthorityError ''routing_unavailable'' 503)
         else Inr state
     | _ \<Rightarrow> Inl (conflict ''account_fence_mismatch''))"

definition paidAttempts :: "admission_record \<Rightarrow> attempt_record list" where
  "paidAttempts r = filter (\<lambda>a. ai_provider (at_input a) \<noteq> Codex) (vals (ad_attempts r))"

definition fallbackTerminal :: "attempt_record \<Rightarrow> bool" where
  "fallbackTerminal a = (case at_terminal a of None \<Rightarrow> False | Some t \<Rightarrow> te_fallback t \<noteq> None)"

definition surplusFellBack :: "attempt_record list \<Rightarrow> bool" where
  "surplusFellBack paid =
     (case paid of [a] \<Rightarrow> ai_provider (at_input a) = Surplus \<and> fallbackTerminal a | _ \<Rightarrow> False)"

definition reservePaid ::
  "authority_state \<Rightarrow> admission_record \<Rightarrow> attempt_input \<Rightarrow> principal_policy \<Rightarrow> int \<Rightarrow>
   authority_error + authority_state" where
  "reservePaid state request input policy now =
     rbind (ensure (ai_account input = None) (conflict ''paid_account_binding_forbidden'')) (\<lambda>_.
     rbind (ensure (poolExhausted state (ad_model request) now)
              (AuthorityError ''paid_pool_proof_required'' 503)) (\<lambda>_.
     rbind (ensure (\<not> (ai_provider input = Surplus \<and> paidAttempts request \<noteq> []))
              (conflict ''provider_order_conflict'')) (\<lambda>_.
     rbind (ensure (\<not> (ai_provider input = Openlux \<and> \<not> surplusFellBack (paidAttempts request)))
              (AuthorityError ''paid_capacity_proof_required'' 503)) (\<lambda>_.
     rbind (require (map_of (as_windows state) (ad_windowKey request)) TypeError) (\<lambda>window.
     rbind (ensure (pw_paidReservedMicrocredits window + pw_paidSettledMicrocredits window +
                ai_maximumExposureMicrocredits input \<le> pp_paidLimitMicrocredits policy)
              (AuthorityError ''paid_limit_exceeded'' 429)) (\<lambda>_.
     updateWindow (ad_windowKey request) (\<lambda>w. w\<lparr>pw_paidReservedMicrocredits :=
        pw_paidReservedMicrocredits w + ai_maximumExposureMicrocredits input\<rparr>) state))))))"

definition newAttempt :: "attempt_input \<Rightarrow> attempt_record" where
  "newAttempt input = \<lparr>at_input = input, at_state = Reserved, at_terminal = None,
     at_billingSettled = False, at_settledSpendMicrocredits = None\<rparr>"

definition addAttempt :: "admission_record \<Rightarrow> attempt_input \<Rightarrow> admission_record" where
  "addAttempt r input = r\<lparr>ad_attempts := assign (ai_attemptId input) (newAttempt input) (ad_attempts r)\<rparr>"

definition reserveAttempt ::
  "admission_handle \<Rightarrow> attempt_input \<Rightarrow> int \<Rightarrow> authority_state \<Rightarrow> unit authority_result" where
  "reserveAttempt handle input now state =
     rbind (assertAmount (ai_maximumExposureMicrocredits input)) (\<lambda>_.
     rbind (requestOf state handle) (\<lambda>request.
     rbind (ensure (\<not> ad_settled request \<and> ad_semantic request = None) (conflict ''admission_closed'')) (\<lambda>_.
     case lookup (ad_attempts request) (ai_attemptId input) of
       Some existing \<Rightarrow>
         if sameEvidence (at_input existing) input then Inr ((), state)
         else Inl (conflict ''attempt_identity_conflict'')
     | None \<Rightarrow>
         rbind (ensure (\<forall>a \<in> set (vals (ad_attempts request)).
                  \<not> (at_state a \<noteq> NotDispatched \<and> at_terminal a = None))
                 (conflict ''attempt_outcome_pending'')) (\<lambda>_.
         rbind (livePolicy state (ad_principalId request) (ad_policyVersion request)) (\<lambda>policy.
         rbind (windowCurrent request policy now) (\<lambda>_.
         rbind (if ai_provider input = Codex then reserveSubscription state request input now
                else reservePaid state request input policy now) (\<lambda>state1.
         Inr ((), putRequest handle (addAttempt request input) state1))))))))"

definition beginDispatch ::
  "admission_handle \<Rightarrow> string \<Rightarrow> int \<Rightarrow> authority_state \<Rightarrow> bool authority_result" where
  "beginDispatch handle attemptId now state =
     rbind (requestOf state handle) (\<lambda>request.
     rbind (require (lookup (ad_attempts request) attemptId) (conflict ''attempt_missing'')) (\<lambda>att.
     if at_state att \<noteq> Reserved then Inr (False, state) else
     rbind (livePolicy state (ad_principalId request) (ad_policyVersion request)) (\<lambda>policy.
     rbind (ensure (\<not> ad_settled request) (AuthorityError ''principal_policy_changed'' 403)) (\<lambda>_.
     rbind (windowCurrent request policy now) (\<lambda>_.
     rbind (if ai_account (at_input att) \<noteq> None
            then ensure (sameEvidence (findAccount state (ai_account (at_input att))) (ai_account (at_input att)) \<and>
                         map_option ac_generation (as_active state) = ad_activeGeneration request)
                   (conflict ''account_fence_mismatch'')
            else ensure (poolExhausted state (ad_model request) now)
                   (AuthorityError ''paid_pool_proof_required'' 503)) (\<lambda>_.
     Inr (True, putRequest handle (putAttempt attemptId (att\<lparr>at_state := DispatchIntent\<rparr>) request) state)))))))"

definition selection ::
  "admission_handle \<Rightarrow> authority_state \<Rightarrow>
   (account_binding option \<times> string \<times> gateway_route) authority_result" where
  "selection handle state =
     rbind (requestOf state handle) (\<lambda>r. Inr ((ad_account r, ad_model r, ad_route r), state))"

definition hopCompleted :: "admission_record \<Rightarrow> bool" where
  "hopCompleted request \<longleftrightarrow>
     (\<exists>a \<in> set (vals (ad_attempts request)).
        at_state a = Dispatched \<and> sameEvidence (ai_account (at_input a)) (ad_account request)) \<and>
     \<not> (\<exists>a \<in> set (vals (ad_attempts request)).
          at_state a \<noteq> NotDispatched \<and> (at_state a \<noteq> Dispatched \<or> at_terminal a = None))"

definition reselectSubscription ::
  "admission_handle \<Rightarrow> int \<Rightarrow> authority_state \<Rightarrow> account_binding option authority_result" where
  "reselectSubscription handle now state =
     rbind (requestOf state handle) (\<lambda>request.
     rbind (ensure (\<not> ad_settled request \<and> ad_semantic request = None) (conflict ''admission_closed'')) (\<lambda>_.
     rbind (ensure (paidAttempts request = []) (conflict ''provider_order_conflict'')) (\<lambda>_.
     rbind (ensure (hopCompleted request) (conflict ''attempt_outcome_pending'')) (\<lambda>_.
     rbind (livePolicy state (ad_principalId request) (ad_policyVersion request)) (\<lambda>policy.
     rbind (windowCurrent request policy now) (\<lambda>_.
     case (ad_account request, findAccount state (ad_account request)) of
       (Some binding, Some current) \<Rightarrow>
         if \<not> sameEvidence (current\<lparr>ab_proof := ab_proof binding\<rparr>) binding
         then Inl (conflict ''account_fence_mismatch'')
         else if \<not> unavailable current (ad_model request) now
         then Inl (AuthorityError ''subscription_proof_required'' 503)
         else rbind (selectAccount state (ad_model request) now) (\<lambda>(account, state1).
           Inr (account, putRequest handle
             (request\<lparr>ad_account := account,
                ad_activeGeneration := map_option ac_generation (as_active state1)\<rparr>) state1))
     | _ \<Rightarrow> Inl (conflict ''account_fence_mismatch'')))))))"

definition confirmDispatched ::
  "admission_handle \<Rightarrow> string \<Rightarrow> authority_state \<Rightarrow> unit authority_result" where
  "confirmDispatched handle attemptId state =
     rbind (requestOf state handle) (\<lambda>request.
     case lookup (ad_attempts request) attemptId of
       None \<Rightarrow> Inl (conflict ''dispatch_state_conflict'')
     | Some att \<Rightarrow>
         if at_state att \<noteq> DispatchIntent \<and> at_state att \<noteq> Dispatched
         then Inl (conflict ''dispatch_state_conflict'')
         else
           let request1 = putAttempt attemptId (att\<lparr>at_state := Dispatched\<rparr>) request
           in if ad_dispatched request then Inr ((), putRequest handle request1 state)
              else rbind (updateWindow (ad_windowKey request)
                       (\<lambda>w. w\<lparr>pw_reserved := pw_reserved w - 1, pw_dispatched := pw_dispatched w + 1\<rparr>) state)
                     (\<lambda>state1. Inr ((), putRequest handle (request1\<lparr>ad_dispatched := True\<rparr>) state1)))"

definition releaseBeforeDispatch ::
  "admission_handle \<Rightarrow> string \<Rightarrow> authority_state \<Rightarrow> unit authority_result" where
  "releaseBeforeDispatch handle attemptId state =
     rbind (requestOf state handle) (\<lambda>request.
     case lookup (ad_attempts request) attemptId of
       None \<Rightarrow> Inr ((), state)
     | Some att \<Rightarrow>
         if at_state att = NotDispatched then Inr ((), state)
         else if at_state att \<noteq> Reserved then Inl (conflict ''dispatch_indeterminate'')
         else rbind (updateWindow (ad_windowKey request)
                  (\<lambda>w. w\<lparr>pw_paidReservedMicrocredits :=
                     pw_paidReservedMicrocredits w - ai_maximumExposureMicrocredits (at_input att)\<rparr>) state)
                (\<lambda>state1. Inr ((), putRequest handle
                   (putAttempt attemptId (att\<lparr>at_state := NotDispatched\<rparr>) request) state1)))"

section \<open>Observations\<close>

definition proofFence :: "account_binding \<Rightarrow> account_binding \<Rightarrow> account_proof \<Rightarrow> admission_record \<Rightarrow> bool" where
  "proofFence current binding pr request \<longleftrightarrow>
     ab_fingerprint current = ab_fingerprint binding \<and>
     ab_credentialGeneration current = ab_credentialGeneration binding \<and>
     ab_routingGeneration current = ab_routingGeneration binding \<and>
     ab_resetGeneration current = ab_resetGeneration binding \<and>
     ab_overageVersion current = ab_overageVersion binding \<and>
     pr_fingerprint pr = ab_fingerprint current \<and>
     pr_model pr = ad_model request"

definition observeProof ::
  "admission_handle \<Rightarrow> string \<Rightarrow> account_proof \<Rightarrow> authority_state \<Rightarrow> unit authority_result" where
  "observeProof handle attemptId pr state =
     rbind (ensure (is_safe_integer (pr_observedAtMs pr) \<and> is_safe_integer (pr_validUntilMs pr) \<and>
              pr_observedAtMs pr < pr_validUntilMs pr) (AuthorityError ''invalid_proof'' 400)) (\<lambda>_.
     rbind (requestOf state handle) (\<lambda>request.
     case lookup (ad_attempts request) attemptId of
       None \<Rightarrow> Inl (conflict ''proof_without_dispatch'')
     | Some att \<Rightarrow>
         rbind (ensure (at_state att = Dispatched) (conflict ''proof_without_dispatch'')) (\<lambda>_.
         case (ai_account (at_input att), findAccount state (ai_account (at_input att))) of
           (Some binding, Some current) \<Rightarrow>
             if \<not> proofFence current binding pr request then Inl (conflict ''proof_fence_mismatch'')
             else if (case ab_proof current of None \<Rightarrow> False
                      | Some old \<Rightarrow> pr_observedAtMs pr < pr_observedAtMs old)
             then Inl (conflict ''stale_proof'')
             else Inr ((), state\<lparr>as_accounts :=
               replaceFirst (\<lambda>a. ab_accountId a = ab_accountId binding)
                 (current\<lparr>ab_proof := Some pr\<rparr>) (as_accounts state)\<rparr>)
         | _ \<Rightarrow> Inl (conflict ''proof_fence_mismatch''))))"

definition settleKernelWindow :: "semantic_terminal \<Rightarrow> principal_window \<Rightarrow> principal_window" where
  "settleKernelWindow outcome w = w\<lparr>pw_kernelReserved := pw_kernelReserved w - 1,
     pw_kernelCompleted := pw_kernelCompleted w + (if outcome = Completed then 1 else 0)\<rparr>"

definition settleSpendWindow :: "attempt_input \<Rightarrow> int \<Rightarrow> principal_window \<Rightarrow> principal_window" where
  "settleSpendWindow input spend w = w\<lparr>
     pw_paidReservedMicrocredits := pw_paidReservedMicrocredits w - ai_maximumExposureMicrocredits input,
     pw_paidSettledMicrocredits := pw_paidSettledMicrocredits w + (if ai_provider input \<noteq> Codex then spend else 0)\<rparr>"

definition terminalRequest :: "admission_record \<Rightarrow> semantic_terminal \<Rightarrow> bool \<Rightarrow> admission_record" where
  "terminalRequest request outcome finalAttempt =
     (if finalAttempt then request\<lparr>ad_semantic := Some outcome, ad_kernelSettled := True\<rparr> else request)"

definition terminalAttempt :: "attempt_record \<Rightarrow> terminal_evidence \<Rightarrow> attempt_record" where
  "terminalAttempt att evidence =
     (let att1 = att\<lparr>at_terminal := Some evidence\<rparr> in
      if at_billingSettled att then att1
      else case te_spendMicrocredits evidence of
             None \<Rightarrow> att1
           | Some spend \<Rightarrow> att1\<lparr>at_billingSettled := True, at_settledSpendMicrocredits := Some spend\<rparr>)"

definition observeTerminal ::
  "admission_handle \<Rightarrow> string \<Rightarrow> terminal_evidence \<Rightarrow> bool \<Rightarrow> authority_state \<Rightarrow> unit authority_result" where
  "observeTerminal handle attemptId evidence finalAttempt state =
     rbind (case te_spendMicrocredits evidence of None \<Rightarrow> Inr () | Some n \<Rightarrow> assertAmount n) (\<lambda>_.
     rbind (requestOf state handle) (\<lambda>request.
     case lookup (ad_attempts request) attemptId of
       None \<Rightarrow> Inl (conflict ''terminal_without_dispatch'')
     | Some att \<Rightarrow>
         rbind (ensure (at_state att = Dispatched) (conflict ''terminal_without_dispatch'')) (\<lambda>_.
         rbind (ensure (at_terminal att = None \<or> sameEvidence (at_terminal att) (Some evidence))
                 (conflict ''terminal_evidence_conflict'')) (\<lambda>_.
         rbind (ensure (\<not> (finalAttempt \<and> ad_semantic request \<noteq> None \<and>
                    ad_semantic request \<noteq> Some (te_outcome evidence)))
                 (conflict ''terminal_evidence_conflict'')) (\<lambda>_.
         rbind (if finalAttempt \<and> \<not> ad_kernelSettled request
                then updateWindow (ad_windowKey request) (settleKernelWindow (te_outcome evidence)) state
                else Inr state) (\<lambda>state1.
         rbind (case te_spendMicrocredits evidence of
                  None \<Rightarrow> Inr state1
                | Some spend \<Rightarrow>
                    if at_billingSettled att then Inr state1
                    else updateWindow (ad_windowKey request) (settleSpendWindow (at_input att) spend) state1)
           (\<lambda>state2.
         Inr ((), putRequest handle
           (putAttempt attemptId (terminalAttempt att evidence)
              (terminalRequest request (te_outcome evidence) finalAttempt)) state2))))))))"

definition observeDelivery ::
  "admission_handle \<Rightarrow> delivery_outcome \<Rightarrow> authority_state \<Rightarrow> unit authority_result" where
  "observeDelivery handle outcome state =
     rbind (requestOf state handle) (\<lambda>request.
     rbind (ensure (ad_delivery request = None \<or> ad_delivery request = Some Unobserved \<or>
              ad_delivery request = Some outcome) (conflict ''delivery_evidence_conflict'')) (\<lambda>_.
     if outcome \<noteq> Unobserved \<or> ad_delivery request = None
     then Inr ((), putRequest handle (request\<lparr>ad_delivery := Some outcome\<rparr>) state)
     else Inr ((), state)))"

definition usageCorrelates :: "attempt_record \<Rightarrow> string \<Rightarrow> bool" where
  "usageCorrelates att providerRequestId \<longleftrightarrow>
     at_state att = Dispatched \<and> ai_provider (at_input att) \<noteq> Codex \<and>
     (case at_terminal att of None \<Rightarrow> False | Some t \<Rightarrow> te_providerRequestId t = Some providerRequestId)"

definition observeUsage ::
  "admission_handle \<Rightarrow> string \<Rightarrow> string \<Rightarrow> int \<Rightarrow> authority_state \<Rightarrow> unit authority_result" where
  "observeUsage handle attemptId providerRequestId spend state =
     rbind (assertAmount spend) (\<lambda>_.
     rbind (requestOf state handle) (\<lambda>request.
     case lookup (ad_attempts request) attemptId of
       None \<Rightarrow> Inl (conflict ''usage_correlation_mismatch'')
     | Some att \<Rightarrow>
         rbind (ensure (usageCorrelates att providerRequestId) (conflict ''usage_correlation_mismatch'')) (\<lambda>_.
         if at_billingSettled att then
           (if at_settledSpendMicrocredits att \<noteq> Some spend then Inl (conflict ''usage_evidence_conflict'')
            else Inr ((), state))
         else
           rbind (updateWindow (ad_windowKey request) (settleSpendWindow (at_input att) spend) state) (\<lambda>state1.
           Inr ((), putRequest handle (putAttempt attemptId
             (att\<lparr>at_billingSettled := True, at_settledSpendMicrocredits := Some spend\<rparr>) request) state1)))))"

definition resetEligible :: "admission_handle \<Rightarrow> int \<Rightarrow> authority_state \<Rightarrow> bool authority_result" where
  "resetEligible handle now state =
     rbind (requestOf state handle) (\<lambda>request.
     Inr (cohort state (ad_model request) \<noteq> [] \<and>
          (\<forall>a \<in> set (cohort state (ad_model request)).
             map_option pr_kind (applicableProof a (ad_model request) now) = Some QuotaExhausted), state))"

section \<open>Settlement\<close>

datatype settle_result = Settled | Pending

definition attemptOpen :: "attempt_record \<Rightarrow> bool" where
  "attemptOpen a \<longleftrightarrow> at_state a = Reserved \<or> at_state a = DispatchIntent \<or>
     (at_state a = Dispatched \<and> at_terminal a = None)"

definition settleWindow :: "admission_record \<Rightarrow> principal_window \<Rightarrow> principal_window" where
  "settleWindow request w =
     (let w1 = (if ad_dispatched request then w else w\<lparr>pw_reserved := pw_reserved w - 1\<rparr>);
          w2 = (if ad_kernelSettled request then w1
                else w1\<lparr>pw_kernelReserved := pw_kernelReserved w1 - 1,
                  pw_kernelCompleted := pw_kernelCompleted w1 + (if ad_semantic request = Some Completed then 1 else 0)\<rparr>)
      in w2\<lparr>pw_active := pw_active w2 - 1\<rparr>)"

definition settle :: "admission_handle \<Rightarrow> authority_state \<Rightarrow> settle_result authority_result" where
  "settle handle state =
     rbind (requestOf state handle) (\<lambda>request.
     if ad_settled request then Inr (Settled, state)
     else if ad_semantic request = None \<or> ad_delivery request = None then Inr (Pending, state)
     else if \<exists>a \<in> set (vals (ad_attempts request)). attemptOpen a then Inr (Pending, state)
     else rbind (updateWindow (ad_windowKey request) (settleWindow request) state) (\<lambda>state1.
       Inr (Settled, putRequest handle (request\<lparr>ad_kernelSettled := True, ad_settled := True\<rparr>) state1)))"

fun releaseReserved :: "attempt_record list \<Rightarrow> string \<Rightarrow> authority_state \<Rightarrow> authority_error + authority_state" where
  "releaseReserved [] key state = Inr state"
| "releaseReserved (a # as) key state =
     (if at_state a = Reserved
      then rbind (updateWindow key (\<lambda>w. w\<lparr>pw_paidReservedMicrocredits :=
               pw_paidReservedMicrocredits w - ai_maximumExposureMicrocredits (at_input a)\<rparr>) state)
             (releaseReserved as key)
      else releaseReserved as key state)"

definition orElse :: "'a option \<Rightarrow> 'a \<Rightarrow> 'a option" where
  "orElse x d = (case x of None \<Rightarrow> Some d | Some v \<Rightarrow> Some v)"

definition cancelledRequest :: "admission_record \<Rightarrow> admission_record" where
  "cancelledRequest r = r\<lparr>
     ad_attempts := map (\<lambda>(k, a). (k, a\<lparr>at_state := NotDispatched\<rparr>)) (ad_attempts r),
     ad_semantic := orElse (ad_semantic r) Cancelled,
     ad_delivery := orElse (ad_delivery r) Interrupted\<rparr>"

definition cancelUndispatched :: "admission_handle \<Rightarrow> authority_state \<Rightarrow> unit authority_result" where
  "cancelUndispatched handle state =
     rbind (requestOf state handle) (\<lambda>request.
     rbind (ensure (\<forall>a \<in> set (vals (ad_attempts request)).
              at_state a \<noteq> DispatchIntent \<and> at_state a \<noteq> Dispatched)
             (conflict ''dispatch_indeterminate'')) (\<lambda>_.
     rbind (releaseReserved (vals (ad_attempts request)) (ad_windowKey request) state) (\<lambda>state1.
     Inr ((), putRequest handle (cancelledRequest request) state1))))"

lemmas admission_operations [authority_defs] =
  admit_def admitNew_def reserveAttempt_def reserveSubscription_def reservePaid_def beginDispatch_def
  selection_def reselectSubscription_def confirmDispatched_def releaseBeforeDispatch_def
  observeProof_def observeTerminal_def observeDelivery_def observeUsage_def resetEligible_def
  settle_def cancelUndispatched_def

end
