(* ===== verification/Share_Ledger.thy ===== *)
theory Share_Ledger
  imports Gateway_Prelude
begin

text \<open>
  The gateway keeps aggregates beside the rows they summarise: a principal window beside its
  admissions, a kernel window beside its reservation rows, a paid window beside its request rows.
  Every operation changes one row and adjusts the aggregate by hand. This theory states once what it
  means for the aggregates to be right: each counter of a window is the sum of what the rows of that
  window hold in it. The locale \<open>share_ledger\<close> is the interface a component fills in (its
  counters, what a row holds in each, the window a row belongs to); the lemmas say how one row change
  has to be matched by the counters. The locale \<open>machine\<close> lifts one-step facts to runs.
\<close>

definition holdings :: "('r \<Rightarrow> int) \<Rightarrow> ('r \<Rightarrow> 'k) \<Rightarrow> 'k \<Rightarrow> 'r dict \<Rightarrow> int" where
  "holdings sh key k rows = dtotal (\<lambda>r. if key r = k then sh r else 0) rows"

definition balanced ::
  "('f \<Rightarrow> 'w \<Rightarrow> int) \<Rightarrow> ('f \<Rightarrow> 'r \<Rightarrow> int) \<Rightarrow> ('r \<Rightarrow> 'k) \<Rightarrow> ('k \<rightharpoonup> 'w) \<Rightarrow> 'r dict \<Rightarrow> bool" where
  "balanced field share key ws rows \<longleftrightarrow>
     (\<forall>k w f. ws k = Some w \<longrightarrow> field f w = holdings (share f) key k rows)"

definition backed :: "('r \<Rightarrow> 'k) \<Rightarrow> ('k \<rightharpoonup> 'w) \<Rightarrow> 'r dict \<Rightarrow> bool" where
  "backed key ws rows \<longleftrightarrow> (\<forall>r \<in> set (vals rows). ws (key r) \<noteq> None)"

lemma holdings_Nil [simp]: "holdings sh key k [] = 0"
  by (simp add: holdings_def)

lemma holdings_replace:
  "map_of rows i = Some r \<Longrightarrow> key r' = key r \<Longrightarrow>
     holdings sh key k (put i r' rows) =
       holdings sh key k rows + (if key r = k then sh r' - sh r else 0)"
  by (simp add: holdings_def dtotal_put_present)

lemma holdings_insert:
  "map_of rows i = None \<Longrightarrow>
     holdings sh key k (put i r rows) = holdings sh key k rows + (if key r = k then sh r else 0)"
  by (simp add: holdings_def dtotal_put_absent)

lemma holdings_absent: "(\<And>r. r \<in> set (vals rows) \<Longrightarrow> key r \<noteq> k) \<Longrightarrow> holdings sh key k rows = 0"
proof -
  assume "\<And>r. r \<in> set (vals rows) \<Longrightarrow> key r \<noteq> k"
  then have "holdings sh key k rows = dtotal (\<lambda>_. 0) rows"
    unfolding holdings_def by (intro dtotal_cong) auto
  then show ?thesis by (simp add: dtotal_def)
qed

lemma holdings_ge:
  assumes "map_of rows i = Some r" and "\<And>r. r \<in> set (vals rows) \<Longrightarrow> 0 \<le> sh r"
  shows "sh r \<le> holdings sh key (key r) rows"
  using assms
proof (induction rows)
  case (Cons p rows)
  have tail: "0 \<le> holdings sh key (key r) rows"
    using Cons.prems(2) by (auto simp: holdings_def vals_def intro!: dtotal_nonneg)
  show ?case
  proof (cases "fst p = i")
    case True
    with Cons.prems(1) tail show ?thesis
      by (cases p) (simp add: holdings_def dtotal_def vals_def)
  next
    case False
    with Cons.prems have "sh r \<le> holdings sh key (key r) rows"
      by (intro Cons.IH) (auto simp: vals_def split: if_splits)
    moreover have "0 \<le> sh (snd p)" using Cons.prems(2) by (simp add: vals_def)
    ultimately show ?thesis by (simp add: holdings_def dtotal_def vals_def)
  qed
qed simp

lemma vals_put_subset: "set (vals (put i r rows)) \<subseteq> insert r (set (vals rows))"
  by (induction rows) (auto simp: put_def vals_def)

lemma vals_put_ball:
  "(\<forall>v \<in> set (vals rows). P v) \<Longrightarrow> P r \<Longrightarrow> \<forall>v \<in> set (vals (put i r rows)). P v"
  using vals_put_subset [of i r rows] by auto

lemma backed_put:
  "backed key ws rows \<Longrightarrow> ws (key r) \<noteq> None \<Longrightarrow> backed key ws (put i r rows)"
  unfolding backed_def by (rule vals_put_ball) auto

lemma backed_update: "backed key ws rows \<Longrightarrow> backed key (ws(k \<mapsto> w)) rows"
  by (auto simp: backed_def)

locale share_ledger =
  fixes field :: "'f \<Rightarrow> 'w \<Rightarrow> int"
    and share :: "'f \<Rightarrow> 'r \<Rightarrow> int"
    and key :: "'r \<Rightarrow> 'k"
    and ok :: "'r \<Rightarrow> bool"
  assumes share_nonneg: "ok r \<Longrightarrow> 0 \<le> share f r"
begin

lemma balanced_replace:
  assumes "balanced field share key ws rows"
    and "map_of rows i = Some r" and "key r' = key r" and "ws (key r) = Some w"
    and "\<And>f. field f w' = field f w - share f r + share f r'"
  shows "balanced field share key (ws(key r \<mapsto> w')) (put i r' rows)"
  using assms by (auto simp: balanced_def holdings_replace)

lemma balanced_keep:
  assumes "balanced field share key ws rows"
    and "map_of rows i = Some r" and "key r' = key r" and "\<And>f. share f r' = share f r"
  shows "balanced field share key ws (put i r' rows)"
  using assms by (simp add: balanced_def holdings_replace)

lemma balanced_insert:
  assumes "balanced field share key ws rows"
    and "map_of rows i = None" and "ws (key r) = Some w"
    and "\<And>f. field f w' = field f w + share f r"
  shows "balanced field share key (ws(key r \<mapsto> w')) (put i r rows)"
  using assms by (auto simp: balanced_def holdings_insert)

lemma balanced_insert_fresh:
  assumes "balanced field share key ws rows" and "backed key ws rows"
    and "map_of rows i = None" and "ws (key r) = None"
    and "\<And>f. field f w' = share f r"
  shows "balanced field share key (ws(key r \<mapsto> w')) (put i r rows)"
proof -
  have "holdings (share f) key (key r) rows = 0" for f
    using assms(2,4) by (intro holdings_absent) (auto simp: backed_def)
  with assms show ?thesis by (auto simp: balanced_def holdings_insert)
qed

lemma counters_nonneg:
  assumes "balanced field share key ws rows" and "\<forall>r \<in> set (vals rows). ok r" and "ws k = Some w"
  shows "0 \<le> field f w"
proof -
  from assms have "field f w = holdings (share f) key k rows" by (simp add: balanced_def)
  also have "0 \<le> \<dots>"
    using assms(2) share_nonneg by (auto simp: holdings_def intro!: dtotal_nonneg)
  finally show ?thesis .
qed

lemma counter_covers_row:
  assumes "balanced field share key ws rows" and "\<forall>r \<in> set (vals rows). ok r"
    and "map_of rows i = Some r" and "ws (key r) = Some w"
  shows "share f r \<le> field f w"
  using assms holdings_ge [of rows i r "share f" key] share_nonneg by (auto simp: balanced_def)

end

section \<open>Runs\<close>

locale machine =
  fixes step :: "'s \<Rightarrow> 's \<Rightarrow> bool"
    and inv :: "'s \<Rightarrow> bool"
  assumes inv_step: "inv s \<Longrightarrow> step s t \<Longrightarrow> inv t"
begin

lemma inv_run: "step\<^sup>*\<^sup>* s t \<Longrightarrow> inv s \<Longrightarrow> inv t"
  by (induction rule: rtranclp_induct) (auto intro: inv_step)

lemma stable_run:
  assumes "step\<^sup>*\<^sup>* s t" and "inv s" and "P s"
    and "\<And>u v. inv u \<Longrightarrow> step u v \<Longrightarrow> P u \<Longrightarrow> P v"
  shows "P t"
proof -
  from assms(1) have "inv t \<and> P t"
    by (induction rule: rtranclp_induct) (use assms(2-4) inv_step in blast)+
  then show ?thesis ..
qed

end

end
