(* ===== verification/Admission_Invariants.thy ===== *)
theory Admission_Invariants
  imports Admission_State Share_Ledger
begin

text \<open>
  Every transaction of the portable authority keeps the principal windows equal to what the
  admissions and their attempts hold in them. The steps of the authority are the successful
  transactions; the invariant is proved for each of them and lifted to runs.
\<close>

section \<open>What an admission holds in its window\<close>

datatype window_counter =
  CReserved | CDispatched | CKernelReserved | CKernelCompleted | CActive | CPaidReserved | CPaidSettled

fun counter :: "window_counter \<Rightarrow> principal_window \<Rightarrow> int" where
  "counter CReserved w = pw_reserved w"
| "counter CDispatched w = pw_dispatched w"
| "counter CKernelReserved w = pw_kernelReserved w"
| "counter CKernelCompleted w = pw_kernelCompleted w"
| "counter CActive w = pw_active w"
| "counter CPaidReserved w = pw_paidReservedMicrocredits w"
| "counter CPaidSettled w = pw_paidSettledMicrocredits w"

definition exposureHeld :: "attempt_record \<Rightarrow> int" where
  "exposureHeld a = (if at_state a \<noteq> NotDispatched \<and> \<not> at_billingSettled a
     then ai_maximumExposureMicrocredits (at_input a) else 0)"

definition spendSettled :: "attempt_record \<Rightarrow> int" where
  "spendSettled a = (if ai_provider (at_input a) = Codex then 0
     else case at_settledSpendMicrocredits a of None \<Rightarrow> 0 | Some n \<Rightarrow> n)"

fun admission_share :: "window_counter \<Rightarrow> admission_record \<Rightarrow> int" where
  "admission_share CReserved r = of_bool (\<not> ad_dispatched r \<and> \<not> ad_settled r)"
| "admission_share CDispatched r = of_bool (ad_dispatched r)"
| "admission_share CKernelReserved r = of_bool (\<not> ad_kernelSettled r)"
| "admission_share CKernelCompleted r = of_bool (ad_kernelSettled r \<and> ad_semantic r = Some Completed)"
| "admission_share CActive r = of_bool (\<not> ad_settled r)"
| "admission_share CPaidReserved r = dtotal exposureHeld (ad_attempts r)"
| "admission_share CPaidSettled r = dtotal spendSettled (ad_attempts r)"

definition attempt_ok :: "attempt_record \<Rightarrow> bool" where
  "attempt_ok a \<longleftrightarrow>
     (at_state a \<noteq> Dispatched \<longrightarrow> at_terminal a = None \<and> \<not> at_billingSettled a) \<and>
     (at_billingSettled a \<longleftrightarrow> at_settledSpendMicrocredits a \<noteq> None) \<and>
     (at_billingSettled a \<longrightarrow> at_terminal a \<noteq> None) \<and>
     (ai_provider (at_input a) = Codex \<longrightarrow> ai_maximumExposureMicrocredits (at_input a) = 0) \<and>
     0 \<le> ai_maximumExposureMicrocredits (at_input a) \<and>
     (\<forall>n. at_settledSpendMicrocredits a = Some n \<longrightarrow> 0 \<le> n)"

definition request_ok :: "admission_record \<Rightarrow> bool" where
  "request_ok r \<longleftrightarrow>
     wf_dict (ad_attempts r) \<and>
     (\<forall>a \<in> set (vals (ad_attempts r)). attempt_ok a) \<and>
     (\<forall>a \<in> set (vals (ad_attempts r)). at_state a = Dispatched \<longrightarrow> ad_dispatched r) \<and>
     (ad_kernelSettled r \<longrightarrow> ad_semantic r \<noteq> None) \<and>
     (ad_settled r \<longrightarrow> ad_kernelSettled r \<and> ad_delivery r \<noteq> None \<and>
        (\<forall>a \<in> set (vals (ad_attempts r)). \<not> attemptOpen a))"

definition handle_at :: "authority_state \<Rightarrow> string \<Rightarrow> admission_handle option" where
  "handle_at s k = map_option ad_handle (map_of (as_admissions s) k)"

definition handles_ok :: "authority_state \<Rightarrow> bool" where
  "handles_ok s \<longleftrightarrow>
     (\<forall>k h. handle_at s k = Some h \<longrightarrow>
        hd_requestId h = k \<and> 0 < hd_fence h \<and> hd_fence h \<le> as_sequence s) \<and>
     (\<forall>k k' h h'. handle_at s k = Some h \<longrightarrow> handle_at s k' = Some h' \<longrightarrow>
        hd_fence h = hd_fence h' \<longrightarrow> k = k')"

definition accounted :: "authority_state \<Rightarrow> bool" where
  "accounted s \<longleftrightarrow>
     balanced counter admission_share ad_windowKey (map_of (as_windows s)) (as_admissions s) \<and>
     backed ad_windowKey (map_of (as_windows s)) (as_admissions s)"

definition authority_inv :: "authority_state \<Rightarrow> bool" where
  "authority_inv s \<longleftrightarrow>
     wf_dict (as_admissions s) \<and> (\<forall>r \<in> set (vals (as_admissions s)). request_ok r) \<and>
     handles_ok s \<and> 0 \<le> as_sequence s \<and> accounted s"

lemma exposureHeld_nonneg: "attempt_ok a \<Longrightarrow> 0 \<le> exposureHeld a"
  by (auto simp: attempt_ok_def exposureHeld_def)

lemma spendSettled_nonneg: "attempt_ok a \<Longrightarrow> 0 \<le> spendSettled a"
  by (auto simp: attempt_ok_def spendSettled_def split: option.splits)

interpretation window_ledger: share_ledger counter admission_share ad_windowKey request_ok
proof
  fix r f
  assume "request_ok r"
  then have "\<forall>a \<in> set (vals (ad_attempts r)). attempt_ok a" by (simp add: request_ok_def)
  then show "0 \<le> admission_share f r"
    by (cases f) (auto intro!: dtotal_nonneg exposureHeld_nonneg spendSettled_nonneg)
qed

section \<open>Frame and update lemmas\<close>

lemma authority_inv_frame:
  "authority_inv (s\<lparr>as_accounts := x\<rparr>) = authority_inv s"
  "authority_inv (s\<lparr>as_active := y\<rparr>) = authority_inv s"
  "authority_inv (s\<lparr>as_publications := z\<rparr>) = authority_inv s"
  by (simp_all add: authority_inv_def handles_ok_def handle_at_def accounted_def)

lemma requestOf_iff:
  "requestOf s h = Inr r \<longleftrightarrow>
     map_of (as_admissions s) (hd_requestId h) = Some r \<and> hd_fence (ad_handle r) = hd_fence h"
  by (auto simp: requestOf_def split: option.splits)

lemma inv_request:
  assumes "authority_inv s" and "requestOf s h = Inr r"
  shows "request_ok r" and "\<exists>w. map_of (as_windows s) (ad_windowKey r) = Some w"
  using assms by (auto simp: authority_inv_def requestOf_iff accounted_def backed_def dest: map_of_vals)

lemma inv_attempt:
  assumes "request_ok r" and "map_of (ad_attempts r) k = Some a"
  shows "attempt_ok a" and "ad_settled r \<Longrightarrow> \<not> attemptOpen a" and "at_state a = Dispatched \<Longrightarrow> ad_dispatched r"
  using assms map_of_vals [OF assms(2)] by (auto simp: request_ok_def)

lemma handles_ok_put:
  assumes "handles_ok s" and "requestOf s h = Inr r" and "ad_handle r' = ad_handle r"
    and "as_sequence t = as_sequence s" and "as_admissions t = put (hd_requestId h) r' (as_admissions s)"
  shows "handles_ok t"
proof -
  from assms have "handle_at t = handle_at s"
    by (auto simp: handle_at_def requestOf_iff fun_eq_iff)
  with assms(1,4) show ?thesis by (simp add: handles_ok_def)
qed

lemma requests_ok_put:
  "authority_inv s \<Longrightarrow> request_ok r \<Longrightarrow> \<forall>v \<in> set (vals (put k r (as_admissions s))). request_ok v"
  by (rule vals_put_ball) (simp_all add: authority_inv_def)

lemma inv_putRequest:
  assumes inv: "authority_inv s" and req: "requestOf s h = Inr r"
    and ok: "request_ok r'" and same: "ad_handle r' = ad_handle r" "ad_windowKey r' = ad_windowKey r"
    and share: "\<And>f. admission_share f r' = admission_share f r"
  shows "authority_inv (putRequest h r' s)"
proof -
  let ?t = "putRequest h r' s"
  have t: "as_admissions ?t = put (hd_requestId h) r' (as_admissions s)" "as_windows ?t = as_windows s"
    "as_sequence ?t = as_sequence s"
    by (simp_all add: putRequest_def)
  from req have at: "map_of (as_admissions s) (hd_requestId h) = Some r" by (simp add: requestOf_iff)
  from inv have acc: "balanced counter admission_share ad_windowKey (map_of (as_windows s)) (as_admissions s)"
    and bk: "backed ad_windowKey (map_of (as_windows s)) (as_admissions s)"
    by (simp_all add: authority_inv_def accounted_def)
  have "handles_ok ?t"
    by (rule handles_ok_put [OF _ req same(1) t(3) t(1)]) (use inv in \<open>simp add: authority_inv_def\<close>)
  moreover have "accounted ?t"
    unfolding accounted_def t
    using window_ledger.balanced_keep [OF acc at same(2) share] backed_put [OF bk, of r'] same(2)
      inv_request(2) [OF inv req] by simp
  ultimately show ?thesis
    using inv requests_ok_put [OF inv ok] by (simp add: authority_inv_def t wf_dict_put)
qed

lemma inv_putRequest_window:
  assumes inv: "authority_inv s" and req: "requestOf s h = Inr r"
    and upd: "updateWindow (ad_windowKey r) f s = Inr s1"
    and ok: "request_ok r'" and same: "ad_handle r' = ad_handle r" "ad_windowKey r' = ad_windowKey r"
    and share: "\<And>c w. counter c (f w) = counter c w - admission_share c r + admission_share c r'"
  shows "authority_inv (putRequest h r' s1)"
proof -
  let ?t = "putRequest h r' s1"
  from upd obtain w where w: "map_of (as_windows s) (ad_windowKey r) = Some w"
    and s1: "s1 = s\<lparr>as_windows := put (ad_windowKey r) (f w) (as_windows s)\<rparr>"
    by (auto simp: updateWindow_def split: option.splits)
  have t: "as_admissions ?t = put (hd_requestId h) r' (as_admissions s)"
    "as_windows ?t = put (ad_windowKey r) (f w) (as_windows s)" "as_sequence ?t = as_sequence s"
    by (simp_all add: putRequest_def s1)
  from req have at: "map_of (as_admissions s) (hd_requestId h) = Some r" by (simp add: requestOf_iff)
  from inv have acc: "balanced counter admission_share ad_windowKey (map_of (as_windows s)) (as_admissions s)"
    and bk: "backed ad_windowKey (map_of (as_windows s)) (as_admissions s)"
    by (simp_all add: authority_inv_def accounted_def)
  have "handles_ok ?t"
    by (rule handles_ok_put [OF _ req same(1) t(3) t(1)]) (use inv in \<open>simp add: authority_inv_def\<close>)
  moreover have "accounted ?t"
    unfolding accounted_def t
    using window_ledger.balanced_replace [OF acc at same(2) w share]
      backed_put [OF backed_update [OF bk]] same(2) by simp
  ultimately show ?thesis
    using inv requests_ok_put [OF inv ok] by (simp add: authority_inv_def t wf_dict_put)
qed

lemma request_ok_putAttempt:
  assumes "request_ok r" and "attempt_ok a" and "at_state a = Dispatched \<longrightarrow> ad_dispatched r"
    and "ad_settled r \<longrightarrow> \<not> attemptOpen a"
  shows "request_ok (putAttempt k a r)"
proof -
  have "\<forall>v \<in> set (vals (put k a (ad_attempts r))). attempt_ok v \<and> (at_state v = Dispatched \<longrightarrow> ad_dispatched r) \<and>
      (ad_settled r \<longrightarrow> \<not> attemptOpen v)"
    using assms by (intro vals_put_ball) (auto simp: request_ok_def)
  with assms(1) show ?thesis by (simp add: request_ok_def putAttempt_def)
qed

lemma putAttempt_simps [simp]:
  "ad_handle (putAttempt k a r) = ad_handle r" "ad_windowKey (putAttempt k a r) = ad_windowKey r"
  "ad_settled (putAttempt k a r) = ad_settled r" "ad_dispatched (putAttempt k a r) = ad_dispatched r"
  "ad_kernelSettled (putAttempt k a r) = ad_kernelSettled r" "ad_semantic (putAttempt k a r) = ad_semantic r"
  "ad_attempts (putAttempt k a r) = put k a (ad_attempts r)"
  by (simp_all add: putAttempt_def)

lemma updateWindow_ok:
  "authority_inv s \<Longrightarrow> requestOf s h = Inr r \<Longrightarrow> \<exists>s1. updateWindow (ad_windowKey r) f s = Inr s1"
  using inv_request(2) by (fastforce simp: updateWindow_def)

end
