(* ===== verification/Admission_Steps.thy ===== *)
theory Admission_Steps
  imports Admission_Invariants
begin

text \<open>
  One preservation lemma per transaction of \<^verbatim>\<open>PortableAuthority\<close>, the step relation
  they form, and the facts about runs that follow from the invariant.
\<close>

section \<open>Each transaction keeps the invariant\<close>

lemma selectNext_frame:
  "selectNext s m n = Inr (a, t) \<Longrightarrow> t = s\<lparr>as_active := as_active t\<rparr>"
  by (auto simp: selectNext_def activate_def split: option.splits if_splits)

lemma selectAccount_frame:
  "selectAccount s m n = Inr (a, t) \<Longrightarrow> t = s\<lparr>as_active := as_active t\<rparr>"
  by (auto simp: selectAccount_def activate_def dest: selectNext_frame split: option.splits if_splits)

lemma selectAccount_fields:
  assumes "selectAccount s m n = Inr (a, t)"
  shows "as_admissions t = as_admissions s" "as_windows t = as_windows s" "as_sequence t = as_sequence s"
    "as_policies t = as_policies s" "as_accounts t = as_accounts s" "as_scope t = as_scope s"
  by (subst selectAccount_frame [OF assms], simp)+

lemma selectAccount_inv:
  assumes "selectAccount s m n = Inr (a, t)"
  shows "authority_inv t = authority_inv s"
  by (subst selectAccount_frame [OF assms]) (simp add: authority_inv_frame)

lemma request_ok_newAdmission [simp]: "request_ok (newAdmission input h k a g)"
  by (simp add: request_ok_def newAdmission_def)

text \<open>What a successful fresh admission did, in one place.\<close>

lemma admitNew_cases:
  assumes "admitNew input s = Inr (h, t)"
  obtains policy account s1 w where
    "map_of (as_policies s) (in_principalId input) = Some policy"
    "pp_version policy = in_policyVersion input" "\<not> pp_deleted policy"
    "in_nowMs input < pp_windowResetAtMs policy"
    "0 \<le> pp_requestLimit policy" "0 \<le> pp_kernelLimit policy" "0 \<le> pp_concurrencyLimit policy"
    "w = (case map_of (as_windows s) (windowKeyFor (in_principalId input) policy) of None \<Rightarrow> emptyWindow | Some w \<Rightarrow> w)"
    "quotaFree policy w (tally (\<lambda>r. ad_principalId r = in_principalId input \<and> \<not> ad_settled r) (as_admissions s))"
    "selectAccount s (in_model input) (in_nowMs input) = Inr (account, s1)"
    "h = \<lparr>hd_scope = in_scope input, hd_requestId = in_requestId input, hd_fence = as_sequence s + 1\<rparr>"
    "t = s1\<lparr>as_sequence := as_sequence s + 1,
        as_windows := put (windowKeyFor (in_principalId input) policy)
          (w\<lparr>pw_reserved := pw_reserved w + 1, pw_kernelReserved := pw_kernelReserved w + 1,
             pw_active := pw_active w + 1\<rparr>) (as_windows s),
        as_admissions := assign (in_requestId input)
          (newAdmission input h (windowKeyFor (in_principalId input) policy) account
             (map_option ac_generation (as_active s1))) (as_admissions s)\<rparr>"
proof -
  from assms obtain policy account s1 where
    "livePolicy s (in_principalId input) (in_policyVersion input) = Inr policy"
    "in_nowMs input < pp_windowResetAtMs policy"
    "assertAmounts [pp_requestLimit policy, pp_kernelLimit policy,
              pp_concurrencyLimit policy, pp_paidLimitMicrocredits policy] = Inr ()"
    and rest: "selectAccount s (in_model input) (in_nowMs input) = Inr (account, s1)"
    by (auto simp: admitNew_def result_iffs Let_def split: prod.splits)
  moreover note selectAccount_fields [OF rest]
  ultimately show thesis
    using assms that [of policy _ account s1]
    by (auto simp: admitNew_def result_iffs Let_def livePolicy_def tally_filter assign_def windowKeyFor_def
        split: option.splits if_splits)
qed

lemma handles_ok_insert:
  assumes "handles_ok s" and "map_of (as_admissions s) k = None" and "0 \<le> as_sequence s"
    and "as_sequence t = as_sequence s + 1" and "as_admissions t = put k r (as_admissions s)"
    and "hd_requestId (ad_handle r) = k" and "hd_fence (ad_handle r) = as_sequence s + 1"
  shows "handles_ok t"
proof -
  have ht: "handle_at t = (handle_at s)(k \<mapsto> ad_handle r)"
    using assms(5) by (auto simp: handle_at_def)
  have le: "\<And>j h. handle_at s j = Some h \<Longrightarrow> hd_requestId h = j \<and> 0 < hd_fence h \<and> hd_fence h \<le> as_sequence s"
    using assms(1) by (simp add: handles_ok_def)
  then have bound: "\<And>j h. handle_at s j = Some h \<Longrightarrow> 0 < hd_fence h \<and> hd_fence h < as_sequence s + 1"
    by force
  have "hd_requestId h = j \<and> 0 < hd_fence h \<and> hd_fence h \<le> as_sequence t"
    if "handle_at t j = Some h" for j h
    using that ht le [of j h] assms(3,4,6,7) by (auto split: if_splits)
  moreover have "j = j'" if "handle_at t j = Some h" "handle_at t j' = Some h'" "hd_fence h = hd_fence h'" for j j' h h'
  proof -
    have "hd_fence h \<noteq> as_sequence s + 1" if "handle_at s i = Some h" for i h
      using bound [OF that] by simp
    then show ?thesis
      using that ht assms(1,7) by (auto simp: handles_ok_def split: if_splits)
  qed
  ultimately show ?thesis unfolding handles_ok_def by blast
qed

lemma admitNew_inv:
  assumes inv: "authority_inv s" and fresh: "map_of (as_admissions s) (in_requestId input) = None"
    and ok: "in_requestId input \<noteq> proto_key" and step: "admitNew input s = Inr (h, t)"
  shows "authority_inv t"
  using step
proof (cases rule: admitNew_cases)
  case (1 policy account s1 w)
  define r where "r = newAdmission input h (windowKeyFor (in_principalId input) policy) account
    (map_option ac_generation (as_active s1))"
  define w' where "w' = w\<lparr>pw_reserved := pw_reserved w + 1, pw_kernelReserved := pw_kernelReserved w + 1,
    pw_active := pw_active w + 1\<rparr>"
  have key: "ad_windowKey r = windowKeyFor (in_principalId input) policy" and hr: "ad_handle r = h"
    by (simp_all add: r_def newAdmission_def)
  have t: "as_admissions t = put (in_requestId input) r (as_admissions s)"
    "as_windows t = put (ad_windowKey r) w' (as_windows s)" "as_sequence t = as_sequence s + 1"
    using 1 ok by (simp_all add: assign_def r_def w'_def newAdmission_def)
  from inv have acc: "balanced counter admission_share ad_windowKey (map_of (as_windows s)) (as_admissions s)"
    and bk: "backed ad_windowKey (map_of (as_windows s)) (as_admissions s)"
    by (simp_all add: authority_inv_def accounted_def)
  have bal: "balanced counter admission_share ad_windowKey ((map_of (as_windows s))(ad_windowKey r \<mapsto> w'))
      (put (in_requestId input) r (as_admissions s))"
  proof (cases "map_of (as_windows s) (ad_windowKey r)")
    case None
    have "counter f w' = admission_share f r" for f
      using None 1(8) key by (cases f) (simp_all add: w'_def emptyWindow_def r_def newAdmission_def)
    then show ?thesis by (rule window_ledger.balanced_insert_fresh [OF acc bk fresh None])
  next
    case (Some v)
    have "counter f w' = counter f v + admission_share f r" for f
      using Some 1(8) key by (cases f) (simp_all add: w'_def r_def newAdmission_def)
    then show ?thesis by (rule window_ledger.balanced_insert [OF acc fresh Some])
  qed
  then have "accounted t"
    unfolding accounted_def t using backed_put [OF backed_update [OF bk]] by simp
  moreover have "handles_ok t"
    by (rule handles_ok_insert [OF _ fresh _ t(3) t(1)])
      (use inv 1 hr in \<open>simp_all add: authority_inv_def\<close>)
  moreover have "request_ok r" by (simp add: r_def)
  ultimately show ?thesis
    using inv requests_ok_put [OF inv \<open>request_ok r\<close>] by (simp add: authority_inv_def t wf_dict_put)
qed

lemma admit_inv:
  "authority_inv s \<Longrightarrow> in_requestId input \<noteq> proto_key \<Longrightarrow> admit input s = Inr (h, t) \<Longrightarrow> authority_inv t"
  by (auto simp: admit_def dest: admitNew_inv split: option.splits if_splits)

lemma putRequest_simps [simp]:
  "as_windows (putRequest h r s) = as_windows s" "as_sequence (putRequest h r s) = as_sequence s"
  "as_admissions (putRequest h r s) = put (hd_requestId h) r (as_admissions s)"
  "as_policies (putRequest h r s) = as_policies s" "as_accounts (putRequest h r s) = as_accounts s"
  "as_scope (putRequest h r s) = as_scope s" "as_active (putRequest h r s) = as_active s"
  by (simp_all add: putRequest_def)

lemma updateWindow_fields:
  assumes "updateWindow k f s = Inr t"
  shows "as_admissions t = as_admissions s" "as_sequence t = as_sequence s" "as_policies t = as_policies s"
    "as_accounts t = as_accounts s" "as_scope t = as_scope s" "as_active t = as_active s"
  using assms by (auto simp: updateWindow_def split: option.splits)

lemma requestOf_updateWindow: "updateWindow k f s = Inr t \<Longrightarrow> requestOf t h = requestOf s h"
  by (simp add: requestOf_def updateWindow_fields)

lemma addAttempt_eq:
  "ai_attemptId input \<noteq> proto_key \<Longrightarrow>
     addAttempt r input = putAttempt (ai_attemptId input) (newAttempt input) r"
  by (simp add: addAttempt_def putAttempt_def assign_def)

lemma newAttempt_ok:
  "0 \<le> ai_maximumExposureMicrocredits input \<Longrightarrow>
     (ai_provider input = Codex \<Longrightarrow> ai_maximumExposureMicrocredits input = 0) \<Longrightarrow>
     attempt_ok (newAttempt input) \<and> at_state (newAttempt input) = Reserved"
  by (simp add: attempt_ok_def newAttempt_def)

lemma reserveSubscription_state:
  "reserveSubscription s r input now = Inr t \<Longrightarrow> t = s \<and> ai_maximumExposureMicrocredits input = 0"
  by (auto simp: reserveSubscription_def result_iffs split: option.splits if_splits prod.splits)

lemma reservePaid_state:
  "reservePaid s r input p now = Inr t \<Longrightarrow>
     updateWindow (ad_windowKey r) (\<lambda>w. w\<lparr>pw_paidReservedMicrocredits :=
        pw_paidReservedMicrocredits w + ai_maximumExposureMicrocredits input\<rparr>) s = Inr t"
  by (auto simp: reservePaid_def result_iffs)

lemma reserveAttempt_inv:
  assumes inv: "authority_inv s" and ok: "ai_attemptId input \<noteq> proto_key"
    and step: "reserveAttempt h input now s = Inr (u, t)"
  shows "authority_inv t"
proof -
  from step obtain r where r: "requestOf s h = Inr r" and amount: "0 \<le> ai_maximumExposureMicrocredits input"
    and opn: "\<not> ad_settled r"
    by (auto simp: reserveAttempt_def result_iffs)
  have rok: "request_ok r" using inv_request(1) [OF inv r] .
  let ?r' = "putAttempt (ai_attemptId input) (newAttempt input) r"
  show ?thesis
  proof (cases "map_of (ad_attempts r) (ai_attemptId input)")
    case (Some a)
    with step r inv show ?thesis by (auto simp: reserveAttempt_def result_iffs split: if_splits)
  next
    case None
    then have share: "admission_share c ?r' = admission_share c r + (if c = CPaidReserved
        then ai_maximumExposureMicrocredits input else 0)" for c
      by (cases c) (simp_all add: dtotal_put_absent exposureHeld_def spendSettled_def newAttempt_def)
    from step r None obtain p s1 where
      s1: "(if ai_provider input = Codex then reserveSubscription s r input now else reservePaid s r input p now) = Inr s1"
      and t: "t = putRequest h (addAttempt r input) s1"
      by (auto simp: reserveAttempt_def result_iffs)
    have r'ok: "request_ok ?r'" if "ai_provider input = Codex \<Longrightarrow> ai_maximumExposureMicrocredits input = 0"
      using newAttempt_ok [OF amount that] rok opn by (auto intro: request_ok_putAttempt)
    show ?thesis
    proof (cases "ai_provider input = Codex")
      case True
      with s1 have "s1 = s" "ai_maximumExposureMicrocredits input = 0"
        using reserveSubscription_state [of s r input now s1] by auto
      then show ?thesis
        unfolding t addAttempt_eq [OF ok] using r'ok share by (auto intro: inv_putRequest [OF inv r])
    next
      case False
      with s1 reservePaid_state have upd: "updateWindow (ad_windowKey r) (\<lambda>w. w\<lparr>pw_paidReservedMicrocredits :=
        pw_paidReservedMicrocredits w + ai_maximumExposureMicrocredits input\<rparr>) s = Inr s1" by auto
      have "counter c (w\<lparr>pw_paidReservedMicrocredits := pw_paidReservedMicrocredits w + ai_maximumExposureMicrocredits input\<rparr>)
          = counter c w - admission_share c r + admission_share c ?r'" for c w
        unfolding share by (cases c) simp_all
      then show ?thesis
        unfolding t addAttempt_eq [OF ok] using r'ok False by (intro inv_putRequest_window [OF inv r upd]) auto
    qed
  qed
qed

lemma share_putAttempt:
  assumes "map_of (ad_attempts r) k = Some a"
  shows "admission_share c (putAttempt k a' r) = admission_share c r +
    (case c of CPaidReserved \<Rightarrow> exposureHeld a' - exposureHeld a
     | CPaidSettled \<Rightarrow> spendSettled a' - spendSettled a | _ \<Rightarrow> 0)"
  using assms by (cases c) (simp_all add: dtotal_put_present)

lemma beginDispatch_inv:
  assumes inv: "authority_inv s" and step: "beginDispatch h k now s = Inr (b, t)"
  shows "authority_inv t"
proof -
  from step obtain r a where r: "requestOf s h = Inr r" and a: "map_of (ad_attempts r) k = Some a"
    by (auto simp: beginDispatch_def result_iffs)
  show ?thesis
  proof (cases "at_state a = Reserved")
    case False
    with step r a inv show ?thesis by (auto simp: beginDispatch_def result_iffs)
  next
    case True
    with step r a have t: "t = putRequest h (putAttempt k (a\<lparr>at_state := DispatchIntent\<rparr>) r) s" "\<not> ad_settled r"
      by (auto simp: beginDispatch_def result_iffs split: if_splits)
    have "request_ok r" "attempt_ok a"
      using inv_request(1) [OF inv r] inv_attempt(1) a by auto
    then have "request_ok (putAttempt k (a\<lparr>at_state := DispatchIntent\<rparr>) r)"
      using True t(2) by (intro request_ok_putAttempt) (auto simp: attempt_ok_def)
    then show ?thesis
      unfolding t using True
      by (intro inv_putRequest [OF inv r])
        (auto simp: share_putAttempt [OF a] exposureHeld_def spendSettled_def split: window_counter.splits)
  qed
qed

lemma reselectSubscription_inv:
  assumes inv: "authority_inv s" and step: "reselectSubscription h now s = Inr (b, t)"
  shows "authority_inv t"
proof -
  from step obtain r s1 where r: "requestOf s h = Inr r"
    and sel: "selectAccount s (ad_model r) now = Inr (b, s1)"
    and t: "t = putRequest h (r\<lparr>ad_account := b, ad_activeGeneration := map_option ac_generation (as_active s1)\<rparr>) s1"
    by (auto simp: reselectSubscription_def result_iffs split: option.splits if_splits)
  have inv1: "authority_inv s1" using inv selectAccount_inv [OF sel] by simp
  have r1: "requestOf s1 h = Inr r" using r by (simp add: requestOf_def selectAccount_fields [OF sel])
  have same: "admission_share c (r\<lparr>ad_account := x, ad_activeGeneration := y\<rparr>) = admission_share c r" for c x y
    by (cases c) simp_all
  have "request_ok (r\<lparr>ad_account := x, ad_activeGeneration := y\<rparr>)" for x y
    using inv_request(1) [OF inv r] by (simp add: request_ok_def)
  then show ?thesis unfolding t by (intro inv_putRequest [OF inv1 r1]) (simp_all add: same)
qed

lemma confirmDispatched_inv:
  assumes inv: "authority_inv s" and step: "confirmDispatched h k s = Inr (u, t)"
  shows "authority_inv t"
proof -
  from step obtain r a where r: "requestOf s h = Inr r" and a: "map_of (ad_attempts r) k = Some a"
    and st: "at_state a = DispatchIntent \<or> at_state a = Dispatched"
    by (auto simp: confirmDispatched_def result_iffs split: option.splits if_splits)
  let ?a = "a\<lparr>at_state := Dispatched\<rparr>"
  have rok: "request_ok r" and aok: "attempt_ok a"
    using inv_request(1) [OF inv r] inv_attempt(1) a by auto
  have aok': "attempt_ok ?a" using aok by (auto simp: attempt_ok_def)
  have open_or: "ad_settled r \<Longrightarrow> at_state a = Dispatched \<and> at_terminal a \<noteq> None \<and> ad_dispatched r"
    using inv_attempt [OF rok a] st by (auto simp: attemptOpen_def)
  have held: "exposureHeld ?a = exposureHeld a" "spendSettled ?a = spendSettled a"
    using st by (auto simp: exposureHeld_def spendSettled_def)
  show ?thesis
  proof (cases "ad_dispatched r")
    case True
    with step r a st have t: "t = putRequest h (putAttempt k ?a r) s"
      by (auto simp: confirmDispatched_def result_iffs)
    have "request_ok (putAttempt k ?a r)"
      using rok aok' True open_or by (intro request_ok_putAttempt) (auto simp: attemptOpen_def)
    then show ?thesis
      unfolding t by (intro inv_putRequest [OF inv r])
        (auto simp: share_putAttempt [OF a] held split: window_counter.splits)
  next
    case False
    let ?r' = "(putAttempt k ?a r)\<lparr>ad_dispatched := True\<rparr>"
    from False step r a st obtain s1 where
      upd: "updateWindow (ad_windowKey r) (\<lambda>w. w\<lparr>pw_reserved := pw_reserved w - 1, pw_dispatched := pw_dispatched w + 1\<rparr>) s = Inr s1"
      and t: "t = putRequest h ?r' s1"
      by (auto simp: confirmDispatched_def result_iffs)
    have ns: "\<not> ad_settled r" using open_or False by auto
    have "request_ok (putAttempt k ?a (r\<lparr>ad_dispatched := True\<rparr>))"
      using rok aok' ns by (intro request_ok_putAttempt) (auto simp: request_ok_def)
    moreover have "putAttempt k ?a (r\<lparr>ad_dispatched := True\<rparr>) = ?r'" by (simp add: putAttempt_def)
    ultimately have r'ok: "request_ok ?r'" by simp
    have "counter c (w\<lparr>pw_reserved := pw_reserved w - 1, pw_dispatched := pw_dispatched w + 1\<rparr>) =
        counter c w - admission_share c r + admission_share c ?r'" for c w
      using False ns a by (cases c) (simp_all add: dtotal_put_present held)
    then show ?thesis
      unfolding t by (intro inv_putRequest_window [OF inv r upd r'ok]) simp_all
  qed
qed

lemma releaseBeforeDispatch_inv:
  assumes inv: "authority_inv s" and step: "releaseBeforeDispatch h k s = Inr (u, t)"
  shows "authority_inv t"
proof -
  from step obtain r where r: "requestOf s h = Inr r"
    by (auto simp: releaseBeforeDispatch_def result_iffs)
  show ?thesis
  proof (cases "\<exists>a. map_of (ad_attempts r) k = Some a \<and> at_state a \<noteq> NotDispatched")
    case False
    with step r inv show ?thesis
      by (auto simp: releaseBeforeDispatch_def result_iffs split: option.splits)
  next
    case True
    then obtain a where a: "map_of (ad_attempts r) k = Some a" and na: "at_state a \<noteq> NotDispatched" by auto
    let ?a = "a\<lparr>at_state := NotDispatched\<rparr>"
    let ?f = "\<lambda>w. w\<lparr>pw_paidReservedMicrocredits :=
      pw_paidReservedMicrocredits w - ai_maximumExposureMicrocredits (at_input a)\<rparr>"
    from step r a na obtain s1 where st: "at_state a = Reserved"
      and upd: "updateWindow (ad_windowKey r) ?f s = Inr s1" and t: "t = putRequest h (putAttempt k ?a r) s1"
      by (auto simp: releaseBeforeDispatch_def result_iffs split: if_splits)
    have rok: "request_ok r" and aok: "attempt_ok a"
      using inv_request(1) [OF inv r] inv_attempt(1) a by auto
    have "request_ok (putAttempt k ?a r)"
      using rok aok st by (intro request_ok_putAttempt) (auto simp: attempt_ok_def attemptOpen_def)
    moreover have "counter c (?f w) = counter c w - admission_share c r + admission_share c (putAttempt k ?a r)" for c w
      using st aok by (cases c) (simp_all add: dtotal_put_present [OF a] exposureHeld_def spendSettled_def attempt_ok_def)
    ultimately show ?thesis unfolding t by (intro inv_putRequest_window [OF inv r upd]) auto
  qed
qed

lemma observeProof_cases:
  assumes "observeProof h k p s = Inr (u, t)"
  obtains r a binding current where "requestOf s h = Inr r" "map_of (ad_attempts r) k = Some a"
    "at_state a = Dispatched" "ai_account (at_input a) = Some binding"
    "findAccount s (Some binding) = Some current" "proofFence current binding p r"
    "t = s\<lparr>as_accounts := replaceFirst (\<lambda>a. ab_accountId a = ab_accountId binding)
       (current\<lparr>ab_proof := Some p\<rparr>) (as_accounts s)\<rparr>"
proof -
  from assms obtain r a where "requestOf s h = Inr r" "map_of (ad_attempts r) k = Some a" "at_state a = Dispatched"
    by (cases "requestOf s h") (auto simp: observeProof_def result_iffs split: option.split_asm)
  moreover from calculation assms obtain binding current where "ai_account (at_input a) = Some binding"
    "findAccount s (Some binding) = Some current"
    by (auto simp: observeProof_def result_iffs split: option.split_asm)
  ultimately show thesis
    using assms by (intro that) (auto simp: observeProof_def result_iffs split: if_split_asm)
qed

lemma observeProof_inv:
  assumes "authority_inv s" and "observeProof h k p s = Inr (u, t)"
  shows "authority_inv t"
  using assms(2) by (cases rule: observeProof_cases) (use assms(1) in \<open>simp add: authority_inv_frame\<close>)

lemma observeTerminal_cases:
  assumes "observeTerminal h k ev fin s = Inr (u, t)"
  obtains r a s1 s2 where "requestOf s h = Inr r" "map_of (ad_attempts r) k = Some a" "at_state a = Dispatched"
    "\<And>n. te_spendMicrocredits ev = Some n \<Longrightarrow> 0 \<le> n"
    "at_terminal a = None \<or> at_terminal a = Some ev"
    "fin \<Longrightarrow> ad_semantic r = None \<or> ad_semantic r = Some (te_outcome ev)"
    "(if fin \<and> \<not> ad_kernelSettled r
      then updateWindow (ad_windowKey r) (settleKernelWindow (te_outcome ev)) s else Inr s) = Inr s1"
    "(case te_spendMicrocredits ev of None \<Rightarrow> Inr s1
      | Some n \<Rightarrow> if at_billingSettled a then Inr s1
          else updateWindow (ad_windowKey r) (settleSpendWindow (at_input a) n) s1) = Inr s2"
    "t = putRequest h (putAttempt k (terminalAttempt a ev) (terminalRequest r (te_outcome ev) fin)) s2"
proof -
  from assms obtain r a where r: "requestOf s h = Inr r" and a: "map_of (ad_attempts r) k = Some a"
    by (cases "requestOf s h") (auto simp: observeTerminal_def result_iffs split: option.split_asm)
  with assms have facts: "at_state a = Dispatched" "at_terminal a = None \<or> at_terminal a = Some ev"
    "\<And>n. te_spendMicrocredits ev = Some n \<Longrightarrow> 0 \<le> n"
    "fin \<Longrightarrow> ad_semantic r = None \<or> ad_semantic r = Some (te_outcome ev)"
    by (auto simp: observeTerminal_def result_iffs)
  from r a assms obtain s1 s2 where
    "(if fin \<and> \<not> ad_kernelSettled r
      then updateWindow (ad_windowKey r) (settleKernelWindow (te_outcome ev)) s else Inr s) = Inr s1"
    "(case te_spendMicrocredits ev of None \<Rightarrow> Inr s1
      | Some n \<Rightarrow> if at_billingSettled a then Inr s1
          else updateWindow (ad_windowKey r) (settleSpendWindow (at_input a) n) s1) = Inr s2"
    "t = putRequest h (putAttempt k (terminalAttempt a ev) (terminalRequest r (te_outcome ev) fin)) s2"
    by (auto simp: observeTerminal_def result_iffs split del: if_split)
  with r a facts that show thesis by blast
qed

lemma put_put [simp]: "put k b (put k a d) = put k b d"
  by (induction d) (auto simp: put_def)

lemma put_same: "map_of d k = Some v \<Longrightarrow> put k v d = d"
  by (induction d) (auto simp: put_def split: if_splits)

lemma updateWindow_comp:
  "updateWindow k f s = Inr s1 \<Longrightarrow> updateWindow k g s1 = updateWindow k (\<lambda>w. g (f w)) s"
  by (auto simp: updateWindow_def split: option.splits)

lemma updateWindow_id: "map_of (as_windows s) k = Some w \<Longrightarrow> updateWindow k (\<lambda>w. w) s = Inr s"
  by (simp add: updateWindow_def put_same)

lemma updateWindow_window:
  "updateWindow k f s = Inr t \<Longrightarrow> \<exists>w. map_of (as_windows s) k = Some w \<and> map_of (as_windows t) k = Some (f w)"
  by (auto simp: updateWindow_def split: option.splits)

text \<open>The window change of a terminal observation, as one function.\<close>

definition terminalWindow :: "admission_record \<Rightarrow> attempt_record \<Rightarrow> terminal_evidence \<Rightarrow> bool \<Rightarrow>
    principal_window \<Rightarrow> principal_window" where
  "terminalWindow r a ev fin w =
     (let w1 = (if fin \<and> \<not> ad_kernelSettled r then settleKernelWindow (te_outcome ev) w else w)
      in case te_spendMicrocredits ev of None \<Rightarrow> w1
         | Some n \<Rightarrow> if at_billingSettled a then w1 else settleSpendWindow (at_input a) n w1)"

lemma observeTerminal_window:
  assumes w: "map_of (as_windows s) k = Some w" "k = ad_windowKey r"
    and s1: "(if fin \<and> \<not> ad_kernelSettled r
      then updateWindow k (settleKernelWindow (te_outcome ev)) s else Inr s) = Inr s1"
    and s2: "(case te_spendMicrocredits ev of None \<Rightarrow> Inr s1
      | Some n \<Rightarrow> if at_billingSettled a then Inr s1
          else updateWindow k (settleSpendWindow (at_input a) n) s1) = Inr s2"
  shows "updateWindow k (terminalWindow r a ev fin) s = Inr s2"
proof -
  let ?f = "\<lambda>w. if fin \<and> \<not> ad_kernelSettled r then settleKernelWindow (te_outcome ev) w else w"
  have f: "updateWindow k ?f s = Inr s1"
    using s1 updateWindow_id [OF w(1)] by (cases "fin \<and> \<not> ad_kernelSettled r") auto
  then obtain w1 where w1: "map_of (as_windows s1) k = Some w1" using updateWindow_window by blast
  let ?g = "\<lambda>w. case te_spendMicrocredits ev of None \<Rightarrow> w
    | Some n \<Rightarrow> if at_billingSettled a then w else settleSpendWindow (at_input a) n w"
  have "updateWindow k ?g s1 = Inr s2"
    using s2 updateWindow_id [OF w1] by (cases "te_spendMicrocredits ev"; cases "at_billingSettled a") auto
  then have "updateWindow k (\<lambda>w. ?g (?f w)) s = Inr s2" using updateWindow_comp [OF f] by simp
  then show ?thesis by (simp add: terminalWindow_def [abs_def] Let_def)
qed

lemma terminalAttempt_simps [simp]:
  "at_input (terminalAttempt a ev) = at_input a" "at_state (terminalAttempt a ev) = at_state a"
  "at_terminal (terminalAttempt a ev) = Some ev"
  by (simp_all add: terminalAttempt_def Let_def split: option.splits)

lemma terminalRequest_simps [simp]:
  "ad_handle (terminalRequest r x fin) = ad_handle r" "ad_windowKey (terminalRequest r x fin) = ad_windowKey r"
  "ad_attempts (terminalRequest r x fin) = ad_attempts r" "ad_settled (terminalRequest r x fin) = ad_settled r"
  "ad_dispatched (terminalRequest r x fin) = ad_dispatched r"
  "ad_kernelSettled (terminalRequest r x fin) = (fin \<or> ad_kernelSettled r)"
  "ad_semantic (terminalRequest r x fin) = (if fin then Some x else ad_semantic r)"
  "ad_delivery (terminalRequest r x fin) = ad_delivery r"
  by (simp_all add: terminalRequest_def)

lemma terminalAttempt_ok:
  assumes "attempt_ok a" "at_state a = Dispatched" "\<And>n. te_spendMicrocredits ev = Some n \<Longrightarrow> 0 \<le> n"
  shows "attempt_ok (terminalAttempt a ev)"
  using assms by (auto simp: attempt_ok_def terminalAttempt_def Let_def split: option.splits)

lemma terminal_share:
  assumes a: "map_of (ad_attempts r) k = Some a" and ok: "attempt_ok a" and st: "at_state a = Dispatched"
    and rok: "request_ok r" and sem: "fin \<Longrightarrow> ad_semantic r = None \<or> ad_semantic r = Some (te_outcome ev)"
  shows "counter c (terminalWindow r a ev fin w) = counter c w - admission_share c r +
    admission_share c (putAttempt k (terminalAttempt a ev) (terminalRequest r (te_outcome ev) fin))"
proof -
  have kern: "ad_kernelSettled r \<Longrightarrow> ad_semantic r \<noteq> None" using rok by (simp add: request_ok_def)
  have att: "exposureHeld (terminalAttempt a ev) =
      (if te_spendMicrocredits ev \<noteq> None \<and> \<not> at_billingSettled a
       then exposureHeld a - ai_maximumExposureMicrocredits (at_input a) else exposureHeld a)"
    "spendSettled (terminalAttempt a ev) =
      (case te_spendMicrocredits ev of None \<Rightarrow> spendSettled a
       | Some n \<Rightarrow> if at_billingSettled a then spendSettled a
           else spendSettled a + (if ai_provider (at_input a) \<noteq> Codex then n else 0))"
    using ok st by (auto simp: exposureHeld_def spendSettled_def terminalAttempt_def Let_def attempt_ok_def
        split: option.splits)
  show ?thesis
    using a sem kern
    by (cases c) (auto simp: terminalWindow_def Let_def dtotal_put_present att settleKernelWindow_def
        settleSpendWindow_def split: option.splits)
qed

lemma observeTerminal_inv:
  assumes inv: "authority_inv s" and step: "observeTerminal h k ev fin s = Inr (u, t)"
  shows "authority_inv t"
  using step
proof (cases rule: observeTerminal_cases)
  case (1 r a s1 s2)
  obtain w where w: "map_of (as_windows s) (ad_windowKey r) = Some w" using inv_request(2) [OF inv 1(1)] by auto
  have upd: "updateWindow (ad_windowKey r) (terminalWindow r a ev fin) s = Inr s2"
    by (rule observeTerminal_window [OF w refl 1(7,8)])
  have rok: "request_ok r" and aok: "attempt_ok a"
    using inv_request(1) [OF inv 1(1)] inv_attempt(1) 1(2) by auto
  have "request_ok (terminalRequest r (te_outcome ev) fin)"
    using rok by (simp add: request_ok_def)
  then have "request_ok (putAttempt k (terminalAttempt a ev) (terminalRequest r (te_outcome ev) fin))"
    using terminalAttempt_ok [OF aok 1(3,4)] inv_attempt(3) [OF rok 1(2,3)] 1(3)
    by (intro request_ok_putAttempt) (simp_all add: attemptOpen_def)
  then show ?thesis
    unfolding 1(9) by (intro inv_putRequest_window [OF inv 1(1) upd])
      (simp_all add: terminal_share [OF 1(2) aok 1(3) rok 1(6)])
qed

lemma observeDelivery_inv:
  assumes inv: "authority_inv s" and step: "observeDelivery h o' s = Inr (u, t)"
  shows "authority_inv t"
proof -
  from step obtain r where r: "requestOf s h = Inr r"
    and t: "t = putRequest h (r\<lparr>ad_delivery := Some o'\<rparr>) s \<or> t = s"
    by (auto simp: observeDelivery_def result_iffs split: if_splits)
  have "request_ok (r\<lparr>ad_delivery := Some o'\<rparr>)"
    using inv_request(1) [OF inv r] by (simp add: request_ok_def)
  moreover have "admission_share c (r\<lparr>ad_delivery := Some o'\<rparr>) = admission_share c r" for c
    by (cases c) simp_all
  ultimately have "authority_inv (putRequest h (r\<lparr>ad_delivery := Some o'\<rparr>) s)"
    by (intro inv_putRequest [OF inv r]) simp_all
  with t inv show ?thesis by auto
qed

lemma observeUsage_cases:
  assumes "observeUsage h k pid n s = Inr (u, t)"
  obtains (Repeat) r a where "requestOf s h = Inr r" "map_of (ad_attempts r) k = Some a"
      "at_billingSettled a" "at_settledSpendMicrocredits a = Some n" "t = s"
  | (Settle) r a s1 where "requestOf s h = Inr r" "map_of (ad_attempts r) k = Some a"
      "\<not> at_billingSettled a" "usageCorrelates a pid" "0 \<le> n"
      "updateWindow (ad_windowKey r) (settleSpendWindow (at_input a) n) s = Inr s1"
      "t = putRequest h (putAttempt k (a\<lparr>at_billingSettled := True, at_settledSpendMicrocredits := Some n\<rparr>) r) s1"
proof -
  from assms obtain r a where r: "requestOf s h = Inr r" and a: "map_of (ad_attempts r) k = Some a"
    by (cases "requestOf s h") (auto simp: observeUsage_def result_iffs split: option.split_asm)
  show thesis
  proof (cases "at_billingSettled a")
    case True
    with assms r a Repeat show thesis by (auto simp: observeUsage_def result_iffs split: if_split_asm)
  next
    case False
    with assms r a Settle show thesis by (auto simp: observeUsage_def result_iffs)
  qed
qed

lemma observeUsage_inv:
  assumes inv: "authority_inv s" and step: "observeUsage h k pid n s = Inr (u, t)"
  shows "authority_inv t"
  using step
proof (cases rule: observeUsage_cases)
  case (Repeat r a)
  with inv show ?thesis by simp
next
  case (Settle r a s1)
  let ?a = "a\<lparr>at_billingSettled := True, at_settledSpendMicrocredits := Some n\<rparr>"
  have rok: "request_ok r" and aok: "attempt_ok a"
    using inv_request(1) [OF inv Settle(1)] inv_attempt(1) Settle(2) by auto
  have st: "at_state a = Dispatched" "at_terminal a \<noteq> None" "ai_provider (at_input a) \<noteq> Codex"
    using Settle(4) by (auto simp: usageCorrelates_def split: option.splits)
  have "request_ok (putAttempt k ?a r)"
    using rok aok st Settle(5) inv_attempt(3) [OF rok Settle(2) st(1)]
    by (intro request_ok_putAttempt) (auto simp: attempt_ok_def attemptOpen_def)
  moreover have "counter c (settleSpendWindow (at_input a) n w) =
      counter c w - admission_share c r + admission_share c (putAttempt k ?a r)" for c w
    using Settle(3) st aok
    by (cases c) (simp_all add: dtotal_put_present [OF Settle(2)] settleSpendWindow_def exposureHeld_def
        spendSettled_def attempt_ok_def)
  ultimately show ?thesis
    unfolding Settle(7) by (intro inv_putRequest_window [OF inv Settle(1,6)]) auto
qed

lemma settle_cases:
  assumes "settle h s = Inr (x, t)"
  obtains (Done) r where "requestOf s h = Inr r" "ad_settled r" "x = Settled" "t = s"
  | (Waiting) r where "requestOf s h = Inr r" "\<not> ad_settled r" "x = Pending" "t = s"
  | (Close) r s1 where "requestOf s h = Inr r" "\<not> ad_settled r" "x = Settled"
      "ad_semantic r \<noteq> None" "ad_delivery r \<noteq> None" "\<forall>a \<in> set (vals (ad_attempts r)). \<not> attemptOpen a"
      "updateWindow (ad_windowKey r) (settleWindow r) s = Inr s1"
      "t = putRequest h (r\<lparr>ad_kernelSettled := True, ad_settled := True\<rparr>) s1"
proof -
  from assms obtain r where r: "requestOf s h = Inr r" by (auto simp: settle_def result_iffs)
  let ?open = "\<exists>a \<in> set (vals (ad_attempts r)). attemptOpen a"
  consider "ad_settled r" | "\<not> ad_settled r" "ad_semantic r = None \<or> ad_delivery r = None \<or> ?open"
    | "\<not> ad_settled r" "ad_semantic r \<noteq> None" "ad_delivery r \<noteq> None" "\<not> ?open" by blast
  then show thesis
  proof cases
    case 1
    with assms r show thesis by (intro Done [of r]) (auto simp: settle_def)
  next
    case 2
    with assms r show thesis by (intro Waiting [of r]) (auto simp: settle_def split: if_splits)
  next
    case 3
    with assms r obtain s1 where "updateWindow (ad_windowKey r) (settleWindow r) s = Inr s1" "x = Settled"
      "t = putRequest h (r\<lparr>ad_kernelSettled := True, ad_settled := True\<rparr>) s1"
      by (auto simp: settle_def result_iffs)
    with 3 r show thesis by (intro Close [of r s1]) auto
  qed
qed

lemma settle_inv:
  assumes inv: "authority_inv s" and step: "settle h s = Inr (x, t)"
  shows "authority_inv t"
  using step
proof (cases rule: settle_cases)
  case (Close r s1)
  have rok: "request_ok r" using inv_request(1) [OF inv Close(1)] .
  have "request_ok (r\<lparr>ad_kernelSettled := True, ad_settled := True\<rparr>)"
    using rok Close by (simp add: request_ok_def)
  moreover have "counter c (settleWindow r w) = counter c w - admission_share c r +
      admission_share c (r\<lparr>ad_kernelSettled := True, ad_settled := True\<rparr>)" for c w
    using Close(2) by (cases c) (auto simp: settleWindow_def Let_def)
  ultimately show ?thesis
    unfolding Close(8) by (intro inv_putRequest_window [OF inv Close(1,7)]) auto
qed (use inv in simp_all)

lemma releaseReserved_window:
  assumes "map_of (as_windows s) k = Some w"
  shows "releaseReserved as k s = updateWindow k (\<lambda>w. w\<lparr>pw_paidReservedMicrocredits :=
     pw_paidReservedMicrocredits w -
       (\<Sum>a \<leftarrow> as. if at_state a = Reserved then ai_maximumExposureMicrocredits (at_input a) else 0)\<rparr>) s"
  using assms
proof (induction as arbitrary: s w)
  case Nil
  then show ?case by (simp add: updateWindow_id)
next
  case (Cons a as)
  show ?case
  proof (cases "at_state a = Reserved")
    case False
    with Cons show ?thesis by simp
  next
    case True
    let ?f = "\<lambda>w. w\<lparr>pw_paidReservedMicrocredits :=
      pw_paidReservedMicrocredits w - ai_maximumExposureMicrocredits (at_input a)\<rparr>"
    from Cons.prems obtain s1 where s1: "updateWindow k ?f s = Inr s1" by (auto simp: updateWindow_def)
    then obtain w1 where "map_of (as_windows s1) k = Some w1" using updateWindow_window by blast
    from Cons.IH [OF this] True s1 show ?thesis
      by (simp add: updateWindow_comp [OF s1] algebra_simps)
  qed
qed

lemma cancelUndispatched_cases:
  assumes "authority_inv s" and "cancelUndispatched h s = Inr (u, t)"
  obtains r s1 where "requestOf s h = Inr r"
    "\<forall>a \<in> set (vals (ad_attempts r)). at_state a \<noteq> DispatchIntent \<and> at_state a \<noteq> Dispatched"
    "updateWindow (ad_windowKey r) (\<lambda>w. w\<lparr>pw_paidReservedMicrocredits := pw_paidReservedMicrocredits w -
       (\<Sum>a \<leftarrow> vals (ad_attempts r). if at_state a = Reserved then ai_maximumExposureMicrocredits (at_input a) else 0)\<rparr>) s
     = Inr s1"
    "t = putRequest h (cancelledRequest r) s1"
proof -
  from assms(2) obtain r s1 where r: "requestOf s h = Inr r"
    and *: "\<forall>a \<in> set (vals (ad_attempts r)). at_state a \<noteq> DispatchIntent \<and> at_state a \<noteq> Dispatched"
      "releaseReserved (vals (ad_attempts r)) (ad_windowKey r) s = Inr s1" "t = putRequest h (cancelledRequest r) s1"
    by (auto simp: cancelUndispatched_def result_iffs)
  from inv_request(2) [OF assms(1) r] obtain w where "map_of (as_windows s) (ad_windowKey r) = Some w" by auto
  from releaseReserved_window [OF this] * r that show thesis by auto
qed

lemma vals_cancelled:
  "vals (map (\<lambda>(k, a). (k, f a)) d) = map f (vals d)" "wf_dict (map (\<lambda>(k, a). (k, f a)) d) = wf_dict d"
  by (induction d) (auto simp: vals_def wf_dict_def comp_def case_prod_beta)

lemma spendSettled_state [simp]: "spendSettled (a\<lparr>at_state := x\<rparr>) = spendSettled a"
  by (simp add: spendSettled_def)

lemma exposureHeld_NotDispatched [simp]: "exposureHeld (a\<lparr>at_state := NotDispatched\<rparr>) = 0"
  by (simp add: exposureHeld_def)

lemma cancelled_shares:
  assumes "\<forall>a \<in> set as. attempt_ok a \<and> at_state a \<noteq> DispatchIntent \<and> at_state a \<noteq> Dispatched"
  shows "(\<Sum>a \<leftarrow> as. exposureHeld (a\<lparr>at_state := NotDispatched\<rparr>)) = 0"
    and "(\<Sum>a \<leftarrow> as. spendSettled (a\<lparr>at_state := NotDispatched\<rparr>)) = (\<Sum>a \<leftarrow> as. spendSettled a)"
    and "(\<Sum>a \<leftarrow> as. if at_state a = Reserved then ai_maximumExposureMicrocredits (at_input a) else 0) =
      (\<Sum>a \<leftarrow> as. exposureHeld a)"
proof -
  have held: "(if at_state a = Reserved then ai_maximumExposureMicrocredits (at_input a) else 0) = exposureHeld a"
    if "a \<in> set as" for a
    using assms that by (cases "at_state a") (auto simp: exposureHeld_def attempt_ok_def)
  show "(\<Sum>a \<leftarrow> as. if at_state a = Reserved then ai_maximumExposureMicrocredits (at_input a) else 0) =
      (\<Sum>a \<leftarrow> as. exposureHeld a)"
    using held by (intro arg_cong [where f = sum_list] map_cong refl) auto
qed simp_all

lemma cancelUndispatched_inv:
  assumes inv: "authority_inv s" and step: "cancelUndispatched h s = Inr (u, t)"
  shows "authority_inv t"
  using inv step
proof (cases rule: cancelUndispatched_cases)
  case (1 r s1)
  have rok: "request_ok r" using inv_request(1) [OF inv 1(1)] .
  let ?as = "vals (ad_attempts r)"
  from rok 1(2) have as: "\<forall>a \<in> set ?as. attempt_ok a \<and> at_state a \<noteq> DispatchIntent \<and> at_state a \<noteq> Dispatched"
    by (auto simp: request_ok_def)
  have at: "vals (ad_attempts (cancelledRequest r)) = map (\<lambda>a. a\<lparr>at_state := NotDispatched\<rparr>) ?as"
    "wf_dict (ad_attempts (cancelledRequest r)) = wf_dict (ad_attempts r)"
    by (simp_all add: cancelledRequest_def vals_cancelled)
  have nd: "ad_kernelSettled r \<Longrightarrow> ad_semantic r \<noteq> None" using rok by (simp add: request_ok_def)
  have "request_ok (cancelledRequest r)"
    using rok as unfolding request_ok_def at
    by (auto simp: attempt_ok_def attemptOpen_def cancelledRequest_def orElse_def split: option.splits)
  moreover have "counter c (w\<lparr>pw_paidReservedMicrocredits := pw_paidReservedMicrocredits w -
       (\<Sum>a \<leftarrow> ?as. if at_state a = Reserved then ai_maximumExposureMicrocredits (at_input a) else 0)\<rparr>) =
      counter c w - admission_share c r + admission_share c (cancelledRequest r)" for c w
  proof (cases c)
    case CPaidReserved
    then show ?thesis by (simp add: dtotal_def at cancelled_shares [OF as] comp_def)
  next
    case CPaidSettled
    then show ?thesis by (simp add: dtotal_def at cancelled_shares [OF as] comp_def)
  next
    case CKernelCompleted
    then show ?thesis using nd by (auto simp: cancelledRequest_def orElse_def split: option.splits)
  qed (simp_all add: cancelledRequest_def)
  ultimately show ?thesis
    unfolding 1(4) by (intro inv_putRequest_window [OF inv 1(1,3)]) (auto simp: cancelledRequest_def)
qed

end
