(* ===== verification/Credential_Publication.thy ===== *)
theory Credential_Publication
  imports Admission_State Js_Text
begin

text \<open>
  \<^verbatim>\<open>CredentialPublisher\<close> (\<^verbatim>\<open>src/src/authority/credential-publication.ts\<close>): a
  credential owner publishes access tokens for one account. The access verifier is injected by the
  caller, so it is an argument. The fields an input object may carry beyond the declared ones are
  the list \<open>pb_keys\<close> of its own keys, \<open>None\<close> standing for a symbol.
\<close>

record credential_owner_binding =
  ob_scope :: authority_scope
  ob_ownerId :: string
  ob_ownerEpoch :: int
  ob_accountId :: string
  ob_workspaceId :: string
  ob_minimumNativeRefreshedAtNs :: string

record access_publication = access_authorization +
  pb_previousGeneration :: int
  pb_keys :: "string option list"

record verified_access_identity =
  vi_accountId :: string
  vi_workspaceId :: string
  vi_fingerprint :: string
  vi_issuedAtMs :: int
  vi_expiresAtMs :: int

type_synonym access_verifier = "access_publication \<Rightarrow> authority_error + verified_access_identity"

datatype publish_result = Published | Duplicate

definition FIELDS :: "string list" where
  "FIELDS = [''ownerId'', ''ownerEpoch'', ''accountId'', ''workspaceId'', ''generation'',
     ''previousGeneration'', ''nativeRefreshedAtNs'', ''fingerprint'', ''accessToken'', ''idToken'',
     ''issuedAtMs'', ''expiresAtMs'']"

definition validateBinding :: "credential_owner_binding \<Rightarrow> access_publication \<Rightarrow> authority_error + unit" where
  "validateBinding b input =
     rbind (ensure (\<forall>k \<in> set (pb_keys input). case k of None \<Rightarrow> False | Some f \<Rightarrow> f \<in> set FIELDS)
              (AuthorityError ''unexpected_credential_field'' 400)) (\<lambda>_.
     ensure (az_ownerId input = ob_ownerId b \<and> az_ownerEpoch input = ob_ownerEpoch b \<and>
             az_accountId input = ob_accountId b \<and> az_workspaceId input = ob_workspaceId b)
       (AuthorityError ''credential_owner_binding_mismatch'' 403))"

definition validateGeneration :: "access_publication \<Rightarrow> int \<Rightarrow> authority_error + unit" where
  "validateGeneration input now =
     ensure (is_safe_integer (az_generation input) \<and> 1 \<le> az_generation input \<and>
             pb_previousGeneration input = az_generation input - 1 \<and>
             digits_only (az_nativeRefreshedAtNs input) \<and>
             az_accessToken input \<noteq> [] \<and> az_idToken input \<noteq> [] \<and> az_fingerprint input \<noteq> [] \<and>
             is_safe_integer (az_expiresAtMs input) \<and> is_safe_integer (az_issuedAtMs input) \<and>
             az_issuedAtMs input \<le> now \<and> now + 120000 < az_expiresAtMs input)
       (AuthorityError ''credential_generation_invalid'' 403)"

definition authorizationOf :: "access_publication \<Rightarrow> access_authorization" where
  "authorizationOf input =
     \<lparr>az_ownerId = az_ownerId input, az_ownerEpoch = az_ownerEpoch input, az_accountId = az_accountId input,
      az_workspaceId = az_workspaceId input, az_generation = az_generation input,
      az_nativeRefreshedAtNs = az_nativeRefreshedAtNs input, az_fingerprint = az_fingerprint input,
      az_accessToken = az_accessToken input, az_idToken = az_idToken input,
      az_issuedAtMs = az_issuedAtMs input, az_expiresAtMs = az_expiresAtMs input\<rparr>"

definition staleRefresh :: "string \<Rightarrow> string \<Rightarrow> authority_error + bool" where
  "staleRefresh new old =
     rbind (require (bigint new) SyntaxError) (\<lambda>n.
     rbind (require (bigint old) SyntaxError) (\<lambda>m. Inr (n \<le> m)))"

definition publicationStale ::
  "access_authorization option \<Rightarrow> account_binding \<Rightarrow> access_publication \<Rightarrow> authority_error + bool" where
  "publicationStale current account input =
     (if (case current of None \<Rightarrow> ab_credentialGeneration account | Some c \<Rightarrow> az_generation c)
         \<noteq> pb_previousGeneration input
      then Inr True
      else case current of
             None \<Rightarrow> Inr False
           | Some c \<Rightarrow>
               rbind (staleRefresh (az_nativeRefreshedAtNs input) (az_nativeRefreshedAtNs c)) (\<lambda>stale.
               Inr (stale \<or> az_expiresAtMs input < az_expiresAtMs c)))"

definition publishedState ::
  "access_publication \<Rightarrow> access_authorization \<Rightarrow> account_binding \<Rightarrow> authority_state \<Rightarrow> authority_state" where
  "publishedState input authorization account state =
     state\<lparr>as_publications := assign (az_accountId input) authorization (as_publications state),
       as_accounts := replaceFirst (\<lambda>a. ab_accountId a = az_accountId input)
         (account\<lparr>ab_fingerprint := az_fingerprint input,
            ab_credentialGeneration := az_generation input, ab_proof := None\<rparr>) (as_accounts state),
       as_active := (case as_active state of
          None \<Rightarrow> None
        | Some c \<Rightarrow> if ac_accountId c = az_accountId input
                  then Some (c\<lparr>ac_fingerprint := az_fingerprint input\<rparr>) else Some c)\<rparr>"

definition ownerMismatch :: "credential_owner_binding \<Rightarrow> access_authorization option \<Rightarrow> bool" where
  "ownerMismatch b current =
     (case current of
        None \<Rightarrow> False
      | Some c \<Rightarrow> az_ownerId c \<noteq> ob_ownerId b \<or> az_ownerEpoch c \<noteq> ob_ownerEpoch b \<or>
          az_workspaceId c \<noteq> ob_workspaceId b)"

definition applyPublication ::
  "credential_owner_binding \<Rightarrow> access_publication \<Rightarrow> access_authorization \<Rightarrow> authority_state \<Rightarrow>
   publish_result authority_result" where
  "applyPublication b input authorization state =
     (let current = lookup (as_publications state) (az_accountId input) in
      rbind (require (find (\<lambda>a. ab_accountId a = az_accountId input) (as_accounts state))
               (AuthorityError ''credential_account_missing'' 403)) (\<lambda>account.
      if map_option az_generation current = Some (az_generation input) then
        (if sameEvidence current (Some authorization) then Inr (Duplicate, state)
         else Inl (conflict ''credential_generation_conflict''))
      else
        rbind (ensure (\<not> ownerMismatch b current) (AuthorityError ''credential_owner_binding_mismatch'' 403)) (\<lambda>_.
        rbind (publicationStale current account input) (\<lambda>stale.
        rbind (ensure (\<not> stale) (conflict ''credential_generation_conflict'')) (\<lambda>_.
        Inr (Published, publishedState input authorization account state))))))"

definition identityMatches ::
  "credential_owner_binding \<Rightarrow> access_publication \<Rightarrow> verified_access_identity \<Rightarrow> authority_error + bool" where
  "identityMatches b input identity =
     (if vi_accountId identity \<noteq> az_accountId input \<or> vi_workspaceId identity \<noteq> az_workspaceId input \<or>
         vi_fingerprint identity \<noteq> az_fingerprint input \<or> vi_issuedAtMs identity \<noteq> az_issuedAtMs input \<or>
         vi_expiresAtMs identity \<noteq> az_expiresAtMs input
      then Inr False
      else rbind (staleRefresh (az_nativeRefreshedAtNs input) (ob_minimumNativeRefreshedAtNs b))
             (\<lambda>stale. Inr (\<not> stale)))"

text \<open>The checks before the loop, and one iteration of the loop as a transaction.\<close>

definition publishChecks ::
  "credential_owner_binding \<Rightarrow> access_verifier \<Rightarrow> access_publication \<Rightarrow> int \<Rightarrow> authority_error + unit" where
  "publishChecks b verify input now =
     rbind (validateBinding b input) (\<lambda>_.
     rbind (validateGeneration input now) (\<lambda>_.
     rbind (verify input) (\<lambda>identity.
     rbind (identityMatches b input identity) (\<lambda>ok.
     ensure ok (AuthorityError ''credential_identity_mismatch'' 403)))))"

definition publishOnce ::
  "credential_owner_binding \<Rightarrow> access_publication \<Rightarrow> authority_state \<Rightarrow> publish_result authority_result" where
  "publishOnce b input state =
     rbind (ensure (sameScope (as_scope state) (ob_scope b)) (AuthorityError ''namespace_or_epoch_mismatch'' 403)) (\<lambda>_.
     applyPublication b input (authorizationOf input) state)"

section \<open>What a publication does\<close>

lemma publishOnce_cases:
  assumes "publishOnce b input s = Inr (x, t)"
  obtains (Repeat) "x = Duplicate" "t = s"
      "map_of (as_publications s) (az_accountId input) = Some (authorizationOf input)"
  | (Fresh) account where "x = Published"
      "find (\<lambda>a. ab_accountId a = az_accountId input) (as_accounts s) = Some account"
      "t = publishedState input (authorizationOf input) account s"
      "publicationStale (map_of (as_publications s) (az_accountId input)) account input = Inr False"
  using assms
  by (auto simp: publishOnce_def applyPublication_def Let_def result_iffs split: if_split_asm)

lemma publishedState_fields [simp]:
  "as_windows (publishedState i z a s) = as_windows s" "as_admissions (publishedState i z a s) = as_admissions s"
  "as_sequence (publishedState i z a s) = as_sequence s" "as_policies (publishedState i z a s) = as_policies s"
  by (simp_all add: publishedState_def)

lemma publicationStale_fresh:
  assumes "publicationStale current account input = Inr False" and "digits_only (az_nativeRefreshedAtNs input)"
  shows "(case current of None \<Rightarrow> ab_credentialGeneration account | Some c \<Rightarrow> az_generation c) = pb_previousGeneration input"
    and "current = Some c \<Longrightarrow> az_expiresAtMs c \<le> az_expiresAtMs input"
    and "current = Some c \<Longrightarrow> bigint (az_nativeRefreshedAtNs c) = Some m \<Longrightarrow>
      m < int (read_digits (az_nativeRefreshedAtNs input))"
  using assms
  by (auto simp: publicationStale_def staleRefresh_def result_iffs bigint_digits split: if_split_asm option.split_asm)

lemma find_replaceFirst:
  "find P xs = Some x \<Longrightarrow> P y \<Longrightarrow> find P (replaceFirst P y xs) = Some y"
  by (induction xs) auto

lemma find_replaceFirst_other:
  "(\<And>z. P z \<Longrightarrow> \<not> Q z) \<Longrightarrow> \<not> Q y \<Longrightarrow> find Q (replaceFirst P y xs) = find Q xs"
  by (induction xs) auto

lemma findAccount_published:
  assumes "find (\<lambda>a. ab_accountId a = az_accountId input) (as_accounts s) = Some account"
    and "ab_accountId account = az_accountId input" and "ab_accountId old = az_accountId input"
  shows "findAccount (publishedState input z account s) (Some old) =
    Some (account\<lparr>ab_fingerprint := az_fingerprint input,
      ab_credentialGeneration := az_generation input, ab_proof := None\<rparr>)"
  using assms by (simp add: findAccount_def publishedState_def find_replaceFirst)

end
