(* ===== verification/Authority_Runs.thy ===== *)
theory Authority_Runs
  imports Admission_Steps Credential_Publication
begin

text \<open>
  The steps of the authority are its successful transactions. Every step either leaves the
  admissions alone, rewrites one admission to a later version of itself, or inserts a fresh one; the
  relation \<open>request_evolves\<close> says what "later" allows. Quota bounds, at-most-once dispatch
  and the permanence of recorded evidence follow by induction over runs.
\<close>

section \<open>Steps\<close>

inductive authority_step :: "authority_state \<Rightarrow> authority_state \<Rightarrow> bool" where
  Admit: "in_requestId input \<noteq> proto_key \<Longrightarrow> admit input s = Inr (h, t) \<Longrightarrow> authority_step s t"
| ReserveAttempt: "ai_attemptId input \<noteq> proto_key \<Longrightarrow> reserveAttempt h input now s = Inr (u, t) \<Longrightarrow> authority_step s t"
| BeginDispatch: "beginDispatch h k now s = Inr (b, t) \<Longrightarrow> authority_step s t"
| Reselect: "reselectSubscription h now s = Inr (a, t) \<Longrightarrow> authority_step s t"
| Confirm: "confirmDispatched h k s = Inr (u, t) \<Longrightarrow> authority_step s t"
| Release: "releaseBeforeDispatch h k s = Inr (u, t) \<Longrightarrow> authority_step s t"
| Proof: "observeProof h k p s = Inr (u, t) \<Longrightarrow> authority_step s t"
| Terminal: "observeTerminal h k ev fin s = Inr (u, t) \<Longrightarrow> authority_step s t"
| Delivery: "observeDelivery h outcome s = Inr (u, t) \<Longrightarrow> authority_step s t"
| Usage: "observeUsage h k pid n s = Inr (u, t) \<Longrightarrow> authority_step s t"
| Settle: "settle h s = Inr (x, t) \<Longrightarrow> authority_step s t"
| Cancel: "cancelUndispatched h s = Inr (u, t) \<Longrightarrow> authority_step s t"
| Publish: "publishChecks b verify input now = Inr () \<Longrightarrow> publishOnce b input s = Inr (y, t) \<Longrightarrow> authority_step s t"

lemma publishOnce_inv: "authority_inv s \<Longrightarrow> publishOnce b input s = Inr (x, t) \<Longrightarrow> authority_inv t"
  by (erule publishOnce_cases) (simp_all add: publishedState_def authority_inv_frame)

lemmas step_invs = admit_inv reserveAttempt_inv beginDispatch_inv reselectSubscription_inv confirmDispatched_inv
  releaseBeforeDispatch_inv observeProof_inv observeTerminal_inv observeDelivery_inv observeUsage_inv settle_inv
  cancelUndispatched_inv publishOnce_inv

interpretation authority_machine: machine authority_step authority_inv
proof
  fix s t
  assume "authority_inv s" and "authority_step s t"
  from this(2,1) show "authority_inv t" by cases (blast intro: step_invs)+
qed

lemma createAuthorityState_inv: "authority_inv (createAuthorityState sc accounts policies)"
  by (simp add: createAuthorityState_def authority_inv_def handles_ok_def handle_at_def accounted_def
      balanced_def backed_def)

section \<open>How records evolve\<close>

definition state_evolves :: "attempt_state \<Rightarrow> attempt_state \<Rightarrow> bool" where
  "state_evolves x y \<longleftrightarrow> x = y \<or> x = Reserved \<or> (x = DispatchIntent \<and> y = Dispatched)"

definition attempt_evolves :: "attempt_record \<Rightarrow> attempt_record \<Rightarrow> bool" where
  "attempt_evolves a b \<longleftrightarrow>
     at_input b = at_input a \<and> state_evolves (at_state a) (at_state b) \<and>
     (at_terminal a \<noteq> None \<longrightarrow> at_terminal b = at_terminal a) \<and>
     (at_billingSettled a \<longrightarrow> at_billingSettled b \<and> at_settledSpendMicrocredits b = at_settledSpendMicrocredits a)"

definition attempts_evolve :: "attempt_record dict \<Rightarrow> attempt_record dict \<Rightarrow> bool" where
  "attempts_evolve d e \<longleftrightarrow> (\<forall>k a. map_of d k = Some a \<longrightarrow> (\<exists>b. map_of e k = Some b \<and> attempt_evolves a b))"

definition identity_of ::
  "admission_record \<Rightarrow> admission_handle \<times> string \<times> int \<times> string \<times> string \<times> gateway_route \<times> string" where
  "identity_of r = (ad_handle r, ad_principalId r, ad_policyVersion r, ad_windowKey r, ad_digest r, ad_route r, ad_model r)"

definition delivery_evolves :: "delivery_outcome option \<Rightarrow> delivery_outcome option \<Rightarrow> bool" where
  "delivery_evolves x y \<longleftrightarrow> x = None \<or> x = Some Unobserved \<and> y \<noteq> None \<or> y = x"

definition request_evolves :: "admission_record \<Rightarrow> admission_record \<Rightarrow> bool" where
  "request_evolves r q \<longleftrightarrow>
     identity_of q = identity_of r \<and>
     (ad_dispatched r \<longrightarrow> ad_dispatched q) \<and>
     (ad_kernelSettled r \<longrightarrow> ad_kernelSettled q) \<and>
     (ad_settled r \<longrightarrow> ad_settled q \<and> ad_dispatched q = ad_dispatched r) \<and>
     (ad_semantic r \<noteq> None \<longrightarrow> ad_semantic q = ad_semantic r) \<and>
     delivery_evolves (ad_delivery r) (ad_delivery q) \<and>
     attempts_evolve (ad_attempts r) (ad_attempts q)"

lemma state_evolves_refl [simp]: "state_evolves x x"
  by (simp add: state_evolves_def)

lemma attempt_evolves_refl [simp]: "attempt_evolves a a"
  by (simp add: attempt_evolves_def)

lemma attempt_evolves_trans: "attempt_evolves a b \<Longrightarrow> attempt_evolves b c \<Longrightarrow> attempt_evolves a c"
  by (auto simp: attempt_evolves_def state_evolves_def)

lemma attempts_evolve_refl [simp]: "attempts_evolve d d"
  by (simp add: attempts_evolve_def)

lemma attempts_evolve_trans: "attempts_evolve d e \<Longrightarrow> attempts_evolve e f \<Longrightarrow> attempts_evolve d f"
  unfolding attempts_evolve_def by (meson attempt_evolves_trans)

lemma delivery_evolves_trans: "delivery_evolves x y \<Longrightarrow> delivery_evolves y z \<Longrightarrow> delivery_evolves x z"
  by (auto simp: delivery_evolves_def)

lemma request_evolves_refl [simp]: "request_evolves r r"
  by (simp add: request_evolves_def delivery_evolves_def)

lemma request_evolves_trans: "request_evolves r q \<Longrightarrow> request_evolves q p \<Longrightarrow> request_evolves r p"
  unfolding request_evolves_def
  by (elim conjE, intro conjI) (simp_all, (blast intro: attempts_evolve_trans delivery_evolves_trans)+)

lemma attempts_evolve_put:
  "map_of d k = Some a \<Longrightarrow> attempt_evolves a b \<Longrightarrow> attempts_evolve d (put k b d)"
  by (auto simp: attempts_evolve_def)

lemma attempts_evolve_new: "map_of d k = None \<Longrightarrow> attempts_evolve d (put k b d)"
  by (auto simp: attempts_evolve_def)

text \<open>
  A transaction that reserves no attempt keeps the list of attempts and rewrites entries in place:
  \<open>request_progress\<close>.
\<close>

definition attempts_progress :: "attempt_record dict \<Rightarrow> attempt_record dict \<Rightarrow> bool" where
  "attempts_progress = list_all2 (rel_prod (=) attempt_evolves)"

definition request_progress :: "admission_record \<Rightarrow> admission_record \<Rightarrow> bool" where
  "request_progress r q \<longleftrightarrow> request_evolves r q \<and> attempts_progress (ad_attempts r) (ad_attempts q)"

lemma attempts_progress_refl [simp]: "attempts_progress d d"
  by (auto simp: attempts_progress_def intro!: list_all2_refl prod.rel_refl)

lemma attempts_progress_put:
  assumes "map_of d k = Some a" and "attempt_evolves a b"
  shows "attempts_progress d (put k b d)"
  using assms(1)
proof (induction d)
  case (Cons x d)
  have "attempts_progress d d" by simp
  with Cons assms(2) show ?case
    by (cases x) (auto simp: attempts_progress_def put_def)
qed simp

lemma attempts_progress_dtotal:
  assumes "attempts_progress d e" and "\<And>a b. a \<in> set (vals d) \<Longrightarrow> attempt_evolves a b \<Longrightarrow> f b \<le> f a"
  shows "dtotal f e \<le> dtotal f d"
  using assms unfolding attempts_progress_def
proof (induction rule: list_all2_induct)
  case (Cons x d y e)
  then have "f (snd y) \<le> f (snd x)" by (auto simp: vals_def rel_prod_sel)
  moreover have "dtotal f e \<le> dtotal f d" by (rule Cons.IH) (use Cons.prems in \<open>simp add: vals_def\<close>)
  ultimately show ?case by (simp add: dtotal_def vals_def)
qed simp

lemma request_progress_putAttempt:
  "map_of (ad_attempts r) k = Some a \<Longrightarrow> attempt_evolves a b \<Longrightarrow> request_progress r (putAttempt k b r)"
  by (simp add: request_progress_def request_evolves_def putAttempt_def attempts_evolve_put attempts_progress_put
      identity_of_def delivery_evolves_def)

definition admissions_evolve :: "authority_state \<Rightarrow> authority_state \<Rightarrow> bool" where
  "admissions_evolve s t \<longleftrightarrow>
     as_admissions t = as_admissions s \<or>
     (\<exists>k r q. map_of (as_admissions s) k = Some r \<and> as_admissions t = put k q (as_admissions s) \<and>
        request_progress r q)"

lemma evolve_putRequest:
  assumes "requestOf s h = Inr r" and "request_progress r q" and "as_admissions s1 = as_admissions s"
  shows "admissions_evolve s (putRequest h q s1)"
  using assms by (auto simp: admissions_evolve_def requestOf_iff)

lemma evolve_same: "as_admissions t = as_admissions s \<Longrightarrow> admissions_evolve s t"
  by (simp add: admissions_evolve_def)

lemmas evolves_defs = request_progress_def request_evolves_def identity_of_def delivery_evolves_def

text \<open>A reservation either repeats an earlier one or appends one attempt.\<close>

definition attempt_reserved :: "authority_state \<Rightarrow> authority_state \<Rightarrow> bool" where
  "attempt_reserved s t \<longleftrightarrow>
     (\<exists>h input now r p s1. requestOf s h = Inr r \<and> ai_attemptId input \<noteq> proto_key \<and>
        map_of (ad_attempts r) (ai_attemptId input) = None \<and> 0 \<le> ai_maximumExposureMicrocredits input \<and>
        livePolicy s (ad_principalId r) (ad_policyVersion r) = Inr p \<and> windowCurrent r p now = Inr () \<and>
        (if ai_provider input = Codex then reserveSubscription s r input now else reservePaid s r input p now) = Inr s1 \<and>
        t = putRequest h (addAttempt r input) s1 \<and> as_admissions s1 = as_admissions s)"

lemma reserveAttempt_shape:
  assumes "reserveAttempt h input now s = Inr (u, t)" and "ai_attemptId input \<noteq> proto_key"
  shows "t = s \<or> attempt_reserved s t"
proof -
  from assms obtain r where r: "requestOf s h = Inr r" by (auto simp: reserveAttempt_def result_iffs)
  show ?thesis
  proof (cases "map_of (ad_attempts r) (ai_attemptId input)")
    case (Some a)
    with assms r show ?thesis by (auto simp: reserveAttempt_def result_iffs split: if_splits)
  next
    case None
    with assms r obtain p s1 where
      s1: "(if ai_provider input = Codex then reserveSubscription s r input now else reservePaid s r input p now) = Inr s1"
      and p: "livePolicy s (ad_principalId r) (ad_policyVersion r) = Inr p" "windowCurrent r p now = Inr ()"
      and t: "t = putRequest h (addAttempt r input) s1" and x: "0 \<le> ai_maximumExposureMicrocredits input"
      by (auto simp: reserveAttempt_def result_iffs)
    have "as_admissions s1 = as_admissions s"
      using s1 by (auto dest!: reserveSubscription_state reservePaid_state dest: updateWindow_fields(1) split: if_splits)
    with r None s1 p t x assms(2) show ?thesis unfolding attempt_reserved_def by blast
  qed
qed

lemma addAttempt_evolves:
  "map_of (ad_attempts r) (ai_attemptId input) = None \<Longrightarrow> request_evolves r (addAttempt r input)"
  by (simp add: request_evolves_def identity_of_def delivery_evolves_def addAttempt_def assign_def attempts_evolve_new)

lemma beginDispatch_cases:
  assumes "beginDispatch h k now s = Inr (b, t)"
  obtains r a where "requestOf s h = Inr r" "map_of (ad_attempts r) k = Some a"
    "b = (at_state a = Reserved)" "\<not> b \<Longrightarrow> t = s"
    "b \<Longrightarrow> t = putRequest h (putAttempt k (a\<lparr>at_state := DispatchIntent\<rparr>) r) s"
    "b \<Longrightarrow> \<not> ad_settled r"
    "b \<Longrightarrow> ai_account (at_input a) = None \<Longrightarrow> poolExhausted s (ad_model r) now"
    "b \<Longrightarrow> ai_account (at_input a) \<noteq> None \<Longrightarrow> findAccount s (ai_account (at_input a)) = ai_account (at_input a)"
proof -
  from assms obtain r a where r: "requestOf s h = Inr r" and a: "map_of (ad_attempts r) k = Some a"
    by (auto simp: beginDispatch_def result_iffs)
  show thesis
  proof (cases "at_state a = Reserved")
    case False
    with assms r a show thesis by (intro that [OF r a]) (auto simp: beginDispatch_def result_iffs)
  next
    case True
    with assms r a show thesis
      by (intro that [OF r a]) (auto simp: beginDispatch_def result_iffs split: if_splits)
  qed
qed

lemma beginDispatch_evolves:
  assumes "beginDispatch h k now s = Inr (b, t)"
  shows "admissions_evolve s t"
  using assms
proof (cases rule: beginDispatch_cases)
  case (1 r a)
  have "at_state a = Reserved \<Longrightarrow> attempt_evolves a (a\<lparr>at_state := DispatchIntent\<rparr>)"
    by (simp add: attempt_evolves_def state_evolves_def)
  with 1 show ?thesis
    by (cases b) (auto intro: evolve_same evolve_putRequest request_progress_putAttempt)
qed

lemma reselectSubscription_cases:
  assumes "reselectSubscription h now s = Inr (b, t)"
  obtains r s1 where "requestOf s h = Inr r" "selectAccount s (ad_model r) now = Inr (b, s1)"
    "t = putRequest h (r\<lparr>ad_account := b, ad_activeGeneration := map_option ac_generation (as_active s1)\<rparr>) s1"
  using assms by (auto simp: reselectSubscription_def result_iffs split: option.splits if_splits)

lemma reselectSubscription_evolves:
  assumes "reselectSubscription h now s = Inr (b, t)"
  shows "admissions_evolve s t"
  using assms
proof (cases rule: reselectSubscription_cases)
  case (1 r s1)
  have "request_progress r (r\<lparr>ad_account := x, ad_activeGeneration := y\<rparr>)" for x y
    by (simp add: evolves_defs)
  then show ?thesis
    unfolding 1(3) using 1(1) selectAccount_fields(1) [OF 1(2)] by (blast intro: evolve_putRequest)
qed

lemma confirmDispatched_cases:
  assumes "confirmDispatched h k s = Inr (u, t)"
  obtains r a s1 where "requestOf s h = Inr r" "map_of (ad_attempts r) k = Some a"
    "at_state a = DispatchIntent \<or> at_state a = Dispatched"
    "as_admissions s1 = as_admissions s" "as_policies s1 = as_policies s"
    "t = putRequest h ((putAttempt k (a\<lparr>at_state := Dispatched\<rparr>) r)\<lparr>ad_dispatched := True\<rparr>) s1"
proof -
  from assms obtain r a where r: "requestOf s h = Inr r" and a: "map_of (ad_attempts r) k = Some a"
    and st: "at_state a = DispatchIntent \<or> at_state a = Dispatched"
    by (auto simp: confirmDispatched_def result_iffs split: option.splits if_splits)
  show thesis
  proof (cases "ad_dispatched r")
    case True
    then have same: "(putAttempt k b r)\<lparr>ad_dispatched := True\<rparr> = putAttempt k b r" for b
      by (simp add: putAttempt_def)
    from True assms r a st have "t = putRequest h (putAttempt k (a\<lparr>at_state := Dispatched\<rparr>) r) s"
      by (auto simp: confirmDispatched_def result_iffs)
    then show thesis by (intro that [OF r a st, of s]) (simp_all add: same)
  next
    case False
    with assms r a st obtain s1 where
      "updateWindow (ad_windowKey r) (\<lambda>w. w\<lparr>pw_reserved := pw_reserved w - 1, pw_dispatched := pw_dispatched w + 1\<rparr>) s = Inr s1"
      "t = putRequest h ((putAttempt k (a\<lparr>at_state := Dispatched\<rparr>) r)\<lparr>ad_dispatched := True\<rparr>) s1"
      by (auto simp: confirmDispatched_def result_iffs)
    with that [OF r a st, of s1] show thesis by (simp add: updateWindow_fields)
  qed
qed

lemma confirmDispatched_evolves:
  assumes inv: "authority_inv s" and "confirmDispatched h k s = Inr (u, t)"
  shows "admissions_evolve s t"
  using assms(2)
proof (cases rule: confirmDispatched_cases)
  case (1 r a s1)
  let ?q = "(putAttempt k (a\<lparr>at_state := Dispatched\<rparr>) r)\<lparr>ad_dispatched := True\<rparr>"
  have "ad_settled r \<Longrightarrow> ad_dispatched r"
    using inv_attempt [OF inv_request(1) [OF inv 1(1)] 1(2)] 1(3) by (auto simp: attemptOpen_def)
  moreover have "attempt_evolves a (a\<lparr>at_state := Dispatched\<rparr>)"
    using 1(3) by (auto simp: attempt_evolves_def state_evolves_def)
  ultimately have "request_progress r ?q"
    using 1(2) by (simp add: evolves_defs putAttempt_def attempts_evolve_put attempts_progress_put)
  with 1 show ?thesis by (blast intro: evolve_putRequest)
qed

lemma releaseBeforeDispatch_cases:
  assumes "releaseBeforeDispatch h k s = Inr (u, t)"
  obtains (Keep) "t = s"
  | (Drop) r a s1 where "requestOf s h = Inr r" "map_of (ad_attempts r) k = Some a" "at_state a = Reserved"
      "updateWindow (ad_windowKey r) (\<lambda>w. w\<lparr>pw_paidReservedMicrocredits :=
         pw_paidReservedMicrocredits w - ai_maximumExposureMicrocredits (at_input a)\<rparr>) s = Inr s1"
      "t = putRequest h (putAttempt k (a\<lparr>at_state := NotDispatched\<rparr>) r) s1"
proof -
  from assms obtain r where r: "requestOf s h = Inr r"
    by (auto simp: releaseBeforeDispatch_def result_iffs)
  show thesis
  proof (cases "\<exists>a. map_of (ad_attempts r) k = Some a \<and> at_state a \<noteq> NotDispatched")
    case False
    with assms r show thesis
      by (intro Keep) (auto simp: releaseBeforeDispatch_def result_iffs split: option.splits)
  next
    case True
    with assms r Drop show thesis
      by (auto simp: releaseBeforeDispatch_def result_iffs split: if_splits)
  qed
qed

lemma releaseBeforeDispatch_evolves:
  assumes "releaseBeforeDispatch h k s = Inr (u, t)"
  shows "admissions_evolve s t"
  using assms
proof (cases rule: releaseBeforeDispatch_cases)
  case (Drop r a s1)
  have "attempt_evolves a (a\<lparr>at_state := NotDispatched\<rparr>)"
    using Drop(3) by (simp add: attempt_evolves_def state_evolves_def)
  with Drop show ?thesis
    by (auto intro!: evolve_putRequest request_progress_putAttempt simp: updateWindow_fields(1))
qed (simp add: evolve_same)

lemma observeTerminal_admissions:
  assumes "observeTerminal h k ev fin s = Inr (u, t)"
  obtains r a s2 where "requestOf s h = Inr r" "map_of (ad_attempts r) k = Some a" "at_state a = Dispatched"
    "at_terminal a = None \<or> at_terminal a = Some ev" "as_admissions s2 = as_admissions s" "as_policies s2 = as_policies s"
    "fin \<Longrightarrow> ad_semantic r = None \<or> ad_semantic r = Some (te_outcome ev)"
    "t = putRequest h (putAttempt k (terminalAttempt a ev) (terminalRequest r (te_outcome ev) fin)) s2"
  using assms
proof (cases rule: observeTerminal_cases)
  case (1 r a s1 s2)
  have "as_admissions s1 = as_admissions s \<and> as_policies s1 = as_policies s"
    using 1(7) by (auto dest: updateWindow_fields split: if_splits)
  moreover have "as_admissions s2 = as_admissions s1 \<and> as_policies s2 = as_policies s1"
    using 1(8) by (auto dest: updateWindow_fields split: if_splits option.splits)
  ultimately show thesis using that [OF 1(1-3,5) _ _ 1(6,9)] by simp
qed

lemma observeTerminal_evolves:
  assumes inv: "authority_inv s" and "observeTerminal h k ev fin s = Inr (u, t)"
  shows "admissions_evolve s t"
  using assms(2)
proof (cases rule: observeTerminal_admissions)
  case (1 r a s2)
  have "attempt_evolves a (terminalAttempt a ev)"
    using 1(4) by (auto simp: attempt_evolves_def terminalAttempt_def Let_def split: option.splits)
  moreover have "ad_semantic r \<noteq> None \<Longrightarrow> fin \<Longrightarrow> ad_semantic r = Some (te_outcome ev)" using 1(7) by auto
  ultimately have "request_progress r (putAttempt k (terminalAttempt a ev) (terminalRequest r (te_outcome ev) fin))"
    using 1(2) by (auto simp: evolves_defs putAttempt_def terminalRequest_def attempts_evolve_put attempts_progress_put)
  with 1 show ?thesis by (blast intro: evolve_putRequest)
qed

lemma observeDelivery_evolves:
  assumes "observeDelivery h x s = Inr (u, t)"
  shows "admissions_evolve s t"
proof -
  from assms obtain r where r: "requestOf s h = Inr r"
    and x: "ad_delivery r = None \<or> ad_delivery r = Some Unobserved \<or> ad_delivery r = Some x"
    and t: "t = putRequest h (r\<lparr>ad_delivery := Some x\<rparr>) s \<or> t = s"
    by (auto simp: observeDelivery_def result_iffs split: if_splits)
  have "request_progress r (r\<lparr>ad_delivery := Some x\<rparr>)" using x by (auto simp: evolves_defs)
  with r t show ?thesis by (auto intro: evolve_same evolve_putRequest)
qed

lemma observeUsage_evolves:
  assumes "observeUsage h k pid n s = Inr (u, t)"
  shows "admissions_evolve s t"
  using assms
proof (cases rule: observeUsage_cases)
  case (Settle r a s1)
  have "attempt_evolves a (a\<lparr>at_billingSettled := True, at_settledSpendMicrocredits := Some n\<rparr>)"
    using Settle(3) by (simp add: attempt_evolves_def)
  with Settle show ?thesis
    by (auto intro!: evolve_putRequest request_progress_putAttempt simp: updateWindow_fields(1))
qed (simp add: evolve_same)

lemma settle_evolves:
  assumes "settle h s = Inr (x, t)"
  shows "admissions_evolve s t"
  using assms
proof (cases rule: settle_cases)
  case (Close r s1)
  have "request_progress r (r\<lparr>ad_kernelSettled := True, ad_settled := True\<rparr>)"
    using Close(2) by (simp add: evolves_defs)
  with Close show ?thesis by (auto intro!: evolve_putRequest simp: updateWindow_fields(1))
qed (simp_all add: evolve_same)

lemma attempts_progress_map:
  assumes "\<And>a. a \<in> set (vals d) \<Longrightarrow> attempt_evolves a (f a)"
  shows "attempts_progress d (map (\<lambda>(k, a). (k, f a)) d)" and "attempts_evolve d (map (\<lambda>(k, a). (k, f a)) d)"
proof -
  show "attempts_progress d (map (\<lambda>(k, a). (k, f a)) d)"
    using assms by (induction d) (auto simp: attempts_progress_def vals_def)
  show "attempts_evolve d (map (\<lambda>(k, a). (k, f a)) d)"
    using assms by (auto simp: attempts_evolve_def map_of_map dest!: map_of_vals)
qed

lemma cancelUndispatched_evolves:
  assumes inv: "authority_inv s" and "cancelUndispatched h s = Inr (u, t)"
  shows "admissions_evolve s t"
  using assms
proof (cases rule: cancelUndispatched_cases)
  case (1 r s1)
  have "attempt_evolves a (a\<lparr>at_state := NotDispatched\<rparr>)" if "a \<in> set (vals (ad_attempts r))" for a
  proof -
    from that 1(2) have "at_state a = Reserved \<or> at_state a = NotDispatched" by (cases "at_state a") auto
    then show ?thesis by (auto simp: attempt_evolves_def state_evolves_def)
  qed
  note moves = attempts_progress_map [where f = "\<lambda>a. a\<lparr>at_state := NotDispatched\<rparr>", OF this]
  have "request_progress r (cancelledRequest r)"
    using moves by (auto simp: evolves_defs cancelledRequest_def orElse_def split: option.splits)
  with 1 show ?thesis by (auto intro!: evolve_putRequest simp: updateWindow_fields(1))
qed

lemma admit_shape:
  assumes "admit input s = Inr (h, t)"
  shows "t = s \<or> map_of (as_admissions s) (in_requestId input) = None \<and> admitNew input s = Inr (h, t)"
  using assms by (auto simp: admit_def split: option.splits if_splits)

lemmas step_evolves_rules = beginDispatch_evolves reselectSubscription_evolves confirmDispatched_evolves
  releaseBeforeDispatch_evolves observeTerminal_evolves observeDelivery_evolves observeUsage_evolves settle_evolves
  cancelUndispatched_evolves

lemma step_shape:
  assumes "authority_inv s" and "authority_step s t"
  obtains (Rewrite) "admissions_evolve s t"
  | (Reserve) "attempt_reserved s t"
  | (Insert) input h where "in_requestId input \<noteq> proto_key" "map_of (as_admissions s) (in_requestId input) = None"
      "admitNew input s = Inr (h, t)"
proof -
  have "admissions_evolve s t \<or> attempt_reserved s t \<or>
    (\<exists>input h. in_requestId input \<noteq> proto_key \<and> map_of (as_admissions s) (in_requestId input) = None \<and>
       admitNew input s = Inr (h, t))"
    using assms(2)
  proof cases
    case (Admit input h)
    then show ?thesis using admit_shape by (blast intro: evolve_same)
  next
    case (ReserveAttempt input h now u)
    then show ?thesis using reserveAttempt_shape by (blast intro: evolve_same)
  next
    case (Proof h k p u)
    then show ?thesis by (auto elim!: observeProof_cases intro!: evolve_same)
  next
    case (Publish b verify input now y)
    then show ?thesis by (auto elim!: publishOnce_cases intro!: evolve_same)
  qed (use assms(1) in \<open>blast intro: step_evolves_rules\<close>)+
  with that show thesis by blast
qed

end
