(* ===== verification/Authority_Quotas.thy ===== *)
theory Authority_Quotas
  imports Authority_Runs
begin

text \<open>
  Quota bounds over all runs of the authority. A measure of admissions that never grows when an
  admission is rewritten can only grow where the code checks a limit first: at a fresh admission for
  the request, kernel and concurrency limits, at a paid reservation for the spending limit.
\<close>

section \<open>Policies are constant\<close>

lemma selectAccount_policies: "selectAccount s m now = Inr (a, t) \<Longrightarrow> as_policies t = as_policies s"
  by (auto simp: selectAccount_def selectNext_def activate_def split: option.splits if_splits)

lemma admitNew_policies: "admitNew input s = Inr (h, t) \<Longrightarrow> as_policies t = as_policies s"
  by (erule admitNew_cases) (auto dest: selectAccount_policies)

lemma attempt_reserved_policies: "attempt_reserved s t \<Longrightarrow> as_policies t = as_policies s"
  by (auto simp: attempt_reserved_def dest!: reserveSubscription_state reservePaid_state
      dest: updateWindow_fields(3) split: if_splits)

lemma step_policies:
  assumes inv: "authority_inv s" and "authority_step s t"
  shows "as_policies t = as_policies s"
  using assms(2)
proof cases
  case (Admit input h)
  then show ?thesis by (auto dest: admit_shape admitNew_policies)
next
  case (ReserveAttempt input h now u)
  then show ?thesis by (auto dest: reserveAttempt_shape attempt_reserved_policies)
next
  case (Reselect h now a)
  then show ?thesis by (cases rule: reselectSubscription_cases) (simp add: selectAccount_policies)
next
  case (Terminal h k ev fin u)
  from Terminal show ?thesis by (cases rule: observeTerminal_admissions) simp
next
  case (Cancel h u)
  from inv Cancel show ?thesis by (cases rule: cancelUndispatched_cases) (simp add: updateWindow_fields)
next
  case (Delivery h x u)
  then show ?thesis by (auto simp: observeDelivery_def result_iffs split: if_splits)
qed (auto elim!: beginDispatch_cases confirmDispatched_cases releaseBeforeDispatch_cases observeProof_cases
     observeUsage_cases settle_cases publishOnce_cases simp: updateWindow_fields)

section \<open>Measures of admissions\<close>

definition request_use :: "admission_record \<Rightarrow> int" where
  "request_use r = admission_share CReserved r + admission_share CDispatched r"

definition kernel_use :: "admission_record \<Rightarrow> int" where
  "kernel_use r = admission_share CKernelReserved r + admission_share CKernelCompleted r"

text \<open>What an attempt still has to be allowed to cost: its exposure, or less once a smaller spend is known.\<close>

definition commitment :: "attempt_record \<Rightarrow> int" where
  "commitment a =
     (if at_state a = NotDispatched then 0
      else if at_billingSettled a then min (ai_maximumExposureMicrocredits (at_input a)) (spendSettled a)
      else ai_maximumExposureMicrocredits (at_input a))"

definition paid_use :: "admission_record \<Rightarrow> int" where
  "paid_use r = dtotal commitment (ad_attempts r)"

lemma holdings_add: "holdings (\<lambda>r. f r + g r) key k rows = holdings f key k rows + holdings g key k rows"
  by (induction rows) (auto simp: holdings_def dtotal_def vals_def)

lemma holdings_mono:
  "(\<And>r. r \<in> set (vals rows) \<Longrightarrow> f r \<le> g r) \<Longrightarrow> holdings f key k rows \<le> holdings g key k rows"
  unfolding holdings_def by (rule dtotal_mono) auto

lemma request_use_progress: "request_progress r q \<Longrightarrow> request_use q \<le> request_use r"
  by (auto simp: request_progress_def request_evolves_def request_use_def)

lemma kernel_use_progress: "request_ok r \<Longrightarrow> request_progress r q \<Longrightarrow> kernel_use q \<le> kernel_use r"
  by (auto simp: request_progress_def request_evolves_def kernel_use_def request_ok_def)

lemma commitment_evolves: "attempt_ok a \<Longrightarrow> attempt_evolves a b \<Longrightarrow> commitment b \<le> commitment a"
  by (auto simp: attempt_evolves_def state_evolves_def commitment_def attempt_ok_def spendSettled_def)

lemma paid_use_progress: "request_ok r \<Longrightarrow> request_progress r q \<Longrightarrow> paid_use q \<le> paid_use r"
  unfolding request_progress_def paid_use_def
  by (auto simp: request_ok_def intro!: attempts_progress_dtotal commitment_evolves)

lemma paid_use_le: "request_ok r \<Longrightarrow> paid_use r \<le> admission_share CPaidReserved r + admission_share CPaidSettled r"
proof -
  assume "request_ok r"
  then have "commitment a \<le> exposureHeld a + spendSettled a" if "a \<in> set (vals (ad_attempts r))" for a
    using that by (auto simp: request_ok_def attempt_ok_def commitment_def exposureHeld_def spendSettled_def
        split: option.splits)
  then have "paid_use r \<le> dtotal (\<lambda>a. exposureHeld a + spendSettled a) (ad_attempts r)"
    unfolding paid_use_def by (rule dtotal_mono)
  then show ?thesis by (simp add: dtotal_def sum_list_addf)
qed

lemma progress_keys:
  "request_progress r q \<Longrightarrow> ad_windowKey q = ad_windowKey r \<and> ad_principalId q = ad_principalId r"
  by (simp add: request_progress_def request_evolves_def identity_of_def)

lemma holdings_rewrite:
  assumes inv: "authority_inv s" and "admissions_evolve s t"
    and key: "\<And>r q. request_progress r q \<Longrightarrow> key q = key r"
    and dec: "\<And>r q. request_ok r \<Longrightarrow> request_progress r q \<Longrightarrow> sh q \<le> sh r"
  shows "holdings sh key k (as_admissions t) \<le> holdings sh key k (as_admissions s)"
  using assms(2) unfolding admissions_evolve_def
proof (elim disjE exE conjE)
  fix i r q
  assume i: "map_of (as_admissions s) i = Some r" and t: "as_admissions t = put i q (as_admissions s)"
    and p: "request_progress r q"
  have "request_ok r" using inv map_of_vals [OF i] by (simp add: authority_inv_def)
  with dec p have "sh q \<le> sh r" by blast
  then show ?thesis by (simp add: t holdings_replace [OF i key [OF p]])
qed simp

section \<open>The counters as measures\<close>

lemma window_holdings:
  assumes "authority_inv s"
  shows "(case map_of (as_windows s) k of None \<Rightarrow> 0 | Some w \<Rightarrow> counter c w) =
    holdings (admission_share c) ad_windowKey k (as_admissions s)"
proof (cases "map_of (as_windows s) k")
  case None
  with assms have "holdings (admission_share c) ad_windowKey k (as_admissions s) = 0"
    by (intro holdings_absent) (auto simp: authority_inv_def accounted_def backed_def)
  with None show ?thesis by simp
next
  case (Some w)
  with assms show ?thesis by (simp add: authority_inv_def accounted_def balanced_def)
qed

lemma window_uses:
  assumes "authority_inv s" and "w = (case map_of (as_windows s) k of None \<Rightarrow> emptyWindow | Some w \<Rightarrow> w)"
  shows "pw_reserved w + pw_dispatched w = holdings request_use ad_windowKey k (as_admissions s)"
    and "pw_kernelReserved w + pw_kernelCompleted w = holdings kernel_use ad_windowKey k (as_admissions s)"
    and "holdings paid_use ad_windowKey k (as_admissions s) \<le> pw_paidReservedMicrocredits w + pw_paidSettledMicrocredits w"
proof -
  have w: "counter c w = holdings (admission_share c) ad_windowKey k (as_admissions s)" for c
  proof -
    have "counter c w = (case map_of (as_windows s) k of None \<Rightarrow> 0 | Some w \<Rightarrow> counter c w)"
      using assms(2) by (cases c) (auto simp: emptyWindow_def split: option.split)
    with window_holdings [OF assms(1)] show ?thesis by simp
  qed
  show "pw_reserved w + pw_dispatched w = holdings request_use ad_windowKey k (as_admissions s)"
    unfolding request_use_def holdings_add w [symmetric] by simp
  show "pw_kernelReserved w + pw_kernelCompleted w = holdings kernel_use ad_windowKey k (as_admissions s)"
    unfolding kernel_use_def holdings_add w [symmetric] by simp
  have "holdings paid_use ad_windowKey k (as_admissions s) \<le>
      holdings (\<lambda>r. admission_share CPaidReserved r + admission_share CPaidSettled r) ad_windowKey k (as_admissions s)"
    using assms(1) by (intro holdings_mono paid_use_le) (simp add: authority_inv_def)
  then show "holdings paid_use ad_windowKey k (as_admissions s) \<le>
      pw_paidReservedMicrocredits w + pw_paidSettledMicrocredits w"
    unfolding holdings_add w [symmetric] by simp
qed

section \<open>Bounds\<close>

definition open_use :: "admission_record \<Rightarrow> int" where
  "open_use r = of_bool (\<not> ad_settled r)"

definition within_quota :: "authority_state \<Rightarrow> bool" where
  "within_quota s \<longleftrightarrow> (\<forall>pid p. map_of (as_policies s) pid = Some p \<longrightarrow>
     holdings request_use ad_windowKey (windowKeyFor pid p) (as_admissions s) \<le> max 0 (pp_requestLimit p) \<and>
     holdings kernel_use ad_windowKey (windowKeyFor pid p) (as_admissions s) \<le> max 0 (pp_kernelLimit p) \<and>
     holdings paid_use ad_windowKey (windowKeyFor pid p) (as_admissions s) \<le> max 0 (pp_paidLimitMicrocredits p) \<and>
     holdings open_use ad_principalId pid (as_admissions s) \<le> max 0 (pp_concurrencyLimit p))"

lemma open_use_tally: "holdings open_use ad_principalId pid rows = tally (\<lambda>r. ad_principalId r = pid \<and> \<not> ad_settled r) rows"
  by (induction rows) (auto simp: holdings_def open_use_def tally_def dtotal_def vals_def)

lemma open_use_progress: "request_progress r q \<Longrightarrow> open_use q \<le> open_use r"
  by (auto simp: request_progress_def request_evolves_def open_use_def)

lemma windowKeyFor_inj: "windowKeyFor pid p = windowKeyFor pid' p' \<Longrightarrow> pid = pid'"
  by (simp add: windowKeyFor_def json_text_number_inj)

lemma within_quota_rewrite:
  assumes inv: "authority_inv s" and ev: "admissions_evolve s t" and "as_policies t = as_policies s" and "within_quota s"
  shows "within_quota t"
proof -
  note mono = holdings_rewrite [OF inv ev]
  have "holdings request_use ad_windowKey k (as_admissions t) \<le> holdings request_use ad_windowKey k (as_admissions s)"
    "holdings kernel_use ad_windowKey k (as_admissions t) \<le> holdings kernel_use ad_windowKey k (as_admissions s)"
    "holdings paid_use ad_windowKey k (as_admissions t) \<le> holdings paid_use ad_windowKey k (as_admissions s)"
    "holdings open_use ad_principalId k (as_admissions t) \<le> holdings open_use ad_principalId k (as_admissions s)" for k
    by (rule mono; simp add: progress_keys request_use_progress kernel_use_progress paid_use_progress open_use_progress)+
  note less = this [THEN order_trans]
  show ?thesis
    unfolding within_quota_def assms(3)
    by (intro allI impI conjI less) (use assms(4) in \<open>simp_all add: within_quota_def\<close>)
qed

lemma newAdmission_uses [simp]:
  "request_use (newAdmission i h k a g) = 1" "kernel_use (newAdmission i h k a g) = 1"
  "paid_use (newAdmission i h k a g) = 0" "open_use (newAdmission i h k a g) = 1"
  "ad_windowKey (newAdmission i h k a g) = k" "ad_principalId (newAdmission i h k a g) = in_principalId i"
  by (simp_all add: newAdmission_def request_use_def kernel_use_def paid_use_def open_use_def)

lemma within_quota_insert:
  assumes inv: "authority_inv s" and "in_requestId input \<noteq> proto_key"
    and new: "map_of (as_admissions s) (in_requestId input) = None"
    and "admitNew input s = Inr (h, t)" and q: "within_quota s"
  shows "within_quota t"
  using assms(4)
proof (cases rule: admitNew_cases)
  case (1 policy account s1 w)
  define rec where "rec = newAdmission input h (windowKeyFor (in_principalId input) policy) account
    (map_option ac_generation (as_active s1))"
  have t: "as_admissions t = put (in_requestId input) rec (as_admissions s)" "as_policies t = as_policies s"
    using 1(12) assms(2) admitNew_policies [OF assms(4)] by (simp_all add: assign_def rec_def)
  note ins = holdings_insert [OF new, where r = rec]
  note free = window_uses(1,2) [OF inv 1(8)] open_use_tally [of "in_principalId input" "as_admissions s"] 1(9)
  show ?thesis unfolding within_quota_def t ins
  proof (intro allI impI)
    fix pid p
    assume p: "map_of (as_policies s) pid = Some p"
    note old = q [unfolded within_quota_def, rule_format, OF p]
    show "holdings request_use ad_windowKey (windowKeyFor pid p) (as_admissions s) +
         (if ad_windowKey rec = windowKeyFor pid p then request_use rec else 0) \<le> max 0 (pp_requestLimit p) \<and>
       holdings kernel_use ad_windowKey (windowKeyFor pid p) (as_admissions s) +
         (if ad_windowKey rec = windowKeyFor pid p then kernel_use rec else 0) \<le> max 0 (pp_kernelLimit p) \<and>
       holdings paid_use ad_windowKey (windowKeyFor pid p) (as_admissions s) +
         (if ad_windowKey rec = windowKeyFor pid p then paid_use rec else 0) \<le> max 0 (pp_paidLimitMicrocredits p) \<and>
       holdings open_use ad_principalId pid (as_admissions s) +
         (if ad_principalId rec = pid then open_use rec else 0) \<le> max 0 (pp_concurrencyLimit p)"
    proof (cases "pid = in_principalId input")
      case True
      with p 1(1) have "p = policy" by simp
      with old free show ?thesis unfolding True by (auto simp: rec_def quotaFree_def max_def split: if_splits)
    next
      case False
      then have "windowKeyFor (in_principalId input) policy \<noteq> windowKeyFor pid p" using windowKeyFor_inj by metis
      with False old show ?thesis by (simp add: rec_def)
    qed
  qed
qed

lemma addAttempt_uses:
  assumes "map_of (ad_attempts r) (ai_attemptId input) = None" and "ai_attemptId input \<noteq> proto_key"
  shows "request_use (addAttempt r input) = request_use r" "kernel_use (addAttempt r input) = kernel_use r"
    "open_use (addAttempt r input) = open_use r" "ad_windowKey (addAttempt r input) = ad_windowKey r"
    "ad_principalId (addAttempt r input) = ad_principalId r"
    "paid_use (addAttempt r input) = paid_use r + ai_maximumExposureMicrocredits input"
  using assms
  by (simp_all add: addAttempt_def request_use_def kernel_use_def open_use_def paid_use_def assign_def
      dtotal_put_absent commitment_def newAttempt_def)

lemma reservePaid_within:
  assumes inv: "authority_inv s" and "reservePaid s r input p now = Inr s1"
  shows "holdings paid_use ad_windowKey (ad_windowKey r) (as_admissions s) + ai_maximumExposureMicrocredits input
    \<le> pp_paidLimitMicrocredits p"
proof -
  from assms(2) obtain w where "map_of (as_windows s) (ad_windowKey r) = Some w"
    "pw_paidReservedMicrocredits w + pw_paidSettledMicrocredits w + ai_maximumExposureMicrocredits input
      \<le> pp_paidLimitMicrocredits p"
    by (auto simp: reservePaid_def result_iffs)
  with window_uses(3) [OF inv, of w "ad_windowKey r"] show ?thesis by simp
qed

lemma within_quota_reserve:
  assumes inv: "authority_inv s" and res: "attempt_reserved s t" and q: "within_quota s"
  shows "within_quota t"
proof -
  from res obtain h input now r p s1 where r: "requestOf s h = Inr r" and id: "ai_attemptId input \<noteq> proto_key"
    and new: "map_of (ad_attempts r) (ai_attemptId input) = None"
    and p: "livePolicy s (ad_principalId r) (ad_policyVersion r) = Inr p" and cur: "windowCurrent r p now = Inr ()"
    and s1: "(if ai_provider input = Codex then reserveSubscription s r input now else reservePaid s r input p now) = Inr s1"
    and t: "t = putRequest h (addAttempt r input) s1" "as_admissions s1 = as_admissions s"
    unfolding attempt_reserved_def by blast
  from r have at: "map_of (as_admissions s) (hd_requestId h) = Some r" by (simp add: requestOf_iff)
  note uses = addAttempt_uses [OF new id]
  have t': "as_admissions t = put (hd_requestId h) (addAttempt r input) (as_admissions s)" "as_policies t = as_policies s"
    using t attempt_reserved_policies [OF res] by simp_all
  note rep = holdings_replace [OF at]
  have paid: "holdings paid_use ad_windowKey (windowKeyFor pid p') (as_admissions s) +
      (if ad_windowKey r = windowKeyFor pid p' then ai_maximumExposureMicrocredits input else 0)
      \<le> max 0 (pp_paidLimitMicrocredits p')"
    if pid: "map_of (as_policies s) pid = Some p'" for pid p'
  proof (cases "ai_provider input \<noteq> Codex \<and> ad_windowKey r = windowKeyFor pid p'")
    case True
    from cur have "ad_windowKey r = windowKeyFor (ad_principalId r) p" by (simp add: windowCurrent_def)
    with True have "ad_principalId r = pid" using windowKeyFor_inj by metis
    with p pid have "p' = p" by (auto simp: livePolicy_def split: option.splits if_splits)
    with True s1 reservePaid_within [OF inv, of r input p now s1] show ?thesis by auto
  next
    case False
    with s1 have "ai_maximumExposureMicrocredits input = 0 \<or> ad_windowKey r \<noteq> windowKeyFor pid p'"
      by (auto simp: reserveSubscription_def result_iffs split: if_splits)
    with q pid show ?thesis by (auto simp: within_quota_def)
  qed
  show ?thesis
    unfolding within_quota_def t' rep [OF uses(4)] rep [OF uses(5)]
  proof (intro allI impI)
    fix pid p'
    assume pid: "map_of (as_policies s) pid = Some p'"
    note old = q [unfolded within_quota_def, rule_format, OF pid]
    from old paid [OF pid] show "holdings request_use ad_windowKey (windowKeyFor pid p') (as_admissions s) +
         (if ad_windowKey r = windowKeyFor pid p' then request_use (addAttempt r input) - request_use r else 0)
         \<le> max 0 (pp_requestLimit p') \<and>
       holdings kernel_use ad_windowKey (windowKeyFor pid p') (as_admissions s) +
         (if ad_windowKey r = windowKeyFor pid p' then kernel_use (addAttempt r input) - kernel_use r else 0)
         \<le> max 0 (pp_kernelLimit p') \<and>
       holdings paid_use ad_windowKey (windowKeyFor pid p') (as_admissions s) +
         (if ad_windowKey r = windowKeyFor pid p' then paid_use (addAttempt r input) - paid_use r else 0)
         \<le> max 0 (pp_paidLimitMicrocredits p') \<and>
       holdings open_use ad_principalId pid (as_admissions s) +
         (if ad_principalId r = pid then open_use (addAttempt r input) - open_use r else 0)
         \<le> max 0 (pp_concurrencyLimit p')"
      by (auto simp: uses)
  qed
qed

lemma within_quota_step:
  assumes "authority_inv s" and "authority_step s t" and "within_quota s"
  shows "within_quota t"
  using assms(1,2)
proof (cases rule: step_shape)
  case Rewrite
  then show ?thesis using assms step_policies by (blast intro: within_quota_rewrite)
qed (use assms in \<open>blast intro: within_quota_insert within_quota_reserve\<close>)+

lemma within_quota_run:
  assumes "authority_step\<^sup>*\<^sup>* (createAuthorityState sc accounts policies) t"
  shows "authority_inv t" and "within_quota t"
proof -
  have "within_quota (createAuthorityState sc accounts policies)"
    by (simp add: within_quota_def createAuthorityState_def)
  with assms createAuthorityState_inv show "within_quota t"
    by (rule authority_machine.stable_run) (rule within_quota_step)
  show "authority_inv t" using assms createAuthorityState_inv by (rule authority_machine.inv_run)
qed

end
