(* ===== verification/Authority_History.thy ===== *)
theory Authority_History
  imports Authority_Quotas
begin

text \<open>
  What a run of the authority cannot undo: recorded evidence, the single dispatch of an attempt,
  the order of the paid providers, the answer to a repeated admission, and the fence that a
  credential publication puts in front of earlier reservations. The last section shows that the
  store never reaches a state in which an operation fails for a missing window.
\<close>

section \<open>Records over runs\<close>

definition admission_persists :: "string \<Rightarrow> admission_record \<Rightarrow> authority_state \<Rightarrow> bool" where
  "admission_persists k r t \<longleftrightarrow> (\<exists>q. map_of (as_admissions t) k = Some q \<and> request_evolves r q)"

lemma persists_step:
  assumes "authority_inv s" and "authority_step s t" and "admission_persists k r s"
  shows "admission_persists k r t"
proof -
  from assms(3) obtain q where q: "map_of (as_admissions s) k = Some q" "request_evolves r q"
    by (auto simp: admission_persists_def)
  have put: ?thesis if "as_admissions t = put i q' (as_admissions s)"
    "map_of (as_admissions s) i = Some p" "request_evolves p q'" for i q' p
  proof (cases "i = k")
    case True
    with that q show ?thesis by (auto simp: admission_persists_def intro: request_evolves_trans)
  next
    case False
    with that q show ?thesis by (auto simp: admission_persists_def)
  qed
  from assms(1,2) show ?thesis
  proof (cases rule: step_shape)
    case Rewrite
    then show ?thesis
      unfolding admissions_evolve_def
    proof (elim disjE exE conjE)
      assume "as_admissions t = as_admissions s"
      with q show ?thesis by (auto simp: admission_persists_def)
    qed (auto intro: put simp: request_progress_def)
  next
    case Reserve
    then obtain h input r1 s1 where "requestOf s h = Inr r1" "map_of (ad_attempts r1) (ai_attemptId input) = None"
      "t = putRequest h (addAttempt r1 input) s1" "as_admissions s1 = as_admissions s"
      unfolding attempt_reserved_def by blast
    then show ?thesis by (intro put [where p = r1]) (auto simp: requestOf_iff intro: addAttempt_evolves)
  next
    case (Insert input h)
    then have "\<exists>rec. as_admissions t = put (in_requestId input) rec (as_admissions s)"
      by (auto elim!: admitNew_cases simp: assign_def)
    with Insert(2) q show ?thesis by (auto simp: admission_persists_def)
  qed
qed

lemma persists_run:
  assumes run: "authority_step\<^sup>*\<^sup>* s t" and inv: "authority_inv s" and r: "map_of (as_admissions s) k = Some r"
  obtains q where "map_of (as_admissions t) k = Some q" "request_evolves r q"
proof -
  have "admission_persists k r s" using r by (auto simp: admission_persists_def)
  with run inv have "admission_persists k r t"
    by (rule authority_machine.stable_run) (rule persists_step)
  with that show thesis by (auto simp: admission_persists_def)
qed

lemma attempt_run:
  assumes "request_evolves r q" and "map_of (ad_attempts r) k = Some a"
  obtains b where "map_of (ad_attempts q) k = Some b" "attempt_evolves a b"
proof -
  from assms(1) have "attempts_evolve (ad_attempts r) (ad_attempts q)" by (simp add: request_evolves_def)
  with assms(2) that show thesis by (auto simp: attempts_evolve_def)
qed

lemma requestOf_determined:
  "requestOf s h = Inr r \<Longrightarrow> map_of (as_admissions s) (hd_requestId h) = Some q \<Longrightarrow> r = q"
  by (simp add: requestOf_iff)

section \<open>The order of the paid providers\<close>

definition paid_order :: "admission_record \<Rightarrow> bool" where
  "paid_order r \<longleftrightarrow>
     (case paidAttempts r of
        [] \<Rightarrow> True
      | [a] \<Rightarrow> ai_provider (at_input a) = Surplus
      | [a, b] \<Rightarrow> ai_provider (at_input a) = Surplus \<and> fallbackTerminal a \<and> ai_provider (at_input b) = Openlux
      | _ \<Rightarrow> False)"

definition paid_ordered :: "authority_state \<Rightarrow> bool" where
  "paid_ordered s \<longleftrightarrow> (\<forall>r \<in> set (vals (as_admissions s)). paid_order r)"

lemma paidAttempts_progress:
  "attempts_progress (ad_attempts r) (ad_attempts q) \<Longrightarrow> list_all2 attempt_evolves (paidAttempts r) (paidAttempts q)"
  unfolding attempts_progress_def paidAttempts_def
proof (induction rule: list_all2_induct)
  case (Cons x xs y ys)
  then show ?case by (auto simp: vals_def rel_prod_sel attempt_evolves_def)
qed (simp add: vals_def)

lemma provider_evolves: "attempt_evolves a b \<Longrightarrow> ai_provider (at_input b) = ai_provider (at_input a)"
  by (simp add: attempt_evolves_def)

lemma fallbackTerminal_evolves: "attempt_evolves a b \<Longrightarrow> fallbackTerminal a \<Longrightarrow> fallbackTerminal b"
  by (cases "at_terminal a") (auto simp: attempt_evolves_def fallbackTerminal_def)

lemma paid_order_progress: "request_progress r q \<Longrightarrow> paid_order r \<Longrightarrow> paid_order q"
proof -
  assume "request_progress r q" and r: "paid_order r"
  then have "list_all2 attempt_evolves (paidAttempts r) (paidAttempts q)"
    by (simp add: request_progress_def paidAttempts_progress)
  with r show ?thesis
    unfolding paid_order_def
    by (auto simp: list_all2_Cons1 dest: provider_evolves fallbackTerminal_evolves split: list.split_asm)
qed

lemma paidAttempts_add:
  assumes "map_of (ad_attempts r) (ai_attemptId input) = None" and "ai_attemptId input \<noteq> proto_key"
  shows "paidAttempts (addAttempt r input) =
    paidAttempts r @ (if ai_provider input = Codex then [] else [newAttempt input])"
  using assms by (simp add: paidAttempts_def addAttempt_def assign_def vals_put_absent newAttempt_def)

lemma reservePaid_order:
  assumes "reservePaid s r input p now = Inr s1" and "ai_provider input \<noteq> Codex"
  shows "ai_provider input = Surplus \<and> paidAttempts r = [] \<or>
    ai_provider input = Openlux \<and> surplusFellBack (paidAttempts r)"
  using assms by (cases "ai_provider input") (auto simp: reservePaid_def result_iffs)

lemma paid_ordered_put: "paid_ordered s \<Longrightarrow> paid_order q \<Longrightarrow> as_admissions t = put k q (as_admissions s) \<Longrightarrow> paid_ordered t"
  unfolding paid_ordered_def by (simp only:) (rule vals_put_ball)

lemma paid_ordered_step:
  assumes "authority_inv s" and "authority_step s t" and ord: "paid_ordered s"
  shows "paid_ordered t"
  using assms(1,2)
proof (cases rule: step_shape)
  case Rewrite
  then show ?thesis
    unfolding admissions_evolve_def
  proof (elim disjE exE conjE)
    fix k r q
    assume "map_of (as_admissions s) k = Some r" and t: "as_admissions t = put k q (as_admissions s)"
      and "request_progress r q"
    with ord have "paid_order q" by (auto simp: paid_ordered_def dest: map_of_vals paid_order_progress)
    from paid_ordered_put [OF ord this t] show ?thesis .
  qed (use ord in \<open>simp add: paid_ordered_def\<close>)
next
  case Reserve
  then obtain h input now r p s1 where r: "requestOf s h = Inr r" and id: "ai_attemptId input \<noteq> proto_key"
    "map_of (ad_attempts r) (ai_attemptId input) = None"
    and s1: "(if ai_provider input = Codex then reserveSubscription s r input now else reservePaid s r input p now) = Inr s1"
    and t: "t = putRequest h (addAttempt r input) s1" "as_admissions s1 = as_admissions s"
    unfolding attempt_reserved_def by blast
  from r ord have "paid_order r" by (auto simp: paid_ordered_def requestOf_iff dest: map_of_vals)
  then have "paid_order (addAttempt r input)"
    using s1 reservePaid_order [of s r input p now s1] unfolding paid_order_def paidAttempts_add [OF id(2,1)]
    by (auto simp: newAttempt_def surplusFellBack_def split: list.splits if_splits)
  from paid_ordered_put [OF ord this] t show ?thesis by simp
next
  case (Insert input h)
  then obtain rec where "as_admissions t = put (in_requestId input) rec (as_admissions s)" "ad_attempts rec = []"
    by (auto elim!: admitNew_cases simp: assign_def newAdmission_def)
  moreover from this(2) have "paid_order rec" by (simp add: paid_order_def paidAttempts_def)
  ultimately show ?thesis using paid_ordered_put [OF ord] by blast
qed

section \<open>Publication fences\<close>

text \<open>The credential generation that the first account with an identifier carries.\<close>

definition credential_generation :: "authority_state \<Rightarrow> string \<Rightarrow> int option" where
  "credential_generation s acc = map_option ab_credentialGeneration (find (\<lambda>a. ab_accountId a = acc) (as_accounts s))"

definition publications_current :: "authority_state \<Rightarrow> bool" where
  "publications_current s \<longleftrightarrow> map_of (as_publications s) proto_key = None \<and>
     (\<forall>acc z. map_of (as_publications s) acc = Some z \<longrightarrow> credential_generation s acc = Some (az_generation z))"

lemma find_id: "find P xs = Some x \<Longrightarrow> P x"
  by (auto simp: find_Some_iff)

lemma find_account_replaced:
  assumes "ab_accountId y = b"
  shows "find (\<lambda>a. ab_accountId a = acc) (replaceFirst (\<lambda>a. ab_accountId a = b) y xs) =
    (if acc = b then map_option (\<lambda>_. y) (find (\<lambda>a. ab_accountId a = b) xs) else find (\<lambda>a. ab_accountId a = acc) xs)"
  using assms by (induction xs) auto

lemma credential_generation_published:
  assumes "find (\<lambda>a. ab_accountId a = az_accountId input) (as_accounts s) = Some account"
  shows "credential_generation (publishedState input z account s) =
    (credential_generation s)(az_accountId input \<mapsto> az_generation input)"
  using assms find_id [OF assms]
  by (auto simp: credential_generation_def publishedState_def find_account_replaced fun_eq_iff)

lemma observeProof_generation:
  assumes "observeProof h k p s = Inr (u, t)"
  shows "credential_generation t = credential_generation s \<and> as_publications t = as_publications s"
  using assms
proof (cases rule: observeProof_cases)
  case (1 r a binding current)
  then have "ab_accountId current = ab_accountId binding" by (auto simp: findAccount_def dest: find_id)
  with 1(5,7) show ?thesis
    by (auto simp: credential_generation_def findAccount_def find_account_replaced fun_eq_iff)
qed

text \<open>Every other transaction leaves the accounts and the publications as they are.\<close>

lemma selectAccount_pool:
  "selectAccount s m now = Inr (a, t) \<Longrightarrow> as_accounts t = as_accounts s \<and> as_publications t = as_publications s"
  by (auto simp: selectAccount_def selectNext_def activate_def split: option.splits if_splits)

lemma updateWindow_pool:
  "updateWindow k f s = Inr t \<Longrightarrow> as_accounts t = as_accounts s \<and> as_publications t = as_publications s"
  by (auto simp: updateWindow_def split: option.splits)

lemma putRequest_pool [simp]:
  "as_accounts (putRequest h r s) = as_accounts s" "as_publications (putRequest h r s) = as_publications s"
  by (simp_all add: putRequest_def)

lemma terminal_pool:
  assumes "observeTerminal h k ev fin s = Inr (u, t)"
  shows "as_accounts t = as_accounts s \<and> as_publications t = as_publications s"
  using assms
proof (cases rule: observeTerminal_cases)
  case (1 r a s1 s2)
  from 1(7,8) show ?thesis unfolding 1(9)
    by (auto dest!: updateWindow_pool split: if_splits option.splits)
qed

lemma confirm_pool:
  assumes "confirmDispatched h k s = Inr (u, t)"
  shows "as_accounts t = as_accounts s \<and> as_publications t = as_publications s"
  using assms by (auto simp: confirmDispatched_def result_iffs Let_def dest!: updateWindow_pool split: option.split_asm if_split_asm)

lemma reserve_pool:
  assumes "attempt_reserved s t"
  shows "as_accounts t = as_accounts s \<and> as_publications t = as_publications s"
  using assms
  by (auto simp: attempt_reserved_def dest!: reserveSubscription_state reservePaid_state updateWindow_pool split: if_splits)

lemma step_pool:
  assumes inv: "authority_inv s" and "authority_step s t"
  obtains (Kept) "as_accounts t = as_accounts s" "as_publications t = as_publications s"
  | (Proved) h k p u where "observeProof h k p s = Inr (u, t)"
  | (Publishing) b verify input now y where
      "publishChecks b verify input now = Inr ()" "publishOnce b input s = Inr (y, t)"
proof -
  have "(as_accounts t = as_accounts s \<and> as_publications t = as_publications s) \<or>
    (\<exists>h k p u. observeProof h k p s = Inr (u, t)) \<or>
    (\<exists>b verify input now y. publishChecks b verify input now = Inr () \<and> publishOnce b input s = Inr (y, t))"
    using assms(2)
  proof cases
    case (Admit input h)
    then show ?thesis by (auto dest!: admit_shape elim!: admitNew_cases dest: selectAccount_pool)
  next
    case (ReserveAttempt input h now u)
    then show ?thesis by (auto dest!: reserveAttempt_shape dest: reserve_pool)
  next
    case (Cancel h u)
    from inv Cancel show ?thesis by (cases rule: cancelUndispatched_cases) (auto dest: updateWindow_pool)
  next
    case (Delivery h x u)
    then show ?thesis by (auto simp: observeDelivery_def result_iffs split: if_splits)
  next
    case (Terminal h k ev fin u)
    then show ?thesis by (blast dest: terminal_pool)
  next
    case (Confirm h k u)
    then show ?thesis by (blast dest: confirm_pool)
  next
    case (Reselect h now a)
    then show ?thesis by (cases rule: reselectSubscription_cases) (simp add: selectAccount_pool)
  qed (auto elim!: beginDispatch_cases releaseBeforeDispatch_cases observeUsage_cases settle_cases dest: updateWindow_pool)
  with that show thesis by blast
qed

lemma publish_generation:
  assumes "publications_current s" and "publishChecks b verify input now = Inr ()" and "publishOnce b input s = Inr (Published, t)"
  shows "credential_generation s (az_accountId input) = Some (az_generation input - 1)"
    and "credential_generation t = (credential_generation s)(az_accountId input \<mapsto> az_generation input)"
    and "publications_current t"
proof -
  from assms(2) have gen: "pb_previousGeneration input = az_generation input - 1"
    by (auto simp: publishChecks_def validateGeneration_def result_iffs)
  from assms(3) obtain account where
    acc: "find (\<lambda>a. ab_accountId a = az_accountId input) (as_accounts s) = Some account"
    and t: "t = publishedState input (authorizationOf input) account s"
    and stale: "publicationStale (map_of (as_publications s) (az_accountId input)) account input = Inr False"
    by (cases rule: publishOnce_cases) auto
  show "credential_generation s (az_accountId input) = Some (az_generation input - 1)"
  proof (cases "map_of (as_publications s) (az_accountId input)")
    case None
    with stale gen acc show ?thesis by (simp add: publicationStale_def credential_generation_def split: if_split_asm)
  next
    case (Some z)
    with assms(1) have "credential_generation s (az_accountId input) = Some (az_generation z)"
      by (simp add: publications_current_def)
    with Some stale gen show ?thesis by (simp add: publicationStale_def split: if_split_asm)
  qed
  show g: "credential_generation t = (credential_generation s)(az_accountId input \<mapsto> az_generation input)"
    unfolding t by (rule credential_generation_published [OF acc])
  have "as_publications t = assign (az_accountId input) (authorizationOf input) (as_publications s)"
    by (simp add: t publishedState_def)
  with g assms(1) show "publications_current t"
    by (auto simp: publications_current_def assign_def authorizationOf_def split: if_splits)
qed

definition generation_reached :: "string \<Rightarrow> int \<Rightarrow> authority_state \<Rightarrow> bool" where
  "generation_reached acc g s \<longleftrightarrow> publications_current s \<and> (\<exists>n \<ge> g. credential_generation s acc = Some n)"

lemma publications_step:
  assumes inv: "authority_inv s" and "authority_step s t" and cur: "publications_current s"
  shows "publications_current t \<and>
    (\<forall>acc n. credential_generation s acc = Some n \<longrightarrow> (\<exists>m \<ge> n. credential_generation t acc = Some m))"
  using inv assms(2)
proof (cases rule: step_pool)
  case Kept
  with cur show ?thesis by (auto simp: publications_current_def credential_generation_def)
next
  case (Proved h k p u)
  from observeProof_generation [OF Proved] cur show ?thesis by (auto simp: publications_current_def)
next
  case (Publishing b verify input now y)
  show ?thesis
  proof (cases y)
    case Published
    with Publishing publish_generation [OF cur Publishing(1)] show ?thesis by auto
  next
    case Duplicate
    with Publishing(2) have "t = s" by (auto elim: publishOnce_cases)
    with cur show ?thesis by auto
  qed
qed

lemma generation_reached_step:
  "authority_inv s \<Longrightarrow> authority_step s t \<Longrightarrow> generation_reached acc g s \<Longrightarrow> generation_reached acc g t"
  unfolding generation_reached_def using publications_step by (meson order_trans)

lemma dispatch_current_generation:
  assumes "beginDispatch h k now s = Inr (True, t)" and "requestOf s h = Inr r" and "map_of (ad_attempts r) k = Some a"
    and "ai_account (at_input a) = Some binding"
  shows "credential_generation s (ab_accountId binding) = Some (ab_credentialGeneration binding)"
  using assms(1)
proof (cases rule: beginDispatch_cases)
  case (1 r' a')
  with assms have "findAccount s (Some binding) = Some binding" by auto
  then show ?thesis by (simp add: credential_generation_def findAccount_def)
qed

section \<open>No operation fails for a missing window\<close>

lemma requestOf_no_TypeError [simp]: "requestOf s h \<noteq> Inl TypeError"
  by (simp add: requestOf_def split: option.splits)

lemma livePolicy_no_TypeError [simp]: "livePolicy s pid v \<noteq> Inl TypeError"
  by (simp add: livePolicy_def split: option.splits)

lemma windowCurrent_no_TypeError [simp]: "windowCurrent r p now \<noteq> Inl TypeError"
  by (simp add: windowCurrent_def)

lemma assertAmount_no_TypeError [simp]: "assertAmount n \<noteq> Inl TypeError"
  by (simp add: assertAmount_def)

lemma assertAmounts_no_TypeError [simp]: "assertAmounts ns \<noteq> Inl TypeError"
  by (induction ns) (auto simp: result_iffs)

lemma selectAccount_no_TypeError [simp]: "selectAccount s m now \<noteq> Inl TypeError"
  by (auto simp: selectAccount_def selectNext_def split: option.splits)

lemma updateWindow_no_TypeError:
  "authority_inv s \<Longrightarrow> requestOf s h = Inr r \<Longrightarrow> updateWindow (ad_windowKey r) f s \<noteq> Inl TypeError"
  using updateWindow_ok [of s h r f] by auto

lemma reserveSubscription_no_TypeError [simp]: "reserveSubscription s r i now \<noteq> Inl TypeError"
  by (auto simp: reserveSubscription_def result_iffs split: option.splits)

lemma reservePaid_no_TypeError:
  "authority_inv s \<Longrightarrow> requestOf s h = Inr r \<Longrightarrow> reservePaid s r i p now \<noteq> Inl TypeError"
  using inv_request(2) [of s h r] updateWindow_no_TypeError [of s h r] by (auto simp: reservePaid_def result_iffs)

lemma releaseReserved_no_TypeError:
  assumes "authority_inv s" and "requestOf s h = Inr r"
  shows "releaseReserved as (ad_windowKey r) s \<noteq> Inl TypeError"
proof -
  obtain w where "map_of (as_windows s) (ad_windowKey r) = Some w" using inv_request(2) [OF assms] by blast
  then show ?thesis
  proof (induction "as" arbitrary: s w)
    case (Cons a as)
    then show ?case by (auto simp: result_iffs updateWindow_def)
  qed simp
qed

lemmas no_TypeErrors = updateWindow_no_TypeError reservePaid_no_TypeError releaseReserved_no_TypeError

lemma admit_no_TypeError: "admit input s \<noteq> Inl TypeError"
  by (auto simp: admit_def admitNew_def Let_def result_iffs split: option.splits)

lemma attempts_no_TypeError:
  assumes "authority_inv s"
  shows "reserveAttempt h i now s \<noteq> Inl TypeError" and "beginDispatch h k now s \<noteq> Inl TypeError"
    and "reselectSubscription h now s \<noteq> Inl TypeError" and "confirmDispatched h k s \<noteq> Inl TypeError"
    and "releaseBeforeDispatch h k s \<noteq> Inl TypeError"
  using assms
  by (auto simp: reserveAttempt_def beginDispatch_def reselectSubscription_def confirmDispatched_def
      releaseBeforeDispatch_def Let_def result_iffs dest: no_TypeErrors split: option.split_asm if_split_asm)

lemma observeTerminal_no_TypeError:
  assumes inv: "authority_inv s"
  shows "observeTerminal h k ev fin s \<noteq> Inl TypeError"
proof
  assume bad: "observeTerminal h k ev fin s = Inl TypeError"
  then obtain r where r: "requestOf s h = Inr r"
    by (cases "requestOf s h") (auto simp: observeTerminal_def result_iffs split: option.split_asm)
  obtain w where "map_of (as_windows s) (ad_windowKey r) = Some w" using inv_request(2) [OF inv r] by blast
  with bad r show False
    by (auto simp: observeTerminal_def result_iffs updateWindow_def split: option.split_asm if_split_asm)
qed

lemma observations_no_TypeError:
  assumes "authority_inv s"
  shows "observeProof h k p s \<noteq> Inl TypeError" and "observeDelivery h x s \<noteq> Inl TypeError"
    and "observeUsage h k pid n s \<noteq> Inl TypeError" and "settle h s \<noteq> Inl TypeError"
    and "cancelUndispatched h s \<noteq> Inl TypeError"
  using assms
  by (auto simp: observeProof_def observeDelivery_def observeUsage_def settle_def cancelUndispatched_def
      result_iffs dest: no_TypeErrors split: option.split_asm if_split_asm)

end
