(* ===== verification/Authority_Demo.thy ===== *)
theory Authority_Demo
  imports Authority_History
begin

text \<open>
  One request through the whole authority, computed step by step: it is admitted to the only
  subscription account, that account proves exhausted, the request falls back to the paid surplus
  provider, the spend is billed and the admission settles. The concrete instances of the theorems of
  \<^verbatim>\<open>Authority_Guarantees\<close> are points of this run.
\<close>

definition demo_scope :: authority_scope where
  "demo_scope = \<lparr>sc_namespace = ''prod'', sc_epoch = 1\<rparr>"

definition demo_account :: account_binding where
  "demo_account = \<lparr>ab_accountId = ''a1'', ab_fingerprint = ''f1'', ab_credentialGeneration = 3,
     ab_routingGeneration = 1, ab_resetGeneration = 1, ab_overageVersion = 0, ab_overageEnabled = False,
     ab_enabled = True, ab_models = [''m''], ab_proof = None\<rparr>"

definition demo_policy :: principal_policy where
  "demo_policy = \<lparr>pp_principalId = ''p'', pp_version = 1, pp_deleted = False, pp_windowResetAtMs = 1000,
     pp_requestLimit = 2, pp_kernelLimit = 2, pp_concurrencyLimit = 2, pp_paidLimitMicrocredits = 50\<rparr>"

definition demo_start :: authority_state where
  "demo_start = createAuthorityState demo_scope [demo_account] [demo_policy]"

definition demo_input :: admit_input where
  "demo_input = \<lparr>in_scope = demo_scope, in_requestId = ''r1'', in_principalId = ''p'', in_policyVersion = 1,
     in_digest = ''d'', in_route = Responses, in_model = ''m'', in_nowMs = 10\<rparr>"

definition demo_handle :: admission_handle where
  "demo_handle = \<lparr>hd_scope = demo_scope, hd_requestId = ''r1'', hd_fence = 1\<rparr>"

definition demo_attempt :: attempt_input where
  "demo_attempt = \<lparr>ai_attemptId = ''t1'', ai_provider = Codex, ai_maximumExposureMicrocredits = 0,
     ai_account = Some demo_account\<rparr>"

definition demo_paid :: attempt_input where
  "demo_paid = \<lparr>ai_attemptId = ''t2'', ai_provider = Surplus, ai_maximumExposureMicrocredits = 30, ai_account = None\<rparr>"

definition demo_proof :: account_proof where
  "demo_proof = \<lparr>pr_kind = QuotaExhausted, pr_model = ''m'', pr_fingerprint = ''f1'', pr_observedAtMs = 30,
     pr_validUntilMs = 900\<rparr>"

definition demo_exhausted :: terminal_evidence where
  "demo_exhausted = \<lparr>te_outcome = Failed, te_providerRequestId = None, te_spendMicrocredits = None,
     te_fallback = Some QuotaExhaustedFallback\<rparr>"

definition demo_completed :: terminal_evidence where
  "demo_completed = \<lparr>te_outcome = Completed, te_providerRequestId = Some ''x9'', te_spendMicrocredits = None,
     te_fallback = None\<rparr>"

definition demo_window :: "int \<Rightarrow> int \<Rightarrow> int \<Rightarrow> int \<Rightarrow> int \<Rightarrow> int \<Rightarrow> int \<Rightarrow> principal_window" where
  "demo_window a b c d e f g = \<lparr>pw_reserved = a, pw_dispatched = b, pw_kernelReserved = c, pw_kernelCompleted = d,
     pw_active = e, pw_paidReservedMicrocredits = f, pw_paidSettledMicrocredits = g\<rparr>"

definition demo_key :: string where
  "demo_key = ''['' @ [CHR 0x22] @ ''p'' @ [CHR 0x22] @ '',1000]''"

definition demo_request :: admission_record where
  "demo_request = \<lparr>ad_handle = demo_handle, ad_principalId = ''p'', ad_policyVersion = 1, ad_windowKey = demo_key,
     ad_digest = ''d'', ad_route = Responses, ad_model = ''m'', ad_account = Some demo_account,
     ad_activeGeneration = Some 1, ad_attempts = [], ad_dispatched = False, ad_semantic = None,
     ad_kernelSettled = False, ad_delivery = None, ad_settled = False\<rparr>"

definition demo_try :: "attempt_state \<Rightarrow> terminal_evidence option \<Rightarrow> attempt_record" where
  "demo_try st tm = \<lparr>at_input = demo_attempt, at_state = st, at_terminal = tm, at_billingSettled = False,
     at_settledSpendMicrocredits = None\<rparr>"

definition demo_try_paid :: "attempt_state \<Rightarrow> terminal_evidence option \<Rightarrow> int option \<Rightarrow> attempt_record" where
  "demo_try_paid st tm n = \<lparr>at_input = demo_paid, at_state = st, at_terminal = tm, at_billingSettled = n \<noteq> None,
     at_settledSpendMicrocredits = n\<rparr>"

definition demo_state :: "account_binding \<Rightarrow> principal_window \<Rightarrow> admission_record \<Rightarrow> authority_state" where
  "demo_state account w r = \<lparr>as_scope = demo_scope, as_sequence = 1, as_accounts = [account],
     as_active = Some \<lparr>ac_accountId = ''a1'', ac_fingerprint = ''f1'', ac_generation = 1\<rparr>,
     as_policies = [(''p'', demo_policy)], as_windows = [(demo_key, w)], as_admissions = [(''r1'', r)], as_publications = []\<rparr>"

definition demo_spent :: account_binding where
  "demo_spent = demo_account\<lparr>ab_proof := Some demo_proof\<rparr>"

definition demo_hop :: "attempt_record list \<Rightarrow> admission_record" where
  "demo_hop as = demo_request\<lparr>ad_attempts := zip [''t1'', ''t2''] as, ad_dispatched := True\<rparr>"

definition demo_fallback :: "attempt_record \<Rightarrow> admission_record" where
  "demo_fallback a = (demo_hop [demo_try Dispatched (Some demo_exhausted), a])\<lparr>ad_account := None\<rparr>"

definition s_admitted :: authority_state where
  "s_admitted = demo_state demo_account (demo_window 1 0 1 0 1 0 0) demo_request"

definition s_reserved :: authority_state where
  "s_reserved = demo_state demo_account (demo_window 1 0 1 0 1 0 0)
     (demo_request\<lparr>ad_attempts := [(''t1'', demo_try Reserved None)]\<rparr>)"

definition s_begun :: authority_state where
  "s_begun = demo_state demo_account (demo_window 1 0 1 0 1 0 0)
     (demo_request\<lparr>ad_attempts := [(''t1'', demo_try DispatchIntent None)]\<rparr>)"

definition s_dispatched :: authority_state where
  "s_dispatched = demo_state demo_account (demo_window 0 1 1 0 1 0 0) (demo_hop [demo_try Dispatched None])"

definition s_proved :: authority_state where
  "s_proved = demo_state demo_spent (demo_window 0 1 1 0 1 0 0) (demo_hop [demo_try Dispatched None])"

definition s_failed :: authority_state where
  "s_failed = demo_state demo_spent (demo_window 0 1 1 0 1 0 0) (demo_hop [demo_try Dispatched (Some demo_exhausted)])"

definition s_reselected :: authority_state where
  "s_reselected = demo_state demo_spent (demo_window 0 1 1 0 1 0 0)
     ((demo_hop [demo_try Dispatched (Some demo_exhausted)])\<lparr>ad_account := None\<rparr>)"

definition s_paid :: authority_state where
  "s_paid = demo_state demo_spent (demo_window 0 1 1 0 1 30 0) (demo_fallback (demo_try_paid Reserved None None))"

definition s_paid_begun :: authority_state where
  "s_paid_begun = demo_state demo_spent (demo_window 0 1 1 0 1 30 0)
     (demo_fallback (demo_try_paid DispatchIntent None None))"

definition s_paid_dispatched :: authority_state where
  "s_paid_dispatched = demo_state demo_spent (demo_window 0 1 1 0 1 30 0)
     (demo_fallback (demo_try_paid Dispatched None None))"

definition s_completed :: authority_state where
  "s_completed = demo_state demo_spent (demo_window 0 1 0 1 1 30 0)
     ((demo_fallback (demo_try_paid Dispatched (Some demo_completed) None))
        \<lparr>ad_semantic := Some Completed, ad_kernelSettled := True\<rparr>)"

definition demo_billed :: admission_record where
  "demo_billed = (demo_fallback (demo_try_paid Dispatched (Some demo_completed) (Some 20)))
     \<lparr>ad_semantic := Some Completed, ad_kernelSettled := True\<rparr>"

definition s_billed :: authority_state where
  "s_billed = demo_state demo_spent (demo_window 0 1 0 1 1 0 20) demo_billed"

definition s_delivered :: authority_state where
  "s_delivered = demo_state demo_spent (demo_window 0 1 0 1 1 0 20) (demo_billed\<lparr>ad_delivery := Some Delivered\<rparr>)"

definition s_settled :: authority_state where
  "s_settled = demo_state demo_spent (demo_window 0 1 0 1 0 0 20)
     (demo_billed\<lparr>ad_delivery := Some Delivered, ad_settled := True\<rparr>)"

lemma demo_calls:
  "admit demo_input demo_start = Inr (demo_handle, s_admitted)"
  "reserveAttempt demo_handle demo_attempt 20 s_admitted = Inr ((), s_reserved)"
  "beginDispatch demo_handle ''t1'' 21 s_reserved = Inr (True, s_begun)"
  "confirmDispatched demo_handle ''t1'' s_begun = Inr ((), s_dispatched)"
  "observeProof demo_handle ''t1'' demo_proof s_dispatched = Inr ((), s_proved)"
  "observeTerminal demo_handle ''t1'' demo_exhausted False s_proved = Inr ((), s_failed)"
  "reselectSubscription demo_handle 40 s_failed = Inr (None, s_reselected)"
  "reserveAttempt demo_handle demo_paid 41 s_reselected = Inr ((), s_paid)"
  "beginDispatch demo_handle ''t2'' 42 s_paid = Inr (True, s_paid_begun)"
  "confirmDispatched demo_handle ''t2'' s_paid_begun = Inr ((), s_paid_dispatched)"
  "observeTerminal demo_handle ''t2'' demo_completed True s_paid_dispatched = Inr ((), s_completed)"
  "observeUsage demo_handle ''t2'' ''x9'' 20 s_completed = Inr ((), s_billed)"
  "observeDelivery demo_handle Delivered s_billed = Inr ((), s_delivered)"
  "settle demo_handle s_delivered = Inr (Settled, s_settled)"
  by code_simp+

lemma demo_ids: "in_requestId demo_input \<noteq> proto_key" "ai_attemptId demo_attempt \<noteq> proto_key" "ai_attemptId demo_paid \<noteq> proto_key"
  by code_simp+

lemma demo_steps:
  "authority_step demo_start s_admitted" "authority_step s_admitted s_reserved" "authority_step s_reserved s_begun"
  "authority_step s_begun s_dispatched" "authority_step s_dispatched s_proved" "authority_step s_proved s_failed"
  "authority_step s_failed s_reselected" "authority_step s_reselected s_paid"
  by (rule authority_step.intros demo_calls demo_ids)+

lemma demo_steps_paid:
  "authority_step s_paid s_paid_begun" "authority_step s_paid_begun s_paid_dispatched"
  "authority_step s_paid_dispatched s_completed" "authority_step s_completed s_billed"
  "authority_step s_billed s_delivered" "authority_step s_delivered s_settled"
  by (rule authority_step.intros demo_calls)+

lemma demo_runs:
  "authority_step\<^sup>*\<^sup>* demo_start s_reserved" "authority_step\<^sup>*\<^sup>* s_begun s_reselected"
  "authority_step\<^sup>*\<^sup>* demo_start s_paid" "authority_step\<^sup>*\<^sup>* demo_start s_billed" "authority_step\<^sup>*\<^sup>* demo_start s_settled"
proof -
  show r: "authority_step\<^sup>*\<^sup>* demo_start s_reserved" using demo_steps(1,2) by (meson r_into_rtranclp rtranclp_trans)
  show "authority_step\<^sup>*\<^sup>* s_begun s_reselected" using demo_steps(4-7) by (meson r_into_rtranclp rtranclp_trans)
  then show p: "authority_step\<^sup>*\<^sup>* demo_start s_paid" using r demo_steps(3,8) by (meson r_into_rtranclp rtranclp_trans)
  then show b: "authority_step\<^sup>*\<^sup>* demo_start s_billed" using demo_steps_paid(1-4) by (meson r_into_rtranclp rtranclp_trans)
  then show "authority_step\<^sup>*\<^sup>* demo_start s_settled" using demo_steps_paid(5,6) by (meson r_into_rtranclp rtranclp_trans)
qed

end
