(* ===== verification/Authority_Guarantees.thy ===== *)
theory Authority_Guarantees
  imports Authority_Demo
begin

text \<open>
  The guarantees of the portable authority, each for every state that a run of transactions reaches
  from a fresh state, with its instance on the run of \<^verbatim>\<open>Authority_Demo\<close>.
\<close>

section \<open>Accounting and limits\<close>



text \<open>
  C3. A principal never exceeds the request and kernel limits of its policy: in every reachable state
  the window of the policy's current period counts at most \<^verbatim>\<open>requestLimit\<close> reserved and
  dispatched requests and at most \<^verbatim>\<open>kernelLimit\<close> reserved and completed kernel requests.
  A limit below zero admits nothing.
\<close>

theorem request_limits_hold:
  assumes "authority_step\<^sup>*\<^sup>* (createAuthorityState sc accounts policies) t"
    and "map_of (as_policies t) pid = Some p" and "map_of (as_windows t) (windowKeyFor pid p) = Some w"
  shows "pw_reserved w + pw_dispatched w \<le> max 0 (pp_requestLimit p) \<and>
    pw_kernelReserved w + pw_kernelCompleted w \<le> max 0 (pp_kernelLimit p)"
proof -
  have inv: "authority_inv t" and q: "within_quota t" using assms(1) by (rule within_quota_run)+
  have "w = (case map_of (as_windows t) (windowKeyFor pid p) of None \<Rightarrow> emptyWindow | Some w \<Rightarrow> w)"
    using assms(3) by simp
  from window_uses(1,2) [OF inv this] q assms(2) show ?thesis by (simp add: within_quota_def)
qed

theorem request_limits_hold_witness:
  "pw_reserved (demo_window 1 0 1 0 1 0 0) + pw_dispatched (demo_window 1 0 1 0 1 0 0) \<le> max 0 (pp_requestLimit demo_policy)"
proof -
  have "windowKeyFor ''p'' demo_policy = demo_key" by code_simp
  then have "map_of (as_policies s_reserved) ''p'' = Some demo_policy"
    "map_of (as_windows s_reserved) (windowKeyFor ''p'' demo_policy) = Some (demo_window 1 0 1 0 1 0 0)"
    by (simp_all add: s_reserved_def demo_state_def)
  from request_limits_hold [OF demo_runs(1) [unfolded demo_start_def] this] show ?thesis ..
qed

text \<open>
  The number of unsettled admissions of a principal, over all its windows, never exceeds the
  concurrency limit of its policy.
\<close>

theorem concurrency_limit_holds:
  assumes "authority_step\<^sup>*\<^sup>* (createAuthorityState sc accounts policies) t" and "map_of (as_policies t) pid = Some p"
  shows "int (length (filter (\<lambda>r. ad_principalId r = pid \<and> \<not> ad_settled r) (vals (as_admissions t))))
    \<le> max 0 (pp_concurrencyLimit p)"
  using within_quota_run(2) [OF assms(1)] assms(2)
  by (simp add: within_quota_def open_use_tally tally_filter)

theorem concurrency_limit_holds_witness:
  "int (length (filter (\<lambda>r. ad_principalId r = ''p'' \<and> \<not> ad_settled r) (vals (as_admissions s_paid))))
    \<le> max 0 (pp_concurrencyLimit demo_policy)"
proof -
  have "map_of (as_policies s_paid) ''p'' = Some demo_policy" by (simp add: s_paid_def demo_state_def)
  from concurrency_limit_holds [OF demo_runs(3) [unfolded demo_start_def] this] show ?thesis .
qed

text \<open>
  C4. As long as no provider billed an attempt more than the exposure reserved for it, the paid amount
  reserved and settled in the window of a policy never exceeds the policy's paid limit.
\<close>

theorem paid_limit_holds:
  assumes "authority_step\<^sup>*\<^sup>* (createAuthorityState sc accounts policies) t"
    and "map_of (as_policies t) pid = Some p" and "map_of (as_windows t) (windowKeyFor pid p) = Some w"
    and "\<forall>r \<in> set (vals (as_admissions t)). \<forall>a \<in> set (vals (ad_attempts r)).
      spendSettled a \<le> ai_maximumExposureMicrocredits (at_input a)"
  shows "pw_paidReservedMicrocredits w + pw_paidSettledMicrocredits w \<le> max 0 (pp_paidLimitMicrocredits p)"
proof -
  let ?k = "windowKeyFor pid p"
  have inv: "authority_inv t" and q: "within_quota t" using assms(1) by (rule within_quota_run)+
  have "admission_share CPaidReserved r + admission_share CPaidSettled r \<le> paid_use r"
    if r: "r \<in> set (vals (as_admissions t))" for r
  proof -
    have "exposureHeld a + spendSettled a \<le> commitment a" if "a \<in> set (vals (ad_attempts r))" for a
    proof -
      have "attempt_ok a" using that r inv by (auto simp: authority_inv_def request_ok_def)
      then show ?thesis using that r assms(4)
        by (auto simp: attempt_ok_def exposureHeld_def spendSettled_def commitment_def split: option.splits)
    qed
    then have "dtotal (\<lambda>a. exposureHeld a + spendSettled a) (ad_attempts r) \<le> paid_use r"
      unfolding paid_use_def by (rule dtotal_mono)
    then show ?thesis by (simp add: dtotal_def sum_list_addf)
  qed
  then have "holdings (\<lambda>r. admission_share CPaidReserved r + admission_share CPaidSettled r) ad_windowKey ?k (as_admissions t)
      \<le> holdings paid_use ad_windowKey ?k (as_admissions t)"
    by (rule holdings_mono)
  also have "\<dots> \<le> max 0 (pp_paidLimitMicrocredits p)" using q assms(2) by (simp add: within_quota_def)
  finally have "holdings (admission_share CPaidReserved) ad_windowKey ?k (as_admissions t) +
      holdings (admission_share CPaidSettled) ad_windowKey ?k (as_admissions t) \<le> max 0 (pp_paidLimitMicrocredits p)"
    unfolding holdings_add .
  then show ?thesis
    using window_holdings [OF inv, of CPaidReserved ?k] window_holdings [OF inv, of CPaidSettled ?k] assms(3) by simp
qed

theorem paid_limit_holds_witness:
  "pw_paidReservedMicrocredits (demo_window 0 1 0 1 1 0 20) + pw_paidSettledMicrocredits (demo_window 0 1 0 1 1 0 20)
    \<le> max 0 (pp_paidLimitMicrocredits demo_policy)"
proof -
  have "windowKeyFor ''p'' demo_policy = demo_key" by code_simp
  then have "map_of (as_policies s_billed) ''p'' = Some demo_policy"
    "map_of (as_windows s_billed) (windowKeyFor ''p'' demo_policy) = Some (demo_window 0 1 0 1 1 0 20)"
    by (simp_all add: s_billed_def demo_state_def)
  moreover have "\<forall>r \<in> set (vals (as_admissions s_billed)). \<forall>a \<in> set (vals (ad_attempts r)).
      spendSettled a \<le> ai_maximumExposureMicrocredits (at_input a)"
    by code_simp
  ultimately show ?thesis by (rule paid_limit_holds [OF demo_runs(4) [unfolded demo_start_def]])
qed

section \<open>Dispatch\<close>

text \<open>
  C5. An attempt is dispatched at most once: after a \<^verbatim>\<open>beginDispatch\<close> that answered true,
  no later call for the same attempt of the same request answers true, whatever happened in between.
\<close>

theorem dispatch_at_most_once:
  assumes "authority_step\<^sup>*\<^sup>* (createAuthorityState sc accounts policies) s"
    and "beginDispatch h k now s = Inr (True, t)" and "authority_step\<^sup>*\<^sup>* t u"
    and "hd_requestId h' = hd_requestId h" and "beginDispatch h' k now' u = Inr (b, v)"
  shows "\<not> b"
  using assms(2)
proof (cases rule: beginDispatch_cases)
  case (1 r a)
  let ?a = "a\<lparr>at_state := DispatchIntent\<rparr>" and ?r = "putAttempt k (a\<lparr>at_state := DispatchIntent\<rparr>) r"
  have "authority_inv s" using assms(1) by (rule within_quota_run)
  with assms(2) have inv: "authority_inv t" by (rule beginDispatch_inv [rotated])
  have "map_of (as_admissions t) (hd_requestId h) = Some ?r" using 1 by simp
  from persists_run [OF assms(3) inv this] obtain q where q: "map_of (as_admissions u) (hd_requestId h) = Some q"
    and ev: "request_evolves ?r q" .
  have "map_of (ad_attempts ?r) k = Some ?a" by simp
  from attempt_run [OF ev this] obtain c where c: "map_of (ad_attempts q) k = Some c" "attempt_evolves ?a c" .
  from assms(5) show ?thesis
  proof (cases rule: beginDispatch_cases)
    case second: (1 r' a')
    then have "r' = q" using assms(4) q requestOf_determined by metis
    with second c show ?thesis by (auto simp: attempt_evolves_def state_evolves_def)
  qed
qed

theorem dispatch_at_most_once_witness:
  "\<not> fst (projr (beginDispatch demo_handle ''t1'' 22 s_reselected))"
proof -
  have "beginDispatch demo_handle ''t1'' 22 s_reselected = Inr (False, s_reselected)" by code_simp
  with dispatch_at_most_once [OF demo_runs(1) [unfolded demo_start_def] demo_calls(3) demo_runs(2) refl]
  show ?thesis by fastforce
qed

text \<open>
  C7. Nothing recorded about an admission is taken back: for as long as the run continues the record
  stays, with the same identity; a dispatched request stays dispatched, a settled one settled, a
  recorded outcome is never replaced, an observed delivery only replaces "unobserved", and every
  attempt keeps its input, its terminal evidence and its billed amount.
\<close>

theorem evidence_is_permanent:
  assumes "authority_step\<^sup>*\<^sup>* (createAuthorityState sc accounts policies) s" and "authority_step\<^sup>*\<^sup>* s t"
    and "map_of (as_admissions s) k = Some r"
  shows "\<exists>q. map_of (as_admissions t) k = Some q \<and> request_evolves r q"
proof -
  have "authority_inv s" using assms(1) by (rule within_quota_run)
  from persists_run [OF assms(2) this assms(3)] show ?thesis by blast
qed

theorem evidence_is_permanent_witness:
  "\<exists>q. map_of (as_admissions s_paid) ''r1'' = Some q \<and>
     request_evolves (demo_request\<lparr>ad_attempts := [(''t1'', demo_try Reserved None)]\<rparr>) q"
proof -
  have "authority_step\<^sup>*\<^sup>* s_reserved s_paid"
    using demo_steps(3,8) demo_runs(2) by (meson r_into_rtranclp rtranclp_trans)
  moreover have "map_of (as_admissions s_reserved) ''r1'' =
      Some (demo_request\<lparr>ad_attempts := [(''t1'', demo_try Reserved None)]\<rparr>)"
    by (simp add: s_reserved_def demo_state_def)
  ultimately show ?thesis by (rule evidence_is_permanent [OF demo_runs(1) [unfolded demo_start_def]])
qed

text \<open>
  C9. The paid providers are used in order: in every reachable state the paid attempts of an admission
  are none, one Surplus attempt, or one Surplus attempt that ended in a fallback followed by one
  OpenLux attempt.
\<close>

theorem paid_providers_in_order:
  assumes "authority_step\<^sup>*\<^sup>* (createAuthorityState sc accounts policies) t" and "map_of (as_admissions t) k = Some r"
  shows "case paidAttempts r of
      [] \<Rightarrow> True
    | [a] \<Rightarrow> ai_provider (at_input a) = Surplus
    | [a, b] \<Rightarrow> ai_provider (at_input a) = Surplus \<and> fallbackTerminal a \<and> ai_provider (at_input b) = Openlux
    | _ \<Rightarrow> False"
proof -
  have "paid_ordered (createAuthorityState sc accounts policies)"
    by (simp add: paid_ordered_def createAuthorityState_def)
  with assms(1) createAuthorityState_inv have "paid_ordered t"
    by (rule authority_machine.stable_run) (rule paid_ordered_step)
  with map_of_vals [OF assms(2)] have "paid_order r" by (simp add: paid_ordered_def)
  then show ?thesis by (simp add: paid_order_def)
qed

theorem paid_providers_in_order_witness:
  "ai_provider (at_input (demo_try_paid Reserved None None)) = Surplus"
proof -
  have "map_of (as_admissions s_paid) ''r1'' = Some (demo_fallback (demo_try_paid Reserved None None))"
    by (simp add: s_paid_def demo_state_def)
  moreover have "paidAttempts (demo_fallback (demo_try_paid Reserved None None)) = [demo_try_paid Reserved None None]"
    by code_simp
  ultimately show ?thesis using paid_providers_in_order [OF demo_runs(3) [unfolded demo_start_def]] by fastforce
qed

text \<open>
  C10. A new paid attempt is only reserved once the subscription pool is proved unusable: at least one
  enabled account serves the model, and every one of them carries an unexpired proof, for its current
  fingerprint and this model, that its quota is exhausted or its credential invalid.
\<close>

theorem paid_needs_exhausted_pool:
  assumes "reserveAttempt h input now s = Inr ((), t)" and "ai_provider input \<noteq> Codex"
    and "requestOf s h = Inr r" and "map_of (ad_attempts r) (ai_attemptId input) = None"
  shows "(\<exists>a \<in> set (as_accounts s). ab_enabled a \<and> ad_model r \<in> set (ab_models a)) \<and>
    (\<forall>a \<in> set (as_accounts s). ab_enabled a \<and> ad_model r \<in> set (ab_models a) \<longrightarrow>
       (\<exists>p. ab_proof a = Some p \<and> pr_kind p \<noteq> Transient \<and> pr_fingerprint p = ab_fingerprint a \<and>
          pr_model p = ad_model r \<and> pr_observedAtMs p \<le> now \<and> now < pr_validUntilMs p))"
proof -
  from assms have "poolExhausted s (ad_model r) now"
    by (auto simp: reserveAttempt_def reservePaid_def result_iffs)
  then have "cohort s (ad_model r) \<noteq> []" and un: "\<And>a. a \<in> set (cohort s (ad_model r)) \<Longrightarrow> unavailable a (ad_model r) now"
    by (auto simp: poolExhausted_def)
  then have "\<exists>a. a \<in> set (cohort s (ad_model r))" by (cases "cohort s (ad_model r)") auto
  moreover have "\<exists>p. ab_proof a = Some p \<and> pr_kind p \<noteq> Transient \<and> pr_fingerprint p = ab_fingerprint a \<and>
      pr_model p = ad_model r \<and> pr_observedAtMs p \<le> now \<and> now < pr_validUntilMs p"
    if "unavailable a (ad_model r) now" for a
    using that by (auto simp: unavailable_def applicableProof_def split: option.splits if_splits)
  ultimately show ?thesis using un by (auto simp: cohort_def)
qed

theorem paid_needs_exhausted_pool_witness:
  "\<exists>a \<in> set (as_accounts s_reselected). ab_enabled a \<and> ''m'' \<in> set (ab_models a)"
proof -
  let ?r = "(demo_hop [demo_try Dispatched (Some demo_exhausted)])\<lparr>ad_account := None\<rparr>"
  have r: "requestOf s_reselected demo_handle = Inr ?r" by code_simp
  have "ai_provider demo_paid \<noteq> Codex" "map_of (ad_attempts ?r) (ai_attemptId demo_paid) = None" by code_simp+
  from paid_needs_exhausted_pool [OF demo_calls(8) this(1) r this(2)]
  show ?thesis by (simp add: demo_hop_def demo_request_def)
qed

section \<open>Admission\<close>

text \<open>
  Admission is idempotent and its identity is fixed: once a request identifier has been admitted,
  any later admission under the same identifier returns the first handle and changes nothing when it
  names the same digest, principal, model, route and policy version, and is rejected as an identity
  conflict otherwise.
\<close>

theorem admission_replay:
  assumes "authority_step\<^sup>*\<^sup>* (createAuthorityState sc accounts policies) s"
    and "in_requestId input \<noteq> proto_key" and "admit input s = Inr (h, t)" and "authority_step\<^sup>*\<^sup>* t u"
    and "in_requestId input' = in_requestId input"
  shows "admit input' u =
    (if in_digest input' = in_digest input \<and> in_principalId input' = in_principalId input \<and>
        in_model input' = in_model input \<and> in_route input' = in_route input \<and>
        in_policyVersion input' = in_policyVersion input
     then Inr (h, u) else Inl (conflict ''request_identity_conflict''))"
proof -
  have inv: "authority_inv s" using assms(1) by (rule within_quota_run)
  have "\<exists>r. map_of (as_admissions t) (in_requestId input) = Some r \<and> ad_handle r = h \<and> sameIdentity r input"
    using admit_shape [OF assms(3)] assms(2,3)
    by (auto simp: admit_def assign_def sameIdentity_def newAdmission_def elim!: admitNew_cases split: option.splits if_splits)
  then obtain r where r: "map_of (as_admissions t) (in_requestId input) = Some r" "ad_handle r = h" "sameIdentity r input"
    by blast
  have "authority_inv t" using assms(2,3) inv admit_inv by blast
  from persists_run [OF assms(4) this r(1)] obtain q where
    q: "map_of (as_admissions u) (in_requestId input) = Some q" "request_evolves r q" .
  then have "ad_handle q = h" "sameIdentity q input' \<longleftrightarrow> sameIdentity r input'"
    using r(2) by (simp_all add: request_evolves_def identity_of_def sameIdentity_def)
  with q(1) r(3) assms(5) show ?thesis by (auto simp: admit_def sameIdentity_def)
qed

theorem admission_replay_witness:
  "admit (demo_input\<lparr>in_nowMs := 500\<rparr>) s_reserved = Inr (demo_handle, s_reserved)"
proof -
  have "authority_step\<^sup>*\<^sup>* s_admitted s_reserved" using demo_steps(2) by simp
  moreover have "authority_step\<^sup>*\<^sup>* (createAuthorityState demo_scope [demo_account] [demo_policy]) demo_start"
    by (simp add: demo_start_def)
  ultimately show ?thesis
    using admission_replay [OF _ demo_ids(1) demo_calls(1), of demo_scope "[demo_account]" "[demo_policy]" s_reserved
        "demo_input\<lparr>in_nowMs := 500\<rparr>"] by simp
qed

text \<open>
  Account selection is sticky and honest: it keeps the active account while that account serves
  the model and has no proof against it; otherwise it moves to an enabled account that serves the
  model and has no unexpired proof, under the next generation; it returns no account only when the
  pool is exhausted, and then changes nothing.
\<close>

theorem account_selection:
  assumes "selectAccount s model now = Inr (account, t)"
  shows "case account of
      None \<Rightarrow> poolExhausted s model now \<and> t = s
    | Some a \<Rightarrow> a \<in> set (as_accounts s) \<and> ab_enabled a \<and> model \<in> set (ab_models a) \<and> \<not> unavailable a model now \<and>
        (case currentAccount s of
           Some c \<Rightarrow> if unavailable c model now
                     then applicableProof a model now = None \<and>
                       t = activate s a (case as_active s of None \<Rightarrow> 1 | Some g \<Rightarrow> ac_generation g + 1)
                     else a = c \<and> t = activate s a (case as_active s of None \<Rightarrow> 1 | Some g \<Rightarrow> ac_generation g)
         | None \<Rightarrow> applicableProof a model now = None)"
proof (cases account)
  case None
  with assms show ?thesis
    by (auto simp: selectAccount_def selectNext_def split: option.splits if_splits)
next
  case (Some a)
  have next': "a \<in> set (as_accounts s) \<and> ab_enabled a \<and> model \<in> set (ab_models a) \<and> applicableProof a model now = None \<and>
      t = activate s a (case as_active s of None \<Rightarrow> 1 | Some g \<Rightarrow> ac_generation g + 1)"
    if "selectNext s model now = Inr (Some a, t)"
    using that by (auto simp: selectNext_def cohort_def find_Some_iff dest: nth_mem split: option.splits if_splits)
  show ?thesis
  proof (cases "currentAccount s")
    case None
    with assms Some next' show ?thesis by (simp add: selectAccount_def unavailable_def)
  next
    case cur: (Some c)
    then have "c \<in> set (as_accounts s) \<and> ab_enabled c"
      by (auto simp: currentAccount_def find_Some_iff)
    with assms Some cur next' show ?thesis
      by (auto simp: selectAccount_def unavailable_def split: if_split_asm)
  qed
qed

theorem account_selection_witness: "\<not> unavailable demo_account ''m'' 10"
proof -
  have "selectAccount demo_start ''m'' 10 = Inr (Some demo_account, activate demo_start demo_account 1)" by code_simp
  from account_selection [OF this] show ?thesis by simp
qed

section \<open>Settlement\<close>

text \<open>
  \<^verbatim>\<open>settle\<close> answers "settled" exactly when the admission was already settled, or when
  its outcome and its delivery are known and no attempt is still reserved, about to be dispatched, or
  dispatched without a terminal; otherwise it answers "pending" and changes nothing.
\<close>

theorem settle_decides:
  assumes "authority_step\<^sup>*\<^sup>* (createAuthorityState sc accounts policies) s" and "requestOf s h = Inr r"
  shows "\<exists>t. settle h s = Inr
    (if ad_settled r \<or> (ad_semantic r \<noteq> None \<and> ad_delivery r \<noteq> None \<and>
          (\<forall>a \<in> set (vals (ad_attempts r)). \<not> attemptOpen a)) then Settled else Pending, t) \<and>
    (ad_settled r \<or> ad_semantic r = None \<or> ad_delivery r = None \<or> (\<exists>a \<in> set (vals (ad_attempts r)). attemptOpen a) \<longrightarrow> t = s)"
proof -
  have "authority_inv s" using assms(1) by (rule within_quota_run)
  with assms(2) obtain s1 where "updateWindow (ad_windowKey r) (settleWindow r) s = Inr s1"
    using updateWindow_ok by blast
  with assms(2) show ?thesis by (auto simp: settle_def)
qed

theorem settle_decides_witness: "\<exists>t. settle demo_handle s_billed = Inr (Pending, t)"
proof -
  have "requestOf s_billed demo_handle = Inr demo_billed" by code_simp
  from settle_decides [OF demo_runs(4) [unfolded demo_start_def] this] show ?thesis
    by (auto simp: demo_billed_def demo_fallback_def demo_hop_def demo_request_def)
qed

text \<open>
  C12. A request that was never dispatched can always be abandoned: after a successful
  \<^verbatim>\<open>cancelUndispatched\<close> the admission holds no paid exposure and \<^verbatim>\<open>settle\<close>
  settles it.
\<close>

theorem cancelled_request_settles:
  assumes "authority_step\<^sup>*\<^sup>* (createAuthorityState sc accounts policies) s" and "cancelUndispatched h s = Inr ((), t)"
  shows "\<exists>q u. requestOf t h = Inr q \<and> admission_share CPaidReserved q = 0 \<and> settle h t = Inr (Settled, u)"
proof -
  have inv: "authority_inv s" using assms(1) by (rule within_quota_run)
  then have inv': "authority_inv t" using assms(2) by (rule cancelUndispatched_inv)
  from inv assms(2) obtain q where q: "requestOf t h = Inr q" and c: "\<exists>r. q = cancelledRequest r"
  proof (cases rule: cancelUndispatched_cases)
    case (1 r s1)
    then have "requestOf t h = Inr (cancelledRequest r)" by (simp add: requestOf_iff cancelledRequest_def)
    then show thesis using that by blast
  qed
  from c have st: "\<forall>a \<in> set (vals (ad_attempts q)). at_state a = NotDispatched"
    and known: "ad_semantic q \<noteq> None" "ad_delivery q \<noteq> None"
    by (auto simp: cancelledRequest_def vals_def orElse_def split: option.splits)
  then have "\<not> attemptOpen a" if "a \<in> set (vals (ad_attempts q))" for a using that by (auto simp: attemptOpen_def)
  moreover obtain u where "updateWindow (ad_windowKey q) (settleWindow q) t = Inr u" using updateWindow_ok [OF inv' q] by blast
  ultimately have "\<exists>u. settle h t = Inr (Settled, u)" using q known by (auto simp: settle_def)
  moreover have "dtotal exposureHeld (ad_attempts q) = dtotal (\<lambda>_. 0) (ad_attempts q)"
    using st by (intro dtotal_cong) (simp add: exposureHeld_def)
  ultimately show ?thesis using q by (auto simp: dtotal_def)
qed

theorem cancelled_request_settles_witness:
  "\<exists>q u t. cancelUndispatched demo_handle s_reserved = Inr ((), t) \<and> requestOf t demo_handle = Inr q \<and>
     settle demo_handle t = Inr (Settled, u)"
proof -
  have "isl (cancelUndispatched demo_handle s_reserved) = False" by code_simp
  then obtain t where t: "cancelUndispatched demo_handle s_reserved = Inr ((), t)"
    by (cases "cancelUndispatched demo_handle s_reserved") auto
  from cancelled_request_settles [OF demo_runs(1) [unfolded demo_start_def] this] t show ?thesis by blast
qed

text \<open>
  In a reachable state no transaction fails for a record it expects and does not find: none of
  the operations throws a \<^verbatim>\<open>TypeError\<close>.
\<close>

theorem no_operation_crashes:
  assumes "authority_step\<^sup>*\<^sup>* (createAuthorityState sc accounts policies) s"
  shows "admit input s \<noteq> Inl TypeError \<and> reserveAttempt h att now s \<noteq> Inl TypeError \<and>
    beginDispatch h k now s \<noteq> Inl TypeError \<and> reselectSubscription h now s \<noteq> Inl TypeError \<and>
    confirmDispatched h k s \<noteq> Inl TypeError \<and> releaseBeforeDispatch h k s \<noteq> Inl TypeError \<and>
    observeProof h k pr s \<noteq> Inl TypeError \<and> observeTerminal h k ev fin s \<noteq> Inl TypeError \<and>
    observeDelivery h x s \<noteq> Inl TypeError \<and> observeUsage h k pid n s \<noteq> Inl TypeError \<and>
    settle h s \<noteq> Inl TypeError \<and> cancelUndispatched h s \<noteq> Inl TypeError"
proof -
  have inv: "authority_inv s" using assms by (rule within_quota_run)
  show ?thesis
    by (intro conjI admit_no_TypeError attempts_no_TypeError [OF inv] observations_no_TypeError [OF inv]
        observeTerminal_no_TypeError [OF inv])
qed

theorem no_operation_crashes_witness: "settle demo_handle s_billed \<noteq> Inl TypeError"
  using no_operation_crashes [OF demo_runs(4) [unfolded demo_start_def]] by blast

section \<open>Credentials\<close>

text \<open>
  C8. Publishing a credential fences every earlier reservation: from then on, whatever else happens,
  no attempt that was bound to an older credential generation of the account starts a dispatch.
\<close>

theorem publication_fences_reservations:
  assumes "authority_step\<^sup>*\<^sup>* (createAuthorityState sc accounts policies) s"
    and "publishChecks b verify input now = Inr ()" and "publishOnce b input s = Inr (Published, t)"
    and "authority_step\<^sup>*\<^sup>* t u" and "requestOf u h = Inr r" and "map_of (ad_attempts r) k = Some a"
    and "ai_account (at_input a) = Some old" and "ab_accountId old = az_accountId input"
    and "ab_credentialGeneration old < az_generation input"
  shows "beginDispatch h k now' u \<noteq> Inr (True, v)"
proof
  assume started: "beginDispatch h k now' u = Inr (True, v)"
  have "publications_current (createAuthorityState sc accounts policies)"
    by (simp add: publications_current_def createAuthorityState_def)
  with assms(1) createAuthorityState_inv have "publications_current s"
    by (rule authority_machine.stable_run) (blast dest: publications_step)
  note pub = publish_generation [OF this assms(2,3)]
  have "authority_inv s" using assms(1) by (rule within_quota_run)
  then have inv: "authority_inv t" using assms(3) by (rule publishOnce_inv)
  have "generation_reached (az_accountId input) (az_generation input) t" using pub by (simp add: generation_reached_def)
  with assms(4) inv have "generation_reached (az_accountId input) (az_generation input) u"
    by (rule authority_machine.stable_run) (rule generation_reached_step)
  moreover have "credential_generation u (ab_accountId old) = Some (ab_credentialGeneration old)"
    using started assms(5-7) by (rule dispatch_current_generation)
  ultimately show False using assms(8,9) by (auto simp: generation_reached_def)
qed

definition demo_owner :: credential_owner_binding where
  "demo_owner = \<lparr>ob_scope = demo_scope, ob_ownerId = ''o'', ob_ownerEpoch = 1, ob_accountId = ''a1'',
     ob_workspaceId = ''w'', ob_minimumNativeRefreshedAtNs = ''5''\<rparr>"

definition demo_publication :: access_publication where
  "demo_publication = \<lparr>az_ownerId = ''o'', az_ownerEpoch = 1, az_accountId = ''a1'', az_workspaceId = ''w'',
     az_generation = 4, az_nativeRefreshedAtNs = ''17'', az_fingerprint = ''f2'', az_accessToken = ''t'',
     az_idToken = ''i'', az_issuedAtMs = 1, az_expiresAtMs = 900000, pb_previousGeneration = 3,
     pb_keys = map Some FIELDS\<rparr>"

definition demo_verify :: access_verifier where
  "demo_verify input = Inr \<lparr>vi_accountId = az_accountId input, vi_workspaceId = az_workspaceId input,
     vi_fingerprint = az_fingerprint input, vi_issuedAtMs = az_issuedAtMs input, vi_expiresAtMs = az_expiresAtMs input\<rparr>"

definition s_published :: authority_state where
  "s_published = publishedState demo_publication (authorizationOf demo_publication) demo_account s_reserved"

lemma demo_publish:
  "publishChecks demo_owner demo_verify demo_publication 25 = Inr ()"
  "publishOnce demo_owner demo_publication s_reserved = Inr (Published, s_published)"
  by code_simp+

theorem publication_fences_reservations_witness:
  "beginDispatch demo_handle ''t1'' 26 s_published \<noteq> Inr (True, s_published)"
proof -
  let ?r = "demo_request\<lparr>ad_attempts := [(''t1'', demo_try Reserved None)]\<rparr>"
  have "requestOf s_published demo_handle = Inr ?r" "map_of (ad_attempts ?r) ''t1'' = Some (demo_try Reserved None)"
    "ai_account (at_input (demo_try Reserved None)) = Some demo_account"
    "ab_accountId demo_account = az_accountId demo_publication"
    "ab_credentialGeneration demo_account < az_generation demo_publication"
    by code_simp+
  then show ?thesis
    by (rule publication_fences_reservations [OF demo_runs(1) [unfolded demo_start_def] demo_publish rtranclp.rtrancl_refl])
qed

text \<open>
  Credentials only move forward: a publication that replaces an earlier one has the next
  generation, a strictly later native refresh, an expiry that is not earlier, and the same owner,
  owner epoch and workspace.
\<close>

theorem publication_moves_forward:
  assumes "publishChecks b verify input now = Inr ()" and "publishOnce b input s = Inr (Published, t)"
    and "map_of (as_publications s) (az_accountId input) = Some c"
    and "bigint (az_nativeRefreshedAtNs c) = Some m"
  shows "az_generation input = az_generation c + 1 \<and> m < int (read_digits (az_nativeRefreshedAtNs input)) \<and>
    az_expiresAtMs c \<le> az_expiresAtMs input \<and> az_ownerId c = az_ownerId input \<and>
    az_ownerEpoch c = az_ownerEpoch input \<and> az_workspaceId c = az_workspaceId input"
proof -
  from assms(1) have gen: "pb_previousGeneration input = az_generation input - 1" and digits: "digits_only (az_nativeRefreshedAtNs input)"
    and own: "az_ownerId input = ob_ownerId b" "az_ownerEpoch input = ob_ownerEpoch b" "az_workspaceId input = ob_workspaceId b"
    by (auto simp: publishChecks_def validateGeneration_def validateBinding_def result_iffs)
  from assms(2,3) obtain account where stale: "publicationStale (Some c) account input = Inr False"
    and owner: "\<not> ownerMismatch b (Some c)"
    by (auto simp: publishOnce_def applyPublication_def Let_def result_iffs split: if_split_asm)
  from publicationStale_fresh [OF stale digits] gen assms(4) own owner show ?thesis by (auto simp: ownerMismatch_def)
qed

definition demo_successor :: access_publication where
  "demo_successor = demo_publication\<lparr>az_generation := 5, pb_previousGeneration := 4, az_nativeRefreshedAtNs := ''18''\<rparr>"

theorem publication_moves_forward_witness: "az_generation demo_successor = az_generation demo_publication + 1"
proof -
  have "publishChecks demo_owner demo_verify demo_successor 25 = Inr ()" by code_simp
  moreover have "isl (publishOnce demo_owner demo_successor s_published) = False \<and>
      fst (projr (publishOnce demo_owner demo_successor s_published)) = Published" by code_simp
  then obtain t where "publishOnce demo_owner demo_successor s_published = Inr (Published, t)"
    by (cases "publishOnce demo_owner demo_successor s_published") auto
  moreover have "map_of (as_publications s_published) (az_accountId demo_successor) = Some (authorizationOf demo_publication)"
    "bigint (az_nativeRefreshedAtNs (authorizationOf demo_publication)) = Some 17" by code_simp+
  ultimately have "az_generation demo_successor = az_generation (authorizationOf demo_publication) + 1"
    using publication_moves_forward by blast
  then show ?thesis by (simp add: authorizationOf_def)
qed

section \<open>An identifier that is not an own property\<close>

text \<open>
  C15. The request identifier \<^verbatim>\<open>__proto__\<close> leaks quota: the admission is answered with a
  handle and its window counts one more reserved, kernel-reserved and active request, but the record
  is assigned through the prototype setter and not stored, so the handle is rejected and nothing ever
  releases those counts.
\<close>

theorem proto_request_leaks:
  assumes "authority_step\<^sup>*\<^sup>* (createAuthorityState sc accounts policies) s"
    and "in_requestId input = proto_key" and "map_of (as_admissions s) proto_key = None" and "admit input s = Inr (h, t)"
  shows "as_admissions t = as_admissions s \<and> requestOf t h = Inl (conflict ''admission_fence_mismatch'') \<and>
    (\<exists>k w. map_of (as_windows t) k = Some w \<and>
       pw_reserved w = holdings (admission_share CReserved) ad_windowKey k (as_admissions t) + 1)"
proof -
  have inv: "authority_inv s" using assms(1) by (rule within_quota_run)
  from assms(2-4) have "admitNew input s = Inr (h, t)" by (simp add: admit_def)
  then show ?thesis
  proof (cases rule: admitNew_cases)
    case (1 policy account s1 w)
    let ?k = "windowKeyFor (in_principalId input) policy"
    have adm: "as_admissions t = as_admissions s" and h: "hd_requestId h = proto_key"
      and w': "map_of (as_windows t) ?k = Some (w\<lparr>pw_reserved := pw_reserved w + 1,
        pw_kernelReserved := pw_kernelReserved w + 1, pw_active := pw_active w + 1\<rparr>)"
      using 1(11,12) assms(2) by (simp_all add: assign_def)
    have "pw_reserved w = holdings (admission_share CReserved) ad_windowKey ?k (as_admissions s)"
      using window_holdings [OF inv, of CReserved ?k] 1(8) by (simp add: emptyWindow_def split: option.splits)
    then have "\<exists>w. map_of (as_windows t) ?k = Some w \<and>
        pw_reserved w = holdings (admission_share CReserved) ad_windowKey ?k (as_admissions t) + 1"
      unfolding adm w' by simp
    with adm h assms(3) show ?thesis by (auto simp: requestOf_def)
  qed
qed

theorem proto_request_leaks_witness:
  "\<exists>h t. admit (demo_input\<lparr>in_requestId := proto_key\<rparr>) demo_start = Inr (h, t) \<and>
     requestOf t h = Inl (conflict ''admission_fence_mismatch'')"
proof -
  have "isl (admit (demo_input\<lparr>in_requestId := proto_key\<rparr>) demo_start) = False" by code_simp
  then obtain h t where a: "admit (demo_input\<lparr>in_requestId := proto_key\<rparr>) demo_start = Inr (h, t)"
    by (cases "admit (demo_input\<lparr>in_requestId := proto_key\<rparr>) demo_start") auto
  have "map_of (as_admissions demo_start) proto_key = None" by code_simp
  with a show ?thesis
    using proto_request_leaks [of demo_scope "[demo_account]" "[demo_policy]" demo_start "demo_input\<lparr>in_requestId := proto_key\<rparr>" h t]
    by (auto simp: demo_start_def)
qed

end
