(* ===== verification/Authority_Service.thy ===== *)
theory Authority_Service
  imports Durable_Store Authority_Guarantees
begin

text \<open>
  The authority on its store: \<^verbatim>\<open>PortableAuthority._transact\<close> and every method that runs on
  it (\<^verbatim>\<open>src/src/authority/admission-state.ts\<close>), \<^verbatim>\<open>CredentialPublisher.publish\<close>
  (\<^verbatim>\<open>credential-publication.ts\<close>) and \<^verbatim>\<open>DeliveryOutbox\<close>
  (\<^verbatim>\<open>delivery-outbox.ts\<close>). A method takes, besides its arguments, the effects \<open>env\<close> of the
  other clients between its accesses, and returns its answer with the store it leaves.
\<close>

type_synonym store_env = "nat \<Rightarrow> durable_store \<Rightarrow> durable_store"
type_synonym 'r store_call = "store_env \<Rightarrow> durable_store \<Rightarrow> (authority_error + 'r) \<times> durable_store"

definition scopeMismatch :: authority_error where
  "scopeMismatch = AuthorityError ''namespace_or_epoch_mismatch'' 403"

definition finish :: "(authority_error + 'r) option \<times> durable_store \<Rightarrow> (authority_error + 'r) \<times> durable_store" where
  "finish r = (case fst r of None \<Rightarrow> Inl (AuthorityError ''concurrent_update'' 503) | Some x \<Rightarrow> x, snd r)"

definition scoped :: "authority_scope \<Rightarrow> (authority_state \<Rightarrow> 'r authority_result) \<Rightarrow> authority_state \<Rightarrow> 'r authority_result" where
  "scoped sc action state = (if sameScope (as_scope state) sc then action state else Inl scopeMismatch)"

definition transact ::
  "authority_scope \<Rightarrow> authority_scope \<Rightarrow> (authority_state \<Rightarrow> 'r authority_result) \<Rightarrow> 'r store_call" where
  "transact own sc action env st =
     (if \<not> sameScope sc own then (Inl scopeMismatch, st)
      else finish (transact_loop readStore compareAndSwap (scoped sc action) 8 env 0 st))"

definition checked :: "authority_error + unit \<Rightarrow> 'r store_call \<Rightarrow> 'r store_call" where
  "checked c f env st = (case c of Inl e \<Rightarrow> (Inl e, st) | Inr _ \<Rightarrow> f env st)"

section \<open>Methods\<close>

datatype authority_command =
    Op_admit admit_input
  | Op_reserveAttempt admission_handle attempt_input int
  | Op_beginDispatch admission_handle string int
  | Op_selection admission_handle
  | Op_reselectSubscription admission_handle int
  | Op_confirmDispatched admission_handle string
  | Op_releaseBeforeDispatch admission_handle string
  | Op_observeProof admission_handle string account_proof
  | Op_observeTerminal admission_handle string terminal_evidence bool
  | Op_observeDelivery admission_handle delivery_outcome
  | Op_observeUsage admission_handle string string int
  | Op_resetEligible admission_handle int
  | Op_settle admission_handle
  | Op_cancelUndispatched admission_handle

datatype authority_answer =
    AHandle admission_handle
  | AUnit
  | ABool bool
  | ASelection "account_binding option" string gateway_route
  | AAccount "account_binding option"
  | ASettle settle_result

fun command_scope :: "authority_command \<Rightarrow> authority_scope" where
  "command_scope (Op_admit input) = in_scope input"
| "command_scope (Op_reserveAttempt h _ _) = hd_scope h"
| "command_scope (Op_beginDispatch h _ _) = hd_scope h"
| "command_scope (Op_selection h) = hd_scope h"
| "command_scope (Op_reselectSubscription h _) = hd_scope h"
| "command_scope (Op_confirmDispatched h _) = hd_scope h"
| "command_scope (Op_releaseBeforeDispatch h _) = hd_scope h"
| "command_scope (Op_observeProof h _ _) = hd_scope h"
| "command_scope (Op_observeTerminal h _ _ _) = hd_scope h"
| "command_scope (Op_observeDelivery h _) = hd_scope h"
| "command_scope (Op_observeUsage h _ _ _) = hd_scope h"
| "command_scope (Op_resetEligible h _) = hd_scope h"
| "command_scope (Op_settle h) = hd_scope h"
| "command_scope (Op_cancelUndispatched h) = hd_scope h"

definition answering :: "('r \<Rightarrow> authority_answer) \<Rightarrow> 'r authority_result \<Rightarrow> authority_answer authority_result" where
  "answering f x = rbind x (\<lambda>(r, s). Inr (f r, s))"

text \<open>The callback that each method passes to \<open>transact\<close>.\<close>

fun command_action :: "authority_command \<Rightarrow> authority_state \<Rightarrow> authority_answer authority_result" where
  "command_action (Op_admit input) s = answering AHandle (admit input s)"
| "command_action (Op_reserveAttempt h input now) s = answering (\<lambda>_. AUnit) (reserveAttempt h input now s)"
| "command_action (Op_beginDispatch h k now) s = answering ABool (beginDispatch h k now s)"
| "command_action (Op_selection h) s = answering (\<lambda>(a, m, r). ASelection a m r) (selection h s)"
| "command_action (Op_reselectSubscription h now) s = answering AAccount (reselectSubscription h now s)"
| "command_action (Op_confirmDispatched h k) s = answering (\<lambda>_. AUnit) (confirmDispatched h k s)"
| "command_action (Op_releaseBeforeDispatch h k) s = answering (\<lambda>_. AUnit) (releaseBeforeDispatch h k s)"
| "command_action (Op_observeProof h k p) s = answering (\<lambda>_. AUnit) (observeProof h k p s)"
| "command_action (Op_observeTerminal h k ev fin) s = answering (\<lambda>_. AUnit) (observeTerminal h k ev fin s)"
| "command_action (Op_observeDelivery h x) s = answering (\<lambda>_. AUnit) (observeDelivery h x s)"
| "command_action (Op_observeUsage h k pid n) s = answering (\<lambda>_. AUnit) (observeUsage h k pid n s)"
| "command_action (Op_resetEligible h now) s = answering ABool (resetEligible h now s)"
| "command_action (Op_settle h) s = answering ASettle (settle h s)"
| "command_action (Op_cancelUndispatched h) s = answering (\<lambda>_. AUnit) (cancelUndispatched h s)"

text \<open>What a method checks before it opens a transaction.\<close>

fun command_check :: "authority_command \<Rightarrow> authority_error + unit" where
  "command_check (Op_reserveAttempt h input now) = assertAmount (ai_maximumExposureMicrocredits input)"
| "command_check (Op_observeProof h k p) =
     ensure (is_safe_integer (pr_observedAtMs p) \<and> is_safe_integer (pr_validUntilMs p) \<and>
       pr_observedAtMs p < pr_validUntilMs p) (AuthorityError ''invalid_proof'' 400)"
| "command_check (Op_observeTerminal h k ev fin) =
     (case te_spendMicrocredits ev of None \<Rightarrow> Inr () | Some n \<Rightarrow> assertAmount n)"
| "command_check (Op_observeUsage h k pid n) = assertAmount n"
| "command_check _ = Inr ()"

definition run_command :: "authority_scope \<Rightarrow> authority_command \<Rightarrow> authority_answer store_call" where
  "run_command own c = checked (command_check c) (transact own (command_scope c) (command_action c))"

text \<open>
  \<^verbatim>\<open>cancelUndispatched\<close> is two transactions, the second a \<^verbatim>\<open>settle\<close> whose
  answer is dropped; every other method is one. Each transaction has its own interference.
\<close>

definition andThen :: "authority_answer store_call \<Rightarrow> authority_answer store_call \<Rightarrow>
  store_env \<Rightarrow> store_env \<Rightarrow> durable_store \<Rightarrow> (authority_error + authority_answer) \<times> durable_store" where
  "andThen f g env env' st =
     (case f env st of
        (Inl e, st1) \<Rightarrow> (Inl e, st1)
      | (Inr _, st1) \<Rightarrow>
          (case g env' st1 of (Inl e, st2) \<Rightarrow> (Inl e, st2) | (Inr _, st2) \<Rightarrow> (Inr AUnit, st2)))"

definition invoke_method ::
  "authority_scope \<Rightarrow> authority_command \<Rightarrow> store_env \<Rightarrow> store_env \<Rightarrow> durable_store \<Rightarrow>
   (authority_error + authority_answer) \<times> durable_store" where
  "invoke_method own c env env' st =
     (case c of
        Op_cancelUndispatched h \<Rightarrow> andThen (run_command own c) (run_command own (Op_settle h)) env env' st
      | _ \<Rightarrow> run_command own c env st)"

definition outbox_terminal ::
  "authority_scope \<Rightarrow> admission_handle \<Rightarrow> string \<Rightarrow> terminal_evidence \<Rightarrow> bool \<Rightarrow> store_env \<Rightarrow> store_env \<Rightarrow> durable_store \<Rightarrow>
   (authority_error + authority_answer) \<times> durable_store" where
  "outbox_terminal own h k ev fin =
     andThen (run_command own (Op_observeTerminal h k ev fin)) (run_command own (Op_settle h))"

definition outbox_delivery ::
  "authority_scope \<Rightarrow> admission_handle \<Rightarrow> delivery_outcome \<Rightarrow> store_env \<Rightarrow> store_env \<Rightarrow> durable_store \<Rightarrow>
   (authority_error + authority_answer) \<times> durable_store" where
  "outbox_delivery own h x = andThen (run_command own (Op_observeDelivery h x)) (run_command own (Op_settle h))"

definition publish ::
  "credential_owner_binding \<Rightarrow> access_verifier \<Rightarrow> access_publication \<Rightarrow> int \<Rightarrow> publish_result store_call" where
  "publish b verify input now = checked (publishChecks b verify input now)
     (\<lambda>env st. finish (transact_loop readStore compareAndSwap (publishOnce b input) 8 env 0 st))"

section \<open>Commits on the store\<close>

text \<open>
  The commits of the authority's clients: a client read the store, ran one transaction of the
  authority (or one that changed nothing) and swapped in the result. \<open>own_keys\<close> excludes the one
  identifier that is not an own property of a dictionary.
\<close>

definition client_step :: "durable_store \<Rightarrow> durable_store \<Rightarrow> bool" where
  "client_step m m' \<longleftrightarrow>
     (\<exists>r s s'. readStore m = Inr (r, s) \<and> (s' = s \<or> authority_step s s') \<and> compareAndSwap r s' m = Inr (True, m'))"


text \<open>The other clients of the store, between two accesses of a method, only make such commits.\<close>

definition interference :: "store_env \<Rightarrow> bool" where
  "interference env \<longleftrightarrow> (\<forall>i m. client_step\<^sup>*\<^sup>* m (env i m))"

lemma client_stepI:
  "readStore m = Inr (r, s) \<Longrightarrow> s' = s \<or> authority_step s s' \<Longrightarrow> compareAndSwap r s' m = Inr (True, m') \<Longrightarrow> client_step m m'"
  unfolding client_step_def by blast

lemma client_step_swaps: "client_step m m' \<Longrightarrow> durable.swaps m m'"
  unfolding client_step_def durable.swaps_def by blast

lemma clients_others: "interference env \<Longrightarrow> durable.others client_step env"
  by (auto simp: durable.others_def interference_def client_step_swaps)




lemma transact_aborts:
  assumes env: "interference env" and "transact own sc action env m = (Inl e, m')"
  shows "client_step\<^sup>*\<^sup>* m m'"
proof (cases "sameScope sc own")
  case True
  obtain out where loop: "transact_loop readStore compareAndSwap (scoped sc action) 8 env 0 m = (out, m')"
    and "\<forall>x. out \<noteq> Some (Inr x)"
    using assms(2) True by (cases "transact_loop readStore compareAndSwap (scoped sc action) 8 env 0 m")
      (auto simp: transact_def finish_def split: option.splits)
  then show ?thesis using durable.loop_aborts [OF clients_others [OF env]] by blast
next
  case False
  with assms(2) show ?thesis by (simp add: transact_def)
qed


section \<open>A store to compute with\<close>

text \<open>
  \<open>touch\<close> is a client that commits without changing the state, which any client may do at any time;
  a method that meets it between each of its reads and its swaps starves.
\<close>

definition touch :: "durable_store \<Rightarrow> durable_store" where
  "touch m = (case readStore m of
      Inl _ \<Rightarrow> m
    | Inr (r, s) \<Rightarrow> (case compareAndSwap r s m of Inl _ \<Rightarrow> m | Inr (_, m') \<Rightarrow> m'))"

definition rival :: store_env where
  "rival i = (if even i then (\<lambda>m. m) else touch)"

lemma touch_client: "client_step\<^sup>*\<^sup>* m (touch m)"
proof (cases "readStore m")
  case (Inr p)
  then obtain r s where r: "readStore m = Inr (r, s)" by (cases p) auto
  show ?thesis
  proof (cases "compareAndSwap r s m")
    case (Inr q)
    then obtain b m' where q: "compareAndSwap r s m = Inr (b, m')" by (cases q) auto
    with r have "touch m = m'" by (simp add: touch_def)
    moreover have "client_step m m'" if b by (rule client_stepI [OF r disjI1 [OF refl]]) (use that q in simp)
    moreover have "m' = m" if "\<not> b" using that q durable.cas_refuses [of r s m m'] by simp
    ultimately show ?thesis by (cases b) auto
  qed (simp add: touch_def r)
qed (simp add: touch_def)

lemma interference_idle: "interference (\<lambda>_ m. m)"
  by (simp add: interference_def)

lemma interference_rival: "interference rival"
  by (simp add: interference_def rival_def touch_client)

lemma compareAndSwap_outcome:
  assumes "readStore m = Inr (r', a)" and "encode (ds_scope m) (ds_maximumStateBytes m) s = Inr t"
    and "0 \<le> r" and "r < max_safe_integer"
  shows "if r' = r then \<exists>m'. compareAndSwap r s m = Inr (True, m') \<and> readStore m' = Inr (r + 1, s) \<and>
      ds_scope m' = ds_scope m \<and> ds_maximumStateBytes m' = ds_maximumStateBytes m
    else compareAndSwap r s m = Inr (False, m)"
proof -
  have "is_safe_integer r" using assms(3,4) by (simp add: is_safe_integer_def)
  then have "if r' = r then \<exists>m'. compareAndSwap r s m = Inr (True, m') else compareAndSwap r s m = Inr (False, m)"
    using assms by (simp add: compareAndSwap_def ensure_def)
  then show ?thesis using compareAndSwap_commits(2-4) by (auto split: if_splits)
qed

lemma rival_starves:
  assumes "readStore m = Inr (r, s)" and "encode (ds_scope m) (ds_maximumStateBytes m) s = Inr t"
    and "0 \<le> r" and "r + int n < max_safe_integer" and "action s = Inr (x, s)" and "even i"
  shows "fst (transact_loop readStore compareAndSwap action n rival i m) = None"
  using assms
proof (induction n arbitrary: i m r)
  case (Suc n)
  obtain m' where m': "compareAndSwap r s m = Inr (True, m')" "readStore m' = Inr (r + 1, s)"
    "ds_scope m' = ds_scope m" "ds_maximumStateBytes m' = ds_maximumStateBytes m"
    using compareAndSwap_outcome [OF Suc.prems(1,2), of r] Suc.prems(3,4) by auto
  then have refused: "compareAndSwap r s m' = Inr (False, m')"
    using compareAndSwap_outcome [of m' "r + 1" s s t r] Suc.prems(2-4) by simp
  have "rival i m = m" "rival (Suc i) m = m'" using Suc.prems(1,6) m'(1) by (simp_all add: rival_def touch_def)
  moreover have "fst (transact_loop readStore compareAndSwap action n rival (Suc (Suc i)) m') = None"
    by (rule Suc.IH [of m' "r + 1"]) (use Suc.prems m' in simp_all)
  ultimately show ?case using Suc.prems(1,5) refused by simp
qed simp

definition demo_store :: durable_store where
  "demo_store = \<lparr>ds_scope = demo_scope, ds_maximumStateBytes = 4000, ds_row = Some
     \<lparr>row_schema_version = SCHEMA_VERSION, row_revision = jint 0, row_state_json = TextCell (json_of (state_js demo_start))\<rparr>\<rparr>"

lemma demo_open: "openStore None demo_start 4000 = Inr demo_store"
  by code_simp

lemma demo_read: "readStore demo_store = Inr (0, demo_start)"
  using demo_open by (rule openStore_new)

lemma demo_storable: "stateGuard (state_js s_admitted)" "utf8_length (json_print (state_js s_admitted)) \<le> 4000"
  by code_simp+

lemma demo_encode: "encode demo_scope 4000 s_admitted = Inr (json_of (state_js s_admitted))"
  using demo_storable
  by (simp add: encode_def bounded_def ensure_def json_of_def Let_def s_admitted_def demo_state_def sameScope_eq)

lemma demo_swap: "\<exists>m. compareAndSwap 0 s_admitted demo_store = Inr (True, m) \<and> readStore m = Inr (1, s_admitted) \<and>
    ds_scope m = demo_scope \<and> ds_maximumStateBytes m = 4000"
  using compareAndSwap_outcome [OF demo_read, of s_admitted _ 0] demo_encode
  by (simp add: demo_store_def max_safe_integer_def)


section \<open>Guarantees\<close>



text \<open>
  A method that fails, for whatever reason, leaves no trace: the store it returns differs from
  the one it was given only by what the other clients committed.
\<close>

theorem failed_method_has_no_effect:
  assumes "interference env" and "run_command own c env m = (Inl e, m')"
  shows "client_step\<^sup>*\<^sup>* m m'"
proof (cases "command_check c")
  case (Inl e')
  with assms(2) show ?thesis by (simp add: run_command_def checked_def)
next
  case (Inr u)
  with assms(2) have "transact own (command_scope c) (command_action c) env m = (Inl e, m')"
    by (simp add: run_command_def checked_def)
  from assms(1) this show ?thesis by (rule transact_aborts)
qed

theorem failed_method_has_no_effect_witness: "client_step\<^sup>*\<^sup>* demo_store demo_store"
proof -
  have "run_command \<lparr>sc_namespace = ''test'', sc_epoch = 1\<rparr> (Op_settle demo_handle) (\<lambda>_ m. m) demo_store = (Inl scopeMismatch, demo_store)"
    by (simp add: run_command_def checked_def transact_def demo_handle_def demo_scope_def sameScope_def)
  with interference_idle show ?thesis by (rule failed_method_has_no_effect)
qed



text \<open>
  C12. The retry loop is lock-free: it gives up only after eight refusals, and by then the other
  clients have committed at least eight times.
\<close>

theorem giving_up_means_others_progress:
  assumes "interference env" and "readStore m = Inr (r, s)"
    and "transact_loop readStore compareAndSwap (scoped sc (command_action c)) 8 env 0 m = (None, m')"
  shows "\<exists>r' s'. readStore m' = Inr (r', s') \<and> r + 8 \<le> r'"
  using durable.loop_gives_up [OF clients_others [OF assms(1)] _ assms(2,3)] by simp

theorem giving_up_means_others_progress_witness:
  "\<exists>m m' r' s'. readStore m = Inr (1, s_admitted) \<and>
     transact_loop readStore compareAndSwap (scoped demo_scope (command_action (Op_selection demo_handle))) 8 rival 0 m = (None, m') \<and>
     readStore m' = Inr (r', s') \<and> 1 + 8 \<le> r'"
proof -
  let ?act = "scoped demo_scope (command_action (Op_selection demo_handle))"
  obtain m where m: "readStore m = Inr (1, s_admitted)" "ds_scope m = demo_scope" "ds_maximumStateBytes m = 4000"
    using demo_swap by blast
  have act: "?act s_admitted = Inr (ASelection (Some demo_account) ''m'' Responses, s_admitted)" by code_simp
  have "fst (transact_loop readStore compareAndSwap ?act 8 rival 0 m) = None"
    by (rule rival_starves [where action = ?act, OF m(1)]) (simp_all add: demo_encode m(2,3) act max_safe_integer_def)
  then obtain m' where loop: "transact_loop readStore compareAndSwap ?act 8 rival 0 m = (None, m')"
    by (metis prod.collapse)
  from giving_up_means_others_progress [OF interference_rival m(1) loop] m(1) loop show ?thesis by blast
qed

text \<open>
  What is committed is what is read: after a successful compare-and-swap the store holds the
  next revision with exactly the state that was handed in, through the layout as a value, the guard
  and the reader.
\<close>

theorem read_after_commit:
  assumes "compareAndSwap r s m = Inr (True, m')"
  shows "(\<exists>a. readStore m = Inr (r, a)) \<and> readStore m' = Inr (r + 1, s)"
  using compareAndSwap_commits [OF assms] by blast

theorem read_after_commit_witness:
  "\<exists>m'. compareAndSwap 0 s_admitted demo_store = Inr (True, m') \<and> readStore m' = Inr (0 + 1, s_admitted)"
proof -
  obtain m' where "compareAndSwap 0 s_admitted demo_store = Inr (True, m')" using demo_swap by blast
  from read_after_commit [OF this] this show ?thesis by blast
qed

text \<open>
  The authority's own arithmetic never makes a state that its store would refuse: the guard
  demands non-negative safe integers, and in every reachable state all windows pass it as long as no
  counter has grown beyond the largest safe integer.
\<close>

theorem counters_stay_storable:
  assumes "authority_step\<^sup>*\<^sup>* (createAuthorityState sc accounts policies) s"
    and "\<forall>w \<in> set (vals (as_windows s)). \<forall>c. counter c w \<le> max_safe_integer"
    and "wf_dict (as_windows s)"
  shows "g_dictionary windowGuard (dict_js window_js (as_windows s))"
proof -
  have inv: "authority_inv s" using assms(1) by (rule within_quota_run)
  have "windowGuard (window_js w)" if w: "w \<in> set (vals (as_windows s))" for w
  proof -
    obtain k where "map_of (as_windows s) k = Some w" using assms(3) w by (auto dest: vals_map_of)
    then have low: "0 \<le> counter c w" for c
      using inv window_ledger.counters_nonneg by (auto simp: authority_inv_def accounted_def)
    have high: "counter c w \<le> max_safe_integer" for c using assms(2) w by blast
    have range: "0 \<le> counter c w \<and> is_safe_integer (counter c w)" for c
      using low [of c] high [of c] unfolding is_safe_integer_def max_safe_integer_def by linarith
    show ?thesis
      using range [of CReserved] range [of CDispatched] range [of CKernelReserved] range [of CKernelCompleted]
        range [of CActive] range [of CPaidReserved] range [of CPaidSettled]
      by (simp add: windowGuard_def window_js_def)
  qed
  then show ?thesis by (force simp: dict_js_def list_all_iff vals_def)
qed

theorem counters_stay_storable_witness: "g_dictionary windowGuard (dict_js window_js (as_windows s_billed))"
proof (rule counters_stay_storable [OF demo_runs(4) [unfolded demo_start_def]])
  have "counter c (demo_window 0 1 0 1 1 0 20) \<le> max_safe_integer" for c
    by (cases c) (simp_all add: demo_window_def max_safe_integer_def)
  then show "\<forall>w \<in> set (vals (as_windows s_billed)). \<forall>c. counter c w \<le> max_safe_integer"
    by (simp add: s_billed_def demo_state_def vals_def)
qed (simp add: s_billed_def demo_state_def wf_dict_def)

end
