(* ===== verification/Authority_Rpc.thy ===== *)
theory Authority_Rpc
  imports Authority_Service
begin

text \<open>
  The remote interface of the authority (\<^verbatim>\<open>src/src/authority/authority-rpc.ts\<close>): a
  command arrives as an untyped value, is accepted by the guard of its operation, executed, and
  answered with a value or an error; the client rebuilds the call.
\<close>

section \<open>Commands as values\<close>

definition admit_input_js :: "admit_input \<Rightarrow> js" where
  "admit_input_js x = JObj [
     (''scope'', scope_js (in_scope x)),
     (''requestId'', JStr (in_requestId x)),
     (''principalId'', JStr (in_principalId x)),
     (''policyVersion'', jint (in_policyVersion x)),
     (''digest'', JStr (in_digest x)),
     (''route'', route_js (in_route x)),
     (''model'', JStr (in_model x)),
     (''nowMs'', jint (in_nowMs x))]"

definition admit_input_of_js :: "js \<Rightarrow> admit_input option" where
  "admit_input_of_js x =
     Option.bind (Option.bind (field ''scope'' x) scope_of_js) (\<lambda>a.
     Option.bind (Option.bind (field ''requestId'' x) js_text) (\<lambda>b.
     Option.bind (Option.bind (field ''principalId'' x) js_text) (\<lambda>c.
     Option.bind (Option.bind (field ''policyVersion'' x) js_int) (\<lambda>d.
     Option.bind (Option.bind (field ''digest'' x) js_text) (\<lambda>e.
     Option.bind (Option.bind (field ''route'' x) route_of_js) (\<lambda>f.
     Option.bind (Option.bind (field ''model'' x) js_text) (\<lambda>g.
     Option.bind (Option.bind (field ''nowMs'' x) js_int) (\<lambda>h.
     Some \<lparr>in_scope = a, in_requestId = b, in_principalId = c, in_policyVersion = d, in_digest = e, in_route = f, in_model = g, in_nowMs = h\<rparr>))))))))"

definition admit_inputGuard :: guard where
  "admit_inputGuard = g_fields [
     (''scope'', scopeGuard),
     (''requestId'', g_text),
     (''principalId'', g_text),
     (''policyVersion'', g_number),
     (''digest'', g_text),
     (''route'', g_oneOf route_values),
     (''model'', g_text),
     (''nowMs'', g_number)]"

definition g_providerRequestId :: guard where
  "g_providerRequestId v = (case js_text v of None \<Rightarrow> False | Some s \<Rightarrow> js_trim s \<noteq> [])"

definition usage_js :: "string \<times> int \<Rightarrow> js" where
  "usage_js u = JObj [(''providerRequestId'', JStr (fst u)), (''spendMicrocredits'', jint (snd u))]"

definition usage_of_js :: "js \<Rightarrow> (string \<times> int) option" where
  "usage_of_js x =
     Option.bind (Option.bind (field ''providerRequestId'' x) js_text) (\<lambda>a.
     Option.bind (Option.bind (field ''spendMicrocredits'' x) js_int) (\<lambda>b. Some (a, b)))"

definition usageGuard :: guard where
  "usageGuard = g_fields [(''providerRequestId'', g_providerRequestId), (''spendMicrocredits'', g_number)]"

definition g_flag :: guard where
  "g_flag v \<longleftrightarrow> v = JUndef \<or> g_boolean v"

definition flag_of_js :: "js \<Rightarrow> bool option" where
  "flag_of_js v = (if v = JUndef then Some True else js_bool v)"

definition ARGUMENTS :: "(string \<times> guard) list" where
  "ARGUMENTS = [
     (''admit'', g_tuple [admit_inputGuard]),
     (''reserveAttempt'', g_tuple [handleGuard, inputGuard, g_number]),
     (''beginDispatch'', g_tuple [handleGuard, g_text, g_number]),
     (''selection'', g_tuple [handleGuard]),
     (''reselectSubscription'', g_tuple [handleGuard, g_number]),
     (''confirmDispatched'', g_tuple [handleGuard, g_text]),
     (''releaseBeforeDispatch'', g_tuple [handleGuard, g_text]),
     (''observeProof'', g_tuple [handleGuard, g_text, proofGuard]),
     (''observeTerminal'', \<lambda>v. g_tuple [handleGuard, g_text, terminalGuard] v \<or> g_tuple [handleGuard, g_text, terminalGuard, g_flag] v),
     (''observeDelivery'', g_tuple [handleGuard, g_oneOf delivery_values]),
     (''observeUsage'', g_tuple [handleGuard, g_text, usageGuard]),
     (''resetEligible'', g_tuple [handleGuard, g_number]),
     (''settle'', g_tuple [handleGuard]),
     (''cancelUndispatched'', g_tuple [handleGuard])]"

definition isCommand :: guard where
  "isCommand v =
     (case js_entries v of
        None \<Rightarrow> False
      | Some es \<Rightarrow>
          length es = 2 \<and>
          (case map_of es ''operation'' of
             Some (JStr op) \<Rightarrow>
               (case (map_of ARGUMENTS op, map_of es ''arguments'') of (Some g, Some a) \<Rightarrow> g a | _ \<Rightarrow> False)
           | _ \<Rightarrow> False))"

fun command_args :: "authority_command \<Rightarrow> js list" where
  "command_args (Op_admit a) = [admit_input_js a]"
| "command_args (Op_reserveAttempt a b c) = [handle_js a, input_js b, jint c]"
| "command_args (Op_beginDispatch a b c) = [handle_js a, JStr b, jint c]"
| "command_args (Op_selection a) = [handle_js a]"
| "command_args (Op_reselectSubscription a b) = [handle_js a, jint b]"
| "command_args (Op_confirmDispatched a b) = [handle_js a, JStr b]"
| "command_args (Op_releaseBeforeDispatch a b) = [handle_js a, JStr b]"
| "command_args (Op_observeProof a b c) = [handle_js a, JStr b, proof_js c]"
| "command_args (Op_observeTerminal h k ev fin) = [handle_js h, JStr k, terminal_js ev, JBool fin]"
| "command_args (Op_observeDelivery a b) = [handle_js a, delivery_js b]"
| "command_args (Op_observeUsage h k pid n) = [handle_js h, JStr k, usage_js (pid, n)]"
| "command_args (Op_resetEligible a b) = [handle_js a, jint b]"
| "command_args (Op_settle a) = [handle_js a]"
| "command_args (Op_cancelUndispatched a) = [handle_js a]"

fun command_name :: "authority_command \<Rightarrow> string" where
  "command_name (Op_admit _) = ''admit''"
| "command_name (Op_reserveAttempt _ _ _) = ''reserveAttempt''"
| "command_name (Op_beginDispatch _ _ _) = ''beginDispatch''"
| "command_name (Op_selection _) = ''selection''"
| "command_name (Op_reselectSubscription _ _) = ''reselectSubscription''"
| "command_name (Op_confirmDispatched _ _) = ''confirmDispatched''"
| "command_name (Op_releaseBeforeDispatch _ _) = ''releaseBeforeDispatch''"
| "command_name (Op_observeProof _ _ _) = ''observeProof''"
| "command_name (Op_observeTerminal _ _ _ _) = ''observeTerminal''"
| "command_name (Op_observeDelivery _ _) = ''observeDelivery''"
| "command_name (Op_observeUsage _ _ _ _) = ''observeUsage''"
| "command_name (Op_resetEligible _ _) = ''resetEligible''"
| "command_name (Op_settle _) = ''settle''"
| "command_name (Op_cancelUndispatched _) = ''cancelUndispatched''"

definition command_js :: "authority_command \<Rightarrow> js" where
  "command_js c = JObj [(''operation'', JStr (command_name c)), (''arguments'', JArr (command_args c))]"

definition read_admit :: "js list \<Rightarrow> authority_command option" where
  "read_admit vs =
     (case vs of [a] \<Rightarrow> map_option (Op_admit) (admit_input_of_js a) | _ \<Rightarrow> None)"

definition read_reserveAttempt :: "js list \<Rightarrow> authority_command option" where
  "read_reserveAttempt vs =
     (case vs of [a, b, c] \<Rightarrow> Option.bind (handle_of_js a) (\<lambda>a. Option.bind (input_of_js b) (\<lambda>b. map_option (Op_reserveAttempt a b) (js_int c))) | _ \<Rightarrow> None)"

definition read_beginDispatch :: "js list \<Rightarrow> authority_command option" where
  "read_beginDispatch vs =
     (case vs of [a, b, c] \<Rightarrow> Option.bind (handle_of_js a) (\<lambda>a. Option.bind (js_text b) (\<lambda>b. map_option (Op_beginDispatch a b) (js_int c))) | _ \<Rightarrow> None)"

definition read_selection :: "js list \<Rightarrow> authority_command option" where
  "read_selection vs =
     (case vs of [a] \<Rightarrow> map_option (Op_selection) (handle_of_js a) | _ \<Rightarrow> None)"

definition read_reselectSubscription :: "js list \<Rightarrow> authority_command option" where
  "read_reselectSubscription vs =
     (case vs of [a, b] \<Rightarrow> Option.bind (handle_of_js a) (\<lambda>a. map_option (Op_reselectSubscription a) (js_int b)) | _ \<Rightarrow> None)"

definition read_confirmDispatched :: "js list \<Rightarrow> authority_command option" where
  "read_confirmDispatched vs =
     (case vs of [a, b] \<Rightarrow> Option.bind (handle_of_js a) (\<lambda>a. map_option (Op_confirmDispatched a) (js_text b)) | _ \<Rightarrow> None)"

definition read_releaseBeforeDispatch :: "js list \<Rightarrow> authority_command option" where
  "read_releaseBeforeDispatch vs =
     (case vs of [a, b] \<Rightarrow> Option.bind (handle_of_js a) (\<lambda>a. map_option (Op_releaseBeforeDispatch a) (js_text b)) | _ \<Rightarrow> None)"

definition read_observeProof :: "js list \<Rightarrow> authority_command option" where
  "read_observeProof vs =
     (case vs of [a, b, c] \<Rightarrow> Option.bind (handle_of_js a) (\<lambda>a. Option.bind (js_text b) (\<lambda>b. map_option (Op_observeProof a b) (proof_of_js c))) | _ \<Rightarrow> None)"

definition read_observeTerminal :: "js list \<Rightarrow> authority_command option" where
  "read_observeTerminal vs =
     (case vs of
        [h, k, ev] \<Rightarrow> Option.bind (handle_of_js h) (\<lambda>h. Option.bind (js_text k) (\<lambda>k.
          map_option (\<lambda>ev. Op_observeTerminal h k ev True) (terminal_of_js ev)))
      | [h, k, ev, f] \<Rightarrow> Option.bind (handle_of_js h) (\<lambda>h. Option.bind (js_text k) (\<lambda>k. Option.bind (terminal_of_js ev) (\<lambda>ev.
          map_option (Op_observeTerminal h k ev) (flag_of_js f))))
      | _ \<Rightarrow> None)"

definition read_observeDelivery :: "js list \<Rightarrow> authority_command option" where
  "read_observeDelivery vs =
     (case vs of [a, b] \<Rightarrow> Option.bind (handle_of_js a) (\<lambda>a. map_option (Op_observeDelivery a) (delivery_of_js b)) | _ \<Rightarrow> None)"

definition read_observeUsage :: "js list \<Rightarrow> authority_command option" where
  "read_observeUsage vs =
     (case vs of
        [h, k, u] \<Rightarrow> Option.bind (handle_of_js h) (\<lambda>h. Option.bind (js_text k) (\<lambda>k.
          map_option (\<lambda>(pid, n). Op_observeUsage h k pid n) (usage_of_js u)))
      | _ \<Rightarrow> None)"

definition read_resetEligible :: "js list \<Rightarrow> authority_command option" where
  "read_resetEligible vs =
     (case vs of [a, b] \<Rightarrow> Option.bind (handle_of_js a) (\<lambda>a. map_option (Op_resetEligible a) (js_int b)) | _ \<Rightarrow> None)"

definition read_settle :: "js list \<Rightarrow> authority_command option" where
  "read_settle vs =
     (case vs of [a] \<Rightarrow> map_option (Op_settle) (handle_of_js a) | _ \<Rightarrow> None)"

definition read_cancelUndispatched :: "js list \<Rightarrow> authority_command option" where
  "read_cancelUndispatched vs =
     (case vs of [a] \<Rightarrow> map_option (Op_cancelUndispatched) (handle_of_js a) | _ \<Rightarrow> None)"

definition READERS :: "(string \<times> (js list \<Rightarrow> authority_command option)) list" where
  "READERS = [
     (''admit'', read_admit),
     (''reserveAttempt'', read_reserveAttempt),
     (''beginDispatch'', read_beginDispatch),
     (''selection'', read_selection),
     (''reselectSubscription'', read_reselectSubscription),
     (''confirmDispatched'', read_confirmDispatched),
     (''releaseBeforeDispatch'', read_releaseBeforeDispatch),
     (''observeProof'', read_observeProof),
     (''observeTerminal'', read_observeTerminal),
     (''observeDelivery'', read_observeDelivery),
     (''observeUsage'', read_observeUsage),
     (''resetEligible'', read_resetEligible),
     (''settle'', read_settle),
     (''cancelUndispatched'', read_cancelUndispatched)]"

definition command_of_js :: "js \<Rightarrow> authority_command option" where
  "command_of_js v =
     Option.bind (Option.bind (field ''operation'' v) js_text) (\<lambda>op.
     Option.bind (Option.bind (field ''arguments'' v) js_items) (\<lambda>vs.
     Option.bind (map_of READERS op) (\<lambda>f. f vs)))"

section \<open>Server and client\<close>

datatype authority_reply = RValue authority_answer | RError string int

fun wire_error :: "authority_error \<Rightarrow> authority_reply" where
  "wire_error (AuthorityError code status) = RError code status"
| "wire_error _ = RError ''authority_unavailable'' 503"

definition server_invoke ::
  "authority_scope \<Rightarrow> int \<Rightarrow> js \<Rightarrow> store_env \<Rightarrow> store_env \<Rightarrow> durable_store \<Rightarrow> authority_reply \<times> durable_store" where
  "server_invoke own maximum v env env' st =
     (if \<not> isCommand v then (wire_error (AuthorityError ''invalid_authority_operation'' 400), st)
      else if maximum < utf8_length (json_print v) then (wire_error (AuthorityError ''authority_command_too_large'' 413), st)
      else case command_of_js v of
             None \<Rightarrow> (wire_error TypeError, st)
           | Some c \<Rightarrow>
               (case invoke_method own c env env' st of
                  (Inl e, st1) \<Rightarrow> (wire_error e, st1)
                | (Inr a, st1) \<Rightarrow> (RValue a, st1)))"



section \<open>Commands are a codec\<close>

lemmas [codec_roundtrip] = proof_codec.roundtrip terminal_codec.roundtrip

lemmas [codec_readable] = proof_codec.readable terminal_codec.readable

interpretation admit_codec: codec admit_input_js admit_input_of_js admit_inputGuard
proof
  fix x :: admit_input
  assume "admit_inputGuard (admit_input_js x)"
  then show "admit_input_of_js (admit_input_js x) = Some x"
    by (simp add: admit_input_js_def admit_input_of_js_def admit_inputGuard_def codec_roundtrip)
next
  fix v
  assume "admit_inputGuard v"
  then show "\<exists>x. admit_input_of_js v = Some x"
    by (auto simp: admit_input_of_js_def admit_inputGuard_def dest!: g_fields_field codec_readable)
qed (simp add: admit_input_js_def)

interpretation usage_codec: codec usage_js usage_of_js usageGuard
proof
  fix x
  assume "usageGuard (usage_js x)"
  then show "usage_of_js (usage_js x) = Some x"
    by (simp add: usage_js_def usage_of_js_def usageGuard_def)
next
  fix v
  assume "usageGuard v"
  then show "\<exists>x. usage_of_js v = Some x"
    by (fastforce simp: usage_of_js_def usageGuard_def g_providerRequestId_def split: option.splits
        dest!: g_fields_field codec_readable)
qed (simp add: usage_js_def)

lemmas [codec_roundtrip] = admit_codec.roundtrip usage_codec.roundtrip input_codec.roundtrip

lemmas [codec_readable] = admit_codec.readable usage_codec.readable input_codec.readable

lemmas readers = read_admit_def read_reserveAttempt_def read_beginDispatch_def read_selection_def read_reselectSubscription_def read_confirmDispatched_def read_releaseBeforeDispatch_def read_observeProof_def read_observeTerminal_def read_observeDelivery_def read_observeUsage_def read_resetEligible_def read_settle_def read_cancelUndispatched_def

lemma g_tuple_arr [simp]: "g_tuple gs (JArr vs) \<longleftrightarrow> list_all2 (\<lambda>g x. g x) gs vs"
  by (auto simp: g_tuple_def dest: list_all2_lengthD)

lemma g_tuple_obtain: "g_tuple gs v \<Longrightarrow> \<exists>vs. v = JArr vs \<and> list_all2 (\<lambda>g x. g x) gs vs"
  by (cases v) (auto simp: g_tuple_def)

lemma flag_readable [codec_readable]: "g_flag v \<Longrightarrow> \<exists>b. flag_of_js v = Some b"
  by (auto simp: g_flag_def flag_of_js_def g_boolean_def)

lemma g_tuple_reads:
  assumes "map_of ARGUMENTS op = Some g" and "g a"
  shows "\<exists>vs f c. a = JArr vs \<and> map_of READERS op = Some f \<and> f vs = Some c"
  using assms
  by (auto simp: ARGUMENTS_def READERS_def readers list_all2_Cons1 dest!: g_tuple_obtain codec_readable split: if_splits)

interpretation command_codec: codec command_js command_of_js isCommand
proof
  fix c
  assume "isCommand (command_js c)"
  then show "command_of_js (command_js c) = Some c"
    by (cases c) (simp_all add: isCommand_def command_js_def command_of_js_def ARGUMENTS_def READERS_def readers
        flag_of_js_def codec_roundtrip)
next
  fix v
  assume v: "isCommand v"
  then obtain es op g a where "v = JObj es" "map_of es ''operation'' = Some (JStr op)" "map_of ARGUMENTS op = Some g"
    "map_of es ''arguments'' = Some a" "g a"
    by (cases v) (auto simp: isCommand_def split: option.splits js.splits)
  with g_tuple_reads show "\<exists>c. command_of_js v = Some c" by (fastforce simp: command_of_js_def)
qed (simp add: command_js_def)

section \<open>Guarantees\<close>

lemma server_runs:
  assumes "isCommand v" and "utf8_length (json_print v) \<le> maximum" and "command_of_js v = Some c"
  shows "server_invoke own maximum v env env' st =
    (case invoke_method own c env env' st of (Inl e, st1) \<Rightarrow> (wire_error e, st1) | (Inr a, st1) \<Rightarrow> (RValue a, st1))"
  using assms by (simp add: server_invoke_def)




text \<open>
  C14. The command guard is exact about what the server can run: every accepted value within the size
  bound reads as one of the fourteen operations with well-typed arguments and is answered by running
  it; a value the guard refuses is answered with "invalid_authority_operation" and the store is
  untouched.
\<close>

theorem rpc_guard_is_total:
  assumes "utf8_length (json_print v) \<le> maximum"
  shows "if isCommand v
    then \<exists>c. command_of_js v = Some c \<and> server_invoke own maximum v env env' st =
      (case invoke_method own c env env' st of (Inl e, st1) \<Rightarrow> (wire_error e, st1) | (Inr a, st1) \<Rightarrow> (RValue a, st1))
    else server_invoke own maximum v env env' st = (RError ''invalid_authority_operation'' 400, st)"
proof (cases "isCommand v")
  case True
  then obtain c where "command_of_js v = Some c" using command_codec.readable by blast
  with server_runs [OF True assms] True show ?thesis by auto
next
  case False
  then show ?thesis by (simp add: server_invoke_def)
qed

theorem rpc_guard_is_total_witness:
  "server_invoke demo_scope 500 (JObj [(''operation'', JStr ''drop''), (''arguments'', JArr [])]) (\<lambda>_ m. m) (\<lambda>_ m. m) demo_store =
     (RError ''invalid_authority_operation'' 400, demo_store)"
proof -
  let ?v = "JObj [(''operation'', JStr ''drop''), (''arguments'', JArr [])]"
  have "utf8_length (json_print ?v) \<le> 500" "\<not> isCommand ?v" by code_simp+
  with rpc_guard_is_total [of ?v 500 demo_scope "\<lambda>_ m. m" "\<lambda>_ m. m" demo_store] show ?thesis by simp
qed

end
