(* ===== verification/Js_Number.thy ===== *)
theory Js_Number
  imports Js_Value
begin

text \<open>
  \<^verbatim>\<open>Number(text)\<close> and \<^verbatim>\<open>Math.trunc\<close>. A decimal text is read as a
  rational and rounded to the nearest binary64 value, ties to even; what is too large becomes an
  infinity. Integers up to \<open>2\<^sup>53\<close> are read exactly.
\<close>

section \<open>Rounding to binary64\<close>

definition pow2 :: "int \<Rightarrow> rat" where
  "pow2 e = (if 0 \<le> e then 2 ^ nat e else 1 / 2 ^ nat (- e))"

fun bit_length :: "int \<Rightarrow> int" where
  "bit_length n = (if n \<le> 0 then 0 else 1 + bit_length (n div 2))"

declare bit_length.simps [simp del]

text \<open>The exponent \<open>e\<close> with \<open>2\<^sup>e \<le> q < 2\<^sup>e\<^sup>+\<^sup>1\<close> of a positive rational.\<close>

definition exponent :: "rat \<Rightarrow> int" where
  "exponent q =
     (let p = quotient_of q;
          e = bit_length (fst p) - bit_length (snd p)
      in if q < pow2 e then e - 1 else e)"

definition round_half_even :: "rat \<Rightarrow> int" where
  "round_half_even x =
     (let f = \<lfloor>x\<rfloor>; d = x - of_int f in
      if d < 1 / 2 then f else if 1 / 2 < d then f + 1 else if even f then f else f + 1)"

definition round_double :: "rat \<Rightarrow> jsnum" where
  "round_double q =
     (if q = 0 then Fin 0
      else
        let u = pow2 (max (exponent \<bar>q\<bar> - 52) (- 1074));
            r = of_int (round_half_even (\<bar>q\<bar> / u)) * u
        in if 1024 \<le> exponent r then (if 0 < q then PosInf else NegInf)
           else Fin (if 0 < q then r else - r))"

section \<open>Numeric literals\<close>

definition digits_value :: "string \<Rightarrow> int" where
  "digits_value s = foldl (\<lambda>a c. 10 * a + (of_char c - 48)) 0 s"

text \<open>An unsigned decimal literal: digits, an optional fraction, an optional exponent.\<close>

definition split_exponent :: "string \<Rightarrow> string \<times> int option option" where
  "split_exponent s =
     (let m = takeWhile (\<lambda>c. c \<noteq> CHR ''e'' \<and> c \<noteq> CHR ''E'') s; r = drop (length m) s in
      case r of
        [] \<Rightarrow> (m, Some None)
      | _ # x \<Rightarrow>
          (m, case x of
             [] \<Rightarrow> None
           | c # ds \<Rightarrow>
               if c = CHR ''-'' then (if digits_only ds then Some (Some (- (digits_value ds))) else None)
               else if c = CHR ''+'' then (if digits_only ds then Some (Some ((digits_value ds))) else None)
               else if digits_only x then Some (Some ((digits_value x))) else None))"

definition mantissa :: "string \<Rightarrow> rat option" where
  "mantissa m =
     (let i = takeWhile (\<lambda>c. c \<noteq> CHR ''.'') m; r = drop (length i) m; f = drop 1 r in
      if list_all is_digit i \<and> list_all is_digit f \<and> (i \<noteq> [] \<or> f \<noteq> [])
      then Some (of_int (digits_value (i @ f)) / 10 ^ length f) else None)"

definition decimal :: "string \<Rightarrow> rat option" where
  "decimal s =
     (case split_exponent s of (m, e) \<Rightarrow>
        Option.bind e (\<lambda>e. map_option (\<lambda>x. x * (case e of None \<Rightarrow> 1 | Some k \<Rightarrow>
          if 0 \<le> k then 10 ^ nat k else 1 / 10 ^ nat (- k))) (mantissa m)))"

definition unsigned_number :: "string \<Rightarrow> jsnum" where
  "unsigned_number s =
     (if s = ''Infinity'' then PosInf
      else case decimal s of None \<Rightarrow> NaN | Some q \<Rightarrow> round_double q)"

definition negate :: "jsnum \<Rightarrow> jsnum" where
  "negate n = (case n of Fin q \<Rightarrow> Fin (- q) | PosInf \<Rightarrow> NegInf | NegInf \<Rightarrow> PosInf | NaN \<Rightarrow> NaN)"

definition number_of_text :: "string \<Rightarrow> jsnum" where
  "number_of_text text =
     (let t = js_trim text in
      case t of
        [] \<Rightarrow> Fin 0
      | c # cs \<Rightarrow>
          if c = CHR ''-'' then negate (unsigned_number cs)
          else if c = CHR ''+'' then unsigned_number cs
          else case cs of
                 p # ds \<Rightarrow>
                   (if c = CHR ''0'' \<and> map_of radix_prefixes p \<noteq> None
                    then (case radix_literal (the (map_of radix_prefixes p)) ds of
                            None \<Rightarrow> NaN | Some i \<Rightarrow> round_double (of_int i))
                    else unsigned_number t)
               | [] \<Rightarrow> unsigned_number t)"

definition js_trunc :: "rat \<Rightarrow> int" where
  "js_trunc q = (if q < 0 then \<lceil>q\<rceil> else \<lfloor>q\<rfloor>)"

lemma js_trunc_of_int [simp]: "js_trunc (of_int i) = i"
  by (simp add: js_trunc_def)

text \<open>A finite number, given as a number or as text; \<open>None\<close> for everything else.\<close>

definition finite_number :: "js \<Rightarrow> rat option" where
  "finite_number v =
     (case v of JNum (Fin q) \<Rightarrow> Some q
      | JStr s \<Rightarrow> (case number_of_text s of Fin q \<Rightarrow> Some q | _ \<Rightarrow> None)
      | _ \<Rightarrow> None)"

section \<open>Integers are exact\<close>

lemma bit_length_bounds:
  "0 < n \<Longrightarrow> 1 \<le> bit_length n \<and> 2 ^ nat (bit_length n - 1) \<le> n \<and> n < 2 ^ nat (bit_length n)"
proof (induction n rule: bit_length.induct)
  case (1 n)
  show ?case
  proof (cases "n = 1")
    case True
    then show ?thesis by (simp add: bit_length.simps [of 1] bit_length.simps [of 0])
  next
    case False
    with "1.prems" have pos: "0 < n div 2" by simp
    have b: "bit_length n = 1 + bit_length (n div 2)" using "1.prems" by (subst bit_length.simps) simp
    have IH: "1 \<le> bit_length (n div 2)" "2 ^ nat (bit_length (n div 2) - 1) \<le> n div 2" "n div 2 < 2 ^ nat (bit_length (n div 2))"
      using "1.IH" "1.prems" pos by auto
    define k where "k = nat (bit_length (n div 2) - 1)"
    have k: "nat (bit_length n - 1) = Suc k" "nat (bit_length n) = Suc (Suc k)" "nat (bit_length (n div 2)) = Suc k"
      using b IH(1) by (simp_all add: k_def)
    have "(2::int) ^ k \<le> n div 2" "n div 2 < 2 * 2 ^ k" using IH(2,3) k(3) by (simp_all add: k_def)
    then have "(2::int) * 2 ^ k \<le> n" "n < 4 * 2 ^ k" by linarith+
    moreover have "1 \<le> bit_length n" using b IH(1) by simp
    ultimately show ?thesis unfolding k by simp
  qed
qed

lemma bit_length_1 [simp]: "bit_length 1 = 1"
  by (simp add: bit_length.simps [of 1] bit_length.simps [of 0])

lemma exponent_of_int:
  assumes "0 < n"
  shows "exponent (of_int n) = bit_length n - 1"
proof -
  have b: "1 \<le> bit_length n" "2 ^ nat (bit_length n - 1) \<le> n" using bit_length_bounds [OF assms] by blast+
  have "of_int (2 ^ nat (bit_length n - 1)) \<le> (of_int n :: rat)" using b(2) by (simp only: of_int_le_iff)
  with b(1) have "pow2 (bit_length n - 1) \<le> of_int n" by (simp add: pow2_def)
  then show ?thesis by (simp add: exponent_def Let_def)
qed

lemma round_half_even_of_int [simp]: "round_half_even (of_int i) = i"
  by (simp add: round_half_even_def)

lemma exponent_small:
  assumes "0 < n" and "n \<le> 2 ^ 53"
  shows "bit_length n - 1 \<le> 53" and "bit_length n - 1 = 53 \<Longrightarrow> n = 2 ^ 53"
proof -
  have low: "2 ^ nat (bit_length n - 1) \<le> n" using bit_length_bounds [OF assms(1)] by blast
  then have "(2::int) ^ nat (bit_length n - 1) \<le> 2 ^ 53" using assms(2) by linarith
  then have "nat (bit_length n - 1) \<le> 53" by (rule power_le_imp_le_exp [rotated]) simp
  then show "bit_length n - 1 \<le> 53" by simp
  show "n = 2 ^ 53" if "bit_length n - 1 = 53" using low assms(2) unfolding that by simp
qed

lemma scaled_integer:
  assumes "0 < n" and "n \<le> 2 ^ 53"
  shows "\<exists>k. of_int n / pow2 (bit_length n - 1 - 52) = of_int k"
proof (cases "bit_length n - 1 = 53")
  case True
  with exponent_small(2) [OF assms] have "of_int n / pow2 (bit_length n - 1 - 52) = of_int (2 ^ 52)"
    by (simp add: pow2_def)
  then show ?thesis ..
next
  case False
  with exponent_small(1) [OF assms] have "bit_length n - 1 - 52 \<le> 0" by simp
  then have "of_int n / pow2 (bit_length n - 1 - 52) = of_int (n * 2 ^ nat (52 - (bit_length n - 1)))"
    by (cases "bit_length n - 1 - 52 = 0") (simp_all add: pow2_def algebra_simps)
  then show ?thesis ..
qed

lemma round_double_of_int:
  assumes "\<bar>i\<bar> \<le> 2 ^ 53"
  shows "round_double (of_int i) = Fin (of_int i)"
proof (cases "i = 0")
  case False
  define n where "n = \<bar>i\<bar>"
  with False assms have n: "0 < n" "n \<le> 2 ^ 53" by simp_all
  have abs: "\<bar>of_int i :: rat\<bar> = of_int n" by (simp add: n_def)
  have e: "exponent (of_int n) = bit_length n - 1" using n(1) by (rule exponent_of_int)
  have u: "max (bit_length n - 1 - 52) (- 1074) = bit_length n - 1 - 52" using bit_length_bounds [OF n(1)] by simp
  have "pow2 (bit_length n - 1 - 52) \<noteq> 0" by (simp add: pow2_def)
  with scaled_integer [OF n] have r: "of_int (round_half_even (of_int n / pow2 (bit_length n - 1 - 52))) *
      pow2 (bit_length n - 1 - 52) = (of_int n :: rat)"
    by (auto simp: field_simps)
  have "\<not> 1024 \<le> bit_length n - 1" using exponent_small(1) [OF n] by simp
  with False show ?thesis unfolding round_double_def Let_def abs e u r by (auto simp: n_def e [unfolded n_def])
qed (simp add: round_double_def)

lemma foldl_digits:
  "list_all is_digit s \<Longrightarrow> foldl (\<lambda>a c. 10 * a + (of_char c - 48)) (int m) s =
     int (foldl (\<lambda>a c. 10 * a + (of_char c - 48)) m s)"
proof (induction s arbitrary: m)
  case (Cons c s)
  have "48 \<le> (of_char c :: nat)" using Cons.prems by (simp add: is_digit_def)
  then have eq: "10 * int m + (of_char c - 48) = int (10 * m + (of_char c - 48))"
    by (simp add: of_nat_diff of_nat_of_char)
  show ?case unfolding foldl.simps eq by (rule Cons.IH) (use Cons.prems in simp)
qed simp

lemma digits_value_digits: "list_all is_digit s \<Longrightarrow> digits_value s = int (read_digits s)"
  using foldl_digits [of s 0] by (simp add: digits_value_def read_digits_def)

lemma show_nat_digits: "list_all is_digit (show_nat n)"
  using show_nat_chars [of _ n] by (auto simp: list_all_iff is_digit_def)

lemma digit_chars: "is_digit c \<Longrightarrow> c \<noteq> CHR ''e'' \<and> c \<noteq> CHR ''E'' \<and> c \<noteq> CHR ''.'' \<and> c \<noteq> CHR ''-'' \<and> c \<noteq> CHR ''+'' \<and> c \<noteq> CHR ''I''"
  by (auto simp: is_digit_def)

lemma decimal_digits:
  assumes "list_all is_digit s" and "s \<noteq> []"
  shows "decimal s = Some (of_int (digits_value s))"
proof -
  have no_e: "takeWhile (\<lambda>c. c \<noteq> CHR ''e'' \<and> c \<noteq> CHR ''E'') s = s"
    using assms(1) digit_chars by (auto simp: takeWhile_eq_all_conv list_all_iff)
  have no_dot: "takeWhile (\<lambda>c. c \<noteq> CHR ''.'') s = s"
    using assms(1) digit_chars by (auto simp: takeWhile_eq_all_conv list_all_iff)
  show ?thesis
    using assms by (simp add: decimal_def split_exponent_def mantissa_def Let_def no_e no_dot)
qed

lemma number_of_show_nat:
  assumes "int n \<le> 2 ^ 53"
  shows "unsigned_number (show_nat n) = Fin (of_nat n)" and "number_of_text (show_nat n) = Fin (of_nat n)"
proof -
  let ?s = "show_nat n"
  have d: "list_all is_digit ?s" by (rule show_nat_digits)
  obtain c cs where s: "?s = c # cs" by (cases ?s) auto
  have c: "is_digit c" "list_all is_digit cs" using d by (simp_all add: s)
  have "?s \<noteq> ''Infinity''" using digit_chars [OF c(1)] by (auto simp: s)
  then show u: "unsigned_number ?s = Fin (of_nat n)"
    using round_double_of_int [of "int n"] assms decimal_digits [OF d] digits_value_digits [OF d]
    by (simp add: unsigned_number_def read_show_nat)
  have "map_of radix_prefixes p = None" if "p \<in> set cs" for p
    using that c(2) by (auto simp: radix_prefixes_def is_digit_def list_all_iff)
  then show "number_of_text ?s = Fin (of_nat n)"
    using trim_digits [OF d] s u digit_chars [OF c(1)] by (auto simp: number_of_text_def Let_def split: list.splits)
qed

lemma number_of_show_int:
  assumes "\<bar>i\<bar> \<le> 2 ^ 53"
  shows "number_of_text (show_int i) = Fin (of_int i)"
proof (cases "i < 0")
  case True
  have d: "list_all is_digit (show_nat (nat (- i)))" by (rule show_nat_digits)
  have "js_trim (CHR ''-'' # show_nat (nat (- i))) = CHR ''-'' # show_nat (nat (- i))"
  proof (rule js_trim_edges)
    have "last (show_nat (nat (- i))) \<in> set (show_nat (nat (- i)))" by simp
    with d show "\<not> js_whitespace (last (CHR ''-'' # show_nat (nat (- i))))"
      by (auto simp: list_all_iff dest: digit_not_whitespace)
  qed (simp_all add: js_whitespace_def)
  with True assms show ?thesis
    using number_of_show_nat(1) [of "nat (- i)"] by (simp add: number_of_text_def show_int_def negate_def)
next
  case False
  with assms show ?thesis using number_of_show_nat(2) [of "nat i"] by (simp add: show_int_def)
qed

end
