(* ===== verification/Native_Key.thy ===== *)
theory Native_Key
  imports Js_Number
begin

text \<open>
  The key codec of the native authority's tables (\<^verbatim>\<open>src/src/authority/native-authority-sql.ts\<close>):
  a key is a list of parts, each part is packed into bytes with the tuple tags of FoundationDB, and
  the bytes are written in hexadecimal as the primary key of a row. Texts are lists of code units 0
  to 255 and numbers are integers; \<^verbatim>\<open>bigint\<close> parts, which no table of the authority
  uses, are left out. The theory ends with the fact the stores rest on: two keys share a row only
  when they are equal.
\<close>

datatype key_part = KText string | KBytes "int list" | KNum int | KBool bool

type_synonym kv_key = "key_part list"

text \<open>\<^verbatim>\<open>TextEncoder\<close> on the code units 0 to 255.\<close>

definition utf8_char :: "char \<Rightarrow> int list" where
  "utf8_char c = (let n = of_char c in if n < 128 then [n] else [192 + n div 64, 128 + n mod 64])"

definition utf8_bytes :: "string \<Rightarrow> int list" where
  "utf8_bytes s = concat (map utf8_char s)"

definition escape_bytes :: "int list \<Rightarrow> int list" where
  "escape_bytes bs = concat (map (\<lambda>b. if b = 0 then [0, 255] else [b]) bs)"

definition bytesPart :: "int \<Rightarrow> int list \<Rightarrow> int list" where
  "bytesPart tag bs = tag # escape_bytes bs @ [0]"

text \<open>
  \<^verbatim>\<open>DataView.setFloat64\<close> of an integer: sign, biased exponent and fraction of the binary64
  value as one 64-bit number, then its eight bytes, most significant first.
\<close>

definition float64_magnitude :: "int \<Rightarrow> int" where
  "float64_magnitude n =
     (if n = 0 then 0
      else let e = bit_length n - 1 in (1023 + e) * 2 ^ 52 + (n - 2 ^ nat e) * 2 ^ 52 div 2 ^ nat e)"

definition float64_bits :: "int \<Rightarrow> int" where
  "float64_bits n = (if n < 0 then 2 ^ 63 + float64_magnitude (- n) else float64_magnitude n)"

fun be_bytes :: "nat \<Rightarrow> int \<Rightarrow> int list" where
  "be_bytes 0 n = []"
| "be_bytes (Suc k) n = be_bytes k (n div 256) @ [n mod 256]"

text \<open>The sign bit of a positive number and every bit of a negative one are inverted.\<close>

definition ordered_bytes :: "int list \<Rightarrow> int list" where
  "ordered_bytes buffer =
     (if 128 \<le> hd buffer then map (\<lambda>b. 255 - b) buffer else (hd buffer + 128) # tl buffer)"

definition numberPart :: "int \<Rightarrow> int list" where
  "numberPart n = 33 # ordered_bytes (be_bytes 8 (float64_bits n))"

fun packedPart :: "key_part \<Rightarrow> int list" where
  "packedPart (KText s) = bytesPart 2 (utf8_bytes s)"
| "packedPart (KBytes bs) = bytesPart 1 bs"
| "packedPart (KNum n) = numberPart n"
| "packedPart (KBool b) = [if b then 39 else 38]"

definition hex_nibble :: "int \<Rightarrow> char" where
  "hex_nibble d = (if d < 10 then char_of (48 + d) else char_of (87 + d))"

definition hex_byte :: "int \<Rightarrow> string" where
  "hex_byte b = [hex_nibble (b div 16), hex_nibble (b mod 16)]"

definition nativeKey :: "kv_key \<Rightarrow> string" where
  "nativeKey key = concat (map hex_byte (concat (map packedPart key)))"

section \<open>Bytes\<close>

definition byte :: "int \<Rightarrow> bool" where
  "byte b \<longleftrightarrow> 0 \<le> b \<and> b < 256"

text \<open>A part the codec is meant for: bytes are bytes and numbers are exact as binary64 values.\<close>

fun key_part_ok :: "key_part \<Rightarrow> bool" where
  "key_part_ok (KText s) = True"
| "key_part_ok (KBytes bs) = list_all byte bs"
| "key_part_ok (KNum n) = is_safe_integer n"
| "key_part_ok (KBool b) = True"

definition key_ok :: "kv_key \<Rightarrow> bool" where
  "key_ok key = list_all key_part_ok key"

lemma char_bounds: "0 \<le> (of_char c :: int) \<and> (of_char c :: int) < 256"
  by (metis of_char_mod_256 pos_mod_bound pos_mod_sign zero_less_numeral)

lemma utf8_char_byte: "b \<in> set (utf8_char c) \<Longrightarrow> byte b"
proof -
  assume b: "b \<in> set (utf8_char c)"
  from b char_bounds [of c] show ?thesis by (auto simp: utf8_char_def byte_def Let_def split: if_splits)
qed

lemma utf8_bytes_byte: "list_all byte (utf8_bytes s)"
  by (auto simp: utf8_bytes_def list_all_iff intro: utf8_char_byte)

lemma escape_bytes_byte: "list_all byte bs \<Longrightarrow> list_all byte (escape_bytes bs)"
  by (auto simp: escape_bytes_def list_all_iff byte_def split: if_splits)

lemma be_bytes_length [simp]: "length (be_bytes k n) = k"
  by (induction k arbitrary: n) simp_all

lemma be_bytes_byte: "list_all byte (be_bytes k n)"
  by (induction k arbitrary: n) (simp_all add: byte_def)

lemma div_less_pow: "(m :: int) < 256 * 256 ^ k \<Longrightarrow> m div 256 < 256 ^ k"
  by (simp add: div_less_iff_less_mult mult.commute)

lemma be_bytes_inj:
  "be_bytes k m = be_bytes k n \<Longrightarrow> 0 \<le> m \<Longrightarrow> m < 256 ^ k \<Longrightarrow> 0 \<le> n \<Longrightarrow> n < 256 ^ k \<Longrightarrow> m = n"
proof (induction k arbitrary: m n)
  case (Suc k)
  have "m div 256 = n div 256"
    by (rule Suc.IH) (use Suc.prems in \<open>simp_all add: pos_imp_zdiv_nonneg_iff div_less_pow\<close>)
  moreover have "m mod 256 = n mod 256" using Suc.prems(1) by simp
  ultimately show ?case by (metis div_mult_mod_eq)
qed simp

section \<open>Different keys, different rows\<close>

lemma utf8_char_split: "utf8_char c @ x = utf8_char d @ y \<Longrightarrow> c = d \<and> x = y"
proof -
  assume eq: "utf8_char c @ x = utf8_char d @ y"
  define m n :: int where "m = of_char c" and "n = of_char d"
  have b: "0 \<le> m" "m < 256" "0 \<le> n" "n < 256" using char_bounds by (simp_all add: m_def n_def)
  have eq: "(if m < 128 then [m] else [192 + m div 64, 128 + m mod 64]) @ x =
      (if n < 128 then [n] else [192 + n div 64, 128 + n mod 64]) @ y"
    using eq unfolding utf8_char_def Let_def m_def n_def .
  have "m = n \<and> x = y"
  proof (cases "m < 128"; cases "n < 128")
    assume "\<not> m < 128" "\<not> n < 128"
    with eq have "m div 64 = n div 64" "m mod 64 = n mod 64" "x = y" by auto
    then show ?thesis by (metis div_mult_mod_eq)
  qed (use eq b in \<open>auto\<close>)
  then show ?thesis by (simp add: m_def n_def)
qed

lemma utf8_bytes_inj: "utf8_bytes s = utf8_bytes t \<Longrightarrow> s = t"
proof (induction s arbitrary: t)
  case Nil
  then show ?case by (cases t) (auto simp: utf8_bytes_def utf8_char_def Let_def split: if_splits)
next
  case (Cons c s)
  then obtain d t' where t: "t = d # t'"
    by (cases t) (auto simp: utf8_bytes_def utf8_char_def Let_def split: if_splits)
  with Cons.prems have "utf8_char c @ utf8_bytes s = utf8_char d @ utf8_bytes t'" by (simp add: utf8_bytes_def)
  from utf8_char_split [OF this] Cons.IH t show ?case by simp
qed

definition continues :: "int list \<Rightarrow> bool" where
  "continues x \<longleftrightarrow> x = [] \<or> hd x \<noteq> 255"

lemma escape_bytes_Cons: "escape_bytes (b # bs) = (if b = 0 then [0, 255] else [b]) @ escape_bytes bs"
  by (simp add: escape_bytes_def)

lemma escape_bytes_split:
  "escape_bytes a @ 0 # x = escape_bytes b @ 0 # y \<Longrightarrow> continues x \<Longrightarrow> continues y \<Longrightarrow> a = b \<and> x = y"
proof (induction a arbitrary: b)
  case Nil
  then show ?case by (cases b) (auto simp: escape_bytes_def continues_def split: if_splits)
next
  case (Cons h a)
  then obtain k b' where b: "b = k # b'"
    by (cases b) (auto simp: escape_bytes_def continues_def split: if_splits)
  with Cons.prems have "h = k" by (auto simp: escape_bytes_Cons split: if_splits)
  with Cons b show ?case by (auto simp: escape_bytes_Cons split: if_splits)
qed

text \<open>
  A positive safe integer is \<open>2\<^sup>e + f\<close> with \<open>f < 2\<^sup>e\<close> and \<open>e < 53\<close>, so its fraction is
  exact and its magnitude determines it.
\<close>

lemma float64_magnitude_split:
  assumes "0 < n" and "n \<le> max_safe_integer"
  obtains e g where "0 \<le> e" "e \<le> 52" "n = 2 ^ nat e + g div 2 ^ nat (52 - e)" "0 \<le> g" "g < 2 ^ 52"
    "float64_magnitude n = (1023 + e) * 2 ^ 52 + g"
proof -
  define e where "e = bit_length n - 1"
  define f where "f = n - 2 ^ nat e"
  define g where "g = f * 2 ^ nat (52 - e)"
  have e: "0 \<le> e" "2 ^ nat e \<le> n" "n < 2 ^ nat (e + 1)"
    using assms bit_length_bounds [of n] by (auto simp: e_def)
  have "e \<noteq> 53" "e \<le> 53" using assms exponent_small [of n] by (auto simp: e_def max_safe_integer_def)
  then have e52: "e \<le> 52" by simp
  have p: "(2 :: int) ^ 52 = 2 ^ nat e * 2 ^ nat (52 - e)"
    using e(1) e52 by (simp flip: power_add add: nat_diff_distrib)
  have f: "0 \<le> f" "f < 2 ^ nat e" using e by (auto simp: f_def nat_add_distrib)
  have "(n - 2 ^ nat e) * 2 ^ 52 div 2 ^ nat e = g"
    unfolding p f_def g_def by (simp add: algebra_simps)
  then have "float64_magnitude n = (1023 + e) * 2 ^ 52 + g"
    using assms(1) by (simp add: float64_magnitude_def e_def Let_def)
  moreover have "g < 2 ^ 52" unfolding p g_def using f(2) by simp
  moreover have "n = 2 ^ nat e + g div 2 ^ nat (52 - e)" by (simp add: g_def f_def)
  moreover have "0 \<le> g" using f(1) by (simp add: g_def)
  ultimately show thesis using that [of e g] e(1) e52 by simp
qed

lemma float64_magnitude_bounds:
  assumes "0 \<le> n" and "n \<le> max_safe_integer"
  shows "0 \<le> float64_magnitude n" and "float64_magnitude n < 2 ^ 63" and "float64_magnitude n = 0 \<longleftrightarrow> n = 0"
proof -
  have "0 \<le> float64_magnitude n \<and> float64_magnitude n < 2 ^ 63 \<and> (float64_magnitude n = 0 \<longleftrightarrow> n = 0)"
  proof (cases "n = 0")
    case False
    with assms obtain e g where "0 \<le> e" "e \<le> 52" "0 \<le> g" "g < 2 ^ 52"
      "float64_magnitude n = (1023 + e) * 2 ^ 52 + g"
      by (elim float64_magnitude_split [rotated]) auto
    then show ?thesis using False by simp
  qed (simp add: float64_magnitude_def)
  then show "0 \<le> float64_magnitude n" and "float64_magnitude n < 2 ^ 63" and "float64_magnitude n = 0 \<longleftrightarrow> n = 0"
    by auto
qed

lemma float64_magnitude_inj:
  assumes "0 \<le> m" "m \<le> max_safe_integer" "0 \<le> n" "n \<le> max_safe_integer"
    and eq: "float64_magnitude m = float64_magnitude n"
  shows "m = n"
proof (cases "m = 0 \<or> n = 0")
  case True
  then show ?thesis
    using float64_magnitude_bounds(3) [OF assms(1,2)] float64_magnitude_bounds(3) [OF assms(3,4)] eq by metis
next
  case False
  with assms have pos: "0 < m" "0 < n" by auto
  obtain e g where m: "m = 2 ^ nat e + g div 2 ^ nat (52 - e)" "0 \<le> g" "g < 2 ^ 52"
    "float64_magnitude m = (1023 + e) * 2 ^ 52 + g" using float64_magnitude_split [OF pos(1) assms(2)] by metis
  obtain d h where n: "n = 2 ^ nat d + h div 2 ^ nat (52 - d)" "0 \<le> h" "h < 2 ^ 52"
    "float64_magnitude n = (1023 + d) * 2 ^ 52 + h" using float64_magnitude_split [OF pos(2) assms(4)] by metis
  have "(1023 + e) * 2 ^ 52 + g = (1023 + d) * 2 ^ 52 + h" using eq m(4) n(4) by simp
  moreover from this m(2,3) n(2,3) have "e = d" by simp
  ultimately have "e = d \<and> g = h" by simp
  with m(1) n(1) show ?thesis by simp
qed

lemma float64_bits_inj:
  assumes "is_safe_integer m" "is_safe_integer n" and "float64_bits m = float64_bits n"
  shows "m = n" and "0 \<le> float64_bits m" and "float64_bits m < 2 ^ 64" and "2 ^ 63 \<le> float64_bits m \<longleftrightarrow> m < 0"
proof -
  have b: "0 \<le> float64_magnitude \<bar>k\<bar>" "float64_magnitude \<bar>k\<bar> < 2 ^ 63" if "is_safe_integer k" for k
    using float64_magnitude_bounds [of "\<bar>k\<bar>"] that by (auto simp: is_safe_integer_def abs_le_iff)
  have s: "2 ^ 63 \<le> float64_bits k \<longleftrightarrow> k < 0" if "is_safe_integer k" for k
    using b [OF that] by (auto simp: float64_bits_def)
  from s [OF assms(1)] show "2 ^ 63 \<le> float64_bits m \<longleftrightarrow> m < 0" .
  from b [OF assms(1)] show "0 \<le> float64_bits m" "float64_bits m < 2 ^ 64"
    by (auto simp: float64_bits_def)
  have "m < 0 \<longleftrightarrow> n < 0" using s [OF assms(1)] s [OF assms(2)] assms(3) by simp
  moreover from this have "float64_magnitude \<bar>m\<bar> = float64_magnitude \<bar>n\<bar>"
    using assms(3) by (cases "n < 0") (simp_all add: float64_bits_def)
  moreover have "\<bar>m\<bar> \<le> max_safe_integer" "\<bar>n\<bar> \<le> max_safe_integer"
    using assms(1,2) by (simp_all add: is_safe_integer_def abs_le_iff)
  ultimately have "\<bar>m\<bar> = \<bar>n\<bar>" "m < 0 \<longleftrightarrow> n < 0"
    using float64_magnitude_inj [of "\<bar>m\<bar>" "\<bar>n\<bar>"] by simp_all
  then show "m = n" by linarith
qed

lemma ordered_bytes_length: "a \<noteq> [] \<Longrightarrow> length (ordered_bytes a) = length a"
  by (simp add: ordered_bytes_def)

lemma ordered_bytes_byte: "list_all byte a \<Longrightarrow> a \<noteq> [] \<Longrightarrow> list_all byte (ordered_bytes a)"
  by (cases a) (auto simp: ordered_bytes_def byte_def list_all_iff)

lemma ordered_bytes_top: "list_all byte a \<Longrightarrow> a \<noteq> [] \<Longrightarrow> 128 \<le> hd (ordered_bytes a) \<longleftrightarrow> \<not> 128 \<le> hd a"
  by (cases a) (auto simp: ordered_bytes_def byte_def)

lemma ordered_bytes_inj:
  assumes "list_all byte a" "list_all byte b" and ne: "a \<noteq> []" "b \<noteq> []" and eq: "ordered_bytes a = ordered_bytes b"
  shows "a = b"
proof (cases "128 \<le> hd a")
  case True
  then have "128 \<le> hd b" using ordered_bytes_top assms by metis
  with True eq have "map (\<lambda>x. 255 - x) a = map (\<lambda>x. 255 - x) b" by (simp add: ordered_bytes_def)
  then show ?thesis by (rule map_injective) (simp add: inj_on_def)
next
  case False
  then have "\<not> 128 \<le> hd b" using ordered_bytes_top assms by metis
  with False eq ne show ?thesis by (cases a; cases b) (auto simp: ordered_bytes_def)
qed

lemma be_bytes_8: "be_bytes 8 n \<noteq> []" "length (be_bytes 8 n) = 8" "list_all byte (be_bytes 8 n)"
proof -
  show "length (be_bytes 8 n) = 8" by (rule be_bytes_length)
  then show "be_bytes 8 n \<noteq> []" by (metis list.size(3) zero_neq_numeral)
  show "list_all byte (be_bytes 8 n)" by (rule be_bytes_byte)
qed

lemma numberPart_length: "length (numberPart n) = 9"
  using ordered_bytes_length [OF be_bytes_8(1)] be_bytes_8(2) by (simp add: numberPart_def)

lemma numberPart_inj:
  assumes "is_safe_integer m" "is_safe_integer n" and eq: "numberPart m = numberPart n"
  shows "m = n"
proof -
  from eq have "be_bytes 8 (float64_bits m) = be_bytes 8 (float64_bits n)"
    using ordered_bytes_inj [OF be_bytes_8(3) be_bytes_8(3) be_bytes_8(1) be_bytes_8(1)] by (simp only: numberPart_def list.inject)
  moreover have "(256 :: int) ^ 8 = 2 ^ 64" by simp
  ultimately have "float64_bits m = float64_bits n"
    using be_bytes_inj [of 8 "float64_bits m" "float64_bits n"]
      float64_bits_inj(2,3) [OF assms(1,1) refl] float64_bits_inj(2,3) [OF assms(2,2) refl] by argo
  with assms(1,2) show ?thesis by (rule float64_bits_inj(1))
qed

lemma packedPart_continues: "continues (concat (map packedPart ps))"
proof (cases ps)
  case (Cons p qs)
  then show ?thesis by (cases p) (auto simp: continues_def bytesPart_def numberPart_def Let_def)
qed (simp add: continues_def)

lemma packedPart_split:
  assumes "key_part_ok p" "key_part_ok q" and eq: "packedPart p @ x = packedPart q @ y" and "continues x" "continues y"
  shows "p = q \<and> x = y"
proof (cases p; cases q)
  fix s t
  assume pq: "p = KText s" "q = KText t"
  with eq have "escape_bytes (utf8_bytes s) @ 0 # x = escape_bytes (utf8_bytes t) @ 0 # y" by (simp add: bytesPart_def)
  from escape_bytes_split [OF this assms(4,5)] pq show ?thesis by (auto dest: utf8_bytes_inj)
next
  fix m n
  assume pq: "p = KNum m" "q = KNum n"
  with eq have "numberPart m = numberPart n \<and> x = y" by (simp add: append_eq_append_conv numberPart_length)
  with pq assms(1,2) show ?thesis by (auto dest: numberPart_inj)
qed (use eq assms(4,5) in \<open>auto simp: bytesPart_def numberPart_def Let_def dest: escape_bytes_split split: if_splits\<close>)

lemma packed_inj:
  "key_ok j \<Longrightarrow> key_ok k \<Longrightarrow> concat (map packedPart j) = concat (map packedPart k) \<Longrightarrow> j = k"
proof (induction j arbitrary: k)
  case Nil
  then show ?case
    by (cases k) (auto simp: bytesPart_def numberPart_def Let_def elim: packedPart.elims)
next
  case (Cons p j)
  have "packedPart p \<noteq> []" by (cases p) (auto simp: bytesPart_def numberPart_def Let_def)
  with Cons.prems(3) obtain q k' where k: "k = q # k'" by (cases k) auto
  with Cons.prems have "p = q \<and> concat (map packedPart j) = concat (map packedPart k')"
    by (intro packedPart_split packedPart_continues) (simp_all add: key_ok_def)
  with Cons k show ?case by (auto simp: key_ok_def)
qed

lemma hex_nibble_inj: "0 \<le> a \<Longrightarrow> a < 16 \<Longrightarrow> 0 \<le> b \<Longrightarrow> b < 16 \<Longrightarrow> hex_nibble a = hex_nibble b \<Longrightarrow> a = b"
proof -
  assume b: "0 \<le> a" "a < 16" "0 \<le> b" "b < 16" and eq: "hex_nibble a = hex_nibble b"
  have "(of_char (hex_nibble a) :: int) = of_char (hex_nibble b)" using eq by simp
  with b show "a = b" by (auto simp: hex_nibble_def split: if_splits)
qed

lemma hex_inj:
  "list_all byte a \<Longrightarrow> list_all byte b \<Longrightarrow> concat (map hex_byte a) = concat (map hex_byte b) \<Longrightarrow> a = b"
proof (induction a arbitrary: b)
  case Nil
  then show ?case by (cases b) (simp_all add: hex_byte_def)
next
  case (Cons x a)
  then obtain y b' where b: "b = y # b'" by (cases b) (simp_all add: hex_byte_def)
  have xy: "0 \<le> x" "x < 256" "0 \<le> y" "y < 256" using Cons.prems b by (simp_all add: byte_def)
  have "hex_nibble (x div 16) = hex_nibble (y div 16)" "hex_nibble (x mod 16) = hex_nibble (y mod 16)"
    and tail: "concat (map hex_byte a) = concat (map hex_byte b')"
    using Cons.prems(3) b by (simp_all add: hex_byte_def [of x] hex_byte_def [of y])
  with xy have "x div 16 = y div 16" "x mod 16 = y mod 16" by (auto intro!: hex_nibble_inj)
  then have "x = y" by (metis div_mult_mod_eq)
  with Cons.IH [OF _ _ tail] Cons.prems b show ?case by simp
qed

lemma packedPart_byte: "key_part_ok p \<Longrightarrow> list_all byte (packedPart p)"
proof (cases p)
  case (KNum n)
  have "list_all byte (numberPart n)"
    using ordered_bytes_byte [OF be_bytes_8(3) be_bytes_8(1)] by (simp add: numberPart_def byte_def [of 33])
  then show ?thesis using KNum by simp
qed (auto simp: bytesPart_def byte_def[of 1] byte_def[of 2] byte_def[of 0] byte_def[of 38] byte_def[of 39] utf8_bytes_byte escape_bytes_byte)

lemma nativeKey_inj:
  assumes "key_ok j" "key_ok k" and "nativeKey j = nativeKey k"
  shows "j = k"
proof -
  have "list_all byte (concat (map packedPart i))" if "key_ok i" for i
    using that packedPart_byte by (fastforce simp: key_ok_def list_all_iff)
  with assms have "concat (map packedPart j) = concat (map packedPart k)"
    unfolding nativeKey_def by (intro hex_inj) auto
  with assms(1,2) show ?thesis by (rule packed_inj)
qed

end
