(* ===== verification/Native_Sql.thy ===== *)
theory Native_Sql
  imports Native_Key "HOL-Library.List_Lexorder" "HOL-Library.Char_ord"
begin

text \<open>
  The row adapter of the native authority (\<^verbatim>\<open>NativeAuthoritySql\<close> in
  \<^verbatim>\<open>src/src/authority/native-authority-sql.ts\<close>): closed tables of rows under packed keys, with a
  revision drawn from one sequence, an optional expiry and two index columns. A row's JSON text is
  represented by the value it parses to and its key text by the key it parses to. Every operation of
  the authority runs inside one synchronous transaction, so an operation is a function from the store
  to an error, which rolls the transaction back, or to a result and the new store.
\<close>

datatype native_error = NativeAuthorityError string int | NativeFailure string

datatype native_table =
    Retained_history_grant | Runtime_grant | Runtime_request | Key_control_grant | Principal_resolution
  | Api_key_id | Api_key_hash | Api_key_audit | Key_control_receipt | Kernel_default | Authority_config
  | Capability_table | Api_policy | Api_window | Api_request | Kernel_policy_table | Kernel_window_table
  | Kernel_reservation_table | Kernel_cutover_table | Codex_pool | Codex_routing | Codex_active | Codex_capacity
  | Codex_owner | Codex_reset | Paid_request | Paid_window | Paid_pending | Paid_gate | Paid_lease
  | Paid_backfill_lease | Paid_rollup | Paid_deletion_guard | Request_lifetime | Attempt_lifetime | Cursor_table
  | Operation_receipt

record sql_row =
  sr_key :: kv_key
  sr_value :: js
  sr_revision :: int
  sr_expires_at_ms :: "int option"
  sr_scope :: "string option"
  sr_parent :: "string option"
  sr_due :: "int option"

record sql_store =
  sq_rows :: "native_table \<Rightarrow> sql_row dict"
  sq_sequence :: int

record native_read =
  nr_value :: js
  nr_revision :: "string option"
  nr_expiresAtMs :: "int option"

record sql_index =
  ix_scope :: "string option"
  ix_parent :: "string option"
  ix_due :: "int option"

definition no_index :: sql_index where
  "no_index = \<lparr>ix_scope = None, ix_parent = None, ix_due = None\<rparr>"

section \<open>Operations\<close>

type_synonym 'a native = "sql_store \<Rightarrow> native_error + ('a \<times> sql_store)"

definition nreturn :: "'a \<Rightarrow> 'a native" where
  "nreturn x s = Inr (x, s)"

definition nfail :: "native_error \<Rightarrow> 'a native" where
  "nfail e s = Inl e"

definition nbind :: "'a native \<Rightarrow> ('a \<Rightarrow> 'b native) \<Rightarrow> 'b native" where
  "nbind m f s = (case m s of Inl e \<Rightarrow> Inl e | Inr (x, t) \<Rightarrow> f x t)"

definition nensure :: "bool \<Rightarrow> native_error \<Rightarrow> unit native" where
  "nensure b e = (if b then nreturn () else nfail e)"

fun nlift :: "native_error + 'a \<Rightarrow> 'a native" where
  "nlift (Inl e) s = Inl e"
| "nlift (Inr x) s = Inr (x, s)"

definition nativeObject :: "js \<Rightarrow> bool" where
  "nativeObject v \<longleftrightarrow> js_entries v \<noteq> None"

definition pad20 :: "string \<Rightarrow> string" where
  "pad20 s = replicate (20 - length s) (CHR ''0'') @ s"

definition revision_text :: "int \<Rightarrow> string" where
  "revision_text n = CHR ''r'' # pad20 (show_int n)"

definition row_live :: "int \<Rightarrow> sql_row \<Rightarrow> bool" where
  "row_live now r = (case sr_expires_at_ms r of None \<Rightarrow> True | Some e \<Rightarrow> now < e)"

definition live_row :: "sql_store \<Rightarrow> native_table \<Rightarrow> kv_key \<Rightarrow> int \<Rightarrow> sql_row option" where
  "live_row s t key now =
     (case map_of (sq_rows s t) (nativeKey key) of
        None \<Rightarrow> None
      | Some r \<Rightarrow> if row_live now r then Some r else None)"

definition absent_read :: native_read where
  "absent_read = \<lparr>nr_value = JNull, nr_revision = None, nr_expiresAtMs = None\<rparr>"

definition row_expiry_ok :: "int option \<Rightarrow> bool" where
  "row_expiry_ok e = (case e of None \<Rightarrow> True | Some n \<Rightarrow> is_safe_integer n)"

definition row_read :: "native_table \<Rightarrow> sql_row \<Rightarrow> native_error + native_read" where
  "row_read t r =
     rbind (ensure (row_expiry_ok (sr_expires_at_ms r)) (NativeAuthorityError ''malformed_native_row'' 503)) (\<lambda>_.
     rbind (ensure (t = Kernel_default \<or> nativeObject (sr_value r)) (NativeAuthorityError ''malformed_native_row'' 503)) (\<lambda>_.
     Inr \<lparr>nr_value = sr_value r, nr_revision = Some (revision_text (sr_revision r)), nr_expiresAtMs = sr_expires_at_ms r\<rparr>))"

definition sql_read :: "native_table \<Rightarrow> kv_key \<Rightarrow> int \<Rightarrow> native_read native" where
  "sql_read t key now s =
     nlift (case live_row s t key now of None \<Rightarrow> Inr absent_read | Some r \<Rightarrow> row_read t r) s"

definition write_ok :: "native_table \<Rightarrow> js \<Rightarrow> int option \<Rightarrow> bool" where
  "write_ok t v expiresAtMs \<longleftrightarrow>
     (t = Kernel_default \<or> nativeObject v) \<and>
     (case expiresAtMs of None \<Rightarrow> True | Some e \<Rightarrow> is_safe_integer e \<and> 0 \<le> e)"

definition sql_write :: "native_table \<Rightarrow> kv_key \<Rightarrow> js \<Rightarrow> int option \<Rightarrow> sql_index \<Rightarrow> unit native" where
  "sql_write t key v expiresAtMs index s =
     (if \<not> write_ok t v expiresAtMs then Inl (NativeAuthorityError ''invalid_native_write'' 500)
      else if max_safe_integer \<le> sq_sequence s then Inl (NativeAuthorityError ''authority_revision_exhausted'' 503)
      else Inr ((), s\<lparr>sq_sequence := sq_sequence s + 1,
        sq_rows := (sq_rows s)(t := put (nativeKey key)
          \<lparr>sr_key = key, sr_value = v, sr_revision = sq_sequence s + 1, sr_expires_at_ms = expiresAtMs,
           sr_scope = ix_scope index, sr_parent = ix_parent index, sr_due = ix_due index\<rparr> (sq_rows s t))\<rparr>))"

definition sql_delete :: "native_table \<Rightarrow> kv_key \<Rightarrow> unit native" where
  "sql_delete t key s =
     Inr ((), s\<lparr>sq_rows := (sq_rows s)(t := filter (\<lambda>e. fst e \<noteq> nativeKey key) (sq_rows s t))\<rparr>)"

record native_page_entry =
  pe_key :: kv_key
  pe_encoded :: string
  pe_row :: native_read

definition page_selects :: "int \<Rightarrow> string \<Rightarrow> string option \<Rightarrow> string option \<Rightarrow> string \<times> sql_row \<Rightarrow> bool" where
  "page_selects now after sc parent e \<longleftrightarrow>
     after < fst e \<and> row_live now (snd e) \<and>
     (case parent of Some p \<Rightarrow> sr_parent (snd e) = Some p
      | None \<Rightarrow> (case sc of Some x \<Rightarrow> sr_scope (snd e) = Some x | None \<Rightarrow> True))"

definition page_entry :: "sql_store \<Rightarrow> native_table \<Rightarrow> int \<Rightarrow> string \<times> sql_row \<Rightarrow> native_error + native_page_entry" where
  "page_entry s t now e =
     rbind (case live_row s t (sr_key (snd e)) now of None \<Rightarrow> Inr absent_read | Some r \<Rightarrow> row_read t r) (\<lambda>rd.
     Inr \<lparr>pe_key = sr_key (snd e), pe_encoded = fst e, pe_row = rd\<rparr>)"

fun collect :: "('e + 'a) list \<Rightarrow> 'e + 'a list" where
  "collect [] = Inr []"
| "collect (r # rs) = rbind r (\<lambda>x. rbind (collect rs) (\<lambda>xs. Inr (x # xs)))"

definition sql_page ::
  "native_table \<Rightarrow> int \<Rightarrow> string \<Rightarrow> int \<Rightarrow> string option \<Rightarrow> string option \<Rightarrow> native_page_entry list native" where
  "sql_page t now after limit sc parent s =
     (if \<not> (is_safe_integer limit \<and> 1 \<le> limit \<and> limit \<le> 100) then Inl (NativeAuthorityError ''invalid_page_limit'' 400)
      else nlift (collect (map (page_entry s t now)
             (take (nat limit) (sort_key fst (filter (page_selects now after sc parent) (sq_rows s t)))))) s)"

section \<open>What the operations do\<close>

lemma nreturn_iff [simp]: "nreturn x s = Inr (y, t) \<longleftrightarrow> y = x \<and> t = s"
  by (auto simp: nreturn_def)

lemma nfail_iff [simp]: "nfail e s = Inr y \<longleftrightarrow> False"
  by (simp add: nfail_def)

lemma nbind_iff: "nbind m f s = Inr (y, t) \<longleftrightarrow> (\<exists>x u. m s = Inr (x, u) \<and> f x u = Inr (y, t))"
  by (auto simp: nbind_def split: sum.splits)

lemma nensure_iff [simp]: "nensure b e s = Inr (u, t) \<longleftrightarrow> b \<and> t = s"
  by (auto simp: nensure_def)

lemma nlift_iff [simp]: "nlift r s = Inr (x, t) \<longleftrightarrow> r = Inr x \<and> t = s"
  by (cases r) auto

lemma sql_read_store: "sql_read t key now s = Inr (r, u) \<Longrightarrow> u = s"
  by (simp add: sql_read_def)

lemma sql_page_store: "sql_page t now after limit sc parent s = Inr (es, u) \<Longrightarrow> u = s"
  by (simp add: sql_page_def split: if_splits)

lemma sql_write_iff:
  "sql_write t key v e ix s = Inr (x, u) \<longleftrightarrow>
     write_ok t v e \<and> sq_sequence s < max_safe_integer \<and>
     u = s\<lparr>sq_sequence := sq_sequence s + 1,
        sq_rows := (sq_rows s)(t := put (nativeKey key)
          \<lparr>sr_key = key, sr_value = v, sr_revision = sq_sequence s + 1, sr_expires_at_ms = e,
           sr_scope = ix_scope ix, sr_parent = ix_parent ix, sr_due = ix_due ix\<rparr> (sq_rows s t))\<rparr>"
  by (auto simp: sql_write_def)

lemma collect_Inr: "collect rs = Inr xs \<longleftrightarrow> rs = map Inr xs"
  by (induction rs arbitrary: xs) (auto simp: rbind_Inr_iff)

end
