(* ===== verification/Kernel_Quota.thy ===== *)
theory Kernel_Quota
  imports Native_Sql
begin

text \<open>
  The kernel quota decisions (\<^verbatim>\<open>src/src/authority/native-kernel.ts\<close> and its contracts):
  which storage keys a scope uses, how untrusted stored values are normalized into policies, windows
  and reservation rows, and what a reservation, a terminal intent, a settlement, a renewal, a reclaim
  and a policy change do. A stored value is a \<open>js\<close>, \<open>JNull\<close> standing for an absent entry; a
  normalized record keeps the fields of its contract, with the version field left out because it is
  always 2.
\<close>

section \<open>Contracts\<close>

datatype kernel_scope = RepoScope | OrgScope

record kernel_identity =
  ki_scope :: kernel_scope
  ki_owner :: string
  ki_repo :: "string option"

record kernel_constants =
  kc_noUsageLimit :: int
  kc_noExpirationMs :: int

record kernel_read =
  kr_value :: js
  kr_revision :: "string option"

record kernel_defaults =
  kd_limit :: int
  kd_windowMs :: int

record kernel_policy =
  kp_scope :: kernel_scope
  kp_owner :: string
  kp_repo :: "string option"
  kp_usage_limit_requests :: int
  kp_window_ms :: int
  kp_expires_at_ms :: int
  kp_created_at_ms :: int
  kp_updated_at_ms :: int

record kernel_window =
  kw_scope :: kernel_scope
  kw_owner :: string
  kw_repo :: "string option"
  kw_usage_requests :: int
  kw_reserved_requests :: int
  kw_usage_reset_at_ms :: int
  kw_applied_window_ms :: int
  kw_created_at_ms :: int
  kw_updated_at_ms :: int

datatype row_state = RowReserved | RowCommitted | RowReleased

datatype terminal_state = Committed | Released

record kernel_reservation =
  rv_scope :: kernel_scope
  rv_owner :: string
  rv_repo :: "string option"
  rv_request_id :: string
  rv_route :: string
  rv_window_created_at_ms :: int
  rv_window_reset_at_ms :: int
  rv_state :: row_state
  rv_terminal_intent :: "terminal_state option"
  rv_reserved_at_ms :: int
  rv_lease_expires_at_ms :: int
  rv_committed_at_ms :: "int option"
  rv_released_at_ms :: "int option"
  rv_release_reason :: "string option"

record kernel_cutover =
  kx_id :: string
  kx_created_at_ms :: int
  kx_expires_at_ms :: int

datatype policy_source = FromDefault | FromKv

record effective_policy =
  ep_policy :: "kernel_policy option"
  ep_limit :: int
  ep_windowMs :: int
  ep_expiresAtMs :: int
  ep_source :: policy_source

record policy_options =
  po_resetUsage :: bool
  po_windowMs :: js
  po_expiresAtMs :: js

datatype settlement_outcome = OSettled | OTerminalMismatch | OMissing | OInvalid | OConflict

record reservation_identity = kernel_identity +
  ri_requestId :: string
  ri_route :: string
  ri_windowCreatedAtMs :: int

datatype eligibility_plan = ERefused int string | EEligible effective_policy

datatype reserve_plan =
    RRefused int string
  | RFull kernel_window int
  | RReserve kernel_reservation kernel_window int

datatype terminal_plan = TUnchanged settlement_outcome | TIntent kernel_reservation int int

datatype settle_plan = SUnchanged settlement_outcome | SSettle kernel_reservation "kernel_window option" int

datatype cutover_plan = XRefused string | XAcquire kernel_cutover int

section \<open>Keys\<close>

definition KERNEL_QUOTA_V2_PREFIX :: kv_key where
  "KERNEL_QUOTA_V2_PREFIX = [KText ''uos_ai'', KText ''kernel_quota'', KText ''v2'']"

definition KERNEL_REPO_POLICY_V2_PREFIX :: kv_key where
  "KERNEL_REPO_POLICY_V2_PREFIX = KERNEL_QUOTA_V2_PREFIX @ [KText ''repo_policy'']"

definition KERNEL_ORG_POLICY_V2_PREFIX :: kv_key where
  "KERNEL_ORG_POLICY_V2_PREFIX = KERNEL_QUOTA_V2_PREFIX @ [KText ''org_policy'']"

definition KERNEL_REPO_WINDOW_V2_PREFIX :: kv_key where
  "KERNEL_REPO_WINDOW_V2_PREFIX = KERNEL_QUOTA_V2_PREFIX @ [KText ''repo_window'']"

definition KERNEL_ORG_WINDOW_V2_PREFIX :: kv_key where
  "KERNEL_ORG_WINDOW_V2_PREFIX = KERNEL_QUOTA_V2_PREFIX @ [KText ''org_window'']"

definition KERNEL_REPO_RESERVATION_V2_PREFIX :: kv_key where
  "KERNEL_REPO_RESERVATION_V2_PREFIX = KERNEL_QUOTA_V2_PREFIX @ [KText ''repo_reservation'']"

definition KERNEL_ORG_RESERVATION_V2_PREFIX :: kv_key where
  "KERNEL_ORG_RESERVATION_V2_PREFIX = KERNEL_QUOTA_V2_PREFIX @ [KText ''org_reservation'']"

definition KERNEL_DEFAULT_WINDOW_CUTOVER_V2_KEY :: kv_key where
  "KERNEL_DEFAULT_WINDOW_CUTOVER_V2_KEY = KERNEL_QUOTA_V2_PREFIX @ [KText ''default_window_cutover'']"

definition kernelRepoPolicyKey :: "string \<Rightarrow> string \<Rightarrow> kv_key" where
  "kernelRepoPolicyKey owner repo = KERNEL_REPO_POLICY_V2_PREFIX @ [KText owner, KText repo]"

definition kernelOrgPolicyKey :: "string \<Rightarrow> kv_key" where
  "kernelOrgPolicyKey owner = KERNEL_ORG_POLICY_V2_PREFIX @ [KText owner]"

definition kernelRepoWindowKey :: "string \<Rightarrow> string \<Rightarrow> kv_key" where
  "kernelRepoWindowKey owner repo = KERNEL_REPO_WINDOW_V2_PREFIX @ [KText owner, KText repo]"

definition kernelOrgWindowKey :: "string \<Rightarrow> kv_key" where
  "kernelOrgWindowKey owner = KERNEL_ORG_WINDOW_V2_PREFIX @ [KText owner]"

definition kernelRepoReservationKey :: "string \<Rightarrow> string \<Rightarrow> int \<Rightarrow> string \<Rightarrow> kv_key" where
  "kernelRepoReservationKey owner repo windowCreatedAtMs requestId =
     KERNEL_REPO_RESERVATION_V2_PREFIX @ [KText owner, KText repo, KNum windowCreatedAtMs, KText requestId]"

definition kernelOrgReservationKey :: "string \<Rightarrow> int \<Rightarrow> string \<Rightarrow> kv_key" where
  "kernelOrgReservationKey owner windowCreatedAtMs requestId =
     KERNEL_ORG_RESERVATION_V2_PREFIX @ [KText owner, KNum windowCreatedAtMs, KText requestId]"

definition kernelRepoPart :: "string option \<Rightarrow> native_error + string" where
  "kernelRepoPart repo = require repo (NativeFailure ''Kernel quota repo scope requires a repo'')"

definition kernelScopedPolicyKey :: "kernel_scope \<Rightarrow> string \<Rightarrow> string option \<Rightarrow> native_error + kv_key" where
  "kernelScopedPolicyKey sc owner repo =
     (if sc = RepoScope then rbind (kernelRepoPart repo) (\<lambda>r. Inr (kernelRepoPolicyKey owner r))
      else Inr (kernelOrgPolicyKey owner))"

definition kernelScopedWindowKey :: "kernel_scope \<Rightarrow> string \<Rightarrow> string option \<Rightarrow> native_error + kv_key" where
  "kernelScopedWindowKey sc owner repo =
     (if sc = RepoScope then rbind (kernelRepoPart repo) (\<lambda>r. Inr (kernelRepoWindowKey owner r))
      else Inr (kernelOrgWindowKey owner))"

definition kernelReservationKey ::
  "kernel_scope \<Rightarrow> string \<Rightarrow> string option \<Rightarrow> int \<Rightarrow> string \<Rightarrow> native_error + kv_key" where
  "kernelReservationKey sc owner repo windowCreatedAtMs requestId =
     (if sc = RepoScope
      then rbind (kernelRepoPart repo) (\<lambda>r. Inr (kernelRepoReservationKey owner r windowCreatedAtMs requestId))
      else Inr (kernelOrgReservationKey owner windowCreatedAtMs requestId))"

definition kernelReservationWindowPrefix ::
  "kernel_scope \<Rightarrow> string \<Rightarrow> string option \<Rightarrow> int \<Rightarrow> native_error + kv_key" where
  "kernelReservationWindowPrefix sc owner repo windowCreatedAtMs =
     (if sc = RepoScope
      then rbind (kernelRepoPart repo) (\<lambda>r.
        Inr (KERNEL_REPO_RESERVATION_V2_PREFIX @ [KText owner, KText r, KNum windowCreatedAtMs]))
      else Inr (KERNEL_ORG_RESERVATION_V2_PREFIX @ [KText owner, KNum windowCreatedAtMs]))"

section \<open>Normalization\<close>

definition LEASE_MS :: int where
  "LEASE_MS = 5 * 60000"

definition RETENTION_MS :: int where
  "RETENTION_MS = 7 * 24 * 60 * 60000"

definition CUTOVER_LEASE_MS :: int where
  "CUTOVER_LEASE_MS = 5 * 60000"

fun isRecord :: "js \<Rightarrow> bool" where
  "isRecord (JObj _) = True"
| "isRecord (JArr _) = True"
| "isRecord _ = False"

definition js_get :: "js \<Rightarrow> string \<Rightarrow> js" where
  "js_get v k = (case field k v of None \<Rightarrow> JUndef | Some x \<Rightarrow> x)"

definition hasLiveKernelReservations :: "kernel_window option \<Rightarrow> int \<Rightarrow> bool" where
  "hasLiveKernelReservations w now =
     (case w of None \<Rightarrow> False | Some w \<Rightarrow> now < kw_usage_reset_at_ms w \<and> 0 < kw_reserved_requests w)"

definition positiveSafeInteger :: "js \<Rightarrow> int option" where
  "positiveSafeInteger v = (case js_int v of None \<Rightarrow> None | Some i \<Rightarrow> if 0 < i then Some i else None)"

definition nonNegativeSafeInteger :: "js \<Rightarrow> int option" where
  "nonNegativeSafeInteger v = (case js_int v of None \<Rightarrow> None | Some i \<Rightarrow> if 0 \<le> i then Some i else None)"

text \<open>The fallback \<^verbatim>\<open>NaN\<close> of the policy reader is \<open>None\<close>.\<close>

definition normalizeUsageLimit :: "js \<Rightarrow> int option \<Rightarrow> int \<Rightarrow> int option" where
  "normalizeUsageLimit value fallback noUsageLimit =
     (case finite_number value of
        None \<Rightarrow> fallback
      | Some q \<Rightarrow>
          let parsed = js_trunc q in
          if parsed = noUsageLimit then Some parsed else if 0 \<le> parsed then Some parsed else fallback)"

definition normalizeWindow :: "js \<Rightarrow> int \<Rightarrow> int" where
  "normalizeWindow value fallback =
     (case finite_number value of
        None \<Rightarrow> fallback
      | Some q \<Rightarrow> let parsed = js_trunc q in if 0 < parsed then parsed else fallback)"

definition normalizeExpiration :: "js \<Rightarrow> int \<Rightarrow> int" where
  "normalizeExpiration value noExpirationMs =
     (case value of
        JNum (Fin q) \<Rightarrow>
          let parsed = js_trunc q in if parsed = noExpirationMs \<or> 0 \<le> parsed then parsed else noExpirationMs
      | _ \<Rightarrow> noExpirationMs)"

fun scope_text :: "kernel_scope \<Rightarrow> string" where
  "scope_text RepoScope = ''repo''"
| "scope_text OrgScope = ''org''"

definition validIdentity :: "kernel_scope \<Rightarrow> string \<Rightarrow> string option \<Rightarrow> js \<Rightarrow> bool" where
  "validIdentity sc owner repo value \<longleftrightarrow>
     js_get value ''v'' = jint 2 \<and> js_get value ''scope'' = JStr (scope_text sc) \<and>
     js_get value ''owner'' = JStr owner \<and>
     (if sc = OrgScope then js_get value ''repo'' = JUndef \<or> js_get value ''repo'' = JNull
      else js_get value ''repo'' = (case repo of None \<Rightarrow> JUndef | Some r \<Rightarrow> JStr r))"

definition scoped_repo :: "kernel_scope \<Rightarrow> string option \<Rightarrow> string option" where
  "scoped_repo sc repo = (if sc = RepoScope then repo else None)"

definition safe_nonneg :: "int \<Rightarrow> bool" where
  "safe_nonneg i \<longleftrightarrow> is_safe_integer i \<and> 0 \<le> i"

definition normalizeKernelQuotaPolicyV2 ::
  "js \<Rightarrow> kernel_scope \<Rightarrow> string \<Rightarrow> string option \<Rightarrow> kernel_constants \<Rightarrow> kernel_policy option" where
  "normalizeKernelQuotaPolicyV2 value sc owner repo constants =
     (if \<not> isRecord value \<or> \<not> validIdentity sc owner repo value then None
      else
        Option.bind (nonNegativeSafeInteger (js_get value ''created_at_ms'')) (\<lambda>created.
        Option.bind (nonNegativeSafeInteger (js_get value ''updated_at_ms'')) (\<lambda>updated.
        let windowMs = normalizeWindow (js_get value ''window_ms'') 0;
            limit = normalizeUsageLimit (js_get value ''usage_limit_requests'') None (kc_noUsageLimit constants)
        in case limit of
             None \<Rightarrow> None
           | Some limit \<Rightarrow>
               if \<not> (is_safe_integer windowMs \<and> 0 < windowMs) \<or>
                  \<not> (limit = kc_noUsageLimit constants \<or> safe_nonneg limit) then None
               else Some \<lparr>kp_scope = sc, kp_owner = owner, kp_repo = scoped_repo sc repo,
                      kp_usage_limit_requests = limit, kp_window_ms = windowMs,
                      kp_expires_at_ms = normalizeExpiration (js_get value ''expires_at_ms'') (kc_noExpirationMs constants),
                      kp_created_at_ms = created, kp_updated_at_ms = updated\<rparr>)))"

definition normalizeKernelQuotaWindowV2 ::
  "js \<Rightarrow> kernel_scope \<Rightarrow> string \<Rightarrow> string option \<Rightarrow> kernel_window option" where
  "normalizeKernelQuotaWindowV2 value sc owner repo =
     (if \<not> isRecord value \<or> \<not> validIdentity sc owner repo value then None
      else
        let reserved = (if js_get value ''reserved_requests'' = JUndef then jint 0 else js_get value ''reserved_requests'') in
        Option.bind (nonNegativeSafeInteger (js_get value ''usage_requests'')) (\<lambda>usage.
        Option.bind (nonNegativeSafeInteger reserved) (\<lambda>res.
        Option.bind (positiveSafeInteger (js_get value ''usage_reset_at_ms'')) (\<lambda>reset.
        Option.bind (positiveSafeInteger (js_get value ''applied_window_ms'')) (\<lambda>applied.
        Option.bind (nonNegativeSafeInteger (js_get value ''created_at_ms'')) (\<lambda>created.
        Option.bind (nonNegativeSafeInteger (js_get value ''updated_at_ms'')) (\<lambda>updated.
        Some \<lparr>kw_scope = sc, kw_owner = owner, kw_repo = scoped_repo sc repo, kw_usage_requests = usage,
           kw_reserved_requests = res, kw_usage_reset_at_ms = reset, kw_applied_window_ms = applied,
           kw_created_at_ms = created, kw_updated_at_ms = updated\<rparr>)))))))"

definition newWindow :: "kernel_scope \<Rightarrow> string \<Rightarrow> string option \<Rightarrow> int \<Rightarrow> int \<Rightarrow> kernel_window" where
  "newWindow sc owner repo windowMs now =
     \<lparr>kw_scope = sc, kw_owner = owner, kw_repo = scoped_repo sc repo, kw_usage_requests = 0,
      kw_reserved_requests = 0, kw_usage_reset_at_ms = now + windowMs, kw_applied_window_ms = windowMs,
      kw_created_at_ms = now, kw_updated_at_ms = now\<rparr>"

definition windowForEffectivePolicy ::
  "kernel_window option \<Rightarrow> kernel_scope \<Rightarrow> string \<Rightarrow> string option \<Rightarrow> int \<Rightarrow> int \<Rightarrow> kernel_window \<times> bool" where
  "windowForEffectivePolicy existing sc owner repo windowMs now =
     (case existing of
        Some w \<Rightarrow> if kw_applied_window_ms w \<noteq> windowMs \<or> kw_usage_reset_at_ms w \<le> now
                  then (newWindow sc owner repo windowMs now, True) else (w, False)
      | None \<Rightarrow> (newWindow sc owner repo windowMs now, True))"

definition policyFor ::
  "kernel_read \<Rightarrow> kernel_scope \<Rightarrow> string \<Rightarrow> string option \<Rightarrow> kernel_defaults \<Rightarrow> kernel_constants \<Rightarrow>
   native_error + effective_policy" where
  "policyFor entry sc owner repo defaults constants =
     (if kr_value entry = JNull
      then Inr \<lparr>ep_policy = None, ep_limit = kd_limit defaults, ep_windowMs = kd_windowMs defaults,
             ep_expiresAtMs = kc_noExpirationMs constants, ep_source = FromDefault\<rparr>
      else case normalizeKernelQuotaPolicyV2 (kr_value entry) sc owner repo constants of
             None \<Rightarrow> Inl (NativeFailure ''kernel quota policy is malformed'')
           | Some p \<Rightarrow> Inr \<lparr>ep_policy = Some p, ep_limit = kp_usage_limit_requests p, ep_windowMs = kp_window_ms p,
                 ep_expiresAtMs = kp_expires_at_ms p, ep_source = FromKv\<rparr>)"

definition isExpired :: "int \<Rightarrow> int \<Rightarrow> int \<Rightarrow> bool" where
  "isExpired expiresAtMs now noExpirationMs \<longleftrightarrow> expiresAtMs \<noteq> noExpirationMs \<and> expiresAtMs \<le> now"

definition kernelReservationRetentionMs :: "int \<Rightarrow> int \<Rightarrow> int" where
  "kernelReservationRetentionMs windowResetAtMs now = max 1 (windowResetAtMs + RETENTION_MS - now)"

definition row_state_of :: "js \<Rightarrow> row_state option" where
  "row_state_of v =
     (if v = JStr ''reserved'' then Some RowReserved
      else if v = JStr ''committed'' then Some RowCommitted
      else if v = JStr ''released'' then Some RowReleased else None)"

definition terminal_intent_of :: "js \<Rightarrow> terminal_state option option" where
  "terminal_intent_of v =
     (if v = JUndef \<or> v = JNull then Some None
      else if v = JStr ''committed'' then Some (Some Committed)
      else if v = JStr ''released'' then Some (Some Released) else None)"

definition nonempty_text :: "js \<Rightarrow> string option" where
  "nonempty_text v = (case js_text v of None \<Rightarrow> None | Some s \<Rightarrow> if s = [] then None else Some s)"

text \<open>What the row's state demands of its other fields.\<close>

definition row_consistent :: "kernel_reservation \<Rightarrow> bool" where
  "row_consistent r \<longleftrightarrow>
     rv_window_created_at_ms r < rv_window_reset_at_ms r \<and> rv_reserved_at_ms r < rv_lease_expires_at_ms r \<and>
     (case rv_state r of
        RowReserved \<Rightarrow> rv_committed_at_ms r = None \<and> rv_released_at_ms r = None \<and> rv_release_reason r = None
      | RowCommitted \<Rightarrow> rv_committed_at_ms r \<noteq> None \<and> rv_released_at_ms r = None \<and> rv_release_reason r = None \<and>
          rv_terminal_intent r \<noteq> Some Released
      | RowReleased \<Rightarrow> rv_committed_at_ms r = None \<and> rv_released_at_ms r \<noteq> None \<and>
          (case rv_release_reason r of None \<Rightarrow> False | Some s \<Rightarrow> js_trim s \<noteq> []) \<and>
          rv_terminal_intent r \<noteq> Some Committed)"

definition normalizeKernelQuotaReservationRowV2 ::
  "js \<Rightarrow> kernel_scope \<Rightarrow> string \<Rightarrow> string option \<Rightarrow> kernel_reservation option" where
  "normalizeKernelQuotaReservationRowV2 value sc owner repo =
     (if \<not> isRecord value \<or> \<not> validIdentity sc owner repo value then None
      else
        Option.bind (nonempty_text (js_get value ''request_id'')) (\<lambda>requestId.
        Option.bind (nonempty_text (js_get value ''route'')) (\<lambda>route.
        Option.bind (nonNegativeSafeInteger (js_get value ''window_created_at_ms'')) (\<lambda>created.
        Option.bind (positiveSafeInteger (js_get value ''window_reset_at_ms'')) (\<lambda>reset.
        Option.bind (row_state_of (js_get value ''state'')) (\<lambda>state.
        Option.bind (terminal_intent_of (js_get value ''terminal_intent'')) (\<lambda>intent.
        Option.bind (nonNegativeSafeInteger (js_get value ''reserved_at_ms'')) (\<lambda>reserved.
        Option.bind (positiveSafeInteger (js_get value ''lease_expires_at_ms'')) (\<lambda>lease.
        Option.bind (opt_of_js nonNegativeSafeInteger (js_get value ''committed_at_ms'')) (\<lambda>committed.
        Option.bind (opt_of_js nonNegativeSafeInteger (js_get value ''released_at_ms'')) (\<lambda>released.
        Option.bind (opt_of_js js_text (js_get value ''release_reason'')) (\<lambda>reason.
        let row = \<lparr>rv_scope = sc, rv_owner = owner, rv_repo = scoped_repo sc repo, rv_request_id = requestId,
              rv_route = route, rv_window_created_at_ms = created, rv_window_reset_at_ms = reset, rv_state = state,
              rv_terminal_intent = intent, rv_reserved_at_ms = reserved, rv_lease_expires_at_ms = lease,
              rv_committed_at_ms = committed, rv_released_at_ms = released, rv_release_reason = reason\<rparr>
        in if row_consistent row then Some row else None))))))))))))"

definition kernelReservationMatchesRequest :: "kernel_reservation option \<Rightarrow> string \<Rightarrow> string \<Rightarrow> int \<Rightarrow> bool" where
  "kernelReservationMatchesRequest r requestId route windowCreatedAtMs =
     (case r of None \<Rightarrow> False
      | Some r \<Rightarrow> rv_request_id r = requestId \<and> rv_route r = route \<and> rv_window_created_at_ms r = windowCreatedAtMs)"

definition requireKernelReservationRow ::
  "kv_key \<Rightarrow> js \<Rightarrow> kernel_scope \<Rightarrow> string \<Rightarrow> string option \<Rightarrow> int \<Rightarrow> native_error + kernel_reservation" where
  "requireKernelReservationRow key value sc owner repo windowCreatedAtMs =
     (case normalizeKernelQuotaReservationRowV2 value sc owner repo of
        Some r \<Rightarrow>
          if key \<noteq> [] \<and> last key = KText (rv_request_id r) \<and> rv_window_created_at_ms r = windowCreatedAtMs
          then Inr r else Inl (NativeFailure ''Kernel quota reservation is malformed'')
      | None \<Rightarrow> Inl (NativeFailure ''Kernel quota reservation is malformed''))"

fun terminal_row_state :: "terminal_state \<Rightarrow> row_state" where
  "terminal_row_state Committed = RowCommitted"
| "terminal_row_state Released = RowReleased"

definition kernelReservationPrecondition ::
  "kernel_reservation \<Rightarrow> string \<Rightarrow> string \<Rightarrow> int \<Rightarrow> terminal_state \<Rightarrow> settlement_outcome option" where
  "kernelReservationPrecondition r requestId route windowCreatedAtMs terminalState =
     (if \<not> kernelReservationMatchesRequest (Some r) requestId route windowCreatedAtMs then Some OInvalid
      else if rv_state r \<noteq> RowReserved
      then Some (if rv_state r = terminal_row_state terminalState then OSettled else OTerminalMismatch)
      else if rv_terminal_intent r \<noteq> None \<and> rv_terminal_intent r \<noteq> Some terminalState then Some OTerminalMismatch
      else None)"

definition release_reason :: "string \<Rightarrow> string" where
  "release_reason reason = (if take 120 reason = [] then ''request_incomplete'' else take 120 reason)"

definition settledKernelReservationRow ::
  "kernel_reservation \<Rightarrow> terminal_state \<Rightarrow> string \<Rightarrow> int \<Rightarrow> kernel_reservation" where
  "settledKernelReservationRow r terminalState reason now =
     (if terminalState = Committed
      then r\<lparr>rv_state := RowCommitted, rv_terminal_intent := Some Committed, rv_committed_at_ms := Some now\<rparr>
      else r\<lparr>rv_state := RowReleased, rv_terminal_intent := Some Released, rv_released_at_ms := Some now,
             rv_release_reason := Some (release_reason reason)\<rparr>)"

definition normalizeKernelDefaultWindowCutoverV2 :: "js \<Rightarrow> kernel_cutover option" where
  "normalizeKernelDefaultWindowCutoverV2 value =
     (if \<not> isRecord value \<or> js_get value ''v'' \<noteq> jint 2 then None
      else
        Option.bind (nonempty_text (js_get value ''id'')) (\<lambda>i.
        Option.bind (nonNegativeSafeInteger (js_get value ''created_at_ms'')) (\<lambda>created.
        Option.bind (positiveSafeInteger (js_get value ''expires_at_ms'')) (\<lambda>expires.
        if expires \<le> created then None
        else Some \<lparr>kx_id = i, kx_created_at_ms = created, kx_expires_at_ms = expires\<rparr>))))"

definition key_text_at :: "kv_key \<Rightarrow> nat \<Rightarrow> string option" where
  "key_text_at key i = (if i < length key then (case key ! i of KText s \<Rightarrow> if s = [] then None else Some s | _ \<Rightarrow> None) else None)"

definition kernelWindowScopeTarget ::
  "kernel_scope \<Rightarrow> kv_key \<Rightarrow> kv_key \<Rightarrow> native_error + (string \<times> string option)" where
  "kernelWindowScopeTarget sc key prefix =
     rbind (require (key_text_at key (length prefix)) (NativeFailure ''Kernel quota window key is malformed'')) (\<lambda>owner.
     let repo = (if sc = RepoScope then key_text_at key (Suc (length prefix)) else None)
     in if sc = RepoScope \<and> repo = None then Inl (NativeFailure ''Kernel repo quota window key is malformed'')
        else Inr (owner, repo))"

section \<open>Decisions\<close>

definition decideKernelQuotaScope ::
  "kernel_read \<Rightarrow> kernel_read \<Rightarrow> string \<Rightarrow> string \<Rightarrow> kernel_constants \<Rightarrow> native_error + (kernel_scope \<times> bool)" where
  "decideKernelQuotaScope repoPolicy orgPolicy owner repo constants =
     rbind (ensure (kr_value repoPolicy = JNull \<or>
              normalizeKernelQuotaPolicyV2 (kr_value repoPolicy) RepoScope owner (Some repo) constants \<noteq> None)
             (NativeFailure ''Kernel repo quota policy is malformed'')) (\<lambda>_.
     rbind (ensure (kr_value orgPolicy = JNull \<or>
              normalizeKernelQuotaPolicyV2 (kr_value orgPolicy) OrgScope owner None constants \<noteq> None)
             (NativeFailure ''Kernel org quota policy is malformed'')) (\<lambda>_.
     Inr (if kr_value repoPolicy \<noteq> JNull then (RepoScope, True) else (OrgScope, kr_value orgPolicy \<noteq> JNull))))"

definition kernelQuotaDefaultCutoverBlocks :: "effective_policy \<Rightarrow> kernel_read \<Rightarrow> bool" where
  "kernelQuotaDefaultCutoverBlocks current marker \<longleftrightarrow> ep_source current = FromDefault \<and> kr_value marker \<noteq> JNull"

datatype expected_repo_policy = ExpectPresent | ExpectAbsent

record eligibility_snapshot =
  es_policy :: kernel_read
  es_repoGuard :: "kernel_read option"
  es_defaultCutover :: kernel_read
  es_expectedRepoPolicy :: "expected_repo_policy option"

definition decideKernelQuotaEligibility ::
  "kernel_identity \<Rightarrow> eligibility_snapshot \<Rightarrow> kernel_defaults \<Rightarrow> kernel_constants \<Rightarrow> int \<Rightarrow> native_error + eligibility_plan" where
  "decideKernelQuotaEligibility identity snapshot defaults constants now =
     (if es_expectedRepoPolicy snapshot = Some ExpectPresent \<and> kr_value (es_policy snapshot) = JNull \<or>
         es_expectedRepoPolicy snapshot = Some ExpectAbsent \<and>
           (case es_repoGuard snapshot of None \<Rightarrow> False | Some g \<Rightarrow> kr_value g \<noteq> JNull)
      then Inr (ERefused 503 ''Kernel quota policy scope changed; retry'')
      else
        rbind (policyFor (es_policy snapshot) (ki_scope identity) (ki_owner identity) (ki_repo identity) defaults constants)
          (\<lambda>effective.
           if kernelQuotaDefaultCutoverBlocks effective (es_defaultCutover snapshot)
           then Inr (ERefused 503 ''Kernel quota defaults are changing; retry'')
           else if isExpired (ep_expiresAtMs effective) now (kc_noExpirationMs constants)
           then Inr (ERefused 429 ''Kernel auth usage limit expired; update it via /admin/kernel-usage.'')
           else if ep_limit effective = 0
           then Inr (ERefused 429 ''Kernel auth usage limit is 0; update it via /admin/kernel-usage.'')
           else Inr (EEligible effective)))"

definition newReservation :: "kernel_identity \<Rightarrow> kernel_window \<Rightarrow> string \<Rightarrow> string \<Rightarrow> int \<Rightarrow> kernel_reservation" where
  "newReservation identity window requestId route now =
     \<lparr>rv_scope = ki_scope identity, rv_owner = ki_owner identity,
      rv_repo = scoped_repo (ki_scope identity) (ki_repo identity), rv_request_id = requestId, rv_route = route,
      rv_window_created_at_ms = kw_created_at_ms window, rv_window_reset_at_ms = kw_usage_reset_at_ms window,
      rv_state = RowReserved, rv_terminal_intent = None, rv_reserved_at_ms = now,
      rv_lease_expires_at_ms = now + LEASE_MS, rv_committed_at_ms = None, rv_released_at_ms = None,
      rv_release_reason = None\<rparr>"

definition decideKernelQuotaReserve ::
  "kernel_identity \<Rightarrow> effective_policy \<Rightarrow> kernel_window \<Rightarrow> kernel_read \<Rightarrow> string \<Rightarrow> string \<Rightarrow> int \<Rightarrow> int \<Rightarrow> reserve_plan" where
  "decideKernelQuotaReserve identity effective window entry requestId route noUsageLimit now =
     (if kr_value entry \<noteq> JNull then
        (if \<not> kernelReservationMatchesRequest
              (normalizeKernelQuotaReservationRowV2 (kr_value entry) (ki_scope identity) (ki_owner identity) (ki_repo identity))
              requestId route (kw_created_at_ms window)
         then RRefused 503 ''Kernel quota request identity conflicts''
         else RRefused 503 ''Kernel quota request already has a reservation'')
      else if ep_limit effective \<noteq> noUsageLimit \<and> ep_limit effective \<le> kw_usage_requests window + kw_reserved_requests window
      then RFull window (ep_limit effective)
      else RReserve (newReservation identity window requestId route now)
             (window\<lparr>kw_reserved_requests := kw_reserved_requests window + 1, kw_updated_at_ms := now\<rparr>)
             (kernelReservationRetentionMs (kw_usage_reset_at_ms window) now))"

definition decideKernelQuotaTerminalIntent ::
  "reservation_identity \<Rightarrow> kernel_read \<Rightarrow> terminal_state \<Rightarrow> int \<Rightarrow> terminal_plan" where
  "decideKernelQuotaTerminalIntent identity snapshot terminalState now =
     (case normalizeKernelQuotaReservationRowV2 (kr_value snapshot) (ki_scope identity) (ki_owner identity) (ki_repo identity) of
        None \<Rightarrow> TUnchanged (if kr_value snapshot = JNull then OMissing else OInvalid)
      | Some r \<Rightarrow>
          (case kernelReservationPrecondition r (ri_requestId identity) (ri_route identity) (ri_windowCreatedAtMs identity) terminalState of
             Some outcome \<Rightarrow> TUnchanged outcome
           | None \<Rightarrow>
               let lease = now + LEASE_MS in
               TIntent (r\<lparr>rv_terminal_intent := Some terminalState, rv_lease_expires_at_ms := lease\<rparr>)
                 (kernelReservationRetentionMs (rv_window_reset_at_ms r) now) lease))"

definition settledWindow :: "kernel_window \<Rightarrow> terminal_state \<Rightarrow> int \<Rightarrow> kernel_window" where
  "settledWindow w terminalState now =
     w\<lparr>kw_usage_requests := kw_usage_requests w + (if terminalState = Committed then 1 else 0),
        kw_reserved_requests := kw_reserved_requests w - 1, kw_updated_at_ms := now\<rparr>"

definition decideKernelQuotaSettlement ::
  "kernel_reservation \<Rightarrow> kernel_window option \<Rightarrow> bool \<Rightarrow> terminal_state \<Rightarrow> string \<Rightarrow> int \<Rightarrow> settle_plan" where
  "decideKernelQuotaSettlement r window windowPresent terminalState reason now =
     (if windowPresent \<and> window = None then SUnchanged OInvalid
      else
        let expireIn = kernelReservationRetentionMs (rv_window_reset_at_ms r) now;
            settled = settledKernelReservationRow r terminalState reason now
        in case window of
             Some w \<Rightarrow>
               if kw_created_at_ms w \<noteq> rv_window_created_at_ms r then SSettle settled None expireIn
               else if kw_reserved_requests w < 1 then SUnchanged OInvalid
               else SSettle settled (Some (settledWindow w terminalState now)) expireIn
           | None \<Rightarrow> SSettle settled None expireIn)"

fun row_state_text :: "row_state \<Rightarrow> string" where
  "row_state_text RowReserved = ''reserved''"
| "row_state_text RowCommitted = ''committed''"
| "row_state_text RowReleased = ''released''"

definition decideKernelQuotaRenewal ::
  "reservation_identity \<Rightarrow> kernel_read \<Rightarrow> int \<Rightarrow> native_error + (kernel_reservation \<times> int \<times> int)" where
  "decideKernelQuotaRenewal identity snapshot now =
     (case normalizeKernelQuotaReservationRowV2 (kr_value snapshot) (ki_scope identity) (ki_owner identity) (ki_repo identity) of
        Some r \<Rightarrow>
          if \<not> kernelReservationMatchesRequest (Some r) (ri_requestId identity) (ri_route identity) (ri_windowCreatedAtMs identity)
          then Inl (NativeFailure ''Kernel quota reservation is missing or malformed'')
          else if rv_state r \<noteq> RowReserved
          then Inl (NativeFailure (''Kernel quota reservation was already '' @ row_state_text (rv_state r)))
          else Inr (r\<lparr>rv_lease_expires_at_ms := now + LEASE_MS\<rparr>,
                 kernelReservationRetentionMs (rv_window_reset_at_ms r) now, now + LEASE_MS)
      | None \<Rightarrow> Inl (NativeFailure ''Kernel quota reservation is missing or malformed''))"

definition decideKernelQuotaReclaim :: "kernel_reservation \<Rightarrow> int \<Rightarrow> terminal_state option" where
  "decideKernelQuotaReclaim r now =
     (if rv_state r \<noteq> RowReserved \<or> now < rv_lease_expires_at_ms r then None
      else Some (case rv_terminal_intent r of None \<Rightarrow> Released | Some t \<Rightarrow> t))"

definition decideKernelDefaultWindowCutover :: "kernel_read \<Rightarrow> string \<Rightarrow> int \<Rightarrow> cutover_plan" where
  "decideKernelDefaultWindowCutover snapshot i now =
     (if kr_value snapshot \<noteq> JNull
      then XRefused (if normalizeKernelDefaultWindowCutoverV2 (kr_value snapshot) \<noteq> None then ''concurrent_change'' else ''unavailable'')
      else XAcquire \<lparr>kx_id = i, kx_created_at_ms = now, kx_expires_at_ms = now + CUTOVER_LEASE_MS\<rparr> CUTOVER_LEASE_MS)"

definition kernelDefaultWindowCutoverAcquired :: "kernel_read \<Rightarrow> string \<Rightarrow> bool" where
  "kernelDefaultWindowCutoverAcquired snapshot i \<longleftrightarrow>
     map_option kx_id (normalizeKernelDefaultWindowCutoverV2 (kr_value snapshot)) = Some i \<and> kr_revision snapshot \<noteq> None"

definition resolveKernelPolicyTiming :: "policy_options \<Rightarrow> effective_policy \<Rightarrow> int \<Rightarrow> int \<times> int" where
  "resolveKernelPolicyTiming options current noExpirationMs =
     (if po_windowMs options = JUndef then ep_windowMs current else normalizeWindow (po_windowMs options) (ep_windowMs current),
      if po_expiresAtMs options = JUndef then ep_expiresAtMs current else normalizeExpiration (po_expiresAtMs options) noExpirationMs)"

datatype window_guard = GAbort | GProceed | GReclaim kernel_window

definition decideKernelPolicyWindowGuard :: "kernel_window option \<Rightarrow> bool \<Rightarrow> bool \<Rightarrow> int \<Rightarrow> window_guard" where
  "decideKernelPolicyWindowGuard window windowPresent reset now =
     (case window of
        None \<Rightarrow> if windowPresent then GAbort else GProceed
      | Some w \<Rightarrow> if reset \<and> hasLiveKernelReservations (Some w) now then GReclaim w else GProceed)"

definition makeKernelQuotaPolicy ::
  "kernel_identity \<Rightarrow> effective_policy \<Rightarrow> js \<Rightarrow> int \<times> int \<Rightarrow> int \<Rightarrow> int \<Rightarrow> kernel_policy" where
  "makeKernelQuotaPolicy identity current usageLimitRequests timing noUsageLimit now =
     \<lparr>kp_scope = ki_scope identity, kp_owner = ki_owner identity,
      kp_repo = scoped_repo (ki_scope identity) (ki_repo identity),
      kp_usage_limit_requests = (case normalizeUsageLimit usageLimitRequests (Some (ep_limit current)) noUsageLimit of
          None \<Rightarrow> ep_limit current | Some n \<Rightarrow> n),
      kp_window_ms = fst timing, kp_expires_at_ms = snd timing,
      kp_created_at_ms = (case ep_policy current of None \<Rightarrow> now | Some p \<Rightarrow> kp_created_at_ms p),
      kp_updated_at_ms = now\<rparr>"

definition decideKernelQuotaPolicyWrite ::
  "kernel_identity \<Rightarrow> kernel_policy \<Rightarrow> kernel_window option \<Rightarrow> bool \<Rightarrow> int \<Rightarrow> kernel_policy \<times> kernel_window" where
  "decideKernelQuotaPolicyWrite identity policy currentWindow reset now =
     (policy,
      if reset then newWindow (ki_scope identity) (ki_owner identity) (ki_repo identity) (kp_window_ms policy) now
      else (fst (windowForEffectivePolicy currentWindow (ki_scope identity) (ki_owner identity) (ki_repo identity)
              (kp_window_ms policy) now))\<lparr>kw_updated_at_ms := now\<rparr>)"

definition decideKernelQuotaPolicyDeleteWindow ::
  "kernel_identity \<Rightarrow> effective_policy \<Rightarrow> kernel_defaults \<Rightarrow> kernel_window option \<Rightarrow> int \<Rightarrow> kernel_window" where
  "decideKernelQuotaPolicyDeleteWindow identity current defaults oldWindow now =
     (if ep_windowMs current = kd_windowMs defaults
      then fst (windowForEffectivePolicy oldWindow (ki_scope identity) (ki_owner identity) (ki_repo identity) (kd_windowMs defaults) now)
      else newWindow (ki_scope identity) (ki_owner identity) (ki_repo identity) (kd_windowMs defaults) now)"

definition kernelQuotaPolicyResetRequested :: "policy_options \<Rightarrow> int \<Rightarrow> int \<Rightarrow> bool" where
  "kernelQuotaPolicyResetRequested options currentWindowMs nextWindowMs \<longleftrightarrow>
     po_resetUsage options \<or> currentWindowMs \<noteq> nextWindowMs"

datatype delete_precondition = DAbsent | DConflict | DProceed

definition decideKernelQuotaPolicyDeletePrecondition :: "kernel_read \<Rightarrow> kernel_read \<Rightarrow> delete_precondition" where
  "decideKernelQuotaPolicyDeletePrecondition policy defaultCutover =
     (if kr_value policy = JNull then DAbsent else if kr_value defaultCutover \<noteq> JNull then DConflict else DProceed)"

end
