(* ===== verification/Kernel_Layout.thy ===== *)
theory Kernel_Layout
  imports Kernel_Quota
begin

text \<open>
  How the kernel records are laid out as stored objects, and that the normalizers read back exactly
  what was written. A record is fit for storage when its numbers are safe integers in the ranges its
  normalizer demands; the normalizers return only such records, so a decision always starts from one.
\<close>

definition identity_fields :: "kernel_scope \<Rightarrow> string \<Rightarrow> string option \<Rightarrow> (string \<times> js) list" where
  "identity_fields sc owner repo =
     [(''v'', jint 2), (''scope'', JStr (scope_text sc)), (''owner'', JStr owner)] @
     (case repo of None \<Rightarrow> [] | Some r \<Rightarrow> [(''repo'', JStr r)])"

definition kernel_policy_js :: "kernel_policy \<Rightarrow> js" where
  "kernel_policy_js p = JObj (identity_fields (kp_scope p) (kp_owner p) (kp_repo p) @
     [(''usage_limit_requests'', jint (kp_usage_limit_requests p)), (''window_ms'', jint (kp_window_ms p)),
      (''expires_at_ms'', jint (kp_expires_at_ms p)), (''created_at_ms'', jint (kp_created_at_ms p)),
      (''updated_at_ms'', jint (kp_updated_at_ms p))])"

definition kernel_window_js :: "kernel_window \<Rightarrow> js" where
  "kernel_window_js w = JObj (identity_fields (kw_scope w) (kw_owner w) (kw_repo w) @
     [(''usage_requests'', jint (kw_usage_requests w)), (''reserved_requests'', jint (kw_reserved_requests w)),
      (''usage_reset_at_ms'', jint (kw_usage_reset_at_ms w)), (''applied_window_ms'', jint (kw_applied_window_ms w)),
      (''created_at_ms'', jint (kw_created_at_ms w)), (''updated_at_ms'', jint (kw_updated_at_ms w))])"

fun terminal_text :: "terminal_state \<Rightarrow> string" where
  "terminal_text Committed = ''committed''"
| "terminal_text Released = ''released''"

definition kernel_reservation_js :: "kernel_reservation \<Rightarrow> js" where
  "kernel_reservation_js r = JObj (identity_fields (rv_scope r) (rv_owner r) (rv_repo r) @
     [(''request_id'', JStr (rv_request_id r)), (''route'', JStr (rv_route r)),
      (''window_created_at_ms'', jint (rv_window_created_at_ms r)), (''window_reset_at_ms'', jint (rv_window_reset_at_ms r)),
      (''state'', JStr (row_state_text (rv_state r))),
      (''terminal_intent'', opt_js (\<lambda>t. JStr (terminal_text t)) (rv_terminal_intent r)),
      (''reserved_at_ms'', jint (rv_reserved_at_ms r)), (''lease_expires_at_ms'', jint (rv_lease_expires_at_ms r)),
      (''committed_at_ms'', opt_js jint (rv_committed_at_ms r)), (''released_at_ms'', opt_js jint (rv_released_at_ms r)),
      (''release_reason'', opt_js JStr (rv_release_reason r))])"

definition kernel_cutover_js :: "kernel_cutover \<Rightarrow> js" where
  "kernel_cutover_js x = JObj [(''v'', jint 2), (''id'', JStr (kx_id x)), (''created_at_ms'', jint (kx_created_at_ms x)),
     (''expires_at_ms'', jint (kx_expires_at_ms x))]"

section \<open>Fit for storage\<close>

definition identity_ok :: "kernel_scope \<Rightarrow> string option \<Rightarrow> bool" where
  "identity_ok sc repo \<longleftrightarrow> (sc = RepoScope \<longleftrightarrow> repo \<noteq> None)"

definition safe_positive :: "int \<Rightarrow> bool" where
  "safe_positive i \<longleftrightarrow> is_safe_integer i \<and> 0 < i"

definition window_ok :: "kernel_window \<Rightarrow> bool" where
  "window_ok w \<longleftrightarrow> identity_ok (kw_scope w) (kw_repo w) \<and>
     safe_nonneg (kw_usage_requests w) \<and> safe_nonneg (kw_reserved_requests w) \<and>
     safe_positive (kw_usage_reset_at_ms w) \<and> safe_positive (kw_applied_window_ms w) \<and>
     safe_nonneg (kw_created_at_ms w) \<and> safe_nonneg (kw_updated_at_ms w)"

definition reservation_ok :: "kernel_reservation \<Rightarrow> bool" where
  "reservation_ok r \<longleftrightarrow> identity_ok (rv_scope r) (rv_repo r) \<and> rv_request_id r \<noteq> [] \<and> rv_route r \<noteq> [] \<and>
     safe_nonneg (rv_window_created_at_ms r) \<and> safe_positive (rv_window_reset_at_ms r) \<and>
     safe_nonneg (rv_reserved_at_ms r) \<and> safe_positive (rv_lease_expires_at_ms r) \<and>
     pred_option safe_nonneg (rv_committed_at_ms r) \<and> pred_option safe_nonneg (rv_released_at_ms r) \<and> row_consistent r"

definition policy_ok :: "kernel_constants \<Rightarrow> kernel_policy \<Rightarrow> bool" where
  "policy_ok c p \<longleftrightarrow> identity_ok (kp_scope p) (kp_repo p) \<and>
     (kp_usage_limit_requests p = kc_noUsageLimit c \<or> safe_nonneg (kp_usage_limit_requests p)) \<and>
     safe_positive (kp_window_ms p) \<and> (kp_expires_at_ms p = kc_noExpirationMs c \<or> 0 \<le> kp_expires_at_ms p) \<and>
     safe_nonneg (kp_created_at_ms p) \<and> safe_nonneg (kp_updated_at_ms p)"

section \<open>Round trips\<close>

lemma js_get_Nil [simp]: "js_get (JObj []) k = JUndef"
  by (simp add: js_get_def)

lemma js_get_Cons [simp]: "js_get (JObj ((j, x) # es)) k = (if j = k then x else js_get (JObj es) k)"
  by (simp add: js_get_def)

lemma scope_text_inj [simp]: "scope_text a = scope_text b \<longleftrightarrow> a = b"
  by (cases a; cases b) simp_all

lemma isRecord_obj [simp]: "isRecord (JObj es)"
  by simp

lemma nonNegative_jint [simp]: "nonNegativeSafeInteger (jint i) = (if safe_nonneg i then Some i else None)"
  by (simp add: nonNegativeSafeInteger_def safe_nonneg_def)

lemma positive_jint [simp]: "positiveSafeInteger (jint i) = (if safe_positive i then Some i else None)"
  by (simp add: positiveSafeInteger_def safe_positive_def)

lemma nonNegative_Some: "nonNegativeSafeInteger v = Some i \<longleftrightarrow> v = jint i \<and> safe_nonneg i"
  by (auto simp: nonNegativeSafeInteger_def safe_nonneg_def js_int_Some split: option.splits if_splits)

lemma positive_Some: "positiveSafeInteger v = Some i \<longleftrightarrow> v = jint i \<and> safe_positive i"
  by (auto simp: positiveSafeInteger_def safe_positive_def js_int_Some split: option.splits if_splits)

lemma nonempty_text_JStr [simp]: "nonempty_text (JStr s) = (if s = [] then None else Some s)"
  by (simp add: nonempty_text_def)

lemma row_state_of_text [simp]: "row_state_of (JStr (row_state_text st)) = Some st"
  by (cases st) (simp_all add: row_state_of_def)

lemma terminal_intent_of_text [simp]: "terminal_intent_of (opt_js (\<lambda>t. JStr (terminal_text t)) i) = Some i"
proof (cases i)
  case (Some t)
  then show ?thesis by (cases t) (simp_all add: terminal_intent_of_def opt_js_def)
qed (simp add: terminal_intent_of_def opt_js_def)

lemma opt_nonNegative [simp]:
  "opt_of_js nonNegativeSafeInteger (opt_js jint x) = (if pred_option safe_nonneg x then Some x else None)"
  by (cases x) (simp_all add: opt_of_js_def opt_js_def)

lemma opt_text [simp]: "opt_of_js js_text (opt_js JStr x) = Some x"
  by (cases x) (simp_all add: opt_of_js_def opt_js_def)

lemma identity_fields_skip [simp]:
  "k \<notin> {''v'', ''scope'', ''owner'', ''repo''} \<Longrightarrow>
     js_get (JObj (identity_fields sc owner repo @ rest)) k = js_get (JObj rest) k"
  by (cases repo) (auto simp: identity_fields_def)

lemma validIdentity_fields [simp]:
  assumes "identity_ok sc repo" and "js_get (JObj rest) ''repo'' = JUndef"
  shows "validIdentity sc owner repo (JObj (identity_fields sc owner repo @ rest))"
  using assms by (cases sc; cases repo) (simp_all add: validIdentity_def identity_fields_def identity_ok_def)

lemma scoped_repo_ok [simp]: "identity_ok sc repo \<Longrightarrow> scoped_repo sc repo = repo"
  by (auto simp: identity_ok_def scoped_repo_def)

lemma identity_ok_scoped: "(sc = RepoScope \<Longrightarrow> repo \<noteq> None) \<Longrightarrow> identity_ok sc (scoped_repo sc repo)"
  by (simp add: identity_ok_def scoped_repo_def)

lemma window_read_back:
  "window_ok w \<Longrightarrow> normalizeKernelQuotaWindowV2 (kernel_window_js w) (kw_scope w) (kw_owner w) (kw_repo w) = Some w"
  by (cases w) (simp add: normalizeKernelQuotaWindowV2_def kernel_window_js_def window_ok_def Let_def)

lemma reservation_read_back:
  "reservation_ok r \<Longrightarrow>
     normalizeKernelQuotaReservationRowV2 (kernel_reservation_js r) (rv_scope r) (rv_owner r) (rv_repo r) = Some r"
  by (cases r) (simp add: normalizeKernelQuotaReservationRowV2_def kernel_reservation_js_def reservation_ok_def Let_def)

lemma normalizeWindow_jint [simp]: "normalizeWindow (jint i) d = (if 0 < i then i else d)"
  by (simp add: normalizeWindow_def finite_number_def)

lemma normalizeUsageLimit_jint [simp]:
  "normalizeUsageLimit (jint i) d n = (if i = n \<or> 0 \<le> i then Some i else d)"
  by (simp add: normalizeUsageLimit_def finite_number_def)

lemma normalizeExpiration_jint [simp]: "normalizeExpiration (jint i) n = (if i = n \<or> 0 \<le> i then i else n)"
  by (simp add: normalizeExpiration_def)

lemma policy_read_back:
  "policy_ok c p \<Longrightarrow> normalizeKernelQuotaPolicyV2 (kernel_policy_js p) (kp_scope p) (kp_owner p) (kp_repo p) c = Some p"
  by (cases p) (auto simp: normalizeKernelQuotaPolicyV2_def kernel_policy_js_def policy_ok_def safe_positive_def
      safe_nonneg_def)

lemma cutover_read_back:
  "kx_id x \<noteq> [] \<Longrightarrow> safe_nonneg (kx_created_at_ms x) \<Longrightarrow> safe_positive (kx_expires_at_ms x) \<Longrightarrow>
     kx_created_at_ms x < kx_expires_at_ms x \<Longrightarrow> normalizeKernelDefaultWindowCutoverV2 (kernel_cutover_js x) = Some x"
  by (cases x) (simp add: normalizeKernelDefaultWindowCutoverV2_def kernel_cutover_js_def)

text \<open>What the normalizers accept belongs to the identity it was read for and is fit for storage.\<close>

lemma window_normalized:
  assumes "normalizeKernelQuotaWindowV2 v sc owner repo = Some w" and "sc = RepoScope \<Longrightarrow> repo \<noteq> None"
  shows "window_ok w" and "kw_scope w = sc" and "kw_owner w = owner" and "kw_repo w = scoped_repo sc repo"
  using assms identity_ok_scoped [of sc repo]
  by (auto simp: normalizeKernelQuotaWindowV2_def window_ok_def nonNegative_Some positive_Some bind_eq_Some_conv Let_def
      split: if_splits)

lemma reservation_normalized:
  assumes "normalizeKernelQuotaReservationRowV2 v sc owner repo = Some r" and "sc = RepoScope \<Longrightarrow> repo \<noteq> None"
  shows "reservation_ok r" and "rv_scope r = sc" and "rv_owner r = owner" and "rv_repo r = scoped_repo sc repo"
proof -
  have opt: "opt_of_js nonNegativeSafeInteger v = Some x \<Longrightarrow> pred_option safe_nonneg x" for v x
    by (auto simp: opt_of_js_def nonNegative_Some split: if_splits)
  have filled: "nonempty_text v = Some s \<Longrightarrow> s \<noteq> []" for v s
    by (auto simp: nonempty_text_def split: option.splits if_splits)
  show "reservation_ok r" and "rv_scope r = sc" and "rv_owner r = owner" and "rv_repo r = scoped_repo sc repo"
    using assms identity_ok_scoped [of sc repo]
    by (auto simp: normalizeKernelQuotaReservationRowV2_def reservation_ok_def nonNegative_Some positive_Some
        bind_eq_Some_conv Let_def split: if_splits dest: opt filled)
qed

end
