(* ===== verification/Native_Kernel.thy ===== *)
theory Native_Kernel
  imports Kernel_Layout
begin

text \<open>
  The kernel operations of the native authority (\<^verbatim>\<open>NativeAuthorityKernel\<close> in
  \<^verbatim>\<open>src/src/authority/native-authority-kernel.ts\<close>), as transactions on the rows of
  \<^verbatim>\<open>NativeAuthoritySql\<close>: reserve, terminal intent, settle, renew, reclaim, policy writes and
  deletes, and the default-window cutover. Rows of the request table are cast to their declared type
  by the source without a check; the model reads the fields it needs and fails where a field does not
  have its declared type. A random identifier is an argument.
\<close>

section \<open>Capabilities, requests and replies\<close>

datatype native_role = Inference | Transport | Terminal | Billing | Reconcile | Quota_admin | Reset_role | Observer

record native_capability =
  nc_id :: string
  nc_epoch :: string
  nc_principalId :: string
  nc_keyId :: "string option"
  nc_tokenHash :: "string option"
  nc_kernel :: "(string \<times> string) option"
  nc_runtimeGrantId :: string
  nc_contextBinding :: string
  nc_subjectId :: string
  nc_principalRefId :: "string option"
  nc_retainedRequestHandles :: "string list option"
  nc_roles :: "native_role list"
  nc_revoked :: bool

record native_reply =
  rp_kind :: string
  rp_handle :: js
  rp_cursor :: js
  rp_detail :: js

definition reply :: "string \<Rightarrow> js \<Rightarrow> native_reply" where
  "reply kind detail = \<lparr>rp_kind = kind, rp_handle = JUndef, rp_cursor = JUndef, rp_detail = detail\<rparr>"

fun truthy :: "js \<Rightarrow> bool" where
  "truthy JUndef = False"
| "truthy JNull = False"
| "truthy (JBool b) = b"
| "truthy (JNum n) = (n \<noteq> Fin 0 \<and> n \<noteq> NaN)"
| "truthy (JStr s) = (s \<noteq> [])"
| "truthy _ = True"

definition js_with :: "string \<Rightarrow> js \<Rightarrow> js \<Rightarrow> js" where
  "js_with k v row = (case js_entries row of None \<Rightarrow> row | Some es \<Rightarrow> JObj (put k v es))"

definition typed :: "'a option \<Rightarrow> native_error + 'a" where
  "typed x = require x (NativeFailure ''row field is not of its declared type'')"

definition nativeIdentity :: "kernel_scope \<Rightarrow> native_capability \<Rightarrow> native_error + kernel_identity" where
  "nativeIdentity sc cap =
     rbind (require (nc_kernel cap) (NativeAuthorityError ''kernel_scope_not_applicable'' 403)) (\<lambda>(owner, repo).
     Inr \<lparr>ki_scope = sc, ki_owner = owner, ki_repo = (if sc = RepoScope then Some repo else None)\<rparr>)"

definition api_request_key :: "js \<Rightarrow> string \<Rightarrow> native_error + kv_key" where
  "api_request_key policy requestId =
     rbind (typed (js_text (js_get policy ''key_id''))) (\<lambda>keyId.
     rbind (typed (js_text (js_get policy ''policy_version''))) (\<lambda>version.
     rbind (typed (js_int (js_get policy ''window_start_ms''))) (\<lambda>start.
     Inr [KText ''uos_ai'', KText ''api_key_usage'', KText ''v3'', KText ''request'', KText keyId, KText version,
          KNum start, KText requestId])))"

definition api_request :: "native_capability \<Rightarrow> string \<Rightarrow> int \<Rightarrow> js native" where
  "api_request cap handle now =
     nbind (sql_read Request_lifetime [KText handle] now) (\<lambda>r.
     let row = nr_value r in
     nbind (nensure (js_get row ''principalId'' = JStr (nc_principalId cap) \<and>
              js_get row ''keyId'' = opt_js JStr (nc_keyId cap) \<and> js_get row ''runtimeBindingId'' = JStr (nc_id cap))
             (NativeAuthorityError ''request_ownership_mismatch'' 403)) (\<lambda>_.
     nreturn row))"

definition api_save :: "js \<Rightarrow> unit native" where
  "api_save row =
     nbind (nlift (typed (js_text (js_get row ''handle'')))) (\<lambda>handle.
     nbind (nlift (typed (js_text (if js_get row ''keyId'' = JNull then js_get row ''principalId'' else js_get row ''keyId'')))) (\<lambda>sc.
     nbind (if truthy (js_get row ''api'')
            then nlift (rbind (typed (js_text (js_get row ''requestId''))) (\<lambda>requestId.
                   rbind (api_request_key (js_get row ''api'') requestId) (\<lambda>k. Inr (Some (nativeKey k)))))
            else nreturn None) (\<lambda>parent.
     sql_write Request_lifetime [KText handle] row None \<lparr>ix_scope = Some sc, ix_parent = parent, ix_due = None\<rparr>)))"

definition reservation_identity_js :: "reservation_identity \<Rightarrow> js" where
  "reservation_identity_js i = JObj (
     [(''scope'', JStr (scope_text (ki_scope i))), (''owner'', JStr (ki_owner i))] @
     (case ki_repo i of None \<Rightarrow> [] | Some r \<Rightarrow> [(''repo'', JStr r)]) @
     [(''requestId'', JStr (ri_requestId i)), (''route'', JStr (ri_route i)), (''windowCreatedAtMs'', jint (ri_windowCreatedAtMs i))])"

definition scope_of_js :: "js \<Rightarrow> kernel_scope option" where
  "scope_of_js v = (if v = JStr ''repo'' then Some RepoScope else if v = JStr ''org'' then Some OrgScope else None)"

definition reservation_identity_of_js :: "js \<Rightarrow> native_error + reservation_identity" where
  "reservation_identity_of_js v =
     rbind (typed (scope_of_js (js_get v ''scope''))) (\<lambda>sc.
     rbind (typed (js_text (js_get v ''owner''))) (\<lambda>owner.
     rbind (typed (js_text (js_get v ''requestId''))) (\<lambda>requestId.
     rbind (typed (js_text (js_get v ''route''))) (\<lambda>route.
     rbind (typed (js_int (js_get v ''windowCreatedAtMs''))) (\<lambda>created.
     Inr \<lparr>ki_scope = sc, ki_owner = owner, ki_repo = js_text (js_get v ''repo''), ri_requestId = requestId,
         ri_route = route, ri_windowCreatedAtMs = created\<rparr>)))))"

definition reservationIdentity :: "kernel_identity \<Rightarrow> string \<Rightarrow> string \<Rightarrow> int \<Rightarrow> reservation_identity" where
  "reservationIdentity i requestId route created =
     \<lparr>ki_scope = ki_scope i, ki_owner = ki_owner i, ki_repo = ki_repo i, ri_requestId = requestId, ri_route = route,
      ri_windowCreatedAtMs = created\<rparr>"

abbreviation identity_of :: "reservation_identity \<Rightarrow> kernel_identity" where
  "identity_of i \<equiv> kernel_identity.truncate i"

section \<open>Rows\<close>

definition API_KEY_NO_USAGE_LIMIT :: int where
  "API_KEY_NO_USAGE_LIMIT = - 1"

definition USAGE_RESET_PERIOD_MS :: int where
  "USAGE_RESET_PERIOD_MS = 7 * 24 * 60 * 60 * 1000"

definition kernel_read_of :: "native_read \<Rightarrow> kernel_read" where
  "kernel_read_of r = \<lparr>kr_value = nr_value r, kr_revision = nr_revision r\<rparr>"

definition kernelDefaults :: "kernel_constants \<Rightarrow> int \<Rightarrow> kernel_defaults native" where
  "kernelDefaults c now =
     nbind (sql_read Kernel_default [KText ''default'', KText ''kernel_policy_limit_requests''] now) (\<lambda>limit.
     nbind (sql_read Kernel_default [KText ''default'', KText ''kernel_policy_window_ms''] now) (\<lambda>window.
     nreturn \<lparr>kd_limit = (case normalizeUsageLimit (nr_value limit) (Some API_KEY_NO_USAGE_LIMIT) (kc_noUsageLimit c) of
                None \<Rightarrow> API_KEY_NO_USAGE_LIMIT | Some n \<Rightarrow> n),
              kd_windowMs = normalizeWindow (nr_value window) USAGE_RESET_PERIOD_MS\<rparr>))"

definition readWindow :: "kernel_identity \<Rightarrow> int \<Rightarrow> (native_read \<times> kernel_window option) native" where
  "readWindow i now =
     nbind (nlift (kernelScopedWindowKey (ki_scope i) (ki_owner i) (ki_repo i))) (\<lambda>key.
     nbind (sql_read Kernel_window_table key now) (\<lambda>row.
     let value = normalizeKernelQuotaWindowV2 (nr_value row) (ki_scope i) (ki_owner i) (ki_repo i) in
     nbind (nensure (nr_value row = JNull \<or> value \<noteq> None) (NativeAuthorityError ''kernel_window_malformed'' 503)) (\<lambda>_.
     nreturn (row, value))))"

definition reservationRead :: "reservation_identity \<Rightarrow> int \<Rightarrow> native_read native" where
  "reservationRead i now =
     nbind (nlift (kernelReservationKey (ki_scope i) (ki_owner i) (ki_repo i) (ri_windowCreatedAtMs i) (ri_requestId i))) (\<lambda>key.
     sql_read Kernel_reservation_table key now)"

definition identity_index :: "kernel_identity \<Rightarrow> string" where
  "identity_index i = nativeKey [KText (ki_owner i), KText (case ki_repo i of None \<Rightarrow> [] | Some r \<Rightarrow> r)]"

definition writeReservation :: "kernel_identity \<Rightarrow> kernel_reservation \<Rightarrow> int \<Rightarrow> unit native" where
  "writeReservation i row expiry =
     nbind (nlift (kernelReservationKey (ki_scope i) (ki_owner i) (ki_repo i) (rv_window_created_at_ms row) (rv_request_id row))) (\<lambda>key.
     nbind (nlift (kernelScopedWindowKey (ki_scope i) (ki_owner i) (ki_repo i))) (\<lambda>wkey.
     sql_write Kernel_reservation_table key (kernel_reservation_js row) (Some expiry)
       \<lparr>ix_scope = Some (identity_index i), ix_parent = Some (nativeKey wkey), ix_due = None\<rparr>))"

definition writeWindow :: "kernel_identity \<Rightarrow> kernel_window \<Rightarrow> int option \<Rightarrow> string option \<Rightarrow> unit native" where
  "writeWindow i w expiry sc =
     nbind (nlift (kernelScopedWindowKey (ki_scope i) (ki_owner i) (ki_repo i))) (\<lambda>key.
     sql_write Kernel_window_table key (kernel_window_js w) expiry \<lparr>ix_scope = sc, ix_parent = None, ix_due = None\<rparr>)"

section \<open>Settlement and reclaim\<close>

fun outcome_text :: "settlement_outcome \<Rightarrow> string" where
  "outcome_text OSettled = ''settled''"
| "outcome_text OTerminalMismatch = ''terminal_mismatch''"
| "outcome_text OMissing = ''missing''"
| "outcome_text OInvalid = ''invalid''"
| "outcome_text OConflict = ''conflict''"

definition unchanged :: "settlement_outcome \<Rightarrow> native_reply" where
  "unchanged out = reply ''unchanged'' (JStr (outcome_text out))"

definition settleReservation :: "reservation_identity \<Rightarrow> terminal_state \<Rightarrow> string \<Rightarrow> int \<Rightarrow> native_reply native" where
  "settleReservation i target reason now =
     nbind (reservationRead i now) (\<lambda>rd.
     case normalizeKernelQuotaReservationRowV2 (nr_value rd) (ki_scope i) (ki_owner i) (ki_repo i) of
       None \<Rightarrow> nreturn (unchanged (if nr_value rd = JNull then OMissing else OInvalid))
     | Some row \<Rightarrow>
         (case kernelReservationPrecondition row (ri_requestId i) (ri_route i) (ri_windowCreatedAtMs i) target of
            Some out \<Rightarrow> nreturn (unchanged out)
          | None \<Rightarrow>
              nbind (readWindow (identity_of i) now) (\<lambda>(wrow, window).
              case decideKernelQuotaSettlement row window (nr_value wrow \<noteq> JNull) target reason now of
                SUnchanged out \<Rightarrow> nreturn (unchanged out)
              | SSettle settled next expireIn \<Rightarrow>
                  nbind (writeReservation (identity_of i) settled (now + expireIn)) (\<lambda>_.
                  nbind (case next of
                           None \<Rightarrow> nreturn ()
                         | Some w \<Rightarrow> writeWindow (identity_of i) w (Some (now + expireIn)) (Some (identity_index (identity_of i)))) (\<lambda>_.
                  nreturn (reply ''settle'' (kernel_reservation_js settled)))))))"

fun reclaim_entries :: "kernel_identity \<Rightarrow> int \<Rightarrow> native_page_entry list \<Rightarrow> int native" where
  "reclaim_entries i now [] = nreturn 0"
| "reclaim_entries i now (e # es) =
     nbind (nlift (require (normalizeKernelQuotaReservationRowV2 (nr_value (pe_row e)) (ki_scope i) (ki_owner i) (ki_repo i))
              (NativeAuthorityError ''kernel_reservation_malformed'' 503))) (\<lambda>row.
     case decideKernelQuotaReclaim row now of
       None \<Rightarrow> reclaim_entries i now es
     | Some target \<Rightarrow>
         nbind (settleReservation (reservationIdentity i (rv_request_id row) (rv_route row) (rv_window_created_at_ms row))
                  target ''reservation_lease_expired'' now) (\<lambda>_.
         nbind (reclaim_entries i now es) (\<lambda>n. nreturn (n + 1))))"

text \<open>
  The page loop runs until a page is not full. Each full page moves the cursor past a hundred rows, so
  as many turns as the table has rows are more than enough; the fuel argument counts them.
\<close>

fun reclaim_pages :: "nat \<Rightarrow> kernel_identity \<Rightarrow> int \<Rightarrow> string \<Rightarrow> int native" where
  "reclaim_pages 0 i now after = nfail (NativeFailure ''page loop did not end'')"
| "reclaim_pages (Suc fuel) i now after =
     nbind (nlift (kernelScopedWindowKey (ki_scope i) (ki_owner i) (ki_repo i))) (\<lambda>wkey.
     nbind (sql_page Kernel_reservation_table now after 100 None (Some (nativeKey wkey))) (\<lambda>page.
     nbind (reclaim_entries i now page) (\<lambda>n.
     if length page < 100 then nreturn n
     else nbind (reclaim_pages fuel i now (pe_encoded (last page))) (\<lambda>m. nreturn (n + m)))))"

definition reclaimWindow :: "kernel_identity \<Rightarrow> int \<Rightarrow> int native" where
  "reclaimWindow i now s = reclaim_pages (Suc (length (sq_rows s Kernel_reservation_table))) i now [] s"

section \<open>Operations\<close>

definition refusal_js :: "int \<Rightarrow> string \<Rightarrow> js" where
  "refusal_js status message = JObj [(''kind'', JStr ''refused''), (''status'', jint status), (''message'', JStr message)]"

fun reserve_reply :: "reserve_plan \<Rightarrow> native_reply" where
  "reserve_reply (RRefused status message) = reply ''refused'' (refusal_js status message)"
| "reserve_reply (RFull w limit) =
     reply ''full'' (JObj [(''kind'', JStr ''full''), (''window'', kernel_window_js w), (''limit'', jint limit)])"
| "reserve_reply (RReserve r w expireIn) = reply ''reserved'' (kernel_reservation_js r)"

definition decide_reserve ::
  "kernel_constants \<Rightarrow> kernel_identity \<Rightarrow> effective_policy \<Rightarrow> string \<Rightarrow> string \<Rightarrow> int \<Rightarrow> reserve_plan native" where
  "decide_reserve c i effective requestId route now =
     nbind (readWindow i now) (\<lambda>(_, current).
     let window = fst (windowForEffectivePolicy current (ki_scope i) (ki_owner i) (ki_repo i) (ep_windowMs effective) now) in
     nbind (reservationRead (reservationIdentity i requestId route (kw_created_at_ms window)) now) (\<lambda>entry.
     nreturn (decideKernelQuotaReserve i effective window (kernel_read_of entry) requestId route (kc_noUsageLimit c) now)))"

definition reserve_against ::
  "kernel_constants \<Rightarrow> kernel_identity \<Rightarrow> effective_policy \<Rightarrow> js \<Rightarrow> string \<Rightarrow> string \<Rightarrow> int \<Rightarrow> native_reply native" where
  "reserve_against c i effective request requestId route now =
     nbind (decide_reserve c i effective requestId route now) (\<lambda>first.
     nbind (case first of
              RFull w limit \<Rightarrow>
                nbind (reclaimWindow i now) (\<lambda>n.
                if 0 < n then decide_reserve c i effective requestId route now else nreturn first)
            | _ \<Rightarrow> nreturn first) (\<lambda>plan.
     case plan of
       RReserve r w expireIn \<Rightarrow>
         nbind (writeWindow i w (Some (now + expireIn)) (Some (identity_index i))) (\<lambda>_.
         nbind (writeReservation i r (now + expireIn)) (\<lambda>_.
         nbind (api_save (js_with ''kernel'' (reservation_identity_js (reservationIdentity i requestId route (kw_created_at_ms w))) request)) (\<lambda>_.
         nreturn (reserve_reply plan))))
     | _ \<Rightarrow> nreturn (reserve_reply plan)))"

definition reserve_eligibility ::
  "kernel_constants \<Rightarrow> native_capability \<Rightarrow> string \<Rightarrow> string \<Rightarrow> int \<Rightarrow> (kernel_identity \<times> eligibility_plan) native" where
  "reserve_eligibility c cap owner repoName now =
     nbind (sql_read Kernel_policy_table (kernelRepoPolicyKey owner repoName) now) (\<lambda>repo.
     nbind (sql_read Kernel_policy_table (kernelOrgPolicyKey owner) now) (\<lambda>org.
     nbind (nlift (decideKernelQuotaScope (kernel_read_of repo) (kernel_read_of org) owner repoName c)) (\<lambda>(sc, _).
     nbind (nlift (nativeIdentity sc cap)) (\<lambda>i.
     nbind (sql_read Kernel_cutover_table KERNEL_DEFAULT_WINDOW_CUTOVER_V2_KEY now) (\<lambda>marker.
     nbind (kernelDefaults c now) (\<lambda>defaults.
     nbind (nlift (decideKernelQuotaEligibility i
              \<lparr>es_policy = kernel_read_of (if sc = RepoScope then repo else org),
               es_repoGuard = (if sc = OrgScope then Some (kernel_read_of repo) else None),
               es_defaultCutover = kernel_read_of marker,
               es_expectedRepoPolicy = Some (if sc = RepoScope then ExpectPresent else ExpectAbsent)\<rparr>
              defaults c now)) (\<lambda>eligibility.
     nreturn (i, eligibility))))))))"

definition reserveKernelUsage :: "kernel_constants \<Rightarrow> native_capability \<Rightarrow> string \<Rightarrow> int \<Rightarrow> native_reply native" where
  "reserveKernelUsage c cap handle now =
     nbind (api_request cap handle now) (\<lambda>request.
     if \<not> truthy (js_get request ''kernelApplicable'') then nreturn (reply ''not_applicable'' JUndef)
     else
     nbind (nensure (\<not> (truthy (js_get request ''apiApplicable'') \<and> \<not> truthy (js_get request ''api'')))
             (NativeAuthorityError ''api_admission_required'' 409)) (\<lambda>_.
     nbind (nlift (require (nc_kernel cap) (NativeAuthorityError ''kernel_scope_not_applicable'' 403))) (\<lambda>(owner, repoName).
     if truthy (js_get request ''kernel'')
     then nreturn (reply ''refused'' (refusal_js 503 ''Kernel quota request already has a reservation''))
     else
     nbind (reserve_eligibility c cap owner repoName now) (\<lambda>(i, eligibility).
     case eligibility of
       ERefused status message \<Rightarrow> nreturn (reply ''refused'' (refusal_js status message))
     | EEligible effective \<Rightarrow>
         nbind (nlift (typed (js_text (js_get request ''requestId'')))) (\<lambda>requestId.
         nbind (nlift (typed (js_text (js_get request ''route'')))) (\<lambda>route.
         reserve_against c i effective request requestId route now))))))"

definition kernelIdentity :: "native_capability \<Rightarrow> string \<Rightarrow> int \<Rightarrow> reservation_identity native" where
  "kernelIdentity cap handle now =
     nbind (api_request cap handle now) (\<lambda>request.
     nbind (nensure (truthy (js_get request ''kernel'')) (NativeAuthorityError ''kernel_reservation_missing'' 409)) (\<lambda>_.
     nlift (reservation_identity_of_js (js_get request ''kernel''))))"

definition recordKernelTerminalIntent :: "native_capability \<Rightarrow> string \<Rightarrow> terminal_state \<Rightarrow> int \<Rightarrow> native_reply native" where
  "recordKernelTerminalIntent cap handle terminalState now =
     nbind (kernelIdentity cap handle now) (\<lambda>i.
     nbind (reservationRead i now) (\<lambda>rd.
     case decideKernelQuotaTerminalIntent i (kernel_read_of rd) terminalState now of
       TUnchanged out \<Rightarrow> nreturn (unchanged out)
     | TIntent r expireIn lease \<Rightarrow>
         nbind (writeReservation (identity_of i) r (now + expireIn)) (\<lambda>_.
         nreturn (reply ''intent'' (kernel_reservation_js r)))))"

definition settleKernelUsage :: "native_capability \<Rightarrow> string \<Rightarrow> terminal_state \<Rightarrow> string \<Rightarrow> int \<Rightarrow> native_reply native" where
  "settleKernelUsage cap handle terminalState reason now =
     nbind (kernelIdentity cap handle now) (\<lambda>i. settleReservation i terminalState reason now)"

definition renewKernelReservation :: "native_capability \<Rightarrow> string \<Rightarrow> int \<Rightarrow> native_reply native" where
  "renewKernelReservation cap handle now =
     nbind (kernelIdentity cap handle now) (\<lambda>i.
     nbind (reservationRead i now) (\<lambda>rd.
     nbind (nlift (decideKernelQuotaRenewal i (kernel_read_of rd) now)) (\<lambda>(r, expireIn, lease).
     nbind (writeReservation (identity_of i) r (now + expireIn)) (\<lambda>_.
     nreturn (reply ''renewed'' (kernel_reservation_js r))))))"

definition kernel_reclaim_family :: "kernel_scope \<Rightarrow> string" where
  "kernel_reclaim_family sc = ''kernel_reclaim:'' @ scope_text sc"

text \<open>
  The position a reclaim starts from: a cursor must belong to the capability and its key.
\<close>

definition reclaim_position :: "native_capability \<Rightarrow> string option \<Rightarrow> int \<Rightarrow> (kernel_scope \<times> string) native" where
  "reclaim_position cap cursor now =
     (case cursor of
        None \<Rightarrow> nreturn (OrgScope, [])
      | Some cursorId \<Rightarrow>
          if cursorId = [] then nreturn (OrgScope, [])
          else
            nbind (sql_read Cursor_table [KText cursorId] now) (\<lambda>rd.
            let row = nr_value rd in
            nbind (nensure (js_get row ''capabilityId'' = JStr (nc_id cap) \<and> js_get row ''parent'' = opt_js JStr (nc_keyId cap))
                    (NativeAuthorityError ''cursor_ownership_mismatch'' 403)) (\<lambda>_.
            nbind (nlift (typed (js_text (js_get row ''family'')))) (\<lambda>family.
            nbind (nensure (take (length ''kernel_reclaim:'') family = ''kernel_reclaim:'')
                    (NativeAuthorityError ''cursor_ownership_mismatch'' 403)) (\<lambda>_.
            nbind (nlift (typed (js_text (js_get row ''after'')))) (\<lambda>after.
            nreturn (if family = kernel_reclaim_family RepoScope then RepoScope else OrgScope, after)))))))"

definition cursor_js :: "string \<Rightarrow> native_capability \<Rightarrow> string \<Rightarrow> string \<Rightarrow> js" where
  "cursor_js cursorId cap family after =
     JObj [(''id'', JStr cursorId), (''capabilityId'', JStr (nc_id cap)), (''parent'', opt_js JStr (nc_keyId cap)),
       (''family'', JStr family), (''after'', JStr after), (''lease'', JNull)]"

definition reclaimExpiredKernelReservations ::
  "native_capability \<Rightarrow> string option \<Rightarrow> int \<Rightarrow> string \<Rightarrow> int \<Rightarrow> native_reply native" where
  "reclaimExpiredKernelReservations cap cursor limit uuid now =
     nbind (reclaim_position cap cursor now) (\<lambda>(sc, after).
     nbind (nlift (nativeIdentity sc cap)) (\<lambda>i.
     nbind (sql_page Kernel_reservation_table now after limit (Some (identity_index i)) None) (\<lambda>page.
     nbind (reclaim_entries i now page) (\<lambda>reclaimed.
     let continuing = int (length page) = limit in
     nbind (if continuing \<or> sc = OrgScope
            then nbind (sql_write Cursor_table [KText uuid]
                   (cursor_js uuid cap (kernel_reclaim_family (if continuing then sc else RepoScope))
                     (if continuing then pe_encoded (last page) else [])) None no_index) (\<lambda>_. nreturn (JStr uuid))
            else nreturn JNull) (\<lambda>next.
     nreturn \<lparr>rp_kind = ''reclaimed'', rp_handle = JUndef, rp_cursor = next,
       rp_detail = JObj [(''reclaimed'', jint reclaimed), (''scanned'', jint (int (length page)))]\<rparr>)))))"

definition acquireKernelDefaultCutover :: "string \<Rightarrow> int \<Rightarrow> native_reply native" where
  "acquireKernelDefaultCutover uuid now =
     nbind (sql_read Kernel_cutover_table KERNEL_DEFAULT_WINDOW_CUTOVER_V2_KEY now) (\<lambda>rd.
     case decideKernelDefaultWindowCutover (kernel_read_of rd) uuid now of
       XRefused reason \<Rightarrow> nreturn (reply ''refused'' (JObj [(''kind'', JStr ''refused''), (''reason'', JStr reason)]))
     | XAcquire marker expireIn \<Rightarrow>
         nbind (sql_write Kernel_cutover_table KERNEL_DEFAULT_WINDOW_CUTOVER_V2_KEY (kernel_cutover_js marker)
                  (Some (now + expireIn)) no_index) (\<lambda>_.
         nreturn (reply ''acquire'' (JObj [(''kind'', JStr ''acquire''), (''marker'', kernel_cutover_js marker),
           (''expireIn'', jint expireIn)]))))"

section \<open>Policies\<close>

record set_quota_arguments =
  sa_usageLimitRequests :: int
  sa_options :: policy_options

text \<open>
  A reclaim that is attempted when live reservations stand in the way; the result says whether they
  still do, and gives the window read last.
\<close>

definition drainWindow :: "kernel_identity \<Rightarrow> int \<Rightarrow> (bool \<times> kernel_window option) native" where
  "drainWindow i now =
     nbind (reclaimWindow i now) (\<lambda>_.
     nbind (readWindow i now) (\<lambda>(_, window).
     nreturn (hasLiveKernelReservations window now, window)))"

definition setPolicy ::
  "kernel_constants \<Rightarrow> kernel_identity \<Rightarrow> set_quota_arguments \<Rightarrow> effective_policy \<Rightarrow> kernel_window option \<Rightarrow> int \<Rightarrow> native_reply native" where
  "setPolicy c i args current window now =
     (let timing = resolveKernelPolicyTiming (sa_options args) current (kc_noExpirationMs c);
          reset = kernelQuotaPolicyResetRequested (sa_options args) (ep_windowMs current) (fst timing)
      in
      nbind (case decideKernelPolicyWindowGuard window (window \<noteq> None) reset now of
               GReclaim _ \<Rightarrow> drainWindow i now
             | _ \<Rightarrow> nreturn (False, window)) (\<lambda>(blocked, w).
      if blocked then nreturn (reply ''conflict'' JUndef)
      else
        let policy = makeKernelQuotaPolicy i current (jint (sa_usageLimitRequests args)) timing (kc_noUsageLimit c) now;
            plan = decideKernelQuotaPolicyWrite i policy w reset now
        in
        nbind (nlift (kernelScopedPolicyKey (ki_scope i) (ki_owner i) (ki_repo i))) (\<lambda>key.
        nbind (sql_write Kernel_policy_table key (kernel_policy_js (fst plan)) None no_index) (\<lambda>_.
        nbind (writeWindow i (snd plan) None None) (\<lambda>_.
        nreturn (reply ''written'' (kernel_policy_js (fst plan))))))))"

definition deletePolicy ::
  "kernel_constants \<Rightarrow> kernel_identity \<Rightarrow> native_read \<Rightarrow> native_read \<Rightarrow> effective_policy \<Rightarrow> kernel_window option \<Rightarrow> int \<Rightarrow> native_reply native" where
  "deletePolicy c i entry marker current window now =
     (case decideKernelQuotaPolicyDeletePrecondition (kernel_read_of entry) (kernel_read_of marker) of
        DAbsent \<Rightarrow> nreturn (reply ''absent'' JUndef)
      | DConflict \<Rightarrow> nreturn (reply ''conflict'' JUndef)
      | DProceed \<Rightarrow>
          nbind (if hasLiveKernelReservations window now then drainWindow i now else nreturn (False, window)) (\<lambda>(blocked, w).
          if blocked then nreturn (reply ''conflict'' JUndef)
          else
          nbind (kernelDefaults c now) (\<lambda>defaults.
          nbind (nlift (kernelScopedPolicyKey (ki_scope i) (ki_owner i) (ki_repo i))) (\<lambda>key.
          nbind (sql_delete Kernel_policy_table key) (\<lambda>_.
          nbind (writeWindow i (decideKernelQuotaPolicyDeleteWindow i current defaults w now) None None) (\<lambda>_.
          nreturn (reply ''deleted'' JUndef)))))))"

text \<open>
  A repo policy that would take over from the organisation waits until the organisation's window has
  no live reservations.
\<close>

definition orgInheritanceBlocked :: "native_capability \<Rightarrow> kernel_identity \<Rightarrow> native_read \<Rightarrow> int \<Rightarrow> bool native" where
  "orgInheritanceBlocked cap i entry now =
     (if ki_scope i = RepoScope \<and> nr_value entry = JNull
      then nbind (nlift (nativeIdentity OrgScope cap)) (\<lambda>org.
           nbind (readWindow org now) (\<lambda>(_, window).
           if hasLiveKernelReservations window now
           then nbind (drainWindow org now) (\<lambda>(blocked, _). nreturn blocked)
           else nreturn False))
      else nreturn False)"

definition kernelPolicy ::
  "kernel_constants \<Rightarrow> native_capability \<Rightarrow> kernel_scope \<Rightarrow> set_quota_arguments option \<Rightarrow> int \<Rightarrow> native_reply native" where
  "kernelPolicy c cap sc args now =
     nbind (nlift (nativeIdentity sc cap)) (\<lambda>i.
     nbind (nlift (kernelScopedPolicyKey (ki_scope i) (ki_owner i) (ki_repo i))) (\<lambda>policyKey.
     nbind (nlift (kernelScopedWindowKey (ki_scope i) (ki_owner i) (ki_repo i))) (\<lambda>windowKey.
     nbind (sql_read Kernel_policy_table policyKey now) (\<lambda>entry.
     nbind (sql_read Kernel_cutover_table KERNEL_DEFAULT_WINDOW_CUTOVER_V2_KEY now) (\<lambda>marker.
     nbind (kernelDefaults c now) (\<lambda>defaults.
     nbind (nlift (policyFor (kernel_read_of entry) (ki_scope i) (ki_owner i) (ki_repo i) defaults c)) (\<lambda>current.
     if kernelQuotaDefaultCutoverBlocks current (kernel_read_of marker) then nreturn (reply ''conflict'' JUndef)
     else
     nbind (orgInheritanceBlocked cap i entry now) (\<lambda>blocked.
     if blocked then nreturn (reply ''conflict'' JUndef)
     else
     nbind (readWindow i now) (\<lambda>(_, window).
     case args of
       Some a \<Rightarrow> setPolicy c i a current window now
     | None \<Rightarrow> deletePolicy c i entry marker current window now)))))))))"

definition setKernelQuota ::
  "kernel_constants \<Rightarrow> native_capability \<Rightarrow> kernel_scope \<Rightarrow> set_quota_arguments \<Rightarrow> int \<Rightarrow> native_reply native" where
  "setKernelQuota c cap sc args now = kernelPolicy c cap sc (Some args) now"

definition deleteKernelQuota :: "kernel_constants \<Rightarrow> native_capability \<Rightarrow> kernel_scope \<Rightarrow> int \<Rightarrow> native_reply native" where
  "deleteKernelQuota c cap sc now = kernelPolicy c cap sc None now"

end
