(* ===== verification/Kernel_Ledger.thy ===== *)
theory Kernel_Ledger
  imports Native_Kernel Share_Ledger
begin

text \<open>
  The kernel quota ledger without its storage: a clock, one current window per identity, and the
  reservation rows of all windows. A window that has not reached its reset time counts what its rows
  hold; rows of older windows keep their state but are counted by no window. The steps are what the
  native authority's kernel operations do to the rows, and the invariant of the steps is that the
  counters are right.
\<close>

type_synonym kernel_ident = "kernel_scope \<times> string \<times> string option"

record kernel_ledger =
  kl_clock :: int
  kl_windows :: "kernel_ident \<rightharpoonup> kernel_window"
  kl_rows :: "kernel_reservation dict"

definition row_ident :: "kernel_reservation \<Rightarrow> kernel_ident" where
  "row_ident r = (rv_scope r, rv_owner r, rv_repo r)"

definition row_window :: "kernel_reservation \<Rightarrow> kernel_ident \<times> int" where
  "row_window r = (row_ident r, rv_window_created_at_ms r)"

datatype kernel_counter = UsageRequests | ReservedRequests

fun counter_of :: "kernel_counter \<Rightarrow> kernel_window \<Rightarrow> int" where
  "counter_of UsageRequests w = kw_usage_requests w"
| "counter_of ReservedRequests w = kw_reserved_requests w"

fun row_share :: "kernel_counter \<Rightarrow> kernel_reservation \<Rightarrow> int" where
  "row_share UsageRequests r = of_bool (rv_state r = RowCommitted)"
| "row_share ReservedRequests r = of_bool (rv_state r = RowReserved)"

text \<open>The current window of an identity, as long as it is the one asked for and not yet over.\<close>

definition window_at :: "int \<Rightarrow> (kernel_ident \<rightharpoonup> kernel_window) \<Rightarrow> kernel_ident \<times> int \<rightharpoonup> kernel_window" where
  "window_at clock ws k = (case ws (fst k) of
      None \<Rightarrow> None
    | Some w \<Rightarrow> if kw_created_at_ms w = snd k \<and> clock < kw_usage_reset_at_ms w then Some w else None)"

interpretation kernel_shares: share_ledger counter_of row_share row_window "\<lambda>_. True"
proof
  fix f and r :: kernel_reservation
  show "0 \<le> row_share f r" by (cases f) simp_all
qed

section \<open>Steps\<close>

definition window_shape :: "kernel_window \<Rightarrow> bool" where
  "window_shape w \<longleftrightarrow> 0 < kw_applied_window_ms w \<and> kw_usage_reset_at_ms w = kw_created_at_ms w + kw_applied_window_ms w"

text \<open>A window that may replace the one an identity has: empty, and created later.\<close>

definition fresh_window :: "kernel_ledger \<Rightarrow> kernel_ident \<Rightarrow> kernel_window \<Rightarrow> bool" where
  "fresh_window l i w \<longleftrightarrow> window_shape w \<and> kw_usage_requests w = 0 \<and> kw_reserved_requests w = 0 \<and>
     (case kl_windows l i of None \<Rightarrow> True | Some old \<Rightarrow> kw_created_at_ms old < kw_created_at_ms w)"

definition same_window :: "kernel_window \<Rightarrow> kernel_window \<Rightarrow> bool" where
  "same_window w v \<longleftrightarrow> kw_created_at_ms v = kw_created_at_ms w \<and> kw_usage_reset_at_ms v = kw_usage_reset_at_ms w \<and>
     kw_applied_window_ms v = kw_applied_window_ms w"

inductive ledger_step :: "kernel_ledger \<Rightarrow> kernel_ledger \<Rightarrow> bool" where
  L_tick: "kl_clock l \<le> now \<Longrightarrow> ledger_step l (l\<lparr>kl_clock := now\<rparr>)"
| L_window: "fresh_window l i w \<Longrightarrow> ledger_step l (l\<lparr>kl_windows := (kl_windows l)(i \<mapsto> w)\<rparr>)"
| L_touch_window: "kl_windows l i = Some w \<Longrightarrow> same_window w v \<Longrightarrow> (\<And>f. counter_of f v = counter_of f w) \<Longrightarrow>
    ledger_step l (l\<lparr>kl_windows := (kl_windows l)(i \<mapsto> v)\<rparr>)"
| L_touch_dead: "kl_windows l i = Some w \<Longrightarrow> kw_usage_reset_at_ms w \<le> kl_clock l \<Longrightarrow> same_window w v \<Longrightarrow>
    ledger_step l (l\<lparr>kl_windows := (kl_windows l)(i \<mapsto> v)\<rparr>)"
| L_reserve: "kl_windows l i = Some w \<Longrightarrow> kl_clock l < kw_usage_reset_at_ms w \<Longrightarrow> same_window w v \<Longrightarrow> map_of (kl_rows l) h = None \<Longrightarrow>
    row_window r = (i, kw_created_at_ms w) \<Longrightarrow> rv_window_reset_at_ms r = kw_usage_reset_at_ms w \<Longrightarrow>
    rv_state r = RowReserved \<Longrightarrow> kw_usage_requests v = kw_usage_requests w \<Longrightarrow>
    kw_reserved_requests v = kw_reserved_requests w + 1 \<Longrightarrow>
    ledger_step l (l\<lparr>kl_windows := (kl_windows l)(i \<mapsto> v), kl_rows := put h r (kl_rows l)\<rparr>)"
| L_touch_row: "map_of (kl_rows l) h = Some r \<Longrightarrow> row_window q = row_window r \<Longrightarrow>
    rv_window_reset_at_ms q = rv_window_reset_at_ms r \<Longrightarrow> rv_state q = rv_state r \<Longrightarrow>
    ledger_step l (l\<lparr>kl_rows := put h q (kl_rows l)\<rparr>)"
| L_settle: "map_of (kl_rows l) h = Some r \<Longrightarrow> rv_state r = RowReserved \<Longrightarrow> row_window q = row_window r \<Longrightarrow>
    rv_window_reset_at_ms q = rv_window_reset_at_ms r \<Longrightarrow> rv_state q = terminal_row_state t \<Longrightarrow>
    kl_windows l (row_ident r) = Some w \<Longrightarrow> kw_created_at_ms w = rv_window_created_at_ms r \<Longrightarrow>
    kl_clock l < kw_usage_reset_at_ms w \<Longrightarrow> same_window w v \<Longrightarrow> kw_usage_requests v = kw_usage_requests w + of_bool (t = Committed) \<Longrightarrow>
    kw_reserved_requests v = kw_reserved_requests w - 1 \<Longrightarrow>
    ledger_step l (l\<lparr>kl_windows := (kl_windows l)(row_ident r \<mapsto> v), kl_rows := put h q (kl_rows l)\<rparr>)"
| L_settle_old: "map_of (kl_rows l) h = Some r \<Longrightarrow> rv_state r = RowReserved \<Longrightarrow> row_window q = row_window r \<Longrightarrow>
    rv_window_reset_at_ms q = rv_window_reset_at_ms r \<Longrightarrow> rv_state q = terminal_row_state t \<Longrightarrow>
    window_at (kl_clock l) (kl_windows l) (row_window r) = None \<Longrightarrow> ledger_step l (l\<lparr>kl_rows := put h q (kl_rows l)\<rparr>)"

section \<open>The counters are right\<close>

abbreviation ledger_balanced :: "int \<Rightarrow> (kernel_ident \<rightharpoonup> kernel_window) \<Rightarrow> kernel_reservation dict \<Rightarrow> bool" where
  "ledger_balanced clock ws rows \<equiv> balanced counter_of row_share row_window (window_at clock ws) rows"

definition row_backed :: "kernel_ledger \<Rightarrow> kernel_reservation \<Rightarrow> bool" where
  "row_backed l r = (case kl_windows l (row_ident r) of
      None \<Rightarrow> False
    | Some w \<Rightarrow> rv_window_created_at_ms r \<le> kw_created_at_ms w \<and>
        (rv_window_created_at_ms r = kw_created_at_ms w \<longrightarrow> rv_window_reset_at_ms r = kw_usage_reset_at_ms w))"

definition ledger_inv :: "kernel_ledger \<Rightarrow> bool" where
  "ledger_inv l \<longleftrightarrow>
     ledger_balanced (kl_clock l) (kl_windows l) (kl_rows l) \<and>
     (\<forall>r \<in> set (vals (kl_rows l)). row_backed l r) \<and> (\<forall>i w. kl_windows l i = Some w \<longrightarrow> window_shape w)"

lemma ledger_invD:
  assumes "ledger_inv l"
  shows "ledger_balanced (kl_clock l) (kl_windows l) (kl_rows l)"
    and "r \<in> set (vals (kl_rows l)) \<Longrightarrow> row_backed l r" and "kl_windows l i = Some w \<Longrightarrow> window_shape w"
  using assms unfolding ledger_inv_def by blast+

lemma balanced_touch:
  "balanced cnt share key ws rows \<Longrightarrow> ws k = Some w \<Longrightarrow> (\<And>f. cnt f v = cnt f w) \<Longrightarrow>
     balanced cnt share key (ws(k \<mapsto> v)) rows"
  by (simp add: balanced_def)

lemma window_at_live:
  "ws i = Some w \<Longrightarrow> clock < kw_usage_reset_at_ms w \<Longrightarrow> same_window w v \<Longrightarrow>
     window_at clock (ws(i \<mapsto> v)) = (window_at clock ws)((i, kw_created_at_ms w) \<mapsto> v)"
  by (auto simp: window_at_def fun_eq_iff same_window_def)

lemma window_at_dead:
  "ws i = Some w \<Longrightarrow> kw_usage_reset_at_ms w \<le> clock \<Longrightarrow> same_window w v \<Longrightarrow> window_at clock (ws(i \<mapsto> v)) = window_at clock ws"
  by (auto simp: window_at_def fun_eq_iff same_window_def)

lemma row_backed_same:
  assumes "kl_windows l i = Some w" and "same_window w v" and "row_backed l r"
  shows "row_backed (l\<lparr>kl_windows := (kl_windows l)(i \<mapsto> v)\<rparr>) r"
    and "row_backed (l\<lparr>kl_windows := (kl_windows l)(i \<mapsto> v), kl_rows := rs\<rparr>) r"
  using assms by (auto simp: row_backed_def same_window_def split: option.splits)

lemma row_backed_cong:
  "row_window q = row_window r \<Longrightarrow> rv_window_reset_at_ms q = rv_window_reset_at_ms r \<Longrightarrow> row_backed l q = row_backed l r"
  by (simp add: row_backed_def row_window_def split: option.splits)

lemma row_backed_rows [simp]: "row_backed (l\<lparr>kl_rows := rs\<rparr>) r = row_backed l r" "row_backed (l\<lparr>kl_clock := n\<rparr>) r = row_backed l r"
  by (simp_all add: row_backed_def)

lemma same_window_shape: "same_window w v \<Longrightarrow> window_shape v = window_shape w"
  by (simp add: same_window_def window_shape_def)

lemma same_window_refl [simp]: "same_window w w"
  by (simp add: same_window_def)

lemma fresh_window_inv:
  assumes inv: "ledger_inv l" and fresh: "fresh_window l i w"
  shows "ledger_inv (l\<lparr>kl_windows := (kl_windows l)(i \<mapsto> w)\<rparr>)"
proof -
  have older: "rv_window_created_at_ms r < kw_created_at_ms w" if "r \<in> set (vals (kl_rows l))" "row_ident r = i" for r
    using ledger_invD(2) [OF inv that(1)] fresh that(2) by (auto simp: row_backed_def fresh_window_def split: option.splits)
  have "holdings (row_share f) row_window (i, kw_created_at_ms w) (kl_rows l) = 0" for f
    using older by (intro holdings_absent) (force simp: row_window_def)
  moreover have "counter_of f w = 0" for f using fresh by (cases f) (simp_all add: fresh_window_def)
  ultimately have "ledger_balanced (kl_clock l) ((kl_windows l)(i \<mapsto> w)) (kl_rows l)"
    using ledger_invD(1) [OF inv] by (auto simp: balanced_def window_at_def split: if_splits)
  moreover have "row_backed (l\<lparr>kl_windows := (kl_windows l)(i \<mapsto> w)\<rparr>) r" if "r \<in> set (vals (kl_rows l))" for r
    using ledger_invD(2) [OF inv that] older [OF that] by (auto simp: row_backed_def)
  moreover have "window_shape w" using fresh by (simp add: fresh_window_def)
  ultimately show ?thesis using ledger_invD(3) [OF inv] by (auto simp: ledger_inv_def)
qed

lemma ledger_inv_window:
  assumes inv: "ledger_inv l" and w: "kl_windows l i = Some w" and v: "same_window w v"
    and "ledger_balanced (kl_clock l) ((kl_windows l)(i \<mapsto> v)) (kl_rows l)"
  shows "ledger_inv (l\<lparr>kl_windows := (kl_windows l)(i \<mapsto> v)\<rparr>)"
proof -
  have "window_shape u" if "((kl_windows l)(i \<mapsto> v)) j = Some u" for j u
    using that ledger_invD(3) [OF inv] w same_window_shape [OF v] by (auto split: if_splits)
  with assms(4) row_backed_same(1) [OF w v] ledger_invD(2) [OF inv] show ?thesis
    by (simp add: ledger_inv_def del: fun_upd_apply)
qed

lemma ledger_inv_put:
  assumes inv: "ledger_inv l" and "row_backed l q" and "ledger_balanced (kl_clock l) (kl_windows l) (put h q (kl_rows l))"
  shows "ledger_inv (l\<lparr>kl_rows := put h q (kl_rows l)\<rparr>)"
proof -
  have "\<forall>x \<in> set (vals (put h q (kl_rows l))). row_backed l x"
    using ledger_invD(2) [OF inv] assms(2) by (intro vals_put_ball) auto
  with assms(3) ledger_invD(3) [OF inv] show ?thesis by (simp add: ledger_inv_def)
qed

lemma ledger_inv_put_window:
  assumes inv: "ledger_inv l" and w: "kl_windows l i = Some w" and live: "kl_clock l < kw_usage_reset_at_ms w"
    and v: "same_window w v" and "row_backed l q"
    and "balanced counter_of row_share row_window
      ((window_at (kl_clock l) (kl_windows l))((i, kw_created_at_ms w) \<mapsto> v)) (put h q (kl_rows l))"
  shows "ledger_inv (l\<lparr>kl_windows := (kl_windows l)(i \<mapsto> v), kl_rows := put h q (kl_rows l)\<rparr>)"
proof -
  have "\<forall>x \<in> set (vals (put h q (kl_rows l))). row_backed l x"
    using ledger_invD(2) [OF inv] assms(5) by (intro vals_put_ball) auto
  then have "\<forall>x \<in> set (vals (put h q (kl_rows l))). row_backed (l\<lparr>kl_windows := (kl_windows l)(i \<mapsto> v), kl_rows := put h q (kl_rows l)\<rparr>) x"
    using row_backed_same(2) [OF w v] by blast
  moreover have "window_shape u" if "((kl_windows l)(i \<mapsto> v)) j = Some u" for j u
    using that ledger_invD(3) [OF inv] w same_window_shape [OF v] by (auto split: if_splits)
  ultimately show ?thesis
    using assms(6) by (simp add: ledger_inv_def window_at_live [of "kl_windows l", OF w live v] del: fun_upd_apply)
qed

lemma row_backed_stored: "ledger_inv l \<Longrightarrow> map_of (kl_rows l) h = Some r \<Longrightarrow> row_window q = row_window r \<Longrightarrow>
    rv_window_reset_at_ms q = rv_window_reset_at_ms r \<Longrightarrow> row_backed l q"
  using row_backed_cong ledger_invD(2) map_of_vals by metis

lemma ledger_step_inv: "ledger_step l m \<Longrightarrow> ledger_inv l \<Longrightarrow> ledger_inv m"
proof (induction rule: ledger_step.induct)
  case (L_tick l now)
  have "ledger_balanced now (kl_windows l) (kl_rows l)"
    using ledger_invD(1) [OF L_tick(2)] L_tick(1)
    by (auto simp: balanced_def window_at_def split: option.splits if_splits)
  with L_tick(2) show ?case by (simp add: ledger_inv_def)
next
  case (L_window l i w)
  then show ?case by (simp add: fresh_window_inv)
next
  case (L_touch_window l i w v)
  have "ledger_balanced (kl_clock l) ((kl_windows l)(i \<mapsto> v)) (kl_rows l)"
  proof (cases "kl_clock l < kw_usage_reset_at_ms w")
    case True
    show ?thesis unfolding window_at_live [of "kl_windows l", OF L_touch_window(1) True L_touch_window(2)]
      by (rule balanced_touch [OF ledger_invD(1) [OF L_touch_window(4)], of _ w])
        (use L_touch_window True in \<open>simp_all add: window_at_def\<close>)
  next
    case False
    then show ?thesis using L_touch_window ledger_invD(1) by (simp add: window_at_dead)
  qed
  with L_touch_window show ?case by (intro ledger_inv_window)
next
  case (L_touch_dead l i w v)
  then have "ledger_balanced (kl_clock l) ((kl_windows l)(i \<mapsto> v)) (kl_rows l)" using ledger_invD(1) by (simp add: window_at_dead)
  with L_touch_dead show ?case by (intro ledger_inv_window)
next
  case (L_reserve l i w v h r)
  have "window_at (kl_clock l) (kl_windows l) (i, kw_created_at_ms w) = Some w" using L_reserve(1,2) by (simp add: window_at_def)
  moreover have "counter_of f v = counter_of f w + row_share f r" for f using L_reserve by (cases f) simp_all
  ultimately have "balanced counter_of row_share row_window
      ((window_at (kl_clock l) (kl_windows l))(row_window r \<mapsto> v)) (put h r (kl_rows l))"
    using L_reserve by (intro kernel_shares.balanced_insert [where w = w] ledger_invD(1)) auto
  moreover have "row_backed l r" using L_reserve by (simp add: row_backed_def row_window_def)
  ultimately show ?case using L_reserve by (intro ledger_inv_put_window) simp_all
next
  case (L_touch_row l h r q)
  have "row_share f q = row_share f r" for f using L_touch_row(4) by (cases f) simp_all
  with L_touch_row show ?case
    by (intro ledger_inv_put kernel_shares.balanced_keep ledger_invD(1) row_backed_stored) auto
next
  case (L_settle l h r q t w v)
  have "window_at (kl_clock l) (kl_windows l) (row_window r) = Some w" using L_settle by (simp add: window_at_def row_window_def)
  moreover have "counter_of f v = counter_of f w - row_share f r + row_share f q" for f
    using L_settle by (cases f; cases t) simp_all
  ultimately have "balanced counter_of row_share row_window
      ((window_at (kl_clock l) (kl_windows l))(row_window r \<mapsto> v)) (put h q (kl_rows l))"
    using L_settle by (intro kernel_shares.balanced_replace [where w = w] ledger_invD(1)) auto
  then have "balanced counter_of row_share row_window
      ((window_at (kl_clock l) (kl_windows l))((row_ident r, kw_created_at_ms w) \<mapsto> v)) (put h q (kl_rows l))"
    using L_settle(7) by (simp only: row_window_def)
  moreover have "row_backed l q" using L_settle by (intro row_backed_stored)
  ultimately show ?case using ledger_inv_put_window [OF L_settle(12,6,8,9)] by blast
next
  case (L_settle_old l h r q t)
  have "ledger_balanced (kl_clock l) (kl_windows l) (put h q (kl_rows l))"
    using ledger_invD(1) [OF L_settle_old(7)] L_settle_old(1-6) by (auto simp: balanced_def holdings_replace)
  with L_settle_old show ?case by (intro ledger_inv_put row_backed_stored)
qed

interpretation kernel_machine: machine ledger_step ledger_inv
  by unfold_locales (rule ledger_step_inv)

end
