(* ===== verification/Kernel_Store.thy ===== *)
theory Kernel_Store
  imports Kernel_Ledger
begin

text \<open>
  The kernel rows of the native authority's store as a ledger. \<open>store_ok\<close> says that the rows are what
  the operations write: fit for storage, under their own keys, and kept at least until their window is
  over. Under it every kernel operation of the native authority is a sequence of ledger steps.
\<close>

section \<open>Keys\<close>

fun window_key :: "kernel_ident \<Rightarrow> kv_key" where
  "window_key (sc, owner, repo) =
     (case repo of None \<Rightarrow> kernelOrgWindowKey owner | Some r \<Rightarrow> kernelRepoWindowKey owner r)"

definition reservation_key :: "kernel_ident \<Rightarrow> int \<Rightarrow> string \<Rightarrow> kv_key" where
  "reservation_key i created requestId =
     (case i of (sc, owner, repo) \<Rightarrow>
        (case repo of None \<Rightarrow> kernelOrgReservationKey owner created requestId
         | Some r \<Rightarrow> kernelRepoReservationKey owner r created requestId))"

definition row_key :: "kernel_reservation \<Rightarrow> kv_key" where
  "row_key r = reservation_key (row_ident r) (rv_window_created_at_ms r) (rv_request_id r)"

fun ident_ok :: "kernel_ident \<Rightarrow> bool" where
  "ident_ok (sc, owner, repo) = identity_ok sc repo"

definition ident_of :: "kernel_scope \<Rightarrow> string \<Rightarrow> string option \<Rightarrow> kernel_ident" where
  "ident_of sc owner repo = (sc, owner, scoped_repo sc repo)"

lemmas kernel_prefixes = KERNEL_QUOTA_V2_PREFIX_def KERNEL_REPO_POLICY_V2_PREFIX_def KERNEL_ORG_POLICY_V2_PREFIX_def
  KERNEL_REPO_WINDOW_V2_PREFIX_def KERNEL_ORG_WINDOW_V2_PREFIX_def KERNEL_REPO_RESERVATION_V2_PREFIX_def
  KERNEL_ORG_RESERVATION_V2_PREFIX_def kernelRepoWindowKey_def kernelOrgWindowKey_def kernelRepoReservationKey_def
  kernelOrgReservationKey_def

lemma scoped_window_key:
  "kernelScopedWindowKey sc owner repo = Inr k \<longleftrightarrow> (sc = RepoScope \<longrightarrow> repo \<noteq> None) \<and> k = window_key (ident_of sc owner repo)"
  by (cases sc; cases repo)
    (auto simp: kernelScopedWindowKey_def kernelRepoPart_def require_def ident_of_def scoped_repo_def)

lemma scoped_reservation_key:
  "kernelReservationKey sc owner repo c q = Inr k \<longleftrightarrow>
     (sc = RepoScope \<longrightarrow> repo \<noteq> None) \<and> k = reservation_key (ident_of sc owner repo) c q"
  by (cases sc; cases repo)
    (auto simp: kernelReservationKey_def kernelRepoPart_def require_def ident_of_def scoped_repo_def reservation_key_def)

lemma ident_of_ok [simp]: "(sc = RepoScope \<longrightarrow> repo \<noteq> None) \<Longrightarrow> ident_ok (ident_of sc owner repo)"
  by (auto simp: ident_of_def identity_ok_def scoped_repo_def)

lemma window_key_ok: "key_ok (window_key i)"
  by (cases i rule: window_key.cases) (simp add: key_ok_def kernel_prefixes split: option.splits)

lemma reservation_key_ok: "is_safe_integer c \<Longrightarrow> key_ok (reservation_key i c q)"
  by (cases i) (auto simp: key_ok_def reservation_key_def kernel_prefixes split: option.splits)

lemma window_key_inj:
  assumes "ident_ok i" "ident_ok j" and "nativeKey (window_key i) = nativeKey (window_key j)"
  shows "i = j"
proof -
  have "window_key i = window_key j" using nativeKey_inj [OF window_key_ok window_key_ok assms(3)] .
  with assms(1,2) show ?thesis
    by (cases i rule: ident_ok.cases; cases j rule: ident_ok.cases)
      (auto simp: kernel_prefixes identity_ok_def split: option.splits, metis kernel_scope.exhaust)
qed

lemma reservation_key_inj:
  assumes "ident_ok i" "ident_ok j" and "is_safe_integer c" "is_safe_integer d"
    and "nativeKey (reservation_key i c p) = nativeKey (reservation_key j d q)"
  shows "i = j \<and> c = d \<and> p = q"
proof -
  have "reservation_key i c p = reservation_key j d q"
    using nativeKey_inj [OF reservation_key_ok reservation_key_ok assms(5)] assms(3,4) by blast
  with assms(1,2) show ?thesis
    by (cases i rule: ident_ok.cases; cases j rule: ident_ok.cases)
      (auto simp: kernel_prefixes reservation_key_def identity_ok_def split: option.splits, (metis kernel_scope.exhaust)+)
qed

section \<open>The ledger of a store\<close>

definition decode_reservation :: "js \<Rightarrow> kernel_reservation option" where
  "decode_reservation v =
     Option.bind (scope_of_js (js_get v ''scope'')) (\<lambda>sc.
     Option.bind (js_text (js_get v ''owner'')) (\<lambda>owner.
     normalizeKernelQuotaReservationRowV2 v sc owner (js_text (js_get v ''repo''))))"

definition stored_window :: "sql_store \<Rightarrow> kernel_ident \<Rightarrow> kernel_window option" where
  "stored_window s i =
     (if ident_ok i
      then Option.bind (map_of (sq_rows s Kernel_window_table) (nativeKey (window_key i)))
             (\<lambda>row. normalizeKernelQuotaWindowV2 (sr_value row) (fst i) (fst (snd i)) (snd (snd i)))
      else None)"

definition stored_reservations :: "sql_store \<Rightarrow> kernel_reservation dict" where
  "stored_reservations s = map (\<lambda>(h, row). (h, the (decode_reservation (sr_value row)))) (sq_rows s Kernel_reservation_table)"

definition ledger_of :: "int \<Rightarrow> sql_store \<Rightarrow> kernel_ledger" where
  "ledger_of clock s = \<lparr>kl_clock = clock, kl_windows = stored_window s, kl_rows = stored_reservations s\<rparr>"

definition kept_until :: "int \<Rightarrow> sql_row \<Rightarrow> bool" where
  "kept_until end_ms row = (case sr_expires_at_ms row of None \<Rightarrow> True | Some e \<Rightarrow> is_safe_integer e \<and> end_ms < e)"

definition reservation_row_ok :: "int \<Rightarrow> string \<Rightarrow> sql_row \<Rightarrow> bool" where
  "reservation_row_ok clock h row \<longleftrightarrow>
     (\<exists>r. sr_value row = kernel_reservation_js r \<and> reservation_ok r \<and> sr_key row = row_key r \<and> h = nativeKey (row_key r) \<and>
        kept_until (rv_window_reset_at_ms r) row \<and> rv_reserved_at_ms r \<le> clock)"

definition window_row_ok :: "int \<Rightarrow> int \<Rightarrow> kernel_ident \<Rightarrow> sql_row \<Rightarrow> bool" where
  "window_row_ok clock sequence i row \<longleftrightarrow>
     (\<exists>w. sr_value row = kernel_window_js w \<and> window_ok w \<and> (kw_scope w, kw_owner w, kw_repo w) = i \<and>
        kept_until (kw_usage_reset_at_ms w) row \<and> kw_created_at_ms w \<le> clock \<and>
        kw_usage_requests w + kw_reserved_requests w \<le> sequence)"

definition request_row_ok :: "sql_row \<Rightarrow> bool" where
  "request_row_ok row \<longleftrightarrow> js_get (sr_value row) ''requestId'' \<noteq> JStr [] \<and> js_get (sr_value row) ''route'' \<noteq> JStr []"

definition store_ok :: "int \<Rightarrow> sql_store \<Rightarrow> bool" where
  "store_ok clock s \<longleftrightarrow>
     0 \<le> sq_sequence s \<and> wf_dict (sq_rows s Kernel_reservation_table) \<and>
     (\<forall>(h, row) \<in> set (sq_rows s Kernel_reservation_table). reservation_row_ok clock h row) \<and>
     (\<forall>i row. ident_ok i \<longrightarrow> map_of (sq_rows s Kernel_window_table) (nativeKey (window_key i)) = Some row \<longrightarrow>
        window_row_ok clock (sq_sequence s) i row) \<and>
     (\<forall>row \<in> set (vals (sq_rows s Request_lifetime)). request_row_ok row)"

lemma decode_reservation_js [simp]: "reservation_ok r \<Longrightarrow> decode_reservation (kernel_reservation_js r) = Some r"
proof -
  assume r: "reservation_ok r"
  then have i: "identity_ok (rv_scope r) (rv_repo r)" by (simp add: reservation_ok_def)
  have "scope_of_js (js_get (kernel_reservation_js r) ''scope'') = Some (rv_scope r)"
    by (cases "rv_scope r") (simp_all add: kernel_reservation_js_def identity_fields_def scope_of_js_def)
  moreover have "js_text (js_get (kernel_reservation_js r) ''owner'') = Some (rv_owner r)"
    by (simp add: kernel_reservation_js_def identity_fields_def)
  moreover have "js_text (js_get (kernel_reservation_js r) ''repo'') = rv_repo r"
    using i by (cases "rv_repo r") (simp_all add: kernel_reservation_js_def identity_fields_def)
  ultimately show ?thesis using reservation_read_back [OF r] by (simp add: decode_reservation_def)
qed

lemma stored_reservations_put [simp]:
  "reservation_ok r \<Longrightarrow> sr_value row = kernel_reservation_js r \<Longrightarrow>
     map (\<lambda>(h, row). (h, the (decode_reservation (sr_value row)))) (put h row d) =
     put h r (map (\<lambda>(h, row). (h, the (decode_reservation (sr_value row)))) d)"
  unfolding put_def by (induction d) auto

lemma map_of_stored: "map_of (stored_reservations s) h =
    map_option (\<lambda>row. the (decode_reservation (sr_value row))) (map_of (sq_rows s Kernel_reservation_table) h)"
  unfolding stored_reservations_def by (simp add: map_of_map)

section \<open>Reading\<close>

abbreviation ident :: "('a) kernel_identity_scheme \<Rightarrow> kernel_ident" where
  "ident i \<equiv> ident_of (ki_scope i) (ki_owner i) (ki_repo i)"

definition identity_valid :: "('a) kernel_identity_scheme \<Rightarrow> bool" where
  "identity_valid i \<longleftrightarrow> (ki_scope i = RepoScope \<longrightarrow> ki_repo i \<noteq> None)"

lemma store_okD:
  assumes "store_ok clock s"
  shows "wf_dict (sq_rows s Kernel_reservation_table)"
    and "(h, row) \<in> set (sq_rows s Kernel_reservation_table) \<Longrightarrow> reservation_row_ok clock h row"
    and "ident_ok i \<Longrightarrow> map_of (sq_rows s Kernel_window_table) (nativeKey (window_key i)) = Some row \<Longrightarrow>
      window_row_ok clock (sq_sequence s) i row"
    and "row \<in> set (vals (sq_rows s Request_lifetime)) \<Longrightarrow> request_row_ok row" and "0 \<le> sq_sequence s"
  using assms unfolding store_ok_def by blast+

lemma ident_ok_window: "window_ok w \<Longrightarrow> ident_ok (kw_scope w, kw_owner w, kw_repo w)"
  by (simp add: window_ok_def)

lemma stored_window_row:
  assumes "store_ok clock s" and "ident_ok i" and "map_of (sq_rows s Kernel_window_table) (nativeKey (window_key i)) = Some row"
  obtains w where "stored_window s i = Some w" "sr_value row = kernel_window_js w" "window_ok w"
    "i = (kw_scope w, kw_owner w, kw_repo w)" "kept_until (kw_usage_reset_at_ms w) row" "kw_created_at_ms w \<le> clock"
    "kw_usage_requests w + kw_reserved_requests w \<le> sq_sequence s"
proof -
  from store_okD(3) [OF assms] obtain w where w: "sr_value row = kernel_window_js w" "window_ok w"
    "(kw_scope w, kw_owner w, kw_repo w) = i" "kept_until (kw_usage_reset_at_ms w) row" "kw_created_at_ms w \<le> clock"
    "kw_usage_requests w + kw_reserved_requests w \<le> sq_sequence s"
    by (auto simp: window_row_ok_def)
  moreover from this assms(2,3) have "stored_window s i = Some w"
    using window_read_back [OF w(2)] by (auto simp: stored_window_def)
  ultimately show thesis using that by metis
qed

lemma stored_window_Some:
  assumes "store_ok clock s" and "stored_window s i = Some w"
  shows "window_ok w" and "i = (kw_scope w, kw_owner w, kw_repo w)" and "kw_created_at_ms w \<le> clock"
    and "kw_usage_requests w + kw_reserved_requests w \<le> sq_sequence s" and "ident_ok i"
proof -
  from assms(2) obtain row where i: "ident_ok i" and row: "map_of (sq_rows s Kernel_window_table) (nativeKey (window_key i)) = Some row"
    by (auto simp: stored_window_def bind_eq_Some_conv split: if_splits)
  with stored_window_row [OF assms(1) i row] assms(2)
  show "window_ok w" and "i = (kw_scope w, kw_owner w, kw_repo w)" and "kw_created_at_ms w \<le> clock"
    and "kw_usage_requests w + kw_reserved_requests w \<le> sq_sequence s" and "ident_ok i"
    by (metis option.inject)+
qed

lemma normalize_scoped:
  "normalizeKernelQuotaWindowV2 v sc owner repo = normalizeKernelQuotaWindowV2 v sc owner (scoped_repo sc repo)"
  "normalizeKernelQuotaReservationRowV2 v sc owner repo = normalizeKernelQuotaReservationRowV2 v sc owner (scoped_repo sc repo)"
  by (cases sc; simp add: scoped_repo_def normalizeKernelQuotaWindowV2_def normalizeKernelQuotaReservationRowV2_def
      validIdentity_def cong: if_cong)+

lemma kept_expired: "kept_until e row \<Longrightarrow> \<not> row_live now row \<Longrightarrow> e < now"
  by (auto simp: kept_until_def row_live_def split: option.splits)

lemma kernel_objects [simp]:
  "nativeObject (kernel_window_js w)" "nativeObject (kernel_reservation_js r)" "nativeObject (kernel_policy_js p)"
  "kernel_window_js w \<noteq> JNull" "kernel_reservation_js r \<noteq> JNull" "kernel_policy_js p \<noteq> JNull"
  by (simp_all add: nativeObject_def kernel_window_js_def kernel_reservation_js_def kernel_policy_js_def)

lemma row_read_value: "row_read t row = Inr rd \<Longrightarrow> nr_value rd = sr_value row"
  by (auto simp: row_read_def rbind_Inr_iff)

text \<open>What a window read gives: the stored window, or nothing when there is none or it is long over.\<close>

lemma readWindow_sound:
  assumes ok: "store_ok clock s" and "readWindow i now s = Inr ((rd, cur), t)"
  shows "t = s" and "identity_valid i"
    and "cur = Some w \<Longrightarrow> stored_window s (ident i) = Some w \<and> nr_value rd \<noteq> JNull"
    and "cur = None \<Longrightarrow> nr_value rd = JNull \<and>
      (case stored_window s (ident i) of None \<Rightarrow> True | Some w \<Rightarrow> kw_usage_reset_at_ms w < now)"
proof -
  from assms(2) have valid: "identity_valid i" and key: "kernelScopedWindowKey (ki_scope i) (ki_owner i) (ki_repo i) = Inr (window_key (ident i))"
    and rd: "sql_read Kernel_window_table (window_key (ident i)) now s = Inr (rd, s)" and t: "t = s"
    and cur: "cur = normalizeKernelQuotaWindowV2 (nr_value rd) (ki_scope i) (ki_owner i) (ki_repo i)"
    and some: "nr_value rd = JNull \<or> cur \<noteq> None"
    by (auto simp: readWindow_def nbind_iff scoped_window_key identity_valid_def Let_def dest: sql_read_store)
  have i: "ident_ok (ident i)" using valid by (simp add: identity_valid_def)
  have read: "(case live_row s Kernel_window_table (window_key (ident i)) now of None \<Rightarrow> Inr absent_read | Some r \<Rightarrow> row_read Kernel_window_table r) = Inr rd"
    using rd by (simp add: sql_read_def)
  have facts: "(cur = None \<longrightarrow> nr_value rd = JNull \<and> (case stored_window s (ident i) of None \<Rightarrow> True | Some w \<Rightarrow> kw_usage_reset_at_ms w < now)) \<and>
    (cur \<noteq> None \<longrightarrow> stored_window s (ident i) = cur \<and> nr_value rd \<noteq> JNull)"
  proof (cases "live_row s Kernel_window_table (window_key (ident i)) now")
    case None
    with read have "nr_value rd = JNull" by (auto simp: absent_read_def)
    moreover from this have "cur = None" by (simp add: cur normalizeKernelQuotaWindowV2_def)
    moreover have "case stored_window s (ident i) of None \<Rightarrow> True | Some w \<Rightarrow> kw_usage_reset_at_ms w < now"
    proof (cases "map_of (sq_rows s Kernel_window_table) (nativeKey (window_key (ident i)))")
      case None
      then show ?thesis by (simp add: stored_window_def)
    next
      case (Some row)
      with None have "\<not> row_live now row"
        using \<open>live_row s Kernel_window_table (window_key (ident i)) now = None\<close> by (auto simp: live_row_def split: if_splits)
      with stored_window_row [OF ok i Some] kept_expired show ?thesis by (metis option.simps(5))
    qed
    ultimately show ?thesis by simp
  next
    case (Some row)
    then have row: "map_of (sq_rows s Kernel_window_table) (nativeKey (window_key (ident i))) = Some row"
      by (auto simp: live_row_def split: option.splits if_splits)
    from stored_window_row [OF ok i row] obtain w where w: "stored_window s (ident i) = Some w" "sr_value row = kernel_window_js w"
      "window_ok w" "ident i = (kw_scope w, kw_owner w, kw_repo w)" by metis
    have v: "nr_value rd = kernel_window_js w" using read Some w(2) row_read_value by auto
    moreover from this some have "cur \<noteq> None" by simp
    moreover have "cur = Some w"
      using window_read_back [OF w(3)] v cur w(4)
        normalize_scoped(1) [of "kernel_window_js w" "ki_scope i" "ki_owner i" "ki_repo i"] by (auto simp: ident_of_def)
    ultimately show ?thesis using w(1) by simp
  qed
  show "t = s" and "identity_valid i" by (fact t, fact valid)
  show "cur = Some w \<Longrightarrow> stored_window s (ident i) = Some w \<and> nr_value rd \<noteq> JNull" using facts by simp
  show "cur = None \<Longrightarrow> nr_value rd = JNull \<and>
      (case stored_window s (ident i) of None \<Rightarrow> True | Some w \<Rightarrow> kw_usage_reset_at_ms w < now)" using facts by simp
qed

lemma reservation_row:
  assumes "store_ok clock s" and "map_of (sq_rows s Kernel_reservation_table) h = Some row"
  obtains r where "map_of (stored_reservations s) h = Some r" "sr_value row = kernel_reservation_js r" "reservation_ok r"
    "sr_key row = row_key r" "h = nativeKey (row_key r)" "kept_until (rv_window_reset_at_ms r) row" "rv_reserved_at_ms r \<le> clock"
proof -
  from store_okD(2) [OF assms(1) map_of_SomeD [OF assms(2)]] obtain r where r: "sr_value row = kernel_reservation_js r"
    "reservation_ok r" "sr_key row = row_key r" "h = nativeKey (row_key r)" "kept_until (rv_window_reset_at_ms r) row"
    "rv_reserved_at_ms r \<le> clock"
    by (auto simp: reservation_row_ok_def)
  moreover from this assms(2) have "map_of (stored_reservations s) h = Some r" by (simp add: map_of_stored)
  ultimately show thesis using that by metis
qed

lemma reservation_stored:
  assumes "store_ok clock s" and "map_of (stored_reservations s) h = Some r"
  obtains row where "map_of (sq_rows s Kernel_reservation_table) h = Some row" "sr_value row = kernel_reservation_js r"
    "reservation_ok r" "sr_key row = row_key r" "h = nativeKey (row_key r)" "kept_until (rv_window_reset_at_ms r) row"
    "rv_reserved_at_ms r \<le> clock"
proof -
  from assms(2) obtain row where row: "map_of (sq_rows s Kernel_reservation_table) h = Some row"
    unfolding map_of_stored by blast
  from reservation_row [OF assms(1) row] assms(2) that [OF row] show thesis by (metis option.inject)
qed

lemma row_ident_ok: "reservation_ok r \<Longrightarrow> ident_ok (row_ident r)" "reservation_ok r \<Longrightarrow> is_safe_integer (rv_window_created_at_ms r)"
  by (simp_all add: reservation_ok_def row_ident_def safe_nonneg_def)

text \<open>What a reservation read gives: the stored row, or nothing when there is none or it is long over.\<close>

definition identity_row :: "sql_store \<Rightarrow> reservation_identity \<Rightarrow> kernel_reservation option" where
  "identity_row s i = map_of (stored_reservations s) (nativeKey (reservation_key (ident i) (ri_windowCreatedAtMs i) (ri_requestId i)))"

lemma identity_row_Some:
  assumes ok: "store_ok clock s" and valid: "identity_valid i" and c: "is_safe_integer (ri_windowCreatedAtMs i)"
    and r: "identity_row s i = Some r"
  shows "reservation_ok r" and "row_ident r = ident i" and "rv_window_created_at_ms r = ri_windowCreatedAtMs i"
    and "rv_request_id r = ri_requestId i" and "rv_reserved_at_ms r \<le> clock"
proof -
  have i: "ident_ok (ident i)" using valid by (simp add: identity_valid_def)
  from reservation_stored [OF ok r [unfolded identity_row_def]] have row: "reservation_ok r"
    "nativeKey (reservation_key (ident i) (ri_windowCreatedAtMs i) (ri_requestId i)) = nativeKey (row_key r)"
    "rv_reserved_at_ms r \<le> clock" by metis+
  have "ident i = row_ident r \<and> ri_windowCreatedAtMs i = rv_window_created_at_ms r \<and> ri_requestId i = rv_request_id r"
    by (rule reservation_key_inj [OF i row_ident_ok(1) [OF row(1)] c row_ident_ok(2) [OF row(1)]])
      (use row(2) in \<open>simp add: row_key_def\<close>)
  with row show "reservation_ok r" and "row_ident r = ident i" and "rv_window_created_at_ms r = ri_windowCreatedAtMs i"
    and "rv_request_id r = ri_requestId i" and "rv_reserved_at_ms r \<le> clock"
    by simp_all
qed

lemma reservationRead_sound:
  assumes ok: "store_ok clock s" and rd: "reservationRead i now s = Inr (rd, t)"
  shows "t = s" and "identity_valid i"
    and "nr_value rd = JNull \<or> (\<exists>r. identity_row s i = Some r \<and> nr_value rd = kernel_reservation_js r)"
    and "identity_row s i = Some r \<Longrightarrow> now \<le> rv_window_reset_at_ms r \<Longrightarrow> nr_value rd = kernel_reservation_js r"
proof -
  define h where "h = nativeKey (reservation_key (ident i) (ri_windowCreatedAtMs i) (ri_requestId i))"
  from rd show valid: "identity_valid i" and t: "t = s"
    by (auto simp: reservationRead_def nbind_iff scoped_reservation_key identity_valid_def dest: sql_read_store)
  from rd have read: "(case live_row s Kernel_reservation_table (reservation_key (ident i) (ri_windowCreatedAtMs i) (ri_requestId i)) now of
      None \<Rightarrow> Inr absent_read | Some r \<Rightarrow> row_read Kernel_reservation_table r) = Inr rd"
    by (auto simp: reservationRead_def nbind_iff scoped_reservation_key sql_read_def)
  have "nr_value rd = JNull" if "map_of (sq_rows s Kernel_reservation_table) h = None"
    using read that by (auto simp: live_row_def absent_read_def h_def)
  moreover have "nr_value rd = (if row_live now row then sr_value row else JNull)"
    if "map_of (sq_rows s Kernel_reservation_table) h = Some row" for row
    using read that row_read_value by (auto simp: live_row_def absent_read_def h_def split: if_splits)
  moreover have row: "\<exists>r. identity_row s i = Some r \<and> sr_value row = kernel_reservation_js r \<and> kept_until (rv_window_reset_at_ms r) row"
    if "map_of (sq_rows s Kernel_reservation_table) h = Some row" for row
    using reservation_row [OF ok that] by (metis identity_row_def h_def)
  ultimately show "nr_value rd = JNull \<or> (\<exists>r. identity_row s i = Some r \<and> nr_value rd = kernel_reservation_js r)"
    by (cases "map_of (sq_rows s Kernel_reservation_table) h") (auto split: if_splits)
  show "nr_value rd = kernel_reservation_js r" if r: "identity_row s i = Some r" and now: "now \<le> rv_window_reset_at_ms r"
  proof -
    from reservation_stored [OF ok r [unfolded identity_row_def]] obtain row where
      row: "map_of (sq_rows s Kernel_reservation_table) h = Some row" "sr_value row = kernel_reservation_js r"
      "kept_until (rv_window_reset_at_ms r) row" unfolding h_def by metis
    have "row_live now row" using kept_expired [OF row(3), of now] now by linarith
    with read row row_read_value show ?thesis by (auto simp: live_row_def h_def)
  qed
qed

section \<open>Writing\<close>

lemma set_put: "e \<in> set (put k v d) \<Longrightarrow> e = (k, v) \<or> e \<in> set d"
  unfolding put_def by (induction d) (auto split: if_splits)

lemma window_row_ok_mono: "window_row_ok clock n i row \<Longrightarrow> clock \<le> now \<Longrightarrow> n \<le> m \<Longrightarrow> window_row_ok now m i row"
  unfolding window_row_ok_def by force

lemma store_ok_tick: "store_ok clock s \<Longrightarrow> clock \<le> now \<Longrightarrow> store_ok now s"
  unfolding store_ok_def reservation_row_ok_def by (fastforce intro: window_row_ok_mono)

lemma sql_write_rows:
  assumes "sql_write t key v e ix s = Inr (x, u)"
  shows "sq_rows u t = put (nativeKey key) \<lparr>sr_key = key, sr_value = v, sr_revision = sq_sequence s + 1, sr_expires_at_ms = e,
           sr_scope = ix_scope ix, sr_parent = ix_parent ix, sr_due = ix_due ix\<rparr> (sq_rows s t)"
    and "t' \<noteq> t \<Longrightarrow> sq_rows u t' = sq_rows s t'" and "sq_sequence u = sq_sequence s + 1"
    and "sq_sequence s < max_safe_integer" and "write_ok t v e"
  using assms by (simp_all add: sql_write_iff)

text \<open>The rows a kernel operation reads or writes; a store that agrees on them has the same ledger.\<close>

lemma store_ok_frame:
  assumes "store_ok clock s" and "sq_rows u Kernel_reservation_table = sq_rows s Kernel_reservation_table"
    and "sq_rows u Kernel_window_table = sq_rows s Kernel_window_table" and "sq_sequence s \<le> sq_sequence u"
    and "\<forall>row \<in> set (vals (sq_rows u Request_lifetime)). request_row_ok row"
  shows "store_ok clock u" and "ledger_of now u = ledger_of now s"
proof -
  have "window_row_ok clock (sq_sequence u) i row"
    if "ident_ok i" "map_of (sq_rows u Kernel_window_table) (nativeKey (window_key i)) = Some row" for i row
    by (rule window_row_ok_mono [OF store_okD(3) [OF assms(1) that(1)]]) (use that(2) assms(3,4) in simp_all)
  then show "store_ok clock u" using assms unfolding store_ok_def by simp
  show "ledger_of now u = ledger_of now s"
    using assms(2,3) by (simp add: ledger_of_def stored_window_def stored_reservations_def fun_eq_iff)
qed

definition other_table :: "native_table \<Rightarrow> bool" where
  "other_table t \<longleftrightarrow> t \<noteq> Kernel_reservation_table \<and> t \<noteq> Kernel_window_table \<and> t \<noteq> Request_lifetime"

lemma write_elsewhere:
  assumes "store_ok clock s" and "sql_write t key v e ix s = Inr (x, u)" and "other_table t"
  shows "store_ok clock u" and "ledger_of now u = ledger_of now s"
  using store_ok_frame [OF assms(1), of u] sql_write_rows [OF assms(2)] assms(3) store_okD(4) [OF assms(1)]
  by (auto simp: other_table_def)

lemma delete_elsewhere:
  assumes "store_ok clock s" and "sql_delete t key s = Inr (x, u)" and "other_table t"
  shows "store_ok clock u" and "ledger_of now u = ledger_of now s"
  using store_ok_frame [OF assms(1), of u] assms(2,3) store_okD(4) [OF assms(1)]
  by (auto simp: other_table_def sql_delete_def)

lemma save_request:
  assumes ok: "store_ok clock s" and "api_save row s = Inr (x, u)"
    and "js_get row ''requestId'' \<noteq> JStr []" "js_get row ''route'' \<noteq> JStr []"
  shows "store_ok clock u" and "ledger_of now u = ledger_of now s"
proof -
  from assms(2) obtain handle ix where w: "sql_write Request_lifetime [KText handle] row None ix s = Inr (x, u)"
    by (auto simp: api_save_def nbind_iff split: if_splits)
  have "\<forall>q \<in> set (vals (sq_rows u Request_lifetime)). request_row_ok q"
    unfolding sql_write_rows(1) [OF w] using store_okD(4) [OF ok] assms(3,4)
    by (intro vals_put_ball) (auto simp: request_row_ok_def)
  then show "store_ok clock u" and "ledger_of now u = ledger_of now s"
    using store_ok_frame [OF ok, of u] sql_write_rows [OF w] by auto
qed

lemma write_reservation:
  assumes ok: "store_ok clock s" and w: "writeReservation i r e s = Inr (x, u)"
    and r: "reservation_ok r" "row_ident r = ident i" "rv_window_reset_at_ms r < e" "rv_reserved_at_ms r \<le> clock"
  shows "store_ok clock u" and "ledger_of now u = (ledger_of now s)\<lparr>kl_rows := put (nativeKey (row_key r)) r (stored_reservations s)\<rparr>"
    and "stored_window u = stored_window s" and "stored_reservations u = put (nativeKey (row_key r)) r (stored_reservations s)"
    and "sq_sequence u = sq_sequence s + 1"
    and "sq_rows u Request_lifetime = sq_rows s Request_lifetime" and "is_safe_integer e"
proof -
  from w obtain ix where sw: "sql_write Kernel_reservation_table (row_key r) (kernel_reservation_js r) (Some e) ix s = Inr (x, u)"
    using r(2) by (auto simp: writeReservation_def nbind_iff scoped_reservation_key row_key_def)
  note rows = sql_write_rows [OF sw]
  from rows(1) r(1) show res: "stored_reservations u = put (nativeKey (row_key r)) r (stored_reservations s)"
    by (simp add: stored_reservations_def)
  from rows show win: "stored_window u = stored_window s" by (simp add: stored_window_def fun_eq_iff)
  from res win show "ledger_of now u = (ledger_of now s)\<lparr>kl_rows := put (nativeKey (row_key r)) r (stored_reservations s)\<rparr>"
    by (simp add: ledger_of_def)
  from rows show "sq_sequence u = sq_sequence s + 1" "sq_rows u Request_lifetime = sq_rows s Request_lifetime" by simp_all
  from rows(5) show safe: "is_safe_integer e" by (simp add: write_ok_def)
  have "reservation_row_ok clock h q" if "(h, q) \<in> set (sq_rows u Kernel_reservation_table)" for h q
    using set_put [OF that [unfolded rows(1)]] store_okD(2) [OF ok] r safe
    by (auto simp: reservation_row_ok_def kept_until_def)
  moreover have "wf_dict (sq_rows u Kernel_reservation_table)" unfolding rows(1) using store_okD(1) [OF ok] by simp
  moreover have "window_row_ok clock (sq_sequence u) j q"
    if "ident_ok j" "map_of (sq_rows u Kernel_window_table) (nativeKey (window_key j)) = Some q" for j q
    using store_okD(3) [OF ok that(1)] that(2) rows by (auto intro: window_row_ok_mono)
  ultimately show "store_ok clock u" using store_okD(4,5) [OF ok] rows(2) [of Request_lifetime] rows(3)
    unfolding store_ok_def by auto
qed

lemma write_window:
  assumes ok: "store_ok clock s" and w: "writeWindow i v e sc s = Inr (x, u)"
    and v: "window_ok v" "(kw_scope v, kw_owner v, kw_repo v) = ident i" "kw_created_at_ms v \<le> clock"
      "kw_usage_requests v + kw_reserved_requests v \<le> sq_sequence s + 1"
    and e: "e = None \<or> (\<exists>n. e = Some n \<and> kw_usage_reset_at_ms v < n)"
  shows "store_ok clock u" and "ledger_of now u = (ledger_of now s)\<lparr>kl_windows := (stored_window s)(ident i \<mapsto> v)\<rparr>"
    and "stored_window u = (stored_window s)(ident i \<mapsto> v)" and "stored_reservations u = stored_reservations s"
    and "sq_sequence u = sq_sequence s + 1" and "identity_valid i"
    and "sq_rows u Request_lifetime = sq_rows s Request_lifetime"
proof -
  from w obtain ix where valid: "identity_valid i"
    and sw: "sql_write Kernel_window_table (window_key (ident i)) (kernel_window_js v) e ix s = Inr (x, u)"
    by (auto simp: writeWindow_def nbind_iff scoped_window_key identity_valid_def)
  note rows = sql_write_rows [OF sw]
  have i: "ident_ok (ident i)" using valid by (simp add: identity_valid_def)
  show "identity_valid i" by (fact valid)
  from rows show "sq_sequence u = sq_sequence s + 1" "sq_rows u Request_lifetime = sq_rows s Request_lifetime" by simp_all
  from rows show res: "stored_reservations u = stored_reservations s" by (simp add: stored_reservations_def)
  have other: "nativeKey (window_key j) = nativeKey (window_key (ident i)) \<longleftrightarrow> j = ident i" if "ident_ok j" for j
    using window_key_inj [OF that i] by auto
  show win: "stored_window u = (stored_window s)(ident i \<mapsto> v)"
  proof
    fix j
    show "stored_window u j = ((stored_window s)(ident i \<mapsto> v)) j"
    proof (cases "ident_ok j")
      case True
      with other [OF True] rows(1) i window_read_back [OF v(1)] show ?thesis
        by (auto simp: stored_window_def v(2) [symmetric])
    next
      case False
      with i show ?thesis by (auto simp: stored_window_def)
    qed
  qed
  from res win show "ledger_of now u = (ledger_of now s)\<lparr>kl_windows := (stored_window s)(ident i \<mapsto> v)\<rparr>"
    by (simp add: ledger_of_def)
  have "window_row_ok clock (sq_sequence u) j q"
    if j: "ident_ok j" and q: "map_of (sq_rows u Kernel_window_table) (nativeKey (window_key j)) = Some q" for j q
  proof (cases "j = ident i")
    case True
    with q rows have "q = \<lparr>sr_key = window_key (ident i), sr_value = kernel_window_js v, sr_revision = sq_sequence s + 1,
        sr_expires_at_ms = e, sr_scope = ix_scope ix, sr_parent = ix_parent ix, sr_due = ix_due ix\<rparr>" by simp
    with True v e rows(3,5) show ?thesis
      by (auto simp: window_row_ok_def kept_until_def write_ok_def intro!: exI [of _ v])
  next
    case False
    with q rows(1) other [OF j] have "map_of (sq_rows s Kernel_window_table) (nativeKey (window_key j)) = Some q" by simp
    from store_okD(3) [OF ok j this] rows(3) show ?thesis by (auto intro: window_row_ok_mono)
  qed
  then show "store_ok clock u"
    using ok rows(2) [of Request_lifetime] rows(2) [of Kernel_reservation_table] rows(3) unfolding store_ok_def by auto
qed

end
