(* ===== verification/Kernel_Runs.thy ===== *)
theory Kernel_Runs
  imports Kernel_Store
begin

text \<open>
  The kernel operations of the native authority refine the ledger: each successful operation is a
  sequence of ledger steps, so the ledger's invariant holds of every store the operations reach.
\<close>

definition clock_ok :: "int \<Rightarrow> bool" where
  "clock_ok now \<longleftrightarrow> 0 < now \<and> now + LEASE_MS \<le> max_safe_integer"

definition sound :: "int \<Rightarrow> sql_store \<Rightarrow> bool" where
  "sound now s \<longleftrightarrow> store_ok now s \<and> ledger_inv (ledger_of now s)"

definition same_windows :: "sql_store \<Rightarrow> sql_store \<Rightarrow> bool" where
  "same_windows s t \<longleftrightarrow> (\<forall>i. rel_option same_window (stored_window s i) (stored_window t i))"

text \<open>A release reason that is stored as it is given must not be blank.\<close>

definition reason_ok :: "terminal_state \<Rightarrow> string \<Rightarrow> bool" where
  "reason_ok target reason \<longleftrightarrow> target = Committed \<or> js_trim (release_reason reason) \<noteq> []"

text \<open>
  An operation that refines the ledger without opening a window: from a sound store it leads, when it
  succeeds, to a sound store by ledger steps, and the windows are the same ones.
\<close>

definition refines :: "int \<Rightarrow> 'a native \<Rightarrow> bool" where
  "refines now m \<longleftrightarrow> (\<forall>s x t. sound now s \<longrightarrow> m s = Inr (x, t) \<longrightarrow>
     sound now t \<and> ledger_step\<^sup>*\<^sup>* (ledger_of now s) (ledger_of now t) \<and> same_windows s t)"

lemma refinesI:
  assumes "\<And>s x t. store_ok now s \<Longrightarrow> ledger_inv (ledger_of now s) \<Longrightarrow> m s = Inr (x, t) \<Longrightarrow>
      store_ok now t \<and> ledger_step\<^sup>*\<^sup>* (ledger_of now s) (ledger_of now t) \<and> same_windows s t"
  shows "refines now m"
  unfolding refines_def sound_def using assms kernel_machine.inv_run by blast

lemma refinesD:
  assumes "refines now m" "sound now s" "m s = Inr (x, t)"
  shows "sound now t" "ledger_step\<^sup>*\<^sup>* (ledger_of now s) (ledger_of now t)" "same_windows s t"
  using assms unfolding refines_def by blast+

lemma same_windows_refl [simp]: "same_windows s s"
  by (simp add: same_windows_def option.rel_refl)

lemma same_windows_trans: "same_windows s t \<Longrightarrow> same_windows t u \<Longrightarrow> same_windows s u"
proof -
  have "transp same_window" by (rule transpI) (simp add: same_window_def)
  then have "transp (rel_option same_window)" by (rule option.rel_transp)
  then show "same_windows s t \<Longrightarrow> same_windows t u \<Longrightarrow> same_windows s u"
    unfolding same_windows_def by (meson transpE)
qed

lemma refines_reads: "(\<And>s x t. m s = Inr (x, t) \<Longrightarrow> t = s) \<Longrightarrow> refines now m"
  unfolding refines_def by fastforce

lemma nbindE: "nbind m f s = Inr (y, t) \<Longrightarrow> (\<And>x u. m s = Inr (x, u) \<Longrightarrow> f x u = Inr (y, t) \<Longrightarrow> P) \<Longrightarrow> P"
  by (auto simp: nbind_iff)

lemma refines_bind_result:
  assumes "refines now m" and "\<And>s x t. m s = Inr (x, t) \<Longrightarrow> refines now (f x)"
  shows "refines now (nbind m f)"
  unfolding refines_def nbind_iff
proof (intro allI impI)
  fix s y t
  assume s: "sound now s" and "\<exists>x u. m s = Inr (x, u) \<and> f x u = Inr (y, t)"
  then obtain x u where m: "m s = Inr (x, u)" and f: "f x u = Inr (y, t)" by blast
  note 1 = refinesD [OF assms(1) s m] and 2 = refinesD [OF assms(2) [OF m] _ f]
  with 1 2 show "sound now t \<and> ledger_step\<^sup>*\<^sup>* (ledger_of now s) (ledger_of now t) \<and> same_windows s t"
    using rtranclp_trans [of ledger_step] same_windows_trans by meson
qed

lemma refines_bind: "refines now m \<Longrightarrow> (\<And>x. refines now (f x)) \<Longrightarrow> refines now (nbind m f)"
  by (rule refines_bind_result)

lemma refines_simple [simp, intro]:
  "refines now (nreturn x)" "refines now (nfail e)" "refines now (nlift r)" "refines now (nensure b e)"
  "refines now (sql_read t k n)" "refines now (sql_page t n after limit sc parent)"
  by (rule refines_reads, auto dest: sql_read_store sql_page_store)+

lemma readWindow_store: "readWindow i n s = Inr (x, t) \<Longrightarrow> t = s"
  by (auto simp: readWindow_def nbind_iff Let_def dest: sql_read_store)

lemma reservationRead_store: "reservationRead i n s = Inr (x, t) \<Longrightarrow> t = s"
  by (auto simp: reservationRead_def nbind_iff dest: sql_read_store)

lemma refines_readWindow [simp, intro]: "refines now (readWindow i n)"
  unfolding readWindow_def Let_def by (intro refines_bind refines_simple)

lemma refines_reservationRead [simp, intro]: "refines now (reservationRead i n)"
  unfolding reservationRead_def by (intro refines_bind refines_simple)

section \<open>Rows after an operation\<close>

lemma retention_after_reset: "windowReset < now + kernelReservationRetentionMs windowReset now"
  by (simp add: kernelReservationRetentionMs_def RETENTION_MS_def max_def)

lemma clock_safe: "clock_ok now \<Longrightarrow> safe_nonneg now \<and> safe_positive (now + LEASE_MS)"
  by (auto simp: clock_ok_def safe_nonneg_def safe_positive_def is_safe_integer_def LEASE_MS_def max_safe_integer_def)

lemma settled_row_ok:
  assumes "reservation_ok r" "rv_state r = RowReserved" "clock_ok now" "reason_ok target reason"
  shows "reservation_ok (settledKernelReservationRow r target reason now)"
  using assms clock_safe [OF assms(3)]
  by (cases target) (auto simp: reservation_ok_def settledKernelReservationRow_def row_consistent_def reason_ok_def)

lemma settled_row_fields [simp]:
  "row_window (settledKernelReservationRow r target reason now) = row_window r"
  "row_ident (settledKernelReservationRow r target reason now) = row_ident r"
  "row_key (settledKernelReservationRow r target reason now) = row_key r"
  "rv_window_reset_at_ms (settledKernelReservationRow r target reason now) = rv_window_reset_at_ms r"
  "rv_reserved_at_ms (settledKernelReservationRow r target reason now) = rv_reserved_at_ms r"
  "rv_state (settledKernelReservationRow r target reason now) = terminal_row_state target"
  by (cases target; simp add: settledKernelReservationRow_def row_window_def row_ident_def row_key_def)+

lemma settledWindow_fields [simp]:
  "same_window w (settledWindow w target now)"
  "kw_usage_requests (settledWindow w target now) = kw_usage_requests w + of_bool (target = Committed)"
  "kw_reserved_requests (settledWindow w target now) = kw_reserved_requests w - 1"
  "kw_created_at_ms (settledWindow w target now) = kw_created_at_ms w"
  "kw_usage_reset_at_ms (settledWindow w target now) = kw_usage_reset_at_ms w"
  "kw_scope (settledWindow w target now) = kw_scope w" "kw_owner (settledWindow w target now) = kw_owner w"
  "kw_repo (settledWindow w target now) = kw_repo w"
  by (simp_all add: settledWindow_def same_window_def)

lemma settledWindow_ok:
  assumes "window_ok w" "1 \<le> kw_reserved_requests w" "kw_usage_requests w + kw_reserved_requests w \<le> max_safe_integer" "clock_ok now"
  shows "window_ok (settledWindow w target now)"
  using assms clock_safe [OF assms(4)]
  by (auto simp: window_ok_def settledWindow_def safe_nonneg_def safe_positive_def is_safe_integer_def)

lemma same_windows_update:
  assumes "stored_window s i = Some w" "same_window w v" "stored_window t = (stored_window s)(i \<mapsto> v)"
  shows "same_windows s t"
  unfolding same_windows_def assms(3) using assms(1,2) by (simp add: option.rel_refl)

lemma row_reads_as:
  assumes "reservation_ok r" "row_ident r = ident i"
  shows "normalizeKernelQuotaReservationRowV2 (kernel_reservation_js r) (ki_scope i) (ki_owner i) (ki_repo i) = Some r"
  using reservation_read_back [OF assms(1)] assms(2)
    normalize_scoped(2) [of "kernel_reservation_js r" "ki_scope i" "ki_owner i" "ki_repo i"]
  by (auto simp: ident_of_def row_ident_def)

text \<open>The row that an operation on a reservation identity starts from.\<close>

lemma reservation_start:
  assumes ok: "store_ok now s" and rd: "reservationRead i now s = Inr (rd, u)" and safe: "is_safe_integer (ri_windowCreatedAtMs i)"
    and row: "normalizeKernelQuotaReservationRowV2 (nr_value rd) (ki_scope i) (ki_owner i) (ki_repo i) = Some r"
  shows "u = s" and "map_of (stored_reservations s) (nativeKey (row_key r)) = Some r" and "reservation_ok r"
    and "row_ident r = ident i" and "rv_reserved_at_ms r \<le> now"
proof -
  note sound = reservationRead_sound [OF ok rd]
  show "u = s" by (fact sound(1))
  have "nr_value rd \<noteq> JNull" using row by (auto simp: normalizeKernelQuotaReservationRowV2_def)
  with sound(3) obtain q where q: "identity_row s i = Some q" "nr_value rd = kernel_reservation_js q" by blast
  note facts = identity_row_Some [OF ok sound(2) safe q(1)]
  with q row row_reads_as [OF facts(1,2)] have "q = r" by simp
  with facts q(1) show "reservation_ok r" "row_ident r = ident i" "rv_reserved_at_ms r \<le> now"
    and "map_of (stored_reservations s) (nativeKey (row_key r)) = Some r"
    by (simp_all add: identity_row_def row_key_def)
qed

section \<open>Settlement and reclaim\<close>

text \<open>A settlement that is written is a settlement of the ledger, in its window or after it.\<close>

lemma settle_steps:
  assumes inv: "ledger_inv (ledger_of now s)" and r: "map_of (stored_reservations s) h = Some r" "rv_state r = RowReserved"
    and q: "row_window q = row_window r" "rv_window_reset_at_ms q = rv_window_reset_at_ms r" "rv_state q = terminal_row_state target"
    and w: "stored_window s (row_ident r) = Some w" "kw_created_at_ms w = rv_window_created_at_ms r"
  shows "ledger_step\<^sup>*\<^sup>* (ledger_of now s)
    ((ledger_of now s)\<lparr>kl_windows := (stored_window s)(row_ident r \<mapsto> settledWindow w target n), kl_rows := put h q (stored_reservations s)\<rparr>)"
proof (cases "now < kw_usage_reset_at_ms w")
  case True
  have "ledger_step (ledger_of now s) ((ledger_of now s)\<lparr>kl_windows := (kl_windows (ledger_of now s))(row_ident r \<mapsto> settledWindow w target n),
      kl_rows := put h q (kl_rows (ledger_of now s))\<rparr>)"
    by (rule L_settle [where t = target and w = w]) (use True r q w in \<open>simp_all add: ledger_of_def\<close>)
  then show ?thesis by (simp add: ledger_of_def)
next
  case False
  define m where "m = (ledger_of now s)\<lparr>kl_rows := put h q (stored_reservations s)\<rparr>"
  have "ledger_step (ledger_of now s) ((ledger_of now s)\<lparr>kl_rows := put h q (kl_rows (ledger_of now s))\<rparr>)"
    by (rule L_settle_old [where t = target]) (use False r q w in \<open>auto simp: ledger_of_def window_at_def row_window_def split: option.splits\<close>)
  then have "ledger_step (ledger_of now s) m" by (simp add: m_def ledger_of_def)
  moreover have "ledger_step m (m\<lparr>kl_windows := (kl_windows m)(row_ident r \<mapsto> settledWindow w target n)\<rparr>)"
    by (rule L_touch_dead [where w = w]) (use False w in \<open>simp_all add: m_def ledger_of_def\<close>)
  moreover have "m\<lparr>kl_windows := (kl_windows m)(row_ident r \<mapsto> settledWindow w target n)\<rparr> =
      (ledger_of now s)\<lparr>kl_windows := (stored_window s)(row_ident r \<mapsto> settledWindow w target n), kl_rows := put h q (stored_reservations s)\<rparr>"
    by (simp add: m_def ledger_of_def)
  ultimately show ?thesis by (metis converse_rtranclp_into_rtranclp r_into_rtranclp)
qed

lemma settle_old_step:
  assumes "map_of (stored_reservations s) h = Some r" "rv_state r = RowReserved"
    and "row_window q = row_window r" "rv_window_reset_at_ms q = rv_window_reset_at_ms r" "rv_state q = terminal_row_state target"
    and "case stored_window s (row_ident r) of None \<Rightarrow> True
      | Some w \<Rightarrow> kw_created_at_ms w \<noteq> rv_window_created_at_ms r \<or> kw_usage_reset_at_ms w < now"
  shows "ledger_step (ledger_of now s) ((ledger_of now s)\<lparr>kl_rows := put h q (stored_reservations s)\<rparr>)"
proof -
  have "ledger_step (ledger_of now s) ((ledger_of now s)\<lparr>kl_rows := put h q (kl_rows (ledger_of now s))\<rparr>)"
    by (rule L_settle_old [where t = target])
      (use assms in \<open>auto simp: ledger_of_def window_at_def row_window_def split: option.splits\<close>)
  then show ?thesis by (simp add: ledger_of_def)
qed

lemma precondition_None:
  "kernelReservationPrecondition r requestId route created target = None \<Longrightarrow>
     rv_state r = RowReserved \<and> rv_request_id r = requestId \<and> rv_route r = route \<and> rv_window_created_at_ms r = created \<and>
     (rv_terminal_intent r = None \<or> rv_terminal_intent r = Some target)"
  by (auto simp: kernelReservationPrecondition_def kernelReservationMatchesRequest_def split: if_splits)

lemma settlement_cases:
  assumes "decideKernelQuotaSettlement r cur present target reason now = SSettle q next expireIn"
  shows "q = settledKernelReservationRow r target reason now" "expireIn = kernelReservationRetentionMs (rv_window_reset_at_ms r) now"
    and "next = None \<and> (\<forall>w. cur = Some w \<longrightarrow> kw_created_at_ms w \<noteq> rv_window_created_at_ms r) \<or>
      (\<exists>w. cur = Some w \<and> kw_created_at_ms w = rv_window_created_at_ms r \<and> 1 \<le> kw_reserved_requests w \<and>
        next = Some (settledWindow w target now))"
  using assms by (auto simp: decideKernelQuotaSettlement_def Let_def split: option.splits if_splits)

lemma ident_truncate [simp]: "ident (identity_of i) = ident i" "identity_valid (identity_of i) = identity_valid i"
  by (simp_all add: kernel_identity.truncate_def identity_valid_def)

lemma settle_write:
  assumes ok: "store_ok now s" and inv: "ledger_inv (ledger_of now s)" and clock: "clock_ok now" and reason: "reason_ok target reason"
    and r: "map_of (stored_reservations s) (nativeKey (row_key r)) = Some r" "reservation_ok r" "row_ident r = ident i"
      "rv_reserved_at_ms r \<le> now" "rv_state r = RowReserved"
    and win: "readWindow (identity_of i) now s = Inr ((wrow, cur), s)"
    and plan: "decideKernelQuotaSettlement r cur (nr_value wrow \<noteq> JNull) target reason now = SSettle q next expireIn"
    and wr: "writeReservation (identity_of i) q (now + expireIn) s = Inr (x, u)"
    and ww: "(case next of None \<Rightarrow> nreturn () | Some w \<Rightarrow>
        writeWindow (identity_of i) w (Some (now + expireIn)) (Some (identity_index (identity_of i)))) u = Inr (y, t)"
  shows "store_ok now t \<and> ledger_step\<^sup>*\<^sup>* (ledger_of now s) (ledger_of now t) \<and> same_windows s t"
proof -
  note plan = settlement_cases [OF plan]
  have later: "rv_window_reset_at_ms r < now + expireIn" unfolding plan(2) by (rule retention_after_reset)
  have q: "reservation_ok q" "row_ident q = row_ident r" "row_window q = row_window r" "row_key q = row_key r"
    "rv_window_reset_at_ms q = rv_window_reset_at_ms r" "rv_reserved_at_ms q = rv_reserved_at_ms r" "rv_state q = terminal_row_state target"
    using settled_row_ok [OF r(2,5) clock reason] by (simp_all add: plan(1))
  have u: "store_ok now u" "stored_window u = stored_window s"
      "stored_reservations u = put (nativeKey (row_key r)) q (stored_reservations s)" "sq_sequence u = sq_sequence s + 1"
    using write_reservation [OF ok wr q(1)] q r later by simp_all
  note cur = readWindow_sound [OF ok win, unfolded ident_truncate, folded r(3)]
  from plan(3) show ?thesis
  proof (elim disjE conjE exE)
    assume none: "next = None" and other: "\<forall>w. cur = Some w \<longrightarrow> kw_created_at_ms w \<noteq> rv_window_created_at_ms r"
    then have t: "t = u" using ww by simp
    have "case stored_window s (row_ident r) of None \<Rightarrow> True
      | Some w \<Rightarrow> kw_created_at_ms w \<noteq> rv_window_created_at_ms r \<or> kw_usage_reset_at_ms w < now"
      using cur(3,4) other by (cases cur) (auto split: option.splits)
    from settle_old_step [OF r(1,5) q(3,5,7) this] u t show ?thesis
      by (auto simp: ledger_of_def same_windows_def option.rel_refl)
  next
    fix w
    assume w: "cur = Some w" "kw_created_at_ms w = rv_window_created_at_ms r" "1 \<le> kw_reserved_requests w"
      and n: "next = Some (settledWindow w target now)"
    have sw: "stored_window s (row_ident r) = Some w" using cur(3) [OF w(1)] by simp
    note facts = stored_window_Some [OF ok sw]
    have reset: "rv_window_reset_at_ms r = kw_usage_reset_at_ms w"
      using ledger_invD(2) [OF inv, of r] map_of_vals [OF r(1)] sw w(2) by (simp add: row_backed_def ledger_of_def)
    have seq: "sq_sequence s < max_safe_integer" using wr by (auto simp: writeReservation_def nbind_iff sql_write_iff)
    have "window_ok (settledWindow w target now)" using facts(1,4) w(3) clock seq by (intro settledWindow_ok) auto
    moreover have "(kw_scope w, kw_owner w, kw_repo w) = ident i" using facts(2) r(3) by simp
    ultimately have t: "store_ok now t" "stored_window t = (stored_window u)(ident i \<mapsto> settledWindow w target now)"
        "stored_reservations t = stored_reservations u"
      using write_window [OF u(1), of "identity_of i" "settledWindow w target now" "Some (now + expireIn)" _ y t] ww n facts(3,4) u(4) later reset
      by auto
    from settle_steps [OF inv r(1,5) q(3,5,7) sw w(2), of now] t u r(3) same_windows_update [OF sw settledWindow_fields(1), of t target now]
    show ?thesis by (simp add: ledger_of_def)
  qed
qed

text \<open>A settlement that changes the store: the row it starts from, the plan and the two writes.\<close>

lemma settle_written:
  assumes ok: "store_ok now s" and safe: "is_safe_integer (ri_windowCreatedAtMs i)"
    and m: "settleReservation i target reason now s = Inr (x, t)" and "t \<noteq> s"
  obtains r wrow cur q nxt expireIn a b c where
    "map_of (stored_reservations s) (nativeKey (row_key r)) = Some r" "reservation_ok r" "row_ident r = ident i" "rv_reserved_at_ms r \<le> now"
    "kernelReservationPrecondition r (ri_requestId i) (ri_route i) (ri_windowCreatedAtMs i) target = None"
    "readWindow (identity_of i) now s = Inr ((wrow, cur), s)"
    "decideKernelQuotaSettlement r cur (nr_value wrow \<noteq> JNull) target reason now = SSettle q nxt expireIn"
    "writeReservation (identity_of i) q (now + expireIn) s = Inr (a, b)"
    "(case nxt of None \<Rightarrow> nreturn () | Some w \<Rightarrow>
        writeWindow (identity_of i) w (Some (now + expireIn)) (Some (identity_index (identity_of i)))) b = Inr (c, t)"
proof -
  from m obtain rd u where rd: "reservationRead i now s = Inr (rd, u)" by (auto simp: settleReservation_def nbind_iff)
  have u: "u = s" using reservationRead_sound(1) [OF ok rd] .
  with m rd \<open>t \<noteq> s\<close> obtain r where r: "normalizeKernelQuotaReservationRowV2 (nr_value rd) (ki_scope i) (ki_owner i) (ki_repo i) = Some r"
    and pre: "kernelReservationPrecondition r (ri_requestId i) (ri_route i) (ri_windowCreatedAtMs i) target = None"
    by (auto simp: settleReservation_def nbind_iff split: option.splits)
  note start = reservation_start [OF ok rd safe r]
  from m rd u r pre obtain wrow cur v where win: "readWindow (identity_of i) now s = Inr ((wrow, cur), v)"
    by (auto simp: settleReservation_def nbind_iff)
  have v: "v = s" using readWindow_sound(1) [OF ok win] .
  with m rd u r pre win \<open>t \<noteq> s\<close> obtain q nxt expireIn where
    plan: "decideKernelQuotaSettlement r cur (nr_value wrow \<noteq> JNull) target reason now = SSettle q nxt expireIn"
    by (cases "decideKernelQuotaSettlement r cur (nr_value wrow \<noteq> JNull) target reason now")
      (auto simp: settleReservation_def nbind_iff)
  with m rd u r pre win v obtain a b c where
    "writeReservation (identity_of i) q (now + expireIn) s = Inr (a, b)"
    "(case nxt of None \<Rightarrow> nreturn () | Some w \<Rightarrow>
      writeWindow (identity_of i) w (Some (now + expireIn)) (Some (identity_index (identity_of i)))) b = Inr (c, t)"
    by (auto simp: settleReservation_def nbind_iff)
  from that [OF start(2-5) pre win [unfolded v] plan this] show thesis .
qed

lemma refines_settle:
  assumes clock: "clock_ok now" and reason: "reason_ok target reason" and safe: "is_safe_integer (ri_windowCreatedAtMs i)"
  shows "refines now (settleReservation i target reason now)"
proof (rule refinesI)
  fix s x t
  assume ok: "store_ok now s" and inv: "ledger_inv (ledger_of now s)" and m: "settleReservation i target reason now s = Inr (x, t)"
  show "store_ok now t \<and> ledger_step\<^sup>*\<^sup>* (ledger_of now s) (ledger_of now t) \<and> same_windows s t"
  proof (cases "t = s")
    case False
    show ?thesis
      by (rule settle_written [OF ok safe m False], rule settle_write [OF ok inv clock reason])
        (assumption | simp add: precondition_None)+
  qed (use ok in simp)
qed

lemma reclaim_reason_ok: "reason_ok target ''reservation_lease_expired''"
  by (simp add: reason_ok_def release_reason_def js_trim_def js_whitespace_def)

lemma reclaimed_identity:
  assumes "normalizeKernelQuotaReservationRowV2 v (ki_scope i) (ki_owner i) (ki_repo i) = Some r"
  shows "is_safe_integer (ri_windowCreatedAtMs (reservationIdentity i (rv_request_id r) (rv_route r) (rv_window_created_at_ms r)))"
  using assms by (auto simp: normalizeKernelQuotaReservationRowV2_def bind_eq_Some_conv nonNegative_Some Let_def
      safe_nonneg_def reservationIdentity_def split: if_splits)

lemma refines_reclaim_entries: "clock_ok now \<Longrightarrow> refines now (reclaim_entries i now es)"
proof (induction es)
  case (Cons e es)
  show ?case
    unfolding reclaim_entries.simps
  proof (rule refines_bind_result)
    fix s r t
    assume "nlift (require (normalizeKernelQuotaReservationRowV2 (nr_value (pe_row e)) (ki_scope i) (ki_owner i) (ki_repo i))
      (NativeAuthorityError ''kernel_reservation_malformed'' 503)) s = Inr (r, t)"
    then have r: "normalizeKernelQuotaReservationRowV2 (nr_value (pe_row e)) (ki_scope i) (ki_owner i) (ki_repo i) = Some r" by simp
    show "refines now (case decideKernelQuotaReclaim r now of None \<Rightarrow> reclaim_entries i now es
      | Some target \<Rightarrow> nbind (settleReservation (reservationIdentity i (rv_request_id r) (rv_route r) (rv_window_created_at_ms r))
          target ''reservation_lease_expired'' now) (\<lambda>_. nbind (reclaim_entries i now es) (\<lambda>n. nreturn (n + 1))))"
      using Cons by (auto split: option.splits
          intro!: refines_bind refines_settle reclaim_reason_ok reclaimed_identity [OF r])
  qed simp
qed simp

lemma refines_reclaim_pages: "clock_ok now \<Longrightarrow> refines now (reclaim_pages fuel i now after)"
proof (induction fuel arbitrary: after)
  case (Suc fuel)
  then show ?case
    unfolding reclaim_pages.simps
    by (intro refines_bind refines_simple refines_reclaim_entries) (auto intro!: refines_bind)
qed simp

lemma refines_reclaimWindow: "clock_ok now \<Longrightarrow> refines now (reclaimWindow i now)"
  using refines_reclaim_pages unfolding refines_def reclaimWindow_def by metis

lemma refines_drainWindow: "clock_ok now \<Longrightarrow> refines now (drainWindow i now)"
  unfolding drainWindow_def by (intro refines_bind refines_reclaimWindow) (auto intro: refines_bind)

section \<open>Operations on one reservation\<close>

lemma refines_api_request [simp, intro]: "refines now (api_request cap handle n)"
  unfolding api_request_def Let_def by (intro refines_bind refines_simple)

lemma kernelIdentity_result:
  assumes "kernelIdentity cap handle n s = Inr (i, t)"
  shows "is_safe_integer (ri_windowCreatedAtMs i)"
  using assms by (auto simp: kernelIdentity_def nbind_iff reservation_identity_of_js_def rbind_Inr_iff typed_def js_int_Some)

lemma refines_kernelIdentity [simp, intro]: "refines now (kernelIdentity cap handle n)"
  unfolding kernelIdentity_def by (intro refines_bind refines_simple refines_api_request)

lemma refines_settleKernelUsage:
  "clock_ok now \<Longrightarrow> reason_ok target reason \<Longrightarrow> refines now (settleKernelUsage cap handle target reason now)"
  unfolding settleKernelUsage_def by (rule refines_bind_result) (auto intro: refines_settle kernelIdentity_result)

text \<open>A row whose state and window stay the same is written over itself.\<close>

lemma refines_touch:
  assumes ok: "store_ok now s" and r: "map_of (stored_reservations s) (nativeKey (row_key r)) = Some r" "reservation_ok r"
      "row_ident r = ident i" "rv_reserved_at_ms r \<le> now"
    and q: "reservation_ok q" "row_window q = row_window r" "row_key q = row_key r" "rv_state q = rv_state r"
      "rv_window_reset_at_ms q = rv_window_reset_at_ms r" "rv_reserved_at_ms q = rv_reserved_at_ms r"
    and w: "writeReservation (identity_of i) q (now + kernelReservationRetentionMs (rv_window_reset_at_ms r) now) s = Inr (x, t)"
  shows "store_ok now t \<and> ledger_step\<^sup>*\<^sup>* (ledger_of now s) (ledger_of now t) \<and> same_windows s t"
proof -
  have "row_ident q = ident i" using q(2) r(3) by (simp add: row_window_def)
  with write_reservation [OF ok w q(1)] q r retention_after_reset
  have t: "store_ok now t" "stored_window t = stored_window s"
    "ledger_of now t = (ledger_of now s)\<lparr>kl_rows := put (nativeKey (row_key r)) q (stored_reservations s)\<rparr>" by simp_all
  moreover have "ledger_step (ledger_of now s) ((ledger_of now s)\<lparr>kl_rows := put (nativeKey (row_key r)) q (kl_rows (ledger_of now s))\<rparr>)"
    by (rule L_touch_row) (use r q in \<open>simp_all add: ledger_of_def\<close>)
  ultimately show ?thesis by (auto simp: ledger_of_def same_windows_def option.rel_refl)
qed

lemma lease_row_ok:
  assumes "reservation_ok r" "rv_reserved_at_ms r \<le> now" "clock_ok now" "rv_state r = RowReserved"
  shows "reservation_ok (r\<lparr>rv_lease_expires_at_ms := now + LEASE_MS\<rparr>)"
    and "reservation_ok (r\<lparr>rv_terminal_intent := x, rv_lease_expires_at_ms := now + LEASE_MS\<rparr>)"
  using assms clock_safe [OF assms(3)] by (auto simp: reservation_ok_def row_consistent_def LEASE_MS_def)

lemma refines_intent:
  assumes clock: "clock_ok now"
  shows "refines now (recordKernelTerminalIntent cap handle target now)"
  unfolding recordKernelTerminalIntent_def
proof (rule refines_bind_result [OF refines_kernelIdentity], rule refinesI)
  fix s0 i t0 s x t
  assume i: "kernelIdentity cap handle now s0 = Inr (i, t0)" and ok: "store_ok now s" and inv: "ledger_inv (ledger_of now s)"
    and m: "nbind (reservationRead i now) (\<lambda>rd. case decideKernelQuotaTerminalIntent i (kernel_read_of rd) target now of
       TUnchanged out \<Rightarrow> nreturn (unchanged out)
     | TIntent r expireIn lease \<Rightarrow> nbind (writeReservation (identity_of i) r (now + expireIn)) (\<lambda>_.
         nreturn (reply ''intent'' (kernel_reservation_js r)))) s = Inr (x, t)"
  from m obtain rd u where rd: "reservationRead i now s = Inr (rd, u)" by (auto simp: nbind_iff)
  have u: "u = s" using reservationRead_sound(1) [OF ok rd] .
  show "store_ok now t \<and> ledger_step\<^sup>*\<^sup>* (ledger_of now s) (ledger_of now t) \<and> same_windows s t"
  proof (cases "decideKernelQuotaTerminalIntent i (kernel_read_of rd) target now")
    case (TUnchanged out)
    with m rd u ok show ?thesis by (auto simp: nbind_iff)
  next
    case (TIntent q expireIn lease)
    then obtain r where r: "normalizeKernelQuotaReservationRowV2 (nr_value rd) (ki_scope i) (ki_owner i) (ki_repo i) = Some r"
      and pre: "kernelReservationPrecondition r (ri_requestId i) (ri_route i) (ri_windowCreatedAtMs i) target = None"
      and q: "q = r\<lparr>rv_terminal_intent := Some target, rv_lease_expires_at_ms := now + LEASE_MS\<rparr>"
      and e: "expireIn = kernelReservationRetentionMs (rv_window_reset_at_ms r) now"
      by (auto simp: decideKernelQuotaTerminalIntent_def kernel_read_of_def Let_def split: option.splits)
    note start = reservation_start [OF ok rd kernelIdentity_result [OF i] r]
    from m rd u TIntent obtain a where "writeReservation (identity_of i) q (now + expireIn) s = Inr (a, t)"
      by (auto simp: nbind_iff)
    with start precondition_None [OF pre] lease_row_ok(2) [OF start(3,5) clock] q e show ?thesis
      by (intro refines_touch [OF ok, of r i q]) (auto simp: row_window_def row_key_def row_ident_def)
  qed
qed

lemma refines_renew:
  assumes clock: "clock_ok now"
  shows "refines now (renewKernelReservation cap handle now)"
  unfolding renewKernelReservation_def
proof (rule refines_bind_result [OF refines_kernelIdentity], rule refinesI)
  fix s0 i t0 s x t
  assume i: "kernelIdentity cap handle now s0 = Inr (i, t0)" and ok: "store_ok now s" and inv: "ledger_inv (ledger_of now s)"
    and m: "nbind (reservationRead i now) (\<lambda>rd. nbind (nlift (decideKernelQuotaRenewal i (kernel_read_of rd) now))
      (\<lambda>(r, expireIn, lease). nbind (writeReservation (identity_of i) r (now + expireIn)) (\<lambda>_.
         nreturn (reply ''renewed'' (kernel_reservation_js r))))) s = Inr (x, t)"
  from m obtain rd u q expireIn lease where rd: "reservationRead i now s = Inr (rd, u)"
    and plan: "decideKernelQuotaRenewal i (kernel_read_of rd) now = Inr (q, expireIn, lease)" by (auto simp: nbind_iff)
  have u: "u = s" using reservationRead_sound(1) [OF ok rd] .
  from plan obtain r where r: "normalizeKernelQuotaReservationRowV2 (nr_value rd) (ki_scope i) (ki_owner i) (ki_repo i) = Some r"
    and st: "rv_state r = RowReserved" and q: "q = r\<lparr>rv_lease_expires_at_ms := now + LEASE_MS\<rparr>"
    and e: "expireIn = kernelReservationRetentionMs (rv_window_reset_at_ms r) now"
    by (auto simp: decideKernelQuotaRenewal_def kernel_read_of_def split: option.splits if_splits)
  note start = reservation_start [OF ok rd kernelIdentity_result [OF i] r]
  from m rd u plan obtain a where "writeReservation (identity_of i) q (now + expireIn) s = Inr (a, t)"
    by (auto simp: nbind_iff)
  with start st lease_row_ok(1) [OF start(3,5) clock] q e
  show "store_ok now t \<and> ledger_step\<^sup>*\<^sup>* (ledger_of now s) (ledger_of now t) \<and> same_windows s t"
    by (intro refines_touch [OF ok, of r i q]) (auto simp: row_window_def row_key_def row_ident_def)
qed

section \<open>Operations elsewhere in the store\<close>

lemma refines_write_elsewhere: "other_table t \<Longrightarrow> refines now (sql_write t key v e ix)"
  by (rule refinesI) (auto dest: write_elsewhere simp: ledger_of_def same_windows_def option.rel_refl)

lemma refines_delete_elsewhere: "other_table t \<Longrightarrow> refines now (sql_delete t key)"
  by (rule refinesI) (auto dest: delete_elsewhere simp: ledger_of_def same_windows_def option.rel_refl)

lemma kernel_other_tables [simp]: "other_table Cursor_table" "other_table Kernel_cutover_table" "other_table Kernel_policy_table"
  by (simp_all add: other_table_def)

lemma refines_reclaim_position: "refines now (reclaim_position cap cursor n)"
  unfolding reclaim_position_def Let_def by (auto split: option.splits intro!: refines_bind)

lemma refines_reclaim: "clock_ok now \<Longrightarrow> refines now (reclaimExpiredKernelReservations cap cursor limit uuid now)"
  unfolding reclaimExpiredKernelReservations_def Let_def
  by (auto intro!: refines_bind refines_reclaim_position refines_reclaim_entries refines_write_elsewhere)

lemma refines_cutover: "refines now (acquireKernelDefaultCutover uuid now)"
  unfolding acquireKernelDefaultCutover_def
  by (auto split: cutover_plan.splits intro!: refines_bind refines_write_elsewhere)

section \<open>Reserving\<close>

definition kept_window :: "sql_store \<Rightarrow> kernel_identity \<Rightarrow> int \<Rightarrow> int \<Rightarrow> kernel_window \<Rightarrow> bool" where
  "kept_window s i windowMs now w \<longleftrightarrow>
     stored_window s (ident i) = Some w \<and> kw_applied_window_ms w = windowMs \<and> now < kw_usage_reset_at_ms w"

definition opened_window :: "sql_store \<Rightarrow> kernel_identity \<Rightarrow> int \<Rightarrow> int \<Rightarrow> kernel_window \<Rightarrow> bool" where
  "opened_window s i windowMs now w \<longleftrightarrow>
     w = newWindow (ki_scope i) (ki_owner i) (ki_repo i) windowMs now \<and>
     (\<forall>old. stored_window s (ident i) = Some old \<longrightarrow> kw_applied_window_ms old \<noteq> windowMs \<or> kw_usage_reset_at_ms old \<le> now)"

lemma effective_window_cases:
  assumes ok: "store_ok now s" and "readWindow i now s = Inr ((rd, cur), u)"
  shows "kept_window s i windowMs now (fst (windowForEffectivePolicy cur (ki_scope i) (ki_owner i) (ki_repo i) windowMs now)) \<or>
    opened_window s i windowMs now (fst (windowForEffectivePolicy cur (ki_scope i) (ki_owner i) (ki_repo i) windowMs now))"
  using readWindow_sound(3,4) [OF assms] unfolding kept_window_def opened_window_def windowForEffectivePolicy_def
  by (cases cur) (auto split: option.splits)

lemma decide_reserve_cases:
  assumes ok: "store_ok now s" and d: "decide_reserve c i eff requestId route now s = Inr (RReserve r w expireIn, u)"
  obtains win entry where "u = s" "identity_valid i" "kept_window s i (ep_windowMs eff) now win \<or> opened_window s i (ep_windowMs eff) now win"
    "reservationRead (reservationIdentity i requestId route (kw_created_at_ms win)) now s = Inr (entry, s)" "nr_value entry = JNull"
    "r = newReservation i win requestId route now"
    "w = win\<lparr>kw_reserved_requests := kw_reserved_requests win + 1, kw_updated_at_ms := now\<rparr>"
    "expireIn = kernelReservationRetentionMs (kw_usage_reset_at_ms win) now"
    "ep_limit eff = kc_noUsageLimit c \<or> kw_usage_requests win + kw_reserved_requests win < ep_limit eff"
proof -
  from d obtain rd cur v entry where win: "readWindow i now s = Inr ((rd, cur), v)"
    and entry: "reservationRead (reservationIdentity i requestId route
      (kw_created_at_ms (fst (windowForEffectivePolicy cur (ki_scope i) (ki_owner i) (ki_repo i) (ep_windowMs eff) now)))) now v = Inr (entry, u)"
    and plan: "decideKernelQuotaReserve i eff (fst (windowForEffectivePolicy cur (ki_scope i) (ki_owner i) (ki_repo i) (ep_windowMs eff) now))
      (kernel_read_of entry) requestId route (kc_noUsageLimit c) now = RReserve r w expireIn"
    by (auto simp: decide_reserve_def nbind_iff Let_def)
  have v: "v = s" using readWindow_sound(1) [OF ok win] .
  have u: "u = s" using reservationRead_sound(1) [OF ok entry [unfolded v]] .
  from plan have "nr_value entry = JNull"
      "r = newReservation i (fst (windowForEffectivePolicy cur (ki_scope i) (ki_owner i) (ki_repo i) (ep_windowMs eff) now)) requestId route now"
    by (auto simp: decideKernelQuotaReserve_def kernel_read_of_def split: if_splits)
  with plan that [OF u readWindow_sound(2) [OF ok win] effective_window_cases [OF ok win] entry [unfolded v u]] show thesis
    by (auto simp: decideKernelQuotaReserve_def kernel_read_of_def split: if_splits)
qed

lemma newWindow_fields [simp]:
  "kw_usage_requests (newWindow sc owner repo windowMs now) = 0" "kw_reserved_requests (newWindow sc owner repo windowMs now) = 0"
  "kw_created_at_ms (newWindow sc owner repo windowMs now) = now"
  "kw_usage_reset_at_ms (newWindow sc owner repo windowMs now) = now + windowMs"
  "kw_applied_window_ms (newWindow sc owner repo windowMs now) = windowMs"
  "(kw_scope (newWindow sc owner repo windowMs now), kw_owner (newWindow sc owner repo windowMs now), kw_repo (newWindow sc owner repo windowMs now)) = ident_of sc owner repo"
  by (simp_all add: newWindow_def ident_of_def)

lemma newWindow_shape: "0 < windowMs \<Longrightarrow> window_shape (newWindow sc owner repo windowMs now)"
  by (simp add: window_shape_def)

lemma newWindow_ok:
  assumes "clock_ok now" "0 < windowMs" "now + windowMs \<le> max_safe_integer" "sc = RepoScope \<Longrightarrow> repo \<noteq> None"
  shows "window_ok (newWindow sc owner repo windowMs now)"
  using assms clock_safe [OF assms(1)] identity_ok_scoped [of sc repo]
  by (simp add: window_ok_def newWindow_def safe_nonneg_def safe_positive_def clock_ok_def is_safe_integer_def LEASE_MS_def)

text \<open>
  A window may be replaced only after the millisecond it was created in: windows of one identity are
  told apart by their creation time.
\<close>

definition later_window :: "sql_store \<Rightarrow> kernel_identity \<Rightarrow> int \<Rightarrow> bool" where
  "later_window s i now = (case stored_window s (ident i) of None \<Rightarrow> True | Some old \<Rightarrow> kw_created_at_ms old < now)"

lemma open_step:
  assumes "0 < windowMs" and "later_window s i now"
  shows "ledger_step (ledger_of now s)
    ((ledger_of now s)\<lparr>kl_windows := (stored_window s)(ident i \<mapsto> newWindow (ki_scope i) (ki_owner i) (ki_repo i) windowMs now)\<rparr>)"
proof -
  have "fresh_window (ledger_of now s) (ident i) (newWindow (ki_scope i) (ki_owner i) (ki_repo i) windowMs now)"
    using assms newWindow_shape by (auto simp: fresh_window_def later_window_def ledger_of_def split: option.splits)
  from L_window [OF this] show ?thesis by (simp add: ledger_of_def)
qed

lemma window_steps:
  assumes inv: "ledger_inv (ledger_of now s)" and "0 < windowMs"
    and win: "kept_window s i windowMs now w \<or> opened_window s i windowMs now w"
    and later: "opened_window s i windowMs now w \<Longrightarrow> later_window s i now"
  shows "ledger_step\<^sup>*\<^sup>* (ledger_of now s) ((ledger_of now s)\<lparr>kl_windows := (stored_window s)(ident i \<mapsto> w)\<rparr>)"
  using win
proof
  assume "kept_window s i windowMs now w"
  then have "(stored_window s)(ident i \<mapsto> w) = stored_window s" by (auto simp: kept_window_def)
  then show ?thesis by (simp add: ledger_of_def)
next
  assume w: "opened_window s i windowMs now w"
  from open_step [OF assms(2) later [OF w]] w show ?thesis by (simp add: opened_window_def)
qed

lemma row_absent:
  assumes ok: "store_ok now s" and inv: "ledger_inv (ledger_of now s)" and safe: "is_safe_integer (kw_created_at_ms win)"
    and win: "kept_window s i windowMs now win \<or> opened_window s i windowMs now win"
    and later: "opened_window s i windowMs now win \<Longrightarrow> later_window s i now"
    and rd: "reservationRead (reservationIdentity i requestId route (kw_created_at_ms win)) now s = Inr (entry, s)" "nr_value entry = JNull"
  shows "map_of (stored_reservations s) (nativeKey (reservation_key (ident i) (kw_created_at_ms win) requestId)) = None"
proof (rule ccontr)
  let ?i = "reservationIdentity i requestId route (kw_created_at_ms win)"
  assume "map_of (stored_reservations s) (nativeKey (reservation_key (ident i) (kw_created_at_ms win) requestId)) \<noteq> None"
  then obtain r where r: "identity_row s ?i = Some r" by (auto simp: identity_row_def reservationIdentity_def)
  have "ident ?i = ident i" by (simp add: reservationIdentity_def)
  with identity_row_Some [OF ok reservationRead_sound(2) [OF ok rd(1)] _ r] safe
  have facts: "row_ident r = ident i" "rv_window_created_at_ms r = kw_created_at_ms win" by (simp_all add: reservationIdentity_def)
  have "row_backed (ledger_of now s) r"
    using ledger_invD(2) [OF inv, of r] map_of_vals [of "stored_reservations s"] r by (auto simp: identity_row_def ledger_of_def)
  then obtain old where old: "stored_window s (ident i) = Some old" "kw_created_at_ms win \<le> kw_created_at_ms old"
      "kw_created_at_ms win = kw_created_at_ms old \<longrightarrow> rv_window_reset_at_ms r = kw_usage_reset_at_ms old"
    using facts by (auto simp: row_backed_def ledger_of_def split: option.splits)
  from win show False
  proof
    assume "kept_window s i windowMs now win"
    with old have "now \<le> rv_window_reset_at_ms r" by (auto simp: kept_window_def)
    with reservationRead_sound(4) [OF ok rd(1) r] rd(2) show False by (metis kernel_objects(5))
  next
    assume w: "opened_window s i windowMs now win"
    with later [OF w] old show False by (simp add: later_window_def opened_window_def)
  qed
qed

lemma reservation_ok_new:
  assumes "clock_ok now" "window_ok w" "requestId \<noteq> []" "route \<noteq> []" "kw_created_at_ms w < kw_usage_reset_at_ms w" "identity_valid i"
  shows "reservation_ok (newReservation i w requestId route now)"
  using assms clock_safe [OF assms(1)] identity_ok_scoped [of "ki_scope i" "ki_repo i"]
  by (auto simp: reservation_ok_def newReservation_def row_consistent_def window_ok_def identity_valid_def LEASE_MS_def)

lemma newReservation_fields [simp]:
  "row_ident (newReservation i w requestId route now) = ident i"
  "row_window (newReservation i w requestId route now) = (ident i, kw_created_at_ms w)"
  "row_key (newReservation i w requestId route now) = reservation_key (ident i) (kw_created_at_ms w) requestId"
  "rv_window_reset_at_ms (newReservation i w requestId route now) = kw_usage_reset_at_ms w"
  "rv_state (newReservation i w requestId route now) = RowReserved" "rv_reserved_at_ms (newReservation i w requestId route now) = now"
  by (simp_all add: newReservation_def row_ident_def row_window_def row_key_def ident_of_def)

lemma writeWindow_checks:
  assumes "writeWindow i w (Some e) sc s = Inr (x, u)"
  shows "is_safe_integer e" and "sq_sequence s < max_safe_integer"
  using assms by (auto simp: writeWindow_def nbind_iff sql_write_iff write_ok_def)

text \<open>What a window is known to be before it is written.\<close>

definition window_fit :: "sql_store \<Rightarrow> kernel_identity \<Rightarrow> int \<Rightarrow> kernel_window \<Rightarrow> bool" where
  "window_fit s i now w \<longleftrightarrow> window_shape w \<and> window_ok w \<and> (kw_scope w, kw_owner w, kw_repo w) = ident i \<and>
     kw_created_at_ms w \<le> now \<and> kw_usage_requests w + kw_reserved_requests w \<le> sq_sequence s"

lemma stored_fit:
  assumes "store_ok now s" "ledger_inv (ledger_of now s)" "stored_window s (ident i) = Some w"
  shows "window_fit s i now w"
  using stored_window_Some [OF assms(1,3)] ledger_invD(3) [OF assms(2), of "ident i" w] assms(3)
  by (simp add: window_fit_def ledger_of_def)

lemma new_fit:
  assumes "store_ok now s" "clock_ok now" "0 < windowMs" "now + windowMs \<le> max_safe_integer" "identity_valid i"
  shows "window_fit s i now (newWindow (ki_scope i) (ki_owner i) (ki_repo i) windowMs now)"
  unfolding window_fit_def newWindow_fields(6)
  using newWindow_ok [OF assms(2-4), of "ki_scope i" "ki_repo i" "ki_owner i"] newWindow_shape [OF assms(3)] assms(5)
    store_okD(5) [OF assms(1)]
  by (simp add: identity_valid_def)

lemma effective_fit:
  assumes "store_ok now s" "ledger_inv (ledger_of now s)" "clock_ok now" "0 < windowMs" "identity_valid i"
    and "kept_window s i windowMs now w \<or> opened_window s i windowMs now w" and "kw_usage_reset_at_ms w \<le> max_safe_integer"
  shows "window_fit s i now w" and "now < kw_usage_reset_at_ms w"
  using assms stored_fit [OF assms(1,2), of i w] new_fit [OF assms(1,3,4) _ assms(5)]
  by (auto simp: kept_window_def opened_window_def)

lemma counted_window_ok:
  assumes "window_fit s i now win" "sq_sequence s < max_safe_integer" "clock_ok now"
    and w: "w = win\<lparr>kw_reserved_requests := kw_reserved_requests win + 1, kw_updated_at_ms := now\<rparr>"
  shows "window_ok w" and "same_window win w"
  using assms(1,2) clock_safe [OF assms(3)]
  by (auto simp: w same_window_def window_fit_def window_ok_def safe_nonneg_def safe_positive_def is_safe_integer_def max_safe_integer_def)

lemma reserve_write:
  assumes ok: "store_ok now s" and inv: "ledger_inv (ledger_of now s)" and clock: "clock_ok now" and ms: "0 < windowMs"
    and valid: "identity_valid i" and ids: "requestId \<noteq> []" "route \<noteq> []"
    and win: "kept_window s i windowMs now win \<or> opened_window s i windowMs now win"
    and w: "w = win\<lparr>kw_reserved_requests := kw_reserved_requests win + 1, kw_updated_at_ms := now\<rparr>"
    and e: "e = now + kernelReservationRetentionMs (kw_usage_reset_at_ms win) now"
    and ww: "writeWindow i w (Some e) sc s = Inr (x, u)"
    and wr: "writeReservation i (newReservation i win requestId route now) e u = Inr (y, v)"
  shows "store_ok now v" and "stored_window v = (stored_window s)(ident i \<mapsto> w)"
    and "stored_reservations v = put (nativeKey (reservation_key (ident i) (kw_created_at_ms win) requestId))
      (newReservation i win requestId route now) (stored_reservations s)"
    and "window_fit s i now win" and "now < kw_usage_reset_at_ms win" and "same_window win w"
proof -
  let ?r = "newReservation i win requestId route now"
  note checks = writeWindow_checks [OF ww]
  have late: "kw_usage_reset_at_ms win < e" unfolding e by (rule retention_after_reset)
  then have "kw_usage_reset_at_ms win \<le> max_safe_integer" using checks(1) by (simp add: is_safe_integer_def)
  note fit = effective_fit [OF ok inv clock ms valid win this]
  note w_ok = counted_window_ok [OF fit(1) checks(2) clock w]
  have wf: "window_shape win" "window_ok win" "(kw_scope w, kw_owner w, kw_repo w) = ident i" "kw_created_at_ms w \<le> now"
      "kw_usage_requests w + kw_reserved_requests w \<le> sq_sequence s + 1"
    using fit(1) by (simp_all add: window_fit_def w)
  have u: "store_ok now u" "stored_window u = (stored_window s)(ident i \<mapsto> w)" "stored_reservations u = stored_reservations s"
    using write_window [OF ok ww w_ok(1) wf(3-5)] late by (simp_all add: w)
  have "reservation_ok ?r"
    using reservation_ok_new [OF clock wf(2) ids _ valid] wf(1) by (simp add: window_shape_def)
  from write_reservation [OF u(1) wr this] late u
  show "store_ok now v" and "stored_window v = (stored_window s)(ident i \<mapsto> w)"
    and "stored_reservations v = put (nativeKey (reservation_key (ident i) (kw_created_at_ms win) requestId)) ?r (stored_reservations s)"
    by simp_all
  show "window_fit s i now win" and "now < kw_usage_reset_at_ms win" and "same_window win w" by (fact fit(1), fact fit(2), fact w_ok(2))
qed

lemma reserve_steps:
  assumes ok: "store_ok now s" and inv: "ledger_inv (ledger_of now s)" and ms: "0 < windowMs"
    and win: "kept_window s i windowMs now win \<or> opened_window s i windowMs now win"
    and later: "opened_window s i windowMs now win \<Longrightarrow> later_window s i now"
    and rd: "reservationRead (reservationIdentity i requestId route (kw_created_at_ms win)) now s = Inr (entry, s)" "nr_value entry = JNull"
    and w: "w = win\<lparr>kw_reserved_requests := kw_reserved_requests win + 1, kw_updated_at_ms := now\<rparr>"
    and v: "stored_window v = (stored_window s)(ident i \<mapsto> w)"
      "stored_reservations v = put (nativeKey (reservation_key (ident i) (kw_created_at_ms win) requestId))
        (newReservation i win requestId route now) (stored_reservations s)"
      "window_fit s i now win" "now < kw_usage_reset_at_ms win" "same_window win w"
  shows "ledger_step\<^sup>*\<^sup>* (ledger_of now s) (ledger_of now v)"
proof -
  let ?r = "newReservation i win requestId route now" and ?h = "nativeKey (reservation_key (ident i) (kw_created_at_ms win) requestId)"
  define l where "l = (ledger_of now s)\<lparr>kl_windows := (stored_window s)(ident i \<mapsto> win)\<rparr>"
  have "is_safe_integer (kw_created_at_ms win)" using v(3) by (simp add: window_fit_def window_ok_def safe_nonneg_def)
  note absent = row_absent [OF ok inv this win later rd]
  have "ledger_step l (l\<lparr>kl_windows := (kl_windows l)(ident i \<mapsto> w), kl_rows := put ?h ?r (kl_rows l)\<rparr>)"
    by (rule L_reserve [where w = win]) (use v(4,5) absent in \<open>simp_all add: l_def ledger_of_def w\<close>)
  moreover have "l\<lparr>kl_windows := (kl_windows l)(ident i \<mapsto> w), kl_rows := put ?h ?r (kl_rows l)\<rparr> = ledger_of now v"
    by (simp add: l_def ledger_of_def v)
  moreover have "ledger_step\<^sup>*\<^sup>* (ledger_of now s) l" unfolding l_def by (rule window_steps [OF inv ms win later])
  ultimately show ?thesis by simp
qed

text \<open>
  \<open>window_advances\<close> is what a reservation asks of the clock: a window that the operation replaces
  because its length changed was created before this millisecond.
\<close>

definition window_advances :: "sql_store \<Rightarrow> sql_store \<Rightarrow> int \<Rightarrow> bool" where
  "window_advances s t now \<longleftrightarrow> (\<forall>i w v. stored_window s i = Some w \<longrightarrow> stored_window t i = Some v \<longrightarrow>
     kw_created_at_ms w < now \<or> kw_applied_window_ms v = kw_applied_window_ms w)"

lemma opened_later:
  assumes inv: "ledger_inv (ledger_of now s)" and "same_windows s0 s" and "window_advances s0 t now"
    and "opened_window s i windowMs now win" and "stored_window t (ident i) = Some v" and "kw_applied_window_ms v = windowMs"
  shows "later_window s i now"
proof (cases "stored_window s (ident i)")
  case (Some old)
  with assms(2) obtain old0 where old0: "stored_window s0 (ident i) = Some old0" "same_window old0 old"
    unfolding same_windows_def by (metis option.rel_cases option.discI option.inject)
  have shape: "window_shape old" using ledger_invD(3) [OF inv, of "ident i"] Some by (simp add: ledger_of_def)
  have "kw_created_at_ms old < now \<or> kw_applied_window_ms old = windowMs"
    using assms(3,5,6) old0 unfolding window_advances_def same_window_def by metis
  with assms(4) Some shape have "kw_created_at_ms old < now" by (auto simp: opened_window_def window_shape_def)
  with Some show ?thesis by (simp add: later_window_def)
qed (simp add: later_window_def)

lemma reserve_plan_state:
  assumes "sound now s" and clock: "clock_ok now"
    and first: "decide_reserve c i eff requestId route now s = Inr (p, u)"
    and next_plan: "(case p of RFull w limit \<Rightarrow> nbind (reclaimWindow i now) (\<lambda>n.
        if 0 < n then decide_reserve c i eff requestId route now else nreturn p) | _ \<Rightarrow> nreturn p) u = Inr (plan, v)"
  obtains s1 where "sound now s1" "ledger_step\<^sup>*\<^sup>* (ledger_of now s) (ledger_of now s1)" "same_windows s s1" "v = s1"
    "\<And>r w e. plan = RReserve r w e \<Longrightarrow> decide_reserve c i eff requestId route now s1 = Inr (plan, s1)"
proof -
  have reads: "t = s'" if "decide_reserve c i eff requestId route now s' = Inr (q, t)" "store_ok now s'" for q t s'
    using that by (auto simp: decide_reserve_def nbind_iff Let_def dest: readWindow_store reservationRead_store)
  have u: "u = s" using reads [OF first] assms(1) by (simp add: sound_def)
  show thesis
  proof (cases "\<exists>w limit. p = RFull w limit")
    case False
    then have "plan = p" "v = s" using next_plan u by (cases p; auto)+
    with that [of s] assms(1) first u show ?thesis by simp
  next
    case True
    then obtain n s1 where r: "reclaimWindow i now s = Inr (n, s1)"
      and d: "(if 0 < n then decide_reserve c i eff requestId route now else nreturn p) s1 = Inr (plan, v)"
      using next_plan u by (auto simp: nbind_iff)
    note s1 = refinesD [OF refines_reclaimWindow [OF clock] assms(1) r]
    have "v = s1" using d s1(1) reads by (auto simp: sound_def split: if_splits)
    moreover have "decide_reserve c i eff requestId route now s1 = Inr (plan, s1)" if "plan = RReserve r' w' e" for r' w' e
      using d \<open>v = s1\<close> that True by (auto split: if_splits)
    ultimately show ?thesis using that [OF s1] by blast
  qed
qed

lemma js_with_other: "k \<noteq> j \<Longrightarrow> js_get (js_with j v row) k = js_get row k"
  by (cases row) (simp_all add: js_with_def js_get_def field_def)

lemma reserve_against_plan:
  assumes s: "sound now s" and clock: "clock_ok now" and m: "reserve_against c i eff request requestId route now s = Inr (x, t)"
  obtains plan s1 where "sound now s1" "ledger_step\<^sup>*\<^sup>* (ledger_of now s) (ledger_of now s1)" "same_windows s s1"
    "x = reserve_reply plan" "\<And>r w e. plan = RReserve r w e \<Longrightarrow> decide_reserve c i eff requestId route now s1 = Inr (plan, s1)"
    "(\<forall>r w e. plan \<noteq> RReserve r w e) \<Longrightarrow> t = s1"
    "\<And>r w e. plan = RReserve r w e \<Longrightarrow> \<exists>a u1 b u2 f. writeWindow i w (Some (now + e)) (Some (identity_index i)) s1 = Inr (a, u1) \<and>
      writeReservation i r (now + e) u1 = Inr (b, u2) \<and>
      api_save (js_with ''kernel'' (reservation_identity_js (reservationIdentity i requestId route (kw_created_at_ms w))) request) u2 = Inr (f, t)"
proof -
  from m obtain p u plan v where first: "decide_reserve c i eff requestId route now s = Inr (p, u)"
    and next_plan: "(case p of RFull w limit \<Rightarrow> nbind (reclaimWindow i now) (\<lambda>n.
        if 0 < n then decide_reserve c i eff requestId route now else nreturn p) | _ \<Rightarrow> nreturn p) u = Inr (plan, v)"
    and rest: "(case plan of RReserve r w expireIn \<Rightarrow>
         nbind (writeWindow i w (Some (now + expireIn)) (Some (identity_index i))) (\<lambda>_.
         nbind (writeReservation i r (now + expireIn)) (\<lambda>_.
         nbind (api_save (js_with ''kernel'' (reservation_identity_js (reservationIdentity i requestId route (kw_created_at_ms w))) request)) (\<lambda>_.
         nreturn (reserve_reply plan)))) | _ \<Rightarrow> nreturn (reserve_reply plan)) v = Inr (x, t)"
    unfolding reserve_against_def nbind_iff by blast
  from reserve_plan_state [OF s clock first next_plan] obtain s1 where s1: "sound now s1"
      "ledger_step\<^sup>*\<^sup>* (ledger_of now s) (ledger_of now s1)" "same_windows s s1" "v = s1"
    and d: "\<And>r w e. plan = RReserve r w e \<Longrightarrow> decide_reserve c i eff requestId route now s1 = Inr (plan, s1)" by metis
  from rest have "x = reserve_reply plan" by (cases plan) (auto simp: nbind_iff)
  moreover from rest s1(4) have "(\<forall>r w e. plan \<noteq> RReserve r w e) \<Longrightarrow> t = s1" by (cases plan) auto
  ultimately show thesis using rest s1(4) by (intro that [OF s1(1-3) _ d]) (auto simp: nbind_iff)
qed

text \<open>A reservation that is granted: the window it was decided on, and the rows afterwards.\<close>

lemma reserve_granted:
  assumes s: "sound now s1" and clock: "clock_ok now" and ms: "0 < ep_windowMs eff" and ids: "requestId \<noteq> []" "route \<noteq> []"
    and request: "js_get request ''requestId'' \<noteq> JStr []" "js_get request ''route'' \<noteq> JStr []"
    and d: "decide_reserve c i eff requestId route now s1 = Inr (RReserve r w expireIn, s1)"
    and ww: "writeWindow i w (Some (now + expireIn)) (Some (identity_index i)) s1 = Inr (a, u1)"
    and wr: "writeReservation i r (now + expireIn) u1 = Inr (b, u2)"
    and sv: "api_save (js_with ''kernel'' (reservation_identity_js (reservationIdentity i requestId route (kw_created_at_ms w))) request) u2 = Inr (f, t)"
    and later: "\<forall>win. opened_window s1 i (ep_windowMs eff) now win \<longrightarrow> stored_window t (ident i) = Some w \<longrightarrow>
      kw_applied_window_ms w = ep_windowMs eff \<longrightarrow> later_window s1 i now"
  shows "sound now t" and "ledger_step\<^sup>*\<^sup>* (ledger_of now s1) (ledger_of now t)" and "stored_window t (ident i) = Some w"
    and "now < kw_usage_reset_at_ms w" and "map_of (stored_reservations t) (nativeKey (row_key r)) = Some r"
    and "row_window r = (ident i, kw_created_at_ms w)" and "rv_state r = RowReserved"
    and "ep_limit eff = kc_noUsageLimit c \<or> kw_usage_requests w + kw_reserved_requests w \<le> ep_limit eff"
proof -
  have ok: "store_ok now s1" and inv: "ledger_inv (ledger_of now s1)" using s by (simp_all add: sound_def)
  from decide_reserve_cases [OF ok d] obtain win entry where valid: "identity_valid i"
    and win: "kept_window s1 i (ep_windowMs eff) now win \<or> opened_window s1 i (ep_windowMs eff) now win"
    and rd: "reservationRead (reservationIdentity i requestId route (kw_created_at_ms win)) now s1 = Inr (entry, s1)" "nr_value entry = JNull"
    and r: "r = newReservation i win requestId route now"
    and w: "w = win\<lparr>kw_reserved_requests := kw_reserved_requests win + 1, kw_updated_at_ms := now\<rparr>"
    and e: "expireIn = kernelReservationRetentionMs (kw_usage_reset_at_ms win) now"
    and limit: "ep_limit eff = kc_noUsageLimit c \<or> kw_usage_requests win + kw_reserved_requests win < ep_limit eff" by metis
  note v = reserve_write [OF ok inv clock ms valid ids win w _ ww [unfolded e] wr [unfolded e r], OF refl]
  have t: "store_ok now t" "ledger_of now t = ledger_of now u2"
    using save_request [OF v(1) sv] request by (simp_all add: js_with_other)
  then have rows: "stored_window t = (stored_window s1)(ident i \<mapsto> w)" "stored_reservations t = stored_reservations u2"
    using v(2) by (simp_all add: ledger_of_def)
  have "kw_applied_window_ms w = ep_windowMs eff" using win by (auto simp: w kept_window_def opened_window_def)
  with later rows have later': "opened_window s1 i (ep_windowMs eff) now win \<Longrightarrow> later_window s1 i now" by auto
  from reserve_steps [OF ok inv ms win later' rd w v(2-6)] t
  show steps: "ledger_step\<^sup>*\<^sup>* (ledger_of now s1) (ledger_of now t)" by simp
  with kernel_machine.inv_run [OF steps inv] t(1) show "sound now t" by (simp add: sound_def)
  show "stored_window t (ident i) = Some w" "now < kw_usage_reset_at_ms w" using rows v(5) by (simp_all add: w)
  show "map_of (stored_reservations t) (nativeKey (row_key r)) = Some r" using rows v(3) by (simp add: r)
  show "row_window r = (ident i, kw_created_at_ms w)" "rv_state r = RowReserved" by (simp_all add: r w)
  show "ep_limit eff = kc_noUsageLimit c \<or> kw_usage_requests w + kw_reserved_requests w \<le> ep_limit eff" using limit by (auto simp: w)
qed

definition granted :: "kernel_constants \<Rightarrow> kernel_identity \<Rightarrow> effective_policy \<Rightarrow> int \<Rightarrow> sql_store \<Rightarrow> native_reply \<Rightarrow> bool" where
  "granted c i eff now t x \<longleftrightarrow> (\<exists>w h r. stored_window t (ident i) = Some w \<and> now < kw_usage_reset_at_ms w \<and>
      map_of (stored_reservations t) h = Some r \<and> row_window r = (ident i, kw_created_at_ms w) \<and> rv_state r = RowReserved \<and>
      rp_detail x = kernel_reservation_js r \<and>
      (ep_limit eff = kc_noUsageLimit c \<or> kw_usage_requests w + kw_reserved_requests w \<le> ep_limit eff))"

lemma reserve_against_steps:
  assumes s: "sound now s" and clock: "clock_ok now" and ms: "0 < ep_windowMs eff" and ids: "requestId \<noteq> []" "route \<noteq> []"
    and request: "js_get request ''requestId'' \<noteq> JStr []" "js_get request ''route'' \<noteq> JStr []"
    and m: "reserve_against c i eff request requestId route now s = Inr (x, t)" and adv: "window_advances s t now"
  shows "sound now t" and "ledger_step\<^sup>*\<^sup>* (ledger_of now s) (ledger_of now t)"
    and "rp_kind x = ''reserved'' \<Longrightarrow> granted c i eff now t x"
proof -
  obtain plan s1 where s1: "sound now s1"
      "ledger_step\<^sup>*\<^sup>* (ledger_of now s) (ledger_of now s1)" "same_windows s s1" "x = reserve_reply plan"
    and d: "\<And>r w e. plan = RReserve r w e \<Longrightarrow> decide_reserve c i eff requestId route now s1 = Inr (plan, s1)"
    and other: "(\<forall>r w e. plan \<noteq> RReserve r w e) \<Longrightarrow> t = s1"
    and writes: "\<And>r w e. plan = RReserve r w e \<Longrightarrow> \<exists>a u1 b u2 f. writeWindow i w (Some (now + e)) (Some (identity_index i)) s1 = Inr (a, u1) \<and>
      writeReservation i r (now + e) u1 = Inr (b, u2) \<and>
      api_save (js_with ''kernel'' (reservation_identity_js (reservationIdentity i requestId route (kw_created_at_ms w))) request) u2 = Inr (f, t)"
    by (rule reserve_against_plan [OF s clock m], rule that)
  have inv: "ledger_inv (ledger_of now s1)" using s1(1) by (simp add: sound_def)
  have "sound now t \<and> ledger_step\<^sup>*\<^sup>* (ledger_of now s1) (ledger_of now t) \<and> (rp_kind x = ''reserved'' \<longrightarrow> granted c i eff now t x)"
  proof (cases plan)
    case (RReserve r w e)
    from writes [OF RReserve] obtain a u1 b u2 f where ww: "writeWindow i w (Some (now + e)) (Some (identity_index i)) s1 = Inr (a, u1)"
      and wr: "writeReservation i r (now + e) u1 = Inr (b, u2)"
      and sv: "api_save (js_with ''kernel'' (reservation_identity_js (reservationIdentity i requestId route (kw_created_at_ms w))) request) u2 = Inr (f, t)"
      by blast
    have later: "\<forall>win. opened_window s1 i (ep_windowMs eff) now win \<longrightarrow> stored_window t (ident i) = Some w \<longrightarrow>
        kw_applied_window_ms w = ep_windowMs eff \<longrightarrow> later_window s1 i now"
      using opened_later [OF inv s1(3) adv] by blast
    note g = reserve_granted [OF s1(1) clock ms ids request d [OF RReserve, unfolded RReserve] ww wr sv later]
    have "granted c i eff now t x" unfolding granted_def using g(3-8) s1(4) RReserve
      by (intro exI [of _ w] exI [of _ "nativeKey (row_key r)"] exI [of _ r]) (simp add: reply_def)
    with g(1,2) show ?thesis by simp
  qed (use other s1(1,4) in \<open>auto simp: reply_def\<close>)
  with s1(2) show "sound now t" and "ledger_step\<^sup>*\<^sup>* (ledger_of now s) (ledger_of now t)"
    and "rp_kind x = ''reserved'' \<Longrightarrow> granted c i eff now t x"
    by auto
qed

lemma api_request_row:
  assumes "store_ok clock s" "api_request cap handle n s = Inr (row, t)"
  shows "t = s" and "js_get row ''requestId'' \<noteq> JStr []" "js_get row ''route'' \<noteq> JStr []"
proof -
  from assms(2) obtain rd where rd: "sql_read Request_lifetime [KText handle] n s = Inr (rd, s)" "row = nr_value rd" and t: "t = s"
    by (auto simp: api_request_def nbind_iff Let_def dest: sql_read_store)
  show "t = s" by (fact t)
  show "js_get row ''requestId'' \<noteq> JStr []" "js_get row ''route'' \<noteq> JStr []"
  proof (atomize (full), cases "live_row s Request_lifetime [KText handle] n")
    case None
    with rd show "js_get row ''requestId'' \<noteq> JStr [] \<and> js_get row ''route'' \<noteq> JStr []"
      by (auto simp: sql_read_def absent_read_def js_get_def field_def)
  next
    case (Some r)
    then have "r \<in> set (vals (sq_rows s Request_lifetime))"
      by (auto simp: live_row_def split: option.splits if_splits intro: map_of_vals)
    with store_okD(4) [OF assms(1)] rd Some row_read_value
    show "js_get row ''requestId'' \<noteq> JStr [] \<and> js_get row ''route'' \<noteq> JStr []"
      by (auto simp: sql_read_def request_row_ok_def)
  qed
qed

lemma normalizeWindow_positive: "0 < d \<Longrightarrow> 0 < normalizeWindow v d"
  by (simp add: normalizeWindow_def Let_def split: option.splits)

lemma kernelDefaults_result: "kernelDefaults c n s = Inr (d, t) \<Longrightarrow> t = s \<and> 0 < kd_windowMs d"
  by (auto simp: kernelDefaults_def nbind_iff USAGE_RESET_PERIOD_MS_def intro!: normalizeWindow_positive dest: sql_read_store)

lemma policy_window_positive: "normalizeKernelQuotaPolicyV2 v sc owner repo c = Some p \<Longrightarrow> 0 < kp_window_ms p"
  unfolding normalizeKernelQuotaPolicyV2_def Let_def bind_eq_Some_conv
  by (force split: if_split_asm option.split_asm simp: bind_eq_Some_conv)

lemma policyFor_positive: "policyFor entry sc owner repo d c = Inr eff \<Longrightarrow> 0 < kd_windowMs d \<Longrightarrow> 0 < ep_windowMs eff"
  by (auto simp: policyFor_def dest: policy_window_positive split: if_split_asm option.split_asm)

lemma eligible_positive:
  "decideKernelQuotaEligibility i snap d c now = Inr (EEligible eff) \<Longrightarrow> 0 < kd_windowMs d \<Longrightarrow> 0 < ep_windowMs eff"
  by (auto simp: decideKernelQuotaEligibility_def rbind_Inr_iff dest: policyFor_positive split: if_splits)

lemma reserve_eligibility_result:
  assumes "reserve_eligibility c cap owner repoName now s = Inr ((i, el), t)"
  shows "t = s" and "el = EEligible eff \<Longrightarrow> 0 < ep_windowMs eff"
proof -
  have "\<exists>d snap. 0 < kd_windowMs d \<and> decideKernelQuotaEligibility i snap d c now = Inr el \<and> t = s"
    using assms unfolding reserve_eligibility_def by (auto elim!: nbindE dest!: sql_read_store kernelDefaults_result) blast
  with eligible_positive show "t = s" and "el = EEligible eff \<Longrightarrow> 0 < ep_windowMs eff" by blast+
qed

lemma reply_kind [simp]: "rp_kind (reply kind detail) = kind"
  by (simp add: reply_def)

lemma reserve_call:
  assumes s: "store_ok clock s" and m: "reserveKernelUsage c cap handle now s = Inr (x, t)" and changed: "t \<noteq> s \<or> rp_kind x = ''reserved''"
  obtains owner repoName i eff request requestId route where "reserve_against c i eff request requestId route now s = Inr (x, t)"
    "reserve_eligibility c cap owner repoName now s = Inr ((i, EEligible eff), s)" "nc_kernel cap = Some (owner, repoName)"
    "0 < ep_windowMs eff" "requestId \<noteq> []" "route \<noteq> []" "js_get request ''requestId'' \<noteq> JStr []" "js_get request ''route'' \<noteq> JStr []"
proof -
  from m obtain request u where rq: "api_request cap handle now s = Inr (request, u)"
    by (auto simp: reserveKernelUsage_def nbind_iff)
  note row = api_request_row [OF s rq]
  from m rq row(1) changed obtain owner repoName i el v where
    el: "reserve_eligibility c cap owner repoName now s = Inr ((i, el), v)" and kernel: "nc_kernel cap = Some (owner, repoName)"
    and rest: "(case el of ERefused status message \<Rightarrow> nreturn (reply ''refused'' (refusal_js status message))
     | EEligible effective \<Rightarrow>
         nbind (nlift (typed (js_text (js_get request ''requestId'')))) (\<lambda>requestId.
         nbind (nlift (typed (js_text (js_get request ''route'')))) (\<lambda>route.
         reserve_against c i effective request requestId route now))) v = Inr (x, t)"
    unfolding reserveKernelUsage_def nbind_iff by (auto simp: nbind_iff split: if_splits)
  note elig = reserve_eligibility_result [OF el]
  with rest changed obtain eff requestId route where eff: "el = EEligible eff"
    "js_text (js_get request ''requestId'') = Some requestId" "js_text (js_get request ''route'') = Some route"
    "reserve_against c i eff request requestId route now s = Inr (x, t)"
    by (cases el) (auto simp: nbind_iff typed_def)
  then show thesis using that [OF eff(4) _ kernel elig(2) [OF eff(1)]] el elig(1) row by (auto simp: js_text_Some)
qed

lemma reserveKernelUsage_steps:
  assumes s: "sound now s" and clock: "clock_ok now" and m: "reserveKernelUsage c cap handle now s = Inr (x, t)"
    and adv: "window_advances s t now"
  shows "sound now t" and "ledger_step\<^sup>*\<^sup>* (ledger_of now s) (ledger_of now t)"
proof -
  have "sound now t \<and> ledger_step\<^sup>*\<^sup>* (ledger_of now s) (ledger_of now t)"
  proof (cases "t = s")
    case False
    from s have "store_ok now s" by (simp add: sound_def)
    from reserve_call [OF this m] False reserve_against_steps(1,2) [OF s clock _ _ _ _ _ _ adv] show ?thesis by metis
  qed (use s in simp)
  then show "sound now t" and "ledger_step\<^sup>*\<^sup>* (ledger_of now s) (ledger_of now t)" by auto
qed

end
