(* ===== verification/Kernel_Policies.thy ===== *)
theory Kernel_Policies
  imports Kernel_Runs
begin

text \<open>
  Writing and deleting a kernel policy refines the ledger as well: the operation drains the windows it
  must, and then keeps the identity's window or opens a new one.
\<close>

text \<open>
  A policy operation writes its window without an expiry, so no check refuses a reset time that is no
  safe integer; \<open>readable_windows\<close> says that no such window is left behind.
\<close>

definition readable_windows :: "sql_store \<Rightarrow> bool" where
  "readable_windows s \<longleftrightarrow> (\<forall>i. ident_ok i \<longrightarrow> map_of (sq_rows s Kernel_window_table) (nativeKey (window_key i)) \<noteq> None \<longrightarrow>
     stored_window s i \<noteq> None)"

lemma normalized_window_ok:
  "normalizeKernelQuotaWindowV2 (kernel_window_js w) sc owner repo = Some v \<Longrightarrow> ident_of sc owner repo = (kw_scope w, kw_owner w, kw_repo w) \<Longrightarrow>
     ident_ok (kw_scope w, kw_owner w, kw_repo w) \<Longrightarrow> window_ok w"
  by (auto simp: normalizeKernelQuotaWindowV2_def kernel_window_js_def window_ok_def bind_eq_Some_conv split: if_splits)

lemma written_window_ok:
  assumes ww: "writeWindow i v e sc s = Inr (x, t)" and "readable_windows t"
    and v: "(kw_scope v, kw_owner v, kw_repo v) = ident i"
  shows "window_ok v" and "identity_valid i"
proof -
  from ww obtain ix where valid: "identity_valid i"
    and sw: "sql_write Kernel_window_table (window_key (ident i)) (kernel_window_js v) e ix s = Inr (x, t)"
    by (auto simp: writeWindow_def nbind_iff scoped_window_key identity_valid_def)
  show "identity_valid i" by (fact valid)
  have i: "ident_ok (ident i)" using valid by (simp add: identity_valid_def)
  obtain row where row: "map_of (sq_rows t Kernel_window_table) (nativeKey (window_key (ident i))) = Some row" "sr_value row = kernel_window_js v"
    using sql_write_rows(1) [OF sw] by simp
  with assms(2) i obtain w where "stored_window t (ident i) = Some w" unfolding readable_windows_def by blast
  with row i have "normalizeKernelQuotaWindowV2 (kernel_window_js v) (fst (ident i)) (fst (snd (ident i))) (snd (snd (ident i))) = Some w"
    by (simp add: stored_window_def)
  then show "window_ok v" by (rule normalized_window_ok) (use v i in \<open>auto simp: ident_of_def scoped_repo_def\<close>)
qed

text \<open>The window a policy operation writes: the current one, or a new one.\<close>

definition policy_window :: "sql_store \<Rightarrow> kernel_identity \<Rightarrow> int \<Rightarrow> int \<Rightarrow> kernel_window \<Rightarrow> bool" where
  "policy_window s i windowMs now v \<longleftrightarrow>
     v = newWindow (ki_scope i) (ki_owner i) (ki_repo i) windowMs now \<or>
     (\<exists>w. stored_window s (ident i) = Some w \<and> (v = w \<or> v = w\<lparr>kw_updated_at_ms := now\<rparr>))"

lemma newWindow_updated [simp]:
  "(newWindow sc owner repo windowMs now)\<lparr>kw_updated_at_ms := now\<rparr> = newWindow sc owner repo windowMs now"
  by (simp add: newWindow_def)

lemma policy_window_effective:
  assumes "store_ok now s" and "readWindow i now s = Inr ((rd, cur), u)"
  shows "policy_window s i windowMs now (fst (windowForEffectivePolicy cur (ki_scope i) (ki_owner i) (ki_repo i) windowMs now))"
    and "policy_window s i windowMs now
      ((fst (windowForEffectivePolicy cur (ki_scope i) (ki_owner i) (ki_repo i) windowMs now))\<lparr>kw_updated_at_ms := now\<rparr>)"
  using effective_window_cases [OF assms, of windowMs]
  by (auto simp: policy_window_def kept_window_def opened_window_def)

lemma policy_window_fit:
  assumes ok: "store_ok now s" and inv: "ledger_inv (ledger_of now s)" and clock: "clock_ok now" and ms: "0 < windowMs"
    and v: "policy_window s i windowMs now v" and "window_ok v" and valid: "identity_valid i"
  shows "window_fit s i now v"
  using v unfolding policy_window_def
proof
  assume v: "v = newWindow (ki_scope i) (ki_owner i) (ki_repo i) windowMs now"
  have "now + windowMs \<le> max_safe_integer" using \<open>window_ok v\<close>
    by (simp add: v window_ok_def safe_positive_def is_safe_integer_def)
  from new_fit [OF ok clock ms this valid] show ?thesis by (simp add: v)
next
  assume "\<exists>w. stored_window s (ident i) = Some w \<and> (v = w \<or> v = w\<lparr>kw_updated_at_ms := now\<rparr>)"
  then show ?thesis using stored_fit [OF ok inv, of i] \<open>window_ok v\<close>
    by (auto simp: window_fit_def window_shape_def)
qed

lemma policy_window_steps:
  assumes "0 < windowMs" and "later_window s i now" and v: "policy_window s i windowMs now v"
  shows "ledger_step (ledger_of now s) ((ledger_of now s)\<lparr>kl_windows := (stored_window s)(ident i \<mapsto> v)\<rparr>)"
  using v unfolding policy_window_def
proof
  assume "v = newWindow (ki_scope i) (ki_owner i) (ki_repo i) windowMs now"
  with open_step [OF assms(1,2)] show ?thesis by simp
next
  assume "\<exists>w. stored_window s (ident i) = Some w \<and> (v = w \<or> v = w\<lparr>kw_updated_at_ms := now\<rparr>)"
  then obtain w where w: "stored_window s (ident i) = Some w" "v = w \<or> v = w\<lparr>kw_updated_at_ms := now\<rparr>" by blast
  have "ledger_step (ledger_of now s) ((ledger_of now s)\<lparr>kl_windows := (kl_windows (ledger_of now s))(ident i \<mapsto> v)\<rparr>)"
  proof (rule L_touch_window [where w = w])
    show "counter_of f v = counter_of f w" for f using w(2) by (cases f) auto
  qed (use w in \<open>auto simp: ledger_of_def same_window_def\<close>)
  then show ?thesis by (simp add: ledger_of_def)
qed

lemma policy_write:
  assumes s: "sound now s" and clock: "clock_ok now" and ms: "0 < windowMs" and later: "later_window s i now"
    and v: "policy_window s i windowMs now v" and ww: "writeWindow i v None None s = Inr (x, t)" and "readable_windows t"
  shows "sound now t \<and> ledger_step\<^sup>*\<^sup>* (ledger_of now s) (ledger_of now t)"
proof -
  have ok: "store_ok now s" and inv: "ledger_inv (ledger_of now s)" using s by (simp_all add: sound_def)
  have ids: "(kw_scope v, kw_owner v, kw_repo v) = ident i"
    using v stored_window_Some(2) [OF ok, of "ident i"] newWindow_fields(6) by (fastforce simp: policy_window_def)
  note w_ok = written_window_ok [OF ww assms(7) ids]
  have fit: "window_fit s i now v" by (rule policy_window_fit [OF ok inv clock ms v w_ok])
  have t: "store_ok now t" "ledger_of now t = (ledger_of now s)\<lparr>kl_windows := (stored_window s)(ident i \<mapsto> v)\<rparr>"
    using write_window [OF ok ww w_ok(1) ids] fit by (simp_all add: window_fit_def)
  have steps: "ledger_step\<^sup>*\<^sup>* (ledger_of now s) (ledger_of now t)"
    using policy_window_steps [OF ms later v] t(2) by simp
  with kernel_machine.inv_run [OF steps inv] t(1) show ?thesis by (simp add: sound_def)
qed

section \<open>The operations\<close>

text \<open>
  \<open>drained\<close> is what an operation knows of the window it will write over: it was read in a store that
  ledger steps lead to, with the same windows.
\<close>

definition drained :: "int \<Rightarrow> kernel_identity \<Rightarrow> sql_store \<Rightarrow> sql_store \<Rightarrow> kernel_window option \<Rightarrow> bool" where
  "drained now i s t w \<longleftrightarrow> sound now t \<and> ledger_step\<^sup>*\<^sup>* (ledger_of now s) (ledger_of now t) \<and> same_windows s t \<and>
     (\<exists>rd. readWindow i now t = Inr ((rd, w), t))"

lemma drainWindow_drained:
  assumes "sound now s" "clock_ok now" "drainWindow i now s = Inr ((b, w), t)"
  shows "drained now i s t w"
proof -
  from assms(3) obtain rd u where "readWindow i now u = Inr ((rd, w), t)"
    by (auto simp: drainWindow_def nbind_iff)
  with readWindow_store [OF this] refinesD [OF refines_drainWindow [OF assms(2)] assms(1,3)]
  show ?thesis by (auto simp: drained_def)
qed

lemma later_window_same: "same_windows s t \<Longrightarrow> later_window s i now \<Longrightarrow> later_window t i now"
  unfolding same_windows_def later_window_def same_window_def
  by (drule spec [of _ "ident i"]) (auto elim!: option.rel_cases)

lemma timing_positive: "0 < ep_windowMs current \<Longrightarrow> 0 < fst (resolveKernelPolicyTiming options current c)"
  by (simp add: resolveKernelPolicyTiming_def normalizeWindow_positive)

lemma sound_other:
  assumes "sound now s" "store_ok now u" "ledger_of now u = ledger_of now s"
  shows "sound now u" and "stored_window u = stored_window s"
  using assms by (simp_all add: sound_def ledger_of_def)

lemma setPolicy_steps:
  assumes s: "sound now s" and clock: "clock_ok now" and ms: "0 < ep_windowMs current" and later: "later_window s i now"
    and win: "readWindow i now s = Inr ((rd, window), s)"
    and m: "setPolicy c i args current window now s = Inr (x, t)" and "readable_windows t"
  shows "sound now t \<and> ledger_step\<^sup>*\<^sup>* (ledger_of now s) (ledger_of now t)"
proof -
  define timing where "timing = resolveKernelPolicyTiming (sa_options args) current (kc_noExpirationMs c)"
  define reset where "reset = kernelQuotaPolicyResetRequested (sa_options args) (ep_windowMs current) (fst timing)"
  define policy where "policy = makeKernelQuotaPolicy i current (jint (sa_usageLimitRequests args)) timing (kc_noUsageLimit c) now"
  have pms: "kp_window_ms policy = fst timing" "0 < fst timing"
    using timing_positive [OF ms] by (simp_all add: policy_def makeKernelQuotaPolicy_def timing_def)
  from m obtain b w u where guard: "(case decideKernelPolicyWindowGuard window (window \<noteq> None) reset now of
        GReclaim _ \<Rightarrow> drainWindow i now | _ \<Rightarrow> nreturn (False, window)) s = Inr ((b, w), u)"
    and rest: "(if b then nreturn (reply ''conflict'' JUndef)
      else nbind (nlift (kernelScopedPolicyKey (ki_scope i) (ki_owner i) (ki_repo i))) (\<lambda>key.
        nbind (sql_write Kernel_policy_table key (kernel_policy_js (fst (decideKernelQuotaPolicyWrite i policy w reset now))) None no_index) (\<lambda>_.
        nbind (writeWindow i (snd (decideKernelQuotaPolicyWrite i policy w reset now)) None None) (\<lambda>_.
        nreturn (reply ''written'' (kernel_policy_js (fst (decideKernelQuotaPolicyWrite i policy w reset now)))))))) u = Inr (x, t)"
    unfolding setPolicy_def Let_def timing_def [symmetric] reset_def [symmetric] policy_def [symmetric] nbind_iff by auto
  have "drained now i s u w"
    using guard s win drainWindow_drained [OF s clock] by (auto simp: drained_def split: window_guard.splits)
  then obtain rd2 where u: "sound now u" "ledger_step\<^sup>*\<^sup>* (ledger_of now s) (ledger_of now u)" "same_windows s u"
    and win2: "readWindow i now u = Inr ((rd2, w), u)" by (auto simp: drained_def)
  show ?thesis
  proof (cases b)
    case True
    with rest u show ?thesis by simp
  next
    case False
    from rest False obtain key u2 y z where pw: "sql_write Kernel_policy_table key (kernel_policy_js (fst (decideKernelQuotaPolicyWrite i policy w reset now))) None no_index u = Inr (y, u2)"
      and ww: "writeWindow i (snd (decideKernelQuotaPolicyWrite i policy w reset now)) None None u2 = Inr (z, t)"
      by (auto simp: nbind_iff)
    have oku: "store_ok now u" using u(1) by (simp add: sound_def)
    have pv: "policy_window u i (fst timing) now (snd (decideKernelQuotaPolicyWrite i policy w reset now))"
      using policy_window_effective(2) [OF oku win2, of "fst timing"]
      by (auto simp: decideKernelQuotaPolicyWrite_def pms policy_window_def)
    note u2 = sound_other [OF u(1) write_elsewhere [OF oku pw kernel_other_tables(3)]]
    have "policy_window u2 i (fst timing) now (snd (decideKernelQuotaPolicyWrite i policy w reset now))" "later_window u2 i now"
      using pv later_window_same [OF u(3) later] by (simp_all add: policy_window_def later_window_def u2)
    from policy_write [OF u2(1) clock pms(2) this(2,1) ww assms(7)] u(2) write_elsewhere(2) [OF oku pw kernel_other_tables(3)]
    show ?thesis by (auto intro: rtranclp_trans)
  qed
qed

lemma deletePolicy_steps:
  assumes s: "sound now s" and clock: "clock_ok now" and later: "later_window s i now"
    and win: "readWindow i now s = Inr ((rd, window), s)"
    and m: "deletePolicy c i entry marker current window now s = Inr (x, t)" and "readable_windows t"
  shows "sound now t \<and> ledger_step\<^sup>*\<^sup>* (ledger_of now s) (ledger_of now t)"
proof (cases "decideKernelQuotaPolicyDeletePrecondition (kernel_read_of entry) (kernel_read_of marker) = DProceed")
  case False
  with m s show ?thesis by (cases "decideKernelQuotaPolicyDeletePrecondition (kernel_read_of entry) (kernel_read_of marker)")
      (simp_all add: deletePolicy_def)
next
  case True
  with m obtain b w u where guard: "(if hasLiveKernelReservations window now then drainWindow i now else nreturn (False, window)) s = Inr ((b, w), u)"
    and rest: "(if b then nreturn (reply ''conflict'' JUndef)
          else
          nbind (kernelDefaults c now) (\<lambda>defaults.
          nbind (nlift (kernelScopedPolicyKey (ki_scope i) (ki_owner i) (ki_repo i))) (\<lambda>key.
          nbind (sql_delete Kernel_policy_table key) (\<lambda>_.
          nbind (writeWindow i (decideKernelQuotaPolicyDeleteWindow i current defaults w now) None None) (\<lambda>_.
          nreturn (reply ''deleted'' JUndef)))))) u = Inr (x, t)"
    unfolding deletePolicy_def by (auto simp: nbind_iff)
  have "drained now i s u w"
    using guard s win drainWindow_drained [OF s clock] by (auto simp: drained_def split: if_splits)
  then obtain rd2 where u: "sound now u" "ledger_step\<^sup>*\<^sup>* (ledger_of now s) (ledger_of now u)" "same_windows s u"
    and win2: "readWindow i now u = Inr ((rd2, w), u)" by (auto simp: drained_def)
  show ?thesis
  proof (cases b)
    case True
    with rest u show ?thesis by simp
  next
    case False
    have oku: "store_ok now u" using u(1) by (simp add: sound_def)
    from rest False obtain d key u2 y z where d: "0 < kd_windowMs d" and pd: "sql_delete Kernel_policy_table key u = Inr (y, u2)"
      and ww: "writeWindow i (decideKernelQuotaPolicyDeleteWindow i current d w now) None None u2 = Inr (z, t)"
      by (auto simp: nbind_iff dest!: kernelDefaults_result)
    have pv: "policy_window u i (kd_windowMs d) now (decideKernelQuotaPolicyDeleteWindow i current d w now)"
      using policy_window_effective(1) [OF oku win2, of "kd_windowMs d"]
      by (auto simp: decideKernelQuotaPolicyDeleteWindow_def policy_window_def)
    note other = delete_elsewhere [OF oku pd kernel_other_tables(3)]
    note u2 = sound_other [OF u(1) other]
    have "policy_window u2 i (kd_windowMs d) now (decideKernelQuotaPolicyDeleteWindow i current d w now)" "later_window u2 i now"
      using pv later_window_same [OF u(3) later] by (simp_all add: policy_window_def later_window_def u2)
    from policy_write [OF u2(1) clock d this(2,1) ww assms(6)] u(2) other(2)
    show ?thesis by (auto intro: rtranclp_trans)
  qed
qed

lemma refines_orgInheritance: "clock_ok now \<Longrightarrow> refines now (orgInheritanceBlocked cap i entry now)"
  unfolding orgInheritanceBlocked_def by (auto intro!: refines_bind refines_drainWindow)

lemma kernelPolicy_steps:
  assumes s: "sound now s" and clock: "clock_ok now" and later: "\<And>i. nativeIdentity sc cap = Inr i \<Longrightarrow> later_window s i now"
    and m: "kernelPolicy c cap sc args now s = Inr (x, t)" and r: "readable_windows t"
  shows "sound now t" and "ledger_step\<^sup>*\<^sup>* (ledger_of now s) (ledger_of now t)"
proof -
  from m obtain i entry marker d current where i: "nativeIdentity sc cap = Inr i" and "0 < kd_windowMs d"
    and eff: "policyFor (kernel_read_of entry) (ki_scope i) (ki_owner i) (ki_repo i) d c = Inr current"
    and rest: "(if kernelQuotaDefaultCutoverBlocks current (kernel_read_of marker) then nreturn (reply ''conflict'' JUndef)
     else
     nbind (orgInheritanceBlocked cap i entry now) (\<lambda>blocked.
     if blocked then nreturn (reply ''conflict'' JUndef)
     else
     nbind (readWindow i now) (\<lambda>(_, window).
     case args of
       Some a \<Rightarrow> setPolicy c i a current window now
     | None \<Rightarrow> deletePolicy c i entry marker current window now))) s = Inr (x, t)"
    unfolding kernelPolicy_def by (auto elim!: nbindE dest!: sql_read_store kernelDefaults_result)
  have ms: "0 < ep_windowMs current" by (rule policyFor_positive [OF eff \<open>0 < kd_windowMs d\<close>])
  have "sound now t \<and> ledger_step\<^sup>*\<^sup>* (ledger_of now s) (ledger_of now t)"
  proof (cases "kernelQuotaDefaultCutoverBlocks current (kernel_read_of marker)")
    case True
    with rest s show ?thesis by simp
  next
    case False
    with rest obtain b u where ob: "orgInheritanceBlocked cap i entry now s = Inr (b, u)"
      and rest2: "(if b then nreturn (reply ''conflict'' JUndef) else nbind (readWindow i now) (\<lambda>(_, window).
        case args of Some a \<Rightarrow> setPolicy c i a current window now | None \<Rightarrow> deletePolicy c i entry marker current window now)) u = Inr (x, t)"
      by (auto simp: nbind_iff)
    note u = refinesD [OF refines_orgInheritance [OF clock] s ob]
    show ?thesis
    proof (cases b)
      case True
      with rest2 u show ?thesis by simp
    next
      case False
      with rest2 obtain rd window v where win: "readWindow i now u = Inr ((rd, window), v)"
        and op: "(case args of Some a \<Rightarrow> setPolicy c i a current window now | None \<Rightarrow> deletePolicy c i entry marker current window now) v = Inr (x, t)"
        by (auto simp: nbind_iff)
      have v: "v = u" by (rule readWindow_store [OF win])
      note lat = later_window_same [OF u(3) later [OF i]]
      have "sound now t \<and> ledger_step\<^sup>*\<^sup>* (ledger_of now u) (ledger_of now t)"
        using op win deletePolicy_steps [OF u(1) clock lat _ _ r] setPolicy_steps [OF u(1) clock ms lat _ _ r]
        by (auto simp: v split: option.splits)
      with u(2) show ?thesis by auto
    qed
  qed
  then show "sound now t" and "ledger_step\<^sup>*\<^sup>* (ledger_of now s) (ledger_of now t)" by auto
qed

end
