(* ===== verification/Kernel_Guarantees.thy ===== *)
theory Kernel_Guarantees
  imports Kernel_Policies
begin

text \<open>
  What the kernel quotas of the native authority guarantee: the machine whose steps are the kernel
  commands of \<^verbatim>\<open>NativeAuthority._execute\<close> (\<^verbatim>\<open>src/src/authority/native-authority.ts\<close>), and the
  properties of every store its runs reach.
\<close>

section \<open>Commands\<close>

datatype kernel_call =
    ReserveCall native_capability string
  | IntentCall native_capability string terminal_state
  | SettleCall native_capability string terminal_state string
  | RenewCall native_capability string
  | ReclaimCall native_capability "string option" int string
  | SetCall native_capability kernel_scope set_quota_arguments
  | DeleteCall native_capability kernel_scope
  | CutoverCall string

fun kernel_execute :: "kernel_constants \<Rightarrow> kernel_call \<Rightarrow> int \<Rightarrow> native_reply native" where
  "kernel_execute c (ReserveCall cap handle) now = reserveKernelUsage c cap handle now"
| "kernel_execute c (IntentCall cap handle st) now = recordKernelTerminalIntent cap handle st now"
| "kernel_execute c (SettleCall cap handle st reason) now = settleKernelUsage cap handle st reason now"
| "kernel_execute c (RenewCall cap handle) now = renewKernelReservation cap handle now"
| "kernel_execute c (ReclaimCall cap cursor limit uuid) now = reclaimExpiredKernelReservations cap cursor limit uuid now"
| "kernel_execute c (SetCall cap sc args) now = setKernelQuota c cap sc args now"
| "kernel_execute c (DeleteCall cap sc) now = deleteKernelQuota c cap sc now"
| "kernel_execute c (CutoverCall uuid) now = acquireKernelDefaultCutover uuid now"

text \<open>
  What a command is asked for beyond succeeding. A release reason must not be blank, and a window is
  replaced only after the millisecond it was created in; a policy must not give its window a reset time
  beyond the safe integers. The first and the last are not checked by the code.
\<close>

fun admissible :: "kernel_call \<Rightarrow> int \<Rightarrow> sql_store \<Rightarrow> sql_store \<Rightarrow> bool" where
  "admissible (ReserveCall cap handle) now s t = window_advances s t now"
| "admissible (SettleCall cap handle st reason) now s t = reason_ok st reason"
| "admissible (SetCall cap sc args) now s t = (readable_windows t \<and> (\<forall>i. nativeIdentity sc cap = Inr i \<longrightarrow> later_window s i now))"
| "admissible (DeleteCall cap sc) now s t = (readable_windows t \<and> (\<forall>i. nativeIdentity sc cap = Inr i \<longrightarrow> later_window s i now))"
| "admissible _ now s t = True"

text \<open>
  A step is a kernel command at a time not before the last one, or a transaction of another family,
  which leaves the kernel tables alone and keeps the request rows identified.
\<close>

definition elsewhere :: "sql_store \<Rightarrow> sql_store \<Rightarrow> bool" where
  "elsewhere s t \<longleftrightarrow> sq_rows t Kernel_reservation_table = sq_rows s Kernel_reservation_table \<and>
     sq_rows t Kernel_window_table = sq_rows s Kernel_window_table \<and> sq_sequence s \<le> sq_sequence t \<and>
     (\<forall>row \<in> set (vals (sq_rows t Request_lifetime)). request_row_ok row)"

inductive kernel_step :: "kernel_constants \<Rightarrow> int \<times> sql_store \<Rightarrow> int \<times> sql_store \<Rightarrow> bool" for c where
  K_call: "clock \<le> now \<Longrightarrow> clock_ok now \<Longrightarrow> kernel_execute c call now s = Inr (x, t) \<Longrightarrow> admissible call now s t \<Longrightarrow>
    kernel_step c (clock, s) (now, t)"
| K_other: "clock \<le> now \<Longrightarrow> elsewhere s t \<Longrightarrow> kernel_step c (clock, s) (now, t)"

inductive_cases kernel_stepE: "kernel_step c p q"

abbreviation kernel_run :: "kernel_constants \<Rightarrow> int \<times> sql_store \<Rightarrow> int \<times> sql_store \<Rightarrow> bool" where
  "kernel_run c \<equiv> (kernel_step c)\<^sup>*\<^sup>*"

lemma sound_tick: "sound clock s \<Longrightarrow> clock \<le> now \<Longrightarrow> sound now s"
  and tick_step: "clock \<le> now \<Longrightarrow> ledger_step (ledger_of clock s) (ledger_of now s)"
proof -
  show step: "clock \<le> now \<Longrightarrow> ledger_step (ledger_of clock s) (ledger_of now s)"
    using L_tick [of "ledger_of clock s" now] by (simp add: ledger_of_def)
  show "sound clock s \<Longrightarrow> clock \<le> now \<Longrightarrow> sound now s"
    using store_ok_tick ledger_step_inv step unfolding sound_def by blast
qed

lemma execute_steps:
  assumes "sound now s" "clock_ok now" "kernel_execute c call now s = Inr (x, t)" "admissible call now s t"
  shows "sound now t" and "ledger_step\<^sup>*\<^sup>* (ledger_of now s) (ledger_of now t)"
proof -
  have ref: "sound now t \<and> ledger_step\<^sup>*\<^sup>* (ledger_of now s) (ledger_of now t)" if r: "refines now m" and m: "m s = Inr (x, t)" for m
    using refinesD(1,2) [OF r assms(1) m] by (rule conjI)
  have "sound now t \<and> ledger_step\<^sup>*\<^sup>* (ledger_of now s) (ledger_of now t)"
  proof (cases call)
    case (ReserveCall cap handle)
    with reserveKernelUsage_steps [OF assms(1,2)] assms(3,4) show ?thesis by simp
  next
    case (SetCall cap sc args)
    with kernelPolicy_steps [OF assms(1,2), of sc cap c "Some args"] assms(3,4) show ?thesis by (simp add: setKernelQuota_def)
  next
    case (DeleteCall cap sc)
    with kernelPolicy_steps [OF assms(1,2), of sc cap c None] assms(3,4) show ?thesis by (simp add: deleteKernelQuota_def)
  next
    case (SettleCall cap handle st reason)
    with ref [OF refines_settleKernelUsage [OF assms(2)]] assms(3,4) show ?thesis by simp
  next
    case (IntentCall cap handle st)
    with ref [OF refines_intent [OF assms(2)]] assms(3) show ?thesis by simp
  next
    case (RenewCall cap handle)
    with ref [OF refines_renew [OF assms(2)]] assms(3) show ?thesis by simp
  next
    case (ReclaimCall cap cursor limit uuid)
    with ref [OF refines_reclaim [OF assms(2)]] assms(3) show ?thesis by simp
  next
    case (CutoverCall uuid)
    with ref [OF refines_cutover] assms(3) show ?thesis by simp
  qed
  then show "sound now t" and "ledger_step\<^sup>*\<^sup>* (ledger_of now s) (ledger_of now t)" by auto
qed

lemma kernel_step_ledger:
  assumes "kernel_step c p q" and "sound (fst p) (snd p)"
  shows "sound (fst q) (snd q)" and "ledger_step\<^sup>*\<^sup>* (ledger_of (fst p) (snd p)) (ledger_of (fst q) (snd q))"
proof (atomize (full))
  from assms(1) show "sound (fst q) (snd q) \<and> ledger_step\<^sup>*\<^sup>* (ledger_of (fst p) (snd p)) (ledger_of (fst q) (snd q))"
  proof cases
    case (K_call clock now call s x t)
    with assms(2) have "sound now s" by (simp add: sound_tick)
    from execute_steps [OF this K_call(4-6)] tick_step [OF K_call(3), of s] K_call(1,2) show ?thesis
      by (auto intro: converse_rtranclp_into_rtranclp)
  next
    case (K_other clock now s t)
    with assms(2) have s: "sound now s" by (simp add: sound_tick)
    then have "store_ok now t" "ledger_of now t = ledger_of now s"
      using K_other(4) store_ok_frame [of now s t] unfolding sound_def elsewhere_def by blast+
    with s tick_step [OF K_other(3), of s] K_other(1,2) show ?thesis by (auto simp: sound_def)
  qed
qed

interpretation kernel_commands: machine "kernel_step c" "\<lambda>(clock, s). sound clock s" for c
  by unfold_locales (use kernel_step_ledger(1) in auto)

lemma kernel_run_ledger:
  assumes "kernel_run c p q" and "sound (fst p) (snd p)"
  shows "sound (fst q) (snd q)" and "ledger_step\<^sup>*\<^sup>* (ledger_of (fst p) (snd p)) (ledger_of (fst q) (snd q))"
proof -
  have "sound (fst q) (snd q) \<and> ledger_step\<^sup>*\<^sup>* (ledger_of (fst p) (snd p)) (ledger_of (fst q) (snd q))"
    using assms
  proof (induction rule: rtranclp_induct)
    case (step y z)
    then show ?case using kernel_step_ledger [OF step(2)] by auto
  qed simp
  then show "sound (fst q) (snd q)" and "ledger_step\<^sup>*\<^sup>* (ledger_of (fst p) (snd p)) (ledger_of (fst q) (snd q))" by auto
qed

text \<open>A store with no kernel rows and identified requests is sound: this is how the authority starts.\<close>

definition kernel_start :: "sql_store \<Rightarrow> bool" where
  "kernel_start s \<longleftrightarrow> sq_rows s Kernel_reservation_table = [] \<and> sq_rows s Kernel_window_table = [] \<and> 0 \<le> sq_sequence s \<and>
     (\<forall>row \<in> set (vals (sq_rows s Request_lifetime)). request_row_ok row)"

lemma kernel_start_sound: "kernel_start s \<Longrightarrow> sound clock s"
  by (auto simp: kernel_start_def sound_def store_ok_def wf_dict_def ledger_inv_def balanced_def window_at_def
      ledger_of_def stored_window_def stored_reservations_def split: option.splits if_splits)

section \<open>Accounting\<close>




lemma ledger_step_row:
  "ledger_step l m \<Longrightarrow> map_of (kl_rows l) h = Some r \<Longrightarrow>
     \<exists>q. map_of (kl_rows m) h = Some q \<and> row_window q = row_window r \<and> (rv_state r \<noteq> RowReserved \<longrightarrow> rv_state q = rv_state r)"
  by (induction rule: ledger_step.induct) auto

lemma ledger_run_row:
  "ledger_step\<^sup>*\<^sup>* l m \<Longrightarrow> map_of (kl_rows l) h = Some r \<Longrightarrow>
     \<exists>q. map_of (kl_rows m) h = Some q \<and> row_window q = row_window r \<and> (rv_state r \<noteq> RowReserved \<longrightarrow> rv_state q = rv_state r)"
proof (induction rule: rtranclp_induct)
  case (step y z)
  then show ?case using ledger_step_row [OF step(2)] by fastforce
qed simp

section \<open>A run\<close>

text \<open>A small authority: two requests of one principal, whose kernel scope is a repository without a policy.\<close>

definition demo_cap :: native_capability where
  "demo_cap = \<lparr>nc_id = ''cap'', nc_epoch = ''e1'', nc_principalId = ''p'', nc_keyId = None, nc_tokenHash = None,
     nc_kernel = Some (''org'', ''repo''), nc_runtimeGrantId = ''g'', nc_contextBinding = ''b'', nc_subjectId = ''s'',
     nc_principalRefId = None, nc_retainedRequestHandles = None, nc_roles = [Inference, Terminal], nc_revoked = False\<rparr>"

definition demo_request :: "string \<Rightarrow> sql_row" where
  "demo_request h = \<lparr>sr_key = [KText h],
     sr_value = JObj [(''handle'', JStr h), (''principalId'', JStr ''p''), (''keyId'', JNull), (''runtimeBindingId'', JStr ''cap''),
       (''requestId'', JStr (h @ ''-id'')), (''route'', JStr ''/chat''), (''kernelApplicable'', JBool True), (''apiApplicable'', JBool False),
       (''api'', JNull), (''kernel'', JNull)],
     sr_revision = 1, sr_expires_at_ms = None, sr_scope = Some ''p'', sr_parent = None, sr_due = None\<rparr>"

definition demo_default :: "int \<Rightarrow> sql_row" where
  "demo_default n = \<lparr>sr_key = [], sr_value = jint n, sr_revision = 1, sr_expires_at_ms = None, sr_scope = None, sr_parent = None, sr_due = None\<rparr>"

definition demo_store :: sql_store where
  "demo_store = \<lparr>sq_rows = (\<lambda>_. [])
     (Request_lifetime := map (\<lambda>h. (nativeKey [KText h], demo_request h)) [''h1'', ''h2''],
      Kernel_default := [(nativeKey [KText ''default'', KText ''kernel_policy_limit_requests''], demo_default 1)]), sq_sequence = 3\<rparr>"

definition demo_constants :: kernel_constants where
  "demo_constants = \<lparr>kc_noUsageLimit = - 1, kc_noExpirationMs = - 1\<rparr>"

definition after_call :: "kernel_call \<Rightarrow> int \<Rightarrow> sql_store \<Rightarrow> sql_store" where
  "after_call call now s = (case kernel_execute demo_constants call now s of Inl e \<Rightarrow> s | Inr (x, t) \<Rightarrow> t)"

definition reply_of :: "kernel_call \<Rightarrow> int \<Rightarrow> sql_store \<Rightarrow> string" where
  "reply_of call now s = (case kernel_execute demo_constants call now s of Inl e \<Rightarrow> ''error'' | Inr (x, t) \<Rightarrow> rp_kind x)"

definition demo_reserved :: sql_store where
  "demo_reserved = after_call (ReserveCall demo_cap ''h1'') 1000 demo_store"

definition demo_settled :: sql_store where
  "demo_settled = after_call (SettleCall demo_cap ''h1'' Committed ''done'') 2000 demo_reserved"

lemma demo_replies:
  "reply_of (ReserveCall demo_cap ''h1'') 1000 demo_store = ''reserved''"
  "reply_of (ReserveCall demo_cap ''h2'') 1500 demo_reserved = ''full''"
  by code_simp+

lemma demo_settles: "reply_of (SettleCall demo_cap ''h1'' Committed ''done'') 2000 demo_reserved = ''settle''"
  by code_simp

lemma demo_windows: "stored_window demo_store i = None"
  by (simp add: stored_window_def demo_store_def)

lemma demo_start: "kernel_start demo_store"
proof -
  have "request_row_ok (demo_request h)" for h by (simp add: request_row_ok_def demo_request_def)
  then show ?thesis by (simp add: kernel_start_def demo_store_def vals_def)
qed

lemma after_call_step:
  assumes "reply_of call now s \<noteq> ''error''" "clock \<le> now" "clock_ok now" "admissible call now s (after_call call now s)"
  shows "kernel_step demo_constants (clock, s) (now, after_call call now s)"
    and "\<exists>x. kernel_execute demo_constants call now s = Inr (x, after_call call now s) \<and> rp_kind x = reply_of call now s"
proof -
  show ex: "\<exists>x. kernel_execute demo_constants call now s = Inr (x, after_call call now s) \<and> rp_kind x = reply_of call now s"
    using assms(1) by (auto simp: reply_of_def after_call_def split: sum.splits)
  then show "kernel_step demo_constants (clock, s) (now, after_call call now s)" using K_call assms(2-4) by blast
qed

lemma demo_run:
  "kernel_run demo_constants (0, demo_store) (1000, demo_reserved)" "kernel_run demo_constants (1000, demo_reserved) (2000, demo_settled)"
proof -
  have "kernel_step demo_constants (0, demo_store) (1000, demo_reserved)" unfolding demo_reserved_def
    by (rule after_call_step) (simp_all add: demo_replies window_advances_def demo_windows clock_ok_def LEASE_MS_def max_safe_integer_def)
  then show "kernel_run demo_constants (0, demo_store) (1000, demo_reserved)" by blast
  have "kernel_step demo_constants (1000, demo_reserved) (2000, demo_settled)" unfolding demo_settled_def
    by (rule after_call_step) (simp_all add: demo_settles reason_ok_def clock_ok_def LEASE_MS_def max_safe_integer_def)
  then show "kernel_run demo_constants (1000, demo_reserved) (2000, demo_settled)" by blast
qed

section \<open>Properties\<close>


definition demo_window :: kernel_window where
  "demo_window = the (stored_window demo_settled (OrgScope, ''org'', None))"




text \<open>
  C18. A settled reservation stays settled: once a row is committed it is never released and once it is
  released it is never committed, and it stays in its window.
\<close>

theorem kernel_settlement_final:
  assumes "kernel_start s0" and "kernel_run c (clock0, s0) (clock, s)" and "kernel_run c (clock, s) (now, t)"
    and "map_of (stored_reservations s) h = Some r" and "rv_state r \<noteq> RowReserved"
  shows "\<exists>q. map_of (stored_reservations t) h = Some q \<and> rv_state q = rv_state r \<and> row_window q = row_window r"
proof -
  have "sound clock s" using kernel_run_ledger(1) [OF assms(2)] kernel_start_sound [OF assms(1)] by simp
  with kernel_run_ledger(2) [OF assms(3)] ledger_run_row [of "ledger_of clock s" "ledger_of now t" h r] assms(4,5)
  show ?thesis by (auto simp: ledger_of_def)
qed

definition demo_row_key :: string where
  "demo_row_key = nativeKey (reservation_key (OrgScope, ''org'', None) 1000 ''h1-id'')"

theorem kernel_settlement_final_witness:
  "\<exists>r q. map_of (stored_reservations demo_settled) demo_row_key = Some r \<and> rv_state r = RowCommitted \<and>
     map_of (stored_reservations demo_settled) demo_row_key = Some q \<and> rv_state q = rv_state r \<and> row_window q = row_window r"
proof -
  have "map_option rv_state (map_of (stored_reservations demo_settled) demo_row_key) = Some RowCommitted" by code_simp
  then obtain r where r: "map_of (stored_reservations demo_settled) demo_row_key = Some r" "rv_state r = RowCommitted" by auto
  with kernel_settlement_final [OF demo_start rtranclp_trans [OF demo_run] rtranclp.rtrancl_refl r(1)] show ?thesis by auto
qed

text \<open>
  Counters stay in range: in every reachable store the two counters of every window are not negative
  and their sum is at most the number of writes so far, so while the revision sequence is a safe integer
  no counter update is rounded.
\<close>

theorem kernel_counters_bounded:
  assumes "kernel_start s0" and "kernel_run c (clock, s0) (now, s)" and "stored_window s i = Some w"
  shows "0 \<le> kw_usage_requests w \<and> 0 \<le> kw_reserved_requests w \<and> kw_usage_requests w + kw_reserved_requests w \<le> sq_sequence s \<and>
    is_safe_integer (kw_usage_requests w) \<and> is_safe_integer (kw_reserved_requests w)"
proof -
  have "store_ok now s" using kernel_run_ledger(1) [OF assms(2)] kernel_start_sound [OF assms(1)] by (simp add: sound_def)
  from stored_window_Some [OF this assms(3)] show ?thesis by (simp add: window_ok_def safe_nonneg_def)
qed

theorem kernel_counters_bounded_witness:
  "stored_window demo_settled (OrgScope, ''org'', None) = Some demo_window \<and> 0 \<le> kw_usage_requests demo_window \<and>
   0 \<le> kw_reserved_requests demo_window \<and> kw_usage_requests demo_window + kw_reserved_requests demo_window \<le> sq_sequence demo_settled \<and>
   is_safe_integer (kw_usage_requests demo_window) \<and> is_safe_integer (kw_reserved_requests demo_window)"
proof -
  have w: "stored_window demo_settled (OrgScope, ''org'', None) = Some demo_window" by code_simp
  with kernel_counters_bounded [OF demo_start rtranclp_trans [OF demo_run] w] show ?thesis by blast
qed

end
