(* ===== verification/Kernel_Reclaim.thy ===== *)
theory Kernel_Reclaim
  imports Kernel_Guarantees
begin

text \<open>
  What a reclaim does to the reservation rows, why its page loop ends, and that a settlement of a
  reservation in its window succeeds.
\<close>

section \<open>The rows after a settlement\<close>

lemma window_write_rows: "writeWindow i w e sc s = Inr (x, t) \<Longrightarrow> sq_rows t Kernel_reservation_table = sq_rows s Kernel_reservation_table"
  by (auto simp: writeWindow_def nbind_iff sql_write_iff)

lemma reservation_write_keys:
  assumes "writeReservation i r e s = Inr (x, t)"
    and "map_of (sq_rows s Kernel_reservation_table) (nativeKey (reservation_key (ident i) (rv_window_created_at_ms r) (rv_request_id r))) \<noteq> None"
  shows "map fst (sq_rows t Kernel_reservation_table) = map fst (sq_rows s Kernel_reservation_table)"
proof -
  have "map_of d k \<noteq> None \<Longrightarrow> map fst (put k v d) = map fst d" for k v and d :: "sql_row dict"
    by (induction d) (auto simp: put_def split: if_splits)
  with assms show ?thesis by (auto simp: writeReservation_def nbind_iff sql_write_iff scoped_reservation_key scoped_window_key)
qed

lemma settle_effect:
  assumes ok: "store_ok now s" and clock: "clock_ok now" and reason: "reason_ok target reason"
    and safe: "is_safe_integer (ri_windowCreatedAtMs i)" and m: "settleReservation i target reason now s = Inr (x, t)" and "t \<noteq> s"
  obtains r where "map_of (stored_reservations s) (nativeKey (row_key r)) = Some r" "row_ident r = ident i" "rv_state r = RowReserved"
    "rv_request_id r = ri_requestId i" "rv_window_created_at_ms r = ri_windowCreatedAtMs i"
    "stored_reservations t = put (nativeKey (row_key r)) (settledKernelReservationRow r target reason now) (stored_reservations s)"
    "map fst (sq_rows t Kernel_reservation_table) = map fst (sq_rows s Kernel_reservation_table)"
proof -
  obtain r wrow cur q nxt expireIn a b c where r: "map_of (stored_reservations s) (nativeKey (row_key r)) = Some r" "reservation_ok r"
      "row_ident r = ident i" "rv_reserved_at_ms r \<le> now"
    and pre: "kernelReservationPrecondition r (ri_requestId i) (ri_route i) (ri_windowCreatedAtMs i) target = None"
    and win: "readWindow (identity_of i) now s = Inr ((wrow, cur), s)"
    and plan: "decideKernelQuotaSettlement r cur (nr_value wrow \<noteq> JNull) target reason now = SSettle q nxt expireIn"
    and wr: "writeReservation (identity_of i) q (now + expireIn) s = Inr (a, b)"
    and ww: "(case nxt of None \<Rightarrow> nreturn () | Some w \<Rightarrow>
        writeWindow (identity_of i) w (Some (now + expireIn)) (Some (identity_index (identity_of i)))) b = Inr (c, t)"
    by (rule settle_written [OF ok safe m \<open>t \<noteq> s\<close>], rule that)
  note pre = precondition_None [OF pre] and plan = settlement_cases [OF plan]
  have q: "q = settledKernelReservationRow r target reason now" "reservation_ok q"
    using plan(1) settled_row_ok [OF r(2) _ clock reason] pre by auto
  have later: "rv_window_reset_at_ms r < now + expireIn" unfolding plan(2) by (rule retention_after_reset)
  have b: "stored_reservations b = put (nativeKey (row_key r)) q (stored_reservations s)"
    using write_reservation [OF ok wr q(2)] r later by (simp add: q(1))
  have t: "sq_rows t Kernel_reservation_table = sq_rows b Kernel_reservation_table"
    using ww window_write_rows by (auto split: option.splits)
  have "map fst (sq_rows b Kernel_reservation_table) = map fst (sq_rows s Kernel_reservation_table)"
    by (rule reservation_write_keys [OF wr])
      (use r(1,3) in \<open>auto simp: q(1) settledKernelReservationRow_def row_key_def map_of_stored\<close>)
  with b t q(1) r pre show thesis by (intro that [of r]) (simp_all add: stored_reservations_def)
qed

section \<open>The rows after a reclaim\<close>

definition intended :: "kernel_reservation \<Rightarrow> terminal_state" where
  "intended r = (case rv_terminal_intent r of None \<Rightarrow> Released | Some st \<Rightarrow> st)"

text \<open>What a reclaim may do to a row: nothing, or settle an expired reservation as it was intended.\<close>

definition reclaimed :: "int \<Rightarrow> kernel_reservation \<Rightarrow> kernel_reservation \<Rightarrow> bool" where
  "reclaimed now r q \<longleftrightarrow> q = r \<or> rv_state r = RowReserved \<and> rv_lease_expires_at_ms r \<le> now \<and>
     q = settledKernelReservationRow r (intended r) ''reservation_lease_expired'' now"

lemma reclaimed_refl [simp]: "reclaimed now r r"
  by (simp add: reclaimed_def)

lemma reclaimed_trans: "reclaimed now r q \<Longrightarrow> reclaimed now q p \<Longrightarrow> reclaimed now r p"
proof -
  have "rv_state (settledKernelReservationRow r x reason now) \<noteq> RowReserved" for x reason by (cases x) simp_all
  then show "reclaimed now r q \<Longrightarrow> reclaimed now q p \<Longrightarrow> reclaimed now r p" by (auto simp: reclaimed_def)
qed

definition page_of :: "sql_store \<Rightarrow> native_page_entry list \<Rightarrow> bool" where
  "page_of s es \<longleftrightarrow> distinct (map pe_encoded es) \<and>
     (\<forall>e \<in> set es. \<exists>r. map_of (stored_reservations s) (pe_encoded e) = Some r \<and> nr_value (pe_row e) = kernel_reservation_js r)"

lemma normalized_row:
  assumes "normalizeKernelQuotaReservationRowV2 (kernel_reservation_js r) sc owner repo = Some q" "reservation_ok r"
  shows "q = r \<and> row_ident r = ident_of sc owner repo"
proof -
  have v: "validIdentity sc owner repo (kernel_reservation_js r)"
    using assms(1) by (auto simp: normalizeKernelQuotaReservationRowV2_def split: if_splits)
  then have "row_ident r = ident_of sc owner repo"
    using assms(2)
    by (cases "rv_repo r"; cases "rv_scope r"; cases sc; cases repo)
      (auto simp: validIdentity_def kernel_reservation_js_def identity_fields_def row_ident_def ident_of_def scoped_repo_def
        reservation_ok_def identity_ok_def)
  moreover from this have "normalizeKernelQuotaReservationRowV2 (kernel_reservation_js r) sc owner repo = Some r"
    using reservation_read_back [OF assms(2)] normalize_scoped(2) [of "kernel_reservation_js r" sc owner repo]
    by (auto simp: ident_of_def row_ident_def)
  ultimately show ?thesis using assms(1) by simp
qed

lemma reclaim_decision: "decideKernelQuotaReclaim r now = Some target \<longleftrightarrow>
    rv_state r = RowReserved \<and> rv_lease_expires_at_ms r \<le> now \<and> target = intended r"
  by (auto simp: decideKernelQuotaReclaim_def intended_def)

text \<open>One entry of the page: its row is settled, or the store stays as it is.\<close>

lemma reclaim_one:
  assumes s: "sound now s" and clock: "clock_ok now"
    and e: "map_of (stored_reservations s) h = Some r" and d: "decideKernelQuotaReclaim r now = Some target"
    and m: "settleReservation (reservationIdentity i (rv_request_id r) (rv_route r) (rv_window_created_at_ms r)) target
      ''reservation_lease_expired'' now s = Inr (x, t)"
    and i: "row_ident r = ident i"
  shows "\<exists>q. reclaimed now r q \<and> stored_reservations t = put h q (stored_reservations s)"
    and "map fst (sq_rows t Kernel_reservation_table) = map fst (sq_rows s Kernel_reservation_table)" and "sound now t"
proof -
  let ?i = "reservationIdentity i (rv_request_id r) (rv_route r) (rv_window_created_at_ms r)"
  have ok: "store_ok now s" using s by (simp add: sound_def)
  from reservation_stored [OF ok e] have row: "reservation_ok r" "h = nativeKey (row_key r)" by metis+
  have safe: "is_safe_integer (ri_windowCreatedAtMs ?i)" using row_ident_ok(2) [OF row(1)] by (simp add: reservationIdentity_def)
  show "sound now t" by (rule refinesD(1) [OF refines_settle [OF clock reclaim_reason_ok safe] s m])
  have "(\<exists>q. reclaimed now r q \<and> stored_reservations t = put h q (stored_reservations s)) \<and>
      map fst (sq_rows t Kernel_reservation_table) = map fst (sq_rows s Kernel_reservation_table)"
  proof (cases "t = s")
    case True
    have "map_of d k = Some v \<Longrightarrow> put k v d = d" for k v and d :: "kernel_reservation dict"
      by (induction d) (auto simp: put_def split: if_splits)
    with True e show ?thesis by (auto intro!: exI [of _ r])
  next
    case False
    obtain p where p: "map_of (stored_reservations s) (nativeKey (row_key p)) = Some p" "row_ident p = ident ?i"
      "rv_request_id p = ri_requestId ?i" "rv_window_created_at_ms p = ri_windowCreatedAtMs ?i"
      "stored_reservations t = put (nativeKey (row_key p)) (settledKernelReservationRow p target ''reservation_lease_expired'' now) (stored_reservations s)"
      "map fst (sq_rows t Kernel_reservation_table) = map fst (sq_rows s Kernel_reservation_table)"
      by (rule settle_effect [OF ok clock reclaim_reason_ok safe m False], rule that)
    have "row_key p = row_key r" using p(2-4) i by (simp add: row_key_def reservationIdentity_def)
    with p(1) e row(2) have "p = r" by simp
    with p(5,6) row(2) d show ?thesis by (auto simp: reclaimed_def reclaim_decision)
  qed
  then show "\<exists>q. reclaimed now r q \<and> stored_reservations t = put h q (stored_reservations s)"
    and "map fst (sq_rows t Kernel_reservation_table) = map fst (sq_rows s Kernel_reservation_table)" by blast+
qed

lemma page_of_put:
  "page_of s (e # es) \<Longrightarrow> stored_reservations t = put (pe_encoded e) q (stored_reservations s) \<Longrightarrow> page_of t es"
  unfolding page_of_def by (auto simp: image_iff)

definition table_keys :: "sql_store \<Rightarrow> string list" where
  "table_keys s = map fst (sq_rows s Kernel_reservation_table)"

lemma reclaim_entries_rows:
  assumes "sound now s" "clock_ok now" "page_of s es" "reclaim_entries i now es s = Inr (n, t)"
  shows "table_keys t = table_keys s \<and>
    (\<forall>h r. map_of (stored_reservations s) h = Some r \<longrightarrow>
      (\<exists>q. map_of (stored_reservations t) h = Some q \<and> reclaimed now r q \<and> (h \<notin> pe_encoded ` set es \<longrightarrow> q = r)))"
  using assms
proof (induction es arbitrary: s n)
  case (Cons e es)
  from Cons.prems(3) obtain r where r: "map_of (stored_reservations s) (pe_encoded e) = Some r" "nr_value (pe_row e) = kernel_reservation_js r"
    by (auto simp: page_of_def)
  have ok: "store_ok now s" using Cons.prems(1) by (simp add: sound_def)
  from reservation_stored [OF ok r(1)] have row: "reservation_ok r" by metis
  from Cons.prems(4) r(2) obtain p where "normalizeKernelQuotaReservationRowV2 (kernel_reservation_js r) (ki_scope i) (ki_owner i) (ki_repo i) = Some p"
    by (auto simp: nbind_iff)
  with normalized_row [OF _ row] r(2) have norm: "normalizeKernelQuotaReservationRowV2 (nr_value (pe_row e)) (ki_scope i) (ki_owner i) (ki_repo i) = Some r"
      "row_ident r = ident i" by auto
  have page: "page_of s es" using Cons.prems(3) by (simp add: page_of_def)
  show ?case
  proof (cases "decideKernelQuotaReclaim r now")
    case None
    with Cons.prems(4) norm have "reclaim_entries i now es s = Inr (n, t)" by (auto simp: nbind_iff)
    from Cons.IH [OF Cons.prems(1,2) page this] show ?thesis by fastforce
  next
    case (Some target)
    with Cons.prems(4) norm obtain x u m where
      settle: "settleReservation (reservationIdentity i (rv_request_id r) (rv_route r) (rv_window_created_at_ms r)) target
        ''reservation_lease_expired'' now s = Inr (x, u)" and rest: "reclaim_entries i now es u = Inr (m, t)"
      by (auto simp: nbind_iff)
    note one = reclaim_one [OF Cons.prems(1,2) r(1) Some settle norm(2)]
    from one(1) obtain q where q: "reclaimed now r q" "stored_reservations u = put (pe_encoded e) q (stored_reservations s)" by blast
    note IH = Cons.IH [OF one(3) Cons.prems(2) page_of_put [OF Cons.prems(3) q(2)] rest]
    have fresh: "pe_encoded e \<notin> pe_encoded ` set es" using Cons.prems(3) by (simp add: page_of_def)
    have "\<exists>q'. map_of (stored_reservations t) h = Some q' \<and> reclaimed now p q' \<and> (h \<notin> pe_encoded ` set (e # es) \<longrightarrow> q' = p)"
      if "map_of (stored_reservations s) h = Some p" for h p
    proof (cases "h = pe_encoded e")
      case True
      with that r(1) have "p = r" by simp
      moreover have "map_of (stored_reservations t) h = Some q"
        using IH [THEN conjunct2, rule_format, of h q] q(2) fresh True by auto
      ultimately show ?thesis using q(1) True by auto
    next
      case False
      with that q(2) have "map_of (stored_reservations u) h = Some p" by simp
      with IH False show ?thesis by auto
    qed
    with IH one(2) show ?thesis by (simp add: table_keys_def)
  qed
qed (auto simp: table_keys_def)

section \<open>Pages\<close>

lemma sorted_page:
  assumes "wf_dict (d :: sql_row dict)"
  shows "sorted_wrt (<) (map fst (take n (sort_key fst (filter P d))))"
proof -
  have "sorted (map fst (sort_key fst (filter P d)))" by simp
  moreover have "distinct (map fst (sort_key fst (filter P d)))"
  proof -
    have "distinct (map fst (filter P d))" using assms by (simp add: wf_dict_def distinct_map_filter)
    then show ?thesis by (metis distinct_map distinct_sort set_sort)
  qed
  ultimately have "sorted_wrt (<) (map fst (sort_key fst (filter P d)))" by (simp add: strict_sorted_iff)
  then show ?thesis by (simp add: take_map [symmetric] sorted_wrt_take)
qed

lemma page_entry_encoded: "page_entry s t now p = Inr e \<Longrightarrow> pe_encoded e = fst p"
  by (auto simp: page_entry_def rbind_Inr_iff)

lemma sql_page_rows:
  assumes ok: "store_ok now s" and "sql_page Kernel_reservation_table now after limit sc parent s = Inr (es, u)"
  shows "page_of s es" and "sorted_wrt (<) (map pe_encoded es)" and "\<forall>e \<in> set es. after < pe_encoded e \<and> pe_encoded e \<in> set (table_keys s)"
proof -
  define rows where "rows = take (nat limit) (sort_key fst (filter (page_selects now after sc parent) (sq_rows s Kernel_reservation_table)))"
  from assms(2) have es: "map (page_entry s Kernel_reservation_table now) rows = map Inr es"
    by (auto simp: sql_page_def collect_Inr rows_def split: if_splits)
  have "map pe_encoded es = map fst rows"
  proof (rule nth_equalityI)
    show "length (map pe_encoded es) = length (map fst rows)" using map_eq_imp_length_eq [OF es] by simp
    fix k assume "k < length (map pe_encoded es)"
    with map_eq_imp_length_eq [OF es] have k: "k < length rows" "k < length es" by simp_all
    with es have "page_entry s Kernel_reservation_table now (rows ! k) = Inr (es ! k)" by (metis nth_map)
    with k page_entry_encoded show "map pe_encoded es ! k = map fst rows ! k" by simp
  qed
  then show sorted: "sorted_wrt (<) (map pe_encoded es)"
    using sorted_page [OF store_okD(1) [OF ok]] by (simp add: rows_def)
  have entry: "\<exists>row. (pe_encoded e, row) \<in> set (sq_rows s Kernel_reservation_table) \<and> after < pe_encoded e \<and> row_live now row \<and>
      page_entry s Kernel_reservation_table now (pe_encoded e, row) = Inr e" if "e \<in> set es" for e
  proof -
    have "Inr e \<in> set (map (page_entry s Kernel_reservation_table now) rows)" using that by (simp only: es set_map) simp
    then obtain p where p: "p \<in> set rows" "page_entry s Kernel_reservation_table now p = Inr e" by auto
    have "p \<in> set (filter (page_selects now after sc parent) (sq_rows s Kernel_reservation_table))"
      using in_set_takeD p(1) unfolding rows_def by fastforce
    with p(2) show ?thesis by (cases p) (auto simp: page_selects_def page_entry_def rbind_Inr_iff)
  qed
  then show "\<forall>e \<in> set es. after < pe_encoded e \<and> pe_encoded e \<in> set (table_keys s)" by (force simp: table_keys_def)
  have "\<exists>r. map_of (stored_reservations s) (pe_encoded e) = Some r \<and> nr_value (pe_row e) = kernel_reservation_js r" if "e \<in> set es" for e
  proof -
    from entry [OF that] obtain row where row: "(pe_encoded e, row) \<in> set (sq_rows s Kernel_reservation_table)" "row_live now row"
      "page_entry s Kernel_reservation_table now (pe_encoded e, row) = Inr e" by blast
    have m: "map_of (sq_rows s Kernel_reservation_table) (pe_encoded e) = Some row"
      using row(1) store_okD(1) [OF ok] by (simp add: wf_dict_def)
    from reservation_row [OF ok m] obtain r where r: "map_of (stored_reservations s) (pe_encoded e) = Some r"
      "sr_value row = kernel_reservation_js r" "sr_key row = row_key r" "pe_encoded e = nativeKey (row_key r)" by metis
    with row(2,3) m row_read_value show ?thesis
      by (auto simp: page_entry_def rbind_Inr_iff live_row_def)
  qed
  moreover have "distinct (map pe_encoded es)" using sorted by (simp add: strict_sorted_iff)
  ultimately show "page_of s es" by (simp add: page_of_def)
qed

lemma reclaim_pages_rows:
  "sound now s \<Longrightarrow> clock_ok now \<Longrightarrow> reclaim_pages fuel i now after s = Inr (n, t) \<Longrightarrow>
    \<forall>h r. map_of (stored_reservations s) h = Some r \<longrightarrow> (\<exists>q. map_of (stored_reservations t) h = Some q \<and> reclaimed now r q)"
proof (induction fuel arbitrary: after s n)
  case (Suc fuel)
  from Suc.prems(3) obtain wkey es m v u where
    p: "sql_page Kernel_reservation_table now after 100 None (Some (nativeKey wkey)) s = Inr (es, v)"
    and en: "reclaim_entries i now es v = Inr (m, u)"
    and rest: "(if length es < 100 then nreturn m else nbind (reclaim_pages fuel i now (pe_encoded (last es))) (\<lambda>k. nreturn (m + k))) u = Inr (n, t)"
    by (auto simp: nbind_iff)
  note page = p [unfolded sql_page_store [OF p]] and entries = en [unfolded sql_page_store [OF p]]
  have ok: "store_ok now s" using Suc.prems(1) by (simp add: sound_def)
  note rows = reclaim_entries_rows [OF Suc.prems(1,2) sql_page_rows(1) [OF ok page] entries]
  have u: "sound now u" by (rule refinesD(1) [OF refines_reclaim_entries [OF Suc.prems(2)] Suc.prems(1) entries])
  show ?case
  proof (cases "length es < 100")
    case True
    with rest rows show ?thesis by auto
  next
    case False
    with rest obtain k where "reclaim_pages fuel i now (pe_encoded (last es)) u = Inr (k, t)" by (auto simp: nbind_iff)
    from Suc.IH [OF u Suc.prems(2) this] rows show ?thesis using reclaimed_trans by meson
  qed
qed simp

section \<open>The page loop ends\<close>

definition never :: "native_error \<Rightarrow> 'a native \<Rightarrow> bool" where
  "never e m \<longleftrightarrow> (\<forall>s. m s \<noteq> Inl e)"

definition loop_error :: native_error where
  "loop_error = NativeFailure ''page loop did not end''"

lemma loop_error_other [simp]: "NativeAuthorityError code status \<noteq> loop_error"
  by (simp add: loop_error_def)

lemma never_bind: "never e m \<Longrightarrow> (\<And>x. never e (f x)) \<Longrightarrow> never e (nbind m f)"
  unfolding never_def nbind_def by (auto split: sum.splits)

lemma never_simple [simp, intro]:
  "never e (nreturn x)" "never e (nlift (Inr y))" "b \<noteq> e \<Longrightarrow> never e (nfail b)" "b \<noteq> e \<Longrightarrow> never e (nlift (Inl b))"
  "b \<noteq> e \<Longrightarrow> never e (nensure c b)" "b \<noteq> e \<Longrightarrow> never e (nlift (require v b))"
  by (auto simp: never_def nreturn_def nfail_def nensure_def require_def split: option.splits)

lemma never_keys [simp, intro]:
  "never loop_error (nlift (kernelScopedWindowKey sc owner repo))" "never loop_error (nlift (kernelReservationKey sc owner repo c q))"
  by (cases sc; cases repo; simp add: never_def loop_error_def kernelScopedWindowKey_def kernelReservationKey_def kernelRepoPart_def require_def)+

lemma row_read_error: "row_read t r \<noteq> Inl loop_error"
  by (auto simp: row_read_def rbind_Inl_iff ensure_def loop_error_def split: sum.splits if_splits)

lemma never_sql [simp, intro]: "never loop_error (sql_read t key now)" "never loop_error (sql_write t key v e ix)"
proof -
  have "nlift r s \<noteq> Inl loop_error" if "r \<noteq> Inl loop_error" for s and r :: "native_error + native_read"
    using that by (cases r) auto
  then show "never loop_error (sql_read t key now)" using row_read_error
    by (auto simp: never_def sql_read_def split: option.splits)
qed (auto simp: never_def sql_write_def loop_error_def)

lemma never_page [simp, intro]: "never loop_error (sql_page t now after limit sc parent)"
proof -
  have entry: "page_entry s t now p \<noteq> Inl loop_error" for s p
    using row_read_error by (auto simp: page_entry_def rbind_Inl_iff split: sum.splits option.splits)
  have "Inl loop_error \<notin> set rs \<Longrightarrow> collect rs \<noteq> Inl loop_error" for rs :: "(native_error + native_page_entry) list"
    by (induction rs) (auto simp: rbind_Inl_iff)
  then have "collect (map (page_entry s t now) rows) \<noteq> Inl loop_error" for s rows using entry by (metis imageE set_map)
  moreover have "nlift r s \<noteq> Inl loop_error" if "r \<noteq> Inl loop_error" for s and r :: "native_error + native_page_entry list"
    using that by (cases r) auto
  ultimately show ?thesis by (auto simp: never_def sql_page_def loop_error_def)
qed

lemma never_settle: "never loop_error (settleReservation i target reason now)"
  unfolding settleReservation_def reservationRead_def readWindow_def writeReservation_def writeWindow_def Let_def
  by (auto intro!: never_bind split: option.splits settle_plan.splits)

lemma never_entries: "never loop_error (reclaim_entries i now es)"
  by (induction es) (auto intro!: never_bind never_settle split: option.splits)

text \<open>The keys a page loop has still to look at.\<close>

definition keys_after :: "string \<Rightarrow> sql_store \<Rightarrow> nat" where
  "keys_after after s = length (filter (\<lambda>k. after < k) (table_keys s))"

lemma keys_after_less:
  assumes "after < k" "k \<in> set (table_keys s)" "table_keys t = table_keys s"
  shows "keys_after k t < keys_after after s"
proof -
  have "filter (\<lambda>j. k < j) (table_keys s) = filter (\<lambda>j. k < j) (filter (\<lambda>j. after < j) (table_keys s))"
    using assms(1) by (auto intro: filter_cong simp: filter_filter less_trans [of after k])
  moreover have "length (filter (\<lambda>j. k < j) (filter (\<lambda>j. after < j) (table_keys s))) < length (filter (\<lambda>j. after < j) (table_keys s))"
    using assms(1,2) by (intro length_filter_less [of k]) auto
  ultimately show ?thesis using assms(3) by (simp add: keys_after_def)
qed

lemma reclaim_pages_ends:
  "sound now s \<Longrightarrow> clock_ok now \<Longrightarrow> keys_after after s < fuel \<Longrightarrow> reclaim_pages fuel i now after s \<noteq> Inl loop_error"
proof (induction fuel arbitrary: after s)
  case (Suc fuel)
  show ?case
  proof
    assume err: "reclaim_pages (Suc fuel) i now after s = Inl loop_error"
    have key: "nlift (kernelScopedWindowKey (ki_scope i) (ki_owner i) (ki_repo i)) s \<noteq> Inl loop_error"
      using never_keys(1) unfolding never_def by blast
    with err obtain wkey where
      err1: "nbind (sql_page Kernel_reservation_table now after 100 None (Some (nativeKey wkey))) (\<lambda>page.
        nbind (reclaim_entries i now page) (\<lambda>n. if length page < 100 then nreturn n
          else nbind (reclaim_pages fuel i now (pe_encoded (last page))) (\<lambda>m. nreturn (n + m)))) s = Inl loop_error"
      by (cases "kernelScopedWindowKey (ki_scope i) (ki_owner i) (ki_repo i)") (auto simp: nbind_def)
    moreover have "sql_page Kernel_reservation_table now after 100 None (Some (nativeKey wkey)) s \<noteq> Inl loop_error"
      using never_page unfolding never_def by blast
    ultimately obtain es v where p: "sql_page Kernel_reservation_table now after 100 None (Some (nativeKey wkey)) s = Inr (es, v)"
      and err2: "nbind (reclaim_entries i now es) (\<lambda>n. if length es < 100 then nreturn n
          else nbind (reclaim_pages fuel i now (pe_encoded (last es))) (\<lambda>m. nreturn (n + m))) v = Inl loop_error"
      by (auto simp: nbind_def split: sum.splits)
    have v: "v = s" by (rule sql_page_store [OF p])
    have "reclaim_entries i now es s \<noteq> Inl loop_error" using never_entries unfolding never_def by blast
    with err2 v obtain n u where entries: "reclaim_entries i now es s = Inr (n, u)" and full: "\<not> length es < 100"
      and err3: "reclaim_pages fuel i now (pe_encoded (last es)) u = Inl loop_error"
      by (auto simp: nbind_def nreturn_def split: sum.splits if_splits)
    have ok: "store_ok now s" using Suc.prems(1) by (simp add: sound_def)
    note page = sql_page_rows [OF ok p]
    have "last es \<in> set es" using full by (cases es) auto
    with page(3) have last: "after < pe_encoded (last es)" "pe_encoded (last es) \<in> set (table_keys s)" by auto
    have "table_keys u = table_keys s" using reclaim_entries_rows [OF Suc.prems(1,2) page(1) entries] by simp
    from keys_after_less [OF last this] Suc.prems(3) have "keys_after (pe_encoded (last es)) u < fuel" by simp
    moreover have "sound now u" by (rule refinesD(1) [OF refines_reclaim_entries [OF Suc.prems(2)] Suc.prems(1) entries])
    ultimately show False using Suc.IH Suc.prems(2) err3 by blast
  qed
qed simp

lemma keys_after_table: "keys_after after s \<le> length (sq_rows s Kernel_reservation_table)"
  unfolding keys_after_def table_keys_def by (metis length_filter_le length_map)

lemma reclaim_position_store: "reclaim_position cap cursor now s = Inr (x, t) \<Longrightarrow> t = s"
  by (auto simp: reclaim_position_def nbind_iff Let_def dest: sql_read_store split: option.splits if_splits)

lemma reclaim_call:
  assumes "reclaimExpiredKernelReservations cap cursor limit uuid now s = Inr (x, t)"
  shows "\<exists>after i es n v u. sql_page Kernel_reservation_table now after limit (Some (identity_index i)) None s = Inr (es, v) \<and>
    reclaim_entries i now es v = Inr (n, u) \<and> sq_rows t Kernel_reservation_table = sq_rows u Kernel_reservation_table"
  using assms unfolding reclaimExpiredKernelReservations_def Let_def
  by (auto elim!: nbindE dest!: reclaim_position_store split: if_split_asm simp: sql_write_iff) blast+

section \<open>Properties\<close>

text \<open>
  C19. The reclaim of a window ends: in every reachable store, the page loop leaves its last page after at
  most one turn more than the reservation table has rows.
\<close>

theorem kernel_reclaim_terminates:
  assumes "kernel_start s0" and "kernel_run c (clock0, s0) (clock, s)" and "clock \<le> now" and "clock_ok now"
  shows "reclaimWindow i now s \<noteq> Inl (NativeFailure ''page loop did not end'')"
proof -
  have "sound now s" using kernel_run_ledger(1) [OF assms(2)] kernel_start_sound [OF assms(1)] sound_tick [OF _ assms(3)] by simp
  from reclaim_pages_ends [OF this assms(4), of "[]" "Suc (length (sq_rows s Kernel_reservation_table))" i] keys_after_table [of "[]" s]
  show ?thesis by (simp add: reclaimWindow_def loop_error_def)
qed

theorem kernel_reclaim_terminates_witness:
  "reclaimWindow \<lparr>ki_scope = OrgScope, ki_owner = ''org'', ki_repo = None\<rparr> 5000 demo_settled \<noteq> Inl (NativeFailure ''page loop did not end'')"
  by (rule kernel_reclaim_terminates [OF demo_start rtranclp_trans [OF demo_run]])
    (simp_all add: clock_ok_def LEASE_MS_def max_safe_integer_def)

text \<open>
  A reclaim takes back only what has expired: every reservation row is afterwards as it was, unless it
  was reserved and its lease had run out, and then it is settled with the outcome that was recorded as
  its terminal intent, or released when none was.
\<close>

theorem kernel_reclaim_only_expired:
  assumes "kernel_start s0" and "kernel_run c (clock0, s0) (clock, s)" and "clock \<le> now" and "clock_ok now"
    and "reclaimExpiredKernelReservations cap cursor limit uuid now s = Inr (x, t)" and "map_of (stored_reservations s) h = Some r"
  shows "\<exists>q. map_of (stored_reservations t) h = Some q \<and>
    (q = r \<or> rv_state r = RowReserved \<and> rv_lease_expires_at_ms r \<le> now \<and>
      q = settledKernelReservationRow r (case rv_terminal_intent r of None \<Rightarrow> Released | Some st \<Rightarrow> st) ''reservation_lease_expired'' now)"
proof -
  have s: "sound now s" using kernel_run_ledger(1) [OF assms(2)] kernel_start_sound [OF assms(1)] sound_tick [OF _ assms(3)] by simp
  from reclaim_call [OF assms(5)] obtain after i es n v u where
    p: "sql_page Kernel_reservation_table now after limit (Some (identity_index i)) None s = Inr (es, v)"
    and en: "reclaim_entries i now es v = Inr (n, u)" and t: "sq_rows t Kernel_reservation_table = sq_rows u Kernel_reservation_table"
    by blast
  have v: "v = s" by (rule sql_page_store [OF p])
  have ok: "store_ok now s" using s by (simp add: sound_def)
  from reclaim_entries_rows [OF s assms(4) sql_page_rows(1) [OF ok p] en [unfolded v]] assms(6) t
  show ?thesis by (fastforce simp: reclaimed_def intended_def stored_reservations_def)
qed

definition demo_reclaimed :: sql_store where
  "demo_reclaimed = after_call (ReclaimCall demo_cap None 10 ''u1'') 100000000 demo_reserved"

theorem kernel_reclaim_only_expired_witness:
  "\<exists>r q. map_of (stored_reservations demo_reserved) demo_row_key = Some r \<and> map_of (stored_reservations demo_reclaimed) demo_row_key = Some q \<and>
    (q = r \<or> rv_state r = RowReserved \<and> rv_lease_expires_at_ms r \<le> 100000000 \<and>
      q = settledKernelReservationRow r (case rv_terminal_intent r of None \<Rightarrow> Released | Some st \<Rightarrow> st) ''reservation_lease_expired'' 100000000) \<and>
    rv_state q = RowReleased"
proof -
  have "reply_of (ReclaimCall demo_cap None 10 ''u1'') 100000000 demo_reserved = ''reclaimed''" by code_simp
  then obtain x where x: "reclaimExpiredKernelReservations demo_cap None 10 ''u1'' 100000000 demo_reserved = Inr (x, demo_reclaimed)"
    by (auto simp: reply_of_def demo_reclaimed_def after_call_def split: sum.splits)
  have "map_of (stored_reservations demo_reserved) demo_row_key \<noteq> None" by code_simp
  then obtain r where r: "map_of (stored_reservations demo_reserved) demo_row_key = Some r" by blast
  have q: "map_option rv_state (map_of (stored_reservations demo_reclaimed) demo_row_key) = Some RowReleased" by code_simp
  have "clock_ok 100000000" by (simp add: clock_ok_def LEASE_MS_def max_safe_integer_def)
  from kernel_reclaim_only_expired [OF demo_start demo_run(1) _ this x r] r q show ?thesis by fastforce
qed

section \<open>Settlement succeeds\<close>

lemma kernelIdentity_store: "kernelIdentity cap handle now s = Inr (x, t) \<Longrightarrow> t = s"
  by (auto simp: kernelIdentity_def nbind_iff api_request_def Let_def dest: sql_read_store)

lemma readWindow_total:
  assumes ok: "store_ok now s" and valid: "identity_valid i"
  shows "\<exists>rd cur. readWindow i now s = Inr ((rd, cur), s)"
proof (cases "live_row s Kernel_window_table (window_key (ident i)) now")
  case None
  with valid show ?thesis
    by (auto simp: readWindow_def nbind_iff sql_read_def absent_read_def scoped_window_key identity_valid_def Let_def)
next
  case (Some row)
  then have row: "map_of (sq_rows s Kernel_window_table) (nativeKey (window_key (ident i))) = Some row"
    by (auto simp: live_row_def split: option.splits if_splits)
  have "ident_ok (ident i)" using valid by (simp add: identity_valid_def)
  from stored_window_row [OF ok this row] obtain w where w: "sr_value row = kernel_window_js w" "window_ok w"
    "ident i = (kw_scope w, kw_owner w, kw_repo w)" "kept_until (kw_usage_reset_at_ms w) row" by metis
  have "normalizeKernelQuotaWindowV2 (kernel_window_js w) (ki_scope i) (ki_owner i) (ki_repo i) = Some w"
    using window_read_back [OF w(2)] w(3) normalize_scoped(1) [of "kernel_window_js w" "ki_scope i" "ki_owner i" "ki_repo i"]
    by (auto simp: ident_of_def)
  moreover have "row_expiry_ok (sr_expires_at_ms row)" using w(4) by (auto simp: kept_until_def row_expiry_ok_def split: option.splits)
  ultimately show ?thesis using Some w(1) valid
    by (auto simp: readWindow_def nbind_iff sql_read_def scoped_window_key identity_valid_def Let_def row_read_def ensure_def)
qed

lemma reservationRead_total:
  assumes ok: "store_ok now s" and valid: "identity_valid i" and r: "identity_row s i = Some r" and now: "now < rv_window_reset_at_ms r"
  shows "\<exists>rd. reservationRead i now s = Inr (rd, s) \<and> nr_value rd = kernel_reservation_js r"
proof -
  from reservation_stored [OF ok r [unfolded identity_row_def]] obtain row where
    row: "map_of (sq_rows s Kernel_reservation_table) (nativeKey (reservation_key (ident i) (ri_windowCreatedAtMs i) (ri_requestId i))) = Some row"
    "sr_value row = kernel_reservation_js r" "kept_until (rv_window_reset_at_ms r) row" by metis
  have "row_live now row" using kept_expired [OF row(3), of now] now by linarith
  moreover have "row_expiry_ok (sr_expires_at_ms row)" using row(3) by (auto simp: kept_until_def row_expiry_ok_def split: option.splits)
  ultimately show ?thesis using row(1,2) valid
    by (auto simp: reservationRead_def nbind_iff sql_read_def scoped_reservation_key identity_valid_def live_row_def row_read_def ensure_def)
qed

text \<open>In its window, a reserved row is counted, so the window it is settled against has a reservation to give back.\<close>

lemma reserved_counted:
  assumes inv: "ledger_inv (ledger_of now s)" and r: "map_of (stored_reservations s) h = Some r" "rv_state r = RowReserved"
    and w: "stored_window s (row_ident r) = Some w" "kw_created_at_ms w = rv_window_created_at_ms r" and now: "now < rv_window_reset_at_ms r"
  shows "1 \<le> kw_reserved_requests w"
proof -
  have "row_backed (ledger_of now s) r" using ledger_invD(2) [OF inv, of r] map_of_vals [OF r(1)] by (simp add: ledger_of_def)
  with w now have "now < kw_usage_reset_at_ms w" by (simp add: row_backed_def ledger_of_def)
  with w have at: "window_at now (stored_window s) (row_window r) = Some w" by (simp add: window_at_def row_window_def)
  have "ledger_balanced now (stored_window s) (stored_reservations s)" using ledger_invD(1) [OF inv] by (simp add: ledger_of_def)
  from kernel_shares.counter_covers_row [OF this _ r(1) at, of ReservedRequests] r(2) show ?thesis by simp
qed

lemma settlement_planned:
  assumes s: "sound now s" and valid: "identity_valid i" and r: "map_of (stored_reservations s) h = Some r" "rv_state r = RowReserved"
    "row_ident r = ident i" and now: "now < rv_window_reset_at_ms r" and win: "readWindow (identity_of i) now s = Inr ((wrow, cur), s)"
  shows "\<exists>nxt. decideKernelQuotaSettlement r cur (nr_value wrow \<noteq> JNull) target reason now =
    SSettle (settledKernelReservationRow r target reason now) nxt (kernelReservationRetentionMs (rv_window_reset_at_ms r) now)"
proof -
  have ok: "store_ok now s" and inv: "ledger_inv (ledger_of now s)" using s by (simp_all add: sound_def)
  note cur = readWindow_sound [OF ok win, unfolded ident_truncate]
  have "1 \<le> kw_reserved_requests w" if "cur = Some w" "kw_created_at_ms w = rv_window_created_at_ms r" for w
    using reserved_counted [OF inv r(1,2) _ that(2) now] cur(3) [OF that(1)] r(3) by simp
  then show ?thesis using cur(4) by (cases cur) (auto simp: decideKernelQuotaSettlement_def Let_def)
qed

lemma settle_total:
  assumes s: "sound now s" and clock: "clock_ok now" and i: "identity_valid i" "is_safe_integer (ri_windowCreatedAtMs i)"
    and r: "identity_row s i = Some r" "rv_state r = RowReserved" "rv_route r = ri_route i"
      "rv_terminal_intent r = None \<or> rv_terminal_intent r = Some target" and now: "now < rv_window_reset_at_ms r"
    and room: "sq_sequence s + 2 \<le> max_safe_integer" "rv_window_reset_at_ms r + RETENTION_MS \<le> max_safe_integer"
  shows "\<exists>x t. settleReservation i target reason now s = Inr (x, t) \<and> rp_kind x = ''settle'' \<and> t \<noteq> s"
proof -
  have ok: "store_ok now s" using s by (simp add: sound_def)
  note row = identity_row_Some [OF ok i r(1)]
  from reservationRead_total [OF ok i(1) r(1) now] obtain rd where rd: "reservationRead i now s = Inr (rd, s)"
    "nr_value rd = kernel_reservation_js r" by blast
  have norm: "normalizeKernelQuotaReservationRowV2 (nr_value rd) (ki_scope i) (ki_owner i) (ki_repo i) = Some r"
    using row_reads_as [OF row(1,2)] rd(2) by simp
  have pre: "kernelReservationPrecondition r (ri_requestId i) (ri_route i) (ri_windowCreatedAtMs i) target = None"
    using row(3,4) r(2-4) by (auto simp: kernelReservationPrecondition_def kernelReservationMatchesRequest_def)
  from readWindow_total [OF ok, of "identity_of i"] i(1) obtain wrow cur where win: "readWindow (identity_of i) now s = Inr ((wrow, cur), s)"
    by auto
  from settlement_planned [OF s i(1) r(1) [unfolded identity_row_def] r(2) row(2) now win] obtain nxt where
    plan: "decideKernelQuotaSettlement r cur (nr_value wrow \<noteq> JNull) target reason now =
      SSettle (settledKernelReservationRow r target reason now) nxt (kernelReservationRetentionMs (rv_window_reset_at_ms r) now)" by blast
  define e where "e = now + kernelReservationRetentionMs (rv_window_reset_at_ms r) now"
  have e: "is_safe_integer e" "0 \<le> e" using now room(2) clock
    by (auto simp: e_def kernelReservationRetentionMs_def RETENTION_MS_def is_safe_integer_def clock_ok_def LEASE_MS_def)
  obtain a u where wr: "writeReservation (identity_of i) (settledKernelReservationRow r target reason now) e s = Inr (a, u)"
      "sq_sequence u = sq_sequence s + 1"
    using i(1) e room(1)
    by (auto simp: writeReservation_def nbind_iff scoped_reservation_key scoped_window_key identity_valid_def sql_write_iff write_ok_def
        kernel_identity.truncate_def)
  moreover obtain b t where ww: "(case nxt of None \<Rightarrow> nreturn () | Some w \<Rightarrow>
      writeWindow (identity_of i) w (Some e) (Some (identity_index (identity_of i)))) u = Inr (b, t)" "sq_sequence u \<le> sq_sequence t"
    using i(1) e room(1) wr(2)
    by (cases nxt) (auto simp: writeWindow_def nbind_iff scoped_window_key identity_valid_def sql_write_iff write_ok_def kernel_identity.truncate_def)
  ultimately have "settleReservation i target reason now s = Inr (reply ''settle'' (kernel_reservation_js (settledKernelReservationRow r target reason now)), t)"
    using rd norm pre win plan wr(1) [unfolded e_def] ww(1) [unfolded e_def] by (auto simp: settleReservation_def nbind_iff)
  moreover have "t \<noteq> s" using wr(2) ww(2) by auto
  ultimately show ?thesis by simp
qed

text \<open>
  Settling works: as long as its window is not over, a reserved row of a reachable store, addressed by
  the request that holds it and with no other terminal intent, is settled as asked. The row is afterwards
  committed or released. The revision counter and the retention time must leave room for the writes.
\<close>

theorem kernel_settlement_succeeds:
  assumes "kernel_start s0" and "kernel_run c (clock0, s0) (clock, s)" and "clock \<le> now" and "clock_ok now"
    and "kernelIdentity cap handle now s = Inr (i, s)" and "identity_valid i" and "identity_row s i = Some r" and "rv_state r = RowReserved"
    and "rv_route r = ri_route i" and "rv_terminal_intent r = None \<or> rv_terminal_intent r = Some target"
    and "now < rv_window_reset_at_ms r" and "reason_ok target reason"
    and "sq_sequence s + 2 \<le> max_safe_integer" and "rv_window_reset_at_ms r + RETENTION_MS \<le> max_safe_integer"
  shows "\<exists>x t. settleKernelUsage cap handle target reason now s = Inr (x, t) \<and> rp_kind x = ''settle'' \<and>
    identity_row t i = Some (settledKernelReservationRow r target reason now)"
proof -
  have s: "sound now s" using kernel_run_ledger(1) [OF assms(2)] kernel_start_sound [OF assms(1)] sound_tick [OF _ assms(3)] by simp
  then have ok: "store_ok now s" by (simp add: sound_def)
  have safe: "is_safe_integer (ri_windowCreatedAtMs i)" by (rule kernelIdentity_result [OF assms(5)])
  from settle_total [OF s assms(4,6) safe assms(7-11,13,14)] obtain x t where
    m: "settleReservation i target reason now s = Inr (x, t)" "rp_kind x = ''settle''" "t \<noteq> s" by blast
  obtain p where p: "map_of (stored_reservations s) (nativeKey (row_key p)) = Some p" "row_ident p = ident i"
    "rv_request_id p = ri_requestId i" "rv_window_created_at_ms p = ri_windowCreatedAtMs i"
    "stored_reservations t = put (nativeKey (row_key p)) (settledKernelReservationRow p target reason now) (stored_reservations s)"
    by (rule settle_effect [OF ok assms(4,12) safe m(1,3)], rule that)
  have key: "row_key p = reservation_key (ident i) (ri_windowCreatedAtMs i) (ri_requestId i)" using p(2-4) by (simp add: row_key_def)
  with p(1) assms(7) have "p = r" by (simp add: identity_row_def)
  with p(5) key have "identity_row t i = Some (settledKernelReservationRow r target reason now)" by (simp add: identity_row_def)
  moreover have "settleKernelUsage cap handle target reason now s = Inr (x, t)"
    using assms(5) m(1) by (auto simp: settleKernelUsage_def nbind_iff)
  ultimately show ?thesis using m(2) by blast
qed

definition demo_identity :: reservation_identity where
  "demo_identity = \<lparr>ki_scope = OrgScope, ki_owner = ''org'', ki_repo = None, ri_requestId = ''h1-id'', ri_route = ''/chat'', ri_windowCreatedAtMs = 1000\<rparr>"

definition demo_row :: kernel_reservation where
  "demo_row = the (identity_row demo_reserved demo_identity)"

theorem kernel_settlement_succeeds_witness:
  "\<exists>x t. settleKernelUsage demo_cap ''h1'' Released ''client_closed'' 2000 demo_reserved = Inr (x, t) \<and> rp_kind x = ''settle'' \<and>
    identity_row t demo_identity = Some (settledKernelReservationRow demo_row Released ''client_closed'' 2000)"
proof (rule kernel_settlement_succeeds [OF demo_start demo_run(1)])
  have "(case kernelIdentity demo_cap ''h1'' 2000 demo_reserved of Inl e \<Rightarrow> None | Inr (j, u) \<Rightarrow> Some j) = Some demo_identity" by code_simp
  then show "kernelIdentity demo_cap ''h1'' 2000 demo_reserved = Inr (demo_identity, demo_reserved)"
    using kernelIdentity_store by (auto split: sum.splits)
  have "identity_row demo_reserved demo_identity \<noteq> None" by code_simp
  then show "identity_row demo_reserved demo_identity = Some demo_row" by (simp add: demo_row_def)
  show "rv_state demo_row = RowReserved" "rv_route demo_row = ri_route demo_identity" "2000 < rv_window_reset_at_ms demo_row"
    "rv_window_reset_at_ms demo_row + RETENTION_MS \<le> max_safe_integer" "sq_sequence demo_reserved + 2 \<le> max_safe_integer"
    "rv_terminal_intent demo_row = None \<or> rv_terminal_intent demo_row = Some Released"
    by code_simp+
  show "reason_ok Released ''client_closed''" by code_simp
qed (simp_all add: clock_ok_def LEASE_MS_def max_safe_integer_def identity_valid_def demo_identity_def)

end
