(* ===== verification/Kernel_Edges.thy ===== *)
theory Kernel_Edges
  imports Kernel_Reclaim
begin

text \<open>
  Edges of the kernel quotas: rows that cannot be read, and two ways of writing one.
\<close>

section \<open>Malformed policies\<close>

lemma scope_malformed:
  "kr_value repo \<noteq> JNull \<Longrightarrow> normalizeKernelQuotaPolicyV2 (kr_value repo) RepoScope owner (Some r) c = None \<Longrightarrow>
     decideKernelQuotaScope repo org owner r c = Inl (NativeFailure ''Kernel repo quota policy is malformed'')"
  by (simp add: decideKernelQuotaScope_def ensure_def)

lemma eligibility_malformed:
  assumes "sql_read Kernel_policy_table (kernelRepoPolicyKey owner r) now s = Inr (rd, u)" and "nr_value rd \<noteq> JNull"
    and "normalizeKernelQuotaPolicyV2 (nr_value rd) RepoScope owner (Some r) c = None"
  shows "reserve_eligibility c cap owner r now s \<noteq> Inr x"
  using assms scope_malformed [of "kernel_read_of rd" owner r c]
  by (cases x) (auto simp: reserve_eligibility_def nbind_iff kernel_read_of_def)

text \<open>
  A malformed policy never becomes a permissive default: while the stored repository policy cannot
  be read, no reservation is granted and the store is left as it is.
\<close>

theorem malformed_policy_refuses:
  assumes "store_ok clock s" and "nc_kernel cap = Some (owner, r)"
    and "sql_read Kernel_policy_table (kernelRepoPolicyKey owner r) now s = Inr (rd, u)" and "nr_value rd \<noteq> JNull"
    and "normalizeKernelQuotaPolicyV2 (nr_value rd) RepoScope owner (Some r) c = None"
  shows "case reserveKernelUsage c cap handle now s of Inl e \<Rightarrow> True | Inr (x, t) \<Rightarrow> rp_kind x \<noteq> ''reserved'' \<and> t = s"
proof -
  have "rp_kind x \<noteq> ''reserved'' \<and> t = s" if m: "reserveKernelUsage c cap handle now s = Inr (x, t)" for x t
  proof (rule ccontr)
    assume "\<not> (rp_kind x \<noteq> ''reserved'' \<and> t = s)"
    then have changed: "t \<noteq> s \<or> rp_kind x = ''reserved''" by blast
    show False
      by (rule reserve_call [OF assms(1) m changed]) (use assms(2) eligibility_malformed [OF assms(3-5)] in auto)
  qed
  then show ?thesis by (auto split: sum.splits)
qed

definition demo_malformed :: sql_store where
  "demo_malformed = demo_store\<lparr>sq_rows := (sq_rows demo_store)(Kernel_policy_table :=
     [(nativeKey (kernelRepoPolicyKey ''org'' ''repo''), \<lparr>sr_key = kernelRepoPolicyKey ''org'' ''repo'', sr_value = JObj [(''v'', jint 2)],
        sr_revision = 2, sr_expires_at_ms = None, sr_scope = None, sr_parent = None, sr_due = None\<rparr>)])\<rparr>"

theorem malformed_policy_refuses_witness:
  "case reserveKernelUsage demo_constants demo_cap ''h1'' 1000 demo_malformed of Inl e \<Rightarrow> True
   | Inr (x, t) \<Rightarrow> rp_kind x \<noteq> ''reserved'' \<and> t = demo_malformed"
proof (rule malformed_policy_refuses)
  have "kernel_start demo_malformed" using demo_start by (simp add: kernel_start_def demo_malformed_def)
  then show "store_ok 0 demo_malformed" using kernel_start_sound [of demo_malformed 0] by (simp add: sound_def)
  show "nc_kernel demo_cap = Some (''org'', ''repo'')" by (simp add: demo_cap_def)
  show "sql_read Kernel_policy_table (kernelRepoPolicyKey ''org'' ''repo'') 1000 demo_malformed =
      Inr (\<lparr>nr_value = JObj [(''v'', jint 2)], nr_revision = Some (revision_text 2), nr_expiresAtMs = None\<rparr>, demo_malformed)"
    by (simp add: sql_read_def live_row_def demo_malformed_def row_live_def row_read_def ensure_def row_expiry_ok_def nativeObject_def)
qed (simp_all add: normalizeKernelQuotaPolicyV2_def validIdentity_def)

section \<open>A window that ends beyond the safe integers\<close>

text \<open>
  A policy write has no bound on the window length: a window whose reset time is no safe integer is
  written without an error, and from then on every read of that window fails.
\<close>

theorem window_overflow_unreadable:
  assumes "max_safe_integer < now + windowMs"
    and "writeWindow i (newWindow (ki_scope i) (ki_owner i) (ki_repo i) windowMs now) None sc s = Inr (x, t)"
  shows "readWindow i n t = Inl (NativeAuthorityError ''kernel_window_malformed'' 503)"
proof -
  let ?w = "newWindow (ki_scope i) (ki_owner i) (ki_repo i) windowMs now"
  from assms(2) obtain ix where valid: "identity_valid i"
    and sw: "sql_write Kernel_window_table (window_key (ident i)) (kernel_window_js ?w) None ix s = Inr (x, t)"
    by (auto simp: writeWindow_def nbind_iff scoped_window_key identity_valid_def)
  have "normalizeKernelQuotaWindowV2 (kernel_window_js ?w) (ki_scope i) (ki_owner i) (ki_repo i) = None"
  proof (rule ccontr)
    assume "normalizeKernelQuotaWindowV2 (kernel_window_js ?w) (ki_scope i) (ki_owner i) (ki_repo i) \<noteq> None"
    then obtain v where "normalizeKernelQuotaWindowV2 (kernel_window_js ?w) (ki_scope i) (ki_owner i) (ki_repo i) = Some v" by blast
    then have "window_ok ?w"
      by (rule normalized_window_ok) (use valid newWindow_fields(6) in \<open>auto simp: identity_valid_def\<close>)
    with assms(1) show False by (simp add: window_ok_def safe_positive_def is_safe_integer_def)
  qed
  moreover have "kernelScopedWindowKey (ki_scope i) (ki_owner i) (ki_repo i) = Inr (window_key (ident i))"
    using valid by (simp add: scoped_window_key identity_valid_def)
  ultimately show ?thesis using sql_write_rows(1) [OF sw]
    by (simp add: readWindow_def nbind_def sql_read_def live_row_def row_live_def row_read_def ensure_def row_expiry_ok_def Let_def
        nensure_def nfail_def)
qed

definition demo_org :: kernel_identity where
  "demo_org = \<lparr>ki_scope = OrgScope, ki_owner = ''org'', ki_repo = None\<rparr>"

definition demo_overflow :: sql_store where
  "demo_overflow = after_call (SetCall demo_cap OrgScope \<lparr>sa_usageLimitRequests = 5,
     sa_options = \<lparr>po_resetUsage = True, po_windowMs = jint max_safe_integer, po_expiresAtMs = JUndef\<rparr>\<rparr>) 1000 demo_store"

theorem window_overflow_unreadable_witness:
  "reply_of (ReserveCall demo_cap ''h1'') 2000 demo_overflow = ''error'' \<and>
   (\<exists>t. writeWindow demo_org (newWindow OrgScope ''org'' None max_safe_integer 1000) None None demo_store = Inr ((), t) \<and>
     readWindow demo_org 2000 t = Inl (NativeAuthorityError ''kernel_window_malformed'' 503))"
proof -
  obtain t where t: "writeWindow demo_org (newWindow (ki_scope demo_org) (ki_owner demo_org) (ki_repo demo_org) max_safe_integer 1000) None None demo_store = Inr ((), t)"
    by (auto simp: writeWindow_def nbind_iff scoped_window_key sql_write_iff write_ok_def demo_org_def demo_store_def max_safe_integer_def)
  have "reply_of (ReserveCall demo_cap ''h1'') 2000 demo_overflow = ''error''" by code_simp
  with window_overflow_unreadable [OF _ t, of 2000] t show ?thesis by (auto simp: max_safe_integer_def demo_org_def)
qed

section \<open>A release with a blank reason\<close>

lemma blank_release:
  assumes "js_trim (release_reason reason) = []"
  shows "normalizeKernelQuotaReservationRowV2 (kernel_reservation_js (settledKernelReservationRow r Released reason now)) sc owner repo = None"
proof -
  have "\<not> row_consistent q" if "rv_state q = RowReleased" "rv_release_reason q = Some (release_reason reason)" for q
    using that assms by (simp add: row_consistent_def)
  then show ?thesis
    by (auto simp: normalizeKernelQuotaReservationRowV2_def kernel_reservation_js_def settledKernelReservationRow_def Let_def
        bind_eq_Some_conv row_state_of_def opt_of_js_def opt_js_def split: option.split if_splits)
qed

text \<open>
  The release reason of a settlement is stored without a check that it is not blank: after a
  release with a blank reason the stored row is one that the row normalizer rejects under every identity,
  so the reservation can no longer be read, and a reclaim that meets it fails.
\<close>

theorem blank_release_unreadable:
  assumes "store_ok now s" and "is_safe_integer (ri_windowCreatedAtMs i)" and "js_trim (release_reason reason) = []"
    and "settleReservation i Released reason now s = Inr (x, t)" and "t \<noteq> s"
  shows "\<exists>row. map_of (sq_rows t Kernel_reservation_table) (nativeKey (reservation_key (ident i) (ri_windowCreatedAtMs i) (ri_requestId i))) = Some row \<and>
    (\<forall>sc owner repo. normalizeKernelQuotaReservationRowV2 (sr_value row) sc owner repo = None)"
proof -
  obtain r wrow cur q nxt expireIn a b c where r: "map_of (stored_reservations s) (nativeKey (row_key r)) = Some r" "reservation_ok r"
      "row_ident r = ident i" "rv_reserved_at_ms r \<le> now"
    and pre: "kernelReservationPrecondition r (ri_requestId i) (ri_route i) (ri_windowCreatedAtMs i) Released = None"
    and win: "readWindow (identity_of i) now s = Inr ((wrow, cur), s)"
    and plan: "decideKernelQuotaSettlement r cur (nr_value wrow \<noteq> JNull) Released reason now = SSettle q nxt expireIn"
    and wr: "writeReservation (identity_of i) q (now + expireIn) s = Inr (a, b)"
    and ww: "(case nxt of None \<Rightarrow> nreturn () | Some w \<Rightarrow>
        writeWindow (identity_of i) w (Some (now + expireIn)) (Some (identity_index (identity_of i)))) b = Inr (c, t)"
    by (rule settle_written [OF assms(1,2,4,5)], rule that)
  note pre = precondition_None [OF pre]
  have q: "q = settledKernelReservationRow r Released reason now" using settlement_cases(1) [OF plan] .
  have t: "sq_rows t Kernel_reservation_table = sq_rows b Kernel_reservation_table"
    using ww window_write_rows by (auto split: option.splits)
  have keys: "rv_window_created_at_ms q = ri_windowCreatedAtMs i" "rv_request_id q = ri_requestId i"
    using pre by (simp_all add: q settledKernelReservationRow_def)
  have "ident_of (ki_scope (identity_of i)) (ki_owner (identity_of i)) (ki_repo (identity_of i)) = ident i"
    by (simp add: kernel_identity.truncate_def)
  with wr keys have "\<exists>row. map_of (sq_rows b Kernel_reservation_table) (nativeKey (reservation_key (ident i) (ri_windowCreatedAtMs i) (ri_requestId i))) = Some row \<and>
      sr_value row = kernel_reservation_js q"
    by (auto simp: writeReservation_def nbind_iff scoped_reservation_key sql_write_iff)
  then show ?thesis using t blank_release [OF assms(3)] by (auto simp: q)
qed

definition demo_blank :: sql_store where
  "demo_blank = after_call (SettleCall demo_cap ''h1'' Released '' '') 2000 demo_reserved"

theorem blank_release_unreadable_witness:
  "reply_of (ReclaimCall demo_cap None 10 ''u1'') 3000 demo_blank = ''error'' \<and>
   (\<exists>row. map_of (sq_rows demo_blank Kernel_reservation_table) (nativeKey (reservation_key (ident demo_identity) 1000 ''h1-id'')) = Some row \<and>
     (\<forall>sc owner repo. normalizeKernelQuotaReservationRowV2 (sr_value row) sc owner repo = None))"
proof -
  have reclaim: "reply_of (ReclaimCall demo_cap None 10 ''u1'') 3000 demo_blank = ''error''" by code_simp
  have "sound 2000 demo_reserved" using kernel_run_ledger(1) [OF demo_run(1)] kernel_start_sound [OF demo_start]
    by (auto intro: sound_tick)
  then have ok: "store_ok 2000 demo_reserved" by (simp add: sound_def)
  have "(case kernelIdentity demo_cap ''h1'' 2000 demo_reserved of Inl e \<Rightarrow> None | Inr (j, u) \<Rightarrow> Some j) = Some demo_identity" by code_simp
  then have i: "kernelIdentity demo_cap ''h1'' 2000 demo_reserved = Inr (demo_identity, demo_reserved)"
    using kernelIdentity_store by (auto split: sum.splits)
  have "reply_of (SettleCall demo_cap ''h1'' Released '' '') 2000 demo_reserved = ''settle''" by code_simp
  then obtain x where x: "settleReservation demo_identity Released '' '' 2000 demo_reserved = Inr (x, demo_blank)"
    using i by (auto simp: reply_of_def demo_blank_def after_call_def settleKernelUsage_def nbind_def split: sum.splits)
  have "sq_sequence demo_blank \<noteq> sq_sequence demo_reserved" by code_simp
  then have "demo_blank \<noteq> demo_reserved" by metis
  from blank_release_unreadable [OF ok _ _ x this] reclaim show ?thesis
    by (simp add: demo_identity_def is_safe_integer_def max_safe_integer_def release_reason_def js_trim_def js_whitespace_def)
qed

end
