(* ===== verification/Api_Key_Fields.thy ===== *)
theory Api_Key_Fields
  imports Native_Kernel
begin

text \<open>
  API keys: their records (\<^verbatim>\<open>src/src/types.ts\<close>, \<^verbatim>\<open>src/src/authority/native-contracts.ts\<close>), the
  field rules of \<^verbatim>\<open>src/src/api-keys.ts\<close> and the paid policy checks of
  \<^verbatim>\<open>src/src/authority/native-paid-policy.ts\<close>. Numbers that a request body brings are any JavaScript number; the numeric fields of a stored key are integers. Arithmetic on credits is binary64.
  An array is compared by identity in the source, so a list of model ids carries its identity.
\<close>

section \<open>Records\<close>

type_synonym array_ref = "nat \<times> string list"

record api_key_record =
  ak_id :: string
  ak_name :: string
  ak_prefix :: string
  ak_hash :: string
  ak_created_at_ms :: int
  ak_expires_at_ms :: int
  ak_revoked_at_ms :: "int option"
  ak_usage_limit_requests :: int
  ak_usage_requests :: int
  ak_usage_reset_at_ms :: int
  ak_window_ms :: int
  ak_usage_quota_version :: int
  ak_paid_fallback_enabled :: bool
  ak_paid_fallback_limit_microcredits :: int
  ak_paid_fallback_spent_microcredits :: int
  ak_paid_fallback_reserved_microcredits :: int
  ak_paid_fallback_reservation_request_id :: "string option"
  ak_paid_fallback_model_ids :: array_ref
  ak_paid_fallback_quota_per_credit :: int
  ak_paid_fallback_max_exposure_microcredits :: "int dict option"
  ak_paid_fallback_pricing_checked_at_ms :: "int option"

record paid_hash_fields =
  ah_paid_fallback_enabled :: bool
  ah_paid_fallback_limit_microcredits :: int
  ah_paid_fallback_spent_microcredits :: int
  ah_paid_fallback_reserved_microcredits :: int
  ah_paid_fallback_reservation_request_id :: "string option"

record api_key_hash_record =
  ah_id :: string
  ah_expires_at_ms :: int
  ah_revoked_at_ms :: "int option"
  ah_usage_limit_requests :: int
  ah_usage_requests :: int
  ah_usage_reset_at_ms :: int
  ah_window_ms :: int
  ah_usage_quota_version :: int
  ah_paid :: paid_hash_fields

record api_key_policy =
  ap_token_hash :: string
  ap_key_id :: string
  ap_expires_at_ms :: int
  ap_usage_limit_requests :: int
  ap_window_ms :: int
  ap_window_start_ms :: int
  ap_usage_reset_at_ms :: int
  ap_policy_version :: string
  ap_paid_fallback_enabled :: bool
  ap_paid_fallback_limit_microcredits :: int
  ap_paid_fallback_spent_microcredits :: int
  ap_paid_fallback_reserved_microcredits :: int
  ap_paid_fallback_reservation_request_id :: "string option"

section \<open>Field rules\<close>

definition API_KEY_NO_EXPIRATION_MS :: int where
  "API_KEY_NO_EXPIRATION_MS = - 1"

definition PAID_FALLBACK_NO_LIMIT :: int where
  "PAID_FALLBACK_NO_LIMIT = - 1"

definition MICROCREDITS_PER_CREDIT :: int where
  "MICROCREDITS_PER_CREDIT = 1000000"

definition API_KEY_HASH_PREFIX :: kv_key where
  "API_KEY_HASH_PREFIX = [KText ''ubq_ai'', KText ''api_keys'', KText ''hash'']"

definition apiKeyHashKey :: "string \<Rightarrow> kv_key" where
  "apiKeyHashKey hash = API_KEY_HASH_PREFIX @ [KText hash]"

definition normalizePaidFallbackMicrocredits :: "js \<Rightarrow> int option" where
  "normalizePaidFallbackMicrocredits value = (case js_int value of None \<Rightarrow> None | Some i \<Rightarrow> if i < 0 then None else Some i)"

text \<open>\<^verbatim>\<open>Math.round\<close> rounds half up.\<close>

definition math_round :: "rat \<Rightarrow> int" where
  "math_round q = \<lfloor>q + 1 / 2\<rfloor>"

definition paidFallbackCreditsToMicrocredits :: "js \<Rightarrow> int option" where
  "paidFallbackCreditsToMicrocredits value =
     (if value = jint PAID_FALLBACK_NO_LIMIT then Some PAID_FALLBACK_NO_LIMIT
      else case value of
             JNum (Fin q) \<Rightarrow>
               if q < 0 then None
               else (case round_double (q * of_int MICROCREDITS_PER_CREDIT) of
                       Fin r \<Rightarrow> let microcredits = math_round r in
                         if \<not> is_safe_integer microcredits \<or> microcredits < 0 then None else Some microcredits
                     | _ \<Rightarrow> None)
           | _ \<Rightarrow> None)"

definition paidFallbackMicrocreditsToCredits :: "js \<Rightarrow> jsnum" where
  "paidFallbackMicrocreditsToCredits value =
     (if value = jint PAID_FALLBACK_NO_LIMIT then Fin (of_int PAID_FALLBACK_NO_LIMIT)
      else let microcredits = (case normalizePaidFallbackMicrocredits value of None \<Rightarrow> 0 | Some i \<Rightarrow> i)
           in round_double (of_int microcredits / of_int MICROCREDITS_PER_CREDIT))"

definition coerceApiKeyExpiresAtMs :: "js \<Rightarrow> int" where
  "coerceApiKeyExpiresAtMs record =
     (if \<not> isRecord record then API_KEY_NO_EXPIRATION_MS
      else case js_get record ''expires_at_ms'' of
             JNum (Fin q) \<Rightarrow>
               let expiresAtMs = js_trunc q in
               if expiresAtMs = API_KEY_NO_EXPIRATION_MS then API_KEY_NO_EXPIRATION_MS
               else if expiresAtMs < 0 then API_KEY_NO_EXPIRATION_MS else expiresAtMs
           | _ \<Rightarrow> API_KEY_NO_EXPIRATION_MS)"

definition normalizeApiKeyWindowMs :: "js \<Rightarrow> int" where
  "normalizeApiKeyWindowMs value =
     (case value of
        JNum (Fin q) \<Rightarrow> let windowMs = js_trunc q in if windowMs \<le> 0 then USAGE_RESET_PERIOD_MS else windowMs
      | _ \<Rightarrow> USAGE_RESET_PERIOD_MS)"

definition coerceApiKeyWindowMs :: "api_key_record \<Rightarrow> int" where
  "coerceApiKeyWindowMs record = normalizeApiKeyWindowMs (jint (ak_window_ms record))"

definition calculateNextResetMs :: "int \<Rightarrow> int \<Rightarrow> int" where
  "calculateNextResetMs now windowMs = now + windowMs"

definition DEFAULT_EXPIRY_DAYS :: int where
  "DEFAULT_EXPIRY_DAYS = 90"

definition getDefaultExpiryMs :: "int \<Rightarrow> int" where
  "getDefaultExpiryMs now = now + DEFAULT_EXPIRY_DAYS * 24 * 60 * 60 * 1000"

section \<open>Paid policy checks\<close>

definition isPaidFallbackLimit :: "js \<Rightarrow> bool" where
  "isPaidFallbackLimit value \<longleftrightarrow> value = jint PAID_FALLBACK_NO_LIMIT \<or> nonNegativeSafeInteger value \<noteq> None"

definition isNullableString :: "js \<Rightarrow> bool" where
  "isNullableString value \<longleftrightarrow> value = JNull \<or> (case js_text value of None \<Rightarrow> False | Some s \<Rightarrow> js_trim s \<noteq> [])"

definition hasStrictPaidFallbackPolicy :: "js \<Rightarrow> bool" where
  "hasStrictPaidFallbackPolicy value \<longleftrightarrow>
     isRecord value \<and> js_bool (js_get value ''paid_fallback_enabled'') \<noteq> None \<and>
     isPaidFallbackLimit (js_get value ''paid_fallback_limit_microcredits'') \<and>
     nonNegativeSafeInteger (js_get value ''paid_fallback_spent_microcredits'') \<noteq> None \<and>
     nonNegativeSafeInteger (js_get value ''paid_fallback_reserved_microcredits'') \<noteq> None \<and>
     isNullableString (js_get value ''paid_fallback_reservation_request_id'') \<and>
     \<not> (js_get value ''paid_fallback_enabled'' = JBool True \<and>
        js_get value ''paid_fallback_limit_microcredits'' \<noteq> jint PAID_FALLBACK_NO_LIMIT \<and>
        positiveSafeInteger (js_get value ''paid_fallback_limit_microcredits'') = None)"

definition hasStrictPaidFallbackKeyPolicy :: "js \<Rightarrow> bool" where
  "hasStrictPaidFallbackKeyPolicy value \<longleftrightarrow>
     hasStrictPaidFallbackPolicy value \<and>
     (case js_items (js_get value ''paid_fallback_model_ids'') of
        None \<Rightarrow> False
      | Some models \<Rightarrow>
          list_all (\<lambda>m. case js_text m of None \<Rightarrow> False | Some s \<Rightarrow> js_trim s \<noteq> []) models \<and>
          nonNegativeSafeInteger (js_get value ''paid_fallback_quota_per_credit'') \<noteq> None \<and>
          (js_get value ''paid_fallback_pricing_checked_at_ms'' = JNull \<or>
           positiveSafeInteger (js_get value ''paid_fallback_pricing_checked_at_ms'') \<noteq> None) \<and>
          (truthy (js_get value ''paid_fallback_enabled'') \<longrightarrow>
             models \<noteq> [] \<and> positiveSafeInteger (js_get value ''paid_fallback_quota_per_credit'') \<noteq> None \<and>
             positiveSafeInteger (js_get value ''paid_fallback_pricing_checked_at_ms'') \<noteq> None))"

definition paidFallbackHashFields :: "api_key_record \<Rightarrow> paid_hash_fields" where
  "paidFallbackHashFields r =
     \<lparr>ah_paid_fallback_enabled = ak_paid_fallback_enabled r,
      ah_paid_fallback_limit_microcredits = ak_paid_fallback_limit_microcredits r,
      ah_paid_fallback_spent_microcredits = ak_paid_fallback_spent_microcredits r,
      ah_paid_fallback_reserved_microcredits = ak_paid_fallback_reserved_microcredits r,
      ah_paid_fallback_reservation_request_id = ak_paid_fallback_reservation_request_id r\<rparr>"

end
