(* ===== verification/Api_Usage.thy ===== *)
theory Api_Usage
  imports Api_Key_Fields
begin

text \<open>
  The request quota of an API key (\<^verbatim>\<open>src/src/authority/native-api-key.ts\<close>): usage windows, request
  rows, their normalizers, and the plans to reserve, dispatch, release and cancel. A plan carries the
  rows to write and says nothing about where they are stored.
\<close>

section \<open>Rows and plans\<close>

record usage_window =
  uw_key_id :: string
  uw_policy_version :: string
  uw_window_start_ms :: int
  uw_window_reset_at_ms :: int
  uw_committed_requests :: int
  uw_reserved_requests :: int
  uw_updated_at_ms :: int

datatype usage_state = UsageReserved | UsageDispatched | UsageReleased

datatype usage_provider =
    Cerebras | Chatgpt_codex | Claude_code | Deepseek | Lithos | Openrouter | Removed_provider | Metered | Surplus | Voyage

record usage_request =
  ur_key_id :: string
  ur_request_id :: string
  ur_route :: string
  ur_state :: usage_state
  ur_reserved_at_ms :: int
  ur_lease_expires_at_ms :: int
  ur_provider :: "usage_provider option"
  ur_dispatched_at_ms :: "int option"
  ur_released_at_ms :: "int option"
  ur_release_reason :: "string option"

record usage_snapshot =
  us_request :: js
  us_window :: js

datatype plan_checks = PolicyWindowRequest | RequestWindow

record usage_write_plan =
  wp_checks :: plan_checks
  wp_request :: usage_request
  wp_window :: usage_window
  wp_expireIn :: int

datatype unavailable_reason = RequestMalformed | IdentityConflict | IdentityConsumed | WindowMalformed

datatype usage_reservation_plan = URWrite usage_write_plan | URReuse | URFull usage_window | URUnavailable unavailable_reason

datatype usage_dispatch_plan = UDWrite usage_write_plan | UDAlready | UDInvalid

datatype usage_release_plan = ULWrite usage_write_plan | ULMissing | ULInvalid | ULSettled

section \<open>Constants and windows\<close>

definition API_KEY_USAGE_V3_RESERVATION_LEASE_MS :: int where
  "API_KEY_USAGE_V3_RESERVATION_LEASE_MS = 5 * 60000"

definition API_KEY_USAGE_V3_RETENTION_MS :: int where
  "API_KEY_USAGE_V3_RETENTION_MS = 7 * 24 * 60 * 60000"

definition API_KEY_USAGE_PROVIDERS :: "(string \<times> usage_provider) list" where
  "API_KEY_USAGE_PROVIDERS = [(''cerebras'', Cerebras), (''chatgpt_codex'', Chatgpt_codex), (''claude_code'', Claude_code),
     (''deepseek'', Deepseek), (''lithos'', Lithos), (''openrouter'', Openrouter), (''removed_provider'', Removed_provider),
     (''metered'', Metered), (''surplus'', Surplus), (''voyage'', Voyage)]"

definition usage_provider_of :: "js \<Rightarrow> usage_provider option" where
  "usage_provider_of v = (case js_text v of None \<Rightarrow> None | Some s \<Rightarrow> map_of API_KEY_USAGE_PROVIDERS s)"

text \<open>
  The quotient is a binary64 division; \<open>elapsed_windows\<close> rounds it down. A window length is positive
  wherever the source calls this.
\<close>

definition elapsed_windows :: "int \<Rightarrow> int \<Rightarrow> int" where
  "elapsed_windows elapsedMs windowMs =
     (case round_double (of_int elapsedMs / of_int windowMs) of Fin q \<Rightarrow> \<lfloor>q\<rfloor> | _ \<Rightarrow> 0)"

definition currentApiKeyUsageWindow :: "int \<Rightarrow> int \<Rightarrow> int \<Rightarrow> int \<times> int" where
  "currentApiKeyUsageWindow usageResetAtMs windowMs now =
     (let initialStart = usageResetAtMs - windowMs in
      if now < usageResetAtMs then (initialStart, usageResetAtMs)
      else let start = initialStart + elapsed_windows (now - initialStart) windowMs * windowMs
           in (start, start + windowMs))"

definition makeApiKeyUsageWindowV3 :: "api_key_policy \<Rightarrow> int \<Rightarrow> usage_window" where
  "makeApiKeyUsageWindowV3 policy now =
     \<lparr>uw_key_id = ap_key_id policy, uw_policy_version = ap_policy_version policy,
      uw_window_start_ms = ap_window_start_ms policy, uw_window_reset_at_ms = ap_usage_reset_at_ms policy,
      uw_committed_requests = 0, uw_reserved_requests = 0, uw_updated_at_ms = now\<rparr>"

section \<open>Normalizers\<close>

definition normalizeApiKeyUsageWindowV3 :: "js \<Rightarrow> usage_window option" where
  "normalizeApiKeyUsageWindowV3 value =
     (if \<not> isRecord value \<or> js_get value ''v'' \<noteq> jint 3 then None
      else
        Option.bind (nonempty_text (js_get value ''key_id'')) (\<lambda>keyId.
        Option.bind (nonempty_text (js_get value ''policy_version'')) (\<lambda>version.
        Option.bind (nonNegativeSafeInteger (js_get value ''window_start_ms'')) (\<lambda>start.
        Option.bind (nonNegativeSafeInteger (js_get value ''window_reset_at_ms'')) (\<lambda>reset.
        Option.bind (nonNegativeSafeInteger (js_get value ''committed_requests'')) (\<lambda>committed.
        Option.bind (nonNegativeSafeInteger (js_get value ''reserved_requests'')) (\<lambda>reserved.
        Option.bind (nonNegativeSafeInteger (js_get value ''updated_at_ms'')) (\<lambda>updated.
        if reset \<le> start then None
        else Some \<lparr>uw_key_id = keyId, uw_policy_version = version, uw_window_start_ms = start, uw_window_reset_at_ms = reset,
               uw_committed_requests = committed, uw_reserved_requests = reserved, uw_updated_at_ms = updated\<rparr>))))))))"

definition usage_state_of :: "js \<Rightarrow> usage_state option" where
  "usage_state_of v = (if v = JStr ''reserved'' then Some UsageReserved
     else if v = JStr ''dispatched'' then Some UsageDispatched
     else if v = JStr ''released'' then Some UsageReleased else None)"

text \<open>What the state of a request row demands of its other fields.\<close>

definition request_consistent :: "usage_request \<Rightarrow> bool" where
  "request_consistent r =
     (case ur_state r of
        UsageReserved \<Rightarrow> ur_provider r = None \<and> ur_dispatched_at_ms r = None \<and> ur_released_at_ms r = None \<and> ur_release_reason r = None
      | UsageDispatched \<Rightarrow> ur_provider r \<noteq> None \<and> ur_dispatched_at_ms r \<noteq> None \<and> ur_released_at_ms r = None \<and> ur_release_reason r = None
      | UsageReleased \<Rightarrow> ur_provider r = None \<and> ur_dispatched_at_ms r = None \<and> ur_released_at_ms r \<noteq> None \<and> ur_release_reason r \<noteq> None)"

definition normalizeApiKeyUsageRequestV3 :: "js \<Rightarrow> usage_request option" where
  "normalizeApiKeyUsageRequestV3 value =
     (if \<not> isRecord value \<or> js_get value ''v'' \<noteq> jint 3 then None
      else
        Option.bind (nonempty_text (js_get value ''key_id'')) (\<lambda>keyId.
        Option.bind (nonempty_text (js_get value ''request_id'')) (\<lambda>requestId.
        Option.bind (nonempty_text (js_get value ''route'')) (\<lambda>route.
        Option.bind (usage_state_of (js_get value ''state'')) (\<lambda>state.
        Option.bind (nonNegativeSafeInteger (js_get value ''reserved_at_ms'')) (\<lambda>reserved.
        Option.bind (nonNegativeSafeInteger (js_get value ''lease_expires_at_ms'')) (\<lambda>lease.
        Option.bind (opt_of_js usage_provider_of (js_get value ''provider'')) (\<lambda>provider.
        Option.bind (opt_of_js nonNegativeSafeInteger (js_get value ''dispatched_at_ms'')) (\<lambda>dispatched.
        Option.bind (opt_of_js nonNegativeSafeInteger (js_get value ''released_at_ms'')) (\<lambda>released.
        Option.bind (opt_of_js js_text (js_get value ''release_reason'')) (\<lambda>reason.
        let row = \<lparr>ur_key_id = keyId, ur_request_id = requestId, ur_route = route, ur_state = state,
              ur_reserved_at_ms = reserved, ur_lease_expires_at_ms = lease, ur_provider = provider,
              ur_dispatched_at_ms = dispatched, ur_released_at_ms = released, ur_release_reason = reason\<rparr>
        in if request_consistent row then Some row else None)))))))))))"

definition matchingApiKeyUsageWindowV3 :: "js \<Rightarrow> api_key_policy \<Rightarrow> usage_window option" where
  "matchingApiKeyUsageWindowV3 value policy =
     (case normalizeApiKeyUsageWindowV3 value of
        None \<Rightarrow> None
      | Some w \<Rightarrow>
          if uw_key_id w = ap_key_id policy \<and> uw_policy_version w = ap_policy_version policy \<and>
             uw_window_start_ms w = ap_window_start_ms policy \<and> uw_window_reset_at_ms w = ap_usage_reset_at_ms policy
          then Some w else None)"

definition apiKeyUsageV3PolicyVersion :: "int \<Rightarrow> string" where
  "apiKeyUsageV3PolicyVersion windowMs = ''v3:'' @ show_int windowMs"

definition apiKeyUsageV3RetentionMs :: "int \<Rightarrow> int \<Rightarrow> int" where
  "apiKeyUsageV3RetentionMs windowResetAtMs now = max 1 (windowResetAtMs + API_KEY_USAGE_V3_RETENTION_MS - now)"

definition isApiKeyUsageReservationExpired :: "usage_request \<Rightarrow> int \<Rightarrow> bool" where
  "isApiKeyUsageReservationExpired r now \<longleftrightarrow> ur_state r = UsageReserved \<and> ur_lease_expires_at_ms r \<le> now"

section \<open>Plans\<close>

definition writePlan :: "plan_checks \<Rightarrow> usage_request \<Rightarrow> usage_window \<Rightarrow> int \<Rightarrow> usage_write_plan" where
  "writePlan checks r w now =
     \<lparr>wp_checks = checks, wp_request = r, wp_window = w, wp_expireIn = apiKeyUsageV3RetentionMs (uw_window_reset_at_ms w) now\<rparr>"

definition planApiKeyUsageReservation ::
  "api_key_policy \<Rightarrow> string \<Rightarrow> string \<Rightarrow> usage_snapshot \<Rightarrow> int \<Rightarrow> usage_reservation_plan" where
  "planApiKeyUsageReservation policy requestId route snapshot now =
     (case normalizeApiKeyUsageRequestV3 (us_request snapshot) of
        Some r \<Rightarrow>
          if ur_key_id r \<noteq> ap_key_id policy \<or> ur_request_id r \<noteq> requestId \<or> ur_route r \<noteq> route then URUnavailable IdentityConflict
          else if ur_state r \<noteq> UsageReserved then URUnavailable IdentityConsumed
          else URReuse
      | None \<Rightarrow>
          if us_request snapshot \<noteq> JNull then URUnavailable RequestMalformed
          else case (if us_window snapshot = JNull then Some (makeApiKeyUsageWindowV3 policy now)
                     else matchingApiKeyUsageWindowV3 (us_window snapshot) policy) of
                 None \<Rightarrow> URUnavailable WindowMalformed
               | Some w \<Rightarrow>
                   if ap_usage_limit_requests policy \<noteq> - 1 \<and>
                      ap_usage_limit_requests policy \<le> uw_committed_requests w + uw_reserved_requests w
                   then URFull w
                   else URWrite (writePlan PolicyWindowRequest
                          \<lparr>ur_key_id = ap_key_id policy, ur_request_id = requestId, ur_route = route, ur_state = UsageReserved,
                           ur_reserved_at_ms = now, ur_lease_expires_at_ms = now + API_KEY_USAGE_V3_RESERVATION_LEASE_MS,
                           ur_provider = None, ur_dispatched_at_ms = None, ur_released_at_ms = None, ur_release_reason = None\<rparr>
                          (w\<lparr>uw_reserved_requests := uw_reserved_requests w + 1, uw_updated_at_ms := now\<rparr>) now))"

definition planApiKeyUsageDispatch ::
  "api_key_policy \<Rightarrow> string \<Rightarrow> string \<Rightarrow> usage_provider \<Rightarrow> usage_snapshot \<Rightarrow> int \<Rightarrow> usage_dispatch_plan" where
  "planApiKeyUsageDispatch policy requestId route provider snapshot now =
     (case normalizeApiKeyUsageRequestV3 (us_request snapshot) of
        None \<Rightarrow> UDInvalid
      | Some r \<Rightarrow>
          if ur_key_id r \<noteq> ap_key_id policy \<or> ur_request_id r \<noteq> requestId \<or> ur_route r \<noteq> route \<or> ur_state r = UsageReleased
          then UDInvalid
          else if ur_state r = UsageDispatched then UDAlready
          else case matchingApiKeyUsageWindowV3 (us_window snapshot) policy of
                 None \<Rightarrow> UDInvalid
               | Some w \<Rightarrow>
                   if uw_reserved_requests w < 1 then UDInvalid
                   else UDWrite (writePlan RequestWindow
                          (r\<lparr>ur_state := UsageDispatched, ur_provider := Some provider, ur_dispatched_at_ms := Some now\<rparr>)
                          (w\<lparr>uw_committed_requests := uw_committed_requests w + 1,
                             uw_reserved_requests := uw_reserved_requests w - 1, uw_updated_at_ms := now\<rparr>) now))"

definition planApiKeyUsageReservedRelease ::
  "api_key_policy \<Rightarrow> string \<Rightarrow> string \<Rightarrow> usage_snapshot \<Rightarrow> int \<Rightarrow> string option \<Rightarrow> usage_release_plan" where
  "planApiKeyUsageReservedRelease policy requestId reason snapshot now expectedRoute =
     (case normalizeApiKeyUsageRequestV3 (us_request snapshot) of
        None \<Rightarrow> if us_request snapshot = JNull then ULMissing else ULInvalid
      | Some r \<Rightarrow>
          if ur_key_id r \<noteq> ap_key_id policy \<or> ur_request_id r \<noteq> requestId \<or>
             (case expectedRoute of None \<Rightarrow> False | Some x \<Rightarrow> ur_route r \<noteq> x)
          then ULInvalid
          else if ur_state r \<noteq> UsageReserved then ULSettled
          else case matchingApiKeyUsageWindowV3 (us_window snapshot) policy of
                 None \<Rightarrow> ULInvalid
               | Some w \<Rightarrow>
                   if uw_reserved_requests w < 1 then ULInvalid
                   else ULWrite (writePlan RequestWindow
                          (r\<lparr>ur_state := UsageReleased, ur_released_at_ms := Some now, ur_release_reason := Some reason\<rparr>)
                          (w\<lparr>uw_reserved_requests := uw_reserved_requests w - 1, uw_updated_at_ms := now\<rparr>) now))"

definition planApiKeyUsageDispatchCancellation ::
  "api_key_policy \<Rightarrow> string \<Rightarrow> string \<Rightarrow> usage_provider \<Rightarrow> usage_snapshot \<Rightarrow> int \<Rightarrow> usage_release_plan" where
  "planApiKeyUsageDispatchCancellation policy requestId route provider snapshot now =
     (case normalizeApiKeyUsageRequestV3 (us_request snapshot) of
        None \<Rightarrow> if us_request snapshot = JNull then ULMissing else ULInvalid
      | Some r \<Rightarrow>
          if ur_key_id r \<noteq> ap_key_id policy \<or> ur_request_id r \<noteq> requestId \<or> ur_route r \<noteq> route then ULInvalid
          else if ur_state r \<noteq> UsageDispatched then ULSettled
          else if ur_provider r \<noteq> Some provider then ULInvalid
          else case matchingApiKeyUsageWindowV3 (us_window snapshot) policy of
                 None \<Rightarrow> ULInvalid
               | Some w \<Rightarrow>
                   if uw_committed_requests w < 1 then ULInvalid
                   else ULWrite (writePlan RequestWindow
                          (r\<lparr>ur_state := UsageReleased, ur_provider := None, ur_dispatched_at_ms := None,
                             ur_released_at_ms := Some now, ur_release_reason := Some ''transport_cancelled_before_fetch''\<rparr>)
                          (w\<lparr>uw_committed_requests := uw_committed_requests w - 1, uw_updated_at_ms := now\<rparr>) now))"

end
