(* ===== verification/Api_Key_Policy.thy ===== *)
theory Api_Key_Policy
  imports Api_Usage
begin

text \<open>
  Parsing and admin decisions on API keys (\<^verbatim>\<open>src/src/authority/native-api-key-policy.ts\<close>): the policy
  a stored hash record gives, the fields of create and update requests, the record an update builds, the
  changes it reports, and the decisions on revoking and deleting. A request body is any object; a
  refused body is the error text.
\<close>

section \<open>The policy of a hash record\<close>

definition hasUsageQuotaV3 :: "js \<Rightarrow> bool" where
  "hasUsageQuotaV3 record \<longleftrightarrow> isRecord record \<and> js_get record ''usage_quota_version'' = jint 3"

definition policyVersion :: "js \<Rightarrow> string" where
  "policyVersion record = apiKeyUsageV3PolicyVersion (normalizeApiKeyWindowMs (js_get record ''window_ms''))"

definition policy_expiry :: "js \<Rightarrow> int" where
  "policy_expiry v = (case v of JNum (Fin q) \<Rightarrow> js_trunc q | _ \<Rightarrow> API_KEY_NO_EXPIRATION_MS)"

text \<open>The record's other fields are cast to their declared types; a field of another type is a failure here.\<close>

definition apiKeyPolicyFromHashRecord :: "string \<Rightarrow> js \<Rightarrow> int \<Rightarrow> native_error + api_key_policy option" where
  "apiKeyPolicyFromHashRecord tokenHash record now =
     (if \<not> hasStrictPaidFallbackPolicy record \<or> \<not> hasUsageQuotaV3 record then Inr None
      else
        rbind (typed (js_int (js_get record ''usage_reset_at_ms''))) (\<lambda>resetAt.
        rbind (typed (js_text (js_get record ''id''))) (\<lambda>keyId.
        rbind (typed (js_int (js_get record ''usage_limit_requests''))) (\<lambda>limit.
        rbind (typed (js_bool (js_get record ''paid_fallback_enabled''))) (\<lambda>enabled.
        rbind (typed (js_int (js_get record ''paid_fallback_limit_microcredits''))) (\<lambda>paidLimit.
        rbind (typed (js_int (js_get record ''paid_fallback_spent_microcredits''))) (\<lambda>spent.
        rbind (typed (js_int (js_get record ''paid_fallback_reserved_microcredits''))) (\<lambda>reserved.
        let windowMs = normalizeApiKeyWindowMs (js_get record ''window_ms'');
            window = currentApiKeyUsageWindow resetAt windowMs now
        in Inr (Some \<lparr>ap_token_hash = tokenHash, ap_key_id = keyId,
             ap_expires_at_ms = policy_expiry (js_get record ''expires_at_ms''), ap_usage_limit_requests = limit,
             ap_window_ms = windowMs, ap_window_start_ms = fst window, ap_usage_reset_at_ms = snd window,
             ap_policy_version = policyVersion record, ap_paid_fallback_enabled = enabled,
             ap_paid_fallback_limit_microcredits = paidLimit, ap_paid_fallback_spent_microcredits = spent,
             ap_paid_fallback_reserved_microcredits = reserved,
             ap_paid_fallback_reservation_request_id = js_text (js_get record ''paid_fallback_reservation_request_id'')\<rparr>)))))))))"

section \<open>Fields of a request\<close>

definition hex_lower :: "char \<Rightarrow> bool" where
  "hex_lower c \<longleftrightarrow> is_digit c \<or> c \<in> set ''abcdef''"

definition looksLikeUosApiKey :: "string \<Rightarrow> bool" where
  "looksLikeUosApiKey token =
     (let t = js_trim token in take 2 t = ''u_'' \<and> length t = 66 \<and> list_all hex_lower (drop 2 t))"

definition normalizeApiKeyName :: "js \<Rightarrow> string option" where
  "normalizeApiKeyName value =
     (case js_text value of
        None \<Rightarrow> None
      | Some s \<Rightarrow>
          let name = js_trim s in
          if name = [] then None
          else if 80 < length name then None
          else if list_ex (\<lambda>c. c = CHR 0x0D \<or> c = CHR 0x0A) name then None
          else Some name)"

definition normalizeOptionalApiKeyToken :: "js \<Rightarrow> string option" where
  "normalizeOptionalApiKeyToken value =
     (case js_text value of None \<Rightarrow> None | Some s \<Rightarrow> let token = js_trim s in if looksLikeUosApiKey token then Some token else None)"

definition absent_value :: "js \<Rightarrow> bool" where
  "absent_value v \<longleftrightarrow> v = JUndef \<or> v = JNull"

definition normalizeApiKeyExpiresAtMs :: "js \<Rightarrow> int \<Rightarrow> int \<Rightarrow> int option" where
  "normalizeApiKeyExpiresAtMs value now defaultExpiryMs =
     (if absent_value value then Some defaultExpiryMs
      else case value of
             JNum (Fin q) \<Rightarrow>
               let expiresAtMs = js_trunc q in
               if expiresAtMs = API_KEY_NO_EXPIRATION_MS then Some API_KEY_NO_EXPIRATION_MS
               else if expiresAtMs < 0 then None
               else if expiresAtMs \<le> now then None
               else Some expiresAtMs
           | _ \<Rightarrow> None)"

definition normalizeApiKeyUsageLimit :: "js \<Rightarrow> int \<Rightarrow> int option" where
  "normalizeApiKeyUsageLimit value defaultUsageLimit =
     (if absent_value value then Some defaultUsageLimit
      else case value of
             JNum (Fin q) \<Rightarrow>
               let limit = js_trunc q in
               if limit = API_KEY_NO_USAGE_LIMIT then Some API_KEY_NO_USAGE_LIMIT else if limit < 0 then None else Some limit
           | _ \<Rightarrow> None)"

definition normalizeApiKeyWindowMsInput :: "js \<Rightarrow> int option" where
  "normalizeApiKeyWindowMsInput value =
     (if absent_value value then None
      else
        let number = (case value of JStr s \<Rightarrow> if js_trim s = [] then NaN else number_of_text (js_trim s) | JNum n \<Rightarrow> n | _ \<Rightarrow> NaN)
        in case number of
             Fin q \<Rightarrow> let windowMs = js_trunc q in if windowMs \<le> 0 then None else Some windowMs
           | _ \<Rightarrow> None)"

definition has_own :: "js \<Rightarrow> string \<Rightarrow> bool" where
  "has_own raw k \<longleftrightarrow> (case js_entries raw of None \<Rightarrow> False | Some es \<Rightarrow> map_of es k \<noteq> None)"

record api_key_create_fields =
  cf_expiresAtMs :: int
  cf_usageLimitRequests :: int
  cf_windowMs :: int
  cf_paidFallbackEnabled :: bool
  cf_paidFallbackLimitMicrocredits :: int

definition resolveApiKeyCreatePaidFallback :: "js \<Rightarrow> string + (bool \<times> int)" where
  "resolveApiKeyCreatePaidFallback raw =
     (if has_own raw ''paid_fallback_enabled'' \<and> js_bool (js_get raw ''paid_fallback_enabled'') = None
      then Inl ''paid_fallback_enabled must be a boolean''
      else
        let enabled = (js_get raw ''paid_fallback_enabled'' = JBool True) in
        case (if has_own raw ''paid_fallback_limit_credits''
              then paidFallbackCreditsToMicrocredits (js_get raw ''paid_fallback_limit_credits'') else Some 0) of
          None \<Rightarrow> Inl ''paid_fallback_limit_credits must be a non-negative number or -1''
        | Some limit \<Rightarrow>
            if enabled \<and> limit = 0 then Inl ''paid_fallback_limit_credits must be positive or -1 when paid fallback is enabled''
            else Inr (enabled, limit))"

definition resolveApiKeyCreateFields :: "js \<Rightarrow> int \<Rightarrow> int \<times> int \<Rightarrow> string + api_key_create_fields" where
  "resolveApiKeyCreateFields raw now defaults =
     rbind (require (normalizeApiKeyExpiresAtMs (js_get raw ''expires_at_ms'') now (fst defaults))
              ''expires_at_ms must be a Unix epoch ms timestamp in the future, or -1'') (\<lambda>expiresAtMs.
     rbind (require (normalizeApiKeyUsageLimit (js_get raw ''usage_limit_requests'') (snd defaults))
              ''usage_limit_requests must be a positive number or -1 for unlimited'') (\<lambda>usageLimit.
     let windowMs = normalizeApiKeyWindowMsInput (js_get raw ''window_ms'') in
     if js_get raw ''window_ms'' \<noteq> JUndef \<and> windowMs = None then Inl ''window_ms must be a positive number''
     else
     rbind (resolveApiKeyCreatePaidFallback raw) (\<lambda>(enabled, limit).
     Inr \<lparr>cf_expiresAtMs = expiresAtMs, cf_usageLimitRequests = usageLimit,
         cf_windowMs = (case windowMs of None \<Rightarrow> USAGE_RESET_PERIOD_MS | Some w \<Rightarrow> w),
         cf_paidFallbackEnabled = enabled, cf_paidFallbackLimitMicrocredits = limit\<rparr>)))"

record api_key_update_paid =
  up_paidFallbackEnabled :: bool
  up_paidFallbackLimitMicrocredits :: int
  up_paidFallbackModelIds :: array_ref
  up_paidFallbackQuotaPerCredit :: int
  up_paidFallbackMaxExposureMicrocredits :: "int dict"
  up_paidFallbackPricingCheckedAtMs :: "int option"

record api_key_update_fields =
  uf_name :: string
  uf_expiresAtMs :: int
  uf_usageLimitRequests :: int
  uf_windowMs :: int
  uf_paid :: api_key_update_paid
  uf_resetUsage :: bool

definition resolveApiKeyUpdateIdentity :: "js \<Rightarrow> api_key_record \<Rightarrow> int \<Rightarrow> int \<Rightarrow> int \<Rightarrow> string + (string \<times> int)" where
  "resolveApiKeyUpdateIdentity raw record currentExpiresAtMs now defaultExpiryMs =
     rbind (if has_own raw ''name''
            then require (normalizeApiKeyName (js_get raw ''name'')) ''name must be a non-empty string (<=80 chars)''
            else Inr (ak_name record)) (\<lambda>name.
     rbind (if has_own raw ''expires_at_ms''
            then require (normalizeApiKeyExpiresAtMs (js_get raw ''expires_at_ms'') now defaultExpiryMs)
                   ''expires_at_ms must be a Unix epoch ms timestamp in the future, or -1''
            else Inr currentExpiresAtMs) (\<lambda>expiresAtMs.
     Inr (name, expiresAtMs)))"

definition resolveApiKeyUpdateQuota :: "js \<Rightarrow> api_key_record \<Rightarrow> int \<Rightarrow> string + (int \<times> int)" where
  "resolveApiKeyUpdateQuota raw record defaultUsageLimit =
     rbind (if has_own raw ''usage_limit_requests''
            then require (normalizeApiKeyUsageLimit (js_get raw ''usage_limit_requests'') defaultUsageLimit)
                   ''usage_limit_requests must be a non-negative number or -1 for unlimited''
            else Inr (ak_usage_limit_requests record)) (\<lambda>limit.
     rbind (if has_own raw ''window_ms''
            then require (normalizeApiKeyWindowMsInput (js_get raw ''window_ms'')) ''window_ms must be a positive number''
            else Inr (coerceApiKeyWindowMs record)) (\<lambda>windowMs.
     Inr (limit, windowMs)))"

definition resolveApiKeyUpdatePaidFallback :: "js \<Rightarrow> api_key_record \<Rightarrow> string + (api_key_update_paid \<times> bool)" where
  "resolveApiKeyUpdatePaidFallback raw record =
     (if has_own raw ''paid_fallback_enabled'' \<and> js_bool (js_get raw ''paid_fallback_enabled'') = None
      then Inl ''paid_fallback_enabled must be a boolean''
      else
        let enabled = (if has_own raw ''paid_fallback_enabled'' then js_get raw ''paid_fallback_enabled'' = JBool True
                       else ak_paid_fallback_enabled record) in
        rbind (if has_own raw ''paid_fallback_limit_credits''
               then require (paidFallbackCreditsToMicrocredits (js_get raw ''paid_fallback_limit_credits''))
                      ''paid_fallback_limit_credits must be a non-negative number or -1''
               else Inr (ak_paid_fallback_limit_microcredits record)) (\<lambda>limit.
        if enabled \<and> limit = 0 then Inl ''paid_fallback_limit_credits must be positive or -1 when paid fallback is enabled''
        else Inr (\<lparr>up_paidFallbackEnabled = enabled, up_paidFallbackLimitMicrocredits = limit,
               up_paidFallbackModelIds = ak_paid_fallback_model_ids record,
               up_paidFallbackQuotaPerCredit = ak_paid_fallback_quota_per_credit record,
               up_paidFallbackMaxExposureMicrocredits =
                 (case ak_paid_fallback_max_exposure_microcredits record of None \<Rightarrow> [] | Some d \<Rightarrow> d),
               up_paidFallbackPricingCheckedAtMs = ak_paid_fallback_pricing_checked_at_ms record\<rparr>,
             \<not> ak_paid_fallback_enabled record \<and> enabled)))"

section \<open>Building an update\<close>

definition fresh_reset :: "api_key_record \<Rightarrow> int \<Rightarrow> int \<Rightarrow> int \<Rightarrow> int" where
  "fresh_reset record windowMs now currentWindowMs =
     (let currentWindowStartMs = ak_usage_reset_at_ms record - currentWindowMs in
      max now (currentWindowStartMs + 1) + windowMs)"

definition replaces_window :: "api_key_update_fields \<Rightarrow> int \<Rightarrow> bool" where
  "replaces_window changes currentWindowMs \<longleftrightarrow> uf_resetUsage changes \<or> uf_windowMs changes \<noteq> currentWindowMs"

definition buildApiKeyUpdateRecord ::
  "api_key_record \<Rightarrow> api_key_update_fields \<Rightarrow> int \<Rightarrow> int \<Rightarrow> api_key_record \<times> bool \<times> bool" where
  "buildApiKeyUpdateRecord record changes now currentWindowMs =
     (let replace = replaces_window changes currentWindowMs;
          paid = uf_paid changes in
      (record\<lparr>ak_name := uf_name changes, ak_expires_at_ms := uf_expiresAtMs changes,
         ak_usage_limit_requests := uf_usageLimitRequests changes,
         ak_usage_requests := (if replace then 0 else ak_usage_requests record),
         ak_usage_reset_at_ms := (if replace then fresh_reset record (uf_windowMs changes) now currentWindowMs else ak_usage_reset_at_ms record),
         ak_window_ms := uf_windowMs changes,
         ak_paid_fallback_enabled := up_paidFallbackEnabled paid,
         ak_paid_fallback_limit_microcredits := up_paidFallbackLimitMicrocredits paid,
         ak_paid_fallback_spent_microcredits := (if replace then 0 else ak_paid_fallback_spent_microcredits record),
         ak_paid_fallback_model_ids := up_paidFallbackModelIds paid,
         ak_paid_fallback_quota_per_credit := up_paidFallbackQuotaPerCredit paid,
         ak_paid_fallback_max_exposure_microcredits := Some (up_paidFallbackMaxExposureMicrocredits paid),
         ak_paid_fallback_pricing_checked_at_ms := up_paidFallbackPricingCheckedAtMs paid\<rparr>,
       uf_resetUsage changes, replace))"

definition apiKeyUpdateIdentityChanged :: "api_key_record \<Rightarrow> api_key_record \<Rightarrow> int \<Rightarrow> bool" where
  "apiKeyUpdateIdentityChanged record updated currentExpiresAtMs \<longleftrightarrow>
     ak_name updated \<noteq> ak_name record \<or> ak_expires_at_ms updated \<noteq> currentExpiresAtMs"

definition apiKeyUpdateQuotaChanged :: "api_key_record \<Rightarrow> api_key_record \<Rightarrow> int \<Rightarrow> bool \<Rightarrow> bool" where
  "apiKeyUpdateQuotaChanged record updated currentWindowMs resetUsage \<longleftrightarrow>
     ak_usage_limit_requests updated \<noteq> ak_usage_limit_requests record \<or> ak_window_ms updated \<noteq> currentWindowMs \<or>
     resetUsage \<and> (ak_usage_requests updated \<noteq> ak_usage_requests record \<or> ak_usage_reset_at_ms updated \<noteq> ak_usage_reset_at_ms record)"

definition apiKeyUpdatePaidFallbackChanged :: "api_key_record \<Rightarrow> api_key_record \<Rightarrow> bool" where
  "apiKeyUpdatePaidFallbackChanged record updated \<longleftrightarrow>
     ak_paid_fallback_enabled updated \<noteq> ak_paid_fallback_enabled record \<or>
     ak_paid_fallback_limit_microcredits updated \<noteq> ak_paid_fallback_limit_microcredits record \<or>
     ak_paid_fallback_spent_microcredits updated \<noteq> ak_paid_fallback_spent_microcredits record \<or>
     ak_paid_fallback_reserved_microcredits updated \<noteq> ak_paid_fallback_reserved_microcredits record \<or>
     ak_paid_fallback_reservation_request_id updated \<noteq> ak_paid_fallback_reservation_request_id record \<or>
     fst (ak_paid_fallback_model_ids updated) \<noteq> fst (ak_paid_fallback_model_ids record) \<or>
     ak_paid_fallback_quota_per_credit updated \<noteq> ak_paid_fallback_quota_per_credit record \<or>
     ak_paid_fallback_pricing_checked_at_ms updated \<noteq> ak_paid_fallback_pricing_checked_at_ms record"

definition apiKeyUpdateChanged :: "api_key_record \<Rightarrow> api_key_record \<Rightarrow> int \<Rightarrow> int \<Rightarrow> bool \<Rightarrow> bool" where
  "apiKeyUpdateChanged record updated currentExpiresAtMs currentWindowMs resetUsage \<longleftrightarrow>
     apiKeyUpdateIdentityChanged record updated currentExpiresAtMs \<or>
     apiKeyUpdateQuotaChanged record updated currentWindowMs resetUsage \<or>
     apiKeyUpdatePaidFallbackChanged record updated"

definition changed_field :: "bool \<Rightarrow> string \<Rightarrow> js \<Rightarrow> (string \<times> js) list" where
  "changed_field b k v = (if b then [(k, v)] else [])"

definition apiKeyUpdateAuditChanges :: "api_key_record \<Rightarrow> api_key_record \<Rightarrow> int \<Rightarrow> int \<Rightarrow> bool \<Rightarrow> js" where
  "apiKeyUpdateAuditChanges record updated currentExpiresAtMs currentWindowMs resetUsage = JObj (
     changed_field (ak_name updated \<noteq> ak_name record) ''name'' (JStr (ak_name updated)) @
     changed_field (ak_expires_at_ms updated \<noteq> currentExpiresAtMs) ''expires_at_ms'' (jint (ak_expires_at_ms updated)) @
     changed_field (ak_usage_limit_requests updated \<noteq> ak_usage_limit_requests record) ''usage_limit_requests''
       (jint (ak_usage_limit_requests updated)) @
     changed_field (ak_window_ms updated \<noteq> currentWindowMs) ''window_ms'' (jint (ak_window_ms updated)) @
     changed_field (ak_paid_fallback_enabled updated \<noteq> ak_paid_fallback_enabled record) ''paid_fallback_enabled''
       (JBool (ak_paid_fallback_enabled updated)) @
     changed_field (ak_paid_fallback_limit_microcredits updated \<noteq> ak_paid_fallback_limit_microcredits record)
       ''paid_fallback_limit_credits'' (JNum (paidFallbackMicrocreditsToCredits (jint (ak_paid_fallback_limit_microcredits updated)))) @
     changed_field resetUsage ''reset_usage'' (JBool True))"

section \<open>Deletion, reset and revocation\<close>

definition retryableLocalDeletionGuard :: "js \<Rightarrow> int option" where
  "retryableLocalDeletionGuard value =
     (let deletion = js_get value ''local_deletion'' in
      if \<not> isRecord value \<or> \<not> isRecord deletion then None
      else case positiveSafeInteger (js_get value ''created_at_ms'') of
             None \<Rightarrow> None
           | Some created \<Rightarrow>
               if js_get deletion ''owner'' \<noteq> JNull \<or> js_get deletion ''completed_at_ms'' \<noteq> JNull then None else Some created)"

definition rejectRetiredApiKeyResetSetting :: "js \<Rightarrow> string option" where
  "rejectRetiredApiKeyResetSetting raw =
     (if has_own raw ''banked_resets_enabled''
      then Some ''banked_resets_enabled is retired; configure banked resets per Codex subscription'' else None)"

definition resolveApiKeyResetUsage :: "js \<Rightarrow> string + bool" where
  "resolveApiKeyResetUsage raw =
     (if has_own raw ''reset_usage'' \<and> js_bool (js_get raw ''reset_usage'') = None then Inl ''reset_usage must be a boolean''
      else Inr (js_get raw ''reset_usage'' = JBool True))"

definition apiKeyHashRecordFor :: "api_key_record \<Rightarrow> string \<Rightarrow> api_key_hash_record" where
  "apiKeyHashRecordFor record i =
     \<lparr>ah_id = i, ah_expires_at_ms = ak_expires_at_ms record, ah_revoked_at_ms = ak_revoked_at_ms record,
      ah_usage_limit_requests = ak_usage_limit_requests record, ah_usage_requests = ak_usage_requests record,
      ah_usage_reset_at_ms = ak_usage_reset_at_ms record, ah_window_ms = ak_window_ms record,
      ah_usage_quota_version = ak_usage_quota_version record, ah_paid = paidFallbackHashFields record\<rparr>"

record key_identity =
  kn_id :: string
  kn_name :: string
  kn_prefix :: string
  kn_hash :: string

text \<open>The paid policy that a create request is merged with is the part of a record it comes from.\<close>

definition buildApiKeyCreateRecords ::
  "key_identity \<Rightarrow> api_key_create_fields \<Rightarrow> api_key_record \<Rightarrow> int \<Rightarrow> api_key_record \<times> api_key_hash_record" where
  "buildApiKeyCreateRecords identity changes policy now =
     (let usageResetAtMs = calculateNextResetMs now (cf_windowMs changes);
          record = \<lparr>ak_id = kn_id identity, ak_name = kn_name identity, ak_prefix = kn_prefix identity, ak_hash = kn_hash identity,
            ak_created_at_ms = now, ak_expires_at_ms = cf_expiresAtMs changes, ak_revoked_at_ms = None,
            ak_usage_limit_requests = cf_usageLimitRequests changes, ak_usage_requests = 0, ak_usage_reset_at_ms = usageResetAtMs,
            ak_window_ms = cf_windowMs changes, ak_usage_quota_version = 3,
            ak_paid_fallback_enabled = ak_paid_fallback_enabled policy,
            ak_paid_fallback_limit_microcredits = ak_paid_fallback_limit_microcredits policy,
            ak_paid_fallback_spent_microcredits = ak_paid_fallback_spent_microcredits policy,
            ak_paid_fallback_reserved_microcredits = ak_paid_fallback_reserved_microcredits policy,
            ak_paid_fallback_reservation_request_id = ak_paid_fallback_reservation_request_id policy,
            ak_paid_fallback_model_ids = ak_paid_fallback_model_ids policy,
            ak_paid_fallback_quota_per_credit = ak_paid_fallback_quota_per_credit policy,
            ak_paid_fallback_max_exposure_microcredits = ak_paid_fallback_max_exposure_microcredits policy,
            ak_paid_fallback_pricing_checked_at_ms = ak_paid_fallback_pricing_checked_at_ms policy\<rparr>
      in (record,
          \<lparr>ah_id = kn_id identity, ah_expires_at_ms = cf_expiresAtMs changes, ah_revoked_at_ms = None,
           ah_usage_limit_requests = cf_usageLimitRequests changes, ah_usage_requests = 0, ah_usage_reset_at_ms = usageResetAtMs,
           ah_window_ms = cf_windowMs changes, ah_usage_quota_version = 3, ah_paid = paidFallbackHashFields record\<rparr>))"

text \<open>A revocation time of zero counts as not revoked, as in the source.\<close>

definition revoked :: "api_key_record \<Rightarrow> bool" where
  "revoked record = (case ak_revoked_at_ms record of None \<Rightarrow> False | Some n \<Rightarrow> n \<noteq> 0)"

definition buildApiKeyRevocationRecord :: "api_key_record \<Rightarrow> int \<Rightarrow> int \<Rightarrow> api_key_record" where
  "buildApiKeyRevocationRecord record expiresAtMs now =
     (if revoked record then record\<lparr>ak_expires_at_ms := expiresAtMs\<rparr>
      else record\<lparr>ak_expires_at_ms := expiresAtMs, ak_revoked_at_ms := Some now\<rparr>)"

definition buildApiKeyUnrevocationRecord :: "api_key_record \<Rightarrow> int \<Rightarrow> api_key_record" where
  "buildApiKeyUnrevocationRecord record expiresAtMs = record\<lparr>ak_expires_at_ms := expiresAtMs, ak_revoked_at_ms := None\<rparr>"

definition apiKeyRevokeAuditChanges :: "api_key_record \<Rightarrow> api_key_record \<Rightarrow> js" where
  "apiKeyRevokeAuditChanges record updated = JObj (
     changed_field (ak_revoked_at_ms updated \<noteq> ak_revoked_at_ms record) ''revoked_at_ms'' (opt_js jint (ak_revoked_at_ms updated)) @
     changed_field (ak_expires_at_ms updated \<noteq> ak_expires_at_ms record) ''expires_at_ms'' (jint (ak_expires_at_ms updated)))"

datatype unrevoke_decision = UnrevokeBlocked | UnrevokeUnchanged | UnrevokeWrite

definition apiKeyUnrevokeDecision :: "api_key_record \<Rightarrow> js \<Rightarrow> unrevoke_decision" where
  "apiKeyUnrevokeDecision record deletionGuard =
     (if truthy deletionGuard then UnrevokeBlocked else if \<not> revoked record then UnrevokeUnchanged else UnrevokeWrite)"

datatype delete_decision = RequiresRevocation | DeleteKey

definition apiKeyDeleteDecision :: "api_key_record \<Rightarrow> delete_decision" where
  "apiKeyDeleteDecision record = (if \<not> revoked record then RequiresRevocation else DeleteKey)"

end
