(* ===== verification/Native_Api.thy ===== *)
theory Native_Api
  imports Api_Key_Policy
begin

text \<open>
  The API key operations of the native authority (\<^verbatim>\<open>NativeAuthorityApi\<close> in
  \<^verbatim>\<open>src/src/authority/native-authority-api.ts\<close>, with \<^verbatim>\<open>currentKeyPolicy\<close> of
  \<^verbatim>\<open>native-authority-sql.ts\<close>): reserve, dispatch, transport start, release, cancellation, status, and
  the key-wide reset and deletion, as transactions on the rows. A request row carries the policy it was
  admitted under; the model reads that policy back field by field and fails where a field does not have
  its declared type.
\<close>

section \<open>Layout\<close>

definition reply_at :: "string \<Rightarrow> js \<Rightarrow> js \<Rightarrow> native_reply" where
  "reply_at kind handle detail = (reply kind detail)\<lparr>rp_handle := handle\<rparr>"

fun usage_state_text :: "usage_state \<Rightarrow> string" where
  "usage_state_text UsageReserved = ''reserved''"
| "usage_state_text UsageDispatched = ''dispatched''"
| "usage_state_text UsageReleased = ''released''"

fun provider_text :: "usage_provider \<Rightarrow> string" where
  "provider_text Cerebras = ''cerebras''"
| "provider_text Chatgpt_codex = ''chatgpt_codex''"
| "provider_text Claude_code = ''claude_code''"
| "provider_text Deepseek = ''deepseek''"
| "provider_text Lithos = ''lithos''"
| "provider_text Openrouter = ''openrouter''"
| "provider_text Removed_provider = ''removed_provider''"
| "provider_text Metered = ''metered''"
| "provider_text Surplus = ''surplus''"
| "provider_text Voyage = ''voyage''"

definition usage_window_js :: "usage_window \<Rightarrow> js" where
  "usage_window_js w = JObj [(''v'', jint 3), (''key_id'', JStr (uw_key_id w)), (''policy_version'', JStr (uw_policy_version w)),
     (''window_start_ms'', jint (uw_window_start_ms w)), (''window_reset_at_ms'', jint (uw_window_reset_at_ms w)),
     (''committed_requests'', jint (uw_committed_requests w)), (''reserved_requests'', jint (uw_reserved_requests w)),
     (''updated_at_ms'', jint (uw_updated_at_ms w))]"

definition usage_request_js :: "usage_request \<Rightarrow> js" where
  "usage_request_js r = JObj [(''v'', jint 3), (''key_id'', JStr (ur_key_id r)), (''request_id'', JStr (ur_request_id r)),
     (''route'', JStr (ur_route r)), (''state'', JStr (usage_state_text (ur_state r))),
     (''reserved_at_ms'', jint (ur_reserved_at_ms r)), (''lease_expires_at_ms'', jint (ur_lease_expires_at_ms r)),
     (''provider'', opt_js (\<lambda>p. JStr (provider_text p)) (ur_provider r)), (''dispatched_at_ms'', opt_js jint (ur_dispatched_at_ms r)),
     (''released_at_ms'', opt_js jint (ur_released_at_ms r)), (''release_reason'', opt_js JStr (ur_release_reason r))]"

definition api_policy_js :: "api_key_policy \<Rightarrow> js" where
  "api_policy_js p = JObj [(''token_hash'', JStr (ap_token_hash p)), (''key_id'', JStr (ap_key_id p)),
     (''expires_at_ms'', jint (ap_expires_at_ms p)), (''usage_limit_requests'', jint (ap_usage_limit_requests p)),
     (''window_ms'', jint (ap_window_ms p)), (''window_start_ms'', jint (ap_window_start_ms p)),
     (''usage_reset_at_ms'', jint (ap_usage_reset_at_ms p)), (''policy_version'', JStr (ap_policy_version p)),
     (''paid_fallback_enabled'', JBool (ap_paid_fallback_enabled p)),
     (''paid_fallback_limit_microcredits'', jint (ap_paid_fallback_limit_microcredits p)),
     (''paid_fallback_spent_microcredits'', jint (ap_paid_fallback_spent_microcredits p)),
     (''paid_fallback_reserved_microcredits'', jint (ap_paid_fallback_reserved_microcredits p)),
     (''paid_fallback_reservation_request_id'', opt_js JStr (ap_paid_fallback_reservation_request_id p))]"

definition api_policy_of_js :: "js \<Rightarrow> native_error + api_key_policy" where
  "api_policy_of_js v =
     rbind (typed (js_text (js_get v ''token_hash''))) (\<lambda>tokenHash.
     rbind (typed (js_text (js_get v ''key_id''))) (\<lambda>keyId.
     rbind (typed (js_int (js_get v ''expires_at_ms''))) (\<lambda>expires.
     rbind (typed (js_int (js_get v ''usage_limit_requests''))) (\<lambda>limit.
     rbind (typed (js_int (js_get v ''window_ms''))) (\<lambda>windowMs.
     rbind (typed (js_int (js_get v ''window_start_ms''))) (\<lambda>start.
     rbind (typed (js_int (js_get v ''usage_reset_at_ms''))) (\<lambda>reset.
     rbind (typed (js_text (js_get v ''policy_version''))) (\<lambda>version.
     rbind (typed (js_bool (js_get v ''paid_fallback_enabled''))) (\<lambda>enabled.
     rbind (typed (js_int (js_get v ''paid_fallback_limit_microcredits''))) (\<lambda>paidLimit.
     rbind (typed (js_int (js_get v ''paid_fallback_spent_microcredits''))) (\<lambda>spent.
     rbind (typed (js_int (js_get v ''paid_fallback_reserved_microcredits''))) (\<lambda>reserved.
     rbind (typed (opt_of_js js_text (js_get v ''paid_fallback_reservation_request_id''))) (\<lambda>reservation.
     Inr \<lparr>ap_token_hash = tokenHash, ap_key_id = keyId, ap_expires_at_ms = expires, ap_usage_limit_requests = limit,
         ap_window_ms = windowMs, ap_window_start_ms = start, ap_usage_reset_at_ms = reset, ap_policy_version = version,
         ap_paid_fallback_enabled = enabled, ap_paid_fallback_limit_microcredits = paidLimit,
         ap_paid_fallback_spent_microcredits = spent, ap_paid_fallback_reserved_microcredits = reserved,
         ap_paid_fallback_reservation_request_id = reservation\<rparr>)))))))))))))"

section \<open>Keys and snapshots\<close>

definition windowKey :: "api_key_policy \<Rightarrow> kv_key" where
  "windowKey p = [KText ''uos_ai'', KText ''api_key_usage'', KText ''v3'', KText ''window'', KText (ap_key_id p),
     KText (ap_policy_version p), KNum (ap_window_start_ms p)]"

definition requestKey :: "api_key_policy \<Rightarrow> string \<Rightarrow> kv_key" where
  "requestKey p requestId = [KText ''uos_ai'', KText ''api_key_usage'', KText ''v3'', KText ''request'', KText (ap_key_id p),
     KText (ap_policy_version p), KNum (ap_window_start_ms p), KText requestId]"

definition api_validated :: "native_capability \<Rightarrow> string \<Rightarrow> int \<Rightarrow> js native" where
  "api_validated cap handle now =
     nbind (api_request cap handle now) (\<lambda>row.
     nbind (nensure (truthy (js_get row ''metadataBound'') \<and> js_get row ''model'' \<noteq> JNull \<and> js_get row ''stream'' \<noteq> JNull)
             (NativeAuthorityError ''validated_metadata_missing'' 409)) (\<lambda>_.
     nreturn row))"

definition read_snapshot :: "api_key_policy \<Rightarrow> string \<Rightarrow> int \<Rightarrow> usage_snapshot native" where
  "read_snapshot policy requestId now =
     nbind (sql_read Api_request (requestKey policy requestId) now) (\<lambda>r.
     nbind (sql_read Api_window (windowKey policy) now) (\<lambda>w.
     nreturn \<lparr>us_request = nr_value r, us_window = nr_value w\<rparr>))"

text \<open>The policy a request row was admitted under, when it has one, with the row's request id and route.\<close>

definition row_policy :: "js \<Rightarrow> api_key_policy option native" where
  "row_policy row =
     (if truthy (js_get row ''api'') then nbind (nlift (api_policy_of_js (js_get row ''api''))) (\<lambda>p. nreturn (Some p)) else nreturn None)"

definition row_text :: "js \<Rightarrow> string \<Rightarrow> string native" where
  "row_text row k = nlift (typed (js_text (js_get row k)))"

definition api_snapshot :: "js \<Rightarrow> int \<Rightarrow> usage_snapshot native" where
  "api_snapshot row now =
     nbind (row_policy row) (\<lambda>policy.
     case policy of
       None \<Rightarrow> nreturn \<lparr>us_request = JNull, us_window = JNull\<rparr>
     | Some p \<Rightarrow> nbind (row_text row ''requestId'') (\<lambda>requestId. read_snapshot p requestId now))"

definition api_write :: "api_key_policy \<Rightarrow> usage_write_plan \<Rightarrow> int \<Rightarrow> unit native" where
  "api_write policy plan now =
     nbind (sql_write Api_request (requestKey policy (ur_request_id (wp_request plan))) (usage_request_js (wp_request plan))
              (Some (now + wp_expireIn plan))
              \<lparr>ix_scope = Some (ap_key_id policy), ix_parent = Some (nativeKey (windowKey policy)), ix_due = None\<rparr>) (\<lambda>_.
     sql_write Api_window (windowKey policy) (usage_window_js (wp_window plan)) (Some (now + wp_expireIn plan))
       \<lparr>ix_scope = Some (ap_key_id policy), ix_parent = None, ix_due = None\<rparr>)"

section \<open>Reclaim\<close>

definition reclaim_entry :: "api_key_policy \<Rightarrow> int \<Rightarrow> native_page_entry \<Rightarrow> unit native" where
  "reclaim_entry policy now e =
     nbind (nlift (require (normalizeApiKeyUsageRequestV3 (nr_value (pe_row e))) (NativeAuthorityError ''request_malformed'' 503))) (\<lambda>row.
     if isApiKeyUsageReservationExpired row now
     then nbind (sql_read Api_window (windowKey policy) now) (\<lambda>w.
          case planApiKeyUsageReservedRelease policy (ur_request_id row) ''reservation_lease_expired''
                 \<lparr>us_request = usage_request_js row, us_window = nr_value w\<rparr> now None of
            ULWrite plan \<Rightarrow> api_write policy plan now
          | _ \<Rightarrow> nreturn ())
     else nreturn ())"

fun each_entry :: "('a \<Rightarrow> unit native) \<Rightarrow> 'a list \<Rightarrow> unit native" where
  "each_entry f [] = nreturn ()"
| "each_entry f (e # es) = nbind (f e) (\<lambda>_. each_entry f es)"

text \<open>The page loops take fuel; one turn more than the table has rows is enough.\<close>

fun api_reclaim_pages :: "nat \<Rightarrow> api_key_policy \<Rightarrow> int \<Rightarrow> string \<Rightarrow> unit native" where
  "api_reclaim_pages 0 policy now after = nfail (NativeFailure ''page loop did not end'')"
| "api_reclaim_pages (Suc fuel) policy now after =
     nbind (sql_page Api_request now after 100 None (Some (nativeKey (windowKey policy)))) (\<lambda>page.
     nbind (each_entry (reclaim_entry policy now) page) (\<lambda>_.
     if length page < 100 then nreturn () else api_reclaim_pages fuel policy now (pe_encoded (last page))))"

definition api_reclaim :: "api_key_policy \<Rightarrow> int \<Rightarrow> unit native" where
  "api_reclaim policy now s = api_reclaim_pages (Suc (length (sq_rows s Api_request))) policy now [] s"

section \<open>Admission\<close>

definition ownsReservation :: "js \<Rightarrow> api_key_policy \<Rightarrow> string \<Rightarrow> int \<Rightarrow> bool native" where
  "ownsReservation row policy requestId now =
     nbind (sql_page Request_lifetime now [] 2 None (Some (nativeKey (requestKey policy requestId)))) (\<lambda>owners.
     nreturn (case owners of
       [e] \<Rightarrow> list_all (\<lambda>k. js_get (nr_value (pe_row e)) k = js_get row k) [''handle'', ''runtimeBindingId'', ''principalId'', ''keyId'']
     | _ \<Rightarrow> False))"

definition currentKeyPolicy :: "string \<Rightarrow> string \<Rightarrow> int \<Rightarrow> (js \<times> api_key_policy) option native" where
  "currentKeyPolicy tokenHash keyId now =
     nbind (sql_read Api_policy (apiKeyHashKey tokenHash) now) (\<lambda>source.
     if nr_value source = JNull then nreturn None
     else
     nbind (nlift (typed (js_entries (js_get (nr_value source) ''api'')))) (\<lambda>_.
     if js_get (js_get (nr_value source) ''api'') ''key_id'' \<noteq> JStr keyId then nreturn None
     else
     nbind (sql_read Api_key_hash (apiKeyHashKey tokenHash) now) (\<lambda>rd.
     let raw = nr_value rd in
     if js_get raw ''id'' \<noteq> JStr keyId \<or> js_get raw ''revoked_at_ms'' \<noteq> JNull \<or> \<not> hasStrictPaidFallbackPolicy raw then nreturn None
     else
     nbind (nlift (apiKeyPolicyFromHashRecord tokenHash raw now)) (\<lambda>api.
     case api of
       None \<Rightarrow> nreturn None
     | Some p \<Rightarrow>
         nbind (nlift (typed (js_int (js_get raw ''usage_reset_at_ms'')))) (\<lambda>resetAt.
         nreturn (Some (nr_value source,
           p\<lparr>ap_window_start_ms := resetAt - ap_window_ms p, ap_usage_reset_at_ms := resetAt\<rparr>)))))))"

definition unavailable_text :: "unavailable_reason \<Rightarrow> string" where
  "unavailable_text r = (case r of RequestMalformed \<Rightarrow> ''request_malformed'' | IdentityConflict \<Rightarrow> ''identity_conflict''
     | IdentityConsumed \<Rightarrow> ''identity_consumed'' | WindowMalformed \<Rightarrow> ''window_malformed'')"

definition refused_plan :: "usage_reservation_plan \<Rightarrow> native_reply" where
  "refused_plan plan = (case plan of
       URFull w \<Rightarrow> reply ''full'' (JObj [(''kind'', JStr ''full''), (''window'', usage_window_js w)])
     | URUnavailable r \<Rightarrow> reply ''unavailable'' (JObj [(''kind'', JStr ''unavailable''), (''reason'', JStr (unavailable_text r))])
     | URReuse \<Rightarrow> reply ''reuse'' (JObj [(''kind'', JStr ''reuse'')])
     | URWrite p \<Rightarrow> reply ''write'' JUndef)"

definition plan_reservation :: "api_key_policy \<Rightarrow> string \<Rightarrow> string \<Rightarrow> int \<Rightarrow> usage_reservation_plan native" where
  "plan_reservation policy requestId route now =
     nbind (read_snapshot policy requestId now) (\<lambda>snapshot.
     nreturn (planApiKeyUsageReservation policy requestId route snapshot now))"

definition reserve_usage :: "js \<Rightarrow> api_key_policy \<Rightarrow> string \<Rightarrow> string \<Rightarrow> int \<Rightarrow> native_reply native" where
  "reserve_usage row policy requestId route now =
     nbind (plan_reservation policy requestId route now) (\<lambda>first.
     nbind (case first of
              URFull w \<Rightarrow> nbind (api_reclaim policy now) (\<lambda>_. plan_reservation policy requestId route now)
            | _ \<Rightarrow> nreturn first) (\<lambda>plan.
     case plan of
       URWrite p \<Rightarrow>
         nbind (api_write policy p now) (\<lambda>_.
         nbind (api_save (js_with ''api'' (api_policy_js policy) row)) (\<lambda>_.
         nreturn (reply_at ''reserved'' (js_get row ''handle'') (JObj [(''policy'', api_policy_js policy)]))))
     | URReuse \<Rightarrow>
         nbind (ownsReservation row policy requestId now) (\<lambda>owns.
         if \<not> owns then nreturn (reply ''unavailable'' (JStr ''identity_conflict''))
         else
         nbind (api_save (js_with ''api'' (api_policy_js policy) row)) (\<lambda>_.
         nreturn (reply_at ''reuse'' (js_get row ''handle'') (JObj [(''policy'', api_policy_js policy)]))))
     | _ \<Rightarrow> nreturn (refused_plan plan)))"

definition policy_usable :: "js \<Rightarrow> api_key_policy \<Rightarrow> string \<Rightarrow> string \<Rightarrow> int \<Rightarrow> bool" where
  "policy_usable source policy keyId tokenHash now \<longleftrightarrow>
     ap_key_id policy = keyId \<and> ap_token_hash policy = tokenHash \<and> \<not> truthy (js_get source ''revoked'') \<and>
     \<not> (ap_expires_at_ms policy \<noteq> - 1 \<and> ap_expires_at_ms policy \<le> now)"

definition reserveApiUsage :: "native_capability \<Rightarrow> string \<Rightarrow> int \<Rightarrow> native_reply native" where
  "reserveApiUsage cap handle now =
     nbind (api_request cap handle now) (\<lambda>row.
     if \<not> truthy (js_get row ''apiApplicable'') then nreturn (reply_at ''not_applicable'' (js_get row ''handle'') JUndef)
     else
     case (nc_keyId cap, nc_tokenHash cap) of
       (Some keyId, Some tokenHash) \<Rightarrow>
         nbind (currentKeyPolicy tokenHash keyId now) (\<lambda>current.
         case current of
           None \<Rightarrow> nreturn (reply ''unauthorized'' JUndef)
         | Some (source, api) \<Rightarrow>
             if \<not> policy_usable source api keyId tokenHash now then nreturn (reply ''unauthorized'' JUndef)
             else
             nbind (nensure (\<not> (truthy (js_get row ''metadataBound'') \<and> \<not> truthy (js_get row ''api'')))
                     (NativeAuthorityError ''api_admission_phase_closed'' 409)) (\<lambda>_.
             let window = currentApiKeyUsageWindow (ap_usage_reset_at_ms api) (ap_window_ms api) now in
             nbind (row_policy row) (\<lambda>admitted.
             let policy = (case admitted of Some p \<Rightarrow> p
               | None \<Rightarrow> api\<lparr>ap_window_start_ms := fst window, ap_usage_reset_at_ms := snd window\<rparr>) in
             nbind (row_text row ''requestId'') (\<lambda>requestId.
             nbind (row_text row ''route'') (\<lambda>route.
             reserve_usage row policy requestId route now)))))
     | _ \<Rightarrow> nreturn (reply ''unauthorized'' JUndef))"

section \<open>Dispatch, transport and compensation\<close>

definition dispatch_js :: "usage_provider \<Rightarrow> bool \<Rightarrow> bool \<Rightarrow> js" where
  "dispatch_js provider owned started =
     JObj [(''provider'', JStr (provider_text provider)), (''cancellationOwned'', JBool owned), (''fetchStarted'', JBool started)]"

definition markApiDispatch :: "native_capability \<Rightarrow> string \<Rightarrow> usage_provider \<Rightarrow> int \<Rightarrow> native_reply native" where
  "markApiDispatch cap handle provider now =
     nbind (api_request cap handle now) (\<lambda>row.
     nbind (row_policy row) (\<lambda>policy.
     case policy of
       None \<Rightarrow>
         if truthy (js_get row ''dispatch'') then nreturn (reply ''unchanged'' JUndef)
         else nbind (api_save (js_with ''dispatch'' (dispatch_js provider True False) row)) (\<lambda>_. nreturn (reply ''dispatched'' JUndef))
     | Some p \<Rightarrow>
         nbind (row_text row ''requestId'') (\<lambda>requestId.
         nbind (row_text row ''route'') (\<lambda>route.
         nbind (api_snapshot row now) (\<lambda>snapshot.
         case planApiKeyUsageDispatch p requestId route provider snapshot now of
           UDWrite plan \<Rightarrow>
             nbind (api_write p plan now) (\<lambda>_.
             nbind (api_save (js_with ''dispatch'' (dispatch_js provider True False) row)) (\<lambda>_.
             nreturn (reply ''dispatched'' JUndef)))
         | UDAlready \<Rightarrow> nreturn (reply ''already_dispatched'' JUndef)
         | UDInvalid \<Rightarrow> nreturn (reply ''invalid'' JUndef))))))"

definition compensationSafe :: "js \<Rightarrow> bool" where
  "compensationSafe row \<longleftrightarrow>
     \<not> truthy (js_get row ''transport'') \<and> \<not> truthy (js_get row ''responding'') \<and> \<not> truthy (js_get row ''providerObserved'') \<and>
     js_get row ''semantic'' = JNull \<and> (js_get row ''delivery'' = JNull \<or> js_get row ''delivery'' = JStr ''unobserved'')"

definition assertDispatchReceipt :: "native_capability \<Rightarrow> string \<Rightarrow> int \<Rightarrow> unit native" where
  "assertDispatchReceipt cap handle now =
     nbind (api_request cap handle now) (\<lambda>row.
     nbind (api_snapshot row now) (\<lambda>snapshot.
     nensure (\<not> (truthy (js_get row ''api'') \<and>
                 map_option ur_state (normalizeApiKeyUsageRequestV3 (us_request snapshot)) \<noteq> Some UsageDispatched) \<and>
              truthy (js_get (js_get row ''dispatch'') ''cancellationOwned''))
       (NativeAuthorityError ''api_dispatch_receipt_stale'' 409)))"

definition assertTransportReceipt :: "native_capability \<Rightarrow> string \<Rightarrow> string \<Rightarrow> int \<Rightarrow> unit native" where
  "assertTransportReceipt cap handle operationId now =
     nbind (assertDispatchReceipt cap handle now) (\<lambda>_.
     nbind (api_request cap handle now) (\<lambda>row.
     nensure (js_get (js_get row ''transport'') ''operationId'' = JStr operationId \<and> js_get row ''semantic'' = JNull)
       (NativeAuthorityError ''transport_start_receipt_stale'' 409)))"

definition responding_js :: "usage_provider \<Rightarrow> string option \<Rightarrow> (string \<times> js) list" where
  "responding_js provider attempt = [(''provider'', JStr (provider_text provider)), (''attemptHandle'', opt_js JStr attempt)]"

definition recordTransportStart ::
  "native_capability \<Rightarrow> string \<Rightarrow> usage_provider \<Rightarrow> string option \<Rightarrow> string \<Rightarrow> int \<Rightarrow> native_reply native" where
  "recordTransportStart cap handle provider attempt operationId now =
     nbind (api_request cap handle now) (\<lambda>row.
     nbind (assertDispatchReceipt cap handle now) (\<lambda>_.
     nbind (nensure (js_get row ''semantic'' = JNull) (NativeAuthorityError ''request_already_terminal'' 409)) (\<lambda>_.
     if js_get (js_get row ''transport'') ''provider'' = JStr (provider_text provider) \<and>
        js_get (js_get row ''transport'') ''attemptHandle'' = opt_js JStr attempt
     then nreturn (reply ''unchanged'' (JObj (responding_js provider attempt)))
     else
     nbind (nensure (truthy (js_get row ''dispatch'')) (NativeAuthorityError ''api_dispatch_missing'' 409)) (\<lambda>_.
     nbind (api_save (js_with ''responding'' (JObj (responding_js provider attempt))
              (js_with ''transport'' (JObj (responding_js provider attempt @ [(''operationId'', JStr operationId), (''startedAtMs'', jint now)]))
                (js_with ''dispatch'' (js_with ''fetchStarted'' (JBool True) (js_get row ''dispatch'')) row)))) (\<lambda>_.
     nreturn (reply ''started'' (JObj (responding_js provider attempt))))))))"

definition release_reply :: "usage_release_plan \<Rightarrow> native_reply" where
  "release_reply plan = (case plan of ULMissing \<Rightarrow> reply ''missing'' JUndef | ULInvalid \<Rightarrow> reply ''invalid'' JUndef
     | ULSettled \<Rightarrow> reply ''settled'' JUndef | ULWrite p \<Rightarrow> reply ''released'' JUndef)"

definition releaseApiUndispatched :: "native_capability \<Rightarrow> string \<Rightarrow> string \<Rightarrow> int \<Rightarrow> native_reply native" where
  "releaseApiUndispatched cap handle reason now =
     nbind (api_request cap handle now) (\<lambda>row.
     nbind (nensure (compensationSafe row) (NativeAuthorityError ''prefetch_compensation_closed'' 409)) (\<lambda>_.
     nbind (row_policy row) (\<lambda>policy.
     case policy of
       None \<Rightarrow> nreturn (reply ''not_applicable'' JUndef)
     | Some p \<Rightarrow>
         nbind (row_text row ''requestId'') (\<lambda>requestId.
         nbind (row_text row ''route'') (\<lambda>route.
         nbind (api_snapshot row now) (\<lambda>snapshot.
         let plan = planApiKeyUsageReservedRelease p requestId reason snapshot now (Some route) in
         nbind (case plan of ULWrite w \<Rightarrow> api_write p w now | _ \<Rightarrow> nreturn ()) (\<lambda>_.
         nreturn (release_reply plan))))))))"

definition provider_of_row :: "js \<Rightarrow> usage_provider native" where
  "provider_of_row v = nlift (typed (usage_provider_of v))"

definition recordApiDispatchCancellation :: "native_capability \<Rightarrow> string \<Rightarrow> int \<Rightarrow> native_reply native" where
  "recordApiDispatchCancellation cap handle now =
     nbind (api_request cap handle now) (\<lambda>row.
     let dispatch = js_get row ''dispatch''; disowned = js_with ''dispatch'' (js_with ''cancellationOwned'' (JBool False) dispatch) row in
     nbind (nensure (truthy (js_get dispatch ''cancellationOwned'') \<and> \<not> truthy (js_get dispatch ''fetchStarted'') \<and> compensationSafe row)
             (NativeAuthorityError ''prefetch_cancellation_not_owned'' 409)) (\<lambda>_.
     nbind (row_policy row) (\<lambda>policy.
     case policy of
       None \<Rightarrow> nbind (api_save disowned) (\<lambda>_. nreturn (reply ''released'' JUndef))
     | Some p \<Rightarrow>
         nbind (row_text row ''requestId'') (\<lambda>requestId.
         nbind (row_text row ''route'') (\<lambda>route.
         nbind (provider_of_row (js_get dispatch ''provider'')) (\<lambda>provider.
         nbind (api_snapshot row now) (\<lambda>snapshot.
         case planApiKeyUsageDispatchCancellation p requestId route provider snapshot now of
           ULWrite w \<Rightarrow>
             nbind (api_write p w now) (\<lambda>_.
             nbind (api_save disowned) (\<lambda>_.
             nreturn (reply ''released'' JUndef)))
         | plan \<Rightarrow> nreturn (release_reply plan))))))))"

definition api_status :: "native_capability \<Rightarrow> string \<Rightarrow> int \<Rightarrow> native_reply native" where
  "api_status cap handle now =
     nbind (api_request cap handle now) (\<lambda>row.
     nbind (api_snapshot row now) (\<lambda>snapshot.
     nreturn (reply_at ''status'' (JStr handle) (JObj [(''api'', us_request snapshot)]))))"

definition api_usage :: "api_key_policy \<Rightarrow> int \<Rightarrow> int native" where
  "api_usage policy now =
     nbind (sql_read Api_window (windowKey policy) now) (\<lambda>w.
     nreturn (case matchingApiKeyUsageWindowV3 (nr_value w) policy of None \<Rightarrow> 0 | Some w \<Rightarrow> uw_committed_requests w))"

definition createWindow :: "api_key_policy \<Rightarrow> int \<Rightarrow> unit native" where
  "createWindow policy now =
     nbind (sql_read Api_window (windowKey policy) now) (\<lambda>w.
     nbind (nensure (nr_value w = JNull) (NativeAuthorityError ''api_window_identity_conflict'' 409)) (\<lambda>_.
     let window = makeApiKeyUsageWindowV3 policy now in
     sql_write Api_window (windowKey policy) (usage_window_js window)
       (Some (now + apiKeyUsageV3RetentionMs (uw_window_reset_at_ms window) now))
       \<lparr>ix_scope = Some (ap_key_id policy), ix_parent = None, ix_due = None\<rparr>))"

section \<open>Key-wide administration\<close>

definition reset_unavailable :: native_error where
  "reset_unavailable = NativeAuthorityError ''API key quota ledger is unavailable'' 503"

definition resetReservation :: "string \<Rightarrow> string \<Rightarrow> js \<Rightarrow> int \<Rightarrow> bool native" where
  "resetReservation keyId encoded value now =
     nbind (nlift (require (normalizeApiKeyUsageRequestV3 value) reset_unavailable)) (\<lambda>row.
     nbind (nensure (ur_key_id row = keyId) reset_unavailable) (\<lambda>_.
     if ur_state row \<noteq> UsageReserved then nreturn False
     else
     nbind (sql_page Request_lifetime now [] 2 None (Some encoded)) (\<lambda>lifetimes.
     case lifetimes of
       [e] \<Rightarrow>
         let lifetime = nr_value (pe_row e) in
         nbind (nensure (truthy (js_get lifetime ''api'')) (NativeAuthorityError ''api_reset_original_identity_missing'' 503)) (\<lambda>_.
         nbind (nlift (api_policy_of_js (js_get lifetime ''api''))) (\<lambda>policy.
         nbind (row_text lifetime ''requestId'') (\<lambda>requestId.
         nbind (nensure (nativeKey (requestKey policy requestId) = encoded \<and> js_get lifetime ''keyId'' = JStr keyId)
                 (NativeAuthorityError ''api_reset_original_identity_missing'' 503)) (\<lambda>_.
         if \<not> isApiKeyUsageReservationExpired row now then nreturn True
         else
         nbind (sql_read Api_window (windowKey policy) now) (\<lambda>w.
         nbind (row_text lifetime ''route'') (\<lambda>route.
         case planApiKeyUsageReservedRelease policy (ur_request_id row) ''reservation_lease_expired''
                \<lparr>us_request = usage_request_js row, us_window = nr_value w\<rparr> now (Some route) of
           ULWrite plan \<Rightarrow> nbind (api_write policy plan now) (\<lambda>_. nreturn False)
         | _ \<Rightarrow> nfail reset_unavailable))))))
     | _ \<Rightarrow> nfail (NativeAuthorityError ''api_reset_original_identity_missing'' 503))))"

fun inspect_entries :: "string \<Rightarrow> int \<Rightarrow> native_page_entry list \<Rightarrow> bool native" where
  "inspect_entries keyId now [] = nreturn False"
| "inspect_entries keyId now (e # es) =
     nbind (resetReservation keyId (pe_encoded e) (nr_value (pe_row e)) now) (\<lambda>reserved.
     nbind (inspect_entries keyId now es) (\<lambda>live. nreturn (reserved \<or> live)))"

fun inspect_pages :: "nat \<Rightarrow> string \<Rightarrow> int \<Rightarrow> string \<Rightarrow> bool native" where
  "inspect_pages 0 keyId now after = nfail (NativeFailure ''page loop did not end'')"
| "inspect_pages (Suc fuel) keyId now after =
     nbind (sql_page Api_request now after 100 (Some keyId) None) (\<lambda>page.
     nbind (inspect_entries keyId now page) (\<lambda>live.
     if length page < 100 then nreturn live
     else nbind (inspect_pages fuel keyId now (pe_encoded (last page))) (\<lambda>more. nreturn (live \<or> more))))"

definition inspectKeyReset :: "string \<Rightarrow> int \<Rightarrow> bool native" where
  "inspectKeyReset keyId now s = inspect_pages (Suc (length (sq_rows s Api_request))) keyId now [] s"

fun delete_pages :: "nat \<Rightarrow> native_table \<Rightarrow> string \<Rightarrow> int \<Rightarrow> unit native" where
  "delete_pages 0 t keyId now = nfail (NativeFailure ''page loop did not end'')"
| "delete_pages (Suc fuel) t keyId now =
     nbind (sql_page t now [] 100 (Some keyId) None) (\<lambda>page.
     nbind (each_entry (\<lambda>e. sql_delete t (pe_key e)) page) (\<lambda>_.
     if length page < 100 then nreturn () else delete_pages fuel t keyId now))"

definition delete_table :: "string \<Rightarrow> int \<Rightarrow> native_table \<Rightarrow> unit native" where
  "delete_table keyId now t s = delete_pages (Suc (length (sq_rows s t))) t keyId now s"

definition deleteForKey :: "string \<Rightarrow> int \<Rightarrow> unit native" where
  "deleteForKey keyId now = each_entry (delete_table keyId now) [Api_request, Api_window, Principal_resolution]"

end
