(* ===== verification/Usage_Ledger.thy ===== *)
theory Usage_Ledger
  imports Native_Api Share_Ledger
begin

text \<open>
  The request quota of an API key without its storage: the usage windows, the request rows with the
  window each belongs to, and the steps that the plans of \<^verbatim>\<open>native-api-key.ts\<close> take on them. A step
  shows the plan the rows as they are stored and applies what the plan writes. The invariant is that a
  window's counters are the numbers of its dispatched and of its reserved rows.
\<close>

section \<open>Rows that can be stored\<close>

definition usage_window_ok :: "usage_window \<Rightarrow> bool" where
  "usage_window_ok w \<longleftrightarrow> uw_key_id w \<noteq> [] \<and> uw_policy_version w \<noteq> [] \<and>
     safe_nonneg (uw_window_start_ms w) \<and> safe_nonneg (uw_window_reset_at_ms w) \<and> uw_window_start_ms w < uw_window_reset_at_ms w \<and>
     safe_nonneg (uw_committed_requests w) \<and> safe_nonneg (uw_reserved_requests w) \<and> safe_nonneg (uw_updated_at_ms w)"

definition usage_request_ok :: "usage_request \<Rightarrow> bool" where
  "usage_request_ok r \<longleftrightarrow> ur_key_id r \<noteq> [] \<and> ur_request_id r \<noteq> [] \<and> ur_route r \<noteq> [] \<and>
     safe_nonneg (ur_reserved_at_ms r) \<and> safe_nonneg (ur_lease_expires_at_ms r) \<and>
     pred_option safe_nonneg (ur_dispatched_at_ms r) \<and> pred_option safe_nonneg (ur_released_at_ms r) \<and> request_consistent r"

lemma usage_window_read_back: "usage_window_ok w \<Longrightarrow> normalizeApiKeyUsageWindowV3 (usage_window_js w) = Some w"
  by (cases w) (simp add: normalizeApiKeyUsageWindowV3_def usage_window_js_def usage_window_ok_def)

lemma provider_read_back [simp]: "usage_provider_of (JStr (provider_text p)) = Some p"
  by (cases p) (simp_all add: usage_provider_of_def API_KEY_USAGE_PROVIDERS_def)

lemma opt_provider [simp]: "opt_of_js usage_provider_of (opt_js (\<lambda>p. JStr (provider_text p)) x) = Some x"
  by (cases x) (simp_all add: opt_of_js_def opt_js_def)

lemma usage_state_read_back [simp]: "usage_state_of (JStr (usage_state_text st)) = Some st"
  by (cases st) (simp_all add: usage_state_of_def)

lemma usage_request_read_back: "usage_request_ok r \<Longrightarrow> normalizeApiKeyUsageRequestV3 (usage_request_js r) = Some r"
  by (cases r) (simp add: normalizeApiKeyUsageRequestV3_def usage_request_js_def usage_request_ok_def Let_def)

section \<open>The ledger\<close>

type_synonym usage_ident = "string \<times> string \<times> int"

definition usage_ident_of :: "api_key_policy \<Rightarrow> usage_ident" where
  "usage_ident_of p = (ap_key_id p, ap_policy_version p, ap_window_start_ms p)"

record usage_ledger =
  ul_windows :: "usage_ident \<rightharpoonup> usage_window"
  ul_rows :: "(usage_ident \<times> usage_request) dict"

datatype usage_counter = CommittedRequests | ReservedUsage

fun usage_counter_of :: "usage_counter \<Rightarrow> usage_window \<Rightarrow> int" where
  "usage_counter_of CommittedRequests w = uw_committed_requests w"
| "usage_counter_of ReservedUsage w = uw_reserved_requests w"

fun usage_share :: "usage_counter \<Rightarrow> usage_ident \<times> usage_request \<Rightarrow> int" where
  "usage_share CommittedRequests r = of_bool (ur_state (snd r) = UsageDispatched)"
| "usage_share ReservedUsage r = of_bool (ur_state (snd r) = UsageReserved)"

interpretation usage_shares: share_ledger usage_counter_of usage_share fst "\<lambda>_. True"
proof
  fix f and r :: "usage_ident \<times> usage_request"
  show "0 \<le> usage_share f r" by (cases f) simp_all
qed

definition ident_slot :: "usage_ident \<Rightarrow> string \<Rightarrow> string" where
  "ident_slot i requestId = nativeKey [KText ''uos_ai'', KText ''api_key_usage'', KText ''v3'', KText ''request'', KText (fst i),
     KText (fst (snd i)), KNum (snd (snd i)), KText requestId]"

definition row_slot :: "api_key_policy \<Rightarrow> string \<Rightarrow> string" where
  "row_slot p requestId = nativeKey (requestKey p requestId)"

lemma row_slot_ident: "row_slot p requestId = ident_slot (usage_ident_of p) requestId"
  by (simp add: row_slot_def ident_slot_def requestKey_def usage_ident_of_def)

lemma ident_slot_inj:
  assumes "is_safe_integer (snd (snd i))" and "is_safe_integer (snd (snd j))" and "ident_slot i r = ident_slot j t"
  shows "i = j \<and> r = t"
  using nativeKey_inj [OF _ _ assms(3) [unfolded ident_slot_def]] assms(1,2) by (simp add: key_ok_def prod_eq_iff)

definition snapshot_of :: "usage_ledger \<Rightarrow> api_key_policy \<Rightarrow> string \<Rightarrow> usage_snapshot" where
  "snapshot_of l p requestId =
     \<lparr>us_request = (case map_of (ul_rows l) (row_slot p requestId) of None \<Rightarrow> JNull | Some r \<Rightarrow> usage_request_js (snd r)),
      us_window = (case ul_windows l (usage_ident_of p) of None \<Rightarrow> JNull | Some w \<Rightarrow> usage_window_js w)\<rparr>"

definition apply_plan :: "api_key_policy \<Rightarrow> usage_write_plan \<Rightarrow> usage_ledger \<Rightarrow> usage_ledger" where
  "apply_plan p plan l = l\<lparr>ul_windows := (ul_windows l)(usage_ident_of p \<mapsto> wp_window plan),
     ul_rows := put (row_slot p (ur_request_id (wp_request plan))) (usage_ident_of p, wp_request plan) (ul_rows l)\<rparr>"

text \<open>
  A policy can be used when its key and version are not empty and its window has safe bounds; a time
  when the clock and the lease that starts at it are safe integers. The step relation is indexed by the
  policies that requests are admitted under.
\<close>

definition usage_policy_ok :: "api_key_policy \<Rightarrow> bool" where
  "usage_policy_ok p \<longleftrightarrow> ap_key_id p \<noteq> [] \<and> ap_policy_version p \<noteq> [] \<and> safe_nonneg (ap_window_start_ms p) \<and>
     safe_nonneg (ap_usage_reset_at_ms p) \<and> ap_window_start_ms p < ap_usage_reset_at_ms p"

definition usage_clock_ok :: "int \<Rightarrow> bool" where
  "usage_clock_ok now \<longleftrightarrow> 0 \<le> now \<and> now + API_KEY_USAGE_V3_RESERVATION_LEASE_MS \<le> max_safe_integer"

inductive usage_step :: "(api_key_policy \<Rightarrow> bool) \<Rightarrow> usage_ledger \<Rightarrow> usage_ledger \<Rightarrow> bool" for admits where
  U_open: "admits p \<Longrightarrow> usage_policy_ok p \<Longrightarrow> usage_clock_ok now \<Longrightarrow> ul_windows l (usage_ident_of p) = None \<Longrightarrow>
    usage_step admits l (l\<lparr>ul_windows := (ul_windows l)(usage_ident_of p \<mapsto> makeApiKeyUsageWindowV3 p now)\<rparr>)"
| U_reserve: "admits p \<Longrightarrow> usage_policy_ok p \<Longrightarrow> usage_clock_ok now \<Longrightarrow> requestId \<noteq> [] \<Longrightarrow> route \<noteq> [] \<Longrightarrow>
    int (length (ul_rows l)) < max_safe_integer \<Longrightarrow>
    planApiKeyUsageReservation p requestId route (snapshot_of l p requestId) now = URWrite plan \<Longrightarrow>
    usage_step admits l (apply_plan p plan l)"
| U_dispatch: "admits p \<Longrightarrow> usage_policy_ok p \<Longrightarrow> usage_clock_ok now \<Longrightarrow>
    planApiKeyUsageDispatch p requestId route provider (snapshot_of l p requestId) now = UDWrite plan \<Longrightarrow>
    usage_step admits l (apply_plan p plan l)"
| U_release: "admits p \<Longrightarrow> usage_policy_ok p \<Longrightarrow> usage_clock_ok now \<Longrightarrow>
    planApiKeyUsageReservedRelease p requestId reason (snapshot_of l p requestId) now expected = ULWrite plan \<Longrightarrow>
    usage_step admits l (apply_plan p plan l)"
| U_cancel: "admits p \<Longrightarrow> usage_policy_ok p \<Longrightarrow> usage_clock_ok now \<Longrightarrow>
    planApiKeyUsageDispatchCancellation p requestId route provider (snapshot_of l p requestId) now = ULWrite plan \<Longrightarrow>
    usage_step admits l (apply_plan p plan l)"

inductive_cases usage_stepE: "usage_step admits l m"

section \<open>The invariant\<close>

definition row_placed :: "string \<Rightarrow> usage_ident \<Rightarrow> usage_request \<Rightarrow> bool" where
  "row_placed h i r \<longleftrightarrow> usage_request_ok r \<and> ur_key_id r = fst i \<and> is_safe_integer (snd (snd i)) \<and> h = ident_slot i (ur_request_id r)"

definition window_placed :: "usage_ident \<Rightarrow> usage_window \<Rightarrow> bool" where
  "window_placed i w \<longleftrightarrow> usage_window_ok w \<and> i = (uw_key_id w, uw_policy_version w, uw_window_start_ms w)"

definition usage_inv :: "usage_ledger \<Rightarrow> bool" where
  "usage_inv l \<longleftrightarrow>
     balanced usage_counter_of usage_share fst (ul_windows l) (ul_rows l) \<and> backed fst (ul_windows l) (ul_rows l) \<and>
     (\<forall>i w. ul_windows l i = Some w \<longrightarrow> window_placed i w) \<and>
     (\<forall>h i r. map_of (ul_rows l) h = Some (i, r) \<longrightarrow> row_placed h i r) \<and>
     int (length (ul_rows l)) \<le> max_safe_integer"

definition no_usage :: usage_ledger where
  "no_usage = \<lparr>ul_windows = Map.empty, ul_rows = []\<rparr>"

lemma no_usage_inv: "usage_inv no_usage"
  by (simp add: usage_inv_def no_usage_def balanced_def backed_def vals_def max_safe_integer_def)

lemma usage_invD:
  assumes "usage_inv l"
  shows "balanced usage_counter_of usage_share fst (ul_windows l) (ul_rows l)" and "backed fst (ul_windows l) (ul_rows l)"
    and "ul_windows l i = Some w \<Longrightarrow> window_placed i w" and "map_of (ul_rows l) h = Some (i, r) \<Longrightarrow> row_placed h i r"
    and "int (length (ul_rows l)) \<le> max_safe_integer"
  using assms unfolding usage_inv_def by blast+

lemma usage_invI:
  assumes "balanced usage_counter_of usage_share fst (ul_windows l) (ul_rows l)" and "backed fst (ul_windows l) (ul_rows l)"
    and "\<And>i w. ul_windows l i = Some w \<Longrightarrow> window_placed i w" and "\<And>h i r. map_of (ul_rows l) h = Some (i, r) \<Longrightarrow> row_placed h i r"
    and "int (length (ul_rows l)) \<le> max_safe_integer"
  shows "usage_inv l"
  using assms unfolding usage_inv_def by blast

text \<open>Where a row is found under a policy, it belongs to the policy's window.\<close>

lemma found_row:
  assumes "usage_inv l" and "usage_policy_ok p" and "map_of (ul_rows l) (row_slot p requestId) = Some ir"
  obtains r where "ir = (usage_ident_of p, r)" and "usage_request_ok r" and "ur_request_id r = requestId" and "ur_key_id r = ap_key_id p"
proof -
  obtain i r where ir: "ir = (i, r)" by (cases ir)
  have placed: "row_placed (row_slot p requestId) i r"
    by (rule usage_invD(4) [OF assms(1)]) (use assms(3) ir in simp)
  then have same: "ident_slot (usage_ident_of p) requestId = ident_slot i (ur_request_id r)" and safe: "is_safe_integer (snd (snd i))"
    by (simp_all add: row_placed_def row_slot_ident)
  from assms(2) have "is_safe_integer (snd (snd (usage_ident_of p)))"
    by (simp add: usage_policy_ok_def usage_ident_of_def safe_nonneg_def)
  from ident_slot_inj [OF this safe same] placed ir show ?thesis
    by (intro that [of r]) (auto simp: row_placed_def usage_ident_of_def)
qed

lemma snapshot_request:
  assumes "usage_inv l" and "usage_policy_ok p"
  shows "normalizeApiKeyUsageRequestV3 (us_request (snapshot_of l p requestId)) = map_option snd (map_of (ul_rows l) (row_slot p requestId))"
proof (cases "map_of (ul_rows l) (row_slot p requestId)")
  case None
  then show ?thesis by (simp add: snapshot_of_def normalizeApiKeyUsageRequestV3_def)
next
  case (Some ir)
  obtain r where "ir = (usage_ident_of p, r)" and "usage_request_ok r"
    by (rule found_row [OF assms Some])
  with Some show ?thesis by (simp add: snapshot_of_def usage_request_read_back)
qed

lemma snapshot_request_null:
  "(us_request (snapshot_of l p requestId) = JNull) = (map_of (ul_rows l) (row_slot p requestId) = None)"
  by (simp add: snapshot_of_def usage_request_js_def split: option.split)

lemma snapshot_window:
  assumes "usage_inv l" and "matchingApiKeyUsageWindowV3 (us_window (snapshot_of l p requestId)) p = Some w"
  shows "ul_windows l (usage_ident_of p) = Some w" and "window_placed (usage_ident_of p) w"
proof -
  from assms(2) obtain v where v: "ul_windows l (usage_ident_of p) = Some v"
    by (auto simp: snapshot_of_def matchingApiKeyUsageWindowV3_def normalizeApiKeyUsageWindowV3_def split: option.splits)
  then have placed: "window_placed (usage_ident_of p) v" by (rule usage_invD(3) [OF assms(1)])
  then have "normalizeApiKeyUsageWindowV3 (usage_window_js v) = Some v" by (simp add: window_placed_def usage_window_read_back)
  with assms(2) v have "v = w" by (simp add: snapshot_of_def matchingApiKeyUsageWindowV3_def split: if_splits)
  with v placed show "ul_windows l (usage_ident_of p) = Some w" "window_placed (usage_ident_of p) w" by simp_all
qed

lemma snapshot_window_null:
  "(us_window (snapshot_of l p requestId) = JNull) = (ul_windows l (usage_ident_of p) = None)"
  by (simp add: snapshot_of_def usage_window_js_def split: option.split)

section \<open>Every step keeps the invariant\<close>

lemma put_length: "length (put k v d) \<le> Suc (length d)"
  unfolding put_def by (induction d) auto

lemma put_length_present: "map_of d k = Some u \<Longrightarrow> length (put k v d) = length d"
  unfolding put_def by (induction d) (auto split: if_splits)

lemma usage_write_inv:
  assumes inv: "usage_inv l" and slot: "h = ident_slot i (ur_request_id r)"
    and bal: "balanced usage_counter_of usage_share fst ((ul_windows l)(i \<mapsto> w)) (put h (i, r) (ul_rows l))"
    and w: "window_placed i w" and r: "row_placed h i r" and len: "int (length (put h (i, r) (ul_rows l))) \<le> max_safe_integer"
  shows "usage_inv (l\<lparr>ul_windows := (ul_windows l)(i \<mapsto> w), ul_rows := put h (i, r) (ul_rows l)\<rparr>)"
proof (rule usage_invI)
  show "backed fst (ul_windows (l\<lparr>ul_windows := (ul_windows l)(i \<mapsto> w), ul_rows := put h (i, r) (ul_rows l)\<rparr>))
          (ul_rows (l\<lparr>ul_windows := (ul_windows l)(i \<mapsto> w), ul_rows := put h (i, r) (ul_rows l)\<rparr>))"
    by simp (rule backed_put [OF backed_update [OF usage_invD(2) [OF inv]]], simp)
qed (use bal w r len usage_invD(3,4) [OF inv] in \<open>simp_all split: if_splits\<close>)

text \<open>Replacing the row of a window with the counters moved accordingly.\<close>

lemma usage_replace_inv:
  assumes inv: "usage_inv l" and p: "usage_policy_ok p" and row: "map_of (ul_rows l) (row_slot p requestId) = Some (usage_ident_of p, r)"
    and win: "ul_windows l (usage_ident_of p) = Some w" and w': "window_placed (usage_ident_of p) (wp_window plan)"
    and r': "usage_request_ok (wp_request plan)" "ur_key_id (wp_request plan) = ur_key_id r" "ur_request_id (wp_request plan) = ur_request_id r"
    and moved: "\<And>f. usage_counter_of f (wp_window plan) =
      usage_counter_of f w - usage_share f (usage_ident_of p, r) + usage_share f (usage_ident_of p, wp_request plan)"
  shows "usage_inv (apply_plan p plan l)"
proof -
  have placed: "row_placed (row_slot p requestId) (usage_ident_of p) r" by (rule usage_invD(4) [OF inv row])
  have same: "row_slot p (ur_request_id (wp_request plan)) = row_slot p requestId"
    using placed r'(3) by (simp add: row_placed_def row_slot_ident)
  have bal: "balanced usage_counter_of usage_share fst ((ul_windows l)(usage_ident_of p \<mapsto> wp_window plan))
      (put (row_slot p requestId) (usage_ident_of p, wp_request plan) (ul_rows l))"
    using usage_shares.balanced_replace [OF usage_invD(1) [OF inv] row, of "(usage_ident_of p, wp_request plan)" w "wp_window plan"] win moved
    by simp
  show ?thesis
    unfolding apply_plan_def same
  proof (rule usage_write_inv [OF inv _ bal w'])
    show "row_slot p requestId = ident_slot (usage_ident_of p) (ur_request_id (wp_request plan))"
      using placed r'(3) by (simp add: row_placed_def)
    show "row_placed (row_slot p requestId) (usage_ident_of p) (wp_request plan)"
      using placed r' by (simp add: row_placed_def)
    show "int (length (put (row_slot p requestId) (usage_ident_of p, wp_request plan) (ul_rows l))) \<le> max_safe_integer"
      using usage_invD(5) [OF inv] by (simp add: put_length_present [OF row])
  qed
qed

text \<open>A window never counts more rows than there are, so its counters stay in the safe range.\<close>

lemma holdings_of_bool: "holdings (\<lambda>r. of_bool (Q r)) key k rows = int (length (filter (\<lambda>e. key (snd e) = k \<and> Q (snd e)) rows))"
  by (induction rows) (auto simp: holdings_def dtotal_def vals_def)

lemma window_counts:
  assumes "usage_inv l" and "ul_windows l i = Some w"
  shows "uw_committed_requests w = int (length (filter (\<lambda>e. fst (snd e) = i \<and> ur_state (snd (snd e)) = UsageDispatched) (ul_rows l)))"
    and "uw_reserved_requests w = int (length (filter (\<lambda>e. fst (snd e) = i \<and> ur_state (snd (snd e)) = UsageReserved) (ul_rows l)))"
proof -
  have counted: "usage_counter_of f w = holdings (usage_share f) fst i (ul_rows l)" for f
    using usage_invD(1) [OF assms(1)] assms(2) unfolding balanced_def by blast
  have "usage_share CommittedRequests = (\<lambda>r. of_bool (ur_state (snd r) = UsageDispatched))"
    and "usage_share ReservedUsage = (\<lambda>r. of_bool (ur_state (snd r) = UsageReserved))"
    by (simp_all add: fun_eq_iff)
  with counted [of CommittedRequests] counted [of ReservedUsage]
  show "uw_committed_requests w = int (length (filter (\<lambda>e. fst (snd e) = i \<and> ur_state (snd (snd e)) = UsageDispatched) (ul_rows l)))"
    and "uw_reserved_requests w = int (length (filter (\<lambda>e. fst (snd e) = i \<and> ur_state (snd (snd e)) = UsageReserved) (ul_rows l)))"
    by (simp_all add: holdings_of_bool)
qed

lemma filters_disjoint: "(\<And>x. \<not> (P x \<and> Q x)) \<Longrightarrow> length (filter P xs) + length (filter Q xs) \<le> length xs"
  by (induction xs) auto

lemma counters_within:
  assumes "usage_inv l" and "ul_windows l i = Some w"
  shows "uw_committed_requests w + uw_reserved_requests w \<le> int (length (ul_rows l))"
  using window_counts [OF assms]
    filters_disjoint [of "\<lambda>e. fst (snd e) = i \<and> ur_state (snd (snd e)) = UsageDispatched"
      "\<lambda>e. fst (snd e) = i \<and> ur_state (snd (snd e)) = UsageReserved" "ul_rows l"]
  by simp

lemma open_inv:
  assumes inv: "usage_inv l" and p: "usage_policy_ok p" and now: "usage_clock_ok now" and none: "ul_windows l (usage_ident_of p) = None"
  shows "usage_inv (l\<lparr>ul_windows := (ul_windows l)(usage_ident_of p \<mapsto> makeApiKeyUsageWindowV3 p now)\<rparr>)"
proof (rule usage_invI)
  have zero: "holdings (usage_share f) fst (usage_ident_of p) (ul_rows l) = 0" for f
    using usage_invD(2) [OF inv] none by (intro holdings_absent) (auto simp: backed_def)
  have "usage_counter_of f (makeApiKeyUsageWindowV3 p now) = 0" for f
    by (cases f) (simp_all add: makeApiKeyUsageWindowV3_def)
  with zero usage_invD(1) [OF inv]
  show "balanced usage_counter_of usage_share fst
      (ul_windows (l\<lparr>ul_windows := (ul_windows l)(usage_ident_of p \<mapsto> makeApiKeyUsageWindowV3 p now)\<rparr>))
      (ul_rows (l\<lparr>ul_windows := (ul_windows l)(usage_ident_of p \<mapsto> makeApiKeyUsageWindowV3 p now)\<rparr>))"
    by (simp add: balanced_def)
  have "window_placed (usage_ident_of p) (makeApiKeyUsageWindowV3 p now)"
    using p now by (simp add: window_placed_def usage_window_ok_def makeApiKeyUsageWindowV3_def usage_ident_of_def usage_policy_ok_def
        usage_clock_ok_def safe_nonneg_def is_safe_integer_def max_safe_integer_def API_KEY_USAGE_V3_RESERVATION_LEASE_MS_def)
  with usage_invD(3) [OF inv]
  show "\<And>i w. ul_windows (l\<lparr>ul_windows := (ul_windows l)(usage_ident_of p \<mapsto> makeApiKeyUsageWindowV3 p now)\<rparr>) i = Some w \<Longrightarrow>
      window_placed i w" by (simp split: if_splits)
qed (use usage_invD(4,5) [OF inv] backed_update [OF usage_invD(2) [OF inv]] in simp_all)

text \<open>The window a reservation counts in: the stored one, or a new one.\<close>

lemma reservation_plan_cases:
  assumes inv: "usage_inv l" and p: "usage_policy_ok p"
    and plan: "planApiKeyUsageReservation p requestId route (snapshot_of l p requestId) now = URWrite plan"
  obtains w where "map_of (ul_rows l) (row_slot p requestId) = None"
    and "ul_windows l (usage_ident_of p) = Some w \<or> ul_windows l (usage_ident_of p) = None \<and> w = makeApiKeyUsageWindowV3 p now"
    and "ap_usage_limit_requests p = - 1 \<or> uw_committed_requests w + uw_reserved_requests w < ap_usage_limit_requests p"
    and "wp_window plan = w\<lparr>uw_reserved_requests := uw_reserved_requests w + 1, uw_updated_at_ms := now\<rparr>"
    and "wp_request plan = \<lparr>ur_key_id = ap_key_id p, ur_request_id = requestId, ur_route = route, ur_state = UsageReserved,
           ur_reserved_at_ms = now, ur_lease_expires_at_ms = now + API_KEY_USAGE_V3_RESERVATION_LEASE_MS,
           ur_provider = None, ur_dispatched_at_ms = None, ur_released_at_ms = None, ur_release_reason = None\<rparr>"
proof -
  have absent: "map_of (ul_rows l) (row_slot p requestId) = None"
    using plan by (auto simp: planApiKeyUsageReservation_def snapshot_request [OF inv p] snapshot_request_null split: option.splits if_splits)
  define chosen where "chosen = (if us_window (snapshot_of l p requestId) = JNull then Some (makeApiKeyUsageWindowV3 p now)
    else matchingApiKeyUsageWindowV3 (us_window (snapshot_of l p requestId)) p)"
  from plan absent obtain w where w: "chosen = Some w"
    by (auto simp: planApiKeyUsageReservation_def snapshot_request [OF inv p] snapshot_request_null chosen_def [symmetric] split: option.splits)
  with plan absent have "\<not> (ap_usage_limit_requests p \<noteq> - 1 \<and> ap_usage_limit_requests p \<le> uw_committed_requests w + uw_reserved_requests w)"
    by (simp add: planApiKeyUsageReservation_def snapshot_request [OF inv p] snapshot_request_null chosen_def [symmetric] split: if_splits)
  with plan absent w have "wp_window plan = w\<lparr>uw_reserved_requests := uw_reserved_requests w + 1, uw_updated_at_ms := now\<rparr>"
    and "wp_request plan = \<lparr>ur_key_id = ap_key_id p, ur_request_id = requestId, ur_route = route, ur_state = UsageReserved,
           ur_reserved_at_ms = now, ur_lease_expires_at_ms = now + API_KEY_USAGE_V3_RESERVATION_LEASE_MS,
           ur_provider = None, ur_dispatched_at_ms = None, ur_released_at_ms = None, ur_release_reason = None\<rparr>"
    by (auto simp: planApiKeyUsageReservation_def snapshot_request [OF inv p] snapshot_request_null chosen_def [symmetric] writePlan_def)
  moreover have "ul_windows l (usage_ident_of p) = Some w \<or> ul_windows l (usage_ident_of p) = None \<and> w = makeApiKeyUsageWindowV3 p now"
    using w snapshot_window(1) [OF inv, of p requestId w] by (auto simp: chosen_def snapshot_window_null split: if_splits)
  ultimately show ?thesis using absent that [of w] \<open>\<not> _\<close> by auto
qed

lemma safe_count: "0 \<le> n \<Longrightarrow> n \<le> max_safe_integer \<Longrightarrow> safe_nonneg n"
  by (simp add: safe_nonneg_def is_safe_integer_def max_safe_integer_def)

lemma safe_clock: "usage_clock_ok now \<Longrightarrow> safe_nonneg now \<and> safe_nonneg (now + API_KEY_USAGE_V3_RESERVATION_LEASE_MS)"
  by (simp add: usage_clock_ok_def safe_count API_KEY_USAGE_V3_RESERVATION_LEASE_MS_def)

lemma reserve_inv:
  assumes inv: "usage_inv l" and p: "usage_policy_ok p" and now: "usage_clock_ok now" and names: "requestId \<noteq> []" "route \<noteq> []"
    and room: "int (length (ul_rows l)) < max_safe_integer"
    and plan: "planApiKeyUsageReservation p requestId route (snapshot_of l p requestId) now = URWrite plan"
  shows "usage_inv (apply_plan p plan l)"
proof -
  obtain w where absent: "map_of (ul_rows l) (row_slot p requestId) = None"
    and win: "ul_windows l (usage_ident_of p) = Some w \<or> ul_windows l (usage_ident_of p) = None \<and> w = makeApiKeyUsageWindowV3 p now"
    and w': "wp_window plan = w\<lparr>uw_reserved_requests := uw_reserved_requests w + 1, uw_updated_at_ms := now\<rparr>"
    and r': "wp_request plan = \<lparr>ur_key_id = ap_key_id p, ur_request_id = requestId, ur_route = route, ur_state = UsageReserved,
           ur_reserved_at_ms = now, ur_lease_expires_at_ms = now + API_KEY_USAGE_V3_RESERVATION_LEASE_MS,
           ur_provider = None, ur_dispatched_at_ms = None, ur_released_at_ms = None, ur_release_reason = None\<rparr>"
    by (rule reservation_plan_cases [OF inv p plan], rule that)
  define m where "m = l\<lparr>ul_windows := (ul_windows l)(usage_ident_of p \<mapsto> w)\<rparr>"
  have m: "usage_inv m" and mw: "ul_windows m (usage_ident_of p) = Some w" and rows: "ul_rows m = ul_rows l"
    using win inv open_inv [OF inv p now] by (auto simp: m_def fun_upd_idem)
  note placed = usage_invD(3) [OF m mw]
  have share: "usage_counter_of f (wp_window plan) = usage_counter_of f w + usage_share f (usage_ident_of p, wp_request plan)" for f
    by (cases f) (simp_all add: w' r')
  have bal: "balanced usage_counter_of usage_share fst ((ul_windows m)(usage_ident_of p \<mapsto> wp_window plan))
      (put (row_slot p requestId) (usage_ident_of p, wp_request plan) (ul_rows m))"
    using usage_shares.balanced_insert [OF usage_invD(1) [OF m], of "row_slot p requestId" "(usage_ident_of p, wp_request plan)" w "wp_window plan"]
      absent mw share by (simp add: rows)
  have few: "uw_committed_requests w + uw_reserved_requests w < max_safe_integer"
    using counters_within [OF m mw] room by (simp add: rows)
  have "usage_inv (m\<lparr>ul_windows := (ul_windows m)(usage_ident_of p \<mapsto> wp_window plan),
      ul_rows := put (row_slot p requestId) (usage_ident_of p, wp_request plan) (ul_rows m)\<rparr>)"
  proof (rule usage_write_inv [OF m _ bal])
    show "row_slot p requestId = ident_slot (usage_ident_of p) (ur_request_id (wp_request plan))"
      by (simp add: row_slot_ident r')
    show "window_placed (usage_ident_of p) (wp_window plan)"
      using placed few safe_clock [OF now] by (auto simp: window_placed_def usage_window_ok_def w' safe_nonneg_def is_safe_integer_def)
    show "row_placed (row_slot p requestId) (usage_ident_of p) (wp_request plan)"
      using p names safe_clock [OF now] by (simp add: row_placed_def r' usage_request_ok_def request_consistent_def usage_policy_ok_def
          usage_ident_of_def safe_nonneg_def row_slot_ident)
    show "int (length (put (row_slot p requestId) (usage_ident_of p, wp_request plan) (ul_rows m))) \<le> max_safe_integer"
      using put_length [of "row_slot p requestId" "(usage_ident_of p, wp_request plan)" "ul_rows l"] room by (simp add: rows)
  qed
  then show ?thesis by (simp add: apply_plan_def m_def r')
qed

text \<open>What a plan on an existing row gives: the row and the window it was shown.\<close>

definition shown :: "usage_ledger \<Rightarrow> api_key_policy \<Rightarrow> string \<Rightarrow> usage_request \<Rightarrow> usage_window \<Rightarrow> bool" where
  "shown l p requestId r w \<longleftrightarrow> map_of (ul_rows l) (row_slot p requestId) = Some (usage_ident_of p, r) \<and>
     ul_windows l (usage_ident_of p) = Some w \<and> usage_request_ok r \<and> window_placed (usage_ident_of p) w"

lemma shownI:
  assumes "usage_inv l" and "usage_policy_ok p"
    and "normalizeApiKeyUsageRequestV3 (us_request (snapshot_of l p requestId)) = Some r"
    and "matchingApiKeyUsageWindowV3 (us_window (snapshot_of l p requestId)) p = Some w"
  shows "shown l p requestId r w"
proof -
  from assms(3) obtain ir where ir: "map_of (ul_rows l) (row_slot p requestId) = Some ir" and r: "snd ir = r"
    by (auto simp: snapshot_request [OF assms(1,2)])
  obtain r2 where "ir = (usage_ident_of p, r2)" and "usage_request_ok r2"
    by (rule found_row [OF assms(1,2) ir])
  with ir r snapshot_window [OF assms(1,4)] show ?thesis by (simp add: shown_def)
qed

lemma dispatch_plan_cases:
  assumes "usage_inv l" and "usage_policy_ok p"
    and "planApiKeyUsageDispatch p requestId route provider (snapshot_of l p requestId) now = UDWrite plan"
  obtains r w where "shown l p requestId r w" and "ur_state r = UsageReserved" and "1 \<le> uw_reserved_requests w"
    and "wp_request plan = r\<lparr>ur_state := UsageDispatched, ur_provider := Some provider, ur_dispatched_at_ms := Some now\<rparr>"
    and "wp_window plan = w\<lparr>uw_committed_requests := uw_committed_requests w + 1,
           uw_reserved_requests := uw_reserved_requests w - 1, uw_updated_at_ms := now\<rparr>"
proof -
  from assms(3) obtain r w where n: "normalizeApiKeyUsageRequestV3 (us_request (snapshot_of l p requestId)) = Some r"
    and m: "matchingApiKeyUsageWindowV3 (us_window (snapshot_of l p requestId)) p = Some w"
    by (auto simp: planApiKeyUsageDispatch_def split: option.splits if_splits)
  from assms(3) n m have "ur_state r = UsageReserved" and "1 \<le> uw_reserved_requests w"
    and "wp_request plan = r\<lparr>ur_state := UsageDispatched, ur_provider := Some provider, ur_dispatched_at_ms := Some now\<rparr>"
    and "wp_window plan = w\<lparr>uw_committed_requests := uw_committed_requests w + 1,
           uw_reserved_requests := uw_reserved_requests w - 1, uw_updated_at_ms := now\<rparr>"
    by (auto simp: planApiKeyUsageDispatch_def writePlan_def split: if_splits intro: usage_state.exhaust)
  then show ?thesis by (rule that [OF shownI [OF assms(1,2) n m]])
qed

lemma release_plan_cases:
  assumes "usage_inv l" and "usage_policy_ok p"
    and "planApiKeyUsageReservedRelease p requestId reason (snapshot_of l p requestId) now expected = ULWrite plan"
  obtains r w where "shown l p requestId r w" and "ur_state r = UsageReserved" and "1 \<le> uw_reserved_requests w"
    and "wp_request plan = r\<lparr>ur_state := UsageReleased, ur_released_at_ms := Some now, ur_release_reason := Some reason\<rparr>"
    and "wp_window plan = w\<lparr>uw_reserved_requests := uw_reserved_requests w - 1, uw_updated_at_ms := now\<rparr>"
proof -
  from assms(3) obtain r w where n: "normalizeApiKeyUsageRequestV3 (us_request (snapshot_of l p requestId)) = Some r"
    and m: "matchingApiKeyUsageWindowV3 (us_window (snapshot_of l p requestId)) p = Some w"
    by (auto simp: planApiKeyUsageReservedRelease_def split: option.splits if_splits)
  from assms(3) n m have "ur_state r = UsageReserved" and "1 \<le> uw_reserved_requests w"
    and "wp_request plan = r\<lparr>ur_state := UsageReleased, ur_released_at_ms := Some now, ur_release_reason := Some reason\<rparr>"
    and "wp_window plan = w\<lparr>uw_reserved_requests := uw_reserved_requests w - 1, uw_updated_at_ms := now\<rparr>"
    by (auto simp: planApiKeyUsageReservedRelease_def writePlan_def split: if_splits option.splits)
  then show ?thesis by (rule that [OF shownI [OF assms(1,2) n m]])
qed

lemma cancel_plan_cases:
  assumes "usage_inv l" and "usage_policy_ok p"
    and "planApiKeyUsageDispatchCancellation p requestId route provider (snapshot_of l p requestId) now = ULWrite plan"
  obtains r w where "shown l p requestId r w" and "ur_state r = UsageDispatched" and "1 \<le> uw_committed_requests w"
    and "wp_request plan = r\<lparr>ur_state := UsageReleased, ur_provider := None, ur_dispatched_at_ms := None,
           ur_released_at_ms := Some now, ur_release_reason := Some ''transport_cancelled_before_fetch''\<rparr>"
    and "wp_window plan = w\<lparr>uw_committed_requests := uw_committed_requests w - 1, uw_updated_at_ms := now\<rparr>"
proof -
  from assms(3) obtain r w where n: "normalizeApiKeyUsageRequestV3 (us_request (snapshot_of l p requestId)) = Some r"
    and m: "matchingApiKeyUsageWindowV3 (us_window (snapshot_of l p requestId)) p = Some w"
    by (auto simp: planApiKeyUsageDispatchCancellation_def split: option.splits if_splits)
  from assms(3) n m have "ur_state r = UsageDispatched" and "1 \<le> uw_committed_requests w"
    and "wp_request plan = r\<lparr>ur_state := UsageReleased, ur_provider := None, ur_dispatched_at_ms := None,
           ur_released_at_ms := Some now, ur_release_reason := Some ''transport_cancelled_before_fetch''\<rparr>"
    and "wp_window plan = w\<lparr>uw_committed_requests := uw_committed_requests w - 1, uw_updated_at_ms := now\<rparr>"
    by (auto simp: planApiKeyUsageDispatchCancellation_def writePlan_def split: if_splits)
  then show ?thesis by (rule that [OF shownI [OF assms(1,2) n m]])
qed

text \<open>Settling a row: its request id and key stay, and the counters follow its state.\<close>

lemma usage_settle_inv:
  assumes inv: "usage_inv l" and p: "usage_policy_ok p" and shown: "shown l p requestId r w"
    and r': "usage_request_ok (wp_request plan)" "ur_key_id (wp_request plan) = ur_key_id r" "ur_request_id (wp_request plan) = ur_request_id r"
    and same: "usage_window_ok (wp_window plan)" "uw_key_id (wp_window plan) = uw_key_id w"
      "uw_policy_version (wp_window plan) = uw_policy_version w" "uw_window_start_ms (wp_window plan) = uw_window_start_ms w"
    and moved: "\<And>f. usage_counter_of f (wp_window plan) =
      usage_counter_of f w - usage_share f (usage_ident_of p, r) + usage_share f (usage_ident_of p, wp_request plan)"
  shows "usage_inv (apply_plan p plan l)"
proof (rule usage_replace_inv [OF inv p _ _ _ r' moved])
  from shown show "map_of (ul_rows l) (row_slot p requestId) = Some (usage_ident_of p, r)"
    and "ul_windows l (usage_ident_of p) = Some w" by (simp_all add: shown_def)
  from shown same show "window_placed (usage_ident_of p) (wp_window plan)" by (simp add: shown_def window_placed_def)
qed

lemma dispatch_inv:
  assumes inv: "usage_inv l" and p: "usage_policy_ok p" and now: "usage_clock_ok now"
    and plan: "planApiKeyUsageDispatch p requestId route provider (snapshot_of l p requestId) now = UDWrite plan"
  shows "usage_inv (apply_plan p plan l)"
proof -
  obtain r w where sh: "shown l p requestId r w" and st: "ur_state r = UsageReserved" and some: "1 \<le> uw_reserved_requests w"
    and r': "wp_request plan = r\<lparr>ur_state := UsageDispatched, ur_provider := Some provider, ur_dispatched_at_ms := Some now\<rparr>"
    and w': "wp_window plan = w\<lparr>uw_committed_requests := uw_committed_requests w + 1,
           uw_reserved_requests := uw_reserved_requests w - 1, uw_updated_at_ms := now\<rparr>"
    by (rule dispatch_plan_cases [OF inv p plan], rule that)
  from sh have ok: "usage_request_ok r" "usage_window_ok w" and win: "ul_windows l (usage_ident_of p) = Some w"
    unfolding shown_def window_placed_def by blast+
  have few: "uw_committed_requests w + 1 \<le> max_safe_integer"
    using counters_within [OF inv win] usage_invD(5) [OF inv] some by linarith
  have r_ok: "usage_request_ok (wp_request plan)"
    using ok(1) st safe_clock [OF now] by (simp add: r' usage_request_ok_def request_consistent_def)
  have w_ok: "usage_window_ok (wp_window plan)"
    using ok(2) some few safe_clock [OF now] by (auto simp: w' usage_window_ok_def safe_nonneg_def is_safe_integer_def)
  show ?thesis
  proof (rule usage_settle_inv [OF inv p sh r_ok _ _ w_ok])
    fix f show "usage_counter_of f (wp_window plan) =
        usage_counter_of f w - usage_share f (usage_ident_of p, r) + usage_share f (usage_ident_of p, wp_request plan)"
      using st by (cases f) (simp_all add: r' w')
  qed (simp_all add: r' w')
qed

lemma release_inv:
  assumes inv: "usage_inv l" and p: "usage_policy_ok p" and now: "usage_clock_ok now"
    and plan: "planApiKeyUsageReservedRelease p requestId reason (snapshot_of l p requestId) now expected = ULWrite plan"
  shows "usage_inv (apply_plan p plan l)"
proof -
  obtain r w where sh: "shown l p requestId r w" and st: "ur_state r = UsageReserved" and some: "1 \<le> uw_reserved_requests w"
    and r': "wp_request plan = r\<lparr>ur_state := UsageReleased, ur_released_at_ms := Some now, ur_release_reason := Some reason\<rparr>"
    and w': "wp_window plan = w\<lparr>uw_reserved_requests := uw_reserved_requests w - 1, uw_updated_at_ms := now\<rparr>"
    by (rule release_plan_cases [OF inv p plan], rule that)
  from sh have ok: "usage_request_ok r" "usage_window_ok w" by (simp_all add: shown_def window_placed_def)
  have r_ok: "usage_request_ok (wp_request plan)"
    using ok(1) st safe_clock [OF now] by (simp add: r' usage_request_ok_def request_consistent_def)
  have w_ok: "usage_window_ok (wp_window plan)"
    using ok(2) some safe_clock [OF now] by (auto simp: w' usage_window_ok_def safe_nonneg_def is_safe_integer_def)
  show ?thesis
  proof (rule usage_settle_inv [OF inv p sh r_ok _ _ w_ok])
    fix f show "usage_counter_of f (wp_window plan) =
        usage_counter_of f w - usage_share f (usage_ident_of p, r) + usage_share f (usage_ident_of p, wp_request plan)"
      using st by (cases f) (simp_all add: r' w')
  qed (simp_all add: r' w')
qed

lemma cancel_inv:
  assumes inv: "usage_inv l" and p: "usage_policy_ok p" and now: "usage_clock_ok now"
    and plan: "planApiKeyUsageDispatchCancellation p requestId route provider (snapshot_of l p requestId) now = ULWrite plan"
  shows "usage_inv (apply_plan p plan l)"
proof -
  obtain r w where sh: "shown l p requestId r w" and st: "ur_state r = UsageDispatched" and some: "1 \<le> uw_committed_requests w"
    and r': "wp_request plan = r\<lparr>ur_state := UsageReleased, ur_provider := None, ur_dispatched_at_ms := None,
           ur_released_at_ms := Some now, ur_release_reason := Some ''transport_cancelled_before_fetch''\<rparr>"
    and w': "wp_window plan = w\<lparr>uw_committed_requests := uw_committed_requests w - 1, uw_updated_at_ms := now\<rparr>"
    by (rule cancel_plan_cases [OF inv p plan], rule that)
  from sh have ok: "usage_request_ok r" "usage_window_ok w" by (simp_all add: shown_def window_placed_def)
  have r_ok: "usage_request_ok (wp_request plan)"
    using ok(1) st safe_clock [OF now] by (simp add: r' usage_request_ok_def request_consistent_def)
  have w_ok: "usage_window_ok (wp_window plan)"
    using ok(2) some safe_clock [OF now] by (auto simp: w' usage_window_ok_def safe_nonneg_def is_safe_integer_def)
  show ?thesis
  proof (rule usage_settle_inv [OF inv p sh r_ok _ _ w_ok])
    fix f show "usage_counter_of f (wp_window plan) =
        usage_counter_of f w - usage_share f (usage_ident_of p, r) + usage_share f (usage_ident_of p, wp_request plan)"
      using st by (cases f) (simp_all add: r' w')
  qed (simp_all add: r' w')
qed

interpretation usage_machine: machine "usage_step admits" usage_inv for admits
proof
  fix s t assume inv: "usage_inv s" and step: "usage_step admits s t"
  from step show "usage_inv t"
    by (cases rule: usage_step.cases) (auto intro: open_inv reserve_inv dispatch_inv release_inv cancel_inv inv)
qed

section \<open>Rows that hold quota\<close>

definition live_rows :: "usage_ledger \<Rightarrow> usage_ident \<Rightarrow> int" where
  "live_rows l i = int (length (filter (\<lambda>e. fst (snd e) = i \<and> ur_state (snd (snd e)) \<noteq> UsageReleased) (ul_rows l)))"

lemma filters_split:
  "(\<And>x. R x = (P x \<or> Q x)) \<Longrightarrow> (\<And>x. \<not> (P x \<and> Q x)) \<Longrightarrow> length (filter R xs) = length (filter P xs) + length (filter Q xs)"
  by (induction xs) auto

lemma live_rows_counters:
  assumes "usage_inv l" and "ul_windows l i = Some w"
  shows "live_rows l i = uw_committed_requests w + uw_reserved_requests w"
proof -
  have "length (filter (\<lambda>e. fst (snd e) = i \<and> ur_state (snd (snd e)) \<noteq> UsageReleased) (ul_rows l)) =
      length (filter (\<lambda>e. fst (snd e) = i \<and> ur_state (snd (snd e)) = UsageDispatched) (ul_rows l)) +
      length (filter (\<lambda>e. fst (snd e) = i \<and> ur_state (snd (snd e)) = UsageReserved) (ul_rows l))"
    by (rule filters_split) (auto intro: usage_state.exhaust)
  with window_counts [OF assms] show ?thesis by (simp add: live_rows_def)
qed

lemma live_rows_none: "usage_inv l \<Longrightarrow> ul_windows l i = None \<Longrightarrow> live_rows l i = 0"
  using usage_invD(2) [of l] by (auto simp: live_rows_def backed_def vals_def filter_empty_conv)

end
