(* ===== verification/Js_Rounding.thy ===== *)
theory Js_Rounding
  imports Js_Number
begin

text \<open>
  What rounding to binary64 keeps: the relative error of one operation, and the integer part of a
  quotient of two integers below \<open>2\<^sup>53\<close>.
\<close>

lemma pow2_powi: "pow2 e = 2 powi e"
  by (simp add: pow2_def power_int_def field_simps)

lemma pow2_pos [simp]: "0 < pow2 e"
  by (simp add: pow2_powi)

lemma pow2_add: "pow2 (a + b) = pow2 a * pow2 b"
  by (simp add: pow2_powi power_int_add)

lemma pow2_diff: "pow2 (a - b) = pow2 a / pow2 b"
  by (simp add: pow2_powi power_int_diff)

lemma pow2_nonneg_exp: "0 \<le> e \<Longrightarrow> pow2 e = of_int (2 ^ nat e)"
  by (simp add: pow2_def)

lemma pow2_less: "a < b \<Longrightarrow> pow2 a < pow2 b"
  by (simp add: pow2_powi power_int_strict_increasing)

lemma pow2_less_iff [simp]: "pow2 a < pow2 b \<longleftrightarrow> a < b"
  using pow2_less [of a b] pow2_less [of b a] by (cases a b rule: linorder_cases) auto

lemma pow2_le_iff [simp]: "pow2 a \<le> pow2 b \<longleftrightarrow> a \<le> b"
  by (simp add: linorder_not_less [symmetric])

lemma exponent_bounds:
  assumes "0 < q"
  shows "pow2 (exponent q) \<le> q" and "q < pow2 (exponent q + 1)"
proof -
  obtain a b where ab: "quotient_of q = (a, b)" by fastforce
  have b: "0 < b" using ab by (rule quotient_of_denom_pos)
  have q: "q = of_int a / of_int b" using ab by (rule quotient_of_div)
  with assms b have a: "0 < a" by (simp add: zero_less_divide_iff)
  have bits: "pow2 (bit_length n - 1) \<le> of_int n \<and> of_int n < pow2 (bit_length n)" if "0 < n" for n
  proof -
    from bit_length_bounds [OF that] have l: "1 \<le> bit_length n" and "2 ^ nat (bit_length n - 1) \<le> n" and "n < 2 ^ nat (bit_length n)"
      by blast+
    then have "of_int (2 ^ nat (bit_length n - 1)) \<le> (of_int n :: rat)" and "(of_int n :: rat) < of_int (2 ^ nat (bit_length n))"
      by (simp_all only: of_int_le_iff of_int_less_iff)
    with l show ?thesis by (simp add: pow2_nonneg_exp)
  qed
  define e where "e = bit_length a - bit_length b"
  have "of_int a / of_int b < pow2 (bit_length a) / pow2 (bit_length b - 1)"
    using bits [OF a] bits [OF b] a b by (intro frac_less) simp_all
  then have upper: "q < pow2 (e + 1)" by (simp add: q e_def pow2_diff [symmetric] algebra_simps)
  have "pow2 (bit_length a - 1) / pow2 (bit_length b) \<le> of_int a / of_int b"
    using bits [OF a] bits [OF b] a b by (intro frac_le) (simp_all add: less_imp_le)
  then have lower: "pow2 (e - 1) \<le> q" by (simp add: q e_def pow2_diff [symmetric] algebra_simps)
  have ex: "exponent q = (if q < pow2 e then e - 1 else e)" by (simp add: exponent_def ab e_def)
  show "pow2 (exponent q) \<le> q" and "q < pow2 (exponent q + 1)" using upper lower by (simp_all add: ex)
qed

lemma exponent_le: "0 < q \<Longrightarrow> q < pow2 (k + 1) \<Longrightarrow> exponent q \<le> k"
  using exponent_bounds(1) [of q] le_less_trans [of "pow2 (exponent q)" q "pow2 (k + 1)"] by simp

lemma exponent_ge: "pow2 k \<le> q \<Longrightarrow> k \<le> exponent q"
  using exponent_bounds(2) [of q] le_less_trans [of "pow2 k" q "pow2 (exponent q + 1)"] less_le_trans [OF pow2_pos [of k], of q] by simp

lemma round_half_even_error: "\<bar>of_int (round_half_even x) - x\<bar> \<le> 1 / 2"
proof -
  have "of_int \<lfloor>x\<rfloor> \<le> x" "x < of_int \<lfloor>x\<rfloor> + 1" by linarith+
  then show ?thesis by (auto simp: round_half_even_def Let_def)
qed

lemma round_half_even_ge: "of_int k \<le> x \<Longrightarrow> k \<le> round_half_even x"
  using le_floor_iff [of k x] by (auto simp: round_half_even_def Let_def)

lemma round_half_even_less:
  assumes "x < of_int k - 1 / 2"
  shows "round_half_even x < k"
proof -
  have "of_int (round_half_even x) \<le> x + 1 / 2" using round_half_even_error [of x] by linarith
  with assms have "of_int (round_half_even x) < (of_int k :: rat)" by linarith
  then show ?thesis by simp
qed

text \<open>A positive value in the normal range is rounded to a finite value.\<close>

lemma round_double_normal:
  assumes "pow2 (- 1022) \<le> q" and "q < pow2 1000"
  defines "u \<equiv> pow2 (exponent q - 52)"
  shows "round_double q = Fin (of_int (round_half_even (q / u)) * u)"
proof -
  from assms(1) have pos: "0 < q" by (rule less_le_trans [OF pow2_pos])
  have low: "- 1022 \<le> exponent q" by (rule exponent_ge [OF assms(1)])
  have high: "exponent q \<le> 999" by (rule exponent_le [OF pos]) (use assms(2) in simp)
  define r where "r = of_int (round_half_even (q / u)) * u"
  have u: "0 < u" by (simp add: u_def)
  have scaled: "pow2 52 \<le> q / u"
    using exponent_bounds(1) [OF pos] u by (simp add: u_def pow2_diff field_simps)
  then have "of_int (2 ^ 52) \<le> q / u" by (simp add: pow2_def)
  then have "2 ^ 52 \<le> round_half_even (q / u)" by (rule round_half_even_ge)
  with u have r_pos: "0 < r" by (simp add: r_def)
  have "of_int (round_half_even (q / u)) \<le> q / u + 1 / 2" using round_half_even_error [of "q / u"] by linarith
  also have "\<dots> \<le> q / u + q / u" using scaled by (simp add: pow2_def)
  finally have "of_int (round_half_even (q / u)) \<le> 2 * (q / u)" by simp
  with u have "r \<le> 2 * q" by (simp add: r_def field_simps)
  also have "2 * q < pow2 (1000 + 1)" using assms(2) by (simp add: pow2_add) (simp add: pow2_def)
  finally have "exponent r \<le> 1000" using r_pos by (intro exponent_le) simp_all
  moreover have "max (exponent q - 52) (- 1074) = exponent q - 52" using low by simp
  ultimately show ?thesis using pos by (simp add: round_double_def Let_def u_def [symmetric] r_def)
qed

lemma round_double_error:
  assumes "pow2 (- 1022) \<le> q" and "q < pow2 1000"
  obtains r where "round_double q = Fin r" and "\<bar>r - q\<bar> \<le> q * pow2 (- 53)"
proof (rule that [OF round_double_normal [OF assms]])
  define u where "u = pow2 (exponent q - 52)"
  from assms(1) have pos: "0 < q" by (rule less_le_trans [OF pow2_pos])
  have u: "0 < u" by (simp add: u_def)
  have "\<bar>of_int (round_half_even (q / u)) * u - q\<bar> = \<bar>of_int (round_half_even (q / u)) - q / u\<bar> * u"
    using u by (simp add: abs_mult_pos [symmetric] field_simps)
  also have "\<dots> \<le> 1 / 2 * u" using round_half_even_error [of "q / u"] u by (intro mult_right_mono) simp_all
  also have "\<dots> \<le> q * pow2 (- 53)"
  proof -
    have "1 / 2 * u = pow2 (exponent q) * pow2 (- 53)"
      by (simp add: u_def pow2_diff) (simp add: pow2_def)
    with exponent_bounds(1) [OF pos] show ?thesis by simp
  qed
  finally show "\<bar>of_int (round_half_even (q / pow2 (exponent q - 52))) * pow2 (exponent q - 52) - q\<bar> \<le> q * pow2 (- 53)"
    by (simp add: u_def)
qed

text \<open>
  The quotient of two integers below \<open>2\<^sup>53\<close> may be rounded, but never across an integer: the
  distance to the next integer is at least one divisor-th, more than half a unit in the last place.
\<close>

lemma pow2_divides:
  assumes "e \<le> 0"
  shows "\<exists>k. of_int n / pow2 e = of_int k"
proof
  show "of_int n / pow2 e = of_int (n * 2 ^ nat (- e))" using assms by (cases "e = 0") (simp_all add: pow2_def)
qed

lemma floor_round_quotient:
  assumes a: "0 < a" "a < 2 ^ 53" and w: "0 < w" "w \<le> 2 ^ 53"
  shows "\<exists>r. round_double (of_int a / of_int w) = Fin r \<and> \<lfloor>r\<rfloor> = a div w"
proof -
  define q :: rat where "q = of_int a / of_int w"
  define n where "n = a div w"
  define u where "u = pow2 (exponent q - 52)"
  have aw: "(1::rat) \<le> of_int a" "(of_int a :: rat) < 2 ^ 53" "(0::rat) < of_int w" "(of_int w :: rat) \<le> 2 ^ 53"
    using a w by (simp_all add: of_int_less_iff [of _ "2 ^ 53", symmetric, where 'a = rat] of_int_le_iff [of _ "2 ^ 53", symmetric, where 'a = rat]
        del: of_int_less_iff of_int_le_iff)
  have pos: "0 < q" using aw by (simp add: q_def)
  have "pow2 (- 53) \<le> q" unfolding q_def using aw by (simp add: pow2_def field_simps)
  then have "pow2 (- 1022) \<le> q" by (rule order_trans [rotated]) simp
  moreover have below: "q < pow2 53"
  proof -
    have "q \<le> of_int a" using aw w(1) by (simp add: q_def divide_le_eq)
    with aw(2) show ?thesis by (simp add: pow2_def)
  qed
  then have "q < pow2 1000" by (rule less_trans) simp
  ultimately have rd: "round_double q = Fin (of_int (round_half_even (q / u)) * u)"
    unfolding u_def by (rule round_double_normal)
  have e: "exponent q \<le> 52" using below pos by (intro exponent_le) simp_all
  have u: "0 < u" by (simp add: u_def)
  have "of_int w * pow2 (exponent q) \<le> of_int w * q" using exponent_bounds(1) [OF pos] aw(3) by simp
  also have "\<dots> = of_int a" using aw(3) by (simp add: q_def)
  finally have "of_int w * pow2 (exponent q) < 2 * pow2 52" using aw(2) by (simp add: pow2_def)
  then have wu: "of_int w * u < 2" by (simp add: u_def pow2_diff divide_less_eq)
  obtain k where k: "of_int n / u = of_int k" using pow2_divides [of "exponent q - 52" n] e by (auto simp: u_def)
  obtain m where m: "of_int (n + 1) / u = of_int m" using pow2_divides [of "exponent q - 52" "n + 1"] e by (auto simp: u_def)
  have "of_int n \<le> q"
  proof -
    have "n * w \<le> a" using w(1) by (simp add: n_def minus_mod_eq_div_mult [symmetric])
    then have "of_int n * of_int w \<le> (of_int a :: rat)" by (simp only: of_int_mult [symmetric] of_int_le_iff)
    with aw(3) show ?thesis by (simp add: q_def le_divide_eq)
  qed
  then have "of_int k \<le> q / u" using u by (simp add: k [symmetric] divide_right_mono)
  then have "k \<le> round_half_even (q / u)" by (rule round_half_even_ge)
  then have "of_int n / u \<le> of_int (round_half_even (q / u))" by (simp add: k)
  then have low: "of_int n \<le> of_int (round_half_even (q / u)) * u" using u by (simp add: divide_le_eq)
  have "q + 1 / of_int w \<le> of_int (n + 1)"
  proof -
    have "a mod w < w" and "a = n * w + a mod w" and "(n + 1) * w = n * w + w"
      using w(1) by (simp_all add: n_def algebra_simps)
    then have "a + 1 \<le> (n + 1) * w" by linarith
    then have "of_int a + 1 \<le> (of_int (n + 1) * of_int w :: rat)"
      by (metis of_int_1 of_int_add of_int_le_iff of_int_mult)
    with aw(3) show ?thesis by (simp add: q_def field_simps)
  qed
  then have "q / u + 1 / (of_int w * u) \<le> of_int m"
    using u divide_right_mono [of "q + 1 / of_int w" "of_int (n + 1)" u] by (simp add: m [symmetric] add_divide_distrib)
  moreover have "1 / 2 < 1 / (of_int w * u)" using wu u aw(3) by (simp add: divide_less_eq less_divide_eq)
  ultimately have "q / u < of_int m - 1 / 2" by linarith
  then have "round_half_even (q / u) < m" by (rule round_half_even_less)
  then have "of_int (round_half_even (q / u)) < of_int (n + 1) / u" by (simp only: m of_int_less_iff)
  then have "of_int (round_half_even (q / u)) * u < of_int n + 1" using u by (simp add: less_divide_eq)
  with low have "\<lfloor>of_int (round_half_even (q / u)) * u\<rfloor> = n" by (simp add: floor_eq_iff)
  with rd show ?thesis by (simp add: q_def n_def)
qed

section \<open>Arithmetic on numbers\<close>

text \<open>
  Addition, multiplication, division and \<^verbatim>\<open>Math.round\<close> on numbers. Negative zero is not told apart
  from zero.
\<close>

fun js_add :: "jsnum \<Rightarrow> jsnum \<Rightarrow> jsnum" where
  "js_add (Fin a) (Fin b) = round_double (a + b)"
| "js_add PosInf (Fin b) = PosInf"
| "js_add PosInf PosInf = PosInf"
| "js_add NegInf (Fin b) = NegInf"
| "js_add NegInf NegInf = NegInf"
| "js_add (Fin a) PosInf = PosInf"
| "js_add (Fin a) NegInf = NegInf"
| "js_add _ _ = NaN"

definition js_infinity :: "rat \<Rightarrow> jsnum" where
  "js_infinity q = (if q = 0 then NaN else if 0 < q then PosInf else NegInf)"

fun js_mult :: "jsnum \<Rightarrow> rat \<Rightarrow> jsnum" where
  "js_mult (Fin a) b = round_double (a * b)"
| "js_mult PosInf b = js_infinity b"
| "js_mult NegInf b = js_infinity (- b)"
| "js_mult NaN b = NaN"

fun js_divide :: "jsnum \<Rightarrow> rat \<Rightarrow> jsnum" where
  "js_divide (Fin a) b = (if b = 0 then js_infinity a else round_double (a / b))"
| "js_divide PosInf b = (if b < 0 then NegInf else PosInf)"
| "js_divide NegInf b = (if b < 0 then PosInf else NegInf)"
| "js_divide NaN b = NaN"

fun js_round :: "jsnum \<Rightarrow> jsnum" where
  "js_round (Fin q) = Fin (of_int \<lfloor>q + 1 / 2\<rfloor>)"
| "js_round n = n"

end
