(* ===== verification/Api_Guarantees.thy ===== *)
theory Api_Guarantees
  imports Usage_Ledger Js_Rounding
begin

text \<open>
  What the API key rules guarantee: the counters of a usage window are the numbers of its rows, the
  limit of a window is never exceeded, the current window contains the clock, a reset opens a window
  with a later anchor, a reset that falls on the start of a rolled window does not, and credits survive
  the conversion to microcredits and back.
\<close>

section \<open>A sample key\<close>

definition api_demo_policy :: api_key_policy where
  "api_demo_policy = \<lparr>ap_token_hash = ''h'', ap_key_id = ''key-1'', ap_expires_at_ms = - 1, ap_usage_limit_requests = 2,
     ap_window_ms = 1000, ap_window_start_ms = 1000, ap_usage_reset_at_ms = 2000, ap_policy_version = ''v3:1000'',
     ap_paid_fallback_enabled = False, ap_paid_fallback_limit_microcredits = 0, ap_paid_fallback_spent_microcredits = 0,
     ap_paid_fallback_reserved_microcredits = 0, ap_paid_fallback_reservation_request_id = None\<rparr>"

definition try_reserve :: "string \<Rightarrow> int \<Rightarrow> usage_ledger \<Rightarrow> usage_ledger" where
  "try_reserve requestId now l =
     (case planApiKeyUsageReservation api_demo_policy requestId ''/v1'' (snapshot_of l api_demo_policy requestId) now of
        URWrite plan \<Rightarrow> apply_plan api_demo_policy plan l | _ \<Rightarrow> l)"

definition try_dispatch :: "string \<Rightarrow> int \<Rightarrow> usage_ledger \<Rightarrow> usage_ledger" where
  "try_dispatch requestId now l =
     (case planApiKeyUsageDispatch api_demo_policy requestId ''/v1'' Cerebras (snapshot_of l api_demo_policy requestId) now of
        UDWrite plan \<Rightarrow> apply_plan api_demo_policy plan l | _ \<Rightarrow> l)"

definition api_demo :: usage_ledger where
  "api_demo = try_reserve ''r3'' 1030 (try_reserve ''r2'' 1020 (try_dispatch ''r1'' 1010 (try_reserve ''r1'' 1000 no_usage)))"

abbreviation demo_admits :: "api_key_policy \<Rightarrow> bool" where
  "demo_admits \<equiv> \<lambda>p. p = api_demo_policy"

lemma api_demo_policy_ok: "usage_policy_ok api_demo_policy"
  by code_simp

lemma try_reserve_run:
  assumes "usage_clock_ok now" and "requestId \<noteq> []" and "int (length (ul_rows l)) < max_safe_integer" and "(usage_step demo_admits)\<^sup>*\<^sup>* k l"
  shows "(usage_step demo_admits)\<^sup>*\<^sup>* k (try_reserve requestId now l)"
proof (cases "planApiKeyUsageReservation api_demo_policy requestId ''/v1'' (snapshot_of l api_demo_policy requestId) now")
  case (URWrite plan)
  have "usage_step demo_admits l (apply_plan api_demo_policy plan l)"
    by (rule U_reserve [OF refl api_demo_policy_ok assms(1,2) _ assms(3) URWrite]) simp
  with assms(4) URWrite show ?thesis by (simp add: try_reserve_def)
qed (use assms(4) in \<open>simp_all add: try_reserve_def\<close>)

lemma try_dispatch_run:
  assumes "usage_clock_ok now" and "(usage_step demo_admits)\<^sup>*\<^sup>* k l"
  shows "(usage_step demo_admits)\<^sup>*\<^sup>* k (try_dispatch requestId now l)"
proof (cases "planApiKeyUsageDispatch api_demo_policy requestId ''/v1'' Cerebras (snapshot_of l api_demo_policy requestId) now")
  case (UDWrite plan)
  have "usage_step demo_admits l (apply_plan api_demo_policy plan l)"
    by (rule U_dispatch [OF refl api_demo_policy_ok assms(1) UDWrite])
  with assms(2) UDWrite show ?thesis by (simp add: try_dispatch_def)
qed (use assms(2) in \<open>simp_all add: try_dispatch_def\<close>)

lemma api_demo_run: "(usage_step demo_admits)\<^sup>*\<^sup>* no_usage api_demo"
  unfolding api_demo_def
  by (intro try_reserve_run try_dispatch_run rtranclp.rtrancl_refl) (code_simp+)

definition api_demo_window :: usage_window where
  "api_demo_window = \<lparr>uw_key_id = ''key-1'', uw_policy_version = ''v3:1000'', uw_window_start_ms = 1000, uw_window_reset_at_ms = 2000,
     uw_committed_requests = 1, uw_reserved_requests = 1, uw_updated_at_ms = 1020\<rparr>"

lemma api_demo_window: "ul_windows api_demo (''key-1'', ''v3:1000'', 1000) = Some api_demo_window"
  by code_simp

definition api_demo_record :: api_key_record where
  "api_demo_record = \<lparr>ak_id = ''key-1'', ak_name = ''demo'', ak_prefix = ''u_'', ak_hash = ''h'', ak_created_at_ms = 0,
     ak_expires_at_ms = - 1, ak_revoked_at_ms = None, ak_usage_limit_requests = 2, ak_usage_requests = 1, ak_usage_reset_at_ms = 1000,
     ak_window_ms = 1000, ak_usage_quota_version = 3, ak_paid_fallback_enabled = False, ak_paid_fallback_limit_microcredits = 0,
     ak_paid_fallback_spent_microcredits = 5, ak_paid_fallback_reserved_microcredits = 0,
     ak_paid_fallback_reservation_request_id = None, ak_paid_fallback_model_ids = (0, []), ak_paid_fallback_quota_per_credit = 0,
     ak_paid_fallback_max_exposure_microcredits = None, ak_paid_fallback_pricing_checked_at_ms = None\<rparr>"

definition api_demo_reset :: api_key_update_fields where
  "api_demo_reset = \<lparr>uf_name = ''demo'', uf_expiresAtMs = - 1, uf_usageLimitRequests = 2, uf_windowMs = 1000,
     uf_paid = \<lparr>up_paidFallbackEnabled = False, up_paidFallbackLimitMicrocredits = 0, up_paidFallbackModelIds = (0, []),
       up_paidFallbackQuotaPerCredit = 0, up_paidFallbackMaxExposureMicrocredits = [], up_paidFallbackPricingCheckedAtMs = None\<rparr>,
     uf_resetUsage = True\<rparr>"

section \<open>Accounting and limits\<close>

definition window_use :: "usage_ledger \<Rightarrow> usage_ident \<Rightarrow> int" where
  "window_use l i = (case ul_windows l i of None \<Rightarrow> 0 | Some w \<Rightarrow> uw_committed_requests w + uw_reserved_requests w)"

lemma live_rows_use: "usage_inv l \<Longrightarrow> live_rows l i = window_use l i"
  by (cases "ul_windows l i") (simp_all add: window_use_def live_rows_none live_rows_counters)

lemma window_use_apply:
  "window_use (apply_plan p plan l) i =
     (if i = usage_ident_of p then uw_committed_requests (wp_window plan) + uw_reserved_requests (wp_window plan) else window_use l i)"
  by (simp add: window_use_def apply_plan_def)

lemma window_use_shown: "shown l p requestId r w \<Longrightarrow> window_use l (usage_ident_of p) = uw_committed_requests w + uw_reserved_requests w"
  unfolding shown_def window_use_def by (elim conjE) simp

lemma limit_step:
  assumes inv: "usage_inv l" and step: "usage_step admits l m" and use_l: "window_use l i \<le> L" and L: "0 \<le> L"
    and limits: "\<forall>p. admits p \<and> usage_ident_of p = i \<longrightarrow> ap_usage_limit_requests p \<noteq> - 1 \<and> ap_usage_limit_requests p \<le> L"
  shows "window_use m i \<le> L"
  using step
proof (cases rule: usage_step.cases)
  case (U_open p now)
  with use_l L show ?thesis by (simp add: window_use_def makeApiKeyUsageWindowV3_def)
next
  case (U_reserve p now requestId route plan)
  obtain w where lim: "ap_usage_limit_requests p = - 1 \<or> uw_committed_requests w + uw_reserved_requests w < ap_usage_limit_requests p"
    and w': "wp_window plan = w\<lparr>uw_reserved_requests := uw_reserved_requests w + 1, uw_updated_at_ms := now\<rparr>"
    by (rule reservation_plan_cases [OF inv U_reserve(3,8)], rule that)
  with limits use_l U_reserve(1,2) show ?thesis by (auto simp: window_use_apply)
next
  case (U_dispatch p now requestId route provider plan)
  obtain r w where sh: "shown l p requestId r w"
    and w': "wp_window plan = w\<lparr>uw_committed_requests := uw_committed_requests w + 1,
           uw_reserved_requests := uw_reserved_requests w - 1, uw_updated_at_ms := now\<rparr>"
    by (rule dispatch_plan_cases [OF inv U_dispatch(3,5)], rule that)
  from window_use_shown [OF sh] w' use_l U_dispatch(1) show ?thesis
    by (cases "i = usage_ident_of p") (auto simp: window_use_apply)
next
  case (U_release p now requestId reason expected plan)
  obtain r w where sh: "shown l p requestId r w"
    and w': "wp_window plan = w\<lparr>uw_reserved_requests := uw_reserved_requests w - 1, uw_updated_at_ms := now\<rparr>"
    by (rule release_plan_cases [OF inv U_release(3,5)], rule that)
  from window_use_shown [OF sh] w' use_l U_release(1) show ?thesis
    by (cases "i = usage_ident_of p") (auto simp: window_use_apply)
next
  case (U_cancel p now requestId route provider plan)
  obtain r w where sh: "shown l p requestId r w"
    and w': "wp_window plan = w\<lparr>uw_committed_requests := uw_committed_requests w - 1, uw_updated_at_ms := now\<rparr>"
    by (rule cancel_plan_cases [OF inv U_cancel(3,5)], rule that)
  from window_use_shown [OF sh] w' use_l U_cancel(1) show ?thesis
    by (cases "i = usage_ident_of p") (auto simp: window_use_apply)
qed

text \<open>
  C20. Whatever reservations, dispatches, releases and cancellations the plans have made since the
  ledger was empty, the committed counter of every usage window is the number of its dispatched request
  rows and the reserved counter the number of its reserved rows.
\<close>

theorem api_usage_accounting:
  assumes "(usage_step admits)\<^sup>*\<^sup>* no_usage l" and "ul_windows l i = Some w"
  shows "uw_committed_requests w = int (length (filter (\<lambda>e. fst (snd e) = i \<and> ur_state (snd (snd e)) = UsageDispatched) (ul_rows l))) \<and>
    uw_reserved_requests w = int (length (filter (\<lambda>e. fst (snd e) = i \<and> ur_state (snd (snd e)) = UsageReserved) (ul_rows l)))"
  using window_counts [OF usage_machine.inv_run [OF assms(1) no_usage_inv] assms(2)] by (rule conjI)

theorem api_usage_accounting_witness:
  "uw_committed_requests api_demo_window = 1 \<and> uw_reserved_requests api_demo_window = 1 \<and>
   length (filter (\<lambda>e. fst (snd e) = (''key-1'', ''v3:1000'', 1000) \<and> ur_state (snd (snd e)) = UsageDispatched) (ul_rows api_demo)) = 1"
  using api_usage_accounting [OF api_demo_run api_demo_window] by (simp add: api_demo_window_def)

text \<open>
  C21. If every policy that requests of a usage window are admitted under has a limit of at most \<open>L\<close>,
  then no sequence of plans ever leaves more than \<open>L\<close> rows of the window reserved or dispatched.
\<close>

theorem api_limit_respected:
  assumes "(usage_step admits)\<^sup>*\<^sup>* no_usage l" and "0 \<le> L"
    and "\<forall>p. admits p \<and> usage_ident_of p = i \<longrightarrow> ap_usage_limit_requests p \<noteq> - 1 \<and> ap_usage_limit_requests p \<le> L"
  shows "live_rows l i \<le> L"
proof -
  have "window_use l i \<le> L"
    using assms(1) no_usage_inv
  proof (rule usage_machine.stable_run)
    show "window_use no_usage i \<le> L" using assms(2) by (simp add: window_use_def no_usage_def)
  qed (rule limit_step [OF _ _ _ assms(2,3)])
  with live_rows_use [OF usage_machine.inv_run [OF assms(1) no_usage_inv]] show ?thesis by simp
qed

theorem api_limit_respected_witness: "live_rows api_demo (''key-1'', ''v3:1000'', 1000) \<le> 2"
  using api_limit_respected [OF api_demo_run, of 2 "(''key-1'', ''v3:1000'', 1000)"] by (simp add: api_demo_policy_def)

section \<open>Windows\<close>

lemma elapsed_windows_div:
  assumes "0 \<le> a" "a < 2 ^ 53" "0 < w" "w \<le> 2 ^ 53"
  shows "elapsed_windows a w = a div w"
proof (cases "a = 0")
  case True
  then show ?thesis by (simp add: elapsed_windows_def round_double_def)
next
  case False
  with floor_round_quotient [of a w] assms show ?thesis by (auto simp: elapsed_windows_def)
qed

lemma current_window_grid:
  assumes "0 < w" "w \<le> 2 ^ 53" "reset - w \<le> now" "now - (reset - w) < 2 ^ 53"
  shows "currentApiKeyUsageWindow reset w now =
    (reset - w + (now - (reset - w)) div w * w, reset - w + (now - (reset - w)) div w * w + w)"
proof (cases "now < reset")
  case True
  with assms have "(now - (reset - w)) div w = 0" by (intro div_pos_pos_trivial) simp_all
  with True show ?thesis by (simp add: currentApiKeyUsageWindow_def)
next
  case False
  with assms show ?thesis by (simp add: currentApiKeyUsageWindow_def Let_def elapsed_windows_div)
qed

text \<open>
  C22. For a positive window length and a clock not before the anchored window, the current window
  contains the clock, has exactly the window length, and starts a whole number of windows after the
  anchor, although the number of elapsed windows is computed with a rounded division.
\<close>

theorem api_window_covers_now:
  assumes "0 < w" and "w \<le> 2 ^ 53" and "reset - w \<le> now" and "now - (reset - w) < 2 ^ 53"
    and "currentApiKeyUsageWindow reset w now = (start, stop)"
  shows "start \<le> now \<and> now < stop \<and> stop - start = w \<and> reset - w \<le> start \<and> w dvd (start - (reset - w))"
proof -
  define a where "a = now - (reset - w)"
  have a: "0 \<le> a" using assms(3) by (simp add: a_def)
  have "start = reset - w + a div w * w" and "stop = start + w"
    using assms(5) current_window_grid [OF assms(1-4)] by (simp_all add: a_def)
  moreover have "a div w * w \<le> a" "a < a div w * w + w" "0 \<le> a div w * w"
    using assms(1) a pos_mod_bound [of w a] pos_mod_sign [of w a] div_mult_mod_eq [of a w] pos_imp_zdiv_nonneg_iff [of w a] by (simp_all, linarith+)
  ultimately show ?thesis by (simp add: a_def)
qed

theorem api_window_covers_now_witness: "currentApiKeyUsageWindow 1000 1000 3500 = (3000, 4000) \<and> (3000::int) \<le> 3500 \<and> (3500::int) < 4000"
proof -
  have current: "currentApiKeyUsageWindow 1000 1000 3500 = (3000, 4000)" by code_simp
  with api_window_covers_now [OF _ _ _ _ current] show ?thesis by simp
qed

text \<open>
  An update that replaces the quota window (an explicit reset or a new window length) anchors the
  new window strictly after the old anchor and not before the clock, and starts it with no requests and
  nothing spent; any other update keeps the anchor and the counters.
\<close>

theorem update_opens_fresh_window:
  assumes "buildApiKeyUpdateRecord r changes now currentWindowMs = (updated, resetUsage, replace)"
  shows "replace = (uf_resetUsage changes \<or> uf_windowMs changes \<noteq> currentWindowMs) \<and>
    (if replace
     then ak_usage_reset_at_ms r - currentWindowMs < ak_usage_reset_at_ms updated - ak_window_ms updated \<and>
       now \<le> ak_usage_reset_at_ms updated - ak_window_ms updated \<and>
       ak_usage_requests updated = 0 \<and> ak_paid_fallback_spent_microcredits updated = 0
     else ak_usage_reset_at_ms updated = ak_usage_reset_at_ms r \<and> ak_window_ms updated = currentWindowMs \<and>
       ak_usage_requests updated = ak_usage_requests r \<and>
       ak_paid_fallback_spent_microcredits updated = ak_paid_fallback_spent_microcredits r)"
  using assms by (auto simp: buildApiKeyUpdateRecord_def Let_def replaces_window_def fresh_reset_def)

theorem update_opens_fresh_window_witness:
  "ak_usage_requests (fst (buildApiKeyUpdateRecord api_demo_record api_demo_reset 500 1000)) = 0 \<and>
   500 \<le> ak_usage_reset_at_ms (fst (buildApiKeyUpdateRecord api_demo_record api_demo_reset 500 1000)) - 1000"
proof -
  obtain updated a b where built: "buildApiKeyUpdateRecord api_demo_record api_demo_reset 500 1000 = (updated, a, b)"
    by (cases "buildApiKeyUpdateRecord api_demo_record api_demo_reset 500 1000")
  have "ak_window_ms (fst (buildApiKeyUpdateRecord api_demo_record api_demo_reset 500 1000)) = 1000" by code_simp
  moreover have b using update_opens_fresh_window [OF built] by (simp add: api_demo_reset_def)
  ultimately show ?thesis using update_opens_fresh_window [OF built] by (auto simp: built)
qed

text \<open>
  C23. The anchor of a replaced window is compared with the stored anchor and not with the window in
  use. When the clock stands exactly a whole number of windows after the anchor, the window in use has
  just rolled over to start at the clock, and a reset selects the same window again: its identity is the
  one the current requests are already counted in.
\<close>

theorem reset_on_rolled_boundary_collides:
  assumes "0 < w" and "w \<le> 2 ^ 53" and "0 \<le> n" and "(n + 1) * w < 2 ^ 53"
    and "uf_resetUsage changes" and "uf_windowMs changes = w" and "now = ak_usage_reset_at_ms r + n * w"
    and "buildApiKeyUpdateRecord r changes now w = (updated, flags)"
  shows "currentApiKeyUsageWindow (ak_usage_reset_at_ms updated) w now = currentApiKeyUsageWindow (ak_usage_reset_at_ms r) w now"
proof -
  have elapsed: "now - (ak_usage_reset_at_ms r - w) = (n + 1) * w" using assms(7) by (simp add: algebra_simps)
  have "0 \<le> n * w" using assms(1,3) by simp
  then have "ak_usage_reset_at_ms updated = now + w"
    using assms(1,5-8) by (auto simp: buildApiKeyUpdateRecord_def Let_def replaces_window_def fresh_reset_def max_def)
  then have "currentApiKeyUsageWindow (ak_usage_reset_at_ms updated) w now = (now, now + w)"
    using assms(1) by (simp add: currentApiKeyUsageWindow_def)
  also have "\<dots> = currentApiKeyUsageWindow (ak_usage_reset_at_ms r) w now"
  proof -
    have "ak_usage_reset_at_ms r - w \<le> now" using assms(1,7) \<open>0 \<le> n * w\<close> by simp
    from current_window_grid [OF assms(1,2) this, unfolded elapsed, OF assms(4)]
    have "currentApiKeyUsageWindow (ak_usage_reset_at_ms r) w now =
        (ak_usage_reset_at_ms r - w + (n + 1) * w, ak_usage_reset_at_ms r - w + (n + 1) * w + w)"
      using assms(1) by (simp only: nonzero_mult_div_cancel_right less_imp_neq [symmetric] not_False_eq_True)
    moreover have "ak_usage_reset_at_ms r - w + (n + 1) * w = now" using elapsed by linarith
    ultimately show ?thesis by simp
  qed
  finally show ?thesis .
qed

theorem reset_on_rolled_boundary_collides_witness:
  "currentApiKeyUsageWindow (ak_usage_reset_at_ms (fst (buildApiKeyUpdateRecord api_demo_record api_demo_reset 2000 1000))) 1000 2000 =
     currentApiKeyUsageWindow 1000 1000 2000"
proof -
  obtain updated flags where built: "buildApiKeyUpdateRecord api_demo_record api_demo_reset 2000 1000 = (updated, flags)"
    by (cases "buildApiKeyUpdateRecord api_demo_record api_demo_reset 2000 1000")
  have demo: "uf_resetUsage api_demo_reset" "uf_windowMs api_demo_reset = 1000" "2000 = ak_usage_reset_at_ms api_demo_record + 1 * 1000"
    and reset: "ak_usage_reset_at_ms api_demo_record = 1000"
    by (simp_all add: api_demo_reset_def api_demo_record_def)
  have "currentApiKeyUsageWindow (ak_usage_reset_at_ms updated) 1000 2000 =
      currentApiKeyUsageWindow (ak_usage_reset_at_ms api_demo_record) 1000 2000"
    by (rule reset_on_rolled_boundary_collides [OF _ _ _ _ demo built]) simp_all
  then show ?thesis by (simp add: built reset)
qed

section \<open>Credits\<close>

lemma math_round_near: "\<bar>x - of_int m\<bar> < 1 / 2 \<Longrightarrow> math_round x = m"
  unfolding math_round_def by (intro floor_unique) linarith+

text \<open>
  A limit of less than \<open>2\<^sup>50\<close> microcredits, or no limit, shown in credits and read back from them
  is the same limit, although both conversions round.
\<close>

theorem credits_round_trip:
  assumes "m = PAID_FALLBACK_NO_LIMIT \<or> 0 \<le> m \<and> m < 2 ^ 50"
  shows "paidFallbackCreditsToMicrocredits (JNum (paidFallbackMicrocreditsToCredits (jint m))) = Some m"
  using assms
proof (elim disjE conjE)
  assume "m = PAID_FALLBACK_NO_LIMIT"
  then show ?thesis
    by (simp add: paidFallbackMicrocreditsToCredits_def paidFallbackCreditsToMicrocredits_def PAID_FALLBACK_NO_LIMIT_def)
next
  assume m: "0 \<le> m" "m < 2 ^ 50"
  show ?thesis
  proof (cases "m = 0")
    case True
    show ?thesis unfolding True by code_simp
  next
    case False
    with m have pos: "0 < m" by simp
    define q :: rat where "q = of_int m / 1000000"
    have bounds: "(1::rat) \<le> of_int m" "(of_int m :: rat) < 2 ^ 50"
      using pos m(2) by (simp_all add: of_int_less_iff [of _ "2 ^ 50", symmetric, where 'a = rat] del: of_int_less_iff)
    have q: "pow2 (- 1022) \<le> q" "q < pow2 1000"
      by (rule order_trans [of _ "pow2 (- 20)"], simp, use bounds in \<open>simp add: q_def pow2_def\<close>)
        (rule less_trans [of _ "pow2 50"], use bounds in \<open>simp add: q_def pow2_def\<close>, simp)
    obtain c where c: "round_double q = Fin c" "\<bar>c - q\<bar> \<le> q * pow2 (- 53)" by (rule round_double_error [OF q])
    define s where "s = c * 1000000"
    have near: "\<bar>s - of_int m\<bar> \<le> of_int m * pow2 (- 53)"
      using c(2) by (simp add: s_def q_def abs_le_iff field_simps)
    have half: "of_int m * pow2 (- 53) \<le> of_int m / (2::rat)" using bounds by (simp add: pow2_def)
    from near half have s: "of_int m / 2 \<le> s" "s \<le> 2 * of_int m" by linarith+
    have range: "pow2 (- 1022) \<le> s" "s < pow2 1000"
      by (rule order_trans [of _ "pow2 (- 1)"], simp, use s bounds in \<open>simp add: pow2_def\<close>)
        (rule less_trans [of _ "pow2 51"], use s bounds in \<open>simp add: pow2_def\<close>, simp)
    obtain r where r: "round_double s = Fin r" "\<bar>r - s\<bar> \<le> s * pow2 (- 53)" by (rule round_double_error [OF range])
    have "s * pow2 (- 53) \<le> 2 * of_int m * pow2 (- 53)" using s(2) by (intro mult_right_mono) (simp_all add: less_imp_le)
    with r(2) near have "\<bar>r - of_int m\<bar> \<le> 3 * of_int m * pow2 (- 53)" by linarith
    also have "\<dots> < 1 / 2" using bounds(2) by (simp add: pow2_def)
    finally have rounded: "math_round r = m" by (rule math_round_near)
    have c_pos: "0 < c" using s(1) bounds(1) by (simp add: s_def)
    have shown: "paidFallbackMicrocreditsToCredits (jint m) = Fin c"
      using pos c(1) m by (simp add: paidFallbackMicrocreditsToCredits_def normalizePaidFallbackMicrocredits_def PAID_FALLBACK_NO_LIMIT_def
          MICROCREDITS_PER_CREDIT_def q_def is_safe_integer_def max_safe_integer_def)
    show ?thesis
      using c_pos r(1) rounded pos m(2) by (simp add: shown paidFallbackCreditsToMicrocredits_def PAID_FALLBACK_NO_LIMIT_def
          MICROCREDITS_PER_CREDIT_def s_def Let_def is_safe_integer_def max_safe_integer_def)
  qed
qed

theorem credits_round_trip_witness:
  "paidFallbackCreditsToMicrocredits (JNum (paidFallbackMicrocreditsToCredits (jint 1234567))) = Some 1234567"
  using credits_round_trip [of 1234567] by simp

end
