(* ===== verification/Paid_Plans.thy ===== *)
theory Paid_Plans
  imports Api_Usage Js_Rounding "HOL-Library.Word"
begin

unbundle bit_operations_syntax

text \<open>
  The paid fallback ledger (\<^verbatim>\<open>src/src/authority/native-paid.ts\<close> with its contracts and the row types of
  \<^verbatim>\<open>src/src/types.ts\<close>): admission, lifecycle, release, deferral and settlement of a paid request as plans
  on the rows an adapter has read, and the hourly usage rollups. Credits, times and token counts are
  integers; the provider's quota is any finite number and its sums are rounded. A plan sees the values
  of its rows; the revisions that the adapter checks are the names in its \<open>checks\<close>.
\<close>

section \<open>Rows\<close>

datatype paid_provider = PaidMetered | PaidSurplus

fun paid_provider_text :: "paid_provider \<Rightarrow> string" where
  "paid_provider_text PaidMetered = ''metered''"
| "paid_provider_text PaidSurplus = ''surplus''"

record paid_window =
  fw_key_id :: string
  fw_policy_version :: string
  fw_window_reset_at_ms :: int
  fw_limit_microcredits :: int
  fw_settled_microcredits :: int
  fw_reserved_microcredits :: int
  fw_pending_count :: int
  fw_updated_at_ms :: int

datatype dispatch_state = PaidUndispatched | PaidDispatched | PaidNotDispatched

datatype paid_terminal_state = TerminalPending | TerminalCompleted | TerminalFailed | TerminalIncomplete | TerminalCancelled | TerminalAmbiguous

datatype billing_state = BillingPending | BillingSettled | NotBilled | BillingUnresolved

record paid_request =
  fr_key_id :: string
  fr_request_id :: string
  fr_policy_version :: string
  fr_route :: string
  fr_path :: string
  fr_model :: string
  fr_stream :: bool
  fr_reasoning :: "string option"
  fr_provider :: "paid_provider option"
  fr_window_reset_at_ms :: int
  fr_reserved_microcredits :: int
  fr_quota_per_credit :: int
  fr_provider_request_id :: "string option"
  fr_provider_quota :: "rat option"
  fr_input_tokens :: "int option"
  fr_cached_input_tokens :: "int option"
  fr_output_tokens :: "int option"
  fr_dispatch_state :: dispatch_state
  fr_terminal_state :: paid_terminal_state
  fr_spend_microcredits :: "int option"
  fr_billing_state :: billing_state
  fr_reconciliation_attempts :: int
  fr_last_reconciliation_at_ms :: "int option"
  fr_dispatched_at_ms :: "int option"
  fr_terminal_at_ms :: "int option"
  fr_settled_at_ms :: "int option"
  fr_created_at_ms :: int
  fr_updated_at_ms :: int
  fr_usage_rollup_at_ms :: "int option"

record paid_pending =
  pp_created_at_ms :: int
  pp_next_reconciliation_at_ms :: int

record paid_lease =
  pl_token :: string
  pl_expires_at_ms :: int

record paid_admission =
  pa_key_id :: string
  pa_request_id :: string
  pa_created_at_ms :: int
  pa_reserved_microcredits :: int
  pa_quota_per_credit :: int
  pa_window_reset_at_ms :: int
  pa_quota_used_percent :: "jsnum option"

record paid_outstanding =
  po_pending_requests :: int
  po_unresolved_requests :: int
  po_pending_markers :: int
  po_has_outstanding :: bool

record paid_admission_input =
  pi_keyId :: string
  pi_requestId :: string
  pi_createdAtMs :: int
  pi_policyVersion :: string
  pi_limitMicrocredits :: int
  pi_maximumExposureMicrocredits :: "int option"
  pi_initialSettledMicrocredits :: int
  pi_quotaPerCredit :: int
  pi_windowResetAtMs :: int
  pi_model :: string
  pi_route :: string
  pi_path :: string
  pi_stream :: bool
  pi_reasoning :: "string option"
  pi_dispatchIntent :: bool

text \<open>
  A field that a patch leaves out is \<open>None\<close>; the provider's request id may also be set to null, and the
  time of the last reconciliation is left alone by null as by nothing.
\<close>

record lifecycle_patch =
  lp_provider :: "paid_provider option"
  lp_provider_request_id :: "string option option"
  lp_dispatch_state :: "dispatch_state option"
  lp_terminal_state :: "paid_terminal_state option"
  lp_reconciliation_attempts :: "int option"
  lp_last_reconciliation_at_ms :: "int option"
  lp_increment_reconciliation_attempts :: bool

record resolved_lifecycle =
  rl_provider :: "paid_provider option"
  rl_providerRequestId :: "string option"
  rl_dispatchState :: dispatch_state
  rl_terminalState :: paid_terminal_state
  rl_reconciliationAttempts :: int
  rl_lastReconciliationAtMs :: "int option"

record usage_rollup =
  ru_bucket_start_at_ms :: int
  ru_model :: string
  ru_provider :: string
  ru_request_count :: int
  ru_quota_sum :: jsnum
  ru_input_tokens :: int
  ru_cached_input_tokens :: int
  ru_output_tokens :: int
  ru_spend_microcredits :: jsnum
  ru_first_request_at_ms :: int
  ru_last_request_at_ms :: int
  ru_updated_at_ms :: int

record rollup_input =
  ri_bucket_start_at_ms :: int
  ri_model :: string
  ri_provider :: string
  ri_request_id :: string
  ri_quota :: rat
  ri_input_tokens :: int
  ri_cached_input_tokens :: "int option"
  ri_output_tokens :: int
  ri_spend_microcredits :: int
  ri_request_created_at_ms :: int
  ri_updated_at_ms :: int

record terminal_rollup_input =
  ti_model :: "string option"
  ti_provider :: "string option"
  ti_request_id :: string
  ti_request_created_at_ms :: "rat option"
  ti_input_tokens :: js
  ti_cached_input_tokens :: js
  ti_output_tokens :: js

record provider_log =
  lg_request_id :: string
  lg_quota :: rat
  lg_prompt_tokens :: int
  lg_cached_prompt_tokens :: "int option"
  lg_completion_tokens :: int
  lg_created_at :: int

datatype paid_correlation = ByProviderRequestId | BySurplusReservation

record paid_admission_snapshot =
  ps_request :: "paid_request option"
  ps_window :: "paid_window option"
  ps_deletionGuard :: "int option"
  ps_policyFence :: "string option option"

record paid_admission_policy =
  ay_unlimited :: bool
  ay_maximumExposure :: "int option"

datatype blocked_reason = InvalidPolicy | LimitExceeded

record paid_write =
  wr_request :: paid_request
  wr_pending :: paid_pending
  wr_window :: "paid_window option"
  wr_reservation :: paid_admission
  wr_checkGate :: bool
  wr_checkPolicy :: bool
  wr_requestExpireIn :: int
  wr_windowExpireIn :: "int option"
  wr_checks :: "string list"

datatype paid_admission_plan =
    PaidBlocked blocked_reason
  | PaidReserved paid_admission
  | PaidExhausted paid_window int "string list"
  | PaidWrite paid_write

record lifecycle_plan =
  lc_request :: paid_request
  lc_readGate :: bool
  lc_dispatchBoundary :: bool
  lc_requestExpireIn :: int
  lc_checks :: "string list"

record release_plan =
  re_request :: paid_request
  re_window :: "paid_window option"
  re_gate :: "int option"
  re_requestExpireIn :: int
  re_windowExpireIn :: "int option"
  re_checks :: "string list"

record paid_release_snapshot =
  rs_request :: "paid_request option"
  rs_window :: "paid_window option"
  rs_gate :: js

datatype deferral_plan =
    DeferNoop
  | DeferCleanup
  | DeferWrite paid_request paid_pending int int

record rollup_identity =
  rd_bucketStartAtMs :: int
  rd_model :: string
  rd_provider :: string
  rd_shard :: int

record settlement_metadata =
  sm_correlation :: paid_correlation
  sm_microcreditsPerCredit :: rat
  sm_surplusBuyerCostMicro :: "rat option"

datatype settlement_evaluation = EvalCleanup | EvalNoop | EvalDefer | EvalSettle int

record terminal_usage =
  tu_model :: string
  tu_provider :: string
  tu_inputTokens :: int
  tu_outputTokens :: int

section \<open>Constants, checks and keys\<close>

definition PAID_PREFIX :: kv_key where
  "PAID_PREFIX = [KText ''uos_ai'', KText ''paid_fallback'', KText ''v3'']"

definition RETRY_DELAYS_MS :: "int list" where
  "RETRY_DELAYS_MS = [5000, 30000, 120000, 600000, 3600000, 21600000]"

definition UNRESOLVED_AFTER_MS :: int where
  "UNRESOLVED_AFTER_MS = 24 * 60 * 60000"

definition RECONCILIATION_LEASE_MS :: int where
  "RECONCILIATION_LEASE_MS = 60000"

definition PAID_FALLBACK_BACKFILL_LEASE_MS :: int where
  "PAID_FALLBACK_BACKFILL_LEASE_MS = 5 * 60000"

definition PAID_FALLBACK_REQUEST_LOG_RETENTION_MS :: int where
  "PAID_FALLBACK_REQUEST_LOG_RETENTION_MS = 365 * 24 * 60 * 60000"

definition requestRowExpireIn :: "paid_request \<Rightarrow> int \<Rightarrow> int" where
  "requestRowExpireIn row now = max 1 (fr_created_at_ms row + PAID_FALLBACK_REQUEST_LOG_RETENTION_MS - now)"

definition isApiKeyId :: "js \<Rightarrow> bool" where
  "isApiKeyId value \<longleftrightarrow> (case js_text value of None \<Rightarrow> False | Some s \<Rightarrow> 0 < length s \<and> length s \<le> 200)"

definition windowExpireIn :: "paid_window \<Rightarrow> int \<Rightarrow> int" where
  "windowExpireIn window now = max 1 (fw_window_reset_at_ms window + PAID_FALLBACK_REQUEST_LOG_RETENTION_MS - now)"

definition isPaidFallbackWindowV3 :: "js \<Rightarrow> bool" where
  "isPaidFallbackWindowV3 value \<longleftrightarrow>
     isRecord value \<and> js_get value ''v'' = jint 3 \<and> isApiKeyId (js_get value ''key_id'') \<and>
     nonempty_text (js_get value ''policy_version'') \<noteq> None \<and>
     positiveSafeInteger (js_get value ''window_reset_at_ms'') \<noteq> None \<and>
     (js_get value ''limit_microcredits'' = jint (- 1) \<or> positiveSafeInteger (js_get value ''limit_microcredits'') \<noteq> None) \<and>
     nonNegativeSafeInteger (js_get value ''settled_microcredits'') \<noteq> None \<and>
     nonNegativeSafeInteger (js_get value ''reserved_microcredits'') \<noteq> None \<and>
     nonNegativeSafeInteger (js_get value ''pending_count'') \<noteq> None \<and>
     positiveSafeInteger (js_get value ''updated_at_ms'') \<noteq> None"

definition paidFallbackWindowV3Key :: "string \<Rightarrow> int \<Rightarrow> kv_key" where
  "paidFallbackWindowV3Key keyId resetAtMs = PAID_PREFIX @ [KText ''window'', KText keyId, KNum resetAtMs]"

definition paidFallbackRequestV3Key :: "string \<Rightarrow> string \<Rightarrow> kv_key" where
  "paidFallbackRequestV3Key keyId requestId = PAID_PREFIX @ [KText ''request'', KText keyId, KText requestId]"

definition paidFallbackPendingV3Key :: "string \<Rightarrow> string \<Rightarrow> kv_key" where
  "paidFallbackPendingV3Key keyId requestId = PAID_PREFIX @ [KText ''pending'', KText keyId, KText requestId]"

definition paidFallbackReconciliationGateV3Key :: kv_key where
  "paidFallbackReconciliationGateV3Key = PAID_PREFIX @ [KText ''reconciliation_gate'']"

definition paidFallbackReconciliationLeaseV3Key :: "string \<Rightarrow> kv_key" where
  "paidFallbackReconciliationLeaseV3Key keyId = PAID_PREFIX @ [KText ''reconciliation_lease'', KText keyId]"

definition paidFallbackBackfillLeaseV3Key :: kv_key where
  "paidFallbackBackfillLeaseV3Key = PAID_PREFIX @ [KText ''rollup_backfill_lease'']"

definition paidFallbackDeletionGuardV3Key :: "string \<Rightarrow> kv_key" where
  "paidFallbackDeletionGuardV3Key keyId = PAID_PREFIX @ [KText ''deletion_guard'', KText keyId]"

text \<open>A gate that passes the check gives its due time, which may be null; any other value is \<open>None\<close>.\<close>

definition reconciliation_gate :: "js \<Rightarrow> int option option" where
  "reconciliation_gate value =
     (if js_entries value = None then None
      else case js_get value ''next_due_at_ms'' of
             JNull \<Rightarrow> Some None
           | v \<Rightarrow> map_option Some (nonNegativeSafeInteger v))"

definition paidFallbackReconciliationGateDueNow :: "js \<Rightarrow> int \<Rightarrow> int option" where
  "paidFallbackReconciliationGateDueNow gate now =
     (case reconciliation_gate gate of Some (Some current) \<Rightarrow> Some (min current now) | _ \<Rightarrow> Some now)"

definition paidFallbackReconciliationGateNeedsArm :: "js \<Rightarrow> int \<Rightarrow> bool" where
  "paidFallbackReconciliationGateNeedsArm gate now =
     (case reconciliation_gate gate of Some (Some due) \<Rightarrow> now < due | _ \<Rightarrow> True)"

section \<open>Rows of an admission\<close>

definition defaultPaidFallbackWindowV3 :: "paid_admission_input \<Rightarrow> paid_window" where
  "defaultPaidFallbackWindowV3 input =
     \<lparr>fw_key_id = pi_keyId input, fw_policy_version = pi_policyVersion input, fw_window_reset_at_ms = pi_windowResetAtMs input,
      fw_limit_microcredits = pi_limitMicrocredits input, fw_settled_microcredits = pi_initialSettledMicrocredits input,
      fw_reserved_microcredits = 0, fw_pending_count = 0, fw_updated_at_ms = pi_createdAtMs input\<rparr>"

definition buildPaidFallbackRequestV3 :: "paid_admission_input \<Rightarrow> int \<Rightarrow> int \<Rightarrow> paid_request" where
  "buildPaidFallbackRequestV3 input reservation now =
     \<lparr>fr_key_id = pi_keyId input, fr_request_id = pi_requestId input, fr_policy_version = pi_policyVersion input,
      fr_route = pi_route input, fr_path = pi_path input, fr_model = pi_model input, fr_stream = pi_stream input,
      fr_reasoning = pi_reasoning input, fr_provider = None, fr_window_reset_at_ms = pi_windowResetAtMs input,
      fr_reserved_microcredits = reservation, fr_quota_per_credit = pi_quotaPerCredit input, fr_provider_request_id = None,
      fr_provider_quota = None, fr_input_tokens = None, fr_cached_input_tokens = None, fr_output_tokens = None,
      fr_dispatch_state = (if pi_dispatchIntent input then PaidDispatched else PaidUndispatched), fr_terminal_state = TerminalPending,
      fr_spend_microcredits = None, fr_billing_state = BillingPending, fr_reconciliation_attempts = 0,
      fr_last_reconciliation_at_ms = None, fr_dispatched_at_ms = (if pi_dispatchIntent input then Some now else None),
      fr_terminal_at_ms = None, fr_settled_at_ms = None, fr_created_at_ms = pi_createdAtMs input, fr_updated_at_ms = now,
      fr_usage_rollup_at_ms = None\<rparr>"

definition existingReservationV3 :: "paid_admission_input \<Rightarrow> paid_request \<Rightarrow> paid_admission" where
  "existingReservationV3 input existing =
     \<lparr>pa_key_id = pi_keyId input, pa_request_id = pi_requestId input, pa_created_at_ms = fr_created_at_ms existing,
      pa_reserved_microcredits = fr_reserved_microcredits existing, pa_quota_per_credit = pi_quotaPerCredit input,
      pa_window_reset_at_ms = fr_window_reset_at_ms existing, pa_quota_used_percent = None\<rparr>"

definition isInvalidAdmissionPolicy :: "paid_admission_input \<Rightarrow> bool \<Rightarrow> int option \<Rightarrow> bool" where
  "isInvalidAdmissionPolicy input unlimited maximumExposure \<longleftrightarrow>
     (\<not> unlimited \<and> \<not> (is_safe_integer (pi_limitMicrocredits input) \<and> 0 < pi_limitMicrocredits input)) \<or>
     \<not> is_safe_integer (pi_initialSettledMicrocredits input) \<or> pi_initialSettledMicrocredits input < 0 \<or>
     \<not> (is_safe_integer (pi_quotaPerCredit input) \<and> 0 < pi_quotaPerCredit input) \<or>
     (\<not> unlimited \<and> (case maximumExposure of None \<Rightarrow> True | Some e \<Rightarrow> \<not> (is_safe_integer e \<and> 0 < e)))"

section \<open>Lifecycle\<close>

definition resolveRequestLifecyclePatchV3 :: "paid_request \<Rightarrow> lifecycle_patch \<Rightarrow> int \<Rightarrow> resolved_lifecycle" where
  "resolveRequestLifecyclePatchV3 current patch now =
     (let increment = lp_increment_reconciliation_attempts patch \<and>
            (lp_terminal_state patch = None \<or> fr_terminal_state current = TerminalPending) in
      \<lparr>rl_provider = (case fr_provider current of None \<Rightarrow> lp_provider patch | Some p \<Rightarrow> Some p),
       rl_providerRequestId = (case fr_provider_request_id current of
           None \<Rightarrow> (case lp_provider_request_id patch of None \<Rightarrow> None | Some x \<Rightarrow> x) | Some x \<Rightarrow> Some x),
       rl_dispatchState = (case lp_dispatch_state patch of
           Some d \<Rightarrow> if fr_dispatch_state current = PaidUndispatched then d else fr_dispatch_state current
         | None \<Rightarrow> fr_dispatch_state current),
       rl_terminalState = (case lp_terminal_state patch of
           Some t \<Rightarrow> if fr_terminal_state current = TerminalPending then t else fr_terminal_state current
         | None \<Rightarrow> fr_terminal_state current),
       rl_reconciliationAttempts = (if increment then fr_reconciliation_attempts current + 1
         else case lp_reconciliation_attempts patch of None \<Rightarrow> fr_reconciliation_attempts current | Some n \<Rightarrow> n),
       rl_lastReconciliationAtMs = (if increment then Some now
         else case lp_last_reconciliation_at_ms patch of None \<Rightarrow> fr_last_reconciliation_at_ms current | Some n \<Rightarrow> Some n)\<rparr>)"

definition requestLifecycleChangedV3 :: "paid_request \<Rightarrow> resolved_lifecycle \<Rightarrow> bool" where
  "requestLifecycleChangedV3 current resolved \<longleftrightarrow>
     rl_providerRequestId resolved \<noteq> fr_provider_request_id current \<or> rl_provider resolved \<noteq> fr_provider current \<or>
     rl_dispatchState resolved \<noteq> fr_dispatch_state current \<or> rl_terminalState resolved \<noteq> fr_terminal_state current \<or>
     rl_reconciliationAttempts resolved \<noteq> fr_reconciliation_attempts current \<or>
     rl_lastReconciliationAtMs resolved \<noteq> fr_last_reconciliation_at_ms current"

definition buildRequestLifecycleRowV3 :: "paid_request \<Rightarrow> resolved_lifecycle \<Rightarrow> int \<Rightarrow> paid_request" where
  "buildRequestLifecycleRowV3 current resolved now =
     current\<lparr>fr_provider := (case rl_provider resolved of None \<Rightarrow> fr_provider current | Some p \<Rightarrow> Some p),
       fr_provider_request_id := rl_providerRequestId resolved, fr_dispatch_state := rl_dispatchState resolved,
       fr_terminal_state := rl_terminalState resolved, fr_reconciliation_attempts := rl_reconciliationAttempts resolved,
       fr_last_reconciliation_at_ms := rl_lastReconciliationAtMs resolved,
       fr_dispatched_at_ms := (if rl_dispatchState resolved = PaidDispatched \<and> fr_dispatched_at_ms current = None then Some now
                               else fr_dispatched_at_ms current),
       fr_terminal_at_ms := (if rl_terminalState resolved \<noteq> TerminalPending \<and> fr_terminal_at_ms current = None then Some now
                             else fr_terminal_at_ms current),
       fr_updated_at_ms := now\<rparr>"

definition planPaidFallbackLifecycleV3 :: "paid_request \<Rightarrow> lifecycle_patch \<Rightarrow> int \<Rightarrow> lifecycle_plan option" where
  "planPaidFallbackLifecycleV3 current patch now =
     (let resolved = resolveRequestLifecyclePatchV3 current patch now in
      if \<not> requestLifecycleChangedV3 current resolved then None
      else
        let dispatchBoundary = (fr_dispatch_state current \<noteq> PaidDispatched \<and>
              (rl_dispatchState resolved = PaidDispatched \<or> rl_providerRequestId resolved \<noteq> None));
            readGate = (dispatchBoundary \<or> fr_provider_request_id current = None \<and> rl_providerRequestId resolved \<noteq> None)
        in Some \<lparr>lc_request = buildRequestLifecycleRowV3 current resolved now, lc_readGate = readGate,
             lc_dispatchBoundary = dispatchBoundary, lc_requestExpireIn = requestRowExpireIn current now,
             lc_checks = (if readGate then [''request'', ''gate''] else [''request''])\<rparr>)"

section \<open>Settled rows\<close>

definition correlationMatchesV3 :: "paid_request \<Rightarrow> provider_log \<Rightarrow> paid_correlation \<Rightarrow> bool" where
  "correlationMatchesV3 request providerLog correlation =
     (case correlation of
        BySurplusReservation \<Rightarrow> fr_provider request = Some PaidSurplus
      | ByProviderRequestId \<Rightarrow> fr_provider_request_id request = Some (lg_request_id providerLog))"

definition isBillableRequestV3 :: "paid_request option \<Rightarrow> bool" where
  "isBillableRequestV3 request \<longleftrightarrow>
     (case request of None \<Rightarrow> False | Some r \<Rightarrow> fr_billing_state r \<noteq> BillingSettled \<and> fr_billing_state r \<noteq> NotBilled)"

definition buildSettledRequestRowV3 :: "paid_request \<Rightarrow> provider_log \<Rightarrow> int \<Rightarrow> int \<Rightarrow> bool \<Rightarrow> int \<Rightarrow> paid_request" where
  "buildSettledRequestRowV3 request providerLog spend dispatchedAtMs foldIntoRollup now =
     request\<lparr>fr_provider_quota := Some (lg_quota providerLog), fr_input_tokens := Some (lg_prompt_tokens providerLog),
       fr_cached_input_tokens := lg_cached_prompt_tokens providerLog, fr_output_tokens := Some (lg_completion_tokens providerLog),
       fr_dispatch_state := (if fr_dispatch_state request = PaidUndispatched then PaidDispatched else fr_dispatch_state request),
       fr_dispatched_at_ms := Some dispatchedAtMs, fr_spend_microcredits := Some spend, fr_billing_state := BillingSettled,
       fr_last_reconciliation_at_ms := Some now,
       fr_settled_at_ms := (case fr_settled_at_ms request of None \<Rightarrow> Some now | Some t \<Rightarrow> Some t),
       fr_updated_at_ms := now,
       fr_usage_rollup_at_ms := (if foldIntoRollup then Some now else fr_usage_rollup_at_ms request)\<rparr>"

section \<open>Usage rollups\<close>

definition PAID_FALLBACK_USAGE_ROLLUP_PREFIX :: kv_key where
  "PAID_FALLBACK_USAGE_ROLLUP_PREFIX = [KText ''uos_ai'', KText ''paid_fallback'', KText ''v3'', KText ''usage_rollup'']"

definition PAID_FALLBACK_USAGE_ROLLUP_BUCKET_MS :: int where
  "PAID_FALLBACK_USAGE_ROLLUP_BUCKET_MS = 60 * 60 * 1000"

definition PAID_FALLBACK_USAGE_ROLLUP_SHARD_COUNT :: int where
  "PAID_FALLBACK_USAGE_ROLLUP_SHARD_COUNT = 16"

definition FNV_PRIME :: "32 word" where
  "FNV_PRIME = 0x01000193"

definition fnv_step :: "32 word \<Rightarrow> char \<Rightarrow> 32 word" where
  "fnv_step hash c = (hash XOR word_of_int (of_char c)) * FNV_PRIME"

definition paidFallbackUsageRollupShard :: "string \<Rightarrow> int" where
  "paidFallbackUsageRollupShard requestId = uint (foldl fnv_step 0x811c9dc5 requestId) mod PAID_FALLBACK_USAGE_ROLLUP_SHARD_COUNT"

definition PAID_FALLBACK_SETTLED_PROVIDERS :: "string list" where
  "PAID_FALLBACK_SETTLED_PROVIDERS = [''metered'', ''surplus'']"

definition nonNegativeFinite :: "js \<Rightarrow> jsnum option" where
  "nonNegativeFinite value = (case value of JNum (Fin q) \<Rightarrow> if 0 \<le> q then Some (Fin q) else None | _ \<Rightarrow> None)"

definition isPaidFallbackUsageRollup :: "js \<Rightarrow> usage_rollup option" where
  "isPaidFallbackUsageRollup value =
     (if \<not> isRecord value \<or> js_get value ''v'' \<noteq> jint 1 then None
      else
        Option.bind (nonNegativeSafeInteger (js_get value ''bucket_start_at_ms'')) (\<lambda>bucket.
        Option.bind (nonempty_text (js_get value ''model'')) (\<lambda>model.
        Option.bind (nonempty_text (js_get value ''provider'')) (\<lambda>provider.
        Option.bind (nonNegativeSafeInteger (js_get value ''request_count'')) (\<lambda>count.
        Option.bind (nonNegativeFinite (js_get value ''quota_sum'')) (\<lambda>quota.
        Option.bind (nonNegativeSafeInteger (js_get value ''input_tokens'')) (\<lambda>inputs.
        Option.bind (nonNegativeSafeInteger (js_get value ''cached_input_tokens'')) (\<lambda>cached.
        Option.bind (nonNegativeSafeInteger (js_get value ''output_tokens'')) (\<lambda>outputs.
        Option.bind (nonNegativeFinite (js_get value ''spend_microcredits'')) (\<lambda>spend.
        Option.bind (nonNegativeSafeInteger (js_get value ''first_request_at_ms'')) (\<lambda>first.
        Option.bind (nonNegativeSafeInteger (js_get value ''last_request_at_ms'')) (\<lambda>last_at.
        Option.bind (nonNegativeSafeInteger (js_get value ''updated_at_ms'')) (\<lambda>updated.
        Some \<lparr>ru_bucket_start_at_ms = bucket, ru_model = model, ru_provider = provider, ru_request_count = count, ru_quota_sum = quota,
          ru_input_tokens = inputs, ru_cached_input_tokens = cached, ru_output_tokens = outputs, ru_spend_microcredits = spend,
          ru_first_request_at_ms = first, ru_last_request_at_ms = last_at, ru_updated_at_ms = updated\<rparr>)))))))))))))"

definition paidFallbackUsageRollupKey :: "int \<Rightarrow> string \<Rightarrow> string \<Rightarrow> int \<Rightarrow> kv_key" where
  "paidFallbackUsageRollupKey bucketStartAtMs model provider shard =
     PAID_FALLBACK_USAGE_ROLLUP_PREFIX @ [KNum bucketStartAtMs, KText model, KText provider, KNum shard]"

definition mergePaidFallbackUsageRollup :: "usage_rollup option \<Rightarrow> rollup_input \<Rightarrow> usage_rollup" where
  "mergePaidFallbackUsageRollup existing input =
     (let old = (\<lambda>d f. case existing of None \<Rightarrow> d | Some e \<Rightarrow> f e) in
      \<lparr>ru_bucket_start_at_ms = (case existing of None \<Rightarrow> ri_bucket_start_at_ms input | Some e \<Rightarrow> ru_bucket_start_at_ms e),
       ru_model = (case existing of None \<Rightarrow> ri_model input | Some e \<Rightarrow> ru_model e),
       ru_provider = (case existing of None \<Rightarrow> ri_provider input | Some e \<Rightarrow> ru_provider e),
       ru_request_count = old 0 ru_request_count + 1,
       ru_quota_sum = js_add (case existing of None \<Rightarrow> Fin 0 | Some e \<Rightarrow> ru_quota_sum e) (Fin (ri_quota input)),
       ru_input_tokens = old 0 ru_input_tokens + ri_input_tokens input,
       ru_cached_input_tokens = old 0 ru_cached_input_tokens + (case ri_cached_input_tokens input of None \<Rightarrow> 0 | Some n \<Rightarrow> n),
       ru_output_tokens = old 0 ru_output_tokens + ri_output_tokens input,
       ru_spend_microcredits = js_add (case existing of None \<Rightarrow> Fin 0 | Some e \<Rightarrow> ru_spend_microcredits e) (Fin (of_int (ri_spend_microcredits input))),
       ru_first_request_at_ms = (case existing of None \<Rightarrow> ri_request_created_at_ms input
         | Some e \<Rightarrow> min (ru_first_request_at_ms e) (ri_request_created_at_ms input)),
       ru_last_request_at_ms = (case existing of None \<Rightarrow> ri_request_created_at_ms input
         | Some e \<Rightarrow> max (ru_last_request_at_ms e) (ri_request_created_at_ms input)),
       ru_updated_at_ms = ri_updated_at_ms input\<rparr>)"

definition observedTokenCount :: "js \<Rightarrow> int option" where
  "observedTokenCount value = nonNegativeSafeInteger value"

definition isPaidFallbackBackfillState :: "js \<Rightarrow> bool" where
  "isPaidFallbackBackfillState value \<longleftrightarrow>
     isRecord value \<and> js_get value ''v'' = jint 1 \<and> nonNegativeSafeInteger (js_get value ''completed_at_ms'') \<noteq> None"

definition isBackfillableSettledPaidFallbackRequest :: "js \<Rightarrow> bool" where
  "isBackfillableSettledPaidFallbackRequest value \<longleftrightarrow>
     isRecord value \<and> js_get value ''billing_state'' = JStr ''settled'' \<and>
     (case js_text (js_get value ''model'') of None \<Rightarrow> False | Some s \<Rightarrow> js_trim s \<noteq> []) \<and>
     nonNegativeFinite (js_get value ''provider_quota'') \<noteq> None \<and> nonNegativeFinite (js_get value ''spend_microcredits'') \<noteq> None"

section \<open>Plans\<close>

definition buildPaidFallbackAdmissionPlanV3 ::
  "paid_admission_input \<Rightarrow> paid_admission_snapshot \<Rightarrow> paid_admission_policy \<Rightarrow> paid_window \<Rightarrow> int \<Rightarrow> int \<Rightarrow> paid_write" where
  "buildPaidFallbackAdmissionPlanV3 input snapshot policy transitioned reservation now =
     (let request = buildPaidFallbackRequestV3 input reservation now; unlimited = ay_unlimited policy in
      \<lparr>wr_request = request,
       wr_pending = \<lparr>pp_created_at_ms = now, pp_next_reconciliation_at_ms = now\<rparr>,
       wr_window = (if unlimited then None
         else Some (transitioned\<lparr>fw_reserved_microcredits := fw_reserved_microcredits transitioned + reservation,
                     fw_pending_count := fw_pending_count transitioned + 1, fw_updated_at_ms := now\<rparr>)),
       wr_reservation = \<lparr>pa_key_id = pi_keyId input, pa_request_id = pi_requestId input, pa_created_at_ms = pi_createdAtMs input,
         pa_reserved_microcredits = reservation, pa_quota_per_credit = pi_quotaPerCredit input,
         pa_window_reset_at_ms = pi_windowResetAtMs input,
         pa_quota_used_percent = (if unlimited then None
           else Some (js_divide (js_mult (Fin 100) (of_int (fw_settled_microcredits transitioned))) (of_int (fw_limit_microcredits transitioned))))\<rparr>,
       wr_checkGate = pi_dispatchIntent input,
       wr_checkPolicy = (ps_policyFence snapshot \<noteq> None),
       wr_requestExpireIn = requestRowExpireIn request now,
       wr_windowExpireIn = (if unlimited then None else Some (windowExpireIn transitioned now)),
       wr_checks = [''request'', ''deletionGuard''] @ (if ps_policyFence snapshot \<noteq> None then [''policy''] else []) @
         (if pi_dispatchIntent input then [''gate''] else []) @ (if unlimited then [] else [''window''])\<rparr>)"

definition policy_changed :: "paid_admission_input \<Rightarrow> paid_admission_policy \<Rightarrow> paid_window \<Rightarrow> bool" where
  "policy_changed input policy current \<longleftrightarrow>
     \<not> ay_unlimited policy \<and> (fw_policy_version current \<noteq> pi_policyVersion input \<or> fw_limit_microcredits current \<noteq> pi_limitMicrocredits input)"

definition transitioned_window :: "paid_admission_input \<Rightarrow> paid_admission_policy \<Rightarrow> paid_window \<Rightarrow> int \<Rightarrow> paid_window" where
  "transitioned_window input policy current now =
     (if policy_changed input policy current
      then current\<lparr>fw_policy_version := pi_policyVersion input, fw_limit_microcredits := pi_limitMicrocredits input, fw_updated_at_ms := now\<rparr>
      else current)"

definition planPaidFallbackAdmissionV3 ::
  "paid_admission_input \<Rightarrow> paid_admission_snapshot \<Rightarrow> paid_admission_policy \<Rightarrow> int \<Rightarrow> paid_admission_plan" where
  "planPaidFallbackAdmissionV3 input snapshot policy now =
     (if ps_deletionGuard snapshot \<noteq> None then PaidBlocked InvalidPolicy
      else case ps_request snapshot of
        Some existing \<Rightarrow>
          if fr_billing_state existing = BillingSettled \<or> fr_billing_state existing = NotBilled then PaidBlocked InvalidPolicy
          else PaidReserved (existingReservationV3 input existing)
      | None \<Rightarrow>
          let current = (case ps_window snapshot of None \<Rightarrow> defaultPaidFallbackWindowV3 input | Some w \<Rightarrow> w);
              transitioned = transitioned_window input policy current now;
              remaining = (if ay_unlimited policy then 0
                else fw_limit_microcredits transitioned - fw_settled_microcredits transitioned - fw_reserved_microcredits transitioned)
          in if \<not> ay_unlimited policy \<and> remaining \<le> 0
             then (if policy_changed input policy current
                   then PaidExhausted transitioned (windowExpireIn transitioned now)
                          ([''window'', ''deletionGuard''] @ (if ps_policyFence snapshot \<noteq> None then [''policy''] else []))
                   else PaidBlocked LimitExceeded)
             else
               let reservation = (if ay_unlimited policy then 0
                 else min remaining (case ay_maximumExposure policy of None \<Rightarrow> 0 | Some e \<Rightarrow> e))
               in PaidWrite (buildPaidFallbackAdmissionPlanV3 input snapshot policy transitioned reservation now))"

text \<open>What a release and a settlement take off the window.\<close>

definition discharged_window :: "paid_window \<Rightarrow> paid_request \<Rightarrow> int \<Rightarrow> int \<Rightarrow> paid_window" where
  "discharged_window window request spend now =
     window\<lparr>fw_settled_microcredits := fw_settled_microcredits window + spend,
       fw_reserved_microcredits := max 0 (fw_reserved_microcredits window - fr_reserved_microcredits request),
       fw_pending_count := max 0 (fw_pending_count window - 1), fw_updated_at_ms := now\<rparr>"

definition planPaidFallbackReleaseV3 :: "paid_release_snapshot \<Rightarrow> bool \<Rightarrow> int \<Rightarrow> release_plan option" where
  "planPaidFallbackReleaseV3 snapshot allowDispatchIntent now =
     (case rs_request snapshot of
        None \<Rightarrow> None
      | Some request \<Rightarrow>
          if fr_billing_state request \<noteq> BillingPending \<or> fr_provider_request_id request \<noteq> None \<or>
             fr_dispatch_state request \<noteq> PaidUndispatched \<and> \<not> (allowDispatchIntent \<and> fr_dispatch_state request = PaidDispatched)
          then None
          else Some
            \<lparr>re_request = request\<lparr>fr_dispatch_state := PaidNotDispatched, fr_terminal_state := TerminalCancelled,
               fr_spend_microcredits := Some 0, fr_billing_state := NotBilled,
               fr_terminal_at_ms := (case fr_terminal_at_ms request of None \<Rightarrow> Some now | Some t \<Rightarrow> Some t), fr_updated_at_ms := now\<rparr>,
             re_window = map_option (\<lambda>w. discharged_window w request 0 now) (rs_window snapshot),
             re_gate = paidFallbackReconciliationGateDueNow (rs_gate snapshot) now,
             re_requestExpireIn = requestRowExpireIn request now,
             re_windowExpireIn = map_option (\<lambda>w. windowExpireIn w now) (rs_window snapshot),
             re_checks = (if rs_window snapshot = None then [''request'', ''gate''] else [''request'', ''gate'', ''window''])\<rparr>)"

text \<open>An index below the list is read as \<^verbatim>\<open>undefined\<close> in the source; \<open>reconciliation_attempts\<close> is never negative.\<close>

definition retry_delay :: "int \<Rightarrow> int" where
  "retry_delay attempts = RETRY_DELAYS_MS ! nat (min (attempts - 1) (int (length RETRY_DELAYS_MS) - 1))"

definition planPaidFallbackDeferralV3 :: "paid_request option \<Rightarrow> paid_pending option \<Rightarrow> int \<Rightarrow> deferral_plan" where
  "planPaidFallbackDeferralV3 request pending now =
     (case pending of
        None \<Rightarrow> DeferNoop
      | Some p \<Rightarrow>
          (case request of
             None \<Rightarrow> DeferCleanup
           | Some r \<Rightarrow>
               if fr_billing_state r = BillingSettled \<or> fr_billing_state r = NotBilled then DeferCleanup
               else
                 let attempts = fr_reconciliation_attempts r + 1;
                     unresolved = (UNRESOLVED_AFTER_MS \<le> now - fr_created_at_ms r);
                     delay = retry_delay attempts
                 in DeferWrite
                      (r\<lparr>fr_reconciliation_attempts := attempts, fr_last_reconciliation_at_ms := Some now,
                         fr_billing_state := (if unresolved then BillingUnresolved else fr_billing_state r), fr_updated_at_ms := now\<rparr>)
                      (p\<lparr>pp_next_reconciliation_at_ms := now + delay\<rparr>) delay (requestRowExpireIn r now)))"

definition settlement_spend :: "paid_request \<Rightarrow> provider_log \<Rightarrow> settlement_metadata \<Rightarrow> jsnum" where
  "settlement_spend request providerLog metadata =
     (case (sm_correlation metadata, sm_surplusBuyerCostMicro metadata) of
        (BySurplusReservation, Some cost) \<Rightarrow> Fin cost
      | _ \<Rightarrow> js_round (js_divide (js_mult (Fin (lg_quota providerLog)) (sm_microcreditsPerCredit metadata)) (of_int (fr_quota_per_credit request))))"

definition evaluatePaidFallbackSettlementV3 ::
  "paid_request option \<Rightarrow> paid_pending option \<Rightarrow> provider_log \<Rightarrow> settlement_metadata \<Rightarrow> settlement_evaluation" where
  "evaluatePaidFallbackSettlementV3 request pending providerLog metadata =
     (case request of
        None \<Rightarrow> EvalCleanup
      | Some r \<Rightarrow>
          if \<not> isBillableRequestV3 request then EvalCleanup
          else if pending = None \<or> \<not> correlationMatchesV3 r providerLog (sm_correlation metadata) then EvalNoop
          else case js_int (JNum (settlement_spend r providerLog metadata)) of
                 None \<Rightarrow> EvalDefer
               | Some spend \<Rightarrow> if spend < 0 then EvalDefer else EvalSettle spend)"

definition bucket_start :: "int \<Rightarrow> int" where
  "bucket_start ms = elapsed_windows ms PAID_FALLBACK_USAGE_ROLLUP_BUCKET_MS * PAID_FALLBACK_USAGE_ROLLUP_BUCKET_MS"

definition paidFallbackRequestRollupIdentity :: "paid_request \<Rightarrow> paid_correlation \<Rightarrow> rollup_identity" where
  "paidFallbackRequestRollupIdentity request correlation =
     \<lparr>rd_bucketStartAtMs = bucket_start (fr_created_at_ms request), rd_model = js_trim (fr_model request),
      rd_provider = (case fr_provider request of Some p \<Rightarrow> paid_provider_text p
        | None \<Rightarrow> if correlation = BySurplusReservation then ''surplus'' else ''metered''),
      rd_shard = paidFallbackUsageRollupShard (fr_request_id request)\<rparr>"

definition paidFallbackSettlementRollupV3 ::
  "paid_request \<Rightarrow> provider_log \<Rightarrow> int \<Rightarrow> paid_correlation \<Rightarrow> usage_rollup option \<Rightarrow> int \<Rightarrow> usage_rollup \<times> bool" where
  "paidFallbackSettlementRollupV3 request providerLog spend correlation existing now =
     (let identity = paidFallbackRequestRollupIdentity request correlation in
      (mergePaidFallbackUsageRollup existing
         \<lparr>ri_bucket_start_at_ms = rd_bucketStartAtMs identity, ri_model = rd_model identity, ri_provider = rd_provider identity,
          ri_request_id = fr_request_id request, ri_quota = lg_quota providerLog, ri_input_tokens = lg_prompt_tokens providerLog,
          ri_cached_input_tokens = lg_cached_prompt_tokens providerLog, ri_output_tokens = lg_completion_tokens providerLog,
          ri_spend_microcredits = spend, ri_request_created_at_ms = fr_created_at_ms request, ri_updated_at_ms = now\<rparr>,
       rd_model identity \<noteq> [] \<and> rd_provider identity \<noteq> []))"

text \<open>The snapshot of a settlement also holds the pending row and the rollup, which only the checks name.\<close>

definition planPaidFallbackSettlementRowsV3 :: "paid_release_snapshot \<Rightarrow> provider_log \<Rightarrow> int \<Rightarrow> bool \<Rightarrow> int \<Rightarrow> native_error + release_plan" where
  "planPaidFallbackSettlementRowsV3 snapshot providerLog spend foldIntoRollup now =
     (case rs_request snapshot of
        None \<Rightarrow> Inl (NativeFailure ''Paid fallback settlement request is missing'')
      | Some request \<Rightarrow>
          let dispatchedAtMs = (case fr_dispatched_at_ms request of Some t \<Rightarrow> t
                | None \<Rightarrow> max (fr_created_at_ms request) (lg_created_at providerLog * 1000))
          in Inr \<lparr>re_request = buildSettledRequestRowV3 request providerLog spend dispatchedAtMs foldIntoRollup now,
               re_window = map_option (\<lambda>w. discharged_window w request spend now) (rs_window snapshot),
               re_gate = paidFallbackReconciliationGateDueNow (rs_gate snapshot) now,
               re_requestExpireIn = requestRowExpireIn request now,
               re_windowExpireIn = map_option (\<lambda>w. windowExpireIn w now) (rs_window snapshot),
               re_checks = [''request'', ''pending''] @ (if foldIntoRollup then [''rollup''] else []) @ [''gate''] @
                 (if rs_window snapshot = None then [] else [''window''])\<rparr>)"

section \<open>Backfill, deletion, leases and terminal usage\<close>

definition backfill_foldable :: "paid_request \<Rightarrow> bool" where
  "backfill_foldable request \<longleftrightarrow>
     fr_billing_state request = BillingSettled \<and> fr_provider_quota request \<noteq> None \<and> fr_spend_microcredits request \<noteq> None"

record backfill_plan =
  bf_request :: paid_request
  bf_requestExpireIn :: int
  bf_checks :: "string list"
  bf_rollup :: "usage_rollup option"

definition planPaidFallbackBackfillFoldV3 :: "paid_request \<Rightarrow> usage_rollup option \<Rightarrow> int \<Rightarrow> backfill_plan" where
  "planPaidFallbackBackfillFoldV3 request existing now =
     (let identity = paidFallbackRequestRollupIdentity request ByProviderRequestId;
          merged = (\<lambda>quota spend. mergePaidFallbackUsageRollup existing
            \<lparr>ri_bucket_start_at_ms = rd_bucketStartAtMs identity, ri_model = rd_model identity, ri_provider = rd_provider identity,
             ri_request_id = fr_request_id request, ri_quota = quota,
             ri_input_tokens = (case fr_input_tokens request of None \<Rightarrow> 0 | Some n \<Rightarrow> n),
             ri_cached_input_tokens = fr_cached_input_tokens request,
             ri_output_tokens = (case fr_output_tokens request of None \<Rightarrow> 0 | Some n \<Rightarrow> n),
             ri_spend_microcredits = spend, ri_request_created_at_ms = fr_created_at_ms request, ri_updated_at_ms = now\<rparr>)
      in \<lparr>bf_request = request\<lparr>fr_updated_at_ms := now, fr_usage_rollup_at_ms := Some now\<rparr>,
          bf_requestExpireIn = requestRowExpireIn request now,
          bf_checks = (if backfill_foldable request \<and> rd_model identity \<noteq> [] then [''request'', ''rollup''] else [''request'']),
          bf_rollup = (case (fr_billing_state request, fr_provider_quota request, fr_spend_microcredits request) of
              (BillingSettled, Some quota, Some spend) \<Rightarrow> if rd_model identity \<noteq> [] then Some (merged quota spend) else None
            | _ \<Rightarrow> None)\<rparr>)"

definition paidFallbackBackfillRollupEligibleV3 :: "paid_request \<Rightarrow> bool" where
  "paidFallbackBackfillRollupEligibleV3 request \<longleftrightarrow> backfill_foldable request \<and> js_trim (fr_model request) \<noteq> []"

definition paidFallbackBackfillNeedsSweepV3 :: "js \<Rightarrow> js \<Rightarrow> js \<Rightarrow> bool" where
  "paidFallbackBackfillNeedsSweepV3 state requestCursor windowCursor \<longleftrightarrow>
     \<not> isPaidFallbackBackfillState state \<or> requestCursor \<noteq> JNull \<or> windowCursor \<noteq> JNull"

definition planPaidFallbackDeletionGuardV3 :: "int option \<Rightarrow> int \<Rightarrow> int option" where
  "planPaidFallbackDeletionGuardV3 guard now = (case guard of Some _ \<Rightarrow> None | None \<Rightarrow> Some now)"

datatype deletion_plan = DeletionUnavailable | DeletionBlocked paid_outstanding | DeletionAllowed

definition planPaidFallbackDeletionV3 :: "paid_outstanding option \<Rightarrow> deletion_plan" where
  "planPaidFallbackDeletionV3 outstanding =
     (case outstanding of None \<Rightarrow> DeletionUnavailable
      | Some out \<Rightarrow> if po_has_outstanding out then DeletionBlocked out else DeletionAllowed)"

definition paidFallbackLeaseActiveV3 :: "paid_lease option \<Rightarrow> int \<Rightarrow> bool" where
  "paidFallbackLeaseActiveV3 lease now \<longleftrightarrow> (case lease of None \<Rightarrow> False | Some l \<Rightarrow> now < pl_expires_at_ms l)"

definition paidFallbackReconciliationLeaseV3 :: "string \<Rightarrow> int \<Rightarrow> paid_lease" where
  "paidFallbackReconciliationLeaseV3 token now = \<lparr>pl_token = token, pl_expires_at_ms = now + RECONCILIATION_LEASE_MS\<rparr>"

definition paidFallbackBackfillLeaseV3 :: "string \<Rightarrow> int \<Rightarrow> paid_lease" where
  "paidFallbackBackfillLeaseV3 token now = \<lparr>pl_token = token, pl_expires_at_ms = now + PAID_FALLBACK_BACKFILL_LEASE_MS\<rparr>"

definition paidFallbackLeaseOwnedV3 :: "paid_lease option \<Rightarrow> string \<Rightarrow> bool" where
  "paidFallbackLeaseOwnedV3 lease token \<longleftrightarrow> map_option pl_token lease = Some token"

definition paidFallbackGateAfterScanV3 :: "int option \<Rightarrow> int option" where
  "paidFallbackGateAfterScanV3 earliestDueAtMs = earliestDueAtMs"

definition trimmed_or_empty :: "string option \<Rightarrow> string" where
  "trimmed_or_empty s = (case s of None \<Rightarrow> [] | Some t \<Rightarrow> js_trim t)"

definition paidFallbackTerminalUsageV3 :: "terminal_rollup_input \<Rightarrow> terminal_usage option" where
  "paidFallbackTerminalUsageV3 input =
     (let model = trimmed_or_empty (ti_model input); provider = trimmed_or_empty (ti_provider input) in
      if model = [] \<or> provider = [] \<or> provider = ''gateway'' \<or> provider = ''mixed'' \<or> provider \<in> set PAID_FALLBACK_SETTLED_PROVIDERS
      then None
      else case (observedTokenCount (ti_input_tokens input), observedTokenCount (ti_output_tokens input)) of
             (Some i, Some out) \<Rightarrow> Some \<lparr>tu_model = model, tu_provider = provider, tu_inputTokens = i, tu_outputTokens = out\<rparr>
           | _ \<Rightarrow> None)"

definition paidFallbackTerminalRollupV3 :: "terminal_rollup_input \<Rightarrow> terminal_usage \<Rightarrow> string \<Rightarrow> int \<Rightarrow> rollup_input" where
  "paidFallbackTerminalRollupV3 input usage requestId now =
     (let created = (case ti_request_created_at_ms input of None \<Rightarrow> now | Some q \<Rightarrow> max 0 (js_trunc q)) in
      \<lparr>ri_bucket_start_at_ms = bucket_start created, ri_model = tu_model usage, ri_provider = tu_provider usage,
       ri_request_id = requestId, ri_quota = 0, ri_input_tokens = tu_inputTokens usage,
       ri_cached_input_tokens = observedTokenCount (ti_cached_input_tokens input), ri_output_tokens = tu_outputTokens usage,
       ri_spend_microcredits = 0, ri_request_created_at_ms = created, ri_updated_at_ms = now\<rparr>)"

datatype backfill_state = BackfillMissing | BackfillRetention | BackfillFold

definition paidFallbackRequestBackfillStateV3 :: "paid_request option \<Rightarrow> backfill_state" where
  "paidFallbackRequestBackfillStateV3 request =
     (case request of None \<Rightarrow> BackfillMissing | Some r \<Rightarrow> if fr_usage_rollup_at_ms r \<noteq> None then BackfillRetention else BackfillFold)"

end
