(* ===== verification/Paid_Ledger.thy ===== *)
theory Paid_Ledger
  imports Paid_Plans Native_Key Share_Ledger
begin

text \<open>
  The paid ledger without its storage: the windows of the keys, the request rows, and the markers of
  the requests that still have to be reconciled. A step is what \<^verbatim>\<open>NativeAuthorityPaid\<close> does with one
  plan of \<^verbatim>\<open>native-paid.ts\<close>: the plan is shown the rows and what it says is written. The relation is
  indexed by the admissions that are made and by the amounts that are billed.
\<close>

type_synonym paid_ident = "string \<times> int"

record paid_ledger =
  pg_windows :: "paid_ident \<rightharpoonup> paid_window"
  pg_requests :: "paid_request dict"
  pg_pending :: "string \<times> string \<rightharpoonup> paid_pending"

definition paid_slot :: "string \<Rightarrow> string \<Rightarrow> string" where
  "paid_slot keyId requestId = nativeKey (paidFallbackRequestV3Key keyId requestId)"

lemma paid_slot_inj: "paid_slot k r = paid_slot k' r' \<longleftrightarrow> k = k' \<and> r = r'"
proof
  assume "paid_slot k r = paid_slot k' r'"
  then have "paidFallbackRequestV3Key k r = paidFallbackRequestV3Key k' r'"
    by (intro nativeKey_inj) (simp_all add: paid_slot_def key_ok_def paidFallbackRequestV3Key_def PAID_PREFIX_def)
  then show "k = k' \<and> r = r'" by (simp add: paidFallbackRequestV3Key_def)
qed simp

definition request_window :: "paid_request \<Rightarrow> paid_ident" where
  "request_window r = (fr_key_id r, fr_window_reset_at_ms r)"

definition input_window :: "paid_admission_input \<Rightarrow> paid_ident" where
  "input_window input = (pi_keyId input, pi_windowResetAtMs input)"

definition input_policy :: "paid_admission_input \<Rightarrow> paid_admission_policy" where
  "input_policy input = \<lparr>ay_unlimited = (pi_limitMicrocredits input = - 1), ay_maximumExposure = pi_maximumExposureMicrocredits input\<rparr>"

definition paid_row :: "paid_ledger \<Rightarrow> string \<Rightarrow> string \<Rightarrow> paid_request option" where
  "paid_row l keyId requestId = map_of (pg_requests l) (paid_slot keyId requestId)"

definition admission_view :: "paid_ledger \<Rightarrow> paid_admission_input \<Rightarrow> string option option \<Rightarrow> paid_admission_snapshot" where
  "admission_view l input fence =
     \<lparr>ps_request = paid_row l (pi_keyId input) (pi_requestId input), ps_window = pg_windows l (input_window input),
      ps_deletionGuard = None, ps_policyFence = fence\<rparr>"

definition release_view :: "paid_ledger \<Rightarrow> paid_request \<Rightarrow> js \<Rightarrow> paid_release_snapshot" where
  "release_view l r gate = \<lparr>rs_request = Some r, rs_window = pg_windows l (request_window r), rs_gate = gate\<rparr>"

section \<open>Writes\<close>

definition put_request :: "paid_request \<Rightarrow> paid_ledger \<Rightarrow> paid_ledger" where
  "put_request r l = l\<lparr>pg_requests := put (paid_slot (fr_key_id r) (fr_request_id r)) r (pg_requests l)\<rparr>"

definition put_window :: "paid_ident \<Rightarrow> paid_window option \<Rightarrow> paid_ledger \<Rightarrow> paid_ledger" where
  "put_window i w l = (case w of None \<Rightarrow> l | Some v \<Rightarrow> l\<lparr>pg_windows := (pg_windows l)(i \<mapsto> v)\<rparr>)"

definition mark_pending :: "paid_request \<Rightarrow> paid_pending option \<Rightarrow> paid_ledger \<Rightarrow> paid_ledger" where
  "mark_pending r p l = l\<lparr>pg_pending := (pg_pending l)((fr_key_id r, fr_request_id r) := p)\<rparr>"

definition apply_admission :: "paid_admission_input \<Rightarrow> paid_write \<Rightarrow> paid_ledger \<Rightarrow> paid_ledger" where
  "apply_admission input w l =
     put_window (input_window input) (wr_window w) (mark_pending (wr_request w) (Some (wr_pending w)) (put_request (wr_request w) l))"

definition apply_release :: "paid_request \<Rightarrow> release_plan \<Rightarrow> paid_ledger \<Rightarrow> paid_ledger" where
  "apply_release r plan l =
     put_window (request_window r) (re_window plan) (mark_pending r None (put_request (re_request plan) l))"

section \<open>Steps\<close>

inductive paid_step :: "(paid_admission_input \<Rightarrow> bool) \<Rightarrow> (paid_request \<Rightarrow> int \<Rightarrow> bool) \<Rightarrow> paid_ledger \<Rightarrow> paid_ledger \<Rightarrow> bool"
  for admits bills where
  P_admit: "admits input \<Longrightarrow> pi_initialSettledMicrocredits input = 0 \<Longrightarrow>
    \<not> isInvalidAdmissionPolicy input (pi_limitMicrocredits input = - 1) (pi_maximumExposureMicrocredits input) \<Longrightarrow>
    planPaidFallbackAdmissionV3 input (admission_view l input fence) (input_policy input) now = PaidWrite w \<Longrightarrow>
    paid_step admits bills l (apply_admission input w l)"
| P_exhausted: "admits input \<Longrightarrow> pi_initialSettledMicrocredits input = 0 \<Longrightarrow>
    \<not> isInvalidAdmissionPolicy input (pi_limitMicrocredits input = - 1) (pi_maximumExposureMicrocredits input) \<Longrightarrow>
    planPaidFallbackAdmissionV3 input (admission_view l input fence) (input_policy input) now = PaidExhausted w expireIn checks \<Longrightarrow>
    paid_step admits bills l (put_window (input_window input) (Some w) l)"
| P_lifecycle: "paid_row l keyId requestId = Some r \<Longrightarrow> planPaidFallbackLifecycleV3 r patch now = Some lc \<Longrightarrow>
    paid_step admits bills l (put_request (lc_request lc) l)"
| P_release: "paid_row l keyId requestId = Some r \<Longrightarrow> planPaidFallbackReleaseV3 (release_view l r gate) allowDispatchIntent now = Some plan \<Longrightarrow>
    paid_step admits bills l (apply_release r plan l)"
| P_defer: "paid_row l keyId requestId = Some r \<Longrightarrow>
    planPaidFallbackDeferralV3 (Some r) (pg_pending l (keyId, requestId)) now = DeferWrite r' p' delay expireIn \<Longrightarrow>
    paid_step admits bills l (mark_pending r' (Some p') (put_request r' l))"
| P_settle: "paid_row l keyId requestId = Some r \<Longrightarrow>
    evaluatePaidFallbackSettlementV3 (Some r) (pg_pending l (keyId, requestId)) providerLog metadata = EvalSettle spend \<Longrightarrow> bills r spend \<Longrightarrow>
    planPaidFallbackSettlementRowsV3 (release_view l r gate) providerLog spend foldIntoRollup now = Inr plan \<Longrightarrow>
    paid_step admits bills l (apply_release r plan l)"

definition no_paid :: paid_ledger where
  "no_paid = \<lparr>pg_windows = Map.empty, pg_requests = [], pg_pending = Map.empty\<rparr>"

definition limited :: "(paid_admission_input \<Rightarrow> bool) \<Rightarrow> paid_admission_input \<Rightarrow> bool" where
  "limited admits input \<longleftrightarrow> admits input \<and> pi_limitMicrocredits input \<noteq> - 1"

section \<open>The invariant\<close>

definition billable :: "paid_request \<Rightarrow> bool" where
  "billable r \<longleftrightarrow> fr_billing_state r \<noteq> BillingSettled \<and> fr_billing_state r \<noteq> NotBilled"

datatype paid_counter = PaidReservedCounter | PaidSettledCounter | PaidPendingCounter

fun paid_counter_of :: "paid_counter \<Rightarrow> paid_window \<Rightarrow> int" where
  "paid_counter_of PaidReservedCounter w = fw_reserved_microcredits w"
| "paid_counter_of PaidSettledCounter w = fw_settled_microcredits w"
| "paid_counter_of PaidPendingCounter w = fw_pending_count w"

definition billed :: "paid_request \<Rightarrow> int" where
  "billed r = (if fr_billing_state r = BillingSettled then (case fr_spend_microcredits r of None \<Rightarrow> 0 | Some s \<Rightarrow> s) else 0)"

fun paid_share :: "paid_counter \<Rightarrow> paid_request \<Rightarrow> int" where
  "paid_share PaidReservedCounter r = (if billable r then fr_reserved_microcredits r else 0)"
| "paid_share PaidSettledCounter r = billed r"
| "paid_share PaidPendingCounter r = of_bool (billable r)"

definition paid_request_ok :: "paid_request \<Rightarrow> bool" where
  "paid_request_ok r \<longleftrightarrow> 0 \<le> fr_reserved_microcredits r \<and> 0 \<le> billed r"

interpretation paid_shares: share_ledger paid_counter_of paid_share request_window paid_request_ok
proof
  fix r f assume "paid_request_ok r"
  then show "0 \<le> paid_share f r" by (cases f) (simp_all add: paid_request_ok_def)
qed

definition markers_right :: "paid_ledger \<Rightarrow> bool" where
  "markers_right l \<longleftrightarrow> (\<forall>k q. pg_pending l (k, q) \<noteq> None \<longleftrightarrow> (case paid_row l k q of None \<Rightarrow> False | Some r \<Rightarrow> billable r))"

definition paid_inv :: "paid_ledger \<Rightarrow> bool" where
  "paid_inv l \<longleftrightarrow>
     balanced paid_counter_of paid_share request_window (pg_windows l) (pg_requests l) \<and>
     backed request_window (pg_windows l) (pg_requests l) \<and> (\<forall>r \<in> set (vals (pg_requests l)). paid_request_ok r) \<and>
     (\<forall>h r. map_of (pg_requests l) h = Some r \<longrightarrow> h = paid_slot (fr_key_id r) (fr_request_id r)) \<and> markers_right l"

lemma paid_invD:
  assumes "paid_inv l"
  shows "balanced paid_counter_of paid_share request_window (pg_windows l) (pg_requests l)"
    and "backed request_window (pg_windows l) (pg_requests l)"
    and "\<forall>r \<in> set (vals (pg_requests l)). paid_request_ok r"
    and "map_of (pg_requests l) h = Some r \<Longrightarrow> h = paid_slot (fr_key_id r) (fr_request_id r)"
    and "markers_right l"
  using assms unfolding paid_inv_def by blast+

lemma no_paid_inv: "paid_inv no_paid"
  by (simp add: paid_inv_def no_paid_def balanced_def backed_def vals_def markers_right_def paid_row_def)

lemma paid_row_facts:
  assumes "paid_inv l" and "paid_row l k q = Some r"
  shows "fr_key_id r = k" and "fr_request_id r = q" and "paid_request_ok r" and "\<exists>w. pg_windows l (request_window r) = Some w"
proof -
  from assms(2) have found: "map_of (pg_requests l) (paid_slot k q) = Some r" by (simp add: paid_row_def)
  from paid_invD(4) [OF assms(1) found] show "fr_key_id r = k" "fr_request_id r = q" by (simp_all add: paid_slot_inj)
  from found have "r \<in> set (vals (pg_requests l))" by (force simp: vals_def dest: map_of_SomeD)
  with paid_invD(2,3) [OF assms(1)] show "paid_request_ok r" "\<exists>w. pg_windows l (request_window r) = Some w"
    by (auto simp: backed_def)
qed

section \<open>Every step keeps the invariant\<close>

text \<open>All writes have one form: a row, the window it belongs to, and its marker.\<close>

definition commit_row :: "paid_request \<Rightarrow> paid_window \<Rightarrow> paid_pending option \<Rightarrow> paid_ledger \<Rightarrow> paid_ledger" where
  "commit_row r w p l = put_window (request_window r) (Some w) (mark_pending r p (put_request r l))"

lemma paid_row_commit:
  "paid_row (commit_row r w p l) k q = (if k = fr_key_id r \<and> q = fr_request_id r then Some r else paid_row l k q)"
  by (simp add: commit_row_def put_window_def mark_pending_def put_request_def paid_row_def paid_slot_inj)

lemma commit_inv:
  assumes inv: "paid_inv l" and ok: "paid_request_ok r" and marker: "(p \<noteq> None) = billable r"
    and bal: "balanced paid_counter_of paid_share request_window ((pg_windows l)(request_window r \<mapsto> w))
      (put (paid_slot (fr_key_id r) (fr_request_id r)) r (pg_requests l))"
  shows "paid_inv (commit_row r w p l)"
proof -
  have windows: "pg_windows (commit_row r w p l) = (pg_windows l)(request_window r \<mapsto> w)"
    and requests: "pg_requests (commit_row r w p l) = put (paid_slot (fr_key_id r) (fr_request_id r)) r (pg_requests l)"
    and pending: "pg_pending (commit_row r w p l) = (pg_pending l)((fr_key_id r, fr_request_id r) := p)"
    by (simp_all add: commit_row_def put_window_def mark_pending_def put_request_def)
  have "backed request_window (pg_windows (commit_row r w p l)) (pg_requests (commit_row r w p l))"
    unfolding windows requests by (rule backed_put [OF backed_update [OF paid_invD(2) [OF inv]]]) simp
  moreover have "\<forall>v \<in> set (vals (pg_requests (commit_row r w p l))). paid_request_ok v"
    unfolding requests by (rule vals_put_ball [OF paid_invD(3) [OF inv] ok])
  moreover have "h = paid_slot (fr_key_id v) (fr_request_id v)" if "map_of (pg_requests (commit_row r w p l)) h = Some v" for h v
    using that paid_invD(4) [OF inv, of h v] by (simp add: requests split: if_splits)
  moreover have "markers_right (commit_row r w p l)"
    using paid_invD(5) [OF inv] marker unfolding markers_right_def paid_row_commit pending by simp
  ultimately show ?thesis using bal unfolding paid_inv_def windows requests by blast
qed

text \<open>Rewriting a row: its identity stays, its window's counters follow its shares and its marker its state.\<close>

lemma rewrite_inv:
  assumes inv: "paid_inv l" and row: "paid_row l k q = Some r" and win: "pg_windows l (request_window r) = Some w"
    and same: "fr_key_id r' = fr_key_id r" "fr_request_id r' = fr_request_id r" "fr_window_reset_at_ms r' = fr_window_reset_at_ms r"
    and ok: "paid_request_ok r'" and marker: "(p \<noteq> None) = billable r'"
    and moved: "\<And>f. paid_counter_of f w' = paid_counter_of f w - paid_share f r + paid_share f r'"
  shows "paid_inv (commit_row r' w' p l)"
proof (rule commit_inv [OF inv ok marker])
  have found: "map_of (pg_requests l) (paid_slot (fr_key_id r') (fr_request_id r')) = Some r"
    using row paid_row_facts(1,2) [OF inv row] same by (simp add: paid_row_def)
  have window: "request_window r' = request_window r" using same by (simp add: request_window_def)
  show "balanced paid_counter_of paid_share request_window ((pg_windows l)(request_window r' \<mapsto> w'))
      (put (paid_slot (fr_key_id r') (fr_request_id r')) r' (pg_requests l))"
    using paid_shares.balanced_replace [OF paid_invD(1) [OF inv] found window win moved] by (simp add: window)
qed

lemma input_policy_exposure: "ay_maximumExposure (input_policy input) = pi_maximumExposureMicrocredits input"
  by (simp add: input_policy_def)

lemma admission_write_cases:
  assumes "planPaidFallbackAdmissionV3 input (admission_view l input fence) (input_policy input) now = PaidWrite w"
    and "pi_limitMicrocredits input \<noteq> - 1"
  obtains v reservation where
    "v = (case pg_windows l (input_window input) of None \<Rightarrow> defaultPaidFallbackWindowV3 input | Some v \<Rightarrow> v)"
    and "paid_row l (pi_keyId input) (pi_requestId input) = None"
    and "wr_request w = buildPaidFallbackRequestV3 input reservation now"
    and "reservation = min (pi_limitMicrocredits input - fw_settled_microcredits v - fw_reserved_microcredits v)
           (case pi_maximumExposureMicrocredits input of None \<Rightarrow> 0 | Some e \<Rightarrow> e)"
    and "0 < pi_limitMicrocredits input - fw_settled_microcredits v - fw_reserved_microcredits v"
    and "wr_window w = Some ((transitioned_window input (input_policy input) v now)
           \<lparr>fw_reserved_microcredits := fw_reserved_microcredits v + reservation,
             fw_pending_count := fw_pending_count v + 1, fw_updated_at_ms := now\<rparr>)"
proof -
  define v where "v = (case pg_windows l (input_window input) of None \<Rightarrow> defaultPaidFallbackWindowV3 input | Some v \<Rightarrow> v)"
  have absent: "paid_row l (pi_keyId input) (pi_requestId input) = None"
    using assms(1) by (auto simp: planPaidFallbackAdmissionV3_def admission_view_def split: option.splits if_splits)
  have unlimited: "\<not> ay_unlimited (input_policy input)" using assms(2) by (simp add: input_policy_def)
  have t: "fw_limit_microcredits (transitioned_window input (input_policy input) v now) = pi_limitMicrocredits input"
    "fw_settled_microcredits (transitioned_window input (input_policy input) v now) = fw_settled_microcredits v"
    "fw_reserved_microcredits (transitioned_window input (input_policy input) v now) = fw_reserved_microcredits v"
    "fw_pending_count (transitioned_window input (input_policy input) v now) = fw_pending_count v"
    using unlimited by (auto simp: transitioned_window_def policy_changed_def)
  define remaining where "remaining = pi_limitMicrocredits input - fw_settled_microcredits v - fw_reserved_microcredits v"
  define reservation where "reservation = min remaining (case pi_maximumExposureMicrocredits input of None \<Rightarrow> 0 | Some e \<Rightarrow> e)"
  have "0 < remaining \<and> w = buildPaidFallbackAdmissionPlanV3 input (admission_view l input fence) (input_policy input)
      (transitioned_window input (input_policy input) v now) reservation now"
    using assms(1) absent unlimited
    by (auto simp: planPaidFallbackAdmissionV3_def admission_view_def Let_def v_def [symmetric] t remaining_def reservation_def
        input_policy_exposure split: if_splits)
  then show ?thesis
    using absent unlimited t
    by (intro that [of v reservation])
      (simp_all add: v_def [symmetric] remaining_def reservation_def buildPaidFallbackAdmissionPlanV3_def Let_def)
qed

lemma exhausted_cases:
  assumes "planPaidFallbackAdmissionV3 input (admission_view l input fence) (input_policy input) now = PaidExhausted w expireIn checks"
  obtains v where "v = (case pg_windows l (input_window input) of None \<Rightarrow> defaultPaidFallbackWindowV3 input | Some v \<Rightarrow> v)"
    and "w = transitioned_window input (input_policy input) v now" and "policy_changed input (input_policy input) v"
  using assms
  by (auto simp: planPaidFallbackAdmissionV3_def admission_view_def Let_def split: option.splits if_splits)

lemma transitioned_counters: "paid_counter_of f (transitioned_window input policy v now) = paid_counter_of f v"
  by (cases f) (simp_all add: transitioned_window_def)

lemma paid_admit_inv:
  assumes inv: "paid_inv l" and lim: "pi_limitMicrocredits input \<noteq> - 1" and initial: "pi_initialSettledMicrocredits input = 0"
    and valid: "\<not> isInvalidAdmissionPolicy input (pi_limitMicrocredits input = - 1) (pi_maximumExposureMicrocredits input)"
    and plan: "planPaidFallbackAdmissionV3 input (admission_view l input fence) (input_policy input) now = PaidWrite w"
  shows "paid_inv (apply_admission input w l)"
proof -
  obtain v reservation where v: "v = (case pg_windows l (input_window input) of None \<Rightarrow> defaultPaidFallbackWindowV3 input | Some v \<Rightarrow> v)"
    and absent: "paid_row l (pi_keyId input) (pi_requestId input) = None"
    and r: "wr_request w = buildPaidFallbackRequestV3 input reservation now"
    and reservation: "reservation = min (pi_limitMicrocredits input - fw_settled_microcredits v - fw_reserved_microcredits v)
           (case pi_maximumExposureMicrocredits input of None \<Rightarrow> 0 | Some e \<Rightarrow> e)"
    and room: "0 < pi_limitMicrocredits input - fw_settled_microcredits v - fw_reserved_microcredits v"
    and w: "wr_window w = Some ((transitioned_window input (input_policy input) v now)
           \<lparr>fw_reserved_microcredits := fw_reserved_microcredits v + reservation,
             fw_pending_count := fw_pending_count v + 1, fw_updated_at_ms := now\<rparr>)"
    by (rule admission_write_cases [OF plan lim], rule that)
  define w' where "w' = (transitioned_window input (input_policy input) v now)
           \<lparr>fw_reserved_microcredits := fw_reserved_microcredits v + reservation,
             fw_pending_count := fw_pending_count v + 1, fw_updated_at_ms := now\<rparr>"
  let ?r = "wr_request w"
  have pos: "0 \<le> reservation"
    using valid lim room by (auto simp: reservation isInvalidAdmissionPolicy_def split: option.splits)
  have facts: "request_window ?r = input_window input" "billable ?r" "fr_reserved_microcredits ?r = reservation" "billed ?r = 0"
    "fr_key_id ?r = pi_keyId input" "fr_request_id ?r = pi_requestId input"
    by (simp_all add: r buildPaidFallbackRequestV3_def request_window_def input_window_def billable_def billed_def)
  have counters: "paid_counter_of f w' = paid_counter_of f v + paid_share f ?r" for f
    using transitioned_counters [of f input "input_policy input" v now] facts by (cases f) (simp_all add: w'_def)
  have none: "map_of (pg_requests l) (paid_slot (fr_key_id ?r) (fr_request_id ?r)) = None" using absent facts by (simp add: paid_row_def)
  have "balanced paid_counter_of paid_share request_window ((pg_windows l)(request_window ?r \<mapsto> w'))
      (put (paid_slot (fr_key_id ?r) (fr_request_id ?r)) ?r (pg_requests l))"
  proof (cases "pg_windows l (input_window input)")
    case None
    then have "paid_counter_of f v = 0" for f
      using initial by (cases f) (simp_all add: v defaultPaidFallbackWindowV3_def)
    with None facts(1) counters show ?thesis
      by (intro paid_shares.balanced_insert_fresh [OF paid_invD(1,2) [OF inv] none]) simp_all
  next
    case (Some u)
    with v facts(1) counters show ?thesis
      by (intro paid_shares.balanced_insert [OF paid_invD(1) [OF inv] none]) simp_all
  qed
  then have "paid_inv (commit_row ?r w' (Some (wr_pending w)) l)"
    using facts pos by (intro commit_inv [OF inv]) (simp_all add: paid_request_ok_def)
  then show ?thesis by (simp add: apply_admission_def commit_row_def facts(1) w w'_def)
qed

lemma exhausted_inv:
  assumes inv: "paid_inv l" and initial: "pi_initialSettledMicrocredits input = 0"
    and plan: "planPaidFallbackAdmissionV3 input (admission_view l input fence) (input_policy input) now = PaidExhausted w expireIn checks"
  shows "paid_inv (put_window (input_window input) (Some w) l)"
proof -
  let ?i = "input_window input"
  obtain v where v: "v = (case pg_windows l ?i of None \<Rightarrow> defaultPaidFallbackWindowV3 input | Some v \<Rightarrow> v)"
    and w: "w = transitioned_window input (input_policy input) v now"
    by (rule exhausted_cases [OF plan], rule that)
  have held: "paid_counter_of f w = holdings (paid_share f) request_window ?i (pg_requests l)" for f
  proof (cases "pg_windows l ?i")
    case None
    have "holdings (paid_share f) request_window ?i (pg_requests l) = 0"
      using paid_invD(2) [OF inv] None by (intro holdings_absent) (auto simp: backed_def)
    moreover have "paid_counter_of f v = 0" using None initial by (cases f) (simp_all add: v defaultPaidFallbackWindowV3_def)
    ultimately show ?thesis by (simp add: w transitioned_counters)
  next
    case (Some u)
    with paid_invD(1) [OF inv] have "paid_counter_of f u = holdings (paid_share f) request_window ?i (pg_requests l)"
      unfolding balanced_def by blast
    with Some show ?thesis by (simp add: w v transitioned_counters)
  qed
  have "balanced paid_counter_of paid_share request_window ((pg_windows l)(?i \<mapsto> w)) (pg_requests l)"
    using paid_invD(1) [OF inv] held unfolding balanced_def by (auto split: if_splits)
  then show ?thesis
    using paid_invD(3,4,5) [OF inv] backed_update [OF paid_invD(2) [OF inv]]
    by (simp add: put_window_def paid_inv_def markers_right_def paid_row_def)
qed

text \<open>A row is rewritten in place: the window is the same and the marker is there exactly when it was.\<close>

lemma in_place_inv:
  assumes inv: "paid_inv l" and row: "paid_row l k q = Some r" and p: "(p \<noteq> None) = (pg_pending l (k, q) \<noteq> None)"
    and same: "fr_key_id r' = fr_key_id r" "fr_request_id r' = fr_request_id r" "fr_window_reset_at_ms r' = fr_window_reset_at_ms r"
      "fr_reserved_microcredits r' = fr_reserved_microcredits r" "fr_spend_microcredits r' = fr_spend_microcredits r"
    and state: "billable r' = billable r" "billed r' = billed r"
  shows "paid_inv (mark_pending r' p (put_request r' l))"
proof -
  obtain w where win: "pg_windows l (request_window r) = Some w" using paid_row_facts(4) [OF inv row] by blast
  have marker: "(p \<noteq> None) = billable r'"
    using paid_invD(5) [OF inv] row p state by (auto simp: markers_right_def)
  have share: "paid_counter_of f w = paid_counter_of f w - paid_share f r + paid_share f r'" for f
    using same state by (cases f) simp_all
  have "paid_inv (commit_row r' w p l)"
    using paid_row_facts(3) [OF inv row] same(4) state
    by (intro rewrite_inv [OF inv row win same(1,2,3) _ marker share]) (simp add: paid_request_ok_def)
  moreover have "commit_row r' w p l = mark_pending r' p (put_request r' l)"
    using win same by (simp add: commit_row_def put_window_def mark_pending_def put_request_def request_window_def fun_upd_idem)
  ultimately show ?thesis by simp
qed

lemma lifecycle_row:
  assumes "planPaidFallbackLifecycleV3 r patch now = Some lc"
  shows "fr_key_id (lc_request lc) = fr_key_id r" and "fr_request_id (lc_request lc) = fr_request_id r"
    and "fr_window_reset_at_ms (lc_request lc) = fr_window_reset_at_ms r"
    and "fr_reserved_microcredits (lc_request lc) = fr_reserved_microcredits r"
    and "fr_spend_microcredits (lc_request lc) = fr_spend_microcredits r" and "fr_billing_state (lc_request lc) = fr_billing_state r"
  using assms by (auto simp: planPaidFallbackLifecycleV3_def Let_def buildRequestLifecycleRowV3_def split: if_splits)

lemma lifecycle_inv:
  assumes inv: "paid_inv l" and row: "paid_row l k q = Some r" and plan: "planPaidFallbackLifecycleV3 r patch now = Some lc"
  shows "paid_inv (put_request (lc_request lc) l)"
proof -
  note same = lifecycle_row [OF plan]
  have "paid_inv (mark_pending (lc_request lc) (pg_pending l (k, q)) (put_request (lc_request lc) l))"
    by (rule in_place_inv [OF inv row]) (simp_all add: same billable_def billed_def)
  moreover have "mark_pending (lc_request lc) (pg_pending l (k, q)) (put_request (lc_request lc) l) = put_request (lc_request lc) l"
    using paid_row_facts(1,2) [OF inv row] same by (simp add: mark_pending_def put_request_def fun_upd_idem)
  ultimately show ?thesis by simp
qed

lemma defer_cases:
  assumes "planPaidFallbackDeferralV3 (Some r) pending now = DeferWrite r' p' delay expireIn"
  shows "billable r" and "pending \<noteq> None"
    and "r' = r\<lparr>fr_reconciliation_attempts := fr_reconciliation_attempts r + 1, fr_last_reconciliation_at_ms := Some now,
      fr_billing_state := (if UNRESOLVED_AFTER_MS \<le> now - fr_created_at_ms r then BillingUnresolved else fr_billing_state r), fr_updated_at_ms := now\<rparr>"
  using assms by (auto simp: planPaidFallbackDeferralV3_def Let_def billable_def split: option.splits if_splits)

lemma defer_inv:
  assumes inv: "paid_inv l" and row: "paid_row l k q = Some r"
    and plan: "planPaidFallbackDeferralV3 (Some r) (pg_pending l (k, q)) now = DeferWrite r' p' delay expireIn"
  shows "paid_inv (mark_pending r' (Some p') (put_request r' l))"
  using defer_cases [OF plan]
  by (intro in_place_inv [OF inv row]) (simp_all add: billable_def billed_def)

text \<open>A released or settled row takes its reservation off the window and loses its marker.\<close>

lemma discharge_inv:
  assumes inv: "paid_inv l" and row: "paid_row l k q = Some r" and open_row: "billable r"
    and same: "fr_key_id (re_request plan) = fr_key_id r" "fr_request_id (re_request plan) = fr_request_id r"
      "fr_window_reset_at_ms (re_request plan) = fr_window_reset_at_ms r"
      "fr_reserved_microcredits (re_request plan) = fr_reserved_microcredits r"
    and closed: "\<not> billable (re_request plan)" and spent: "billed (re_request plan) = spend" "0 \<le> spend"
    and window: "re_window plan = map_option (\<lambda>w. discharged_window w r spend now) (pg_windows l (request_window r))"
  shows "paid_inv (apply_release r plan l)"
proof -
  obtain w where win: "pg_windows l (request_window r) = Some w" using paid_row_facts(4) [OF inv row] by blast
  have ok: "paid_request_ok r" by (rule paid_row_facts(3) [OF inv row])
  have found: "map_of (pg_requests l) (paid_slot k q) = Some r" using row by (simp add: paid_row_def)
  have covers: "paid_share f r \<le> paid_counter_of f w" for f
    by (rule paid_shares.counter_covers_row [OF paid_invD(1,3) [OF inv] found win])
  have "fr_reserved_microcredits r \<le> fw_reserved_microcredits w" "1 \<le> fw_pending_count w"
    using covers [of PaidReservedCounter] covers [of PaidPendingCounter] open_row by simp_all
  then have moved: "paid_counter_of f (discharged_window w r spend now) = paid_counter_of f w - paid_share f r + paid_share f (re_request plan)" for f
    using open_row closed spent by (cases f) (auto simp: discharged_window_def billed_def billable_def)
  have "paid_inv (commit_row (re_request plan) (discharged_window w r spend now) None l)"
    using ok closed spent same(4)
    by (intro rewrite_inv [OF inv row win same(1,2,3) _ _ moved]) (simp_all add: paid_request_ok_def)
  moreover have "commit_row (re_request plan) (discharged_window w r spend now) None l = apply_release r plan l"
    using same win by (simp add: apply_release_def commit_row_def window request_window_def mark_pending_def put_request_def)
  ultimately show ?thesis by simp
qed

lemma release_cases:
  assumes "planPaidFallbackReleaseV3 (release_view l r gate) allowDispatchIntent now = Some plan"
  shows "fr_billing_state r = BillingPending" and "fr_provider_request_id r = None"
    and "re_request plan = r\<lparr>fr_dispatch_state := PaidNotDispatched, fr_terminal_state := TerminalCancelled, fr_spend_microcredits := Some 0,
      fr_billing_state := NotBilled, fr_terminal_at_ms := (case fr_terminal_at_ms r of None \<Rightarrow> Some now | Some t \<Rightarrow> Some t), fr_updated_at_ms := now\<rparr>"
    and "re_window plan = map_option (\<lambda>w. discharged_window w r 0 now) (pg_windows l (request_window r))"
  using assms by (auto simp: planPaidFallbackReleaseV3_def release_view_def split: if_splits)

lemma paid_release_inv:
  assumes inv: "paid_inv l" and row: "paid_row l k q = Some r"
    and plan: "planPaidFallbackReleaseV3 (release_view l r gate) allowDispatchIntent now = Some plan"
  shows "paid_inv (apply_release r plan l)"
  using release_cases [OF plan]
  by (intro discharge_inv [OF inv row, where spend = 0 and now = now]) (simp_all add: billable_def billed_def)

lemma paid_settle_cases:
  assumes "evaluatePaidFallbackSettlementV3 (Some r) pending providerLog metadata = EvalSettle spend"
    and "planPaidFallbackSettlementRowsV3 (release_view l r gate) providerLog spend foldIntoRollup now = Inr plan"
  shows "billable r" and "pending \<noteq> None" and "0 \<le> spend"
    and "\<exists>t. re_request plan = buildSettledRequestRowV3 r providerLog spend t foldIntoRollup now"
    and "re_window plan = map_option (\<lambda>w. discharged_window w r spend now) (pg_windows l (request_window r))"
  using assms
  by (auto simp: evaluatePaidFallbackSettlementV3_def isBillableRequestV3_def billable_def planPaidFallbackSettlementRowsV3_def
      release_view_def Let_def split: if_splits option.splits)

lemma paid_settle_inv:
  assumes inv: "paid_inv l" and row: "paid_row l k q = Some r"
    and eval: "evaluatePaidFallbackSettlementV3 (Some r) (pg_pending l (k, q)) providerLog metadata = EvalSettle spend"
    and plan: "planPaidFallbackSettlementRowsV3 (release_view l r gate) providerLog spend foldIntoRollup now = Inr plan"
  shows "paid_inv (apply_release r plan l)"
proof -
  note c = paid_settle_cases [OF eval plan]
  from c(4) obtain t where t: "re_request plan = buildSettledRequestRowV3 r providerLog spend t foldIntoRollup now" ..
  show ?thesis
    by (rule discharge_inv [OF inv row c(1), where spend = spend and now = now])
      (simp_all add: t buildSettledRequestRowV3_def billable_def billed_def c(3,5))
qed

interpretation paid_machine: machine "paid_step (limited admits) bills" paid_inv for admits bills
proof
  fix s t assume inv: "paid_inv s" and step: "paid_step (limited admits) bills s t"
  from step show "paid_inv t"
    by (cases rule: paid_step.cases)
      (auto simp: limited_def intro: paid_admit_inv exhausted_inv lifecycle_inv paid_release_inv defer_inv paid_settle_inv inv)
qed

end
