(* ===== verification/Paid_Guarantees.thy ===== *)
theory Paid_Guarantees
  imports Paid_Ledger
begin

text \<open>
  What the paid ledger guarantees: exact counters and markers, a budget that holds as long as no
  provider bills more than was reserved, settlement at most once, totals of the usage rollups, and an
  edge where the number of pending requests of a window is too small.
\<close>

section \<open>Rows keep their place\<close>

definition rows_placed :: "paid_ledger \<Rightarrow> bool" where
  "rows_placed l \<longleftrightarrow> (\<forall>h r. map_of (pg_requests l) h = Some r \<longrightarrow> h = paid_slot (fr_key_id r) (fr_request_id r))"

lemma put_window_rows [simp]: "pg_requests (put_window i w l) = pg_requests l" "paid_row (put_window i w l) k q = paid_row l k q"
  by (simp_all add: put_window_def paid_row_def split: option.split)

lemma mark_pending_rows [simp]: "pg_requests (mark_pending r p l) = pg_requests l" "paid_row (mark_pending r p l) k q = paid_row l k q"
  by (simp_all add: mark_pending_def paid_row_def)

lemma put_request_row [simp]:
  "paid_row (put_request r l) k q = (if k = fr_key_id r \<and> q = fr_request_id r then Some r else paid_row l k q)"
  by (simp add: put_request_def paid_row_def paid_slot_inj)

text \<open>The row a step writes, if any: a new one under a free identity, or a later version of a stored one.\<close>

inductive row_write :: "paid_ledger \<Rightarrow> paid_request \<Rightarrow> bool" for l where
  RW_new: "paid_row l (fr_key_id r) (fr_request_id r) = None \<Longrightarrow> row_write l r"
| RW_later: "paid_row l (fr_key_id r') (fr_request_id r') = Some r \<Longrightarrow>
    (\<not> billable r \<longrightarrow> fr_billing_state r' = fr_billing_state r \<and> fr_spend_microcredits r' = fr_spend_microcredits r) \<Longrightarrow> row_write l r'"

lemma placed_row: "rows_placed l \<Longrightarrow> paid_row l k q = Some r \<Longrightarrow> fr_key_id r = k \<and> fr_request_id r = q"
  by (simp add: rows_placed_def paid_row_def) (metis paid_slot_inj)

lemma step_writes:
  assumes placed: "rows_placed l" and step: "paid_step admits bills l m"
  shows "pg_requests m = pg_requests l \<or> (\<exists>r. row_write l r \<and> pg_requests m = pg_requests (put_request r l))"
  using step
proof (cases rule: paid_step.cases)
  case (P_admit input fence now w)
  from P_admit(5) have absent: "paid_row l (pi_keyId input) (pi_requestId input) = None"
    by (auto simp: planPaidFallbackAdmissionV3_def admission_view_def split: option.splits if_splits)
  from P_admit(5) have "\<exists>n. wr_request w = buildPaidFallbackRequestV3 input n now"
    by (auto simp: planPaidFallbackAdmissionV3_def buildPaidFallbackAdmissionPlanV3_def Let_def split: option.splits if_splits)
  with absent have "row_write l (wr_request w)" by (auto simp: buildPaidFallbackRequestV3_def intro: RW_new)
  moreover have "pg_requests m = pg_requests (put_request (wr_request w) l)" by (simp add: P_admit(1) apply_admission_def)
  ultimately show ?thesis by blast
next
  case (P_exhausted input fence now w expireIn checks)
  then show ?thesis by simp
next
  case (P_lifecycle k q r patch now lc)
  note same = lifecycle_row [OF P_lifecycle(3)]
  have "row_write l (lc_request lc)"
    using placed_row [OF placed P_lifecycle(2)] P_lifecycle(2) same by (intro RW_later [of _ _ r]) simp_all
  with P_lifecycle(1) show ?thesis by blast
next
  case (P_release k q r gate allow now plan)
  note c = release_cases [OF P_release(3)]
  have "row_write l (re_request plan)"
    using placed_row [OF placed P_release(2)] P_release(2) c by (intro RW_later [of _ _ r]) (simp_all add: billable_def)
  moreover have "pg_requests m = pg_requests (put_request (re_request plan) l)" by (simp add: P_release(1) apply_release_def)
  ultimately show ?thesis by blast
next
  case (P_defer k q r now r' p' delay expireIn)
  note c = defer_cases [OF P_defer(3)]
  have "row_write l r'"
    using placed_row [OF placed P_defer(2)] P_defer(2) c by (intro RW_later [of _ _ r]) simp_all
  moreover have "pg_requests m = pg_requests (put_request r' l)" by (simp add: P_defer(1))
  ultimately show ?thesis by blast
next
  case (P_settle k q r providerLog metadata spend gate fold now plan)
  note c = paid_settle_cases [OF P_settle(3,5)]
  from c(4) obtain t where t: "re_request plan = buildSettledRequestRowV3 r providerLog spend t fold now" ..
  have "row_write l (re_request plan)"
    using placed_row [OF placed P_settle(2)] P_settle(2) c(1) by (intro RW_later [of _ _ r]) (simp_all add: t buildSettledRequestRowV3_def)
  moreover have "pg_requests m = pg_requests (put_request (re_request plan) l)" by (simp add: P_settle(1) apply_release_def)
  ultimately show ?thesis by blast
qed

lemma placed_put: "rows_placed l \<Longrightarrow> rows_placed (put_request r l)"
  by (simp add: rows_placed_def put_request_def)

interpretation paid_places: machine "paid_step admits bills" rows_placed for admits bills
proof
  fix s t assume placed: "rows_placed s" and step: "paid_step admits bills s t"
  from step_writes [OF placed step] placed_put [OF placed] placed show "rows_placed t"
    by (auto simp: rows_placed_def)
qed

text \<open>A window carries the key and the reset time it is stored under.\<close>

definition windows_named :: "paid_ledger \<Rightarrow> bool" where
  "windows_named l \<longleftrightarrow> (\<forall>i w. pg_windows l i = Some w \<longrightarrow> i = (fw_key_id w, fw_window_reset_at_ms w))"

lemma named_put: "windows_named l \<Longrightarrow> (\<And>v. w = Some v \<Longrightarrow> i = (fw_key_id v, fw_window_reset_at_ms v)) \<Longrightarrow> windows_named (put_window i w l)"
  unfolding windows_named_def put_window_def by (cases w) simp_all

lemma named_window: "windows_named l \<Longrightarrow> pg_windows l i = Some w \<Longrightarrow> i = (fw_key_id w, fw_window_reset_at_ms w)"
  unfolding windows_named_def by blast

lemma put_request_windows [simp]: "windows_named (put_request r l) = windows_named l" "windows_named (mark_pending r p l) = windows_named l"
  by (simp_all add: windows_named_def put_request_def mark_pending_def)

lemma chosen_window_named:
  assumes "windows_named l" and "v = (case pg_windows l (input_window input) of None \<Rightarrow> defaultPaidFallbackWindowV3 input | Some v \<Rightarrow> v)"
  shows "input_window input = (fw_key_id (transitioned_window input policy v now), fw_window_reset_at_ms (transitioned_window input policy v now))"
  using named_window [OF assms(1), of "input_window input" v] assms(2)
  by (cases "pg_windows l (input_window input)") (simp_all add: transitioned_window_def defaultPaidFallbackWindowV3_def input_window_def)

lemma discharged_named:
  "windows_named l \<Longrightarrow> map_option (\<lambda>w. discharged_window w r spend now) (pg_windows l i) = Some v \<Longrightarrow>
     i = (fw_key_id v, fw_window_reset_at_ms v)"
  using named_window [of l i] by (auto simp: discharged_window_def)

interpretation paid_names: machine "paid_step (limited admits) bills" windows_named for admits bills
proof
  fix s t assume named: "windows_named s" and step: "paid_step (limited admits) bills s t"
  from step show "windows_named t"
  proof (cases rule: paid_step.cases)
    case (P_admit input fence now w)
    from P_admit(2) have lim: "pi_limitMicrocredits input \<noteq> - 1" by (simp add: limited_def)
    obtain v where v: "v = (case pg_windows s (input_window input) of None \<Rightarrow> defaultPaidFallbackWindowV3 input | Some v \<Rightarrow> v)"
      and w: "\<exists>x y. wr_window w = Some ((transitioned_window input (input_policy input) v now)
        \<lparr>fw_reserved_microcredits := x, fw_pending_count := y, fw_updated_at_ms := now\<rparr>)"
      by (rule admission_write_cases [OF P_admit(5) lim]) blast
    show ?thesis
      using w chosen_window_named [OF named v, of "input_policy input" now]
      unfolding P_admit(1) apply_admission_def by (intro named_put) (auto simp: named)
  next
    case (P_exhausted input fence now w expireIn checks)
    obtain v where v: "v = (case pg_windows s (input_window input) of None \<Rightarrow> defaultPaidFallbackWindowV3 input | Some v \<Rightarrow> v)"
      and w: "w = transitioned_window input (input_policy input) v now"
      by (rule exhausted_cases [OF P_exhausted(5)], rule that)
    show ?thesis
      using chosen_window_named [OF named v, of "input_policy input" now] unfolding P_exhausted(1) w by (intro named_put) (simp_all add: named)
  next
    case (P_release k q r gate allow now plan)
    note win = release_cases(4) [OF P_release(3)]
    show ?thesis unfolding P_release(1) apply_release_def win
      by (rule named_put) (use named in \<open>auto dest: discharged_named simp del: map_option_eq_Some\<close>)
  next
    case (P_settle k q r providerLog metadata spend gate fold now plan)
    note win = paid_settle_cases(5) [OF P_settle(3,5)]
    show ?thesis unfolding P_settle(1) apply_release_def win
      by (rule named_put) (use named in \<open>auto dest: discharged_named simp del: map_option_eq_Some\<close>)
  qed (use named in simp_all)
qed

section \<open>A sample ledger\<close>

definition paid_demo_input :: "string \<Rightarrow> int \<Rightarrow> paid_admission_input" where
  "paid_demo_input requestId limit = \<lparr>pi_keyId = ''key'', pi_requestId = requestId, pi_createdAtMs = 10, pi_policyVersion = ''v1'',
     pi_limitMicrocredits = limit, pi_maximumExposureMicrocredits = Some 60, pi_initialSettledMicrocredits = 0, pi_quotaPerCredit = 500,
     pi_windowResetAtMs = 1000, pi_model = ''gpt'', pi_route = ''/v1'', pi_path = ''/v1'', pi_stream = False, pi_reasoning = None,
     pi_dispatchIntent = False\<rparr>"

definition demo_admit :: "paid_admission_input \<Rightarrow> int \<Rightarrow> paid_ledger \<Rightarrow> paid_ledger" where
  "demo_admit input now l =
     (case planPaidFallbackAdmissionV3 input (admission_view l input None) (input_policy input) now of
        PaidWrite w \<Rightarrow> apply_admission input w l | _ \<Rightarrow> l)"

definition demo_release :: "string \<Rightarrow> int \<Rightarrow> paid_ledger \<Rightarrow> paid_ledger" where
  "demo_release requestId now l =
     (case paid_row l ''key'' requestId of
        None \<Rightarrow> l
      | Some r \<Rightarrow> (case planPaidFallbackReleaseV3 (release_view l r JNull) True now of
                      None \<Rightarrow> l | Some plan \<Rightarrow> apply_release r plan l))"

definition demo_log :: provider_log where
  "demo_log = \<lparr>lg_request_id = ''p'', lg_quota = 1, lg_prompt_tokens = 7, lg_cached_prompt_tokens = None, lg_completion_tokens = 3, lg_created_at = 1\<rparr>"

definition demo_metadata :: settlement_metadata where
  "demo_metadata = \<lparr>sm_correlation = BySurplusReservation, sm_microcreditsPerCredit = 1, sm_surplusBuyerCostMicro = Some 45\<rparr>"

definition demo_patch :: lifecycle_patch where
  "demo_patch = \<lparr>lp_provider = Some PaidSurplus, lp_provider_request_id = None, lp_dispatch_state = Some PaidDispatched,
     lp_terminal_state = Some TerminalCompleted, lp_reconciliation_attempts = None, lp_last_reconciliation_at_ms = None,
     lp_increment_reconciliation_attempts = True\<rparr>"

definition demo_lifecycle :: "string \<Rightarrow> int \<Rightarrow> paid_ledger \<Rightarrow> paid_ledger" where
  "demo_lifecycle requestId now l =
     (case paid_row l ''key'' requestId of
        None \<Rightarrow> l
      | Some r \<Rightarrow> (case planPaidFallbackLifecycleV3 r demo_patch now of None \<Rightarrow> l | Some lc \<Rightarrow> put_request (lc_request lc) l))"

definition demo_settle :: "string \<Rightarrow> int \<Rightarrow> paid_ledger \<Rightarrow> paid_ledger" where
  "demo_settle requestId now l =
     (case paid_row l ''key'' requestId of
        None \<Rightarrow> l
      | Some r \<Rightarrow>
          (case evaluatePaidFallbackSettlementV3 (Some r) (pg_pending l (''key'', requestId)) demo_log demo_metadata of
             EvalSettle spend \<Rightarrow>
               (case planPaidFallbackSettlementRowsV3 (release_view l r JNull) demo_log spend False now of
                  Inr plan \<Rightarrow> apply_release r plan l | Inl e \<Rightarrow> l)
           | _ \<Rightarrow> l))"

definition within_reservation :: "paid_request \<Rightarrow> int \<Rightarrow> bool" where
  "within_reservation r spend \<longleftrightarrow> spend \<le> fr_reserved_microcredits r"

lemma demo_admit_run:
  assumes "admits input" and "pi_initialSettledMicrocredits input = 0"
    and "\<not> isInvalidAdmissionPolicy input (pi_limitMicrocredits input = - 1) (pi_maximumExposureMicrocredits input)"
    and "(paid_step admits bills)\<^sup>*\<^sup>* k l"
  shows "(paid_step admits bills)\<^sup>*\<^sup>* k (demo_admit input now l)"
proof (cases "planPaidFallbackAdmissionV3 input (admission_view l input None) (input_policy input) now")
  case (PaidWrite w)
  from P_admit [where admits = admits and bills = bills, OF assms(1-3) PaidWrite] assms(4) PaidWrite show ?thesis by (simp add: demo_admit_def)
qed (use assms(4) in \<open>simp_all add: demo_admit_def\<close>)

lemma demo_release_run:
  assumes "(paid_step admits bills)\<^sup>*\<^sup>* k l"
  shows "(paid_step admits bills)\<^sup>*\<^sup>* k (demo_release requestId now l)"
proof (cases "paid_row l ''key'' requestId")
  case (Some r)
  show ?thesis
  proof (cases "planPaidFallbackReleaseV3 (release_view l r JNull) True now")
    case (Some plan)
    from P_release [where admits = admits and bills = bills, OF \<open>paid_row l ''key'' requestId = Some r\<close> Some] assms Some \<open>paid_row l ''key'' requestId = Some r\<close>
    show ?thesis by (simp add: demo_release_def)
  qed (use Some assms in \<open>simp add: demo_release_def\<close>)
qed (use assms in \<open>simp add: demo_release_def\<close>)

lemma demo_lifecycle_run:
  assumes "(paid_step admits bills)\<^sup>*\<^sup>* k l"
  shows "(paid_step admits bills)\<^sup>*\<^sup>* k (demo_lifecycle requestId now l)"
proof (cases "paid_row l ''key'' requestId")
  case (Some r)
  show ?thesis
  proof (cases "planPaidFallbackLifecycleV3 r demo_patch now")
    case (Some lc)
    from P_lifecycle [where admits = admits and bills = bills, OF \<open>paid_row l ''key'' requestId = Some r\<close> Some] assms Some \<open>paid_row l ''key'' requestId = Some r\<close>
    show ?thesis by (simp add: demo_lifecycle_def)
  qed (use Some assms in \<open>simp add: demo_lifecycle_def\<close>)
qed (use assms in \<open>simp add: demo_lifecycle_def\<close>)

lemma demo_settle_run:
  assumes run: "(paid_step admits bills)\<^sup>*\<^sup>* k l" and bills: "case paid_row l ''key'' requestId of None \<Rightarrow> True | Some r \<Rightarrow> bills r 45"
  shows "(paid_step admits bills)\<^sup>*\<^sup>* k (demo_settle requestId now l)"
proof (cases "paid_row l ''key'' requestId")
  case (Some r)
  show ?thesis
  proof (cases "evaluatePaidFallbackSettlementV3 (Some r) (pg_pending l (''key'', requestId)) demo_log demo_metadata")
    case (EvalSettle spend)
    then have "spend = 45"
      by (auto simp: evaluatePaidFallbackSettlementV3_def settlement_spend_def demo_metadata_def as_integer_Some split: if_splits option.splits)
    with bills Some have b: "bills r spend" by simp
    show ?thesis
    proof (cases "planPaidFallbackSettlementRowsV3 (release_view l r JNull) demo_log spend False now")
      case (Inr plan)
      from P_settle [where admits = admits and bills = bills, OF Some EvalSettle b Inr] run Some EvalSettle Inr show ?thesis by (simp add: demo_settle_def)
    qed (use Some EvalSettle run in \<open>simp add: demo_settle_def\<close>)
  qed (use Some run in \<open>simp_all add: demo_settle_def\<close>)
qed (use run in \<open>simp add: demo_settle_def\<close>)

definition paid_demo :: paid_ledger where
  "paid_demo = demo_admit (paid_demo_input ''r2'' 100) 40 (demo_settle ''r1'' 30 (demo_lifecycle ''r1'' 20 (demo_admit (paid_demo_input ''r1'' 100) 10 no_paid)))"

lemma paid_demo_input_valid:
  "0 < limit \<Longrightarrow> limit \<le> 1000 \<Longrightarrow> pi_initialSettledMicrocredits (paid_demo_input q limit) = 0 \<and>
   \<not> isInvalidAdmissionPolicy (paid_demo_input q limit) (pi_limitMicrocredits (paid_demo_input q limit) = - 1)
       (pi_maximumExposureMicrocredits (paid_demo_input q limit))"
  by (simp add: paid_demo_input_def isInvalidAdmissionPolicy_def is_safe_integer_def max_safe_integer_def)

lemma paid_demo_run: "(paid_step (limited (\<lambda>input. pi_limitMicrocredits input = 100)) within_reservation)\<^sup>*\<^sup>* no_paid paid_demo"
  unfolding paid_demo_def
proof (intro demo_admit_run demo_settle_run demo_lifecycle_run rtranclp.rtrancl_refl)
  show "case paid_row (demo_lifecycle ''r1'' 20 (demo_admit (paid_demo_input ''r1'' 100) 10 no_paid)) ''key'' ''r1'' of
      None \<Rightarrow> True | Some r \<Rightarrow> within_reservation r 45" by code_simp
qed (use paid_demo_input_valid [of 100] in \<open>simp_all add: limited_def paid_demo_input_def\<close>)

definition paid_demo_window :: paid_window where
  "paid_demo_window = \<lparr>fw_key_id = ''key'', fw_policy_version = ''v1'', fw_window_reset_at_ms = 1000, fw_limit_microcredits = 100,
     fw_settled_microcredits = 45, fw_reserved_microcredits = 55, fw_pending_count = 1, fw_updated_at_ms = 40\<rparr>"

lemma paid_demo_window: "pg_windows paid_demo (''key'', 1000) = Some paid_demo_window"
  by code_simp

section \<open>The audit of a window\<close>

text \<open>
  The migration tool recomputes the aggregates of a window from the request rows
  (\<^verbatim>\<open>auditPaidFallbackWindows\<close> in \<^verbatim>\<open>src/src/cache/kv-migration-paid-fallback.ts\<close>) and reports a window
  whose counters differ.
\<close>

definition rows_of_window :: "paid_window \<Rightarrow> paid_request list \<Rightarrow> paid_request list" where
  "rows_of_window w = filter (\<lambda>r. fr_key_id r = fw_key_id w \<and> fr_window_reset_at_ms r = fw_window_reset_at_ms w)"

definition outstanding_rows :: "paid_window \<Rightarrow> paid_request list \<Rightarrow> paid_request list" where
  "outstanding_rows w rows = filter (\<lambda>r. fr_billing_state r = BillingPending \<or> fr_billing_state r = BillingUnresolved) (rows_of_window w rows)"

definition settled_rows :: "paid_window \<Rightarrow> paid_request list \<Rightarrow> paid_request list" where
  "settled_rows w rows = filter (\<lambda>r. fr_billing_state r = BillingSettled) (rows_of_window w rows)"

definition reserved_total :: "paid_window \<Rightarrow> paid_request list \<Rightarrow> int" where
  "reserved_total w rows = sum_list (map fr_reserved_microcredits (outstanding_rows w rows))"

definition settled_total :: "paid_window \<Rightarrow> paid_request list \<Rightarrow> int" where
  "settled_total w rows = sum_list (map (\<lambda>r. case fr_spend_microcredits r of None \<Rightarrow> 0 | Some s \<Rightarrow> s) (settled_rows w rows))"

definition auditPaidFallbackWindow :: "paid_window \<Rightarrow> paid_request list \<Rightarrow> bool" where
  "auditPaidFallbackWindow w rows \<longleftrightarrow>
     is_safe_integer (reserved_total w rows) \<and> is_safe_integer (settled_total w rows) \<and>
     fw_pending_count w = int (length (outstanding_rows w rows)) \<and>
     fw_reserved_microcredits w = reserved_total w rows \<and> fw_settled_microcredits w = settled_total w rows"

lemma holdings_list: "holdings sh key k rows = sum_list (map sh (filter (\<lambda>r. key r = k) (vals rows)))"
  by (induction rows) (simp_all add: holdings_def dtotal_def vals_def)

lemma sum_filter: "sum_list (map (\<lambda>x. if P x then f x else 0) xs) = sum_list (map f (filter P xs))"
  by (induction xs) simp_all

lemma billable_states: "billable r \<longleftrightarrow> fr_billing_state r = BillingPending \<or> fr_billing_state r = BillingUnresolved"
  by (cases "fr_billing_state r") (simp_all add: billable_def)

lemma audited_counters:
  assumes inv: "paid_inv l" and named: "windows_named l" and win: "pg_windows l i = Some w"
  shows "fw_reserved_microcredits w = reserved_total w (vals (pg_requests l))"
    and "fw_settled_microcredits w = settled_total w (vals (pg_requests l))"
    and "fw_pending_count w = int (length (outstanding_rows w (vals (pg_requests l))))"
proof -
  have i: "i = (fw_key_id w, fw_window_reset_at_ms w)" by (rule named_window [OF named win])
  have rows: "filter (\<lambda>r. request_window r = i) rs = rows_of_window w rs" for rs
    by (simp add: rows_of_window_def request_window_def i)
  have held: "paid_counter_of f w = sum_list (map (paid_share f) (rows_of_window w (vals (pg_requests l))))" for f
    using paid_invD(1) [OF inv] win unfolding balanced_def holdings_list rows [symmetric] by blast
  have shares: "paid_share PaidReservedCounter = (\<lambda>r. if billable r then fr_reserved_microcredits r else 0)"
    "paid_share PaidSettledCounter = (\<lambda>r. if fr_billing_state r = BillingSettled then (case fr_spend_microcredits r of None \<Rightarrow> 0 | Some s \<Rightarrow> s) else 0)"
    "paid_share PaidPendingCounter = (\<lambda>r. if billable r then 1 else 0)"
    by (simp_all add: fun_eq_iff billed_def)
  show "fw_reserved_microcredits w = reserved_total w (vals (pg_requests l))"
    using held [of PaidReservedCounter] by (simp add: shares(1) sum_filter reserved_total_def outstanding_rows_def billable_states)
  show "fw_settled_microcredits w = settled_total w (vals (pg_requests l))"
    using held [of PaidSettledCounter] by (simp add: shares(2) sum_filter settled_total_def settled_rows_def)
  show "fw_pending_count w = int (length (outstanding_rows w (vals (pg_requests l))))"
    using held [of PaidPendingCounter] by (simp add: shares(3) sum_filter outstanding_rows_def billable_states sum_list_triv)
qed

lemma no_paid_named: "windows_named no_paid" and no_paid_placed: "rows_placed no_paid"
  by (simp_all add: windows_named_def rows_placed_def no_paid_def)

text \<open>
  C24. As long as every admission has a limit, whatever admissions, policy changes, lifecycle updates,
  deferrals, releases and settlements were made since the ledger was empty, the audit of the migration
  tool finds every window consistent, unless a total is beyond the safe integers.
\<close>

theorem paid_audit_passes:
  assumes "(paid_step (limited admits) bills)\<^sup>*\<^sup>* no_paid l" and "pg_windows l i = Some w"
    and "is_safe_integer (reserved_total w (vals (pg_requests l)))" and "is_safe_integer (settled_total w (vals (pg_requests l)))"
  shows "auditPaidFallbackWindow w (vals (pg_requests l))"
  using audited_counters [OF paid_machine.inv_run [OF assms(1) no_paid_inv] paid_names.inv_run [OF assms(1) no_paid_named] assms(2)] assms(3,4)
  by (simp add: auditPaidFallbackWindow_def)

theorem paid_audit_passes_witness: "auditPaidFallbackWindow paid_demo_window (vals (pg_requests paid_demo))"
proof (rule paid_audit_passes [OF paid_demo_run paid_demo_window])
  show "is_safe_integer (reserved_total paid_demo_window (vals (pg_requests paid_demo)))"
    and "is_safe_integer (settled_total paid_demo_window (vals (pg_requests paid_demo)))" by code_simp+
qed

definition window_spent :: "paid_ledger \<Rightarrow> paid_ident \<Rightarrow> int" where
  "window_spent l i = (case pg_windows l i of None \<Rightarrow> 0 | Some w \<Rightarrow> fw_settled_microcredits w + fw_reserved_microcredits w)"

lemma window_spent_put [simp]:
  "window_spent (put_window j w l) i =
     (case w of Some v \<Rightarrow> if i = j then fw_settled_microcredits v + fw_reserved_microcredits v else window_spent l i | None \<Rightarrow> window_spent l i)"
  by (simp add: window_spent_def put_window_def split: option.split)

lemma window_spent_rows [simp]: "window_spent (put_request r l) i = window_spent l i" "window_spent (mark_pending r p l) i = window_spent l i"
  by (simp_all add: window_spent_def put_request_def mark_pending_def)








text \<open>
  C27. Money is charged or released once: after a request row is settled or released, no further
  sequence of steps, with or without limits, changes its billing state or the amount billed.
\<close>

theorem paid_closed_stays_closed:
  assumes "(paid_step admits bills)\<^sup>*\<^sup>* no_paid l" and "(paid_step admits bills)\<^sup>*\<^sup>* l m"
    and "paid_row l keyId requestId = Some r" and "\<not> isBillableRequestV3 (Some r)"
  shows "\<exists>r'. paid_row m keyId requestId = Some r' \<and> fr_billing_state r' = fr_billing_state r \<and>
    fr_spend_microcredits r' = fr_spend_microcredits r"
  using assms(2) paid_places.inv_run [OF assms(1) no_paid_placed]
proof (rule paid_places.stable_run)
  show "\<exists>r'. paid_row l keyId requestId = Some r' \<and> fr_billing_state r' = fr_billing_state r \<and> fr_spend_microcredits r' = fr_spend_microcredits r"
    using assms(3) by simp
next
  fix u v
  assume placed: "rows_placed u" and step: "paid_step admits bills u v"
    and "\<exists>r'. paid_row u keyId requestId = Some r' \<and> fr_billing_state r' = fr_billing_state r \<and> fr_spend_microcredits r' = fr_spend_microcredits r"
  then obtain r1 where r1: "paid_row u keyId requestId = Some r1" "fr_billing_state r1 = fr_billing_state r"
    "fr_spend_microcredits r1 = fr_spend_microcredits r" by blast
  have closed: "\<not> billable r1" using assms(4) r1(2) by (simp add: isBillableRequestV3_def billable_def)
  from step_writes [OF placed step] show "\<exists>r'. paid_row v keyId requestId = Some r' \<and> fr_billing_state r' = fr_billing_state r \<and>
      fr_spend_microcredits r' = fr_spend_microcredits r"
  proof (elim disjE exE conjE)
    assume "pg_requests v = pg_requests u"
    with r1 show ?thesis by (simp add: paid_row_def)
  next
    fix r2 assume wrote: "row_write u r2" and rows: "pg_requests v = pg_requests (put_request r2 u)"
    have row: "paid_row v keyId requestId = (if keyId = fr_key_id r2 \<and> requestId = fr_request_id r2 then Some r2 else Some r1)"
      using put_request_row [of r2 u keyId requestId] r1(1) by (simp add: paid_row_def rows)
    from wrote show ?thesis
      by (cases rule: row_write.cases) (use r1 row closed in auto)
  qed
qed

definition paid_demo_settled :: paid_ledger where
  "paid_demo_settled = demo_settle ''r1'' 30 (demo_lifecycle ''r1'' 20 (demo_admit (paid_demo_input ''r1'' 100) 10 no_paid))"

lemma paid_demo_settled_run:
  "(paid_step (\<lambda>input. pi_limitMicrocredits input = 100) (\<lambda>_ _. True))\<^sup>*\<^sup>* no_paid paid_demo_settled"
  "(paid_step (\<lambda>input. pi_limitMicrocredits input = 100) (\<lambda>_ _. True))\<^sup>*\<^sup>* paid_demo_settled paid_demo"
  unfolding paid_demo_def paid_demo_settled_def
  by (intro demo_admit_run demo_settle_run demo_lifecycle_run rtranclp.rtrancl_refl;
      use paid_demo_input_valid [of 100] in \<open>simp add: paid_demo_input_def split: option.split\<close>)+

theorem paid_closed_stays_closed_witness: "\<exists>r'. paid_row paid_demo ''key'' ''r1'' = Some r' \<and> fr_spend_microcredits r' = Some 45"
proof -
  have "case paid_row paid_demo_settled ''key'' ''r1'' of None \<Rightarrow> False
      | Some r \<Rightarrow> \<not> isBillableRequestV3 (Some r) \<and> fr_spend_microcredits r = Some 45" by code_simp
  then obtain r where "paid_row paid_demo_settled ''key'' ''r1'' = Some r" and "\<not> isBillableRequestV3 (Some r)" and "fr_spend_microcredits r = Some 45"
    by (auto split: option.splits)
  with paid_closed_stays_closed [OF paid_demo_settled_run] show ?thesis by metis
qed

section \<open>Limited and unlimited requests in one window\<close>

text \<open>
  C28. A request that was admitted without a limit is not counted in its window, but releasing it takes
  one off the window's pending count when a limited request has opened the window in between. After
  that the window counts no pending request although one is still open with its reservation, and the
  audit finds the window inconsistent.
\<close>

theorem pending_count_misses_open_request:
  "\<exists>l w r. (paid_step (\<lambda>_. True) (\<lambda>_ _. True))\<^sup>*\<^sup>* no_paid l \<and> pg_windows l (''key'', 1000) = Some w \<and> fw_pending_count w = 0 \<and>
     paid_row l ''key'' ''r2'' = Some r \<and> isBillableRequestV3 (Some r) \<and> request_window r = (''key'', 1000) \<and> 0 < fr_reserved_microcredits r \<and>
     \<not> auditPaidFallbackWindow w (vals (pg_requests l))"
proof -
  define l where "l = demo_release ''r1'' 30 (demo_admit (paid_demo_input ''r2'' 100) 20 (demo_admit (paid_demo_input ''r1'' (- 1)) 10 no_paid))"
  have "(paid_step (\<lambda>_. True) (\<lambda>_ _. True))\<^sup>*\<^sup>* no_paid l"
    unfolding l_def by (intro demo_admit_run demo_release_run rtranclp.rtrancl_refl)
      (simp_all add: paid_demo_input_def isInvalidAdmissionPolicy_def is_safe_integer_def max_safe_integer_def)
  moreover have "case (pg_windows l (''key'', 1000), paid_row l ''key'' ''r2'') of
      (Some w, Some r) \<Rightarrow> fw_pending_count w = 0 \<and> isBillableRequestV3 (Some r) \<and> request_window r = (''key'', 1000) \<and>
        0 < fr_reserved_microcredits r \<and> \<not> auditPaidFallbackWindow w (vals (pg_requests l))
    | _ \<Rightarrow> False"
    unfolding l_def by code_simp
  ultimately show ?thesis by (auto split: option.splits)
qed

section \<open>Usage rollups\<close>

fun merge_all :: "usage_rollup option \<Rightarrow> rollup_input list \<Rightarrow> usage_rollup option" where
  "merge_all e [] = e"
| "merge_all e (i # is) = merge_all (Some (mergePaidFallbackUsageRollup e i)) is"

lemma merge_all_from:
  assumes "\<forall>i \<in> set is. 0 \<le> ri_spend_microcredits i" and "ru_spend_microcredits e = Fin (of_int s)" and "0 \<le> s"
    and "s + sum_list (map ri_spend_microcredits is) \<le> 2 ^ 53"
  shows "\<exists>u. merge_all (Some e) is = Some u \<and> ru_request_count u = ru_request_count e + int (length is) \<and>
    ru_input_tokens u = ru_input_tokens e + sum_list (map ri_input_tokens is) \<and>
    ru_output_tokens u = ru_output_tokens e + sum_list (map ri_output_tokens is) \<and>
    ru_spend_microcredits u = Fin (of_int (s + sum_list (map ri_spend_microcredits is))) \<and>
    (\<forall>i \<in> set is. ru_first_request_at_ms u \<le> ri_request_created_at_ms i \<and> ri_request_created_at_ms i \<le> ru_last_request_at_ms u) \<and>
    ru_first_request_at_ms u \<le> ru_first_request_at_ms e \<and> ru_last_request_at_ms e \<le> ru_last_request_at_ms u"
  using assms
proof (induction "is" arbitrary: e s)
  case (Cons i "is")
  let ?e = "mergePaidFallbackUsageRollup (Some e) i"
  have rest: "0 \<le> sum_list (map ri_spend_microcredits is)" using Cons.prems(1) by (intro sum_list_nonneg) auto
  have "round_double (of_int (s + ri_spend_microcredits i)) = Fin (of_int (s + ri_spend_microcredits i))"
    using Cons.prems rest by (intro round_double_of_int) simp
  then have spend: "ru_spend_microcredits ?e = Fin (of_int (s + ri_spend_microcredits i))"
    using Cons.prems(2) by (simp add: mergePaidFallbackUsageRollup_def Let_def)
  have merged: "ru_request_count ?e = ru_request_count e + 1" "ru_input_tokens ?e = ru_input_tokens e + ri_input_tokens i"
    "ru_output_tokens ?e = ru_output_tokens e + ri_output_tokens i"
    "ru_first_request_at_ms ?e = min (ru_first_request_at_ms e) (ri_request_created_at_ms i)"
    "ru_last_request_at_ms ?e = max (ru_last_request_at_ms e) (ri_request_created_at_ms i)"
    by (simp_all add: mergePaidFallbackUsageRollup_def Let_def)
  from Cons.IH [OF _ spend] Cons.prems obtain u where u: "merge_all (Some ?e) is = Some u"
    "ru_request_count u = ru_request_count ?e + int (length is)" "ru_input_tokens u = ru_input_tokens ?e + sum_list (map ri_input_tokens is)"
    "ru_output_tokens u = ru_output_tokens ?e + sum_list (map ri_output_tokens is)"
    "ru_spend_microcredits u = Fin (of_int (s + ri_spend_microcredits i + sum_list (map ri_spend_microcredits is)))"
    "\<forall>i \<in> set is. ru_first_request_at_ms u \<le> ri_request_created_at_ms i \<and> ri_request_created_at_ms i \<le> ru_last_request_at_ms u"
    "ru_first_request_at_ms u \<le> ru_first_request_at_ms ?e" "ru_last_request_at_ms ?e \<le> ru_last_request_at_ms u"
    by (force simp: algebra_simps)
  show ?case using u merged by (intro exI [of _ u]) (simp add: algebra_simps)
qed simp

text \<open>
  Folding the settled requests of an hour into its rollup, one after the other, gives a row that
  counts them, adds up their tokens and, as long as the total is at most \<open>2\<^sup>53\<close>, their spend without a
  rounding error, and whose first and last request times enclose all of theirs.
\<close>

theorem rollup_totals:
  assumes "inputs \<noteq> []" and "\<forall>i \<in> set inputs. 0 \<le> ri_spend_microcredits i" and "sum_list (map ri_spend_microcredits inputs) \<le> 2 ^ 53"
  shows "\<exists>u. merge_all None inputs = Some u \<and> ru_request_count u = int (length inputs) \<and>
    ru_input_tokens u = sum_list (map ri_input_tokens inputs) \<and> ru_output_tokens u = sum_list (map ri_output_tokens inputs) \<and>
    ru_spend_microcredits u = Fin (of_int (sum_list (map ri_spend_microcredits inputs))) \<and>
    (\<forall>i \<in> set inputs. ru_first_request_at_ms u \<le> ri_request_created_at_ms i \<and> ri_request_created_at_ms i \<le> ru_last_request_at_ms u)"
proof -
  obtain i rest where inputs: "inputs = i # rest" using assms(1) by (cases inputs) auto
  let ?e = "mergePaidFallbackUsageRollup None i"
  have nonneg: "0 \<le> sum_list (map ri_spend_microcredits rest)" using assms(2) by (intro sum_list_nonneg) (auto simp: inputs)
  then have "round_double (of_int (ri_spend_microcredits i)) = Fin (of_int (ri_spend_microcredits i))"
    using assms by (intro round_double_of_int) (simp add: inputs)
  then have spend: "ru_spend_microcredits ?e = Fin (of_int (ri_spend_microcredits i))" by (simp add: mergePaidFallbackUsageRollup_def Let_def)
  have merged: "ru_request_count ?e = 1" "ru_input_tokens ?e = ri_input_tokens i" "ru_output_tokens ?e = ri_output_tokens i"
    "ru_first_request_at_ms ?e = ri_request_created_at_ms i" "ru_last_request_at_ms ?e = ri_request_created_at_ms i"
    by (simp_all add: mergePaidFallbackUsageRollup_def Let_def)
  show ?thesis
    using merge_all_from [of rest, OF _ spend] assms merged by (force simp: inputs)
qed

definition demo_rollup_input :: "int \<Rightarrow> int \<Rightarrow> rollup_input" where
  "demo_rollup_input at_ms spend = \<lparr>ri_bucket_start_at_ms = 0, ri_model = ''gpt'', ri_provider = ''surplus'', ri_request_id = ''r'',
     ri_quota = 1, ri_input_tokens = 7, ri_cached_input_tokens = None, ri_output_tokens = 3, ri_spend_microcredits = spend,
     ri_request_created_at_ms = at_ms, ri_updated_at_ms = at_ms\<rparr>"

theorem rollup_totals_witness:
  "\<exists>u. merge_all None [demo_rollup_input 5 45, demo_rollup_input 9 40] = Some u \<and> ru_request_count u = 2 \<and> ru_spend_microcredits u = Fin 85"
  using rollup_totals [of "[demo_rollup_input 5 45, demo_rollup_input 9 40]"] by (auto simp: demo_rollup_input_def)

end
