(* ===== verification/Codex_Contracts.thy ===== *)
theory Codex_Contracts
  imports Kernel_Quota Js_Rounding
begin

text \<open>
  The rows of the subscription accounts (\<^verbatim>\<open>src/src/authority/native-codex-contracts.ts\<close>): routing slots with
  a circuit per quota class, the active account selection, capacity observations and the outcome of a
  selection, and the parsers that read the rows from storage. Slots are array indices and therefore
  natural numbers, times and generations are integers, used percentages are any finite number. A map
  keyed by quota class is the list of its entries in insertion order. An optional property and a null
  that no code distinguishes are both \<open>None\<close>, an optional list is empty when absent.
\<close>

section \<open>Rows\<close>

datatype quota_block_source = BodyResetsAt | HeaderRetryAfter

datatype probe_circuit = QuotaCircuit | UpstreamTimeoutCircuit

datatype quota_class = ClassSpark | ClassGptOss120b | ClassReserve | ClassStandard | ClassUnknown

datatype transition_reason = QuotaExhausted | CredentialInvalid | AccountRemovedOrReplaced | ModelUnavailable | ManualReset

record active_selection =
  as_account_id_hash :: string
  as_credential_version :: string
  as_pool_versionstamp :: string
  as_slot :: nat
  as_routing_generation :: int
  as_generation :: int
  as_transition_reason :: "transition_reason option"
  as_updated_at_ms :: int

record class_block =
  cb_blocked_until_ms :: int
  cb_source :: quota_block_source
  cb_legacy_fallback :: bool
  cb_quota_signal_observed_at_ms :: "int option"
  cb_observed_reset_at_ms :: "int option"
  cb_observed_reset_at_is_stable :: bool
  cb_banked_reset_generation_ambiguous :: bool
  cb_banked_reset_recovery_probe_pending :: bool

type_synonym class_blocks = "(quota_class \<times> class_block) list"

record probe_lease =
  le_token :: string
  le_expires_at_ms :: int
  le_generation :: int
  le_circuit :: probe_circuit
  le_quota_class :: "quota_class option"

record routing_slot =
  rs_account_id_hash :: "string option"
  rs_credential_version :: string
  rs_quota_blocked_until_ms :: "int option"
  rs_quota_block_source :: "quota_block_source option"
  rs_quota_blocked_classes :: "string list"
  rs_quota_blocks_by_class :: class_blocks
  rs_invalid_credential_version :: "string option"
  rs_primary_used_percent :: "rat option"
  rs_secondary_used_percent :: "rat option"
  rs_quota_signal_observed_at_ms :: "int option"
  rs_capacity_observed_at_ms :: "int option"
  rs_upstream_timeout_blocked_until_ms :: "int option"
  rs_observed_reset_at_ms :: "int option"
  rs_observed_reset_at_is_stable :: bool
  rs_banked_reset_generation_ambiguous :: bool
  rs_banked_reset_recovery_probe_pending :: bool
  rs_generation :: int
  rs_probe_lease :: "probe_lease option"

record routing_state =
  rt_updated_at_ms :: int
  rt_legacy_identity_unresolved :: bool
  rt_slots :: "routing_slot list"

record routing_account =
  ra_slot :: nat
  ra_accountIdHash :: string
  ra_credentialVersion :: string
  ra_quotaHeadroom :: "rat option"
  ra_probeRequired :: bool
  ra_probeGeneration :: "int option"
  ra_probeToken :: "string option"
  ra_probeCircuit :: "probe_circuit option"
  ra_overageFallback :: bool
  ra_routingGeneration :: "int option"
  ra_activeGeneration :: "int option"
  ra_activePoolVersionstamp :: "string option"
  ra_activeTransitionReason :: "transition_reason option"
  ra_requestedModel :: "string option"

record capacity_window =
  cw_limit_window_seconds :: "int option"
  cw_used_percent :: "rat option"
  cw_reset_at_ms :: "int option"

record capacity_windows =
  cs_primary :: "capacity_window option"
  cs_secondary :: "capacity_window option"

record additional_rate_limit =
  rl_limit_name :: string
  rl_metered_feature :: "string option"
  rl_windows :: capacity_windows

datatype capacity_state = CapacityAvailable | CapacityStale | CapacityUnavailable

record capacity_observation =
  co_slot :: nat
  co_account_id_hash :: string
  co_state :: capacity_state
  co_source_observed_at_ms :: "int option"
  co_snapshot_at_ms :: int
  co_windows :: capacity_windows
  co_additional_rate_limits :: "additional_rate_limit list"

record blocked_account = routing_account +
  ba_quotaResetAtMs :: int

record quota_blocked_route =
  qr_skippedSlots :: "nat list"
  qr_retryAtMs :: "int option"
  qr_blockedAccounts :: "blocked_account list"
  qr_fullCohortExhausted :: bool
  qr_fullCohortUnavailable :: bool
  qr_activeSnapshot :: "active_selection option"
  qr_poolSnapshotJson :: "string option"
  qr_capacitySnapshotJson :: "string option"

datatype route_selection =
    RouteEligible "routing_account list" "nat list" "blocked_account list"
  | RouteQuotaBlocked quota_blocked_route
  | RouteUpstreamBlocked "nat list" "int option"
  | RouteModelUnavailable string "string option" "nat list"
  | RouteCredentialsInvalid "nat list" bool
  | RouteUnavailable

record routing_identity =
  ri_slot :: nat
  ri_accountIdHash :: string
  ri_credentialVersion :: string

text \<open>The model evidence of a policy: \<open>Some detail\<close> when the account cannot serve the named model.\<close>

record account_policy =
  ac_modelUnavailable :: "string option option"
  ac_overageUsageAllowed :: bool

record row_revisions =
  rv_active :: "string option"
  rv_pool :: "string option"
  rv_routing :: "string option"
  rv_capacity :: "string option"

record serial_admission_plan =
  sp_checks :: row_revisions
  sp_routing :: "routing_state option"
  sp_active :: "active_selection option"
  sp_selection :: route_selection

section \<open>Constants and small predicates\<close>

definition CODEX_HALF_OPEN_LEASE_MS :: int where
  "CODEX_HALF_OPEN_LEASE_MS = 30000"

definition CODEX_CAPACITY_ROUTING_MAX_AGE_MS :: int where
  "CODEX_CAPACITY_ROUTING_MAX_AGE_MS = 30 * 60000"

definition isSafeMs :: "js \<Rightarrow> bool" where
  "isSafeMs v \<longleftrightarrow> nonNegativeSafeInteger v \<noteq> None"

definition parseOptionalSafeMs :: "js \<Rightarrow> int option" where
  "parseOptionalSafeMs v = nonNegativeSafeInteger v"

definition isLegacyStableResetIdentity :: "routing_slot \<Rightarrow> bool" where
  "isLegacyStableResetIdentity s \<longleftrightarrow>
     rs_account_id_hash s = None \<and> rs_observed_reset_at_ms s \<noteq> None \<and> rs_observed_reset_at_is_stable s"

definition hasUnresolvedLegacyResetIdentity :: "routing_state option \<Rightarrow> bool" where
  "hasUnresolvedLegacyResetIdentity st =
     (case st of None \<Rightarrow> False
      | Some st \<Rightarrow> rt_legacy_identity_unresolved st \<or> list_ex isLegacyStableResetIdentity (rt_slots st))"

fun quota_class_text :: "quota_class \<Rightarrow> string" where
  "quota_class_text ClassSpark = ''spark''"
| "quota_class_text ClassGptOss120b = ''gpt_oss_120b''"
| "quota_class_text ClassReserve = ''reserve''"
| "quota_class_text ClassStandard = ''standard''"
| "quota_class_text ClassUnknown = ''unknown''"

definition quota_classes :: "quota_class list" where
  "quota_classes = [ClassSpark, ClassGptOss120b, ClassReserve, ClassStandard, ClassUnknown]"

section \<open>Parsers\<close>

text \<open>
  \<^verbatim>\<open>===\<close> on values of two different properties: primitive values are compared, not-a-number differs from
  itself, and two objects of a parsed row are never the same object. \<^verbatim>\<open>in\<close> asks for an own property.
\<close>

fun js_same :: "js \<Rightarrow> js \<Rightarrow> bool" where
  "js_same (JArr _) _ = False"
| "js_same (JObj _) _ = False"
| "js_same (JNum NaN) _ = False"
| "js_same a b = (a = b)"

fun js_has :: "string \<Rightarrow> js \<Rightarrow> bool" where
  "js_has k (JObj es) = (k \<in> set (map fst es))"
| "js_has k _ = False"

definition is_true :: "js \<Rightarrow> bool" where
  "is_true v \<longleftrightarrow> v = JBool True"

definition quotaClassBlockFieldsMatch :: "js \<Rightarrow> js \<Rightarrow> bool" where
  "quotaClassBlockFieldsMatch left right \<longleftrightarrow>
     list_all (\<lambda>k. js_same (js_get left k) (js_get right k))
       [''blocked_until_ms'', ''source'', ''quota_signal_observed_at_ms'', ''observed_reset_at_ms'', ''observed_reset_at_is_stable'',
        ''banked_reset_generation_ambiguous'', ''banked_reset_recovery_probe_pending'']"

definition hasUnmarkedSyntheticLegacyUnknown :: "js \<Rightarrow> bool" where
  "hasUnmarkedSyntheticLegacyUnknown rawClassBlocks =
     (let unknown = js_get rawClassBlocks ''unknown''; knownClassKeys = [''spark'', ''gpt_oss_120b'', ''standard''] in
      if \<not> isRecord unknown \<or> js_has ''legacy_fallback'' unknown then False
      else if \<not> list_all (\<lambda>k. isRecord (js_get rawClassBlocks k) \<and> \<not> js_has ''legacy_fallback'' (js_get rawClassBlocks k)) knownClassKeys then False
      else list_all (\<lambda>k. isRecord (js_get rawClassBlocks k) \<and> quotaClassBlockFieldsMatch (js_get rawClassBlocks k) unknown) knownClassKeys)"

definition parseProbeLeaseCircuit :: "js \<Rightarrow> probe_circuit option" where
  "parseProbeLeaseCircuit lease =
     (if lease = JNull \<or> \<not> isRecord lease \<or> js_get lease ''circuit'' = JUndef then Some QuotaCircuit
      else if js_get lease ''circuit'' = JStr ''quota'' then Some QuotaCircuit
      else if js_get lease ''circuit'' = JStr ''upstream_timeout'' then Some UpstreamTimeoutCircuit
      else None)"

definition parseProbeQuotaClass :: "js \<Rightarrow> quota_class option" where
  "parseProbeQuotaClass v = find (\<lambda>c. v = JStr (quota_class_text c)) quota_classes"

definition parseProbeLease :: "js \<Rightarrow> probe_circuit option \<Rightarrow> probe_lease option" where
  "parseProbeLease lease leaseCircuit =
     (if lease = JNull \<or> \<not> isRecord lease then None
      else
        Option.bind (js_text (js_get lease ''token'')) (\<lambda>token.
        Option.bind (nonNegativeSafeInteger (js_get lease ''expires_at_ms'')) (\<lambda>expires.
        Option.bind (js_int (js_get lease ''generation'')) (\<lambda>generation.
        Option.bind leaseCircuit (\<lambda>circuit.
        Some \<lparr>le_token = token, le_expires_at_ms = expires, le_generation = generation, le_circuit = circuit,
              le_quota_class = parseProbeQuotaClass (js_get lease ''quota_class'')\<rparr>)))))"

text \<open>The outer option is \<^verbatim>\<open>undefined\<close>, an unrecognized value.\<close>

definition parseQuotaBlockSource :: "js \<Rightarrow> quota_block_source option option" where
  "parseQuotaBlockSource v =
     (if v = JNull then Some None
      else if v = JStr ''body_resets_at'' then Some (Some BodyResetsAt)
      else if v = JStr ''header_retry_after'' then Some (Some HeaderRetryAfter)
      else None)"

definition parseStoredGeneration :: "js \<Rightarrow> int" where
  "parseStoredGeneration v = (case nonNegativeSafeInteger v of None \<Rightarrow> 0 | Some g \<Rightarrow> g)"

definition parseStoredPercent :: "js \<Rightarrow> rat option" where
  "parseStoredPercent v = (case v of JNum (Fin q) \<Rightarrow> Some q | _ \<Rightarrow> None)"

definition parseAccountIdHash :: "js \<Rightarrow> string option" where
  "parseAccountIdHash v = nonempty_text v"

text \<open>\<^verbatim>\<open>[...new Set(xs)]\<close> keeps first occurrences.\<close>

definition js_unique :: "'a list \<Rightarrow> 'a list" where
  "js_unique xs = rev (remdups (rev xs))"

definition parseQuotaBlockedClasses :: "js \<Rightarrow> string list" where
  "parseQuotaBlockedClasses v =
     (case js_items v of None \<Rightarrow> [] | Some vs \<Rightarrow> (case those (map js_text vs) of None \<Rightarrow> [] | Some ts \<Rightarrow> js_unique ts))"

record slot_class_fields =
  sf_observedResetAtMs :: "int option"
  sf_observedResetAtIsStable :: bool
  sf_bankedResetGenerationAmbiguous :: bool
  sf_bankedResetRecoveryProbePending :: bool

definition parseSlotClassBlock :: "js \<Rightarrow> quota_class \<Rightarrow> bool \<Rightarrow> slot_class_fields \<Rightarrow> class_block option" where
  "parseSlotClassBlock block c unmarked slotFields =
     Option.bind (nonNegativeSafeInteger (js_get block ''blocked_until_ms'')) (\<lambda>blockedUntil.
     Option.bind (if js_get block ''source'' = JStr ''body_resets_at'' then Some BodyResetsAt
                  else if js_get block ''source'' = JStr ''header_retry_after'' then Some HeaderRetryAfter else None) (\<lambda>source.
     let shares = (sf_observedResetAtMs slotFields = Some blockedUntil);
         observed = (case nonNegativeSafeInteger (js_get block ''observed_reset_at_ms'') of
                       Some t \<Rightarrow> Some t
                     | None \<Rightarrow> if shares \<and> sf_observedResetAtIsStable slotFields then sf_observedResetAtMs slotFields else None)
     in Some \<lparr>cb_blocked_until_ms = blockedUntil, cb_source = source,
          cb_legacy_fallback = (is_true (js_get block ''legacy_fallback'') \<or> c = ClassUnknown \<and> unmarked),
          cb_quota_signal_observed_at_ms = nonNegativeSafeInteger (js_get block ''quota_signal_observed_at_ms''),
          cb_observed_reset_at_ms = observed,
          cb_observed_reset_at_is_stable =
            (is_true (js_get block ''observed_reset_at_is_stable'') \<or> shares \<and> sf_observedResetAtIsStable slotFields),
          cb_banked_reset_generation_ambiguous =
            (is_true (js_get block ''banked_reset_generation_ambiguous'') \<or> shares \<and> sf_bankedResetGenerationAmbiguous slotFields),
          cb_banked_reset_recovery_probe_pending =
            (is_true (js_get block ''banked_reset_recovery_probe_pending'') \<or> shares \<and> sf_bankedResetRecoveryProbePending slotFields)\<rparr>))"

definition parseQuotaBlocksByClass :: "js \<Rightarrow> bool \<Rightarrow> slot_class_fields \<Rightarrow> class_blocks" where
  "parseQuotaBlocksByClass rawClassBlocks unmarked slotFields =
     List.map_filter (\<lambda>c.
       let block = js_get rawClassBlocks (quota_class_text c) in
       if isRecord block then map_option (Pair c) (parseSlotClassBlock block c unmarked slotFields) else None) quota_classes"

definition isExactLegacyNeutralSlot :: "js \<Rightarrow> quota_block_source option \<Rightarrow> js \<Rightarrow> bool" where
  "isExactLegacyNeutralSlot value source lease \<longleftrightarrow>
     \<not> js_has ''account_id_hash'' value \<and> \<not> js_has ''observed_reset_at_is_stable'' value \<and>
     \<not> js_has ''banked_reset_generation_ambiguous'' value \<and>
     js_get value ''generation'' = jint 0 \<and> js_get value ''quota_blocked_until_ms'' = JNull \<and> source = None \<and>
     js_get value ''invalid_credential_version'' = JNull \<and> js_get value ''primary_used_percent'' = JNull \<and>
     js_get value ''secondary_used_percent'' = JNull \<and> js_get value ''observed_reset_at_ms'' = JNull \<and> lease = JNull"

record first_fence_fields =
  ff_accountIdHash :: "string option"
  ff_quotaBlockedUntilMs :: "int option"
  ff_observedResetAtMs :: "int option"
  ff_observedResetAtIsStable :: bool
  ff_source :: "quota_block_source option"
  ff_lease :: js

definition isLegacyNeutralFirstBodyFence :: "js \<Rightarrow> first_fence_fields \<Rightarrow> bool" where
  "isLegacyNeutralFirstBodyFence value f \<longleftrightarrow>
     is_true (js_get value ''banked_reset_generation_ambiguous'') \<and> js_get value ''generation'' = jint 1 \<and>
     ff_accountIdHash f \<noteq> None \<and> ff_source f = Some BodyResetsAt \<and> ff_quotaBlockedUntilMs f \<noteq> None \<and>
     ff_observedResetAtMs f = ff_quotaBlockedUntilMs f \<and> ff_observedResetAtIsStable f \<and> ff_lease f = JNull \<and>
     js_get value ''invalid_credential_version'' = JNull"

definition repairedBankedResetGenerationAmbiguous :: "js \<Rightarrow> bool \<Rightarrow> bool \<Rightarrow> bool" where
  "repairedBankedResetGenerationAmbiguous value neutral firstFence =
     (if neutral \<or> firstFence then False else js_get value ''banked_reset_generation_ambiguous'' \<noteq> JBool False)"

definition parseSlot :: "js \<Rightarrow> bool \<Rightarrow> routing_slot option" where
  "parseSlot value allowLegacyNeutralRepair =
     (if \<not> isRecord value then None
      else
        Option.bind (js_text (js_get value ''credential_version'')) (\<lambda>credentialVersion.
        Option.bind (parseQuotaBlockSource (js_get value ''quota_block_source'')) (\<lambda>source.
        let lease = js_get value ''probe_lease'';
            parsedLease = parseProbeLease lease (parseProbeLeaseCircuit lease);
            accountIdHash = parseAccountIdHash (js_get value ''account_id_hash'');
            quotaBlockedUntilMs = parseOptionalSafeMs (js_get value ''quota_blocked_until_ms'');
            observedResetAtMs = parseOptionalSafeMs (js_get value ''observed_reset_at_ms'');
            stable = is_true (js_get value ''observed_reset_at_is_stable'');
            neutral = (allowLegacyNeutralRepair \<and> isExactLegacyNeutralSlot value source lease);
            firstFence = (allowLegacyNeutralRepair \<and> isLegacyNeutralFirstBodyFence value
              \<lparr>ff_accountIdHash = accountIdHash, ff_quotaBlockedUntilMs = quotaBlockedUntilMs, ff_observedResetAtMs = observedResetAtMs,
               ff_observedResetAtIsStable = stable, ff_source = source, ff_lease = lease\<rparr>);
            ambiguous = repairedBankedResetGenerationAmbiguous value neutral firstFence;
            recovery = is_true (js_get value ''banked_reset_recovery_probe_pending'');
            rawClassBlocks = (if isRecord (js_get value ''quota_blocks_by_class'') then js_get value ''quota_blocks_by_class'' else JObj [])
        in if lease \<noteq> JNull \<and> parsedLease = None then None
           else Some
             \<lparr>rs_account_id_hash = accountIdHash, rs_credential_version = credentialVersion,
              rs_quota_blocked_until_ms = quotaBlockedUntilMs, rs_quota_block_source = source,
              rs_quota_blocked_classes = parseQuotaBlockedClasses (js_get value ''quota_blocked_classes''),
              rs_quota_blocks_by_class = parseQuotaBlocksByClass rawClassBlocks (hasUnmarkedSyntheticLegacyUnknown rawClassBlocks)
                \<lparr>sf_observedResetAtMs = observedResetAtMs, sf_observedResetAtIsStable = stable,
                 sf_bankedResetGenerationAmbiguous = ambiguous, sf_bankedResetRecoveryProbePending = recovery\<rparr>,
              rs_invalid_credential_version = js_text (js_get value ''invalid_credential_version''),
              rs_primary_used_percent = parseStoredPercent (js_get value ''primary_used_percent''),
              rs_secondary_used_percent = parseStoredPercent (js_get value ''secondary_used_percent''),
              rs_quota_signal_observed_at_ms = parseOptionalSafeMs (js_get value ''quota_signal_observed_at_ms''),
              rs_capacity_observed_at_ms = parseOptionalSafeMs (js_get value ''capacity_observed_at_ms''),
              rs_upstream_timeout_blocked_until_ms = parseOptionalSafeMs (js_get value ''upstream_timeout_blocked_until_ms''),
              rs_observed_reset_at_ms = observedResetAtMs, rs_observed_reset_at_is_stable = stable,
              rs_banked_reset_generation_ambiguous = ambiguous, rs_banked_reset_recovery_probe_pending = recovery,
              rs_generation = parseStoredGeneration (js_get value ''generation''), rs_probe_lease = parsedLease\<rparr>)))"

definition parseCodexAccountRoutingState :: "js \<Rightarrow> routing_state option" where
  "parseCodexAccountRoutingState value =
     (if \<not> isRecord value \<or> js_get value ''v'' \<noteq> jint 2 then None
      else
        Option.bind (nonNegativeSafeInteger (js_get value ''updated_at_ms'')) (\<lambda>updated.
        Option.bind (js_items (js_get value ''slots'')) (\<lambda>items.
        let unresolved = is_true (js_get value ''banked_reset_legacy_identity_unresolved'') in
        Option.bind (those (map (\<lambda>slot. parseSlot slot (\<not> unresolved)) items)) (\<lambda>slots.
        Some \<lparr>rt_updated_at_ms = updated, rt_legacy_identity_unresolved = unresolved, rt_slots = slots\<rparr>))))"

definition isOpaqueHash :: "string \<Rightarrow> bool" where
  "isOpaqueHash s \<longleftrightarrow> length s = 64 \<and>
     list_all (\<lambda>c. let n = of_char c :: nat in 97 \<le> n \<and> n \<le> 102 \<or> 48 \<le> n \<and> n \<le> 57) s"

definition isVersionstamp :: "string \<Rightarrow> bool" where
  "isVersionstamp s \<longleftrightarrow> 0 < length s \<and> length s \<le> 256"

fun transition_reason_text :: "transition_reason \<Rightarrow> string" where
  "transition_reason_text QuotaExhausted = ''quota_exhausted''"
| "transition_reason_text CredentialInvalid = ''credential_invalid''"
| "transition_reason_text AccountRemovedOrReplaced = ''account_removed_or_replaced''"
| "transition_reason_text ModelUnavailable = ''model_unavailable''"
| "transition_reason_text ManualReset = ''manual_reset''"

definition parseActiveTransitionReason :: "js \<Rightarrow> transition_reason option option" where
  "parseActiveTransitionReason v =
     (if v = JNull then Some None
      else map_option Some (find (\<lambda>r. v = JStr (transition_reason_text r))
             [QuotaExhausted, CredentialInvalid, AccountRemovedOrReplaced, ModelUnavailable, ManualReset]))"

definition parseCodexActiveAccountSelection :: "js \<Rightarrow> active_selection option" where
  "parseCodexActiveAccountSelection value =
     (if \<not> isRecord value \<or> js_get value ''v'' \<noteq> jint 1 then None
      else
        Option.bind (js_text (js_get value ''account_id_hash'')) (\<lambda>accountHash.
        Option.bind (js_text (js_get value ''credential_version'')) (\<lambda>version.
        Option.bind (js_text (js_get value ''pool_versionstamp'')) (\<lambda>pool.
        Option.bind (nonNegativeSafeInteger (js_get value ''slot'')) (\<lambda>slot.
        Option.bind (nonNegativeSafeInteger (js_get value ''routing_generation'')) (\<lambda>routingGeneration.
        Option.bind (positiveSafeInteger (js_get value ''generation'')) (\<lambda>generation.
        Option.bind (parseActiveTransitionReason (js_get value ''transition_reason'')) (\<lambda>reason.
        Option.bind (nonNegativeSafeInteger (js_get value ''updated_at_ms'')) (\<lambda>updated.
        if isOpaqueHash accountHash \<and> isOpaqueHash version \<and> isVersionstamp pool
        then Some \<lparr>as_account_id_hash = accountHash, as_credential_version = version, as_pool_versionstamp = pool, as_slot = nat slot,
               as_routing_generation = routingGeneration, as_generation = generation, as_transition_reason = reason,
               as_updated_at_ms = updated\<rparr>
        else None)))))))))"

definition codexActiveAccountSelectionCurrent :: "js \<Rightarrow> routing_account \<Rightarrow> int \<Rightarrow> bool" where
  "codexActiveAccountSelectionCurrent value account activeGeneration =
     (case parseCodexActiveAccountSelection value of None \<Rightarrow> False
      | Some active \<Rightarrow>
          as_generation active = activeGeneration \<and> as_account_id_hash active = ra_accountIdHash account \<and>
          as_credential_version active = ra_credentialVersion account \<and>
          Some (as_pool_versionstamp active) = ra_activePoolVersionstamp account \<and> as_slot active = ra_slot account \<and>
          Some (as_routing_generation active) = ra_routingGeneration account)"

section \<open>The stored form of an active selection\<close>

definition active_js :: "active_selection \<Rightarrow> js" where
  "active_js a = JObj
     [(''v'', jint 1), (''account_id_hash'', JStr (as_account_id_hash a)), (''credential_version'', JStr (as_credential_version a)),
      (''pool_versionstamp'', JStr (as_pool_versionstamp a)), (''slot'', jint (int (as_slot a))),
      (''routing_generation'', jint (as_routing_generation a)), (''generation'', jint (as_generation a)),
      (''transition_reason'', opt_js (\<lambda>r. JStr (transition_reason_text r)) (as_transition_reason a)),
      (''updated_at_ms'', jint (as_updated_at_ms a))]"

definition active_storable :: "active_selection \<Rightarrow> bool" where
  "active_storable a \<longleftrightarrow> isOpaqueHash (as_account_id_hash a) \<and> isOpaqueHash (as_credential_version a) \<and>
     isVersionstamp (as_pool_versionstamp a) \<and> is_safe_integer (int (as_slot a)) \<and>
     is_safe_integer (as_routing_generation a) \<and> 0 \<le> as_routing_generation a \<and>
     is_safe_integer (as_generation a) \<and> 1 \<le> as_generation a \<and>
     is_safe_integer (as_updated_at_ms a) \<and> 0 \<le> as_updated_at_ms a"

lemma parse_reason_text: "parseActiveTransitionReason (opt_js (\<lambda>r. JStr (transition_reason_text r)) r) = Some r"
proof (cases r)
  case (Some x)
  then show ?thesis by (cases x) (simp_all add: parseActiveTransitionReason_def opt_js_def)
qed (simp add: parseActiveTransitionReason_def opt_js_def)

lemma as_integer_of_nat [simp]: "as_integer (of_nat n) = Some (int n)"
  using as_integer_of_int [of "int n"] by (simp del: as_integer_of_int)

lemma parse_active_js: "active_storable a \<Longrightarrow> parseCodexActiveAccountSelection (active_js a) = Some a"
  by (simp add: parseCodexActiveAccountSelection_def active_js_def js_get_def nonNegativeSafeInteger_def positiveSafeInteger_def
    parse_reason_text active_storable_def)

lemma parsed_storable: "parseCodexActiveAccountSelection v = Some a \<Longrightarrow> active_storable a"
  by (auto simp: parseCodexActiveAccountSelection_def active_storable_def nonNegativeSafeInteger_def positiveSafeInteger_def
    js_int_Some bind_eq_Some_conv split: if_splits option.splits)

end
