(* ===== verification/Codex_Capacity.thy ===== *)
theory Codex_Capacity
  imports Codex_Contracts
begin

text \<open>
  Normalization of the routing rows, quota circuits per class and capacity observations
  (\<^verbatim>\<open>src/src/authority/native-codex-capacity.ts\<close>). The source compares objects by reference in three
  places. A block is compared with the entry it was taken from, where equality of values decides the same
  way; a cleared slot is always a new object; and whether normalization changed a slot is the question
  whether the very object survived, so \<open>normalized_routing\<close> records where each slot object came from.
\<close>

section \<open>Slots\<close>

definition neutralSlot :: "string \<Rightarrow> string option \<Rightarrow> routing_slot" where
  "neutralSlot credentialVersion accountIdHash =
     \<lparr>rs_account_id_hash = accountIdHash, rs_credential_version = credentialVersion, rs_quota_blocked_until_ms = None,
      rs_quota_block_source = None, rs_quota_blocked_classes = [], rs_quota_blocks_by_class = [], rs_invalid_credential_version = None,
      rs_primary_used_percent = None, rs_secondary_used_percent = None, rs_quota_signal_observed_at_ms = None,
      rs_capacity_observed_at_ms = None, rs_upstream_timeout_blocked_until_ms = None, rs_observed_reset_at_ms = None,
      rs_observed_reset_at_is_stable = False, rs_banked_reset_generation_ambiguous = False,
      rs_banked_reset_recovery_probe_pending = False, rs_generation = 0, rs_probe_lease = None\<rparr>"

definition has_timeout_lease :: "routing_slot \<Rightarrow> bool" where
  "has_timeout_lease s = (case rs_probe_lease s of None \<Rightarrow> False | Some l \<Rightarrow> le_circuit l = UpstreamTimeoutCircuit)"

text \<open>A deadline of zero is falsy, like a missing one.\<close>

definition has_timeout_circuit :: "routing_slot \<Rightarrow> bool" where
  "has_timeout_circuit s \<longleftrightarrow>
     (case rs_upstream_timeout_blocked_until_ms s of None \<Rightarrow> False | Some t \<Rightarrow> t \<noteq> 0) \<or> has_timeout_lease s"

definition withoutLegacyTimeoutCircuit :: "routing_slot \<Rightarrow> routing_slot" where
  "withoutLegacyTimeoutCircuit s =
     (if \<not> has_timeout_circuit s then s
      else s\<lparr>rs_upstream_timeout_blocked_until_ms := None,
             rs_probe_lease := (if has_timeout_lease s then None else rs_probe_lease s),
             rs_generation := rs_generation s + 1\<rparr>)"

definition preservesStableResetIdentity :: "routing_slot \<Rightarrow> bool" where
  "preservesStableResetIdentity s \<longleftrightarrow>
     rs_banked_reset_generation_ambiguous s \<or> rs_observed_reset_at_ms s \<noteq> None \<and> rs_observed_reset_at_is_stable s"

definition withoutLegacyTimeoutCircuits :: "routing_state \<Rightarrow> routing_state" where
  "withoutLegacyTimeoutCircuits st =
     (if list_ex has_timeout_circuit (rt_slots st) then st\<lparr>rt_slots := map withoutLegacyTimeoutCircuit (rt_slots st)\<rparr> else st)"

definition later_block :: "class_block \<Rightarrow> class_block option \<Rightarrow> class_block option" where
  "later_block b latest =
     (case latest of None \<Rightarrow> Some b | Some l \<Rightarrow> if cb_blocked_until_ms l < cb_blocked_until_ms b then Some b else Some l)"

definition slot_block :: "int \<Rightarrow> quota_block_source \<Rightarrow> routing_slot \<Rightarrow> class_block" where
  "slot_block blockedUntil source s =
     \<lparr>cb_blocked_until_ms = blockedUntil, cb_source = source, cb_legacy_fallback = True,
      cb_quota_signal_observed_at_ms = rs_quota_signal_observed_at_ms s, cb_observed_reset_at_ms = rs_observed_reset_at_ms s,
      cb_observed_reset_at_is_stable = rs_observed_reset_at_is_stable s,
      cb_banked_reset_generation_ambiguous = rs_banked_reset_generation_ambiguous s,
      cb_banked_reset_recovery_probe_pending = rs_banked_reset_recovery_probe_pending s\<rparr>"

definition preserved_block :: "routing_slot \<Rightarrow> class_block option" where
  "preserved_block s =
     fold later_block (map snd (rs_quota_blocks_by_class s))
       (case (rs_observed_reset_at_ms s, rs_quota_block_source s) of
          (Some reset, Some source) \<Rightarrow>
            Some (slot_block (case rs_quota_blocked_until_ms s of None \<Rightarrow> reset | Some t \<Rightarrow> t) source s)
        | _ \<Rightarrow> None)"

definition rotateCredentialForSameAccount :: "routing_slot \<Rightarrow> routing_identity \<Rightarrow> routing_slot" where
  "rotateCredentialForSameAccount s identity =
     (let generation = rs_generation s + 1; preserved = preserved_block s in
      s\<lparr>rs_account_id_hash := Some (ri_accountIdHash identity), rs_credential_version := ri_credentialVersion identity,
        rs_quota_blocked_until_ms := None, rs_quota_block_source := None, rs_quota_blocked_classes := [],
        rs_quota_blocks_by_class := [], rs_invalid_credential_version := None, rs_primary_used_percent := None,
        rs_secondary_used_percent := None, rs_quota_signal_observed_at_ms := None, rs_capacity_observed_at_ms := None,
        rs_observed_reset_at_ms := Option.bind preserved cb_observed_reset_at_ms,
        rs_observed_reset_at_is_stable := (case preserved of None \<Rightarrow> False | Some b \<Rightarrow> cb_observed_reset_at_is_stable b),
        rs_banked_reset_generation_ambiguous :=
          (preservesStableResetIdentity s \<or> (case preserved of None \<Rightarrow> False | Some b \<Rightarrow> cb_banked_reset_generation_ambiguous b)),
        rs_banked_reset_recovery_probe_pending :=
          (rs_banked_reset_recovery_probe_pending s \<or> (case preserved of None \<Rightarrow> False | Some b \<Rightarrow> cb_banked_reset_recovery_probe_pending b)),
        rs_generation := generation,
        rs_probe_lease := map_option (\<lambda>l. l\<lparr>le_generation := generation\<rparr>) (rs_probe_lease s)\<rparr>)"

definition attachLegacyAccountIdentity :: "routing_slot \<Rightarrow> routing_identity \<Rightarrow> routing_slot" where
  "attachLegacyAccountIdentity s identity =
     s\<lparr>rs_account_id_hash := Some (ri_accountIdHash identity), rs_banked_reset_generation_ambiguous := preservesStableResetIdentity s\<rparr>"

section \<open>Normalization\<close>

record normalized_routing = routing_state +
  nr_origins :: "nat option list"

definition same_account :: "routing_identity \<Rightarrow> routing_slot \<Rightarrow> bool" where
  "same_account identity s \<longleftrightarrow> rs_account_id_hash s = Some (ri_accountIdHash identity)"

definition legacy_account :: "routing_identity \<Rightarrow> routing_slot \<Rightarrow> bool" where
  "legacy_account identity s \<longleftrightarrow> rs_account_id_hash s = None \<and> rs_credential_version s = ri_credentialVersion identity"

definition takePrior :: "routing_slot list \<Rightarrow> nat list \<Rightarrow> (routing_slot \<Rightarrow> bool) \<Rightarrow> nat option" where
  "takePrior priorSlots used matches = find (\<lambda>j. j \<notin> set used \<and> matches (priorSlots ! j)) [0..<length priorSlots]"

definition choose_prior :: "routing_slot list \<Rightarrow> nat list \<Rightarrow> nat \<Rightarrow> routing_identity \<Rightarrow> nat option" where
  "choose_prior priorSlots used index identity =
     (if index < length priorSlots \<and> index \<notin> set used \<and>
         (same_account identity (priorSlots ! index) \<or> legacy_account identity (priorSlots ! index))
      then Some index
      else case takePrior priorSlots used (same_account identity) of
             Some j \<Rightarrow> Some j
           | None \<Rightarrow> takePrior priorSlots used (legacy_account identity))"

definition normalized_slot :: "bool \<Rightarrow> routing_slot \<Rightarrow> routing_identity \<Rightarrow> routing_slot" where
  "normalized_slot discardLegacyTimeoutCircuit prior0 identity =
     (let prior = (if discardLegacyTimeoutCircuit then withoutLegacyTimeoutCircuit prior0 else prior0) in
      if rs_credential_version prior = ri_credentialVersion identity
      then withoutLegacyTimeoutCircuit (if same_account identity prior then prior else attachLegacyAccountIdentity prior identity)
      else withoutLegacyTimeoutCircuit (rotateCredentialForSameAccount prior identity))"

text \<open>The object of the prior slot itself survives.\<close>

definition slot_survives :: "routing_slot \<Rightarrow> routing_identity \<Rightarrow> bool" where
  "slot_survives prior identity \<longleftrightarrow>
     \<not> has_timeout_circuit prior \<and> rs_credential_version prior = ri_credentialVersion identity \<and> same_account identity prior"

fun normalize_slots ::
  "routing_slot list \<Rightarrow> bool \<Rightarrow> nat \<Rightarrow> nat list \<Rightarrow> routing_identity list \<Rightarrow> (nat option \<times> routing_slot) list \<times> nat list" where
  "normalize_slots priorSlots discard index used [] = ([], used)"
| "normalize_slots priorSlots discard index used (identity # rest) =
     (case choose_prior priorSlots used index identity of
        None \<Rightarrow>
          let (slots, u) = normalize_slots priorSlots discard (Suc index) used rest
          in ((None, neutralSlot (ri_credentialVersion identity) (Some (ri_accountIdHash identity))) # slots, u)
      | Some j \<Rightarrow>
          let (slots, u) = normalize_slots priorSlots discard (Suc index) (j # used) rest
          in ((if slot_survives (priorSlots ! j) identity then Some j else None, normalized_slot discard (priorSlots ! j) identity) # slots, u))"

definition normalizeRoutingState :: "routing_state option \<Rightarrow> routing_identity list \<Rightarrow> int \<Rightarrow> bool \<Rightarrow> normalized_routing" where
  "normalizeRoutingState raw identities now discard =
     (let priorSlots = (case raw of None \<Rightarrow> [] | Some st \<Rightarrow> rt_slots st);
          (slots, used) = normalize_slots priorSlots discard 0 [] identities
      in \<lparr>rt_updated_at_ms = now,
          rt_legacy_identity_unresolved =
            ((case raw of None \<Rightarrow> False | Some st \<Rightarrow> rt_legacy_identity_unresolved st) \<or>
             list_ex (\<lambda>j. j \<notin> set used \<and> isLegacyStableResetIdentity (priorSlots ! j)) [0..<length priorSlots]),
          rt_slots = map snd slots, nr_origins = map fst slots\<rparr>)"

section \<open>Quota classes\<close>

definition js_lower_char :: "char \<Rightarrow> char" where
  "js_lower_char c =
     (let n = of_char c :: nat in
      if 65 \<le> n \<and> n \<le> 90 \<or> 192 \<le> n \<and> n \<le> 222 \<and> n \<noteq> 215 then char_of (n + 32) else c)"

definition js_lower :: "string \<Rightarrow> string" where
  "js_lower = map js_lower_char"

definition normalizeQuotaLabel :: "string option \<Rightarrow> string" where
  "normalizeQuotaLabel v =
     (case v of None \<Rightarrow> []
      | Some s \<Rightarrow> filter (\<lambda>c. let n = of_char c :: nat in 97 \<le> n \<and> n \<le> 122 \<or> 48 \<le> n \<and> n \<le> 57) (js_lower s))"

definition quotaClass :: "string option \<Rightarrow> quota_class" where
  "quotaClass model =
     (let normalized = (case model of None \<Rightarrow> [] | Some s \<Rightarrow> js_lower (js_trim s)) in
      if normalized = ''gpt-5.3-codex-spark'' then ClassSpark
      else if normalized = ''gpt-oss-120b'' then ClassGptOss120b
      else if normalizeQuotaLabel (Some normalized) = ''gptreserve'' then ClassReserve
      else if normalized \<noteq> [] then ClassStandard else ClassUnknown)"

definition legacy_class_block :: "routing_slot \<Rightarrow> quota_class \<Rightarrow> class_block option" where
  "legacy_class_block s c =
     (case (rs_quota_blocked_until_ms s, rs_quota_block_source s) of
        (Some t, Some source) \<Rightarrow>
          if rs_quota_blocks_by_class s = [] \<and>
             (rs_quota_blocked_classes s = [] \<or> c = ClassUnknown \<or> ''unknown'' \<in> set (rs_quota_blocked_classes s) \<or>
              quota_class_text c \<in> set (rs_quota_blocked_classes s))
          then Some (slot_block t source s) else None
      | _ \<Rightarrow> None)"

definition quotaBlockForClass :: "routing_slot \<Rightarrow> quota_class \<Rightarrow> class_block option" where
  "quotaBlockForClass s c =
     fold later_block
       (List.map_filter (\<lambda>b. b)
          [map_of (rs_quota_blocks_by_class s) c,
           (if c = ClassUnknown then None else map_of (rs_quota_blocks_by_class s) ClassUnknown),
           legacy_class_block s c]) None"

definition class_keys :: "class_blocks \<Rightarrow> string list" where
  "class_keys blocks = map (quota_class_text \<circ> fst) blocks"

definition class_of_key :: "string \<Rightarrow> quota_class option" where
  "class_of_key key = find (\<lambda>c. quota_class_text c = key) quota_classes"

definition put_absent_class :: "class_block \<Rightarrow> quota_class \<Rightarrow> class_blocks \<Rightarrow> class_blocks" where
  "put_absent_class b c blocks = (case map_of blocks c of None \<Rightarrow> AList.update c b blocks | Some _ \<Rightarrow> blocks)"

definition quotaBlocksIncludingLegacy :: "routing_slot \<Rightarrow> class_blocks" where
  "quotaBlocksIncludingLegacy s =
     (case (rs_quota_blocked_until_ms s, rs_quota_block_source s) of
        (Some t, Some source) \<Rightarrow>
          let legacyClasses = List.map_filter class_of_key (rs_quota_blocked_classes s);
              classes = (if legacyClasses \<noteq> [] then legacyClasses else quota_classes)
          in fold (put_absent_class (slot_block t source s)) classes (rs_quota_blocks_by_class s)
      | _ \<Rightarrow> rs_quota_blocks_by_class s)"

definition withLegacyQuotaClassMap :: "routing_slot \<Rightarrow> routing_slot" where
  "withLegacyQuotaClassMap s =
     (let blocks = quotaBlocksIncludingLegacy s in
      if blocks = [] then s else s\<lparr>rs_quota_blocks_by_class := blocks, rs_quota_blocked_classes := class_keys blocks\<rparr>)"

definition quotaBlocksForClass :: "routing_slot \<Rightarrow> quota_class \<Rightarrow> class_block list" where
  "quotaBlocksForClass s c =
     (let blocks = rs_quota_blocks_by_class (withLegacyQuotaClassMap s) in
      js_unique (List.map_filter (\<lambda>b. b)
        [map_of blocks c, (if c = ClassUnknown then None else map_of blocks ClassUnknown)]))"

definition quotaSignalObservedAtForClass :: "routing_slot \<Rightarrow> quota_class \<Rightarrow> int option" where
  "quotaSignalObservedAtForClass s c =
     (let signals = List.map_filter (\<lambda>b. case cb_quota_signal_observed_at_ms b of
                       None \<Rightarrow> rs_quota_signal_observed_at_ms s | Some t \<Rightarrow> Some t) (quotaBlocksForClass s c)
      in if signals \<noteq> [] then Some (Max (set signals)) else rs_quota_signal_observed_at_ms s)"

definition quotaBlockKeyForClass :: "routing_slot \<Rightarrow> quota_class \<Rightarrow> quota_class option" where
  "quotaBlockKeyForClass s c =
     (case quotaBlockForClass s c of None \<Rightarrow> None
      | Some b \<Rightarrow>
          if map_of (rs_quota_blocks_by_class s) c = Some b then Some c
          else if c \<noteq> ClassUnknown \<and> map_of (rs_quota_blocks_by_class s) ClassUnknown = Some b \<and> cb_legacy_fallback b
               then Some ClassUnknown
          else None)"

definition drops_unknown :: "routing_slot \<Rightarrow> quota_class \<Rightarrow> bool" where
  "drops_unknown s c \<longleftrightarrow> c \<noteq> ClassUnknown \<and>
     (case map_of (rs_quota_blocks_by_class s) ClassUnknown of None \<Rightarrow> False | Some b \<Rightarrow> cb_legacy_fallback b)"

definition latest_signal :: "class_block list \<Rightarrow> int option \<Rightarrow> int option" where
  "latest_signal blocks fallback =
     (let signals = List.map_filter cb_quota_signal_observed_at_ms blocks in if signals \<noteq> [] then Some (Max (set signals)) else fallback)"

definition withoutQuotaClass :: "routing_slot \<Rightarrow> quota_class \<Rightarrow> routing_slot" where
  "withoutQuotaClass s c =
     (let blocks = filter (\<lambda>(k, b). k \<noteq> c \<and> \<not> (drops_unknown s c \<and> k = ClassUnknown)) (rs_quota_blocks_by_class s);
          remaining = map snd blocks;
          latest = fold later_block remaining None
      in s\<lparr>rs_quota_blocks_by_class := blocks, rs_quota_blocked_classes := class_keys blocks,
           rs_quota_blocked_until_ms := map_option cb_blocked_until_ms latest, rs_quota_block_source := map_option cb_source latest,
           rs_quota_signal_observed_at_ms := latest_signal remaining (rs_quota_signal_observed_at_ms s),
           rs_observed_reset_at_ms := Option.bind latest cb_observed_reset_at_ms,
           rs_observed_reset_at_is_stable := (case latest of None \<Rightarrow> False | Some b \<Rightarrow> cb_observed_reset_at_is_stable b),
           rs_banked_reset_generation_ambiguous := list_ex cb_banked_reset_generation_ambiguous remaining,
           rs_banked_reset_recovery_probe_pending := list_ex cb_banked_reset_recovery_probe_pending remaining\<rparr>)"

definition recheckQuotaClasses :: "routing_slot \<Rightarrow> int \<Rightarrow> routing_slot" where
  "recheckQuotaClasses s recheckAtMs =
     (if rs_quota_blocks_by_class s = []
      then s\<lparr>rs_quota_blocked_until_ms := map_option (\<lambda>_. recheckAtMs) (rs_quota_blocked_until_ms s),
             rs_banked_reset_generation_ambiguous := (rs_quota_blocked_until_ms s \<noteq> None \<or> rs_banked_reset_generation_ambiguous s)\<rparr>
      else
        let blocks = map (\<lambda>(k, b). (k, b\<lparr>cb_blocked_until_ms := recheckAtMs, cb_quota_signal_observed_at_ms := Some recheckAtMs,
                                        cb_banked_reset_generation_ambiguous := True\<rparr>)) (rs_quota_blocks_by_class s);
            latest = fold later_block (map snd blocks) None
        in s\<lparr>rs_quota_blocked_until_ms :=
               (case latest of Some b \<Rightarrow> Some (cb_blocked_until_ms b)
                | None \<Rightarrow> (case rs_quota_blocked_until_ms s of None \<Rightarrow> None | Some t \<Rightarrow> if t \<noteq> 0 then Some recheckAtMs else None)),
             rs_quota_block_source := (case latest of Some b \<Rightarrow> Some (cb_source b) | None \<Rightarrow> rs_quota_block_source s),
             rs_quota_blocked_classes := class_keys blocks, rs_quota_blocks_by_class := blocks,
             rs_observed_reset_at_ms :=
               (case Option.bind latest cb_observed_reset_at_ms of Some t \<Rightarrow> Some t | None \<Rightarrow> rs_observed_reset_at_ms s),
             rs_observed_reset_at_is_stable :=
               (case latest of Some b \<Rightarrow> cb_observed_reset_at_is_stable b | None \<Rightarrow> rs_observed_reset_at_is_stable s)\<rparr>)"

definition releaseQuotaClassProbe :: "routing_slot \<Rightarrow> quota_class \<Rightarrow> routing_slot" where
  "releaseQuotaClassProbe s c =
     (let classAwareSlot = withLegacyQuotaClassMap s;
          block = quotaBlockForClass classAwareSlot c;
          released = withoutQuotaClass classAwareSlot (case quotaBlockKeyForClass classAwareSlot c of Some k \<Rightarrow> k | None \<Rightarrow> c)
      in if \<not> rs_banked_reset_recovery_probe_pending classAwareSlot then released
         else released\<lparr>
           rs_observed_reset_at_ms :=
             (case Option.bind block cb_observed_reset_at_ms of Some t \<Rightarrow> Some t | None \<Rightarrow> rs_observed_reset_at_ms s),
           rs_observed_reset_at_is_stable :=
             (case block of Some b \<Rightarrow> cb_observed_reset_at_is_stable b | None \<Rightarrow> rs_observed_reset_at_is_stable s),
           rs_banked_reset_generation_ambiguous := True\<rparr>)"

section \<open>Accounts and their slots\<close>

definition slotFor :: "'a routing_state_scheme \<Rightarrow> 'b routing_account_scheme \<Rightarrow> routing_slot" where
  "slotFor st account =
     (if ra_slot account < length (rt_slots st) then rt_slots st ! ra_slot account
      else neutralSlot (ra_credentialVersion account) (Some (ra_accountIdHash account)))"

definition slotMatchesCodexRoutingAccount :: "routing_slot \<Rightarrow> 'b routing_account_scheme \<Rightarrow> bool" where
  "slotMatchesCodexRoutingAccount s account \<longleftrightarrow>
     rs_credential_version s = ra_credentialVersion account \<and>
     (rs_account_id_hash s = Some (ra_accountIdHash account) \<or> rs_account_id_hash s = None)"

definition routingProbeCircuit :: "'b routing_account_scheme \<Rightarrow> probe_circuit" where
  "routingProbeCircuit account = (case ra_probeCircuit account of Some c \<Rightarrow> c | None \<Rightarrow> QuotaCircuit)"

definition probeLeaseMatchesCodexRoutingAccount :: "routing_slot \<Rightarrow> 'b routing_account_scheme \<Rightarrow> bool" where
  "probeLeaseMatchesCodexRoutingAccount s account =
     (case (ra_probeGeneration account, rs_probe_lease s) of
        (Some generation, Some lease) \<Rightarrow>
          rs_generation s = generation \<and> le_generation lease = generation \<and> Some (le_token lease) = ra_probeToken account \<and>
          le_circuit lease = routingProbeCircuit account \<and>
          (routingProbeCircuit account \<noteq> QuotaCircuit \<or> le_quota_class lease = None \<or>
           le_quota_class lease = Some (quotaClass (ra_requestedModel account)))
      | _ \<Rightarrow> False)"

definition withSlot :: "routing_state \<Rightarrow> nat \<Rightarrow> routing_slot \<Rightarrow> int \<Rightarrow> routing_state" where
  "withSlot st index s updatedAtMs =
     (let slots = rt_slots st @ replicate (Suc index - length (rt_slots st)) (neutralSlot (rs_credential_version s) (rs_account_id_hash s))
      in st\<lparr>rt_updated_at_ms := updatedAtMs, rt_slots := slots[index := s]\<rparr>)"

section \<open>Capacity observations\<close>

text \<open>
  A used percentage leaves \<^verbatim>\<open>100 - value\<close>, rounded; the sum of 100 and a finite number is finite.
\<close>

definition percent_left :: "rat \<Rightarrow> rat" where
  "percent_left v = (case js_add (Fin 100) (Fin (- v)) of Fin q \<Rightarrow> q | _ \<Rightarrow> 0)"

definition headroom_of :: "rat option list \<Rightarrow> rat option" where
  "headroom_of percents =
     (let used = List.map_filter (\<lambda>p. p) percents in if used \<noteq> [] then Some (max 0 (Min (set (map percent_left used)))) else None)"

definition parseFinitePercent :: "string option \<Rightarrow> rat option" where
  "parseFinitePercent v =
     (case v of None \<Rightarrow> None
      | Some s \<Rightarrow> (case number_of_text s of Fin q \<Rightarrow> if 0 \<le> q \<and> q \<le> 100 then Some q else None | _ \<Rightarrow> None))"

definition quotaHeadroomFor :: "routing_slot \<Rightarrow> rat option" where
  "quotaHeadroomFor s = headroom_of [rs_primary_used_percent s, rs_secondary_used_percent s]"

definition capacityState :: "js \<Rightarrow> capacity_state option" where
  "capacityState v =
     (if v = JStr ''available'' then Some CapacityAvailable
      else if v = JStr ''stale'' then Some CapacityStale
      else if v = JStr ''unavailable'' then Some CapacityUnavailable else None)"

definition capacityPercent :: "js \<Rightarrow> rat option" where
  "capacityPercent v = (case v of JNum (Fin q) \<Rightarrow> if 0 \<le> q \<and> q \<le> 100 then Some q else None | _ \<Rightarrow> None)"

definition capacityWindowSeconds :: "js \<Rightarrow> int option" where
  "capacityWindowSeconds v = nonNegativeSafeInteger v"

definition capacityResetAtMs :: "js \<Rightarrow> int option" where
  "capacityResetAtMs v = parseOptionalSafeMs v"

definition normalizeCapacityWindow :: "js \<Rightarrow> capacity_window option" where
  "normalizeCapacityWindow v =
     (if v = JNull \<or> v = JUndef \<or> \<not> isRecord v then None
      else Some \<lparr>cw_limit_window_seconds = capacityWindowSeconds (js_get v ''limit_window_seconds''),
             cw_used_percent = capacityPercent (js_get v ''used_percent''), cw_reset_at_ms = capacityResetAtMs (js_get v ''reset_at_ms'')\<rparr>)"

definition capacity_windows_of :: "js \<Rightarrow> capacity_windows" where
  "capacity_windows_of windows =
     \<lparr>cs_primary = normalizeCapacityWindow (js_get windows ''primary''), cs_secondary = normalizeCapacityWindow (js_get windows ''secondary'')\<rparr>"

definition normalizeCapacityAdditionalRateLimit :: "js \<Rightarrow> additional_rate_limit option" where
  "normalizeCapacityAdditionalRateLimit v =
     (let limitName = (case js_text (js_get v ''limit_name'') of None \<Rightarrow> [] | Some s \<Rightarrow> js_trim s);
          windows = js_get v ''windows''; feature = js_get v ''metered_feature'' in
      if \<not> isRecord v \<or> limitName = [] \<or> \<not> isRecord windows \<or> (feature \<noteq> JNull \<and> feature \<noteq> JUndef \<and> js_text feature = None) then None
      else Some \<lparr>rl_limit_name = limitName,
             rl_metered_feature = (case js_text feature of None \<Rightarrow> None | Some s \<Rightarrow> if js_trim s = [] then None else Some (js_trim s)),
             rl_windows = capacity_windows_of windows\<rparr>)"

definition normalizeCapacityAdditionalRateLimits :: "js \<Rightarrow> additional_rate_limit list" where
  "normalizeCapacityAdditionalRateLimits v =
     (case js_items v of None \<Rightarrow> [] | Some vs \<Rightarrow> List.map_filter normalizeCapacityAdditionalRateLimit vs)"

definition capacityHeadroomForWindows :: "capacity_windows \<Rightarrow> rat option" where
  "capacityHeadroomForWindows w =
     headroom_of [Option.bind (cs_primary w) cw_used_percent, Option.bind (cs_secondary w) cw_used_percent]"

definition capacityHeadroomForObservation :: "capacity_observation \<Rightarrow> string option \<Rightarrow> rat option" where
  "capacityHeadroomForObservation ob model =
     (let baseHeadroom = capacityHeadroomForWindows (co_windows ob); modelKey = normalizeQuotaLabel model;
          modelLimits = filter (\<lambda>limit. normalizeQuotaLabel (Some (rl_limit_name limit)) = modelKey) (co_additional_rate_limits ob)
      in if modelKey = [] then baseHeadroom
         else if modelLimits \<noteq> []
         then let modelHeadrooms = List.map_filter (capacityHeadroomForWindows \<circ> rl_windows) modelLimits
              in if modelHeadrooms \<noteq> [] then Some (Max (set modelHeadrooms)) else None
         else baseHeadroom)"

definition capacityHasAnyPositiveHeadroom :: "capacity_observation \<Rightarrow> string option \<Rightarrow> bool" where
  "capacityHasAnyPositiveHeadroom ob model \<longleftrightarrow>
     co_state ob = CapacityAvailable \<and> (case capacityHeadroomForObservation ob model of None \<Rightarrow> False | Some h \<Rightarrow> 0 < h)"

definition safe_ms :: "int \<Rightarrow> bool" where
  "safe_ms t \<longleftrightarrow> is_safe_integer t \<and> 0 \<le> t"

definition capacityObservationIsFresh :: "capacity_observation \<Rightarrow> int \<Rightarrow> bool" where
  "capacityObservationIsFresh ob now \<longleftrightarrow>
     co_state ob = CapacityAvailable \<and> safe_ms (co_snapshot_at_ms ob) \<and> co_snapshot_at_ms ob \<le> now \<and>
     now - co_snapshot_at_ms ob \<le> CODEX_CAPACITY_ROUTING_MAX_AGE_MS"

definition parseStoredCapacityObservation :: "js \<Rightarrow> capacity_observation option" where
  "parseStoredCapacityObservation v =
     (if \<not> isRecord v then None
      else
        Option.bind (js_int (js_get v ''slot'')) (\<lambda>slot.
        Option.bind (nonempty_text (js_get v ''account_id_hash'')) (\<lambda>accountHash.
        Option.bind (capacityState (js_get v ''state'')) (\<lambda>state.
        Option.bind (nonNegativeSafeInteger (js_get v ''snapshot_at_ms'')) (\<lambda>snapshotAtMs.
        if slot < 0 \<or> 1 < slot \<or> \<not> isRecord (js_get v ''windows'') then None
        else Some \<lparr>co_slot = nat slot, co_account_id_hash = accountHash, co_state = state,
               co_source_observed_at_ms = nonNegativeSafeInteger (js_get v ''source_observed_at_ms''), co_snapshot_at_ms = snapshotAtMs,
               co_windows = capacity_windows_of (js_get v ''windows''),
               co_additional_rate_limits = normalizeCapacityAdditionalRateLimits (js_get v ''additional_rate_limits'')\<rparr>)))))"

definition parseStoredCapacityObservationStore :: "js \<Rightarrow> capacity_observation list" where
  "parseStoredCapacityObservationStore v =
     (if \<not> isRecord v \<or> js_get v ''v'' \<noteq> jint 1 then []
      else case js_items (js_get v ''observations'') of None \<Rightarrow> [] | Some vs \<Rightarrow> List.map_filter parseStoredCapacityObservation vs)"

definition merge_observation :: "capacity_observation \<Rightarrow> capacity_observation dict \<Rightarrow> capacity_observation dict" where
  "merge_observation ob byAccount =
     (case map_of byAccount (co_account_id_hash ob) of
        None \<Rightarrow> put (co_account_id_hash ob) ob byAccount
      | Some prior \<Rightarrow> if co_snapshot_at_ms prior \<le> co_snapshot_at_ms ob then put (co_account_id_hash ob) ob byAccount else byAccount)"

definition mergeCapacityObservations :: "capacity_observation list list \<Rightarrow> capacity_observation list" where
  "mergeCapacityObservations sets = sort_key co_slot (vals (fold merge_observation (concat sets) []))"

definition retainRecentCapacityObservations :: "capacity_observation list \<Rightarrow> int \<Rightarrow> capacity_observation list" where
  "retainRecentCapacityObservations observations now =
     filter (\<lambda>ob. max 0 (now - CODEX_CAPACITY_ROUTING_MAX_AGE_MS) \<le> co_snapshot_at_ms ob \<and> co_snapshot_at_ms ob \<le> now) observations"

definition capacityObservedSlot :: "routing_slot \<Rightarrow> routing_slot \<Rightarrow> capacity_observation \<Rightarrow> bool \<Rightarrow> routing_slot" where
  "capacityObservedSlot current capacityClearedSlot ob clearCircuit =
     (let observed = capacityClearedSlot\<lparr>
            rs_primary_used_percent := Option.bind (cs_primary (co_windows ob)) cw_used_percent,
            rs_secondary_used_percent := Option.bind (cs_secondary (co_windows ob)) cw_used_percent,
            rs_capacity_observed_at_ms := Some (co_snapshot_at_ms ob)\<rparr>;
          cleared = observed\<lparr>rs_account_id_hash := Some (co_account_id_hash ob)\<rparr>
      in if \<not> clearCircuit then observed
         else if rs_banked_reset_generation_ambiguous current \<or> rs_banked_reset_recovery_probe_pending current \<or> rs_probe_lease current \<noteq> None
         then cleared\<lparr>rs_observed_reset_at_ms := rs_observed_reset_at_ms current,
                rs_observed_reset_at_is_stable := rs_observed_reset_at_is_stable current,
                rs_banked_reset_generation_ambiguous := rs_banked_reset_generation_ambiguous current,
                rs_banked_reset_recovery_probe_pending := rs_banked_reset_recovery_probe_pending current,
                rs_probe_lease := rs_probe_lease current\<rparr>
         else if rs_quota_blocks_by_class capacityClearedSlot \<noteq> [] then cleared
         else cleared\<lparr>rs_observed_reset_at_ms := None, rs_observed_reset_at_is_stable := False,
                rs_banked_reset_generation_ambiguous := False, rs_banked_reset_recovery_probe_pending := False,
                rs_generation := rs_generation current + 1, rs_probe_lease := None\<rparr>)"

definition capacity_block :: "int \<Rightarrow> int \<Rightarrow> bool \<Rightarrow> class_block" where
  "capacity_block resetAtMs snapshotAtMs recoveryProbePending =
     \<lparr>cb_blocked_until_ms = resetAtMs, cb_source = HeaderRetryAfter, cb_legacy_fallback = False,
      cb_quota_signal_observed_at_ms = Some snapshotAtMs, cb_observed_reset_at_ms = Some resetAtMs,
      cb_observed_reset_at_is_stable = True, cb_banked_reset_generation_ambiguous = False,
      cb_banked_reset_recovery_probe_pending = recoveryProbePending\<rparr>"

definition already_blocked :: "class_block option \<Rightarrow> class_block \<Rightarrow> bool" where
  "already_blocked priorBlock nextBlock =
     (case priorBlock of None \<Rightarrow> False
      | Some p \<Rightarrow> cb_blocked_until_ms p = cb_blocked_until_ms nextBlock \<and> cb_source p = cb_source nextBlock \<and>
          cb_observed_reset_at_ms p = cb_observed_reset_at_ms nextBlock \<and> cb_observed_reset_at_is_stable p \<and>
          \<not> cb_banked_reset_generation_ambiguous p \<and>
          cb_banked_reset_recovery_probe_pending p = cb_banked_reset_recovery_probe_pending nextBlock)"

definition later_of :: "class_block \<Rightarrow> class_block \<Rightarrow> class_block" where
  "later_of candidate b = (if cb_blocked_until_ms candidate < cb_blocked_until_ms b then b else candidate)"

definition capacity_blocked_slot :: "routing_slot \<Rightarrow> 'b routing_account_scheme \<Rightarrow> class_block \<Rightarrow> int \<Rightarrow> routing_slot" where
  "capacity_blocked_slot current account nextBlock snapshotAtMs =
     (let quotaBlocksByClass = AList.update (quotaClass (ra_requestedModel account)) nextBlock (quotaBlocksIncludingLegacy current);
          blocks = map snd quotaBlocksByClass;
          latest = foldl later_of nextBlock blocks
      in current\<lparr>rs_account_id_hash := Some (ra_accountIdHash account),
           rs_quota_blocked_until_ms := Some (cb_blocked_until_ms latest), rs_quota_block_source := Some (cb_source latest),
           rs_quota_blocked_classes := class_keys quotaBlocksByClass, rs_quota_blocks_by_class := quotaBlocksByClass,
           rs_quota_signal_observed_at_ms := latest_signal blocks (Some snapshotAtMs),
           rs_observed_reset_at_ms := cb_observed_reset_at_ms latest,
           rs_observed_reset_at_is_stable := cb_observed_reset_at_is_stable latest,
           rs_banked_reset_generation_ambiguous := list_ex cb_banked_reset_generation_ambiguous blocks,
           rs_banked_reset_recovery_probe_pending := list_ex cb_banked_reset_recovery_probe_pending blocks,
           rs_generation := rs_generation current + 1\<rparr>)"

definition applyCapacityQuotaBlock ::
  "routing_state \<Rightarrow> 'b routing_account_scheme \<Rightarrow> capacity_observation \<Rightarrow> int \<Rightarrow> int \<Rightarrow> routing_state option" where
  "applyCapacityQuotaBlock st account ob now updatedAtMs =
     (if \<not> capacityObservationIsFresh ob now \<or> co_slot ob \<noteq> ra_slot account \<or> co_account_id_hash ob \<noteq> ra_accountIdHash account \<or>
         capacityHeadroomForObservation ob (ra_requestedModel account) \<noteq> Some 0
      then None
      else case Option.bind (cs_primary (co_windows ob)) cw_reset_at_ms of
        None \<Rightarrow> None
      | Some resetAtMs \<Rightarrow>
          let current = slotFor st account; c = quotaClass (ra_requestedModel account);
              classAwareCurrent = withLegacyQuotaClassMap current;
              priorBlock = quotaBlockForClass classAwareCurrent c;
              newerSignal = (case quotaSignalObservedAtForClass classAwareCurrent c of None \<Rightarrow> False | Some t \<Rightarrow> co_snapshot_at_ms ob < t);
              recoveryProbePending = (rs_banked_reset_recovery_probe_pending current \<or>
                (case priorBlock of None \<Rightarrow> False | Some b \<Rightarrow> cb_banked_reset_recovery_probe_pending b));
              nextBlock = capacity_block resetAtMs (co_snapshot_at_ms ob) recoveryProbePending
          in if \<not> safe_ms resetAtMs \<or> resetAtMs \<le> now \<or> \<not> slotMatchesCodexRoutingAccount current account \<or>
                rs_probe_lease current \<noteq> None \<or> newerSignal \<or> already_blocked priorBlock nextBlock
             then None
             else Some (st\<lparr>rt_updated_at_ms := updatedAtMs,
               rt_slots := (rt_slots st)[ra_slot account := capacity_blocked_slot current account nextBlock (co_snapshot_at_ms ob)]\<rparr>))"

definition applyCapacityObservation ::
  "routing_state \<Rightarrow> capacity_observation \<Rightarrow> int \<Rightarrow> string option \<Rightarrow> int \<Rightarrow> routing_state option" where
  "applyCapacityObservation st ob now model updatedAtMs =
     (if now < co_snapshot_at_ms ob \<or> length (rt_slots st) \<le> co_slot ob then None
      else
        let current = rt_slots st ! co_slot ob; c = quotaClass model;
            classAwareCurrent = withLegacyQuotaClassMap current;
            newerQuotaSignal = (case quotaSignalObservedAtForClass classAwareCurrent c of None \<Rightarrow> False | Some t \<Rightarrow> co_snapshot_at_ms ob \<le> t);
            clearCircuit = (capacityObservationIsFresh ob now \<and> capacityHasAnyPositiveHeadroom ob model \<and> \<not> newerQuotaSignal);
            capacityClearedSlot = (if clearCircuit
              then withoutQuotaClass classAwareCurrent (case quotaBlockKeyForClass classAwareCurrent c of Some k \<Rightarrow> k | None \<Rightarrow> c)
              else current);
            nextSlot = capacityObservedSlot current capacityClearedSlot ob clearCircuit
        in if rs_account_id_hash current \<noteq> Some (co_account_id_hash ob) \<or>
              (case rs_capacity_observed_at_ms current of None \<Rightarrow> False | Some t \<Rightarrow> co_snapshot_at_ms ob < t)
           then None
           else if clearCircuit \<or> nextSlot \<noteq> current then Some (withSlot st (co_slot ob) nextSlot updatedAtMs) else None)"

record capacity_store_plan =
  cp_check :: "string option"
  cp_updated_at_ms :: int
  cp_observations :: "capacity_observation list"

definition planCapacityObservationStore ::
  "string option \<Rightarrow> capacity_observation list \<Rightarrow> capacity_observation list \<Rightarrow> int \<Rightarrow> capacity_store_plan" where
  "planCapacityObservationStore capacityRevision durable observations now =
     \<lparr>cp_check = capacityRevision, cp_updated_at_ms = now,
      cp_observations = retainRecentCapacityObservations (mergeCapacityObservations [durable, observations]) now\<rparr>"

end
