(* ===== verification/Codex_Selection.thy ===== *)
theory Codex_Selection
  imports Codex_Capacity
begin

text \<open>
  Evaluation of one account, the fold over a cohort and its classification
  (\<^verbatim>\<open>src/src/authority/native-codex-evaluation.ts\<close>), and the sticky serial selection with its commit plan
  (\<^verbatim>\<open>src/src/authority/native-codex.ts\<close>). A \<^verbatim>\<open>Map\<close> built from a list keeps the last entry of a key.
\<close>

section \<open>Evaluating an account\<close>

record account_evaluation =
  ev_account :: routing_account
  ev_routedAccount :: "routing_account option"
  ev_skippedSlot :: "nat option"
  ev_blockedCircuit :: "probe_circuit option"
  ev_retryAtMs :: "int option"
  ev_blockedAccount :: "blocked_account option"
  ev_activeTransitionReason :: "transition_reason option"
  ev_capacityExhausted :: bool
  ev_modelUnavailable :: "(string \<times> string option) option"

definition skippedRoutingAccount ::
  "routing_account \<Rightarrow> nat \<Rightarrow> probe_circuit option \<Rightarrow> int option \<Rightarrow> blocked_account option \<Rightarrow> transition_reason option \<Rightarrow> account_evaluation" where
  "skippedRoutingAccount account slotNumber blockedCircuit retryAtMs blockedAccount reason =
     \<lparr>ev_account = account, ev_routedAccount = None, ev_skippedSlot = Some slotNumber, ev_blockedCircuit = blockedCircuit,
      ev_retryAtMs = retryAtMs, ev_blockedAccount = blockedAccount, ev_activeTransitionReason = reason,
      ev_capacityExhausted = False, ev_modelUnavailable = None\<rparr>"

definition routedRoutingAccount :: "routing_account \<Rightarrow> account_evaluation" where
  "routedRoutingAccount account =
     \<lparr>ev_account = account, ev_routedAccount = Some account, ev_skippedSlot = None, ev_blockedCircuit = None, ev_retryAtMs = None,
      ev_blockedAccount = None, ev_activeTransitionReason = None, ev_capacityExhausted = False, ev_modelUnavailable = None\<rparr>"

definition freshCapacityObservation :: "capacity_observation option \<Rightarrow> int \<Rightarrow> capacity_observation option" where
  "freshCapacityObservation ob now =
     (case ob of None \<Rightarrow> None | Some ob \<Rightarrow> if capacityObservationIsFresh ob now then Some ob else None)"

record capacity_decision =
  cd_quotaHeadroom :: "rat option"
  cd_capacityOverride :: bool
  cd_capacityExhausted :: bool

definition resolveCodexCapacityDecision ::
  "routing_slot \<Rightarrow> routing_slot \<Rightarrow> quota_class \<Rightarrow> capacity_observation option \<Rightarrow> string option \<Rightarrow> int \<Rightarrow> capacity_decision" where
  "resolveCodexCapacityDecision s classAwareSlot c observation model now =
     (case freshCapacityObservation observation now of
        None \<Rightarrow> \<lparr>cd_quotaHeadroom = quotaHeadroomFor s, cd_capacityOverride = False, cd_capacityExhausted = False\<rparr>
      | Some ob \<Rightarrow>
          let observed = capacityHeadroomForObservation ob model;
              quotaSignalNewer = (case quotaSignalObservedAtForClass classAwareSlot c of
                                    None \<Rightarrow> False | Some t \<Rightarrow> co_snapshot_at_ms ob \<le> t)
          in \<lparr>cd_quotaHeadroom = observed,
              cd_capacityOverride = ((case observed of None \<Rightarrow> False | Some h \<Rightarrow> 0 < h) \<and> \<not> quotaSignalNewer),
              cd_capacityExhausted = (observed = Some 0 \<and> \<not> quotaSignalNewer)\<rparr>)"

definition blocked_metadata :: "routing_account \<Rightarrow> int \<Rightarrow> blocked_account" where
  "blocked_metadata account quotaResetAtMs = routing_account.extend account \<lparr>ba_quotaResetAtMs = quotaResetAtMs\<rparr>"

definition quotaBlockedSkipFor ::
  "class_block option \<Rightarrow> routing_account \<Rightarrow> int \<Rightarrow> bool \<Rightarrow> (int \<times> blocked_account option) option" where
  "quotaBlockedSkipFor requestedClassBlock routedAccount now capacityOverride =
     (case requestedClassBlock of None \<Rightarrow> None
      | Some b \<Rightarrow>
          if cb_blocked_until_ms b \<le> now \<or> capacityOverride then None
          else Some (cb_blocked_until_ms b,
            (case cb_observed_reset_at_ms b of
               Some reset \<Rightarrow> if cb_observed_reset_at_is_stable b then Some (blocked_metadata routedAccount reset) else None
             | None \<Rightarrow> None)))"

definition probeLeaseSkipFor :: "routing_slot \<Rightarrow> quota_class \<Rightarrow> int \<Rightarrow> (probe_circuit \<times> int) option" where
  "probeLeaseSkipFor s c now =
     (case rs_probe_lease s of None \<Rightarrow> None
      | Some lease \<Rightarrow>
          if le_expires_at_ms lease \<le> now then None
          else if le_circuit lease \<noteq> UpstreamTimeoutCircuit \<and> (le_quota_class lease = None \<or> le_quota_class lease = Some c)
          then Some (le_circuit lease, le_expires_at_ms lease) else None)"

definition identity_account :: "routing_identity \<Rightarrow> string option \<Rightarrow> routing_account" where
  "identity_account mapped model =
     \<lparr>ra_slot = ri_slot mapped, ra_accountIdHash = ri_accountIdHash mapped, ra_credentialVersion = ri_credentialVersion mapped,
      ra_quotaHeadroom = None, ra_probeRequired = False, ra_probeGeneration = None, ra_probeToken = None, ra_probeCircuit = None,
      ra_overageFallback = False, ra_routingGeneration = None, ra_activeGeneration = None, ra_activePoolVersionstamp = None,
      ra_activeTransitionReason = None, ra_requestedModel = model\<rparr>"

definition account_slot :: "'a routing_state_scheme \<Rightarrow> routing_account \<Rightarrow> routing_slot" where
  "account_slot st account =
     (if slotMatchesCodexRoutingAccount (slotFor st account) account then slotFor st account
      else neutralSlot (ra_credentialVersion account) (Some (ra_accountIdHash account)))"

text \<open>The reset deadline of a fresh observation, when it is a safe integer in the future.\<close>

definition future_reset :: "capacity_observation option \<Rightarrow> int \<Rightarrow> int option" where
  "future_reset observation now =
     (case Option.bind (freshCapacityObservation observation now) (\<lambda>ob. Option.bind (cs_primary (co_windows ob)) cw_reset_at_ms) of
        None \<Rightarrow> None | Some t \<Rightarrow> if is_safe_integer t \<and> now < t then Some t else None)"

text \<open>The evaluation after the credential and model checks.\<close>

definition quota_evaluation ::
  "routing_slot \<Rightarrow> routing_account \<Rightarrow> nat \<Rightarrow> quota_class \<Rightarrow> class_block option \<Rightarrow> capacity_observation option \<Rightarrow> capacity_decision \<Rightarrow>
   int \<Rightarrow> account_policy \<Rightarrow> account_evaluation" where
  "quota_evaluation s routedAccount number c requestedClassBlock observation capacity now policy =
     (case quotaBlockedSkipFor requestedClassBlock routedAccount now (cd_capacityOverride capacity) of
        Some (retryAtMs, blockedAccount) \<Rightarrow>
          skippedRoutingAccount routedAccount number (Some QuotaCircuit) (Some retryAtMs) blockedAccount (Some QuotaExhausted)
      | None \<Rightarrow>
          if cd_capacityExhausted capacity
          then if ac_overageUsageAllowed policy
               then (routedRoutingAccount (routedAccount\<lparr>ra_probeRequired := False, ra_probeCircuit := None\<rparr>))\<lparr>ev_capacityExhausted := True\<rparr>
               else (case future_reset observation now of
                       Some reset \<Rightarrow>
                         (skippedRoutingAccount routedAccount number (Some QuotaCircuit) (Some reset)
                            (Some (blocked_metadata routedAccount reset)) (Some QuotaExhausted))\<lparr>ev_capacityExhausted := True\<rparr>
                     | None \<Rightarrow>
                         (routedRoutingAccount (routedAccount\<lparr>ra_probeRequired := True, ra_probeCircuit := Some QuotaCircuit\<rparr>))
                           \<lparr>ev_capacityExhausted := True\<rparr>)
          else (case probeLeaseSkipFor s c now of
                  Some (circuit, retryAtMs) \<Rightarrow> skippedRoutingAccount routedAccount number (Some circuit) (Some retryAtMs) None None
                | None \<Rightarrow>
                    if requestedClassBlock \<noteq> None
                    then routedRoutingAccount (routedAccount\<lparr>ra_probeRequired := \<not> cd_capacityOverride capacity,
                           ra_probeCircuit := (if cd_capacityOverride capacity then None else Some QuotaCircuit)\<rparr>)
                    else routedRoutingAccount routedAccount))"

definition evaluateCodexRoutingAccount ::
  "'a routing_state_scheme \<Rightarrow> routing_identity \<Rightarrow> string option \<Rightarrow> (string \<rightharpoonup> capacity_observation) \<Rightarrow> int \<Rightarrow> account_policy \<Rightarrow> account_evaluation" where
  "evaluateCodexRoutingAccount st mapped model observationsByAccount now policy =
     (let account = identity_account mapped model;
          s = account_slot st account;
          c = quotaClass model;
          classAwareSlot = withLegacyQuotaClassMap s;
          requestedClassBlock = quotaBlockForClass classAwareSlot c;
          observation = observationsByAccount (ra_accountIdHash account);
          capacity = resolveCodexCapacityDecision s classAwareSlot c observation model now;
          routedAccount = account\<lparr>ra_quotaHeadroom := cd_quotaHeadroom capacity, ra_routingGeneration := Some (rs_generation s)\<rparr>;
          number = ri_slot mapped + 1
      in
      if rs_invalid_credential_version s = Some (ra_credentialVersion account)
      then skippedRoutingAccount routedAccount number None None None (Some CredentialInvalid)
      else case (model, ac_modelUnavailable policy) of
        (Some named, Some detail) \<Rightarrow>
          (skippedRoutingAccount routedAccount number None None None (Some ModelUnavailable))\<lparr>ev_modelUnavailable := Some (named, detail)\<rparr>
      | _ \<Rightarrow> quota_evaluation s routedAccount number c requestedClassBlock observation capacity now policy)"

section \<open>Folding and classifying a cohort\<close>

record accumulation =
  ax_available :: "routing_account list"
  ax_blockedAccounts :: "blocked_account list"
  ax_skipped :: "nat list"
  ax_retryAt :: "int option"
  ax_hasQuotaBlock :: bool
  ax_hasUpstreamTimeoutBlock :: bool
  ax_modelUnavailable :: "(string \<times> string option) option"

definition foldCodexRoutingEvaluation :: "accumulation \<Rightarrow> account_evaluation \<Rightarrow> accumulation" where
  "foldCodexRoutingEvaluation a ev =
     (case ev_routedAccount ev of
        Some account \<Rightarrow> a\<lparr>ax_available := ax_available a @ [account]\<rparr>
      | None \<Rightarrow>
          a\<lparr>ax_skipped := ax_skipped a @ (case ev_skippedSlot ev of None \<Rightarrow> [] | Some n \<Rightarrow> [n]),
            ax_hasUpstreamTimeoutBlock := (ax_hasUpstreamTimeoutBlock a \<or> ev_blockedCircuit ev = Some UpstreamTimeoutCircuit),
            ax_hasQuotaBlock := (ax_hasQuotaBlock a \<or> ev_blockedCircuit ev = Some QuotaCircuit),
            ax_modelUnavailable := (case ax_modelUnavailable a of None \<Rightarrow> ev_modelUnavailable ev | Some m \<Rightarrow> Some m),
            ax_retryAt := (case ev_retryAtMs ev of None \<Rightarrow> ax_retryAt a
                           | Some t \<Rightarrow> Some (case ax_retryAt a of None \<Rightarrow> t | Some u \<Rightarrow> min u t)),
            ax_blockedAccounts := ax_blockedAccounts a @ (case ev_blockedAccount ev of None \<Rightarrow> [] | Some b \<Rightarrow> [b])\<rparr>)"

definition classifyCodexRouteSelection ::
  "accumulation \<Rightarrow> bool \<Rightarrow> active_selection option \<Rightarrow> string option \<Rightarrow> string option \<Rightarrow> bool \<Rightarrow> route_selection" where
  "classifyCodexRouteSelection a fullCohortExhausted activeSnapshot poolSnapshotJson capacitySnapshotJson fullCohortUnavailable =
     (if ax_available a \<noteq> [] then RouteEligible (ax_available a) (ax_skipped a) (ax_blockedAccounts a)
      else if ax_hasUpstreamTimeoutBlock a then RouteUpstreamBlocked (ax_skipped a) (ax_retryAt a)
      else if ax_hasQuotaBlock a
      then RouteQuotaBlocked \<lparr>qr_skippedSlots = ax_skipped a, qr_retryAtMs = ax_retryAt a, qr_blockedAccounts = ax_blockedAccounts a,
             qr_fullCohortExhausted = fullCohortExhausted, qr_fullCohortUnavailable = fullCohortUnavailable,
             qr_activeSnapshot = activeSnapshot, qr_poolSnapshotJson = poolSnapshotJson, qr_capacitySnapshotJson = capacitySnapshotJson\<rparr>
      else case ax_modelUnavailable a of
             Some (model, detail) \<Rightarrow> RouteModelUnavailable model detail (ax_skipped a)
           | None \<Rightarrow> RouteCredentialsInvalid (ax_skipped a) fullCohortUnavailable)"

definition routingStateChangedByNormalization :: "routing_state option \<Rightarrow> normalized_routing \<Rightarrow> bool" where
  "routingStateChangedByNormalization durable normalized =
     (case durable of None \<Rightarrow> True
      | Some st \<Rightarrow>
          rt_legacy_identity_unresolved st \<noteq> rt_legacy_identity_unresolved normalized \<or>
          length (rt_slots st) \<noteq> length (rt_slots normalized) \<or>
          list_ex (\<lambda>i. nr_origins normalized ! i \<noteq> Some i) [0..<length (rt_slots st)])"

section \<open>Serial selection\<close>

record routing_evaluations =
  re_accumulated :: accumulation
  re_byAccountId :: "string \<rightharpoonup> account_evaluation"
  re_identityByAccountId :: "string \<rightharpoonup> routing_identity"

definition activeSelectionForAccount ::
  "routing_account \<Rightarrow> string \<Rightarrow> int \<Rightarrow> int \<Rightarrow> transition_reason option \<Rightarrow> active_selection option" where
  "activeSelectionForAccount account poolVersionstamp generation now reason =
     (case ra_routingGeneration account of None \<Rightarrow> None
      | Some routingGeneration \<Rightarrow>
          if \<not> isVersionstamp poolVersionstamp \<or> \<not> is_safe_integer generation \<or> generation < 1 then None
          else Some \<lparr>as_account_id_hash = ra_accountIdHash account, as_credential_version = ra_credentialVersion account,
                 as_pool_versionstamp = poolVersionstamp, as_slot = ra_slot account, as_routing_generation = routingGeneration,
                 as_generation = generation, as_transition_reason = reason, as_updated_at_ms = now\<rparr>)"

definition activeSelectionNeedsRefresh :: "active_selection \<Rightarrow> routing_account \<Rightarrow> string \<Rightarrow> bool" where
  "activeSelectionNeedsRefresh active account poolVersionstamp \<longleftrightarrow>
     as_account_id_hash active \<noteq> ra_accountIdHash account \<or> as_credential_version active \<noteq> ra_credentialVersion account \<or>
     as_pool_versionstamp active \<noteq> poolVersionstamp \<or> as_slot active \<noteq> ra_slot account \<or>
     Some (as_routing_generation active) \<noteq> ra_routingGeneration account"

type_synonym serial_decision = "route_selection \<times> active_selection option"

record selection_context =
  sc_evaluations :: routing_evaluations
  sc_poolVersionstamp :: string
  sc_now :: int
  sc_poolSnapshotJson :: "string option"
  sc_capacitySnapshotJson :: "string option"
  sc_eligibleInPoolOrder :: "routing_account list"
  sc_fullCohortExhausted :: bool
  sc_fullCohortUnavailable :: bool
  sc_activeEvaluation :: "account_evaluation option"

definition eligibleSerialSelection :: "routing_account \<Rightarrow> active_selection \<Rightarrow> routing_evaluations \<Rightarrow> route_selection" where
  "eligibleSerialSelection account selection evaluations =
     RouteEligible
       [account\<lparr>ra_activeGeneration := Some (as_generation selection), ra_activePoolVersionstamp := Some (as_pool_versionstamp selection),
                ra_activeTransitionReason := as_transition_reason selection\<rparr>]
       (ax_skipped (re_accumulated evaluations)) (ax_blockedAccounts (re_accumulated evaluations))"

definition blockedSerialSelection :: "selection_context \<Rightarrow> active_selection option \<Rightarrow> route_selection" where
  "blockedSerialSelection ctx current =
     classifyCodexRouteSelection (re_accumulated (sc_evaluations ctx)) (sc_fullCohortExhausted ctx) current
       (sc_poolSnapshotJson ctx) (sc_capacitySnapshotJson ctx) (sc_fullCohortUnavailable ctx)"

definition serialBootstrapDecision :: "selection_context \<Rightarrow> serial_decision option" where
  "serialBootstrapDecision ctx =
     (case sc_eligibleInPoolOrder ctx of
        [] \<Rightarrow> Some (blockedSerialSelection ctx None, None)
      | bootstrap # _ \<Rightarrow>
          map_option (\<lambda>nextActive. (eligibleSerialSelection bootstrap nextActive (sc_evaluations ctx), Some nextActive))
            (activeSelectionForAccount bootstrap (sc_poolVersionstamp ctx) 1 (sc_now ctx) None))"

text \<open>The move to the first eligible account, shared by the two decisions that leave the active account.\<close>

definition serial_move :: "selection_context \<Rightarrow> active_selection \<Rightarrow> routing_account \<Rightarrow> transition_reason \<Rightarrow> serial_decision option" where
  "serial_move ctx active replacement reason =
     map_option (\<lambda>nextActive. (eligibleSerialSelection replacement nextActive (sc_evaluations ctx), Some nextActive))
       (activeSelectionForAccount replacement (sc_poolVersionstamp ctx) (as_generation active + 1) (sc_now ctx) (Some reason))"

definition serialReplacementDecision :: "selection_context \<Rightarrow> active_selection \<Rightarrow> serial_decision option" where
  "serialReplacementDecision ctx active =
     (case sc_eligibleInPoolOrder ctx of
        [] \<Rightarrow> Some (blockedSerialSelection ctx (Some active), None)
      | replacement # _ \<Rightarrow> serial_move ctx active replacement AccountRemovedOrReplaced)"

text \<open>The refreshed fences of an unchanged account: the outer option is the refusal, the inner one whether the row changes.\<close>

definition serial_refresh :: "selection_context \<Rightarrow> active_selection \<Rightarrow> routing_account \<Rightarrow> active_selection option option" where
  "serial_refresh ctx active account =
     (if activeSelectionNeedsRefresh active account (sc_poolVersionstamp ctx)
      then map_option Some (activeSelectionForAccount account (sc_poolVersionstamp ctx) (as_generation active) (sc_now ctx) (as_transition_reason active))
      else Some None)"

definition current_row :: "active_selection \<Rightarrow> active_selection option \<Rightarrow> active_selection" where
  "current_row active refreshed = (case refreshed of None \<Rightarrow> active | Some r \<Rightarrow> r)"

definition serialCurrentActiveDecision :: "selection_context \<Rightarrow> active_selection \<Rightarrow> routing_account \<Rightarrow> serial_decision option" where
  "serialCurrentActiveDecision ctx active current =
     map_option (\<lambda>refreshed. (eligibleSerialSelection current (current_row active refreshed) (sc_evaluations ctx), refreshed))
       (serial_refresh ctx active current)"

definition serialBlockedActiveDecision :: "selection_context \<Rightarrow> active_selection \<Rightarrow> account_evaluation \<Rightarrow> serial_decision option" where
  "serialBlockedActiveDecision ctx active ev =
     (case ev_activeTransitionReason ev of
        None \<Rightarrow> Some (RouteUnavailable, None)
      | Some reason \<Rightarrow>
          (case sc_eligibleInPoolOrder ctx of
             [] \<Rightarrow> map_option (\<lambda>refreshed. (blockedSerialSelection ctx (Some (current_row active refreshed)), refreshed))
                     (serial_refresh ctx active (ev_account ev))
           | replacement # _ \<Rightarrow> serial_move ctx active replacement reason))"

definition account_reason :: "routing_evaluations \<Rightarrow> routing_identity \<Rightarrow> transition_reason option" where
  "account_reason evaluations auth = Option.bind (re_byAccountId evaluations (ri_accountIdHash auth)) ev_activeTransitionReason"

definition serial_context ::
  "active_selection option \<Rightarrow> routing_identity list \<Rightarrow> routing_evaluations \<Rightarrow> string \<Rightarrow> int \<Rightarrow> string option \<Rightarrow> string option \<Rightarrow> selection_context" where
  "serial_context active pool evaluations poolVersionstamp now poolSnapshotJson capacitySnapshotJson =
     (let accountForActive = Option.bind active (\<lambda>a.
            find (\<lambda>account. map_option ri_accountIdHash (re_identityByAccountId evaluations (ri_accountIdHash account)) = Some (as_account_id_hash a)) pool)
      in \<lparr>sc_evaluations = evaluations, sc_poolVersionstamp = poolVersionstamp, sc_now = now, sc_poolSnapshotJson = poolSnapshotJson,
          sc_capacitySnapshotJson = capacitySnapshotJson,
          sc_eligibleInPoolOrder = List.map_filter (\<lambda>auth. Option.bind (re_byAccountId evaluations (ri_accountIdHash auth)) ev_routedAccount) pool,
          sc_fullCohortExhausted = (pool \<noteq> [] \<and> list_all (\<lambda>auth. account_reason evaluations auth = Some QuotaExhausted) pool),
          sc_fullCohortUnavailable = (pool \<noteq> [] \<and> list_all (\<lambda>auth. account_reason evaluations auth = Some QuotaExhausted \<or>
                                                     account_reason evaluations auth = Some CredentialInvalid) pool),
          sc_activeEvaluation = Option.bind accountForActive (\<lambda>account. re_byAccountId evaluations (ri_accountIdHash account))\<rparr>)"

definition serialSelectionDecision ::
  "active_selection option \<Rightarrow> routing_identity list \<Rightarrow> routing_evaluations \<Rightarrow> string \<Rightarrow> int \<Rightarrow> string option \<Rightarrow> string option \<Rightarrow> serial_decision option" where
  "serialSelectionDecision active pool evaluations poolVersionstamp now poolSnapshotJson capacitySnapshotJson =
     (let ctx = serial_context active pool evaluations poolVersionstamp now poolSnapshotJson capacitySnapshotJson
      in case active of
           None \<Rightarrow> serialBootstrapDecision ctx
         | Some a \<Rightarrow>
             (case sc_activeEvaluation ctx of
                None \<Rightarrow> serialReplacementDecision ctx a
              | Some ev \<Rightarrow>
                  (case ev_routedAccount ev of
                     Some current \<Rightarrow> serialCurrentActiveDecision ctx a current
                   | None \<Rightarrow> serialBlockedActiveDecision ctx a ev)))"

definition planCodexSerialCommit :: "row_revisions \<Rightarrow> routing_state option \<Rightarrow> normalized_routing \<Rightarrow> serial_decision \<Rightarrow> serial_admission_plan" where
  "planCodexSerialCommit checks durableRouting normalized decision =
     \<lparr>sp_checks = checks,
      sp_routing = (if routingStateChangedByNormalization durableRouting normalized then Some (routing_state.truncate normalized) else None),
      sp_active = snd decision, sp_selection = fst decision\<rparr>"

record serial_snapshot =
  ss_active :: js
  ss_routing :: js
  ss_capacity :: js
  ss_poolIdentities :: "routing_identity list"
  ss_selectedAccountHashes :: "string list"
  ss_accountPolicies :: "string \<rightharpoonup> account_policy"
  ss_revisions :: row_revisions

definition no_accumulation :: accumulation where
  "no_accumulation = \<lparr>ax_available = [], ax_blockedAccounts = [], ax_skipped = [], ax_retryAt = None, ax_hasQuotaBlock = False,
     ax_hasUpstreamTimeoutBlock = False, ax_modelUnavailable = None\<rparr>"

fun evaluate_cohort ::
  "(routing_identity \<Rightarrow> account_policy \<Rightarrow> account_evaluation) \<Rightarrow> (string \<rightharpoonup> account_policy) \<Rightarrow> routing_identity list \<Rightarrow>
   accumulation \<Rightarrow> (string \<rightharpoonup> account_evaluation) \<Rightarrow> (accumulation \<times> (string \<rightharpoonup> account_evaluation)) option" where
  "evaluate_cohort evaluate policies [] a table = Some (a, table)"
| "evaluate_cohort evaluate policies (identity # rest) a table =
     (case policies (ri_accountIdHash identity) of
        None \<Rightarrow> None
      | Some policy \<Rightarrow>
          let ev = evaluate identity policy
          in evaluate_cohort evaluate policies rest (foldCodexRoutingEvaluation a ev) (table(ri_accountIdHash identity \<mapsto> ev)))"

text \<open>A stored row or its absence: the outer option is a row that does not parse.\<close>

definition stored_row :: "(js \<Rightarrow> 'a option) \<Rightarrow> js \<Rightarrow> 'a option option" where
  "stored_row parse v = (if v = JNull then Some None else map_option Some (parse v))"

definition snapshot_cohort :: "serial_snapshot \<Rightarrow> routing_identity list" where
  "snapshot_cohort snapshot = filter (\<lambda>i. ri_accountIdHash i \<in> set (ss_selectedAccountHashes snapshot)) (ss_poolIdentities snapshot)"

definition observation_map :: "js \<Rightarrow> (string \<rightharpoonup> capacity_observation)" where
  "observation_map v = map_of (rev (map (\<lambda>ob. (co_account_id_hash ob, ob)) (parseStoredCapacityObservationStore v)))"

definition identity_map :: "routing_identity list \<Rightarrow> (string \<rightharpoonup> routing_identity)" where
  "identity_map identities = map_of (rev (map (\<lambda>i. (ri_accountIdHash i, i)) identities))"

definition selectCodex :: "serial_snapshot \<Rightarrow> int \<Rightarrow> string option \<Rightarrow> serial_admission_plan option" where
  "selectCodex snapshot now model =
     Option.bind (stored_row parseCodexActiveAccountSelection (ss_active snapshot)) (\<lambda>active.
     Option.bind (rv_pool (ss_revisions snapshot)) (\<lambda>poolVersionstamp.
     if \<not> isVersionstamp poolVersionstamp then None
     else
       Option.bind (stored_row parseCodexAccountRoutingState (ss_routing snapshot)) (\<lambda>durable.
       let normalized = normalizeRoutingState durable (ss_poolIdentities snapshot) now True;
           cohort = snapshot_cohort snapshot;
           observations = observation_map (ss_capacity snapshot);
           evaluate = (\<lambda>identity policy. evaluateCodexRoutingAccount normalized identity model observations now policy)
       in Option.bind (evaluate_cohort evaluate (ss_accountPolicies snapshot) cohort no_accumulation Map.empty) (\<lambda>(accumulator, byAccountId).
          map_option (planCodexSerialCommit (ss_revisions snapshot) durable normalized)
            (serialSelectionDecision active cohort
               \<lparr>re_accumulated = accumulator, re_byAccountId = byAccountId,
                re_identityByAccountId = identity_map (ss_poolIdentities snapshot)\<rparr>
               poolVersionstamp now None None)))))"

record reset_election_plan =
  el_checks :: row_revisions
  el_routing :: "routing_state option"
  el_active :: active_selection

definition planCodexResetElection ::
  "row_revisions \<Rightarrow> routing_state option \<Rightarrow> normalized_routing \<Rightarrow> active_selection \<Rightarrow> reset_election_plan" where
  "planCodexResetElection checks durableRouting normalized nextActive =
     \<lparr>el_checks = checks,
      el_routing = (if routingStateChangedByNormalization durableRouting normalized then Some (routing_state.truncate normalized) else None),
      el_active = nextActive\<rparr>"

end
