(* ===== verification/Codex_Circuits.thy ===== *)
theory Codex_Circuits
  imports Codex_Selection
begin

text \<open>
  Facts about the circuits of subscription accounts: what normalization makes of a slot, how the blocks of
  the quota classes combine, and the evaluation of one account as a decision over four named causes.
\<close>

section \<open>Normalization\<close>

definition slot_settled :: "routing_identity \<Rightarrow> routing_slot \<Rightarrow> bool" where
  "slot_settled identity s \<longleftrightarrow> slot_survives s identity"

lemma timeout_gone: "\<not> has_timeout_circuit (withoutLegacyTimeoutCircuit s)"
  by (auto simp: withoutLegacyTimeoutCircuit_def has_timeout_circuit_def has_timeout_lease_def split: option.splits)

lemma timeout_keeps:
  "rs_credential_version (withoutLegacyTimeoutCircuit s) = rs_credential_version s"
  "rs_account_id_hash (withoutLegacyTimeoutCircuit s) = rs_account_id_hash s"
  "rs_quota_blocks_by_class (withoutLegacyTimeoutCircuit s) = rs_quota_blocks_by_class s"
  by (simp_all add: withoutLegacyTimeoutCircuit_def)

lemma neutral_settled: "slot_settled identity (neutralSlot (ri_credentialVersion identity) (Some (ri_accountIdHash identity)))"
  by (simp add: slot_settled_def slot_survives_def neutralSlot_def has_timeout_circuit_def has_timeout_lease_def same_account_def)

lemma rotated_identity:
  "rs_credential_version (rotateCredentialForSameAccount s identity) = ri_credentialVersion identity"
  "rs_account_id_hash (rotateCredentialForSameAccount s identity) = Some (ri_accountIdHash identity)"
  by (simp_all add: rotateCredentialForSameAccount_def Let_def)

lemma normalized_settled: "slot_settled identity (normalized_slot discard s identity)"
  unfolding slot_settled_def slot_survives_def same_account_def normalized_slot_def Let_def
  by (simp add: timeout_gone timeout_keeps rotated_identity attachLegacyAccountIdentity_def)

lemma normalize_Cons:
  assumes "normalize_slots prior discard index used (identity # rest) = (slots, used')"
  obtains origin s used'' tail where "slots = (origin, s) # tail" "normalize_slots prior discard (Suc index) used'' rest = (tail, used')"
    "choose_prior prior used index identity = None \<and> used'' = used \<and>
       s = neutralSlot (ri_credentialVersion identity) (Some (ri_accountIdHash identity)) \<or>
     (\<exists>j. choose_prior prior used index identity = Some j \<and> used'' = j # used \<and> s = normalized_slot discard (prior ! j) identity)"
proof (cases "choose_prior prior used index identity")
  case None
  with assms that show ?thesis by (auto split: prod.splits)
next
  case (Some j)
  obtain tail u where tail: "normalize_slots prior discard (Suc index) (j # used) rest = (tail, u)" by fastforce
  from Some tail assms have "slots = (if slot_survives (prior ! j) identity then Some j else None, normalized_slot discard (prior ! j) identity) # tail"
    "u = used'" by simp_all
  with that [OF this(1), of "j # used"] tail Some show ?thesis by simp
qed

lemma normalize_settled:
  assumes "normalize_slots prior discard index used ids = (slots, used')"
  shows "length slots = length ids \<and> (\<forall>i < length ids. slot_settled (ids ! i) (snd (slots ! i)))"
  using assms
proof (induction ids arbitrary: index used slots used')
  case (Cons identity rest)
  obtain origin s used'' tail where slots: "slots = (origin, s) # tail"
    and tail: "normalize_slots prior discard (Suc index) used'' rest = (tail, used')" and settled: "slot_settled identity s"
    by (rule normalize_Cons [OF Cons.prems]) (auto simp: neutral_settled normalized_settled)
  from Cons.IH [OF tail] slots settled show ?case by (auto simp: nth_Cons split: nat.splits)
qed simp

lemma choose_prior_settled:
  assumes "index < length prior" "slot_settled identity (prior ! index)" "index \<notin> set used"
  shows "choose_prior prior used index identity = Some index"
  using assms by (simp add: choose_prior_def slot_settled_def slot_survives_def)

lemma normalized_slot_settled: "slot_settled identity s \<Longrightarrow> normalized_slot discard s identity = s"
  by (simp add: slot_settled_def slot_survives_def normalized_slot_def withoutLegacyTimeoutCircuit_def)

lemma normalize_settled_slots:
  assumes "\<forall>i < length ids. index + i < length prior \<and> slot_settled (ids ! i) (prior ! (index + i))" "\<forall>j \<in> set used. j < index"
  shows "normalize_slots prior discard index used ids =
    (map (\<lambda>i. (Some i, prior ! i)) [index..<index + length ids], rev [index..<index + length ids] @ used)"
  using assms
proof (induction ids arbitrary: index used)
  case (Cons identity rest)
  have here: "index < length prior" "slot_settled identity (prior ! index)" using Cons.prems(1) by auto
  have chosen: "choose_prior prior used index identity = Some index"
    using Cons.prems(2) here by (intro choose_prior_settled) auto
  have tail: "normalize_slots prior discard (Suc index) (index # used) rest =
    (map (\<lambda>i. (Some i, prior ! i)) [Suc index..<Suc index + length rest], rev [Suc index..<Suc index + length rest] @ index # used)"
  proof (rule Cons.IH)
    show "\<forall>i<length rest. Suc index + i < length prior \<and> slot_settled (rest ! i) (prior ! (Suc index + i))"
      using Cons.prems(1) by fastforce
    show "\<forall>j\<in>set (index # used). j < Suc index" using Cons.prems(2) by auto
  qed
  have "slot_survives (prior ! index) identity" using here(2) by (simp add: slot_settled_def)
  moreover have "[index..<index + length (identity # rest)] = index # [Suc index..<Suc index + length rest]"
    by (subst upt_conv_Cons) simp_all
  ultimately show ?case using chosen tail here by (simp add: normalized_slot_settled del: upt_Suc)
qed simp

definition origin_of :: "routing_slot list \<Rightarrow> bool \<Rightarrow> routing_identity \<Rightarrow> routing_slot \<Rightarrow> nat option \<Rightarrow> bool" where
  "origin_of prior discard identity s chosen =
     (case chosen of
        None \<Rightarrow> s = neutralSlot (ri_credentialVersion identity) (Some (ri_accountIdHash identity))
      | Some j \<Rightarrow> j < length prior \<and> (same_account identity (prior ! j) \<or> legacy_account identity (prior ! j)) \<and>
          s = normalized_slot discard (prior ! j) identity)"

lemma choose_prior_Some:
  assumes "choose_prior prior used index identity = Some j"
  shows "j < length prior \<and> j \<notin> set used \<and> (same_account identity (prior ! j) \<or> legacy_account identity (prior ! j))"
  using assms by (auto simp: choose_prior_def takePrior_def find_Some_iff split: if_splits option.splits)

lemma normalize_origin:
  assumes "normalize_slots prior discard index used ids = (slots, used')" "set used \<subseteq> {..<length prior}" "distinct used"
  shows "\<exists>js. length js = length ids \<and> distinct (List.map_filter (\<lambda>j. j) js @ used) \<and>
    (\<forall>i < length ids. origin_of prior discard (ids ! i) (snd (slots ! i)) (js ! i))"
  using assms
proof (induction ids arbitrary: index used slots used')
  case Nil
  then show ?case by (intro exI [of _ "[]"]) simp
next
  case (Cons identity rest)
  obtain origin s used'' tail where slots: "slots = (origin, s) # tail"
    and tail: "normalize_slots prior discard (Suc index) used'' rest = (tail, used')"
    and s: "choose_prior prior used index identity = None \<and> used'' = used \<and>
       s = neutralSlot (ri_credentialVersion identity) (Some (ri_accountIdHash identity)) \<or>
     (\<exists>j. choose_prior prior used index identity = Some j \<and> used'' = j # used \<and> s = normalized_slot discard (prior ! j) identity)"
    by (rule normalize_Cons [OF Cons.prems(1)])
  obtain chosen where chosen: "origin_of prior discard identity s chosen" "used'' = (case chosen of None \<Rightarrow> used | Some j \<Rightarrow> j # used)"
    "\<forall>j. chosen = Some j \<longrightarrow> j \<notin> set used"
  proof (cases "choose_prior prior used index identity")
    case None
    with s that [of None] show ?thesis by (simp add: origin_of_def)
  next
    case (Some j)
    with s choose_prior_Some [OF Some] that [of "Some j"] show ?thesis by (simp add: origin_of_def)
  qed
  then have "set used'' \<subseteq> {..<length prior}" "distinct used''"
    using Cons.prems(2,3) by (auto simp: origin_of_def split: option.splits)
  from Cons.IH [OF tail this] obtain js where js: "length js = length rest" "distinct (List.map_filter (\<lambda>j. j) js @ used'')"
    "\<forall>i < length rest. origin_of prior discard (rest ! i) (snd (tail ! i)) (js ! i)" by blast
  with chosen slots show ?case
    by (intro exI [of _ "chosen # js"]) (auto simp: nth_Cons map_filter_simps split: nat.splits option.splits)
qed

lemma normalizeRoutingState_slots:
  obtains slots used where "normalize_slots (case raw of None \<Rightarrow> [] | Some st \<Rightarrow> rt_slots st) discard 0 [] ids = (slots, used)"
    "rt_slots (normalizeRoutingState raw ids now discard) = map snd slots"
  by (cases "normalize_slots (case raw of None \<Rightarrow> [] | Some st \<Rightarrow> rt_slots st) discard 0 [] ids")
    (simp add: normalizeRoutingState_def Let_def)

lemma normalized_slots_settled:
  "length (rt_slots (normalizeRoutingState raw ids now discard)) = length ids \<and>
   (\<forall>i < length ids. slot_settled (ids ! i) (rt_slots (normalizeRoutingState raw ids now discard) ! i))"
proof -
  obtain slots used where "normalize_slots (case raw of None \<Rightarrow> [] | Some st \<Rightarrow> rt_slots st) discard 0 [] ids = (slots, used)"
    "rt_slots (normalizeRoutingState raw ids now discard) = map snd slots" by (rule normalizeRoutingState_slots)
  with normalize_settled [OF this(1)] show ?thesis by simp
qed

section \<open>Quota classes\<close>

lemma map_of_filter_key: "map_of (filter (\<lambda>(k, b). P k) xs) c = (if P c then map_of xs c else None)"
  by (induction xs) (auto split: if_splits)

lemma fold_later_Some: "fold later_block bs (Some b) = Some (foldl later_of b bs)"
  by (induction bs arbitrary: b) (simp_all add: later_block_def later_of_def)

lemma later_foldl:
  "(foldl later_of b bs = b \<or> foldl later_of b bs \<in> set bs) \<and>
   (\<forall>x \<in> insert b (set bs). cb_blocked_until_ms x \<le> cb_blocked_until_ms (foldl later_of b bs))"
proof (induction bs arbitrary: b)
  case (Cons a bs)
  from Cons.IH [of "later_of b a"] show ?case by (auto simp: later_of_def split: if_splits)
qed simp

lemma latest_None: "fold later_block bs None = None \<longleftrightarrow> bs = []"
  by (cases bs) (simp_all add: later_block_def fold_later_Some)

lemma latest_Some:
  assumes "fold later_block bs None = Some b"
  shows "b \<in> set bs \<and> (\<forall>x \<in> set bs. cb_blocked_until_ms x \<le> cb_blocked_until_ms b)"
  using assms later_foldl by (cases bs) (auto simp: later_block_def fold_later_Some)

lemma latest_exists: "x \<in> set bs \<Longrightarrow> \<exists>b. fold later_block bs None = Some b \<and> cb_blocked_until_ms x \<le> cb_blocked_until_ms b"
  using latest_None [of bs] latest_Some by (cases "fold later_block bs None") fastforce+

lemma put_absent_nonempty: "blocks \<noteq> [] \<Longrightarrow> fold (put_absent_class b) cs blocks \<noteq> []"
proof (induction cs arbitrary: blocks)
  case (Cons c cs)
  have "put_absent_class b c blocks \<noteq> []" using Cons.prems by (cases blocks) (auto simp: put_absent_class_def split: option.splits)
  from Cons.IH [OF this] show ?case by simp
qed simp

lemma legacy_map_blocks [simp]: "rs_quota_blocks_by_class (withLegacyQuotaClassMap s) = quotaBlocksIncludingLegacy s"
proof (cases "quotaBlocksIncludingLegacy s = []")
  case True
  then have "rs_quota_blocks_by_class s = []"
    using put_absent_nonempty by (fastforce simp: quotaBlocksIncludingLegacy_def Let_def split: option.splits prod.splits)
  with True show ?thesis by (simp add: withLegacyQuotaClassMap_def Let_def)
qed (simp add: withLegacyQuotaClassMap_def Let_def)

lemma withoutQuotaClass_blocks:
  "map_of (rs_quota_blocks_by_class (withoutQuotaClass s c)) k =
     (if k \<noteq> c \<and> \<not> (drops_unknown s c \<and> k = ClassUnknown) then map_of (rs_quota_blocks_by_class s) k else None)"
proof -
  have "rs_quota_blocks_by_class (withoutQuotaClass s c) =
    filter (\<lambda>(k, b). k \<noteq> c \<and> \<not> (drops_unknown s c \<and> k = ClassUnknown)) (rs_quota_blocks_by_class s)"
    by (simp add: withoutQuotaClass_def Let_def)
  then show ?thesis by (simp only: map_of_filter_key)
qed

lemma withoutQuotaClass_no_legacy: "legacy_class_block (withoutQuotaClass s c) k = None"
  by (auto simp: legacy_class_block_def withoutQuotaClass_def Let_def latest_None split: option.splits)

section \<open>Evaluation of an account\<close>

definition evaluated_slot :: "'a routing_state_scheme \<Rightarrow> routing_identity \<Rightarrow> string option \<Rightarrow> routing_slot" where
  "evaluated_slot st i model = account_slot st (identity_account i model)"

definition class_fence :: "'a routing_state_scheme \<Rightarrow> routing_identity \<Rightarrow> string option \<Rightarrow> class_block option" where
  "class_fence st i model = quotaBlockForClass (withLegacyQuotaClassMap (evaluated_slot st i model)) (quotaClass model)"

definition capacity_evidence ::
  "'a routing_state_scheme \<Rightarrow> routing_identity \<Rightarrow> string option \<Rightarrow> capacity_observation option \<Rightarrow> int \<Rightarrow> capacity_decision" where
  "capacity_evidence st i model ob now =
     resolveCodexCapacityDecision (evaluated_slot st i model) (withLegacyQuotaClassMap (evaluated_slot st i model)) (quotaClass model) ob model now"

text \<open>Why an account is quota exhausted: a running circuit of the class, or a sample that proves it empty until a known reset.\<close>

definition quota_shut :: "'a routing_state_scheme \<Rightarrow> routing_identity \<Rightarrow> string option \<Rightarrow> capacity_observation option \<Rightarrow> int \<Rightarrow> account_policy \<Rightarrow> bool" where
  "quota_shut st i model ob now p \<longleftrightarrow>
     (\<exists>b. class_fence st i model = Some b \<and> now < cb_blocked_until_ms b \<and> \<not> cd_capacityOverride (capacity_evidence st i model ob now)) \<or>
     cd_capacityExhausted (capacity_evidence st i model ob now) \<and> \<not> ac_overageUsageAllowed p \<and> future_reset ob now \<noteq> None"

definition credential_shut :: "'a routing_state_scheme \<Rightarrow> routing_identity \<Rightarrow> string option \<Rightarrow> bool" where
  "credential_shut st i model \<longleftrightarrow> rs_invalid_credential_version (evaluated_slot st i model) = Some (ri_credentialVersion i)"

definition model_shut :: "string option \<Rightarrow> account_policy \<Rightarrow> bool" where
  "model_shut model p \<longleftrightarrow> model \<noteq> None \<and> ac_modelUnavailable p \<noteq> None"

definition lease_shut :: "'a routing_state_scheme \<Rightarrow> routing_identity \<Rightarrow> string option \<Rightarrow> int \<Rightarrow> bool" where
  "lease_shut st i model now \<longleftrightarrow> probeLeaseSkipFor (evaluated_slot st i model) (quotaClass model) now \<noteq> None"

definition routed_base :: "'a routing_state_scheme \<Rightarrow> routing_identity \<Rightarrow> string option \<Rightarrow> capacity_observation option \<Rightarrow> int \<Rightarrow> routing_account" where
  "routed_base st i model ob now =
     (identity_account i model)\<lparr>ra_quotaHeadroom := cd_quotaHeadroom (capacity_evidence st i model ob now),
        ra_routingGeneration := Some (rs_generation (evaluated_slot st i model))\<rparr>"

lemma quota_skip_iff:
  "quotaBlockedSkipFor fence a now override = None \<longleftrightarrow>
     \<not> (\<exists>b. fence = Some b \<and> now < cb_blocked_until_ms b \<and> \<not> override)"
  by (auto simp: quotaBlockedSkipFor_def not_le split: option.splits)

lemma quota_evaluation_shape:
  fixes s a n c fence ob cap now p
  defines "ev \<equiv> quota_evaluation s a n c fence ob cap now p"
    and "shut \<equiv> (\<exists>b. fence = Some b \<and> now < cb_blocked_until_ms b \<and> \<not> cd_capacityOverride cap) \<or>
      cd_capacityExhausted cap \<and> \<not> ac_overageUsageAllowed p \<and> future_reset ob now \<noteq> None"
  shows "(if shut then ev_routedAccount ev = None \<and> ev_activeTransitionReason ev = Some QuotaExhausted
     else if \<not> cd_capacityExhausted cap \<and> probeLeaseSkipFor s c now \<noteq> None
     then ev_routedAccount ev = None \<and> ev_activeTransitionReason ev = None
     else ev_routedAccount ev = Some (ev_account ev) \<and> ev_activeTransitionReason ev = None) \<and>
     (ev_account ev = a \<or> (\<exists>required circuit. ev_account ev = a\<lparr>ra_probeRequired := required, ra_probeCircuit := circuit\<rparr>))"
proof (cases "quotaBlockedSkipFor fence a now (cd_capacityOverride cap)")
  case None
  then have noblock: "\<not> (\<exists>b. fence = Some b \<and> now < cb_blocked_until_ms b \<and> \<not> cd_capacityOverride cap)"
    by (simp add: quota_skip_iff)
  show ?thesis
  proof (cases "cd_capacityExhausted cap")
    case True
    with None noblock show ?thesis unfolding ev_def shut_def quota_evaluation_def
      by (cases "future_reset ob now") (auto simp: skippedRoutingAccount_def routedRoutingAccount_def)
  next
    case False
    with None noblock show ?thesis unfolding ev_def shut_def quota_evaluation_def
      by (cases "probeLeaseSkipFor s c now") (auto simp: skippedRoutingAccount_def routedRoutingAccount_def)
  qed
next
  case (Some r)
  then have shut: "shut" using quota_skip_iff [of fence a now "cd_capacityOverride cap"] by (auto simp: shut_def)
  from Some have "ev = skippedRoutingAccount a n (Some QuotaCircuit) (Some (fst r)) (snd r) (Some QuotaExhausted)"
    by (simp add: ev_def quota_evaluation_def split: prod.split)
  with shut show ?thesis by (simp add: skippedRoutingAccount_def)
qed

lemma evaluation_shape:
  fixes st :: "'a routing_state_scheme" and i model obs now p
  defines "ev \<equiv> evaluateCodexRoutingAccount st i model obs now p" and "ob \<equiv> obs (ri_accountIdHash i)"
  shows "(if credential_shut st i model then ev_routedAccount ev = None \<and> ev_activeTransitionReason ev = Some CredentialInvalid
     else if model_shut model p then ev_routedAccount ev = None \<and> ev_activeTransitionReason ev = Some ModelUnavailable
     else if quota_shut st i model ob now p then ev_routedAccount ev = None \<and> ev_activeTransitionReason ev = Some QuotaExhausted
     else if \<not> cd_capacityExhausted (capacity_evidence st i model ob now) \<and> lease_shut st i model now
     then ev_routedAccount ev = None \<and> ev_activeTransitionReason ev = None
     else ev_routedAccount ev = Some (ev_account ev) \<and> ev_activeTransitionReason ev = None) \<and>
     (\<exists>required circuit. ev_account ev = (routed_base st i model ob now)\<lparr>ra_probeRequired := required, ra_probeCircuit := circuit\<rparr>)"
proof -
  let ?base = "routed_base st i model ob now" and ?n = "ri_slot i + 1"
  let ?quota = "quota_evaluation (evaluated_slot st i model) ?base ?n (quotaClass model) (class_fence st i model) ob
    (capacity_evidence st i model ob now) now p"
  have base: "\<exists>required circuit. ?base = ?base\<lparr>ra_probeRequired := required, ra_probeCircuit := circuit\<rparr>"
    by (intro exI [of _ False] exI [of _ None]) (simp add: routed_base_def identity_account_def)
  have ids: "ra_accountIdHash (identity_account i model) = ri_accountIdHash i" "ra_credentialVersion (identity_account i model) = ri_credentialVersion i"
    by (simp_all add: identity_account_def)
  have ev: "ev =
    (if credential_shut st i model then skippedRoutingAccount ?base ?n None None None (Some CredentialInvalid)
     else case (model, ac_modelUnavailable p) of
        (Some named, Some detail) \<Rightarrow>
          (skippedRoutingAccount ?base ?n None None None (Some ModelUnavailable))\<lparr>ev_modelUnavailable := Some (named, detail)\<rparr>
      | _ \<Rightarrow> ?quota)"
    unfolding ev_def ob_def evaluateCodexRoutingAccount_def Let_def credential_shut_def class_fence_def capacity_evidence_def
      evaluated_slot_def routed_base_def ids ..
  show ?thesis
  proof (cases "credential_shut st i model \<or> model_shut model p")
    case True
    then show ?thesis using base unfolding ev model_shut_def by (auto simp: skippedRoutingAccount_def split: option.split)
  next
    case False
    then have q: "ev = ?quota" unfolding ev model_shut_def by (auto split: option.split)
    note shape = quota_evaluation_shape [where fence = "class_fence st i model" and now = now and cap = "capacity_evidence st i model ob now" and p = p
        and ob = ob and s = "evaluated_slot st i model" and c = "quotaClass model" and a = ?base and n = ?n,
        folded q quota_shut_def lease_shut_def]
    from base conjunct2 [OF shape]
    have "\<exists>required circuit. ev_account ev = ?base\<lparr>ra_probeRequired := required, ra_probeCircuit := circuit\<rparr>" by fastforce
    with conjunct1 [OF shape] False show ?thesis by (simp only: if_False de_Morgan_disj simp_thms)
  qed
qed

end
