(* ===== verification/Codex_Mutations.thy ===== *)
theory Codex_Mutations
  imports Codex_Circuits
begin

text \<open>
  What a dispatched request writes back to the routing rows
  (\<^verbatim>\<open>src/src/authority/native-codex-mutations.ts\<close>): timeouts, invalid credentials, successful and released
  probes, credential rotation, claims of half-open probes, the fences of a banked reset, rechecks and the
  refresh of the active row before a dispatch. Every transition is \<open>None\<close> where the source returns null
  and changes nothing.
\<close>

definition CODEX_UPSTREAM_TIMEOUT_CIRCUIT_MS :: int where
  "CODEX_UPSTREAM_TIMEOUT_CIRCUIT_MS = 60000"

section \<open>Outcomes\<close>

definition foreign_claim :: "routing_slot \<Rightarrow> 'b routing_account_scheme \<Rightarrow> bool" where
  "foreign_claim current account \<longleftrightarrow> ra_probeGeneration account \<noteq> None \<and> \<not> probeLeaseMatchesCodexRoutingAccount current account"

definition markCodexUpstreamTimeout :: "routing_state \<Rightarrow> 'b routing_account_scheme \<Rightarrow> int \<Rightarrow> int \<Rightarrow> routing_state option" where
  "markCodexUpstreamTimeout st account now updatedAtMs =
     (let blockedUntil = now + CODEX_UPSTREAM_TIMEOUT_CIRCUIT_MS; current = slotFor st account in
      if \<not> slotMatchesCodexRoutingAccount current account then None
      else if ra_probeGeneration account = None \<and> rs_probe_lease current \<noteq> None then None
      else if foreign_claim current account then None
      else
        let priorTimeout = (case rs_upstream_timeout_blocked_until_ms current of None \<Rightarrow> 0 | Some t \<Rightarrow> t) in
        Some (withSlot st (ra_slot account)
          (current\<lparr>rs_account_id_hash := Some (ra_accountIdHash account),
             rs_upstream_timeout_blocked_until_ms := Some (max priorTimeout blockedUntil),
             rs_generation := rs_generation current + 1, rs_probe_lease := None\<rparr>) updatedAtMs))"

definition markCodexCredentialInvalid :: "routing_state \<Rightarrow> 'b routing_account_scheme \<Rightarrow> int \<Rightarrow> int \<Rightarrow> routing_state option" where
  "markCodexCredentialInvalid st account now updatedAtMs =
     (let current = slotFor st account in
      if \<not> slotMatchesCodexRoutingAccount current account then None
      else if foreign_claim current account then None
      else Some (withSlot st (ra_slot account)
        (current\<lparr>rs_account_id_hash := Some (ra_accountIdHash account), rs_quota_blocked_until_ms := None, rs_quota_block_source := None,
           rs_quota_blocked_classes := [], rs_quota_blocks_by_class := [], rs_upstream_timeout_blocked_until_ms := None,
           rs_invalid_credential_version := Some (ra_credentialVersion account), rs_quota_signal_observed_at_ms := Some now,
           rs_probe_lease := None\<rparr>) updatedAtMs))"

definition timeout_after_probe :: "'b routing_account_scheme \<Rightarrow> routing_slot \<Rightarrow> int option" where
  "timeout_after_probe account current =
     (if routingProbeCircuit account = UpstreamTimeoutCircuit then None else rs_upstream_timeout_blocked_until_ms current)"

definition releaseCodexRoutingProbe :: "routing_state \<Rightarrow> 'b routing_account_scheme \<Rightarrow> int \<Rightarrow> routing_state option" where
  "releaseCodexRoutingProbe st account updatedAtMs =
     (let current = slotFor st account in
      if \<not> slotMatchesCodexRoutingAccount current account \<or> \<not> probeLeaseMatchesCodexRoutingAccount current account then None
      else
        let released = (if routingProbeCircuit account = QuotaCircuit then releaseQuotaClassProbe current (quotaClass (ra_requestedModel account)) else current)
        in Some (withSlot st (ra_slot account)
          (released\<lparr>rs_account_id_hash := Some (ra_accountIdHash account),
             rs_upstream_timeout_blocked_until_ms := timeout_after_probe account current, rs_probe_lease := None\<rparr>) updatedAtMs))"

definition class_key_or :: "routing_slot \<Rightarrow> quota_class \<Rightarrow> quota_class" where
  "class_key_or s c = (case quotaBlockKeyForClass s c of Some k \<Rightarrow> k | None \<Rightarrow> c)"

definition markCodexSuccess :: "routing_state \<Rightarrow> 'b routing_account_scheme \<Rightarrow> int \<Rightarrow> routing_state option" where
  "markCodexSuccess st account updatedAtMs =
     (let current = slotFor st account in
      if \<not> slotMatchesCodexRoutingAccount current account \<or> \<not> probeLeaseMatchesCodexRoutingAccount current account then None
      else
        let classAwareCurrent = withLegacyQuotaClassMap current;
            released = (if routingProbeCircuit account = QuotaCircuit
              then withoutQuotaClass classAwareCurrent (class_key_or classAwareCurrent (quotaClass (ra_requestedModel account)))
              else current);
            hasOtherQuotaClasses = (rs_quota_blocks_by_class released \<noteq> [])
        in Some (withSlot st (ra_slot account)
          (released\<lparr>rs_account_id_hash := Some (ra_accountIdHash account),
             rs_upstream_timeout_blocked_until_ms := timeout_after_probe account current,
             rs_observed_reset_at_ms := (if hasOtherQuotaClasses then rs_observed_reset_at_ms released else None),
             rs_observed_reset_at_is_stable := (hasOtherQuotaClasses \<and> rs_observed_reset_at_is_stable released),
             rs_banked_reset_generation_ambiguous := (hasOtherQuotaClasses \<and> rs_banked_reset_generation_ambiguous released),
             rs_banked_reset_recovery_probe_pending := (hasOtherQuotaClasses \<and> rs_banked_reset_recovery_probe_pending released),
             rs_probe_lease := None\<rparr>) updatedAtMs))"

text \<open>The identity that the source passes has no slot of its own.\<close>

definition reconcileRoutingCredential ::
  "routing_state \<Rightarrow> 'b routing_account_scheme \<Rightarrow> routing_identity \<Rightarrow> bool \<Rightarrow> int \<Rightarrow> routing_state option" where
  "reconcileRoutingCredential st account identity sameAccount updatedAtMs =
     (let current = slotFor st account in
      if rs_credential_version current = ri_credentialVersion identity then None
      else if \<not> slotMatchesCodexRoutingAccount current account then None
      else Some (withSlot st (ra_slot account)
        (if sameAccount then rotateCredentialForSameAccount current identity
         else neutralSlot (ri_credentialVersion identity) (Some (ri_accountIdHash identity))) updatedAtMs))"

section \<open>Banked resets\<close>

definition slot_at :: "routing_state \<Rightarrow> nat \<Rightarrow> routing_slot option" where
  "slot_at st n = (if n < length (rt_slots st) then Some (rt_slots st ! n) else None)"

definition isCodexQuotaBlockFenceCurrent :: "js \<Rightarrow> 'b routing_account_scheme \<Rightarrow> int \<Rightarrow> int \<Rightarrow> bool" where
  "isCodexQuotaBlockFenceCurrent value account quotaResetAtMs routingGeneration =
     (if \<not> safe_ms quotaResetAtMs \<or> \<not> is_safe_integer routingGeneration \<or> routingGeneration < 0 then False
      else case parseCodexAccountRoutingState value of None \<Rightarrow> False
      | Some st \<Rightarrow>
          (case slot_at st (ra_slot account) of None \<Rightarrow> False
           | Some current \<Rightarrow>
               (case quotaBlockForClass current (quotaClass (ra_requestedModel account)) of None \<Rightarrow> False
                | Some b \<Rightarrow>
                    \<not> hasUnresolvedLegacyResetIdentity (Some st) \<and> rs_credential_version current = ra_credentialVersion account \<and>
                    rs_account_id_hash current = Some (ra_accountIdHash account) \<and> rs_generation current = routingGeneration \<and>
                    cb_observed_reset_at_ms b = Some quotaResetAtMs \<and> cb_observed_reset_at_is_stable b \<and>
                    \<not> cb_banked_reset_generation_ambiguous b \<and> cb_blocked_until_ms b = quotaResetAtMs)))"

text \<open>The source calls this with the slot present; an absent slot would throw there and gives \<open>None\<close> here.\<close>

definition recoveryProbeTransition :: "routing_state \<Rightarrow> 'b routing_account_scheme \<Rightarrow> probe_lease \<Rightarrow> int \<Rightarrow> routing_state option" where
  "recoveryProbeTransition st account recoveryLease updatedAtMs =
     (case slot_at st (ra_slot account) of None \<Rightarrow> None
      | Some current \<Rightarrow>
          let c = quotaClass (ra_requestedModel account);
              classAwareCurrent = withLegacyQuotaClassMap current;
              releasedClassBlock = quotaBlockForClass classAwareCurrent c;
              released = withoutQuotaClass classAwareCurrent (class_key_or classAwareCurrent c)
          in Some (withSlot st (ra_slot account)
            (released\<lparr>
               rs_observed_reset_at_ms :=
                 (case Option.bind releasedClassBlock cb_observed_reset_at_ms of Some t \<Rightarrow> Some t | None \<Rightarrow> rs_observed_reset_at_ms current),
               rs_observed_reset_at_is_stable :=
                 (case releasedClassBlock of Some b \<Rightarrow> cb_observed_reset_at_is_stable b | None \<Rightarrow> rs_observed_reset_at_is_stable current),
               rs_banked_reset_generation_ambiguous := True, rs_banked_reset_recovery_probe_pending := True,
               rs_generation := le_generation recoveryLease, rs_probe_lease := Some recoveryLease\<rparr>) updatedAtMs))"

definition lease_expiry :: "routing_slot \<Rightarrow> int" where
  "lease_expiry s = (case rs_probe_lease s of None \<Rightarrow> 0 | Some l \<Rightarrow> le_expires_at_ms l)"

definition buildExpiredProbeClaim ::
  "routing_state \<Rightarrow> 'b routing_account_scheme \<Rightarrow> int \<Rightarrow> string \<Rightarrow> int \<Rightarrow> (routing_state \<times> probe_lease) option" where
  "buildExpiredProbeClaim base account now token updatedAtMs =
     (let current = slotFor base account;
          circuit = routingProbeCircuit account;
          c = quotaClass (ra_requestedModel account);
          classBlock = quotaBlockForClass current c;
          circuitDeadline = (if circuit = UpstreamTimeoutCircuit then rs_upstream_timeout_blocked_until_ms current
                             else map_option cb_blocked_until_ms classBlock);
          capacityProbe = (circuit = QuotaCircuit \<and> classBlock = None \<and> ra_quotaHeadroom account = Some 0);
          overageProbe = (circuit = QuotaCircuit \<and> ra_overageFallback account);
          notDue = (case circuitDeadline of None \<Rightarrow> True | Some t \<Rightarrow> t = 0 \<or> now < t);
          lease = \<lparr>le_token = token, le_expires_at_ms = now + CODEX_HALF_OPEN_LEASE_MS, le_generation = rs_generation current,
                   le_circuit = circuit, le_quota_class = (if circuit = QuotaCircuit then Some c else None)\<rparr>
      in if \<not> slotMatchesCodexRoutingAccount current account \<or>
            rs_invalid_credential_version current = Some (ra_credentialVersion account) \<or>
            (\<not> capacityProbe \<and> \<not> overageProbe \<and> notDue) \<or> now < lease_expiry current
         then None
         else Some (withSlot base (ra_slot account)
                (current\<lparr>rs_account_id_hash := Some (ra_accountIdHash account), rs_probe_lease := Some lease\<rparr>) updatedAtMs, lease))"

definition staleVerifiedResetProbeEligible ::
  "routing_state \<Rightarrow> routing_slot \<Rightarrow> 'b routing_account_scheme \<Rightarrow> int \<Rightarrow> int \<Rightarrow> int \<Rightarrow> bool" where
  "staleVerifiedResetProbeEligible st current account quotaResetAtMs routingGeneration nowMs \<longleftrightarrow>
     \<not> rt_legacy_identity_unresolved st \<and> slotMatchesCodexRoutingAccount current account \<and>
     rs_account_id_hash current = Some (ra_accountIdHash account) \<and> rs_credential_version current = ra_credentialVersion account \<and>
     rs_generation current = routingGeneration \<and> rs_invalid_credential_version current \<noteq> Some (ra_credentialVersion account) \<and>
     (let c = quotaClass (ra_requestedModel account);
          legacyDeadline = (if c = ClassUnknown then (case rs_quota_blocked_until_ms current of None \<Rightarrow> 0 | Some t \<Rightarrow> t) else 0)
      in case quotaBlockForClass current c of None \<Rightarrow> False
         | Some b \<Rightarrow> quotaResetAtMs \<le> max (cb_blocked_until_ms b) legacyDeadline \<and> cb_observed_reset_at_ms b = Some quotaResetAtMs \<and>
             cb_observed_reset_at_is_stable b) \<and>
     lease_expiry current \<le> nowMs"

definition isCodexActiveAccountSnapshotCurrent :: "js \<Rightarrow> active_selection option \<Rightarrow> bool" where
  "isCodexActiveAccountSnapshotCurrent value observed \<longleftrightarrow> parseCodexActiveAccountSelection value = observed"

definition staleResetRoutingIdentityCurrent :: "js \<Rightarrow> 'b routing_account_scheme \<Rightarrow> int \<Rightarrow> bool" where
  "staleResetRoutingIdentityCurrent value account quotaResetAtMs =
     (case Option.bind (parseCodexAccountRoutingState value) (\<lambda>st. slot_at st (ra_slot account)) of None \<Rightarrow> False
      | Some current \<Rightarrow>
          rs_account_id_hash current = Some (ra_accountIdHash account) \<and> rs_credential_version current = ra_credentialVersion account \<and>
          Some (rs_generation current) = ra_routingGeneration account \<and>
          rs_invalid_credential_version current \<noteq> Some (ra_credentialVersion account) \<and>
          (case quotaBlockForClass current (quotaClass (ra_requestedModel account)) of None \<Rightarrow> False
           | Some b \<Rightarrow> cb_observed_reset_at_ms b = Some quotaResetAtMs \<and> cb_observed_reset_at_is_stable b))"

definition nextResetElectionGeneration :: "active_selection option \<Rightarrow> 'b routing_account_scheme \<Rightarrow> int" where
  "nextResetElectionGeneration active candidate =
     (case active of None \<Rightarrow> 1
      | Some a \<Rightarrow> if as_account_id_hash a = ra_accountIdHash candidate \<and> as_slot a = ra_slot candidate then as_generation a
                  else as_generation a + 1)"

definition resetCandidateSlotMatches :: "routing_slot \<Rightarrow> 'b routing_account_scheme \<Rightarrow> bool \<Rightarrow> bool" where
  "resetCandidateSlotMatches currentSlot account routingIdentityCurrent \<longleftrightarrow>
     rs_account_id_hash currentSlot = Some (ra_accountIdHash account) \<and> rs_credential_version currentSlot = ra_credentialVersion account \<and>
     Some (rs_generation currentSlot) = ra_routingGeneration account \<and> routingIdentityCurrent"

definition recheckSlotTransition :: "routing_slot \<Rightarrow> int \<Rightarrow> routing_slot" where
  "recheckSlotTransition current recheckAtMs =
     (let rechecked = recheckQuotaClasses current recheckAtMs in
      rechecked\<lparr>rs_quota_signal_observed_at_ms := Some recheckAtMs,
        rs_banked_reset_generation_ambiguous :=
          (rs_banked_reset_generation_ambiguous rechecked \<or> rs_quota_blocked_until_ms rechecked \<noteq> None \<or>
           rs_banked_reset_generation_ambiguous current \<or>
           rs_observed_reset_at_ms current \<noteq> None \<and> rs_observed_reset_at_is_stable current),
        rs_generation := rs_generation current + 1, rs_probe_lease := None\<rparr>)"

text \<open>Slot numbers start at one; \<^verbatim>\<open>at(-1)\<close> is the last slot.\<close>

definition locateRoutingSlot :: "routing_state \<Rightarrow> nat \<Rightarrow> (int \<times> routing_slot) option" where
  "locateRoutingSlot st slotNumber =
     (if length (rt_slots st) < slotNumber then None
      else if slotNumber = 0 then (if rt_slots st = [] then None else Some (- 1, last (rt_slots st)))
      else Some (int slotNumber - 1, rt_slots st ! (slotNumber - 1)))"

section \<open>The refresh before a dispatch\<close>

definition admissionRefreshRoutingGeneration :: "'a routing_state_scheme option \<Rightarrow> 'b routing_account_scheme \<Rightarrow> int option" where
  "admissionRefreshRoutingGeneration normalized account =
     (case normalized of None \<Rightarrow> Some 0
      | Some st \<Rightarrow>
          if length (rt_slots st) \<le> ra_slot account then None
          else let currentSlot = rt_slots st ! ra_slot account in
            if rs_account_id_hash currentSlot \<noteq> Some (ra_accountIdHash account) \<or> rs_credential_version currentSlot \<noteq> ra_credentialVersion account \<or>
               rs_invalid_credential_version currentSlot = Some (ra_credentialVersion account)
            then None else Some (rs_generation currentSlot))"

definition prepareCodexAdmissionRefresh :: "active_selection \<Rightarrow> 'b routing_account_scheme \<Rightarrow> string \<Rightarrow> int \<Rightarrow> active_selection option" where
  "prepareCodexAdmissionRefresh active account poolVersionstamp routingGeneration =
     (if as_credential_version active = ra_credentialVersion account \<and> as_pool_versionstamp active = poolVersionstamp \<and>
         as_routing_generation active = routingGeneration
      then None
      else Some (active\<lparr>as_credential_version := ra_credentialVersion account, as_pool_versionstamp := poolVersionstamp,
                   as_routing_generation := routingGeneration\<rparr>))"

end
