(* ===== verification/Codex_Quota_Signals.thy ===== *)
theory Codex_Quota_Signals
  imports Codex_Mutations
begin

text \<open>
  Quota signals of a refused request (\<^verbatim>\<open>src/src/authority/native-codex-429.ts\<close>): the deadline of a
  \<^verbatim>\<open>Retry-After\<close> header, its reconciliation with the deadline of the body, and the class circuit that a
  429 opens. What the body says, whether the usage limit is reached and when it resets, is an argument.
\<close>

section \<open>Retry-After\<close>

text \<open>
  Dates: \<open>civil_of_days\<close> is the proleptic Gregorian calendar counted in days from 1970-01-01, \<open>utc_string\<close>
  is \<^verbatim>\<open>Date.prototype.toUTCString\<close> for whole seconds of years with four digits. The source parses a
  header in the fixed format with \<^verbatim>\<open>Date.parse\<close> and accepts it only if printing gives the header back;
  \<open>Date.parse\<close> returns the instant that a printed date denotes.
\<close>

definition days_of_civil :: "int \<Rightarrow> int \<Rightarrow> int \<Rightarrow> int" where
  "days_of_civil year month day =
     (let y = (if month \<le> 2 then year - 1 else year);
          era = y div 400; yoe = y - era * 400;
          doy = (153 * (if month > 2 then month - 3 else month + 9) + 2) div 5 + day - 1;
          doe = yoe * 365 + yoe div 4 - yoe div 100 + doy
      in era * 146097 + doe - 719468)"

definition civil_of_days :: "int \<Rightarrow> int \<times> int \<times> int" where
  "civil_of_days days =
     (let z = days + 719468; era = z div 146097; doe = z - era * 146097;
          yoe = (doe - doe div 1460 + doe div 36524 - doe div 146096) div 365;
          doy = doe - (365 * yoe + yoe div 4 - yoe div 100);
          mp = (5 * doy + 2) div 153;
          month = (if mp < 10 then mp + 3 else mp - 9)
      in (yoe + era * 400 + (if month \<le> 2 then 1 else 0), month, doy - (153 * mp + 2) div 5 + 1))"

definition IMF_FIXDATE_WEEKDAYS :: "string list" where
  "IMF_FIXDATE_WEEKDAYS = [''Mon'', ''Tue'', ''Wed'', ''Thu'', ''Fri'', ''Sat'', ''Sun'']"

definition IMF_FIXDATE_MONTHS :: "string list" where
  "IMF_FIXDATE_MONTHS = [''Jan'', ''Feb'', ''Mar'', ''Apr'', ''May'', ''Jun'', ''Jul'', ''Aug'', ''Sep'', ''Oct'', ''Nov'', ''Dec'']"

definition padded :: "nat \<Rightarrow> int \<Rightarrow> string" where
  "padded width n = (let digits = show_nat (nat n) in replicate (width - length digits) CHR ''0'' @ digits)"

definition utc_string :: "int \<Rightarrow> string" where
  "utc_string ms =
     (let seconds = ms div 1000; days = seconds div 86400; s = seconds mod 86400; (year, month, day) = civil_of_days days in
      IMF_FIXDATE_WEEKDAYS ! nat ((days + 3) mod 7) @ '', '' @ padded 2 day @ '' '' @ IMF_FIXDATE_MONTHS ! nat (month - 1) @ '' '' @ padded 4 year @
      '' '' @ padded 2 (s div 3600) @ '':'' @ padded 2 (s mod 3600 div 60) @ '':'' @ padded 2 (s mod 60) @ '' GMT'')"

definition slice :: "nat \<Rightarrow> nat \<Rightarrow> string \<Rightarrow> string" where
  "slice from len s = take len (drop from s)"

definition ascii_letters :: "string \<Rightarrow> bool" where
  "ascii_letters s = list_all (\<lambda>c. let n = of_char c :: nat in 65 \<le> n \<and> n \<le> 90 \<or> 97 \<le> n \<and> n \<le> 122) s"

definition imf_fixdate_pattern :: "string \<Rightarrow> bool" where
  "imf_fixdate_pattern s \<longleftrightarrow>
     length s = 29 \<and> ascii_letters (slice 0 3 s) \<and> slice 3 2 s = '', '' \<and> list_all is_digit (slice 5 2 s) \<and> slice 7 1 s = '' '' \<and>
     ascii_letters (slice 8 3 s) \<and> slice 11 1 s = '' '' \<and> list_all is_digit (slice 12 4 s) \<and> slice 16 1 s = '' '' \<and>
     list_all is_digit (slice 17 2 s) \<and> slice 19 1 s = '':'' \<and> list_all is_digit (slice 20 2 s) \<and> slice 22 1 s = '':'' \<and>
     list_all is_digit (slice 23 2 s) \<and> slice 25 4 s = '' GMT''"

definition isImfFixdate :: "string \<Rightarrow> bool" where
  "isImfFixdate s \<longleftrightarrow>
     imf_fixdate_pattern s \<and> slice 0 3 s \<in> set IMF_FIXDATE_WEEKDAYS \<and> slice 8 3 s \<in> set IMF_FIXDATE_MONTHS"

definition index_of :: "string \<Rightarrow> string list \<Rightarrow> int" where
  "index_of x xs = int (length (takeWhile (\<lambda>y. y \<noteq> x) xs))"

definition fixdate_ms :: "string \<Rightarrow> int" where
  "fixdate_ms s =
     (days_of_civil (digits_value (slice 12 4 s)) (index_of (slice 8 3 s) IMF_FIXDATE_MONTHS + 1) (digits_value (slice 5 2 s)) * 86400 +
      digits_value (slice 17 2 s) * 3600 + digits_value (slice 20 2 s) * 60 + digits_value (slice 23 2 s)) * 1000"

record retry_after_deadline =
  ry_deadlineMs :: int
  ry_isStable :: bool

definition futureRetryAfterDeadline :: "string option \<Rightarrow> int \<Rightarrow> retry_after_deadline option" where
  "futureRetryAfterDeadline raw now =
     (case raw of None \<Rightarrow> None
      | Some raw \<Rightarrow>
          let value = js_trim raw in
          if digits_only value
          then let seconds = digits_value value; deltaMs = seconds * 1000; deadline = now + deltaMs in
            if is_safe_integer seconds \<and> is_safe_integer deltaMs \<and> is_safe_integer deadline \<and> now < deadline
            then Some \<lparr>ry_deadlineMs = deadline, ry_isStable = False\<rparr> else None
          else if \<not> isImfFixdate value then None
          else let deadline = fixdate_ms value in
            if is_safe_integer deadline \<and> now < deadline \<and> utc_string deadline = value
            then Some \<lparr>ry_deadlineMs = deadline, ry_isStable = True\<rparr> else None)"

section \<open>Deadlines of a 429\<close>

record codex_429 =
  cl_usageLimitReached :: bool
  cl_retryAtMs :: "int option"
  cl_quotaBlockSource :: "quota_block_source option"
  cl_resetDeadlineIsStable :: bool
  cl_resetDeadlineConflict :: bool
  cl_primaryUsedPercent :: "string option"
  cl_secondaryUsedPercent :: "string option"

definition resolveQuotaBlockSource :: "int option \<Rightarrow> retry_after_deadline option \<Rightarrow> quota_block_source option" where
  "resolveQuotaBlockSource bodyResetAtMs retryAfter =
     (if bodyResetAtMs \<noteq> None then Some BodyResetsAt else map_option (\<lambda>_. HeaderRetryAfter) retryAfter)"

definition resolveResetDeadlineMs :: "int option \<Rightarrow> retry_after_deadline option \<Rightarrow> bool \<Rightarrow> int option" where
  "resolveResetDeadlineMs bodyResetAtMs retryAfter conflict =
     (case bodyResetAtMs of None \<Rightarrow> map_option ry_deadlineMs retryAfter
      | Some body \<Rightarrow> (case retryAfter of Some r \<Rightarrow> if conflict then Some (max body (ry_deadlineMs r)) else Some body | None \<Rightarrow> Some body))"

definition deadline_conflict :: "int option \<Rightarrow> retry_after_deadline option \<Rightarrow> bool" where
  "deadline_conflict bodyResetAtMs retryAfter =
     (case (bodyResetAtMs, retryAfter) of
        (Some body, Some r) \<Rightarrow> ry_isStable r \<and> ry_deadlineMs r \<noteq> body \<or> \<not> ry_isStable r \<and> body < ry_deadlineMs r
      | _ \<Rightarrow> False)"

definition resolveCodex429RetryDeadlines ::
  "int option \<Rightarrow> retry_after_deadline option \<Rightarrow> bool \<Rightarrow> string option \<Rightarrow> string option \<Rightarrow> codex_429" where
  "resolveCodex429RetryDeadlines bodyResetAtMs retryAfter usageLimitReached primary secondary =
     (let conflict = deadline_conflict bodyResetAtMs retryAfter in
      \<lparr>cl_usageLimitReached = usageLimitReached,
       cl_retryAtMs = resolveResetDeadlineMs bodyResetAtMs retryAfter conflict,
       cl_quotaBlockSource = resolveQuotaBlockSource bodyResetAtMs retryAfter,
       cl_resetDeadlineIsStable = (if bodyResetAtMs \<noteq> None then \<not> conflict else (case retryAfter of None \<Rightarrow> False | Some r \<Rightarrow> ry_isStable r)),
       cl_resetDeadlineConflict = conflict, cl_primaryUsedPercent = primary, cl_secondaryUsedPercent = secondary\<rparr>)"

section \<open>Slots after a 429\<close>

definition nonBlockingQuotaProbeSlot :: "routing_state \<Rightarrow> 'b routing_account_scheme \<Rightarrow> routing_slot option" where
  "nonBlockingQuotaProbeSlot st account =
     (let current = slotFor st account in
      if ra_probeGeneration account = None \<or> (case ra_probeToken account of None \<Rightarrow> True | Some t \<Rightarrow> t = []) then None
      else if \<not> slotMatchesCodexRoutingAccount current account \<or> \<not> probeLeaseMatchesCodexRoutingAccount current account then None
      else
        let quota = (routingProbeCircuit account = QuotaCircuit);
            released = (if quota then releaseQuotaClassProbe current (quotaClass (ra_requestedModel account)) else current)
        in Some (released\<lparr>rs_account_id_hash := Some (ra_accountIdHash account),
             rs_upstream_timeout_blocked_until_ms := timeout_after_probe account current,
             rs_banked_reset_recovery_probe_pending :=
               (if quota then rs_banked_reset_recovery_probe_pending released else rs_banked_reset_recovery_probe_pending current),
             rs_probe_lease := None\<rparr>))"

definition isForeignQuotaProbeLease :: "routing_slot \<Rightarrow> 'b routing_account_scheme \<Rightarrow> quota_class \<Rightarrow> bool" where
  "isForeignQuotaProbeLease current account c =
     (case rs_probe_lease current of None \<Rightarrow> False
      | Some lease \<Rightarrow>
          ra_probeGeneration account = None \<and> le_circuit lease = QuotaCircuit \<and>
          (case le_quota_class lease of None \<Rightarrow> False | Some d \<Rightarrow> d \<noteq> c))"

record reset_identity =
  id_observedResetAtMs :: "int option"
  id_observedResetAtIsStable :: bool
  id_generationAmbiguous :: bool

definition resolveQuotaClassResetIdentity ::
  "routing_slot \<Rightarrow> class_block option \<Rightarrow> codex_429 \<Rightarrow> int \<Rightarrow> int \<Rightarrow> bool \<Rightarrow> bool \<Rightarrow> int \<Rightarrow> reset_identity" where
  "resolveQuotaClassResetIdentity current priorClassBlock parsed retryAtMs priorDeadline hasClassBlocks boundedRecoveryProbe now =
     (let priorReset = (case Option.bind priorClassBlock cb_observed_reset_at_ms of Some t \<Rightarrow> Some t
                        | None \<Rightarrow> if \<not> hasClassBlocks then rs_observed_reset_at_ms current else None);
          priorStable = (case priorClassBlock of Some b \<Rightarrow> cb_observed_reset_at_is_stable b
                         | None \<Rightarrow> \<not> hasClassBlocks \<and> rs_observed_reset_at_is_stable current);
          hasStable = (priorReset \<noteq> None \<and> priorStable);
          ruledOut = (case priorReset of None \<Rightarrow> True | Some t \<Rightarrow> t \<le> now);
          supersedes = (\<not> hasClassBlocks \<and> ruledOut \<and> cl_resetDeadlineIsStable parsed \<and> now < retryAtMs);
          ambiguous = (boundedRecoveryProbe \<or>
            (case priorClassBlock of Some b \<Rightarrow> cb_banked_reset_generation_ambiguous b | None \<Rightarrow> False) \<or>
            (\<not> hasClassBlocks \<and> rs_banked_reset_generation_ambiguous current \<and> \<not> supersedes) \<or>
            cl_resetDeadlineConflict parsed \<or>
            (hasStable \<and> (\<not> cl_resetDeadlineIsStable parsed \<or> Some retryAtMs \<noteq> priorReset)));
          replaces = (\<not> (hasStable \<and> ambiguous) \<and> priorDeadline \<le> retryAtMs)
      in \<lparr>id_observedResetAtMs = (if replaces then Some retryAtMs else priorReset),
          id_observedResetAtIsStable = (if replaces then cl_resetDeadlineIsStable parsed else priorStable),
          id_generationAmbiguous = ambiguous\<rparr>)"

definition bounded_recovery :: "routing_slot \<Rightarrow> 'b routing_account_scheme \<Rightarrow> bool \<Rightarrow> bool" where
  "bounded_recovery current account recoveryProbe \<longleftrightarrow>
     recoveryProbe \<or> rs_banked_reset_recovery_probe_pending current \<and> ra_probeGeneration account \<noteq> None"

definition prior_class_block :: "routing_slot \<Rightarrow> quota_class \<Rightarrow> class_block option" where
  "prior_class_block current c = quotaBlockForClass (current\<lparr>rs_quota_blocks_by_class := quotaBlocksIncludingLegacy current\<rparr>) c"

definition blocked_class_block ::
  "routing_slot \<Rightarrow> 'b routing_account_scheme \<Rightarrow> codex_429 \<Rightarrow> quota_block_source \<Rightarrow> int \<Rightarrow> int \<Rightarrow> bool \<Rightarrow> class_block" where
  "blocked_class_block current account parsed source retryAtMs now recoveryProbe =
     (let prior = prior_class_block current (quotaClass (ra_requestedModel account));
          priorDeadline = (case prior of None \<Rightarrow> 0 | Some b \<Rightarrow> cb_blocked_until_ms b);
          bounded = bounded_recovery current account recoveryProbe;
          identity = resolveQuotaClassResetIdentity current prior parsed retryAtMs priorDeadline (quotaBlocksIncludingLegacy current \<noteq> []) bounded now
      in \<lparr>cb_blocked_until_ms = (if bounded then now + CODEX_HALF_OPEN_LEASE_MS else max priorDeadline retryAtMs), cb_source = source,
          cb_legacy_fallback = False, cb_quota_signal_observed_at_ms = Some now, cb_observed_reset_at_ms = id_observedResetAtMs identity,
          cb_observed_reset_at_is_stable = id_observedResetAtIsStable identity,
          cb_banked_reset_generation_ambiguous = id_generationAmbiguous identity,
          cb_banked_reset_recovery_probe_pending =
            ((case prior of None \<Rightarrow> False | Some b \<Rightarrow> cb_banked_reset_recovery_probe_pending b) \<or> recoveryProbe)\<rparr>)"

definition buildQuotaBlockedSlot ::
  "routing_slot \<Rightarrow> 'b routing_account_scheme \<Rightarrow> codex_429 \<Rightarrow> quota_block_source \<Rightarrow> int \<Rightarrow> int \<Rightarrow> bool \<Rightarrow> bool \<Rightarrow> routing_slot" where
  "buildQuotaBlockedSlot current account parsed source retryAtMs now recoveryProbe foreignQuotaProbe =
     (let block = blocked_class_block current account parsed source retryAtMs now recoveryProbe;
          blocks = AList.update (quotaClass (ra_requestedModel account)) block (quotaBlocksIncludingLegacy current);
          latest = foldl later_of block (map snd blocks);
          priorTimeout = (case rs_upstream_timeout_blocked_until_ms current of None \<Rightarrow> 0 | Some t \<Rightarrow> t)
      in current\<lparr>rs_account_id_hash := Some (ra_accountIdHash account), rs_quota_blocked_until_ms := Some (cb_blocked_until_ms latest),
           rs_quota_block_source := Some (cb_source latest), rs_quota_blocked_classes := class_keys blocks, rs_quota_blocks_by_class := blocks,
           rs_upstream_timeout_blocked_until_ms := (if now < priorTimeout then Some priorTimeout else None),
           rs_quota_signal_observed_at_ms := Some now,
           rs_primary_used_percent := (case parseFinitePercent (cl_primaryUsedPercent parsed) of Some q \<Rightarrow> Some q | None \<Rightarrow> rs_primary_used_percent current),
           rs_secondary_used_percent := (case parseFinitePercent (cl_secondaryUsedPercent parsed) of Some q \<Rightarrow> Some q | None \<Rightarrow> rs_secondary_used_percent current),
           rs_observed_reset_at_ms := cb_observed_reset_at_ms latest, rs_observed_reset_at_is_stable := cb_observed_reset_at_is_stable latest,
           rs_banked_reset_generation_ambiguous := list_ex cb_banked_reset_generation_ambiguous (map snd blocks),
           rs_banked_reset_recovery_probe_pending := list_ex cb_banked_reset_recovery_probe_pending (map snd blocks),
           rs_generation := (if foreignQuotaProbe then rs_generation current else rs_generation current + 1),
           rs_probe_lease := (if foreignQuotaProbe then rs_probe_lease current else None)\<rparr>)"

definition quotaBlockedSlot :: "routing_state \<Rightarrow> 'b routing_account_scheme \<Rightarrow> codex_429 \<Rightarrow> int \<Rightarrow> bool \<Rightarrow> routing_slot option" where
  "quotaBlockedSlot st account parsed now recoveryProbe =
     (case (cl_retryAtMs parsed, cl_quotaBlockSource parsed) of
        (Some retryAtMs, Some source) \<Rightarrow>
          let current = slotFor st account;
              foreignQuotaProbe = isForeignQuotaProbeLease current account (quotaClass (ra_requestedModel account))
          in if \<not> slotMatchesCodexRoutingAccount current account then None
             else if ra_probeGeneration account = None \<and> rs_probe_lease current \<noteq> None \<and> \<not> foreignQuotaProbe then None
             else if foreign_claim current account then None
             else Some (buildQuotaBlockedSlot current account parsed source retryAtMs now recoveryProbe foreignQuotaProbe)
      | _ \<Rightarrow> None)"

definition quotaBlockTransition :: "routing_state \<Rightarrow> 'b routing_account_scheme \<Rightarrow> codex_429 \<Rightarrow> int \<Rightarrow> bool \<Rightarrow> int \<Rightarrow> routing_state option" where
  "quotaBlockTransition st account parsed now recoveryProbe updatedAtMs =
     map_option (\<lambda>s. withSlot st (ra_slot account) s updatedAtMs) (quotaBlockedSlot st account parsed now recoveryProbe)"

definition releaseNonBlockingQuotaProbe :: "routing_state \<Rightarrow> 'b routing_account_scheme \<Rightarrow> int \<Rightarrow> routing_state option" where
  "releaseNonBlockingQuotaProbe st account updatedAtMs =
     map_option (\<lambda>s. withSlot st (ra_slot account) s updatedAtMs) (nonBlockingQuotaProbeSlot st account)"

end
