(* ===== verification/Codex_Rows.thy ===== *)
theory Codex_Rows
  imports Codex_Quota_Signals Native_Api
begin

text \<open>
  The rows of the subscription accounts as stored objects: routing state, routed accounts, selections, the
  account pool with its policies, and how the transactions of \<^verbatim>\<open>native-authority-codex.ts\<close> read them back.
  The source writes every property of a routing slot, a class block and a lease, so that a missing property
  marks a row of an older version. Of an account the optional properties are left out when they are absent.
\<close>

section \<open>Routing state\<close>

fun block_source_text :: "quota_block_source \<Rightarrow> string" where
  "block_source_text BodyResetsAt = ''body_resets_at''"
| "block_source_text HeaderRetryAfter = ''header_retry_after''"

fun circuit_text :: "probe_circuit \<Rightarrow> string" where
  "circuit_text QuotaCircuit = ''quota''"
| "circuit_text UpstreamTimeoutCircuit = ''upstream_timeout''"

definition number_js :: "rat \<Rightarrow> js" where
  "number_js q = JNum (Fin q)"

definition class_block_js :: "class_block \<Rightarrow> js" where
  "class_block_js b = JObj
     [(''blocked_until_ms'', jint (cb_blocked_until_ms b)), (''source'', JStr (block_source_text (cb_source b))),
      (''legacy_fallback'', JBool (cb_legacy_fallback b)),
      (''quota_signal_observed_at_ms'', opt_js jint (cb_quota_signal_observed_at_ms b)),
      (''observed_reset_at_ms'', opt_js jint (cb_observed_reset_at_ms b)),
      (''observed_reset_at_is_stable'', JBool (cb_observed_reset_at_is_stable b)),
      (''banked_reset_generation_ambiguous'', JBool (cb_banked_reset_generation_ambiguous b)),
      (''banked_reset_recovery_probe_pending'', JBool (cb_banked_reset_recovery_probe_pending b))]"

definition lease_js :: "probe_lease \<Rightarrow> js" where
  "lease_js l = JObj
     [(''token'', JStr (le_token l)), (''expires_at_ms'', jint (le_expires_at_ms l)), (''generation'', jint (le_generation l)),
      (''circuit'', JStr (circuit_text (le_circuit l))), (''quota_class'', opt_js (\<lambda>c. JStr (quota_class_text c)) (le_quota_class l))]"

definition slot_js :: "routing_slot \<Rightarrow> js" where
  "slot_js s = JObj
     [(''account_id_hash'', opt_js JStr (rs_account_id_hash s)), (''credential_version'', JStr (rs_credential_version s)),
      (''quota_blocked_until_ms'', opt_js jint (rs_quota_blocked_until_ms s)),
      (''quota_block_source'', opt_js (\<lambda>x. JStr (block_source_text x)) (rs_quota_block_source s)),
      (''quota_blocked_classes'', JArr (map JStr (rs_quota_blocked_classes s))),
      (''quota_blocks_by_class'', JObj (map (\<lambda>(c, b). (quota_class_text c, class_block_js b)) (rs_quota_blocks_by_class s))),
      (''invalid_credential_version'', opt_js JStr (rs_invalid_credential_version s)),
      (''primary_used_percent'', opt_js number_js (rs_primary_used_percent s)),
      (''secondary_used_percent'', opt_js number_js (rs_secondary_used_percent s)),
      (''quota_signal_observed_at_ms'', opt_js jint (rs_quota_signal_observed_at_ms s)),
      (''capacity_observed_at_ms'', opt_js jint (rs_capacity_observed_at_ms s)),
      (''upstream_timeout_blocked_until_ms'', opt_js jint (rs_upstream_timeout_blocked_until_ms s)),
      (''observed_reset_at_ms'', opt_js jint (rs_observed_reset_at_ms s)),
      (''observed_reset_at_is_stable'', JBool (rs_observed_reset_at_is_stable s)),
      (''banked_reset_generation_ambiguous'', JBool (rs_banked_reset_generation_ambiguous s)),
      (''banked_reset_recovery_probe_pending'', JBool (rs_banked_reset_recovery_probe_pending s)),
      (''generation'', jint (rs_generation s)), (''probe_lease'', opt_js lease_js (rs_probe_lease s))]"

definition routing_js :: "routing_state \<Rightarrow> js" where
  "routing_js st = JObj
     [(''v'', jint 2), (''updated_at_ms'', jint (rt_updated_at_ms st)),
      (''banked_reset_legacy_identity_unresolved'', JBool (rt_legacy_identity_unresolved st)),
      (''slots'', JArr (map slot_js (rt_slots st)))]"

section \<open>Accounts and selections\<close>

definition optional :: "string \<Rightarrow> ('a \<Rightarrow> js) \<Rightarrow> 'a option \<Rightarrow> (string \<times> js) list" where
  "optional k enc x = (case x of None \<Rightarrow> [] | Some y \<Rightarrow> [(k, enc y)])"

definition account_fields :: "'b routing_account_scheme \<Rightarrow> (string \<times> js) list" where
  "account_fields a =
     [(''slot'', jint (int (ra_slot a))), (''accountIdHash'', JStr (ra_accountIdHash a)),
      (''credentialVersion'', JStr (ra_credentialVersion a)), (''quotaHeadroom'', opt_js number_js (ra_quotaHeadroom a)),
      (''probeRequired'', JBool (ra_probeRequired a)), (''probeGeneration'', opt_js jint (ra_probeGeneration a)),
      (''probeToken'', opt_js JStr (ra_probeToken a)),
      (''probeCircuit'', opt_js (\<lambda>c. JStr (circuit_text c)) (ra_probeCircuit a)),
      (''overageFallback'', JBool (ra_overageFallback a)),
      (''activeTransitionReason'', opt_js (\<lambda>r. JStr (transition_reason_text r)) (ra_activeTransitionReason a)),
      (''requestedModel'', opt_js JStr (ra_requestedModel a))] @
     optional ''routingGeneration'' jint (ra_routingGeneration a) @
     optional ''activeGeneration'' jint (ra_activeGeneration a) @
     optional ''activePoolVersionstamp'' JStr (ra_activePoolVersionstamp a)"

definition account_js :: "routing_account \<Rightarrow> js" where
  "account_js a = JObj (account_fields a)"

definition blocked_account_js :: "blocked_account \<Rightarrow> js" where
  "blocked_account_js b = JObj (account_fields b @ [(''quotaResetAtMs'', jint (ba_quotaResetAtMs b))])"

definition slots_js :: "nat list \<Rightarrow> js" where
  "slots_js ns = JArr (map (\<lambda>n. jint (int n)) ns)"

fun selection_kind :: "route_selection \<Rightarrow> string" where
  "selection_kind (RouteEligible _ _ _) = ''eligible''"
| "selection_kind (RouteQuotaBlocked _) = ''quota_blocked''"
| "selection_kind (RouteUpstreamBlocked _ _) = ''upstream_blocked''"
| "selection_kind (RouteModelUnavailable _ _ _) = ''model_unavailable''"
| "selection_kind (RouteCredentialsInvalid _ _) = ''credentials_invalid''"
| "selection_kind RouteUnavailable = ''routing_unavailable''"

definition unavailable_flag :: "bool \<Rightarrow> (string \<times> js) list" where
  "unavailable_flag b = (if b then [(''fullCohortUnavailable'', JBool True)] else [])"

fun selection_fields :: "route_selection \<Rightarrow> (string \<times> js) list" where
  "selection_fields (RouteEligible accounts skipped blocked) =
     [(''accounts'', JArr (map account_js accounts)), (''skippedSlots'', slots_js skipped),
      (''blockedAccounts'', JArr (map blocked_account_js blocked))]"
| "selection_fields (RouteQuotaBlocked q) =
     [(''skippedSlots'', slots_js (qr_skippedSlots q)), (''retryAtMs'', opt_js jint (qr_retryAtMs q)),
      (''blockedAccounts'', JArr (map blocked_account_js (qr_blockedAccounts q))),
      (''fullCohortExhausted'', JBool (qr_fullCohortExhausted q))] @ unavailable_flag (qr_fullCohortUnavailable q) @
     [(''activeSnapshot'', JObj [(''selection'', opt_js active_js (qr_activeSnapshot q))]),
      (''poolSnapshotJson'', opt_js JStr (qr_poolSnapshotJson q)), (''capacitySnapshotJson'', opt_js JStr (qr_capacitySnapshotJson q))]"
| "selection_fields (RouteUpstreamBlocked skipped retryAtMs) =
     [(''skippedSlots'', slots_js skipped), (''retryAtMs'', opt_js jint retryAtMs), (''blockedAccounts'', JArr [])]"
| "selection_fields (RouteModelUnavailable model detail skipped) =
     [(''model'', JStr model), (''detail'', opt_js JStr detail), (''skippedSlots'', slots_js skipped)]"
| "selection_fields (RouteCredentialsInvalid skipped full) = (''skippedSlots'', slots_js skipped) # unavailable_flag full"
| "selection_fields RouteUnavailable = []"

definition selection_js :: "route_selection \<Rightarrow> js" where
  "selection_js r = JObj ((''kind'', JStr (selection_kind r)) # selection_fields r)"

definition revisions_js :: "row_revisions \<Rightarrow> js" where
  "revisions_js r = JObj [(''pool'', opt_js JStr (rv_pool r)), (''active'', opt_js JStr (rv_active r)),
     (''routing'', opt_js JStr (rv_routing r)), (''capacity'', opt_js JStr (rv_capacity r))]"

section \<open>Reading accounts and the pool\<close>

definition optional_of_js :: "(js \<Rightarrow> 'a option) \<Rightarrow> js \<Rightarrow> 'a option option" where
  "optional_of_js dec v = (if v = JNull \<or> v = JUndef then Some None else map_option Some (dec v))"

definition circuit_of_js :: "js \<Rightarrow> probe_circuit option" where
  "circuit_of_js v = find (\<lambda>c. v = JStr (circuit_text c)) [QuotaCircuit, UpstreamTimeoutCircuit]"

definition reason_of_js :: "js \<Rightarrow> transition_reason option" where
  "reason_of_js v = Option.bind (parseActiveTransitionReason v) (\<lambda>r. r)"

definition account_of_js :: "js \<Rightarrow> native_error + routing_account" where
  "account_of_js v =
     rbind (typed (nonNegativeSafeInteger (js_get v ''slot''))) (\<lambda>slot.
     rbind (typed (js_text (js_get v ''accountIdHash''))) (\<lambda>accountHash.
     rbind (typed (js_text (js_get v ''credentialVersion''))) (\<lambda>version.
     rbind (typed (optional_of_js parseStoredPercent (js_get v ''quotaHeadroom''))) (\<lambda>headroom.
     rbind (typed (js_bool (js_get v ''probeRequired''))) (\<lambda>required.
     rbind (typed (optional_of_js js_int (js_get v ''probeGeneration''))) (\<lambda>probeGeneration.
     rbind (typed (optional_of_js js_text (js_get v ''probeToken''))) (\<lambda>token.
     rbind (typed (optional_of_js circuit_of_js (js_get v ''probeCircuit''))) (\<lambda>circuit.
     rbind (typed (optional_of_js js_bool (js_get v ''overageFallback''))) (\<lambda>overage.
     rbind (typed (optional_of_js js_int (js_get v ''routingGeneration''))) (\<lambda>routingGeneration.
     rbind (typed (optional_of_js js_int (js_get v ''activeGeneration''))) (\<lambda>activeGeneration.
     rbind (typed (optional_of_js js_text (js_get v ''activePoolVersionstamp''))) (\<lambda>stamp.
     rbind (typed (optional_of_js reason_of_js (js_get v ''activeTransitionReason''))) (\<lambda>reason.
     rbind (typed (optional_of_js js_text (js_get v ''requestedModel''))) (\<lambda>model.
     Inr \<lparr>ra_slot = nat slot, ra_accountIdHash = accountHash, ra_credentialVersion = version, ra_quotaHeadroom = headroom,
         ra_probeRequired = required, ra_probeGeneration = probeGeneration, ra_probeToken = token, ra_probeCircuit = circuit,
         ra_overageFallback = (overage = Some True), ra_routingGeneration = routingGeneration, ra_activeGeneration = activeGeneration,
         ra_activePoolVersionstamp = stamp, ra_activeTransitionReason = reason, ra_requestedModel = model\<rparr>))))))))))))))"

definition identity_of_js :: "js \<Rightarrow> native_error + routing_identity" where
  "identity_of_js v =
     rbind (typed (nonNegativeSafeInteger (js_get v ''slot''))) (\<lambda>slot.
     rbind (typed (js_text (js_get v ''accountIdHash''))) (\<lambda>accountHash.
     rbind (typed (js_text (js_get v ''credentialVersion''))) (\<lambda>version.
     Inr \<lparr>ri_slot = nat slot, ri_accountIdHash = accountHash, ri_credentialVersion = version\<rparr>)))"

definition policy_of_js :: "js \<Rightarrow> native_error + account_policy" where
  "policy_of_js v =
     rbind (if js_get v ''modelUnavailable'' = JNull then Inr None
            else rbind (typed (opt_of_js js_text (js_get (js_get v ''modelUnavailable'') ''detail''))) (\<lambda>detail. Inr (Some detail))) (\<lambda>unavailable.
     rbind (typed (js_bool (js_get v ''overageUsageAllowed''))) (\<lambda>overage.
     Inr \<lparr>ac_modelUnavailable = unavailable, ac_overageUsageAllowed = overage\<rparr>))"

text \<open>
  The policies of a model: \<^verbatim>\<open>pool.modelPolicies?.[model] ?? pool.policies\<close>. The lookup also finds what every
  object inherits, values without entries of their own.
\<close>

definition object_prototype_names :: "string list" where
  "object_prototype_names =
     [''constructor'', ''__defineGetter__'', ''__defineSetter__'', ''hasOwnProperty'', ''__lookupGetter__'', ''__lookupSetter__'',
      ''isPrototypeOf'', ''propertyIsEnumerable'', ''toString'', ''valueOf'', ''__proto__'', ''toLocaleString'']"

definition policy_table :: "js \<Rightarrow> string \<Rightarrow> js" where
  "policy_table pool model =
     (let tables = js_get pool ''modelPolicies''; named = js_get tables model in
      if tables \<noteq> JUndef \<and> tables \<noteq> JNull \<and> \<not> js_has model tables \<and> model \<in> set object_prototype_names then JObj []
      else if named = JUndef \<or> named = JNull then js_get pool ''policies'' else named)"

definition codex_policies :: "js \<Rightarrow> string \<Rightarrow> native_error + (string \<rightharpoonup> account_policy)" where
  "codex_policies pool model =
     rbind (typed (js_entries (policy_table pool model))) (\<lambda>entries.
     rbind (collect (map (\<lambda>(k, v). rbind (policy_of_js v) (\<lambda>p. Inr (k, p))) entries)) (\<lambda>policies.
     Inr (map_of (rev policies))))"

end
