(* ===== verification/Native_Codex.thy ===== *)
theory Native_Codex
  imports Codex_Rows
begin

text \<open>
  The transactions on the subscription accounts (\<^verbatim>\<open>NativeAuthorityCodex\<close> in
  \<^verbatim>\<open>src/src/authority/native-authority-codex.ts\<close>): selection, the dispatch fence, outcome signals, the
  release of a probe, the refresh before a dispatch and the election of a reset probe. The value of
  \<^verbatim>\<open>crypto.randomUUID()\<close> is an argument of the two transactions that draw one. Owner rows stay values; the
  model reads the fields that the source compares.
\<close>

section \<open>Rows\<close>

definition CODEX_AUTH_POOL_KV_KEY :: kv_key where
  "CODEX_AUTH_POOL_KV_KEY = [KText ''ubq_ai'', KText ''codex_auth'']"

definition CODEX_ACTIVE_ACCOUNT_SELECTION_KV_KEY :: kv_key where
  "CODEX_ACTIVE_ACCOUNT_SELECTION_KV_KEY = [KText ''uos_ai'', KText ''codex_active_account'', KText ''v1'']"

definition CODEX_ACCOUNT_ROUTING_KV_KEY :: kv_key where
  "CODEX_ACCOUNT_ROUTING_KV_KEY = [KText ''uos_ai'', KText ''codex_account_routing'', KText ''v2'']"

definition CODEX_CAPACITY_ROUTING_OBSERVATION_KV_KEY :: kv_key where
  "CODEX_CAPACITY_ROUTING_OBSERVATION_KV_KEY = [KText ''uos_ai'', KText ''codex_capacity_routing'', KText ''v1'', KText ''observations'']"

record codex_rows =
  cr_pool :: js
  cr_identities :: "routing_identity list"
  cr_selected :: "string list"
  cr_poolRevision :: string
  cr_active :: js
  cr_routing :: js
  cr_parsed :: "routing_state option"
  cr_capacity :: js
  cr_normalized :: normalized_routing
  cr_revisions :: row_revisions

definition pool_identities :: "js \<Rightarrow> native_error + routing_identity list" where
  "pool_identities pool = rbind (typed (js_items (js_get pool ''identities''))) (\<lambda>vs. collect (map identity_of_js vs))"

definition pool_selected :: "js \<Rightarrow> native_error + string list" where
  "pool_selected pool =
     rbind (typed (js_items (js_get pool ''selectedAccountHashes''))) (\<lambda>vs. typed (those (map js_text vs)))"

definition codex_rows_of :: "native_read \<Rightarrow> native_read \<Rightarrow> native_read \<Rightarrow> native_read \<Rightarrow> int \<Rightarrow> native_error + codex_rows" where
  "codex_rows_of pool active routing capacity now =
     rbind (if nr_value pool = JNull then Inl (NativeAuthorityError ''codex_pool_unavailable'' 503)
            else require (nr_revision pool) (NativeAuthorityError ''codex_pool_unavailable'' 503)) (\<lambda>poolRevision.
     rbind (require (stored_row parseCodexAccountRoutingState (nr_value routing))
             (NativeAuthorityError ''codex_routing_malformed'' 503)) (\<lambda>parsed.
     rbind (pool_identities (nr_value pool)) (\<lambda>identities.
     rbind (pool_selected (nr_value pool)) (\<lambda>selected.
     Inr \<lparr>cr_pool = nr_value pool, cr_identities = identities, cr_selected = selected, cr_poolRevision = poolRevision,
       cr_active = nr_value active, cr_routing = nr_value routing, cr_parsed = parsed, cr_capacity = nr_value capacity,
       cr_normalized = normalizeRoutingState parsed identities now True,
       cr_revisions = \<lparr>rv_active = nr_revision active, rv_pool = Some poolRevision, rv_routing = nr_revision routing,
         rv_capacity = nr_revision capacity\<rparr>\<rparr>))))"

definition read_codex_rows :: "int \<Rightarrow> codex_rows native" where
  "read_codex_rows now =
     nbind (sql_read Codex_pool CODEX_AUTH_POOL_KV_KEY now) (\<lambda>pool.
     nbind (sql_read Codex_active CODEX_ACTIVE_ACCOUNT_SELECTION_KV_KEY now) (\<lambda>active.
     nbind (sql_read Codex_routing CODEX_ACCOUNT_ROUTING_KV_KEY now) (\<lambda>routing.
     nbind (sql_read Codex_capacity CODEX_CAPACITY_ROUTING_OBSERVATION_KV_KEY now) (\<lambda>capacity.
     nlift (codex_rows_of pool active routing capacity now)))))"

definition slot_identity :: "codex_rows \<Rightarrow> nat \<Rightarrow> routing_identity option" where
  "slot_identity rows n = find (\<lambda>i. ri_slot i = n) (cr_identities rows)"

definition current_routing :: "codex_rows \<Rightarrow> routing_state" where
  "current_routing rows = routing_state.truncate (cr_normalized rows)"

text \<open>Does the pool still hold this account, under this credential, at its slot?\<close>

definition account_in_pool :: "codex_rows \<Rightarrow> routing_account \<Rightarrow> bool" where
  "account_in_pool rows account =
     (case slot_identity rows (ra_slot account) of None \<Rightarrow> False
      | Some i \<Rightarrow> ri_accountIdHash i = ra_accountIdHash account \<and> ri_credentialVersion i = ra_credentialVersion account)"

definition write_routing :: "routing_state \<Rightarrow> unit native" where
  "write_routing st = sql_write Codex_routing CODEX_ACCOUNT_ROUTING_KV_KEY (routing_js st) None no_index"

definition write_active :: "active_selection \<Rightarrow> unit native" where
  "write_active a = sql_write Codex_active CODEX_ACTIVE_ACCOUNT_SELECTION_KV_KEY (active_js a) None no_index"

definition write_some :: "('a \<Rightarrow> unit native) \<Rightarrow> 'a option \<Rightarrow> unit native" where
  "write_some w x = (case x of None \<Rightarrow> nreturn () | Some y \<Rightarrow> w y)"

definition owner_unavailable :: native_error where
  "owner_unavailable = NativeAuthorityError ''codex_owner_unavailable'' 503"

definition codex_owner :: "routing_account \<Rightarrow> int \<Rightarrow> js native" where
  "codex_owner account now =
     nbind (sql_read Codex_owner [KText (ra_accountIdHash account)] now) (\<lambda>r.
     let owner = nr_value r in
     nbind (nensure (owner \<noteq> JNull \<and> \<not> truthy (js_get owner ''revoked'') \<and>
              js_get owner ''routingAccountIdHash'' = JStr (ra_accountIdHash account) \<and>
              js_get owner ''credentialVersion'' = JStr (ra_credentialVersion account)) owner_unavailable) (\<lambda>_.
     nbind (nlift (typed (js_int (js_get owner ''expiresAtMs'')))) (\<lambda>expires.
     nbind (nensure (now < expires) owner_unavailable) (\<lambda>_.
     nreturn owner))))"

text \<open>The account a request was admitted to, when it has one.\<close>

definition request_account :: "js \<Rightarrow> routing_account option native" where
  "request_account request =
     (if truthy (js_get request ''codex'') then nbind (nlift (account_of_js (js_get request ''codex''))) (\<lambda>a. nreturn (Some a)) else nreturn None)"

section \<open>Authorization and the dispatch fence\<close>

definition admission_missing :: native_error where
  "admission_missing = NativeAuthorityError ''codex_admission_missing'' 409"

definition codex_authorization :: "native_capability \<Rightarrow> string \<Rightarrow> int \<Rightarrow> (js \<times> js) native" where
  "codex_authorization cap handle now =
     nbind (api_request cap handle now) (\<lambda>request.
     nbind (nensure (truthy (js_get request ''codex'') \<and> truthy (js_get request ''ownerFence'')) admission_missing) (\<lambda>_.
     nreturn (js_get request ''codex'', js_get request ''ownerFence'')))"

definition same_owner :: "js \<Rightarrow> js \<Rightarrow> bool" where
  "same_owner prior owner \<longleftrightarrow> isRecord prior \<and>
     list_all (\<lambda>k. js_same (js_get prior k) (js_get owner k))
       [''ownerId'', ''ownerEpoch'', ''publicationRevision'', ''nativeGenerationHash'']"

definition fence_account :: "codex_rows \<Rightarrow> routing_account \<Rightarrow> int \<Rightarrow> bool" where
  "fence_account rows account activeGeneration \<longleftrightarrow>
     account_in_pool rows account \<and> ra_accountIdHash account \<in> set (cr_selected rows) \<and>
     codexActiveAccountSelectionCurrent (cr_active rows) account activeGeneration \<and>
     Some (cr_poolRevision rows) = ra_activePoolVersionstamp account"

definition fence_slot :: "codex_rows \<Rightarrow> routing_account \<Rightarrow> bool" where
  "fence_slot rows account \<longleftrightarrow>
     (let s = slotFor (cr_normalized rows) account in
      slotMatchesCodexRoutingAccount s account \<and> Some (rs_generation s) = ra_routingGeneration account \<and>
      (ra_probeGeneration account = None \<or> probeLeaseMatchesCodexRoutingAccount s account))"

definition codex_fence :: "native_capability \<Rightarrow> string \<Rightarrow> int \<Rightarrow> (js \<times> js) option \<Rightarrow> unit native" where
  "codex_fence cap handle now authorization =
     nbind (api_request cap handle now) (\<lambda>request.
     nbind (case authorization of None \<Rightarrow> request_account request
            | Some (account, owner) \<Rightarrow> nbind (nlift (account_of_js account)) (\<lambda>a. nreturn (Some a))) (\<lambda>found.
     nbind (nlift (require (Option.bind found (\<lambda>a. map_option (Pair a) (ra_activeGeneration a))) admission_missing)) (\<lambda>(account, activeGeneration).
     nbind (read_codex_rows now) (\<lambda>rows.
     nbind (nensure (fence_account rows account activeGeneration) (NativeAuthorityError ''codex_dispatch_fence_stale'' 409)) (\<lambda>_.
     nbind (nensure (admissionRefreshRoutingGeneration (Some (cr_normalized rows)) account \<noteq> None)
             (NativeAuthorityError ''codex_credential_invalid'' 409)) (\<lambda>_.
     nbind (nensure (fence_slot rows account) (NativeAuthorityError ''codex_routing_fence_stale'' 409)) (\<lambda>_.
     nbind (codex_owner account now) (\<lambda>owner.
     nensure (same_owner (case authorization of None \<Rightarrow> js_get request ''ownerFence'' | Some (account, prior) \<Rightarrow> prior) owner)
       (NativeAuthorityError ''codex_owner_fence_stale'' 409)))))))))"

section \<open>Selection\<close>

definition codex_snapshot :: "codex_rows \<Rightarrow> (string \<rightharpoonup> account_policy) \<Rightarrow> serial_snapshot" where
  "codex_snapshot rows policies =
     \<lparr>ss_active = cr_active rows, ss_routing = cr_routing rows, ss_capacity = cr_capacity rows, ss_poolIdentities = cr_identities rows,
      ss_selectedAccountHashes = cr_selected rows, ss_accountPolicies = policies, ss_revisions = cr_revisions rows\<rparr>"

definition codex_plan :: "codex_rows \<Rightarrow> string \<Rightarrow> int \<Rightarrow> serial_admission_plan option native" where
  "codex_plan rows model now =
     nbind (nlift (codex_policies (cr_pool rows) model)) (\<lambda>policies.
     nreturn (selectCodex (codex_snapshot rows policies) now (Some model)))"

text \<open>The probe a selected account may need: \<open>None\<close> when it cannot be claimed.\<close>

definition claim_probe :: "routing_account \<Rightarrow> string \<Rightarrow> int \<Rightarrow> routing_account option native" where
  "claim_probe account uuid now =
     (if \<not> ra_probeRequired account then nreturn (Some account)
      else
      nbind (read_codex_rows now) (\<lambda>current.
      case buildExpiredProbeClaim (current_routing current) account now uuid now of
        None \<Rightarrow> nreturn None
      | Some (st, lease) \<Rightarrow>
          nbind (write_routing st) (\<lambda>_.
          nreturn (Some (account\<lparr>ra_probeRequired := False, ra_probeGeneration := Some (le_generation lease),
            ra_probeToken := Some (le_token lease), ra_probeCircuit := Some (le_circuit lease)\<rparr>)))))"

definition selected_request :: "js \<Rightarrow> route_selection \<Rightarrow> js \<Rightarrow> js \<Rightarrow> js \<Rightarrow> js" where
  "selected_request request selection evidence account owner =
     js_with ''ownerFence'' owner (js_with ''codex'' account (js_with ''codexProof'' evidence (js_with ''selection'' (selection_js selection) request)))"

definition admit_selected :: "js \<Rightarrow> route_selection \<Rightarrow> routing_account list \<Rightarrow> string \<Rightarrow> int \<Rightarrow> native_reply native" where
  "admit_selected request selection accounts uuid now =
     (case accounts of
        [] \<Rightarrow> nfail (NativeAuthorityError ''codex_selection_empty'' 503)
      | first # _ \<Rightarrow>
          nbind (claim_probe first uuid now) (\<lambda>claimed.
          case claimed of
            None \<Rightarrow> nreturn (reply ''routing_unavailable'' JUndef)
          | Some account \<Rightarrow>
              nbind (codex_owner account now) (\<lambda>owner.
              nbind (api_save (selected_request request selection JNull (account_js account) owner)) (\<lambda>_.
              nreturn (reply ''eligible'' (account_js account))))))"

definition refuse_selected :: "js \<Rightarrow> route_selection \<Rightarrow> int \<Rightarrow> native_reply native" where
  "refuse_selected request selection now =
     nbind (read_codex_rows now) (\<lambda>current.
     nbind (api_save (selected_request request selection (revisions_js (cr_revisions current)) JNull JNull)) (\<lambda>_.
     nreturn (reply (selection_kind selection) (selection_js selection))))"

definition codex_select :: "native_capability \<Rightarrow> string \<Rightarrow> string \<Rightarrow> int \<Rightarrow> native_reply native" where
  "codex_select cap handle uuid now =
     nbind (api_validated cap handle now) (\<lambda>request.
     nbind (read_codex_rows now) (\<lambda>rows.
     nbind (row_text request ''model'') (\<lambda>model.
     nbind (codex_plan rows model now) (\<lambda>plan.
     case plan of
       None \<Rightarrow> nreturn (reply ''routing_unavailable'' JUndef)
     | Some p \<Rightarrow>
         nbind (write_some write_routing (sp_routing p)) (\<lambda>_.
         nbind (write_some write_active (sp_active p)) (\<lambda>_.
         case sp_selection p of
           RouteEligible accounts skipped blocked \<Rightarrow> admit_selected request (sp_selection p) accounts uuid now
         | _ \<Rightarrow> refuse_selected request (sp_selection p) now))))))"

section \<open>Outcomes\<close>

definition signal_transition ::
  "string \<Rightarrow> codex_429 option \<Rightarrow> bool \<Rightarrow> routing_state \<Rightarrow> routing_account \<Rightarrow> int \<Rightarrow> native_error + routing_state option" where
  "signal_transition signal parsed recoveryProbe st account now =
     (if signal = ''success'' then Inr (markCodexSuccess st account now)
      else if signal = ''credential_invalid'' then Inr (markCodexCredentialInvalid st account now now)
      else if signal = ''upstream_timeout'' then Inr (markCodexUpstreamTimeout st account now now)
      else if signal = ''quota''
      then (case parsed of
              None \<Rightarrow> Inl (NativeAuthorityError ''codex_quota_response_missing'' 400)
            | Some p \<Rightarrow>
                Inr (if cl_usageLimitReached p then quotaBlockTransition st account p now recoveryProbe now
                     else releaseNonBlockingQuotaProbe st account now))
      else Inl (NativeAuthorityError ''invalid_codex_signal'' 400))"

definition classification_js :: "codex_429 \<Rightarrow> js" where
  "classification_js p = JObj
     [(''usageLimitReached'', JBool (cl_usageLimitReached p)), (''retryAtMs'', opt_js jint (cl_retryAtMs p)),
      (''quotaBlockSource'', opt_js (\<lambda>x. JStr (block_source_text x)) (cl_quotaBlockSource p)),
      (''resetDeadlineIsStable'', JBool (cl_resetDeadlineIsStable p)), (''resetDeadlineConflict'', JBool (cl_resetDeadlineConflict p))]"

definition observed_request :: "js \<Rightarrow> string \<Rightarrow> js" where
  "observed_request request signal =
     (let observed = js_with ''providerObserved'' (JBool True) request in
      if signal = ''success'' \<and> js_get request ''semantic'' = JNull
      then js_with ''responding'' (JObj (responding_js Chatgpt_codex None)) observed else observed)"

definition codex_signal ::
  "native_capability \<Rightarrow> string \<Rightarrow> string \<Rightarrow> bool \<Rightarrow> codex_429 option \<Rightarrow> int \<Rightarrow> native_reply native" where
  "codex_signal cap handle signal recoveryProbe parsed now =
     nbind (api_request cap handle now) (\<lambda>request.
     nbind (request_account request) (\<lambda>found.
     nbind (nlift (require found admission_missing)) (\<lambda>account.
     nbind (api_save (observed_request request signal)) (\<lambda>_.
     nbind (read_codex_rows now) (\<lambda>rows.
     if \<not> account_in_pool rows account then nreturn (reply ''stale'' JUndef)
     else
     nbind (nlift (signal_transition signal parsed recoveryProbe (current_routing rows) account now)) (\<lambda>changed.
     nbind (write_some write_routing changed) (\<lambda>_.
     nreturn (reply (if changed \<noteq> None then ''recorded'' else ''unchanged'')
       (case parsed of None \<Rightarrow> JUndef | Some p \<Rightarrow> classification_js p)))))))))"

definition codex_release :: "native_capability \<Rightarrow> string \<Rightarrow> int \<Rightarrow> native_reply native" where
  "codex_release cap handle now =
     nbind (api_request cap handle now) (\<lambda>request.
     nbind (request_account request) (\<lambda>found.
     case found of
       None \<Rightarrow> nreturn (reply ''missing'' JUndef)
     | Some account \<Rightarrow>
         nbind (read_codex_rows now) (\<lambda>rows.
         let changed = releaseCodexRoutingProbe (current_routing rows) account now in
         nbind (write_some write_routing changed) (\<lambda>_.
         nreturn (reply (if changed \<noteq> None then ''released'' else ''stale'') JUndef)))))"

section \<open>Refresh before a dispatch\<close>

text \<open>The account under the credential that the pool holds now; a probe follows the rotation of its own lease only.\<close>

definition rotated_account :: "codex_rows \<Rightarrow> routing_account \<Rightarrow> routing_identity \<Rightarrow> routing_account" where
  "rotated_account rows account identity =
     (if ra_credentialVersion account = ri_credentialVersion identity then account
      else
        let cleared = account\<lparr>ra_probeRequired := False, ra_probeGeneration := None, ra_probeToken := None, ra_probeCircuit := None,
              ra_credentialVersion := ri_credentialVersion identity\<rparr>
        in case slot_at (current_routing rows) (ra_slot account) of
             None \<Rightarrow> cleared
           | Some s \<Rightarrow>
               (case rs_probe_lease s of
                  None \<Rightarrow> cleared
                | Some lease \<Rightarrow>
                    if ra_probeGeneration account \<noteq> None \<and> ra_probeToken account = Some (le_token lease) \<and>
                       le_circuit lease = routingProbeCircuit account \<and> le_generation lease = rs_generation s
                    then cleared\<lparr>ra_probeGeneration := Some (rs_generation s), ra_probeToken := Some (le_token lease),
                           ra_probeCircuit := Some (le_circuit lease)\<rparr>
                    else cleared))"

definition refresh_target :: "codex_rows \<Rightarrow> routing_account \<Rightarrow> (active_selection \<times> routing_identity) option" where
  "refresh_target rows account =
     Option.bind (parseCodexActiveAccountSelection (cr_active rows)) (\<lambda>active.
     Option.bind (slot_identity rows (ra_slot account)) (\<lambda>identity.
     if Some (as_generation active) = ra_activeGeneration account \<and> as_account_id_hash active = ra_accountIdHash account \<and>
        as_slot active = ra_slot account \<and> ri_accountIdHash identity = ra_accountIdHash account
     then Some (active, identity) else None))"

definition refresh_owner_fence :: "js \<Rightarrow> js \<Rightarrow> bool" where
  "refresh_owner_fence prior owner \<longleftrightarrow> \<not> truthy prior \<or>
     js_same (js_get prior ''ownerId'') (js_get owner ''ownerId'') \<and> js_same (js_get prior ''ownerEpoch'') (js_get owner ''ownerEpoch'')"

definition refresh_admitted ::
  "js \<Rightarrow> codex_rows \<Rightarrow> active_selection \<Rightarrow> routing_account \<Rightarrow> int \<Rightarrow> int \<Rightarrow> native_reply native" where
  "refresh_admitted request rows active account generation now =
     nbind (if routingStateChangedByNormalization (cr_parsed rows) (cr_normalized rows) then write_routing (current_routing rows) else nreturn ()) (\<lambda>_.
     nbind (write_some write_active (map_option (\<lambda>a. a\<lparr>as_updated_at_ms := now\<rparr>)
             (prepareCodexAdmissionRefresh active account (cr_poolRevision rows) generation))) (\<lambda>_.
     nbind (codex_owner account now) (\<lambda>owner.
     nbind (nlift (typed (js_int (js_get owner ''expiresAtMs'')))) (\<lambda>expires.
     nbind (nensure (120000 \<le> expires - now) (NativeAuthorityError ''codex_native_owner_renewal_required'' 503)) (\<lambda>_.
     nbind (nensure (refresh_owner_fence (js_get request ''ownerFence'') owner) (NativeAuthorityError ''codex_owner_fence_stale'' 409)) (\<lambda>_.
     let refreshed = account\<lparr>ra_routingGeneration := Some generation, ra_activePoolVersionstamp := Some (cr_poolRevision rows)\<rparr> in
     nbind (api_save (js_with ''ownerFence'' owner (js_with ''codex'' (account_js refreshed) request))) (\<lambda>_.
     nreturn (reply ''current'' (account_js refreshed)))))))))"

definition codex_refresh :: "native_capability \<Rightarrow> string \<Rightarrow> int \<Rightarrow> native_reply native" where
  "codex_refresh cap handle now =
     nbind (api_request cap handle now) (\<lambda>request.
     nbind (request_account request) (\<lambda>found.
     case found of
       None \<Rightarrow> nreturn (reply ''stale'' JUndef)
     | Some account \<Rightarrow>
         nbind (read_codex_rows now) (\<lambda>rows.
         case refresh_target rows account of
           None \<Rightarrow> nreturn (reply ''stale'' JUndef)
         | Some (active, identity) \<Rightarrow>
             let current = rotated_account rows account identity in
             (case admissionRefreshRoutingGeneration (if cr_routing rows = JNull then None else Some (cr_normalized rows)) current of
                None \<Rightarrow> nreturn (reply ''stale'' JUndef)
              | Some generation \<Rightarrow> refresh_admitted request rows active current generation now))))"

section \<open>Election of a reset probe\<close>

record reset_proof =
  pf_id :: string
  pf_account :: routing_account
  pf_quotaResetAtMs :: int
  pf_routingGeneration :: int
  pf_activeSnapshot :: js
  pf_poolRevision :: js
  pf_capacityRevision :: js

definition proof_of_js :: "js \<Rightarrow> native_error + reset_proof" where
  "proof_of_js v =
     rbind (typed (js_text (js_get v ''id''))) (\<lambda>ident.
     rbind (account_of_js (js_get v ''account'')) (\<lambda>account.
     rbind (typed (js_int (js_get v ''quotaResetAtMs''))) (\<lambda>reset.
     rbind (typed (js_int (js_get v ''routingGeneration''))) (\<lambda>generation.
     Inr \<lparr>pf_id = ident, pf_account = account, pf_quotaResetAtMs = reset, pf_routingGeneration = generation,
         pf_activeSnapshot = js_get v ''activeSnapshot'', pf_poolRevision = js_get v ''poolRevision'',
         pf_capacityRevision = js_get v ''capacityRevision''\<rparr>))))"

text \<open>A snapshot that does not parse as a selection differs from every selection that does.\<close>

definition snapshot_current :: "js \<Rightarrow> js \<Rightarrow> bool" where
  "snapshot_current value snapshot =
     (case stored_row parseCodexActiveAccountSelection snapshot of None \<Rightarrow> False
      | Some observed \<Rightarrow> isCodexActiveAccountSnapshotCurrent value observed)"

definition election_fence :: "codex_rows \<Rightarrow> reset_proof \<Rightarrow> routing_account \<Rightarrow> routing_slot \<Rightarrow> bool" where
  "election_fence rows p account s \<longleftrightarrow>
     JStr (cr_poolRevision rows) = pf_poolRevision p \<and> opt_js JStr (rv_capacity (cr_revisions rows)) = pf_capacityRevision p \<and>
     snapshot_current (cr_active rows) (pf_activeSnapshot p) \<and> account_in_pool rows account \<and>
     ra_accountIdHash account \<in> set (cr_selected rows) \<and>
     resetCandidateSlotMatches s account
       (isCodexQuotaBlockFenceCurrent (cr_routing rows) account (pf_quotaResetAtMs p) (pf_routingGeneration p))"

fun cohort_exhausted :: "serial_admission_plan option \<Rightarrow> bool" where
  "cohort_exhausted None = False"
| "cohort_exhausted (Some p) = (case sp_selection p of RouteQuotaBlocked q \<Rightarrow> qr_fullCohortExhausted q | _ \<Rightarrow> False)"

definition recovery_lease :: "routing_slot \<Rightarrow> routing_account \<Rightarrow> string \<Rightarrow> int \<Rightarrow> probe_lease" where
  "recovery_lease s account uuid now =
     \<lparr>le_token = uuid, le_expires_at_ms = now + CODEX_HALF_OPEN_LEASE_MS, le_generation = rs_generation s + 1,
      le_circuit = QuotaCircuit, le_quota_class = Some (quotaClass (ra_requestedModel account))\<rparr>"

definition elected_account :: "routing_account \<Rightarrow> probe_lease \<Rightarrow> active_selection \<Rightarrow> routing_account" where
  "elected_account account lease a =
     account\<lparr>ra_routingGeneration := Some (le_generation lease), ra_activeGeneration := Some (as_generation a),
       ra_activePoolVersionstamp := Some (as_pool_versionstamp a), ra_activeTransitionReason := as_transition_reason a,
       ra_probeRequired := False, ra_probeGeneration := Some (le_generation lease), ra_probeToken := Some (le_token lease),
       ra_probeCircuit := Some (le_circuit lease)\<rparr>"

text \<open>
  The stored routing row is passed to the plan unparsed, so that none of its slot objects is one of the
  normalized slots.
\<close>

definition election_writes ::
  "js \<Rightarrow> js \<Rightarrow> codex_rows \<Rightarrow> reset_proof \<Rightarrow> routing_account \<Rightarrow> routing_slot \<Rightarrow> active_selection \<Rightarrow> string \<Rightarrow> int \<Rightarrow> native_reply native" where
  "election_writes request proofRow rows p account s a uuid now =
     (let foreign = (cr_normalized rows)\<lparr>nr_origins := map (\<lambda>_. None) (nr_origins (cr_normalized rows))\<rparr>;
          election = planCodexResetElection (cr_revisions rows) (cr_parsed rows) foreign a;
          lease = recovery_lease s account uuid now;
          admitted = elected_account account lease a
      in
      nbind (write_some write_routing (el_routing election)) (\<lambda>_.
      nbind (write_active (el_active election)) (\<lambda>_.
      nbind (write_some write_routing (recoveryProbeTransition (current_routing rows) account lease now)) (\<lambda>_.
      nbind (codex_owner admitted now) (\<lambda>owner.
      nbind (api_save (js_with ''ownerFence'' owner (js_with ''codex'' (account_js admitted) request))) (\<lambda>_.
      nbind (sql_write Codex_reset [KText (pf_id p)] (js_with ''verified'' (JBool False) proofRow) None no_index) (\<lambda>_.
      nreturn (reply ''probe_elected'' (account_js admitted)))))))))"

definition refused :: "string \<Rightarrow> native_reply native" where
  "refused detail = nreturn (reply ''refused'' (JStr detail))"

definition elect_account :: "js \<Rightarrow> js \<Rightarrow> reset_proof \<Rightarrow> string \<Rightarrow> string \<Rightarrow> int \<Rightarrow> native_reply native" where
  "elect_account request proofRow p model uuid now =
     nbind (read_codex_rows now) (\<lambda>rows.
     let account = (pf_account p)\<lparr>ra_requestedModel := Some model\<rparr> in
     case slot_at (current_routing rows) (ra_slot account) of
       None \<Rightarrow> refused ''reset_fence_stale''
     | Some s \<Rightarrow>
         if \<not> election_fence rows p account s then refused ''reset_fence_stale''
         else
         nbind (codex_plan rows model now) (\<lambda>cohort.
         if \<not> cohort_exhausted cohort then refused ''cohort_not_quota_exhausted''
         else
         let active = parseCodexActiveAccountSelection (cr_active rows) in
         case activeSelectionForAccount account (cr_poolRevision rows) (nextResetElectionGeneration active account) now (Some QuotaExhausted) of
           None \<Rightarrow> nreturn (reply ''refused'' JUndef)
         | Some a \<Rightarrow> election_writes request proofRow rows p account s a uuid now))"

definition codex_elect :: "native_capability \<Rightarrow> string \<Rightarrow> string \<Rightarrow> string \<Rightarrow> int \<Rightarrow> native_reply native" where
  "codex_elect cap handle proofId uuid now =
     nbind (api_validated cap handle now) (\<lambda>request.
     nbind (sql_read Codex_reset [KText proofId] now) (\<lambda>r.
     if \<not> truthy (js_get (nr_value r) ''verified'') then refused ''reset_proof_unavailable''
     else
     nbind (nlift (proof_of_js (nr_value r))) (\<lambda>p.
     nbind (row_text request ''model'') (\<lambda>model.
     if quotaClass (ra_requestedModel (pf_account p)) \<noteq> quotaClass (Some model) then refused ''reset_model_class_mismatch''
     else elect_account request (nr_value r) p model uuid now))))"

end
