(* ===== verification/Codex_Cohort.thy ===== *)
theory Codex_Cohort
  imports Codex_Circuits
begin

text \<open>
  Runs of the serial selection over a cohort of accounts. The locale \<open>account_evaluator\<close> has what the
  selection needs of the evaluation of one account; it is interpreted on the evaluation of the source.
\<close>

section \<open>Runs over a cohort\<close>

lemma identity_map_hash:
  assumes "i \<in> set ids"
  shows "map_option ri_accountIdHash (identity_map ids (ri_accountIdHash i)) = Some (ri_accountIdHash i)"
proof -
  obtain j where j: "identity_map ids (ri_accountIdHash i) = Some j"
    using assms unfolding identity_map_def by (cases "map_of (rev (map (\<lambda>i. (ri_accountIdHash i, i)) ids)) (ri_accountIdHash i)") (force simp: map_of_eq_None_iff)+
  then have "(ri_accountIdHash i, j) \<in> set (rev (map (\<lambda>i. (ri_accountIdHash i, i)) ids))" unfolding identity_map_def by (rule map_of_SomeD)
  with j show ?thesis by auto
qed

lemma activeSelection_fields:
  assumes "activeSelectionForAccount account pv generation now reason = Some b"
  shows "as_account_id_hash b = ra_accountIdHash account \<and> as_credential_version b = ra_credentialVersion account \<and> as_pool_versionstamp b = pv \<and>
    as_slot b = ra_slot account \<and> ra_routingGeneration account = Some (as_routing_generation b) \<and> as_generation b = generation \<and>
    as_transition_reason b = reason \<and> as_updated_at_ms b = now \<and> isVersionstamp pv \<and> is_safe_integer generation \<and> 1 \<le> generation"
  using assms by (auto simp: activeSelectionForAccount_def split: option.splits if_splits)

lemma refresh_fields:
  assumes "serial_refresh ctx a account = Some (Some b)"
  shows "as_account_id_hash b = ra_accountIdHash account \<and> as_generation b = as_generation a \<and> as_transition_reason b = as_transition_reason a"
  using assms by (auto simp: serial_refresh_def dest: activeSelection_fields split: if_splits)

text \<open>
  An eligible answer admits one account, and the active row as the decision leaves it, written or kept,
  carries the fences of that account.
\<close>

definition admitted_account :: "routing_account \<Rightarrow> active_selection \<Rightarrow> routing_account" where
  "admitted_account r c = r\<lparr>ra_activeGeneration := Some (as_generation c), ra_activePoolVersionstamp := Some (as_pool_versionstamp c),
     ra_activeTransitionReason := as_transition_reason c\<rparr>"

definition leaves_fence :: "active_selection option \<Rightarrow> active_selection option \<Rightarrow> string \<Rightarrow> int \<Rightarrow> routing_account \<Rightarrow> active_selection \<Rightarrow> bool" where
  "leaves_fence active nextActive pv now r c \<longleftrightarrow> \<not> activeSelectionNeedsRefresh c r pv \<and>
     (nextActive = None \<and> active = Some c \<or>
      nextActive = Some c \<and> as_updated_at_ms c = now \<and> isVersionstamp pv \<and> is_safe_integer (as_generation c) \<and> 1 \<le> as_generation c)"

lemma selection_fence: "activeSelectionForAccount r pv generation now reason = Some c \<Longrightarrow> leaves_fence active (Some c) pv now r c"
  by (auto simp: leaves_fence_def activeSelectionNeedsRefresh_def dest!: activeSelection_fields)

lemma refresh_fence:
  assumes "serial_refresh ctx a r = Some refreshed"
  shows "leaves_fence (Some a) refreshed (sc_poolVersionstamp ctx) (sc_now ctx) r (current_row a refreshed)"
proof (cases refreshed)
  case None
  with assms have "\<not> activeSelectionNeedsRefresh a r (sc_poolVersionstamp ctx)" by (auto simp: serial_refresh_def split: if_splits)
  with None show ?thesis by (simp add: leaves_fence_def current_row_def)
next
  case (Some c)
  with assms have "activeSelectionForAccount r (sc_poolVersionstamp ctx) (as_generation a) (sc_now ctx) (as_transition_reason a) = Some c"
    by (auto simp: serial_refresh_def split: if_splits)
  with Some show ?thesis by (simp add: current_row_def selection_fence)
qed

lemma eligible_selection: "eligibleSerialSelection r c e = RouteEligible accounts skipped blocked \<Longrightarrow> accounts = [admitted_account r c]"
  by (simp add: eligibleSerialSelection_def admitted_account_def)

lemma blocked_not_eligible:
  "ax_available (re_accumulated (sc_evaluations ctx)) = [] \<Longrightarrow> blockedSerialSelection ctx c \<noteq> RouteEligible accounts skipped blocked"
  by (simp add: blockedSerialSelection_def classifyCodexRouteSelection_def split: option.split prod.split)

lemma move_fence:
  assumes "serial_move ctx a r reason = Some (RouteEligible accounts skipped blocked, nextActive)"
  shows "\<exists>c. accounts = [admitted_account r c] \<and> leaves_fence active nextActive (sc_poolVersionstamp ctx) (sc_now ctx) r c"
  using assms by (auto simp: serial_move_def dest: selection_fence eligible_selection)

lemma decision_eligible:
  fixes active cohort e pv now pj cj
  defines "ctx \<equiv> serial_context active cohort e pv now pj cj"
  assumes dec: "serialSelectionDecision active cohort e pv now pj cj = Some (RouteEligible accounts skipped blocked, nextActive)"
    and all: "sc_eligibleInPoolOrder ctx = ax_available (re_accumulated e)"
  shows "\<exists>r c. (r \<in> set (sc_eligibleInPoolOrder ctx) \<or> (\<exists>ev. sc_activeEvaluation ctx = Some ev \<and> ev_routedAccount ev = Some r)) \<and>
    accounts = [admitted_account r c] \<and> leaves_fence active nextActive pv now r c"
proof -
  have ctx: "sc_poolVersionstamp ctx = pv" "sc_now ctx = now" "sc_evaluations ctx = e" by (simp_all add: ctx_def serial_context_def Let_def)
  have none: "sc_eligibleInPoolOrder ctx = [] \<Longrightarrow> blockedSerialSelection ctx c \<noteq> RouteEligible accounts skipped blocked" for c
    by (rule blocked_not_eligible) (simp add: all ctx)
  have dec': "(case active of None \<Rightarrow> serialBootstrapDecision ctx
     | Some a \<Rightarrow> (case sc_activeEvaluation ctx of None \<Rightarrow> serialReplacementDecision ctx a
       | Some ev \<Rightarrow> (case ev_routedAccount ev of Some current \<Rightarrow> serialCurrentActiveDecision ctx a current
          | None \<Rightarrow> serialBlockedActiveDecision ctx a ev))) = Some (RouteEligible accounts skipped blocked, nextActive)"
    using dec unfolding serialSelectionDecision_def ctx_def Let_def .
  show ?thesis
  proof (cases active)
    case None
    with dec' none obtain r rs where "sc_eligibleInPoolOrder ctx = r # rs"
      "map_option (\<lambda>c. (eligibleSerialSelection r c e, Some c)) (activeSelectionForAccount r pv 1 now None) =
        Some (RouteEligible accounts skipped blocked, nextActive)"
      by (auto simp: serialBootstrapDecision_def ctx split: list.splits)
    then show ?thesis by (auto dest: selection_fence eligible_selection intro!: exI [of _ r])
  next
    case (Some a)
    have moved: ?thesis if "sc_eligibleInPoolOrder ctx = r # rs" "serial_move ctx a r reason = Some (RouteEligible accounts skipped blocked, nextActive)"
      for r rs reason using that move_fence [OF that(2), of active] by (auto simp: ctx)
    show ?thesis
    proof (cases "sc_activeEvaluation ctx")
      case None
      with dec' Some none obtain r rs where "sc_eligibleInPoolOrder ctx = r # rs"
        "serial_move ctx a r AccountRemovedOrReplaced = Some (RouteEligible accounts skipped blocked, nextActive)"
        by (auto simp: serialReplacementDecision_def split: list.splits)
      then show ?thesis by (rule moved)
    next
      case ev: (Some ev)
      show ?thesis
      proof (cases "ev_routedAccount ev")
        case None
        with dec' Some ev none obtain r rs reason where "sc_eligibleInPoolOrder ctx = r # rs"
          "serial_move ctx a r reason = Some (RouteEligible accounts skipped blocked, nextActive)"
          by (auto simp: serialBlockedActiveDecision_def split: list.splits option.splits)
        then show ?thesis by (rule moved)
      next
        case current: (Some r)
        with dec' Some ev obtain refreshed where "serial_refresh ctx a r = Some refreshed" "nextActive = refreshed"
          "eligibleSerialSelection r (current_row a refreshed) e = RouteEligible accounts skipped blocked"
          by (auto simp: serialCurrentActiveDecision_def ctx)
        with refresh_fence [of ctx a r refreshed] current ev Some show ?thesis
          by (auto simp: ctx dest!: eligible_selection intro!: exI [of _ r])
      qed
    qed
  qed
qed

text \<open>
  What the serial selection needs of an evaluation: it names the account it was asked about, a routable
  account is that account and has no cause to leave it, and the routing generation is known.
\<close>

locale account_evaluator =
  fixes evaluate :: "routing_identity \<Rightarrow> account_policy \<Rightarrow> account_evaluation"
  assumes evaluated_hash: "ra_accountIdHash (ev_account (evaluate i p)) = ri_accountIdHash i"
    and routed_account: "ev_routedAccount (evaluate i p) = Some a \<Longrightarrow> a = ev_account (evaluate i p) \<and> ev_activeTransitionReason (evaluate i p) = None"
    and generation_known: "ra_routingGeneration (ev_account (evaluate i p)) \<noteq> None"
begin

lemma cohort_Cons:
  assumes "evaluate_cohort evaluate policies (i # rest) a table = Some (acc, table')"
  obtains p where "policies (ri_accountIdHash i) = Some p"
    "evaluate_cohort evaluate policies rest (foldCodexRoutingEvaluation a (evaluate i p)) (table(ri_accountIdHash i \<mapsto> evaluate i p)) = Some (acc, table')"
  using assms by (auto simp: Let_def split: option.splits)

lemma cohort_keeps:
  assumes "evaluate_cohort evaluate policies cohort a table = Some (acc, table')" "table h \<noteq> None \<or> h \<in> ri_accountIdHash ` set cohort"
  shows "table' h \<noteq> None"
  using assms
proof (induction cohort arbitrary: a table)
  case (Cons i rest)
  obtain p where rest: "evaluate_cohort evaluate policies rest (foldCodexRoutingEvaluation a (evaluate i p)) (table(ri_accountIdHash i \<mapsto> evaluate i p)) = Some (acc, table')"
    by (rule cohort_Cons [OF Cons.prems(1)])
  show ?case by (rule Cons.IH [OF rest]) (use Cons.prems(2) in auto)
qed simp

lemma cohort_origin:
  assumes "evaluate_cohort evaluate policies cohort a table = Some (acc, table')" "table' h = Some ev"
  shows "table h = Some ev \<or> (\<exists>i \<in> set cohort. \<exists>p. ri_accountIdHash i = h \<and> policies h = Some p \<and> ev = evaluate i p)"
  using assms
proof (induction cohort arbitrary: a table)
  case (Cons i rest)
  obtain p where p: "policies (ri_accountIdHash i) = Some p"
    and rest: "evaluate_cohort evaluate policies rest (foldCodexRoutingEvaluation a (evaluate i p)) (table(ri_accountIdHash i \<mapsto> evaluate i p)) = Some (acc, table')"
    by (rule cohort_Cons [OF Cons.prems(1)])
  from Cons.IH [OF rest Cons.prems(2)] p show ?case by (auto split: if_split_asm)
qed simp

lemma cohort_entry:
  assumes "evaluate_cohort evaluate policies cohort no_accumulation Map.empty = Some (acc, table)" "table h = Some ev"
  obtains i p where "i \<in> set cohort" "ri_accountIdHash i = h" "policies h = Some p" "ev = evaluate i p"
proof -
  from cohort_origin [OF assms]
  have "\<exists>i \<in> set cohort. \<exists>p. ri_accountIdHash i = h \<and> policies h = Some p \<and> ev = evaluate i p" by simp
  with that show ?thesis by blast
qed

lemma cohort_dom:
  assumes "evaluate_cohort evaluate policies cohort no_accumulation Map.empty = Some (acc, table)"
  shows "table h = None \<longleftrightarrow> h \<notin> ri_accountIdHash ` set cohort"
proof
  show "table h = None \<Longrightarrow> h \<notin> ri_accountIdHash ` set cohort" using cohort_keeps [OF assms, of h] by auto
  show "h \<notin> ri_accountIdHash ` set cohort \<Longrightarrow> table h = None"
    by (cases "table h") (auto dest: cohort_origin [OF assms])
qed

lemma active_evaluation:
  assumes run: "evaluate_cohort evaluate policies cohort no_accumulation Map.empty = Some (acc, table)" and sub: "set cohort \<subseteq> set ids"
  shows "sc_activeEvaluation (serial_context (Some a) cohort \<lparr>re_accumulated = acc, re_byAccountId = table, re_identityByAccountId = identity_map ids\<rparr> pv now pj cj) =
    table (as_account_id_hash a)"
proof -
  have ident: "i \<in> set cohort \<Longrightarrow> map_option ri_accountIdHash (identity_map ids (ri_accountIdHash i)) = Some (ri_accountIdHash i)" for i
    using sub identity_map_hash by blast
  let ?f = "find (\<lambda>account. map_option ri_accountIdHash (identity_map ids (ri_accountIdHash account)) = Some (as_account_id_hash a)) cohort"
  have "Option.bind ?f (\<lambda>account. table (ri_accountIdHash account)) = table (as_account_id_hash a)"
  proof (cases ?f)
    case None
    then have "as_account_id_hash a \<notin> ri_accountIdHash ` set cohort" using ident by (force simp: find_None_iff)
    then have "table (as_account_id_hash a) = None" using cohort_dom [OF run] by blast
    with None show ?thesis by simp
  next
    case (Some i)
    then have "i \<in> set cohort" "map_option ri_accountIdHash (identity_map ids (ri_accountIdHash i)) = Some (as_account_id_hash a)"
      by (auto simp: find_Some_iff)
    with ident have "ri_accountIdHash i = as_account_id_hash a" by (metis option.inject)
    with Some show ?thesis by simp
  qed
  then show ?thesis by (simp add: serial_context_def Let_def)
qed

lemma eligible_entry:
  assumes "r \<in> set (sc_eligibleInPoolOrder (serial_context active cohort \<lparr>re_accumulated = acc, re_byAccountId = table, re_identityByAccountId = im\<rparr> pv now pj cj))"
  shows "\<exists>i \<in> set cohort. \<exists>ev. table (ri_accountIdHash i) = Some ev \<and> ev_routedAccount ev = Some r"
proof -
  from assms obtain i where i: "i \<in> set cohort" "Option.bind (table (ri_accountIdHash i)) ev_routedAccount = Some r"
    by (auto simp: serial_context_def Let_def List.map_filter_def)
  then show ?thesis by (intro bexI [of _ i]) (auto simp: bind_eq_Some_conv)
qed

lemma entry_hash:
  assumes "evaluate_cohort evaluate policies cohort no_accumulation Map.empty = Some (acc, table)" "table h = Some ev"
  shows "ra_accountIdHash (ev_account ev) = h \<and> ra_routingGeneration (ev_account ev) \<noteq> None \<and>
    (\<forall>a. ev_routedAccount ev = Some a \<longrightarrow> a = ev_account ev \<and> ev_activeTransitionReason ev = None)"
  by (rule cohort_entry [OF assms]) (auto simp: evaluated_hash generation_known dest: routed_account)

text \<open>The active row moves to another account only for the cause that the evaluation of the active account gives.\<close>

lemma decision_moves:
  assumes run: "evaluate_cohort evaluate policies cohort no_accumulation Map.empty = Some (acc, table)" and sub: "set cohort \<subseteq> set ids"
    and dec: "serialSelectionDecision (Some a) cohort \<lparr>re_accumulated = acc, re_byAccountId = table, re_identityByAccountId = identity_map ids\<rparr> pv now pj cj =
      Some (sel, Some b)"
  shows "as_account_id_hash b = as_account_id_hash a \<and> as_generation b = as_generation a \<and> as_transition_reason b = as_transition_reason a \<or>
    as_account_id_hash b \<noteq> as_account_id_hash a \<and> as_generation b = as_generation a + 1 \<and>
      (as_transition_reason b = Some AccountRemovedOrReplaced \<and> as_account_id_hash a \<notin> ri_accountIdHash ` set cohort \<or>
       (\<exists>i \<in> set cohort. \<exists>p reason. ri_accountIdHash i = as_account_id_hash a \<and> policies (as_account_id_hash a) = Some p \<and>
          ev_routedAccount (evaluate i p) = None \<and> ev_activeTransitionReason (evaluate i p) = Some reason \<and> as_transition_reason b = Some reason))"
proof -
  let ?ctx = "serial_context (Some a) cohort \<lparr>re_accumulated = acc, re_byAccountId = table, re_identityByAccountId = identity_map ids\<rparr> pv now pj cj"
  note active = active_evaluation [OF run sub, of a pv now pj cj]
  have eligible: "\<exists>ev. table (ra_accountIdHash r) = Some ev \<and> ev_routedAccount ev = Some r" if "sc_eligibleInPoolOrder ?ctx = r # rs" for r rs
    using eligible_entry [of r "Some a" cohort acc table "identity_map ids" pv now pj cj] that entry_hash [OF run] by fastforce
  show ?thesis
  proof (cases "table (as_account_id_hash a)")
    case None
    with dec active have "serialReplacementDecision ?ctx a = Some (sel, Some b)" by (simp add: serialSelectionDecision_def Let_def)
    then obtain r rs where r: "sc_eligibleInPoolOrder ?ctx = r # rs" and "serial_move ?ctx a r AccountRemovedOrReplaced = Some (sel, Some b)"
      by (auto simp: serialReplacementDecision_def split: list.splits)
    then have b: "as_account_id_hash b = ra_accountIdHash r" "as_generation b = as_generation a + 1" "as_transition_reason b = Some AccountRemovedOrReplaced"
      by (auto simp: serial_move_def dest: activeSelection_fields)
    moreover have "as_account_id_hash a \<notin> ri_accountIdHash ` set cohort" using None cohort_dom [OF run] by blast
    moreover have "ra_accountIdHash r \<noteq> as_account_id_hash a" using eligible [OF r] None by auto
    ultimately show ?thesis by simp
  next
    case (Some ev)
    note fields = entry_hash [OF run Some]
    show ?thesis
    proof (cases "ev_routedAccount ev")
      case (Some current)
      with dec active \<open>table (as_account_id_hash a) = Some ev\<close> have "serial_refresh ?ctx a current = Some (Some b)"
        by (auto simp: serialSelectionDecision_def Let_def serialCurrentActiveDecision_def)
      with fields Some show ?thesis by (auto dest: refresh_fields)
    next
      case None
      with dec active Some have blocked: "serialBlockedActiveDecision ?ctx a ev = Some (sel, Some b)"
        by (simp add: serialSelectionDecision_def Let_def)
      then obtain reason where reason: "ev_activeTransitionReason ev = Some reason" by (auto simp: serialBlockedActiveDecision_def split: option.splits)
      show ?thesis
      proof (cases "sc_eligibleInPoolOrder ?ctx")
        case Nil
        with blocked reason have "serial_refresh ?ctx a (ev_account ev) = Some (Some b)" by (auto simp: serialBlockedActiveDecision_def)
        with fields show ?thesis by (auto dest: refresh_fields)
      next
        case (Cons r rs)
        with blocked reason have "serial_move ?ctx a r reason = Some (sel, Some b)" by (simp add: serialBlockedActiveDecision_def)
        then have b: "as_account_id_hash b = ra_accountIdHash r" "as_generation b = as_generation a + 1" "as_transition_reason b = Some reason"
          by (auto simp: serial_move_def dest: activeSelection_fields)
        obtain i p where "i \<in> set cohort" "ri_accountIdHash i = as_account_id_hash a" "policies (as_account_id_hash a) = Some p" "ev = evaluate i p"
          by (rule cohort_entry [OF run Some])
        with b reason None eligible [OF Cons] Some show ?thesis by fastforce
      qed
    qed
  qed
qed

lemma cohort_available:
  assumes "evaluate_cohort evaluate policies cohort a table = Some (acc, table')"
  shows "ax_available acc = ax_available a @
    List.map_filter (\<lambda>i. Option.bind (policies (ri_accountIdHash i)) (\<lambda>p. ev_routedAccount (evaluate i p))) cohort"
  using assms
proof (induction cohort arbitrary: a table)
  case (Cons i rest)
  obtain p where p: "policies (ri_accountIdHash i) = Some p"
    and rest: "evaluate_cohort evaluate policies rest (foldCodexRoutingEvaluation a (evaluate i p)) (table(ri_accountIdHash i \<mapsto> evaluate i p)) = Some (acc, table')"
    by (rule cohort_Cons [OF Cons.prems(1)])
  from Cons.IH [OF rest] p show ?case by (simp add: foldCodexRoutingEvaluation_def map_filter_simps split: option.split)
qed (simp add: map_filter_simps)

lemma cohort_once:
  assumes "evaluate_cohort evaluate policies cohort no_accumulation Map.empty = Some (acc, table)" "distinct (map ri_accountIdHash cohort)"
    "i \<in> set cohort"
  obtains p where "policies (ri_accountIdHash i) = Some p" "table (ri_accountIdHash i) = Some (evaluate i p)"
proof -
  obtain ev where ev: "table (ri_accountIdHash i) = Some ev" using cohort_dom [OF assms(1), of "ri_accountIdHash i"] assms(3) by auto
  obtain j p where "j \<in> set cohort" "ri_accountIdHash j = ri_accountIdHash i" "policies (ri_accountIdHash i) = Some p" "ev = evaluate j p"
    by (rule cohort_entry [OF assms(1) ev])
  moreover from this assms(2,3) have "j = i" by (simp add: distinct_map inj_on_def)
  ultimately show ?thesis using that ev by simp
qed

lemma eligible_available:
  assumes run: "evaluate_cohort evaluate policies cohort no_accumulation Map.empty = Some (acc, table)" and once: "distinct (map ri_accountIdHash cohort)"
  shows "sc_eligibleInPoolOrder (serial_context active cohort \<lparr>re_accumulated = acc, re_byAccountId = table, re_identityByAccountId = im\<rparr> pv now pj cj) =
    ax_available acc"
proof -
  have "Option.bind (table (ri_accountIdHash i)) ev_routedAccount = Option.bind (policies (ri_accountIdHash i)) (\<lambda>p. ev_routedAccount (evaluate i p))"
    if "i \<in> set cohort" for i
    by (rule cohort_once [OF run once that]) simp
  then show ?thesis using cohort_available [OF run]
    by (simp add: serial_context_def Let_def no_accumulation_def List.map_filter_def cong: filter_cong map_cong)
qed

lemma eligible_decision:
  assumes run: "evaluate_cohort evaluate policies cohort no_accumulation Map.empty = Some (acc, table)" and sub: "set cohort \<subseteq> set ids"
    and once: "distinct (map ri_accountIdHash cohort)"
    and dec: "serialSelectionDecision active cohort \<lparr>re_accumulated = acc, re_byAccountId = table, re_identityByAccountId = identity_map ids\<rparr> pv now pj cj =
      Some (RouteEligible accounts skipped blocked, nextActive)"
  shows "\<exists>i \<in> set cohort. \<exists>p r c. policies (ri_accountIdHash i) = Some p \<and> ev_routedAccount (evaluate i p) = Some r \<and>
    accounts = [admitted_account r c] \<and> leaves_fence active nextActive pv now r c"
proof -
  let ?ctx = "serial_context active cohort \<lparr>re_accumulated = acc, re_byAccountId = table, re_identityByAccountId = identity_map ids\<rparr> pv now pj cj"
  from decision_eligible [OF dec] eligible_available [OF run once, of active "identity_map ids" pv now pj cj]
  obtain r c where rc: "r \<in> set (sc_eligibleInPoolOrder ?ctx) \<or> (\<exists>ev. sc_activeEvaluation ?ctx = Some ev \<and> ev_routedAccount ev = Some r)"
    "accounts = [admitted_account r c]" "leaves_fence active nextActive pv now r c" by auto
  have "\<exists>h ev. table h = Some ev \<and> ev_routedAccount ev = Some r"
    using rc(1)
  proof
    assume "r \<in> set (sc_eligibleInPoolOrder ?ctx)"
    from eligible_entry [OF this] show ?thesis by blast
  next
    assume "\<exists>ev. sc_activeEvaluation ?ctx = Some ev \<and> ev_routedAccount ev = Some r"
    then show ?thesis using active_evaluation [OF run sub, of _ pv now pj cj] by (cases active) (auto simp: serial_context_def Let_def)
  qed
  then obtain h ev where ev: "table h = Some ev" "ev_routedAccount ev = Some r" by blast
  obtain i p where "i \<in> set cohort" "ri_accountIdHash i = h" "policies h = Some p" "ev = evaluate i p" by (rule cohort_entry [OF run ev(1)])
  with ev rc show ?thesis by blast
qed

end

interpretation codex: account_evaluator "\<lambda>i p. evaluateCodexRoutingAccount st i model obs now p"
  for st :: "'a routing_state_scheme" and model obs now
proof
  fix i p a
  note shape = evaluation_shape [where st = st and i = i and model = model and obs = obs and now = now and p = p]
  from conjunct2 [OF shape] obtain required circuit where
    account: "ev_account (evaluateCodexRoutingAccount st i model obs now p) =
      (routed_base st i model (obs (ri_accountIdHash i)) now)\<lparr>ra_probeRequired := required, ra_probeCircuit := circuit\<rparr>" by blast
  show "ra_accountIdHash (ev_account (evaluateCodexRoutingAccount st i model obs now p)) = ri_accountIdHash i"
    and "ra_routingGeneration (ev_account (evaluateCodexRoutingAccount st i model obs now p)) \<noteq> None"
    by (simp_all add: account routed_base_def identity_account_def)
  show "ev_routedAccount (evaluateCodexRoutingAccount st i model obs now p) = Some a \<Longrightarrow>
      a = ev_account (evaluateCodexRoutingAccount st i model obs now p) \<and>
      ev_activeTransitionReason (evaluateCodexRoutingAccount st i model obs now p) = None"
    using conjunct1 [OF shape] by (simp split: if_split_asm)
qed

end
