(* ===== verification/Codex_Guarantees.thy ===== *)
theory Codex_Guarantees
  imports Codex_Cohort
begin

text \<open>
  What the selection of subscription accounts guarantees: normalization keeps one slot per account and is
  settled after one write, a class circuit is cleared on its own, an exhausted sample closes its account,
  the active account moves only for a recorded cause, an admitted account is open and passes the dispatch
  fence, and the paid fallback opens only on evidence about every account of the cohort.
\<close>

section \<open>Slots and classes\<close>

text \<open>
  Normalization is settled after one write: normalizing the rows that normalization produced leaves
  every slot as it is and reports no change, so that later admissions under the same pool only check the
  routing row and never write it.
\<close>

theorem normalization_settles:
  fixes raw :: "routing_state option" and ids :: "routing_identity list"
  shows "let written = routing_state.truncate (normalizeRoutingState raw ids now discard);
             again = normalizeRoutingState (Some written) ids now' discard'
         in rt_slots again = rt_slots written \<and> \<not> routingStateChangedByNormalization (Some written) again"
proof -
  let ?first = "normalizeRoutingState raw ids now discard"
  let ?slots = "rt_slots ?first"
  have len: "length ?slots = length ids" using normalized_slots_settled [of raw ids now discard] by simp
  have again: "normalize_slots ?slots discard' 0 [] ids = (map (\<lambda>i. (Some i, ?slots ! i)) [0..<length ids], rev [0..<length ids])"
    using normalize_settled_slots [of ids 0 ?slots "[]" discard'] normalized_slots_settled [of raw ids now discard] by simp
  have "map (\<lambda>i. ?slots ! i) [0..<length ids] = ?slots" by (simp add: len [symmetric] map_nth)
  then show ?thesis
    by (auto simp: Let_def normalizeRoutingState_def [of "Some _"] routing_state.defs again routingStateChangedByNormalization_def len
      comp_def list_ex_iff)
qed

text \<open>
  A replacement account inherits nothing: every slot of a normalized pool carries the identity and the
  credential of the account at its position, and it is neutral unless it was made from a prior slot of the
  same account, or from one that predates account identities and has the same credential. No prior slot
  serves two accounts.
\<close>

theorem replacement_inherits_nothing:
  "\<exists>chosen. length chosen = length ids \<and> distinct (List.map_filter (\<lambda>j. j) chosen) \<and>
     (\<forall>i < length ids.
        rs_account_id_hash (rt_slots (normalizeRoutingState (Some st) ids now discard) ! i) = Some (ri_accountIdHash (ids ! i)) \<and>
        rs_credential_version (rt_slots (normalizeRoutingState (Some st) ids now discard) ! i) = ri_credentialVersion (ids ! i) \<and>
        origin_of (rt_slots st) discard (ids ! i) (rt_slots (normalizeRoutingState (Some st) ids now discard) ! i) (chosen ! i))"
proof -
  obtain slots used where norm: "normalize_slots (rt_slots st) discard 0 [] ids = (slots, used)"
    and slots: "rt_slots (normalizeRoutingState (Some st) ids now discard) = map snd slots"
    by (rule normalizeRoutingState_slots [of "Some st" discard ids now]) simp
  from normalize_origin [OF norm] obtain chosen where chosen: "length chosen = length ids" "distinct (List.map_filter (\<lambda>j. j) chosen)"
    "\<forall>i < length ids. origin_of (rt_slots st) discard (ids ! i) (snd (slots ! i)) (chosen ! i)" by auto
  have settled: "length slots = length ids" "i < length ids \<Longrightarrow> slot_settled (ids ! i) (snd (slots ! i))" for i
    using normalize_settled [OF norm] by auto
  show ?thesis
  proof (intro exI [of _ chosen] conjI allI impI)
    fix i assume i: "i < length ids"
    with settled(2) [OF i] settled(1) chosen(3) i show "rs_account_id_hash (rt_slots (normalizeRoutingState (Some st) ids now discard) ! i) = Some (ri_accountIdHash (ids ! i))"
      "rs_credential_version (rt_slots (normalizeRoutingState (Some st) ids now discard) ! i) = ri_credentialVersion (ids ! i)"
      "origin_of (rt_slots st) discard (ids ! i) (rt_slots (normalizeRoutingState (Some st) ids now discard) ! i) (chosen ! i)"
      by (simp_all add: slots slot_settled_def slot_survives_def same_account_def)
  qed (use chosen in simp_all)
qed

text \<open>
  Clearing the circuit of one metered class does not open another: a class that has a block, its own or
  one copied from an unclassified slot, stays blocked at least as long, and the cleared class itself is left
  only with a fence that was observed for requests without a model.
\<close>

theorem class_recovery_is_separate:
  assumes classes: "c \<noteq> ClassUnknown" "d \<noteq> ClassUnknown" "d \<noteq> c"
    and blocked: "map_of (quotaBlocksIncludingLegacy s) d = Some b"
  shows "(\<exists>b'. quotaBlockForClass (withoutQuotaClass (withLegacyQuotaClassMap s) c) d = Some b' \<and> cb_blocked_until_ms b \<le> cb_blocked_until_ms b') \<and>
    quotaBlockForClass (withoutQuotaClass (withLegacyQuotaClassMap s) c) c =
      (case map_of (quotaBlocksIncludingLegacy s) ClassUnknown of
         Some u \<Rightarrow> if cb_legacy_fallback u then None else Some u | None \<Rightarrow> None)"
proof
  show "\<exists>b'. quotaBlockForClass (withoutQuotaClass (withLegacyQuotaClassMap s) c) d = Some b' \<and> cb_blocked_until_ms b \<le> cb_blocked_until_ms b'"
    unfolding quotaBlockForClass_def by (rule latest_exists) (use classes blocked in \<open>simp add: withoutQuotaClass_blocks map_filter_simps\<close>)
  show "quotaBlockForClass (withoutQuotaClass (withLegacyQuotaClassMap s) c) c =
      (case map_of (quotaBlocksIncludingLegacy s) ClassUnknown of Some u \<Rightarrow> if cb_legacy_fallback u then None else Some u | None \<Rightarrow> None)"
    using classes unfolding quotaBlockForClass_def
    by (auto simp: withoutQuotaClass_blocks withoutQuotaClass_no_legacy map_filter_simps drops_unknown_def later_block_def split: option.splits)
qed

section \<open>Selections\<close>

text \<open>The normalized routing rows that a selection evaluates, and the observation it has of an account.\<close>

definition snapshot_routing :: "serial_snapshot \<Rightarrow> int \<Rightarrow> normalized_routing" where
  "snapshot_routing snapshot now =
     normalizeRoutingState (parseCodexAccountRoutingState (ss_routing snapshot)) (ss_poolIdentities snapshot) now True"

definition snapshot_observation :: "serial_snapshot \<Rightarrow> routing_identity \<Rightarrow> capacity_observation option" where
  "snapshot_observation snapshot i = observation_map (ss_capacity snapshot) (ri_accountIdHash i)"

definition active_row :: "serial_snapshot \<Rightarrow> active_selection option" where
  "active_row snapshot = parseCodexActiveAccountSelection (ss_active snapshot)"

lemma parse_null: "parseCodexActiveAccountSelection JNull = None" "parseCodexAccountRoutingState JNull = None"
  by (simp_all add: parseCodexActiveAccountSelection_def parseCodexAccountRoutingState_def)

lemma stored_row_Some: "stored_row parse v = Some x \<Longrightarrow> parse JNull = None \<Longrightarrow> x = parse v \<and> (x = None \<longrightarrow> v = JNull)"
  by (auto simp: stored_row_def split: if_splits)

lemma select_run:
  assumes "selectCodex snapshot now model = Some plan"
  obtains pv acc table where
    "rv_pool (ss_revisions snapshot) = Some pv" "isVersionstamp pv" "active_row snapshot = None \<Longrightarrow> ss_active snapshot = JNull"
    "evaluate_cohort (\<lambda>i p. evaluateCodexRoutingAccount (snapshot_routing snapshot now) i model (observation_map (ss_capacity snapshot)) now p)
       (ss_accountPolicies snapshot) (snapshot_cohort snapshot) no_accumulation Map.empty = Some (acc, table)"
    "serialSelectionDecision (active_row snapshot) (snapshot_cohort snapshot)
       \<lparr>re_accumulated = acc, re_byAccountId = table, re_identityByAccountId = identity_map (ss_poolIdentities snapshot)\<rparr> pv now None None =
       Some (sp_selection plan, sp_active plan)"
proof -
  from assms obtain active pv durable acc table dec where parts:
    "stored_row parseCodexActiveAccountSelection (ss_active snapshot) = Some active"
    "rv_pool (ss_revisions snapshot) = Some pv" "isVersionstamp pv" "stored_row parseCodexAccountRoutingState (ss_routing snapshot) = Some durable"
    "evaluate_cohort (\<lambda>i p. evaluateCodexRoutingAccount (normalizeRoutingState durable (ss_poolIdentities snapshot) now True) i model
       (observation_map (ss_capacity snapshot)) now p) (ss_accountPolicies snapshot) (snapshot_cohort snapshot) no_accumulation Map.empty = Some (acc, table)"
    "serialSelectionDecision active (snapshot_cohort snapshot)
       \<lparr>re_accumulated = acc, re_byAccountId = table, re_identityByAccountId = identity_map (ss_poolIdentities snapshot)\<rparr> pv now None None = Some dec"
    "plan = planCodexSerialCommit (ss_revisions snapshot) durable (normalizeRoutingState durable (ss_poolIdentities snapshot) now True) dec"
    by (auto simp: selectCodex_def bind_eq_Some_conv Let_def split: if_splits prod.splits)
  note active = stored_row_Some [OF parts(1) parse_null(1)] and durable = stored_row_Some [OF parts(4) parse_null(2)]
  show ?thesis
    by (rule that [OF parts(2,3) _ parts(5) [unfolded conjunct1 [OF durable], folded snapshot_routing_def]])
      (use parts(6,7) active in \<open>auto simp: active_row_def planCodexSerialCommit_def\<close>)
qed

lemma cohort_in_pool: "set (snapshot_cohort snapshot) \<subseteq> set (ss_poolIdentities snapshot)"
  by (auto simp: snapshot_cohort_def)

lemma cohort_distinct:
  "distinct (map ri_accountIdHash (ss_poolIdentities snapshot)) \<Longrightarrow> distinct (map ri_accountIdHash (snapshot_cohort snapshot))"
  by (simp add: snapshot_cohort_def distinct_map_filter)

lemma routed_facts:
  assumes "ev_routedAccount (evaluateCodexRoutingAccount st i model obs now p) = Some r"
  shows "ra_accountIdHash r = ri_accountIdHash i \<and> ra_credentialVersion r = ri_credentialVersion i \<and> ra_slot r = ri_slot i \<and>
    ra_routingGeneration r = Some (rs_generation (evaluated_slot st i model))"
proof -
  from conjunct2 [OF evaluation_shape [where st = st and i = i and model = model and obs = obs and now = now and p = p]]
  obtain required circuit where "ev_account (evaluateCodexRoutingAccount st i model obs now p) =
      (routed_base st i model (obs (ri_accountIdHash i)) now)\<lparr>ra_probeRequired := required, ra_probeCircuit := circuit\<rparr>" by blast
  moreover have "r = ev_account (evaluateCodexRoutingAccount st i model obs now p)" using codex.routed_account [OF assms] by blast
  ultimately show ?thesis by (simp add: routed_base_def identity_account_def)
qed

lemma evaluated_slot_cases:
  "evaluated_slot st i model \<in> set (rt_slots st) \<or> evaluated_slot st i model = neutralSlot (ri_credentialVersion i) (Some (ri_accountIdHash i))"
  by (auto simp: evaluated_slot_def account_slot_def slotFor_def identity_account_def)

lemma evaluation_cause:
  fixes st :: "'a routing_state_scheme" and i model obs now p
  defines "ev \<equiv> evaluateCodexRoutingAccount st i model obs now p" and "ob \<equiv> obs (ri_accountIdHash i)"
  assumes "ev_activeTransitionReason ev = Some reason"
  shows "ev_routedAccount ev = None \<and>
    (reason = CredentialInvalid \<and> credential_shut st i model \<or> reason = ModelUnavailable \<and> model_shut model p \<or>
     reason = QuotaExhausted \<and> quota_shut st i model ob now p)"
  using conjunct1 [OF evaluation_shape [where st = st and i = i and model = model and obs = obs and now = now and p = p]] assms
  by (simp split: if_split_asm)

text \<open>
  C29. The active account moves only for a cause. When a selection writes the active row, either the row
  keeps its account, its generation and its reason, or it moves to another account, the generation grows by
  one and the recorded reason is true: the account left the cohort, or its own evaluation found invalid
  credentials, a model it cannot serve, or an exhausted quota. A probe lease never moves it.
\<close>

theorem selection_moves_only_for_cause:
  assumes select: "selectCodex snapshot now model = Some plan" and active: "active_row snapshot = Some a" and written: "sp_active plan = Some b"
  shows "as_account_id_hash b = as_account_id_hash a \<and> as_generation b = as_generation a \<and> as_transition_reason b = as_transition_reason a \<or>
    as_account_id_hash b \<noteq> as_account_id_hash a \<and> as_generation b = as_generation a + 1 \<and>
      (as_transition_reason b = Some AccountRemovedOrReplaced \<and> as_account_id_hash a \<notin> ri_accountIdHash ` set (snapshot_cohort snapshot) \<or>
       (\<exists>i \<in> set (snapshot_cohort snapshot). \<exists>p. ri_accountIdHash i = as_account_id_hash a \<and>
          ss_accountPolicies snapshot (as_account_id_hash a) = Some p \<and>
          (as_transition_reason b = Some CredentialInvalid \<and> credential_shut (snapshot_routing snapshot now) i model \<or>
           as_transition_reason b = Some ModelUnavailable \<and> model_shut model p \<or>
           as_transition_reason b = Some QuotaExhausted \<and>
             quota_shut (snapshot_routing snapshot now) i model (snapshot_observation snapshot i) now p)))"
proof -
  obtain pv acc table where run: "evaluate_cohort (\<lambda>i p. evaluateCodexRoutingAccount (snapshot_routing snapshot now) i model (observation_map (ss_capacity snapshot)) now p)
       (ss_accountPolicies snapshot) (snapshot_cohort snapshot) no_accumulation Map.empty = Some (acc, table)"
    and dec: "serialSelectionDecision (active_row snapshot) (snapshot_cohort snapshot)
       \<lparr>re_accumulated = acc, re_byAccountId = table, re_identityByAccountId = identity_map (ss_poolIdentities snapshot)\<rparr> pv now None None =
       Some (sp_selection plan, sp_active plan)" by (rule select_run [OF select])
  from codex.decision_moves [OF run cohort_in_pool dec [unfolded active written]] show ?thesis
  proof (elim disjE conjE bexE exE, goal_cases)
    case (3 i p reason)
    from evaluation_cause [OF 3(7)] 3 show ?thesis unfolding snapshot_observation_def by blast
  qed simp_all
qed


section \<open>The dispatch fence\<close>

lemma timeout_generation: "rs_generation s \<le> rs_generation (withoutLegacyTimeoutCircuit s) \<and> rs_generation (withoutLegacyTimeoutCircuit s) \<le> rs_generation s + 1"
  by (simp add: withoutLegacyTimeoutCircuit_def)

lemma normalized_generation:
  "rs_generation s \<le> rs_generation (normalized_slot d s i) \<and> rs_generation (normalized_slot d s i) \<le> rs_generation s + 3"
proof -
  define prior where "prior = (if d then withoutLegacyTimeoutCircuit s else s)"
  have "rs_generation s \<le> rs_generation prior" "rs_generation prior \<le> rs_generation s + 1"
    using timeout_generation [of s] by (simp_all add: prior_def)
  moreover have "rs_generation (attachLegacyAccountIdentity prior i) = rs_generation prior" by (simp add: attachLegacyAccountIdentity_def)
  moreover have "rs_generation (rotateCredentialForSameAccount prior i) = rs_generation prior + 1" by (simp add: rotateCredentialForSameAccount_def Let_def)
  ultimately show ?thesis
    using timeout_generation [of prior] timeout_generation [of "attachLegacyAccountIdentity prior i"] timeout_generation [of "rotateCredentialForSameAccount prior i"]
    unfolding normalized_slot_def Let_def prior_def [symmetric] by (simp split: if_split)
qed

lemma those_member: "those xs = Some ys \<Longrightarrow> y \<in> set ys \<Longrightarrow> Some y \<in> set xs"
proof (induction xs arbitrary: ys)
  case (Cons x xs)
  then obtain v vs where "x = Some v" "those xs = Some vs" "ys = v # vs" by (auto split: option.splits)
  with Cons show ?case by auto
qed simp

lemma parsed_generation:
  assumes "parseCodexAccountRoutingState v = Some st" "s \<in> set (rt_slots st)"
  shows "0 \<le> rs_generation s"
proof -
  have slot: "0 \<le> rs_generation s" if "parseSlot w repair = Some s" for w repair
    using that by (auto simp: parseSlot_def Let_def parseStoredGeneration_def nonNegativeSafeInteger_def bind_eq_Some_conv split: if_splits option.splits)
  from assms(1) obtain items repair where "those (map (\<lambda>slot. parseSlot slot repair) items) = Some (rt_slots st)"
    by (auto simp: parseCodexAccountRoutingState_def Let_def bind_eq_Some_conv split: if_splits)
  from those_member [OF this assms(2)] obtain w where "parseSlot w repair = Some s" by auto
  then show ?thesis by (rule slot)
qed

lemma snapshot_generation:
  assumes rows: "\<And>st s. parseCodexAccountRoutingState (ss_routing snapshot) = Some st \<Longrightarrow> s \<in> set (rt_slots st) \<Longrightarrow> rs_generation s + 3 \<le> max_safe_integer"
    and s: "s \<in> set (rt_slots (snapshot_routing snapshot now))"
  shows "0 \<le> rs_generation s \<and> is_safe_integer (rs_generation s)"
proof -
  let ?raw = "parseCodexAccountRoutingState (ss_routing snapshot)" and ?ids = "ss_poolIdentities snapshot"
  let ?prior = "case ?raw of None \<Rightarrow> [] | Some st \<Rightarrow> rt_slots st"
  obtain slots used where norm: "normalize_slots ?prior True 0 [] ?ids = (slots, used)"
    and slots: "rt_slots (snapshot_routing snapshot now) = map snd slots"
    unfolding snapshot_routing_def by (rule normalizeRoutingState_slots)
  from normalize_origin [OF norm] obtain chosen where
    chosen: "\<And>i. i < length ?ids \<Longrightarrow> origin_of ?prior True (?ids ! i) (snd (slots ! i)) (chosen ! i)" by auto
  from s slots normalize_settled [OF norm] obtain i where i: "i < length ?ids" "s = snd (slots ! i)" by (auto simp: in_set_conv_nth)
  have prior: "0 \<le> rs_generation q \<and> rs_generation q + 3 \<le> max_safe_integer" if "q \<in> set ?prior" for q
    using that rows parsed_generation by (cases ?raw) auto
  show ?thesis
  proof (cases "chosen ! i")
    case None
    with chosen [OF i(1)] i(2) show ?thesis by (simp add: origin_of_def neutralSlot_def is_safe_integer_def max_safe_integer_def)
  next
    case (Some j)
    with chosen [OF i(1)] i(2) have "j < length ?prior" "s = normalized_slot True (?prior ! j) (?ids ! i)" by (auto simp: origin_of_def)
    with prior [OF nth_mem] normalized_generation [of "?prior ! j" True "?ids ! i"]
    have "0 \<le> rs_generation s" "rs_generation s \<le> max_safe_integer" by fastforce+
    then show ?thesis by (simp add: is_safe_integer_def max_safe_integer_def)
  qed
qed

text \<open>
  The account a selection admits, and the active row as the plan leaves it, written or kept. The account
  hashes and credential versions of the pool are digests, and no generation is about to leave the safe
  integers.
\<close>

lemma eligible_row:
  assumes select: "selectCodex snapshot now model = Some plan" and eligible: "sp_selection plan = RouteEligible accounts skipped blocked"
    and pool: "distinct (map ri_accountIdHash (ss_poolIdentities snapshot))"
    and digests: "\<forall>i \<in> set (ss_poolIdentities snapshot). isOpaqueHash (ri_accountIdHash i) \<and> isOpaqueHash (ri_credentialVersion i) \<and> is_safe_integer (int (ri_slot i))"
    and clock: "is_safe_integer now" "0 \<le> now"
    and generations: "\<forall>st s. parseCodexAccountRoutingState (ss_routing snapshot) = Some st \<longrightarrow> s \<in> set (rt_slots st) \<longrightarrow> rs_generation s + 3 \<le> max_safe_integer"
  obtains i p r c pv where "i \<in> set (snapshot_cohort snapshot)" "rv_pool (ss_revisions snapshot) = Some pv"
    "ev_routedAccount (evaluateCodexRoutingAccount (snapshot_routing snapshot now) i model (observation_map (ss_capacity snapshot)) now p) = Some r"
    "accounts = [admitted_account r c]" "\<not> activeSelectionNeedsRefresh c r pv"
    "parseCodexActiveAccountSelection (case sp_active plan of Some b \<Rightarrow> active_js b | None \<Rightarrow> ss_active snapshot) = Some c"
proof -
  let ?ev = "\<lambda>i p. evaluateCodexRoutingAccount (snapshot_routing snapshot now) i model (observation_map (ss_capacity snapshot)) now p"
  obtain pv acc table where pv: "rv_pool (ss_revisions snapshot) = Some pv"
    and run: "evaluate_cohort ?ev (ss_accountPolicies snapshot) (snapshot_cohort snapshot) no_accumulation Map.empty = Some (acc, table)"
    and dec: "serialSelectionDecision (active_row snapshot) (snapshot_cohort snapshot)
       \<lparr>re_accumulated = acc, re_byAccountId = table, re_identityByAccountId = identity_map (ss_poolIdentities snapshot)\<rparr> pv now None None =
       Some (sp_selection plan, sp_active plan)" by (rule select_run [OF select])
  from codex.eligible_decision [OF run cohort_in_pool cohort_distinct [OF pool] dec [unfolded eligible]]
  obtain i p r c where i: "i \<in> set (snapshot_cohort snapshot)" "ev_routedAccount (?ev i p) = Some r" "accounts = [admitted_account r c]"
    and fence: "leaves_fence (active_row snapshot) (sp_active plan) pv now r c" by blast
  have same: "\<not> activeSelectionNeedsRefresh c r pv" using fence by (simp add: leaves_fence_def)
  have row: "parseCodexActiveAccountSelection (case sp_active plan of Some b \<Rightarrow> active_js b | None \<Rightarrow> ss_active snapshot) = Some c"
  proof (cases "sp_active plan")
    case None
    with fence show ?thesis by (simp add: leaves_fence_def active_row_def)
  next
    case (Some b)
    with fence have b: "b = c" "as_updated_at_ms c = now" "isVersionstamp pv" "is_safe_integer (as_generation c)" "1 \<le> as_generation c"
      by (auto simp: leaves_fence_def)
    from routed_facts [OF i(2)] have r: "ra_accountIdHash r = ri_accountIdHash i" "ra_credentialVersion r = ri_credentialVersion i" "ra_slot r = ri_slot i"
      "ra_routingGeneration r = Some (rs_generation (evaluated_slot (snapshot_routing snapshot now) i model))" by simp_all
    have "0 \<le> rs_generation (evaluated_slot (snapshot_routing snapshot now) i model) \<and> is_safe_integer (rs_generation (evaluated_slot (snapshot_routing snapshot now) i model))"
      using evaluated_slot_cases [of "snapshot_routing snapshot now" i model] snapshot_generation [of snapshot _ now] generations
      by (auto simp: neutralSlot_def is_safe_integer_def max_safe_integer_def)
    moreover have "i \<in> set (ss_poolIdentities snapshot)" using i(1) cohort_in_pool by blast
    ultimately have "active_storable c" using b r same digests clock by (auto simp: active_storable_def activeSelectionNeedsRefresh_def)
    with Some b show ?thesis by (simp add: parse_active_js)
  qed
  show ?thesis by (rule that [OF i(1) pv i(2,3) same row])
qed

section \<open>The paid fallback\<close>

definition reports_unavailable :: "route_selection \<Rightarrow> bool" where
  "reports_unavailable sel =
     (case sel of RouteQuotaBlocked r \<Rightarrow> qr_fullCohortUnavailable r | RouteCredentialsInvalid _ unavailable \<Rightarrow> unavailable | _ \<Rightarrow> False)"

lemma eligible_reports [simp]: "\<not> reports_unavailable (eligibleSerialSelection r c e)"
  by (simp add: reports_unavailable_def eligibleSerialSelection_def)

lemma blocked_reports: "reports_unavailable (blockedSerialSelection ctx c) \<Longrightarrow> sc_fullCohortUnavailable ctx"
  by (auto simp: reports_unavailable_def blockedSerialSelection_def classifyCodexRouteSelection_def split: if_splits option.splits)

lemma decision_reports:
  assumes "serialSelectionDecision active cohort e pv now pj cj = Some (sel, nextActive)" "reports_unavailable sel"
  shows "sc_fullCohortUnavailable (serial_context active cohort e pv now pj cj)"
  using assms
  by (auto simp: serialSelectionDecision_def Let_def serialBootstrapDecision_def serialReplacementDecision_def serialCurrentActiveDecision_def
    serialBlockedActiveDecision_def serial_move_def blocked_reports reports_unavailable_def [of RouteUnavailable] split: option.splits list.splits)

text \<open>
  C30. The report that opens the paid fallback is never premature: a selection says that its whole cohort is
  unavailable only if the cohort is not empty and every account in it, by its own slot and its own sample,
  has an exhausted quota or invalid credentials. A model that nobody serves and a running probe do not count.
\<close>

theorem paid_fallback_needs_shut_cohort:
  assumes select: "selectCodex snapshot now model = Some plan" and report: "reports_unavailable (sp_selection plan)"
    and pool: "distinct (map ri_accountIdHash (ss_poolIdentities snapshot))"
  shows "snapshot_cohort snapshot \<noteq> [] \<and>
    (\<forall>i \<in> set (snapshot_cohort snapshot). \<exists>p. ss_accountPolicies snapshot (ri_accountIdHash i) = Some p \<and>
       (credential_shut (snapshot_routing snapshot now) i model \<or>
        quota_shut (snapshot_routing snapshot now) i model (snapshot_observation snapshot i) now p))"
proof -
  let ?ev = "\<lambda>i p. evaluateCodexRoutingAccount (snapshot_routing snapshot now) i model (observation_map (ss_capacity snapshot)) now p"
  obtain pv acc table where run: "evaluate_cohort ?ev (ss_accountPolicies snapshot) (snapshot_cohort snapshot) no_accumulation Map.empty = Some (acc, table)"
    and dec: "serialSelectionDecision (active_row snapshot) (snapshot_cohort snapshot)
       \<lparr>re_accumulated = acc, re_byAccountId = table, re_identityByAccountId = identity_map (ss_poolIdentities snapshot)\<rparr> pv now None None =
       Some (sp_selection plan, sp_active plan)" by (rule select_run [OF select])
  from decision_reports [OF dec report] have all: "snapshot_cohort snapshot \<noteq> []"
    "\<And>i. i \<in> set (snapshot_cohort snapshot) \<Longrightarrow> Option.bind (table (ri_accountIdHash i)) ev_activeTransitionReason = Some QuotaExhausted \<or>
       Option.bind (table (ri_accountIdHash i)) ev_activeTransitionReason = Some CredentialInvalid"
    by (auto simp: serial_context_def Let_def account_reason_def list_all_iff)
  show ?thesis
  proof (intro conjI all(1) ballI)
    fix i assume i: "i \<in> set (snapshot_cohort snapshot)"
    obtain p where p: "ss_accountPolicies snapshot (ri_accountIdHash i) = Some p" "table (ri_accountIdHash i) = Some (?ev i p)"
      by (rule codex.cohort_once [OF run cohort_distinct [OF pool] i])
    with all(2) [OF i] obtain reason where "ev_activeTransitionReason (?ev i p) = Some reason" "reason = QuotaExhausted \<or> reason = CredentialInvalid"
      by auto
    with evaluation_cause [OF this(1)] p show "\<exists>p. ss_accountPolicies snapshot (ri_accountIdHash i) = Some p \<and>
       (credential_shut (snapshot_routing snapshot now) i model \<or>
        quota_shut (snapshot_routing snapshot now) i model (snapshot_observation snapshot i) now p)"
      unfolding snapshot_observation_def by auto
  qed
qed

section \<open>Exhausted samples\<close>

lemma put_absent_keeps: "map_of blocks c = Some b \<Longrightarrow> map_of (fold (put_absent_class x) cs blocks) c = Some b"
proof (induction cs arbitrary: blocks)
  case (Cons d cs)
  have "map_of (put_absent_class x d blocks) c = Some b"
    using Cons.prems by (auto simp: put_absent_class_def update_conv' split: option.splits)
  from Cons.IH [OF this] show ?case by simp
qed simp

lemma including_legacy_keeps: "map_of (rs_quota_blocks_by_class s) c = Some b \<Longrightarrow> map_of (quotaBlocksIncludingLegacy s) c = Some b"
  by (auto simp: quotaBlocksIncludingLegacy_def Let_def put_absent_keeps split: option.splits)

lemma class_block_lasts:
  assumes "map_of (rs_quota_blocks_by_class s) c = Some b"
  shows "\<exists>b'. quotaBlockForClass (withLegacyQuotaClassMap s) c = Some b' \<and> cb_blocked_until_ms b \<le> cb_blocked_until_ms b'"
  unfolding quotaBlockForClass_def by (rule latest_exists) (simp add: including_legacy_keeps [OF assms] map_filter_simps)

text \<open>
  A fresh sample that proves the requested class empty closes its account: once
  \<open>applyCapacityQuotaBlock\<close> has written the block, the account is not routed under that sample, and its class
  fence lasts at least until the reset that the provider announced.
\<close>

theorem exhausted_sample_closes_account:
  assumes applied: "applyCapacityQuotaBlock st (identity_account i model) ob now updatedAtMs = Some st'"
    and slot: "ri_slot i < length (rt_slots st)" and sample: "obs (ri_accountIdHash i) = Some ob"
  shows "\<exists>reset b. Option.bind (cs_primary (co_windows ob)) cw_reset_at_ms = Some reset \<and> now < reset \<and>
    class_fence st' i model = Some b \<and> reset \<le> cb_blocked_until_ms b \<and>
    ev_routedAccount (evaluateCodexRoutingAccount st' i model obs now p) = None"
proof -
  let ?acc = "identity_account i model" and ?c = "quotaClass model"
  let ?current = "slotFor st ?acc"
  have acc: "ra_slot ?acc = ri_slot i" "ra_requestedModel ?acc = model" "ra_accountIdHash ?acc = ri_accountIdHash i"
    "ra_credentialVersion ?acc = ri_credentialVersion i" by (simp_all add: identity_account_def)
  from applied obtain reset pending where fresh: "capacityObservationIsFresh ob now" "capacityHeadroomForObservation ob model = Some 0"
    and reset: "Option.bind (cs_primary (co_windows ob)) cw_reset_at_ms = Some reset" "now < reset"
    and matches: "slotMatchesCodexRoutingAccount ?current ?acc"
    and st': "st' = st\<lparr>rt_updated_at_ms := updatedAtMs, rt_slots := (rt_slots st)[ri_slot i :=
      capacity_blocked_slot ?current ?acc (capacity_block reset (co_snapshot_at_ms ob) pending) (co_snapshot_at_ms ob)]\<rparr>"
    unfolding applyCapacityQuotaBlock_def acc by (auto simp: Let_def not_le split: if_splits option.splits)
  let ?new = "capacity_blocked_slot ?current ?acc (capacity_block reset (co_snapshot_at_ms ob) pending) (co_snapshot_at_ms ob)"
  have stored: "slotFor st' ?acc = ?new" using slot by (simp add: slotFor_def acc st')
  have "slotMatchesCodexRoutingAccount ?new ?acc" using matches
    by (simp add: slotMatchesCodexRoutingAccount_def capacity_blocked_slot_def Let_def)
  then have new: "evaluated_slot st' i model = ?new" by (simp add: evaluated_slot_def account_slot_def stored)
  have "map_of (rs_quota_blocks_by_class ?new) ?c = Some (capacity_block reset (co_snapshot_at_ms ob) pending)"
    by (simp add: capacity_blocked_slot_def Let_def acc update_conv')
  from class_block_lasts [OF this] obtain b where b: "class_fence st' i model = Some b" "reset \<le> cb_blocked_until_ms b"
    by (auto simp: class_fence_def new capacity_block_def)
  have "\<not> cd_capacityOverride (capacity_evidence st' i model (Some ob) now)"
    by (simp add: capacity_evidence_def resolveCodexCapacityDecision_def freshCapacityObservation_def fresh Let_def)
  with b reset(2) have "quota_shut st' i model (obs (ri_accountIdHash i)) now p" unfolding sample quota_shut_def by fastforce
  then have "ev_routedAccount (evaluateCodexRoutingAccount st' i model obs now p) = None"
    using conjunct1 [OF evaluation_shape [where st = st' and i = i and model = model and obs = obs and now = now and p = p]] by (simp split: if_split_asm)
  with reset b show ?thesis by blast
qed

section \<open>Instances\<close>

text \<open>A pool of two accounts; the first one is active and its circuit runs until 100, and the second is free or fails too.\<close>

definition demo_digest :: "char \<Rightarrow> string" where
  "demo_digest c = replicate 64 c"

definition demo_first :: routing_identity where
  "demo_first = \<lparr>ri_slot = 0, ri_accountIdHash = demo_digest CHR ''a'', ri_credentialVersion = demo_digest CHR ''1''\<rparr>"

definition demo_second :: routing_identity where
  "demo_second = \<lparr>ri_slot = 1, ri_accountIdHash = demo_digest CHR ''b'', ri_credentialVersion = demo_digest CHR ''2''\<rparr>"

definition demo_slot_js :: "routing_identity \<Rightarrow> int \<Rightarrow> js" where
  "demo_slot_js i blockedUntil = JObj
     [(''account_id_hash'', JStr (ri_accountIdHash i)), (''credential_version'', JStr (ri_credentialVersion i)),
      (''quota_blocked_until_ms'', jint blockedUntil), (''quota_block_source'', JStr ''header_retry_after''), (''generation'', jint 4),
      (''probe_lease'', JNull)]"

definition demo_active :: active_selection where
  "demo_active = \<lparr>as_account_id_hash = ri_accountIdHash demo_first, as_credential_version = ri_credentialVersion demo_first,
     as_pool_versionstamp = ''p1'', as_slot = 0, as_routing_generation = 4, as_generation = 7, as_transition_reason = None, as_updated_at_ms = 10\<rparr>"

definition demo_snapshot :: "int \<Rightarrow> serial_snapshot" where
  "demo_snapshot secondUntil =
     \<lparr>ss_active = active_js demo_active,
      ss_routing = JObj [(''v'', jint 2), (''updated_at_ms'', jint 10), (''slots'', JArr [demo_slot_js demo_first 100, demo_slot_js demo_second secondUntil])],
      ss_capacity = JNull, ss_poolIdentities = [demo_first, demo_second],
      ss_selectedAccountHashes = [ri_accountIdHash demo_first, ri_accountIdHash demo_second],
      ss_accountPolicies = (\<lambda>h. Some \<lparr>ac_modelUnavailable = None, ac_overageUsageAllowed = False\<rparr>),
      ss_revisions = \<lparr>rv_active = Some ''a1'', rv_pool = Some ''p1'', rv_routing = Some ''r1'', rv_capacity = None\<rparr>\<rparr>"

definition demo_moved :: active_selection where
  "demo_moved = \<lparr>as_account_id_hash = ri_accountIdHash demo_second, as_credential_version = ri_credentialVersion demo_second,
     as_pool_versionstamp = ''p1'', as_slot = 1, as_routing_generation = 4, as_generation = 8, as_transition_reason = Some QuotaExhausted,
     as_updated_at_ms = 50\<rparr>"

lemma demo_move: "map_option sp_active (selectCodex (demo_snapshot 20) 50 (Some ''gpt-5'')) = Some (Some demo_moved)"
  by code_simp

lemma demo_rows: "active_row (demo_snapshot t) = Some demo_active"
  "distinct (map ri_accountIdHash (ss_poolIdentities (demo_snapshot t)))"
proof -
  have "active_storable demo_active" by code_simp
  then show "active_row (demo_snapshot t) = Some demo_active" by (simp add: active_row_def demo_snapshot_def parse_active_js)
  have "ri_accountIdHash demo_first \<noteq> ri_accountIdHash demo_second" by code_simp
  then show "distinct (map ri_accountIdHash (ss_poolIdentities (demo_snapshot t)))" by (simp add: demo_snapshot_def)
qed

lemma demo_plan:
  obtains plan account skipped blocked where "selectCodex (demo_snapshot 20) 50 (Some ''gpt-5'') = Some plan" "sp_active plan = Some demo_moved"
    "sp_selection plan = RouteEligible [account] skipped blocked" "ra_accountIdHash account = ri_accountIdHash demo_second"
proof -
  have "case selectCodex (demo_snapshot 20) 50 (Some ''gpt-5'') of None \<Rightarrow> False
    | Some plan \<Rightarrow> (case sp_selection plan of RouteEligible accounts _ _ \<Rightarrow> map ra_accountIdHash accounts = [ri_accountIdHash demo_second] | _ \<Rightarrow> False)"
    by code_simp
  with demo_move that show thesis by (auto split: option.splits route_selection.splits)
qed

theorem replacement_inherits_nothing_witness:
  "rs_account_id_hash (rt_slots (normalizeRoutingState (Some \<lparr>rt_updated_at_ms = 1, rt_legacy_identity_unresolved = False,
     rt_slots = [neutralSlot ''c1'' (Some ''x'')]\<rparr>) [demo_first] 5 True) ! 0) = Some (ri_accountIdHash demo_first)"
  using replacement_inherits_nothing [of "[demo_first]" "\<lparr>rt_updated_at_ms = 1, rt_legacy_identity_unresolved = False, rt_slots = [neutralSlot ''c1'' (Some ''x'')]\<rparr>" 5 True]
  by auto

theorem class_recovery_is_separate_witness:
  "\<exists>b. quotaBlockForClass (withoutQuotaClass (withLegacyQuotaClassMap
     ((neutralSlot ''c1'' None)\<lparr>rs_quota_blocked_until_ms := Some 9, rs_quota_block_source := Some BodyResetsAt\<rparr>)) ClassSpark) ClassStandard = Some b \<and>
     9 \<le> cb_blocked_until_ms b"
proof -
  let ?s = "(neutralSlot ''c1'' None)\<lparr>rs_quota_blocked_until_ms := Some 9, rs_quota_block_source := Some BodyResetsAt\<rparr>"
  have "map_of (quotaBlocksIncludingLegacy ?s) ClassStandard = Some (slot_block 9 BodyResetsAt ?s)" by code_simp
  from class_recovery_is_separate [OF _ _ _ this, of ClassSpark] show ?thesis by (auto simp: slot_block_def)
qed

theorem selection_moves_only_for_cause_witness:
  "\<exists>i p. quota_shut (snapshot_routing (demo_snapshot 20) 50) i (Some ''gpt-5'') (snapshot_observation (demo_snapshot 20) i) 50 p"
proof -
  obtain plan where plan: "selectCodex (demo_snapshot 20) 50 (Some ''gpt-5'') = Some plan" "sp_active plan = Some demo_moved" by (rule demo_plan)
  have "as_generation demo_moved \<noteq> as_generation demo_active" "as_transition_reason demo_moved = Some QuotaExhausted"
    by (simp_all add: demo_moved_def demo_active_def)
  with selection_moves_only_for_cause [OF plan(1) demo_rows(1) plan(2)] show ?thesis by auto
qed


theorem paid_fallback_needs_shut_cohort_witness:
  "list_all (\<lambda>i.
     credential_shut (snapshot_routing (demo_snapshot 200) 50) i (Some ''gpt-5'') \<or>
     quota_shut (snapshot_routing (demo_snapshot 200) 50) i (Some ''gpt-5'') (snapshot_observation (demo_snapshot 200) i) 50
       \<lparr>ac_modelUnavailable = None, ac_overageUsageAllowed = False\<rparr>) (snapshot_cohort (demo_snapshot 200))"
proof -
  have "map_option (reports_unavailable \<circ> sp_selection) (selectCodex (demo_snapshot 200) 50 (Some ''gpt-5'')) = Some True" by code_simp
  then obtain plan where plan: "selectCodex (demo_snapshot 200) 50 (Some ''gpt-5'') = Some plan" "reports_unavailable (sp_selection plan)" by auto
  have "ss_accountPolicies (demo_snapshot 200) h = Some \<lparr>ac_modelUnavailable = None, ac_overageUsageAllowed = False\<rparr>" for h
    by (simp add: demo_snapshot_def)
  with paid_fallback_needs_shut_cohort [OF plan demo_rows(2)] show ?thesis unfolding list_all_iff by auto
qed

definition demo_sample :: capacity_observation where
  "demo_sample = \<lparr>co_slot = 0, co_account_id_hash = ri_accountIdHash demo_first, co_state = CapacityAvailable, co_source_observed_at_ms = None,
     co_snapshot_at_ms = 40,
     co_windows = \<lparr>cs_primary = Some \<lparr>cw_limit_window_seconds = None, cw_used_percent = Some 100, cw_reset_at_ms = Some 500\<rparr>, cs_secondary = None\<rparr>,
     co_additional_rate_limits = []\<rparr>"

definition demo_routing :: routing_state where
  "demo_routing = \<lparr>rt_updated_at_ms = 1, rt_legacy_identity_unresolved = False,
     rt_slots = [neutralSlot (ri_credentialVersion demo_first) (Some (ri_accountIdHash demo_first))]\<rparr>"

theorem exhausted_sample_closes_account_witness:
  "\<exists>st'. applyCapacityQuotaBlock demo_routing (identity_account demo_first None) demo_sample 50 50 = Some st' \<and>
     ev_routedAccount (evaluateCodexRoutingAccount st' demo_first None (\<lambda>_. Some demo_sample) 50
       \<lparr>ac_modelUnavailable = None, ac_overageUsageAllowed = True\<rparr>) = None"
proof -
  have "applyCapacityQuotaBlock demo_routing (identity_account demo_first None) demo_sample 50 50 \<noteq> None" by code_simp
  then obtain st' where st': "applyCapacityQuotaBlock demo_routing (identity_account demo_first None) demo_sample 50 50 = Some st'" by blast
  have "ri_slot demo_first < length (rt_slots demo_routing)" by code_simp
  from exhausted_sample_closes_account [OF st' this, of "\<lambda>_. Some demo_sample"] st' show ?thesis by blast
qed

end
