(* ===== verification/Codex_Outcomes.thy ===== *)
theory Codex_Outcomes
  imports Codex_Rows Codex_Guarantees
begin

text \<open>
  What the outcomes of dispatched requests guarantee about the routing rows: a quota signal only extends the
  circuit of its own class and slot, one probe holds a slot at a time and only its owner completes it, and
  a banked reset is refused once its window has become ambiguous.
\<close>

section \<open>One slot is written\<close>

lemma withSlot_slot [simp]: "slotFor (withSlot st (ra_slot account) s u) account = s"
  by (simp add: slotFor_def withSlot_def Let_def)

lemma withSlot_at: "slot_at (withSlot st n s u) n = Some s"
  by (simp add: slot_at_def withSlot_def Let_def)


lemma quotaBlockTransition_Some:
  assumes "quotaBlockTransition st account parsed now recoveryProbe u = Some st'"
  obtains retryAtMs source fq where "cl_retryAtMs parsed = Some retryAtMs"
    "st' = withSlot st (ra_slot account) (buildQuotaBlockedSlot (slotFor st account) account parsed source retryAtMs now recoveryProbe fq) u"
  using assms by (auto simp: quotaBlockTransition_def quotaBlockedSlot_def Let_def split: option.splits if_splits)

lemma blocked_slot_classes:
  "map_of (rs_quota_blocks_by_class (buildQuotaBlockedSlot current account parsed source retryAtMs now recoveryProbe fq)) d =
     (if d = quotaClass (ra_requestedModel account) then Some (blocked_class_block current account parsed source retryAtMs now recoveryProbe)
      else map_of (quotaBlocksIncludingLegacy current) d)"
  by (simp add: buildQuotaBlockedSlot_def Let_def update_conv')

lemma blocked_deadline:
  assumes "\<not> bounded_recovery current account recoveryProbe"
  shows "cb_blocked_until_ms (blocked_class_block current account parsed source retryAtMs now recoveryProbe) =
    max (case prior_class_block current (quotaClass (ra_requestedModel account)) of None \<Rightarrow> 0 | Some b \<Rightarrow> cb_blocked_until_ms b) retryAtMs"
  using assms by (simp add: blocked_class_block_def Let_def)


section \<open>Probes\<close>

lemma claim_Some:
  assumes "buildExpiredProbeClaim st account now token u = Some (st', lease)"
  shows "st' = withSlot st (ra_slot account) ((slotFor st account)\<lparr>rs_account_id_hash := Some (ra_accountIdHash account), rs_probe_lease := Some lease\<rparr>) u \<and>
    slotMatchesCodexRoutingAccount (slotFor st account) account \<and>
    le_token lease = token \<and> le_generation lease = rs_generation (slotFor st account) \<and> le_circuit lease = routingProbeCircuit account \<and>
    le_quota_class lease = (if routingProbeCircuit account = QuotaCircuit then Some (quotaClass (ra_requestedModel account)) else None)"
  using assms by (auto simp: buildExpiredProbeClaim_def Let_def split: if_split_asm)

lemma slotFor_index: "ra_slot a = ra_slot b \<Longrightarrow> ra_slot b < length (rt_slots st) \<Longrightarrow> slotFor st a = slotFor st b"
  by (simp add: slotFor_def)

lemma claim_unexpired: "now < lease_expiry (slotFor st account) \<Longrightarrow> buildExpiredProbeClaim st account now token u = None"
  by (simp add: buildExpiredProbeClaim_def Let_def)

lemma foreign_token: "rs_probe_lease s = Some l \<Longrightarrow> ra_probeToken account \<noteq> Some (le_token l) \<Longrightarrow> \<not> probeLeaseMatchesCodexRoutingAccount s account"
  by (auto simp: probeLeaseMatchesCodexRoutingAccount_def split: option.splits)

text \<open>
  C33. One probe holds a slot at a time. After a claim nobody claims the slot again before the lease expires,
  the claimant can report success or release, and a request with another token can do neither.
\<close>

theorem one_probe_at_a_time:
  fixes account other :: routing_account
  assumes claim: "buildExpiredProbeClaim st account now token u = Some (st', lease)" and slot: "ra_slot other = ra_slot account"
  shows "(now' < le_expires_at_ms lease \<longrightarrow> buildExpiredProbeClaim st' other now' token' u' = None) \<and>
    markCodexSuccess st' (account\<lparr>ra_probeGeneration := Some (le_generation lease), ra_probeToken := Some token\<rparr>) u' \<noteq> None \<and>
    releaseCodexRoutingProbe st' (account\<lparr>ra_probeGeneration := Some (le_generation lease), ra_probeToken := Some token\<rparr>) u' \<noteq> None \<and>
    (ra_probeToken other \<noteq> Some token \<longrightarrow>
       markCodexSuccess st' other u' = None \<and> releaseCodexRoutingProbe st' other u' = None \<and> releaseNonBlockingQuotaProbe st' other u' = None)"
proof -
  let ?s = "(slotFor st account)\<lparr>rs_account_id_hash := Some (ra_accountIdHash account), rs_probe_lease := Some lease\<rparr>"
  let ?owner = "account\<lparr>ra_probeGeneration := Some (le_generation lease), ra_probeToken := Some token\<rparr>"
  note c = claim_Some [OF claim]
  have here: "slotFor st' a = ?s" if "ra_slot a = ra_slot account" for a :: routing_account
    using withSlot_slot [of st a ?s u] c that by simp
  have "lease_expiry ?s = le_expires_at_ms lease" by (simp add: lease_expiry_def)
  then have again: "now' < le_expires_at_ms lease \<Longrightarrow> buildExpiredProbeClaim st' other now' token' u' = None"
    using claim_unexpired [of now' st' other] here [OF slot] by simp
  have "slotMatchesCodexRoutingAccount ?s ?owner" "probeLeaseMatchesCodexRoutingAccount ?s ?owner" "ra_slot ?owner = ra_slot account"
    using c by (simp_all add: slotMatchesCodexRoutingAccount_def probeLeaseMatchesCodexRoutingAccount_def routingProbeCircuit_def)
  then have owner: "markCodexSuccess st' ?owner u' \<noteq> None" "releaseCodexRoutingProbe st' ?owner u' \<noteq> None"
    using here [of ?owner] by (simp_all add: markCodexSuccess_def releaseCodexRoutingProbe_def Let_def)
  have "\<not> probeLeaseMatchesCodexRoutingAccount (slotFor st' other) other" if "ra_probeToken other \<noteq> Some token"
    using foreign_token [of ?s lease other] that here [OF slot] c by simp
  then have stranger: "ra_probeToken other \<noteq> Some token \<Longrightarrow>
      markCodexSuccess st' other u' = None \<and> releaseCodexRoutingProbe st' other u' = None \<and> releaseNonBlockingQuotaProbe st' other u' = None"
    by (simp add: markCodexSuccess_def releaseCodexRoutingProbe_def releaseNonBlockingQuotaProbe_def nonBlockingQuotaProbeSlot_def Let_def)
  from again owner stranger show ?thesis by blast
qed

section \<open>Banked resets\<close>

lemma later_two: "cb_blocked_until_ms u \<le> cb_blocked_until_ms b \<Longrightarrow> fold later_block [b, u] None = Some b"
  by (simp add: later_block_def)

lemma prior_covers_unknown:
  assumes "map_of (quotaBlocksIncludingLegacy current) ClassUnknown = Some w" "c \<noteq> ClassUnknown"
  shows "\<exists>p. prior_class_block current c = Some p \<and> cb_blocked_until_ms w \<le> cb_blocked_until_ms p"
  unfolding prior_class_block_def quotaBlockForClass_def by (rule latest_exists) (use assms in \<open>simp add: map_filter_simps split: option.split\<close>)

lemma blocked_slot_fence:
  assumes "\<not> bounded_recovery current account recoveryProbe"
  shows "quotaBlockForClass (buildQuotaBlockedSlot current account parsed source retryAtMs now recoveryProbe fq) (quotaClass (ra_requestedModel account)) =
    Some (blocked_class_block current account parsed source retryAtMs now recoveryProbe)"
proof -
  let ?s = "buildQuotaBlockedSlot current account parsed source retryAtMs now recoveryProbe fq" and ?c = "quotaClass (ra_requestedModel account)"
  let ?b = "blocked_class_block current account parsed source retryAtMs now recoveryProbe"
  have "rs_quota_blocks_by_class ?s \<noteq> []" using blocked_slot_classes [of current account parsed source retryAtMs now recoveryProbe fq ?c] by fastforce
  then have legacy: "legacy_class_block ?s ?c = None" by (simp add: legacy_class_block_def split: option.split)
  have exact: "map_of (rs_quota_blocks_by_class ?s) ?c = Some ?b" by (simp add: blocked_slot_classes)
  show ?thesis
  proof (cases "if ?c = ClassUnknown then None else map_of (rs_quota_blocks_by_class ?s) ClassUnknown")
    case None
    then show ?thesis unfolding quotaBlockForClass_def exact legacy by (simp add: map_filter_simps later_block_def)
  next
    case (Some w)
    then have w: "?c \<noteq> ClassUnknown" "map_of (quotaBlocksIncludingLegacy current) ClassUnknown = Some w"
      by (auto simp: blocked_slot_classes split: if_split_asm)
    from prior_covers_unknown [OF w(2,1)] blocked_deadline [OF assms, of parsed source retryAtMs now]
    have "cb_blocked_until_ms w \<le> cb_blocked_until_ms ?b" by auto
    then show ?thesis unfolding quotaBlockForClass_def exact legacy Some by (simp add: map_filter_simps later_block_def)
  qed
qed

text \<open>
  A banked reset fails closed when its window becomes ambiguous. Once a class has a stable reset deadline,
  a later quota signal that has no absolute deadline or names another one leaves a row on which no reset of
  that class passes the fence, whatever deadline and generation the claim presents.
\<close>

theorem ambiguous_reset_fails_closed:
  fixes account :: routing_account
  assumes applied: "quotaBlockTransition st account parsed now recoveryProbe u = Some st'"
    and ordinary: "\<not> bounded_recovery (slotFor st account) account recoveryProbe"
    and prior: "prior_class_block (slotFor st account) (quotaClass (ra_requestedModel account)) = Some p"
    and stable: "cb_observed_reset_at_ms p = Some reset" "cb_observed_reset_at_is_stable p"
    and revised: "\<not> cl_resetDeadlineIsStable parsed \<or> cl_retryAtMs parsed \<noteq> Some reset"
    and row: "parseCodexAccountRoutingState row = Some st'"
  shows "\<not> isCodexQuotaBlockFenceCurrent row account quotaResetAtMs routingGeneration"
proof -
  obtain retryAtMs source fq where retry: "cl_retryAtMs parsed = Some retryAtMs" and
    st': "st' = withSlot st (ra_slot account) (buildQuotaBlockedSlot (slotFor st account) account parsed source retryAtMs now recoveryProbe fq) u"
    by (rule quotaBlockTransition_Some [OF applied])
  have "cb_banked_reset_generation_ambiguous (blocked_class_block (slotFor st account) account parsed source retryAtMs now recoveryProbe)"
    using prior stable revised retry by (auto simp: blocked_class_block_def resolveQuotaClassResetIdentity_def Let_def)
  then show ?thesis
    by (simp add: isCodexQuotaBlockFenceCurrent_def row st' withSlot_at blocked_slot_fence [OF ordinary])
qed

section \<open>Instances\<close>

definition demo_account :: routing_account where
  "demo_account = identity_account demo_first (Some ''gpt-5'')"

definition demo_signal :: "int \<Rightarrow> codex_429" where
  "demo_signal reset = resolveCodex429RetryDeadlines (Some reset) None True None None"

definition demo_blocked :: "int \<Rightarrow> routing_state" where
  "demo_blocked reset = (case quotaBlockTransition demo_routing demo_account (demo_signal reset) 50 False 50 of Some st \<Rightarrow> st | None \<Rightarrow> demo_routing)"



theorem one_probe_at_a_time_witness:
  "\<exists>st' lease. buildExpiredProbeClaim (demo_blocked 100) demo_account 150 ''t'' 150 = Some (st', lease) \<and>
     buildExpiredProbeClaim st' demo_account 151 ''u'' 151 = None"
proof -
  have "map_option (\<lambda>(st', lease). le_expires_at_ms lease) (buildExpiredProbeClaim (demo_blocked 100) demo_account 150 ''t'' 150) = Some 30150" by code_simp
  then obtain st' lease where claim: "buildExpiredProbeClaim (demo_blocked 100) demo_account 150 ''t'' 150 = Some (st', lease)"
    "le_expires_at_ms lease = 30150" by auto
  from one_probe_at_a_time [OF claim(1) refl, of 151 "''u''" 151] claim show ?thesis by auto
qed

definition demo_revised :: routing_state where
  "demo_revised = (case quotaBlockTransition (demo_blocked 100) demo_account (demo_signal 200) 60 False 60 of Some st \<Rightarrow> st | None \<Rightarrow> demo_routing)"

theorem ambiguous_reset_fails_closed_witness:
  "isCodexQuotaBlockFenceCurrent (routing_js (demo_blocked 100)) demo_account 100 1 \<and>
   \<not> isCodexQuotaBlockFenceCurrent (routing_js demo_revised) demo_account 200 2"
proof
  show "isCodexQuotaBlockFenceCurrent (routing_js (demo_blocked 100)) demo_account 100 1" by code_simp
  have "quotaBlockTransition (demo_blocked 100) demo_account (demo_signal 200) 60 False 60 \<noteq> None" by code_simp
  then have applied: "quotaBlockTransition (demo_blocked 100) demo_account (demo_signal 200) 60 False 60 = Some demo_revised" by (auto simp: demo_revised_def)
  have ordinary: "\<not> bounded_recovery (slotFor (demo_blocked 100) demo_account) demo_account False" by code_simp
  have "case prior_class_block (slotFor (demo_blocked 100) demo_account) (quotaClass (ra_requestedModel demo_account)) of None \<Rightarrow> False
    | Some p \<Rightarrow> cb_observed_reset_at_ms p = Some 100 \<and> cb_observed_reset_at_is_stable p" by code_simp
  then obtain p where prior: "prior_class_block (slotFor (demo_blocked 100) demo_account) (quotaClass (ra_requestedModel demo_account)) = Some p"
    "cb_observed_reset_at_ms p = Some 100" "cb_observed_reset_at_is_stable p" by (auto split: option.splits)
  have revised: "\<not> cl_resetDeadlineIsStable (demo_signal 200) \<or> cl_retryAtMs (demo_signal 200) \<noteq> Some 100" by code_simp
  have row: "parseCodexAccountRoutingState (routing_js demo_revised) = Some demo_revised" by code_simp
  show "\<not> isCodexQuotaBlockFenceCurrent (routing_js demo_revised) demo_account 200 2"
    by (rule ambiguous_reset_fails_closed [OF applied ordinary prior revised row])
qed

end
