(* ===== verification/Codex_Storage.thy ===== *)
theory Codex_Storage
  imports Native_Codex Codex_Outcomes
begin

text \<open>
  What survives storage: rows read after they were written, routed accounts, and of a routing row the part
  of each slot that the dispatch fence looks at. Normalization of a row that was normalized when it was
  written changes nothing of that part.
\<close>

section \<open>Rows after a write\<close>

definition row_at :: "sql_store \<Rightarrow> native_table \<Rightarrow> kv_key \<Rightarrow> int \<Rightarrow> native_error + native_read" where
  "row_at s t key now = (case live_row s t key now of None \<Rightarrow> Inr absent_read | Some r \<Rightarrow> row_read t r)"

lemma sql_read_row: "sql_read t key now s = nlift (row_at s t key now) s"
  by (simp add: sql_read_def row_at_def)

lemma row_at_write:
  assumes "sql_write t key v None ix s = Inr (x, u)" "t \<noteq> Kernel_default"
  shows "row_at u t key now = Inr \<lparr>nr_value = v, nr_revision = Some (revision_text (sq_sequence s + 1)), nr_expiresAtMs = None\<rparr>"
  using assms by (auto simp: sql_write_iff row_at_def live_row_def row_live_def row_read_def row_expiry_ok_def write_ok_def ensure_def map_of_put)

lemma row_at_other:
  assumes "sql_write t key v e ix s = Inr (x, u)" "t' \<noteq> t"
  shows "row_at u t' key' now = row_at s t' key' now"
  using assms by (simp add: sql_write_iff row_at_def live_row_def)

lemma row_at_object:
  assumes "row_at s t key now = Inr r" "t \<noteq> Kernel_default" "nr_value r \<noteq> JNull"
  shows "nativeObject (nr_value r)"
  using assms by (auto simp: row_at_def row_read_def absent_read_def ensure_def rbind_Inr_iff split: option.splits if_splits)

lemma js_get_with:
  assumes "nativeObject row"
  shows "js_get (js_with k v row) k' = (if k' = k then v else js_get row k') \<and> nativeObject (js_with k v row)"
  using assms by (cases row) (auto simp: js_with_def js_get_def nativeObject_def split: option.splits)

lemma object_record: "nativeObject v \<Longrightarrow> isRecord v"
  by (cases v) (simp_all add: nativeObject_def)

section \<open>Accounts\<close>

definition account_storable :: "routing_account \<Rightarrow> bool" where
  "account_storable a \<longleftrightarrow> is_safe_integer (int (ra_slot a)) \<and>
     pred_option is_safe_integer (ra_probeGeneration a) \<and> pred_option is_safe_integer (ra_routingGeneration a) \<and>
     pred_option is_safe_integer (ra_activeGeneration a)"

lemma optional_read_back [simp]:
  "optional_of_js js_int (opt_js jint x) = (if pred_option is_safe_integer x then Some x else None)"
  "optional_of_js js_text (opt_js JStr y) = Some y"
  "optional_of_js parseStoredPercent (opt_js number_js q) = Some q"
  by (simp_all add: optional_of_js_def opt_js_def number_js_def parseStoredPercent_def split: option.split)

lemma circuit_read_back [simp]: "optional_of_js circuit_of_js (opt_js (\<lambda>c. JStr (circuit_text c)) x) = Some x"
proof (cases x)
  case (Some c)
  then show ?thesis by (cases c) (simp_all add: optional_of_js_def opt_js_def circuit_of_js_def)
qed (simp add: optional_of_js_def opt_js_def)

lemma reason_read_back [simp]: "optional_of_js reason_of_js (opt_js (\<lambda>r. JStr (transition_reason_text r)) x) = Some x"
proof (cases x)
  case (Some r)
  then show ?thesis by (cases r) (simp_all add: optional_of_js_def opt_js_def reason_of_js_def parseActiveTransitionReason_def)
qed (simp add: optional_of_js_def opt_js_def)

lemma optional_absent [simp]: "optional_of_js dec JUndef = Some None"
  by (simp add: optional_of_js_def)

lemma optional_field [simp]:
  "js_get (JObj (optional k enc x @ rest)) k' = (case x of None \<Rightarrow> js_get (JObj rest) k' | Some y \<Rightarrow> if k = k' then enc y else js_get (JObj rest) k')"
  by (simp add: optional_def split: option.split)

lemma optional_last [simp]:
  "js_get (JObj (optional k enc x)) k' = (case x of None \<Rightarrow> JUndef | Some y \<Rightarrow> if k = k' then enc y else JUndef)"
  by (simp add: optional_def split: option.split)

lemma typed_Some [simp]: "typed (Some x) = Inr x"
  by (simp add: typed_def require_def)

lemma account_read_back:
  assumes "account_storable a"
  shows "account_of_js (account_js a) = Inr a"
proof -
  have int: "optional_of_js js_int (case x of None \<Rightarrow> JUndef | Some y \<Rightarrow> jint y) = Some x" if "pred_option is_safe_integer x" for x
    using that by (cases x) (simp_all add: optional_of_js_def)
  have stamp: "optional_of_js js_text (case x of None \<Rightarrow> JUndef | Some y \<Rightarrow> JStr y) = Some x" for x
    by (cases x) (simp_all add: optional_of_js_def)
  have slot: "nonNegativeSafeInteger (jint (int (ra_slot a))) = Some (int (ra_slot a))"
    using assms unfolding account_storable_def by (simp only: nonNegative_jint safe_nonneg_def) simp
  have flag: "optional_of_js js_bool (JBool b) = Some (Some b)" for b by (simp add: optional_of_js_def)
  have generations: "pred_option is_safe_integer (ra_probeGeneration a)" "pred_option is_safe_integer (ra_routingGeneration a)"
    "pred_option is_safe_integer (ra_activeGeneration a)" using assms by (simp_all add: account_storable_def)
  have gets: "js_get (account_js a) ''slot'' = jint (int (ra_slot a))"
    "js_get (account_js a) ''routingGeneration'' = (case ra_routingGeneration a of None \<Rightarrow> JUndef | Some y \<Rightarrow> jint y)"
    "js_get (account_js a) ''activeGeneration'' = (case ra_activeGeneration a of None \<Rightarrow> JUndef | Some y \<Rightarrow> jint y)"
    "js_get (account_js a) ''activePoolVersionstamp'' = (case ra_activePoolVersionstamp a of None \<Rightarrow> JUndef | Some y \<Rightarrow> JStr y)"
    by (simp_all add: account_js_def account_fields_def split: option.split)
  show ?thesis unfolding account_of_js_def gets slot int [OF generations(2)] int [OF generations(3)] stamp
    using generations(1) by (simp add: account_js_def account_fields_def flag)
qed

section \<open>Routing rows\<close>

definition slot_view :: "routing_slot \<Rightarrow> string option \<times> string \<times> string option \<times> int \<times> probe_lease option \<times> int option" where
  "slot_view s = (rs_account_id_hash s, rs_credential_version s, rs_invalid_credential_version s, rs_generation s,
     rs_probe_lease s, rs_upstream_timeout_blocked_until_ms s)"

definition lease_storable :: "probe_lease \<Rightarrow> bool" where
  "lease_storable l \<longleftrightarrow> safe_nonneg (le_expires_at_ms l) \<and> is_safe_integer (le_generation l)"

definition slot_storable :: "routing_slot \<Rightarrow> bool" where
  "slot_storable s \<longleftrightarrow> rs_account_id_hash s \<noteq> Some [] \<and> safe_nonneg (rs_generation s) \<and>
     pred_option lease_storable (rs_probe_lease s) \<and> pred_option safe_nonneg (rs_upstream_timeout_blocked_until_ms s)"

lemma lease_read_back:
  assumes "pred_option lease_storable x"
  shows "parseProbeLease (opt_js lease_js x) (parseProbeLeaseCircuit (opt_js lease_js x)) = x"
proof (cases x)
  case (Some l)
  have circuit: "parseProbeLeaseCircuit (lease_js l) = Some (le_circuit l)"
    by (cases "le_circuit l") (simp_all add: parseProbeLeaseCircuit_def lease_js_def)
  have quota: "parseProbeQuotaClass (opt_js (\<lambda>c. JStr (quota_class_text c)) (le_quota_class l)) = le_quota_class l"
  proof (cases "le_quota_class l")
    case (Some c)
    then show ?thesis by (cases c) (simp_all add: parseProbeQuotaClass_def quota_classes_def opt_js_def)
  qed (simp add: parseProbeQuotaClass_def quota_classes_def opt_js_def)
  have "parseProbeLease (lease_js l) (Some (le_circuit l)) = Some l"
    using Some assms by (simp add: parseProbeLease_def lease_js_def quota lease_storable_def)
  with Some circuit show ?thesis by (simp add: opt_js_def)
qed (simp add: opt_js_def parseProbeLease_def)

lemma source_read_back: "parseQuotaBlockSource (opt_js (\<lambda>x. JStr (block_source_text x)) x) = Some x"
proof (cases x)
  case (Some y)
  then show ?thesis by (cases y) (simp_all add: parseQuotaBlockSource_def opt_js_def)
qed (simp add: parseQuotaBlockSource_def opt_js_def)

lemma ms_read_back: "pred_option safe_nonneg x \<Longrightarrow> parseOptionalSafeMs (opt_js jint x) = x"
  by (cases x) (simp_all add: parseOptionalSafeMs_def opt_js_def, simp add: nonNegativeSafeInteger_def)

lemma hash_read_back: "x \<noteq> Some [] \<Longrightarrow> parseAccountIdHash (opt_js JStr x) = x"
  by (cases x) (simp_all add: parseAccountIdHash_def opt_js_def nonempty_text_def)

lemma slot_read_back:
  assumes "slot_storable s"
  shows "\<exists>s'. parseSlot (slot_js s) repair = Some s' \<and> slot_view s' = slot_view s"
proof -
  let ?v = "slot_js s"
  have lease: "parseProbeLease (js_get ?v ''probe_lease'') (parseProbeLeaseCircuit (js_get ?v ''probe_lease'')) = rs_probe_lease s"
    using assms lease_read_back [of "rs_probe_lease s"] by (simp add: slot_js_def slot_storable_def)
  have present: "js_get ?v ''probe_lease'' \<noteq> JNull \<Longrightarrow> rs_probe_lease s \<noteq> None"
    by (cases "rs_probe_lease s") (simp_all add: slot_js_def opt_js_def)
  have invalid: "js_text (opt_js JStr x) = x" for x by (simp add: opt_js_def split: option.split)
  have gets: "isRecord ?v" "js_text (js_get ?v ''credential_version'') = Some (rs_credential_version s)"
    "parseQuotaBlockSource (js_get ?v ''quota_block_source'') = Some (rs_quota_block_source s)"
    "parseAccountIdHash (js_get ?v ''account_id_hash'') = rs_account_id_hash s"
    "js_text (js_get ?v ''invalid_credential_version'') = rs_invalid_credential_version s"
    "parseStoredGeneration (js_get ?v ''generation'') = rs_generation s"
    "parseOptionalSafeMs (js_get ?v ''upstream_timeout_blocked_until_ms'') = rs_upstream_timeout_blocked_until_ms s"
    using assms
    by (simp_all add: slot_js_def source_read_back ms_read_back hash_read_back invalid slot_storable_def parseStoredGeneration_def)
  show ?thesis unfolding parseSlot_def Let_def gets lease using present gets(1)
    by (auto simp: slot_view_def)
qed

definition routing_storable :: "routing_state \<Rightarrow> bool" where
  "routing_storable st \<longleftrightarrow> safe_nonneg (rt_updated_at_ms st) \<and> list_all slot_storable (rt_slots st)"

lemma routing_read_back:
  assumes "routing_storable st"
  shows "\<exists>st'. parseCodexAccountRoutingState (routing_js st) = Some st' \<and> map slot_view (rt_slots st') = map slot_view (rt_slots st)"
proof -
  have "\<exists>slots. those (map (\<lambda>v. parseSlot v repair) (map slot_js ss)) = Some slots \<and> map slot_view slots = map slot_view ss"
    if "list_all slot_storable ss" for ss repair
    using that
  proof (induction ss)
    case (Cons s ss)
    with slot_read_back [of s repair] show ?case by fastforce
  qed simp
  from this [of "rt_slots st" "\<not> rt_legacy_identity_unresolved st"] assms
  obtain slots where "those (map (\<lambda>v. parseSlot v (\<not> rt_legacy_identity_unresolved st)) (map slot_js (rt_slots st))) = Some slots"
    "map slot_view slots = map slot_view (rt_slots st)" by (auto simp: routing_storable_def)
  with assms show ?thesis
    by (simp add: parseCodexAccountRoutingState_def routing_js_def routing_storable_def Let_def is_true_def)
qed

definition routing_settled :: "routing_identity list \<Rightarrow> routing_slot list \<Rightarrow> bool" where
  "routing_settled ids slots \<longleftrightarrow> list_all2 slot_settled ids slots"

lemma settled_view: "slot_view s = slot_view s' \<Longrightarrow> slot_settled i s = slot_settled i s'"
  by (auto simp: slot_view_def slot_settled_def slot_survives_def has_timeout_circuit_def has_timeout_lease_def same_account_def)

lemma settled_views:
  assumes "map slot_view ss = map slot_view ss'" "routing_settled ids ss"
  shows "routing_settled ids ss'"
proof -
  have len: "length ss = length ss'" using map_eq_imp_length_eq [OF assms(1)] .
  have "slot_view (ss ! k) = slot_view (ss' ! k)" if "k < length ss" for k
    using arg_cong [OF assms(1), of "\<lambda>vs. vs ! k"] that len by simp
  then have "slot_settled (ids ! k) (ss ! k) = slot_settled (ids ! k) (ss' ! k)" if "k < length ss" for k
    using that by (intro settled_view) blast
  with assms(2) len show ?thesis by (simp add: routing_settled_def list_all2_conv_all_nth)
qed

lemma settled_normalize:
  assumes "routing_settled ids (rt_slots st)"
  shows "rt_slots (normalizeRoutingState (Some st) ids now True) = rt_slots st"
proof -
  have len: "length (rt_slots st) = length ids" using assms by (simp add: routing_settled_def list_all2_lengthD)
  have "normalize_slots (rt_slots st) True 0 [] ids = (map (\<lambda>i. (Some i, rt_slots st ! i)) [0..<0 + length ids], rev [0..<0 + length ids] @ [])"
    by (rule normalize_settled_slots) (use assms len in \<open>auto simp: routing_settled_def list_all2_conv_all_nth\<close>)
  with map_nth [of "rt_slots st"] len show ?thesis by (simp add: normalizeRoutingState_def Let_def o_def)
qed

lemma normalized_routing_settled: "routing_settled ids (rt_slots (normalizeRoutingState raw ids now True))"
  using normalized_slots_settled [of raw ids now True] by (auto simp: routing_settled_def list_all2_conv_all_nth)

text \<open>A settled row that is written and read again shows the same slots to the fence.\<close>

lemma settled_round_trip:
  assumes "routing_settled ids (rt_slots st)" "routing_storable st"
  shows "\<exists>st'. stored_row parseCodexAccountRoutingState (routing_js st) = Some (Some st') \<and>
    map slot_view (rt_slots (normalizeRoutingState (Some st') ids now True)) = map slot_view (rt_slots st)"
proof -
  obtain st' where st': "parseCodexAccountRoutingState (routing_js st) = Some st'" "map slot_view (rt_slots st') = map slot_view (rt_slots st)"
    using routing_read_back [OF assms(2)] by blast
  have "routing_settled ids (rt_slots st')" by (rule settled_views [OF st'(2) [symmetric] assms(1)])
  from settled_normalize [OF this] st' show ?thesis by (simp add: stored_row_def routing_js_def)
qed

end
