(* ===== verification/Codex_Dispatch.thy ===== *)
theory Codex_Dispatch
  imports Codex_Storage
begin

text \<open>
  The dispatch fence after a selection: what \<open>codex_select\<close> writes, read back from the rows, satisfies every
  check of \<open>codex_fence\<close>.
\<close>

section \<open>Normalized rows are fit for storage\<close>








section \<open>Reading the rows again\<close>









section \<open>What the fence sees\<close>










section \<open>The fence\<close>







section \<open>Selection\<close>

























section \<open>An instance\<close>












end
