(* ===== verification/Paid_Rows.thy ===== *)
theory Paid_Rows
  imports Paid_Plans Codex_Rows
begin

text \<open>
  The rows of the paid ledger as stored objects (\<^verbatim>\<open>src/src/types.ts\<close> and
  \<^verbatim>\<open>src/src/authority/native-paid-contracts.ts\<close>), the attempts, provider hops and policy terms of
  \<^verbatim>\<open>src/src/authority/native-authority-contracts.ts\<close>, and how the transactions of
  \<^verbatim>\<open>native-authority-paid.ts\<close> read them. A property the source may leave out is written only when it has
  a value. A number read from a row need not be a safe integer: the source does not look.
\<close>

section \<open>Numbers\<close>

fun js_whole :: "js \<Rightarrow> int option" where
  "js_whole (JNum (Fin q)) = as_integer q"
| "js_whole _ = None"

fun js_finite :: "js \<Rightarrow> rat option" where
  "js_finite (JNum (Fin q)) = Some q"
| "js_finite _ = None"

text \<open>A number that is not finite becomes null in JSON.\<close>

fun json_number :: "jsnum \<Rightarrow> js" where
  "json_number (Fin q) = JNum (Fin q)"
| "json_number _ = JNull"

section \<open>States\<close>

fun dispatch_text :: "dispatch_state \<Rightarrow> string" where
  "dispatch_text PaidUndispatched = ''reserved''"
| "dispatch_text PaidDispatched = ''dispatched''"
| "dispatch_text PaidNotDispatched = ''not_dispatched''"

fun paid_terminal_text :: "paid_terminal_state \<Rightarrow> string" where
  "paid_terminal_text TerminalPending = ''pending''"
| "paid_terminal_text TerminalCompleted = ''completed''"
| "paid_terminal_text TerminalFailed = ''failed''"
| "paid_terminal_text TerminalIncomplete = ''incomplete''"
| "paid_terminal_text TerminalCancelled = ''cancelled''"
| "paid_terminal_text TerminalAmbiguous = ''ambiguous''"

fun billing_text :: "billing_state \<Rightarrow> string" where
  "billing_text BillingPending = ''pending''"
| "billing_text BillingSettled = ''settled''"
| "billing_text NotBilled = ''not_billed''"
| "billing_text BillingUnresolved = ''unresolved''"

definition named :: "('a \<Rightarrow> string) \<Rightarrow> 'a list \<Rightarrow> js \<Rightarrow> 'a option" where
  "named text_of xs v = find (\<lambda>x. v = JStr (text_of x)) xs"

definition dispatch_of_js :: "js \<Rightarrow> dispatch_state option" where
  "dispatch_of_js = named dispatch_text [PaidUndispatched, PaidDispatched, PaidNotDispatched]"

definition paid_terminal_of_js :: "js \<Rightarrow> paid_terminal_state option" where
  "paid_terminal_of_js = named paid_terminal_text
     [TerminalPending, TerminalCompleted, TerminalFailed, TerminalIncomplete, TerminalCancelled, TerminalAmbiguous]"

definition billing_of_js :: "js \<Rightarrow> billing_state option" where
  "billing_of_js = named billing_text [BillingPending, BillingSettled, NotBilled, BillingUnresolved]"

definition paid_provider_of_js :: "js \<Rightarrow> paid_provider option" where
  "paid_provider_of_js = named paid_provider_text [PaidMetered, PaidSurplus]"

section \<open>Ledger rows\<close>

definition paid_request_js :: "paid_request \<Rightarrow> js" where
  "paid_request_js r = JObj (
     [(''v'', jint 3), (''key_id'', JStr (fr_key_id r)), (''request_id'', JStr (fr_request_id r)),
      (''policy_version'', JStr (fr_policy_version r)), (''route'', JStr (fr_route r)), (''path'', JStr (fr_path r)),
      (''model'', JStr (fr_model r)), (''stream'', JBool (fr_stream r)), (''reasoning'', opt_js JStr (fr_reasoning r))] @
     optional ''provider'' (\<lambda>p. JStr (paid_provider_text p)) (fr_provider r) @
     [(''window_reset_at_ms'', jint (fr_window_reset_at_ms r)), (''reserved_microcredits'', jint (fr_reserved_microcredits r)),
      (''quota_per_credit'', jint (fr_quota_per_credit r)), (''provider_request_id'', opt_js JStr (fr_provider_request_id r)),
      (''provider_quota'', opt_js (\<lambda>q. JNum (Fin q)) (fr_provider_quota r)),
      (''input_tokens'', opt_js jint (fr_input_tokens r)), (''cached_input_tokens'', opt_js jint (fr_cached_input_tokens r)),
      (''output_tokens'', opt_js jint (fr_output_tokens r)), (''dispatch_state'', JStr (dispatch_text (fr_dispatch_state r))),
      (''terminal_state'', JStr (paid_terminal_text (fr_terminal_state r))),
      (''spend_microcredits'', opt_js jint (fr_spend_microcredits r)), (''billing_state'', JStr (billing_text (fr_billing_state r))),
      (''reconciliation_attempts'', jint (fr_reconciliation_attempts r)),
      (''last_reconciliation_at_ms'', opt_js jint (fr_last_reconciliation_at_ms r)),
      (''dispatched_at_ms'', opt_js jint (fr_dispatched_at_ms r)), (''terminal_at_ms'', opt_js jint (fr_terminal_at_ms r)),
      (''settled_at_ms'', opt_js jint (fr_settled_at_ms r)), (''created_at_ms'', jint (fr_created_at_ms r)),
      (''updated_at_ms'', jint (fr_updated_at_ms r))] @
     optional ''usage_rollup_at_ms'' jint (fr_usage_rollup_at_ms r))"

definition paid_request_of_js :: "js \<Rightarrow> native_error + paid_request" where
  "paid_request_of_js v =
     rbind (typed (js_text (js_get v ''key_id''))) (\<lambda>keyId.
     rbind (typed (js_text (js_get v ''request_id''))) (\<lambda>requestId.
     rbind (typed (js_text (js_get v ''policy_version''))) (\<lambda>policyVersion.
     rbind (typed (js_text (js_get v ''route''))) (\<lambda>route.
     rbind (typed (js_text (js_get v ''path''))) (\<lambda>path.
     rbind (typed (js_text (js_get v ''model''))) (\<lambda>model.
     rbind (typed (js_bool (js_get v ''stream''))) (\<lambda>stream.
     rbind (typed (optional_of_js js_text (js_get v ''reasoning''))) (\<lambda>reasoning.
     rbind (typed (optional_of_js paid_provider_of_js (js_get v ''provider''))) (\<lambda>provider.
     rbind (typed (js_whole (js_get v ''window_reset_at_ms''))) (\<lambda>windowResetAtMs.
     rbind (typed (js_whole (js_get v ''reserved_microcredits''))) (\<lambda>reservedMicrocredits.
     rbind (typed (js_whole (js_get v ''quota_per_credit''))) (\<lambda>quotaPerCredit.
     rbind (typed (optional_of_js js_text (js_get v ''provider_request_id''))) (\<lambda>providerRequestId.
     rbind (typed (optional_of_js js_finite (js_get v ''provider_quota''))) (\<lambda>providerQuota.
     rbind (typed (optional_of_js js_whole (js_get v ''input_tokens''))) (\<lambda>inputTokens.
     rbind (typed (optional_of_js js_whole (js_get v ''cached_input_tokens''))) (\<lambda>cachedInputTokens.
     rbind (typed (optional_of_js js_whole (js_get v ''output_tokens''))) (\<lambda>outputTokens.
     rbind (typed (dispatch_of_js (js_get v ''dispatch_state''))) (\<lambda>dispatchState.
     rbind (typed (paid_terminal_of_js (js_get v ''terminal_state''))) (\<lambda>terminalState.
     rbind (typed (optional_of_js js_whole (js_get v ''spend_microcredits''))) (\<lambda>spendMicrocredits.
     rbind (typed (billing_of_js (js_get v ''billing_state''))) (\<lambda>billingState.
     rbind (typed (js_whole (js_get v ''reconciliation_attempts''))) (\<lambda>reconciliationAttempts.
     rbind (typed (optional_of_js js_whole (js_get v ''last_reconciliation_at_ms''))) (\<lambda>lastReconciliationAtMs.
     rbind (typed (optional_of_js js_whole (js_get v ''dispatched_at_ms''))) (\<lambda>dispatchedAtMs.
     rbind (typed (optional_of_js js_whole (js_get v ''terminal_at_ms''))) (\<lambda>terminalAtMs.
     rbind (typed (optional_of_js js_whole (js_get v ''settled_at_ms''))) (\<lambda>settledAtMs.
     rbind (typed (js_whole (js_get v ''created_at_ms''))) (\<lambda>createdAtMs.
     rbind (typed (js_whole (js_get v ''updated_at_ms''))) (\<lambda>updatedAtMs.
     rbind (typed (optional_of_js js_whole (js_get v ''usage_rollup_at_ms''))) (\<lambda>usageRollupAtMs.
     Inr \<lparr>fr_key_id = keyId, fr_request_id = requestId, fr_policy_version = policyVersion, fr_route = route, fr_path = path,
         fr_model = model, fr_stream = stream, fr_reasoning = reasoning, fr_provider = provider, fr_window_reset_at_ms =
         windowResetAtMs, fr_reserved_microcredits = reservedMicrocredits, fr_quota_per_credit = quotaPerCredit,
         fr_provider_request_id = providerRequestId, fr_provider_quota = providerQuota, fr_input_tokens = inputTokens,
         fr_cached_input_tokens = cachedInputTokens, fr_output_tokens = outputTokens, fr_dispatch_state = dispatchState,
         fr_terminal_state = terminalState, fr_spend_microcredits = spendMicrocredits, fr_billing_state = billingState,
         fr_reconciliation_attempts = reconciliationAttempts, fr_last_reconciliation_at_ms = lastReconciliationAtMs,
         fr_dispatched_at_ms = dispatchedAtMs, fr_terminal_at_ms = terminalAtMs, fr_settled_at_ms = settledAtMs, fr_created_at_ms
         = createdAtMs, fr_updated_at_ms = updatedAtMs, fr_usage_rollup_at_ms = usageRollupAtMs\<rparr>)))))))))))))))))))))))))))))"

definition paid_window_js :: "paid_window \<Rightarrow> js" where
  "paid_window_js w = JObj [(''v'', jint 3), (''key_id'', JStr (fw_key_id w)), (''policy_version'', JStr (fw_policy_version w)),
     (''window_reset_at_ms'', jint (fw_window_reset_at_ms w)), (''limit_microcredits'', jint (fw_limit_microcredits w)),
     (''settled_microcredits'', jint (fw_settled_microcredits w)), (''reserved_microcredits'', jint (fw_reserved_microcredits w)),
     (''pending_count'', jint (fw_pending_count w)), (''updated_at_ms'', jint (fw_updated_at_ms w))]"

definition paid_window_of_js :: "js \<Rightarrow> native_error + paid_window" where
  "paid_window_of_js v =
     rbind (typed (js_text (js_get v ''key_id''))) (\<lambda>keyId.
     rbind (typed (js_text (js_get v ''policy_version''))) (\<lambda>version.
     rbind (typed (js_whole (js_get v ''window_reset_at_ms''))) (\<lambda>reset.
     rbind (typed (js_whole (js_get v ''limit_microcredits''))) (\<lambda>limit.
     rbind (typed (js_whole (js_get v ''settled_microcredits''))) (\<lambda>settled.
     rbind (typed (js_whole (js_get v ''reserved_microcredits''))) (\<lambda>reserved.
     rbind (typed (js_whole (js_get v ''pending_count''))) (\<lambda>pending.
     rbind (typed (js_whole (js_get v ''updated_at_ms''))) (\<lambda>updated.
     Inr \<lparr>fw_key_id = keyId, fw_policy_version = version, fw_window_reset_at_ms = reset, fw_limit_microcredits = limit,
         fw_settled_microcredits = settled, fw_reserved_microcredits = reserved, fw_pending_count = pending, fw_updated_at_ms = updated\<rparr>))))))))"

definition paid_pending_js :: "paid_pending \<Rightarrow> js" where
  "paid_pending_js p = JObj [(''created_at_ms'', jint (pp_created_at_ms p)), (''next_reconciliation_at_ms'', jint (pp_next_reconciliation_at_ms p))]"

definition paid_pending_of_js :: "js \<Rightarrow> native_error + paid_pending" where
  "paid_pending_of_js v =
     rbind (typed (js_whole (js_get v ''created_at_ms''))) (\<lambda>created.
     rbind (typed (js_whole (js_get v ''next_reconciliation_at_ms''))) (\<lambda>due.
     Inr \<lparr>pp_created_at_ms = created, pp_next_reconciliation_at_ms = due\<rparr>))"

definition gate_js :: "int option \<Rightarrow> js" where
  "gate_js due = JObj [(''next_due_at_ms'', opt_js jint due)]"

definition paid_lease_js :: "paid_lease \<Rightarrow> js" where
  "paid_lease_js l = JObj [(''token'', JStr (pl_token l)), (''expires_at_ms'', jint (pl_expires_at_ms l))]"

definition paid_lease_of_js :: "js \<Rightarrow> native_error + paid_lease" where
  "paid_lease_of_js v =
     rbind (typed (js_text (js_get v ''token''))) (\<lambda>token.
     rbind (typed (js_whole (js_get v ''expires_at_ms''))) (\<lambda>expires.
     Inr \<lparr>pl_token = token, pl_expires_at_ms = expires\<rparr>))"

definition rollup_js :: "usage_rollup \<Rightarrow> js" where
  "rollup_js u = JObj [(''v'', jint 1), (''bucket_start_at_ms'', jint (ru_bucket_start_at_ms u)), (''model'', JStr (ru_model u)),
     (''provider'', JStr (ru_provider u)), (''request_count'', jint (ru_request_count u)), (''quota_sum'', json_number (ru_quota_sum u)),
     (''input_tokens'', jint (ru_input_tokens u)), (''cached_input_tokens'', jint (ru_cached_input_tokens u)),
     (''output_tokens'', jint (ru_output_tokens u)), (''spend_microcredits'', json_number (ru_spend_microcredits u)),
     (''first_request_at_ms'', jint (ru_first_request_at_ms u)), (''last_request_at_ms'', jint (ru_last_request_at_ms u)),
     (''updated_at_ms'', jint (ru_updated_at_ms u))]"

text \<open>Of a deletion guard only its presence counts.\<close>

definition guard_of_js :: "js \<Rightarrow> int option" where
  "guard_of_js v = (if v = JNull then None else Some (case js_whole (js_get v ''created_at_ms'') of Some n \<Rightarrow> n | None \<Rightarrow> 0))"

definition admission_js :: "paid_admission \<Rightarrow> js" where
  "admission_js a = JObj [(''key_id'', JStr (pa_key_id a)), (''request_id'', JStr (pa_request_id a)),
     (''created_at_ms'', jint (pa_created_at_ms a)), (''reserved_microcredits'', jint (pa_reserved_microcredits a)),
     (''quota_per_credit'', jint (pa_quota_per_credit a)), (''window_reset_at_ms'', jint (pa_window_reset_at_ms a)),
     (''quota_used_percent'', opt_js JNum (pa_quota_used_percent a))]"

definition outstanding_js :: "paid_outstanding \<Rightarrow> js" where
  "outstanding_js x = JObj [(''pending_requests'', jint (po_pending_requests x)), (''unresolved_requests'', jint (po_unresolved_requests x)),
     (''pending_markers'', jint (po_pending_markers x)), (''has_outstanding'', JBool (po_has_outstanding x))]"

definition deferral_js :: "deferral_plan \<Rightarrow> js" where
  "deferral_js plan = (case plan of
       DeferNoop \<Rightarrow> JObj [(''kind'', JStr ''noop''), (''checks'', JArr [])]
     | DeferCleanup \<Rightarrow> JObj [(''kind'', JStr ''cleanup''), (''checks'', JArr [JStr ''pending'', JStr ''gate''])]
     | DeferWrite r p delay expireIn \<Rightarrow> JObj [(''kind'', JStr ''write''), (''request'', paid_request_js r), (''pending'', paid_pending_js p),
         (''delay'', jint delay), (''requestExpireIn'', jint expireIn), (''checks'', JArr [JStr ''request'', JStr ''pending''])])"

section \<open>Attempts, hops and terms\<close>

record native_attempt =
  na_handle :: string
  na_runtimeBindingId :: string
  na_requestHandle :: string
  na_principalId :: string
  na_keyId :: string
  na_hopId :: string
  na_billingRequestId :: string
  na_windowResetAtMs :: int
  na_fetchStarted :: bool

definition attempt_js :: "native_attempt \<Rightarrow> js" where
  "attempt_js a = JObj [(''handle'', JStr (na_handle a)), (''requestHandle'', JStr (na_requestHandle a)),
     (''principalId'', JStr (na_principalId a)), (''runtimeBindingId'', JStr (na_runtimeBindingId a)), (''keyId'', JStr (na_keyId a)),
     (''hopId'', JStr (na_hopId a)), (''billingRequestId'', JStr (na_billingRequestId a)),
     (''windowResetAtMs'', jint (na_windowResetAtMs a)), (''fetchStarted'', JBool (na_fetchStarted a))]"

definition attempt_of_js :: "js \<Rightarrow> native_error + native_attempt" where
  "attempt_of_js v =
     rbind (typed (js_text (js_get v ''handle''))) (\<lambda>handle.
     rbind (typed (js_text (js_get v ''runtimeBindingId''))) (\<lambda>binding.
     rbind (typed (js_text (js_get v ''requestHandle''))) (\<lambda>request.
     rbind (typed (js_text (js_get v ''principalId''))) (\<lambda>principal.
     rbind (typed (js_text (js_get v ''keyId''))) (\<lambda>keyId.
     rbind (typed (js_text (js_get v ''hopId''))) (\<lambda>hop.
     rbind (typed (js_text (js_get v ''billingRequestId''))) (\<lambda>billing.
     rbind (typed (js_whole (js_get v ''windowResetAtMs''))) (\<lambda>reset.
     rbind (typed (js_bool (js_get v ''fetchStarted''))) (\<lambda>started.
     Inr \<lparr>na_handle = handle, na_runtimeBindingId = binding, na_requestHandle = request, na_principalId = principal, na_keyId = keyId,
         na_hopId = hop, na_billingRequestId = billing, na_windowResetAtMs = reset, na_fetchStarted = started\<rparr>)))))))))"

datatype hop_authorization = HopDirect | HopCodexUnavailable

fun authorization_text :: "hop_authorization \<Rightarrow> string" where
  "authorization_text HopDirect = ''direct''"
| "authorization_text HopCodexUnavailable = ''codex_unavailable''"

fun correlation_text :: "paid_correlation \<Rightarrow> string" where
  "correlation_text ByProviderRequestId = ''provider_request_id''"
| "correlation_text BySurplusReservation = ''surplus_reservation''"

record provider_hop =
  ph_id :: string
  ph_ledgerProvider :: paid_provider
  ph_billingCorrelation :: paid_correlation
  ph_microcreditsPerCredit :: rat
  ph_billingSuffix :: string
  ph_authorization :: hop_authorization

definition hop_of_js :: "js \<Rightarrow> native_error + provider_hop" where
  "hop_of_js v =
     rbind (typed (js_text (js_get v ''id''))) (\<lambda>i.
     rbind (typed (paid_provider_of_js (js_get v ''ledgerProvider''))) (\<lambda>provider.
     rbind (typed (named correlation_text [ByProviderRequestId, BySurplusReservation] (js_get v ''billingCorrelation''))) (\<lambda>correlation.
     rbind (typed (js_finite (js_get v ''microcreditsPerCredit''))) (\<lambda>rate.
     rbind (typed (js_text (js_get v ''billingSuffix''))) (\<lambda>suffix.
     rbind (typed (named authorization_text [HopDirect, HopCodexUnavailable] (js_get v ''authorization''))) (\<lambda>authorization.
     Inr \<lparr>ph_id = i, ph_ledgerProvider = provider, ph_billingCorrelation = correlation, ph_microcreditsPerCredit = rate,
         ph_billingSuffix = suffix, ph_authorization = authorization\<rparr>))))))"

text \<open>
  The terms of a key. A quota per credit that is no safe integer is refused like zero, and an exposure that
  is none like a missing one, so both are read that way.
\<close>

record paid_terms =
  pt_policyVersion :: string
  pt_quotaPerCredit :: int
  pt_modelExposure :: "string \<Rightarrow> int option"
  pt_eligibleModels :: "string list"
  pt_allowUnrosteredUnlimited :: bool

definition terms_of_js :: "js \<Rightarrow> native_error + paid_terms" where
  "terms_of_js v =
     rbind (typed (js_text (js_get v ''policyVersion''))) (\<lambda>version.
     rbind (typed (js_items (js_get v ''eligibleModels''))) (\<lambda>models.
     rbind (typed (those (map js_text models))) (\<lambda>eligible.
     Inr \<lparr>pt_policyVersion = version, pt_quotaPerCredit = (case js_int (js_get v ''quotaPerCredit'') of Some n \<Rightarrow> n | None \<Rightarrow> 0),
         pt_modelExposure = (\<lambda>model. js_int (js_get (js_get v ''modelExposure'') model)), pt_eligibleModels = eligible,
         pt_allowUnrosteredUnlimited = truthy (js_get v ''allowUnrosteredUnlimited'')\<rparr>)))"

section \<open>What is written is read back\<close>

lemma js_whole_jint [simp]: "js_whole (jint n) = Some n"
  by simp

lemma named_states [simp]:
  "dispatch_of_js (JStr (dispatch_text d)) = Some d" "paid_terminal_of_js (JStr (paid_terminal_text t)) = Some t"
  "billing_of_js (JStr (billing_text b)) = Some b" "paid_provider_of_js (JStr (paid_provider_text p)) = Some p"
proof -
  show "dispatch_of_js (JStr (dispatch_text d)) = Some d" by (cases d) (simp_all add: dispatch_of_js_def named_def)
  show "paid_terminal_of_js (JStr (paid_terminal_text t)) = Some t" by (cases t) (simp_all add: paid_terminal_of_js_def named_def)
  show "billing_of_js (JStr (billing_text b)) = Some b" by (cases b) (simp_all add: billing_of_js_def named_def)
  show "paid_provider_of_js (JStr (paid_provider_text p)) = Some p" by (cases p) (simp_all add: paid_provider_of_js_def named_def)
qed

lemma optional_whole [simp]:
  "optional_of_js js_whole (opt_js jint x) = Some x" "optional_of_js js_finite (opt_js (\<lambda>q. JNum (Fin q)) y) = Some y"
  by (simp_all add: optional_of_js_def opt_js_def split: option.split)

end
