(* ===== verification/Native_Paid.thy ===== *)
theory Native_Paid
  imports Paid_Rows Native_Codex
begin

text \<open>
  The transactions on the paid ledger (\<^verbatim>\<open>NativeAuthorityPaid\<close> in
  \<^verbatim>\<open>src/src/authority/native-authority-paid.ts\<close>, with \<^verbatim>\<open>earliestPaidDue\<close> and \<^verbatim>\<open>paidAttempt\<close> of
  \<^verbatim>\<open>native-authority-sql.ts\<close>): reservation, transport start, lifecycle, release, deferral, billing,
  reconciliation, backfill and deletion. A transaction reads rows, asks a plan of \<^verbatim>\<open>Paid_Plans\<close> and writes
  what it says. The values of \<^verbatim>\<open>crypto.randomUUID()\<close> are arguments.
\<close>

section \<open>Rows\<close>

record paid_reply = native_reply +
  rp_attemptHandle :: js
  rp_lease :: js

definition paid_answer :: "string \<Rightarrow> js \<Rightarrow> paid_reply" where
  "paid_answer kind detail = native_reply.extend (reply kind detail) \<lparr>rp_attemptHandle = JUndef, rp_lease = JUndef\<rparr>"

definition nativeApiKeyId :: "native_capability \<Rightarrow> native_error + string" where
  "nativeApiKeyId cap = require (nc_keyId cap) (NativeAuthorityError ''api_scope_not_applicable'' 403)"

definition scope_index :: "string \<Rightarrow> sql_index" where
  "scope_index keyId = no_index\<lparr>ix_scope := Some keyId\<rparr>"

text \<open>A row that is absent is \<open>None\<close>.\<close>

definition read_row :: "native_table \<Rightarrow> (js \<Rightarrow> native_error + 'a) \<Rightarrow> kv_key \<Rightarrow> int \<Rightarrow> 'a option native" where
  "read_row t dec key now =
     nbind (sql_read t key now) (\<lambda>r.
     if nr_value r = JNull then nreturn None else nbind (nlift (dec (nr_value r))) (\<lambda>x. nreturn (Some x)))"

definition earliestPaidDue :: "int \<Rightarrow> int option native" where
  "earliestPaidDue now s =
     (let dues = List.map_filter (\<lambda>e. sr_due (snd e)) (filter (\<lambda>e. row_live now (snd e)) (sq_rows s Paid_pending)) in
      case dues of
        [] \<Rightarrow> Inr (None, s)
      | d # ds \<Rightarrow>
          let due = foldl min d ds in
          if is_safe_integer due then Inr (Some due, s) else Inl (NativeAuthorityError ''pending_due_malformed'' 503))"

definition attempt_matches :: "string \<Rightarrow> string \<Rightarrow> int \<Rightarrow> string \<times> sql_row \<Rightarrow> bool" where
  "attempt_matches keyId billingRequestId now e \<longleftrightarrow>
     sr_scope (snd e) = Some keyId \<and> js_get (sr_value (snd e)) ''billingRequestId'' = JStr billingRequestId \<and> row_live now (snd e)"

definition paidAttempt :: "string \<Rightarrow> string \<Rightarrow> int \<Rightarrow> native_attempt option native" where
  "paidAttempt keyId billingRequestId now s =
     (case filter (attempt_matches keyId billingRequestId now) (sq_rows s Attempt_lifetime) of
        [] \<Rightarrow> Inr (None, s)
      | [e] \<Rightarrow>
          (case js_text (js_get (sr_value (snd e)) ''handle'') of
             None \<Rightarrow> Inl (NativeAuthorityError ''paid_attempt_malformed'' 503)
           | Some handle \<Rightarrow> read_row Attempt_lifetime attempt_of_js [KText handle] now s)
      | _ \<Rightarrow> Inl (NativeAuthorityError ''paid_attempt_identity_conflict'' 503))"

definition paid_hop :: "string \<Rightarrow> provider_hop native" where
  "paid_hop hopId =
     nbind (sql_read Authority_config [KText ''config''] 0) (\<lambda>r.
     nbind (if nr_value r = JNull then nreturn [] else nlift (typed (js_items (js_get (nr_value r) ''providerHops'')))) (\<lambda>hops.
     case find (\<lambda>h. js_get h ''id'' = JStr hopId) hops of
       None \<Rightarrow> nfail (NativeAuthorityError ''provider_hop_not_configured'' 403)
     | Some h \<Rightarrow> nlift (hop_of_js h)))"

definition paid_attempt :: "native_capability \<Rightarrow> string \<Rightarrow> int \<Rightarrow> native_attempt native" where
  "paid_attempt cap handle now =
     nbind (sql_read Attempt_lifetime [KText handle] now) (\<lambda>r.
     let row = nr_value r; mismatch = NativeAuthorityError ''attempt_ownership_mismatch'' 403 in
     nbind (nensure (js_get row ''principalId'' = JStr (nc_principalId cap)) mismatch) (\<lambda>_.
     nbind (nlift (nativeApiKeyId cap)) (\<lambda>keyId.
     nbind (nensure (js_get row ''keyId'' = JStr keyId \<and> js_get row ''runtimeBindingId'' = JStr (nc_id cap)) mismatch) (\<lambda>_.
     nbind (nlift (attempt_of_js row)) (\<lambda>attempt.
     nbind (api_request cap (na_requestHandle attempt) now) (\<lambda>_.
     nreturn attempt))))))"

definition saveAttempt :: "native_attempt \<Rightarrow> unit native" where
  "saveAttempt a = sql_write Attempt_lifetime [KText (na_handle a)] (attempt_js a) None
     \<lparr>ix_scope = Some (na_keyId a), ix_parent = Some (na_requestHandle a), ix_due = None\<rparr>"

definition read_paid_request :: "string \<Rightarrow> string \<Rightarrow> int \<Rightarrow> paid_request option native" where
  "read_paid_request keyId billingId now = read_row Paid_request paid_request_of_js (paidFallbackRequestV3Key keyId billingId) now"

definition attempt_paid_request :: "native_attempt \<Rightarrow> int \<Rightarrow> paid_request option native" where
  "attempt_paid_request a now = read_paid_request (na_keyId a) (na_billingRequestId a) now"

definition read_paid_window :: "string \<Rightarrow> int \<Rightarrow> int \<Rightarrow> paid_window option native" where
  "read_paid_window keyId reset now = read_row Paid_window paid_window_of_js (paidFallbackWindowV3Key keyId reset) now"

definition read_paid_pending :: "string \<Rightarrow> string \<Rightarrow> int \<Rightarrow> paid_pending option native" where
  "read_paid_pending keyId billingId now = read_row Paid_pending paid_pending_of_js (paidFallbackPendingV3Key keyId billingId) now"

definition read_gate :: "int \<Rightarrow> js native" where
  "read_gate now = nbind (sql_read Paid_gate paidFallbackReconciliationGateV3Key now) (\<lambda>r. nreturn (nr_value r))"

definition write_paid_request :: "kv_key \<Rightarrow> paid_request \<Rightarrow> int \<Rightarrow> unit native" where
  "write_paid_request key row expiry = sql_write Paid_request key (paid_request_js row) (Some expiry) (scope_index (fr_key_id row))"

definition write_paid_window :: "string \<Rightarrow> int \<Rightarrow> paid_window \<Rightarrow> int \<Rightarrow> unit native" where
  "write_paid_window keyId reset w expiry =
     sql_write Paid_window (paidFallbackWindowV3Key keyId reset) (paid_window_js w) (Some expiry) (scope_index keyId)"

definition write_paid_pending :: "string \<Rightarrow> string \<Rightarrow> paid_pending \<Rightarrow> unit native" where
  "write_paid_pending keyId billingId p =
     sql_write Paid_pending (paidFallbackPendingV3Key keyId billingId) (paid_pending_js p) None
       ((scope_index keyId)\<lparr>ix_due := Some (pp_next_reconciliation_at_ms p)\<rparr>)"

definition write_gate :: "int option \<Rightarrow> unit native" where
  "write_gate due = sql_write Paid_gate paidFallbackReconciliationGateV3Key (gate_js due) None no_index"

definition arm_gate :: "int \<Rightarrow> unit native" where
  "arm_gate now = nbind (read_gate now) (\<lambda>gate. write_gate (paidFallbackReconciliationGateDueNow gate now))"

section \<open>What allows a reservation\<close>

definition paid_policy :: "native_capability \<Rightarrow> int \<Rightarrow> (js \<times> api_key_policy) option native" where
  "paid_policy cap now =
     (case (nc_keyId cap, nc_tokenHash cap) of
        (Some keyId, Some tokenHash) \<Rightarrow>
          nbind (currentKeyPolicy tokenHash keyId now) (\<lambda>current.
          nreturn (case current of
            None \<Rightarrow> None
          | Some (source, api) \<Rightarrow>
              if truthy (js_get source ''revoked'') \<or> ap_key_id api \<noteq> keyId \<or> \<not> ap_paid_fallback_enabled api \<or>
                 (ap_expires_at_ms api \<noteq> - 1 \<and> ap_expires_at_ms api \<le> now)
              then None else Some (source, api)))
      | _ \<Rightarrow> nreturn None)"

definition cohort_unavailable :: "route_selection \<Rightarrow> bool" where
  "cohort_unavailable sel = (case sel of RouteQuotaBlocked q \<Rightarrow> qr_fullCohortUnavailable q
     | RouteCredentialsInvalid _ full \<Rightarrow> full | _ \<Rightarrow> False)"

definition selection_unavailable :: "js \<Rightarrow> bool" where
  "selection_unavailable v \<longleftrightarrow>
     (js_get v ''kind'' = JStr ''quota_blocked'' \<or> js_get v ''kind'' = JStr ''credentials_invalid'') \<and>
     js_get v ''fullCohortUnavailable'' = JBool True"

text \<open>
  Is one of the revisions a selection recorded no longer that of its row? An inherited name finds a value
  without a revision, any other unknown name nothing at all.
\<close>

fun proof_stale :: "(string \<rightharpoonup> native_read) \<Rightarrow> (string \<times> js) list \<Rightarrow> native_error + bool" where
  "proof_stale rows [] = Inr False"
| "proof_stale rows ((k, revision) # es) =
     (case rows k of
        None \<Rightarrow> if k \<in> set object_prototype_names then Inr True else Inl (NativeFailure ''unknown row in codex proof'')
      | Some r \<Rightarrow> if opt_js JStr (nr_revision r) \<noteq> revision then Inr True else proof_stale rows es)"

definition fallback_selection ::
  "native_read \<Rightarrow> native_read \<Rightarrow> native_read \<Rightarrow> native_read \<Rightarrow> string \<Rightarrow> int \<Rightarrow> native_error + bool" where
  "fallback_selection pool active routing capacity model now =
     (case nr_revision pool of
        None \<Rightarrow> Inr False
      | Some revision \<Rightarrow>
          rbind (pool_identities (nr_value pool)) (\<lambda>identities.
          rbind (pool_selected (nr_value pool)) (\<lambda>selected.
          rbind (codex_policies (nr_value pool) model) (\<lambda>policies.
          Inr (case selectCodex
                 \<lparr>ss_active = nr_value active, ss_routing = nr_value routing, ss_capacity = nr_value capacity,
                  ss_poolIdentities = identities, ss_selectedAccountHashes = selected, ss_accountPolicies = policies,
                  ss_revisions = \<lparr>rv_active = nr_revision active, rv_pool = Some revision, rv_routing = nr_revision routing,
                    rv_capacity = nr_revision capacity\<rparr>\<rparr> now (Some model) of
               None \<Rightarrow> False
             | Some plan \<Rightarrow> cohort_unavailable (sp_selection plan))))))"

definition fallbackCurrent :: "js \<Rightarrow> int \<Rightarrow> bool native" where
  "fallbackCurrent request now =
     (if \<not> truthy (js_get request ''codexProof'') \<or> js_get request ''model'' = JNull then nreturn False
      else
      nbind (row_text request ''model'') (\<lambda>model.
      nbind (sql_read Codex_pool CODEX_AUTH_POOL_KV_KEY now) (\<lambda>pool.
      nbind (sql_read Codex_active CODEX_ACTIVE_ACCOUNT_SELECTION_KV_KEY now) (\<lambda>active.
      nbind (sql_read Codex_routing CODEX_ACCOUNT_ROUTING_KV_KEY now) (\<lambda>routing.
      nbind (sql_read Codex_capacity CODEX_CAPACITY_ROUTING_OBSERVATION_KV_KEY now) (\<lambda>capacity.
      nbind (nlift (typed (js_entries (js_get request ''codexProof'')))) (\<lambda>entries.
      nbind (nlift (proof_stale [''pool'' \<mapsto> pool, ''active'' \<mapsto> active, ''routing'' \<mapsto> routing, ''capacity'' \<mapsto> capacity] entries)) (\<lambda>stale.
      if stale then nreturn False
      else nlift (fallback_selection pool active routing capacity model now)))))))))"

definition fallbackAllowed :: "js \<Rightarrow> int \<Rightarrow> bool native" where
  "fallbackAllowed request now =
     (if selection_unavailable (js_get request ''selection'') then fallbackCurrent request now else nreturn False)"

text \<open>The model a hop bills, when the request's routing decision names the hop.\<close>

definition routing_hop :: "js \<Rightarrow> provider_hop \<Rightarrow> string option native" where
  "routing_hop request hop =
     (let decision = js_get request ''routingDecision'' in
      if decision = JNull \<or> decision = JUndef then nreturn None
      else
      nbind (nlift (typed (js_items (js_get decision ''hops'')))) (\<lambda>hops.
      case find (\<lambda>h. js_get h ''hopId'' = JStr (ph_id hop) \<and> js_get h ''authorization'' = JStr (authorization_text (ph_authorization hop))) hops of
        None \<Rightarrow> nreturn None
      | Some h \<Rightarrow> nbind (row_text h ''billingModel'') (\<lambda>model. nreturn (Some model))))"

definition model_priced :: "js \<Rightarrow> api_key_policy \<Rightarrow> paid_terms \<Rightarrow> string \<Rightarrow> bool" where
  "model_priced request api terms model \<longleftrightarrow>
     model \<in> set (pt_eligibleModels terms) \<or>
     (ap_paid_fallback_limit_microcredits api = - 1 \<and> pt_allowUnrosteredUnlimited terms \<and>
      js_get (js_get request ''routingDecision'') ''allowUnrosteredModel'' = JBool True)"

definition paid_prior :: "js \<Rightarrow> string \<Rightarrow> string \<Rightarrow> string \<Rightarrow> int \<Rightarrow> (native_attempt option \<times> string option) native" where
  "paid_prior request keyId hopId billingId now =
     nbind (paidAttempt keyId billingId now) (\<lambda>prior.
     case prior of
       None \<Rightarrow> nreturn (None, None)
     | Some a \<Rightarrow>
         if JStr (na_requestHandle a) \<noteq> js_get request ''handle'' \<or> na_hopId a \<noteq> hopId
         then nreturn (prior, Some ''attempt_identity_conflict'')
         else
         nbind (sql_read Paid_request (paidFallbackRequestV3Key (na_keyId a) (na_billingRequestId a)) now) (\<lambda>r.
         nreturn (prior, if nr_value r = JNull then Some ''attempt_retention_expired'' else None)))"

section \<open>Reservation\<close>

definition blocked_by :: "string \<Rightarrow> paid_reply native" where
  "blocked_by detail = nreturn (paid_answer ''blocked'' (JStr detail))"

fun blocked_text :: "blocked_reason \<Rightarrow> string" where
  "blocked_text InvalidPolicy = ''invalid_policy''"
| "blocked_text LimitExceeded = ''limit_exceeded''"

definition reserved_answer :: "string \<Rightarrow> paid_admission \<Rightarrow> paid_reply" where
  "reserved_answer handle reservation = (paid_answer ''reserved'' (admission_js reservation))\<lparr>rp_attemptHandle := JStr handle\<rparr>"

definition admission_input ::
  "js \<Rightarrow> string \<Rightarrow> string \<Rightarrow> string \<Rightarrow> api_key_policy \<Rightarrow> paid_terms \<Rightarrow> paid_admission_input native" where
  "admission_input request keyId billingId model api terms =
     nbind (nlift (typed (js_whole (js_get request ''createdAtMs'')))) (\<lambda>created.
     nbind (row_text request ''route'') (\<lambda>route.
     nbind (row_text request ''path'') (\<lambda>path.
     nbind (nlift (typed (js_bool (js_get request ''stream'')))) (\<lambda>stream.
     nbind (nlift (typed (opt_of_js js_text (js_get request ''reasoning'')))) (\<lambda>reasoning.
     nreturn \<lparr>pi_keyId = keyId, pi_requestId = billingId, pi_createdAtMs = created, pi_policyVersion = pt_policyVersion terms,
       pi_limitMicrocredits = ap_paid_fallback_limit_microcredits api, pi_maximumExposureMicrocredits = pt_modelExposure terms model,
       pi_initialSettledMicrocredits = 0, pi_quotaPerCredit = pt_quotaPerCredit terms,
       pi_windowResetAtMs = snd (currentApiKeyUsageWindow (ap_usage_reset_at_ms api) (ap_window_ms api) created),
       pi_model = model, pi_route = route, pi_path = path, pi_stream = stream, pi_reasoning = reasoning, pi_dispatchIntent = True\<rparr>)))))"

definition admission_snapshot :: "paid_admission_input \<Rightarrow> string option \<Rightarrow> int \<Rightarrow> paid_admission_snapshot native" where
  "admission_snapshot input revision now =
     nbind (read_paid_request (pi_keyId input) (pi_requestId input) now) (\<lambda>request.
     nbind (read_paid_window (pi_keyId input) (pi_windowResetAtMs input) now) (\<lambda>window.
     nbind (sql_read Paid_deletion_guard (paidFallbackDeletionGuardV3Key (pi_keyId input)) now) (\<lambda>guard.
     nreturn \<lparr>ps_request = request, ps_window = window, ps_deletionGuard = guard_of_js (nr_value guard), ps_policyFence = Some revision\<rparr>)))"

definition write_admission :: "native_capability \<Rightarrow> js \<Rightarrow> paid_admission_input \<Rightarrow> string \<Rightarrow> paid_write \<Rightarrow> string \<Rightarrow> int \<Rightarrow> paid_reply native" where
  "write_admission cap request input hopId plan uuid now =
     nbind (write_paid_request (paidFallbackRequestV3Key (pi_keyId input) (pi_requestId input)) (wr_request plan) (now + wr_requestExpireIn plan)) (\<lambda>_.
     nbind (write_paid_pending (pi_keyId input) (pi_requestId input) (wr_pending plan)) (\<lambda>_.
     nbind (if wr_checkGate plan then arm_gate now else nreturn ()) (\<lambda>_.
     nbind (case (wr_window plan, wr_windowExpireIn plan) of
              (Some w, Some expireIn) \<Rightarrow> write_paid_window (pi_keyId input) (pi_windowResetAtMs input) w (now + expireIn)
            | _ \<Rightarrow> nreturn ()) (\<lambda>_.
     nbind (row_text request ''handle'') (\<lambda>handle.
     nbind (saveAttempt
              \<lparr>na_handle = uuid, na_runtimeBindingId = nc_id cap, na_requestHandle = handle, na_principalId = nc_principalId cap,
               na_keyId = pi_keyId input, na_hopId = hopId, na_billingRequestId = pi_requestId input,
               na_windowResetAtMs = pi_windowResetAtMs input, na_fetchStarted = False\<rparr>) (\<lambda>_.
     nreturn (reserved_answer uuid (wr_reservation plan))))))))"

definition admit_attempt ::
  "native_capability \<Rightarrow> js \<Rightarrow> paid_admission_input \<Rightarrow> string \<Rightarrow> native_attempt option \<Rightarrow> string option \<Rightarrow> string \<Rightarrow> int \<Rightarrow> paid_reply native" where
  "admit_attempt cap request input hopId prior revision uuid now =
     (let unlimited = pi_limitMicrocredits input = - 1 in
      if isInvalidAdmissionPolicy input unlimited (pi_maximumExposureMicrocredits input) then blocked_by ''invalid_policy''
      else
      nbind (admission_snapshot input revision now) (\<lambda>snapshot.
      case planPaidFallbackAdmissionV3 input snapshot \<lparr>ay_unlimited = unlimited, ay_maximumExposure = pi_maximumExposureMicrocredits input\<rparr> now of
        PaidExhausted w expireIn checks \<Rightarrow>
          nbind (write_paid_window (pi_keyId input) (pi_windowResetAtMs input) w (now + expireIn)) (\<lambda>_. blocked_by ''limit_exceeded'')
      | PaidBlocked reason \<Rightarrow> blocked_by (blocked_text reason)
      | PaidReserved reservation \<Rightarrow>
          (case prior of
             None \<Rightarrow> nfail (NativeAuthorityError ''paid_attempt_lifetime_missing'' 503)
           | Some a \<Rightarrow> nreturn (reserved_answer (na_handle a) reservation))
      | PaidWrite plan \<Rightarrow> write_admission cap request input hopId plan uuid now))"

definition billing_request_id :: "string \<Rightarrow> provider_hop \<Rightarrow> string" where
  "billing_request_id requestId hop = requestId @ '':'' @ ph_billingSuffix hop"

definition reserve_priced ::
  "native_capability \<Rightarrow> js \<Rightarrow> provider_hop \<Rightarrow> string \<Rightarrow> string \<Rightarrow> api_key_policy \<Rightarrow> paid_terms \<Rightarrow> string option \<Rightarrow> string \<Rightarrow> int \<Rightarrow> paid_reply native" where
  "reserve_priced cap request hop keyId model api terms revision uuid now =
     nbind (row_text request ''requestId'') (\<lambda>requestId.
     let billingId = billing_request_id requestId hop in
     nbind (paid_prior request keyId (ph_id hop) billingId now) (\<lambda>(prior, blocked).
     case blocked of
       Some reason \<Rightarrow> blocked_by reason
     | None \<Rightarrow>
         nbind (admission_input request keyId billingId model api terms) (\<lambda>input.
         admit_attempt cap request input (ph_id hop) prior revision uuid now)))"

definition reserve_authorized :: "native_capability \<Rightarrow> js \<Rightarrow> provider_hop \<Rightarrow> string \<Rightarrow> string \<Rightarrow> int \<Rightarrow> paid_reply native" where
  "reserve_authorized cap request hop model uuid now =
     nbind (paid_policy cap now) (\<lambda>source.
     case (source, nc_keyId cap, nc_tokenHash cap) of
       (Some (row, api), Some keyId, Some tokenHash) \<Rightarrow>
         nbind (sql_read Api_policy (apiKeyHashKey tokenHash) now) (\<lambda>r.
         nbind (nlift (terms_of_js (js_get row ''paid''))) (\<lambda>terms.
         if \<not> model_priced request api terms model then nreturn (paid_answer ''skip'' (JStr ''model_not_priced''))
         else reserve_priced cap request hop keyId model api terms (nr_revision r) uuid now))
     | _ \<Rightarrow> blocked_by ''invalid_policy'')"

definition paid_reserve :: "native_capability \<Rightarrow> string \<Rightarrow> string \<Rightarrow> string \<Rightarrow> int \<Rightarrow> paid_reply native" where
  "paid_reserve cap handle hopId uuid now =
     nbind (api_validated cap handle now) (\<lambda>request.
     nbind (paid_hop hopId) (\<lambda>hop.
     nbind (routing_hop request hop) (\<lambda>routed.
     case routed of
       None \<Rightarrow> blocked_by ''request_hop_not_authorized''
     | Some model \<Rightarrow>
         nbind (if ph_authorization hop = HopCodexUnavailable then fallbackAllowed request now else nreturn True) (\<lambda>allowed.
         if \<not> allowed then blocked_by ''subscriptions_not_authoritatively_unavailable''
         else reserve_authorized cap request hop model uuid now))))"

section \<open>Transport start and lifecycle\<close>

definition expedite :: "native_attempt \<Rightarrow> int \<Rightarrow> unit native" where
  "expedite a now =
     nbind (read_paid_pending (na_keyId a) (na_billingRequestId a) now) (\<lambda>pending.
     case pending of
       None \<Rightarrow> nreturn ()
     | Some p \<Rightarrow>
         nbind (read_gate now) (\<lambda>gate.
         if \<not> now < pp_next_reconciliation_at_ms p \<and> \<not> paidFallbackReconciliationGateNeedsArm gate now then nreturn ()
         else
         nbind (if now < pp_next_reconciliation_at_ms p
                then write_paid_pending (na_keyId a) (na_billingRequestId a) (p\<lparr>pp_next_reconciliation_at_ms := now\<rparr>)
                else nreturn ()) (\<lambda>_.
         arm_gate now)))"

definition paid_response :: "native_capability \<Rightarrow> string \<Rightarrow> int \<Rightarrow> (native_attempt \<times> paid_provider) native" where
  "paid_response cap attemptHandle now =
     nbind (paid_attempt cap attemptHandle now) (\<lambda>attempt.
     nbind (paid_hop (na_hopId attempt)) (\<lambda>hop.
     nreturn (attempt, ph_ledgerProvider hop)))"

definition assertStart :: "native_capability \<Rightarrow> string \<Rightarrow> usage_provider \<Rightarrow> string option \<Rightarrow> int \<Rightarrow> native_attempt option native" where
  "assertStart cap handle provider attemptHandle now =
     (case attemptHandle of
        Some (c # cs) \<Rightarrow>
          nbind (paid_response cap (c # cs) now) (\<lambda>(attempt, ledger).
          nbind (nensure (na_requestHandle attempt = handle \<and> paid_provider_text ledger = provider_text provider)
                  (NativeAuthorityError ''transport_attempt_mismatch'' 403)) (\<lambda>_.
          nbind (attempt_paid_request attempt now) (\<lambda>row.
          nbind (nensure (case row of None \<Rightarrow> False
                    | Some r \<Rightarrow> fr_billing_state r = BillingPending \<and> fr_terminal_state r = TerminalPending)
                  (NativeAuthorityError ''paid_attempt_not_dispatchable'' 409)) (\<lambda>_.
          nreturn (Some attempt)))))
      | _ \<Rightarrow>
          nbind (nensure (provider \<noteq> Metered \<and> provider \<noteq> Surplus) (NativeAuthorityError ''paid_transport_attempt_required'' 403)) (\<lambda>_.
          nreturn None))"

record lifecycle_args =
  la_provider_request_id :: "string option option"
  la_dispatch_state :: "dispatch_state option"
  la_terminal_state :: "paid_terminal_state option"
  la_fetchStarted :: bool

definition hop_patch :: "lifecycle_args \<Rightarrow> provider_hop \<Rightarrow> lifecycle_patch" where
  "hop_patch args hop =
     \<lparr>lp_provider = Some (ph_ledgerProvider hop), lp_provider_request_id = la_provider_request_id args,
      lp_dispatch_state = la_dispatch_state args, lp_terminal_state = la_terminal_state args, lp_reconciliation_attempts = None,
      lp_last_reconciliation_at_ms = None, lp_increment_reconciliation_attempts = (la_terminal_state args \<noteq> None)\<rparr>"

definition assertFetchStart :: "native_capability \<Rightarrow> native_attempt \<Rightarrow> bool \<Rightarrow> int \<Rightarrow> unit native" where
  "assertFetchStart cap attempt started now =
     (if started \<and> \<not> na_fetchStarted attempt
      then nbind (paid_policy cap now) (\<lambda>policy. nensure (policy \<noteq> None) (NativeAuthorityError ''api_policy_revoked'' 403))
      else nreturn ())"

definition write_lifecycle :: "native_attempt \<Rightarrow> string \<Rightarrow> lifecycle_plan \<Rightarrow> int \<Rightarrow> unit native" where
  "write_lifecycle attempt keyId plan now =
     nbind (write_paid_request (paidFallbackRequestV3Key keyId (na_billingRequestId attempt)) (lc_request plan) (now + lc_requestExpireIn plan)) (\<lambda>_.
     if lc_readGate plan
     then nbind (read_gate now) (\<lambda>gate.
          if lc_dispatchBoundary plan \<or> paidFallbackReconciliationGateNeedsArm gate now then arm_gate now else nreturn ())
     else nreturn ())"

definition save_started :: "native_capability \<Rightarrow> native_attempt \<Rightarrow> int \<Rightarrow> unit native" where
  "save_started cap attempt now =
     nbind (saveAttempt (attempt\<lparr>na_fetchStarted := True\<rparr>)) (\<lambda>_.
     nbind (api_request cap (na_requestHandle attempt) now) (\<lambda>original.
     if truthy (js_get original ''dispatch'')
     then api_save (js_with ''dispatch'' (js_with ''fetchStarted'' (JBool True) (js_get original ''dispatch'')) original)
     else nreturn ()))"

definition observe_provider :: "native_capability \<Rightarrow> native_attempt \<Rightarrow> paid_provider \<Rightarrow> int \<Rightarrow> unit native" where
  "observe_provider cap attempt provider now =
     nbind (api_request cap (na_requestHandle attempt) now) (\<lambda>original.
     if js_get original ''semantic'' = JNull
     then api_save (js_with ''responding''
            (JObj [(''provider'', JStr (paid_provider_text provider)), (''attemptHandle'', JStr (na_handle attempt))])
            (js_with ''providerObserved'' (JBool True) original))
     else nreturn ())"

definition apply_lifecycle ::
  "native_capability \<Rightarrow> native_attempt \<Rightarrow> string \<Rightarrow> provider_hop \<Rightarrow> paid_request \<Rightarrow> lifecycle_args \<Rightarrow> int \<Rightarrow> paid_reply native" where
  "apply_lifecycle cap attempt keyId hop current args now =
     (let plan = planPaidFallbackLifecycleV3 current (hop_patch args hop) now;
          observed = (case plan of None \<Rightarrow> current | Some p \<Rightarrow> lc_request p);
          providerTerminal = la_terminal_state args \<noteq> None \<and> la_terminal_state args \<noteq> Some TerminalPending
      in
      nbind (write_some (\<lambda>p. write_lifecycle attempt keyId p now) plan) (\<lambda>_.
      nbind (if la_fetchStarted args then save_started cap attempt now else nreturn ()) (\<lambda>_.
      nbind (if fr_terminal_state observed \<noteq> TerminalPending then expedite attempt now else nreturn ()) (\<lambda>_.
      nbind (if fr_provider_request_id observed \<noteq> None \<or> providerTerminal \<or> la_fetchStarted args
             then observe_provider cap attempt (ph_ledgerProvider hop) now else nreturn ()) (\<lambda>_.
      nreturn (paid_answer (if plan = None then ''unchanged'' else ''updated'') (paid_request_js observed)))))))"

definition paid_lifecycle :: "native_capability \<Rightarrow> string \<Rightarrow> lifecycle_args \<Rightarrow> int \<Rightarrow> paid_reply native" where
  "paid_lifecycle cap attemptHandle args now =
     nbind (paid_attempt cap attemptHandle now) (\<lambda>attempt.
     nbind (paid_hop (na_hopId attempt)) (\<lambda>hop.
     nbind (attempt_paid_request attempt now) (\<lambda>entry.
     nbind (assertFetchStart cap attempt (la_fetchStarted args) now) (\<lambda>_.
     case entry of
       None \<Rightarrow> nreturn (paid_answer ''missing'' JUndef)
     | Some current \<Rightarrow>
         nbind (nlift (nativeApiKeyId cap)) (\<lambda>keyId.
         apply_lifecycle cap attempt keyId hop current args now)))))"

definition started_args :: lifecycle_args where
  "started_args = \<lparr>la_provider_request_id = None, la_dispatch_state = None, la_terminal_state = None, la_fetchStarted = True\<rparr>"

definition paid_start :: "native_capability \<Rightarrow> string \<Rightarrow> usage_provider \<Rightarrow> string option \<Rightarrow> int \<Rightarrow> unit native" where
  "paid_start cap handle provider attemptHandle now =
     nbind (assertStart cap handle provider attemptHandle now) (\<lambda>attempt.
     case attempt of
       None \<Rightarrow> nreturn ()
     | Some a \<Rightarrow> nbind (paid_lifecycle cap (na_handle a) started_args now) (\<lambda>_. nreturn ()))"

section \<open>Release, deferral and billing\<close>

definition applyRelease :: "native_attempt \<Rightarrow> release_plan \<Rightarrow> int \<Rightarrow> unit native" where
  "applyRelease a plan now =
     nbind (write_paid_request (paidFallbackRequestV3Key (na_keyId a) (na_billingRequestId a)) (re_request plan) (now + re_requestExpireIn plan)) (\<lambda>_.
     nbind (sql_delete Paid_pending (paidFallbackPendingV3Key (na_keyId a) (na_billingRequestId a))) (\<lambda>_.
     nbind (write_gate (re_gate plan)) (\<lambda>_.
     case (re_window plan, re_windowExpireIn plan) of
       (Some w, Some expireIn) \<Rightarrow> write_paid_window (na_keyId a) (na_windowResetAtMs a) w (now + expireIn)
     | _ \<Rightarrow> nreturn ())))"

text \<open>May the upstream have seen the attempt of a request that can still be billed?\<close>

definition may_have_started :: "native_attempt \<Rightarrow> paid_request option \<Rightarrow> js \<Rightarrow> bool" where
  "may_have_started attempt current original \<longleftrightarrow>
     (case current of
        None \<Rightarrow> False
      | Some r \<Rightarrow>
          (fr_billing_state r = BillingPending \<or> fr_billing_state r = BillingUnresolved) \<and>
          (na_fetchStarted attempt \<or> fr_terminal_state r \<noteq> TerminalPending \<or> js_get original ''semantic'' \<noteq> JNull \<or>
           (js_get original ''delivery'' \<noteq> JNull \<and> js_get original ''delivery'' \<noteq> JStr ''unobserved'')))"

definition paid_release :: "native_capability \<Rightarrow> string \<Rightarrow> int \<Rightarrow> paid_reply native" where
  "paid_release cap handle now =
     nbind (paid_attempt cap handle now) (\<lambda>attempt.
     nbind (api_request cap (na_requestHandle attempt) now) (\<lambda>original.
     nbind (attempt_paid_request attempt now) (\<lambda>current.
     nbind (nensure (\<not> may_have_started attempt current original) (NativeAuthorityError ''paid_fetch_may_have_started'' 409)) (\<lambda>_.
     nbind (nlift (nativeApiKeyId cap)) (\<lambda>keyId.
     nbind (read_paid_window keyId (na_windowResetAtMs attempt) now) (\<lambda>window.
     nbind (read_gate now) (\<lambda>gate.
     case planPaidFallbackReleaseV3 \<lparr>rs_request = current, rs_window = window, rs_gate = gate\<rparr> True now of
       None \<Rightarrow> nreturn (paid_answer ''unchanged'' JUndef)
     | Some plan \<Rightarrow>
         nbind (applyRelease attempt plan now) (\<lambda>_.
         nreturn (paid_answer ''released'' (paid_request_js (re_request plan)))))))))))"

definition paid_cleanup :: "native_attempt \<Rightarrow> int \<Rightarrow> unit native" where
  "paid_cleanup a now =
     nbind (sql_delete Paid_pending (paidFallbackPendingV3Key (na_keyId a) (na_billingRequestId a))) (\<lambda>_. arm_gate now)"

definition deferral_kind :: "deferral_plan \<Rightarrow> string" where
  "deferral_kind plan = (case plan of DeferNoop \<Rightarrow> ''noop'' | DeferCleanup \<Rightarrow> ''cleanup'' | DeferWrite _ _ _ _ \<Rightarrow> ''write'')"

definition paid_defer :: "native_capability \<Rightarrow> string \<Rightarrow> int \<Rightarrow> paid_reply native" where
  "paid_defer cap handle now =
     nbind (paid_attempt cap handle now) (\<lambda>attempt.
     nbind (nlift (nativeApiKeyId cap)) (\<lambda>keyId.
     nbind (attempt_paid_request attempt now) (\<lambda>request.
     nbind (read_paid_pending keyId (na_billingRequestId attempt) now) (\<lambda>pending.
     let plan = planPaidFallbackDeferralV3 request pending now in
     nbind (case plan of
              DeferNoop \<Rightarrow> nreturn ()
            | DeferCleanup \<Rightarrow> paid_cleanup attempt now
            | DeferWrite r p delay expireIn \<Rightarrow>
                nbind (write_paid_request (paidFallbackRequestV3Key keyId (na_billingRequestId attempt)) r (now + expireIn)) (\<lambda>_.
                write_paid_pending keyId (na_billingRequestId attempt) p)) (\<lambda>_.
     nreturn (paid_answer (deferral_kind plan) (deferral_js plan)))))))"

definition rollup_key :: "rollup_identity \<Rightarrow> kv_key" where
  "rollup_key i = paidFallbackUsageRollupKey (rd_bucketStartAtMs i) (rd_model i) (rd_provider i) (rd_shard i)"

definition settle_attempt ::
  "native_attempt \<Rightarrow> string \<Rightarrow> provider_hop \<Rightarrow> paid_request \<Rightarrow> provider_log \<Rightarrow> int \<Rightarrow> int \<Rightarrow> paid_reply native" where
  "settle_attempt attempt keyId hop request providerLog spend now =
     (let key = rollup_key (paidFallbackRequestRollupIdentity request (ph_billingCorrelation hop)) in
      nbind (sql_read Paid_rollup key now) (\<lambda>rollup.
      let (folded, foldIntoRollup) = paidFallbackSettlementRollupV3 request providerLog spend (ph_billingCorrelation hop)
            (isPaidFallbackUsageRollup (nr_value rollup)) now in
      nbind (read_gate now) (\<lambda>gate.
      nbind (read_paid_window keyId (na_windowResetAtMs attempt) now) (\<lambda>window.
      nbind (nlift (planPaidFallbackSettlementRowsV3 \<lparr>rs_request = Some request, rs_window = window, rs_gate = gate\<rparr>
              providerLog spend foldIntoRollup now)) (\<lambda>plan.
      nbind (applyRelease attempt plan now) (\<lambda>_.
      nbind (if foldIntoRollup then sql_write Paid_rollup key (rollup_js folded) None no_index else nreturn ()) (\<lambda>_.
      nreturn (paid_answer ''settled'' (paid_request_js (re_request plan))))))))))"

definition paid_billing :: "native_capability \<Rightarrow> string \<Rightarrow> provider_log \<Rightarrow> rat option \<Rightarrow> int \<Rightarrow> paid_reply native" where
  "paid_billing cap attemptHandle providerLog surplusBuyerCostMicro now =
     nbind (paid_attempt cap attemptHandle now) (\<lambda>attempt.
     nbind (paid_hop (na_hopId attempt)) (\<lambda>hop.
     nbind (attempt_paid_request attempt now) (\<lambda>request.
     nbind (nlift (nativeApiKeyId cap)) (\<lambda>keyId.
     nbind (read_paid_pending keyId (na_billingRequestId attempt) now) (\<lambda>pending.
     case evaluatePaidFallbackSettlementV3 request pending providerLog
            \<lparr>sm_correlation = ph_billingCorrelation hop, sm_microcreditsPerCredit = ph_microcreditsPerCredit hop,
             sm_surplusBuyerCostMicro = surplusBuyerCostMicro\<rparr> of
       EvalCleanup \<Rightarrow> nbind (paid_cleanup attempt now) (\<lambda>_. nreturn (paid_answer ''cleanup'' JUndef))
     | EvalDefer \<Rightarrow> paid_defer cap attemptHandle now
     | EvalNoop \<Rightarrow> nreturn (paid_answer ''noop'' JUndef)
     | EvalSettle spend \<Rightarrow>
         (case request of
            None \<Rightarrow> nfail (NativeAuthorityError ''paid_request_missing'' 503)
          | Some r \<Rightarrow> settle_attempt attempt keyId hop r providerLog spend now))))))"

section \<open>Cursors\<close>

definition retained_js :: "string list \<Rightarrow> js" where
  "retained_js handles = JArr (map JStr handles)"

definition cursor_scope :: "native_capability \<Rightarrow> (string \<times> js) list" where
  "cursor_scope cap = (case nc_retainedRequestHandles cap of None \<Rightarrow> []
     | Some handles \<Rightarrow> [(''retainedGrantId'', JStr (nc_runtimeGrantId cap)), (''retainedHandles'', retained_js handles)])"

definition ownsCursor :: "native_capability \<Rightarrow> js \<Rightarrow> native_error + bool" where
  "ownsCursor cap row =
     (if js_get row ''capabilityId'' \<noteq> JStr (nc_id cap) then Inr False
      else
      rbind (nativeApiKeyId cap) (\<lambda>keyId.
      Inr (js_get row ''parent'' = JStr keyId \<and>
        (case nc_retainedRequestHandles cap of
           None \<Rightarrow> js_get row ''retainedGrantId'' = JUndef \<and> js_get row ''retainedHandles'' = JUndef
         | Some handles \<Rightarrow> js_get row ''retainedGrantId'' = JStr (nc_runtimeGrantId cap) \<and>
             js_get row ''retainedHandles'' = retained_js handles))))"

definition paid_resume :: "native_capability \<Rightarrow> string option \<Rightarrow> string \<Rightarrow> int \<Rightarrow> string native" where
  "paid_resume cap cursor family now =
     (case cursor of
        Some (c # cs) \<Rightarrow>
          nbind (sql_read Cursor_table [KText (c # cs)] now) (\<lambda>r.
          nbind (nlift (ownsCursor cap (nr_value r))) (\<lambda>owned.
          nbind (nensure (owned \<and> js_get (nr_value r) ''family'' = JStr family)
                  (NativeAuthorityError ''cursor_ownership_mismatch'' 403)) (\<lambda>_.
          row_text (nr_value r) ''after'')))
      | _ \<Rightarrow> nreturn [])"

definition paid_cursor_js :: "native_capability \<Rightarrow> string \<Rightarrow> string \<Rightarrow> string \<Rightarrow> string \<Rightarrow> string option \<Rightarrow> js" where
  "paid_cursor_js cap keyId cursorId family after lease =
     JObj ([(''id'', JStr cursorId), (''capabilityId'', JStr (nc_id cap)), (''family'', JStr family), (''after'', JStr after),
       (''parent'', JStr keyId), (''lease'', opt_js JStr lease)] @ cursor_scope cap)"

definition write_cursor :: "native_capability \<Rightarrow> string \<Rightarrow> string \<Rightarrow> string \<Rightarrow> string \<Rightarrow> string option \<Rightarrow> unit native" where
  "write_cursor cap keyId cursorId family after lease =
     sql_write Cursor_table [KText cursorId] (paid_cursor_js cap keyId cursorId family after lease) None no_index"

text \<open>A full page leaves a cursor at its last row.\<close>

definition page_cursor ::
  "native_capability \<Rightarrow> string \<Rightarrow> string \<Rightarrow> string \<Rightarrow> native_page_entry list \<Rightarrow> int \<Rightarrow> string option \<Rightarrow> js native" where
  "page_cursor cap keyId uuid family page limit lease =
     (if int (length page) = limit
      then nbind (write_cursor cap keyId uuid family (pe_encoded (last page)) lease) (\<lambda>_. nreturn (JStr uuid))
      else nreturn JNull)"

section \<open>Reconciliation\<close>

definition retained_elsewhere :: "native_capability \<Rightarrow> native_attempt option \<Rightarrow> bool" where
  "retained_elsewhere cap attempt =
     (case nc_retainedRequestHandles cap of None \<Rightarrow> False
      | Some handles \<Rightarrow>
          (case attempt of None \<Rightarrow> True
           | Some a \<Rightarrow> na_principalId a \<noteq> nc_principalId cap \<or> na_runtimeBindingId a \<noteq> nc_id cap \<or> na_requestHandle a \<notin> set handles))"

definition due_js :: "native_attempt \<Rightarrow> string \<Rightarrow> paid_request \<Rightarrow> js" where
  "due_js a billingId r = JObj (
     [(''attemptHandle'', JStr (na_handle a)), (''requestHandle'', JStr (na_requestHandle a)), (''requestId'', JStr billingId)] @
     optional ''provider'' (\<lambda>p. JStr (paid_provider_text p)) (fr_provider r) @
     [(''providerRequestId'', opt_js JStr (fr_provider_request_id r))])"

definition dueAttempt :: "native_capability \<Rightarrow> string \<Rightarrow> string \<Rightarrow> int \<Rightarrow> js option native" where
  "dueAttempt cap keyId billingId now =
     nbind (paidAttempt keyId billingId now) (\<lambda>attempt.
     if retained_elsewhere cap attempt then nreturn None
     else
     nbind (read_paid_request keyId billingId now) (\<lambda>request.
     case request of
       Some r \<Rightarrow>
         if fr_billing_state r = BillingSettled \<or> fr_billing_state r = NotBilled
         then nbind (sql_delete Paid_pending (paidFallbackPendingV3Key keyId billingId)) (\<lambda>_. nbind (arm_gate now) (\<lambda>_. nreturn None))
         else
         (case attempt of
            None \<Rightarrow> nfail (NativeAuthorityError ''paid_attempt_lifetime_missing'' 503)
          | Some a \<Rightarrow>
              if na_principalId a \<noteq> nc_principalId cap \<or> na_runtimeBindingId a \<noteq> nc_id cap then nreturn None
              else nbind (paid_attempt cap (na_handle a) now) (\<lambda>_. nreturn (Some (due_js a billingId r))))
     | None \<Rightarrow> nbind (sql_delete Paid_pending (paidFallbackPendingV3Key keyId billingId)) (\<lambda>_. nbind (arm_gate now) (\<lambda>_. nreturn None))))"

definition key_text :: "kv_key \<Rightarrow> string option" where
  "key_text key = (case key of [] \<Rightarrow> None | _ \<Rightarrow> (case last key of KText t \<Rightarrow> Some t | _ \<Rightarrow> None))"

definition claim_entry :: "native_capability \<Rightarrow> string \<Rightarrow> int \<Rightarrow> native_page_entry \<Rightarrow> js option native" where
  "claim_entry cap keyId now e =
     (if nr_value (pe_row e) = JNull then nreturn None
      else
      nbind (nlift (paid_pending_of_js (nr_value (pe_row e)))) (\<lambda>p.
      if now < pp_next_reconciliation_at_ms p then nreturn None
      else
      nbind (nlift (require (key_text (pe_key e)) (NativeAuthorityError ''paid_pending_key_malformed'' 503))) (\<lambda>billingId.
      dueAttempt cap keyId billingId now)))"

fun claim_entries :: "native_capability \<Rightarrow> string \<Rightarrow> int \<Rightarrow> native_page_entry list \<Rightarrow> js list native" where
  "claim_entries cap keyId now [] = nreturn []"
| "claim_entries cap keyId now (e # es) =
     nbind (claim_entry cap keyId now e) (\<lambda>entry.
     nbind (claim_entries cap keyId now es) (\<lambda>due.
     nreturn (case entry of None \<Rightarrow> due | Some d \<Rightarrow> d # due)))"

definition paid_claim :: "native_capability \<Rightarrow> string option \<Rightarrow> int \<Rightarrow> string \<Rightarrow> string \<Rightarrow> int \<Rightarrow> paid_reply native" where
  "paid_claim cap cursor limit token uuid now =
     nbind (nlift (nativeApiKeyId cap)) (\<lambda>keyId.
     nbind (read_row Paid_lease paid_lease_of_js (paidFallbackReconciliationLeaseV3Key keyId) now) (\<lambda>prior.
     if paidFallbackLeaseActiveV3 prior now then nreturn (paid_answer ''leased'' JUndef)
     else
     let lease = paidFallbackReconciliationLeaseV3 token now in
     nbind (sql_write Paid_lease (paidFallbackReconciliationLeaseV3Key keyId) (paid_lease_js lease) (Some (pl_expires_at_ms lease)) (scope_index keyId)) (\<lambda>_.
     nbind (write_cursor cap keyId token ''paid_lease'' [] (Some token)) (\<lambda>_.
     nbind (paid_resume cap cursor ''paid_pending'' now) (\<lambda>after.
     nbind (sql_page Paid_pending now after limit (Some keyId) None) (\<lambda>page.
     nbind (claim_entries cap keyId now page) (\<lambda>due.
     nbind (page_cursor cap keyId uuid ''paid_pending'' page limit (Some token)) (\<lambda>next.
     nreturn ((paid_answer ''claimed'' (JArr due))\<lparr>rp_lease := JStr token, rp_cursor := next\<rparr>)))))))))"

definition paid_finish :: "native_capability \<Rightarrow> string \<Rightarrow> int \<Rightarrow> paid_reply native" where
  "paid_finish cap token now =
     nbind (sql_read Cursor_table [KText token] now) (\<lambda>owner.
     nbind (nlift (nativeApiKeyId cap)) (\<lambda>keyId.
     nbind (read_row Paid_lease paid_lease_of_js (paidFallbackReconciliationLeaseV3Key keyId) now) (\<lambda>lease.
     nbind (nlift (ownsCursor cap (nr_value owner))) (\<lambda>owned.
     nbind (nensure (owned \<and> js_get (nr_value owner) ''family'' = JStr ''paid_lease'' \<and> paidFallbackLeaseOwnedV3 lease token \<and>
              paidFallbackLeaseActiveV3 lease now) (NativeAuthorityError ''reconciliation_lease_stale'' 409)) (\<lambda>_.
     nbind (read_gate now) (\<lambda>_.
     nbind (earliestPaidDue now) (\<lambda>due.
     nbind (write_gate (paidFallbackGateAfterScanV3 due)) (\<lambda>_.
     nbind (sql_delete Paid_lease (paidFallbackReconciliationLeaseV3Key keyId)) (\<lambda>_.
     nreturn (paid_answer ''finished'' JUndef))))))))))"

section \<open>Backfill\<close>

definition backfillRow :: "kv_key \<Rightarrow> paid_request \<Rightarrow> int \<Rightarrow> int native" where
  "backfillRow key request now =
     (if paidFallbackRequestBackfillStateV3 (Some request) = BackfillRetention
      then nbind (write_paid_request key request (now + requestRowExpireIn request now)) (\<lambda>_. nreturn 0)
      else
      let rollupKey = rollup_key (paidFallbackRequestRollupIdentity request ByProviderRequestId) in
      nbind (sql_read Paid_rollup rollupKey now) (\<lambda>old.
      let plan = planPaidFallbackBackfillFoldV3 request (isPaidFallbackUsageRollup (nr_value old)) now in
      nbind (write_paid_request key (bf_request plan) (now + bf_requestExpireIn plan)) (\<lambda>_.
      case bf_rollup plan of
        None \<Rightarrow> nreturn 0
      | Some u \<Rightarrow> nbind (sql_write Paid_rollup rollupKey (rollup_js u) None no_index) (\<lambda>_. nreturn 1))))"

fun backfill_entries :: "int \<Rightarrow> native_page_entry list \<Rightarrow> int native" where
  "backfill_entries now [] = nreturn 0"
| "backfill_entries now (e # es) =
     nbind (if nr_value (pe_row e) = JNull then nreturn 0
            else nbind (nlift (paid_request_of_js (nr_value (pe_row e)))) (\<lambda>r. backfillRow (pe_key e) r now)) (\<lambda>n.
     nbind (backfill_entries now es) (\<lambda>folds. nreturn (n + folds)))"

definition paid_backfill :: "native_capability \<Rightarrow> string option \<Rightarrow> int \<Rightarrow> string \<Rightarrow> string \<Rightarrow> int \<Rightarrow> paid_reply native" where
  "paid_backfill cap cursor limit token uuid now =
     nbind (read_row Paid_backfill_lease paid_lease_of_js paidFallbackBackfillLeaseV3Key now) (\<lambda>prior.
     if paidFallbackLeaseActiveV3 prior now then nreturn (paid_answer ''leased'' JUndef)
     else
     let lease = paidFallbackBackfillLeaseV3 token now in
     nbind (sql_write Paid_backfill_lease paidFallbackBackfillLeaseV3Key (paid_lease_js lease) (Some (pl_expires_at_ms lease)) no_index) (\<lambda>_.
     nbind (paid_resume cap cursor ''paid_backfill'' now) (\<lambda>after.
     nbind (nlift (nativeApiKeyId cap)) (\<lambda>keyId.
     nbind (sql_page Paid_request now after limit (Some keyId) None) (\<lambda>page.
     nbind (backfill_entries now page) (\<lambda>folds.
     nbind (sql_delete Paid_backfill_lease paidFallbackBackfillLeaseV3Key) (\<lambda>_.
     nbind (page_cursor cap keyId uuid ''paid_backfill'' page limit None) (\<lambda>next.
     nreturn ((paid_answer ''backfilled'' (JObj [(''scanned'', jint (int (length page))), (''folds'', jint folds)]))\<lparr>rp_cursor := next\<rparr>)))))))))"

section \<open>Deletion\<close>

definition count_state :: "string \<Rightarrow> native_page_entry list \<Rightarrow> int" where
  "count_state state page = int (length (filter (\<lambda>e. js_get (nr_value (pe_row e)) ''billing_state'' = JStr state) page))"

text \<open>The page loops take fuel; one turn more than the table has rows is enough.\<close>

fun paid_scan :: "nat \<Rightarrow> native_table \<Rightarrow> (native_page_entry list \<Rightarrow> int) \<Rightarrow> string \<Rightarrow> int \<Rightarrow> string \<Rightarrow> int native" where
  "paid_scan 0 t score keyId now after = nfail (NativeFailure ''page loop did not end'')"
| "paid_scan (Suc fuel) t score keyId now after =
     nbind (sql_page t now after 100 (Some keyId) None) (\<lambda>page.
     if length page < 100 then nreturn (score page)
     else nbind (paid_scan fuel t score keyId now (pe_encoded (last page))) (\<lambda>n. nreturn (score page + n)))"

definition scan_table :: "native_table \<Rightarrow> (native_page_entry list \<Rightarrow> int) \<Rightarrow> string \<Rightarrow> int \<Rightarrow> int native" where
  "scan_table t score keyId now s = paid_scan (Suc (length (sq_rows s t))) t score keyId now [] s"

definition paidOutstanding :: "string \<Rightarrow> int \<Rightarrow> paid_outstanding native" where
  "paidOutstanding keyId now =
     nbind (scan_table Paid_request (count_state ''pending'') keyId now) (\<lambda>pendingRequests.
     nbind (scan_table Paid_request (count_state ''unresolved'') keyId now) (\<lambda>unresolvedRequests.
     nbind (scan_table Paid_pending (\<lambda>page. int (length page)) keyId now) (\<lambda>markers.
     nreturn \<lparr>po_pending_requests = pendingRequests, po_unresolved_requests = unresolvedRequests, po_pending_markers = markers,
       po_has_outstanding = (0 < pendingRequests + unresolvedRequests + markers)\<rparr>)))"

fun drop_pages :: "nat \<Rightarrow> native_table \<Rightarrow> string \<Rightarrow> int \<Rightarrow> int native" where
  "drop_pages 0 t keyId now = nfail (NativeFailure ''page loop did not end'')"
| "drop_pages (Suc fuel) t keyId now =
     nbind (sql_page t now [] 100 (Some keyId) None) (\<lambda>page.
     nbind (each_entry (\<lambda>e. sql_delete t (pe_key e)) page) (\<lambda>_.
     if length page < 100 then nreturn (int (length page))
     else nbind (drop_pages fuel t keyId now) (\<lambda>n. nreturn (int (length page) + n))))"

definition drop_table :: "native_table \<Rightarrow> string \<Rightarrow> int \<Rightarrow> int native" where
  "drop_table t keyId now s = drop_pages (Suc (length (sq_rows s t))) t keyId now s"

definition guard_js :: "int \<Rightarrow> js" where
  "guard_js created = JObj [(''created_at_ms'', jint created)]"

definition paid_deleteForKey :: "string \<Rightarrow> int \<Rightarrow> (paid_outstanding + (int \<times> int \<times> int)) native" where
  "paid_deleteForKey keyId now =
     nbind (sql_read Paid_deletion_guard (paidFallbackDeletionGuardV3Key keyId) now) (\<lambda>prior.
     nbind (write_some (\<lambda>g. sql_write Paid_deletion_guard (paidFallbackDeletionGuardV3Key keyId) (guard_js g) None (scope_index keyId))
             (planPaidFallbackDeletionGuardV3 (guard_of_js (nr_value prior)) now)) (\<lambda>_.
     nbind (paidOutstanding keyId now) (\<lambda>outstanding.
     case planPaidFallbackDeletionV3 (Some outstanding) of
       DeletionAllowed \<Rightarrow>
         nbind (drop_table Paid_request keyId now) (\<lambda>requests.
         nbind (drop_table Paid_window keyId now) (\<lambda>windows.
         nbind (drop_table Paid_pending keyId now) (\<lambda>markers.
         nbind (sql_delete Paid_lease (paidFallbackReconciliationLeaseV3Key keyId)) (\<lambda>_.
         nreturn (Inr (requests, windows, markers))))))
     | _ \<Rightarrow> nreturn (Inl outstanding))))"

definition paid_deletion :: "native_capability \<Rightarrow> int \<Rightarrow> paid_reply native" where
  "paid_deletion cap now =
     nbind (nlift (nativeApiKeyId cap)) (\<lambda>keyId.
     nbind (paid_deleteForKey keyId now) (\<lambda>result.
     nreturn (case result of
       Inl outstanding \<Rightarrow> paid_answer ''blocked'' (outstanding_js outstanding)
     | Inr (requests, windows, markers) \<Rightarrow> paid_answer ''deleted''
         (JObj [(''paid_request'', jint requests), (''paid_window'', jint windows), (''paid_pending'', jint markers)]))))"

end
