(* ===== verification/Paid_Runs.thy ===== *)
theory Paid_Runs
  imports Native_Paid Codex_Storage
begin

text \<open>
  Histories of the paid ledger: any sequence of its transactions, each at its own time, a failing one
  without effect. The table of attempts changes in two ways only, which \<open>attempt_step\<close> describes.
\<close>

section \<open>Calls and runs\<close>

datatype paid_call =
    ReservePaid native_capability string string string
  | StartPaid native_capability string usage_provider "string option"
  | LifecyclePaid native_capability string lifecycle_args
  | ReleasePaid native_capability string
  | DeferPaid native_capability string
  | BillingPaid native_capability string provider_log "rat option"
  | ClaimPaid native_capability "string option" int string string
  | FinishPaid native_capability string
  | BackfillPaid native_capability "string option" int string string
  | DeletePaid native_capability

definition unanswered :: "unit native \<Rightarrow> paid_reply native" where
  "unanswered m = nbind m (\<lambda>_. nreturn (paid_answer ''started'' JUndef))"

fun paid_execute :: "paid_call \<Rightarrow> int \<Rightarrow> paid_reply native" where
  "paid_execute (ReservePaid cap handle hopId uuid) now = paid_reserve cap handle hopId uuid now"
| "paid_execute (StartPaid cap handle provider attempt) now = unanswered (paid_start cap handle provider attempt now)"
| "paid_execute (LifecyclePaid cap attempt args) now = paid_lifecycle cap attempt args now"
| "paid_execute (ReleasePaid cap attempt) now = paid_release cap attempt now"
| "paid_execute (DeferPaid cap attempt) now = paid_defer cap attempt now"
| "paid_execute (BillingPaid cap attempt providerLog cost) now = paid_billing cap attempt providerLog cost now"
| "paid_execute (ClaimPaid cap cursor limit token uuid) now = paid_claim cap cursor limit token uuid now"
| "paid_execute (FinishPaid cap token) now = paid_finish cap token now"
| "paid_execute (BackfillPaid cap cursor limit token uuid) now = paid_backfill cap cursor limit token uuid now"
| "paid_execute (DeletePaid cap) now = paid_deletion cap now"

definition paid_after :: "paid_call \<times> int \<Rightarrow> sql_store \<Rightarrow> sql_store" where
  "paid_after c s = (case paid_execute (fst c) (snd c) s of Inl e \<Rightarrow> s | Inr (r, t) \<Rightarrow> t)"

definition paid_run :: "(paid_call \<times> int) list \<Rightarrow> sql_store \<Rightarrow> sql_store" where
  "paid_run calls s = foldl (\<lambda>s c. paid_after c s) s calls"

text \<open>The handle a call would give to a new attempt.\<close>

fun drawn :: "paid_call \<Rightarrow> string option" where
  "drawn (ReservePaid cap handle hopId uuid) = Some uuid"
| "drawn _ = None"

section \<open>What a transaction leaves alone\<close>

lemma succeeds: "(case x of Inl e \<Rightarrow> False | Inr (y, t) \<Rightarrow> P y t) \<longleftrightarrow> (\<exists>y t. x = Inr (y, t) \<and> P y t)"
  by (cases x) auto

text \<open>The transaction does not change what \<open>view\<close> sees of the store.\<close>

definition keeps_view :: "(sql_store \<Rightarrow> 'v) \<Rightarrow> 'a native \<Rightarrow> bool" where
  "keeps_view view m \<longleftrightarrow> (\<forall>s x t. m s = Inr (x, t) \<longrightarrow> view t = view s)"

abbreviation attempts :: "sql_store \<Rightarrow> sql_row dict" where
  "attempts s \<equiv> sq_rows s Attempt_lifetime"

abbreviation keeps_attempts :: "'a native \<Rightarrow> bool" where
  "keeps_attempts \<equiv> keeps_view attempts"

abbreviation reads_only :: "'a native \<Rightarrow> bool" where
  "reads_only \<equiv> keeps_view (\<lambda>s. s)"

lemma keepsD: "keeps_view view m \<Longrightarrow> m s = Inr (x, t) \<Longrightarrow> view t = view s"
  by (auto simp: keeps_view_def)

lemma nbind_after:
  "nbind m f s = Inr (y, t) \<Longrightarrow> (\<And>x. keeps_view view (f x)) \<Longrightarrow> \<exists>x u. m s = Inr (x, u) \<and> view t = view u"
  by (auto simp: keeps_view_def nbind_iff)

lemma nbind_middle:
  assumes "nbind m (\<lambda>_. nbind n f) s = Inr (y, t)" "keeps_view view m" "\<And>x. keeps_view view (f x)"
  shows "\<exists>u x v. view u = view s \<and> n u = Inr (x, v) \<and> view t = view v"
proof -
  from assms(1) obtain z u x v where *: "m s = Inr (z, u)" "n u = Inr (x, v)" "f x v = Inr (y, t)" by (auto simp: nbind_iff)
  from keepsD [OF assms(2) *(1)] keepsD [OF assms(3) *(3)] *(2) show ?thesis by blast
qed

lemma nbind_read: "nbind m f s = Inr (y, t) \<Longrightarrow> reads_only m \<Longrightarrow> \<exists>x. m s = Inr (x, s) \<and> f x s = Inr (y, t)"
  by (fastforce simp: keeps_view_def nbind_iff)

lemma reads_keep: "reads_only m \<Longrightarrow> keeps_view view m"
  by (auto simp: keeps_view_def)

named_theorems keeps

lemma keeps_basic [keeps]:
  "keeps_view view (nreturn x)" "keeps_view view (nfail e)" "keeps_view view (nensure b e)" "keeps_view view (nlift r)"
  "keeps_view view (sql_read t key now)" "keeps_view view (sql_page t now after limit sc parent)"
  by (auto simp: keeps_view_def dest: sql_read_store sql_page_store)

lemma keeps_bind [keeps]:
  assumes "keeps_view view m" "\<And>x. keeps_view view (f x)"
  shows "keeps_view view (nbind m f)"
  using assms unfolding keeps_view_def nbind_iff by metis

lemma keeps_if [keeps]: "keeps_view view m \<Longrightarrow> keeps_view view n \<Longrightarrow> keeps_view view (if b then m else n)"
  by simp

lemma keeps_option [keeps]:
  "keeps_view view n \<Longrightarrow> (\<And>x. keeps_view view (f x)) \<Longrightarrow> keeps_view view (case y of None \<Rightarrow> n | Some x \<Rightarrow> f x)"
  by (cases y) simp_all

lemma keeps_prod [keeps]: "(\<And>x y. keeps_view view (f x y)) \<Longrightarrow> keeps_view view (case p of (x, y) \<Rightarrow> f x y)"
  by (cases p) simp

lemma keeps_list [keeps]:
  "keeps_view view n \<Longrightarrow> (\<And>x xs. keeps_view view (f x xs)) \<Longrightarrow> keeps_view view (case ys of [] \<Rightarrow> n | x # xs \<Rightarrow> f x xs)"
  by (cases ys) simp_all

lemma keeps_plans [keeps]:
  "keeps_view view m \<Longrightarrow> keeps_view view n \<Longrightarrow> (\<And>r p d e. keeps_view view (f r p d e)) \<Longrightarrow>
     keeps_view view (case deferral of DeferNoop \<Rightarrow> m | DeferCleanup \<Rightarrow> n | DeferWrite r p d e \<Rightarrow> f r p d e)"
  "keeps_view view m \<Longrightarrow> keeps_view view n \<Longrightarrow> keeps_view view k \<Longrightarrow> (\<And>x. keeps_view view (g x)) \<Longrightarrow>
     keeps_view view (case evaluation of EvalCleanup \<Rightarrow> m | EvalNoop \<Rightarrow> n | EvalDefer \<Rightarrow> k | EvalSettle x \<Rightarrow> g x)"
  "keeps_view view m \<Longrightarrow> (\<And>x. keeps_view view (h x)) \<Longrightarrow> keeps_view view n \<Longrightarrow>
     keeps_view view (case deletion of DeletionUnavailable \<Rightarrow> m | DeletionBlocked x \<Rightarrow> h x | DeletionAllowed \<Rightarrow> n)"
  by (simp split: deferral_plan.split) (simp split: settlement_evaluation.split, simp split: deletion_plan.split)

section \<open>Transactions that only read\<close>

lemma keeps_reads [keeps]:
  "keeps_view view (read_row t dec key now)" "keeps_view view (api_request cap handle now)" "keeps_view view (row_text row k)"
  "keeps_view view (paid_hop hopId)" "keeps_view view (read_gate now)" "keeps_view view (api_validated cap handle now)"
  unfolding read_row_def api_validated_def api_request_def row_text_def paid_hop_def read_gate_def Let_def by (intro keeps; simp)+

lemma keeps_due [keeps]: "keeps_view view (earliestPaidDue now)"
  by (auto simp: keeps_view_def earliestPaidDue_def Let_def split: list.splits if_splits)

lemma read_row_store: "read_row t dec key now s = Inr (x, u) \<Longrightarrow> u = s"
  by (rule keepsD [OF keeps_reads(1)])

lemma keeps_lookup [keeps]: "keeps_view view (paidAttempt keyId billingId now)"
  by (auto simp: keeps_view_def paidAttempt_def dest: read_row_store split: list.splits option.splits)

lemma keeps_row_reads [keeps]:
  "keeps_view view (attempt_paid_request a now)" "keeps_view view (read_paid_request keyId b now)"
  "keeps_view view (read_paid_window keyId reset now)" "keeps_view view (read_paid_pending keyId b now)"
  "keeps_view view (paid_attempt cap handle now)"
  unfolding attempt_paid_request_def read_paid_request_def read_paid_window_def read_paid_pending_def paid_attempt_def Let_def
  by (intro keeps; simp)+

lemma keeps_policy [keeps]: "keeps_view view (paid_policy cap now)"
  unfolding paid_policy_def currentKeyPolicy_def Let_def by (intro keeps)

lemma keeps_admission_reads [keeps]:
  "keeps_view view (routing_hop request hop)" "keeps_view view (fallbackAllowed request now)"
  "keeps_view view (paid_prior request keyId hopId billingId now)" "keeps_view view (admission_input request keyId billingId model api terms)"
  "keeps_view view (admission_snapshot input revision now)"
  unfolding routing_hop_def fallbackAllowed_def fallbackCurrent_def paid_prior_def admission_input_def admission_snapshot_def Let_def
  by (intro keeps)+

section \<open>Transactions that leave the attempts alone\<close>

lemma keeps_write [keeps]: "t \<noteq> Attempt_lifetime \<Longrightarrow> keeps_attempts (sql_write t key v e ix)"
  by (auto simp: keeps_view_def sql_write_iff)

lemma keeps_delete [keeps]: "t \<noteq> Attempt_lifetime \<Longrightarrow> keeps_attempts (sql_delete t key)"
  by (auto simp: keeps_view_def sql_delete_def)

lemma keeps_each [keeps]: "(\<And>e. keeps_view view (f e)) \<Longrightarrow> keeps_view view (each_entry f es)"
  by (induction es) (auto intro!: keeps)

lemma keeps_write_some [keeps]: "(\<And>x. keeps_view view (w x)) \<Longrightarrow> keeps_view view (write_some w y)"
  by (simp add: write_some_def keeps)

lemma keeps_ledger_writes [keeps]:
  "keeps_attempts (write_paid_request key row expiry)" "keeps_attempts (write_paid_window keyId reset w expiry)"
  "keeps_attempts (write_paid_pending keyId b p)" "keeps_attempts (write_gate due)" "keeps_attempts (arm_gate now)" "keeps_attempts (api_save request)"
  unfolding write_paid_request_def write_paid_window_def write_paid_pending_def write_gate_def arm_gate_def api_save_def
  by (intro keeps; simp)+

lemma keeps_operations [keeps]:
  "keeps_attempts (expedite a now)" "keeps_attempts (write_lifecycle a keyId plan now)" "keeps_attempts (observe_provider cap a provider now)"
  "keeps_attempts (applyRelease a release now)" "keeps_attempts (paid_cleanup a now)" "keeps_attempts (page_cursor cap keyId uuid family page limit lease)"
  "keeps_attempts (write_cursor cap keyId uuid family after lease)" "keeps_attempts (paid_resume cap cursor family now)"
  unfolding expedite_def write_lifecycle_def observe_provider_def applyRelease_def paid_cleanup_def page_cursor_def write_cursor_def
    paid_resume_def Let_def by (intro keeps; simp)+

lemma keeps_settle [keeps]: "keeps_attempts (settle_attempt a keyId hop request providerLog spend now)"
  unfolding settle_attempt_def Let_def by (intro keeps; simp)

lemma keeps_release [keeps]: "keeps_attempts (paid_release cap handle now)"
  unfolding paid_release_def by (intro keeps; simp)

lemma keeps_billing [keeps]: "keeps_attempts (paid_defer cap handle now)" "keeps_attempts (paid_billing cap handle providerLog cost now)"
proof -
  show *: "keeps_attempts (paid_defer cap handle now)" unfolding paid_defer_def Let_def by (intro keeps; simp)
  show "keeps_attempts (paid_billing cap handle providerLog cost now)" unfolding paid_billing_def by (intro keeps *; simp)
qed

lemma keeps_due_attempt [keeps]: "keeps_attempts (dueAttempt cap keyId billingId now)"
  unfolding dueAttempt_def by (intro keeps; simp)

lemma keeps_claims [keeps]: "keeps_attempts (claim_entries cap keyId now es)"
proof (induction es)
  case (Cons e es)
  have "keeps_attempts (claim_entry cap keyId now e)" unfolding claim_entry_def by (intro keeps)
  with Cons show ?case by (auto intro!: keeps)
qed (simp add: keeps)

lemma keeps_claim [keeps]: "keeps_attempts (paid_claim cap cursor limit token uuid now)" "keeps_attempts (paid_finish cap token now)"
  unfolding paid_claim_def paid_finish_def Let_def by (intro keeps; simp)+

lemma keeps_backfills [keeps]: "keeps_attempts (backfill_entries now es)"
proof (induction es)
  case (Cons e es)
  have "keeps_attempts (backfillRow key r now)" for key r unfolding backfillRow_def Let_def by (intro keeps; simp)
  with Cons show ?case by (auto intro!: keeps)
qed (simp add: keeps)

lemma keeps_backfill [keeps]: "keeps_attempts (paid_backfill cap cursor limit token uuid now)"
  unfolding paid_backfill_def Let_def by (intro keeps; simp)

lemma keeps_scan [keeps]: "keeps_attempts (scan_table t score keyId now)"
proof -
  have "keeps_attempts (paid_scan fuel t score keyId now after)" for fuel after
    by (induction fuel arbitrary: after) (auto intro!: keeps)
  then show ?thesis unfolding keeps_view_def scan_table_def by blast
qed

lemma keeps_drop [keeps]:
  assumes "t \<noteq> Attempt_lifetime"
  shows "keeps_attempts (drop_table t keyId now)"
proof -
  have "keeps_attempts (drop_pages fuel t keyId now)" for fuel
    using assms by (induction fuel) (auto intro!: keeps)
  then show ?thesis unfolding keeps_view_def drop_table_def by blast
qed

lemma keeps_deletion [keeps]: "keeps_attempts (paid_deletion cap now)"
  unfolding paid_deletion_def paid_deleteForKey_def paidOutstanding_def by (intro keeps; simp)

section \<open>The table of attempts\<close>

definition attempt_row :: "native_attempt \<Rightarrow> int \<Rightarrow> sql_row" where
  "attempt_row a revision = \<lparr>sr_key = [KText (na_handle a)], sr_value = attempt_js a, sr_revision = revision, sr_expires_at_ms = None,
     sr_scope = Some (na_keyId a), sr_parent = Some (na_requestHandle a), sr_due = None\<rparr>"

definition attempt_slot :: "string \<Rightarrow> string" where
  "attempt_slot handle = nativeKey [KText handle]"

definition attempt_in :: "string \<times> sql_row \<Rightarrow> native_attempt" where
  "attempt_in e = projr (attempt_of_js (sr_value (snd e)))"

definition attempt_stored :: "string \<times> sql_row \<Rightarrow> bool" where
  "attempt_stored e \<longleftrightarrow> isl (attempt_of_js (sr_value (snd e))) = False \<and>
     e = (attempt_slot (na_handle (attempt_in e)), attempt_row (attempt_in e) (sr_revision (snd e)))"

definition billing_identity :: "native_attempt \<Rightarrow> string \<times> string" where
  "billing_identity a = (na_keyId a, na_billingRequestId a)"

definition attempts_sound :: "sql_row dict \<Rightarrow> bool" where
  "attempts_sound d \<longleftrightarrow> distinct (map fst d) \<and> list_all attempt_stored d \<and> distinct (map (\<lambda>e. billing_identity (attempt_in e)) d)"

lemma attempt_read_back [simp]: "attempt_of_js (attempt_js a) = Inr a"
  by (simp add: attempt_of_js_def attempt_js_def)

lemma attempt_in_row [simp]: "attempt_in (k, attempt_row a revision) = a"
  by (simp add: attempt_in_def attempt_row_def)

lemma attempt_row_stored [simp]: "attempt_stored (attempt_slot (na_handle a), attempt_row a revision)"
  by (simp add: attempt_stored_def) (simp add: attempt_row_def)

lemma attempt_slot_inj: "attempt_slot h = attempt_slot h' \<Longrightarrow> h = h'"
  unfolding attempt_slot_def by (drule nativeKey_inj [rotated 2]) (simp_all add: key_ok_def)

lemma set_put_distinct:
  assumes "distinct (map fst d)"
  shows "set (put k v d) = insert (k, v) {e \<in> set d. fst e \<noteq> k}"
  using assms by (induction d) (auto simp: put_def image_iff split: if_splits)

lemma distinct_put:
  assumes "distinct (map fst d)" "distinct (map g d)" "\<And>e. e \<in> set d \<Longrightarrow> fst e \<noteq> k \<Longrightarrow> g e \<noteq> g (k, v)"
  shows "distinct (map g (put k v d))"
  using assms
proof (induction d)
  case (Cons e d)
  have "g e \<notin> g ` set (put k v d)" if "fst e \<noteq> k" using Cons.prems that set_put_distinct [of d k v] by auto
  moreover have "g (k, v) \<notin> g ` set d" if "fst e = k"
  proof
    assume "g (k, v) \<in> g ` set d"
    then obtain x where x: "x \<in> set d" "g x = g (k, v)" by auto
    have "fst e \<notin> fst ` set d" using Cons.prems(1) by simp
    with imageI [OF x(1), of fst] that have "fst x \<noteq> k" by metis
    with Cons.prems(3) [of x] x show False by simp
  qed
  ultimately show ?case using Cons by (cases e) (auto simp: put_def)
qed (simp add: put_def)

lemma put_sound:
  assumes "attempts_sound d" "\<And>e. e \<in> set d \<Longrightarrow> fst e \<noteq> attempt_slot (na_handle a) \<Longrightarrow> billing_identity (attempt_in e) \<noteq> billing_identity a"
  shows "attempts_sound (put (attempt_slot (na_handle a)) (attempt_row a revision) d)"
proof -
  have keys: "distinct (map fst d)" and stored: "list_all attempt_stored d"
    and unique: "distinct (map (\<lambda>e. billing_identity (attempt_in e)) d)" using assms(1) by (simp_all add: attempts_sound_def)
  have "distinct (map (\<lambda>e. billing_identity (attempt_in e)) (put (attempt_slot (na_handle a)) (attempt_row a revision) d))"
    using keys unique assms(2) by (intro distinct_put) auto
  moreover have "distinct (map fst (put (attempt_slot (na_handle a)) (attempt_row a revision) d))"
    using keys by (simp add: put_def distinct_update)
  ultimately show ?thesis using stored by (auto simp: attempts_sound_def list_all_iff set_put_distinct [OF keys])
qed

section \<open>Steps of the table\<close>

inductive attempt_step :: "string option \<Rightarrow> sql_row dict \<Rightarrow> sql_row dict \<Rightarrow> bool" where
  unchanged: "attempt_step uuid d d"
| started: "e \<in> set d \<Longrightarrow> a = attempt_in e \<Longrightarrow>
    attempt_step uuid d (put (attempt_slot (na_handle a)) (attempt_row (a\<lparr>na_fetchStarted := True\<rparr>) revision) d)"
| admitted: "list_all (\<lambda>e. billing_identity (attempt_in e) \<noteq> billing_identity a) d \<Longrightarrow>
    attempt_step (Some (na_handle a)) d (put (attempt_slot (na_handle a)) (attempt_row a revision) d)"

lemma stored_slot:
  assumes "attempts_sound d" "e \<in> set d"
  shows "fst e = attempt_slot (na_handle (attempt_in e))" "sr_value (snd e) = attempt_js (attempt_in e)" "sr_scope (snd e) = Some (na_keyId (attempt_in e))"
    "sr_expires_at_ms (snd e) = None" "attempt_of_js (sr_value (snd e)) = Inr (attempt_in e)"
proof -
  have "attempt_stored e" using assms by (auto simp: attempts_sound_def list_all_iff)
  then have e: "e = (attempt_slot (na_handle (attempt_in e)), attempt_row (attempt_in e) (sr_revision (snd e)))"
    by (simp only: attempt_stored_def)
  show "fst e = attempt_slot (na_handle (attempt_in e))" using arg_cong [OF e, of fst] by simp
  have row: "snd e = attempt_row (attempt_in e) (sr_revision (snd e))" using arg_cong [OF e, of snd] by simp
  show stored: "sr_value (snd e) = attempt_js (attempt_in e)" using arg_cong [OF row, of sr_value] by (simp add: attempt_row_def)
  show "sr_scope (snd e) = Some (na_keyId (attempt_in e))" using arg_cong [OF row, of sr_scope] by (simp add: attempt_row_def)
  show "sr_expires_at_ms (snd e) = None" using arg_cong [OF row, of sr_expires_at_ms] by (simp add: attempt_row_def)
  show "attempt_of_js (sr_value (snd e)) = Inr (attempt_in e)" by (subst stored) simp
qed

lemma identity_unique:
  assumes "attempts_sound d" "e \<in> set d" "e' \<in> set d" "billing_identity (attempt_in e) = billing_identity (attempt_in e')"
  shows "e = e'"
  using assms by (auto simp: attempts_sound_def distinct_map dest: inj_onD)

lemma step_sound:
  assumes "attempt_step uuid d d'" "attempts_sound d"
  shows "attempts_sound d'"
  using assms
proof cases
  case (started e a revision)
  have "billing_identity (attempt_in x) \<noteq> billing_identity (a\<lparr>na_fetchStarted := True\<rparr>)"
    if "x \<in> set d" "fst x \<noteq> attempt_slot (na_handle (a\<lparr>na_fetchStarted := True\<rparr>))" for x
    using that identity_unique [OF assms(2), of x e] stored_slot(1) [OF assms(2), of e] started by (auto simp: billing_identity_def)
  from put_sound [OF assms(2) this] started show ?thesis by simp
next
  case (admitted a revision)
  then show ?thesis using put_sound [OF assms(2), of a] by (auto simp: list_all_iff)
qed simp

text \<open>The attempt of a handle stays the attempt of its billing identity, and a fetch that started stays started.\<close>

definition holds_attempt :: "sql_row dict \<Rightarrow> string \<Rightarrow> (native_attempt \<Rightarrow> bool) \<Rightarrow> bool" where
  "holds_attempt d handle P \<longleftrightarrow> (\<exists>e \<in> set d. na_handle (attempt_in e) = handle \<and> P (attempt_in e))"

lemma step_holds:
  assumes "attempt_step uuid d d'" "attempts_sound d" "holds_attempt d handle P" "uuid \<noteq> Some handle"
    and "\<And>a. P a \<Longrightarrow> P (a\<lparr>na_fetchStarted := True\<rparr>)"
  shows "holds_attempt d' handle P"
proof -
  have keys: "distinct (map fst d)" using assms(2) by (simp add: attempts_sound_def)
  obtain x where x: "x \<in> set d" "na_handle (attempt_in x) = handle" "P (attempt_in x)" using assms(3) by (auto simp: holds_attempt_def)
  have slot: "fst x = attempt_slot handle" using stored_slot(1) [OF assms(2) x(1)] x(2) by simp
  from assms(1) show ?thesis
  proof cases
    case (started e a revision)
    show ?thesis
    proof (cases "na_handle a = handle")
      case True
      then have "fst e = fst x" using started slot stored_slot(1) [OF assms(2), of e] by simp
      then have "e = x" using started x keys by (auto simp: distinct_map dest: inj_onD)
      then have "P a" using x started by simp
      from assms(5) [OF this] True started show ?thesis by (auto simp: holds_attempt_def set_put_distinct [OF keys])
    next
      case False
      then have "fst x \<noteq> attempt_slot (na_handle a)" using slot attempt_slot_inj by auto
      then have "x \<in> set d'" using x started by (simp add: set_put_distinct [OF keys])
      with x show ?thesis unfolding holds_attempt_def by blast
    qed
  next
    case (admitted a revision)
    then have "fst x \<noteq> attempt_slot (na_handle a)" using slot attempt_slot_inj assms(4) by auto
    then have "x \<in> set d'" using x admitted by (simp add: set_put_distinct [OF keys])
    with x show ?thesis unfolding holds_attempt_def by blast
  qed (use assms(3) in simp)
qed

section \<open>Every call is a step\<close>

lemma saveAttempt_rows:
  assumes "saveAttempt a s = Inr (x, t)"
  shows "\<exists>revision. attempts t = put (attempt_slot (na_handle a)) (attempt_row a revision) (attempts s)"
  using assms unfolding saveAttempt_def sql_write_iff by (auto simp: attempt_slot_def attempt_row_def)

lemma paid_attempt_found:
  assumes "paid_attempt cap handle now s = Inr (a, u)"
  obtains e where "e \<in> set (attempts s)" "attempt_in e = a" "fst e = attempt_slot handle" "u = s"
proof -
  from assms obtain r where r: "row_at s Attempt_lifetime [KText handle] now = Inr r" "attempt_of_js (nr_value r) = Inr a"
    unfolding paid_attempt_def Let_def by (auto simp: nbind_iff sql_read_row)
  have "attempt_of_js JNull \<noteq> Inr a" by (simp add: attempt_of_js_def typed_def require_def js_get_def field_def)
  with r obtain row where "map_of (attempts s) (nativeKey [KText handle]) = Some row" "sr_value row = nr_value r"
    by (auto simp: row_at_def live_row_def row_read_def absent_read_def rbind_Inr_iff split: option.splits if_splits)
  then show ?thesis using r(2) keepsD [OF keeps_row_reads(5) [of "\<lambda>s. s"] assms]
    by (intro that [of "(nativeKey [KText handle], row)"]) (auto simp: attempt_in_def attempt_slot_def dest: map_of_SomeD)
qed

lemma save_started_rows:
  assumes "save_started cap a now s = Inr (x, t)"
  shows "\<exists>revision. attempts t = put (attempt_slot (na_handle a)) (attempt_row (a\<lparr>na_fetchStarted := True\<rparr>) revision) (attempts s)"
proof -
  have "\<exists>y u. saveAttempt (a\<lparr>na_fetchStarted := True\<rparr>) s = Inr (y, u) \<and> attempts t = attempts u"
    by (rule nbind_after [OF assms [unfolded save_started_def]]) (intro keeps)
  then show ?thesis using saveAttempt_rows by fastforce
qed

lemma apply_lifecycle_rows:
  assumes "apply_lifecycle cap a keyId hop current args now s = Inr (r, t)"
  shows "if la_fetchStarted args
    then \<exists>revision. attempts t = put (attempt_slot (na_handle a)) (attempt_row (a\<lparr>na_fetchStarted := True\<rparr>) revision) (attempts s)
    else attempts t = attempts s"
proof -
  have "\<exists>u x v. attempts u = attempts s \<and> (if la_fetchStarted args then save_started cap a now else nreturn ()) u = Inr (x, v) \<and>
      attempts t = attempts v"
    by (rule nbind_middle [OF assms [unfolded apply_lifecycle_def Let_def]]) (intro keeps)+
  then obtain u v x where uv: "attempts u = attempts s" "(if la_fetchStarted args then save_started cap a now else nreturn ()) u = Inr (x, v)"
    "attempts t = attempts v" by blast
  then show ?thesis using save_started_rows [of cap a now u x v] by (auto split: if_splits)
qed

lemma lifecycle_step:
  assumes "paid_lifecycle cap handle args now s = Inr (r, t)"
  shows "attempt_step None (attempts s) (attempts t)"
proof -
  have fetch: "reads_only (assertFetchStart cap a started now)" for a started
    unfolding assertFetchStart_def by (intro keeps)
  from assms obtain a hop entry where a: "paid_attempt cap handle now s = Inr (a, s)"
    and rest: "(case entry of None \<Rightarrow> nreturn (paid_answer ''missing'' JUndef)
      | Some current \<Rightarrow> nbind (nlift (nativeApiKeyId cap)) (\<lambda>keyId. apply_lifecycle cap a keyId hop current args now)) s = Inr (r, t)"
    unfolding paid_lifecycle_def by (blast dest!: nbind_read intro: keeps fetch)
  obtain e where e: "e \<in> set (attempts s)" "attempt_in e = a" using paid_attempt_found [OF a] by metis
  show ?thesis
  proof (cases entry)
    case None
    with rest show ?thesis by (simp add: unchanged)
  next
    case (Some current)
    with rest obtain keyId where "apply_lifecycle cap a keyId hop current args now s = Inr (r, t)" by (auto simp: nbind_iff)
    from apply_lifecycle_rows [OF this] show ?thesis using started [OF e(1) e(2) [symmetric]]
      by (auto simp: unchanged split: if_splits)
  qed
qed

section \<open>Reservation\<close>

lemma matches_iff:
  assumes "attempts_sound d" "e \<in> set d"
  shows "attempt_matches keyId billingId now e \<longleftrightarrow> billing_identity (attempt_in e) = (keyId, billingId)"
proof -
  have "js_get (attempt_js a) ''billingRequestId'' = JStr (na_billingRequestId a)" for a by (simp add: attempt_js_def)
  then show ?thesis using stored_slot [OF assms] by (simp add: attempt_matches_def row_live_def billing_identity_def)
qed

lemma stored_read:
  assumes "attempts_sound (attempts s)" "e \<in> set (attempts s)"
  shows "read_row Attempt_lifetime attempt_of_js [KText (na_handle (attempt_in e))] now s = Inr (Some (attempt_in e), s)"
proof -
  have entry: "map_of (attempts s) (nativeKey [KText (na_handle (attempt_in e))]) = Some (snd e)"
    using assms stored_slot(1) [OF assms] by (cases e) (auto simp: attempts_sound_def attempt_slot_def)
  have object: "nativeObject (attempt_js a) \<and> attempt_js a \<noteq> JNull" for a by (simp add: attempt_js_def nativeObject_def)
  show ?thesis using entry stored_slot [OF assms] object
    by (simp add: read_row_def nbind_def nreturn_def sql_read_row row_at_def live_row_def row_live_def row_read_def row_expiry_ok_def ensure_def)
qed

lemma paidAttempt_sound:
  assumes "attempts_sound (attempts s)" "paidAttempt keyId billingId now s = Inr (prior, u)"
  shows "case prior of None \<Rightarrow> list_all (\<lambda>e. billing_identity (attempt_in e) \<noteq> (keyId, billingId)) (attempts s)
    | Some a \<Rightarrow> billing_identity a = (keyId, billingId) \<and> (\<exists>e \<in> set (attempts s). attempt_in e = a)"
proof (cases "filter (attempt_matches keyId billingId now) (attempts s)")
  case Nil
  then have "prior = None" using assms(2) by (simp add: paidAttempt_def)
  with Nil show ?thesis using matches_iff [OF assms(1)] by (auto simp: filter_empty_conv list_all_iff)
next
  case (Cons e es)
  with assms(2) have single: "filter (attempt_matches keyId billingId now) (attempts s) = [e]"
    by (cases es) (auto simp: paidAttempt_def)
  then have e: "e \<in> set (attempts s)" "attempt_matches keyId billingId now e" by (auto dest: filter_eq_ConsD)
  have handle: "js_text (js_get (attempt_js a) ''handle'') = Some (na_handle a)" for a by (simp add: attempt_js_def)
  have "prior = Some (attempt_in e)"
    using assms(2) single stored_slot(2) [OF assms(1) e(1)] stored_read [OF assms(1) e(1)] handle by (simp add: paidAttempt_def)
  with e matches_iff [OF assms(1) e(1)] show ?thesis by auto
qed

text \<open>What a prior attempt says: either there is none of this identity, or it is stored and its request row is too.\<close>

definition prior_known :: "sql_store \<Rightarrow> string \<Rightarrow> string \<Rightarrow> int \<Rightarrow> native_attempt option \<Rightarrow> bool" where
  "prior_known s keyId billingId now prior \<longleftrightarrow>
     (case prior of None \<Rightarrow> list_all (\<lambda>e. billing_identity (attempt_in e) \<noteq> (keyId, billingId)) (attempts s)
      | Some a \<Rightarrow> billing_identity a = (keyId, billingId) \<and> (\<exists>e \<in> set (attempts s). attempt_in e = a) \<and>
          (\<exists>r. row_at s Paid_request (paidFallbackRequestV3Key keyId billingId) now = Inr r \<and> nr_value r \<noteq> JNull))"

lemma paid_prior_known:
  assumes "attempts_sound (attempts s)" "paid_prior request keyId hopId billingId now s = Inr ((prior, None), u)"
  shows "prior_known s keyId billingId now prior"
proof -
  from assms(2) obtain x v where x: "paidAttempt keyId billingId now s = Inr (x, v)"
    unfolding paid_prior_def nbind_iff [of "paidAttempt _ _ _"] by blast
  with assms(2) have "prior = x" by (cases x) (auto simp: paid_prior_def nbind_iff split: if_splits)
  with x have v: "paidAttempt keyId billingId now s = Inr (prior, v)" by simp
  have v_store: "v = s" using keepsD [OF keeps_lookup [of "\<lambda>s. s"] v] .
  show ?thesis
  proof (cases prior)
    case (Some a)
    with assms(2) v v_store have "\<exists>r. row_at s Paid_request (paidFallbackRequestV3Key (na_keyId a) (na_billingRequestId a)) now = Inr r \<and> nr_value r \<noteq> JNull"
      by (auto simp: paid_prior_def nbind_iff sql_read_row split: if_splits)
    with paidAttempt_sound [OF assms(1) v] Some show ?thesis by (auto simp: prior_known_def billing_identity_def)
  qed (use paidAttempt_sound [OF assms(1) v] in \<open>simp add: prior_known_def\<close>)
qed

definition same_admission :: "native_attempt \<Rightarrow> paid_reply \<Rightarrow> bool" where
  "same_admission a r \<longleftrightarrow> rp_kind r = ''reserved'' \<and> rp_attemptHandle r = JStr (na_handle a) \<and>
     js_get (rp_detail r) ''key_id'' = JStr (na_keyId a) \<and> js_get (rp_detail r) ''request_id'' = JStr (na_billingRequestId a)"

definition reserve_effect :: "string \<Rightarrow> sql_store \<Rightarrow> paid_reply \<Rightarrow> sql_store \<Rightarrow> bool" where
  "reserve_effect uuid s r t \<longleftrightarrow>
     rp_kind r \<noteq> ''reserved'' \<and> attempts t = attempts s \<or>
     (\<exists>e. e \<in> set (attempts s) \<and> same_admission (attempt_in e) r \<and> t = s) \<or>
     (\<exists>a revision. same_admission a r \<and> na_handle a = uuid \<and>
        list_all (\<lambda>e. billing_identity (attempt_in e) \<noteq> billing_identity a) (attempts s) \<and>
        attempts t = put (attempt_slot uuid) (attempt_row a revision) (attempts s))"

lemma reserved_same:
  "same_admission a (reserved_answer handle reservation) \<longleftrightarrow>
     na_handle a = handle \<and> na_keyId a = pa_key_id reservation \<and> na_billingRequestId a = pa_request_id reservation"
  by (auto simp: same_admission_def reserved_answer_def paid_answer_def admission_js_def reply_def native_reply.defs)

lemma effect_again: "e \<in> set (attempts s) \<Longrightarrow> same_admission (attempt_in e) r \<Longrightarrow> reserve_effect uuid s r s"
  unfolding reserve_effect_def by blast

lemma effect_new:
  "same_admission a r \<Longrightarrow> na_handle a = uuid \<Longrightarrow> list_all (\<lambda>e. billing_identity (attempt_in e) \<noteq> billing_identity a) (attempts s) \<Longrightarrow>
     attempts t = put (attempt_slot uuid) (attempt_row a revision) (attempts s) \<Longrightarrow> reserve_effect uuid s r t"
  unfolding reserve_effect_def by blast

lemma effect_none: "paid_answer kind detail = r \<Longrightarrow> kind \<noteq> ''reserved'' \<Longrightarrow> attempts t = attempts s \<Longrightarrow> reserve_effect uuid s r t"
  by (auto simp: reserve_effect_def paid_answer_def reply_def native_reply.defs)

lemma blocked_effect: "blocked_by detail s = Inr (r, t) \<Longrightarrow> reserve_effect uuid s r t"
  by (simp add: blocked_by_def reserve_effect_def paid_answer_def reply_def native_reply.defs)

lemma admission_plan:
  "planPaidFallbackAdmissionV3 input snapshot policy now = PaidReserved reservation \<Longrightarrow>
     pa_key_id reservation = pi_keyId input \<and> pa_request_id reservation = pi_requestId input"
  "planPaidFallbackAdmissionV3 input snapshot policy now = PaidWrite plan \<Longrightarrow>
     ps_request snapshot = None \<and> pa_key_id (wr_reservation plan) = pi_keyId input \<and> pa_request_id (wr_reservation plan) = pi_requestId input"
  by (auto simp: planPaidFallbackAdmissionV3_def existingReservationV3_def buildPaidFallbackAdmissionPlanV3_def Let_def
        split: if_splits option.splits)

lemma paid_snapshot_request:
  assumes "admission_snapshot input revision now s = Inr (snapshot, u)" "ps_request snapshot = None"
    "row_at s Paid_request (paidFallbackRequestV3Key (pi_keyId input) (pi_requestId input)) now = Inr r"
  shows "nr_value r = JNull"
  using assms by (auto simp: admission_snapshot_def nbind_iff read_paid_request_def read_row_def sql_read_row split: if_splits)

lemma write_admission_effect:
  assumes "write_admission cap request input hopId plan uuid now s = Inr (r, t)"
  obtains a revision where "r = reserved_answer uuid (wr_reservation plan)" "na_handle a = uuid" "billing_identity a = (pi_keyId input, pi_requestId input)"
    "attempts t = put (attempt_slot uuid) (attempt_row a revision) (attempts s)"
proof -
  from assms obtain x1 u1 x2 u2 x3 u3 x4 u4 handle u5 x6 where
    u1: "write_paid_request (paidFallbackRequestV3Key (pi_keyId input) (pi_requestId input)) (wr_request plan) (now + wr_requestExpireIn plan) s = Inr (x1, u1)"
    and u2: "write_paid_pending (pi_keyId input) (pi_requestId input) (wr_pending plan) u1 = Inr (x2, u2)"
    and u3: "(if wr_checkGate plan then arm_gate now else nreturn ()) u2 = Inr (x3, u3)"
    and u4: "(case (wr_window plan, wr_windowExpireIn plan) of
              (Some w, Some expireIn) \<Rightarrow> write_paid_window (pi_keyId input) (pi_windowResetAtMs input) w (now + expireIn)
            | _ \<Rightarrow> nreturn ()) u3 = Inr (x4, u4)"
    and u5: "row_text request ''handle'' u4 = Inr (handle, u5)"
    and save: "saveAttempt \<lparr>na_handle = uuid, na_runtimeBindingId = nc_id cap, na_requestHandle = handle, na_principalId = nc_principalId cap,
               na_keyId = pi_keyId input, na_hopId = hopId, na_billingRequestId = pi_requestId input,
               na_windowResetAtMs = pi_windowResetAtMs input, na_fetchStarted = False\<rparr> u5 = Inr (x6, t)"
    and r: "r = reserved_answer uuid (wr_reservation plan)"
    unfolding write_admission_def nbind_iff nreturn_iff by blast
  have window: "keeps_attempts (case (wr_window plan, wr_windowExpireIn plan) of
      (Some w, Some expireIn) \<Rightarrow> write_paid_window (pi_keyId input) (pi_windowResetAtMs input) w (now + expireIn) | _ \<Rightarrow> nreturn ())"
    by (intro keeps)
  have "attempts u5 = attempts s"
    using keepsD [OF keeps_ledger_writes(1) u1] keepsD [OF keeps_ledger_writes(3) u2]
      keepsD [OF keeps_if [OF keeps_ledger_writes(5) keeps_basic(1)] u3] keepsD [OF window u4] keepsD [OF keeps_reads(3) u5, of attempts] by simp
  with saveAttempt_rows [OF save] r show ?thesis by (auto simp: billing_identity_def intro!: that)
qed

lemma admit_effect:
  assumes "prior_known s (pi_keyId input) (pi_requestId input) now prior"
    and "admit_attempt cap request input hopId prior revision uuid now s = Inr (r, t)"
  shows "reserve_effect uuid s r t"
proof (cases "isInvalidAdmissionPolicy input (pi_limitMicrocredits input = - 1) (pi_maximumExposureMicrocredits input)")
  case True
  with assms(2) show ?thesis by (simp add: admit_attempt_def blocked_effect)
next
  case False
  let ?policy = "\<lparr>ay_unlimited = pi_limitMicrocredits input = - 1, ay_maximumExposure = pi_maximumExposureMicrocredits input\<rparr>"
  from assms(2) False obtain snapshot where snapshot: "admission_snapshot input revision now s = Inr (snapshot, s)"
    and rest: "(case planPaidFallbackAdmissionV3 input snapshot ?policy now of
        PaidExhausted w expireIn checks \<Rightarrow>
          nbind (write_paid_window (pi_keyId input) (pi_windowResetAtMs input) w (now + expireIn)) (\<lambda>_. blocked_by ''limit_exceeded'')
      | PaidBlocked reason \<Rightarrow> blocked_by (blocked_text reason)
      | PaidReserved reservation \<Rightarrow>
          (case prior of None \<Rightarrow> nfail (NativeAuthorityError ''paid_attempt_lifetime_missing'' 503)
           | Some a \<Rightarrow> nreturn (reserved_answer (na_handle a) reservation))
      | PaidWrite plan \<Rightarrow> write_admission cap request input hopId plan uuid now) s = Inr (r, t)"
    unfolding admit_attempt_def Let_def by (auto dest!: nbind_read intro: keeps)
  show ?thesis
  proof (cases "planPaidFallbackAdmissionV3 input snapshot ?policy now")
    case (PaidBlocked reason)
    with rest show ?thesis by (simp add: blocked_effect)
  next
    case (PaidReserved reservation)
    then obtain a where a: "prior = Some a" "r = reserved_answer (na_handle a) reservation" "t = s" using rest by (cases prior) auto
    with assms(1) obtain e where "e \<in> set (attempts s)" "attempt_in e = a" "billing_identity a = (pi_keyId input, pi_requestId input)"
      by (auto simp: prior_known_def)
    with a admission_plan(1) [OF PaidReserved] show ?thesis using effect_again [of e s r uuid] by (simp add: reserved_same billing_identity_def)
  next
    case (PaidExhausted w expireIn checks)
    with rest obtain u where u: "write_paid_window (pi_keyId input) (pi_windowResetAtMs input) w (now + expireIn) s = Inr ((), u)"
      "blocked_by ''limit_exceeded'' u = Inr (r, t)" by (auto simp: nbind_iff)
    from blocked_effect [OF u(2)] keepsD [OF keeps_ledger_writes(2) u(1)] u(2) show ?thesis
      by (simp add: reserve_effect_def blocked_by_def paid_answer_def reply_def native_reply.defs)
  next
    case (PaidWrite plan)
    then have written: "write_admission cap request input hopId plan uuid now s = Inr (r, t)" using rest by simp
    obtain a revision where a: "r = reserved_answer uuid (wr_reservation plan)" "na_handle a = uuid"
      "billing_identity a = (pi_keyId input, pi_requestId input)" "attempts t = put (attempt_slot uuid) (attempt_row a revision) (attempts s)"
      using write_admission_effect [OF written] by metis
    have plan: "ps_request snapshot = None" "pa_key_id (wr_reservation plan) = pi_keyId input" "pa_request_id (wr_reservation plan) = pi_requestId input"
      using admission_plan(2) [OF PaidWrite] by simp_all
    have "prior = None" using assms(1) paid_snapshot_request [OF snapshot plan(1)] by (cases prior) (auto simp: prior_known_def)
    with assms(1) have "list_all (\<lambda>e. billing_identity (attempt_in e) \<noteq> billing_identity a) (attempts s)" using a by (simp add: prior_known_def)
    from effect_new [OF _ a(2) this a(4)] show ?thesis using a plan by (simp add: reserved_same billing_identity_def)
  qed
qed

lemma admission_input_identity:
  "admission_input request keyId billingId model api terms s = Inr (input, u) \<Longrightarrow> pi_keyId input = keyId \<and> pi_requestId input = billingId"
  by (auto simp: admission_input_def nbind_iff)

lemma priced_effect:
  assumes "attempts_sound (attempts s)" "reserve_priced cap request hop keyId model api terms revision uuid now s = Inr (r, t)"
  shows "reserve_effect uuid s r t"
proof -
  from assms(2) obtain requestId prior blocked where prior: "paid_prior request keyId (ph_id hop) (billing_request_id requestId hop) now s = Inr ((prior, blocked), s)"
    and rest: "(case blocked of Some reason \<Rightarrow> blocked_by reason
      | None \<Rightarrow> nbind (admission_input request keyId (billing_request_id requestId hop) model api terms) (\<lambda>input.
          admit_attempt cap request input (ph_id hop) prior revision uuid now)) s = Inr (r, t)"
    unfolding reserve_priced_def Let_def by (auto dest!: nbind_read intro: keeps)
  show ?thesis
  proof (cases blocked)
    case None
    with rest obtain input where input: "admission_input request keyId (billing_request_id requestId hop) model api terms s = Inr (input, s)"
      "admit_attempt cap request input (ph_id hop) prior revision uuid now s = Inr (r, t)"
      by (auto dest!: nbind_read intro: keeps)
    with paid_prior_known [OF assms(1) prior [unfolded None]] admission_input_identity [OF input(1)]
    show ?thesis by (intro admit_effect) simp_all
  qed (use rest blocked_effect in simp)
qed

lemma authorized_effect:
  assumes "attempts_sound (attempts s)" "reserve_authorized cap request hop model uuid now s = Inr (r, t)"
  shows "reserve_effect uuid s r t"
proof -
  from assms(2) obtain source where rest: "(case (source, nc_keyId cap, nc_tokenHash cap) of
       (Some (row, api), Some keyId, Some tokenHash) \<Rightarrow>
         nbind (sql_read Api_policy (apiKeyHashKey tokenHash) now) (\<lambda>r.
         nbind (nlift (terms_of_js (js_get row ''paid''))) (\<lambda>terms.
         if \<not> model_priced request api terms model then nreturn (paid_answer ''skip'' (JStr ''model_not_priced''))
         else reserve_priced cap request hop keyId model api terms (nr_revision r) uuid now))
     | _ \<Rightarrow> blocked_by ''invalid_policy'') s = Inr (r, t)"
    unfolding reserve_authorized_def by (blast dest!: nbind_read intro: keeps)
  show ?thesis
  proof (cases "source = None \<or> nc_keyId cap = None \<or> nc_tokenHash cap = None")
    case True
    with rest have "blocked_by ''invalid_policy'' s = Inr (r, t)" by (auto split: option.splits)
    then show ?thesis by (rule blocked_effect)
  next
    case False
    then obtain row api keyId tokenHash where some: "source = Some (row, api)" "nc_keyId cap = Some keyId" "nc_tokenHash cap = Some tokenHash" by auto
    obtain read :: native_read where "nbind (nlift (terms_of_js (js_get row ''paid''))) (\<lambda>terms.
         if \<not> model_priced request api terms model then nreturn (paid_answer ''skip'' (JStr ''model_not_priced''))
         else reserve_priced cap request hop keyId model api terms (nr_revision read) uuid now) s = Inr (r, t)"
      using nbind_read [OF rest [unfolded some prod.case option.case] keeps_basic(5)] by blast
    from nbind_read [OF this keeps_basic(4)] obtain terms where "(if \<not> model_priced request api terms model
         then nreturn (paid_answer ''skip'' (JStr ''model_not_priced''))
         else reserve_priced cap request hop keyId model api terms (nr_revision read) uuid now) s = Inr (r, t)" by blast
    then show ?thesis using priced_effect [OF assms(1)] by (auto intro: effect_none split: if_splits)
  qed
qed

lemma reserve_cases:
  assumes "attempts_sound (attempts s)" "paid_reserve cap handle hopId uuid now s = Inr (r, t)"
  shows "reserve_effect uuid s r t"
proof -
  from assms(2) obtain request hop routed where rest: "(case routed of
       None \<Rightarrow> blocked_by ''request_hop_not_authorized''
     | Some model \<Rightarrow>
         nbind (if ph_authorization hop = HopCodexUnavailable then fallbackAllowed request now else nreturn True) (\<lambda>allowed.
         if \<not> allowed then blocked_by ''subscriptions_not_authoritatively_unavailable''
         else reserve_authorized cap request hop model uuid now)) s = Inr (r, t)"
    unfolding paid_reserve_def by (blast dest!: nbind_read intro: keeps)
  show ?thesis
  proof (cases routed)
    case (Some model)
    have gate: "reads_only (if b then fallbackAllowed request now else nreturn True)" for b by (intro keeps)
    from nbind_read [OF rest [unfolded Some option.case] gate]
    show ?thesis using authorized_effect [OF assms(1)] blocked_effect by (auto split: if_splits)
  qed (use rest blocked_effect in simp)
qed

lemma reserve_step:
  assumes "attempts_sound (attempts s)" "paid_reserve cap handle hopId uuid now s = Inr (r, t)"
  shows "attempt_step (Some uuid) (attempts s) (attempts t)"
  using reserve_cases [OF assms] unfolding reserve_effect_def by (auto intro: unchanged dest: admitted)

lemma start_step:
  assumes "paid_start cap handle provider attempt now s = Inr (x, t)"
  shows "attempt_step None (attempts s) (attempts t)"
proof -
  have check: "reads_only (assertStart cap handle provider attempt now)"
    unfolding assertStart_def paid_response_def by (intro keeps)
  from nbind_read [OF assms [unfolded paid_start_def] check] show ?thesis
    by (auto simp: nbind_iff unchanged dest!: lifecycle_step split: option.splits)
qed

lemma kept_step: "keeps_attempts m \<Longrightarrow> m s = Inr (r, t) \<Longrightarrow> attempt_step uuid (attempts s) (attempts t)"
  using keepsD [of attempts m s r t] unchanged [of uuid "attempts s"] by simp

lemma execute_step:
  assumes "attempts_sound (attempts s)" "paid_execute call now s = Inr (r, t)"
  shows "attempt_step (drawn call) (attempts s) (attempts t)"
proof (cases call)
  case (ReservePaid cap handle hopId uuid)
  then show ?thesis using assms reserve_step by simp
next
  case (StartPaid cap handle provider attempt)
  then show ?thesis using assms(2) by (auto simp: unanswered_def nbind_iff dest!: start_step)
next
  case (LifecyclePaid cap attempt args)
  then show ?thesis using assms(2) by (simp add: lifecycle_step)
next
  case (ReleasePaid cap attempt)
  then show ?thesis using assms(2) kept_step [OF keeps_release] by simp
next
  case (DeferPaid cap attempt)
  then show ?thesis using assms(2) kept_step [OF keeps_billing(1)] by simp
next
  case (BillingPaid cap attempt providerLog cost)
  then show ?thesis using assms(2) kept_step [OF keeps_billing(2)] by simp
next
  case (ClaimPaid cap cursor limit token uuid)
  then show ?thesis using assms(2) kept_step [OF keeps_claim(1)] by simp
next
  case (FinishPaid cap token)
  then show ?thesis using assms(2) kept_step [OF keeps_claim(2)] by simp
next
  case (BackfillPaid cap cursor limit token uuid)
  then show ?thesis using assms(2) kept_step [OF keeps_backfill] by simp
next
  case (DeletePaid cap)
  then show ?thesis using assms(2) kept_step [OF keeps_deletion] by simp
qed

section \<open>Runs\<close>

definition draws :: "(paid_call \<times> int) list \<Rightarrow> string list" where
  "draws calls = List.map_filter (\<lambda>c. drawn (fst c)) calls"

lemma after_step:
  assumes "attempts_sound (attempts s)"
  shows "attempt_step (drawn (fst c)) (attempts s) (attempts (paid_after c s))"
  using execute_step [OF assms, of "fst c" "snd c"] unchanged by (auto simp: paid_after_def split: sum.splits)

lemma run_sound: "attempts_sound (attempts s) \<Longrightarrow> attempts_sound (attempts (paid_run calls s))"
  by (induction calls arbitrary: s) (auto simp: paid_run_def dest: step_sound [OF after_step])

lemma run_holds:
  assumes "attempts_sound (attempts s)" "holds_attempt (attempts s) handle P" "handle \<notin> set (draws calls)"
    and "\<And>a. P a \<Longrightarrow> P (a\<lparr>na_fetchStarted := True\<rparr>)"
  shows "holds_attempt (attempts (paid_run calls s)) handle P"
  using assms(1-3)
proof (induction calls arbitrary: s)
  case (Cons c calls)
  have *: "drawn (fst c) \<noteq> Some handle" "handle \<notin> set (draws calls)"
    using Cons.prems(3) by (auto simp: draws_def List.map_filter_def)
  have "holds_attempt (attempts (paid_after c s)) handle P"
    by (rule step_holds [OF after_step [OF Cons.prems(1)] Cons.prems(1,2)]) (use * assms(4) in auto)
  with Cons.IH [OF step_sound [OF after_step [OF Cons.prems(1)] Cons.prems(1)]] * show ?case by (simp add: paid_run_def)
qed (simp add: paid_run_def)

end
