(* ===== verification/Paid_History.thy ===== *)
theory Paid_History
  imports Paid_Runs
begin

text \<open>
  What histories of the paid ledger can and cannot do, on the stored rows: a fetch that started keeps its
  reservation until it is billed, and a billing identity is reserved once.
\<close>

section \<open>A started fetch\<close>

lemma found_handle:
  assumes "attempts_sound (attempts s)" "paid_attempt cap handle now s = Inr (a, u)"
  obtains e where "e \<in> set (attempts s)" "attempt_in e = a" "na_handle a = handle"
proof -
  obtain e where e: "e \<in> set (attempts s)" "attempt_in e = a" "fst e = attempt_slot handle" using paid_attempt_found [OF assms(2)] by metis
  have "na_handle a = handle" using stored_slot(1) [OF assms(1) e(1)] e by (metis attempt_slot_inj)
  with e that show ?thesis by blast
qed

lemma assertStart_found:
  assumes "assertStart cap handle provider (Some (c # cs)) now s = Inr (found, u)"
  obtains a row where "found = Some a" "paid_attempt cap (c # cs) now s = Inr (a, s)" "attempt_paid_request a now s = Inr (Some row, s)"
proof -
  have response: "reads_only (paid_response cap (c # cs) now)" unfolding paid_response_def by (intro keeps)
  from nbind_read [OF _ response] assms obtain a ledger where a: "paid_response cap (c # cs) now s = Inr ((a, ledger), s)"
    and rest: "nbind (nensure (na_requestHandle a = handle \<and> paid_provider_text ledger = provider_text provider)
                  (NativeAuthorityError ''transport_attempt_mismatch'' 403)) (\<lambda>_.
          nbind (attempt_paid_request a now) (\<lambda>row.
          nbind (nensure (case row of None \<Rightarrow> False
                    | Some r \<Rightarrow> fr_billing_state r = BillingPending \<and> fr_terminal_state r = TerminalPending)
                  (NativeAuthorityError ''paid_attempt_not_dispatchable'' 409)) (\<lambda>_.
          nreturn (Some a)))) s = Inr (found, u)"
    unfolding assertStart_def by fastforce
  from nbind_read [OF a [unfolded paid_response_def] keeps_row_reads(5)] obtain b where b: "paid_attempt cap (c # cs) now s = Inr (b, s)"
    "nbind (paid_hop (na_hopId b)) (\<lambda>hop. nreturn (b, ph_ledgerProvider hop)) s = Inr ((a, ledger), s)" by blast
  then have "b = a" by (auto simp: nbind_iff)
  moreover from rest obtain row where "attempt_paid_request a now s = Inr (Some row, s)" "found = Some a"
    using keepsD [OF keeps_row_reads(1) [of "\<lambda>s. s"]] by (auto simp: nbind_iff split: option.splits)
  ultimately show ?thesis using b that by blast
qed

lemma lifecycle_marks:
  assumes "paid_lifecycle cap handle args now s = Inr (r, t)" "paid_attempt cap handle now s = Inr (a, s)"
    "attempt_paid_request a now s = Inr (Some row, s)" "la_fetchStarted args"
  shows "\<exists>revision. attempts t = put (attempt_slot (na_handle a)) (attempt_row (a\<lparr>na_fetchStarted := True\<rparr>) revision) (attempts s)"
proof -
  have fetch: "reads_only (assertFetchStart cap a started now)" for started
    unfolding assertFetchStart_def by (intro keeps)
  from assms(1-3) obtain hop keyId where "apply_lifecycle cap a keyId hop row args now s = Inr (r, t)"
    using keepsD [OF fetch] keepsD [OF keeps_reads(4) [of "\<lambda>s. s"]] unfolding paid_lifecycle_def by (fastforce simp: nbind_iff)
  from apply_lifecycle_rows [OF this] assms(4) show ?thesis by simp
qed

lemma start_marks:
  assumes "attempts_sound (attempts s)" "paid_start cap handle provider (Some attempt) now s = Inr (x, t)" "attempt \<noteq> []"
  shows "holds_attempt (attempts t) attempt na_fetchStarted"
proof -
  have check: "reads_only (assertStart cap handle provider (Some attempt) now)"
    unfolding assertStart_def paid_response_def by (intro keeps)
  from nbind_read [OF assms(2) [unfolded paid_start_def] check] obtain found where
    found: "assertStart cap handle provider (Some attempt) now s = Inr (found, s)"
    and rest: "(case found of None \<Rightarrow> nreturn () | Some a \<Rightarrow> nbind (paid_lifecycle cap (na_handle a) started_args now) (\<lambda>_. nreturn ())) s = Inr (x, t)"
    by blast
  obtain c cs where "attempt = c # cs" using assms(3) by (cases attempt) auto
  with found obtain a row where a: "found = Some a" "paid_attempt cap attempt now s = Inr (a, s)" "attempt_paid_request a now s = Inr (Some row, s)"
    using assertStart_found by metis
  have handle: "na_handle a = attempt" using found_handle [OF assms(1) a(2)] by metis
  from rest a(1) handle obtain r where "paid_lifecycle cap attempt started_args now s = Inr (r, t)" by (auto simp: nbind_iff)
  from lifecycle_marks [OF this a(2,3)] handle show ?thesis
    using assms(1) by (auto simp: started_args_def holds_attempt_def attempts_sound_def set_put_distinct)
qed

lemma release_started:
  assumes "attempts_sound (attempts s)" "holds_attempt (attempts s) attempt na_fetchStarted" "paid_release cap attempt now s = Inr (r, t)"
  shows "rp_kind r = ''unchanged'' \<and> t = s"
proof -
  from assms(3) obtain a original current keyId window gate where a: "paid_attempt cap attempt now s = Inr (a, s)"
    and safe: "\<not> may_have_started a current original"
    and rest: "(case planPaidFallbackReleaseV3 \<lparr>rs_request = current, rs_window = window, rs_gate = gate\<rparr> True now of
       None \<Rightarrow> nreturn (paid_answer ''unchanged'' JUndef)
     | Some plan \<Rightarrow> nbind (applyRelease a plan now) (\<lambda>_. nreturn (paid_answer ''released'' (paid_request_js (re_request plan))))) s = Inr (r, t)"
    unfolding paid_release_def by (blast dest!: nbind_read nensure_iff [THEN iffD1] intro: keeps)
  obtain e where e: "e \<in> set (attempts s)" "attempt_in e = a" "na_handle a = attempt" using found_handle [OF assms(1) a] by metis
  from assms(2) obtain x where x: "x \<in> set (attempts s)" "na_handle (attempt_in x) = attempt" "na_fetchStarted (attempt_in x)"
    by (auto simp: holds_attempt_def)
  have "fst e = fst x" using stored_slot(1) [OF assms(1) e(1)] stored_slot(1) [OF assms(1) x(1)] e x by simp
  then have "e = x" using assms(1) e(1) x(1) by (auto simp: attempts_sound_def distinct_map dest: inj_onD)
  then have "na_fetchStarted a" using e x by simp
  with safe have "planPaidFallbackReleaseV3 \<lparr>rs_request = current, rs_window = window, rs_gate = gate\<rparr> True now = None"
    by (cases current) (auto simp: may_have_started_def planPaidFallbackReleaseV3_def)
  with rest show ?thesis by (auto simp: paid_answer_def reply_def native_reply.defs)
qed

lemma no_attempts_sound: "attempts s = [] \<Longrightarrow> attempts_sound (attempts (paid_run calls s))"
  by (rule run_sound) (simp add: attempts_sound_def)

text \<open>
  A key with a limit of a hundred microcredits, a request of it routed to one paid provider, and a history:
  a reservation and its bill.
\<close>

definition paid_demo_cap :: native_capability where
  "paid_demo_cap = \<lparr>nc_id = ''b'', nc_epoch = ''e'', nc_principalId = ''p'', nc_keyId = Some ''k'', nc_tokenHash = Some ''t'', nc_kernel = None,
     nc_runtimeGrantId = ''g'', nc_contextBinding = ''c'', nc_subjectId = ''s'', nc_principalRefId = None, nc_retainedRequestHandles = None,
     nc_roles = [], nc_revoked = False\<rparr>"

definition paid_demo_hop :: js where
  "paid_demo_hop = JObj [(''id'', JStr ''m''), (''publicProvider'', JStr ''surplus''), (''ledgerProvider'', JStr ''surplus''),
     (''billingCorrelation'', JStr ''surplus_reservation''), (''microcreditsPerCredit'', jint 1000000), (''billingSuffix'', JStr ''m''),
     (''authorization'', JStr ''direct'')]"

definition paid_demo_request :: js where
  "paid_demo_request = JObj [(''handle'', JStr ''h''), (''principalId'', JStr ''p''), (''keyId'', JStr ''k''), (''runtimeBindingId'', JStr ''b''),
     (''requestId'', JStr ''r''), (''route'', JStr ''responses''), (''path'', JStr ''/v1/responses''), (''model'', JStr ''gpt''), (''stream'', JBool False),
     (''reasoning'', JNull), (''metadataBound'', JBool True), (''createdAtMs'', jint 100), (''semantic'', JNull), (''delivery'', JNull),
     (''routingDecision'', JObj [(''hops'', JArr [JObj [(''hopId'', JStr ''m''), (''authorization'', JStr ''direct''), (''billingModel'', JStr ''gpt'')]])])]"

definition paid_demo_policy :: js where
  "paid_demo_policy = JObj [(''api'', JObj [(''key_id'', JStr ''k'')]), (''revoked'', JBool False),
     (''paid'', JObj [(''policyVersion'', JStr ''v1''), (''quotaPerCredit'', jint 500000), (''modelExposure'', JObj [(''gpt'', jint 40)]),
       (''eligibleModels'', JArr [JStr ''gpt'']), (''allowUnrosteredUnlimited'', JBool False)])]"

definition paid_demo_hash :: js where
  "paid_demo_hash = JObj [(''id'', JStr ''k''), (''revoked_at_ms'', JNull), (''expires_at_ms'', jint (- 1)), (''paid_fallback_enabled'', JBool True),
     (''paid_fallback_limit_microcredits'', jint 100), (''paid_fallback_spent_microcredits'', jint 0),
     (''paid_fallback_reserved_microcredits'', jint 0), (''paid_fallback_reservation_request_id'', JNull),
     (''usage_limit_requests'', jint 10), (''window_ms'', jint 500), (''usage_reset_at_ms'', jint 500), (''usage_quota_version'', jint 3)]"

definition paid_demo_row :: "kv_key \<Rightarrow> js \<Rightarrow> sql_row dict" where
  "paid_demo_row key v = [(nativeKey key, \<lparr>sr_key = key, sr_value = v, sr_revision = 1, sr_expires_at_ms = None, sr_scope = None, sr_parent = None, sr_due = None\<rparr>)]"

definition paid_demo_store :: sql_store where
  "paid_demo_store = \<lparr>sq_rows = (\<lambda>t. case t of
      Authority_config \<Rightarrow> paid_demo_row [KText ''config''] (JObj [(''providerHops'', JArr [paid_demo_hop])])
    | Api_policy \<Rightarrow> paid_demo_row (apiKeyHashKey ''t'') paid_demo_policy
    | Api_key_hash \<Rightarrow> paid_demo_row (apiKeyHashKey ''t'') paid_demo_hash
    | Request_lifetime \<Rightarrow> paid_demo_row [KText ''h''] paid_demo_request
    | _ \<Rightarrow> []), sq_sequence = 5\<rparr>"
definition paid_demo_bill :: paid_call where
  "paid_demo_bill = BillingPaid paid_demo_cap ''uuid''
     \<lparr>lg_request_id = ''q'', lg_quota = 10, lg_prompt_tokens = 5, lg_cached_prompt_tokens = None, lg_completion_tokens = 7, lg_created_at = 0\<rparr> (Some 20)"

lemma paid_demo_started:
  "case paid_start paid_demo_cap ''h'' Surplus (Some ''uuid'') 210
       (paid_run [(ReservePaid paid_demo_cap ''h'' ''m'' ''uuid'', 200)] paid_demo_store) of Inl e \<Rightarrow> False
   | Inr (x, t) \<Rightarrow>
       (case paid_release paid_demo_cap ''uuid'' 240 (paid_run [(paid_demo_bill, 230)] t) of Inl e \<Rightarrow> False
        | Inr (r, u) \<Rightarrow> rp_kind r = ''unchanged'')"
  by code_simp

text \<open>
  C35. Once the transport of a paid attempt has started, no release takes its reservation back: whatever the
  paid transactions do in between, a release of the attempt either fails or answers that nothing changed and
  changes nothing. (No reservation in between may draw the attempt's own handle again.)
\<close>

theorem started_fetch_keeps_reservation:
  assumes "sq_rows store Attempt_lifetime = []" and "s = paid_run earlier store"
    and "paid_start cap handle provider (Some attempt) now s = Inr ((), t)" and "attempt \<noteq> []"
    and "attempt \<notin> set (draws calls)"
    and "paid_release cap' attempt now' (paid_run calls t) = Inr (r, u)"
  shows "rp_kind r = ''unchanged'' \<and> u = paid_run calls t"
proof -
  have s: "attempts_sound (attempts s)" using no_attempts_sound [OF assms(1)] assms(2) by simp
  have t: "attempts_sound (attempts t)" by (rule step_sound [OF start_step [OF assms(3)] s])
  have "holds_attempt (attempts (paid_run calls t)) attempt na_fetchStarted"
    by (rule run_holds [OF t start_marks [OF s assms(3,4)] assms(5)]) simp
  from release_started [OF run_sound [OF t] this assms(6)] show ?thesis .
qed

theorem started_fetch_keeps_reservation_witness:
  "\<exists>t r u. paid_start paid_demo_cap ''h'' Surplus (Some ''uuid'') 210
       (paid_run [(ReservePaid paid_demo_cap ''h'' ''m'' ''uuid'', 200)] paid_demo_store) = Inr ((), t) \<and>
     paid_release paid_demo_cap ''uuid'' 240 (paid_run [(paid_demo_bill, 230)] t) = Inr (r, u) \<and>
     rp_kind r = ''unchanged'' \<and> u = paid_run [(paid_demo_bill, 230)] t"
proof -
  obtain t r u where t: "paid_start paid_demo_cap ''h'' Surplus (Some ''uuid'') 210
       (paid_run [(ReservePaid paid_demo_cap ''h'' ''m'' ''uuid'', 200)] paid_demo_store) = Inr ((), t)"
    "paid_release paid_demo_cap ''uuid'' 240 (paid_run [(paid_demo_bill, 230)] t) = Inr (r, u)"
    using paid_demo_started unfolding succeeds by auto
  have "sq_rows paid_demo_store Attempt_lifetime = []" by (simp add: paid_demo_store_def)
  from started_fetch_keeps_reservation [OF this refl t(1) _ _ t(2)] t show ?thesis
    by (simp add: draws_def paid_demo_bill_def List.map_filter_def)
qed

section \<open>A billing identity\<close>

lemma reserve_holds:
  assumes "attempts_sound (attempts s)" "paid_reserve cap handle hopId uuid now s = Inr (r, t)" "rp_kind r = ''reserved''"
  shows "\<exists>a. same_admission a r \<and> holds_attempt (attempts t) (na_handle a) (\<lambda>b. billing_identity b = billing_identity a)"
proof -
  have keys: "distinct (map fst (attempts s))" using assms(1) by (simp add: attempts_sound_def)
  from reserve_cases [OF assms(1,2)] assms(3)
  consider (again) e where "e \<in> set (attempts s)" "same_admission (attempt_in e) r" "t = s"
    | (new) a revision where "same_admission a r" "na_handle a = uuid" "attempts t = put (attempt_slot uuid) (attempt_row a revision) (attempts s)"
    unfolding reserve_effect_def by blast
  then show ?thesis
  proof cases
    case new
    then have "(attempt_slot uuid, attempt_row a revision) \<in> set (attempts t)" by (simp add: set_put_distinct [OF keys])
    with new(1) show ?thesis by (force simp: holds_attempt_def)
  qed (auto simp: holds_attempt_def)
qed

text \<open>
  C36. A billing identity is reserved once: if two reservations of one history succeed for the same key and
  billing request, the second names the attempt of the first and changes nothing, so that a retry cannot
  reserve credits twice.
\<close>

theorem reservation_happens_once:
  assumes "sq_rows store Attempt_lifetime = []" and "s = paid_run earlier store"
    and "paid_reserve cap handle hopId uuid now s = Inr (r, t)" and "rp_kind r = ''reserved''"
    and "list_all (\<lambda>x. rp_attemptHandle r \<noteq> JStr x) (draws calls)"
    and "paid_reserve cap' handle' hopId' uuid' now' (paid_run calls t) = Inr (r', t')" and "rp_kind r' = ''reserved''"
    and "js_get (rp_detail r') ''key_id'' = js_get (rp_detail r) ''key_id''"
    and "js_get (rp_detail r') ''request_id'' = js_get (rp_detail r) ''request_id''"
  shows "rp_attemptHandle r' = rp_attemptHandle r \<and> t' = paid_run calls t"
proof -
  have s: "attempts_sound (attempts s)" using no_attempts_sound [OF assms(1)] assms(2) by simp
  have t: "attempts_sound (attempts t)" by (rule step_sound [OF reserve_step [OF s assms(3)] s])
  obtain a where a: "same_admission a r" "holds_attempt (attempts t) (na_handle a) (\<lambda>b. billing_identity b = billing_identity a)"
    using reserve_holds [OF s assms(3,4)] by blast
  have "holds_attempt (attempts (paid_run calls t)) (na_handle a) (\<lambda>b. billing_identity b = billing_identity a)"
    by (rule run_holds [OF t a(2)]) (use assms(5) a(1) in \<open>auto simp: same_admission_def list_all_iff billing_identity_def\<close>)
  then obtain x where x: "x \<in> set (attempts (paid_run calls t))" "na_handle (attempt_in x) = na_handle a" "billing_identity (attempt_in x) = billing_identity a"
    by (auto simp: holds_attempt_def)
  from reserve_cases [OF run_sound [OF t] assms(6)] assms(7)
  consider (again) e where "e \<in> set (attempts (paid_run calls t))" "same_admission (attempt_in e) r'" "t' = paid_run calls t"
    | (new) b where "same_admission b r'" "list_all (\<lambda>e. billing_identity (attempt_in e) \<noteq> billing_identity b) (attempts (paid_run calls t))"
    unfolding reserve_effect_def by blast
  then show ?thesis
  proof cases
    case again
    then have "billing_identity (attempt_in e) = billing_identity (attempt_in x)"
      using a(1) x(3) assms(8,9) by (simp add: same_admission_def billing_identity_def)
    then have "e = x" using identity_unique [OF run_sound [OF t] again(1) x(1)] by blast
    then show ?thesis using again a(1) x(2) by (simp add: same_admission_def)
  next
    case new
    then have "billing_identity (attempt_in x) = billing_identity b" using a(1) x(3) assms(8,9) by (simp add: same_admission_def billing_identity_def)
    with new(2) x(1) show ?thesis by (simp add: list_all_iff)
  qed
qed

lemma paid_demo_twice:
  "case paid_reserve paid_demo_cap ''h'' ''m'' ''uuid'' 200 paid_demo_store of Inl e \<Rightarrow> False
   | Inr (r, t) \<Rightarrow> rp_kind r = ''reserved'' \<and> rp_attemptHandle r = JStr ''uuid'' \<and>
       (case paid_reserve paid_demo_cap ''h'' ''m'' ''other'' 230 (paid_run [(DeferPaid paid_demo_cap ''uuid'', 220)] t) of Inl e \<Rightarrow> False
        | Inr (r', t') \<Rightarrow> rp_kind r' = ''reserved'' \<and> js_get (rp_detail r') ''key_id'' = js_get (rp_detail r) ''key_id'' \<and>
            js_get (rp_detail r') ''request_id'' = js_get (rp_detail r) ''request_id'')"
  by code_simp

theorem reservation_happens_once_witness:
  "\<exists>r t r' t'. paid_reserve paid_demo_cap ''h'' ''m'' ''uuid'' 200 paid_demo_store = Inr (r, t) \<and>
     paid_reserve paid_demo_cap ''h'' ''m'' ''other'' 230 (paid_run [(DeferPaid paid_demo_cap ''uuid'', 220)] t) = Inr (r', t') \<and>
     rp_attemptHandle r' = JStr ''uuid'' \<and> t' = paid_run [(DeferPaid paid_demo_cap ''uuid'', 220)] t"
proof -
  obtain r t r' t' where
    r: "paid_reserve paid_demo_cap ''h'' ''m'' ''uuid'' 200 paid_demo_store = Inr (r, t)" "rp_kind r = ''reserved''" "rp_attemptHandle r = JStr ''uuid''"
    and r': "paid_reserve paid_demo_cap ''h'' ''m'' ''other'' 230 (paid_run [(DeferPaid paid_demo_cap ''uuid'', 220)] t) = Inr (r', t')"
    "rp_kind r' = ''reserved''" "js_get (rp_detail r') ''key_id'' = js_get (rp_detail r) ''key_id''"
    "js_get (rp_detail r') ''request_id'' = js_get (rp_detail r) ''request_id''"
    using paid_demo_twice unfolding succeeds by blast
  have store: "sq_rows paid_demo_store Attempt_lifetime = []" "paid_demo_store = paid_run [] paid_demo_store"
    by (simp_all add: paid_demo_store_def paid_run_def)
  have "list_all (\<lambda>x. rp_attemptHandle r \<noteq> JStr x) (draws [(DeferPaid paid_demo_cap ''uuid'', 220)])"
    by (simp add: draws_def List.map_filter_def)
  from reservation_happens_once [OF store r(1,2) this r'] r r' show ?thesis by auto
qed

end
