(* ===== verification/Native_Rpc.thy ===== *)
theory Native_Rpc
  imports Native_Paid
begin

text \<open>
  The wire protocol of the native authority (\<^verbatim>\<open>src/src/authority/native-authority-rpc.ts\<close>): the guards
  of the arguments of every method, the role each method needs, the canonical text of a command, which is
  what a receipt stores, and the parsers of commands. A command keeps its arguments as the value the guards
  accepted.
\<close>

section \<open>Guards\<close>

definition rpc_text :: guard where
  "rpc_text v = (case js_text v of None \<Rightarrow> False
     | Some s \<Rightarrow> s \<noteq> [] \<and> length s \<le> 1000 \<and> list_all (\<lambda>c. 32 \<le> (of_char c :: int)) s)"

definition rpc_integer :: guard where
  "rpc_integer v = (case js_int v of None \<Rightarrow> False | Some i \<Rightarrow> 0 \<le> i)"

definition rpc_finite :: guard where
  "rpc_finite v = (case js_finite v of None \<Rightarrow> False | Some q \<Rightarrow> 0 \<le> q)"

definition rpc_optional :: "guard \<Rightarrow> guard" where
  "rpc_optional g v \<longleftrightarrow> v = JUndef \<or> g v"

definition rpc_shape :: "(string \<times> guard) list \<Rightarrow> guard" where
  "rpc_shape shape v =
     (case js_entries v of
        None \<Rightarrow> False
      | Some es \<Rightarrow> list_all (\<lambda>e. fst e \<in> fst ` set shape) es \<and> list_all (\<lambda>(k, g). g (js_get v k)) shape)"

abbreviation rpc_oneOf :: "string list \<Rightarrow> guard" where
  "rpc_oneOf xs \<equiv> g_oneOf (map JStr xs)"

definition rpc_handle :: "(string \<times> guard) list" where
  "rpc_handle = [(''handle'', rpc_text)]"

definition rpc_attempt :: "(string \<times> guard) list" where
  "rpc_attempt = [(''attemptHandle'', rpc_text)]"

definition rpc_limit :: guard where
  "rpc_limit v = (case js_int v of None \<Rightarrow> False | Some i \<Rightarrow> 1 \<le> i \<and> i \<le> 100)"

definition rpc_page :: "(string \<times> guard) list" where
  "rpc_page = [(''cursor'', rpc_optional rpc_text), (''limit'', rpc_limit)]"

definition rpc_terminal :: guard where
  "rpc_terminal = rpc_oneOf [''committed'', ''released'']"

definition rpc_scope :: guard where
  "rpc_scope = rpc_oneOf [''repo'', ''org'']"

definition rpc_signedInteger :: guard where
  "rpc_signedInteger v = (case js_int v of None \<Rightarrow> False | Some i \<Rightarrow> - 1 \<le> i)"

definition rpc_usage :: guard where
  "rpc_usage = rpc_shape [(''input_tokens'', g_nullable rpc_integer), (''cached_input_tokens'', g_nullable rpc_integer),
     (''output_tokens'', g_nullable rpc_integer)]"

definition rpc_headerPair :: guard where
  "rpc_headerPair v = (case js_items v of
       Some [name, content] \<Rightarrow> rpc_text name \<and> (case js_text content of None \<Rightarrow> False | Some s \<Rightarrow> length s \<le> 4000)
     | _ \<Rightarrow> False)"

definition rpc_response :: guard where
  "rpc_response = rpc_shape
     [(''status'', g_oneOf [jint 429]),
      (''headers'', \<lambda>v. case js_items v of None \<Rightarrow> False | Some vs \<Rightarrow> length vs \<le> 64 \<and> list_all rpc_headerPair vs),
      (''body'', \<lambda>v. case js_text v of None \<Rightarrow> False | Some s \<Rightarrow> length s \<le> 48000)]"

definition rpc_provider :: guard where
  "rpc_provider v \<longleftrightarrow> usage_provider_of v \<noteq> None"

section \<open>Methods\<close>

datatype native_method =
    OpenAuthenticatedRequest | ReserveApiUsage | BindValidatedRequestMetadata | RecordTransportStarted | MarkApiDispatch
  | ReleaseApiUndispatched | RecordApiDispatchCancellation | ReserveKernelUsage | RecordKernelTerminalIntent | SettleKernelUsage
  | RenewKernelReservation | ReclaimExpiredKernelReservations | SetKernelQuota | DeleteKernelQuota | AcquireKernelDefaultCutover
  | SelectCodexAccount | RecordCodexAttemptSignal | ReleaseCodexProbe | ElectCodexResetProbe | RefreshCodexAdmission
  | ReservePaidAttempt | RecordPaidAttemptLifecycle | ReleasePaidBeforeFetch | RecordVerifiedPaidBilling | DeferPaidReconciliation
  | ClaimPaidReconciliation | FinishPaidReconciliation | FoldPaidBackfillPage | BeginPaidKeyDeletion | RecordSemanticTerminal
  | RecordDeliveryObservation | ReadRequestStatus

definition NATIVE_METHODS :: "(string \<times> native_method) list" where
  "NATIVE_METHODS =
     [(''openAuthenticatedRequest'', OpenAuthenticatedRequest), (''reserveApiUsage'', ReserveApiUsage),
      (''bindValidatedRequestMetadata'', BindValidatedRequestMetadata), (''recordTransportStarted'', RecordTransportStarted),
      (''markApiDispatch'', MarkApiDispatch), (''releaseApiUndispatched'', ReleaseApiUndispatched),
      (''recordApiDispatchCancellation'', RecordApiDispatchCancellation), (''reserveKernelUsage'', ReserveKernelUsage),
      (''recordKernelTerminalIntent'', RecordKernelTerminalIntent), (''settleKernelUsage'', SettleKernelUsage),
      (''renewKernelReservation'', RenewKernelReservation), (''reclaimExpiredKernelReservations'', ReclaimExpiredKernelReservations),
      (''setKernelQuota'', SetKernelQuota), (''deleteKernelQuota'', DeleteKernelQuota),
      (''acquireKernelDefaultCutover'', AcquireKernelDefaultCutover), (''selectCodexAccount'', SelectCodexAccount),
      (''recordCodexAttemptSignal'', RecordCodexAttemptSignal), (''releaseCodexProbe'', ReleaseCodexProbe),
      (''electCodexResetProbe'', ElectCodexResetProbe), (''refreshCodexAdmission'', RefreshCodexAdmission),
      (''reservePaidAttempt'', ReservePaidAttempt), (''recordPaidAttemptLifecycle'', RecordPaidAttemptLifecycle),
      (''releasePaidBeforeFetch'', ReleasePaidBeforeFetch), (''recordVerifiedPaidBilling'', RecordVerifiedPaidBilling),
      (''deferPaidReconciliation'', DeferPaidReconciliation), (''claimPaidReconciliation'', ClaimPaidReconciliation),
      (''finishPaidReconciliation'', FinishPaidReconciliation), (''foldPaidBackfillPage'', FoldPaidBackfillPage),
      (''beginPaidKeyDeletion'', BeginPaidKeyDeletion), (''recordSemanticTerminal'', RecordSemanticTerminal),
      (''recordDeliveryObservation'', RecordDeliveryObservation), (''readRequestStatus'', ReadRequestStatus)]"

definition native_method_of :: "js \<Rightarrow> native_method option" where
  "native_method_of v = Option.bind (js_text v) (map_of NATIVE_METHODS)"

fun GUARDS :: "native_method \<Rightarrow> guard" where
  "GUARDS OpenAuthenticatedRequest = rpc_shape [(''requestId'', rpc_text), (''route'', rpc_text), (''path'', rpc_text)]"
| "GUARDS ReserveApiUsage = rpc_shape rpc_handle"
| "GUARDS BindValidatedRequestMetadata =
     rpc_shape (rpc_handle @ [(''model'', rpc_text), (''stream'', g_boolean), (''reasoning'', g_nullable rpc_text)])"
| "GUARDS RecordTransportStarted = rpc_shape (rpc_handle @ [(''provider'', rpc_provider), (''attemptHandle'', rpc_optional rpc_text)])"
| "GUARDS MarkApiDispatch = rpc_shape (rpc_handle @ [(''provider'', rpc_provider)])"
| "GUARDS ReleaseApiUndispatched = rpc_shape (rpc_handle @ [(''reason'', rpc_text)])"
| "GUARDS RecordApiDispatchCancellation = rpc_shape rpc_handle"
| "GUARDS ReserveKernelUsage = rpc_shape rpc_handle"
| "GUARDS RecordKernelTerminalIntent = rpc_shape (rpc_handle @ [(''terminalState'', rpc_terminal)])"
| "GUARDS SettleKernelUsage = rpc_shape (rpc_handle @ [(''terminalState'', rpc_terminal), (''reason'', rpc_text)])"
| "GUARDS RenewKernelReservation = rpc_shape rpc_handle"
| "GUARDS ReclaimExpiredKernelReservations = rpc_shape rpc_page"
| "GUARDS SetKernelQuota = rpc_shape [(''scope'', rpc_scope), (''usageLimitRequests'', rpc_signedInteger),
     (''options'', rpc_shape [(''resetUsage'', rpc_optional g_boolean),
        (''windowMs'', rpc_optional (\<lambda>v. case js_int v of None \<Rightarrow> False | Some i \<Rightarrow> 0 < i)),
        (''expiresAtMs'', rpc_optional rpc_signedInteger)])]"
| "GUARDS DeleteKernelQuota = rpc_shape [(''scope'', rpc_scope)]"
| "GUARDS AcquireKernelDefaultCutover = rpc_shape []"
| "GUARDS SelectCodexAccount = rpc_shape rpc_handle"
| "GUARDS RecordCodexAttemptSignal = rpc_shape (rpc_handle @
     [(''signal'', rpc_oneOf [''success'', ''credential_invalid'', ''upstream_timeout'', ''quota'']),
      (''response'', rpc_optional rpc_response), (''recoveryProbe'', rpc_optional g_boolean)])"
| "GUARDS ReleaseCodexProbe = rpc_shape rpc_handle"
| "GUARDS ElectCodexResetProbe = rpc_shape (rpc_handle @ [(''proofId'', rpc_text)])"
| "GUARDS RefreshCodexAdmission = rpc_shape rpc_handle"
| "GUARDS ReservePaidAttempt = rpc_shape (rpc_handle @ [(''hopId'', rpc_text)])"
| "GUARDS RecordPaidAttemptLifecycle = rpc_shape (rpc_attempt @
     [(''patch'', rpc_shape [(''provider_request_id'', rpc_optional (g_nullable rpc_text)),
        (''dispatch_state'', rpc_optional (rpc_oneOf [''reserved'', ''dispatched'', ''not_dispatched''])),
        (''terminal_state'', rpc_optional (rpc_oneOf [''pending'', ''completed'', ''incomplete'', ''failed'', ''cancelled'']))]),
      (''fetchStarted'', rpc_optional (g_oneOf [JBool True]))])"
| "GUARDS ReleasePaidBeforeFetch = rpc_shape rpc_attempt"
| "GUARDS RecordVerifiedPaidBilling = rpc_shape (rpc_attempt @
     [(''log'', rpc_shape [(''request_id'', rpc_text), (''quota'', rpc_finite), (''prompt_tokens'', rpc_integer),
        (''cached_prompt_tokens'', rpc_optional rpc_integer), (''cache_write_prompt_tokens'', rpc_optional rpc_integer),
        (''completion_tokens'', rpc_integer), (''model'', rpc_text), (''created_at'', rpc_finite)]),
      (''surplusBuyerCostMicro'', rpc_optional rpc_integer)])"
| "GUARDS DeferPaidReconciliation = rpc_shape rpc_attempt"
| "GUARDS ClaimPaidReconciliation = rpc_shape rpc_page"
| "GUARDS FinishPaidReconciliation = rpc_shape [(''lease'', rpc_text)]"
| "GUARDS FoldPaidBackfillPage = rpc_shape rpc_page"
| "GUARDS BeginPaidKeyDeletion = rpc_shape []"
| "GUARDS RecordSemanticTerminal = rpc_shape (rpc_handle @
     [(''attemptHandle'', rpc_optional rpc_text), (''outcome'', rpc_oneOf [''completed'', ''incomplete'', ''failed'', ''cancelled'']),
      (''usage'', rpc_optional rpc_usage)])"
| "GUARDS RecordDeliveryObservation =
     rpc_shape (rpc_handle @ [(''observation'', rpc_oneOf [''delivered'', ''interrupted'', ''unobserved''])])"
| "GUARDS ReadRequestStatus = rpc_shape (rpc_handle @ rpc_page)"

fun NATIVE_METHOD_ROLES :: "native_method \<Rightarrow> native_role" where
  "NATIVE_METHOD_ROLES OpenAuthenticatedRequest = Inference"
| "NATIVE_METHOD_ROLES BindValidatedRequestMetadata = Inference"
| "NATIVE_METHOD_ROLES ReserveApiUsage = Inference"
| "NATIVE_METHOD_ROLES RecordTransportStarted = Transport"
| "NATIVE_METHOD_ROLES MarkApiDispatch = Transport"
| "NATIVE_METHOD_ROLES ReleaseApiUndispatched = Transport"
| "NATIVE_METHOD_ROLES RecordApiDispatchCancellation = Transport"
| "NATIVE_METHOD_ROLES ReserveKernelUsage = Inference"
| "NATIVE_METHOD_ROLES RecordKernelTerminalIntent = Terminal"
| "NATIVE_METHOD_ROLES SettleKernelUsage = Terminal"
| "NATIVE_METHOD_ROLES RenewKernelReservation = Terminal"
| "NATIVE_METHOD_ROLES ReclaimExpiredKernelReservations = Reconcile"
| "NATIVE_METHOD_ROLES SetKernelQuota = Quota_admin"
| "NATIVE_METHOD_ROLES DeleteKernelQuota = Quota_admin"
| "NATIVE_METHOD_ROLES AcquireKernelDefaultCutover = Quota_admin"
| "NATIVE_METHOD_ROLES SelectCodexAccount = Inference"
| "NATIVE_METHOD_ROLES RecordCodexAttemptSignal = Transport"
| "NATIVE_METHOD_ROLES ReleaseCodexProbe = Transport"
| "NATIVE_METHOD_ROLES ElectCodexResetProbe = Reset_role"
| "NATIVE_METHOD_ROLES RefreshCodexAdmission = Transport"
| "NATIVE_METHOD_ROLES ReservePaidAttempt = Inference"
| "NATIVE_METHOD_ROLES RecordPaidAttemptLifecycle = Transport"
| "NATIVE_METHOD_ROLES ReleasePaidBeforeFetch = Transport"
| "NATIVE_METHOD_ROLES RecordVerifiedPaidBilling = Billing"
| "NATIVE_METHOD_ROLES DeferPaidReconciliation = Reconcile"
| "NATIVE_METHOD_ROLES ClaimPaidReconciliation = Reconcile"
| "NATIVE_METHOD_ROLES FinishPaidReconciliation = Reconcile"
| "NATIVE_METHOD_ROLES FoldPaidBackfillPage = Reconcile"
| "NATIVE_METHOD_ROLES BeginPaidKeyDeletion = Quota_admin"
| "NATIVE_METHOD_ROLES RecordSemanticTerminal = Terminal"
| "NATIVE_METHOD_ROLES RecordDeliveryObservation = Transport"
| "NATIVE_METHOD_ROLES ReadRequestStatus = Observer"

section \<open>The text of a number\<close>

text \<open>
  \<^verbatim>\<open>Number.prototype.toString\<close> on a finite double: the fewest decimal digits that round to the number,
  written out when its decimal exponent is small and with an exponent otherwise.
\<close>

definition ten_power :: "int \<Rightarrow> rat" where
  "ten_power e = (if 0 \<le> e then 10 ^ nat e else 1 / 10 ^ nat (- e))"

definition decimal_places :: "rat \<Rightarrow> int" where
  "decimal_places q =
     (if 1 \<le> q then int (length (show_int \<lfloor>q\<rfloor>))
      else case find (\<lambda>m. 1 \<le> q * ten_power m) [1..400] of None \<Rightarrow> 0 | Some m \<Rightarrow> 1 - m)"

definition digit_candidates :: "rat \<Rightarrow> int \<Rightarrow> int \<Rightarrow> int list" where
  "digit_candidates q n k =
     (let unit = ten_power (n - k); lo = \<lfloor>q / unit\<rfloor>; near = (if q / unit - of_int lo \<le> 1 / 2 then [lo, lo + 1] else [lo + 1, lo])
      in filter (\<lambda>d. round_double (of_int d * unit) = Fin q) near)"

definition shortest_digits :: "rat \<Rightarrow> int \<Rightarrow> string" where
  "shortest_digits q n =
     (case find (\<lambda>k. digit_candidates q n k \<noteq> []) [1..17] of None \<Rightarrow> [] | Some k \<Rightarrow> show_int (hd (digit_candidates q n k)))"

definition place_digits :: "string \<Rightarrow> int \<Rightarrow> string" where
  "place_digits digits n =
     (let k = int (length digits); e = show_int \<bar>n - 1\<bar>; sign = (if 1 \<le> n then ''e+'' else ''e-'') in
      if k \<le> n \<and> n \<le> 21 then digits @ replicate (nat (n - k)) (CHR ''0'')
      else if 0 < n \<and> n \<le> 21 then take (nat n) digits @ ''.'' @ drop (nat n) digits
      else if - 6 < n \<and> n \<le> 0 then ''0.'' @ replicate (nat (- n)) (CHR ''0'') @ digits
      else if k = 1 then digits @ sign @ e
      else take 1 digits @ ''.'' @ drop 1 digits @ sign @ e)"

definition number_text :: "rat \<Rightarrow> string" where
  "number_text q =
     (if q = 0 then ''0''
      else (if q < 0 then ''-'' else []) @ (let n = decimal_places \<bar>q\<bar> in place_digits (shortest_digits \<bar>q\<bar> n) n))"

section \<open>The canonical text of a command\<close>

text \<open>
  \<^verbatim>\<open>localeCompare\<close> in the root collation, on ASCII: punctuation, digits, letters without regard to case, and
  then small letters before capitals.
\<close>

definition locale_punctuation :: string where
  "locale_punctuation = '' _-,;:!?.'' @ [CHR 0x27, CHR 0x22] @ ''()[]{}@*/'' @ [CHR 0x5C] @ ''&#%'' @ [CHR 0x60] @ ''^+<=>|~$''"

fun place_in :: "string \<Rightarrow> char \<Rightarrow> int" where
  "place_in [] c = of_char c"
| "place_in (d # ds) c = (if c = d then 0 else 1 + place_in ds c)"

definition locale_weight :: "char \<Rightarrow> int \<times> int" where
  "locale_weight c =
     (let n = of_char c in
      if 97 \<le> n \<and> n \<le> 122 then (n, 0)
      else if 65 \<le> n \<and> n \<le> 90 then (n + 32, 1)
      else if 48 \<le> n \<and> n \<le> 57 then (n, 0)
      else if n < 128 then (place_in locale_punctuation c, 0)
      else (n, 0))"

definition locale_key :: "string \<Rightarrow> int list" where
  "locale_key s = (let ws = map locale_weight s in map fst ws @ - 1 # map snd ws)"

definition sorted_entries :: "(string \<times> js) list \<Rightarrow> (string \<times> js) list" where
  "sorted_entries es = map snd (sort_key fst (map (\<lambda>e. (locale_key (fst e), e)) es))"

lemma set_sorted_entries [simp]: "set (sorted_entries es) = set es"
  by (auto simp: sorted_entries_def image_image)

fun canonical :: "js \<Rightarrow> native_error + js" where
  "canonical JNull = Inr JNull"
| "canonical (JStr s) = Inr (JStr s)"
| "canonical (JBool b) = Inr (JBool b)"
| "canonical (JNum (Fin q)) = Inr (JNum (Fin q))"
| "canonical (JArr vs) = rbind (collect (map canonical vs)) (\<lambda>xs. Inr (JArr xs))"
| "canonical (JObj es) =
     rbind (collect (map (\<lambda>e. rbind (canonical (snd e)) (\<lambda>x. Inr (fst e, x))) (sorted_entries es))) (\<lambda>xs. Inr (JObj xs))"
| "canonical _ = Inl (NativeAuthorityError ''invalid_command_value'' 400)"

text \<open>\<^verbatim>\<open>JSON.stringify\<close> of a canonical value, which holds finite numbers only and nothing undefined.\<close>

fun canonical_text :: "js \<Rightarrow> string" where
  "canonical_text (JBool b) = (if b then ''true'' else ''false'')"
| "canonical_text (JNum (Fin q)) = number_text q"
| "canonical_text (JStr s) = json_string s"
| "canonical_text (JArr vs) = CHR ''['' # join (map canonical_text vs) @ '']''"
| "canonical_text (JObj es) = CHR 0x7B # join (map (\<lambda>(k, v). json_string k @ CHR '':'' # canonical_text v) es) @ [CHR 0x7D]"
| "canonical_text _ = ''null''"

definition nativeCommandBytes :: "js \<Rightarrow> native_error + string" where
  "nativeCommandBytes v = rbind (canonical v) (\<lambda>x. Inr (canonical_text x))"

section \<open>Commands\<close>

record native_command =
  cm_epoch :: string
  cm_operationId :: string
  cm_method :: native_method
  cm_args :: js

definition command_fields :: "string list" where
  "command_fields = [''epoch'', ''operationId'', ''method'', ''args'']"

definition envelope_ok :: "js \<Rightarrow> bool" where
  "envelope_ok v = (case js_entries v of None \<Rightarrow> False
     | Some es \<Rightarrow> length es = 4 \<and> rpc_text (js_get v ''epoch'') \<and> rpc_text (js_get v ''operationId''))"

definition only_command_fields :: "js \<Rightarrow> bool" where
  "only_command_fields v = (case js_entries v of None \<Rightarrow> False | Some es \<Rightarrow> list_all (\<lambda>e. fst e \<in> set command_fields) es)"

definition parseNativeCommand :: "js \<Rightarrow> native_error + native_command" where
  "parseNativeCommand v =
     rbind (ensure (envelope_ok v) (NativeAuthorityError ''invalid_authority_operation'' 400)) (\<lambda>_.
     rbind (require (native_method_of (js_get v ''method'')) (NativeAuthorityError ''invalid_authority_operation'' 400)) (\<lambda>called.
     rbind (ensure (only_command_fields v \<and> GUARDS called (js_get v ''args'')) (NativeAuthorityError ''invalid_authority_arguments'' 400)) (\<lambda>_.
     rbind (nativeCommandBytes v) (\<lambda>bytes.
     rbind (ensure (utf8_length bytes \<le> 65536) (NativeAuthorityError ''authority_command_too_large'' 413)) (\<lambda>_.
     rbind (typed (js_text (js_get v ''epoch''))) (\<lambda>epoch.
     rbind (typed (js_text (js_get v ''operationId''))) (\<lambda>operationId.
     Inr \<lparr>cm_epoch = epoch, cm_operationId = operationId, cm_method = called, cm_args = js_get v ''args''\<rparr>)))))))"

section \<open>Control commands\<close>

datatype control_method = ResolvePrincipal | CreateKey | UpdateKey | RevokeKey | UnrevokeKey | DeleteKey

definition controlIntent :: "bool \<Rightarrow> guard" where
  "controlIntent reset v = (case js_entries v of None \<Rightarrow> False
     | Some es \<Rightarrow> list_all (\<lambda>e. fst e \<in> set ([''name'', ''expires_at_ms'', ''usage_limit_requests'', ''window_ms'', ''paid_fallback_enabled'',
         ''paid_fallback_limit_credits'', ''banked_resets_enabled''] @ (if reset then [''reset_usage''] else []))) es)"

definition CONTROL_GUARDS :: "(string \<times> control_method \<times> guard) list" where
  "CONTROL_GUARDS =
     [(''resolvePrincipal'', ResolvePrincipal, rpc_shape []), (''createKey'', CreateKey, rpc_shape [(''input'', controlIntent False)]),
      (''updateKey'', UpdateKey, rpc_shape [(''input'', controlIntent True)]), (''revokeKey'', RevokeKey, rpc_shape []),
      (''unrevokeKey'', UnrevokeKey, rpc_shape []), (''deleteKey'', DeleteKey, rpc_shape [])]"

record control_command =
  cc_epoch :: string
  cc_operationId :: string
  cc_method :: control_method
  cc_args :: js

definition parseNativeControlCommand :: "js \<Rightarrow> native_error + control_command" where
  "parseNativeControlCommand v =
     rbind (ensure (envelope_ok v) (NativeAuthorityError ''invalid_control_operation'' 400)) (\<lambda>_.
     rbind (require (Option.bind (js_text (js_get v ''method'')) (map_of CONTROL_GUARDS)) (NativeAuthorityError ''invalid_control_operation'' 400)) (\<lambda>(called, guarded).
     rbind (ensure (only_command_fields v) (NativeAuthorityError ''invalid_control_operation'' 400)) (\<lambda>_.
     rbind (ensure (guarded (js_get v ''args'')) (NativeAuthorityError ''invalid_control_arguments'' 400)) (\<lambda>_.
     rbind (nativeCommandBytes v) (\<lambda>bytes.
     rbind (ensure (utf8_length bytes \<le> 65536) (NativeAuthorityError ''control_command_too_large'' 413)) (\<lambda>_.
     rbind (typed (js_text (js_get v ''epoch''))) (\<lambda>epoch.
     rbind (typed (js_text (js_get v ''operationId''))) (\<lambda>operationId.
     Inr \<lparr>cc_epoch = epoch, cc_operationId = operationId, cc_method = called, cc_args = js_get v ''args''\<rparr>))))))))"

section \<open>Servers and clients\<close>

datatype rpc_result = RpcResult js | RpcError string int

text \<open>What a server answers: an error of the authority becomes a value, any other one is thrown again.\<close>

fun rpc_answer :: "native_error + js \<Rightarrow> native_error + rpc_result" where
  "rpc_answer (Inr v) = Inr (RpcResult v)"
| "rpc_answer (Inl (NativeAuthorityError code status)) = Inr (RpcError code status)"
| "rpc_answer (Inl (NativeFailure what)) = Inl (NativeFailure what)"

definition rpc_reply :: "rpc_result \<Rightarrow> native_error + js" where
  "rpc_reply answer = (case answer of
       RpcError code status \<Rightarrow> Inl (NativeAuthorityError code status)
     | RpcResult v \<Rightarrow> rbind (ensure (js_text (js_get v ''kind'') \<noteq> None) (NativeAuthorityError ''invalid_authority_reply'' 503)) (\<lambda>_. Inr v))"

end
