(* ===== verification/Native_Runtime.thy ===== *)
theory Native_Runtime
  imports Native_Rpc
begin

text \<open>
  The runtime bindings of the native authority (\<^verbatim>\<open>src/src/authority/native-authority-runtime.ts\<close> with the
  types of \<^verbatim>\<open>native-runtime-contracts.ts\<close>): grants, the capability of a verified binding, the opening of
  a request and its metadata, trusted routing decisions, and the cleanup of retained histories. The verifiers
  are injected into the constructor; what they answered is an argument here.
\<close>

section \<open>Contracts\<close>

text \<open>The namespace and epoch of the store's adapter and the constants of the kernel.\<close>

record authority_site =
  as_namespace :: string
  as_epoch :: string
  as_constants :: kernel_constants

datatype runtime_identity =
    KvApiKey string | LocalDevelopmentKey string | GithubToken string string | PasskeySession string
  | AuthTokensAllowlist | AdminAllowlist | DenoDeployToken | DisabledLocal "string option"

record runtime_binding =
  rb_grantId :: string
  rb_contextBinding :: string

record principal_reference =
  pr_id :: string
  pr_principalId :: string
  pr_keyId :: string

record verified_runtime =
  vr_bindingId :: string
  vr_subjectId :: string
  vr_contextBinding :: string
  vr_intentDigest :: string
  vr_identity :: runtime_identity
  vr_api :: "(principal_reference \<times> string) option"
  vr_kernel :: "(string \<times> string) option"

type_synonym runtime_authorization = "runtime_binding \<times> verified_runtime"

definition NATIVE_RUNTIME_REVISION :: int where
  "NATIVE_RUNTIME_REVISION = 3"

definition NATIVE_RETAINED_METHODS :: "native_method list" where
  "NATIVE_RETAINED_METHODS = [ReleaseApiUndispatched, ReleasePaidBeforeFetch, RecordPaidAttemptLifecycle, RecordVerifiedPaidBilling,
     DeferPaidReconciliation, ClaimPaidReconciliation, FinishPaidReconciliation]"

fun role_text :: "native_role \<Rightarrow> string" where
  "role_text Inference = ''inference''"
| "role_text Transport = ''transport''"
| "role_text Terminal = ''terminal''"
| "role_text Billing = ''billing''"
| "role_text Reconcile = ''reconcile''"
| "role_text Quota_admin = ''quota_admin''"
| "role_text Reset_role = ''reset''"
| "role_text Observer = ''observer''"

definition role_of_js :: "js \<Rightarrow> native_role option" where
  "role_of_js = named role_text [Inference, Transport, Terminal, Billing, Reconcile, Quota_admin, Reset_role, Observer]"

definition capability_js :: "native_capability \<Rightarrow> js" where
  "capability_js cap = JObj [(''id'', JStr (nc_id cap)), (''epoch'', JStr (nc_epoch cap)), (''principalId'', JStr (nc_principalId cap)),
     (''keyId'', opt_js JStr (nc_keyId cap)), (''tokenHash'', opt_js JStr (nc_tokenHash cap)),
     (''kernel'', opt_js (\<lambda>(owner, repo). JObj [(''owner'', JStr owner), (''repo'', JStr repo)]) (nc_kernel cap)),
     (''roles'', list_js (\<lambda>r. JStr (role_text r)) (nc_roles cap)), (''revoked'', JBool (nc_revoked cap)),
     (''runtimeRevision'', jint NATIVE_RUNTIME_REVISION), (''runtimeGrantId'', JStr (nc_runtimeGrantId cap)),
     (''contextBinding'', JStr (nc_contextBinding cap)), (''subjectId'', JStr (nc_subjectId cap)),
     (''principalRefId'', opt_js JStr (nc_principalRefId cap)),
     (''retainedRequestHandles'', opt_js (list_js JStr) (nc_retainedRequestHandles cap))]"

fun runtime_principal :: "runtime_identity \<Rightarrow> string" where
  "runtime_principal (KvApiKey keyId) = ''api-key:'' @ keyId"
| "runtime_principal (LocalDevelopmentKey keyId) = ''api-key:'' @ keyId"
| "runtime_principal (GithubToken owner repo) = ''github-repo:'' @ js_lower owner @ ''/'' @ js_lower repo"
| "runtime_principal (PasskeySession userId) = ''passkey-user:'' @ userId"
| "runtime_principal (DisabledLocal digest) = (case digest of None \<Rightarrow> ''local-auth-disabled'' | Some d \<Rightarrow> ''bearer-sha256:'' @ d)"
| "runtime_principal AuthTokensAllowlist = ''auth-method:auth_tokens_allowlist''"
| "runtime_principal AdminAllowlist = ''auth-method:admin_allowlist''"
| "runtime_principal DenoDeployToken = ''auth-method:deno_deploy_token''"

section \<open>Grants\<close>

definition validRuntimeGrant :: "js \<Rightarrow> bool" where
  "validRuntimeGrant v \<longleftrightarrow>
     nativeObject v \<and> js_get v ''revision'' = jint NATIVE_RUNTIME_REVISION \<and>
     list_all (\<lambda>k. js_text (js_get v k) \<noteq> None) [''id'', ''epoch'', ''subjectId'', ''contextBinding''] \<and>
     js_bool (js_get v ''revoked'') \<noteq> None \<and> js_int (js_get v ''expiresAtMs'') \<noteq> None \<and>
     (case js_items (js_get v ''roles'') of None \<Rightarrow> False | Some roles \<Rightarrow> roles \<noteq> [] \<and> list_all (\<lambda>r. role_of_js r \<noteq> None) roles)"

definition filled :: "js \<Rightarrow> bool" where
  "filled v = (case js_text v of None \<Rightarrow> False | Some s \<Rightarrow> s \<noteq> [])"

definition validRetainedGrant :: "js \<Rightarrow> bool" where
  "validRetainedGrant v \<longleftrightarrow>
     nativeObject v \<and> validRuntimeGrant v \<and>
     (case js_items (js_get v ''roles'') of None \<Rightarrow> False
      | Some roles \<Rightarrow> list_all (\<lambda>r. r \<in> set (map JStr [''transport'', ''billing'', ''reconcile''])) roles) \<and>
     list_all (\<lambda>k. filled (js_get v k)) [''namespace'', ''originalBindingId'', ''originalPrincipalId'', ''keyId''] \<and>
     (case js_items (js_get v ''requestHandles'') of None \<Rightarrow> False
      | Some handles \<Rightarrow> handles \<noteq> [] \<and> length handles \<le> 100 \<and> list_all filled handles \<and> distinct handles)"

definition grant_text :: "js \<Rightarrow> string \<Rightarrow> string native" where
  "grant_text grant k = nlift (typed (js_text (js_get grant k)))"

definition grant_roles :: "js \<Rightarrow> native_role list native" where
  "grant_roles grant = nlift (typed (list_of_js role_of_js (js_get grant ''roles'')))"

definition unexpired :: "js \<Rightarrow> int \<Rightarrow> bool" where
  "unexpired grant now = (case js_int (js_get grant ''expiresAtMs'') of None \<Rightarrow> False | Some e \<Rightarrow> now < e)"

definition current_grant :: "authority_site \<Rightarrow> string \<Rightarrow> js \<Rightarrow> int \<Rightarrow> bool" where
  "current_grant site grantId grant now \<longleftrightarrow>
     js_get grant ''id'' = JStr grantId \<and> js_get grant ''epoch'' = JStr (as_epoch site) \<and> js_get grant ''revoked'' = JBool False \<and>
     unexpired grant now"

section \<open>Verified runtimes\<close>

definition runtime_verify :: "runtime_binding \<Rightarrow> verified_runtime \<Rightarrow> string \<Rightarrow> native_error + runtime_authorization" where
  "runtime_verify binding verified intent =
     rbind (ensure (vr_intentDigest verified = intent \<and> vr_contextBinding verified = rb_contextBinding binding)
              (NativeAuthorityError ''runtime_context_or_intent_mismatch'' 403)) (\<lambda>_.
     Inr (binding, verified))"

definition reference_matches :: "string \<Rightarrow> string \<Rightarrow> int \<Rightarrow> string \<times> sql_row \<Rightarrow> bool" where
  "reference_matches refId keyId now e \<longleftrightarrow>
     sr_scope (snd e) = Some keyId \<and> js_get (sr_value (snd e)) ''id'' = JStr refId \<and> row_live now (snd e)"

definition principalReference :: "string \<Rightarrow> string \<Rightarrow> int \<Rightarrow> js native" where
  "principalReference refId keyId now s =
     (case filter (reference_matches refId keyId now) (sq_rows s Principal_resolution) of
        [] \<Rightarrow> Inr (JNull, s)
      | [e] \<Rightarrow> nbind (sql_read Principal_resolution (sr_key (snd e)) now) (\<lambda>r. nreturn (nr_value r)) s
      | _ \<Rightarrow> Inl (NativeAuthorityError ''principal_reference_identity_conflict'' 503))"

fun identity_key :: "runtime_identity \<Rightarrow> string option" where
  "identity_key (KvApiKey keyId) = Some keyId"
| "identity_key (LocalDevelopmentKey keyId) = Some keyId"
| "identity_key _ = None"

definition reference_current :: "authority_site \<Rightarrow> principal_reference \<Rightarrow> string \<Rightarrow> js \<Rightarrow> js \<Rightarrow> bool" where
  "reference_current site ref tokenHash resolution existing \<longleftrightarrow>
     (if resolution = JNull then js_get existing ''principalRefId'' = JStr (pr_id ref)
      else js_get resolution ''epoch'' = JStr (as_epoch site) \<and> js_get resolution ''keyId'' = JStr (pr_keyId ref) \<and>
           js_get resolution ''principalId'' = JStr (pr_principalId ref) \<and> js_get resolution ''tokenHash'' = JStr tokenHash)"

definition bound_capability :: "js \<Rightarrow> verified_runtime \<Rightarrow> native_capability native" where
  "bound_capability grant verified =
     nbind (grant_text grant ''id'') (\<lambda>grantId.
     nbind (grant_text grant ''epoch'') (\<lambda>epoch.
     nbind (grant_text grant ''contextBinding'') (\<lambda>contextBinding.
     nbind (grant_text grant ''subjectId'') (\<lambda>subjectId.
     nbind (grant_roles grant) (\<lambda>roles.
     nreturn \<lparr>nc_id = vr_bindingId verified, nc_epoch = epoch, nc_principalId = runtime_principal (vr_identity verified),
       nc_keyId = map_option (\<lambda>a. pr_keyId (fst a)) (vr_api verified), nc_tokenHash = map_option snd (vr_api verified),
       nc_kernel = vr_kernel verified, nc_runtimeGrantId = grantId, nc_contextBinding = contextBinding, nc_subjectId = subjectId,
       nc_principalRefId = map_option (\<lambda>a. pr_id (fst a)) (vr_api verified), nc_retainedRequestHandles = None,
       nc_roles = roles, nc_revoked = False\<rparr>)))))"

text \<open>The grant of a binding, current and for this context and subject, and the capability stored for the binding, if any.\<close>

definition binding_grant :: "authority_site \<Rightarrow> runtime_authorization \<Rightarrow> int \<Rightarrow> js native" where
  "binding_grant site auth now =
     (let binding = fst auth; verified = snd auth in
      nbind (sql_read Runtime_grant [KText (rb_grantId binding)] now) (\<lambda>r.
      let grant = nr_value r in
      nbind (nensure (validRuntimeGrant grant \<and> current_grant site (rb_grantId binding) grant now)
              (NativeAuthorityError ''runtime_grant_revoked_or_expired'' 403)) (\<lambda>_.
      nbind (nensure (js_get grant ''contextBinding'' = JStr (rb_contextBinding binding) \<and> js_get grant ''subjectId'' = JStr (vr_subjectId verified))
              (NativeAuthorityError ''runtime_grant_context_mismatch'' 403)) (\<lambda>_.
      nreturn grant))))"

definition binding_existing :: "authority_site \<Rightarrow> verified_runtime \<Rightarrow> int \<Rightarrow> js native" where
  "binding_existing site verified now =
     nbind (nensure (identity_key (vr_identity verified) = map_option (\<lambda>a. pr_keyId (fst a)) (vr_api verified))
             (NativeAuthorityError ''runtime_api_scope_mismatch'' 403)) (\<lambda>_.
     nbind (nensure (vr_bindingId verified \<noteq> []) (NativeAuthorityError ''runtime_binding_identity_missing'' 403)) (\<lambda>_.
     nbind (sql_read Capability_table [KText (vr_bindingId verified)] now) (\<lambda>e.
     nbind (case vr_api verified of
              None \<Rightarrow> nreturn ()
            | Some (ref, tokenHash) \<Rightarrow>
                nbind (principalReference (pr_id ref) (pr_keyId ref) now) (\<lambda>resolution.
                nensure (reference_current site ref tokenHash resolution (nr_value e))
                  (NativeAuthorityError ''runtime_principal_reference_mismatch'' 403))) (\<lambda>_.
     nreturn (nr_value e)))))"

definition same_capability :: "js \<Rightarrow> native_capability \<Rightarrow> unit native" where
  "same_capability existing cap =
     nbind (nensure (\<not> truthy (js_get existing ''revoked'') \<and> js_get existing ''epoch'' = JStr (nc_epoch cap))
             (NativeAuthorityError ''capability_revoked_or_wrong_epoch'' 403)) (\<lambda>_.
     nbind (nlift (nativeCommandBytes existing)) (\<lambda>prior.
     nbind (nlift (nativeCommandBytes (capability_js cap))) (\<lambda>bytes.
     nensure (prior = bytes) (NativeAuthorityError ''runtime_binding_scope_changed'' 403))))"

definition runtime_authorize :: "authority_site \<Rightarrow> runtime_authorization \<Rightarrow> int \<Rightarrow> native_capability native" where
  "runtime_authorize site auth now =
     nbind (binding_grant site auth now) (\<lambda>grant.
     nbind (binding_existing site (snd auth) now) (\<lambda>existing.
     nbind (bound_capability grant (snd auth)) (\<lambda>cap.
     nbind (if existing = JNull then sql_write Capability_table [KText (nc_id cap)] (capability_js cap) None no_index
            else same_capability existing cap) (\<lambda>_.
     nreturn cap))))"

section \<open>Requests\<close>

text \<open>The key policy in force for a capability of an API key; other capabilities have none.\<close>

definition capability_policy :: "native_capability \<Rightarrow> int \<Rightarrow> (js \<times> api_key_policy) option native" where
  "capability_policy cap now =
     (case (nc_tokenHash cap, nc_keyId cap) of
        (Some tokenHash, Some keyId) \<Rightarrow> currentKeyPolicy tokenHash keyId now
      | _ \<Rightarrow> nreturn None)"

definition policy_open :: "(js \<times> api_key_policy) option \<Rightarrow> int \<Rightarrow> bool" where
  "policy_open found now =
     (case found of None \<Rightarrow> False
      | Some (source, api) \<Rightarrow> \<not> truthy (js_get source ''revoked'') \<and> (ap_expires_at_ms api = - 1 \<or> now < ap_expires_at_ms api))"

definition assertCurrentApi :: "native_capability \<Rightarrow> int \<Rightarrow> unit native" where
  "assertCurrentApi cap now =
     (if nc_keyId cap = None then nreturn ()
      else nbind (capability_policy cap now) (\<lambda>policy.
           nensure (policy_open policy now) (NativeAuthorityError ''api_policy_revoked'' 403)))"

definition opened_request :: "native_capability \<Rightarrow> js \<Rightarrow> string \<Rightarrow> int \<Rightarrow> js" where
  "opened_request cap args handle now =
     JObj [(''handle'', JStr handle), (''runtimeBindingId'', JStr (nc_id cap)), (''principalId'', JStr (nc_principalId cap)),
       (''keyId'', opt_js JStr (nc_keyId cap)), (''requestId'', js_get args ''requestId''), (''route'', js_get args ''route''),
       (''path'', js_get args ''path''), (''model'', JNull), (''stream'', JNull), (''reasoning'', JNull), (''metadataBound'', JBool False),
       (''apiApplicable'', JBool (nc_keyId cap \<noteq> None)), (''kernelApplicable'', JBool (nc_kernel cap \<noteq> None)),
       (''createdAtMs'', jint now), (''api'', JNull), (''kernel'', JNull), (''routingDecision'', JNull), (''codex'', JNull),
       (''selection'', JNull), (''codexProof'', JNull), (''ownerFence'', JNull), (''semantic'', JNull), (''providerObserved'', JBool False),
       (''delivery'', JNull), (''transport'', JNull), (''responding'', JNull), (''dispatch'', JNull)]"

definition runtime_open :: "authority_site \<Rightarrow> native_capability \<Rightarrow> js \<Rightarrow> string \<Rightarrow> int \<Rightarrow> native_reply native" where
  "runtime_open site cap args uuid now =
     nbind (if nc_keyId cap = None then nreturn True else nbind (capability_policy cap now) (\<lambda>policy. nreturn (policy_open policy now))) (\<lambda>allowed.
     if \<not> allowed then nreturn (reply ''unauthorized'' JUndef)
     else
     nbind (nlift (typed (js_text (js_get args ''requestId'')))) (\<lambda>requestId.
     let key = [KText (as_epoch site), KText (nc_principalId cap), KText requestId] in
     nbind (sql_read Runtime_request key now) (\<lambda>r.
     let prior = nr_value r in
     if prior \<noteq> JNull
     then nbind (nensure (js_get prior ''runtimeBindingId'' = JStr (nc_id cap) \<and> js_get prior ''route'' = js_get args ''route'' \<and>
                   js_get prior ''path'' = js_get args ''path'') (NativeAuthorityError ''request_intent_conflict'' 409)) (\<lambda>_.
          nreturn (reply_at ''reuse'' (js_get prior ''handle'') JUndef))
     else
     nbind (api_save (opened_request cap args uuid now)) (\<lambda>_.
     nbind (sql_write Runtime_request key (JObj [(''handle'', JStr uuid), (''runtimeBindingId'', JStr (nc_id cap)),
              (''requestId'', js_get args ''requestId''), (''route'', js_get args ''route''), (''path'', js_get args ''path'')]) None no_index) (\<lambda>_.
     nreturn (reply_at ''opened'' (JStr uuid) JUndef))))))"

definition metadata_fields :: "string list" where
  "metadata_fields = [''model'', ''stream'', ''reasoning'']"

definition runtime_metadata :: "native_capability \<Rightarrow> js \<Rightarrow> int \<Rightarrow> native_reply native" where
  "runtime_metadata cap args now =
     nbind (assertCurrentApi cap now) (\<lambda>_.
     nbind (nlift (typed (js_text (js_get args ''handle'')))) (\<lambda>handle.
     nbind (sql_read Request_lifetime [KText handle] now) (\<lambda>r.
     let row = nr_value r in
     nbind (nensure (js_get row ''runtimeBindingId'' = JStr (nc_id cap)) (NativeAuthorityError ''request_ownership_mismatch'' 403)) (\<lambda>_.
     nbind (nensure (\<not> (truthy (js_get row ''apiApplicable'') \<and> \<not> truthy (js_get row ''api'')) \<and>
                     \<not> (truthy (js_get row ''kernelApplicable'') \<and> \<not> truthy (js_get row ''kernel'')))
             (NativeAuthorityError ''request_admission_phase_incomplete'' 409)) (\<lambda>_.
     if truthy (js_get row ''metadataBound'')
     then nbind (nensure (list_all (\<lambda>k. js_get row k = js_get args k) metadata_fields)
                  (NativeAuthorityError ''validated_metadata_conflict'' 409)) (\<lambda>_.
          nreturn (reply_at ''unchanged'' (js_get row ''handle'') JUndef))
     else
     nbind (api_save (js_with ''metadataBound'' (JBool True) (foldl (\<lambda>row k. js_with k (js_get args k) row) row metadata_fields))) (\<lambda>_.
     nreturn (reply_at ''bound'' (js_get row ''handle'') JUndef)))))))"

section \<open>Trusted routing\<close>

definition hop_well_formed :: "js \<Rightarrow> bool" where
  "hop_well_formed hop \<longleftrightarrow>
     nativeObject hop \<and> js_text (js_get hop ''hopId'') \<noteq> None \<and>
     js_get hop ''authorization'' \<in> set (map JStr [''direct'', ''codex_unavailable'']) \<and>
     js_text (js_get hop ''upstreamModel'') \<noteq> None \<and> js_text (js_get hop ''billingModel'') \<noteq> None"

definition decision_well_formed :: "js \<Rightarrow> bool" where
  "decision_well_formed decision \<longleftrightarrow>
     nativeObject decision \<and> js_bool (js_get decision ''allowUnrosteredModel'') \<noteq> None \<and>
     js_get decision ''codex'' \<in> set (map JStr [''eligible'', ''not_applicable'']) \<and>
     js_items (js_get decision ''providers'') \<noteq> None \<and>
     (case js_items (js_get decision ''hops'') of None \<Rightarrow> False | Some hops \<Rightarrow> length hops \<le> 32 \<and> list_all hop_well_formed hops)"

definition configured_hops :: "int \<Rightarrow> js list option native" where
  "configured_hops now =
     nbind (sql_read Authority_config [KText ''config''] now) (\<lambda>r.
     if nr_value r = JNull then nreturn None
     else nbind (nlift (typed (js_items (js_get (nr_value r) ''providerHops'')))) (\<lambda>hops. nreturn (Some hops)))"

definition hop_configured :: "js list option \<Rightarrow> js \<Rightarrow> bool" where
  "hop_configured configured hop =
     (case configured of None \<Rightarrow> False
      | Some hops \<Rightarrow> list_ex (\<lambda>c. js_get c ''id'' = js_get hop ''hopId'' \<and> js_get c ''authorization'' = js_get hop ''authorization'') hops)"

definition decision_hops :: "js \<Rightarrow> js list native" where
  "decision_hops decision = nlift (typed (js_items (js_get decision ''hops'')))"

definition assert_hops_configured :: "js \<Rightarrow> int \<Rightarrow> unit native" where
  "assert_hops_configured decision now =
     nbind (configured_hops now) (\<lambda>configured.
     nbind (decision_hops decision) (\<lambda>hops.
     nensure (configured \<noteq> None \<and> list_all (hop_configured configured) hops) (NativeAuthorityError ''routing_hop_not_configured'' 403)))"

definition runtime_routing :: "runtime_binding \<Rightarrow> js \<Rightarrow> string \<Rightarrow> int \<Rightarrow> js native" where
  "runtime_routing binding decision intent now =
     nbind (nensure (decision_well_formed decision) (NativeAuthorityError ''routing_verification_malformed'' 403)) (\<lambda>_.
     nbind (nensure (js_get decision ''intentDigest'' = JStr intent \<and> js_get decision ''contextBinding'' = JStr (rb_contextBinding binding) \<and>
              truthy (js_get decision ''sourceRevision'') \<and> truthy (js_get decision ''cohort''))
             (NativeAuthorityError ''routing_context_or_intent_mismatch'' 403)) (\<lambda>_.
     nbind (configured_hops now) (\<lambda>configured.
     nbind (decision_hops decision) (\<lambda>hops.
     nbind (nensure (configured \<noteq> None \<and> list_all (\<lambda>h. truthy (js_get h ''upstreamModel'') \<and> truthy (js_get h ''billingModel'') \<and> hop_configured configured h) hops)
             (NativeAuthorityError ''routing_hop_not_configured'' 403)) (\<lambda>_.
     nreturn decision)))))"

definition bound_decision :: "js \<Rightarrow> js" where
  "bound_decision decision = JObj (map (\<lambda>k. (k, js_get decision k))
     [''subjectId'', ''contextBinding'', ''sourceRevision'', ''cohort'', ''codex'', ''providers'', ''allowUnrosteredModel'', ''hops''])"

definition assertRouting :: "native_capability \<Rightarrow> js \<Rightarrow> js \<Rightarrow> int \<Rightarrow> unit native" where
  "assertRouting cap request decision now =
     (let stale = NativeAuthorityError ''trusted_routing_stale'' 403 in
      nbind (nensure (js_get decision ''subjectId'' = JStr (nc_subjectId cap) \<and> truthy (js_get request ''routingDecision'')) stale) (\<lambda>_.
      nbind (nlift (nativeCommandBytes (js_get request ''routingDecision''))) (\<lambda>prior.
      nbind (nlift (nativeCommandBytes (bound_decision decision))) (\<lambda>bytes.
      nbind (nensure (prior = bytes) stale) (\<lambda>_.
      assert_hops_configured decision now)))))"

definition bindRouting :: "native_capability \<Rightarrow> js \<Rightarrow> js \<Rightarrow> int \<Rightarrow> native_reply native" where
  "bindRouting cap request decision now =
     nbind (assertCurrentApi cap now) (\<lambda>_.
     nbind (nensure (js_get decision ''subjectId'' = JStr (nc_subjectId cap)) (NativeAuthorityError ''routing_subject_mismatch'' 403)) (\<lambda>_.
     nbind (assert_hops_configured decision now) (\<lambda>_.
     if truthy (js_get request ''routingDecision'')
     then nbind (nlift (nativeCommandBytes (js_get request ''routingDecision''))) (\<lambda>prior.
          nbind (nlift (nativeCommandBytes (bound_decision decision))) (\<lambda>bytes.
          nbind (nensure (prior = bytes) (NativeAuthorityError ''trusted_routing_conflict'' 409)) (\<lambda>_.
          nreturn (reply_at ''unchanged'' (js_get request ''handle'') JUndef))))
     else
     nbind (api_save (js_with ''routingDecision'' (bound_decision decision) request)) (\<lambda>_.
     nreturn (reply_at ''bound'' (js_get request ''handle'') JUndef)))))"

section \<open>Retained histories\<close>

definition verifyRetained :: "runtime_binding \<Rightarrow> js \<Rightarrow> string \<Rightarrow> native_error + js" where
  "verifyRetained binding verified intent =
     rbind (ensure (nativeObject verified \<and> js_get verified ''intentDigest'' = JStr intent \<and>
              js_get verified ''contextBinding'' = JStr (rb_contextBinding binding) \<and> js_get verified ''grantId'' = JStr (rb_grantId binding))
              (NativeAuthorityError ''retained_context_or_intent_mismatch'' 403)) (\<lambda>_.
     Inr verified)"

definition expected_scope :: "js \<Rightarrow> js \<Rightarrow> js" where
  "expected_scope grant verified = JObj ((''grantId'', js_get grant ''id'') # map (\<lambda>k. (k, js_get grant k))
     [''epoch'', ''subjectId'', ''contextBinding'', ''namespace'', ''originalBindingId'', ''originalPrincipalId'', ''keyId'', ''requestHandles''] @
     [(''intentDigest'', js_get verified ''intentDigest'')])"

definition retained_target :: "js \<Rightarrow> js \<Rightarrow> bool" where
  "retained_target grant row \<longleftrightarrow>
     js_get row ''runtimeBindingId'' = js_get grant ''originalBindingId'' \<and> js_get row ''principalId'' = js_get grant ''originalPrincipalId'' \<and>
     js_get row ''keyId'' = js_get grant ''keyId''"

definition target_mismatch :: native_error where
  "target_mismatch = NativeAuthorityError ''retained_history_target_mismatch'' 403"

fun retained_requests :: "js \<Rightarrow> string list \<Rightarrow> int \<Rightarrow> unit native" where
  "retained_requests grant [] now = nreturn ()"
| "retained_requests grant (handle # handles) now =
     nbind (sql_read Request_lifetime [KText handle] now) (\<lambda>r.
     nbind (nensure (retained_target grant (nr_value r)) target_mismatch) (\<lambda>_.
     retained_requests grant handles now))"

definition retained_attempt :: "js \<Rightarrow> string list \<Rightarrow> js \<Rightarrow> int \<Rightarrow> unit native" where
  "retained_attempt grant handles args now =
     (case js_get args ''attemptHandle'' of
        JUndef \<Rightarrow> nreturn ()
      | v \<Rightarrow>
          nbind (nlift (typed (js_text v))) (\<lambda>handle.
          nbind (sql_read Attempt_lifetime [KText handle] now) (\<lambda>r.
          nensure (retained_target grant (nr_value r) \<and> js_get (nr_value r) ''requestHandle'' \<in> set (map JStr handles)) target_mismatch)))"

definition retained_capability :: "js \<Rightarrow> string list \<Rightarrow> native_capability native" where
  "retained_capability grant handles =
     nbind (grant_text grant ''id'') (\<lambda>grantId.
     nbind (grant_text grant ''epoch'') (\<lambda>epoch.
     nbind (grant_text grant ''contextBinding'') (\<lambda>contextBinding.
     nbind (grant_text grant ''subjectId'') (\<lambda>subjectId.
     nbind (grant_text grant ''originalBindingId'') (\<lambda>bindingId.
     nbind (grant_text grant ''originalPrincipalId'') (\<lambda>principalId.
     nbind (grant_text grant ''keyId'') (\<lambda>keyId.
     nbind (grant_roles grant) (\<lambda>roles.
     nreturn \<lparr>nc_id = bindingId, nc_epoch = epoch, nc_principalId = principalId, nc_keyId = Some keyId, nc_tokenHash = None,
       nc_kernel = None, nc_runtimeGrantId = grantId, nc_contextBinding = contextBinding, nc_subjectId = subjectId,
       nc_principalRefId = None, nc_retainedRequestHandles = Some handles, nc_roles = roles, nc_revoked = False\<rparr>))))))))"

definition authorizeRetained :: "authority_site \<Rightarrow> runtime_binding \<Rightarrow> js \<Rightarrow> native_command \<Rightarrow> int \<Rightarrow> native_capability native" where
  "authorizeRetained site binding verified command now =
     nbind (nensure (cm_epoch command = as_epoch site) (NativeAuthorityError ''authority_epoch_mismatch'' 403)) (\<lambda>_.
     nbind (nensure (cm_method command \<in> set NATIVE_RETAINED_METHODS) (NativeAuthorityError ''retained_operation_denied'' 403)) (\<lambda>_.
     nbind (nensure (\<not> (cm_method command = RecordPaidAttemptLifecycle \<and>
              (truthy (js_get (cm_args command) ''fetchStarted'') \<or> js_get (js_get (cm_args command) ''patch'') ''dispatch_state'' \<noteq> JUndef)))
             (NativeAuthorityError ''retained_dispatch_denied'' 403)) (\<lambda>_.
     nbind (sql_read Retained_history_grant [KText (rb_grantId binding)] now) (\<lambda>r.
     let grant = nr_value r in
     nbind (nensure (validRetainedGrant grant \<and> current_grant site (rb_grantId binding) grant now \<and> js_get grant ''namespace'' = JStr (as_namespace site))
             (NativeAuthorityError ''retained_grant_denied'' 403)) (\<lambda>_.
     nbind (nlift (nativeCommandBytes verified)) (\<lambda>given.
     nbind (nlift (nativeCommandBytes (expected_scope grant verified))) (\<lambda>expected.
     nbind (nensure (given = expected \<and> JStr (rb_contextBinding binding) = js_get grant ''contextBinding'')
             (NativeAuthorityError ''retained_scope_mismatch'' 403)) (\<lambda>_.
     nbind (nlift (typed (list_of_js js_text (js_get grant ''requestHandles'')))) (\<lambda>handles.
     nbind (retained_requests grant handles now) (\<lambda>_.
     nbind (nensure (field ''handle'' (cm_args command) = None \<or> js_get (cm_args command) ''handle'' \<in> set (map JStr handles)) target_mismatch) (\<lambda>_.
     nbind (retained_attempt grant handles (cm_args command) now) (\<lambda>_.
     retained_capability grant handles))))))))))))"

end
