(* ===== verification/Native_Authority.thy ===== *)
theory Native_Authority
  imports Native_Runtime
begin

text \<open>
  The native authority itself (\<^verbatim>\<open>NativeAuthority\<close> in \<^verbatim>\<open>src/src/authority/native-authority.ts\<close>):
  authorization of a command, its dispatch to the families, and the journal of receipts that makes an operation
  run once. Every command runs in up to three transactions with verifier calls between them; each transaction is
  a definition here, and \<open>native_execute\<close> composes them with whatever other executions do in between.
\<close>

section \<open>Replies as stored\<close>

text \<open>A reply is stored as its JSON round trip: undefined properties go, what has no JSON form becomes null.\<close>

fun json_clean :: "js \<Rightarrow> js" where
  "json_clean (JNum n) = json_number n"
| "json_clean (JArr vs) = JArr (map json_clean vs)"
| "json_clean (JObj es) = JObj (map (\<lambda>e. (fst e, json_clean (snd e))) (filter (\<lambda>e. snd e \<noteq> JUndef) es))"
| "json_clean JUndef = JNull"
| "json_clean v = v"

definition reply_js :: "paid_reply \<Rightarrow> js" where
  "reply_js r = json_clean (JObj [(''kind'', JStr (rp_kind r)), (''handle'', rp_handle r), (''attemptHandle'', rp_attemptHandle r),
     (''cursor'', rp_cursor r), (''lease'', rp_lease r), (''detail'', rp_detail r)])"

definition answered :: "native_reply native \<Rightarrow> paid_reply native" where
  "answered m = nbind m (\<lambda>r. nreturn (native_reply.extend r \<lparr>rp_attemptHandle = JUndef, rp_lease = JUndef\<rparr>))"

section \<open>Arguments\<close>

definition arg_text :: "js \<Rightarrow> string \<Rightarrow> string native" where
  "arg_text args k = nlift (typed (js_text (js_get args k)))"

definition arg_option :: "(js \<Rightarrow> 'a option) \<Rightarrow> js \<Rightarrow> string \<Rightarrow> 'a option native" where
  "arg_option dec args k = (if js_get args k = JUndef then nreturn None else nbind (nlift (typed (dec (js_get args k)))) (\<lambda>x. nreturn (Some x)))"

definition arg_provider :: "js \<Rightarrow> usage_provider native" where
  "arg_provider args = nlift (typed (usage_provider_of (js_get args ''provider'')))"

definition terminal_state_of_js :: "js \<Rightarrow> terminal_state option" where
  "terminal_state_of_js = named (\<lambda>t. case t of Committed \<Rightarrow> ''committed'' | Released \<Rightarrow> ''released'') [Committed, Released]"

definition arg_terminal :: "js \<Rightarrow> terminal_state native" where
  "arg_terminal args = nlift (typed (terminal_state_of_js (js_get args ''terminalState'')))"

definition arg_scope :: "js \<Rightarrow> kernel_scope native" where
  "arg_scope args = nlift (typed (Native_Kernel.scope_of_js (js_get args ''scope'')))"

definition arg_limit :: "js \<Rightarrow> int native" where
  "arg_limit args = nlift (typed (js_int (js_get args ''limit'')))"

definition quota_arguments :: "js \<Rightarrow> set_quota_arguments native" where
  "quota_arguments args =
     nbind (nlift (typed (js_int (js_get args ''usageLimitRequests'')))) (\<lambda>limit.
     let options = js_get args ''options'' in
     nreturn \<lparr>sa_usageLimitRequests = limit, sa_options = \<lparr>po_resetUsage = truthy (js_get options ''resetUsage''),
       po_windowMs = js_get options ''windowMs'', po_expiresAtMs = js_get options ''expiresAtMs''\<rparr>\<rparr>)"

definition lifecycle_arguments :: "js \<Rightarrow> lifecycle_args native" where
  "lifecycle_arguments args =
     (let patch = js_get args ''patch'' in
      nbind (arg_option (opt_of_js js_text) patch ''provider_request_id'') (\<lambda>providerRequestId.
      nbind (arg_option dispatch_of_js patch ''dispatch_state'') (\<lambda>dispatchState.
      nbind (arg_option paid_terminal_of_js patch ''terminal_state'') (\<lambda>terminalState.
      nreturn \<lparr>la_provider_request_id = providerRequestId, la_dispatch_state = dispatchState, la_terminal_state = terminalState,
        la_fetchStarted = truthy (js_get args ''fetchStarted'')\<rparr>))))"

text \<open>The times of paid rows are whole, and so is the time of a provider log here.\<close>

definition log_arguments :: "js \<Rightarrow> provider_log native" where
  "log_arguments args =
     (let entry = js_get args ''log'' in
      nbind (arg_text entry ''request_id'') (\<lambda>requestId.
      nbind (nlift (typed (js_finite (js_get entry ''quota'')))) (\<lambda>quota.
      nbind (nlift (typed (js_int (js_get entry ''prompt_tokens'')))) (\<lambda>promptTokens.
      nbind (arg_option js_int entry ''cached_prompt_tokens'') (\<lambda>cachedTokens.
      nbind (nlift (typed (js_int (js_get entry ''completion_tokens'')))) (\<lambda>completionTokens.
      nbind (nlift (typed (js_whole (js_get entry ''created_at'')))) (\<lambda>createdAt.
      nreturn \<lparr>lg_request_id = requestId, lg_quota = quota, lg_prompt_tokens = promptTokens, lg_cached_prompt_tokens = cachedTokens,
        lg_completion_tokens = completionTokens, lg_created_at = createdAt\<rparr>)))))))"

section \<open>Authorization\<close>

definition current_api_methods :: "native_method list" where
  "current_api_methods = [BindValidatedRequestMetadata, ReserveKernelUsage, SelectCodexAccount, ElectCodexResetProbe, RefreshCodexAdmission]"

definition assert_role :: "native_capability \<Rightarrow> native_role \<Rightarrow> unit native" where
  "assert_role cap role = nensure (role \<in> set (nc_roles cap)) (NativeAuthorityError ''authority_capability_denied'' 403)"

text \<open>The key policy, the request and the attempt a command is about.\<close>

definition target_checks :: "native_capability \<Rightarrow> native_command \<Rightarrow> int \<Rightarrow> unit native" where
  "target_checks cap command now =
     nbind (if cm_method command \<in> set current_api_methods then assertCurrentApi cap now else nreturn ()) (\<lambda>_.
     nbind (if field ''handle'' (cm_args command) = None then nreturn ()
            else nbind (arg_text (cm_args command) ''handle'') (\<lambda>handle. nbind (api_request cap handle now) (\<lambda>_. nreturn ()))) (\<lambda>_.
     if js_get (cm_args command) ''attemptHandle'' = JUndef then nreturn ()
     else nbind (arg_text (cm_args command) ''attemptHandle'') (\<lambda>handle. nbind (paid_attempt cap handle now) (\<lambda>_. nreturn ()))))"

definition native_authorize :: "authority_site \<Rightarrow> runtime_authorization \<Rightarrow> native_command \<Rightarrow> int \<Rightarrow> native_capability native" where
  "native_authorize site auth command now =
     nbind (nensure (cm_epoch command = as_epoch site) (NativeAuthorityError ''authority_epoch_mismatch'' 403)) (\<lambda>_.
     nbind (runtime_authorize site auth now) (\<lambda>cap.
     nbind (assert_role cap (NATIVE_METHOD_ROLES (cm_method command))) (\<lambda>_.
     nbind (target_checks cap command now) (\<lambda>_.
     nreturn cap))))"

definition requestForDispatch :: "native_capability \<Rightarrow> string \<Rightarrow> usage_provider \<Rightarrow> int \<Rightarrow> js native" where
  "requestForDispatch cap handle provider now =
     nbind (api_validated cap handle now) (\<lambda>request.
     nbind (assertCurrentApi cap now) (\<lambda>_.
     nbind (nensure (truthy (js_get request ''routingDecision'')) (NativeAuthorityError ''trusted_routing_missing'' 409)) (\<lambda>_.
     nbind (nlift (typed (js_items (js_get (js_get request ''routingDecision'') ''providers'')))) (\<lambda>providers.
     nbind (nensure (JStr (provider_text provider) \<in> set providers) (NativeAuthorityError ''request_provider_not_authorized'' 403)) (\<lambda>_.
     nbind (if provider = Chatgpt_codex then codex_fence cap handle now None else nreturn ()) (\<lambda>_.
     nreturn request))))))"

section \<open>Terminals, observations and status\<close>

definition terminalUsage :: "js \<Rightarrow> string option \<Rightarrow> js \<Rightarrow> int \<Rightarrow> unit native" where
  "terminalUsage request provider observations now =
     nbind (nensure (js_get request ''model'' \<noteq> JNull) (NativeAuthorityError ''validated_metadata_missing'' 409)) (\<lambda>_.
     nbind (row_text request ''model'') (\<lambda>model.
     nbind (row_text request ''requestId'') (\<lambda>requestId.
     nbind (nlift (typed (js_finite (js_get request ''createdAtMs'')))) (\<lambda>createdAtMs.
     let input = \<lparr>ti_model = Some model, ti_provider = provider, ti_request_id = requestId, ti_request_created_at_ms = Some createdAtMs,
           ti_input_tokens = js_get observations ''input_tokens'', ti_cached_input_tokens = js_get observations ''cached_input_tokens'',
           ti_output_tokens = js_get observations ''output_tokens''\<rparr> in
     case paidFallbackTerminalUsageV3 input of
       None \<Rightarrow> nreturn ()
     | Some usage \<Rightarrow>
         let row = paidFallbackTerminalRollupV3 input usage requestId now;
             key = paidFallbackUsageRollupKey (ri_bucket_start_at_ms row) (ri_model row) (ri_provider row) (paidFallbackUsageRollupShard requestId) in
         nbind (sql_read Paid_rollup key now) (\<lambda>prior.
         sql_write Paid_rollup key (rollup_js (mergePaidFallbackUsageRollup (isPaidFallbackUsageRollup (nr_value prior)) row)) None no_index)))))"

definition recordDeliveryObservation :: "native_capability \<Rightarrow> js \<Rightarrow> int \<Rightarrow> native_reply native" where
  "recordDeliveryObservation cap args now =
     nbind (arg_text args ''handle'') (\<lambda>handle.
     nbind (api_request cap handle now) (\<lambda>request.
     let delivery = js_get request ''delivery'' in
     if delivery \<noteq> JNull
     then nreturn (reply (if delivery = js_get args ''observation'' then ''unchanged'' else ''observation_conflict'') delivery)
     else nbind (api_save (js_with ''delivery'' (js_get args ''observation'') request)) (\<lambda>_. nreturn (reply ''recorded'' JUndef))))"

text \<open>Who answered: the paid attempt the terminal names, or the one the request has recorded.\<close>

definition response_owner :: "native_capability \<Rightarrow> js \<Rightarrow> js \<Rightarrow> int \<Rightarrow> js native" where
  "response_owner cap args request now =
     (if truthy (js_get args ''attemptHandle'')
      then nbind (arg_text args ''attemptHandle'') (\<lambda>attemptHandle.
           nbind (paid_response cap attemptHandle now) (\<lambda>(attempt, provider).
           nbind (nensure (JStr (na_requestHandle attempt) = js_get request ''handle'') (NativeAuthorityError ''terminal_attempt_mismatch'' 403)) (\<lambda>_.
           nreturn (JObj [(''provider'', JStr (paid_provider_text provider)), (''attemptHandle'', JStr (na_handle attempt))]))))
      else nreturn (if js_get request ''responding'' = JUndef then JNull else js_get request ''responding''))"

definition recordSemanticTerminal :: "native_capability \<Rightarrow> js \<Rightarrow> int \<Rightarrow> native_reply native" where
  "recordSemanticTerminal cap args now =
     nbind (arg_text args ''handle'') (\<lambda>handle.
     nbind (api_request cap handle now) (\<lambda>request.
     let semantic = js_get request ''semantic'' in
     if semantic \<noteq> JNull
     then nreturn (reply (if semantic = js_get args ''outcome'' then ''unchanged'' else ''terminal_mismatch'') semantic)
     else
     nbind (response_owner cap args request now) (\<lambda>owner.
     nbind (api_save (js_with ''responding'' owner (js_with ''semantic'' (js_get args ''outcome'') request))) (\<lambda>_.
     nbind (if truthy (js_get args ''usage'') then terminalUsage request (js_text (js_get owner ''provider'')) (js_get args ''usage'') now else nreturn ()) (\<lambda>_.
     nreturn (reply ''recorded'' JUndef))))))"

definition status_after :: "native_capability \<Rightarrow> js \<Rightarrow> js \<Rightarrow> int \<Rightarrow> string native" where
  "status_after cap args request now =
     (if \<not> truthy (js_get args ''cursor'') then nreturn []
      else
      nbind (arg_text args ''cursor'') (\<lambda>name.
      nbind (sql_read Cursor_table [KText name] now) (\<lambda>r.
      let cursor = nr_value r in
      nbind (nensure (js_get cursor ''capabilityId'' = JStr (nc_id cap) \<and> js_get cursor ''family'' = JStr ''request_attempts'' \<and>
               js_get cursor ''parent'' = js_get request ''handle'') (NativeAuthorityError ''cursor_ownership_mismatch'' 403)) (\<lambda>_.
      row_text cursor ''after''))))"

fun status_attempts :: "native_page_entry list \<Rightarrow> int \<Rightarrow> js list native" where
  "status_attempts [] now = nreturn []"
| "status_attempts (e # es) now =
     (let attempt = nr_value (pe_row e) in
      nbind (nensure (attempt \<noteq> JNull) (NativeAuthorityError ''attempt_malformed'' 503)) (\<lambda>_.
      nbind (row_text attempt ''keyId'') (\<lambda>keyId.
      nbind (row_text attempt ''billingRequestId'') (\<lambda>billingRequestId.
      nbind (sql_read Paid_request (paidFallbackRequestV3Key keyId billingRequestId) now) (\<lambda>r.
      nbind (status_attempts es now) (\<lambda>rest.
      nreturn (JObj [(''attemptHandle'', js_get attempt ''handle''), (''hopId'', js_get attempt ''hopId''), (''row'', nr_value r)] # rest)))))))"

definition readRequestStatus :: "native_capability \<Rightarrow> js \<Rightarrow> string \<Rightarrow> int \<Rightarrow> native_reply native" where
  "readRequestStatus cap args uuid now =
     nbind (arg_text args ''handle'') (\<lambda>handle.
     nbind (api_request cap handle now) (\<lambda>request.
     nbind (status_after cap args request now) (\<lambda>after.
     nbind (row_text request ''handle'') (\<lambda>parent.
     nbind (arg_limit args) (\<lambda>limit.
     nbind (sql_page Attempt_lifetime now after limit None (Some parent)) (\<lambda>page.
     nbind (if int (length page) = limit
            then nbind (sql_write Cursor_table [KText uuid] (JObj [(''id'', JStr uuid), (''capabilityId'', JStr (nc_id cap)),
                   (''family'', JStr ''request_attempts''), (''parent'', JStr parent), (''after'', JStr (pe_encoded (last page))), (''lease'', JNull)])
                   None no_index) (\<lambda>_. nreturn (JStr uuid))
            else nreturn JNull) (\<lambda>cursor.
     nbind (status_attempts page now) (\<lambda>attempts.
     nbind (api_status cap parent now) (\<lambda>status.
     nreturn \<lparr>rp_kind = ''status'', rp_handle = JStr parent, rp_cursor = cursor,
       rp_detail = JObj [(''lifetime'', JObj (map (\<lambda>k. (k, js_get request k)) [''requestId'', ''route'', ''model'', ''semantic'', ''delivery''])),
         (''api'', rp_detail status), (''attempts'', JArr attempts)]\<rparr>)))))))))"

section \<open>The dispatch of a command\<close>

text \<open>Two values of \<^verbatim>\<open>crypto.randomUUID()\<close> are enough for any command.\<close>

record native_draws =
  dw_first :: string
  dw_second :: string

fun native_perform :: "authority_site \<Rightarrow> native_capability \<Rightarrow> native_method \<Rightarrow> js \<Rightarrow> string \<Rightarrow> codex_429 option \<Rightarrow> native_draws \<Rightarrow> int \<Rightarrow> paid_reply native" where
  "native_perform site cap OpenAuthenticatedRequest args op parsed d now = answered (runtime_open site cap args (dw_first d) now)"
| "native_perform site cap BindValidatedRequestMetadata args op parsed d now = answered (runtime_metadata cap args now)"
| "native_perform site cap ReserveApiUsage args op parsed d now =
     nbind (arg_text args ''handle'') (\<lambda>handle. answered (reserveApiUsage cap handle now))"
| "native_perform site cap RecordTransportStarted args op parsed d now =
     nbind (arg_text args ''handle'') (\<lambda>handle.
     nbind (arg_provider args) (\<lambda>provider.
     nbind (arg_option js_text args ''attemptHandle'') (\<lambda>attempt.
     nbind (requestForDispatch cap handle provider now) (\<lambda>_.
     nbind (paid_start cap handle provider attempt now) (\<lambda>_.
     answered (recordTransportStart cap handle provider attempt op now))))))"
| "native_perform site cap MarkApiDispatch args op parsed d now =
     nbind (arg_text args ''handle'') (\<lambda>handle.
     nbind (arg_provider args) (\<lambda>provider. answered (markApiDispatch cap handle provider now)))"
| "native_perform site cap ReleaseApiUndispatched args op parsed d now =
     nbind (arg_text args ''handle'') (\<lambda>handle.
     nbind (arg_text args ''reason'') (\<lambda>reason. answered (releaseApiUndispatched cap handle reason now)))"
| "native_perform site cap RecordApiDispatchCancellation args op parsed d now =
     nbind (arg_text args ''handle'') (\<lambda>handle. answered (recordApiDispatchCancellation cap handle now))"
| "native_perform site cap ReserveKernelUsage args op parsed d now =
     nbind (arg_text args ''handle'') (\<lambda>handle. answered (reserveKernelUsage (as_constants site) cap handle now))"
| "native_perform site cap RecordKernelTerminalIntent args op parsed d now =
     nbind (arg_text args ''handle'') (\<lambda>handle.
     nbind (arg_terminal args) (\<lambda>terminal. answered (recordKernelTerminalIntent cap handle terminal now)))"
| "native_perform site cap SettleKernelUsage args op parsed d now =
     nbind (arg_text args ''handle'') (\<lambda>handle.
     nbind (arg_terminal args) (\<lambda>terminal.
     nbind (arg_text args ''reason'') (\<lambda>reason. answered (settleKernelUsage cap handle terminal reason now))))"
| "native_perform site cap RenewKernelReservation args op parsed d now =
     nbind (arg_text args ''handle'') (\<lambda>handle. answered (renewKernelReservation cap handle now))"
| "native_perform site cap ReclaimExpiredKernelReservations args op parsed d now =
     nbind (arg_option js_text args ''cursor'') (\<lambda>cursor.
     nbind (arg_limit args) (\<lambda>limit. answered (reclaimExpiredKernelReservations cap cursor limit (dw_first d) now)))"
| "native_perform site cap SetKernelQuota args op parsed d now =
     nbind (arg_scope args) (\<lambda>sc.
     nbind (quota_arguments args) (\<lambda>quota. answered (setKernelQuota (as_constants site) cap sc quota now)))"
| "native_perform site cap DeleteKernelQuota args op parsed d now =
     nbind (arg_scope args) (\<lambda>sc. answered (deleteKernelQuota (as_constants site) cap sc now))"
| "native_perform site cap AcquireKernelDefaultCutover args op parsed d now = answered (acquireKernelDefaultCutover (dw_first d) now)"
| "native_perform site cap SelectCodexAccount args op parsed d now =
     nbind (arg_text args ''handle'') (\<lambda>handle.
     nbind (api_validated cap handle now) (\<lambda>request.
     nbind (nensure (js_get (js_get request ''routingDecision'') ''codex'' = JStr ''eligible'')
             (NativeAuthorityError ''request_codex_not_authorized'' 403)) (\<lambda>_.
     answered (codex_select cap handle (dw_first d) now))))"
| "native_perform site cap RecordCodexAttemptSignal args op parsed d now =
     nbind (arg_text args ''handle'') (\<lambda>handle.
     nbind (arg_text args ''signal'') (\<lambda>signal.
     answered (codex_signal cap handle signal (truthy (js_get args ''recoveryProbe'')) parsed now)))"
| "native_perform site cap ReleaseCodexProbe args op parsed d now =
     nbind (arg_text args ''handle'') (\<lambda>handle. answered (codex_release cap handle now))"
| "native_perform site cap ElectCodexResetProbe args op parsed d now =
     nbind (arg_text args ''handle'') (\<lambda>handle.
     nbind (arg_text args ''proofId'') (\<lambda>proofId. answered (codex_elect cap handle proofId (dw_first d) now)))"
| "native_perform site cap RefreshCodexAdmission args op parsed d now =
     nbind (arg_text args ''handle'') (\<lambda>handle. answered (codex_refresh cap handle now))"
| "native_perform site cap ReservePaidAttempt args op parsed d now =
     nbind (arg_text args ''handle'') (\<lambda>handle.
     nbind (arg_text args ''hopId'') (\<lambda>hopId. paid_reserve cap handle hopId (dw_first d) now))"
| "native_perform site cap RecordPaidAttemptLifecycle args op parsed d now =
     nbind (arg_text args ''attemptHandle'') (\<lambda>attempt.
     nbind (lifecycle_arguments args) (\<lambda>patch. paid_lifecycle cap attempt patch now))"
| "native_perform site cap ReleasePaidBeforeFetch args op parsed d now =
     nbind (arg_text args ''attemptHandle'') (\<lambda>attempt. paid_release cap attempt now)"
| "native_perform site cap RecordVerifiedPaidBilling args op parsed d now =
     nbind (arg_text args ''attemptHandle'') (\<lambda>attempt.
     nbind (log_arguments args) (\<lambda>providerLog.
     nbind (arg_option js_finite args ''surplusBuyerCostMicro'') (\<lambda>cost. paid_billing cap attempt providerLog cost now)))"
| "native_perform site cap DeferPaidReconciliation args op parsed d now =
     nbind (arg_text args ''attemptHandle'') (\<lambda>attempt. paid_defer cap attempt now)"
| "native_perform site cap ClaimPaidReconciliation args op parsed d now =
     nbind (arg_option js_text args ''cursor'') (\<lambda>cursor.
     nbind (arg_limit args) (\<lambda>limit. paid_claim cap cursor limit (dw_first d) (dw_second d) now))"
| "native_perform site cap FinishPaidReconciliation args op parsed d now =
     nbind (arg_text args ''lease'') (\<lambda>lease. paid_finish cap lease now)"
| "native_perform site cap FoldPaidBackfillPage args op parsed d now =
     nbind (arg_option js_text args ''cursor'') (\<lambda>cursor.
     nbind (arg_limit args) (\<lambda>limit. paid_backfill cap cursor limit (dw_first d) (dw_second d) now))"
| "native_perform site cap BeginPaidKeyDeletion args op parsed d now = paid_deletion cap now"
| "native_perform site cap RecordSemanticTerminal args op parsed d now = answered (recordSemanticTerminal cap args now)"
| "native_perform site cap RecordDeliveryObservation args op parsed d now = answered (recordDeliveryObservation cap args now)"
| "native_perform site cap ReadRequestStatus args op parsed d now = answered (readRequestStatus cap args (dw_first d) now)"

section \<open>Receipts\<close>

definition reply_is :: "js \<Rightarrow> string \<Rightarrow> bool" where
  "reply_is v kind \<longleftrightarrow> js_get v ''kind'' = JStr kind"

definition receipt_methods :: "native_method list" where
  "receipt_methods = [OpenAuthenticatedRequest, ReserveApiUsage, ReservePaidAttempt, BindValidatedRequestMetadata]"

definition validate_transport :: "native_capability \<Rightarrow> native_command \<Rightarrow> js \<Rightarrow> int \<Rightarrow> unit native" where
  "validate_transport cap command stored now =
     (let args = cm_args command in
      nbind (arg_text args ''handle'') (\<lambda>handle.
      nbind (arg_provider args) (\<lambda>provider.
      nbind (arg_option js_text args ''attemptHandle'') (\<lambda>attempt.
      nbind (requestForDispatch cap handle provider now) (\<lambda>_.
      nbind (assertStart cap handle provider attempt now) (\<lambda>_.
      if reply_is stored ''started'' then assertTransportReceipt cap handle (cm_operationId command) now
      else assertDispatchReceipt cap handle now))))))"

definition validate_refresh :: "native_capability \<Rightarrow> native_command \<Rightarrow> js \<Rightarrow> int \<Rightarrow> unit native" where
  "validate_refresh cap command receipt now =
     nbind (arg_text (cm_args command) ''handle'') (\<lambda>handle.
     let authorization = js_get receipt ''codexAuthorization'' in
     nbind (nensure (truthy authorization) (NativeAuthorityError ''cached_codex_authorization_missing'' 409)) (\<lambda>_.
     codex_fence cap handle now (Some (js_get authorization ''account'', js_get authorization ''owner''))))"

definition validateReceipt :: "native_capability \<Rightarrow> native_command \<Rightarrow> js \<Rightarrow> string \<Rightarrow> int \<Rightarrow> unit native" where
  "validateReceipt cap command receipt canonicalText now =
     (let stored = js_get receipt ''reply''; called = cm_method command in
      nbind (nensure (js_get receipt ''command'' = JStr canonicalText) (NativeAuthorityError ''authority_operation_replay_conflict'' 409)) (\<lambda>_.
      nbind (if called \<in> set receipt_methods then assertCurrentApi cap now else nreturn ()) (\<lambda>_.
      nbind (if called = MarkApiDispatch \<and> reply_is stored ''dispatched''
             then nbind (arg_text (cm_args command) ''handle'') (\<lambda>handle. assertDispatchReceipt cap handle now) else nreturn ()) (\<lambda>_.
      nbind (if called = RefreshCodexAdmission \<and> reply_is stored ''current'' then validate_refresh cap command receipt now else nreturn ()) (\<lambda>_.
      if called = RecordTransportStarted then validate_transport cap command stored now else nreturn ())))))"

definition receipt_key :: "authority_site \<Rightarrow> native_capability \<Rightarrow> string \<Rightarrow> kv_key" where
  "receipt_key site cap operationId = [KText (as_epoch site), KText (nc_principalId cap), KText (nc_id cap), KText operationId]"

definition receipt_scope :: "native_capability \<Rightarrow> sql_index" where
  "receipt_scope cap = no_index\<lparr>ix_scope := Some (case nc_keyId cap of None \<Rightarrow> nc_principalId cap | Some keyId \<Rightarrow> keyId)\<rparr>"

definition receipt_authorization :: "native_capability \<Rightarrow> native_command \<Rightarrow> js \<Rightarrow> int \<Rightarrow> (string \<times> js) list native" where
  "receipt_authorization cap command committed now =
     (if cm_method command = RefreshCodexAdmission \<and> reply_is committed ''current''
      then nbind (arg_text (cm_args command) ''handle'') (\<lambda>handle.
           nbind (codex_authorization cap handle now) (\<lambda>(account, owner).
           nreturn [(''codexAuthorization'', JObj [(''account'', account), (''owner'', owner)])]))
      else nreturn [])"

definition dispatch_current :: "native_capability \<Rightarrow> native_command \<Rightarrow> js option \<Rightarrow> int \<Rightarrow> unit native" where
  "dispatch_current cap command routing now =
     nbind (case routing of
              None \<Rightarrow> nreturn ()
            | Some decision \<Rightarrow>
                nbind (arg_text (cm_args command) ''handle'') (\<lambda>handle.
                nbind (api_validated cap handle now) (\<lambda>request. assertRouting cap request decision now))) (\<lambda>_.
     if cm_method command = MarkApiDispatch
     then nbind (arg_text (cm_args command) ''handle'') (\<lambda>handle.
          nbind (arg_provider (cm_args command)) (\<lambda>provider.
          nbind (requestForDispatch cap handle provider now) (\<lambda>_. nreturn ())))
     else nreturn ())"

definition replay_receipt :: "native_capability \<Rightarrow> native_command \<Rightarrow> js \<Rightarrow> string \<Rightarrow> int \<Rightarrow> js native" where
  "replay_receipt cap command receipt canonicalText now =
     nbind (validateReceipt cap command receipt canonicalText now) (\<lambda>_. nreturn (js_get receipt ''reply''))"

definition perform_once ::
  "authority_site \<Rightarrow> native_capability \<Rightarrow> native_command \<Rightarrow> string \<Rightarrow> codex_429 option \<Rightarrow> native_draws \<Rightarrow> int \<Rightarrow> js native" where
  "perform_once site cap command canonicalText parsed d now =
     nbind (native_perform site cap (cm_method command) (cm_args command) (cm_operationId command) parsed d now) (\<lambda>answer.
     let committed = reply_js answer in
     nbind (receipt_authorization cap command committed now) (\<lambda>authorization.
     nbind (sql_write Operation_receipt (receipt_key site cap (cm_operationId command))
              (JObj ([(''command'', JStr canonicalText), (''reply'', committed)] @ authorization)) None (receipt_scope cap)) (\<lambda>_.
     nreturn committed)))"

text \<open>The last transaction of a command.\<close>

definition native_commit ::
  "authority_site \<Rightarrow> runtime_authorization \<Rightarrow> native_command \<Rightarrow> string \<Rightarrow> js option \<Rightarrow> codex_429 option \<Rightarrow> native_draws \<Rightarrow> int \<Rightarrow> js native" where
  "native_commit site auth command canonicalText routing parsed d now =
     nbind (native_authorize site auth command now) (\<lambda>cap.
     nbind (dispatch_current cap command routing now) (\<lambda>_.
     nbind (sql_read Operation_receipt (receipt_key site cap (cm_operationId command)) now) (\<lambda>r.
     if nr_value r \<noteq> JNull then replay_receipt cap command (nr_value r) canonicalText now
     else perform_once site cap command canonicalText parsed d now)))"

section \<open>Private routing and retained histories\<close>

definition routing_intent :: "authority_site \<Rightarrow> string \<Rightarrow> string \<Rightarrow> native_error + string" where
  "routing_intent site handle operationId = nativeCommandBytes (JObj [(''revision'', jint 3), (''method'', JStr ''privateRouting''),
     (''handle'', JStr handle), (''operationId'', JStr operationId), (''epoch'', JStr (as_epoch site))])"

definition routing_key :: "authority_site \<Rightarrow> native_capability \<Rightarrow> string \<Rightarrow> kv_key" where
  "routing_key site cap operationId =
     [KText (as_epoch site), KText (nc_principalId cap), KText (nc_id cap), KText ''private-routing'', KText operationId]"

definition bind_decision :: "native_capability \<Rightarrow> js \<Rightarrow> js \<Rightarrow> string \<Rightarrow> kv_key \<Rightarrow> js \<Rightarrow> int \<Rightarrow> js native" where
  "bind_decision cap request decision intent key prior now =
     nbind (nensure (prior = JNull \<or> js_get prior ''command'' = JStr intent) (NativeAuthorityError ''authority_operation_replay_conflict'' 409)) (\<lambda>_.
     nbind (answered (bindRouting cap request decision now)) (\<lambda>bound.
     if prior \<noteq> JNull then nreturn (js_get prior ''reply'')
     else
     nbind (sql_write Operation_receipt key (JObj [(''command'', JStr intent), (''reply'', reply_js bound)]) None (receipt_scope cap)) (\<lambda>_.
     nreturn (reply_js bound))))"

definition commit_routing ::
  "authority_site \<Rightarrow> runtime_authorization \<Rightarrow> string \<Rightarrow> string \<Rightarrow> string \<Rightarrow> js \<Rightarrow> int \<Rightarrow> js native" where
  "commit_routing site auth handle operationId intent decision now =
     nbind (runtime_authorize site auth now) (\<lambda>cap.
     nbind (assert_role cap Inference) (\<lambda>_.
     nbind (api_validated cap handle now) (\<lambda>request.
     nbind (sql_read Operation_receipt (routing_key site cap operationId) now) (\<lambda>r.
     bind_decision cap request decision intent (routing_key site cap operationId) (nr_value r) now))))"

definition retained_scope_text :: "js \<Rightarrow> native_error + string" where
  "retained_scope_text verified = nativeCommandBytes (js_with ''intentDigest'' JNull verified)"

definition retained_key :: "authority_site \<Rightarrow> runtime_binding \<Rightarrow> native_capability \<Rightarrow> string \<Rightarrow> kv_key" where
  "retained_key site binding cap operationId =
     [KText (as_epoch site), KText ''retained-history'', KText (rb_grantId binding), KText (nc_id cap), KText operationId]"

definition replay_retained :: "js \<Rightarrow> string \<Rightarrow> string \<Rightarrow> js native" where
  "replay_retained prior canonicalText retained =
     nbind (nensure (js_get prior ''command'' = JStr canonicalText \<and> js_get prior ''retainedScope'' = JStr retained)
             (NativeAuthorityError ''retained_operation_replay_conflict'' 409)) (\<lambda>_.
     nreturn (js_get prior ''reply''))"

definition perform_retained ::
  "authority_site \<Rightarrow> native_capability \<Rightarrow> native_command \<Rightarrow> string \<Rightarrow> string \<Rightarrow> kv_key \<Rightarrow> native_draws \<Rightarrow> int \<Rightarrow> js native" where
  "perform_retained site cap command canonicalText retained key d now =
     nbind (nensure (cm_method command \<in> set NATIVE_RETAINED_METHODS) (NativeAuthorityError ''retained_operation_denied'' 403)) (\<lambda>_.
     nbind (native_perform site cap (cm_method command) (cm_args command) (cm_operationId command) None d now) (\<lambda>answer.
     nbind (sql_write Operation_receipt key (JObj [(''command'', JStr canonicalText), (''reply'', reply_js answer), (''retainedScope'', JStr retained)])
              None (receipt_scope cap)) (\<lambda>_.
     nreturn (reply_js answer))))"

definition commit_retained ::
  "authority_site \<Rightarrow> runtime_binding \<Rightarrow> js \<Rightarrow> native_command \<Rightarrow> string \<Rightarrow> native_draws \<Rightarrow> int \<Rightarrow> js native" where
  "commit_retained site binding verified command canonicalText d now =
     nbind (authorizeRetained site binding verified command now) (\<lambda>cap.
     nbind (assert_role cap (NATIVE_METHOD_ROLES (cm_method command))) (\<lambda>_.
     nbind (nlift (retained_scope_text verified)) (\<lambda>retained.
     let key = retained_key site binding cap (cm_operationId command) in
     nbind (sql_read Operation_receipt key now) (\<lambda>r.
     if nr_value r \<noteq> JNull then replay_retained (nr_value r) canonicalText retained
     else perform_retained site cap command canonicalText retained key d now))))"

section \<open>Whole executions\<close>

text \<open>
  What an execution meets outside: the verifiers' answers, the clock at each step, the classification of a
  quota response, and what other executions do to the store while it waits.
\<close>

record world =
  wd_verify :: "string \<Rightarrow> int \<Rightarrow> native_error + verified_runtime"
  wd_verifyRouting :: "js \<Rightarrow> string \<Rightarrow> int \<Rightarrow> native_error + js"
  wd_verifyRetained :: "string \<Rightarrow> int \<Rightarrow> native_error + js"
  wd_classified :: "codex_429 option"
  wd_observedAt :: int
  wd_routingAt :: int
  wd_now :: int
  wd_meanwhile :: "sql_store \<Rightarrow> sql_store"
  wd_afterwards :: "sql_store \<Rightarrow> sql_store"

definition routing_methods :: "native_method list" where
  "routing_methods = [SelectCodexAccount, ReservePaidAttempt, MarkApiDispatch, RecordTransportStarted, RefreshCodexAdmission]"

definition native_transact :: "'a native \<Rightarrow> sql_store \<Rightarrow> (native_error + 'a) \<times> sql_store" where
  "native_transact m s = (case m s of Inl e \<Rightarrow> (Inl e, s) | Inr (x, t) \<Rightarrow> (Inr x, t))"

definition routed_request :: "authority_site \<Rightarrow> runtime_authorization \<Rightarrow> native_command \<Rightarrow> int \<Rightarrow> js native" where
  "routed_request site auth command now =
     nbind (native_authorize site auth command now) (\<lambda>cap.
     nbind (arg_text (cm_args command) ''handle'') (\<lambda>handle. api_validated cap handle now))"

definition execute_routing ::
  "authority_site \<Rightarrow> runtime_binding \<Rightarrow> world \<Rightarrow> runtime_authorization \<Rightarrow> native_command \<Rightarrow> string \<Rightarrow> sql_store
     \<Rightarrow> (native_error + js option) \<times> sql_store" where
  "execute_routing site binding w auth command canonicalText s =
     (if cm_method command \<notin> set routing_methods then (Inr None, s)
      else
        (case native_transact (routed_request site auth command (wd_routingAt w)) s of
           (Inl e, t) \<Rightarrow> (Inl e, t)
         | (Inr request, t) \<Rightarrow>
             (case wd_verifyRouting w request canonicalText (wd_routingAt w) of
                Inl e \<Rightarrow> (Inl e, wd_afterwards w t)
              | Inr decision \<Rightarrow>
                  (case runtime_routing binding decision canonicalText (wd_routingAt w) (wd_afterwards w t) of
                     Inl e \<Rightarrow> (Inl e, wd_afterwards w t)
                   | Inr (checked, u) \<Rightarrow> (Inr (Some checked), u)))))"

definition quota_response :: "native_command \<Rightarrow> bool" where
  "quota_response command \<longleftrightarrow> cm_method command = RecordCodexAttemptSignal \<and> js_get (cm_args command) ''signal'' = JStr ''quota'' \<and>
     truthy (js_get (cm_args command) ''response'')"

definition native_prepare :: "runtime_binding \<Rightarrow> world \<Rightarrow> js \<Rightarrow> native_error + (native_command \<times> string \<times> runtime_authorization)" where
  "native_prepare binding w input =
     rbind (parseNativeCommand input) (\<lambda>command.
     rbind (nativeCommandBytes input) (\<lambda>canonicalText.
     rbind (wd_verify w canonicalText (wd_observedAt w)) (\<lambda>verified.
     rbind (runtime_verify binding verified canonicalText) (\<lambda>auth.
     Inr (command, canonicalText, auth)))))"

definition native_execute ::
  "authority_site \<Rightarrow> runtime_binding \<Rightarrow> world \<Rightarrow> native_draws \<Rightarrow> js \<Rightarrow> sql_store \<Rightarrow> (native_error + js) \<times> sql_store" where
  "native_execute site binding w d input s =
     (case native_prepare binding w input of
        Inl e \<Rightarrow> (Inl e, s)
      | Inr (command, canonicalText, auth) \<Rightarrow>
          (case native_transact (native_authorize site auth command (wd_observedAt w)) s of
             (Inl e, t) \<Rightarrow> (Inl e, t)
           | (Inr _, t) \<Rightarrow>
               (case execute_routing site binding w auth command canonicalText (wd_meanwhile w t) of
                  (Inl e, u) \<Rightarrow> (Inl e, u)
                | (Inr routing, u) \<Rightarrow>
                    native_transact (native_commit site auth command canonicalText routing
                      (if quota_response command then wd_classified w else None) d (wd_now w)) u)))"

definition routing_request :: "authority_site \<Rightarrow> runtime_authorization \<Rightarrow> string \<Rightarrow> int \<Rightarrow> js native" where
  "routing_request site auth handle now = nbind (runtime_authorize site auth now) (\<lambda>cap. api_validated cap handle now)"

definition prepare_binding :: "authority_site \<Rightarrow> runtime_binding \<Rightarrow> world \<Rightarrow> string \<Rightarrow> string \<Rightarrow> native_error + (string \<times> runtime_authorization)" where
  "prepare_binding site binding w handle operationId =
     rbind (ensure (rpc_text (JStr handle) \<and> rpc_text (JStr operationId)) (NativeAuthorityError ''invalid_private_routing_binding'' 400)) (\<lambda>_.
     rbind (routing_intent site handle operationId) (\<lambda>intent.
     rbind (wd_verify w intent (wd_observedAt w)) (\<lambda>verified.
     rbind (runtime_verify binding verified intent) (\<lambda>auth.
     Inr (intent, auth)))))"

definition bindTrustedRoutingDecision ::
  "authority_site \<Rightarrow> runtime_binding \<Rightarrow> world \<Rightarrow> string \<Rightarrow> string \<Rightarrow> sql_store \<Rightarrow> (native_error + js) \<times> sql_store" where
  "bindTrustedRoutingDecision site binding w handle operationId s =
     (case prepare_binding site binding w handle operationId of
        Inl e \<Rightarrow> (Inl e, s)
      | Inr (intent, auth) \<Rightarrow>
          (case native_transact (routing_request site auth handle (wd_routingAt w)) (wd_meanwhile w s) of
             (Inl e, t) \<Rightarrow> (Inl e, t)
           | (Inr request, t) \<Rightarrow>
               (case wd_verifyRouting w request intent (wd_routingAt w) of
                  Inl e \<Rightarrow> (Inl e, wd_afterwards w t)
                | Inr decision \<Rightarrow>
                    (case runtime_routing binding decision intent (wd_routingAt w) (wd_afterwards w t) of
                       Inl e \<Rightarrow> (Inl e, wd_afterwards w t)
                     | Inr (checked, u) \<Rightarrow> native_transact (commit_routing site auth handle operationId intent checked (wd_now w)) u))))"

definition prepare_retained :: "runtime_binding \<Rightarrow> world \<Rightarrow> js \<Rightarrow> native_error + (native_command \<times> string \<times> js)" where
  "prepare_retained binding w input =
     rbind (parseNativeCommand input) (\<lambda>command.
     rbind (nativeCommandBytes input) (\<lambda>canonicalText.
     rbind (wd_verifyRetained w canonicalText (wd_observedAt w)) (\<lambda>given.
     rbind (verifyRetained binding given canonicalText) (\<lambda>verified.
     Inr (command, canonicalText, verified)))))"

definition execute_retained ::
  "authority_site \<Rightarrow> runtime_binding \<Rightarrow> world \<Rightarrow> native_draws \<Rightarrow> js \<Rightarrow> sql_store \<Rightarrow> (native_error + js) \<times> sql_store" where
  "execute_retained site binding w d input s =
     (case prepare_retained binding w input of
        Inl e \<Rightarrow> (Inl e, s)
      | Inr (command, canonicalText, verified) \<Rightarrow>
          native_transact (commit_retained site binding verified command canonicalText d (wd_now w)) (wd_meanwhile w s))"

section \<open>Servers and clients\<close>

definition own_property :: "js \<Rightarrow> string \<Rightarrow> bool" where
  "own_property v k \<longleftrightarrow> field k v \<noteq> None"

definition binding_fields :: "js \<Rightarrow> native_error \<Rightarrow> native_error + runtime_binding" where
  "binding_fields v e =
     rbind (require (js_text (js_get v ''grantId'')) e) (\<lambda>grantId.
     rbind (require (js_text (js_get v ''contextBinding'')) e) (\<lambda>contextBinding.
     rbind (ensure (own_property v ''privateContext'') e) (\<lambda>_.
     Inr \<lparr>rb_grantId = grantId, rb_contextBinding = contextBinding\<rparr>)))"

definition bindAuthenticatedRuntime :: "js \<Rightarrow> native_error + runtime_binding" where
  "bindAuthenticatedRuntime v =
     (let invalid = NativeAuthorityError ''invalid_private_runtime_binding'' 403 in
      rbind (ensure (map_option length (js_entries v) = Some 3) invalid) (\<lambda>_. binding_fields v invalid))"

definition bindRetainedHistory :: "js \<Rightarrow> native_error + runtime_binding" where
  "bindRetainedHistory v =
     (let invalid = NativeAuthorityError ''invalid_retained_history_binding'' 403 in
      rbind (ensure (map_option length (js_entries v) = Some 4 \<and> js_get v ''kind'' = JStr ''retained_history'') invalid) (\<lambda>_. binding_fields v invalid))"

definition server_execute ::
  "authority_site \<Rightarrow> runtime_binding \<Rightarrow> world \<Rightarrow> native_draws \<Rightarrow> js \<Rightarrow> sql_store \<Rightarrow> (native_error + rpc_result) \<times> sql_store" where
  "server_execute site binding w d input s = map_prod rpc_answer id (native_execute site binding w d input s)"

text \<open>A client parses its own command before it is sent.\<close>

definition native_client_call ::
  "authority_site \<Rightarrow> runtime_binding \<Rightarrow> world \<Rightarrow> native_draws \<Rightarrow> js \<Rightarrow> sql_store \<Rightarrow> (native_error + js) \<times> sql_store" where
  "native_client_call site binding w d input s =
     (case parseNativeCommand input of
        Inl e \<Rightarrow> (Inl e, s)
      | Inr _ \<Rightarrow> map_prod (\<lambda>answer. rbind answer rpc_reply) id (server_execute site binding w d input s))"

end
