(* ===== verification/Native_Frames.thy ===== *)
theory Native_Frames
  imports Native_Authority Paid_Runs
begin

text \<open>
  Which tables a command of the authority may write. \<open>method_tables\<close> lists them for every method; the lemmas
  show, family by family, that nothing else changes.
\<close>

section \<open>Frames\<close>

definition outside :: "native_table set \<Rightarrow> sql_store \<Rightarrow> native_table \<Rightarrow> sql_row dict" where
  "outside W s T = (if T \<in> W then [] else sq_rows s T)"

lemma outside_iff: "outside W t = outside W s \<longleftrightarrow> (\<forall>T. T \<notin> W \<longrightarrow> sq_rows t T = sq_rows s T)"
  by (auto simp: outside_def fun_eq_iff)

lemma frame_write [keeps]: "T \<in> W \<Longrightarrow> keeps_view (outside W) (sql_write T key v e ix)"
  by (auto simp: keeps_view_def sql_write_iff outside_def fun_eq_iff)

lemma frame_delete [keeps]: "T \<in> W \<Longrightarrow> keeps_view (outside W) (sql_delete T key)"
  by (auto simp: keeps_view_def sql_delete_def outside_def fun_eq_iff)

lemma frame_save [keeps]: "Request_lifetime \<in> W \<Longrightarrow> keeps_view (outside W) (api_save row)"
  unfolding api_save_def by (intro keeps)

lemma keeps_let [keeps]: "keeps_view view (f x) \<Longrightarrow> keeps_view view (Let x f)"
  by (simp add: Let_def)

section \<open>Reads shared by the families\<close>

lemma keeps_api_reads [keeps]:
  "keeps_view view (row_policy row)" "keeps_view view (read_snapshot policy requestId now)"
  "keeps_view view (provider_of_row v)"
  "keeps_view view (ownsReservation row policy requestId now)" "keeps_view view (currentKeyPolicy tokenHash keyId now)"
  unfolding row_policy_def read_snapshot_def provider_of_row_def ownsReservation_def currentKeyPolicy_def by (intro keeps)+

lemma keeps_snapshot [keeps]: "keeps_view view (api_snapshot row now)"
  unfolding api_snapshot_def by (intro keeps)

lemma keeps_receipt_checks [keeps]: "keeps_view view (assertDispatchReceipt cap handle now)"
  unfolding assertDispatchReceipt_def by (intro keeps)

lemma keeps_transport_check [keeps]: "keeps_view view (assertTransportReceipt cap handle operationId now)"
  unfolding assertTransportReceipt_def by (intro keeps)

section \<open>API keys\<close>

abbreviation api_tables :: "native_table set" where
  "api_tables \<equiv> {Api_window, Api_request, Request_lifetime}"

lemma api_write_frame [keeps]: "{Api_request, Api_window} \<subseteq> W \<Longrightarrow> keeps_view (outside W) (api_write policy plan now)"
  unfolding api_write_def by (intro keeps) auto

lemma api_reclaim_frame [keeps]: "{Api_request, Api_window} \<subseteq> W \<Longrightarrow> keeps_view (outside W) (api_reclaim policy now)"
proof -
  assume W: "{Api_request, Api_window} \<subseteq> W"
  have entry: "keeps_view (outside W) (reclaim_entry policy now e)" for e
    using W unfolding reclaim_entry_def by (auto intro!: keeps simp: Let_def split: option.split usage_release_plan.split)
  have "keeps_view (outside W) (api_reclaim_pages fuel policy now after)" for fuel after
    by (induction fuel arbitrary: after) (auto intro!: keeps entry)
  then show ?thesis unfolding keeps_view_def api_reclaim_def by blast
qed

lemma api_frames [keeps]:
  "keeps_view (outside api_tables) (reserveApiUsage cap handle now)"
  "keeps_view (outside api_tables) (markApiDispatch cap handle provider now)"
  "keeps_view (outside api_tables) (recordTransportStart cap handle provider attempt operationId now)"
  "keeps_view (outside api_tables) (releaseApiUndispatched cap handle reason now)"
  "keeps_view (outside api_tables) (recordApiDispatchCancellation cap handle now)"
  unfolding reserveApiUsage_def markApiDispatch_def recordTransportStart_def releaseApiUndispatched_def recordApiDispatchCancellation_def
    reserve_usage_def plan_reservation_def Let_def
  by (auto intro!: keeps split: option.split usage_reservation_plan.split usage_release_plan.split usage_dispatch_plan.split)


section \<open>Kernel quotas\<close>

abbreviation kernel_tables :: "native_table set" where
  "kernel_tables \<equiv> {Kernel_policy_table, Kernel_window_table, Kernel_reservation_table, Kernel_cutover_table, Cursor_table, Request_lifetime}"

lemma keeps_kernel_reads [keeps]:
  "keeps_view view (kernelDefaults c now)" "keeps_view view (readWindow i now)" "keeps_view view (reservationRead ri now)"
  "keeps_view view (kernelIdentity cap handle now)" "keeps_view view (reclaim_position cap cursor now)"
  "keeps_view view (reserve_eligibility c cap owner repoName now)"
  unfolding kernelDefaults_def readWindow_def reservationRead_def kernelIdentity_def reclaim_position_def reserve_eligibility_def by (intro keeps)+

lemma keeps_decide [keeps]: "keeps_view view (decide_reserve c i effective requestId route now)"
  unfolding decide_reserve_def by (intro keeps)

lemma kernel_write_frames [keeps]:
  "keeps_view (outside kernel_tables) (writeReservation i row expiry)" "keeps_view (outside kernel_tables) (writeWindow i w expiry' sc)"
  unfolding writeReservation_def writeWindow_def by (intro keeps; simp)+

lemma kernel_settle_frame [keeps]: "keeps_view (outside kernel_tables) (settleReservation i target reason now)"
  unfolding settleReservation_def by (auto intro!: keeps split: option.split settle_plan.split)

lemma kernel_entries_frame [keeps]: "keeps_view (outside kernel_tables) (reclaim_entries i now es)"
  by (induction es) (auto intro!: keeps split: option.split)

lemma kernel_reclaim_frame [keeps]: "keeps_view (outside kernel_tables) (reclaimWindow i now)"
proof -
  have "keeps_view (outside kernel_tables) (reclaim_pages fuel i now after)" for fuel after
    by (induction fuel arbitrary: after) (auto intro!: keeps)
  then show ?thesis unfolding keeps_view_def reclaimWindow_def by blast
qed

lemma kernel_drain_frame [keeps]: "keeps_view (outside kernel_tables) (drainWindow i now)"
  unfolding drainWindow_def by (intro keeps)

lemma kernel_policy_frames [keeps]:
  "keeps_view (outside kernel_tables) (setPolicy c i args current window now)"
  "keeps_view (outside kernel_tables) (deletePolicy c i entry marker current window now)"
  "keeps_view (outside kernel_tables) (orgInheritanceBlocked cap i entry now)"
  unfolding setPolicy_def deletePolicy_def orgInheritanceBlocked_def Let_def
  by (auto intro!: keeps split: window_guard.split delete_precondition.split)

lemma kernel_frames [keeps]:
  "keeps_view (outside kernel_tables) (reserveKernelUsage c cap handle now)"
  "keeps_view (outside kernel_tables) (recordKernelTerminalIntent cap handle target now)"
  "keeps_view (outside kernel_tables) (settleKernelUsage cap handle target reason now)"
  "keeps_view (outside kernel_tables) (renewKernelReservation cap handle now)"
  "keeps_view (outside kernel_tables) (reclaimExpiredKernelReservations cap cursor limit uuid now)"
  "keeps_view (outside kernel_tables) (acquireKernelDefaultCutover uuid now)"
  "keeps_view (outside kernel_tables) (setKernelQuota c cap sc quota now)"
  "keeps_view (outside kernel_tables) (deleteKernelQuota c cap sc now)"
  unfolding reserveKernelUsage_def reserve_against_def recordKernelTerminalIntent_def settleKernelUsage_def renewKernelReservation_def
    reclaimExpiredKernelReservations_def acquireKernelDefaultCutover_def setKernelQuota_def deleteKernelQuota_def kernelPolicy_def Let_def
  by (auto intro!: keeps split: eligibility_plan.split reserve_plan.split terminal_plan.split cutover_plan.split)

section \<open>Codex accounts\<close>

abbreviation codex_tables :: "native_table set" where
  "codex_tables \<equiv> {Codex_routing, Codex_active, Codex_reset, Request_lifetime}"

lemma keeps_codex_reads [keeps]:
  "keeps_view view (read_codex_rows now)" "keeps_view view (codex_owner account now)" "keeps_view view (request_account request)"
  "keeps_view view (codex_authorization cap handle now)" "keeps_view view (codex_plan rows model now)" "keeps_view view (refused detail)"
  unfolding read_codex_rows_def codex_owner_def request_account_def codex_authorization_def codex_plan_def refused_def by (intro keeps)+

lemma keeps_fence [keeps]: "keeps_view view (codex_fence cap handle now authorization)"
  unfolding codex_fence_def by (intro keeps)

lemma codex_write_frames [keeps]:
  "keeps_view (outside codex_tables) (write_routing st)" "keeps_view (outside codex_tables) (write_active a)"
  unfolding write_routing_def write_active_def by (intro keeps; simp)+

lemma codex_frames [keeps]:
  "keeps_view (outside codex_tables) (codex_select cap handle uuid now)"
  "keeps_view (outside codex_tables) (codex_signal cap handle signal recoveryProbe parsed now)"
  "keeps_view (outside codex_tables) (codex_release cap handle now)"
  "keeps_view (outside codex_tables) (codex_refresh cap handle now)"
  "keeps_view (outside codex_tables) (codex_elect cap handle proofId uuid now)"
  unfolding codex_select_def admit_selected_def claim_probe_def refuse_selected_def codex_signal_def codex_release_def codex_refresh_def
    refresh_admitted_def codex_elect_def elect_account_def election_writes_def Let_def
  by (auto intro!: keeps split: route_selection.split)

section \<open>Paid attempts\<close>

abbreviation paid_tables :: "native_table set" where
  "paid_tables \<equiv> {Paid_request, Paid_window, Paid_pending, Paid_gate, Paid_lease, Paid_backfill_lease, Paid_rollup, Paid_deletion_guard,
     Attempt_lifetime, Cursor_table, Request_lifetime}"

lemma paid_write_frames [keeps]:
  "keeps_view (outside paid_tables) (write_paid_request key row expiry)" "keeps_view (outside paid_tables) (write_paid_window keyId reset w expiry)"
  "keeps_view (outside paid_tables) (write_paid_pending keyId b p)" "keeps_view (outside paid_tables) (write_gate due)"
  "keeps_view (outside paid_tables) (saveAttempt a)"
  unfolding write_paid_request_def write_paid_window_def write_paid_pending_def write_gate_def saveAttempt_def by (intro keeps; simp)+

lemma paid_step_frames [keeps]:
  "keeps_view (outside paid_tables) (arm_gate now)"
  unfolding arm_gate_def by (intro keeps; simp)+

lemma paid_part_frames [keeps]:
  "keeps_view (outside paid_tables) (expedite a now)" "keeps_view (outside paid_tables) (write_lifecycle a keyId plan now)"
  "keeps_view (outside paid_tables) (observe_provider cap a provider now)" "keeps_view (outside paid_tables) (save_started cap a now)"
  "keeps_view (outside paid_tables) (applyRelease a release now)" "keeps_view (outside paid_tables) (paid_cleanup a now)"
  "keeps_view (outside paid_tables) (write_cursor cap keyId uuid family after lease)" "keeps_view (outside paid_tables) (paid_resume cap cursor family now)"
  "keeps_view (outside paid_tables) (settle_attempt a keyId hop request providerLog spend now)"
  unfolding expedite_def write_lifecycle_def observe_provider_def save_started_def applyRelease_def paid_cleanup_def write_cursor_def
    paid_resume_def settle_attempt_def Let_def by (intro keeps; simp)+

lemma paid_page_frame [keeps]: "keeps_view (outside paid_tables) (page_cursor cap keyId uuid family page limit lease)"
  unfolding page_cursor_def by (intro keeps; simp)

lemma keeps_paid_checks [keeps]:
  "keeps_view view (paid_response cap handle now)" "keeps_view view (assertFetchStart cap a started now)"
  unfolding paid_response_def assertFetchStart_def by (auto intro!: keeps)

lemma keeps_start_check [keeps]: "keeps_view view (assertStart cap handle provider attempt now)"
  unfolding assertStart_def by (auto intro!: keeps split: option.split list.split)

lemma paid_lifecycle_frame [keeps]: "keeps_view (outside paid_tables) (paid_lifecycle cap handle args now)"
  unfolding paid_lifecycle_def apply_lifecycle_def Let_def by (intro keeps; simp)

lemma paid_defer_frame [keeps]: "keeps_view (outside paid_tables) (paid_defer cap handle now)"
  unfolding paid_defer_def Let_def by (intro keeps; simp)

lemma paid_entry_frames [keeps]:
  "keeps_view (outside paid_tables) (claim_entries cap keyId now es)" "keeps_view (outside paid_tables) (backfill_entries now es)"
proof -
  have "keeps_view (outside paid_tables) (dueAttempt cap keyId billingId now)" for billingId
    unfolding dueAttempt_def by (intro keeps; simp)
  then have "keeps_view (outside paid_tables) (claim_entry cap keyId now e)" for e unfolding claim_entry_def by (intro keeps)
  then show "keeps_view (outside paid_tables) (claim_entries cap keyId now es)" by (induction es) (auto intro!: keeps)
  have "keeps_view (outside paid_tables) (backfillRow key r now)" for key r unfolding backfillRow_def Let_def by (intro keeps; simp)
  then show "keeps_view (outside paid_tables) (backfill_entries now es)" by (induction es) (auto intro!: keeps)
qed

lemma keeps_table_scan [keeps]: "keeps_view view (scan_table t score keyId now)"
proof -
  have "keeps_view view (paid_scan fuel t score keyId now after)" for fuel after
    by (induction fuel arbitrary: after) (auto intro!: keeps)
  then show ?thesis unfolding keeps_view_def scan_table_def by blast
qed

lemma paid_drop_frame [keeps]:
  assumes "t \<in> W"
  shows "keeps_view (outside W) (drop_table t keyId now)"
proof -
  have "keeps_view (outside W) (drop_pages fuel t keyId now)" for fuel
    using assms by (induction fuel) (auto intro!: keeps)
  then show ?thesis unfolding keeps_view_def drop_table_def by blast
qed

lemma paid_reserve_frame [keeps]: "keeps_view (outside paid_tables) (paid_reserve cap handle hopId uuid now)"
  unfolding paid_reserve_def reserve_authorized_def reserve_priced_def admit_attempt_def write_admission_def blocked_by_def Let_def
  by (auto intro!: keeps split: option.split paid_admission_plan.split)

lemma paid_frames [keeps]:
  "keeps_view (outside paid_tables) (paid_start cap handle provider attempt now)"
  "keeps_view (outside paid_tables) (paid_release cap handle now)"
  "keeps_view (outside paid_tables) (paid_billing cap handle providerLog cost now)"
  "keeps_view (outside paid_tables) (paid_claim cap cursor limit token uuid now)"
  "keeps_view (outside paid_tables) (paid_finish cap token now)"
  "keeps_view (outside paid_tables) (paid_backfill cap cursor limit token uuid now)"
  "keeps_view (outside paid_tables) (paid_deletion cap now)"
  unfolding paid_start_def paid_release_def paid_billing_def paid_claim_def paid_finish_def paid_backfill_def paid_deletion_def
    paid_deleteForKey_def paidOutstanding_def Let_def
  by (intro keeps; simp)+

section \<open>Runtime bindings\<close>

lemma keeps_runtime_reads [keeps]:
  "keeps_view view (grant_text grant k)" "keeps_view view (grant_roles grant)" "keeps_view view (capability_policy cap now)"
  "keeps_view view (configured_hops now)" "keeps_view view (decision_hops decision)" "keeps_view view (assert_role cap role)"
  "keeps_view view (arg_text args k)" "keeps_view view (arg_option dec args k)" "keeps_view view (arg_provider args)"
  "keeps_view view (arg_terminal args)" "keeps_view view (arg_scope args)" "keeps_view view (arg_limit args)"
  "keeps_view view (quota_arguments args)"
  unfolding grant_text_def grant_roles_def capability_policy_def configured_hops_def decision_hops_def assert_role_def arg_text_def
    arg_option_def arg_provider_def arg_terminal_def arg_scope_def arg_limit_def quota_arguments_def
  by (intro keeps)+

lemma keeps_arguments [keeps]: "keeps_view view (lifecycle_arguments args)" "keeps_view view (log_arguments args)"
  unfolding lifecycle_arguments_def log_arguments_def by (intro keeps)+

lemma keeps_current_api [keeps]: "keeps_view view (assertCurrentApi cap now)" "keeps_view view (assert_hops_configured decision now)"
  unfolding assertCurrentApi_def assert_hops_configured_def by (intro keeps)+

lemma keeps_routing_checks [keeps]:
  "keeps_view view (assertRouting cap request decision now)" "keeps_view view (requestForDispatch cap handle provider now)"
  unfolding assertRouting_def requestForDispatch_def by (intro keeps)+

lemma keeps_capabilities [keeps]: "keeps_view view (bound_capability grant verified)" "keeps_view view (retained_capability grant handles)"
  unfolding bound_capability_def retained_capability_def by (intro keeps)+

lemma principal_reference_store: "principalReference refId keyId now s = Inr (x, t) \<Longrightarrow> t = s"
  by (auto simp: principalReference_def nbind_iff dest: sql_read_store split: list.splits)

lemma keeps_reference [keeps]: "keeps_view view (principalReference refId keyId now)"
  by (auto simp: keeps_view_def dest: principal_reference_store)

lemma keeps_retained_requests [keeps]: "keeps_view view (retained_requests grant handles now)"
  by (induction handles) (auto intro!: keeps)

lemma keeps_retained_attempt [keeps]: "keeps_view view (retained_attempt grant handles args now)"
  unfolding retained_attempt_def by (auto intro!: keeps split: js.split)

lemma keeps_retained [keeps]: "keeps_view view (authorizeRetained site binding verified command now)"
  unfolding authorizeRetained_def by (intro keeps)

lemma runtime_frames [keeps]:
  "keeps_view (outside {Runtime_request, Request_lifetime}) (runtime_open site cap args uuid now)"
  "keeps_view (outside {Request_lifetime}) (runtime_metadata cap args now)"
  "keeps_view (outside {Request_lifetime}) (bindRouting cap request decision now)"
  unfolding runtime_open_def runtime_metadata_def bindRouting_def Let_def by (intro keeps; simp)+

section \<open>Terminals and status\<close>

lemma keeps_answered [keeps]: "keeps_view view m \<Longrightarrow> keeps_view view (answered m)"
  unfolding answered_def by (intro keeps)

lemma keeps_status_reads [keeps]:
  "keeps_view view (status_after cap args request now)" "keeps_view view (status_attempts es now)" "keeps_view view (api_status cap handle now)"
  "keeps_view view (response_owner cap args request now)"
proof -
  show "keeps_view view (status_attempts es now)" by (induction es) (auto intro!: keeps simp: Let_def)
qed (unfold status_after_def api_status_def response_owner_def, (intro keeps)+)

lemma observation_frames [keeps]:
  "keeps_view (outside {Paid_rollup, Request_lifetime}) (recordSemanticTerminal cap args now)"
  "keeps_view (outside {Request_lifetime}) (recordDeliveryObservation cap args now)"
  "keeps_view (outside {Cursor_table}) (readRequestStatus cap args uuid now)"
  unfolding recordSemanticTerminal_def recordDeliveryObservation_def readRequestStatus_def terminalUsage_def Let_def by (intro keeps; simp)+

section \<open>Methods\<close>

text \<open>The tables a method may write, apart from the journal of receipts and the capability of a new binding.\<close>

fun method_tables :: "native_method \<Rightarrow> native_table set" where
  "method_tables OpenAuthenticatedRequest = {Runtime_request, Request_lifetime}"
| "method_tables BindValidatedRequestMetadata = {Request_lifetime}"
| "method_tables RecordDeliveryObservation = {Request_lifetime}"
| "method_tables RecordSemanticTerminal = {Paid_rollup, Request_lifetime}"
| "method_tables ReadRequestStatus = {Cursor_table}"
| "method_tables RecordTransportStarted = api_tables \<union> paid_tables"
| "method_tables m =
     (if m \<in> {ReserveApiUsage, MarkApiDispatch, ReleaseApiUndispatched, RecordApiDispatchCancellation} then api_tables
      else if m \<in> {SelectCodexAccount, RecordCodexAttemptSignal, ReleaseCodexProbe, ElectCodexResetProbe, RefreshCodexAdmission} then codex_tables
      else if m \<in> {ReserveKernelUsage, RecordKernelTerminalIntent, SettleKernelUsage, RenewKernelReservation,
                 ReclaimExpiredKernelReservations, SetKernelQuota, DeleteKernelQuota, AcquireKernelDefaultCutover} then kernel_tables
      else paid_tables)"

lemma frame_mono: "keeps_view (outside V) m \<Longrightarrow> V \<subseteq> W \<Longrightarrow> keeps_view (outside W) m"
  unfolding keeps_view_def outside_iff by blast

lemma perform_frame: "keeps_view (outside (method_tables called)) (native_perform site cap called args op parsed d now)"
proof (cases called)
  case RecordTransportStarted
  have start: "keeps_view (outside (method_tables called)) (paid_start cap handle provider attempt now)" for handle provider attempt
    by (rule frame_mono [OF paid_frames(1)]) (auto simp: RecordTransportStarted)
  have transport: "keeps_view (outside (method_tables called)) (recordTransportStart cap handle provider attempt op now)" for handle provider attempt
    by (rule frame_mono [OF api_frames(3)]) (auto simp: RecordTransportStarted)
  show ?thesis unfolding RecordTransportStarted native_perform.simps
    using start transport unfolding RecordTransportStarted by (intro keeps)
qed (simp_all, (intro keeps)+)

lemma method_tables_closed: "Operation_receipt \<notin> method_tables called" "Capability_table \<notin> method_tables called" "Runtime_grant \<notin> method_tables called"
  by (cases called; simp)+

section \<open>Authorization and receipts\<close>

lemma keeps_binding [keeps]:
  "keeps_view view (binding_grant site auth now)" "keeps_view view (binding_existing site verified now)" "keeps_view view (same_capability existing cap)"
  unfolding binding_grant_def binding_existing_def same_capability_def by (intro keeps)+

lemma authorize_frame [keeps]: "keeps_view (outside {Capability_table}) (runtime_authorize site auth now)"
  unfolding runtime_authorize_def Let_def by (intro keeps; simp)

lemma keeps_target [keeps]: "keeps_view view (target_checks cap command now)"
  unfolding target_checks_def by (intro keeps)

lemma native_authorize_frame [keeps]: "keeps_view (outside {Capability_table}) (native_authorize site auth command now)"
  unfolding native_authorize_def by (intro keeps)

lemma keeps_validate [keeps]:
  "keeps_view view (validateReceipt cap command receipt canonicalText now)" "keeps_view view (dispatch_current cap command routing now)"
  "keeps_view view (receipt_authorization cap command committed now)"
  unfolding validateReceipt_def validate_transport_def validate_refresh_def dispatch_current_def receipt_authorization_def by (intro keeps)+

abbreviation rows_of :: "native_table \<Rightarrow> sql_store \<Rightarrow> sql_row dict" where
  "rows_of T s \<equiv> sq_rows s T"

lemma frame_rows: "keeps_view (outside W) m \<Longrightarrow> T \<notin> W \<Longrightarrow> keeps_view (rows_of T) m"
  unfolding keeps_view_def outside_iff by blast

lemma commit_frame:
  "keeps_view (outside (insert Operation_receipt (insert Capability_table (method_tables (cm_method command)))))
     (native_commit site auth command canonicalText routing parsed d now)"
proof -
  let ?W = "insert Operation_receipt (insert Capability_table (method_tables (cm_method command)))"
  have authorize: "keeps_view (outside ?W) (native_authorize site auth command now)" by (rule frame_mono [OF native_authorize_frame]) blast
  have perform: "keeps_view (outside ?W) (native_perform site cap (cm_method command) (cm_args command) (cm_operationId command) parsed d now)" for cap
    by (rule frame_mono [OF perform_frame]) blast
  show ?thesis unfolding native_commit_def replay_receipt_def perform_once_def Let_def by (intro keeps authorize perform) blast
qed

end
