(* ===== verification/Native_Receipts.thy ===== *)
theory Native_Receipts
  imports Native_Frames Share_Ledger
begin

text \<open>
  Histories of the native authority: the transactions of any number of executions, interleaved in any way, a
  failing one without effect. Receipts and capabilities are written once and never change, so an operation
  that has committed is not performed again.
\<close>

section \<open>Events\<close>

datatype native_event =
    Authorizing runtime_authorization native_command int
  | RoutingRequest runtime_authorization native_command int
  | BindingRequest runtime_authorization string int
  | Committing runtime_authorization native_command string "js option" "codex_429 option" native_draws int
  | BindingRouting runtime_authorization string string string js int
  | CommittingRetained runtime_binding js native_command string native_draws int

definition silent :: "'a native \<Rightarrow> unit native" where
  "silent m = nbind m (\<lambda>_. nreturn ())"

fun event_effect :: "authority_site \<Rightarrow> native_event \<Rightarrow> unit native" where
  "event_effect site (Authorizing auth command now) = silent (native_authorize site auth command now)"
| "event_effect site (RoutingRequest auth command now) = silent (routed_request site auth command now)"
| "event_effect site (BindingRequest auth handle now) = silent (routing_request site auth handle now)"
| "event_effect site (Committing auth command canonicalText routing parsed d now) =
     silent (native_commit site auth command canonicalText routing parsed d now)"
| "event_effect site (BindingRouting auth handle operationId intent decision now) =
     silent (commit_routing site auth handle operationId intent decision now)"
| "event_effect site (CommittingRetained binding verified command canonicalText d now) =
     silent (commit_retained site binding verified command canonicalText d now)"

definition native_after :: "authority_site \<Rightarrow> native_event \<Rightarrow> sql_store \<Rightarrow> sql_store" where
  "native_after site e s = snd (native_transact (event_effect site e) s)"

definition native_run :: "authority_site \<Rightarrow> native_event list \<Rightarrow> sql_store \<Rightarrow> sql_store" where
  "native_run site events s = foldl (\<lambda>s e. native_after site e s) s events"

inductive native_step :: "authority_site \<Rightarrow> sql_store \<Rightarrow> sql_store \<Rightarrow> bool" for site where
  event: "event_effect site e s = Inr (u, t) \<Longrightarrow> native_step site s t"

inductive_cases native_stepE: "native_step site s t"

lemma run_steps: "(native_step site)\<^sup>*\<^sup>* s (native_run site events s)"
proof (induction events rule: rev_induct)
  case (snoc e events)
  let ?s = "native_run site events s"
  have "?s = native_after site e ?s \<or> native_step site ?s (native_after site e ?s)"
    by (auto simp: native_after_def native_transact_def intro: native_step.event split: sum.split prod.split)
  with snoc show ?case by (auto simp: native_run_def intro: rtranclp.rtrancl_into_rtrancl)
qed (simp add: native_run_def)

section \<open>Tables that are written once\<close>

definition journals :: "native_table list" where
  "journals = [Operation_receipt, Capability_table]"

definition permanent :: "sql_store \<Rightarrow> bool" where
  "permanent s \<longleftrightarrow> list_all (\<lambda>T. list_all (\<lambda>e. sr_expires_at_ms (snd e) = None \<and> nativeObject (sr_value (snd e))) (sq_rows s T)) journals"

text \<open>No row of \<open>T\<close> goes or changes.\<close>

definition grows :: "native_table \<Rightarrow> sql_store \<Rightarrow> sql_store \<Rightarrow> bool" where
  "grows T s t \<longleftrightarrow> (\<forall>k row. map_of (sq_rows s T) k = Some row \<longrightarrow> map_of (sq_rows t T) k = Some row)"

lemma grows_refl: "sq_rows t T = sq_rows s T \<Longrightarrow> grows T s t"
  by (simp add: grows_def)

lemma grows_trans: "grows T s t \<Longrightarrow> grows T t u \<Longrightarrow> grows T s u"
  by (auto simp: grows_def)

lemma permanent_rows: "permanent s \<Longrightarrow> T \<in> set journals \<Longrightarrow> map_of (sq_rows s T) k = Some row \<Longrightarrow>
    sr_expires_at_ms row = None \<and> nativeObject (sr_value row)"
  by (fastforce simp: permanent_def list_all_iff dest: map_of_SomeD)

lemma permanent_read:
  assumes "permanent s" "T \<in> set journals" "map_of (sq_rows s T) (nativeKey key) = Some row"
  shows "sql_read T key now s = Inr (\<lparr>nr_value = sr_value row, nr_revision = Some (revision_text (sr_revision row)), nr_expiresAtMs = None\<rparr>, s)"
  using permanent_rows [OF assms] assms(3)
  by (simp add: sql_read_def live_row_def row_live_def row_read_def row_expiry_ok_def rbind_Inr_iff)

lemma object_not_null: "nativeObject v \<Longrightarrow> v \<noteq> JNull"
  by (auto simp: nativeObject_def)

lemma read_absent:
  assumes "permanent s" "T \<in> set journals" "sql_read T key now s = Inr (r, u)" "nr_value r = JNull"
  shows "map_of (sq_rows s T) (nativeKey key) = None"
proof (rule ccontr)
  assume "map_of (sq_rows s T) (nativeKey key) \<noteq> None"
  then obtain row where row: "map_of (sq_rows s T) (nativeKey key) = Some row" by blast
  from permanent_read [OF assms(1,2) row, of now] assms(3,4) permanent_rows [OF assms(1,2) row] show False
    by (auto dest: object_not_null)
qed

text \<open>A row that was read first and found to be there.\<close>

lemma read_present:
  assumes "permanent s" "T \<in> set journals" "sql_read T key now s = Inr (r, u)" "nr_value r \<noteq> JNull"
  shows "\<exists>row. map_of (sq_rows s T) (nativeKey key) = Some row \<and> sr_value row = nr_value r"
proof (cases "map_of (sq_rows s T) (nativeKey key)")
  case None
  then show ?thesis using assms(3,4) by (auto simp: sql_read_def live_row_def absent_read_def)
next
  case (Some row)
  from permanent_read [OF assms(1,2) this, of now] assms(3) Some show ?thesis by simp
qed

lemma write_once:
  assumes "map_of (sq_rows s T) (nativeKey key) = None" "sql_write T key v None ix s = Inr (x, t)" "T \<in> set journals" "permanent s"
  shows "grows T s t" "permanent t" "map_of (sq_rows t T) (nativeKey key) \<noteq> None"
    "\<And>row. map_of (sq_rows t T) (nativeKey key) = Some row \<Longrightarrow> sr_value row = v"
proof -
  have t: "t = s\<lparr>sq_sequence := sq_sequence s + 1, sq_rows := (sq_rows s)(T := put (nativeKey key)
          \<lparr>sr_key = key, sr_value = v, sr_revision = sq_sequence s + 1, sr_expires_at_ms = None,
           sr_scope = ix_scope ix, sr_parent = ix_parent ix, sr_due = ix_due ix\<rparr> (sq_rows s T))\<rparr>"
    and ok: "write_ok T v None" using assms(2) by (auto simp: sql_write_iff)
  show "grows T s t" using assms(1) by (auto simp: grows_def t)
  show "map_of (sq_rows t T) (nativeKey key) \<noteq> None" "\<And>row. map_of (sq_rows t T) (nativeKey key) = Some row \<Longrightarrow> sr_value row = v"
    by (auto simp: t)
  have "nativeObject v" using ok assms(3) by (auto simp: write_ok_def journals_def)
  then show "permanent t" using assms(3,4) by (auto simp: permanent_def list_all_iff t journals_def put_absent [OF assms(1)])
qed

lemma reads_store: "reads_only m \<Longrightarrow> m s = Inr (x, t) \<Longrightarrow> t = s"
  by (rule keepsD)

text \<open>A step of the journals: what is there stays, and nothing in them expires.\<close>

definition journal_step :: "sql_store \<Rightarrow> sql_store \<Rightarrow> bool" where
  "journal_step s t \<longleftrightarrow> permanent t \<and> grows Operation_receipt s t \<and> grows Capability_table s t"

lemma journal_same:
  assumes "permanent s" "\<And>T. T \<in> set journals \<Longrightarrow> rows_of T t = rows_of T s"
  shows "journal_step s t"
  using assms by (auto simp: journal_step_def permanent_def journals_def grows_def)

lemma journal_trans: "journal_step s t \<Longrightarrow> journal_step t u \<Longrightarrow> journal_step s u"
  by (auto simp: journal_step_def intro: grows_trans)

lemma journal_keeps:
  assumes "permanent s" "keeps_view (outside W) m" "W \<inter> set journals = {}" "m s = Inr (x, t)"
  shows "journal_step s t"
proof (rule journal_same [OF assms(1)])
  fix T assume "T \<in> set journals"
  with assms(3) have "T \<notin> W" by blast
  from keepsD [OF frame_rows [OF assms(2) this] assms(4)] show "rows_of T t = rows_of T s" .
qed

text \<open>A receipt written after its key was found free, with anything done in between that leaves the journals alone.\<close>

lemma journal_entry:
  assumes "permanent s" "sql_read Operation_receipt key now s = Inr (e, u)" "nr_value e = JNull" "m s = Inr (x, w)"
    "keeps_view (outside W) m" "W \<inter> set journals = {}" "sql_write Operation_receipt key v None ix w = Inr (y, t)"
  shows "journal_step s t" "\<exists>row. map_of (rows_of Operation_receipt t) (nativeKey key) = Some row \<and> sr_value row = v"
proof -
  have T: "Operation_receipt \<in> set journals" by (simp add: journals_def)
  from assms(5,6) have rows: "rows_of Operation_receipt w = rows_of Operation_receipt s"
    using keepsD [OF frame_rows [OF assms(5)] assms(4)] T by blast
  have first: "journal_step s w" using assms(1,4,5,6) by (blast intro: journal_keeps)
  have none: "map_of (rows_of Operation_receipt w) (nativeKey key) = None" using read_absent [OF assms(1) T assms(2,3)] rows by simp
  from first have "permanent w" by (simp add: journal_step_def)
  note entry = write_once [OF none assms(7) T this]
  have "rows_of Capability_table t = rows_of Capability_table w" using assms(7) by (auto simp: sql_write_iff)
  then have "journal_step w t" using entry(1,2) by (simp add: journal_step_def grows_refl)
  with first show "journal_step s t" by (rule journal_trans)
  show "\<exists>row. map_of (rows_of Operation_receipt t) (nativeKey key) = Some row \<and> sr_value row = v" using entry(3,4) by blast
qed

section \<open>Authorization\<close>

lemma binding_grant_cases:
  assumes "binding_grant site auth now s = Inr (grant, t)"
  shows "t = s" "\<exists>g. sql_read Runtime_grant [KText (rb_grantId (fst auth))] now s = Inr (g, s) \<and> nr_value g = grant"
    "validRuntimeGrant grant" "current_grant site (rb_grantId (fst auth)) grant now"
    "js_get grant ''contextBinding'' = JStr (rb_contextBinding (fst auth))" "js_get grant ''subjectId'' = JStr (vr_subjectId (snd auth))"
  using assms by (auto simp: binding_grant_def Let_def nbind_iff dest: sql_read_store)

lemma binding_existing_cases:
  assumes "binding_existing site verified now s = Inr (existing, t)"
  shows "t = s \<and> (\<exists>e. sql_read Capability_table [KText (vr_bindingId verified)] now s = Inr (e, s) \<and> nr_value e = existing)"
proof -
  have "t = s" by (rule reads_store [OF keeps_binding(2) assms])
  with assms show ?thesis unfolding binding_existing_def by (auto simp: nbind_iff dest: sql_read_store)
qed

lemma bound_capability_fields:
  assumes "bound_capability grant verified s = Inr (cap, t)"
  shows "nc_id cap = vr_bindingId verified" "nc_principalId cap = runtime_principal (vr_identity verified)"
    "list_of_js role_of_js (js_get grant ''roles'') = Some (nc_roles cap)" "t = s"
  using assms by (auto simp: bound_capability_def grant_text_def grant_roles_def nbind_iff typed_def require_Inr_iff)

lemma authorize_cases:
  assumes "runtime_authorize site auth now s = Inr (cap, t)"
  shows "\<exists>grant existing. binding_grant site auth now s = Inr (grant, s) \<and> binding_existing site (snd auth) now s = Inr (existing, s) \<and>
      bound_capability grant (snd auth) s = Inr (cap, s) \<and>
      (if existing = JNull then sql_write Capability_table [KText (nc_id cap)] (capability_js cap) None no_index s = Inr ((), t) else t = s)"
proof -
  from assms obtain grant existing u where *: "binding_grant site auth now s = Inr (grant, s)" "binding_existing site (snd auth) now s = Inr (existing, s)"
    "bound_capability grant (snd auth) s = Inr (cap, s)"
    "(if existing = JNull then sql_write Capability_table [KText (nc_id cap)] (capability_js cap) None no_index else same_capability existing cap) s = Inr (u, t)"
    unfolding runtime_authorize_def nbind_iff nreturn_iff
    using reads_store [OF keeps_binding(1)] reads_store [OF keeps_binding(2)] reads_store [OF keeps_capabilities(1)] by metis
  from *(4) have "if existing = JNull then sql_write Capability_table [KText (nc_id cap)] (capability_js cap) None no_index s = Inr ((), t) else t = s"
    using reads_store [OF keeps_binding(3)] by (auto split: if_splits)
  with * show ?thesis by blast
qed

lemma authorize_journal:
  assumes "permanent s" "runtime_authorize site auth now s = Inr (cap, t)"
  shows "grows Capability_table s t" "permanent t" "rows_of Operation_receipt t = rows_of Operation_receipt s"
    "nc_id cap = vr_bindingId (snd auth)" "nc_principalId cap = runtime_principal (vr_identity (snd auth))"
    "map_of (rows_of Capability_table t) (nativeKey [KText (vr_bindingId (snd auth))]) \<noteq> None"
    "map_of (rows_of Capability_table s) (nativeKey [KText (vr_bindingId (snd auth))]) \<noteq> None \<Longrightarrow> t = s"
proof -
  from authorize_cases [OF assms(2)] obtain grant existing where *: "binding_grant site auth now s = Inr (grant, s)"
    "binding_existing site (snd auth) now s = Inr (existing, s)" "bound_capability grant (snd auth) s = Inr (cap, s)"
    "if existing = JNull then sql_write Capability_table [KText (nc_id cap)] (capability_js cap) None no_index s = Inr ((), t) else t = s" by blast
  show ids: "nc_id cap = vr_bindingId (snd auth)" "nc_principalId cap = runtime_principal (vr_identity (snd auth))"
    using bound_capability_fields [OF *(3)] by simp_all
  from binding_existing_cases [OF *(2)] obtain e where e: "sql_read Capability_table [KText (nc_id cap)] now s = Inr (e, s)" "nr_value e = existing"
    by (auto simp: ids)
  show "rows_of Operation_receipt t = rows_of Operation_receipt s"
    by (rule keepsD [OF frame_rows [OF authorize_frame] assms(2)]) simp
  have T: "Capability_table \<in> set journals" by (simp add: journals_def)
  have "grows Capability_table s t \<and> permanent t \<and> map_of (rows_of Capability_table t) (nativeKey [KText (nc_id cap)]) \<noteq> None \<and>
      (map_of (rows_of Capability_table s) (nativeKey [KText (nc_id cap)]) \<noteq> None \<longrightarrow> t = s)"
  proof (cases "existing = JNull")
    case True
    with e have none: "map_of (rows_of Capability_table s) (nativeKey [KText (nc_id cap)]) = None" using read_absent [OF assms(1) T] by blast
    from True *(4) have "sql_write Capability_table [KText (nc_id cap)] (capability_js cap) None no_index s = Inr ((), t)" by simp
    from write_once [OF none this T assms(1)] none show ?thesis by blast
  next
    case False
    with *(4) have "t = s" by simp
    moreover have "map_of (rows_of Capability_table s) (nativeKey [KText (nc_id cap)]) \<noteq> None"
      using read_present [OF assms(1) T e(1)] e(2) False by auto
    ultimately show ?thesis using assms(1) by (simp add: grows_refl)
  qed
  then show "grows Capability_table s t" "permanent t" "map_of (rows_of Capability_table t) (nativeKey [KText (vr_bindingId (snd auth))]) \<noteq> None"
    "map_of (rows_of Capability_table s) (nativeKey [KText (vr_bindingId (snd auth))]) \<noteq> None \<Longrightarrow> t = s" by (simp_all add: ids)
qed

lemma authorize_step: "permanent s \<Longrightarrow> runtime_authorize site auth now s = Inr (cap, t) \<Longrightarrow> journal_step s t"
  using authorize_journal by (simp add: journal_step_def grows_refl)

lemma native_authorize_cases:
  assumes "native_authorize site auth command now s = Inr (cap, t)"
  shows "runtime_authorize site auth now s = Inr (cap, t)" "NATIVE_METHOD_ROLES (cm_method command) \<in> set (nc_roles cap)"
    "cm_epoch command = as_epoch site"
  using assms by (auto simp: native_authorize_def assert_role_def nbind_iff dest: reads_store [OF keeps_target])

section \<open>Commits\<close>

lemma replay_cases:
  assumes "replay_receipt cap command receipt canonicalText now s = Inr (r, t)"
  shows "t = s" "js_get receipt ''command'' = JStr canonicalText" "r = js_get receipt ''reply''"
proof -
  from assms obtain x where valid: "validateReceipt cap command receipt canonicalText now s = Inr (x, t)" and r: "r = js_get receipt ''reply''"
    by (auto simp: replay_receipt_def nbind_iff)
  show "t = s" by (rule reads_store [OF keeps_validate(1) valid])
  show "js_get receipt ''command'' = JStr canonicalText" using valid by (auto simp: validateReceipt_def Let_def nbind_iff)
  show "r = js_get receipt ''reply''" by (rule r)
qed

lemma perform_cases:
  assumes "perform_once site cap command canonicalText parsed d now s = Inr (r, t)"
  shows "\<exists>answer w authorization x. native_perform site cap (cm_method command) (cm_args command) (cm_operationId command) parsed d now s = Inr (answer, w) \<and>
      r = reply_js answer \<and>
      sql_write Operation_receipt (receipt_key site cap (cm_operationId command))
        (JObj ([(''command'', JStr canonicalText), (''reply'', r)] @ authorization)) None (receipt_scope cap) w = Inr (x, t)"
  using assms unfolding perform_once_def Let_def nbind_iff nreturn_iff by (metis reads_store [OF keeps_validate(3)])

lemma commit_cases:
  assumes "native_commit site auth command canonicalText routing parsed d now s = Inr (r, t)"
  shows "\<exists>cap u e. native_authorize site auth command now s = Inr (cap, u) \<and>
      sql_read Operation_receipt (receipt_key site cap (cm_operationId command)) now u = Inr (e, u) \<and>
      (if nr_value e \<noteq> JNull then replay_receipt cap command (nr_value e) canonicalText now
       else perform_once site cap command canonicalText parsed d now) u = Inr (r, t)"
  using assms unfolding native_commit_def nbind_iff by (metis reads_store [OF keeps_validate(2)] sql_read_store)

definition receipt_at :: "authority_site \<Rightarrow> runtime_authorization \<Rightarrow> string \<Rightarrow> string" where
  "receipt_at site auth operationId = nativeKey [KText (as_epoch site), KText (runtime_principal (vr_identity (snd auth))),
     KText (vr_bindingId (snd auth)), KText operationId]"

definition recorded :: "sql_store \<Rightarrow> string \<Rightarrow> string \<Rightarrow> js \<Rightarrow> bool" where
  "recorded s slot canonicalText answer \<longleftrightarrow> (\<exists>row. map_of (rows_of Operation_receipt s) slot = Some row \<and>
     js_get (sr_value row) ''command'' = JStr canonicalText \<and> js_get (sr_value row) ''reply'' = answer)"

definition bound :: "sql_store \<Rightarrow> runtime_authorization \<Rightarrow> bool" where
  "bound s auth \<longleftrightarrow> map_of (rows_of Capability_table s) (nativeKey [KText (vr_bindingId (snd auth))]) \<noteq> None"

lemma recorded_mono: "recorded s slot text answer \<Longrightarrow> journal_step s t \<Longrightarrow> recorded t slot text answer"
  by (auto simp: recorded_def journal_step_def grows_def)

lemma bound_mono: "bound s auth \<Longrightarrow> journal_step s t \<Longrightarrow> bound t auth"
  by (auto simp: bound_def journal_step_def grows_def)

lemma recorded_unique: "recorded s slot a x \<Longrightarrow> recorded s slot b y \<Longrightarrow> a = b \<and> x = y"
  by (auto simp: recorded_def)

lemma receipt_fields [simp]:
  "js_get (JObj ([(''command'', c), (''reply'', a)] @ rest)) ''command'' = c" "js_get (JObj ([(''command'', c), (''reply'', a)] @ rest)) ''reply'' = a"
  by (simp_all add: js_get_def)

lemma commit_journal:
  assumes "permanent s" "native_commit site auth command canonicalText routing parsed d now s = Inr (r, t)"
  shows "journal_step s t \<and> recorded t (receipt_at site auth (cm_operationId command)) canonicalText r \<and> bound t auth"
proof -
  let ?slot = "receipt_at site auth (cm_operationId command)"
  from commit_cases [OF assms(2)] obtain cap u e where cap: "native_authorize site auth command now s = Inr (cap, u)"
    and read: "sql_read Operation_receipt (receipt_key site cap (cm_operationId command)) now u = Inr (e, u)"
    and rest: "(if nr_value e \<noteq> JNull then replay_receipt cap command (nr_value e) canonicalText now
       else perform_once site cap command canonicalText parsed d now) u = Inr (r, t)" by blast
  note authorized = native_authorize_cases(1) [OF cap]
  note journal = authorize_journal [OF assms(1) authorized]
  have first: "journal_step s u" by (rule authorize_step [OF assms(1) authorized])
  then have u: "permanent u" by (simp add: journal_step_def)
  have slot: "nativeKey (receipt_key site cap (cm_operationId command)) = ?slot" using journal(4,5) by (simp add: receipt_key_def receipt_at_def)
  have bound: "bound u auth" using journal(6) by (simp add: bound_def)
  show ?thesis
  proof (cases "nr_value e = JNull")
    case True
    with rest obtain answer w authorization x where perform: "native_perform site cap (cm_method command) (cm_args command) (cm_operationId command) parsed d now u = Inr (answer, w)"
      and entry: "sql_write Operation_receipt (receipt_key site cap (cm_operationId command))
        (JObj ([(''command'', JStr canonicalText), (''reply'', r)] @ authorization)) None (receipt_scope cap) w = Inr (x, t)"
      using perform_cases by fastforce
    have apart: "method_tables (cm_method command) \<inter> set journals = {}" using method_tables_closed(1,2) by (auto simp: journals_def)
    note second = journal_entry [OF u read True perform perform_frame apart entry]
    from second(2) have "recorded t ?slot canonicalText r" unfolding recorded_def slot by auto
    with second(1) first bound show ?thesis by (blast intro: journal_trans bound_mono)
  next
    case False
    with rest have replay: "replay_receipt cap command (nr_value e) canonicalText now u = Inr (r, t)" by simp
    have "recorded u ?slot canonicalText r"
      using read_present [OF u _ read] False replay_cases(2,3) [OF replay] by (auto simp: recorded_def slot journals_def)
    with first bound replay_cases(1) [OF replay] show ?thesis by simp
  qed
qed

text \<open>A command whose operation has a receipt, under a binding with a capability, changes nothing.\<close>

lemma commit_replays:
  assumes "permanent s" "native_commit site auth command canonicalText routing parsed d now s = Inr (r, t)"
    "recorded s (receipt_at site auth (cm_operationId command)) text answer" "bound s auth"
  shows "t = s"
proof -
  from commit_cases [OF assms(2)] obtain cap u e where cap: "native_authorize site auth command now s = Inr (cap, u)"
    and read: "sql_read Operation_receipt (receipt_key site cap (cm_operationId command)) now u = Inr (e, u)"
    and rest: "(if nr_value e \<noteq> JNull then replay_receipt cap command (nr_value e) canonicalText now
       else perform_once site cap command canonicalText parsed d now) u = Inr (r, t)" by blast
  note authorized = native_authorize_cases(1) [OF cap]
  note journal = authorize_journal [OF assms(1) authorized]
  have "u = s" using journal(7) assms(4) by (simp add: bound_def)
  moreover have "nr_value e \<noteq> JNull"
  proof
    assume "nr_value e = JNull"
    then have "map_of (rows_of Operation_receipt s) (nativeKey (receipt_key site cap (cm_operationId command))) = None"
      using read_absent [OF assms(1) _ read [unfolded \<open>u = s\<close>]] by (simp add: journals_def)
    with assms(3) journal(4,5) show False by (simp add: recorded_def receipt_key_def receipt_at_def)
  qed
  ultimately show ?thesis using rest replay_cases(1) by auto
qed

section \<open>Other transactions\<close>

lemma routing_cases:
  assumes "commit_routing site auth handle operationId intent decision now s = Inr (r, t)"
  shows "\<exists>cap u request e. runtime_authorize site auth now s = Inr (cap, u) \<and>
      sql_read Operation_receipt (routing_key site cap operationId) now u = Inr (e, u) \<and>
      bind_decision cap request decision intent (routing_key site cap operationId) (nr_value e) now u = Inr (r, t)"
  using assms unfolding commit_routing_def assert_role_def nbind_iff nensure_iff by (metis reads_store [OF keeps_reads(6)] sql_read_store)

lemma bind_cases:
  assumes "bind_decision cap request decision intent key prior now s = Inr (r, t)"
  shows "\<exists>b w. answered (bindRouting cap request decision now) s = Inr (b, w) \<and>
      (if prior = JNull then \<exists>v x. sql_write Operation_receipt key v None (receipt_scope cap) w = Inr (x, t) else t = w)"
  using assms by (cases "prior = JNull") (auto simp: bind_decision_def nbind_iff)

lemma routing_journal:
  assumes "permanent s" "commit_routing site auth handle operationId intent decision now s = Inr (r, t)"
  shows "journal_step s t"
proof -
  from routing_cases [OF assms(2)] obtain cap u request e where *: "runtime_authorize site auth now s = Inr (cap, u)"
    "sql_read Operation_receipt (routing_key site cap operationId) now u = Inr (e, u)"
    "bind_decision cap request decision intent (routing_key site cap operationId) (nr_value e) now u = Inr (r, t)" by blast
  from bind_cases [OF *(3)] obtain b w where b: "answered (bindRouting cap request decision now) u = Inr (b, w)"
    "if nr_value e = JNull then \<exists>v x. sql_write Operation_receipt (routing_key site cap operationId) v None (receipt_scope cap) w = Inr (x, t) else t = w"
    by blast
  have first: "journal_step s u" by (rule authorize_step [OF assms(1) *(1)])
  then have u: "permanent u" by (simp add: journal_step_def)
  have apart: "{Request_lifetime} \<inter> set journals = {}" by (simp add: journals_def)
  note frame = keeps_answered [OF runtime_frames(3)]
  show ?thesis
  proof (cases "nr_value e = JNull")
    case True
    with b(2) obtain v x where "sql_write Operation_receipt (routing_key site cap operationId) v None (receipt_scope cap) w = Inr (x, t)" by auto
    from journal_trans [OF first journal_entry(1) [OF u *(2) True b(1) frame apart this]] show ?thesis .
  next
    case False
    with b(2) journal_trans [OF first journal_keeps [OF u frame apart b(1)]] show ?thesis by simp
  qed
qed

lemma retained_cases:
  assumes "commit_retained site binding verified command canonicalText d now s = Inr (r, t)"
  shows "\<exists>cap retained e key. sql_read Operation_receipt key now s = Inr (e, s) \<and>
      (if nr_value e \<noteq> JNull then replay_retained (nr_value e) canonicalText retained
       else perform_retained site cap command canonicalText retained key d now) s = Inr (r, t)"
  using assms unfolding commit_retained_def assert_role_def Let_def nbind_iff nensure_iff nlift_iff
  by (metis reads_store [OF keeps_retained] sql_read_store)

lemma retained_journal:
  assumes "permanent s" "commit_retained site binding verified command canonicalText d now s = Inr (r, t)"
  shows "journal_step s t"
proof -
  from retained_cases [OF assms(2)] obtain cap retained e key where read: "sql_read Operation_receipt key now s = Inr (e, s)"
    and rest: "(if nr_value e \<noteq> JNull then replay_retained (nr_value e) canonicalText retained
       else perform_retained site cap command canonicalText retained key d now) s = Inr (r, t)" by blast
  show ?thesis
  proof (cases "nr_value e = JNull")
    case True
    with rest obtain answer w v x where "native_perform site cap (cm_method command) (cm_args command) (cm_operationId command) None d now s = Inr (answer, w)"
      "sql_write Operation_receipt key v None (receipt_scope cap) w = Inr (x, t)" by (auto simp: perform_retained_def nbind_iff)
    moreover have "method_tables (cm_method command) \<inter> set journals = {}" using method_tables_closed(1,2) by (auto simp: journals_def)
    ultimately show ?thesis using journal_entry(1) [OF assms(1) read True _ perform_frame] by blast
  next
    case False
    with rest have "t = s" by (auto simp: replay_retained_def nbind_iff)
    with assms(1) show ?thesis by (simp add: journal_same)
  qed
qed

section \<open>Histories\<close>

lemma silent_iff: "silent m s = Inr (x, t) \<longleftrightarrow> (\<exists>y. m s = Inr (y, t))"
  by (auto simp: silent_def nbind_iff)

lemma native_authorize_step: "permanent s \<Longrightarrow> native_authorize site auth command now s = Inr (cap, t) \<Longrightarrow> journal_step s t"
  by (blast dest: native_authorize_cases(1) intro: authorize_step)

lemma routed_journal: "permanent s \<Longrightarrow> routed_request site auth command now s = Inr (request, t) \<Longrightarrow> journal_step s t"
proof -
  assume s: "permanent s" and routed: "routed_request site auth command now s = Inr (request, t)"
  have reads: "reads_only (nbind (arg_text (cm_args command) ''handle'') (\<lambda>handle. api_validated cap handle now))" for cap by (intro keeps)
  from routed obtain cap u where "native_authorize site auth command now s = Inr (cap, u)"
    "nbind (arg_text (cm_args command) ''handle'') (\<lambda>handle. api_validated cap handle now) u = Inr (request, t)"
    unfolding routed_request_def nbind_iff [of "native_authorize _ _ _ _"] by blast
  with reads_store [OF reads] native_authorize_step [OF s] show ?thesis by metis
qed

lemma binding_journal: "permanent s \<Longrightarrow> routing_request site auth handle now s = Inr (request, t) \<Longrightarrow> journal_step s t"
  unfolding routing_request_def nbind_iff by (metis reads_store [OF keeps_reads(6)] authorize_step)

lemma event_journal: "permanent s \<Longrightarrow> native_step site s t \<Longrightarrow> journal_step s t"
proof (erule native_stepE)
  fix e u assume "permanent s" "event_effect site e s = Inr (u, t)"
  then show ?thesis
  proof (cases e)
    case (RoutingRequest auth command now)
    with \<open>event_effect site e s = Inr (u, t)\<close> obtain request where "routed_request site auth command now s = Inr (request, t)"
      by (auto simp: silent_iff)
    with \<open>permanent s\<close> show ?thesis by (auto intro: routed_journal)
  qed (auto simp: silent_iff intro: native_authorize_step binding_journal routing_journal retained_journal commit_journal [THEN conjunct1])
qed

interpretation journal: machine "native_step site" permanent for site
  by unfold_locales (use event_journal in \<open>auto simp: journal_step_def\<close>)

end
