(* ===== verification/Native_History.thy ===== *)
theory Native_History
  imports Native_Receipts
begin

text \<open>
  What holds of every history of the native authority: an operation is performed once, a grant that has ended
  authorizes nothing any more, and a command writes the tables of its own family only.
\<close>

section \<open>A demonstration\<close>

definition native_demo_site :: authority_site where
  "native_demo_site = \<lparr>as_namespace = ''n'', as_epoch = ''e'', as_constants = \<lparr>kc_noUsageLimit = - 1, kc_noExpirationMs = - 1\<rparr>\<rparr>"

definition native_demo_grant :: js where
  "native_demo_grant = JObj [(''id'', JStr ''g''), (''revision'', jint 3), (''epoch'', JStr ''e''), (''subjectId'', JStr ''s''),
     (''contextBinding'', JStr ''c''), (''roles'', JArr [JStr ''quota_admin'']), (''expiresAtMs'', jint 50), (''revoked'', JBool False)]"

definition native_demo_authority :: sql_store where
  "native_demo_authority = \<lparr>sq_rows = (\<lambda>t. case t of
      Runtime_grant \<Rightarrow> [(nativeKey [KText ''g''], \<lparr>sr_key = [KText ''g''], sr_value = native_demo_grant, sr_revision = 1,
        sr_expires_at_ms = None, sr_scope = None, sr_parent = None, sr_due = None\<rparr>)]
    | _ \<Rightarrow> []), sq_sequence = 1\<rparr>"

definition native_demo_auth :: runtime_authorization where
  "native_demo_auth = (\<lparr>rb_grantId = ''g'', rb_contextBinding = ''c''\<rparr>,
     \<lparr>vr_bindingId = ''b'', vr_subjectId = ''s'', vr_contextBinding = ''c'', vr_intentDigest = [], vr_identity = AdminAllowlist,
      vr_api = None, vr_kernel = None\<rparr>)"

definition native_demo_command :: native_command where
  "native_demo_command = \<lparr>cm_epoch = ''e'', cm_operationId = ''o1'', cm_method = AcquireKernelDefaultCutover, cm_args = JObj []\<rparr>"

definition native_demo_draws :: "string \<Rightarrow> native_draws" where
  "native_demo_draws x = \<lparr>dw_first = x, dw_second = []\<rparr>"



lemma native_demo_twice:
  "case native_commit native_demo_site native_demo_auth native_demo_command ''t'' None None (native_demo_draws ''u'') 10 (native_run native_demo_site [] native_demo_authority) of
     Inl e \<Rightarrow> False
   | Inr (r, t) \<Rightarrow>
       (case native_commit native_demo_site native_demo_auth native_demo_command ''t'' None None (native_demo_draws ''v'') 20
          (native_run native_demo_site [Authorizing native_demo_auth native_demo_command 15] t) of Inl e \<Rightarrow> False | Inr (q, u) \<Rightarrow> reply_is r ''acquire'')"
  by code_simp


lemma native_demo_results:
  obtains r t q u where
    "native_commit native_demo_site native_demo_auth native_demo_command ''t'' None None (native_demo_draws ''u'') 10 (native_run native_demo_site [] native_demo_authority) = Inr (r, t)"
    "native_commit native_demo_site native_demo_auth native_demo_command ''t'' None None (native_demo_draws ''v'') 20
       (native_run native_demo_site [Authorizing native_demo_auth native_demo_command 15] t) = Inr (q, u)" "reply_is r ''acquire''"
  using native_demo_twice unfolding succeeds by blast

section \<open>Once\<close>

lemma fresh_permanent: "sq_rows s Operation_receipt = [] \<Longrightarrow> sq_rows s Capability_table = [] \<Longrightarrow> permanent (native_run site events s)"
  by (rule journal.inv_run [OF run_steps]) (simp add: permanent_def journals_def)

lemma journal_run: "permanent s \<Longrightarrow> journal_step s (native_run site events s)"
  by (rule journal.stable_run [OF run_steps, where P = "journal_step s"])
    (auto intro: journal_same journal_trans event_journal)

text \<open>
  C37. An operation runs once. When a command has committed, every later command with the same operation
  identifier under the same principal and binding that is answered at all has the same canonical text, gets
  the same reply and changes nothing, whatever transactions of the authority ran in between and in whatever
  order. (The history starts from an authority without receipts and capabilities.)
\<close>

theorem operation_runs_once:
  assumes "sq_rows fresh Operation_receipt = []" "sq_rows fresh Capability_table = []"
    and first: "native_commit site auth command canonicalText routing parsed d now (native_run site earlier fresh) = Inr (r, t)"
    and again: "native_commit site auth' command' canonicalText' routing' parsed' d' now' (native_run site later t) = Inr (r', u)"
    and same: "cm_operationId command' = cm_operationId command" "vr_bindingId (snd auth') = vr_bindingId (snd auth)"
      "runtime_principal (vr_identity (snd auth')) = runtime_principal (vr_identity (snd auth))"
  shows "canonicalText' = canonicalText \<and> r' = r \<and> u = native_run site later t"
proof -
  let ?slot = "receipt_at site auth (cm_operationId command)"
  have slot: "receipt_at site auth' (cm_operationId command') = ?slot" using same by (simp add: receipt_at_def)
  note committed = commit_journal [OF fresh_permanent [OF assms(1,2)] first]
  then have t: "permanent t" by (simp add: journal_step_def)
  note run = journal_run [OF t, of site later]
  then have later: "permanent (native_run site later t)" by (simp add: journal_step_def)
  have kept: "recorded (native_run site later t) ?slot canonicalText r" "bound (native_run site later t) auth"
    using committed run by (blast intro: recorded_mono bound_mono)+
  have u: "u = native_run site later t"
    using commit_replays [OF later again] kept slot same(2) by (simp add: bound_def)
  with commit_journal [OF later again] slot have "recorded (native_run site later t) ?slot canonicalText' r'" by simp
  with kept(1) u show ?thesis using recorded_unique by blast
qed

theorem operation_runs_once_witness:
  "\<exists>r t q u. native_commit native_demo_site native_demo_auth native_demo_command ''t'' None None (native_demo_draws ''u'') 10 (native_run native_demo_site [] native_demo_authority) = Inr (r, t) \<and>
     native_commit native_demo_site native_demo_auth native_demo_command ''t'' None None (native_demo_draws ''v'') 20
       (native_run native_demo_site [Authorizing native_demo_auth native_demo_command 15] t) = Inr (q, u) \<and>
     reply_is r ''acquire'' \<and> q = r \<and> u = native_run native_demo_site [Authorizing native_demo_auth native_demo_command 15] t"
proof -
  obtain r t q u where *: "native_commit native_demo_site native_demo_auth native_demo_command ''t'' None None (native_demo_draws ''u'') 10 (native_run native_demo_site [] native_demo_authority) = Inr (r, t)"
    "native_commit native_demo_site native_demo_auth native_demo_command ''t'' None None (native_demo_draws ''v'') 20
       (native_run native_demo_site [Authorizing native_demo_auth native_demo_command 15] t) = Inr (q, u)" "reply_is r ''acquire''"
    by (rule native_demo_results)
  from operation_runs_once [OF _ _ *(1,2)] *  show ?thesis by (auto simp: native_demo_authority_def)
qed

section \<open>Grants that have ended\<close>

lemma grants_kept: "native_step site s t \<Longrightarrow> rows_of Runtime_grant t = rows_of Runtime_grant s"
proof (erule native_stepE)
  fix e u assume effect: "event_effect site e s = Inr (u, t)"
  have authorize: "keeps_view (rows_of Runtime_grant) (runtime_authorize site auth now)" for auth now
    by (rule frame_rows [OF authorize_frame]) simp
  have native: "keeps_view (rows_of Runtime_grant) (native_authorize site auth command now)" for auth command now
    by (rule frame_rows [OF native_authorize_frame]) simp
  have perform: "keeps_view (rows_of Runtime_grant) (native_perform site cap called args op parsed d now)" for cap called args op parsed d now
    by (rule frame_rows [OF perform_frame method_tables_closed(3)])
  have receipts: "keeps_view (rows_of Runtime_grant) (sql_write Operation_receipt key v expiry ix)" for key v expiry ix
    by (rule frame_rows [OF frame_write [of _ "{Operation_receipt}"]]) simp_all
  have bind: "keeps_view (rows_of Runtime_grant) (bindRouting cap request decision now)" for cap request decision now
    by (rule frame_rows [OF runtime_frames(3)]) simp
  have "keeps_view (rows_of Runtime_grant) (event_effect site e)"
    by (cases e; simp only: event_effect.simps;
      unfold silent_def routed_request_def routing_request_def native_commit_def replay_receipt_def perform_once_def commit_routing_def
        bind_decision_def commit_retained_def replay_retained_def perform_retained_def;
      intro keeps authorize native perform receipts bind)
  from keepsD [OF this effect] show ?thesis .
qed

definition grant_over :: "js \<Rightarrow> int \<Rightarrow> bool" where
  "grant_over grant now \<longleftrightarrow> js_get grant ''revoked'' = JBool True \<or> \<not> unexpired grant now"

text \<open>
  C38. A grant that was revoked, or has expired at the time of a command, authorizes nothing: no command under a
  binding of it is answered, not even one whose reply a receipt already holds, whatever ran since. No transaction
  of the authority brings a grant back.
\<close>

theorem ended_grant_answers_nothing:
  assumes "map_of (sq_rows s Runtime_grant) (nativeKey [KText (rb_grantId (fst auth))]) = Some row" "grant_over (sr_value row) now"
  shows "isl (native_commit site auth command canonicalText routing parsed d now (native_run site later s))"
proof (rule ccontr)
  let ?s = "native_run site later s"
  assume "\<not> isl (native_commit site auth command canonicalText routing parsed d now ?s)"
  then obtain r t where "native_commit site auth command canonicalText routing parsed d now ?s = Inr (r, t)"
    by (cases "native_commit site auth command canonicalText routing parsed d now ?s") auto
  then obtain cap u where "native_authorize site auth command now ?s = Inr (cap, u)" using commit_cases by blast
  from authorize_cases [OF native_authorize_cases(1) [OF this]] obtain grant where "binding_grant site auth now ?s = Inr (grant, ?s)" by blast
  note grant = binding_grant_cases(2,3,4) [OF this]
  have "rows_of Runtime_grant ?s = rows_of Runtime_grant s"
    by (rule rtranclp_induct [OF run_steps]) (auto dest: grants_kept)
  with assms(1) grant(1,2) have "grant = sr_value row"
    by (auto simp: sql_read_def live_row_def row_read_def rbind_Inr_iff absent_read_def validRuntimeGrant_def nativeObject_def split: if_splits)
  with grant(3) assms(2) show False by (auto simp: current_grant_def grant_over_def)
qed

lemma native_demo_grant_over: "grant_over native_demo_grant 60"
  by code_simp

theorem ended_grant_answers_nothing_witness:
  "isl (native_commit native_demo_site native_demo_auth native_demo_command ''t'' None None (native_demo_draws ''v'') 60
     (native_run native_demo_site [Committing native_demo_auth native_demo_command ''t'' None None (native_demo_draws ''u'') 10] native_demo_authority))"
proof -
  have "map_of (sq_rows native_demo_authority Runtime_grant) (nativeKey [KText (rb_grantId (fst native_demo_auth))]) =
      Some \<lparr>sr_key = [KText ''g''], sr_value = native_demo_grant, sr_revision = 1, sr_expires_at_ms = None, sr_scope = None, sr_parent = None, sr_due = None\<rparr>"
    by (simp add: native_demo_authority_def native_demo_auth_def)
  from ended_grant_answers_nothing [OF this, of 60] native_demo_grant_over show ?thesis by simp
qed

section \<open>Families\<close>

text \<open>
  C39. A command writes the tables of its own family only: everything else in the store is as it was, apart from
  the receipt of the command and the capability of its binding. So a quota command cannot touch a paid ledger, and
  no command can touch a key policy, a grant or the configuration.
\<close>

theorem command_writes_own_tables:
  assumes "native_commit site auth command canonicalText routing parsed d now s = Inr (r, t)"
    and "T \<notin> method_tables (cm_method command)" "T \<noteq> Operation_receipt" "T \<noteq> Capability_table"
  shows "sq_rows t T = sq_rows s T"
  by (rule keepsD [OF frame_rows [OF commit_frame] assms(1)]) (use assms in simp)

theorem command_writes_own_tables_witness:
  "\<exists>r t. native_commit native_demo_site native_demo_auth native_demo_command ''t'' None None (native_demo_draws ''u'') 10 (native_run native_demo_site [] native_demo_authority) = Inr (r, t) \<and>
     sq_rows t Api_policy = sq_rows (native_run native_demo_site [] native_demo_authority) Api_policy"
proof -
  obtain r t q u where "native_commit native_demo_site native_demo_auth native_demo_command ''t'' None None (native_demo_draws ''u'') 10 (native_run native_demo_site [] native_demo_authority) = Inr (r, t)"
    by (rule native_demo_results)
  with command_writes_own_tables [OF this, of Api_policy] show ?thesis by (auto simp: native_demo_command_def)
qed

section \<open>Executions\<close>











end
