(* ===== verification/Spec2Isabelle.thy ===== *)
theory Spec2Isabelle
  imports Authority_Rpc Kernel_Edges Api_Guarantees Paid_Guarantees Codex_Dispatch Paid_History Native_History
begin

text \<open>
  A verification development for the authority of the AI gateway \<^verbatim>\<open>ai.ubq.fi\<close>.

  \<^bold>\<open>The program.\<close> The gateway accepts OpenAI-style requests, decides who pays for them and which
  upstream answers them. What may be spent is decided by its authority: code that runs inside one
  durable object, reads and writes rows transactionally and never talks to an upstream. The authority
  has two generations in the repository, and both are modelled.

  \<^item> The portable authority (\<^verbatim>\<open>src/src/authority/admission-state.ts\<close>): principals with policies
    and windows, admissions with attempts, subscription accounts with exhaustion proofs, paid attempts.
    Its whole state is one JSON document under a revision (\<^verbatim>\<open>durable-store.ts\<close>), clients retry a
    compare-and-swap, credentials are published beside it (\<^verbatim>\<open>credential-publication.ts\<close>), a
    delivery outbox follows it (\<^verbatim>\<open>delivery-outbox.ts\<close>) and \<^verbatim>\<open>authority-rpc.ts\<close> exposes it
    remotely.
  \<^item> The native authority (\<^verbatim>\<open>native-authority*.ts\<close>): tables of rows keyed by packed tuples
    (\<^verbatim>\<open>native-authority-sql.ts\<close>), with one family of commands per concern. Modelled are the
    kernel quotas (repository and organisation windows, reservations, policies), the API keys
    (usage windows, request rows, key administration), the paid ledger
    (\<^verbatim>\<open>native-paid.ts\<close>, \<^verbatim>\<open>native-authority-paid.ts\<close>), the selection of subscription accounts (\<^verbatim>\<open>native-codex.ts\<close>,
    \<^verbatim>\<open>native-codex-capacity.ts\<close>, \<^verbatim>\<open>native-codex-evaluation.ts\<close>), what an upstream's answer
    does to them and the transactions on them (\<^verbatim>\<open>native-authority-codex.ts\<close>, \<^verbatim>\<open>native-codex-429.ts\<close>, \<^verbatim>\<open>native-codex-mutations.ts\<close>). Decisions are pure functions
    (\<^verbatim>\<open>native-kernel.ts\<close>, \<^verbatim>\<open>native-api-key.ts\<close>, \<^verbatim>\<open>native-api-key-policy.ts\<close>,
    \<^verbatim>\<open>native-paid-policy.ts\<close>, \<^verbatim>\<open>api-keys.ts\<close>); the command classes read rows, ask a decision
    and write what it says.

  \<^bold>\<open>Theories.\<close>

  \<^item> Language: \<^verbatim>\<open>Gateway_Prelude\<close> (results that carry a thrown error, dictionaries, safe integers),
    \<^verbatim>\<open>Js_Value\<close> (values of unknown type and guards on them), \<^verbatim>\<open>Js_Text\<close>, \<^verbatim>\<open>Js_Number\<close> (decimal
    texts and binary64 rounding), \<^verbatim>\<open>Js_Rounding\<close> (the error of one rounding, quotients),
    \<^verbatim>\<open>Json_Text\<close>.
  \<^item> Interfaces: \<^verbatim>\<open>Share_Ledger\<close> has the locales \<open>share_ledger\<close> (aggregates that must equal what rows
    hold, interpreted for principal windows, kernel windows, API usage windows and paid windows) and \<open>machine\<close>
    (invariants of runs); \<^verbatim>\<open>Cas_Store\<close> has the contract of a store with compare-and-swap,
    interpreted on the durable store.
  \<^item> Portable authority: \<^verbatim>\<open>Authority_Contracts\<close> (\<^verbatim>\<open>contracts.ts\<close>), \<^verbatim>\<open>Admission_State\<close>
    (every transaction of \<^verbatim>\<open>PortableAuthority\<close>), \<^verbatim>\<open>Admission_Invariants\<close> and
    \<^verbatim>\<open>Admission_Steps\<close> (each transaction keeps the accounting), \<^verbatim>\<open>Credential_Publication\<close>,
    \<^verbatim>\<open>Authority_Runs\<close>, \<^verbatim>\<open>Authority_Quotas\<close> and \<^verbatim>\<open>Authority_History\<close> (what runs
    can and cannot do), \<^verbatim>\<open>Authority_Demo\<close> (a computed run that instantiates the theorems),
    \<^verbatim>\<open>Authority_Guarantees\<close>; \<^verbatim>\<open>Authority_Json\<close>, \<^verbatim>\<open>Durable_Store\<close> and
    \<^verbatim>\<open>Authority_Service\<close> (storage, retries, atomicity), \<^verbatim>\<open>Authority_Rpc\<close>.
  \<^item> Native rows: \<^verbatim>\<open>Native_Key\<close> (the packed keys are injective), \<^verbatim>\<open>Native_Sql\<close> (read, write,
    delete and page of \<^verbatim>\<open>NativeAuthoritySql\<close>).
  \<^item> Kernel quotas: \<^verbatim>\<open>Kernel_Quota\<close> (all decisions of \<^verbatim>\<open>native-kernel.ts\<close>), \<^verbatim>\<open>Kernel_Layout\<close>
    (records as stored objects), \<^verbatim>\<open>Native_Kernel\<close> (\<^verbatim>\<open>NativeAuthorityKernel\<close>), \<^verbatim>\<open>Kernel_Ledger\<close>
    (the abstract ledger and its steps), \<^verbatim>\<open>Kernel_Store\<close>, \<^verbatim>\<open>Kernel_Runs\<close> and \<^verbatim>\<open>Kernel_Policies\<close>
    (every command refines ledger steps), \<^verbatim>\<open>Kernel_Guarantees\<close>, \<^verbatim>\<open>Kernel_Reclaim\<close>,
    \<^verbatim>\<open>Kernel_Edges\<close>.
  \<^item> API keys: \<^verbatim>\<open>Api_Key_Fields\<close> (records, field rules, paid policy checks), \<^verbatim>\<open>Api_Usage\<close> (usage
    plans), \<^verbatim>\<open>Api_Key_Policy\<close> (key administration), \<^verbatim>\<open>Native_Api\<close> (\<^verbatim>\<open>NativeAuthorityApi\<close>),
    \<^verbatim>\<open>Usage_Ledger\<close> (the ledger of usage windows and rows under the plans),
    \<^verbatim>\<open>Api_Guarantees\<close>.
  \<^item> Paid ledger: \<^verbatim>\<open>Paid_Plans\<close> (all decisions of \<^verbatim>\<open>native-paid.ts\<close>: admission, lifecycle,
    release, deferral, settlement, usage rollups, backfill, leases), \<^verbatim>\<open>Paid_Ledger\<close> (the ledger of
    windows, request rows and pending markers under the plans), \<^verbatim>\<open>Paid_Guarantees\<close> (with the audit of
    \<^verbatim>\<open>src/src/cache/kv-migration-paid-fallback.ts\<close>); \<^verbatim>\<open>Paid_Rows\<close> (stored objects),
    \<^verbatim>\<open>Native_Paid\<close> (\<^verbatim>\<open>NativeAuthorityPaid\<close>: every transaction), \<^verbatim>\<open>Paid_Runs\<close> (what each
    transaction does to the table of attempts), \<^verbatim>\<open>Paid_History\<close>.
  \<^item> Subscription accounts: \<^verbatim>\<open>Codex_Contracts\<close> (rows and parsers), \<^verbatim>\<open>Codex_Capacity\<close> (normalization,
    circuits per quota class, capacity samples), \<^verbatim>\<open>Codex_Selection\<close> (evaluation of an account and the
    serial selection), \<^verbatim>\<open>Codex_Circuits\<close> and \<^verbatim>\<open>Codex_Cohort\<close> (their lemmas; the locale
    \<open>account_evaluator\<close> has what the selection needs of an evaluation and is interpreted on the
    source's), \<^verbatim>\<open>Codex_Guarantees\<close>; \<^verbatim>\<open>Codex_Mutations\<close> (circuits opened, probes elected, leases
    taken and released, banked resets consumed), \<^verbatim>\<open>Codex_Quota_Signals\<close> (the deadlines of a
    refusal and the class circuit it opens), \<^verbatim>\<open>Codex_Outcomes\<close>; \<^verbatim>\<open>Codex_Rows\<close> (stored objects
    and their readers), \<^verbatim>\<open>Native_Codex\<close> (\<^verbatim>\<open>NativeAuthorityCodex\<close>: every transaction),
    \<^verbatim>\<open>Codex_Storage\<close> (what is written is read back), \<^verbatim>\<open>Codex_Dispatch\<close> (a selection followed by
    the dispatch fence).
  \<^item> The native authority as a whole: \<^verbatim>\<open>Native_Rpc\<close> (guards, roles, canonical text and parsers of
    commands), \<^verbatim>\<open>Native_Runtime\<close> (\<^verbatim>\<open>NativeAuthorityRuntime\<close>: grants, capabilities, opening of
    requests, routing decisions, retained histories), \<^verbatim>\<open>Native_Authority\<close> (\<^verbatim>\<open>NativeAuthority\<close>: dispatch
    of every method to its family, receipts, whole executions), \<^verbatim>\<open>Native_Frames\<close> (which tables a method
    may write), \<^verbatim>\<open>Native_Receipts\<close> (interleaved histories; \<open>machine\<close> is interpreted on them),
    \<^verbatim>\<open>Native_History\<close>.

  \<^bold>\<open>How the model reads.\<close> A class that keeps state becomes functions on an explicit state; a thrown
  error is a value (\<open>Inl\<close>); a row read from storage is a JavaScript value until the source's guard
  has looked at it. Transactions of the native authority are functions of type \<open>'a native\<close>: from the
  rows to an error, which leaves the rows alone, or an answer and new rows. Counters and times are
  integers; where the source checks \<^verbatim>\<open>Number.isSafeInteger\<close> the model does, and where it divides or
  multiplies credits the result is rounded to binary64. Sums of times are exact, which they are in the
  source as long as they are safe integers. Texts are lists of 8-bit characters.

  \<^bold>\<open>Bounds.\<close> The only loops that are not structural are page loops and retries. A page loop has fuel one
  more than the rows of its table; \<^verbatim>\<open>Kernel_Reclaim\<close> proves that the kernel loop never runs out of
  it. The retry loop of the store has the eight attempts of the source.

  \<^bold>\<open>What is shown.\<close> For the portable authority: exact accounting of every counter, limits that hold in
  every reachable state, dispatch at most once, permanence of evidence, fencing of credentials, atomicity
  and refinement of the store, transparency of the remote interface. For the kernel quotas: exact
  accounting through all commands, limits, finality of settlement, bounds of counters, termination and
  selectivity of reclaim, success of settlement, and three edges where a row becomes unreadable. For the
  API keys: exact accounting and limits of usage windows, the window that contains the clock in spite of
  a rounded division, the window a reset opens, an edge where a reset selects the window in use, and the
  round trip of credits. For the paid ledger: windows that pass the audit, budgets that hold, pending
  markers that miss no open request, finality of billing, a started fetch that keeps its
  reservation, one reservation per billing identity, and an edge where a window miscounts a request
  admitted without a limit. For the subscription accounts: the active account
  moves only for a recorded and true cause, an admitted account is open and, once stored, passes the dispatch fence,
  the paid fallback opens only on evidence about every account, normalization is settled after one write
  and lets no account inherit the circuit of another, quota classes recover separately, an exhausted
  sample closes its account, a quota signal never shortens a cooldown, one probe is out at a time, and
  a banked reset is refused once its window has become ambiguous. For the native authority as a whole, over
  all interleavings: an operation runs once, a grant that has ended answers nothing, a command writes the
  tables of its own family only, and whole executions are histories of its transactions.

  \<^bold>\<open>Parameters.\<close> The verifiers that the constructor of the native authority takes, the clock and
  \<^verbatim>\<open>crypto.randomUUID()\<close> are arguments; nothing is assumed of them. The runtime is taken to be configured, and the
  row with the schema's version and epoch to be the one the constructor asserted. \<^verbatim>\<open>localeCompare\<close> is modelled on
  ASCII, and the time of a provider log is a whole number.

  \<^bold>\<open>Not modelled.\<close> In the native authority: the reading of a response body and the scan for repeated keys in
  \<^verbatim>\<open>native-codex-429.ts\<close> (a classification is an argument), the transactions that create, change and delete keys
  (\<^verbatim>\<open>native-authority-principals.ts\<close>; their decisions are modelled in \<^verbatim>\<open>Api_Key_Policy\<close>), the rows the constructors
  write, and the audit entries. Outside the authority: HTTP handlers, provider adapters, streaming translation,
  model catalogs, admin pages, telemetry, deployment tooling and static pages; they are input and output
  around the decisions verified here.
\<close>

end
